(* ===== verification/Py_Float.thy ===== *)
theory Py_Float
  imports Main "HOL-Library.Log_Nat"
begin

text \<open>
  Python floats are IEEE-754 binary64 numbers.  A finite float is a rational number, and every
  arithmetic operation on finite floats is the exact operation followed by rounding to the nearest
  binary64 number, ties to even.  This theory defines that rounding on \<^typ>\<open>rat\<close>, so that the
  lease and scheduling arithmetic of the control stores can be written with the same roundings the
  interpreter performs.  The one thing left out is overflow to infinity: the exponent range is
  unbounded above.
\<close>

type_synonym pyfloat = rat

section \<open>Rounding to binary64\<close>

definition rne :: "rat \<Rightarrow> int" where
  "rne y = (let f = \<lfloor>y\<rfloor>; d = y - of_int f in
     if d < 1 / 2 then f else if 1 / 2 < d then f + 1 else if even f then f else f + 1)"

definition fexp :: "rat \<Rightarrow> int" where
  "fexp x = (let (p, q) = quotient_of \<bar>x\<bar>; e = bitlen p - bitlen q in
     if \<bar>x\<bar> < 2 powi e then e - 1 else e)"

definition ulp_exp :: "rat \<Rightarrow> int" where
  "ulp_exp x = max (fexp x - 52) (- 1074)"

definition fround :: "rat \<Rightarrow> rat" where
  "fround x = (if x = 0 then 0 else of_int (rne (x / 2 powi ulp_exp x)) * 2 powi ulp_exp x)"

definition is_f64 :: "rat \<Rightarrow> bool" where
  "is_f64 x \<longleftrightarrow> fround x = x"

definition fadd :: "pyfloat \<Rightarrow> pyfloat \<Rightarrow> pyfloat" where
  "fadd x y = fround (x + y)"

definition fmul :: "pyfloat \<Rightarrow> pyfloat \<Rightarrow> pyfloat" where
  "fmul x y = fround (x * y)"

definition fdiv :: "pyfloat \<Rightarrow> pyfloat \<Rightarrow> pyfloat" where
  "fdiv x y = fround (x / y)"

lemma rne_bounds: "\<lfloor>y\<rfloor> \<le> rne y" "rne y \<le> \<lceil>y\<rceil>"
  unfolding rne_def Let_def by (auto, linarith+)

lemma rne_of_int [simp]: "rne (of_int k) = k"
  by (simp add: rne_def)

lemma rne_mono: "x \<le> y \<Longrightarrow> rne x \<le> rne y"
proof -
  assume le: "x \<le> y"
  show ?thesis
  proof (cases "\<lfloor>x\<rfloor> = \<lfloor>y\<rfloor>")
    case True
    with le show ?thesis unfolding rne_def Let_def by auto
  next
    case False
    with le have "\<lfloor>x\<rfloor> + 1 \<le> \<lfloor>y\<rfloor>" using floor_mono [OF le] by linarith
    moreover have "rne x \<le> \<lfloor>x\<rfloor> + 1" unfolding rne_def Let_def by auto
    ultimately show ?thesis using rne_bounds(1) [of y] by linarith
  qed
qed

lemma rne_minus: "rne (- y) = - rne y"
proof (cases "y = of_int \<lfloor>y\<rfloor>")
  case True
  then have "- y = of_int (- \<lfloor>y\<rfloor>)" by simp
  then show ?thesis by (metis True rne_of_int)
next
  case False
  then have f: "\<lfloor>- y\<rfloor> = - \<lfloor>y\<rfloor> - 1" by linarith
  show ?thesis unfolding rne_def Let_def f by auto
qed

lemma bitlen_sandwich:
  assumes "0 < (p::int)"
  shows "2 powi (bitlen p - 1) \<le> (of_int p :: rat)" "(of_int p :: rat) < 2 powi bitlen p"
proof -
  have b: "2 ^ nat (bitlen p - 1) \<le> p" "p < 2 ^ nat (bitlen p)"
    using bitlen_bounds [OF assms] by auto
  have g: "0 < bitlen p" using assms bitlen_nonneg [of p] bitlen_eq_zero_iff [of p] by linarith
  have "(2::rat) powi (bitlen p - 1) = of_int (2 ^ nat (bitlen p - 1))"
    using g by (simp add: power_int_def)
  also have "\<dots> \<le> of_int p" using b(1) by (simp only: of_int_le_iff)
  finally show "2 powi (bitlen p - 1) \<le> (of_int p :: rat)" .
  have "(of_int p :: rat) < of_int (2 ^ nat (bitlen p))" using b(2) by (simp only: of_int_less_iff)
  also have "\<dots> = 2 powi bitlen p" using g by (simp add: power_int_def)
  finally show "(of_int p :: rat) < 2 powi bitlen p" .
qed

lemma fexp_bounds:
  assumes "x \<noteq> 0"
  shows "2 powi fexp x \<le> \<bar>x\<bar>" "\<bar>x\<bar> < 2 powi (fexp x + 1)"
proof -
  obtain p q where pq: "quotient_of \<bar>x\<bar> = (p, q)" by (cases "quotient_of \<bar>x\<bar>")
  have q0: "0 < q" using quotient_of_denom_pos [OF pq] .
  have xd: "\<bar>x\<bar> = of_int p / of_int q" using quotient_of_div [OF pq] .
  have p0: "0 < p" using xd assms q0
    by (metis abs_ge_zero divide_eq_0_iff divide_less_0_iff linorder_neqE_linordered_idom
        not_le of_int_0 of_int_0_less_iff of_int_less_0_iff zero_less_abs_iff)
  let ?e = "bitlen p - bitlen q"
  have q0': "(0::rat) < of_int q" using q0 by simp
  have up: "\<bar>x\<bar> < 2 powi (?e + 1)"
  proof -
    have "of_int p < (2::rat) powi bitlen p" by (rule bitlen_sandwich(2) [OF p0])
    also have "\<dots> = 2 powi (?e + 1) * 2 powi (bitlen q - 1)"
      by (subst power_int_add [symmetric]) auto
    also have "\<dots> \<le> 2 powi (?e + 1) * of_int q"
      using bitlen_sandwich(1) [OF q0] by (intro mult_left_mono) auto
    finally show ?thesis unfolding xd using q0' by (simp add: pos_divide_less_eq)
  qed
  have lo: "2 powi (?e - 1) \<le> \<bar>x\<bar>"
  proof -
    have "2 powi (?e - 1) * of_int q \<le> 2 powi (?e - 1) * (2::rat) powi bitlen q"
      using bitlen_sandwich(2) [OF q0] by (intro mult_left_mono) auto
    also have "\<dots> = 2 powi (bitlen p - 1)"
      by (subst power_int_add [symmetric]) auto
    also have "\<dots> \<le> of_int p" by (rule bitlen_sandwich(1) [OF p0])
    finally show ?thesis unfolding xd using q0' by (simp add: pos_le_divide_eq)
  qed
  have fe: "fexp x = (if \<bar>x\<bar> < 2 powi ?e then ?e - 1 else ?e)"
    by (simp add: fexp_def pq Let_def)
  show "2 powi fexp x \<le> \<bar>x\<bar>" "\<bar>x\<bar> < 2 powi (fexp x + 1)"
    using up lo by (auto simp: fe)
qed


section \<open>Laws of the rounding\<close>

lemma fround_0 [simp]: "fround 0 = 0"
  by (simp add: fround_def)

lemma fexp_minus [simp]: "fexp (- x) = fexp x"
  by (simp add: fexp_def)

lemma ulp_exp_minus [simp]: "ulp_exp (- x) = ulp_exp x"
  by (simp add: ulp_exp_def)

lemma fround_minus: "fround (- x) = - fround x"
  by (auto simp: fround_def rne_minus)

lemma fround_nonneg: "0 \<le> x \<Longrightarrow> 0 \<le> fround x"
proof -
  assume "0 \<le> x"
  then have "rne 0 \<le> rne (x / 2 powi ulp_exp x)"
    by (intro rne_mono) simp
  then show ?thesis using rne_of_int [of 0] by (simp add: fround_def)
qed

lemma fexp_mono:
  assumes "0 < x" "x \<le> y"
  shows "fexp x \<le> fexp y"
proof (rule ccontr)
  assume "\<not> fexp x \<le> fexp y"
  then have "(2::rat) powi (fexp y + 1) \<le> 2 powi fexp x"
    by (intro power_int_increasing) auto
  with fexp_bounds(2) [of y] fexp_bounds(1) [of x] assms show False by auto
qed

lemma fround_le_step:
  assumes "0 < x" "ulp_exp x < ulp_exp y" "0 < y"
  shows "fround x \<le> 2 powi (ulp_exp x + 53)" "2 powi (ulp_exp y + 52) \<le> fround y"
proof -
  have "x < 2 powi (fexp x + 1)" using fexp_bounds(2) [of x] assms(1) by simp
  also have "\<dots> \<le> 2 powi (ulp_exp x + 53)"
    by (intro power_int_increasing) (auto simp: ulp_exp_def)
  also have "\<dots> = 2 powi 53 * 2 powi ulp_exp x"
    by (subst power_int_add [symmetric]) (auto simp: add.commute)
  finally have "x / 2 powi ulp_exp x \<le> of_int (2 ^ 53)"
    by (simp add: pos_divide_le_eq)
  from rne_mono [OF this] have "rne (x / 2 powi ulp_exp x) \<le> 2 ^ 53"
    by (simp only: rne_of_int)
  then have "(of_int (rne (x / 2 powi ulp_exp x)) :: rat) \<le> of_int (2 ^ 53)"
    by (simp only: of_int_le_iff)
  then have "of_int (rne (x / 2 powi ulp_exp x)) * 2 powi ulp_exp x \<le> of_int (2 ^ 53) * (2::rat) powi ulp_exp x"
    by (intro mult_right_mono) auto
  also have "\<dots> = 2 powi (ulp_exp x + 53)"
    by (subst power_int_add) auto
  finally show "fround x \<le> 2 powi (ulp_exp x + 53)" using assms(1) by (simp add: fround_def)
  have u: "ulp_exp y = fexp y - 52" using assms(2) by (auto simp: ulp_exp_def)
  have "of_int (2 ^ 52) * 2 powi ulp_exp y = (2::rat) powi fexp y"
    unfolding u by (subst power_int_diff) (auto simp: field_simps)
  also have "\<dots> \<le> y" using fexp_bounds(1) [of y] assms(3) by simp
  finally have "of_int (2 ^ 52) \<le> y / 2 powi ulp_exp y"
    by (simp add: pos_le_divide_eq)
  from rne_mono [OF this] have "2 ^ 52 \<le> rne (y / 2 powi ulp_exp y)"
    by (simp only: rne_of_int)
  then have "(of_int (2 ^ 52) :: rat) \<le> of_int (rne (y / 2 powi ulp_exp y))"
    by (simp only: of_int_le_iff)
  then have "of_int (2 ^ 52) * (2::rat) powi ulp_exp y \<le> of_int (rne (y / 2 powi ulp_exp y)) * 2 powi ulp_exp y"
    by (intro mult_right_mono) auto
  moreover have "of_int (2 ^ 52) * (2::rat) powi ulp_exp y = 2 powi (ulp_exp y + 52)"
    by (subst power_int_add) auto
  ultimately have "(2::rat) powi (ulp_exp y + 52) \<le> of_int (rne (y / 2 powi ulp_exp y)) * 2 powi ulp_exp y"
    by (simp only:)
  then show "2 powi (ulp_exp y + 52) \<le> fround y" using assms(3) by (simp add: fround_def)
qed

lemma fround_mono_pos:
  assumes "0 < x" "x \<le> y"
  shows "fround x \<le> fround y"
proof (cases "ulp_exp x = ulp_exp y")
  case True
  have "rne (x / 2 powi ulp_exp y) \<le> rne (y / 2 powi ulp_exp y)"
    using assms by (intro rne_mono divide_right_mono) auto
  then show ?thesis using assms True by (simp add: fround_def)
next
  case False
  then have u: "ulp_exp x < ulp_exp y"
    using fexp_mono [OF assms] by (auto simp: ulp_exp_def)
  have "fround x \<le> 2 powi (ulp_exp x + 53)" using fround_le_step [of x y] assms u by simp
  also have "\<dots> \<le> 2 powi (ulp_exp y + 52)" using u by (intro power_int_increasing) auto
  also have "\<dots> \<le> fround y" using fround_le_step [of x y] assms u by simp
  finally show ?thesis .
qed

text \<open>Rounding is monotone, so comparisons of sums survive it (in the weak form).\<close>

lemma fround_mono: "x \<le> y \<Longrightarrow> fround x \<le> fround y"
proof -
  assume le: "x \<le> y"
  consider "0 < x" | "x \<le> 0" "0 \<le> y" | "y < 0" by linarith
  then show ?thesis
  proof cases
    case 1
    then show ?thesis using le by (rule fround_mono_pos)
  next
    case 2
    have "0 \<le> fround (- x)" using 2 by (intro fround_nonneg) simp
    then have "fround x \<le> 0" by (simp add: fround_minus)
    also have "0 \<le> fround y" using 2 by (intro fround_nonneg) simp
    finally show ?thesis .
  next
    case 3
    have "fround (- y) \<le> fround (- x)" using 3 le by (intro fround_mono_pos) auto
    then show ?thesis by (simp add: fround_minus)
  qed
qed

lemma fround_scaled:
  assumes "\<bar>k\<bar> < 2 ^ 53" "- 1074 \<le> e"
  shows "fround (of_int k * 2 powi e) = of_int k * 2 powi e"
proof (cases "k = 0")
  case False
  let ?x = "of_int k * (2::rat) powi e"
  have "2 powi fexp ?x \<le> \<bar>?x\<bar>" using False by (intro fexp_bounds) simp
  also have "\<dots> < of_int (2 ^ 53) * 2 powi e"
  proof -
    have "(of_int \<bar>k\<bar> :: rat) < of_int (2 ^ 53)" using assms(1) by (simp only: of_int_less_iff)
    then show ?thesis by (simp add: abs_mult)
  qed
  also have "\<dots> = 2 powi (e + 53)" by (subst power_int_add) auto
  finally have "fexp ?x < e + 53"
    by (metis linorder_not_less one_le_numeral power_int_increasing)
  then have u: "ulp_exp ?x \<le> e" using assms(2) by (auto simp: ulp_exp_def)
  have "?x / 2 powi ulp_exp ?x = of_int (k * 2 ^ nat (e - ulp_exp ?x))"
  proof -
    have "?x / 2 powi ulp_exp ?x = of_int k * 2 powi (e - ulp_exp ?x)"
      by (simp add: power_int_diff)
    also have "\<dots> = of_int (k * 2 ^ nat (e - ulp_exp ?x))" using u by (simp add: power_int_def)
    finally show ?thesis .
  qed
  then show ?thesis
    by (simp add: fround_def del: of_int_mult) (metis divide_eq_eq power_int_eq_0_iff zero_neq_numeral)
qed simp

lemma fround_of_int: "\<bar>k\<bar> < 2 ^ 53 \<Longrightarrow> fround (of_int k) = of_int k"
  using fround_scaled [of k 0] by simp

lemma fround_numeral: "(numeral n :: int) < 2 ^ 53 \<Longrightarrow> fround (numeral n) = numeral n"
  using fround_of_int [of "numeral n"] by simp

lemma fround_one: "fround 1 = 1"
  using fround_of_int [of 1] by simp

lemmas fround_eval = fround_numeral fround_one fround_0

text \<open>A positive addend never moves a float below where it was.\<close>

lemma fadd_ge_left: "is_f64 x \<Longrightarrow> 0 \<le> y \<Longrightarrow> x \<le> fadd x y"
  using fround_mono [of x "x + y"] by (simp add: fadd_def is_f64_def)

lemma fadd_ge_right: "is_f64 y \<Longrightarrow> 0 \<le> x \<Longrightarrow> y \<le> fadd x y"
  using fround_mono [of y "x + y"] by (simp add: fadd_def is_f64_def)

lemma fadd_mono: "x \<le> x' \<Longrightarrow> y \<le> y' \<Longrightarrow> fadd x y \<le> fadd x' y'"
  by (simp add: fadd_def fround_mono add_mono)

lemma fadd_nonneg: "0 \<le> x \<Longrightarrow> 0 \<le> y \<Longrightarrow> 0 \<le> fadd x y"
  by (simp add: fadd_def fround_nonneg)

text \<open>Rounding yields a float.\<close>

lemma rne_scaled_bound:
  assumes "x \<noteq> 0"
  shows "\<bar>rne (x / 2 powi ulp_exp x)\<bar> \<le> 2 ^ 53"
proof -
  have "\<bar>x\<bar> < 2 powi (fexp x + 1)" using fexp_bounds(2) [of x] assms by simp
  also have "\<dots> \<le> 2 powi (53 + ulp_exp x)" by (intro power_int_increasing) (auto simp: ulp_exp_def)
  also have "\<dots> = 2 powi 53 * 2 powi ulp_exp x" by (subst power_int_add) auto
  finally have "\<bar>x / 2 powi ulp_exp x\<bar> \<le> of_int (2 ^ 53)" by (simp add: abs_div pos_divide_le_eq)
  then have "x / 2 powi ulp_exp x \<le> of_int (2 ^ 53)" "of_int (- (2 ^ 53)) \<le> x / 2 powi ulp_exp x"
    unfolding of_int_minus by linarith+
  then have "rne (x / 2 powi ulp_exp x) \<le> 2 ^ 53" "- (2 ^ 53) \<le> rne (x / 2 powi ulp_exp x)"
    using rne_mono [of "x / 2 powi ulp_exp x" "of_int (2 ^ 53)"] rne_mono [of "of_int (- (2 ^ 53))" "x / 2 powi ulp_exp x"]
    by (simp_all only: rne_of_int)
  then show ?thesis by linarith
qed

lemma fround_is_f64 [simp]: "is_f64 (fround x)"
proof (cases "x = 0")
  case False
  let ?k = "rne (x / 2 powi ulp_exp x)" and ?e = "ulp_exp x"
  have e: "- 1074 \<le> ?e" by (simp add: ulp_exp_def)
  have fx: "fround x = of_int ?k * 2 powi ?e" using False by (simp add: fround_def)
  consider "\<bar>?k\<bar> < 2 ^ 53" | "\<bar>?k\<bar> = 2 ^ 53" using rne_scaled_bound [OF False] by linarith
  then show ?thesis
  proof cases
    case 1
    then show ?thesis unfolding is_f64_def fx by (rule fround_scaled) (rule e)
  next
    case 2
    then have k: "?k = sgn ?k * 2 ^ 53" by (simp add: sgn_if abs_if split: if_splits)
    have "of_int ?k * (2::rat) powi ?e = of_int (sgn ?k) * (2 powi 53 * 2 powi ?e)"
      by (subst k) simp
    also have "\<dots> = of_int (sgn ?k) * 2 powi (53 + ?e)" by (subst power_int_add) auto
    finally have "fround x = of_int (sgn ?k) * 2 powi (53 + ?e)" by (simp only: fx)
    moreover have "fround (of_int (sgn ?k) * 2 powi (53 + ?e)) = of_int (sgn ?k) * 2 powi (53 + ?e)"
      using e by (intro fround_scaled) (auto simp: sgn_if)
    ultimately show ?thesis by (simp add: is_f64_def)
  qed
qed (simp add: is_f64_def)

lemma fadd_is_f64 [simp]: "is_f64 (fadd x y)"
  by (simp add: fadd_def)
end
