(* ===== verification/Py_Prelude.thy ===== *)
theory Py_Prelude
  imports
    Main
    "HOL-Library.List_Lexorder"
    "HOL-Library.Char_ord"
    "HOL-Library.Product_Lexorder"
    "HOL-Library.Option_ord"
    Py_Float
begin

text \<open>
  Shared vocabulary of the development: exceptions as values (\<open>res\<close>, \<open>bindE\<close>, \<open>mapE\<close>,
  \<open>foldE\<close>), Python values whose type is only checked at run time (\<open>pyval\<close>), dictionaries as
  association lists, and SQL tables as lists of rows (\<open>update_where\<close>, \<open>rowcount\<close>,
  \<open>left_join\<close>).  The lemmas are the ones every component theory uses.
\<close>

section \<open>Exceptions as values\<close>

text \<open>One constructor per exception class the modelled code raises; messages are left out.
  \<open>ExternalError\<close> is an exception raised by a callback or by a library, with its class name.\<close>

datatype err =
    ValueError | KeyError | TypeError | AttributeError | FileNotFoundError
  | ControlError | ImmutableConflictError | LeaseBudgetError | LeaseLostError
  | BatchValidationError | IntegrityError
  | ContentHashMismatchError | ImmutableContentConflictError
  | QueueConflictError | MessageNotFoundError | QueueLeaseLostError
  | RuntimeError | TimeoutError | ControlLockError
  | ActorClosedError | ActorDiedError | InvalidStateError | StagingValidationError
  | ProcessValidationError | LeaseAdmissionError | StagingConflictError | ExecutorInventoryError
  | ZeroDivisionError | IndexError | StopIteration
  | ExternalError string

type_synonym 'a res = "err + 'a"

definition bindE :: "'a res \<Rightarrow> ('a \<Rightarrow> 'b res) \<Rightarrow> 'b res" where
  "bindE m f = (case m of Inl e \<Rightarrow> Inl e | Inr x \<Rightarrow> f x)"

text \<open>A comprehension or a loop whose body may raise.\<close>

fun mapE :: "('a \<Rightarrow> 'b res) \<Rightarrow> 'a list \<Rightarrow> 'b list res" where
  "mapE f [] = Inr []"
| "mapE f (x # xs) = bindE (f x) (\<lambda>y. bindE (mapE f xs) (\<lambda>ys. Inr (y # ys)))"

fun foldE :: "('a \<Rightarrow> 's \<Rightarrow> 's res) \<Rightarrow> 'a list \<Rightarrow> 's \<Rightarrow> 's res" where
  "foldE f [] s = Inr s"
| "foldE f (x # xs) s = bindE (f x s) (foldE f xs)"

section \<open>Python values\<close>

text \<open>
  The values that cross the program's interfaces before their type is checked.  Text is a sequence
  of code points below 256 (the range of \<^typ>\<open>char\<close>); \<open>PFloat\<close> is a finite float and
  \<open>PNonFinite\<close> an infinity or NaN, with its JSON spelling.
\<close>

datatype pyval =
    PNone | PBool bool | PInt int | PFloat pyfloat | PNonFinite string
  | PStr string | PList "pyval list" | PDict "(string \<times> pyval) list"

text \<open>\<open>mapping.get(key, default)\<close>\<close>

definition dget :: "(string \<times> 'v) list \<Rightarrow> string \<Rightarrow> 'v \<Rightarrow> 'v" where
  "dget d k v = (case map_of d k of None \<Rightarrow> v | Some x \<Rightarrow> x)"

text \<open>\<open>d[k] = v\<close>: a present key keeps its position, a new one goes to the end.\<close>

fun dset :: "'k \<Rightarrow> 'v \<Rightarrow> ('k \<times> 'v) list \<Rightarrow> ('k \<times> 'v) list" where
  "dset k v [] = [(k, v)]"
| "dset k v ((k', v') # d) = (if k' = k then (k, v) # d else (k', v') # dset k v d)"

text \<open>\<open>value == n\<close> for an integer \<open>n\<close>: an equal float or boolean is equal too.\<close>

definition py_eq_int :: "pyval \<Rightarrow> int \<Rightarrow> bool" where
  "py_eq_int v n = (case v of PInt i \<Rightarrow> i = n | PFloat x \<Rightarrow> x = of_int n
     | PBool b \<Rightarrow> (if b then 1 else 0) = n | _ \<Rightarrow> False)"

definition py_space :: "char \<Rightarrow> bool" where
  "py_space c \<longleftrightarrow> (let n = of_char c :: nat in
     (9 \<le> n \<and> n \<le> 13) \<or> (28 \<le> n \<and> n \<le> 32) \<or> n = 133 \<or> n = 160)"

definition py_strip :: "string \<Rightarrow> string" where
  "py_strip s = rev (dropWhile py_space (rev (dropWhile py_space s)))"

section \<open>SQL tables\<close>

text \<open>\<open>UPDATE t SET ... WHERE p\<close> and the cursor's \<open>rowcount\<close>.\<close>

definition update_where :: "('r \<Rightarrow> bool) \<Rightarrow> ('r \<Rightarrow> 'r) \<Rightarrow> 'r list \<Rightarrow> 'r list" where
  "update_where p f t = map (\<lambda>r. if p r then f r else r) t"

definition rowcount :: "('r \<Rightarrow> bool) \<Rightarrow> 'r list \<Rightarrow> nat" where
  "rowcount p t = length (filter p t)"

definition left_join :: "('a \<Rightarrow> 'b \<Rightarrow> bool) \<Rightarrow> 'a list \<Rightarrow> 'b list \<Rightarrow> ('a \<times> 'b option) list" where
  "left_join on xs ys = concat (map (\<lambda>x. case filter (on x) ys of
      [] \<Rightarrow> [(x, None)] | ms \<Rightarrow> map (\<lambda>y. (x, Some y)) ms) xs)"

definition inner_join :: "('a \<Rightarrow> 'b \<Rightarrow> bool) \<Rightarrow> 'a list \<Rightarrow> 'b list \<Rightarrow> ('a \<times> 'b) list" where
  "inner_join on xs ys = concat (map (\<lambda>x. map (Pair x) (filter (on x) ys)) xs)"

section \<open>Lemmas on results\<close>

lemma bindE_Inr [simp]: "bindE (Inr x) f = f x"
  and bindE_Inl [simp]: "bindE (Inl e) f = Inl e"
  by (simp_all add: bindE_def)

lemma bindE_eq_Inr [simp]: "bindE m f = Inr y \<longleftrightarrow> (\<exists>x. m = Inr x \<and> f x = Inr y)"
  by (cases m) auto

lemma bindE_eq_Inl: "bindE m f = Inl e \<longleftrightarrow> m = Inl e \<or> (\<exists>x. m = Inr x \<and> f x = Inl e)"
  by (cases m) auto

lemma bindE_assoc: "bindE (bindE m f) g = bindE m (\<lambda>x. bindE (f x) g)"
  by (cases m) auto

lemma if_Inl_eq_Inr [simp]:
  "(if c then Inl e else m) = Inr y \<longleftrightarrow> \<not> c \<and> m = Inr y"
  "(if c then m else Inl e) = Inr y \<longleftrightarrow> c \<and> m = Inr y"
  by auto

lemma mapE_Inr_iff: "mapE f xs = Inr ys \<longleftrightarrow> list_all2 (\<lambda>x y. f x = Inr y) xs ys"
  by (induction xs arbitrary: ys) (auto simp: list_all2_Cons1)

lemma mapE_mem: "mapE f xs = Inr ys \<Longrightarrow> y \<in> set ys \<Longrightarrow> \<exists>x \<in> set xs. f x = Inr y"
  by (induction xs arbitrary: ys) auto

lemma mapE_image: "mapE f xs = Inr ys \<Longrightarrow> x \<in> set xs \<Longrightarrow> \<exists>y \<in> set ys. f x = Inr y"
  by (induction xs arbitrary: ys) auto

lemma mapE_Inr_map: "(\<And>x. x \<in> set xs \<Longrightarrow> f x = Inr (g x)) \<Longrightarrow> mapE f xs = Inr (map g xs)"
  by (induction xs) auto

lemma foldE_append: "foldE f (xs @ ys) s = bindE (foldE f xs s) (foldE f ys)"
  by (induction xs arbitrary: s) (auto simp: bindE_def split: sum.splits)

lemma foldE_invariant:
  assumes "foldE f xs s = Inr t" "P s"
    and "\<And>x s t. x \<in> set xs \<Longrightarrow> P s \<Longrightarrow> f x s = Inr t \<Longrightarrow> P t"
  shows "P t"
  using assms by (induction xs arbitrary: s) auto

section \<open>Lemmas on dictionaries and tables\<close>

lemma dset_set: "distinct (map fst d) \<Longrightarrow>
    set (dset k v d) = insert (k, v) {p \<in> set d. fst p \<noteq> k}"
  by (induction d) (force split: if_splits)+

lemma dset_keys: "fst ` set (dset k v d) = insert k (fst ` set d)"
  by (induction d) (force split: if_splits)+

lemma dset_distinct: "distinct (map fst d) \<Longrightarrow> distinct (map fst (dset k v d))"
  by (induction d) (auto simp: dset_keys)

lemma map_of_dset: "map_of (dset k v d) = (map_of d)(k \<mapsto> v)"
  by (induction d) auto

lemma set_update_where: "set (update_where p f t) = {r \<in> set t. \<not> p r} \<union> f ` {r \<in> set t. p r}"
  by (auto simp: update_where_def)

lemma update_where_key:
  assumes "\<And>r. r \<in> set t \<Longrightarrow> p r \<Longrightarrow> k (f r) = k r"
  shows "map k (update_where p f t) = map k t"
  using assms by (auto simp: update_where_def)

lemma length_update_where [simp]: "length (update_where p f t) = length t"
  by (simp add: update_where_def)

lemma update_where_False [simp]: "update_where (\<lambda>_. False) f t = t"
  by (simp add: update_where_def)

lemma update_where_none: "(\<And>r. r \<in> set t \<Longrightarrow> \<not> p r) \<Longrightarrow> update_where p f t = t"
  by (simp add: update_where_def map_idI)

lemma update_where_compose:
  assumes "\<And>r. r \<in> set t \<Longrightarrow> p r \<Longrightarrow> q (f r) = (q r \<and> s r)"
  shows "update_where q g (update_where p f t) =
    map (\<lambda>r. let r' = (if p r then f r else r) in if q r' then g r' else r') t"
  by (simp add: update_where_def Let_def)

lemma distinct_keyD: "distinct (map k t) \<Longrightarrow> r \<in> set t \<Longrightarrow> r' \<in> set t \<Longrightarrow> k r = k r' \<Longrightarrow> r = r'"
  by (metis distinct_map inj_onD)

lemma filter_key_singleton:
  assumes "distinct (map k t)" "r \<in> set t"
  shows "filter (\<lambda>x. k x = k r) t = [r]"
  using assms
proof (induction t)
  case (Cons a t)
  show ?case
  proof (cases "a = r")
    case True
    with Cons.prems have "k r \<notin> k ` set t" by auto
    then have "filter (\<lambda>x. k x = k r) t = []" by (auto simp: filter_empty_conv image_iff)
    with True show ?thesis by simp
  next
    case False
    with Cons.prems have "k a \<noteq> k r" by (metis distinct_keyD list.set_intros(1))
    with False Cons show ?thesis by simp
  qed
qed simp

lemma rowcount_1_key:
  assumes "distinct (map k t)" "\<And>r. p r \<Longrightarrow> k r = x"
  shows "rowcount p t = 1 \<longleftrightarrow> (\<exists>r \<in> set t. p r)"
proof
  assume "rowcount p t = 1"
  then obtain r where "filter p t = [r]"
    by (auto simp: rowcount_def length_Suc_conv)
  then have "r \<in> set (filter p t)" by simp
  then show "\<exists>r \<in> set t. p r" by auto
next
  assume "\<exists>r \<in> set t. p r"
  then obtain r where r: "r \<in> set t" "p r" by auto
  have "filter p t = filter p (filter (\<lambda>y. k y = k r) t)"
    using assms(2) r(2) by (auto simp: filter_filter intro: filter_cong)
  also have "\<dots> = [r]" using filter_key_singleton [OF assms(1) r(1)] r(2) by simp
  finally show "rowcount p t = 1" by (simp add: rowcount_def)
qed

lemma find_Some_key:
  assumes "distinct (map k t)" "r \<in> set t"
  shows "find (\<lambda>x. k x = k r) t = Some r"
  using assms by (induction t) (auto simp: image_iff)

lemma find_SomeD: "find p t = Some r \<Longrightarrow> r \<in> set t \<and> p r"
  by (induction t) (auto split: if_splits)

lemma find_NoneD: "find p t = None \<Longrightarrow> r \<in> set t \<Longrightarrow> \<not> p r"
  by (induction t) (auto split: if_splits)

lemma find_update_where:
  assumes "\<And>x. x \<in> set t \<Longrightarrow> p x \<Longrightarrow> q (f x) = q x"
  shows "find q (update_where p f t) = map_option (\<lambda>r. if p r then f r else r) (find q t)"
  using assms by (induction t) (auto simp: update_where_def)

lemma find_fresh: "x \<notin> k ` set t \<Longrightarrow> find (\<lambda>r. k r = x) t = None"
  by (induction t) auto

lemma find_append: "find q (t @ t') = (case find q t of None \<Rightarrow> find q t' | Some r \<Rightarrow> Some r)"
  by (induction t) auto

lemma set_left_join: "set (left_join on xs ys) =
    {(x, Some y) |x y. x \<in> set xs \<and> y \<in> set ys \<and> on x y} \<union>
    {(x, None) |x. x \<in> set xs \<and> (\<forall>y \<in> set ys. \<not> on x y)}"
proof -
  have "set (case filter (on x) ys of [] \<Rightarrow> [(x, None)] | m # ms \<Rightarrow> map (\<lambda>y. (x, Some y)) (m # ms)) =
      {(x, Some y) |y. y \<in> set ys \<and> on x y} \<union> {(x, None) |_::unit. \<forall>y \<in> set ys. \<not> on x y}" for x
  proof (cases "filter (on x) ys")
    case Nil
    then show ?thesis by (auto simp: filter_empty_conv)
  next
    case (Cons m ms)
    then have s: "set (m # ms) = {y \<in> set ys. on x y}" by (metis set_filter)
    show ?thesis unfolding Cons list.case set_map s using s by auto
  qed
  then show ?thesis unfolding left_join_def by (auto simp: set_concat)
qed

lemma set_inner_join: "set (inner_join on xs ys) = {(x, y). x \<in> set xs \<and> y \<in> set ys \<and> on x y}"
  by (auto simp: inner_join_def)

end
