(* ===== verification/Py_Json.thy ===== *)
theory Py_Json
  imports Py_Prelude
begin

text \<open>
  The part of Python's standard library the stores rely on for identities: \<open>json.dumps\<close> with
  \<open>ensure_ascii=True, separators=(",", ":"), sort_keys=True\<close>, written out, and the rest as a
  record of parameters \<open>pylib\<close>: SHA-256 of a text's UTF-8 bytes in hexadecimal, the shortest
  decimal \<open>repr\<close> of a float, and \<open>json.loads\<close>.  What a theorem needs of a parameter is a
  hypothesis of that theorem.
\<close>

record pylib =
  sha256_hex :: "string \<Rightarrow> string"
  float_repr :: "pyfloat \<Rightarrow> string"
  json_loads :: "string \<Rightarrow> pyval option"

section \<open>json.dumps\<close>

fun nat_dec :: "nat \<Rightarrow> string" where
  "nat_dec n = (if n < 10 then [char_of (48 + n)] else nat_dec (n div 10) @ [char_of (48 + n mod 10)])"

declare nat_dec.simps [simp del]

definition int_dec :: "int \<Rightarrow> string" where
  "int_dec i = (if i < 0 then CHR ''-'' # nat_dec (nat (- i)) else nat_dec (nat i))"

definition hex_digit :: "nat \<Rightarrow> char" where
  "hex_digit n = (if n < 10 then char_of (48 + n) else char_of (87 + n))"

definition esc_char :: "char \<Rightarrow> string" where
  "esc_char c = (let n = of_char c :: nat in
     if n = 34 then [CHR 0x5C, CHR 0x22] else if n = 92 then [CHR 0x5C, CHR 0x5C]
     else if n = 10 then [CHR 0x5C, CHR ''n''] else if n = 13 then [CHR 0x5C, CHR ''r'']
     else if n = 9 then [CHR 0x5C, CHR ''t''] else if n = 12 then [CHR 0x5C, CHR ''f'']
     else if n = 8 then [CHR 0x5C, CHR ''b''] else if 32 \<le> n \<and> n \<le> 126 then [c]
     else [CHR 0x5C, CHR ''u'', CHR ''0'', CHR ''0'', hex_digit (n div 16), hex_digit (n mod 16)])"

definition json_str :: "string \<Rightarrow> string" where
  "json_str s = CHR 0x22 # concat (map esc_char s) @ [CHR 0x22]"

fun comma_sep :: "string list \<Rightarrow> string" where
  "comma_sep [] = ''''"
| "comma_sep [x] = x"
| "comma_sep (x # y # zs) = x @ '','' @ comma_sep (y # zs)"

primrec dumps :: "pylib \<Rightarrow> pyval \<Rightarrow> string" where
  "dumps lib PNone = ''null''"
| "dumps lib (PBool b) = (if b then ''true'' else ''false'')"
| "dumps lib (PInt i) = int_dec i"
| "dumps lib (PFloat x) = float_repr lib x"
| "dumps lib (PNonFinite s) = s"
| "dumps lib (PStr s) = json_str s"
| "dumps lib (PList vs) = ''['' @ comma_sep (map (dumps lib) vs) @ '']''"
| "dumps lib (PDict kvs) = ''{'' @ comma_sep (map (\<lambda>(k, t). json_str k @ '':'' @ t)
     (sort_key fst (map (map_prod id (dumps lib)) kvs))) @ ''}''"

text \<open>\<open>allow_nan=False\<close>: the serializer raises \<open>ValueError\<close> on an infinity or NaN.\<close>

primrec finite_json :: "pyval \<Rightarrow> bool" where
  "finite_json PNone = True"
| "finite_json (PBool b) = True"
| "finite_json (PInt i) = True"
| "finite_json (PFloat x) = True"
| "finite_json (PNonFinite s) = False"
| "finite_json (PStr s) = True"
| "finite_json (PList vs) = list_all id (map finite_json vs)"
| "finite_json (PDict kvs) = list_all snd (map (map_prod id finite_json) kvs)"

section \<open>str and equality\<close>

text \<open>\<open>repr\<close> of a text: quoted by an apostrophe, or by a quotation mark when it has only apostrophes.\<close>

definition repr_char :: "char \<Rightarrow> char \<Rightarrow> string" where
  "repr_char q c = (let n = of_char c :: nat in
     if n = 92 \<or> c = q then [CHR 0x5C, c]
     else if n = 10 then [CHR 0x5C, CHR ''n''] else if n = 13 then [CHR 0x5C, CHR ''r'']
     else if n = 9 then [CHR 0x5C, CHR ''t'']
     else if n < 32 \<or> (127 \<le> n \<and> n \<le> 160) \<or> n = 173
     then [CHR 0x5C, CHR ''x'', hex_digit (n div 16), hex_digit (n mod 16)]
     else [c])"

definition repr_str :: "string \<Rightarrow> string" where
  "repr_str s = (let q = (if CHR 0x27 \<in> set s \<and> CHR 0x22 \<notin> set s then CHR 0x22 else CHR 0x27)
     in q # concat (map (repr_char q) s) @ [q])"

fun sep_by :: "string \<Rightarrow> string list \<Rightarrow> string" where
  "sep_by sep [] = ''''"
| "sep_by sep [x] = x"
| "sep_by sep (x # y # zs) = x @ sep @ sep_by sep (y # zs)"

primrec py_repr :: "pylib \<Rightarrow> pyval \<Rightarrow> string" where
  "py_repr lib PNone = ''None''"
| "py_repr lib (PBool b) = (if b then ''True'' else ''False'')"
| "py_repr lib (PInt i) = int_dec i"
| "py_repr lib (PFloat x) = float_repr lib x"
| "py_repr lib (PNonFinite s) =
     (if s = ''NaN'' then ''nan'' else if s = ''Infinity'' then ''inf'' else ''-inf'')"
| "py_repr lib (PStr s) = repr_str s"
| "py_repr lib (PList vs) = ''['' @ sep_by '', '' (map (py_repr lib) vs) @ '']''"
| "py_repr lib (PDict kvs) = ''{'' @ sep_by '', '' (map (\<lambda>(k, t). repr_str k @ '': '' @ t)
     (map (map_prod id (py_repr lib)) kvs)) @ ''}''"

definition py_str :: "pylib \<Rightarrow> pyval \<Rightarrow> string" where
  "py_str lib v = (case v of PStr s \<Rightarrow> s | _ \<Rightarrow> py_repr lib v)"

text \<open>
  \<open>==\<close>: numbers and booleans compare by value, NaN equals nothing, dictionaries compare without
  regard to the order of their keys.
\<close>

definition py_num :: "pyval \<Rightarrow> rat option" where
  "py_num v = (case v of PInt i \<Rightarrow> Some (of_int i) | PFloat x \<Rightarrow> Some x
     | PBool b \<Rightarrow> Some (if b then 1 else 0) | _ \<Rightarrow> None)"

primrec py_eq :: "pyval \<Rightarrow> pyval \<Rightarrow> bool" where
  "py_eq PNone = (\<lambda>w. w = PNone)"
| "py_eq (PBool b) = (\<lambda>w. py_num w = Some (if b then 1 else 0))"
| "py_eq (PInt i) = (\<lambda>w. py_num w = Some (of_int i))"
| "py_eq (PFloat x) = (\<lambda>w. py_num w = Some x)"
| "py_eq (PNonFinite s) = (\<lambda>w. s \<noteq> ''NaN'' \<and> w = PNonFinite s)"
| "py_eq (PStr s) = (\<lambda>w. w = PStr s)"
| "py_eq (PList vs) = (\<lambda>w. case w of
     PList ws \<Rightarrow> list_all2 (\<lambda>p x. p x) (map py_eq vs) ws | _ \<Rightarrow> False)"
| "py_eq (PDict kvs) = (\<lambda>w. case w of
     PDict d \<Rightarrow> length d = length kvs \<and> list_all (\<lambda>(k, p). case map_of d k of None \<Rightarrow> False | Some x \<Rightarrow> p x)
       (map (map_prod id py_eq) kvs) | _ \<Rightarrow> False)"

end
