(* ===== verification/Content_Store.thy ===== *)
theory Content_Store
  imports Py_Json
begin

text \<open>
  The content-addressed object store of \<^verbatim>\<open>local_storage.py\<close> (class \<open>ContentAddressedStore\<close>).
  A directory tree is the list of its files with their contents; the store's operations create a
  file under the SHA-256 of its content and never replace one.  File-system failures (a full disk,
  missing permissions) are not modelled.
\<close>

type_synonym files = "(string \<times> string) list"

record stored_object =
  so_sha256 :: string
  so_size_bytes :: nat
  so_path :: string

definition is_hex :: "char \<Rightarrow> bool" where
  "is_hex c \<longleftrightarrow> c \<in> set ''0123456789abcdef''"

definition validated_digest :: "string \<Rightarrow> string res" where
  "validated_digest s = (if length s = 64 \<and> list_all is_hex s then Inr s else Inl ValueError)"

text \<open>
  \<open>object_path\<close>: a validated digest has no separator or dot, so the path stays below the root and
  \<open>confined_path\<close> returns it unchanged.
\<close>

definition object_path :: "string \<Rightarrow> string \<Rightarrow> string res" where
  "object_path base digest = bindE (validated_digest digest) (\<lambda>d.
     Inr (base @ ''/sha256/'' @ take 2 d @ ''/'' @ d))"

definition verify_existing :: "pylib \<Rightarrow> string \<Rightarrow> string \<Rightarrow> string \<Rightarrow> nat \<Rightarrow> stored_object res" where
  "verify_existing lib path existing digest expected_size =
     (if length existing \<noteq> expected_size \<or> sha256_hex lib existing \<noteq> digest
      then Inl ImmutableContentConflictError
      else Inr \<lparr>so_sha256 = digest, so_size_bytes = expected_size, so_path = path\<rparr>)"

definition put_bytes ::
    "pylib \<Rightarrow> string \<Rightarrow> string \<Rightarrow> string option \<Rightarrow> files \<Rightarrow> (stored_object \<times> files) res" where
  "put_bytes lib base content expected_sha256 fs =
     (let digest = sha256_hex lib content in
      bindE (case expected_sha256 of None \<Rightarrow> Inr ()
             | Some e \<Rightarrow> bindE (validated_digest e) (\<lambda>expected.
                 if digest \<noteq> expected then Inl ContentHashMismatchError else Inr ()))
        (\<lambda>_. bindE (object_path base digest) (\<lambda>destination.
          case map_of fs destination of
            Some existing \<Rightarrow>
              bindE (verify_existing lib destination existing digest (length content))
                (\<lambda>so. Inr (so, fs))
          | None \<Rightarrow>
              Inr (\<lparr>so_sha256 = digest, so_size_bytes = length content, so_path = destination\<rparr>,
                   fs @ [(destination, content)]))))"

definition put_json :: "pylib \<Rightarrow> string \<Rightarrow> pyval \<Rightarrow> files \<Rightarrow> (stored_object \<times> files) res" where
  "put_json lib base v fs = put_bytes lib base (dumps lib v) None fs"

definition read_bytes :: "pylib \<Rightarrow> string \<Rightarrow> string \<Rightarrow> files \<Rightarrow> string res" where
  "read_bytes lib base sha256 fs = bindE (validated_digest sha256) (\<lambda>digest.
     bindE (object_path base digest) (\<lambda>path.
       case map_of fs path of
         None \<Rightarrow> Inl FileNotFoundError
       | Some content \<Rightarrow>
           if sha256_hex lib content \<noteq> digest then Inl ContentHashMismatchError else Inr content))"

definition read_json :: "pylib \<Rightarrow> string \<Rightarrow> string \<Rightarrow> files \<Rightarrow> pyval res" where
  "read_json lib base sha256 fs = bindE (read_bytes lib base sha256 fs) (\<lambda>content.
     case json_loads lib content of None \<Rightarrow> Inl ValueError | Some v \<Rightarrow> Inr v)"

section \<open>Laws of the store\<close>

text \<open>Every object of the store lies under the digest of its own content.\<close>

definition content_ok :: "pylib \<Rightarrow> string \<Rightarrow> files \<Rightarrow> bool" where
  "content_ok lib base fs \<longleftrightarrow> distinct (map fst fs) \<and>
     list_all (\<lambda>(p, c). object_path base (sha256_hex lib c) = Inr p) fs"

lemma content_ok_empty [simp]: "content_ok lib base []"
  by (simp add: content_ok_def)

lemma put_bytes_cases:
  assumes "put_bytes lib base content e fs = Inr (so, fs')"
  shows "so_sha256 so = sha256_hex lib content" "so_size_bytes so = length content"
    "object_path base (sha256_hex lib content) = Inr (so_path so)"
    "(fs' = fs \<and> (\<exists>c. map_of fs (so_path so) = Some c \<and> length c = length content
         \<and> sha256_hex lib c = sha256_hex lib content)) \<or>
     (fs' = fs @ [(so_path so, content)] \<and> map_of fs (so_path so) = None)"
  using assms
  by (auto simp: put_bytes_def verify_existing_def Let_def split: option.splits if_splits)

lemma put_bytes_keeps:
  assumes "put_bytes lib base content e fs = Inr (so, fs')" "map_of fs p = Some c"
  shows "map_of fs' p = Some c"
  using put_bytes_cases [OF assms(1)] assms(2) by (auto simp: map_add_Some_iff map_of_append)

lemma put_bytes_content_ok:
  assumes "put_bytes lib base content e fs = Inr (so, fs')" "content_ok lib base fs"
  shows "content_ok lib base fs'"
  using put_bytes_cases [OF assms(1)] assms(2)
  by (auto simp: content_ok_def map_of_eq_None_iff)

lemma put_bytes_stored:
  assumes "put_bytes lib base content e fs = Inr (so, fs')"
  shows "\<exists>c. map_of fs' (so_path so) = Some c \<and> sha256_hex lib c = sha256_hex lib content
           \<and> length c = length content"
  using put_bytes_cases [OF assms] by (auto simp: map_add_def split: option.splits)

lemma object_path_digest:
  assumes "object_path base d = Inr p"
  shows "validated_digest d = Inr d"
  using assms by (auto simp: object_path_def validated_digest_def)

lemma put_bytes_read:
  assumes "put_bytes lib base content e fs = Inr (so, fs')"
  shows "\<exists>c. read_bytes lib base (so_sha256 so) fs' = Inr c
     \<and> sha256_hex lib c = sha256_hex lib content \<and> length c = length content"
  using put_bytes_cases(1,3) [OF assms] put_bytes_stored [OF assms]
  by (auto simp: read_bytes_def object_path_digest)

end
