(* ===== verification/Control_Schema.thy ===== *)
theory Control_Schema
  imports Content_Store
begin

text \<open>
  The data of the control store of \<^verbatim>\<open>sjd_control.py\<close> (class \<open>SQLiteControlStore\<close>): the rows of
  its SQLite tables, the database, the values its operations return, the validators of its
  arguments and the identities it derives by hashing.  SQLite \<open>REAL\<close> columns are binary64 floats
  and \<open>INTEGER\<close> columns are unbounded integers; a nullable column is an option.
\<close>

section \<open>Tables\<close>

datatype work_status = W_READY | W_LEASED | W_SUCCEEDED | W_DEAD

datatype batch_status = B_LEASED | B_SEALED | B_COMMITTED | B_EXPIRED

datatype attempt_status = A_LEASED | A_SEALED | A_SUCCEEDED | A_FAILED | A_EXPIRED

record work_row =
  w_work_id :: string
  w_payload_json :: string
  w_payload_sha256 :: string
  w_runtime_key :: string
  w_duration_seconds :: pyfloat
  w_config_sha256 :: string
  w_release_digest :: string
  w_status :: work_status
  w_attempt_count :: int
  w_max_attempts :: int
  w_original_max_attempts :: int
  w_fence :: int
  w_available_at :: pyfloat
  w_lease_owner :: "string option"
  w_lease_attempt_id :: "string option"
  w_lease_expires_at :: "pyfloat option"
  w_committed_attempt_id :: "string option"
  w_publication_sequence :: "int option"
  w_replay_generation :: int
  w_last_replay_id :: "string option"
  w_last_error :: "string option"
  w_created_at :: pyfloat
  w_updated_at :: pyfloat

record batch_row =
  b_batch_id :: string
  b_owner :: string
  b_runtime_key :: string
  b_status :: batch_status
  b_lease_expires_at :: pyfloat
  b_item_count :: int
  b_membership_sha256 :: string
  b_envelope_version :: int
  b_envelope_path :: string
  b_envelope_sha256 :: string
  b_created_at :: pyfloat
  b_sealed_at :: "pyfloat option"
  b_committed_at :: "pyfloat option"

record attempt_row =
  a_attempt_id :: string
  a_work_id :: string
  a_batch_id :: string
  a_fence :: int
  a_status :: attempt_status
  a_lease_expires_at :: pyfloat
  a_payload_sha256 :: string
  a_output_path :: "string option"
  a_output_sha256 :: "string option"
  a_terminal_succeeded :: "bool option"
  a_sealed_at :: "pyfloat option"
  a_recovery_outcome :: "work_status option"
  a_created_at :: pyfloat

record member_row =
  m_batch_id :: string
  m_ordinal :: nat
  m_work_id :: string
  m_attempt_id :: string
  m_fence :: int
  m_payload_sha256 :: string

record output_row =
  o_output_id :: int
  o_attempt_id :: string
  o_work_id :: string
  o_output_path :: string
  o_output_sha256 :: string
  o_executor_identity :: string
  o_partition_id :: int
  o_task_attempt_id :: int
  o_record_sequence :: int
  o_created_at :: pyfloat

record publication_row =
  p_publication_sequence :: int
  p_work_id :: string
  p_attempt_id :: string
  p_batch_id :: string
  p_output_path :: string
  p_output_sha256 :: string
  p_published_at :: pyfloat

record finding_row =
  f_finding_id :: string
  f_finding_type :: string
  f_severity :: string
  f_entity_key :: string
  f_details_json :: string
  f_first_seen_at :: pyfloat
  f_last_seen_at :: pyfloat
  f_resolved_at :: "pyfloat option"

record replay_row =
  r_replay_id :: string
  r_work_id :: string
  r_operator :: string
  r_reason :: string
  r_generation :: int
  r_requested_at :: pyfloat
  r_from_status :: work_status
  r_additional_attempts :: int

text \<open>
  The database.  \<open>db_last_output\<close> and \<open>db_last_publication\<close> are the two entries of
  SQLite's \<open>sqlite_sequence\<close>: the largest value an \<open>AUTOINCREMENT\<close> column has had.
\<close>

record db =
  db_work :: "work_row list"
  db_batches :: "batch_row list"
  db_attempts :: "attempt_row list"
  db_members :: "member_row list"
  db_outputs :: "output_row list"
  db_publications :: "publication_row list"
  db_findings :: "finding_row list"
  db_replays :: "replay_row list"
  db_last_output :: int
  db_last_publication :: int
  db_user_version :: int
  db_schema_version :: "int option"

record store =
  st_db :: db
  st_files :: files
  st_base :: string

section \<open>Returned values\<close>

record registered_work =
  rw_work_id :: string
  rw_status :: work_status
  rw_payload_sha256 :: string
  rw_runtime_key :: string
  rw_duration_seconds :: pyfloat
  rw_attempt_count :: int
  rw_max_attempts :: int
  rw_original_max_attempts :: int
  rw_committed_attempt_id :: "string option"
  rw_publication_sequence :: "int option"
  rw_last_replay_id :: "string option"

record claimed_work =
  c_work_id :: string
  c_attempt_id :: string
  c_fence :: int
  c_payload_sha256 :: string

record claimed_batch =
  cb_batch_id :: string
  cb_envelope_path :: string
  cb_envelope_sha256 :: string
  cb_runtime_key :: string
  cb_lease_expires_at :: pyfloat
  cb_items :: "claimed_work list"

record recovery_report =
  rr_recovered :: nat
  rr_retried :: nat
  rr_dead :: nat

record replay_request =
  rp_replay_id :: string
  rp_work_id :: string
  rp_operator :: string
  rp_reason :: string
  rp_generation :: int
  rp_requested_at :: pyfloat

record quarantine_report =
  qr_work_ids :: "string list"
  qr_operator :: string
  qr_reason :: string
  qr_quarantined_at :: pyfloat

record control_batch_state =
  cs_status :: batch_status
  cs_lease_expires_at :: pyfloat

text \<open>The fields of a verified envelope that the control operations read.\<close>

record envelope =
  e_batch_id :: string
  e_envelope_sha256 :: string
  e_membership_sha256 :: string
  e_items :: "claimed_work list"

definition registered :: "work_row \<Rightarrow> registered_work" where
  "registered w = \<lparr>rw_work_id = w_work_id w, rw_status = w_status w,
     rw_payload_sha256 = w_payload_sha256 w, rw_runtime_key = w_runtime_key w,
     rw_duration_seconds = w_duration_seconds w, rw_attempt_count = w_attempt_count w,
     rw_max_attempts = w_max_attempts w, rw_original_max_attempts = w_original_max_attempts w,
     rw_committed_attempt_id = w_committed_attempt_id w,
     rw_publication_sequence = w_publication_sequence w,
     rw_last_replay_id = w_last_replay_id w\<rparr>"

section \<open>Validators\<close>

definition required_text :: "pyval \<Rightarrow> string res" where
  "required_text v = (case v of
     PStr s \<Rightarrow> if py_strip s = [] then Inl ValueError else Inr s
   | _ \<Rightarrow> Inl ValueError)"

definition finite_num :: "pyval \<Rightarrow> pyfloat res" where
  "finite_num v = (case v of
     PInt i \<Rightarrow> Inr (fround (of_int i)) | PFloat x \<Rightarrow> Inr x | _ \<Rightarrow> Inl ValueError)"

definition positive_finite :: "pyval \<Rightarrow> pyfloat res" where
  "positive_finite v = bindE (finite_num v) (\<lambda>x. if x \<le> 0 then Inl ValueError else Inr x)"

definition nonnegative_int :: "pyval \<Rightarrow> int res" where
  "nonnegative_int v = (case v of
     PInt i \<Rightarrow> if i < 0 then Inl ValueError else Inr i | _ \<Rightarrow> Inl ValueError)"

definition positive_int :: "pyval \<Rightarrow> int res" where
  "positive_int v = (case v of
     PInt i \<Rightarrow> if i \<le> 0 then Inl ValueError else Inr i | _ \<Rightarrow> Inl ValueError)"

definition boolean_val :: "pyval \<Rightarrow> bool res" where
  "boolean_val v = (case v of PBool b \<Rightarrow> Inr b | _ \<Rightarrow> Inl ValueError)"

definition validated_sha256 :: "pyval \<Rightarrow> string res" where
  "validated_sha256 v = bindE (required_text v) (\<lambda>s.
     if length s \<noteq> 64 \<or> \<not> list_all is_hex s then Inl ValueError else Inr s)"

text \<open>\<open>type(value) is int and lo <= value <= hi\<close>\<close>

definition bounded_int :: "int \<Rightarrow> int \<Rightarrow> pyval \<Rightarrow> int res" where
  "bounded_int lo hi v = (case v of
     PInt i \<Rightarrow> if lo \<le> i \<and> i \<le> hi then Inr i else Inl ValueError | _ \<Rightarrow> Inl ValueError)"

section \<open>Canonical identities\<close>

definition canonical_json :: "pylib \<Rightarrow> pyval \<Rightarrow> string res" where
  "canonical_json lib v = (if finite_json v then Inr (dumps lib v) else Inl ValueError)"

definition membership_json :: "claimed_work list \<Rightarrow> pyval" where
  "membership_json items = PList (map (\<lambda>c. PDict
     [(''work_id'', PStr (c_work_id c)), (''attempt_id'', PStr (c_attempt_id c)),
      (''fence'', PInt (c_fence c)), (''payload_sha256'', PStr (c_payload_sha256 c))]) items)"

definition membership_sha256 :: "pylib \<Rightarrow> claimed_work list \<Rightarrow> string" where
  "membership_sha256 lib items = sha256_hex lib (dumps lib (membership_json items))"

definition finding_id :: "pylib \<Rightarrow> string \<Rightarrow> string \<Rightarrow> string" where
  "finding_id lib kind entity = ''finding-'' @ sha256_hex lib (dumps lib (PDict
     [(''version'', PInt 1), (''type'', PStr kind), (''entity'', PStr entity)]))"

section \<open>Transactions and bootstrap\<close>

text \<open>
  \<open>_transaction\<close>: \<open>BEGIN IMMEDIATE\<close>, then commit when the body returns and roll back when it
  raises.  The write lock makes transactions serial, so an operation is a function of the database
  it finds.
\<close>

definition transaction :: "(db \<Rightarrow> (db \<times> 'r) res) \<Rightarrow> store \<Rightarrow> 'r res \<times> store" where
  "transaction body s = (case body (st_db s) of
     Inl e \<Rightarrow> (Inl e, s) | Inr (d, r) \<Rightarrow> (Inr r, s\<lparr>st_db := d\<rparr>))"

definition empty_db :: db where
  "empty_db = \<lparr>db_work = [], db_batches = [], db_attempts = [], db_members = [], db_outputs = [],
     db_publications = [], db_findings = [], db_replays = [], db_last_output = 0,
     db_last_publication = 0, db_user_version = 0, db_schema_version = None\<rparr>"

definition output_identity :: "output_row \<Rightarrow> string \<times> string \<times> int" where
  "output_identity o' = (o_work_id o', o_attempt_id o', o_record_sequence o')"

text \<open>
  \<open>bootstrap\<close>: \<open>CREATE TABLE IF NOT EXISTS\<close> is the identity on a database that has the tables;
  the branch that adds the column \<open>original_max_attempts\<close> to a database of an older layout is left
  out, since a row without that column is not a \<^typ>\<open>work_row\<close>.
\<close>

definition bootstrap :: "db \<Rightarrow> db res" where
  "bootstrap d =
     (if db_user_version d \<noteq> 0 \<and> db_user_version d \<noteq> 1 then Inl ControlError
      else if \<not> distinct (map output_identity (db_outputs d)) then Inl ControlError
      else let v = (case db_schema_version d of None \<Rightarrow> 1 | Some v \<Rightarrow> v) in
        if v \<noteq> 1 then Inl ControlError
        else Inr (d\<lparr>db_schema_version := Some v, db_user_version := 1\<rparr>))"

lemma transaction_cases:
  assumes "transaction body s = (r, s')"
  obtains e where "body (st_db s) = Inl e" "r = Inl e" "s' = s"
  | d x where "body (st_db s) = Inr (d, x)" "r = Inr x" "s' = s\<lparr>st_db := d\<rparr>"
  using assms by (auto simp: transaction_def split: sum.splits)

end
