(* ===== verification/Control_Admission.thy ===== *)
theory Control_Admission
  imports Control_Schema
begin

text \<open>
  Lease admission of \<^verbatim>\<open>sjd_control.py\<close>: the settings a claim runs under, the longest-processing-time
  (LPT) projection of a batch on the available workers, and the largest queue prefix whose projected
  run fits the lease.
\<close>

section \<open>Admission settings\<close>

text \<open>A process profile is an object; \<open>getattr(profile, name, None)\<close> looks a field up.\<close>

type_synonym profile = "(string \<times> pyval) list"

record admission =
  ad_speed :: pyfloat
  ad_factor :: pyfloat
  ad_margin :: pyfloat
  ad_workers :: int
  ad_name :: string

definition getattr :: "profile \<Rightarrow> string \<Rightarrow> pyval" where
  "getattr p name = dget p name PNone"

definition check_supplied :: "pyval \<Rightarrow> pyfloat \<Rightarrow> unit res" where
  "check_supplied value expected = (case value of PNone \<Rightarrow> Inr ()
     | v \<Rightarrow> bindE (finite_num v) (\<lambda>x. if x \<noteq> expected then Inl ValueError else Inr ()))"

definition memory_workers :: "profile \<Rightarrow> pyval \<Rightarrow> int \<Rightarrow> int \<Rightarrow> int res" where
  "memory_workers p peak_rss_bytes profile_instances worker_limit = (case peak_rss_bytes of
     PNone \<Rightarrow> Inr worker_limit
   | v \<Rightarrow> bindE (positive_int v) (\<lambda>peak.
       bindE (positive_int (getattr p ''executor_memory_bytes'')) (\<lambda>memory.
       bindE (nonnegative_int (getattr p ''memory_reserve_bytes'')) (\<lambda>reserve.
         let usable = memory - reserve in
         if peak > usable then Inl LeaseBudgetError
         else Inr (min worker_limit (profile_instances * (usable div peak)))))))"

definition claim_admission_settings ::
    "profile option \<Rightarrow> pyval \<Rightarrow> pyval \<Rightarrow> pyval \<Rightarrow> pyval \<Rightarrow> admission res" where
  "claim_admission_settings process_profile minimum_speed_x safety_factor margin_seconds peak_rss_bytes =
     (case process_profile of
        None \<Rightarrow>
          if minimum_speed_x = PNone \<or> safety_factor = PNone \<or> margin_seconds = PNone
          then Inl ValueError
          else if peak_rss_bytes \<noteq> PNone then Inl ValueError
          else bindE (positive_finite minimum_speed_x) (\<lambda>speed.
               bindE (positive_finite safety_factor) (\<lambda>factor.
               bindE (positive_finite margin_seconds) (\<lambda>margin.
                 Inr \<lparr>ad_speed = speed, ad_factor = factor, ad_margin = margin,
                      ad_workers = 1, ad_name = ''legacy-single-worker''\<rparr>)))
      | Some p \<Rightarrow>
          bindE (positive_finite (getattr p ''minimum_speed_x'')) (\<lambda>speed.
          bindE (positive_finite (getattr p ''lease_safety_factor'')) (\<lambda>factor.
          bindE (positive_finite (getattr p ''lease_margin_seconds'')) (\<lambda>margin.
          bindE (positive_int (getattr p ''executor_instances'')) (\<lambda>instances.
          bindE (positive_int (getattr p ''executor_cores'')) (\<lambda>cores.
          bindE (positive_int (getattr p ''task_cpus'')) (\<lambda>task_cpus.
            let cpu_limit = instances * cores div task_cpus in
            if cpu_limit < 1 then Inl ValueError
            else bindE (memory_workers p peak_rss_bytes instances (min instances cpu_limit))
              (\<lambda>worker_limit.
               bindE (check_supplied minimum_speed_x speed) (\<lambda>_.
               bindE (check_supplied safety_factor factor) (\<lambda>_.
               bindE (check_supplied margin_seconds margin) (\<lambda>_.
               bindE (required_text (getattr p ''name'')) (\<lambda>name.
                 Inr \<lparr>ad_speed = speed, ad_factor = factor, ad_margin = margin,
                      ad_workers = worker_limit, ad_name = name\<rparr>)))))))))))) "

section \<open>LPT makespan\<close>

text \<open>\<open>min(range(workers), key=lambda i: (costs[i], i))\<close>: the first index of the least cost.\<close>

fun argmin_from :: "nat \<Rightarrow> pyfloat \<Rightarrow> nat \<Rightarrow> pyfloat list \<Rightarrow> nat" where
  "argmin_from best c i [] = best"
| "argmin_from best c i (x # xs) =
     (if x < c then argmin_from i x (Suc i) xs else argmin_from best c (Suc i) xs)"

definition argmin_index :: "pyfloat list \<Rightarrow> nat" where
  "argmin_index cs = (case cs of [] \<Rightarrow> 0 | x # xs \<Rightarrow> argmin_from 0 x 1 xs)"

definition lpt_assign :: "pyfloat list \<Rightarrow> work_row \<Rightarrow> pyfloat list" where
  "lpt_assign costs w = (let t = argmin_index costs in
     costs[t := fadd (costs ! t) (w_duration_seconds w)])"

definition lpt_order :: "work_row list \<Rightarrow> work_row list" where
  "lpt_order rows = sort_key (\<lambda>w. (- w_duration_seconds w, w_work_id w)) rows"

definition lpt_makespan :: "work_row list \<Rightarrow> int \<Rightarrow> pyfloat res" where
  "lpt_makespan rows worker_count =
     (if worker_count \<le> 0 then Inl ValueError
      else Inr (Max (set (foldl lpt_assign (replicate (nat worker_count) 0) (lpt_order rows)))))"

section \<open>The largest admissible prefix\<close>

definition projection :: "admission \<Rightarrow> work_row list \<Rightarrow> (int \<times> pyfloat \<times> pyfloat) res" where
  "projection ad prefix =
     (let workers = min (int (length prefix)) (ad_workers ad) in
      bindE (lpt_makespan prefix workers) (\<lambda>makespan.
        Inr (workers, makespan, fmul (fdiv makespan (ad_speed ad)) (ad_factor ad))))"

text \<open>The loop \<open>for count in range(len(rows), minimum_items, -1)\<close>.\<close>

fun prefix_loop :: "admission \<Rightarrow> pyfloat \<Rightarrow> work_row list \<Rightarrow> nat \<Rightarrow> nat
    \<Rightarrow> (work_row list \<times> int \<times> pyfloat) \<Rightarrow> (work_row list \<times> int \<times> pyfloat) res" where
  "prefix_loop ad lease rows minimum 0 fallback = Inr fallback"
| "prefix_loop ad lease rows minimum (Suc count) fallback =
     (if Suc count \<le> minimum then Inr fallback
      else bindE (projection ad (take (Suc count) rows)) (\<lambda>(workers, makespan, projected).
        if fadd projected (ad_margin ad) < lease
        then Inr (take (Suc count) rows, workers, makespan)
        else prefix_loop ad lease rows minimum count fallback))"

definition largest_admissible_claim_prefix ::
    "work_row list \<Rightarrow> nat \<Rightarrow> admission \<Rightarrow> pyfloat \<Rightarrow> (work_row list \<times> int \<times> pyfloat) res" where
  "largest_admissible_claim_prefix rows minimum_items ad lease =
     (let minimum_prefix = take minimum_items rows in
      bindE (projection ad minimum_prefix) (\<lambda>(workers, makespan, projected).
        if lease \<le> fadd projected (ad_margin ad) then Inl LeaseBudgetError
        else prefix_loop ad lease rows minimum_items (length rows)
               (minimum_prefix, workers, makespan)))"

end
