(* ===== verification/Executor_Inventory.thy ===== *)
theory Executor_Inventory
  imports Py_Json
begin

text \<open>
  Executor discovery and placement of \<^verbatim>\<open>fabric_executor_inventory.py\<close>: the records made from
  Spark's executor summaries, the poll loop that waits for a stable inventory, and the task width whose
  placement is safe for the measured memory.  Spark's status store is not part of the repository: a poll
  is an argument.  Sizes are below \<open>2\<^sup>5\<^sup>3\<close>, where Python's floor division of floats is exact.
\<close>

section \<open>Records\<close>

record executor_record =
  ex_executor_id :: string
  ex_host :: string
  ex_total_cores :: int
  ex_max_memory_bytes :: int

definition make_executor :: "string \<Rightarrow> string \<Rightarrow> int \<Rightarrow> int \<Rightarrow> executor_record res" where
  "make_executor executor_id host total_cores max_memory_bytes =
     (if executor_id = [] then Inl ExecutorInventoryError
      else if host = [] then Inl ExecutorInventoryError
      else if total_cores < 1 then Inl ExecutorInventoryError
      else if max_memory_bytes < 1 then Inl ExecutorInventoryError
      else Inr \<lparr>ex_executor_id = executor_id, ex_host = host, ex_total_cores = total_cores,
                ex_max_memory_bytes = max_memory_bytes\<rparr>)"

text \<open>
  A summary is a JVM object: the texts and the numbers its existing methods return, by name.  A call of
  a method that does not exist raises, and \<open>_field\<close> goes on to the next name.
\<close>

record executor_summary =
  su_texts :: "(string \<times> string) list"
  su_numbers :: "(string \<times> int) list"

fun first_field :: "(string \<times> 'v) list \<Rightarrow> string list \<Rightarrow> 'v res" where
  "first_field methods [] = Inl ExecutorInventoryError"
| "first_field methods (n # ns) = (case map_of methods n of None \<Rightarrow> first_field methods ns | Some v \<Rightarrow> Inr v)"

text \<open>\<open>host_port.rsplit(":", 1)[0]\<close>\<close>

definition before_last_colon :: "string \<Rightarrow> string" where
  "before_last_colon s = rev (tl (dropWhile (\<lambda>c. c \<noteq> CHR '':'') (rev s)))"

definition executor_host :: "executor_summary \<Rightarrow> string res" where
  "executor_host su = (case first_field (su_texts su) [''host''] of
     Inr h \<Rightarrow> Inr h
   | Inl _ \<Rightarrow> bindE (first_field (su_texts su) [''hostPort'', ''host_port'']) (\<lambda>host_port.
       Inr (if CHR '':'' \<in> set host_port then before_last_colon host_port else host_port)))"

fun summary_records :: "executor_summary list \<Rightarrow> executor_record list res" where
  "summary_records [] = Inr []"
| "summary_records (su # sus) = bindE (first_field (su_texts su) [''id'', ''executor_id'']) (\<lambda>executor_id.
     if executor_id = ''driver'' then summary_records sus
     else bindE (executor_host su) (\<lambda>host.
       bindE (first_field (su_numbers su) [''totalCores'', ''total_cores'']) (\<lambda>cores.
       bindE (first_field (su_numbers su) [''maxMemory'', ''max_memory'']) (\<lambda>memory.
       bindE (make_executor executor_id host cores memory) (\<lambda>r.
       bindE (summary_records sus) (\<lambda>rs. Inr (r # rs)))))))"

definition executor_records_from_executor_summaries :: "executor_summary list \<Rightarrow> executor_record list res" where
  "executor_records_from_executor_summaries sus =
     bindE (summary_records sus) (\<lambda>rs. Inr (sort_key ex_executor_id rs))"

section \<open>Discovery\<close>

text \<open>
  The poll loop.  \<open>polls n\<close> is what the status store returns at the \<open>n\<close>-th poll and \<open>clock n\<close> the
  time read after it; the loop may run forever when the clock never passes the deadline, which is the
  value \<open>None\<close>.
\<close>

partial_function (option) poll_loop ::
    "(nat \<Rightarrow> executor_summary list) \<Rightarrow> (nat \<Rightarrow> pyfloat) \<Rightarrow> pyfloat \<Rightarrow> pyfloat \<Rightarrow> int \<Rightarrow> int
      \<Rightarrow> nat \<Rightarrow> executor_record list option \<Rightarrow> int \<Rightarrow> executor_record list res option" where
  "poll_loop polls clock start deadline minimum stability n previous stable_count =
     (case executor_records_from_executor_summaries (polls n) of
        Inl e \<Rightarrow>
          if deadline \<le> fadd (clock n) (- start) then Some (Inl ExecutorInventoryError)
          else poll_loop polls clock start deadline minimum stability (Suc n) None 0
      | Inr current \<Rightarrow>
          (let count = (if previous = Some current \<and> minimum \<le> int (length current)
                        then stable_count + 1 else 0)
           in if count \<noteq> 0 \<and> stability \<le> count then Some (Inr current)
              else if deadline \<le> fadd (clock n) (- start) then Some (Inl ExecutorInventoryError)
              else poll_loop polls clock start deadline minimum stability (Suc n) (Some current) count))"

definition discover_active_executors ::
    "(nat \<Rightarrow> executor_summary list) \<Rightarrow> (nat \<Rightarrow> pyfloat) \<Rightarrow> pyfloat \<Rightarrow> int \<Rightarrow> int \<Rightarrow> pyfloat \<Rightarrow> pyfloat
      \<Rightarrow> executor_record list res option" where
  "discover_active_executors polls clock start minimum_executors stability_polls poll_interval deadline =
     (if minimum_executors < 1 then Some (Inl ExecutorInventoryError)
      else if stability_polls < 2 then Some (Inl ExecutorInventoryError)
      else if poll_interval \<le> 0 \<or> deadline \<le> 0 then Some (Inl ExecutorInventoryError)
      else poll_loop polls clock start deadline minimum_executors stability_polls 0 None 0)"

section \<open>Task width\<close>

definition compute_slots :: "executor_record list \<Rightarrow> int \<Rightarrow> int res" where
  "compute_slots executors task_cpus =
     (if task_cpus < 1 then Inl ExecutorInventoryError
      else if executors = [] then Inl ExecutorInventoryError
      else Inr (sum_list (map (\<lambda>e. ex_total_cores e div task_cpus) executors)))"

text \<open>\<open>memory * (1.0 - headroom)\<close> and \<open>int(usable // peak)\<close>\<close>

definition usable_memory :: "int \<Rightarrow> pyfloat \<Rightarrow> pyfloat" where
  "usable_memory memory headroom = fmul (fround (of_int memory)) (fadd 1 (- headroom))"

definition memory_slots :: "pyfloat \<Rightarrow> int \<Rightarrow> int" where
  "memory_slots usable peak = \<lfloor>usable / of_int peak\<rfloor>"

definition compute_memory_cap :: "executor_record list \<Rightarrow> pyfloat \<Rightarrow> int \<Rightarrow> int res" where
  "compute_memory_cap executors headroom peak_rss_bytes =
     (if executors = [] then Inl ExecutorInventoryError
      else if \<not> (0 \<le> headroom \<and> headroom < 1) then Inl ExecutorInventoryError
      else if peak_rss_bytes < 1 then Inl ExecutorInventoryError
      else let slots = memory_slots (usable_memory (Min (set (map ex_max_memory_bytes executors))) headroom)
                         peak_rss_bytes
        in if slots < 1 then Inl ExecutorInventoryError
           else Inr (slots * int (length executors)))"

definition per_executor_memory_slots :: "executor_record \<Rightarrow> pyfloat \<Rightarrow> int \<Rightarrow> int res" where
  "per_executor_memory_slots e headroom peak_rss_bytes =
     (if \<not> (0 \<le> headroom \<and> headroom < 1) then Inl ExecutorInventoryError
      else if peak_rss_bytes < 1 then Inl ExecutorInventoryError
      else Inr (memory_slots (usable_memory (ex_max_memory_bytes e) headroom) peak_rss_bytes))"

text \<open>One round of the loop: the safe task count of an executor and whether its ceiling exceeds it.\<close>

definition executor_placement :: "int \<Rightarrow> int \<Rightarrow> pyfloat \<Rightarrow> executor_record \<Rightarrow> (int \<times> bool) res" where
  "executor_placement task_cpus peak_rss_bytes headroom e =
     (let cores_slots = ex_total_cores e div task_cpus in
      if cores_slots < 1 then Inl ExecutorInventoryError
      else bindE (per_executor_memory_slots e headroom peak_rss_bytes) (\<lambda>mem_slots.
        if mem_slots < 1 then Inl ExecutorInventoryError
        else Inr (min cores_slots mem_slots, mem_slots < cores_slots)))"

definition assert_executor_placement_safe ::
    "executor_record list \<Rightarrow> int \<Rightarrow> int \<Rightarrow> pyfloat \<Rightarrow> int list res" where
  "assert_executor_placement_safe executors task_cpus peak_rss_bytes headroom =
     (if task_cpus < 1 then Inl ExecutorInventoryError
      else if executors = [] then Inl ExecutorInventoryError
      else bindE (mapE (executor_placement task_cpus peak_rss_bytes headroom) executors) (\<lambda>rs.
        if list_ex snd rs then Inl ExecutorInventoryError else Inr (map fst rs)))"

definition conservative_task_cpus_for_unmeasured_rss :: "executor_record list \<Rightarrow> int res" where
  "conservative_task_cpus_for_unmeasured_rss executors =
     (if executors = [] then Inl ExecutorInventoryError
      else Inr (Max (set (map ex_total_cores executors))))"

record task_width_placement =
  tw_task_cpus :: int
  tw_slots :: int
  tw_memory_cap :: "int option"
  tw_operator_cap :: "int option"
  tw_planned_task_count :: int
  tw_executors :: "executor_record list"
  tw_per_executor_safe_tasks :: "int list"

definition plan_task_width ::
    "executor_record list \<Rightarrow> int \<Rightarrow> int option \<Rightarrow> int option \<Rightarrow> pyfloat \<Rightarrow> task_width_placement res" where
  "plan_task_width executors task_cpus operator_cap peak_rss_bytes headroom =
     bindE (compute_slots executors task_cpus) (\<lambda>slots.
     bindE (case peak_rss_bytes of
              None \<Rightarrow> Inr (None, [])
            | Some peak \<Rightarrow>
                bindE (assert_executor_placement_safe executors task_cpus peak headroom) (\<lambda>safe.
                bindE (compute_memory_cap executors headroom peak) (\<lambda>cap. Inr (Some cap, safe))))
       (\<lambda>(memory_cap, per_executor_safe).
     bindE (case operator_cap of
              None \<Rightarrow> Inr []
            | Some cap \<Rightarrow> if cap < 1 then Inl ExecutorInventoryError else Inr [cap]) (\<lambda>operator_limits.
       let planned = Min (set (slots # (case memory_cap of None \<Rightarrow> [] | Some m \<Rightarrow> [m]) @ operator_limits)) in
       if planned < 1 then Inl ExecutorInventoryError
       else Inr \<lparr>tw_task_cpus = task_cpus, tw_slots = slots, tw_memory_cap = memory_cap,
                 tw_operator_cap = operator_cap, tw_planned_task_count = planned,
                 tw_executors = executors, tw_per_executor_safe_tasks = per_executor_safe\<rparr>)))"

section \<open>Reviewed profiles\<close>

definition assert_matches_reviewed_profile :: "executor_record list \<Rightarrow> int \<Rightarrow> int \<Rightarrow> unit res" where
  "assert_matches_reviewed_profile executors expected_executor_cores expected_task_cpus =
     (if expected_executor_cores < 1 then Inl ExecutorInventoryError
      else if expected_task_cpus < 1 then Inl ExecutorInventoryError
      else if expected_task_cpus > expected_executor_cores then Inl ExecutorInventoryError
      else if filter (\<lambda>e. ex_total_cores e \<noteq> expected_executor_cores) executors \<noteq> []
      then Inl ExecutorInventoryError else Inr ())"

definition assert_minimum_videos_per_group :: "int list \<Rightarrow> int \<Rightarrow> int \<Rightarrow> unit res" where
  "assert_minimum_videos_per_group group_sizes total_items minimum_videos_per_group =
     (if minimum_videos_per_group < 1 then Inl ExecutorInventoryError
      else if group_sizes = [] then Inr ()
      else if total_items < int (length group_sizes) * minimum_videos_per_group then Inr ()
      else if filter (\<lambda>size. size < minimum_videos_per_group) group_sizes \<noteq> []
      then Inl ExecutorInventoryError else Inr ())"

end
