(* ===== verification/Process_Plan.thy ===== *)
theory Process_Plan
  imports Control_Admission Executor_Inventory
begin

text \<open>
  Planning in \<^verbatim>\<open>sjd_process.py\<close>: execution profiles, the concurrency a batch may use, the duration
  LPT plan with its buckets and waves, and the admission of the whole plan against the live lease.
\<close>

section \<open>Profiles\<close>

record execution_profile =
  ep_name :: string
  ep_executor_instances :: int
  ep_executor_cores :: int
  ep_executor_memory_bytes :: int
  ep_task_cpus :: int
  ep_fixed_allocation :: bool
  ep_speculation :: bool
  ep_memory_reserve_bytes :: int
  ep_heartbeat_seconds :: pyfloat
  ep_minimum_speed_x :: pyfloat
  ep_lease_safety_factor :: pyfloat
  ep_lease_margin_seconds :: pyfloat
  ep_planned_task_count :: "int option"
  ep_peak_rss_bytes :: "int option"
  ep_rss_headroom_fraction :: pyfloat

text \<open>A Python value of type \<open>int | None\<close>\<close>

definition opt_int :: "int option \<Rightarrow> pyval" where
  "opt_int v = (case v of None \<Rightarrow> PNone | Some i \<Rightarrow> PInt i)"

text \<open>The attributes that the control store reads with \<open>getattr(process_profile, ...)\<close>.\<close>

definition profile_attributes :: "execution_profile \<Rightarrow> profile" where
  "profile_attributes p = [(''name'', PStr (ep_name p)),
     (''executor_instances'', PInt (ep_executor_instances p)), (''executor_cores'', PInt (ep_executor_cores p)),
     (''executor_memory_bytes'', PInt (ep_executor_memory_bytes p)), (''task_cpus'', PInt (ep_task_cpus p)),
     (''memory_reserve_bytes'', PInt (ep_memory_reserve_bytes p)), (''minimum_speed_x'', PFloat (ep_minimum_speed_x p)),
     (''lease_safety_factor'', PFloat (ep_lease_safety_factor p)),
     (''lease_margin_seconds'', PFloat (ep_lease_margin_seconds p))]"

text \<open>\<open>__post_init__\<close> fills in the task count, so that every constructed profile has one.\<close>

definition post_init :: "execution_profile \<Rightarrow> execution_profile res" where
  "post_init p =
     (let q = (case ep_planned_task_count p of
                 None \<Rightarrow> p\<lparr>ep_planned_task_count := Some (ep_executor_instances p)\<rparr> | Some _ \<Rightarrow> p) in
      if (case ep_planned_task_count q of None \<Rightarrow> True | Some n \<Rightarrow> n < 1) then Inl ProcessValidationError
      else if \<not> (0 \<le> ep_rss_headroom_fraction q \<and> ep_rss_headroom_fraction q < 1)
      then Inl ProcessValidationError else Inr q)"

definition planned_tasks :: "execution_profile \<Rightarrow> int" where
  "planned_tasks p = (case ep_planned_task_count p of None \<Rightarrow> ep_executor_instances p | Some n \<Rightarrow> n)"

definition physical_partitions :: "execution_profile \<Rightarrow> nat list" where
  "physical_partitions p = [0..<nat (planned_tasks p)]"

definition spark_settings :: "execution_profile \<Rightarrow> (string \<times> string) list" where
  "spark_settings p =
     [(''spark.dynamicAllocation.enabled'', ''false''), (''spark.speculation'', ''false''),
      (''spark.executor.instances'', int_dec (ep_executor_instances p)),
      (''spark.executor.cores'', int_dec (ep_executor_cores p)),
      (''spark.executor.memory'', ''1g''), (''spark.task.cpus'', int_dec (ep_task_cpus p))]"

definition LOCAL_TWO_WORKERS :: execution_profile where
  "LOCAL_TWO_WORKERS = \<lparr>ep_name = ''local-two-workers'', ep_executor_instances = 2,
     ep_executor_cores = 1, ep_executor_memory_bytes = 1073741824, ep_task_cpus = 1,
     ep_fixed_allocation = True, ep_speculation = False, ep_memory_reserve_bytes = 268435456,
     ep_heartbeat_seconds = 10, ep_minimum_speed_x = 1, ep_lease_safety_factor = 5 / 4,
     ep_lease_margin_seconds = 30, ep_planned_task_count = Some 2, ep_peak_rss_bytes = None,
     ep_rss_headroom_fraction = fround (1 / 5)\<rparr>"

text \<open>\<open>str.lower\<close> on code points below 256\<close>

definition lower_char :: "char \<Rightarrow> char" where
  "lower_char c = (let n = of_char c :: nat in
     if (65 \<le> n \<and> n \<le> 90) \<or> (192 \<le> n \<and> n \<le> 222 \<and> n \<noteq> 215) then char_of (n + 32) else c)"

definition py_lower :: "string \<Rightarrow> string" where
  "py_lower = map lower_char"

definition resolve_profile :: "pylib \<Rightarrow> string \<Rightarrow> (string \<times> pyval) list option \<Rightarrow> execution_profile res" where
  "resolve_profile lib name spark_overrides =
     (if name \<notin> {''local-two-workers'', ''sjd-local''} then Inl ProcessValidationError
      else let p = LOCAL_TWO_WORKERS;
               supplied = map (\<lambda>(k, v). (k, py_lower (py_str lib v)))
                            (case spark_overrides of None \<Rightarrow> [] | Some d \<Rightarrow> d) in
        if filter (\<lambda>(k, v). map_of (spark_settings p) k = None) supplied \<noteq> []
        then Inl ProcessValidationError
        else if filter (\<lambda>(k, v). map_option py_lower (map_of (spark_settings p) k) \<noteq> Some v) supplied \<noteq> []
        then Inl ProcessValidationError
        else if \<not> ep_fixed_allocation p \<or> ep_speculation p \<or> ep_executor_instances p \<noteq> 2
             \<or> ep_executor_cores p \<noteq> 1 \<or> ep_task_cpus p \<noteq> 1
        then Inl ProcessValidationError
        else Inr p)"

definition REVIEWED_TASK_CPU_WIDTHS :: "int list" where
  "REVIEWED_TASK_CPU_WIDTHS = [1, 2, 4]"

text \<open>Inventory errors are re-raised as validation errors.\<close>

definition as_validation :: "'a res \<Rightarrow> 'a res" where
  "as_validation m = (case m of Inl e \<Rightarrow> Inl (if e = ExecutorInventoryError then ProcessValidationError else e)
     | Inr x \<Rightarrow> Inr x)"

definition build_profile_from_inventory ::
    "string \<Rightarrow> executor_record list \<Rightarrow> int \<Rightarrow> int \<Rightarrow> int \<Rightarrow> int \<Rightarrow> pyfloat \<Rightarrow> pyfloat \<Rightarrow> pyfloat \<Rightarrow> pyfloat
      \<Rightarrow> bool \<Rightarrow> int option \<Rightarrow> int option \<Rightarrow> pyfloat \<Rightarrow> execution_profile res" where
  "build_profile_from_inventory name executors task_cpus expected_executor_cores executor_memory_bytes
     memory_reserve_bytes heartbeat_seconds minimum_speed_x lease_safety_factor lease_margin_seconds
     fixed_allocation peak_rss_bytes operator_cap rss_headroom_fraction =
     (if executors = [] then Inl ProcessValidationError
      else if task_cpus \<notin> set REVIEWED_TASK_CPU_WIDTHS then Inl ProcessValidationError
      else bindE (as_validation (bindE
             (assert_matches_reviewed_profile executors expected_executor_cores task_cpus) (\<lambda>_.
              plan_task_width executors task_cpus operator_cap peak_rss_bytes rss_headroom_fraction)))
        (\<lambda>placement. post_init
           \<lparr>ep_name = name, ep_executor_instances = int (length executors),
            ep_executor_cores = expected_executor_cores,
            ep_executor_memory_bytes = executor_memory_bytes, ep_task_cpus = task_cpus,
            ep_fixed_allocation = fixed_allocation, ep_speculation = False,
            ep_memory_reserve_bytes = memory_reserve_bytes,
            ep_heartbeat_seconds = heartbeat_seconds, ep_minimum_speed_x = minimum_speed_x,
            ep_lease_safety_factor = lease_safety_factor,
            ep_lease_margin_seconds = lease_margin_seconds,
            ep_planned_task_count = Some (tw_planned_task_count placement),
            ep_peak_rss_bytes = peak_rss_bytes,
            ep_rss_headroom_fraction = rss_headroom_fraction\<rparr>))"

section \<open>Concurrency\<close>

record envelope_item =
  ei_ordinal :: int
  ei_work_id :: string
  ei_attempt_id :: string
  ei_fence :: int
  ei_payload_sha256 :: string
  ei_payload :: "(string \<times> pyval) list"
  ei_config_sha256 :: string
  ei_release_digest :: string
  ei_duration_seconds :: pyfloat
  ei_runtime_key :: string

record concurrency_decision =
  cd_concurrency :: int
  cd_item_limit :: int
  cd_profile_limit :: int
  cd_cpu_limit :: int
  cd_memory_limit :: "int option"
  cd_peak_rss_bytes :: "int option"
  cd_duration_only_fallback :: bool

definition memory_limit :: "execution_profile \<Rightarrow> int option \<Rightarrow> int option res" where
  "memory_limit p peak_rss_bytes = (case peak_rss_bytes of
     None \<Rightarrow> Inr None
   | Some peak \<Rightarrow>
       if peak < 1 then Inl ProcessValidationError
       else let usable = ep_executor_memory_bytes p - ep_memory_reserve_bytes p in
         if peak > usable then Inl ProcessValidationError
         else Inr (Some (ep_executor_instances p * (usable div peak))))"

definition conservative_concurrency :: "int \<Rightarrow> execution_profile \<Rightarrow> int option \<Rightarrow> concurrency_decision res" where
  "conservative_concurrency item_count p peak_rss_bytes =
     (if item_count < 1 then Inl ProcessValidationError
      else if ep_task_cpus p = 0 then Inl ZeroDivisionError
      else let cpu_limit = ep_executor_instances p * ep_executor_cores p div ep_task_cpus p in
        bindE (memory_limit p peak_rss_bytes) (\<lambda>memory.
          Inr \<lparr>cd_concurrency = Min (set ([item_count, planned_tasks p, cpu_limit]
                 @ (case memory of None \<Rightarrow> [] | Some m \<Rightarrow> [m]))),
               cd_item_limit = item_count, cd_profile_limit = planned_tasks p,
               cd_cpu_limit = cpu_limit, cd_memory_limit = memory,
               cd_peak_rss_bytes = peak_rss_bytes,
               cd_duration_only_fallback = (peak_rss_bytes = None)\<rparr>))"

section \<open>The LPT plan\<close>

record planned_item =
  pi_item :: envelope_item
  pi_bucket_id :: nat
  pi_physical_partition :: nat
  pi_wave_index :: nat
  pi_planned_cost_seconds :: pyfloat

record bucket_plan =
  bp_bucket_id :: nat
  bp_runtime_key :: string
  bp_physical_partition :: nat
  bp_total_cost_seconds :: pyfloat
  bp_items :: "planned_item list"

record wave_plan =
  wp_index :: nat
  wp_projected_cost_seconds :: pyfloat
  wp_items :: "planned_item list"

record execution_plan =
  xp_concurrency :: concurrency_decision
  xp_buckets :: "bucket_plan list"
  xp_waves :: "wave_plan list"
  xp_projected_makespan_seconds :: pyfloat

text \<open>One round of the greedy loop: the item goes to the first bucket of least cost.\<close>

definition assign_item :: "envelope_item list list \<times> pyfloat list \<Rightarrow> envelope_item
    \<Rightarrow> envelope_item list list \<times> pyfloat list" where
  "assign_item bc item = (case bc of (buckets, costs) \<Rightarrow>
     let target = argmin_index costs in
     (buckets[target := (buckets ! target) @ [item]],
      costs[target := fadd (costs ! target) (ei_duration_seconds item)]))"

definition plan_order :: "envelope_item list \<Rightarrow> envelope_item list" where
  "plan_order items = sort_key (\<lambda>i. (- ei_duration_seconds i, ei_work_id i)) items"

definition assign_items :: "nat \<Rightarrow> envelope_item list \<Rightarrow> envelope_item list list \<times> pyfloat list" where
  "assign_items n items = foldl assign_item (replicate n [], replicate n 0) (plan_order items)"

definition plan_bucket :: "nat \<Rightarrow> nat \<Rightarrow> envelope_item list \<Rightarrow> planned_item list" where
  "plan_bucket bucket_id physical bucket = map (\<lambda>(wave, item).
     \<lparr>pi_item = item, pi_bucket_id = bucket_id, pi_physical_partition = physical,
      pi_wave_index = wave, pi_planned_cost_seconds = ei_duration_seconds item\<rparr>)
     (zip [0..<length bucket] bucket)"

definition make_buckets :: "execution_profile \<Rightarrow> string \<Rightarrow> envelope_item list list \<Rightarrow> pyfloat list
    \<Rightarrow> bucket_plan list res" where
  "make_buckets p runtime_key buckets costs = mapE (\<lambda>(bucket_id, bucket).
     if length (physical_partitions p) \<le> bucket_id then Inl IndexError
     else let physical = physical_partitions p ! bucket_id in
       Inr \<lparr>bp_bucket_id = bucket_id, bp_runtime_key = runtime_key, bp_physical_partition = physical,
            bp_total_cost_seconds = costs ! bucket_id,
            bp_items = plan_bucket bucket_id physical bucket\<rparr>)
     (zip [0..<length buckets] buckets)"

definition make_waves :: "bucket_plan list \<Rightarrow> wave_plan list" where
  "make_waves bs = (let planned = concat (map bp_items bs) in
     map (\<lambda>i. let items = filter (\<lambda>p. pi_wave_index p = i) planned in
            \<lparr>wp_index = i, wp_projected_cost_seconds = Max (set (map pi_planned_cost_seconds items)),
             wp_items = sort_key pi_bucket_id items\<rparr>)
       (sort (remdups (map pi_wave_index planned))))"

definition plan_duration_lpt ::
    "envelope_item list \<Rightarrow> execution_profile \<Rightarrow> int option \<Rightarrow> int option \<Rightarrow> execution_plan res" where
  "plan_duration_lpt items p peak_rss_bytes minimum_videos_per_group =
     (case items of
        [] \<Rightarrow> Inl ProcessValidationError
      | first # _ \<Rightarrow>
          bindE (conservative_concurrency (int (length items)) p peak_rss_bytes) (\<lambda>decision.
            if length (remdups (map ei_runtime_key items)) \<noteq> 1 then Inl ProcessValidationError
            else if cd_concurrency decision < 1 then Inl ValueError
            else let (buckets, costs) = assign_items (nat (cd_concurrency decision)) items in
              bindE (case minimum_videos_per_group of
                       None \<Rightarrow> Inr ()
                     | Some m \<Rightarrow> as_validation (assert_minimum_videos_per_group
                         (map (\<lambda>b. int (length b)) buckets) (int (length items)) m)) (\<lambda>_.
              bindE (make_buckets p (ei_runtime_key first) buckets costs) (\<lambda>bs.
                Inr \<lparr>xp_concurrency = decision, xp_buckets = bs, xp_waves = make_waves bs,
                     xp_projected_makespan_seconds = Max (set costs)\<rparr>))))"

section \<open>Lease admission\<close>

definition admit_lease :: "execution_plan \<Rightarrow> execution_profile \<Rightarrow> pyfloat \<Rightarrow> pyfloat \<Rightarrow> pyfloat res" where
  "admit_lease plan p lease_expires_at now =
     (if ep_minimum_speed_x p = 0 then Inl ZeroDivisionError
      else let remaining = fadd lease_expires_at (- now);
               projected = fmul (fdiv (xp_projected_makespan_seconds plan) (ep_minimum_speed_x p))
                             (ep_lease_safety_factor p);
               required = fadd projected (ep_lease_margin_seconds p)
        in if remaining \<le> required then Inl LeaseAdmissionError else Inr projected)"

end
