(* ===== verification/Control_Register.thy ===== *)
theory Control_Register
  imports Control_Schema
begin

text \<open>
  Registration in \<^verbatim>\<open>sjd_control.py\<close>: parsing and normalising a registration manifest, registering
  one work item, registering a whole manifest in one transaction, and looking an item up.
\<close>

section \<open>Requests\<close>

record request =
  q_work_id :: string
  q_payload :: "(string \<times> pyval) list"
  q_runtime_key :: string
  q_duration_seconds :: pyfloat
  q_config_sha256 :: string
  q_release_digest :: string
  q_max_attempts :: int
  q_available_at :: "pyfloat option"

definition optional_finite :: "pyval \<Rightarrow> pyfloat option res" where
  "optional_finite v = (case v of PNone \<Rightarrow> Inr None
     | _ \<Rightarrow> bindE (finite_num v) (\<lambda>x. Inr (Some x)))"

definition normalize_item :: "pyval \<Rightarrow> request res" where
  "normalize_item raw = (case raw of
     PDict d \<Rightarrow> (case dget d ''payload'' PNone of
        PDict payload \<Rightarrow>
          bindE (bounded_int 1 100 (dget d ''max_attempts'' (PInt 3))) (\<lambda>max_attempts.
          bindE (required_text (dget d ''work_id'' PNone)) (\<lambda>work_id.
          bindE (required_text (dget d ''runtime_key'' PNone)) (\<lambda>runtime_key.
          bindE (positive_finite (dget d ''duration_seconds'' PNone)) (\<lambda>duration.
          bindE (required_text (dget d ''config_sha256'' PNone)) (\<lambda>config.
          bindE (required_text (dget d ''release_digest'' PNone)) (\<lambda>release.
          bindE (optional_finite (dget d ''available_at'' PNone)) (\<lambda>available.
            Inr \<lparr>q_work_id = work_id, q_payload = payload, q_runtime_key = runtime_key,
                 q_duration_seconds = duration, q_config_sha256 = config,
                 q_release_digest = release, q_max_attempts = max_attempts,
                 q_available_at = available\<rparr>)))))))
      | _ \<Rightarrow> Inl ValueError)
   | _ \<Rightarrow> Inl ValueError)"

definition normalize_registration_requests :: "pyval \<Rightarrow> request list res" where
  "normalize_registration_requests values = (case values of
     PList [] \<Rightarrow> Inl ValueError
   | PList vs \<Rightarrow> mapE normalize_item vs
   | _ \<Rightarrow> Inl ValueError)"

text \<open>\<open>str.splitlines\<close>\<close>

definition line_break :: "char \<Rightarrow> bool" where
  "line_break c \<longleftrightarrow> (let n = of_char c :: nat in
     (10 \<le> n \<and> n \<le> 13) \<or> (28 \<le> n \<and> n \<le> 30) \<or> n = 133)"

fun splitlines_from :: "bool \<Rightarrow> string \<Rightarrow> string \<Rightarrow> string list" where
  "splitlines_from after_cr [] acc = (if acc = [] then [] else [rev acc])"
| "splitlines_from after_cr (c # cs) acc =
     (if after_cr \<and> c = CHR 0x0A then splitlines_from False cs acc
      else if line_break c then rev acc # splitlines_from (c = CHR 0x0D) cs []
      else splitlines_from False cs (c # acc))"

definition parse_registration_manifest :: "pylib \<Rightarrow> string \<Rightarrow> request list res" where
  "parse_registration_manifest lib text =
     bindE (case json_loads lib text of
              Some v \<Rightarrow> Inr v
            | None \<Rightarrow> bindE (mapE (\<lambda>line. case json_loads lib line of
                                  None \<Rightarrow> Inl ValueError | Some v \<Rightarrow> Inr v)
                              (filter (\<lambda>line. py_strip line \<noteq> []) (splitlines_from False text [])))
                        (\<lambda>vs. Inr (PList vs)))
       (\<lambda>decoded. let decoded = (case decoded of
                       PDict d \<Rightarrow> dget d ''items'' (PList [PDict d]) | v \<Rightarrow> v) in
          case decoded of
            PList (v # vs) \<Rightarrow> normalize_registration_requests decoded
          | _ \<Rightarrow> Inl ValueError)"

section \<open>register\<close>

record register_args =
  ra_work_id :: pyval
  ra_payload :: pyval
  ra_runtime_key :: pyval
  ra_duration_seconds :: pyval
  ra_config_sha256 :: pyval
  ra_release_digest :: pyval
  ra_max_attempts :: pyval
  ra_available_at :: pyval

definition validate_register :: "register_args \<Rightarrow> request res" where
  "validate_register ra =
     bindE (required_text (ra_work_id ra)) (\<lambda>identity.
     bindE (required_text (ra_runtime_key ra)) (\<lambda>runtime.
     bindE (required_text (ra_config_sha256 ra)) (\<lambda>config.
     bindE (required_text (ra_release_digest ra)) (\<lambda>release.
     bindE (positive_finite (ra_duration_seconds ra)) (\<lambda>duration.
     bindE (bounded_int 1 100 (ra_max_attempts ra)) (\<lambda>max_attempts.
     case ra_payload ra of
       PDict payload \<Rightarrow> bindE (optional_finite (ra_available_at ra)) (\<lambda>available.
         Inr \<lparr>q_work_id = identity, q_payload = payload, q_runtime_key = runtime,
              q_duration_seconds = duration, q_config_sha256 = config,
              q_release_digest = release, q_max_attempts = max_attempts,
              q_available_at = available\<rparr>)
     | _ \<Rightarrow> Inl ValueError))))))"

type_synonym immutable = "string \<times> string \<times> pyfloat \<times> string \<times> string \<times> int"

definition work_immutable :: "work_row \<Rightarrow> immutable" where
  "work_immutable w = (w_payload_sha256 w, w_runtime_key w, w_duration_seconds w,
     w_config_sha256 w, w_release_digest w, w_original_max_attempts w)"

definition request_immutable :: "string \<Rightarrow> request \<Rightarrow> immutable" where
  "request_immutable payload_sha256 q = (payload_sha256, q_runtime_key q, q_duration_seconds q,
     q_config_sha256 q, q_release_digest q, q_max_attempts q)"

definition new_work :: "string \<Rightarrow> string \<Rightarrow> request \<Rightarrow> pyfloat \<Rightarrow> work_row" where
  "new_work payload_json payload_sha256 q now = \<lparr>w_work_id = q_work_id q,
     w_payload_json = payload_json, w_payload_sha256 = payload_sha256,
     w_runtime_key = q_runtime_key q, w_duration_seconds = q_duration_seconds q,
     w_config_sha256 = q_config_sha256 q, w_release_digest = q_release_digest q,
     w_status = W_READY, w_attempt_count = 0, w_max_attempts = q_max_attempts q,
     w_original_max_attempts = q_max_attempts q, w_fence = 0,
     w_available_at = (case q_available_at q of None \<Rightarrow> now | Some t \<Rightarrow> t),
     w_lease_owner = None, w_lease_attempt_id = None, w_lease_expires_at = None,
     w_committed_attempt_id = None, w_publication_sequence = None, w_replay_generation = 0,
     w_last_replay_id = None, w_last_error = None, w_created_at = now, w_updated_at = now\<rparr>"

definition find_work :: "db \<Rightarrow> string \<Rightarrow> work_row option" where
  "find_work d i = find (\<lambda>w. w_work_id w = i) (db_work d)"

text \<open>The body of the transaction: return the existing row, reject a conflict, or insert.\<close>

definition register_row :: "pylib \<Rightarrow> pyfloat \<Rightarrow> string \<Rightarrow> request \<Rightarrow> db \<Rightarrow> (db \<times> registered_work) res" where
  "register_row lib now payload_json q d =
     (let payload_sha256 = sha256_hex lib payload_json in
      case find_work d (q_work_id q) of
        Some w \<Rightarrow>
          if work_immutable w \<noteq> request_immutable payload_sha256 q
          then Inl ImmutableConflictError
          else Inr (d, registered w)
      | None \<Rightarrow>
          let w = new_work payload_json payload_sha256 q now in
          Inr (d\<lparr>db_work := db_work d @ [w]\<rparr>, registered w))"

definition register :: "pylib \<Rightarrow> pyval \<Rightarrow> register_args \<Rightarrow> store \<Rightarrow> registered_work res \<times> store" where
  "register lib clock ra s =
     (case bindE (validate_register ra) (\<lambda>q.
           bindE (canonical_json lib (PDict (q_payload q))) (\<lambda>payload_json.
           bindE (finite_num clock) (\<lambda>now. Inr (q, payload_json, now)))) of
        Inl e \<Rightarrow> (Inl e, s)
      | Inr (q, payload_json, now) \<Rightarrow> transaction (register_row lib now payload_json q) s)"

section \<open>register_many\<close>

type_synonym many_state = "db \<times> registered_work list \<times> (string \<times> immutable) list"

definition register_many_step :: "pylib \<Rightarrow> pyfloat \<Rightarrow> request \<Rightarrow> many_state \<Rightarrow> many_state res" where
  "register_many_step lib now q st = (case st of (d, done, seen) \<Rightarrow>
     bindE (canonical_json lib (PDict (q_payload q))) (\<lambda>payload_json.
       let imm = request_immutable (sha256_hex lib payload_json) q in
       case map_of seen (q_work_id q) of
         Some previous \<Rightarrow>
           if previous \<noteq> imm then Inl ImmutableConflictError else Inr (d, done, seen)
       | None \<Rightarrow>
           bindE (register_row lib now payload_json q d) (\<lambda>(d', r).
             Inr (d', done @ [r], (q_work_id q, imm) # seen))))"

definition register_many ::
    "pylib \<Rightarrow> pyval \<Rightarrow> pyval \<Rightarrow> store \<Rightarrow> registered_work list res \<times> store" where
  "register_many lib clock requests s =
     (case bindE (normalize_registration_requests requests) (\<lambda>qs.
           bindE (finite_num clock) (\<lambda>now. Inr (qs, now))) of
        Inl e \<Rightarrow> (Inl e, s)
      | Inr (qs, now) \<Rightarrow> transaction (\<lambda>d.
          bindE (foldE (register_many_step lib now) qs (d, [], [])) (\<lambda>(d', done, seen).
            Inr (d', done))) s)"

definition get_work :: "pyval \<Rightarrow> store \<Rightarrow> registered_work res" where
  "get_work work_id s = bindE (required_text work_id) (\<lambda>i.
     case find_work (st_db s) i of None \<Rightarrow> Inl KeyError | Some w \<Rightarrow> Inr (registered w))"

end
