(* ===== verification/Control_Claim.thy ===== *)
theory Control_Claim
  imports Control_Register Control_Admission
begin

text \<open>
  Claiming in \<^verbatim>\<open>sjd_control.py\<close>: selecting one runtime's oldest ready work, admitting the largest
  prefix that fits the lease, writing the immutable claim envelope and leasing every item under a
  new fence; and reading an envelope back.
\<close>

section \<open>Selection\<close>

record claim_args =
  ca_owner :: pyval
  ca_max_items :: pyval
  ca_lease_seconds :: pyval
  ca_maximum_active_batches :: pyval
  ca_minimum_speed_x :: pyval
  ca_safety_factor :: pyval
  ca_margin_seconds :: pyval
  ca_minimum_items :: pyval
  ca_allowed_work_ids :: pyval
  ca_process_profile :: "profile option"
  ca_peak_rss_bytes :: pyval
  ca_expected_release_digest :: pyval

record claim_settings =
  cl_owner :: string
  cl_max_items :: int
  cl_minimum_items :: int
  cl_maximum_active :: "int option"
  cl_lease :: pyfloat
  cl_admission :: admission
  cl_scope :: "string list option"

definition allowed_work_scope :: "pyval \<Rightarrow> string list option res" where
  "allowed_work_scope v = (case v of
     PNone \<Rightarrow> Inr None
   | PList vs \<Rightarrow> bindE (mapE required_text vs) (\<lambda>ids. Inr (Some (sort (remdups ids))))
   | PDict d \<Rightarrow> bindE (mapE (\<lambda>kv. required_text (PStr (fst kv))) d)
                  (\<lambda>ids. Inr (Some (sort (remdups ids))))
   | _ \<Rightarrow> Inl ValueError)"

definition validate_claim :: "claim_args \<Rightarrow> claim_settings res" where
  "validate_claim ca =
     bindE (required_text (ca_owner ca)) (\<lambda>owner_id.
     bindE (bounded_int 1 100 (ca_max_items ca)) (\<lambda>max_items.
     bindE (bounded_int 1 max_items (ca_minimum_items ca)) (\<lambda>minimum_items.
     bindE (case ca_maximum_active_batches ca of PNone \<Rightarrow> Inr None
            | v \<Rightarrow> bindE (bounded_int 1 100 v) (\<lambda>n. Inr (Some n))) (\<lambda>maximum_active.
     bindE (positive_finite (ca_lease_seconds ca)) (\<lambda>lease.
     bindE (claim_admission_settings (ca_process_profile ca) (ca_minimum_speed_x ca)
              (ca_safety_factor ca) (ca_margin_seconds ca) (ca_peak_rss_bytes ca)) (\<lambda>ad.
     if ad_factor ad < 1 then Inl ValueError
     else bindE (allowed_work_scope (ca_allowed_work_ids ca)) (\<lambda>scope.
       Inr \<lparr>cl_owner = owner_id, cl_max_items = max_items, cl_minimum_items = minimum_items,
            cl_maximum_active = maximum_active, cl_lease = lease, cl_admission = ad,
            cl_scope = scope\<rparr>)))))))"

definition batch_active :: "batch_row \<Rightarrow> bool" where
  "batch_active b \<longleftrightarrow> b_status b = B_LEASED \<or> b_status b = B_SEALED"

definition in_scope :: "string list option \<Rightarrow> work_row \<Rightarrow> bool" where
  "in_scope scope w = (case scope of None \<Rightarrow> True | Some ids \<Rightarrow> w_work_id w \<in> set ids)"

text \<open>\<open>... WHERE w.status = 'READY' AND w.available_at <= now\<close>, joined with the scope.\<close>

definition eligible :: "string list option \<Rightarrow> pyfloat \<Rightarrow> db \<Rightarrow> work_row list" where
  "eligible scope now d =
     filter (\<lambda>w. in_scope scope w \<and> w_status w = W_READY \<and> w_available_at w \<le> now) (db_work d)"

definition require_release_compatibility :: "work_row list \<Rightarrow> pyval \<Rightarrow> unit res" where
  "require_release_compatibility rows expected_release_digest = (case expected_release_digest of
     PNone \<Rightarrow> Inr ()
   | v \<Rightarrow> bindE (required_text v) (\<lambda>expected.
       if filter (\<lambda>w. w_release_digest w \<noteq> expected) rows \<noteq> [] then Inl ImmutableConflictError
       else Inr ()))"

definition runtime_rows :: "work_row list \<Rightarrow> string \<Rightarrow> work_row list" where
  "runtime_rows rows k = filter (\<lambda>w. w_runtime_key w = k) rows"

text \<open>
  \<open>SELECT runtime_key, MIN(created_at) ... GROUP BY runtime_key HAVING COUNT(*) >= minimum
  ORDER BY first_created, runtime_key LIMIT 1\<close>
\<close>

definition select_runtime :: "work_row list \<Rightarrow> int \<Rightarrow> string option" where
  "select_runtime rows minimum =
     (case sort_key (\<lambda>k. (Min (set (map w_created_at (runtime_rows rows k))), k))
             (filter (\<lambda>k. minimum \<le> int (length (runtime_rows rows k)))
               (remdups (map w_runtime_key rows))) of
        [] \<Rightarrow> None | k # ks \<Rightarrow> Some k)"

definition queue_order :: "work_row list \<Rightarrow> work_row list" where
  "queue_order rows = sort_key (\<lambda>w. (w_created_at w, w_work_id w)) rows"

record claim_plan =
  pl_runtime_key :: string
  pl_rows :: "work_row list"
  pl_workers :: int
  pl_makespan :: pyfloat

definition claim_select ::
    "claim_settings \<Rightarrow> pyval \<Rightarrow> pyfloat \<Rightarrow> db \<Rightarrow> claim_plan option res" where
  "claim_select cl expected_release_digest now d =
     (if (case cl_maximum_active cl of None \<Rightarrow> False
          | Some n \<Rightarrow> n \<le> int (length (filter batch_active (db_batches d)))) then Inr None
      else if cl_scope cl = Some [] then Inr None
      else let rows = eligible (cl_scope cl) now d in
        bindE (require_release_compatibility rows expected_release_digest) (\<lambda>_.
          case select_runtime rows (cl_minimum_items cl) of
            None \<Rightarrow> Inr None
          | Some k \<Rightarrow>
              let picked = take (nat (cl_max_items cl)) (queue_order (runtime_rows rows k)) in
              if int (length picked) < cl_minimum_items cl then Inr None
              else bindE (largest_admissible_claim_prefix picked (nat (cl_minimum_items cl))
                            (cl_admission cl) (cl_lease cl)) (\<lambda>(prefix, workers, makespan).
                Inr (Some \<lparr>pl_runtime_key = k, pl_rows = prefix, pl_workers = workers,
                           pl_makespan = makespan\<rparr>))))"

section \<open>The envelope\<close>

text \<open>\<open>_new_id\<close>: the \<open>n\<close>-th call of the id factory within the operation.\<close>

definition new_id :: "(nat \<Rightarrow> string) \<Rightarrow> nat \<Rightarrow> string res" where
  "new_id ids n = required_text (PStr (ids n))"

fun claim_items :: "(nat \<Rightarrow> string) \<Rightarrow> nat \<Rightarrow> work_row list \<Rightarrow> claimed_work list res" where
  "claim_items ids n [] = Inr []"
| "claim_items ids n (w # ws) = bindE (new_id ids n) (\<lambda>attempt_id.
     bindE (claim_items ids (Suc n) ws) (\<lambda>cs.
       Inr (\<lparr>c_work_id = w_work_id w, c_attempt_id = attempt_id, c_fence = w_fence w + 1,
             c_payload_sha256 = w_payload_sha256 w\<rparr> # cs)))"

fun envelope_items :: "pylib \<Rightarrow> nat \<Rightarrow> (work_row \<times> claimed_work) list \<Rightarrow> pyval list res" where
  "envelope_items lib n [] = Inr []"
| "envelope_items lib n ((w, c) # wcs) = (case json_loads lib (w_payload_json w) of
     None \<Rightarrow> Inl ValueError
   | Some payload \<Rightarrow> bindE (envelope_items lib (Suc n) wcs) (\<lambda>vs.
       Inr (PDict [(''ordinal'', PInt (int n)), (''work_id'', PStr (c_work_id c)),
                   (''attempt_id'', PStr (c_attempt_id c)), (''fence'', PInt (c_fence c)),
                   (''payload_sha256'', PStr (c_payload_sha256 c)), (''payload'', payload),
                   (''config_sha256'', PStr (w_config_sha256 w)),
                   (''release_digest'', PStr (w_release_digest w)),
                   (''duration_seconds'', PFloat (w_duration_seconds w))] # vs)))"

definition claim_envelope ::
    "claim_settings \<Rightarrow> claim_plan \<Rightarrow> string \<Rightarrow> pyfloat \<Rightarrow> pyfloat \<Rightarrow> string \<Rightarrow> pyval list \<Rightarrow> pyval" where
  "claim_envelope cl pl batch_id now expires membership items = PDict
     [(''schema_version'', PInt 1), (''batch_id'', PStr batch_id), (''owner'', PStr (cl_owner cl)),
      (''runtime_key'', PStr (pl_runtime_key pl)), (''claimed_at'', PFloat now),
      (''lease_expires_at'', PFloat expires), (''membership_sha256'', PStr membership),
      (''admission'', PDict
        [(''process_profile'', PStr (ad_name (cl_admission cl))),
         (''worker_count'', PInt (pl_workers pl)),
         (''projected_makespan_seconds'', PFloat (pl_makespan pl)),
         (''minimum_speed_x'', PFloat (ad_speed (cl_admission cl))),
         (''safety_factor'', PFloat (ad_factor (cl_admission cl))),
         (''margin_seconds'', PFloat (ad_margin (cl_admission cl)))]),
      (''items'', PList items)]"

section \<open>Leasing the rows\<close>

definition insert_batch :: "batch_row \<Rightarrow> db \<Rightarrow> db res" where
  "insert_batch b d =
     (if b_batch_id b \<in> b_batch_id ` set (db_batches d) \<or> b_item_count b \<le> 0
      then Inl IntegrityError else Inr (d\<lparr>db_batches := db_batches d @ [b]\<rparr>))"

text \<open>Primary key, \<open>UNIQUE(work_id, fence)\<close>, \<open>CHECK (fence > 0)\<close> and the two foreign keys.\<close>

definition insert_attempt :: "attempt_row \<Rightarrow> db \<Rightarrow> db res" where
  "insert_attempt a d =
     (if a_attempt_id a \<in> a_attempt_id ` set (db_attempts d)
         \<or> (a_work_id a, a_fence a) \<in> (\<lambda>x. (a_work_id x, a_fence x)) ` set (db_attempts d)
         \<or> a_fence a \<le> 0
         \<or> a_work_id a \<notin> w_work_id ` set (db_work d)
         \<or> a_batch_id a \<notin> b_batch_id ` set (db_batches d)
      then Inl IntegrityError else Inr (d\<lparr>db_attempts := db_attempts d @ [a]\<rparr>))"

definition insert_member :: "member_row \<Rightarrow> db \<Rightarrow> db res" where
  "insert_member m d =
     (if (m_batch_id m, m_ordinal m) \<in> (\<lambda>x. (m_batch_id x, m_ordinal x)) ` set (db_members d)
         \<or> (m_batch_id m, m_work_id m) \<in> (\<lambda>x. (m_batch_id x, m_work_id x)) ` set (db_members d)
         \<or> m_attempt_id m \<in> m_attempt_id ` set (db_members d)
         \<or> m_batch_id m \<notin> b_batch_id ` set (db_batches d)
         \<or> m_attempt_id m \<notin> a_attempt_id ` set (db_attempts d)
      then Inl IntegrityError else Inr (d\<lparr>db_members := db_members d @ [m]\<rparr>))"

definition lease_work :: "string \<Rightarrow> pyfloat \<Rightarrow> pyfloat \<Rightarrow> claimed_work \<Rightarrow> work_row \<Rightarrow> work_row" where
  "lease_work owner expires now c w = w\<lparr>w_status := W_LEASED,
     w_attempt_count := w_attempt_count w + 1, w_fence := c_fence c, w_lease_owner := Some owner,
     w_lease_attempt_id := Some (c_attempt_id c), w_lease_expires_at := Some expires,
     w_updated_at := now\<rparr>"

definition claimable :: "claimed_work \<Rightarrow> work_row \<Rightarrow> bool" where
  "claimable c w \<longleftrightarrow> w_work_id w = c_work_id c \<and> w_status w = W_READY \<and> w_fence w = c_fence c - 1"

definition claimed_attempt :: "string \<Rightarrow> pyfloat \<Rightarrow> pyfloat \<Rightarrow> claimed_work \<Rightarrow> attempt_row" where
  "claimed_attempt batch_id expires now c = \<lparr>a_attempt_id = c_attempt_id c,
     a_work_id = c_work_id c, a_batch_id = batch_id, a_fence = c_fence c, a_status = A_LEASED,
     a_lease_expires_at = expires, a_payload_sha256 = c_payload_sha256 c, a_output_path = None,
     a_output_sha256 = None, a_terminal_succeeded = None, a_sealed_at = None,
     a_recovery_outcome = None, a_created_at = now\<rparr>"

definition claimed_member :: "string \<Rightarrow> nat \<Rightarrow> claimed_work \<Rightarrow> member_row" where
  "claimed_member batch_id ordinal c = \<lparr>m_batch_id = batch_id, m_ordinal = ordinal,
     m_work_id = c_work_id c, m_attempt_id = c_attempt_id c, m_fence = c_fence c,
     m_payload_sha256 = c_payload_sha256 c\<rparr>"

fun claim_loop :: "string \<Rightarrow> string \<Rightarrow> pyfloat \<Rightarrow> pyfloat \<Rightarrow> nat \<Rightarrow> claimed_work list \<Rightarrow> db \<Rightarrow> db res" where
  "claim_loop owner batch_id expires now n [] d = Inr d"
| "claim_loop owner batch_id expires now n (c # cs) d =
     (if rowcount (claimable c) (db_work d) \<noteq> 1 then Inl LeaseLostError
      else bindE (insert_attempt (claimed_attempt batch_id expires now c)
             (d\<lparr>db_work := update_where (claimable c) (lease_work owner expires now c) (db_work d)\<rparr>))
        (\<lambda>d1. bindE (insert_member (claimed_member batch_id n c) d1)
          (claim_loop owner batch_id expires now (Suc n) cs)))"

definition new_batch :: "pylib \<Rightarrow> claim_settings \<Rightarrow> claim_plan \<Rightarrow> string \<Rightarrow> pyfloat \<Rightarrow> pyfloat
    \<Rightarrow> claimed_work list \<Rightarrow> stored_object \<Rightarrow> batch_row" where
  "new_batch lib cl pl batch_id expires now items so = \<lparr>b_batch_id = batch_id,
     b_owner = cl_owner cl, b_runtime_key = pl_runtime_key pl, b_status = B_LEASED,
     b_lease_expires_at = expires, b_item_count = int (length items),
     b_membership_sha256 = membership_sha256 lib items, b_envelope_version = 1,
     b_envelope_path = so_path so, b_envelope_sha256 = so_sha256 so, b_created_at = now,
     b_sealed_at = None, b_committed_at = None\<rparr>"

definition claim_apply :: "pylib \<Rightarrow> claim_settings \<Rightarrow> claim_plan \<Rightarrow> string \<Rightarrow> pyfloat \<Rightarrow> pyfloat
    \<Rightarrow> claimed_work list \<Rightarrow> stored_object \<Rightarrow> db \<Rightarrow> db res" where
  "claim_apply lib cl pl batch_id expires now items so d =
     bindE (insert_batch (new_batch lib cl pl batch_id expires now items so) d)
       (claim_loop (cl_owner cl) batch_id expires now 0 items)"

text \<open>
  \<open>claim\<close>.  The envelope file is written inside the transaction but is not part of the database:
  it stays when a later statement raises and the database rolls back.
\<close>

definition claim :: "pylib \<Rightarrow> pyval \<Rightarrow> (nat \<Rightarrow> string) \<Rightarrow> claim_args \<Rightarrow> store
    \<Rightarrow> claimed_batch option res \<times> store" where
  "claim lib clock ids ca s =
     (case bindE (validate_claim ca) (\<lambda>cl. bindE (finite_num clock) (\<lambda>now.
           bindE (claim_select cl (ca_expected_release_digest ca) now (st_db s)) (\<lambda>sel.
           case sel of
             None \<Rightarrow> Inr None
           | Some pl \<Rightarrow>
               bindE (new_id ids 0) (\<lambda>batch_id.
               bindE (claim_items ids 1 (pl_rows pl)) (\<lambda>items.
               bindE (envelope_items lib 0 (zip (pl_rows pl) items)) (\<lambda>docs.
                 let expires = fadd now (cl_lease cl);
                     env = claim_envelope cl pl batch_id now expires (membership_sha256 lib items) docs
                 in bindE (put_json lib (st_base s) env (st_files s)) (\<lambda>(so, fs).
                   Inr (Some (cl, now, pl, batch_id, expires, items, so, fs))))))))) of
        Inl e \<Rightarrow> (Inl e, s)
      | Inr None \<Rightarrow> (Inr None, s)
      | Inr (Some (cl, now, pl, batch_id, expires, items, so, fs)) \<Rightarrow>
          transaction (\<lambda>d. bindE (claim_apply lib cl pl batch_id expires now items so d) (\<lambda>d'.
            Inr (d', Some \<lparr>cb_batch_id = batch_id, cb_envelope_path = so_path so,
                           cb_envelope_sha256 = so_sha256 so, cb_runtime_key = pl_runtime_key pl,
                           cb_lease_expires_at = expires, cb_items = items\<rparr>)))
            (s\<lparr>st_files := fs\<rparr>))"

section \<open>Reading an envelope back\<close>

definition find_batch :: "db \<Rightarrow> string \<Rightarrow> batch_row option" where
  "find_batch d i = find (\<lambda>b. b_batch_id b = i) (db_batches d)"

definition load_claim_envelope ::
    "pylib \<Rightarrow> pyval \<Rightarrow> string option \<Rightarrow> string option \<Rightarrow> store \<Rightarrow> (string \<times> pyval) list res" where
  "load_claim_envelope lib batch_id envelope_path envelope_sha256 s =
     bindE (required_text batch_id) (\<lambda>identity.
       case find_batch (st_db s) identity of
         None \<Rightarrow> Inl KeyError
       | Some b \<Rightarrow>
           let supplied_path = (case envelope_path of None \<Rightarrow> b_envelope_path b | Some p \<Rightarrow> p);
               supplied_digest = (case envelope_sha256 of
                   None \<Rightarrow> b_envelope_sha256 b
                 | Some x \<Rightarrow> if x = [] then b_envelope_sha256 b else x)
           in if supplied_path \<noteq> b_envelope_path b \<or> supplied_digest \<noteq> b_envelope_sha256 b
              then Inl BatchValidationError
              else case map_of (st_files s) supplied_path of
                None \<Rightarrow> Inl BatchValidationError
              | Some content \<Rightarrow>
                  if sha256_hex lib content \<noteq> supplied_digest then Inl BatchValidationError
                  else case json_loads lib content of
                    None \<Rightarrow> Inl BatchValidationError
                  | Some (PDict d) \<Rightarrow>
                      if \<not> py_eq_int (dget d ''schema_version'' PNone) 1
                         \<or> dget d ''batch_id'' PNone \<noteq> PStr identity
                      then Inl BatchValidationError else Inr d
                  | Some _ \<Rightarrow> Inl AttributeError)"

definition load_claim_envelope_with_digest ::
    "pylib \<Rightarrow> pyval \<Rightarrow> store \<Rightarrow> ((string \<times> pyval) list \<times> string) res" where
  "load_claim_envelope_with_digest lib batch_id s = bindE (required_text batch_id) (\<lambda>identity.
     case find_batch (st_db s) identity of
       None \<Rightarrow> Inl KeyError
     | Some b \<Rightarrow> bindE (load_claim_envelope lib (PStr identity) None (Some (b_envelope_sha256 b)) s)
         (\<lambda>d. Inr (d, b_envelope_sha256 b)))"

end
