(* ===== verification/Process_Envelope.thy ===== *)
theory Process_Envelope
  imports Process_Plan Control_Claim
begin

text \<open>
  The process side's view of a claim envelope in \<^verbatim>\<open>sjd_process.py\<close>: the validators of that module,
  its canonical hashes, and \<open>verify_envelope\<close>, which recomputes every hash and checks ordinals,
  identities and runtime affinity before any work is planned.
\<close>

section \<open>Validators\<close>

definition process_text :: "pyval \<Rightarrow> string res" where
  "process_text v = (case v of
     PStr s \<Rightarrow> if py_strip s = [] then Inl ProcessValidationError else Inr s
   | _ \<Rightarrow> Inl ProcessValidationError)"

definition process_sha_text :: "pyval \<Rightarrow> string res" where
  "process_sha_text v = bindE (process_text v) (\<lambda>s.
     if length s \<noteq> 64 \<or> \<not> list_all is_hex s then Inl ProcessValidationError else Inr s)"

definition process_finite :: "pyval \<Rightarrow> pyfloat res" where
  "process_finite v = (case v of
     PInt i \<Rightarrow> Inr (fround (of_int i)) | PFloat x \<Rightarrow> Inr x | _ \<Rightarrow> Inl ProcessValidationError)"

definition process_positive_float :: "pyval \<Rightarrow> pyfloat res" where
  "process_positive_float v = bindE (process_finite v) (\<lambda>x.
     if x \<le> 0 then Inl ProcessValidationError else Inr x)"

definition process_nonnegative_float :: "pyval \<Rightarrow> pyfloat res" where
  "process_nonnegative_float v = bindE (process_finite v) (\<lambda>x.
     if x < 0 then Inl ProcessValidationError else Inr x)"

definition process_positive_int :: "pyval \<Rightarrow> int res" where
  "process_positive_int v = (case v of
     PInt i \<Rightarrow> if i < 1 then Inl ProcessValidationError else Inr i | _ \<Rightarrow> Inl ProcessValidationError)"

definition process_nonnegative_int :: "pyval \<Rightarrow> int res" where
  "process_nonnegative_int v = (case v of
     PInt i \<Rightarrow> if i < 0 then Inl ProcessValidationError else Inr i | _ \<Rightarrow> Inl ProcessValidationError)"

definition process_boolean :: "pyval \<Rightarrow> bool res" where
  "process_boolean v = (case v of PBool b \<Rightarrow> Inr b | _ \<Rightarrow> Inl ProcessValidationError)"

definition process_canonical :: "pylib \<Rightarrow> pyval \<Rightarrow> string res" where
  "process_canonical lib v = (if finite_json v then Inr (dumps lib v) else Inl ProcessValidationError)"

definition process_sha256 :: "pylib \<Rightarrow> pyval \<Rightarrow> string res" where
  "process_sha256 lib v = bindE (process_canonical lib v) (\<lambda>t. Inr (sha256_hex lib t))"

section \<open>Verified envelopes\<close>

record verified_envelope =
  ve_batch_id :: string
  ve_owner :: string
  ve_runtime_key :: string
  ve_claimed_at :: pyfloat
  ve_lease_expires_at :: pyfloat
  ve_membership_sha256 :: string
  ve_envelope_sha256 :: string
  ve_items :: "envelope_item list"

text \<open>What the control store reads of an item.\<close>

definition item_claim :: "envelope_item \<Rightarrow> claimed_work" where
  "item_claim i = \<lparr>c_work_id = ei_work_id i, c_attempt_id = ei_attempt_id i, c_fence = ei_fence i,
     c_payload_sha256 = ei_payload_sha256 i\<rparr>"

definition control_envelope :: "verified_envelope \<Rightarrow> envelope" where
  "control_envelope v = \<lparr>e_batch_id = ve_batch_id v, e_envelope_sha256 = ve_envelope_sha256 v,
     e_membership_sha256 = ve_membership_sha256 v, e_items = map item_claim (ve_items v)\<rparr>"

text \<open>\<open>execution_attempt_id\<close>: the staging identity of a claim.\<close>

definition execution_attempt_id :: "pylib \<Rightarrow> verified_envelope \<Rightarrow> string" where
  "execution_attempt_id lib v = ''process-'' @ take 24 (sha256_hex lib (dumps lib (PDict
     [(''batch_id'', PStr (ve_batch_id v)), (''membership_sha256'', PStr (ve_membership_sha256 v)),
      (''attempt_ids'', PList (map (\<lambda>i. PStr (ei_attempt_id i)) (ve_items v)))])))"

definition DETECTOR_BATCH_SIZES :: "int list" where
  "DETECTOR_BATCH_SIZES = [1, 2, 4]"

definition valid_batch_size :: "pyval \<Rightarrow> bool" where
  "valid_batch_size v = (case v of PInt i \<Rightarrow> i \<in> set DETECTOR_BATCH_SIZES | _ \<Rightarrow> False)"

section \<open>Verification\<close>

text \<open>One round of the loop over the raw items.\<close>

definition verify_item :: "pylib \<Rightarrow> string \<Rightarrow> (string \<times> string) list \<Rightarrow> nat \<Rightarrow> pyval \<Rightarrow> envelope_item res" where
  "verify_item lib runtime_key identities expected_ordinal raw = (case raw of
     PDict d \<Rightarrow>
       bindE (process_nonnegative_int (dget d ''ordinal'' PNone)) (\<lambda>ordinal.
         if ordinal \<noteq> int expected_ordinal then Inl BatchValidationError
         else case dget d ''payload'' PNone of
           PDict payload \<Rightarrow>
             bindE (process_sha_text (dget d ''payload_sha256'' PNone)) (\<lambda>payload_sha256.
             bindE (process_sha256 lib (PDict payload)) (\<lambda>digest.
               if digest \<noteq> payload_sha256 then Inl BatchValidationError
               else bindE (process_text (dget d ''work_id'' PNone)) (\<lambda>work_id.
                 bindE (process_text (dget d ''attempt_id'' PNone)) (\<lambda>attempt_id.
                   if (work_id, attempt_id) \<in> set identities then Inl BatchValidationError
                   else let item_runtime = py_str lib (dget d ''runtime_key'' (PStr runtime_key)) in
                     if item_runtime \<noteq> runtime_key then Inl BatchValidationError
                     else if \<not> valid_batch_size (dget payload ''batch_size'' (PInt 1))
                     then Inl ProcessValidationError
                     else bindE (process_positive_int (dget d ''fence'' PNone)) (\<lambda>fence.
                       bindE (process_text (dget d ''config_sha256'' PNone)) (\<lambda>config_sha256.
                       bindE (process_text (dget d ''release_digest'' PNone)) (\<lambda>release_digest.
                       bindE (process_positive_float (dget d ''duration_seconds'' PNone)) (\<lambda>duration.
                         Inr \<lparr>ei_ordinal = ordinal, ei_work_id = work_id, ei_attempt_id = attempt_id,
                              ei_fence = fence, ei_payload_sha256 = payload_sha256,
                              ei_payload = payload, ei_config_sha256 = config_sha256,
                              ei_release_digest = release_digest, ei_duration_seconds = duration,
                              ei_runtime_key = item_runtime\<rparr>))))))))
         | _ \<Rightarrow> Inl BatchValidationError)
   | _ \<Rightarrow> Inl BatchValidationError)"

fun verify_items :: "pylib \<Rightarrow> string \<Rightarrow> (string \<times> string) list \<Rightarrow> nat \<Rightarrow> pyval list \<Rightarrow> envelope_item list res" where
  "verify_items lib runtime_key identities n [] = Inr []"
| "verify_items lib runtime_key identities n (raw # raws) =
     bindE (verify_item lib runtime_key identities n raw) (\<lambda>item.
     bindE (verify_items lib runtime_key ((ei_work_id item, ei_attempt_id item) # identities) (Suc n) raws)
       (\<lambda>items. Inr (item # items)))"

definition verify_envelope :: "pylib \<Rightarrow> (string \<times> pyval) list \<Rightarrow> string \<Rightarrow> string \<Rightarrow> verified_envelope res" where
  "verify_envelope lib d batch_id envelope_sha256 =
     (if \<not> py_eq_int (dget d ''schema_version'' PNone) 1 \<or> dget d ''batch_id'' PNone \<noteq> PStr batch_id
      then Inl BatchValidationError
      else bindE (process_text (dget d ''owner'' PNone)) (\<lambda>owner.
        bindE (process_text (dget d ''runtime_key'' PNone)) (\<lambda>runtime_key.
        bindE (process_sha_text (dget d ''membership_sha256'' PNone)) (\<lambda>membership.
        case dget d ''items'' PNone of
          PList raw_items \<Rightarrow>
            if raw_items = [] then Inl BatchValidationError
            else bindE (verify_items lib runtime_key [] 0 raw_items) (\<lambda>items.
              if membership_sha256 lib (map item_claim items) \<noteq> membership then Inl BatchValidationError
              else bindE (process_finite (dget d ''claimed_at'' PNone)) (\<lambda>claimed_at.
                bindE (process_finite (dget d ''lease_expires_at'' PNone)) (\<lambda>lease_expires_at.
                bindE (process_sha_text (PStr envelope_sha256)) (\<lambda>digest.
                  Inr \<lparr>ve_batch_id = batch_id, ve_owner = owner, ve_runtime_key = runtime_key,
                       ve_claimed_at = claimed_at, ve_lease_expires_at = lease_expires_at,
                       ve_membership_sha256 = membership, ve_envelope_sha256 = digest,
                       ve_items = items\<rparr>))))
        | _ \<Rightarrow> Inl BatchValidationError))))"

end
