(* ===== verification/Process_Staging.thy ===== *)
theory Process_Staging
  imports Process_Envelope
begin

text \<open>
  Staged output of \<^verbatim>\<open>sjd_process.py\<close>: the schema and provenance checks of every staged record, the
  order records are stored in, the partition receipts of the streaming harness, the attempt-scoped local
  adapter and its success marker.  A staged record is a dictionary; the installed package version is a
  parameter.  A directory of staged attempts is the list of its attempts with what each has so far.
\<close>

type_synonym staged = "(string \<times> pyval) list"

section \<open>Schema of one record\<close>

definition required_staged_value :: "staged \<Rightarrow> string \<Rightarrow> pyval res" where
  "required_staged_value r name = (case map_of r name of None \<Rightarrow> Inl ProcessValidationError | Some v \<Rightarrow> Inr v)"

definition check_fields :: "(pyval \<Rightarrow> 'a res) \<Rightarrow> staged \<Rightarrow> string list \<Rightarrow> unit res" where
  "check_fields validator r names =
     bindE (mapE (\<lambda>name. bindE (required_staged_value r name) validator) names) (\<lambda>_. Inr ())"

definition validate_nullable_staged_value :: "(pyval \<Rightarrow> 'a res) \<Rightarrow> staged \<Rightarrow> string \<Rightarrow> unit res" where
  "validate_nullable_staged_value validator r name = bindE (required_staged_value r name) (\<lambda>v.
     if v = PNone then Inr () else bindE (validator v) (\<lambda>_. Inr ()))"

text \<open>\<open>record[name]\<close>\<close>

definition item_get :: "staged \<Rightarrow> string \<Rightarrow> pyval res" where
  "item_get r name = (case map_of r name of None \<Rightarrow> Inl KeyError | Some v \<Rightarrow> Inr v)"

definition TERMINAL_TYPES :: "string list" where
  "TERMINAL_TYPES = [''video_result'', ''error'']"

definition RECORD_TYPES :: "string list" where
  "RECORD_TYPES = [''video_result'', ''error'', ''telemetry'', ''line_count'']"

definition validate_staged_record_semantics :: "staged \<Rightarrow> string \<Rightarrow> unit res" where
  "validate_staged_record_semantics r record_type =
     (if record_type \<notin> set RECORD_TYPES then Inl ProcessValidationError
      else bindE (item_get r ''status'') (\<lambda>status.
        if status \<noteq> PStr (if record_type = ''error'' then ''FAILED'' else ''SUCCEEDED'')
        then Inl ProcessValidationError
        else bindE (if record_type = ''error''
                    then bindE (bindE (item_get r ''error_type'') process_text) (\<lambda>_.
                         bindE (bindE (item_get r ''error_message'') process_text) (\<lambda>_.
                         bindE (bindE (item_get r ''retryable'') process_boolean) (\<lambda>_. Inr ())))
                    else Inr ()) (\<lambda>_.
          bindE (if record_type = ''video_result''
                 then bindE (bindE (item_get r ''processed_frames'') process_nonnegative_int) (\<lambda>_.
                      bindE (bindE (item_get r ''processing_seconds'') process_nonnegative_float) (\<lambda>_. Inr ()))
                 else Inr ()) (\<lambda>_.
          bindE (item_get r ''detector_batch_size'') (\<lambda>size.
            if list_ex (\<lambda>n. py_eq size (PInt n)) DETECTOR_BATCH_SIZES then Inr ()
            else Inl ProcessValidationError)))))"

text \<open>\<open>executor_identity.split("@")\<close> has two parts, the first not empty.\<close>

definition validate_executor_provenance :: "pylib \<Rightarrow> staged \<Rightarrow> unit res" where
  "validate_executor_provenance lib r =
     bindE (item_get r ''executor_identity'') (\<lambda>identity.
     bindE (item_get r ''executor_host'') (\<lambda>host.
       let s = py_str lib identity;
           name = takeWhile (\<lambda>c. c \<noteq> CHR ''@'') s;
           rest = drop (Suc (length name)) s
       in if CHR ''@'' \<notin> set s \<or> CHR ''@'' \<in> set rest \<or> name = [] \<or> host \<noteq> PStr rest
          then Inl ProcessValidationError else Inr ()))"

definition staged_payload :: "pylib \<Rightarrow> staged \<Rightarrow> staged res" where
  "staged_payload lib r = bindE (item_get r ''payload_json'') (\<lambda>text.
     case json_loads lib (py_str lib text) of
       Some (PDict d) \<Rightarrow> Inr d
     | _ \<Rightarrow> Inl ProcessValidationError)"

definition text_fields :: "string list" where
  "text_fields = [''record_type'', ''work_id'', ''attempt_id'', ''source_video'', ''status'',
     ''payload_json'', ''emitted_at_utc'', ''batch_id'', ''process_attempt_id'', ''config_sha256'',
     ''release_digest'', ''package_version'', ''runtime_key'', ''executor_identity'', ''executor_host'']"

definition sha_fields :: "string list" where
  "sha_fields = [''envelope_sha256'', ''manifest_sha256'', ''membership_sha256'',
     ''input_payload_sha256'', ''record_payload_sha256'', ''model_identity'']"

definition positive_int_fields :: "string list" where
  "positive_int_fields = [''fence'', ''planned_concurrency'', ''detector_batch_size'', ''cpu_threads'']"

definition nonnegative_int_fields :: "string list" where
  "nonnegative_int_fields = [''bucket_id'', ''wave_index'', ''physical_partition'',
     ''physical_partition_id'', ''stage_id'', ''partition_id'', ''task_attempt_id'',
     ''task_attempt_number'', ''record_sequence'', ''runtime_loads'', ''runtime_cache_hits'']"

definition validate_staged_record_schema :: "pylib \<Rightarrow> staged \<Rightarrow> (string \<times> int \<times> staged) res" where
  "validate_staged_record_schema lib r =
     bindE (check_fields process_text r text_fields) (\<lambda>_.
     bindE (check_fields process_sha_text r sha_fields) (\<lambda>_.
     bindE (check_fields process_positive_int r positive_int_fields) (\<lambda>_.
     bindE (check_fields process_nonnegative_int r nonnegative_int_fields) (\<lambda>_.
     bindE (check_fields process_positive_float r [''duration_seconds'', ''planned_cost_seconds'']) (\<lambda>_.
     bindE (check_fields process_boolean r [''duration_only_fallback'']) (\<lambda>_.
     bindE (validate_nullable_staged_value process_positive_int r ''peak_rss_bytes'') (\<lambda>_.
     bindE (validate_nullable_staged_value process_text r ''error_type'') (\<lambda>_.
     bindE (validate_nullable_staged_value process_text r ''error_message'') (\<lambda>_.
     bindE (validate_nullable_staged_value process_boolean r ''retryable'') (\<lambda>_.
     bindE (validate_nullable_staged_value process_nonnegative_int r ''processed_frames'') (\<lambda>_.
     bindE (validate_nullable_staged_value process_nonnegative_float r ''processing_seconds'') (\<lambda>_.
     bindE (bindE (item_get r ''record_type'') process_text) (\<lambda>record_type.
     bindE (validate_staged_record_semantics r record_type) (\<lambda>_.
     bindE (validate_executor_provenance lib r) (\<lambda>_.
     bindE (staged_payload lib r) (\<lambda>payload.
     bindE (bindE (item_get r ''record_sequence'') process_nonnegative_int) (\<lambda>sequence.
       Inr (record_type, sequence, payload))))))))))))))))))"

section \<open>Provenance\<close>

definition model_identity :: "pylib \<Rightarrow> staged \<Rightarrow> string res" where
  "model_identity lib payload = process_sha256 lib (PDict (map (\<lambda>k. (k, dget payload k PNone))
     [''pipeline'', ''detector_model'', ''model_format'', ''models_dir'', ''device_variant'']))"

definition staged_checks :: "pylib \<Rightarrow> string \<Rightarrow> verified_envelope \<Rightarrow> execution_plan \<Rightarrow> envelope_item
    \<Rightarrow> planned_item \<Rightarrow> string \<Rightarrow> (string \<times> pyval) list" where
  "staged_checks lib package_version env plan item planned identity =
     [(''batch_id'', PStr (ve_batch_id env)),
      (''process_attempt_id'', PStr (execution_attempt_id lib env)),
      (''envelope_sha256'', PStr (ve_envelope_sha256 env)),
      (''manifest_sha256'', PStr (ve_envelope_sha256 env)),
      (''membership_sha256'', PStr (ve_membership_sha256 env)),
      (''fence'', PInt (ei_fence item)),
      (''input_payload_sha256'', PStr (ei_payload_sha256 item)),
      (''config_sha256'', PStr (ei_config_sha256 item)),
      (''model_identity'', PStr identity),
      (''release_digest'', PStr (ei_release_digest item)),
      (''package_version'', PStr package_version),
      (''runtime_key'', PStr (ei_runtime_key item)),
      (''source_video'', dget (ei_payload item) ''source_video'' PNone),
      (''duration_seconds'', PFloat (ei_duration_seconds item)),
      (''planned_cost_seconds'', PFloat (pi_planned_cost_seconds planned)),
      (''detector_batch_size'', dget (ei_payload item) ''batch_size'' (PInt 1)),
      (''bucket_id'', PInt (int (pi_bucket_id planned))),
      (''wave_index'', PInt (int (pi_wave_index planned))),
      (''physical_partition'', PInt (int (pi_physical_partition planned))),
      (''physical_partition_id'', PInt (int (pi_physical_partition planned))),
      (''partition_id'', PInt (int (pi_physical_partition planned))),
      (''planned_concurrency'', PInt (cd_concurrency (xp_concurrency plan))),
      (''peak_rss_bytes'', opt_int (cd_peak_rss_bytes (xp_concurrency plan))),
      (''duration_only_fallback'', PBool (cd_duration_only_fallback (xp_concurrency plan)))]"

section \<open>The whole staging set\<close>

type_synonym identity = "string \<times> string"

definition item_identity :: "envelope_item \<Rightarrow> identity" where
  "item_identity i = (ei_work_id i, ei_attempt_id i)"

definition expected_items :: "verified_envelope \<Rightarrow> (identity \<times> envelope_item) list" where
  "expected_items env = map (\<lambda>i. (item_identity i, i)) (rev (ve_items env))"

definition planned_items :: "execution_plan \<Rightarrow> (identity \<times> planned_item) list" where
  "planned_items plan = map (\<lambda>p. (item_identity (pi_item p), p)) (rev (concat (map bp_items (xp_buckets plan))))"

text \<open>One round of the loop: the identity of a record, its type and its sequence.\<close>

definition validate_staged_record :: "pylib \<Rightarrow> string \<Rightarrow> verified_envelope \<Rightarrow> execution_plan
    \<Rightarrow> (identity \<times> int) list \<Rightarrow> staged \<Rightarrow> (identity \<times> string \<times> int) res" where
  "validate_staged_record lib package_version env plan logical r =
     bindE (validate_staged_record_schema lib r) (\<lambda>(record_type, sequence, payload).
     bindE (process_text (dget r ''work_id'' PNone)) (\<lambda>work_id.
     bindE (process_text (dget r ''attempt_id'' PNone)) (\<lambda>attempt_id.
       case map_of (expected_items env) (work_id, attempt_id) of
         None \<Rightarrow> Inl ProcessValidationError
       | Some item \<Rightarrow>
           (case map_of (planned_items plan) (work_id, attempt_id) of
              None \<Rightarrow> Inl KeyError
            | Some planned \<Rightarrow>
                if ((work_id, attempt_id), sequence) \<in> set logical then Inl ProcessValidationError
                else bindE (model_identity lib (ei_payload item)) (\<lambda>identity.
                  if list_ex (\<lambda>(name, value). \<not> py_eq (dget r name PNone) value)
                       (staged_checks lib package_version env plan item planned identity)
                  then Inl ProcessValidationError
                  else bindE (process_sha256 lib (PDict payload)) (\<lambda>digest.
                    if dget r ''record_payload_sha256'' PNone \<noteq> PStr digest then Inl ProcessValidationError
                    else if record_type \<in> set TERMINAL_TYPES
                         \<and> (record_type = ''error'') \<noteq> (dget r ''status'' PNone = PStr ''FAILED'')
                    then Inl ProcessValidationError
                    else Inr ((work_id, attempt_id), record_type, sequence)))))))"

fun validate_loop :: "pylib \<Rightarrow> string \<Rightarrow> verified_envelope \<Rightarrow> execution_plan \<Rightarrow> (identity \<times> int) list
    \<Rightarrow> staged list \<Rightarrow> (identity \<times> string \<times> staged) list res" where
  "validate_loop lib pkg env plan logical [] = Inr []"
| "validate_loop lib pkg env plan logical (r # rs) =
     bindE (validate_staged_record lib pkg env plan logical r) (\<lambda>(identity, record_type, sequence).
     bindE (validate_loop lib pkg env plan ((identity, sequence) # logical) rs) (\<lambda>vs.
       Inr ((identity, record_type, r) # vs)))"

definition validate_staged_records :: "pylib \<Rightarrow> string \<Rightarrow> staged list \<Rightarrow> verified_envelope \<Rightarrow> execution_plan
    \<Rightarrow> (string \<times> staged list) list res" where
  "validate_staged_records lib pkg records env plan =
     bindE (validate_loop lib pkg env plan [] records) (\<lambda>vs.
       if list_ex (\<lambda>i. length (filter (\<lambda>(identity, record_type, r).
              identity = item_identity i \<and> record_type \<in> set TERMINAL_TYPES) vs) \<noteq> 1) (ve_items env)
       then Inl ProcessValidationError
       else Inr (foldl (\<lambda>d i. dset (ei_work_id i)
              (map (\<lambda>(identity, record_type, r). r) (filter (\<lambda>v. fst v = item_identity i) vs)) d) [] (ve_items env)))"

section \<open>The order of stored records\<close>

definition sequence_key :: "pylib \<Rightarrow> pyval \<Rightarrow> nat \<times> int \<times> string" where
  "sequence_key lib v = (case v of PInt i \<Rightarrow> (0, i, []) | _ \<Rightarrow> (1, 0, py_repr lib v))"

definition record_key :: "pylib \<Rightarrow> staged \<Rightarrow> string \<times> string \<times> string \<times> nat \<times> int \<times> string" where
  "record_key lib r = (py_str lib (dget r ''work_id'' (PStr [])), py_str lib (dget r ''attempt_id'' (PStr [])),
     py_str lib (dget r ''record_type'' (PStr [])), sequence_key lib (dget r ''record_sequence'' PNone))"

definition ordered_records :: "pylib \<Rightarrow> staged list \<Rightarrow> staged list" where
  "ordered_records lib records = sort_key (record_key lib) records"

end
