(* ===== verification/Video_Results.thy ===== *)
theory Video_Results
  imports Py_Json
begin

text \<open>
  What one pipeline run returns (\<^verbatim>\<open>models.py\<close>) and how \<^verbatim>\<open>api.py\<close> and \<^verbatim>\<open>video.py\<close> turn it into records: person
  telemetry with timestamps, line counts, and the selection of line counts that production keeps
  (\<^verbatim>\<open>fabric_executor_production.py\<close>).
\<close>

section \<open>Results of a run\<close>

type_synonym bbox = "int \<times> int \<times> int \<times> int"

type_synonym centroid = "int \<times> int"

record last_geometry =
  lg_centroid :: centroid
  lg_bbox :: bbox

record person_telemetry =
  pt_entry_frame :: int
  pt_last_seen_frame :: int
  pt_last_geometry :: "last_geometry option"

record line_count_record =
  lc_frame :: int
  lc_video_seconds :: string
  lc_video_timestamp :: string
  lc_frame_in_count :: int
  lc_frame_out_count :: int
  lc_cumulative_in_count :: int
  lc_cumulative_out_count :: int
  lc_line_start_x :: int
  lc_line_start_y :: int
  lc_line_end_x :: int
  lc_line_end_y :: int

record run_result =
  vr_telemetry :: "(int \<times> person_telemetry) list"
  vr_line_counts :: "line_count_record list"
  vr_started :: bool
  vr_initialized :: bool
  vr_fps :: pyfloat
  vr_total_source_frames :: int
  vr_total_sampled_frames :: int
  vr_source_frames_read :: int
  vr_processed_frames :: int
  vr_sample_interval :: int
  vr_effective_sample_fps :: pyfloat
  vr_processing_seconds :: pyfloat
  vr_ended_early :: bool
  vr_line_in_count :: int
  vr_line_out_count :: int
  vr_batch_size :: int
  vr_use_fp16 :: bool
  vr_camera_motion_compensation :: "bool option"

definition new_run_result :: run_result where
  "new_run_result = \<lparr>vr_telemetry = [], vr_line_counts = [], vr_started = False, vr_initialized = False, vr_fps = 0,
     vr_total_source_frames = 0, vr_total_sampled_frames = 0, vr_source_frames_read = 0, vr_processed_frames = 0,
     vr_sample_interval = 1, vr_effective_sample_fps = 0, vr_processing_seconds = 0, vr_ended_early = False, vr_line_in_count = 0,
     vr_line_out_count = 0, vr_batch_size = 1, vr_use_fp16 = False, vr_camera_motion_compensation = None\<rparr>"

definition ensure_unused :: "run_result \<Rightarrow> run_result res" where
  "ensure_unused r = (if vr_started r \<or> vr_initialized r then Inl RuntimeError else Inr (r\<lparr>vr_started := True\<rparr>))"

section \<open>Timestamps\<close>

text \<open>\<open>f"{n:0wd}"\<close>\<close>

definition pad_int :: "nat \<Rightarrow> int \<Rightarrow> string" where
  "pad_int w n = (let d = nat_dec (nat \<bar>n\<bar>); sign = (if n < 0 then ''-'' else [])
     in sign @ replicate (w - length sign - length d) (CHR ''0'') @ d)"

text \<open>\<open>frame_index / fps\<close>\<close>

definition frame_seconds :: "int \<Rightarrow> pyfloat \<Rightarrow> pyfloat res" where
  "frame_seconds frame fps = (if fps = 0 then Inl ZeroDivisionError else Inr (fdiv (fround (of_int frame)) fps))"

definition format_video_timestamp :: "int \<Rightarrow> pyfloat \<Rightarrow> string res" where
  "format_video_timestamp frame fps = bindE (frame_seconds frame fps) (\<lambda>seconds.
     let total = rne (fmul seconds 1000);
         hours = total div 3600000; r1 = total mod 3600000;
         minutes = r1 div 60000; r2 = r1 mod 60000;
         secs = r2 div 1000; millis = r2 mod 1000
     in Inr (pad_int 2 hours @ '':'' @ pad_int 2 minutes @ '':'' @ pad_int 2 secs @ ''.'' @ pad_int 3 millis))"

section \<open>Records\<close>

definition ensure_initialized :: "run_result \<Rightarrow> unit res" where
  "ensure_initialized r = (if vr_initialized r then Inr () else Inl RuntimeError)"

definition telemetry_record :: "pyfloat \<Rightarrow> int \<times> person_telemetry \<Rightarrow> (string \<times> pyval) list res" where
  "telemetry_record fps p = (case p of (person_id, t) \<Rightarrow>
     bindE (frame_seconds (pt_entry_frame t) fps) (\<lambda>entry_seconds.
     bindE (frame_seconds (pt_last_seen_frame t) fps) (\<lambda>exit_seconds.
     bindE (format_video_timestamp (pt_entry_frame t) fps) (\<lambda>entry_timestamp.
     bindE (format_video_timestamp (pt_last_seen_frame t) fps) (\<lambda>exit_timestamp.
       Inr [(''person_id'', PInt person_id), (''entry_frame'', PInt (pt_entry_frame t)),
            (''exit_frame'', PInt (pt_last_seen_frame t)), (''entry_seconds'', PFloat entry_seconds),
            (''exit_seconds'', PFloat exit_seconds), (''entry_timestamp'', PStr entry_timestamp),
            (''exit_timestamp'', PStr exit_timestamp),
            (''duration_seconds'', PFloat (fadd exit_seconds (- entry_seconds)))])))))"

definition telemetry_records :: "run_result \<Rightarrow> (string \<times> pyval) list list res" where
  "telemetry_records r = bindE (ensure_initialized r) (\<lambda>_.
     if vr_fps r \<le> 0 then Inl ValueError
     else mapE (telemetry_record (vr_fps r)) (sort_key fst (vr_telemetry r)))"

definition line_count_fields :: "line_count_record \<Rightarrow> (string \<times> pyval) list" where
  "line_count_fields c = [(''frame'', PInt (lc_frame c)), (''video_seconds'', PStr (lc_video_seconds c)),
     (''video_timestamp'', PStr (lc_video_timestamp c)), (''frame_in_count'', PInt (lc_frame_in_count c)),
     (''frame_out_count'', PInt (lc_frame_out_count c)), (''cumulative_in_count'', PInt (lc_cumulative_in_count c)),
     (''cumulative_out_count'', PInt (lc_cumulative_out_count c)), (''line_start_x'', PInt (lc_line_start_x c)),
     (''line_start_y'', PInt (lc_line_start_y c)), (''line_end_x'', PInt (lc_line_end_x c)),
     (''line_end_y'', PInt (lc_line_end_y c))]"

definition line_count_records :: "run_result \<Rightarrow> (string \<times> pyval) list list res" where
  "line_count_records r = bindE (ensure_initialized r) (\<lambda>_. Inr (map line_count_fields (vr_line_counts r)))"

section \<open>The line counts that are kept\<close>

text \<open>\<open>value > 0\<close> for a value of a parsed JSON object; other types raise \<open>TypeError\<close>, a non-finite float
  compares by its sign.\<close>

definition py_positive :: "pyval \<Rightarrow> bool res" where
  "py_positive v = (case v of PInt i \<Rightarrow> Inr (0 < i) | PFloat x \<Rightarrow> Inr (0 < x) | PBool b \<Rightarrow> Inr b
     | PNonFinite s \<Rightarrow> Inr (s = ''Infinity'') | _ \<Rightarrow> Inl TypeError)"

definition keep_line_count :: "nat \<Rightarrow> nat \<times> (string \<times> pyval) list \<Rightarrow> bool res" where
  "keep_line_count n p = (case p of (index, record) \<Rightarrow>
     bindE (py_positive (dget record ''frame_in_count'' (PInt 0))) (\<lambda>crossed_in.
       if crossed_in then Inr True
       else bindE (py_positive (dget record ''frame_out_count'' (PInt 0))) (\<lambda>crossed_out.
         Inr (crossed_out \<or> index = n - 1))))"

definition select_production_line_counts :: "(string \<times> pyval) list list \<Rightarrow> (string \<times> pyval) list list res" where
  "select_production_line_counts records =
     (let indexed = zip [0..<length records] records in
      bindE (mapE (keep_line_count (length records)) indexed) (\<lambda>keeps.
        Inr (map (snd \<circ> fst) (filter snd (zip indexed keeps)))))"

end
