(* ===== verification/Pipeline_Config.thy ===== *)
theory Pipeline_Config
  imports Video_Results
begin

text \<open>
  \<^verbatim>\<open>config.py\<close>: the configuration of a pipeline, and the sampling rate it gives.  A configuration is built from a
  work row, so the options that the code does not check keep the values of the row.  Sampling is
  floating-point arithmetic; its number of sampled frames is proved to be the exact one.
\<close>

section \<open>Configurations\<close>

record common_config =
  cc_video :: string
  cc_device_variant :: string
  cc_device :: string
  cc_batch_size :: int
  cc_sample_fps :: pyval
  cc_detection_threshold :: pyval
  cc_use_fp16 :: bool
  cc_model_format :: pyval
  cc_line :: pyval

text \<open>\<open>detector_model\<close> or \<open>camera_motion_compensation\<close>, and \<open>models_dir\<close>.\<close>

datatype pipeline_config =
    RTDetrOsnetConfig common_config pyval "string option"
  | RFDetrBotsortConfig common_config pyval "string option"

section \<open>Sampling\<close>

record sampling =
  sc_interval :: int
  sc_effective_fps :: pyfloat
  sc_total_sampled_frames :: int

text \<open>\<open>a / b\<close> on integers.\<close>

definition int_truediv :: "int \<Rightarrow> int \<Rightarrow> pyfloat" where
  "int_truediv a b = fround (of_int a / of_int b)"

definition sampling_config :: "pyfloat \<Rightarrow> pyfloat option \<Rightarrow> int \<Rightarrow> sampling res" where
  "sampling_config source_fps requested_sample_fps total_source_frames =
     (let requested_fps = (case requested_sample_fps of None \<Rightarrow> source_fps | Some x \<Rightarrow> if x = 0 then source_fps else x);
          slower = min requested_fps source_fps in
      if slower = 0 then Inl ZeroDivisionError
      else let interval = max 1 (rne (fdiv source_fps slower)) in
        Inr \<lparr>sc_interval = interval, sc_effective_fps = fdiv source_fps (fround (of_int interval)),
             sc_total_sampled_frames = \<lceil>int_truediv (max 0 total_source_frames) interval\<rceil>\<rparr>)"

definition MAX_DISAPPEARED_SECONDS :: pyfloat where
  "MAX_DISAPPEARED_SECONDS = 1"

definition MIN_CONFIRMATION_FRAMES :: int where
  "MIN_CONFIRMATION_FRAMES = 2"

definition retention_seconds_for_sample_rate :: "pyfloat \<Rightarrow> pyfloat res" where
  "retention_seconds_for_sample_rate fps = (if fps = 0 then Inl ZeroDivisionError else Inr (max MAX_DISAPPEARED_SECONDS (fdiv 2 fps)))"

definition disappeared_frames_for_sample_rate :: "pyfloat \<Rightarrow> int res" where
  "disappeared_frames_for_sample_rate fps = bindE (retention_seconds_for_sample_rate fps) (\<lambda>r. Inr (rne (fmul r fps)))"

definition lost_track_buffer_for_sample_rate :: "pyfloat \<Rightarrow> int res" where
  "lost_track_buffer_for_sample_rate fps = bindE (retention_seconds_for_sample_rate fps) (\<lambda>r. Inr \<lceil>fmul 30 r\<rceil>)"

definition confirmed_entry_frame :: "int \<Rightarrow> int \<Rightarrow> int \<Rightarrow> int" where
  "confirmed_entry_frame source_frame_index sample_interval confirmation_frames =
     max 0 (source_frame_index - (confirmation_frames - 1) * sample_interval)"

section \<open>The number of sampled frames is exact\<close>

lemma rne_error: "\<bar>of_int (rne y) - y\<bar> \<le> 1 / 2"
proof -
  have "of_int \<lfloor>y\<rfloor> \<le> y" "y < of_int \<lfloor>y\<rfloor> + 1" by linarith+
  then show ?thesis unfolding rne_def Let_def by (simp split: if_split)
qed

lemma fround_error: "\<bar>fround x - x\<bar> \<le> 2 powi ulp_exp x / 2"
proof (cases "x = 0")
  case False
  let ?u = "2 powi ulp_exp x :: rat"
  have u: "0 < ?u" by simp
  have "fround x - x = (of_int (rne (x / ?u)) - x / ?u) * ?u" using False by (simp add: fround_def field_simps)
  then have "\<bar>fround x - x\<bar> = \<bar>of_int (rne (x / ?u)) - x / ?u\<bar> * ?u" using u by (simp add: abs_mult)
  also have "\<dots> \<le> 1 / 2 * ?u" using rne_error u by (intro mult_right_mono) auto
  finally show ?thesis by simp
qed simp

lemma ceiling_fround_le:
  assumes "0 \<le> q" "q < 2 ^ 52"
  shows "\<lceil>fround q\<rceil> \<le> \<lceil>q\<rceil>"
proof -
  have "q \<le> of_int \<lceil>q\<rceil>" by linarith
  then have "fround q \<le> fround (of_int \<lceil>q\<rceil>)" by (rule fround_mono)
  moreover have "\<bar>\<lceil>q\<rceil>\<bar> < 2 ^ 53"
  proof -
    have "\<lceil>q\<rceil> \<le> 2 ^ 52" using assms(2) by (simp add: ceiling_le_iff)
    moreover have "0 \<le> \<lceil>q\<rceil>" using assms(1) by linarith
    ultimately show ?thesis by simp
  qed
  then have "fround (of_int \<lceil>q\<rceil>) = of_int \<lceil>q\<rceil>" by (rule fround_of_int)
  ultimately show ?thesis by (simp add: ceiling_le_iff)
qed

text \<open>An integer quotient never rounds down to the integer below it: the distance to that integer is at least
  one part of the divisor, more than half a unit in the last place.\<close>

lemma truediv_above:
  assumes n: "0 < n" "n < 2 ^ 52" and i: "1 \<le> i" "i < 2 ^ 53" and k: "of_int k < (of_int n / of_int i :: rat)"
  shows "of_int k < int_truediv n i"
proof -
  let ?q = "of_int n / of_int i :: rat"
  have i0: "(0::rat) < of_int i" using i(1) by simp
  have q: "0 < ?q" using n(1) i0 by simp
  have "of_int k * (of_int i :: rat) < of_int n" using k i0 by (simp add: pos_less_divide_eq)
  then have "k * i + 1 \<le> n" by (metis add1_zle_eq of_int_less_iff of_int_mult)
  then have "of_int (k * i + 1) \<le> (of_int n :: rat)" by (simp only: of_int_le_iff)
  then have "(of_int k * of_int i + 1) / of_int i \<le> ?q" using i0 by (intro divide_right_mono) auto
  then have gap: "of_int k + 1 / of_int i \<le> ?q" using i0 by (simp add: add_divide_distrib)
  have abs: "?q \<noteq> 0" "\<bar>?q\<bar> = ?q" using q by linarith+
  have e: "2 powi fexp ?q \<le> ?q" using fexp_bounds(1) [OF abs(1)] unfolding abs(2) .
  have "fexp ?q - 52 > - 1074"
  proof (rule ccontr)
    assume "\<not> fexp ?q - 52 > - 1074"
    then have "2 powi (fexp ?q + 1) \<le> (2 powi (- 53) :: rat)" by (intro power_int_increasing) auto
    moreover have "?q < 2 powi (fexp ?q + 1)" using fexp_bounds(2) [OF abs(1)] unfolding abs(2) .
    moreover have "2 powi (- 53) \<le> ?q"
    proof -
      have "(1::rat) \<le> of_int n" using n(1) by simp
      moreover have "(of_int i :: rat) \<le> 2 ^ 53" using i(2) by (metis less_imp_le of_int_le_iff of_int_numeral of_int_power)
      ultimately have "1 / 2 ^ 53 \<le> ?q" using i0 by (intro frac_le) auto
      then show ?thesis by (simp add: power_int_minus field_simps)
    qed
    ultimately show False by linarith
  qed
  then have u: "ulp_exp ?q = fexp ?q - 52" by (simp add: ulp_exp_def)
  have "(2 powi ulp_exp ?q :: rat) / 2 = 2 powi (fexp ?q - 53)" unfolding u by (simp add: power_int_diff)
  also have "\<dots> = 2 powi fexp ?q / 2 ^ 53" by (simp add: power_int_diff)
  also have "\<dots> \<le> ?q / 2 ^ 53" using e by (simp add: divide_right_mono)
  also have "\<dots> < 1 / of_int i"
  proof -
    have "(of_int n :: rat) < 2 ^ 53" using n(2) 
    proof -
      have "n < 2 ^ 53" using n(2) by simp
      then have "(of_int n :: rat) < of_int (2 ^ 53)" by (simp only: of_int_less_iff)
      then show ?thesis by simp
    qed
    then show ?thesis using i0 by (simp add: field_simps)
  qed
  finally have small: "(2 powi ulp_exp ?q :: rat) / 2 < 1 / of_int i" .
  have "?q - fround ?q \<le> 2 powi ulp_exp ?q / 2" using fround_error [of ?q] by linarith
  then show ?thesis using gap small unfolding int_truediv_def by linarith
qed

lemma neg_div_up: "1 \<le> i \<Longrightarrow> - ((- n) div i) = (n + i - 1) div (i::int)"
proof -
  assume i: "1 \<le> i"
  let ?d = "n div i" and ?r = "n mod i"
  have r: "0 \<le> ?r" "?r < i" using i by simp_all
  have "n + i - 1 = (?r + i - 1) + ?d * i" by (simp add: algebra_simps)
  then have "(n + i - 1) div i = ?d + (?r + i - 1) div i" using i by (metis div_mult_self1 not_one_le_zero)
  moreover have "(?r + i - 1) div i = (if ?r = 0 then 0 else 1)"
  proof (cases "?r = 0")
    case False
    then have "(?r - 1 + 1 * i) div i = 1 + (?r - 1) div i" using i by (intro div_mult_self1) simp
    moreover have "(?r - 1) div i = 0" using False r by (intro div_pos_pos_trivial) auto
    ultimately show ?thesis using False by (simp add: algebra_simps)
  qed (use i in simp)
  ultimately show ?thesis using i by (simp add: zdiv_zminus1_eq_if)
qed

lemma ceiling_truediv:
  assumes "0 \<le> n" "n < 2 ^ 52" "1 \<le> i" "i < 2 ^ 53"
  shows "\<lceil>int_truediv n i\<rceil> = (n + i - 1) div i"
proof (cases "n = 0")
  case True
  then show ?thesis using assms(3) by (simp add: int_truediv_def)
next
  case False
  let ?q = "of_int n / of_int i :: rat"
  have i0: "(0::rat) < of_int i" using assms(3) by simp
  have q: "0 \<le> ?q" "?q < 2 ^ 52"
  proof -
    show "0 \<le> ?q" using assms(1) i0 by simp
    have "?q \<le> of_int n / 1" using assms(1,3) by (intro divide_left_mono) auto
    then have "?q \<le> of_int n" by simp
    moreover have "(of_int n :: rat) < 2 ^ 52" using assms(2) by (metis of_int_less_iff of_int_numeral of_int_power)
    ultimately show "?q < 2 ^ 52" by linarith
  qed
  have "of_int (\<lceil>?q\<rceil> - 1) < ?q" by linarith
  then have "of_int (\<lceil>?q\<rceil> - 1) < int_truediv n i" using False assms by (intro truediv_above) auto
  then have "\<lceil>?q\<rceil> - 1 < \<lceil>int_truediv n i\<rceil>" by (simp only: less_ceiling_iff)
  then have "\<lceil>?q\<rceil> \<le> \<lceil>int_truediv n i\<rceil>" by linarith
  moreover have "\<lceil>int_truediv n i\<rceil> \<le> \<lceil>?q\<rceil>" unfolding int_truediv_def by (rule ceiling_fround_le [OF q])
  moreover have "\<lceil>?q\<rceil> = (n + i - 1) div i"
  proof -
    have "\<lceil>?q\<rceil> = - ((- n) div i)" 
      using floor_divide_of_int_eq [of "- n" i, where 'a = rat] by (simp add: ceiling_def)
    also have "\<dots> = (n + i - 1) div i" using assms(3) by (rule neg_div_up)
    finally show ?thesis .
  qed
  ultimately show ?thesis by linarith
qed

end
