(* ===== verification/Executor_Partition.thy ===== *)
theory Executor_Partition
  imports Pipeline_Config
begin

text \<open>
  \<^verbatim>\<open>fabric_executor_partition.py\<close>: videos of one partition are processed one after the other, and each gives
  either a result record with its telemetry and line counts, or an error record.  Inference itself is a
  parameter: building a configuration from a row, loading a model runtime and running a video
  with it.  A work row and a record are dictionaries; \<open>emitted_at_utc\<close> is the ISO text of the clock.
\<close>

type_synonym work = "(string \<times> pyval) list"

section \<open>Exceptions with their messages\<close>

text \<open>An exception caught by the loop: the class and the text of the exception, then those of its causes
  or contexts, up to the first object seen before.\<close>

type_synonym exn = "(string \<times> string) list"

definition exception_text :: "string \<times> string \<Rightarrow> string" where
  "exception_text e = (case e of (name, t) \<Rightarrow> if py_strip t = [] then name else py_strip t)"

definition exception_message :: "exn \<Rightarrow> string" where
  "exception_message e = sep_by '' | caused by: '' (map exception_text (take 5 e))"

definition exception_class :: "exn \<Rightarrow> string" where
  "exception_class e = (case e of [] \<Rightarrow> [] | (name, t) # _ \<Rightarrow> name)"

section \<open>Runtimes and their cache\<close>

text \<open>\<open>resolve\<close> is \<open>str(path.resolve())\<close>.\<close>

definition runtime_cache_key :: "(string \<Rightarrow> string) \<Rightarrow> pipeline_config \<Rightarrow> pyval list" where
  "runtime_cache_key resolve c = (case c of
     RTDetrOsnetConfig common detector dir \<Rightarrow>
       [PStr ''rtdetr-osnet'', PStr (cc_device_variant common), PStr (cc_device common), detector, cc_model_format common,
        (case dir of None \<Rightarrow> PNone | Some p \<Rightarrow> PStr (resolve p))]
   | RFDetrBotsortConfig common compensation dir \<Rightarrow>
       [PStr ''rfdetr-botsort'', PStr (cc_device_variant common), PStr (cc_device common), PInt (cc_batch_size common),
        PBool (cc_use_fp16 common), cc_model_format common, (case dir of None \<Rightarrow> PNone | Some p \<Rightarrow> PStr (resolve p))])"

record 'rt runtime_cache =
  rc_items :: "(pyval list \<times> 'rt) list"
  rc_loads :: nat
  rc_hits :: nat

definition empty_cache :: "'rt runtime_cache" where
  "empty_cache = \<lparr>rc_items = [], rc_loads = 0, rc_hits = 0\<rparr>"

definition get_or_load :: "pyval list \<Rightarrow> (exn + 'rt) \<Rightarrow> 'rt runtime_cache \<Rightarrow> (exn + 'rt) \<times> 'rt runtime_cache" where
  "get_or_load key loaded cache = (case map_of (rc_items cache) key of
     Some runtime \<Rightarrow> (Inr runtime, cache\<lparr>rc_hits := rc_hits cache + 1\<rparr>)
   | None \<Rightarrow> (case loaded of
       Inl e \<Rightarrow> (Inl e, cache)
     | Inr runtime \<Rightarrow> (Inr runtime, cache\<lparr>rc_items := dset key runtime (rc_items cache), rc_loads := rc_loads cache + 1\<rparr>)))"

definition clear_cache :: "'rt runtime_cache \<Rightarrow> 'rt runtime_cache" where
  "clear_cache cache = cache\<lparr>rc_items := []\<rparr>"

record 'rt sdk =
  sdk_resolve :: "string \<Rightarrow> string"
  sdk_load_runtime :: "pipeline_config \<Rightarrow> exn + 'rt"
  sdk_run_with_runtime :: "pipeline_config \<Rightarrow> 'rt \<Rightarrow> exn + run_result"

definition sdk_run :: "'rt sdk \<Rightarrow> pipeline_config \<Rightarrow> 'rt runtime_cache \<Rightarrow> (exn + run_result) \<times> 'rt runtime_cache" where
  "sdk_run sdk config cache =
     (case get_or_load (runtime_cache_key (sdk_resolve sdk) config) (sdk_load_runtime sdk config) cache of
        (Inl e, cache1) \<Rightarrow> (Inl e, cache1)
      | (Inr runtime, cache1) \<Rightarrow> (sdk_run_with_runtime sdk config runtime, cache1))"

section \<open>Records\<close>

definition required_work_text :: "work \<Rightarrow> string \<Rightarrow> string res" where
  "required_work_text work name = (case map_of work name of
     Some (PStr s) \<Rightarrow> if py_strip s = [] then Inl ValueError else Inr (py_strip s)
   | _ \<Rightarrow> Inl ValueError)"

definition optional_work_text :: "pyval \<Rightarrow> pyval res" where
  "optional_work_text v = (case v of
     PNone \<Rightarrow> Inr PNone
   | PStr s \<Rightarrow> if py_strip s = [] then Inl ValueError else Inr (PStr (py_strip s))
   | _ \<Rightarrow> Inl ValueError)"

text \<open>The first of the three names with a text; a row of JSON values has no \<open>Path\<close>.\<close>

fun first_text :: "work \<Rightarrow> string list \<Rightarrow> string res" where
  "first_text work [] = Inl ValueError"
| "first_text work (name # names) = (case map_of work name of
     Some (PStr s) \<Rightarrow> if py_strip s = [] then first_text work names else Inr (py_strip s)
   | _ \<Rightarrow> first_text work names)"

definition source_video :: "work \<Rightarrow> string res" where
  "source_video work = first_text work [''source_video'', ''video'', ''source_uri'']"

text \<open>The optional columns of a record.\<close>

record record_details =
  rd_error_type :: pyval
  rd_error_message :: pyval
  rd_retryable :: pyval
  rd_processed_frames :: pyval
  rd_processing_seconds :: pyval

definition no_details :: record_details where
  "no_details = \<lparr>rd_error_type = PNone, rd_error_message = PNone, rd_retryable = PNone, rd_processed_frames = PNone,
     rd_processing_seconds = PNone\<rparr>"

definition partition_record :: "pylib \<Rightarrow> string \<Rightarrow> string \<Rightarrow> work \<Rightarrow> string \<Rightarrow> (string \<times> pyval) list \<Rightarrow> record_details
    \<Rightarrow> (string \<times> pyval) list res" where
  "partition_record lib now record_type work status payload details =
     bindE (required_work_text work ''work_id'') (\<lambda>work_id.
     bindE (optional_work_text (dget work ''attempt_id'' PNone)) (\<lambda>attempt_id.
     bindE (source_video work) (\<lambda>source.
       Inr [(''record_type'', PStr record_type), (''work_id'', PStr work_id), (''attempt_id'', attempt_id),
            (''source_video'', PStr source), (''status'', PStr status), (''payload_json'', PStr (dumps lib (PDict payload))),
            (''error_type'', rd_error_type details), (''error_message'', rd_error_message details),
            (''retryable'', rd_retryable details), (''processed_frames'', rd_processed_frames details),
            (''processing_seconds'', rd_processing_seconds details), (''emitted_at_utc'', PStr now)])))"

definition error_record :: "pylib \<Rightarrow> string \<Rightarrow> (exn \<Rightarrow> bool \<times> string) option \<Rightarrow> work \<Rightarrow> exn \<Rightarrow> (string \<times> pyval) list res" where
  "error_record lib now classifier work e =
     (let message = exception_message e; name = exception_class e;
          (retryable, category) = (case classifier of None \<Rightarrow> (True, ''RUNTIME'') | Some f \<Rightarrow> f e) in
      partition_record lib now ''error'' work ''FAILED''
        [(''error_category'', PStr category), (''error_type'', PStr name), (''error_message'', PStr message)]
        (no_details\<lparr>rd_error_type := PStr name, rd_error_message := PStr message, rd_retryable := PBool retryable\<rparr>))"

definition result_summary :: "run_result \<Rightarrow> (string \<times> pyval) list" where
  "result_summary r = [(''total_source_frames'', PInt (vr_total_source_frames r)),
     (''total_sampled_frames'', PInt (vr_total_sampled_frames r)), (''source_frames_read'', PInt (vr_source_frames_read r)),
     (''effective_sample_fps'', PFloat (vr_effective_sample_fps r)),
     (''distinct_people'', PInt (int (length (vr_telemetry r)))), (''line_in_count'', PInt (vr_line_in_count r)),
     (''line_out_count'', PInt (vr_line_out_count r)), (''ended_early'', PBool (vr_ended_early r))]"

text \<open>The records of one processed video; \<open>now k\<close> is the time of the \<open>k\<close>-th.\<close>

definition success_records :: "pylib \<Rightarrow> (nat \<Rightarrow> string) \<Rightarrow> work \<Rightarrow> run_result \<Rightarrow> (string \<times> pyval) list list res" where
  "success_records lib now work r =
     bindE (partition_record lib (now 0) ''video_result'' work ''SUCCEEDED'' (result_summary r)
       (no_details\<lparr>rd_processed_frames := PInt (vr_processed_frames r),
                   rd_processing_seconds := PFloat (vr_processing_seconds r)\<rparr>)) (\<lambda>summary.
     bindE (telemetry_records r) (\<lambda>people.
     bindE (mapE (\<lambda>(k, item). partition_record lib (now k) ''telemetry'' work ''SUCCEEDED'' item no_details)
              (zip [1..<Suc (length people)] people)) (\<lambda>telemetry.
     bindE (line_count_records r) (\<lambda>counts.
     bindE (mapE (\<lambda>(k, item). partition_record lib (now k) ''line_count'' work ''SUCCEEDED'' item no_details)
              (zip [Suc (length people)..<Suc (length people) + length counts] counts)) (\<lambda>lines.
       Inr (summary # telemetry @ lines))))))"

text \<open>\<open>process_video_partition\<close> for the row at hand: \<open>run\<close> builds the configuration and runs it.\<close>

definition process_video :: "pylib \<Rightarrow> (nat \<Rightarrow> string) \<Rightarrow> (exn \<Rightarrow> bool \<times> string) option \<Rightarrow> (work \<Rightarrow> 'p \<Rightarrow> (exn + run_result) \<times> 'p)
    \<Rightarrow> work \<Rightarrow> 'p \<Rightarrow> (string \<times> pyval) list list res \<times> 'p" where
  "process_video lib now classifier run work p = (case run work p of
     (Inl e, p') \<Rightarrow> (bindE (error_record lib (now 0) classifier work e) (\<lambda>r. Inr [r]), p')
   | (Inr r, p') \<Rightarrow> (success_records lib now work r, p'))"

text \<open>\<open>config_builder\<close> and \<open>run\<close> stand in one \<open>try\<close>.\<close>

definition build_and_run :: "(work \<Rightarrow> exn + 'c) \<Rightarrow> ('c \<Rightarrow> 'p \<Rightarrow> (exn + run_result) \<times> 'p) \<Rightarrow> work \<Rightarrow> 'p \<Rightarrow> (exn + run_result) \<times> 'p" where
  "build_and_run config_builder run work p = (case config_builder work of
     Inl e \<Rightarrow> (Inl e, p)
   | Inr config \<Rightarrow> run config p)"

fun process_video_partition :: "pylib \<Rightarrow> (nat \<Rightarrow> nat \<Rightarrow> string) \<Rightarrow> (exn \<Rightarrow> bool \<times> string) option
    \<Rightarrow> (work \<Rightarrow> 'p \<Rightarrow> (exn + run_result) \<times> 'p) \<Rightarrow> work list \<Rightarrow> 'p \<Rightarrow> (string \<times> pyval) list list res \<times> 'p" where
  "process_video_partition lib now classifier run [] p = (Inr [], p)"
| "process_video_partition lib now classifier run (w # ws) p =
     (case process_video lib (now 0) classifier run w p of
        (Inl e, p1) \<Rightarrow> (Inl e, p1)
      | (Inr rs, p1) \<Rightarrow>
          (case process_video_partition lib (\<lambda>i. now (Suc i)) classifier run ws p1 of
             (Inl e, p2) \<Rightarrow> (Inl e, p2)
           | (Inr rest, p2) \<Rightarrow> (Inr (rs @ rest), p2)))"

end
