(* ===== verification/Cpu_Runtime.thy ===== *)
theory Cpu_Runtime
  imports Py_Json
begin

text \<open>
  \<^verbatim>\<open>cpu_runtime.py\<close>: the thread budget of a worker for the worst placement of tasks on an executor, its
  application to a process, and the check of what is really in effect.  PyTorch and OpenCV are
  parameters; the native limits of a process are set once.
\<close>

section \<open>Budgets\<close>

record thread_budget =
  tb_driver_cores :: int
  tb_active_workers :: int
  tb_threads_per_worker :: int
  tb_interop_threads_configured :: "bool option"

text \<open>\<open>type(value) is not int or value < 1\<close>: a boolean is refused.\<close>

definition strict_positive_int :: "pyval \<Rightarrow> int res" where
  "strict_positive_int v = (case v of PInt i \<Rightarrow> if i < 1 then Inl ValueError else Inr i | _ \<Rightarrow> Inl ValueError)"

definition calculate_thread_budget :: "pyval \<Rightarrow> pyval \<Rightarrow> thread_budget res" where
  "calculate_thread_budget driver_cores active_workers =
     bindE (strict_positive_int driver_cores) (\<lambda>cores.
     bindE (strict_positive_int active_workers) (\<lambda>workers.
       Inr \<lparr>tb_driver_cores = cores, tb_active_workers = workers,
            tb_threads_per_worker = max 1 (cores div workers), tb_interop_threads_configured = None\<rparr>))"

text \<open>One round of the loop: no candidate when the executor has no slot for the task.\<close>

definition placement_candidate :: "int \<Rightarrow> int \<Rightarrow> pyval \<Rightarrow> thread_budget option res" where
  "placement_candidate task_cpus planned_concurrency cores =
     bindE (strict_positive_int cores) (\<lambda>n.
       let slots = n div task_cpus in
       if slots < 1 then Inr None
       else bindE (calculate_thread_budget (PInt n) (PInt (min planned_concurrency slots))) (\<lambda>b. Inr (Some b)))"

definition budget_key :: "thread_budget \<Rightarrow> int \<times> int \<times> int" where
  "budget_key b = (tb_threads_per_worker b, tb_driver_cores b, tb_active_workers b)"

fun min_by :: "('a \<Rightarrow> 'b::linorder) \<Rightarrow> 'a \<Rightarrow> 'a list \<Rightarrow> 'a" where
  "min_by key best [] = best"
| "min_by key best (x # xs) = min_by key (if key x < key best then x else best) xs"

definition calculate_placement_safe_thread_budget :: "pyval list \<Rightarrow> pyval \<Rightarrow> pyval \<Rightarrow> thread_budget res" where
  "calculate_placement_safe_thread_budget executor_cores task_cpus planned_concurrency =
     bindE (strict_positive_int task_cpus) (\<lambda>cpus.
     bindE (strict_positive_int planned_concurrency) (\<lambda>concurrency.
     bindE (mapE (placement_candidate cpus concurrency) executor_cores) (\<lambda>found.
       case List.map_filter id found of
         [] \<Rightarrow> Inl ValueError
       | b # bs \<Rightarrow> Inr (min_by budget_key b bs))))"

section \<open>Applying a budget\<close>

definition THREAD_ENVIRONMENT_VARIABLES :: "string list" where
  "THREAD_ENVIRONMENT_VARIABLES = [''OMP_NUM_THREADS'', ''MKL_NUM_THREADS'', ''OPENBLAS_NUM_THREADS'',
     ''NUMEXPR_NUM_THREADS'', ''VECLIB_MAXIMUM_THREADS'']"

text \<open>The native libraries; \<open>set_num_interop_threads\<close> raises \<open>RuntimeError\<close> once the runtime has
  started, which is the result \<open>False\<close>.\<close>

record 'n native_lib =
  torch_set_num_threads :: "int \<Rightarrow> 'n \<Rightarrow> 'n"
  torch_set_num_interop_threads :: "int \<Rightarrow> 'n \<Rightarrow> bool \<times> 'n"
  torch_get_num_threads :: "'n \<Rightarrow> int"
  torch_get_num_interop_threads :: "'n \<Rightarrow> int"
  cv2_setNumThreads :: "int \<Rightarrow> 'n \<Rightarrow> 'n"
  cv2_getNumThreads :: "'n \<Rightarrow> int"

record 'n cpu_process =
  cp_native_budget :: "thread_budget option"
  cp_environ :: "(string \<times> string) list"
  cp_native :: 'n

definition set_native_limits :: "'n native_lib \<Rightarrow> thread_budget \<Rightarrow> 'n cpu_process \<Rightarrow> 'n cpu_process" where
  "set_native_limits nl budget cp =
     (let n1 = torch_set_num_threads nl (tb_threads_per_worker budget) (cp_native cp);
          (changed, n2) = torch_set_num_interop_threads nl 1 n1;
          configured = (changed \<or> torch_get_num_interop_threads nl n2 = 1);
          n3 = cv2_setNumThreads nl (tb_threads_per_worker budget) n2
      in cp\<lparr>cp_native_budget := Some (budget\<lparr>tb_interop_threads_configured := Some configured\<rparr>), cp_native := n3\<rparr>)"

definition apply_thread_budget :: "'n native_lib \<Rightarrow> thread_budget \<Rightarrow> bool \<Rightarrow> 'n cpu_process
    \<Rightarrow> thread_budget res \<times> 'n cpu_process" where
  "apply_thread_budget nl budget native cp =
     (if native \<and> (case cp_native_budget cp of None \<Rightarrow> False
                     | Some b \<Rightarrow> tb_threads_per_worker b \<noteq> tb_threads_per_worker budget)
      then (Inl ValueError, cp)
      else let threads = int_dec (tb_threads_per_worker budget);
               cp1 = cp\<lparr>cp_environ := fold (\<lambda>name. dset name threads) THREAD_ENVIRONMENT_VARIABLES (cp_environ cp)\<rparr>;
               cp2 = (if native \<and> cp_native_budget cp1 = None then set_native_limits nl budget cp1 else cp1)
           in (Inr (if native then the (cp_native_budget cp2) else budget), cp2))"

definition configure_cpu_runtime :: "'n native_lib \<Rightarrow> pyval \<Rightarrow> pyval \<Rightarrow> bool \<Rightarrow> 'n cpu_process
    \<Rightarrow> thread_budget res \<times> 'n cpu_process" where
  "configure_cpu_runtime nl driver_cores active_workers native cp =
     (case calculate_thread_budget driver_cores active_workers of
        Inl e \<Rightarrow> (Inl e, cp)
      | Inr budget \<Rightarrow> apply_thread_budget nl budget native cp)"

definition configure_placement_safe_cpu_runtime :: "'n native_lib \<Rightarrow> pyval list \<Rightarrow> pyval \<Rightarrow> pyval \<Rightarrow> bool
    \<Rightarrow> 'n cpu_process \<Rightarrow> thread_budget res \<times> 'n cpu_process" where
  "configure_placement_safe_cpu_runtime nl executor_cores task_cpus planned_concurrency native cp =
     (case calculate_placement_safe_thread_budget executor_cores task_cpus planned_concurrency of
        Inl e \<Rightarrow> (Inl e, cp)
      | Inr budget \<Rightarrow> apply_thread_budget nl budget native cp)"

section \<open>What is in effect\<close>

record effective_thread_settings =
  es_environment_variables :: "(string \<times> string option) list"
  es_torch_num_threads :: int
  es_torch_num_interop_threads :: int
  es_opencv_num_threads :: int
  es_onnx_intra_op_threads :: "int option"
  es_onnx_inter_op_threads :: "int option"

text \<open>\<open>parse\<close> is \<open>int(text)\<close>, \<open>None\<close> for a \<open>ValueError\<close>.\<close>

definition onnx_thread_override :: "(string \<Rightarrow> int option) \<Rightarrow> (string \<times> string) list \<Rightarrow> string \<Rightarrow> int option" where
  "onnx_thread_override parse environ name = Option.bind (map_of environ name) parse"

definition read_effective_thread_settings :: "(string \<Rightarrow> int option) \<Rightarrow> 'n native_lib \<Rightarrow> 'n cpu_process
    \<Rightarrow> effective_thread_settings" where
  "read_effective_thread_settings parse nl cp =
     \<lparr>es_environment_variables = map (\<lambda>name. (name, map_of (cp_environ cp) name)) THREAD_ENVIRONMENT_VARIABLES,
      es_torch_num_threads = torch_get_num_threads nl (cp_native cp),
      es_torch_num_interop_threads = torch_get_num_interop_threads nl (cp_native cp),
      es_opencv_num_threads = cv2_getNumThreads nl (cp_native cp),
      es_onnx_intra_op_threads = onnx_thread_override parse (cp_environ cp) ''PC_ONNX_INTRA_OP_THREADS'',
      es_onnx_inter_op_threads = onnx_thread_override parse (cp_environ cp) ''PC_ONNX_INTER_OP_THREADS''\<rparr>"

definition exceeds :: "int \<Rightarrow> int option \<Rightarrow> bool" where
  "exceeds limit v = (case v of None \<Rightarrow> False | Some n \<Rightarrow> limit < n)"

definition verify_effective_thread_settings :: "(string \<Rightarrow> int option) \<Rightarrow> 'n native_lib \<Rightarrow> thread_budget
    \<Rightarrow> 'n cpu_process \<Rightarrow> effective_thread_settings res" where
  "verify_effective_thread_settings parse nl budget cp =
     (let settings = read_effective_thread_settings parse nl cp;
          limit = tb_threads_per_worker budget in
      bindE (mapE (\<lambda>(name, value). case value of
                None \<Rightarrow> Inr False
              | Some text \<Rightarrow> (case parse text of None \<Rightarrow> Inl ValueError | Some n \<Rightarrow> Inr (limit < n)))
              (es_environment_variables settings)) (\<lambda>over.
        if limit < es_torch_num_threads settings \<or> 1 < es_torch_num_interop_threads settings
           \<or> limit < es_opencv_num_threads settings \<or> list_ex id over
           \<or> exceeds limit (es_onnx_intra_op_threads settings) \<or> exceeds limit (es_onnx_inter_op_threads settings)
        then Inl (ExternalError ''ThreadOversubscriptionError'') else Inr settings))"

section \<open>A budget fits the executor\<close>

lemma min_by_in: "min_by key b bs \<in> set (b # bs)"
  by (induction bs arbitrary: b) (auto split: if_splits)

lemma min_by_le: "x \<in> set (b # bs) \<Longrightarrow> key (min_by key b bs) \<le> key x"
proof (induction bs arbitrary: b x)
  case (Cons c bs)
  let ?m = "if key c < key b then c else b"
  have m: "key ?m \<le> key b" "key ?m \<le> key c" by auto
  have "key (min_by key ?m bs) \<le> key ?m" by (rule Cons.IH) simp
  then show ?case using Cons.prems Cons.IH [of x ?m] m by auto
qed simp

lemma strict_positive_int_eq [simp]: "strict_positive_int v = Inr i \<longleftrightarrow> v = PInt i \<and> 1 \<le> i"
  by (cases v) (auto simp: strict_positive_int_def)

lemma placement_candidateD:
  assumes "placement_candidate cpus concurrency (PInt n) = Inr c" "1 \<le> n" "1 \<le> cpus" "1 \<le> concurrency"
  shows "if n div cpus < 1 then c = None
    else \<exists>b. c = Some b \<and> tb_threads_per_worker b * min concurrency (n div cpus) \<le> n \<and> 1 \<le> tb_threads_per_worker b"
proof (cases "n div cpus < 1")
  case False
  let ?w = "min concurrency (n div cpus)"
  have "n div cpus \<le> n div 1" using assms(2,3) by (intro zdiv_mono2) auto
  then have "1 \<le> ?w" "?w \<le> n" using False assms(4) by auto
  moreover have "1 \<le> n div ?w" using \<open>1 \<le> ?w\<close> \<open>?w \<le> n\<close> by (simp add: pos_imp_zdiv_pos_iff int_one_le_iff_zero_less)
  moreover have "n div ?w * ?w \<le> n" using \<open>1 \<le> ?w\<close> by (simp add: minus_mod_eq_div_mult [symmetric])
  ultimately show ?thesis
    using assms(1,2) False by (auto simp: placement_candidate_def calculate_thread_budget_def Let_def max_def)
qed (use assms in \<open>auto simp: placement_candidate_def Let_def\<close>)

lemma placement_budget_fits:
  assumes "calculate_placement_safe_thread_budget (map PInt cores) (PInt cpus) (PInt concurrency) = Inr b"
    and "n \<in> set cores" "1 \<le> n div cpus"
  shows "tb_threads_per_worker b * min concurrency (n div cpus) \<le> n \<and> 1 \<le> tb_threads_per_worker b"
proof -
  from assms(1) obtain found where f: "1 \<le> cpus" "1 \<le> concurrency"
    "mapE (placement_candidate cpus concurrency) (map PInt cores) = Inr found"
    "(case List.map_filter id found of [] \<Rightarrow> Inl ValueError | b # bs \<Rightarrow> Inr (min_by budget_key b bs)) = Inr b"
    unfolding calculate_placement_safe_thread_budget_def by auto
  then obtain c cs where c: "1 \<le> cpus" "1 \<le> concurrency"
    "mapE (placement_candidate cpus concurrency) (map PInt cores) = Inr found"
    "List.map_filter id found = c # cs" "b = min_by budget_key c cs"
    by (cases "List.map_filter id found") auto
  have each: "1 \<le> m \<and> (\<exists>x \<in> set found. placement_candidate cpus concurrency (PInt m) = Inr x)" if m: "m \<in> set cores" for m
  proof -
    obtain x where "x \<in> set found" "placement_candidate cpus concurrency (PInt m) = Inr x"
      using mapE_image [OF c(3), of "PInt m"] m by auto
    then show ?thesis by (auto simp: placement_candidate_def)
  qed
  from each [OF assms(2)] obtain x where x: "1 \<le> n" "x \<in> set found" "placement_candidate cpus concurrency (PInt n) = Inr x" by blast
  obtain d where d: "x = Some d" "tb_threads_per_worker d * min concurrency (n div cpus) \<le> n" "1 \<le> tb_threads_per_worker d"
    using placement_candidateD [OF x(3,1) c(1,2)] assms(3) by auto
  have mem: "y \<in> set (c # cs) \<longleftrightarrow> Some y \<in> set found" for y
    unfolding c(4) [symmetric] by (induction found) (auto simp: List.map_filter_simps split: option.splits)
  have "budget_key b \<le> budget_key d" unfolding c(5) by (rule min_by_le) (use mem x(2) d(1) in blast)
  then have "tb_threads_per_worker b \<le> tb_threads_per_worker d" by (auto simp: budget_key_def less_eq_prod_def)
  moreover have "0 \<le> min concurrency (n div cpus)" using c(2) assms(3) by simp
  ultimately have "tb_threads_per_worker b * min concurrency (n div cpus) \<le> tb_threads_per_worker d * min concurrency (n div cpus)"
    by (rule mult_right_mono)
  moreover have "1 \<le> tb_threads_per_worker b"
  proof -
    have "Some b \<in> set found" using mem min_by_in [of budget_key c cs] c(5) by blast
    then obtain m where "m \<in> set cores" "placement_candidate cpus concurrency (PInt m) = Inr (Some b)"
      using mapE_mem [OF c(3)] by auto
    then show ?thesis using placement_candidateD [of cpus concurrency m "Some b"] each c(1,2) by (auto split: if_splits)
  qed
  ultimately show ?thesis using d(2) by linarith
qed

end
