(* ===== verification/Process_Executor.thy ===== *)
theory Process_Executor
  imports Process_Staging Executor_Partition Cpu_Runtime
begin

text \<open>
  The executor side of \<^verbatim>\<open>sjd_process.py\<close>: the row of a planned item, the execution of one partition with its
  checks, thread budget and processor, the records it emits with their provenance, and the
  harness that runs all buckets in one process.  The libraries an executor uses are the fields of
  \<open>executor\<close>.
\<close>

section \<open>Dictionaries\<close>

text \<open>\<open>{**d, **e}\<close>\<close>

definition dict_update :: "('k \<times> 'v) list \<Rightarrow> ('k \<times> 'v) list \<Rightarrow> ('k \<times> 'v) list" where
  "dict_update d e = foldl (\<lambda>d (k, v). dset k v d) d e"

section \<open>Task identity\<close>

record task_identity =
  ti_stage_id :: int
  ti_partition_id :: int
  ti_task_attempt_id :: int
  ti_attempt_number :: int
  ti_executor_identity :: string
  ti_executor_host :: string

text \<open>\<open>text.rpartition("@")[2]\<close>\<close>

definition after_last_at :: "string \<Rightarrow> string" where
  "after_last_at s = rev (takeWhile (\<lambda>c. c \<noteq> CHR ''@'') (rev s))"

text \<open>\<open>context\<close> is the identity that Spark's task context gives, when there is one.\<close>

definition task_identity_of :: "task_identity option \<Rightarrow> work \<Rightarrow> task_identity res" where
  "task_identity_of context row = (case dget row ''_task_identity'' PNone of
     PDict d \<Rightarrow>
       bindE (process_text (dget d ''executor_identity'' (PStr ''direct@localhost''))) (\<lambda>executor.
       bindE (process_nonnegative_int (dget d ''stage_id'' (PInt 0))) (\<lambda>stage.
       bindE (process_nonnegative_int (dget d ''partition_id'' PNone)) (\<lambda>part.
       bindE (process_nonnegative_int (dget d ''task_attempt_id'' (PInt 0))) (\<lambda>attempt.
       bindE (process_nonnegative_int (dget d ''attempt_number'' (PInt 0))) (\<lambda>number.
       bindE (process_text (dget d ''executor_host'' (PStr (after_last_at executor)))) (\<lambda>host.
         Inr \<lparr>ti_stage_id = stage, ti_partition_id = part, ti_task_attempt_id = attempt, ti_attempt_number = number,
              ti_executor_identity = executor, ti_executor_host = host\<rparr>))))))
   | _ \<Rightarrow> (case context of None \<Rightarrow> Inl ProcessValidationError | Some t \<Rightarrow> Inr t))"

section \<open>Executors and processors\<close>

record ('rt, 'n) executor =
  xe_lib :: pylib
  xe_package_version :: string
  xe_context :: "task_identity option"
  xe_native :: "'n native_lib"
  xe_parse_int :: "string \<Rightarrow> int option"
  xe_parse_float :: "string \<Rightarrow> pyval option"
  xe_sleep :: "pyval \<Rightarrow> exn option"
  xe_config :: "work \<Rightarrow> exn + pipeline_config"
  xe_sdk :: "'rt sdk"

text \<open>\<open>float(value)\<close>; \<open>parse\<close> gives the float of a text.\<close>

definition py_float :: "(string \<Rightarrow> pyval option) \<Rightarrow> pyval \<Rightarrow> pyval res" where
  "py_float parse v = (case v of
     PInt i \<Rightarrow> Inr (PFloat (fround (of_int i)))
   | PBool b \<Rightarrow> Inr (PFloat (if b then 1 else 0))
   | PFloat x \<Rightarrow> Inr v
   | PNonFinite s \<Rightarrow> Inr v
   | PStr s \<Rightarrow> (case parse s of None \<Rightarrow> Inl ValueError | Some x \<Rightarrow> Inr x)
   | _ \<Rightarrow> Inl TypeError)"

text \<open>\<open>x > y\<close> on floats.\<close>

definition float_greater :: "pyval \<Rightarrow> pyval \<Rightarrow> bool" where
  "float_greater v w = (case (v, w) of
     (PFloat x, PFloat y) \<Rightarrow> y < x
   | (PNonFinite s, PFloat y) \<Rightarrow> s = ''Infinity''
   | (PFloat x, PNonFinite t) \<Rightarrow> t = ''-Infinity''
   | (PNonFinite s, PNonFinite t) \<Rightarrow> s = ''Infinity'' \<and> t = ''-Infinity''
   | _ \<Rightarrow> False)"

fun float_max :: "pyval \<Rightarrow> pyval list \<Rightarrow> pyval" where
  "float_max best [] = best"
| "float_max best (v # vs) = float_max (if float_greater v best then v else best) vs"

datatype 'rt processor = Probe pyval | Sdk "'rt runtime_cache"

text \<open>The probe: it sleeps for a delay that is not zero and returns a fixed result.\<close>

definition probe_result :: "pyfloat \<Rightarrow> run_result" where
  "probe_result delay = new_run_result\<lparr>vr_started := True, vr_initialized := True, vr_fps := 30, vr_total_source_frames := 1,
     vr_total_sampled_frames := 1, vr_source_frames_read := 1, vr_processed_frames := 1, vr_effective_sample_fps := 1,
     vr_processing_seconds := delay\<rparr>"

definition probe_run :: "(pyval \<Rightarrow> exn option) \<Rightarrow> pyval \<Rightarrow> exn + run_result" where
  "probe_run sleep delay =
     (case (if delay = PFloat 0 then None else sleep delay) of
        Some e \<Rightarrow> Inl e
      | None \<Rightarrow> Inr (probe_result (case delay of PFloat x \<Rightarrow> x | _ \<Rightarrow> 0)))"

definition run_processor :: "('rt, 'n) executor \<Rightarrow> pipeline_config \<Rightarrow> 'rt processor \<Rightarrow> (exn + run_result) \<times> 'rt processor" where
  "run_processor xe config p = (case p of
     Probe delay \<Rightarrow> (probe_run (xe_sleep xe) delay, p)
   | Sdk cache \<Rightarrow> (case sdk_run (xe_sdk xe) config cache of (r, cache1) \<Rightarrow> (r, Sdk cache1)))"

definition processor_loads :: "'rt processor \<Rightarrow> int" where
  "processor_loads p = (case p of Probe _ \<Rightarrow> 0 | Sdk c \<Rightarrow> int (rc_loads c))"

definition processor_hits :: "'rt processor \<Rightarrow> int" where
  "processor_hits p = (case p of Probe _ \<Rightarrow> 0 | Sdk c \<Rightarrow> int (rc_hits c))"

section \<open>Thread budget of a partition\<close>

definition native_thread_budget_concurrency :: "int \<Rightarrow> int \<Rightarrow> int \<Rightarrow> int" where
  "native_thread_budget_concurrency executor_cores task_cpus planned_concurrency =
     (let scheduler_slots = max 1 (executor_cores div task_cpus) in max planned_concurrency scheduler_slots)"

definition partition_budget :: "('rt, 'n) executor \<Rightarrow> int \<Rightarrow> int \<Rightarrow> int \<Rightarrow> string \<Rightarrow> 'n cpu_process
    \<Rightarrow> thread_budget res \<times> 'n cpu_process" where
  "partition_budget xe cores task_cpus planned_concurrency mode cp =
     (case configure_placement_safe_cpu_runtime (xe_native xe) [PInt cores] (PInt task_cpus)
             (PInt (native_thread_budget_concurrency cores task_cpus planned_concurrency)) (mode = ''sdk'') cp of
        (Inl e, cp1) \<Rightarrow> (Inl e, cp1)
      | (Inr budget, cp1) \<Rightarrow>
          ((if mode = ''sdk''
            then bindE (verify_effective_thread_settings (xe_parse_int xe) (xe_native xe) budget cp1) (\<lambda>_. Inr budget)
            else Inr budget), cp1))"

section \<open>Records of one row\<close>

text \<open>\<open>json.loads\<close> of the payload of a record, an object.\<close>

definition loaded_payload :: "pylib \<Rightarrow> (string \<times> pyval) list \<Rightarrow> (string \<times> pyval) list res" where
  "loaded_payload lib r = bindE (item_get r ''payload_json'') (\<lambda>t.
     case t of
       PStr s \<Rightarrow> (case json_loads lib s of None \<Rightarrow> Inl ValueError | Some (PDict d) \<Rightarrow> Inr d | Some _ \<Rightarrow> Inl TypeError)
     | _ \<Rightarrow> Inl TypeError)"

definition is_line_count :: "(string \<times> pyval) list \<Rightarrow> bool" where
  "is_line_count r \<longleftrightarrow> map_of r ''record_type'' = Some (PStr ''line_count'')"

definition line_position :: "(string \<times> pyval) list \<Rightarrow> nat res" where
  "line_position d = bindE (item_get d ''_sjd_position'') (\<lambda>v.
     case v of PInt i \<Rightarrow> Inr (nat i) | _ \<Rightarrow> Inl TypeError)"

definition selected_positions :: "pylib \<Rightarrow> (string \<times> pyval) list list \<Rightarrow> nat list res" where
  "selected_positions lib raw =
     bindE (mapE (loaded_payload lib) (filter is_line_count raw)) (\<lambda>line_rows.
     bindE (select_production_line_counts
              (map (\<lambda>(index, payload). dset ''_sjd_position'' (PInt (int index)) payload)
                (zip [0..<length line_rows] line_rows))) (\<lambda>selected.
       mapE line_position selected))"

text \<open>The columns that a partition adds to a record of the row.\<close>

definition row_columns :: "string list" where
  "row_columns = [''batch_id'', ''process_attempt_id'', ''envelope_sha256'', ''manifest_sha256'', ''membership_sha256'',
     ''fence'', ''input_payload_sha256'']"

definition row_columns2 :: "string list" where
  "row_columns2 = [''config_sha256'', ''model_identity'', ''release_digest'']"

definition row_columns3 :: "string list" where
  "row_columns3 = [''runtime_key'', ''duration_seconds'', ''planned_cost_seconds'', ''planned_concurrency'', ''peak_rss_bytes'',
     ''duration_only_fallback'', ''bucket_id'', ''wave_index'', ''physical_partition'']"

definition copied :: "work \<Rightarrow> string list \<Rightarrow> (string \<times> pyval) list res" where
  "copied row names = mapE (\<lambda>name. bindE (item_get row name) (\<lambda>v. Inr (name, v))) names"

definition normalized_record :: "('rt, 'n) executor \<Rightarrow> task_identity \<Rightarrow> thread_budget \<Rightarrow> 'rt processor \<Rightarrow> work
    \<Rightarrow> nat \<Rightarrow> (string \<times> pyval) list \<Rightarrow> (string \<times> pyval) list \<Rightarrow> (string \<times> pyval) list res" where
  "normalized_record xe identity budget p row sequence payload r =
     bindE (copied row row_columns) (\<lambda>c1.
     bindE (process_sha256 (xe_lib xe) (PDict payload)) (\<lambda>digest.
     bindE (copied row row_columns2) (\<lambda>c2.
     bindE (copied row row_columns3) (\<lambda>c3.
     bindE (item_get row ''physical_partition'') (\<lambda>physical.
       Inr (dict_update r (c1 @ [(''record_payload_sha256'', PStr digest)] @ c2
         @ [(''package_version'', PStr (xe_package_version xe))] @ c3
         @ [(''physical_partition_id'', physical), (''stage_id'', PInt (ti_stage_id identity)),
            (''partition_id'', PInt (ti_partition_id identity)), (''task_attempt_id'', PInt (ti_task_attempt_id identity)),
            (''task_attempt_number'', PInt (ti_attempt_number identity)),
            (''executor_identity'', PStr (ti_executor_identity identity)), (''executor_host'', PStr (ti_executor_host identity)),
            (''record_sequence'', PInt (int sequence)), (''detector_batch_size'', dget row ''batch_size'' (PInt 1)),
            (''cpu_threads'', PInt (tb_threads_per_worker budget)), (''runtime_loads'', PInt (processor_loads p)),
            (''runtime_cache_hits'', PInt (processor_hits p))])))))))"

text \<open>The loop over the raw records: line counts that were not selected are dropped, the others get
  consecutive sequence numbers.\<close>

fun emit_records :: "('rt, 'n) executor \<Rightarrow> task_identity \<Rightarrow> thread_budget \<Rightarrow> 'rt processor \<Rightarrow> work \<Rightarrow> nat list
    \<Rightarrow> nat \<Rightarrow> nat \<Rightarrow> (string \<times> pyval) list list \<Rightarrow> (string \<times> pyval) list list res" where
  "emit_records xe identity budget p row selected line sequence [] = Inr []"
| "emit_records xe identity budget p row selected line sequence (r # rs) =
     bindE (loaded_payload (xe_lib xe) r) (\<lambda>payload.
       if is_line_count r \<and> line \<notin> set selected
       then emit_records xe identity budget p row selected (Suc line) sequence rs
       else bindE (normalized_record xe identity budget p row sequence payload r) (\<lambda>n.
         bindE (emit_records xe identity budget p row selected (if is_line_count r then Suc line else line) (Suc sequence) rs)
           (\<lambda>ns. Inr (n # ns))))"

definition execute_row :: "('rt, 'n) executor \<Rightarrow> (nat \<Rightarrow> string) \<Rightarrow> task_identity \<Rightarrow> thread_budget \<Rightarrow> work \<Rightarrow> 'rt processor
    \<Rightarrow> (string \<times> pyval) list list res \<times> 'rt processor" where
  "execute_row xe now identity budget row p =
     (case process_video (xe_lib xe) now None (build_and_run (xe_config xe) (run_processor xe)) row p of
        (Inl e, p1) \<Rightarrow> (Inl e, p1)
      | (Inr raw, p1) \<Rightarrow>
          (bindE (selected_positions (xe_lib xe) raw) (\<lambda>selected.
             emit_records xe identity budget p1 row selected 0 0 raw), p1))"

fun execute_rows :: "('rt, 'n) executor \<Rightarrow> (nat \<Rightarrow> nat \<Rightarrow> string) \<Rightarrow> task_identity \<Rightarrow> thread_budget \<Rightarrow> work list \<Rightarrow> 'rt processor
    \<Rightarrow> (string \<times> pyval) list list res" where
  "execute_rows xe now identity budget [] p = Inr []"
| "execute_rows xe now identity budget (row # rows) p =
     (case execute_row xe (now 0) identity budget row p of
        (Inl e, _) \<Rightarrow> Inl e
      | (Inr rs, p1) \<Rightarrow> bindE (execute_rows xe (\<lambda>i. now (Suc i)) identity budget rows p1) (\<lambda>rest. Inr (rs @ rest)))"

section \<open>One partition\<close>

definition check_release :: "string \<Rightarrow> work list \<Rightarrow> unit res" where
  "check_release observed rows =
     (let expected = dget (hd rows) ''_expected_release_package_version'' PNone;
          manifest = dget (hd rows) ''_expected_release_manifest_sha256'' PNone in
      if expected = PNone then Inr ()
      else if \<not> py_eq (PStr observed) expected then Inl ProcessValidationError
      else if list_ex (\<lambda>row. \<not> py_eq (dget row ''release_digest'' PNone) manifest) rows
      then Inl ProcessValidationError else Inr ())"

definition partition_mode :: "pyval \<Rightarrow> string res" where
  "partition_mode v = (case v of
     PStr s \<Rightarrow> if s = ''probe'' \<or> s = ''sdk'' then Inr s else Inl ProcessValidationError
   | PList _ \<Rightarrow> Inl TypeError
   | PDict _ \<Rightarrow> Inl TypeError
   | _ \<Rightarrow> Inl ProcessValidationError)"

definition new_processor :: "('rt, 'n) executor \<Rightarrow> string \<Rightarrow> work list \<Rightarrow> 'rt processor res" where
  "new_processor xe mode rows =
     (if mode = ''sdk'' then Inr (Sdk empty_cache)
      else bindE (mapE (\<lambda>row. py_float (xe_parse_float xe) (dget row ''probe_delay_seconds'' (PFloat 0))) rows) (\<lambda>delays.
        Inr (Probe (float_max (hd delays) (tl delays)))))"

text \<open>The checks before anything runs: identity, cores, width of a task, concurrency and mode.\<close>

definition partition_settings :: "('rt, 'n) executor \<Rightarrow> work list \<Rightarrow> (task_identity \<times> int \<times> int \<times> int \<times> string) res" where
  "partition_settings xe rows =
     bindE (task_identity_of (xe_context xe) (hd rows)) (\<lambda>identity.
     bindE (mapE (\<lambda>row. process_nonnegative_int (dget row ''physical_partition'' PNone)) rows) (\<lambda>expected.
       if set expected \<noteq> {ti_partition_id identity} then Inl ProcessValidationError
       else bindE (process_positive_int (dget (hd rows) ''executor_cores'' PNone)) (\<lambda>cores.
         bindE (process_positive_int (dget (hd rows) ''task_cpus'' PNone)) (\<lambda>task_cpus.
           if task_cpus \<notin> set REVIEWED_TASK_CPU_WIDTHS then Inl ProcessValidationError
           else if cores < task_cpus then Inl ProcessValidationError
           else bindE (check_release (xe_package_version xe) rows) (\<lambda>_.
             bindE (process_positive_int (dget (hd rows) ''planned_concurrency'' PNone)) (\<lambda>concurrency.
             bindE (partition_mode (dget (hd rows) ''mode'' PNone)) (\<lambda>mode.
               Inr (identity, cores, task_cpus, concurrency, mode))))))))"

definition execute_sjd_partition :: "('rt, 'n) executor \<Rightarrow> (nat \<Rightarrow> nat \<Rightarrow> string) \<Rightarrow> work list \<Rightarrow> 'n cpu_process
    \<Rightarrow> (string \<times> pyval) list list res \<times> 'n cpu_process" where
  "execute_sjd_partition xe now rows cp =
     (if rows = [] then (Inr [], cp)
      else case partition_settings xe rows of
        Inl e \<Rightarrow> (Inl e, cp)
      | Inr (identity, cores, task_cpus, concurrency, mode) \<Rightarrow>
          (case partition_budget xe cores task_cpus concurrency mode cp of
             (Inl e, cp1) \<Rightarrow> (Inl e, cp1)
           | (Inr budget, cp1) \<Rightarrow>
               (bindE (new_processor xe mode rows) (\<lambda>p. execute_rows xe now identity budget rows p), cp1)))"

text \<open>The adapter for one physical Spark partition: nothing, or one bucket.\<close>

definition execute_sjd_bucket_partition :: "('rt, 'n) executor \<Rightarrow> (nat \<Rightarrow> nat \<Rightarrow> string) \<Rightarrow> work list option list \<Rightarrow> 'n cpu_process
    \<Rightarrow> (string \<times> pyval) list list res \<times> 'n cpu_process" where
  "execute_sjd_bucket_partition xe now containers cp = (case containers of
     [] \<Rightarrow> (Inr [], cp)
   | None # _ \<Rightarrow> (Inr [], cp)
   | [Some rows] \<Rightarrow> execute_sjd_partition xe now rows cp
   | _ \<Rightarrow> (Inl ProcessValidationError, cp))"

section \<open>Warm-up\<close>

text \<open>\<open>d.setdefault(k, v)\<close>\<close>

definition dsetdefault :: "'k \<Rightarrow> 'v \<Rightarrow> ('k \<times> 'v) list \<Rightarrow> ('k \<times> 'v) list" where
  "dsetdefault k v d = (if map_of d k = None then dset k v d else d)"

text \<open>What the memory probe runs on an executor: the thread budget, the configuration, the model and one video.  An exception of
  these libraries passes through.\<close>

definition passed :: "exn + 'a \<Rightarrow> 'a res" where
  "passed m = (case m of Inl e \<Rightarrow> Inl (ExternalError (exception_class e)) | Inr x \<Rightarrow> Inr x)"

definition warm_executor_for_work :: "('rt, 'n) executor \<Rightarrow> work \<Rightarrow> 'n cpu_process \<Rightarrow> unit res \<times> 'n cpu_process" where
  "warm_executor_for_work xe work cp =
     (case bindE (model_identity (xe_lib xe) work) (\<lambda>identity.
             let row = dsetdefault ''model_identity'' (PStr identity) work in
             bindE (process_positive_int (dget row ''executor_cores'' PNone)) (\<lambda>cores.
             bindE (process_positive_int (dget row ''task_cpus'' PNone)) (\<lambda>cpus.
             bindE (process_positive_int (dget row ''planned_concurrency'' PNone)) (\<lambda>planned. Inr (row, cores, cpus, planned))))) of
        Inl e \<Rightarrow> (Inl e, cp)
      | Inr (row, cores, cpus, planned) \<Rightarrow>
          (case partition_budget xe cores cpus planned ''sdk'' cp of
             (Inl e, cp1) \<Rightarrow> (Inl e, cp1)
           | (Inr budget, cp1) \<Rightarrow>
               (bindE (passed (xe_config xe row)) (\<lambda>config.
                bindE (passed (sdk_load_runtime (xe_sdk xe) config)) (\<lambda>runtime.
                bindE (passed (sdk_run_with_runtime (xe_sdk xe) config runtime)) (\<lambda>r.
                  if vr_processed_frames r < 1 then Inl ProcessValidationError else Inr ()))), cp1)))"

fun warm_each :: "('rt, 'n) executor \<Rightarrow> work list \<Rightarrow> 'n cpu_process \<Rightarrow> unit res \<times> 'n cpu_process" where
  "warm_each xe [] cp = (Inr (), cp)"
| "warm_each xe (w # ws) cp = (case warm_executor_for_work xe w cp of
     (Inl e, cp1) \<Rightarrow> (Inl e, cp1)
   | (Inr _, cp1) \<Rightarrow> warm_each xe ws cp1)"

definition warm_executor_for_works :: "('rt, 'n) executor \<Rightarrow> work list \<Rightarrow> 'n cpu_process \<Rightarrow> unit res \<times> 'n cpu_process" where
  "warm_executor_for_works xe works cp = (if works = [] then (Inl ProcessValidationError, cp) else warm_each xe works cp)"

section \<open>Harnesses\<close>

definition executor_row :: "pylib \<Rightarrow> string \<Rightarrow> verified_envelope \<Rightarrow> execution_profile \<Rightarrow> string \<Rightarrow> concurrency_decision
    \<Rightarrow> planned_item \<Rightarrow> work res" where
  "executor_row lib package_version env profile mode concurrency planned =
     (let item = pi_item planned in
      bindE (model_identity lib (ei_payload item)) (\<lambda>identity.
        Inr (dict_update (ei_payload item)
          [(''work_id'', PStr (ei_work_id item)), (''attempt_id'', PStr (ei_attempt_id item)),
           (''batch_id'', PStr (ve_batch_id env)), (''process_attempt_id'', PStr (execution_attempt_id lib env)),
           (''envelope_sha256'', PStr (ve_envelope_sha256 env)), (''manifest_sha256'', PStr (ve_envelope_sha256 env)),
           (''membership_sha256'', PStr (ve_membership_sha256 env)), (''fence'', PInt (ei_fence item)),
           (''input_payload_sha256'', PStr (ei_payload_sha256 item)), (''config_sha256'', PStr (ei_config_sha256 item)),
           (''model_identity'', PStr identity), (''release_digest'', PStr (ei_release_digest item)),
           (''package_version'', PStr package_version), (''runtime_key'', PStr (ei_runtime_key item)),
           (''duration_seconds'', PFloat (ei_duration_seconds item)),
           (''planned_cost_seconds'', PFloat (pi_planned_cost_seconds planned)),
           (''planned_concurrency'', PInt (cd_concurrency concurrency)),
           (''peak_rss_bytes'', opt_int (cd_peak_rss_bytes concurrency)),
           (''duration_only_fallback'', PBool (cd_duration_only_fallback concurrency)),
           (''bucket_id'', PInt (int (pi_bucket_id planned))), (''wave_index'', PInt (int (pi_wave_index planned))),
           (''physical_partition'', PInt (int (pi_physical_partition planned))),
           (''physical_partition_id'', PInt (int (pi_physical_partition planned))),
           (''executor_cores'', PInt (ep_executor_cores profile)), (''task_cpus'', PInt (ep_task_cpus profile)),
           (''mode'', PStr mode)])))"

text \<open>The identity that the direct harness injects for a bucket.\<close>

definition direct_identity :: "bucket_plan \<Rightarrow> pyval" where
  "direct_identity b = PDict [(''stage_id'', PInt 0), (''partition_id'', PInt (int (bp_physical_partition b))),
     (''task_attempt_id'', PInt (int (bp_bucket_id b))), (''attempt_number'', PInt 0),
     (''executor_identity'', PStr (''direct-'' @ nat_dec (bp_physical_partition b) @ ''@localhost'')),
     (''executor_host'', PStr ''localhost'')]"

definition direct_rows :: "('rt, 'n) executor \<Rightarrow> verified_envelope \<Rightarrow> execution_plan \<Rightarrow> execution_profile \<Rightarrow> string \<Rightarrow> bucket_plan
    \<Rightarrow> work list res" where
  "direct_rows xe env plan profile mode b = mapE (\<lambda>p.
     bindE (executor_row (xe_lib xe) (xe_package_version xe) env profile mode (xp_concurrency plan) p) (\<lambda>row.
       Inr (dset ''_task_identity'' (direct_identity b) row))) (bp_items b)"

fun direct_buckets :: "('rt, 'n) executor \<Rightarrow> (nat \<Rightarrow> nat \<Rightarrow> nat \<Rightarrow> string) \<Rightarrow> verified_envelope \<Rightarrow> execution_plan \<Rightarrow> execution_profile
    \<Rightarrow> string \<Rightarrow> bucket_plan list \<Rightarrow> 'n cpu_process \<Rightarrow> (string \<times> pyval) list list res \<times> 'n cpu_process" where
  "direct_buckets xe now env plan profile mode [] cp = (Inr [], cp)"
| "direct_buckets xe now env plan profile mode (b # bs) cp =
     (case direct_rows xe env plan profile mode b of
        Inl e \<Rightarrow> (Inl e, cp)
      | Inr rows \<Rightarrow>
          (case execute_sjd_partition xe (now 0) rows cp of
             (Inl e, cp1) \<Rightarrow> (Inl e, cp1)
           | (Inr rs, cp1) \<Rightarrow>
               (case direct_buckets xe (\<lambda>i. now (Suc i)) env plan profile mode bs cp1 of
                  (Inl e, cp2) \<Rightarrow> (Inl e, cp2)
                | (Inr rest, cp2) \<Rightarrow> (Inr (rs @ rest), cp2))))"

definition direct_execute :: "('rt, 'n) executor \<Rightarrow> (nat \<Rightarrow> nat \<Rightarrow> nat \<Rightarrow> string) \<Rightarrow> verified_envelope \<Rightarrow> execution_plan \<Rightarrow> execution_profile
    \<Rightarrow> string \<Rightarrow> 'n cpu_process \<Rightarrow> (string \<times> pyval) list list res \<times> 'n cpu_process" where
  "direct_execute xe now env plan profile mode cp = direct_buckets xe now env plan profile mode (xp_buckets plan) cp"

text \<open>What the Spark harness hands to the partitions: one container per physical partition, with the rows of
  its bucket and what \<open>enrichment\<close> adds to the row of a work item.\<close>

definition spark_rows :: "('rt, 'n) executor \<Rightarrow> (string \<Rightarrow> work) \<Rightarrow> verified_envelope \<Rightarrow> execution_plan \<Rightarrow> execution_profile
    \<Rightarrow> string \<Rightarrow> bucket_plan \<Rightarrow> work list res" where
  "spark_rows xe enrichment env plan profile mode b = mapE (\<lambda>p.
     bindE (executor_row (xe_lib xe) (xe_package_version xe) env profile mode (xp_concurrency plan) p) (\<lambda>row.
       Inr (dict_update row (enrichment (ei_work_id (pi_item p)))))) (bp_items b)"

definition spark_containers :: "('rt, 'n) executor \<Rightarrow> (string \<Rightarrow> work) \<Rightarrow> verified_envelope \<Rightarrow> execution_plan \<Rightarrow> execution_profile
    \<Rightarrow> string \<Rightarrow> work list option list res" where
  "spark_containers xe enrichment env plan profile mode =
     bindE (mapE (\<lambda>b. bindE (spark_rows xe enrichment env plan profile mode b) (\<lambda>rows. Inr (bp_physical_partition b, rows)))
              (xp_buckets plan)) (\<lambda>by_partition.
       foldE (\<lambda>(part, rows) ordered. if part < length ordered then Inr (ordered[part := Some rows]) else Inl IndexError)
         by_partition (replicate (length (physical_partitions profile)) None))"

end
