(* ===== verification/Process_Attempts.thy ===== *)
theory Process_Attempts
  imports Process_Staging Content_Store
begin

text \<open>
  Immutable staging of \<^verbatim>\<open>sjd_process.py\<close>: the attempt-qualified files of one Spark partition with their
  receipts, the selection of one receipt per partition, and the attempt adapter, whose protocol is a
  record of operations and whose local implementation keeps one directory per process attempt.
  Contents are ASCII texts, so that a text is as long as its encoding.
\<close>

section \<open>Partition receipts\<close>

text \<open>Partition and task numbers come from Spark or from \<open>_nonnegative_int\<close>, so they are naturals.\<close>

record partition_staging_receipt =
  pr_physical_partition :: nat
  pr_task_attempt_id :: nat
  pr_attempt_number :: nat
  pr_record_count :: nat
  pr_work_ids :: "string list"
  pr_content_sha256 :: string
  pr_content_size_bytes :: nat

text \<open>\<open>f"{n:04d}"\<close>\<close>

definition pad4 :: "nat \<Rightarrow> string" where
  "pad4 n = replicate (4 - length (nat_dec n)) (CHR ''0'') @ nat_dec n"

definition partition_staging_path :: "string \<Rightarrow> nat \<Rightarrow> nat \<Rightarrow> nat \<Rightarrow> string" where
  "partition_staging_path staging_root physical_partition task_attempt_id attempt_number =
     staging_root @ ''/partition-'' @ pad4 physical_partition @ ''/task-attempt-'' @ nat_dec task_attempt_id
       @ ''/attempt-'' @ nat_dec attempt_number @ ''/records.jsonl''"

definition records_value :: "staged list \<Rightarrow> pyval" where
  "records_value rs = PList (map PDict rs)"

definition record_work_id :: "pylib \<Rightarrow> staged \<Rightarrow> string res" where
  "record_work_id lib r = bindE (item_get r ''work_id'') (\<lambda>v. Inr (py_str lib v))"

definition partition_receipt :: "pylib \<Rightarrow> nat \<Rightarrow> nat \<Rightarrow> nat \<Rightarrow> staged list \<Rightarrow> string
    \<Rightarrow> partition_staging_receipt res" where
  "partition_receipt lib physical_partition task_attempt_id attempt_number ordered content =
     bindE (mapE (record_work_id lib) ordered) (\<lambda>work_ids.
       Inr \<lparr>pr_physical_partition = physical_partition, pr_task_attempt_id = task_attempt_id,
            pr_attempt_number = attempt_number, pr_record_count = length ordered,
            pr_work_ids = sort (remdups work_ids), pr_content_sha256 = sha256_hex lib content,
            pr_content_size_bytes = length content\<rparr>)"

definition stage_partition_records :: "pylib \<Rightarrow> string \<Rightarrow> nat \<Rightarrow> staged list \<Rightarrow> nat \<Rightarrow> nat \<Rightarrow> files
    \<Rightarrow> (partition_staging_receipt \<times> files) res" where
  "stage_partition_records lib base physical_partition records task_attempt_id attempt_number fs =
     (let ordered = ordered_records lib records;
          destination = partition_staging_path base physical_partition task_attempt_id attempt_number
      in bindE (process_canonical lib (records_value ordered)) (\<lambda>content.
         bindE (partition_receipt lib physical_partition task_attempt_id attempt_number ordered content) (\<lambda>receipt.
           case map_of fs destination of
             Some existing \<Rightarrow> if existing \<noteq> content then Inl StagingConflictError else Inr (receipt, fs)
           | None \<Rightarrow> Inr (receipt, fs @ [(destination, content)]))))"

text \<open>\<open>dict(record)\<close> for every element of a parsed array; an element that is no object raises.  (Python's \<open>dict\<close> would also take a
  list of pairs; that is refused here.)\<close>

definition as_record :: "pyval \<Rightarrow> staged res" where
  "as_record v = (case v of PDict d \<Rightarrow> Inr d | PList [] \<Rightarrow> Inr [] | PStr [] \<Rightarrow> Inr [] | _ \<Rightarrow> Inl TypeError)"

definition parsed_records :: "pylib \<Rightarrow> pyval list \<Rightarrow> staged list res" where
  "parsed_records lib vs = bindE (mapE as_record vs) (\<lambda>rs. Inr (ordered_records lib rs))"

definition read_staged_partition_records :: "pylib \<Rightarrow> string \<Rightarrow> partition_staging_receipt \<Rightarrow> files
    \<Rightarrow> staged list res" where
  "read_staged_partition_records lib base receipt fs =
     (case map_of fs (partition_staging_path base (pr_physical_partition receipt)
                        (pr_task_attempt_id receipt) (pr_attempt_number receipt)) of
        None \<Rightarrow> Inl StagingConflictError
      | Some content \<Rightarrow>
          if 0 < pr_content_size_bytes receipt \<and> length content \<noteq> pr_content_size_bytes receipt
          then Inl StagingConflictError
          else if sha256_hex lib content \<noteq> pr_content_sha256 receipt then Inl StagingConflictError
          else (case json_loads lib content of
                  None \<Rightarrow> Inl ValueError
                | Some (PList vs) \<Rightarrow> bindE (parsed_records lib vs) (\<lambda>records.
                    if length records \<noteq> pr_record_count receipt then Inl StagingConflictError
                    else Inr records)
                | Some _ \<Rightarrow> Inl TypeError))"

text \<open>\<open>max(candidates, key=...)\<close>: the first candidate of the greatest key.\<close>

fun max_by :: "('a \<Rightarrow> 'b::linorder) \<Rightarrow> 'a \<Rightarrow> 'a list \<Rightarrow> 'a" where
  "max_by key x [] = x"
| "max_by key x (y # ys) = max_by key (if key x < key y then y else x) ys"

definition attempt_key :: "partition_staging_receipt \<Rightarrow> nat \<times> nat" where
  "attempt_key r = (pr_attempt_number r, pr_task_attempt_id r)"

definition content_identity :: "partition_staging_receipt \<Rightarrow> nat \<times> string list \<times> string \<times> nat" where
  "content_identity r = (pr_record_count r, pr_work_ids r, pr_content_sha256 r, pr_content_size_bytes r)"

definition select_receipt :: "partition_staging_receipt list \<Rightarrow> nat \<Rightarrow> partition_staging_receipt res" where
  "select_receipt receipts physical =
     (let candidates = filter (\<lambda>r. pr_physical_partition r = physical) receipts in
      if length (remdups (map content_identity candidates)) \<noteq> 1 then Inl StagingConflictError
      else Inr (max_by attempt_key (hd candidates) (tl candidates)))"

definition select_one_receipt_per_partition :: "partition_staging_receipt list \<Rightarrow> partition_staging_receipt list res" where
  "select_one_receipt_per_partition receipts =
     mapE (select_receipt receipts) (sort (remdups (map pr_physical_partition receipts)))"

section \<open>The attempt adapter\<close>

text \<open>The protocol \<open>AttemptAdapter\<close> over a staging area of type \<open>'f\<close>.\<close>

record 'f attempt_adapter =
  at_path :: "string \<Rightarrow> string \<Rightarrow> string res"
  at_load_complete :: "string \<Rightarrow> string \<Rightarrow> 'f \<Rightarrow> (staged list \<times> staged) option res"
  at_write_records :: "string \<Rightarrow> string \<Rightarrow> staged list \<Rightarrow> 'f \<Rightarrow> unit res \<times> 'f"
  at_read_records :: "string \<Rightarrow> string \<Rightarrow> 'f \<Rightarrow> staged list res"
  at_create_success :: "string \<Rightarrow> string \<Rightarrow> staged \<Rightarrow> 'f \<Rightarrow> unit res \<times> 'f"

text \<open>The local adapter: the directories that exist and the files in them.\<close>

record staging_area =
  sa_dirs :: "string list"
  sa_files :: files

definition path_segment :: "string \<Rightarrow> string res" where
  "path_segment value = bindE (process_text (PStr value)) (\<lambda>t.
     if t = ''.'' \<or> t = ''..'' \<or> CHR ''/'' \<in> set t \<or> CHR 0x5C \<in> set t then Inl ProcessValidationError
     else Inr t)"

definition attempt_path :: "string \<Rightarrow> string \<Rightarrow> string \<Rightarrow> string res" where
  "attempt_path base batch_id process_attempt_id =
     bindE (path_segment batch_id) (\<lambda>b. bindE (path_segment process_attempt_id) (\<lambda>a.
       Inr (base @ ''/batch='' @ b @ ''/attempt='' @ a)))"

definition records_path :: "string \<Rightarrow> string" where
  "records_path path = path @ ''/records.json''"

definition marker_path :: "string \<Rightarrow> string" where
  "marker_path path = path @ ''/_SUCCESS''"

definition read_json_file :: "pylib \<Rightarrow> string \<Rightarrow> files \<Rightarrow> pyval res" where
  "read_json_file lib path fs = (case map_of fs path of
     None \<Rightarrow> Inl StagingConflictError
   | Some content \<Rightarrow> (case json_loads lib content of None \<Rightarrow> Inl StagingConflictError | Some v \<Rightarrow> Inr v))"

definition read_records_file :: "pylib \<Rightarrow> string \<Rightarrow> files \<Rightarrow> staged list res" where
  "read_records_file lib path fs = bindE (read_json_file lib (records_path path) fs) (\<lambda>v.
     case v of PList vs \<Rightarrow> parsed_records lib vs | _ \<Rightarrow> Inl StagingConflictError)"

definition load_complete :: "pylib \<Rightarrow> string \<Rightarrow> string \<Rightarrow> string \<Rightarrow> staging_area
    \<Rightarrow> (staged list \<times> staged) option res" where
  "load_complete lib base batch_id process_attempt_id sa =
     bindE (attempt_path base batch_id process_attempt_id) (\<lambda>path.
       if path \<notin> set (sa_dirs sa) then Inr None
       else if map_of (sa_files sa) (records_path path) = None \<or> map_of (sa_files sa) (marker_path path) = None
       then Inl StagingConflictError
       else bindE (read_json_file lib (records_path path) (sa_files sa)) (\<lambda>records.
         case records of
           PList vs \<Rightarrow>
             bindE (read_json_file lib (marker_path path) (sa_files sa)) (\<lambda>marker.
             case marker of
               PDict m \<Rightarrow> bindE (parsed_records lib vs) (\<lambda>rs. Inr (Some (rs, m)))
             | _ \<Rightarrow> Inl StagingConflictError)
         | _ \<Rightarrow> Inl StagingConflictError))"

definition create_file :: "string \<Rightarrow> string \<Rightarrow> files \<Rightarrow> files res" where
  "create_file path content fs =
     (if map_of fs path \<noteq> None then Inl (ExternalError ''FileExistsError'') else Inr (fs @ [(path, content)]))"

text \<open>A failure after \<open>path.mkdir\<close> leaves the directory behind, as a partial attempt.\<close>

definition write_records :: "pylib \<Rightarrow> string \<Rightarrow> string \<Rightarrow> string \<Rightarrow> staged list \<Rightarrow> staging_area
    \<Rightarrow> unit res \<times> staging_area" where
  "write_records lib base batch_id process_attempt_id records sa =
     (case attempt_path base batch_id process_attempt_id of
        Inl e \<Rightarrow> (Inl e, sa)
      | Inr path \<Rightarrow>
          if path \<in> set (sa_dirs sa) then (Inl StagingConflictError, sa)
          else let sa1 = sa\<lparr>sa_dirs := sa_dirs sa @ [path]\<rparr> in
            (case bindE (process_canonical lib (records_value (ordered_records lib records))) (\<lambda>content.
                    create_file (records_path path) content (sa_files sa)) of
               Inl e \<Rightarrow> (Inl e, sa1)
             | Inr fs \<Rightarrow> (Inr (), sa1\<lparr>sa_files := fs\<rparr>)))"

definition read_records :: "pylib \<Rightarrow> string \<Rightarrow> string \<Rightarrow> string \<Rightarrow> staging_area \<Rightarrow> staged list res" where
  "read_records lib base batch_id process_attempt_id sa =
     bindE (attempt_path base batch_id process_attempt_id) (\<lambda>path. read_records_file lib path (sa_files sa))"

definition create_success :: "pylib \<Rightarrow> string \<Rightarrow> string \<Rightarrow> string \<Rightarrow> staged \<Rightarrow> staging_area
    \<Rightarrow> unit res \<times> staging_area" where
  "create_success lib base batch_id process_attempt_id marker sa =
     (case bindE (attempt_path base batch_id process_attempt_id) (\<lambda>path.
             bindE (process_canonical lib (PDict marker)) (\<lambda>content. Inr (path, content))) of
        Inl e \<Rightarrow> (Inl e, sa)
      | Inr (path, content) \<Rightarrow>
          if path \<notin> set (sa_dirs sa) then (Inl FileNotFoundError, sa)
          else (case map_of (sa_files sa) (marker_path path) of
                  Some existing \<Rightarrow>
                    if existing \<noteq> content then (Inl ImmutableConflictError, sa) else (Inr (), sa)
                | None \<Rightarrow> (Inr (), sa\<lparr>sa_files := sa_files sa @ [(marker_path path, content)]\<rparr>)))"

definition local_adapter :: "pylib \<Rightarrow> string \<Rightarrow> staging_area attempt_adapter" where
  "local_adapter lib base =
     \<lparr>at_path = attempt_path base, at_load_complete = load_complete lib base,
      at_write_records = write_records lib base, at_read_records = read_records lib base,
      at_create_success = create_success lib base\<rparr>"

section \<open>The success marker\<close>

text \<open>\<open>sorted(str(record["work_id"]) for record in records if record["record_type"] == "error")\<close>\<close>

fun failed_ids :: "pylib \<Rightarrow> staged list \<Rightarrow> string list res" where
  "failed_ids lib [] = Inr []"
| "failed_ids lib (r # rs) = bindE (item_get r ''record_type'') (\<lambda>t.
     bindE (if t = PStr ''error'' then bindE (record_work_id lib r) (\<lambda>w. Inr [w]) else Inr []) (\<lambda>ws.
     bindE (failed_ids lib rs) (\<lambda>ws'. Inr (ws @ ws'))))"

definition failed_work_ids :: "pylib \<Rightarrow> staged list \<Rightarrow> string list res" where
  "failed_work_ids lib records = bindE (failed_ids lib records) (\<lambda>ws. Inr (sort ws))"

definition success_marker :: "pylib \<Rightarrow> verified_envelope \<Rightarrow> staged list \<Rightarrow> staged res" where
  "success_marker lib env records =
     bindE (failed_work_ids lib records) (\<lambda>failures.
     bindE (process_sha256 lib (records_value records)) (\<lambda>digest.
       Inr [(''schema_version'', PInt 1), (''batch_id'', PStr (ve_batch_id env)),
            (''process_attempt_id'', PStr (execution_attempt_id lib env)),
            (''envelope_sha256'', PStr (ve_envelope_sha256 env)),
            (''membership_sha256'', PStr (ve_membership_sha256 env)),
            (''record_count'', PInt (int (length records))),
            (''records_sha256'', PStr digest), (''failed_work_ids'', PList (map PStr failures))]))"

definition verify_marker :: "pylib \<Rightarrow> staged \<Rightarrow> staged list \<Rightarrow> verified_envelope \<Rightarrow> unit res" where
  "verify_marker lib marker records env = bindE (success_marker lib env records) (\<lambda>expected.
     if \<not> py_eq (PDict marker) (PDict expected) then Inl StagingConflictError else Inr ())"

end
