(* ===== verification/Process_Plan_Spec.thy ===== *)
theory Process_Plan_Spec
  imports Process_Plan "HOL-Library.Multiset"
begin

text \<open>
  The plan of a batch: every item is planned exactly once, the buckets are balanced up to the longest
  item, the projection is the one the claim was admitted with, and a plan exists whenever the profile
  can run one task.
\<close>

section \<open>The greedy assignment\<close>

lemma argmin_from_least:
  assumes "best < i" "xs ! best = c" "\<forall>j < i. c \<le> xs ! j" "i + length ys = length xs" "drop i xs = ys"
  shows "argmin_from best c i ys < length xs \<and> (\<forall>j < length xs. xs ! argmin_from best c i ys \<le> xs ! j)"
  using assms
proof (induction best c i ys rule: argmin_from.induct)
  case (2 best c i y ys)
  have y: "xs ! i = y" "drop (Suc i) xs = ys"
    using 2(7) by (metis nth_via_drop) (metis 2(7) drop_Suc list.sel(3) tl_drop)
  show ?case
  proof (cases "y < c")
    case True
    have "\<forall>j < Suc i. y \<le> xs ! j" using 2(5) True y(1) by (auto simp: less_Suc_eq intro: order.trans less_imp_le)
    then show ?thesis using 2(1) [OF True] 2(6) y True by auto
  next
    case False
    have "\<forall>j < Suc i. c \<le> xs ! j" using 2(5) False y(1) by (auto simp: less_Suc_eq)
    then show ?thesis using 2(2) [OF False] 2(3,4,6) y False by auto
  qed
qed auto

lemma argmin_index_least:
  assumes "costs \<noteq> []"
  shows "argmin_index costs < length costs" "j < length costs \<Longrightarrow> costs ! argmin_index costs \<le> costs ! j"
proof -
  obtain x xs where "costs = x # xs" using assms by (cases costs) auto
  then have "argmin_index costs < length costs \<and> (\<forall>j < length costs. costs ! argmin_index costs \<le> costs ! j)"
    using argmin_from_least [of 0 1 costs x xs] by (simp add: argmin_index_def)
  then show "argmin_index costs < length costs" "j < length costs \<Longrightarrow> costs ! argmin_index costs \<le> costs ! j" by auto
qed

lemma mset_concat_update:
  "t < length bs \<Longrightarrow> mset (concat (bs[t := bs ! t @ [x]])) = add_mset x (mset (concat bs))"
  by (induction bs arbitrary: t) (auto split: nat.splits)

text \<open>The cost of a bucket is the float sum of its durations, in the order of assignment.\<close>

definition bucket_cost :: "envelope_item list \<Rightarrow> pyfloat" where
  "bucket_cost b = foldl (\<lambda>c i. fadd c (ei_duration_seconds i)) 0 b"

lemma bucket_cost_snoc: "bucket_cost (b @ [i]) = fadd (bucket_cost b) (ei_duration_seconds i)"
  by (simp add: bucket_cost_def)

definition assignment_ok :: "nat \<Rightarrow> envelope_item list \<Rightarrow> envelope_item list list \<times> pyfloat list \<Rightarrow> bool" where
  "assignment_ok n seen bc \<longleftrightarrow> length (fst bc) = n \<and> snd bc = map bucket_cost (fst bc)
     \<and> mset (concat (fst bc)) = mset seen"

lemma assign_item_ok:
  assumes "0 < n" "assignment_ok n seen bc"
  shows "assignment_ok n (item # seen) (assign_item bc item)"
proof -
  obtain bs cs where bc: "bc = (bs, cs)" by (cases bc)
  have b: "length bs = n" "cs = map bucket_cost bs" "mset (concat bs) = mset seen"
    using assms(2) by (simp_all add: assignment_ok_def bc)
  let ?t = "argmin_index cs"
  have t: "?t < length bs" using argmin_index_least(1) [of cs] b assms(1) by auto
  have "cs[?t := fadd (cs ! ?t) (ei_duration_seconds item)] = map bucket_cost (bs[?t := bs ! ?t @ [item]])"
    using t by (simp add: b(2) map_update bucket_cost_snoc)
  then show ?thesis using b(1,3) mset_concat_update [OF t]
    by (simp add: assignment_ok_def assign_item_def bc Let_def)
qed

lemma assign_items_ok:
  assumes "0 < n"
  shows "assignment_ok n items (assign_items n items)"
proof -
  have "assignment_ok n (rev xs @ seen) (foldl assign_item bc xs)" if "assignment_ok n seen bc" for seen bc xs
    using that
  proof (induction xs arbitrary: seen bc)
    case (Cons x xs)
    from Cons.IH [OF assign_item_ok [OF assms Cons.prems]] show ?case by simp
  qed simp
  from this [of "[]" "(replicate n [], replicate n 0)" "plan_order items"]
  show ?thesis by (simp add: assignment_ok_def assign_items_def bucket_cost_def plan_order_def)
qed

section \<open>Balance\<close>

definition balanced :: "pyfloat \<Rightarrow> pyfloat list \<Rightarrow> bool" where
  "balanced longest costs \<longleftrightarrow> (\<forall>c \<in> set costs. is_f64 c)
     \<and> (\<forall>i < length costs. \<forall>j < length costs. costs ! i \<le> fadd (costs ! j) longest)"

lemma balanced_step:
  assumes "balanced longest costs" "costs \<noteq> []" "0 \<le> d" "d \<le> longest"
  shows "balanced longest (costs[argmin_index costs := fadd (costs ! argmin_index costs) d])"
proof -
  let ?t = "argmin_index costs" and ?new = "fadd (costs ! argmin_index costs) d"
  note t = argmin_index_least [OF assms(2)]
  have f64: "is_f64 (costs ! i)" if "i < length costs" for i using assms(1) that by (auto simp: balanced_def)
  have up: "costs ! ?t \<le> ?new" using fadd_ge_left [OF f64 [OF t(1)] assms(3)] .
  have l0: "0 \<le> longest" using assms(3,4) by simp
  have "(costs[?t := ?new]) ! i \<le> fadd ((costs[?t := ?new]) ! j) longest" if "i < length costs" "j < length costs" for i j
  proof -
    have "costs ! ?t \<le> costs ! j" by (rule t(2) [OF that(2)])
    then have a: "?new \<le> fadd (costs ! j) longest" using fadd_mono assms(4) by blast
    have b: "costs ! i \<le> fadd ?new longest"
      using assms(1) that(1) t(1) fadd_mono [OF up, of longest longest] by (auto simp: balanced_def intro: order.trans)
    have c: "?new \<le> fadd ?new longest" by (rule fadd_ge_left) (simp_all add: l0)
    show ?thesis using a b c assms(1) that t(1) by (auto simp: nth_list_update balanced_def)
  qed
  moreover have "\<forall>c \<in> set (costs[?t := ?new]). is_f64 c"
    using assms(1) by (auto simp: balanced_def dest: set_update_subset_insert [THEN subsetD])
  ultimately show ?thesis by (simp add: balanced_def)
qed

lemma assign_items_balanced:
  assumes "0 < n" "\<forall>i \<in> set items. 0 \<le> ei_duration_seconds i \<and> ei_duration_seconds i \<le> longest" "0 \<le> longest"
  shows "balanced longest (snd (assign_items n items))"
proof -
  have "balanced longest (snd (foldl assign_item bc xs))"
    if "balanced longest (snd bc)" "snd bc \<noteq> []" "\<forall>i \<in> set xs. 0 \<le> ei_duration_seconds i \<and> ei_duration_seconds i \<le> longest"
    for bc xs
    using that
  proof (induction xs arbitrary: bc)
    case (Cons x xs)
    have "snd (assign_item bc x) = (snd bc)[argmin_index (snd bc) := fadd (snd bc ! argmin_index (snd bc)) (ei_duration_seconds x)]"
      by (simp add: assign_item_def Let_def split: prod.splits)
    then show ?case
      using Cons.prems balanced_step [of longest "snd bc" "ei_duration_seconds x"] Cons.IH [of "assign_item bc x"] by simp
  qed simp
  moreover have "balanced longest (replicate n 0)"
    using assms(3) by (simp add: balanced_def is_f64_def fadd_def fround_nonneg)
  ultimately show ?thesis using assms by (simp add: assign_items_def plan_order_def)
qed

section \<open>The same projection as the claim\<close>

lemma map_insort: "map f (insort_key (\<lambda>x. g (f x)) a xs) = insort_key g (f a) (map f xs)"
  by (induction xs) auto

lemma map_sort: "map f (sort_key (\<lambda>x. g (f x)) xs) = sort_key g (map f xs)"
  by (induction xs) (simp_all add: map_insort)

text \<open>The greedy loop depends on the durations alone.\<close>

definition add_duration :: "pyfloat list \<Rightarrow> pyfloat \<Rightarrow> pyfloat list" where
  "add_duration costs d = (let t = argmin_index costs in costs[t := fadd (costs ! t) d])"

lemma plan_costs: "snd (foldl assign_item bc items) = foldl add_duration (snd bc) (map ei_duration_seconds items)"
proof (induction items arbitrary: bc)
  case (Cons x xs)
  have "snd (assign_item bc x) = add_duration (snd bc) (ei_duration_seconds x)"
    by (simp add: assign_item_def add_duration_def Let_def split: prod.splits)
  with Cons show ?case by simp
qed simp

lemma claim_costs: "foldl lpt_assign costs rows = foldl add_duration costs (map w_duration_seconds rows)"
  by (induction rows arbitrary: costs) (simp_all add: lpt_assign_def add_duration_def)

lemma same_projection:
  assumes "map (\<lambda>i. (ei_duration_seconds i, ei_work_id i)) items = map (\<lambda>w. (w_duration_seconds w, w_work_id w)) rows"
  shows "snd (assign_items n items) = foldl lpt_assign (replicate n 0) (lpt_order rows)"
proof -
  let ?g = "\<lambda>(d, i). (- d, i) :: pyfloat \<times> string"
  have "map (\<lambda>i. (ei_duration_seconds i, ei_work_id i)) (plan_order items) =
      sort_key ?g (map (\<lambda>i. (ei_duration_seconds i, ei_work_id i)) items)"
    using map_sort [of "\<lambda>i. (ei_duration_seconds i, ei_work_id i)" ?g items] by (simp add: plan_order_def)
  also have "\<dots> = map (\<lambda>w. (w_duration_seconds w, w_work_id w)) (lpt_order rows)"
    using map_sort [of "\<lambda>w. (w_duration_seconds w, w_work_id w)" ?g rows] by (simp add: lpt_order_def assms)
  finally have "map fst (map (\<lambda>i. (ei_duration_seconds i, ei_work_id i)) (plan_order items)) =
      map fst (map (\<lambda>w. (w_duration_seconds w, w_work_id w)) (lpt_order rows))" by simp
  then have "map ei_duration_seconds (plan_order items) = map w_duration_seconds (lpt_order rows)"
    by (simp add: comp_def)
  then show ?thesis by (simp add: assign_items_def plan_costs claim_costs)
qed

section \<open>More workers\<close>

text \<open>
  The makespan does not grow with the number of workers.  The loads of more workers are dominated by those of fewer:
  above any threshold that some of the fewer workers has not exceeded, there are at most as many of the more workers.
\<close>

definition above_count :: "pyfloat \<Rightarrow> pyfloat list \<Rightarrow> nat" where
  "above_count t costs = length (filter (\<lambda>c. t < c) costs)"

definition dominated :: "pyfloat list \<Rightarrow> pyfloat list \<Rightarrow> bool" where
  "dominated many few \<longleftrightarrow> few \<noteq> [] \<and> length few \<le> length many \<and> (\<forall>c \<in> set few. is_f64 c)
     \<and> (\<forall>t. (\<exists>c \<in> set few. c \<le> t) \<longrightarrow> above_count t many \<le> above_count t few)"

lemma dominatedD: "dominated many few \<Longrightarrow> c \<in> set few \<Longrightarrow> c \<le> t \<Longrightarrow> above_count t many \<le> above_count t few"
  by (auto simp: dominated_def)

lemma above_update:
  assumes "k < length costs"
  shows "above_count t (costs[k := v]) + (if t < costs ! k then 1 else 0) = above_count t costs + (if t < v then 1 else 0)"
  using assms unfolding above_count_def
proof (induction costs arbitrary: k)
  case (Cons c cs)
  then show ?case by (cases k) auto
qed simp

lemma above_all: "(\<forall>c \<in> set costs. t < c) \<Longrightarrow> above_count t costs = length costs"
  by (simp add: above_count_def filter_True)

lemma above_some: "c \<in> set costs \<Longrightarrow> c \<le> t \<Longrightarrow> above_count t costs < length costs"
  unfolding above_count_def by (metis length_filter_less not_less)

lemma above_none: "above_count t costs = 0 \<longleftrightarrow> (\<forall>c \<in> set costs. c \<le> t)"
  by (auto simp: above_count_def filter_empty_conv not_less)

lemma dominated_least:
  assumes "dominated many few"
  shows "many ! argmin_index many \<le> few ! argmin_index few"
proof (rule ccontr)
  let ?a = "few ! argmin_index few"
  have ne: "few \<noteq> []" "many \<noteq> []" "length few \<le> length many" using assms by (auto simp: dominated_def)
  note least = argmin_index_least [OF ne(1)] argmin_index_least [OF ne(2)]
  assume "\<not> many ! argmin_index many \<le> ?a"
  then have "\<forall>c \<in> set many. ?a < c" using least(4) by (fastforce simp: in_set_conv_nth)
  then have "above_count ?a many = length many" by (rule above_all)
  moreover have "?a \<in> set few" using least(1) by simp
  moreover from this have "above_count ?a many \<le> above_count ?a few" by (rule dominatedD [OF assms]) simp
  ultimately show False using above_some [of ?a few ?a] ne(3) by simp
qed

lemma dominated_step:
  assumes "dominated many few" "0 \<le> d"
  shows "dominated (add_duration many d) (add_duration few d)"
proof -
  let ?j = "argmin_index many" and ?i = "argmin_index few"
  let ?b = "many ! ?j" and ?a = "few ! ?i"
  have ne: "few \<noteq> []" "many \<noteq> []" "length few \<le> length many" using assms by (auto simp: dominated_def)
  note i = argmin_index_least [OF ne(1)] and j = argmin_index_least [OF ne(2)]
  have up: "?a \<le> fadd ?a d" using assms i(1) by (intro fadd_ge_left) (auto simp: dominated_def)
  have ba: "?b \<le> ?a" "fadd ?b d \<le> fadd ?a d" using dominated_least [OF assms(1)] by (auto intro: fadd_mono)
  have "above_count t (many[?j := fadd ?b d]) \<le> above_count t (few[?i := fadd ?a d])" if t: "\<exists>c \<in> set (few[?i := fadd ?a d]). c \<le> t" for t
  proof -
    have least: "?a \<le> c" if "c \<in> set few" for c using i(2) that by (auto simp: in_set_conv_nth)
    obtain c where c: "c \<in> set (few[?i := fadd ?a d])" "c \<le> t" using t by blast
    then have "c = fadd ?a d \<or> c \<in> set few" using set_update_subset_insert [of few ?i "fadd ?a d"] by blast
    then have "?a \<le> t" using c(2) up least by fastforce
    then have "above_count t many \<le> above_count t few" by (intro dominatedD [OF assms(1) nth_mem [OF i(1)]])
    with above_update [OF j(1), of t "fadd ?b d"] above_update [OF i(1), of t "fadd ?a d"] ba \<open>?a \<le> t\<close>
    show ?thesis by (auto split: if_splits)
  qed
  moreover have "\<forall>c \<in> set (few[?i := fadd ?a d]). is_f64 c"
    using assms(1) by (auto simp: dominated_def dest: set_update_subset_insert [THEN subsetD])
  ultimately show ?thesis using ne by (simp add: dominated_def add_duration_def Let_def)
qed

lemma dominated_run: "dominated many few \<Longrightarrow> \<forall>d \<in> set ds. 0 \<le> d \<Longrightarrow> dominated (foldl add_duration many ds) (foldl add_duration few ds)"
  by (induction ds arbitrary: many few) (simp_all add: dominated_step)

lemma dominated_max:
  assumes "dominated many few"
  shows "Max (set many) \<le> Max (set few)"
proof -
  have ne: "few \<noteq> []" "many \<noteq> []" using assms by (auto simp: dominated_def)
  have "Max (set few) \<in> set few" "\<forall>c \<in> set few. c \<le> Max (set few)" using ne by simp_all
  then have "above_count (Max (set few)) few = 0" by (simp only: above_none)
  moreover have "above_count (Max (set few)) many \<le> above_count (Max (set few)) few"
    by (rule dominatedD [OF assms \<open>Max (set few) \<in> set few\<close>]) simp
  ultimately have "\<forall>c \<in> set many. c \<le> Max (set few)" using above_none [of _ many] by simp
  then show ?thesis using ne by simp
qed

lemma more_workers:
  assumes "1 \<le> m" "m \<le> n" "\<forall>i \<in> set items. 0 \<le> ei_duration_seconds i"
  shows "Max (set (snd (assign_items n items))) \<le> Max (set (snd (assign_items m items)))"
proof -
  have "dominated (replicate n 0) (replicate m 0)"
    using assms(1,2) by (auto simp: dominated_def above_count_def is_f64_def)
  then have "dominated (snd (assign_items n items)) (snd (assign_items m items))"
    using assms(3) by (simp add: assign_items_def plan_costs dominated_run plan_order_def)
  then show ?thesis by (rule dominated_max)
qed

section \<open>The finished plan\<close>

lemma conservative_concurrencyD:
  assumes "conservative_concurrency n p peak = Inr cd"
  shows "cd_concurrency cd \<le> n" "cd_concurrency cd \<le> planned_tasks p"
    "cd_concurrency cd \<le> ep_executor_instances p * ep_executor_cores p div ep_task_cpus p"
    "cd_memory_limit cd = Some m \<Longrightarrow> cd_concurrency cd \<le> m"
    "memory_limit p peak = Inr (cd_memory_limit cd)" "cd_peak_rss_bytes cd = peak"
    "cd_duration_only_fallback cd \<longleftrightarrow> peak = None"
proof -
  let ?cpu = "ep_executor_instances p * ep_executor_cores p div ep_task_cpus p"
  obtain mem where mem: "memory_limit p peak = Inr mem"
    and cd: "cd = \<lparr>cd_concurrency = Min (set ([n, planned_tasks p, ?cpu] @ (case mem of None \<Rightarrow> [] | Some m \<Rightarrow> [m]))),
      cd_item_limit = n, cd_profile_limit = planned_tasks p, cd_cpu_limit = ?cpu, cd_memory_limit = mem,
      cd_peak_rss_bytes = peak, cd_duration_only_fallback = (peak = None)\<rparr>"
    using assms unfolding conservative_concurrency_def Let_def by (auto simp del: set_append set_simps)
  have le: "cd_concurrency cd \<le> x" if "x \<in> set ([n, planned_tasks p, ?cpu] @ (case mem of None \<Rightarrow> [] | Some m \<Rightarrow> [m]))" for x
    unfolding cd using that by (simp only: concurrency_decision.select_convs Min_le finite_set)
  show "cd_concurrency cd \<le> n" "cd_concurrency cd \<le> planned_tasks p" "cd_concurrency cd \<le> ?cpu" by (rule le, simp)+
  show "cd_memory_limit cd = Some m \<Longrightarrow> cd_concurrency cd \<le> m" by (rule le) (simp add: cd)
  show "memory_limit p peak = Inr (cd_memory_limit cd)" "cd_peak_rss_bytes cd = peak"
    "cd_duration_only_fallback cd \<longleftrightarrow> peak = None" by (simp_all add: cd mem)
qed

lemma plan_bucket_items: "map pi_item (plan_bucket k ph b) = b"
  by (auto simp: plan_bucket_def intro!: nth_equalityI)

lemma plan_bucket_rows: "x \<in> set (plan_bucket k ph b) \<Longrightarrow> pi_bucket_id x = k \<and> pi_physical_partition x = ph
    \<and> pi_planned_cost_seconds x = ei_duration_seconds (pi_item x)"
  by (auto simp: plan_bucket_def)

lemma plan_bucket_waves: "map pi_wave_index (plan_bucket k ph b) = [0..<length b]"
  by (auto simp: plan_bucket_def intro!: nth_equalityI)

definition bucket_of :: "string \<Rightarrow> envelope_item list list \<Rightarrow> nat \<Rightarrow> bucket_plan" where
  "bucket_of rk buckets k = \<lparr>bp_bucket_id = k, bp_runtime_key = rk, bp_physical_partition = k,
     bp_total_cost_seconds = bucket_cost (buckets ! k), bp_items = plan_bucket k k (buckets ! k)\<rparr>"

lemma make_buckets_eq:
  assumes "int (length buckets) \<le> planned_tasks p" "costs = map bucket_cost buckets"
  shows "make_buckets p rk buckets costs = Inr (map (bucket_of rk buckets) [0..<length buckets])"
proof -
  have "make_buckets p rk buckets costs = Inr (map (\<lambda>(k, b). bucket_of rk buckets k) (zip [0..<length buckets] buckets))"
    unfolding make_buckets_def
    by (rule mapE_Inr_map) (use assms in \<open>auto simp: physical_partitions_def bucket_of_def Let_def set_zip\<close>)
  also have "map (\<lambda>(k, b). bucket_of rk buckets k) (zip [0..<length buckets] buckets) =
      map (bucket_of rk buckets) [0..<length buckets]"
    by (auto intro!: nth_equalityI)
  finally show ?thesis .
qed

lemma plan_cases:
  assumes "plan_duration_lpt items p peak minv = Inr plan"
  obtains cd buckets where "conservative_concurrency (int (length items)) p peak = Inr cd" "1 \<le> cd_concurrency cd"
    "assign_items (nat (cd_concurrency cd)) items = (buckets, map bucket_cost buckets)"
    "length buckets = nat (cd_concurrency cd)" "mset (concat buckets) = mset items"
    "plan = \<lparr>xp_concurrency = cd, xp_buckets = map (bucket_of (ei_runtime_key (hd items)) buckets) [0..<length buckets],
       xp_waves = make_waves (map (bucket_of (ei_runtime_key (hd items)) buckets) [0..<length buckets]),
       xp_projected_makespan_seconds = Max (set (map bucket_cost buckets))\<rparr>"
    "\<forall>i \<in> set items. ei_runtime_key i = ei_runtime_key (hd items)"
proof -
  obtain x xs where items: "items = x # xs" using assms by (cases items) (auto simp: plan_duration_lpt_def)
  obtain cd where cd: "conservative_concurrency (int (length items)) p peak = Inr cd" "1 \<le> cd_concurrency cd"
    and one: "length (remdups (map ei_runtime_key items)) = 1"
    using assms by (auto simp: plan_duration_lpt_def items split: if_splits)
  obtain buckets costs where bc: "assign_items (nat (cd_concurrency cd)) items = (buckets, costs)" by fastforce
  have "assignment_ok (nat (cd_concurrency cd)) items (buckets, costs)"
    using assign_items_ok [of "nat (cd_concurrency cd)" items] cd(2) bc by simp
  then have ok: "length buckets = nat (cd_concurrency cd)" "costs = map bucket_cost buckets" "mset (concat buckets) = mset items"
    by (simp_all add: assignment_ok_def)
  have len: "int (length buckets) \<le> planned_tasks p" using conservative_concurrencyD(2) [OF cd(1)] ok(1) cd(2) by simp
  have keys: "\<forall>i \<in> set items. ei_runtime_key i = ei_runtime_key (hd items)"
  proof -
    obtain k where "remdups (map ei_runtime_key items) = [k]" using one by (auto simp: length_Suc_conv)
    then have "set (map ei_runtime_key items) = {k}" by (metis list.set(1) list.simps(15) set_remdups)
    then show ?thesis unfolding items by auto
  qed
  have "plan = \<lparr>xp_concurrency = cd, xp_buckets = map (bucket_of (ei_runtime_key (hd items)) buckets) [0..<length buckets],
       xp_waves = make_waves (map (bucket_of (ei_runtime_key (hd items)) buckets) [0..<length buckets]),
       xp_projected_makespan_seconds = Max (set costs)\<rparr>"
    using assms cd one bc make_buckets_eq [OF len ok(2)] ok(2)
    by (auto simp: plan_duration_lpt_def items split: if_splits)
  then show thesis using that [OF cd bc [unfolded ok(2)] ok(1,3) _ keys] ok(2) by simp
qed

section \<open>Waves\<close>

lemma mset_filter_classes:
  assumes "distinct ks"
  shows "mset (concat (map (\<lambda>k. filter (\<lambda>x. f x = k) xs) ks)) = mset (filter (\<lambda>x. f x \<in> set ks) xs)"
  using assms
proof (induction ks)
  case (Cons k ks)
  have "mset (filter (\<lambda>x. f x = k) xs) + mset (filter (\<lambda>x. f x \<in> set ks) xs) =
      mset (filter (\<lambda>x. f x = k \<or> f x \<in> set ks) xs)"
    using Cons.prems by (induction xs) auto
  with Cons show ?case by simp
qed simp

lemma waves_items:
  assumes "planned = concat (map bp_items bs)"
  shows "mset (concat (map wp_items (make_waves bs))) = mset planned"
proof -
  let ?ks = "sort (remdups (map pi_wave_index planned))"
  have "mset (concat (map wp_items (make_waves bs))) = mset (concat (map (\<lambda>i. filter (\<lambda>p. pi_wave_index p = i) planned) ?ks))"
    unfolding mset_concat by (simp add: make_waves_def Let_def assms comp_def)
  also have "\<dots> = mset (filter (\<lambda>p. pi_wave_index p \<in> set ?ks) planned)" by (rule mset_filter_classes) simp
  also have "filter (\<lambda>p. pi_wave_index p \<in> set ?ks) planned = planned" by (simp add: filter_id_conv)
  finally show ?thesis .
qed

definition slot :: "planned_item \<Rightarrow> nat \<times> nat" where
  "slot p = (pi_bucket_id p, pi_wave_index p)"

lemma bucket_slots: "map slot (plan_bucket k k b) = map (Pair k) [0..<length b]"
  by (auto simp: plan_bucket_def slot_def intro!: nth_equalityI)

lemma planned_slots:
  assumes "planned = concat (map bp_items (map (bucket_of rk buckets) [0..<n]))"
  shows "distinct (map slot planned)"
proof -
  have "map slot planned = concat (map (\<lambda>k. map (Pair k) [0..<length (buckets ! k)]) [0..<n])"
    by (simp add: assms map_concat comp_def bucket_of_def bucket_slots)
  moreover have "distinct (concat (map (\<lambda>k. map (Pair k) [0..<length (buckets ! k)]) [0..<m]))" for m
    by (induction m) (auto simp: distinct_map inj_on_def)
  ultimately show ?thesis by simp
qed

lemma wave_one_per_bucket:
  assumes "planned = concat (map bp_items bs)" "distinct (map slot planned)" "wv \<in> set (make_waves bs)"
  shows "distinct (map pi_bucket_id (wp_items wv))"
proof -
  obtain i where wv: "wp_items wv = sort_key pi_bucket_id (filter (\<lambda>p. pi_wave_index p = i) planned)"
    using assms(1,3) by (auto simp: make_waves_def Let_def)
  have "distinct (map slot (filter (\<lambda>p. pi_wave_index p = i) planned))"
    using assms(2) by (induction planned) auto
  then have "distinct (map pi_bucket_id (filter (\<lambda>p. pi_wave_index p = i) planned))"
    by (auto simp: distinct_map inj_on_def slot_def)
  then show ?thesis unfolding wv
    by (metis (no_types, lifting) distinct_map distinct_sort inj_on_cong set_sort)
qed

lemma plan_items:
  assumes "length buckets = n"
  shows "map pi_item (concat (map bp_items (map (bucket_of rk buckets) [0..<n]))) = concat buckets"
  using assms by (simp add: map_concat comp_def bucket_of_def plan_bucket_items)
    (metis map_nth)

section \<open>A plan exists\<close>

lemma plan_exists:
  assumes "items \<noteq> []" "\<forall>i \<in> set items. ei_runtime_key i = k"
    and "1 \<le> ep_task_cpus p" "ep_task_cpus p \<le> ep_executor_instances p * ep_executor_cores p" "1 \<le> planned_tasks p"
    and "\<forall>m. peak = Some m \<longrightarrow> 1 \<le> m \<and> m \<le> ep_executor_memory_bytes p - ep_memory_reserve_bytes p"
    and "1 \<le> ep_executor_instances p"
  shows "\<exists>plan. plan_duration_lpt items p peak None = Inr plan"
proof -
  obtain x xs where items: "items = x # xs" using assms(1) by (cases items) auto
  let ?cpu = "ep_executor_instances p * ep_executor_cores p div ep_task_cpus p"
  obtain mem where mem: "memory_limit p peak = Inr mem" "\<forall>m. mem = Some m \<longrightarrow> 1 \<le> m"
  proof (cases peak)
    case None
    then show ?thesis by (intro that [of None]) (simp_all add: memory_limit_def)
  next
    case (Some m)
    let ?u = "ep_executor_memory_bytes p - ep_memory_reserve_bytes p"
    have "1 \<le> ?u div m" using assms(6) Some by (simp add: pos_imp_zdiv_pos_iff int_one_le_iff_zero_less)
    then have "1 \<le> ep_executor_instances p * (?u div m)" using assms(7) by (metis mult_mono' mult_1 zero_le_one order.trans)
    then show ?thesis using assms(6) Some
      by (intro that [of "Some (ep_executor_instances p * (?u div m))"]) (auto simp: memory_limit_def Let_def)
  qed
  have cpu: "1 \<le> ?cpu" using assms(3,4) by (simp add: pos_imp_zdiv_pos_iff int_one_le_iff_zero_less)
  let ?ls = "[int (length items), planned_tasks p, ?cpu] @ (case mem of None \<Rightarrow> [] | Some m \<Rightarrow> [m])"
  obtain cd where cd: "conservative_concurrency (int (length items)) p peak = Inr cd" "cd_concurrency cd = Min (set ?ls)"
    using assms(3) mem(1) items unfolding conservative_concurrency_def Let_def by (auto simp del: set_append set_simps)
  have "1 \<le> Min (set ?ls)"
    using cpu assms(5) mem(2) items by (cases mem) auto
  then have one: "1 \<le> cd_concurrency cd" using cd(2) by simp
  have key: "length (remdups (map ei_runtime_key items)) = 1"
  proof -
    have "set (map ei_runtime_key items) = {k}" using assms(1,2) items by auto
    then show ?thesis by (metis card.empty card_insert_disjoint empty_iff finite.emptyI length_remdups_card_conv One_nat_def)
  qed
  obtain buckets costs where bc: "assign_items (nat (cd_concurrency cd)) items = (buckets, costs)" by fastforce
  have "assignment_ok (nat (cd_concurrency cd)) items (buckets, costs)"
    using assign_items_ok [of "nat (cd_concurrency cd)" items] one bc by simp
  then have ok: "length buckets = nat (cd_concurrency cd)" "costs = map bucket_cost buckets" by (simp_all add: assignment_ok_def)
  have "int (length buckets) \<le> planned_tasks p" using conservative_concurrencyD(2) [OF cd(1)] ok(1) one by simp
  then show ?thesis
    using cd(1) one key bc make_buckets_eq [OF _ ok(2)] by (simp add: plan_duration_lpt_def items)
qed

end
