(* ===== verification/Control_Process.thy ===== *)
theory Control_Process
  imports Control_Claim
begin

text \<open>
  The process side of \<^verbatim>\<open>sjd_control.py\<close>: checking a batch against its authoritative rows, the lease
  heartbeat, sealing the exact output set of a batch and committing it, which publishes every
  successful attempt and releases every failed one.
\<close>

section \<open>Fences\<close>

type_synonym process_row = "attempt_row \<times> work_row \<times> batch_row"

text \<open>\<open>attempts a JOIN work w ON w.work_id = a.work_id JOIN batches b ON b.batch_id = a.batch_id\<close>\<close>

definition process_rows :: "string \<Rightarrow> db \<Rightarrow> process_row list" where
  "process_rows batch_id d =
     map (\<lambda>((a, w), b). (a, w, b))
       (inner_join (\<lambda>(a, w) b. b_batch_id b = a_batch_id a)
         (inner_join (\<lambda>a w. w_work_id w = a_work_id a)
           (filter (\<lambda>a. a_batch_id a = batch_id) (db_attempts d)) (db_work d))
         (db_batches d))"

definition holds_fence :: "attempt_row \<Rightarrow> work_row \<Rightarrow> bool" where
  "holds_fence a w \<longleftrightarrow> w_status w = W_LEASED \<and> w_lease_attempt_id w = Some (a_attempt_id a)
     \<and> w_fence w = a_fence a"

definition check_process_row :: "envelope \<Rightarrow> batch_status \<Rightarrow> process_row \<Rightarrow> unit res" where
  "check_process_row e batch_status r = (case r of (a, w, b) \<Rightarrow>
     if b_envelope_sha256 b \<noteq> e_envelope_sha256 e \<or> b_membership_sha256 b \<noteq> e_membership_sha256 e
     then Inl BatchValidationError
     else if (batch_status = B_LEASED \<or> batch_status = B_SEALED) \<and> \<not> holds_fence a w
     then Inl LeaseLostError
     else Inr ())"

definition assert_process_rows :: "envelope \<Rightarrow> batch_status \<Rightarrow> db \<Rightarrow> unit res" where
  "assert_process_rows e batch_status d =
     (let rows = process_rows (e_batch_id e) d;
          expected = set (map (\<lambda>c. (c_work_id c, c_attempt_id c, c_fence c, c_payload_sha256 c)) (e_items e));
          observed = set (map (\<lambda>(a, w, b). (a_work_id a, a_attempt_id a, a_fence a, a_payload_sha256 a)) rows)
      in if observed \<noteq> expected then Inl LeaseLostError
         else bindE (mapE (check_process_row e batch_status) rows) (\<lambda>_. Inr ()))"

definition process_batch_state :: "envelope \<Rightarrow> store \<Rightarrow> control_batch_state res" where
  "process_batch_state e s = (case find_batch (st_db s) (e_batch_id e) of
     None \<Rightarrow> Inl KeyError
   | Some b \<Rightarrow> bindE (assert_process_rows e (b_status b) (st_db s)) (\<lambda>_.
       Inr \<lparr>cs_status = b_status b, cs_lease_expires_at = b_lease_expires_at b\<rparr>))"

definition assert_process_fence :: "pyval \<Rightarrow> envelope \<Rightarrow> store \<Rightarrow> unit res" where
  "assert_process_fence clock e s = bindE (process_batch_state e s) (\<lambda>live.
     if cs_status live = B_COMMITTED then Inr ()
     else if cs_status live \<noteq> B_LEASED \<and> cs_status live \<noteq> B_SEALED then Inl LeaseLostError
     else bindE (finite_num clock) (\<lambda>now.
       if cs_lease_expires_at live \<le> now then Inl LeaseLostError else Inr ()))"

section \<open>Heartbeat\<close>

definition work_fenced_by :: "string \<Rightarrow> string \<Rightarrow> int \<Rightarrow> work_row \<Rightarrow> bool" where
  "work_fenced_by work_id attempt_id fence w \<longleftrightarrow> w_work_id w = work_id \<and> w_status w = W_LEASED
     \<and> w_lease_attempt_id w = Some attempt_id \<and> w_fence w = fence"

definition heartbeat_item :: "pyfloat \<Rightarrow> pyfloat \<Rightarrow> claimed_work \<Rightarrow> db \<Rightarrow> db res" where
  "heartbeat_item expires now c d =
     (let p = work_fenced_by (c_work_id c) (c_attempt_id c) (c_fence c) in
      if rowcount p (db_work d) \<noteq> 1 then Inl LeaseLostError
      else Inr (d\<lparr>db_work := update_where p
             (\<lambda>w. w\<lparr>w_lease_expires_at := Some expires, w_updated_at := now\<rparr>) (db_work d)\<rparr>))"

definition heartbeat_tx :: "envelope \<Rightarrow> pyfloat \<Rightarrow> pyfloat \<Rightarrow> db \<Rightarrow> (db \<times> unit) res" where
  "heartbeat_tx e extension now d = (case find_batch d (e_batch_id e) of
     None \<Rightarrow> Inl LeaseLostError
   | Some b \<Rightarrow>
       if b_status b \<noteq> B_LEASED \<or> b_lease_expires_at b \<le> now then Inl LeaseLostError
       else bindE (assert_process_rows e B_LEASED d) (\<lambda>_.
         let expires = max (b_lease_expires_at b) (fadd now extension);
             d1 = d\<lparr>db_batches := update_where (\<lambda>x. b_batch_id x = e_batch_id e)
                      (\<lambda>x. x\<lparr>b_lease_expires_at := expires\<rparr>) (db_batches d),
                    db_attempts := update_where
                      (\<lambda>a. a_batch_id a = e_batch_id e \<and> a_status a = A_LEASED)
                      (\<lambda>a. a\<lparr>a_lease_expires_at := expires\<rparr>) (db_attempts d)\<rparr>
         in bindE (foldE (heartbeat_item expires now) (e_items e) d1) (\<lambda>d2. Inr (d2, ()))))"

definition heartbeat_process :: "pyval \<Rightarrow> envelope \<Rightarrow> pyval \<Rightarrow> store \<Rightarrow> unit res \<times> store" where
  "heartbeat_process clock e extension_seconds s =
     (case bindE (positive_finite extension_seconds) (\<lambda>x. bindE (finite_num clock) (\<lambda>now. Inr (x, now))) of
        Inl err \<Rightarrow> (Inl err, s)
      | Inr (extension, now) \<Rightarrow> transaction (heartbeat_tx e extension now) s)"

section \<open>Seal\<close>

record output_record =
  or_executor_identity :: string
  or_partition_id :: int
  or_task_attempt_id :: int
  or_record_sequence :: int

record output_item =
  oi_work_id :: string
  oi_attempt_id :: string
  oi_output_path :: string
  oi_output_sha256 :: string
  oi_succeeded :: bool
  oi_records :: "output_record list"

definition normalize_record :: "pyval \<Rightarrow> output_record res" where
  "normalize_record v = (case v of
     PDict d \<Rightarrow> bindE (required_text (dget d ''executor_identity'' PNone)) (\<lambda>executor.
       bindE (nonnegative_int (dget d ''partition_id'' PNone)) (\<lambda>partition.
       bindE (nonnegative_int (dget d ''task_attempt_id'' PNone)) (\<lambda>task.
       bindE (nonnegative_int (dget d ''record_sequence'' PNone)) (\<lambda>sequence.
         Inr \<lparr>or_executor_identity = executor, or_partition_id = partition,
              or_task_attempt_id = task, or_record_sequence = sequence\<rparr>))))
   | _ \<Rightarrow> Inl BatchValidationError)"

fun normalize_records :: "int list \<Rightarrow> pyval list \<Rightarrow> output_record list res" where
  "normalize_records seen [] = Inr []"
| "normalize_records seen (v # vs) = bindE (normalize_record v) (\<lambda>r.
     if or_record_sequence r \<in> set seen then Inl BatchValidationError
     else bindE (normalize_records (or_record_sequence r # seen) vs) (\<lambda>rs. Inr (r # rs)))"

text \<open>One iteration of the loop of \<open>_normalize_outputs\<close>, after the identity has been read.\<close>

definition normalize_output :: "(string \<times> pyval) list \<Rightarrow> string \<Rightarrow> string \<Rightarrow> output_item res" where
  "normalize_output d work_id attempt_id = (case dget d ''records'' PNone of
     PNone \<Rightarrow> Inl BatchValidationError
   | PList vs \<Rightarrow> bindE (normalize_records [] vs) (\<lambda>records.
       if records = [] then Inl BatchValidationError
       else bindE (required_text (dget d ''output_path'' PNone)) (\<lambda>path.
         bindE (validated_sha256 (dget d ''output_sha256'' PNone)) (\<lambda>digest.
         bindE (boolean_val (dget d ''succeeded'' (PBool True))) (\<lambda>succeeded.
           Inr \<lparr>oi_work_id = work_id, oi_attempt_id = attempt_id, oi_output_path = path,
                oi_output_sha256 = digest, oi_succeeded = succeeded, oi_records = records\<rparr>))))
   | _ \<Rightarrow> Inl BatchValidationError)"

fun normalize_outputs :: "(string \<times> string) list \<Rightarrow> pyval list \<Rightarrow> output_item list res" where
  "normalize_outputs identities [] = Inr []"
| "normalize_outputs identities (raw # raws) = (case raw of
     PDict d \<Rightarrow> bindE (required_text (dget d ''work_id'' PNone)) (\<lambda>work_id.
       bindE (required_text (dget d ''attempt_id'' PNone)) (\<lambda>attempt_id.
         if (work_id, attempt_id) \<in> set identities then Inl BatchValidationError
         else bindE (normalize_output d work_id attempt_id) (\<lambda>item.
           bindE (normalize_outputs ((work_id, attempt_id) # identities) raws) (\<lambda>items.
             Inr (item # items)))))
   | _ \<Rightarrow> Inl ValueError)"

definition validate_live_seal :: "batch_row \<Rightarrow> string \<Rightarrow> string \<Rightarrow> pyfloat \<Rightarrow> unit res" where
  "validate_live_seal b envelope_sha256 membership now =
     (if b_status b \<noteq> B_LEASED \<or> b_lease_expires_at b \<le> now then Inl LeaseLostError
      else if envelope_sha256 \<noteq> b_envelope_sha256 b \<or> membership \<noteq> b_membership_sha256 b
      then Inl BatchValidationError else Inr ())"

definition insert_output :: "output_item \<Rightarrow> pyfloat \<Rightarrow> output_record \<Rightarrow> db \<Rightarrow> db res" where
  "insert_output item now r d =
     (let o' = \<lparr>o_output_id = db_last_output d + 1, o_attempt_id = oi_attempt_id item,
                o_work_id = oi_work_id item, o_output_path = oi_output_path item,
                o_output_sha256 = oi_output_sha256 item,
                o_executor_identity = or_executor_identity r, o_partition_id = or_partition_id r,
                o_task_attempt_id = or_task_attempt_id r,
                o_record_sequence = or_record_sequence r, o_created_at = now\<rparr>
      in if output_identity o' \<in> output_identity ` set (db_outputs d) then Inl IntegrityError
         else Inr (d\<lparr>db_outputs := db_outputs d @ [o'], db_last_output := db_last_output d + 1\<rparr>))"

definition seal_attempt :: "output_item \<Rightarrow> pyfloat \<Rightarrow> attempt_row \<Rightarrow> attempt_row" where
  "seal_attempt item now a = a\<lparr>a_status := A_SEALED, a_output_path := Some (oi_output_path item),
     a_output_sha256 := Some (oi_output_sha256 item),
     a_terminal_succeeded := Some (oi_succeeded item), a_sealed_at := Some now\<rparr>"

text \<open>\<open>attempts a JOIN work w ON w.work_id = a.work_id WHERE a.attempt_id = ?\<close>\<close>

definition attempt_with_work :: "db \<Rightarrow> string \<Rightarrow> (attempt_row \<times> work_row) option" where
  "attempt_with_work d attempt_id = (case inner_join (\<lambda>a w. w_work_id w = a_work_id a)
     (filter (\<lambda>a. a_attempt_id a = attempt_id) (db_attempts d)) (db_work d) of
     [] \<Rightarrow> None | aw # _ \<Rightarrow> Some aw)"

definition seal_item :: "string \<Rightarrow> pyfloat \<Rightarrow> output_item \<Rightarrow> db \<Rightarrow> db res" where
  "seal_item batch_id now item d =
     (if (case attempt_with_work d (oi_attempt_id item) of
            None \<Rightarrow> False
          | Some (a, w) \<Rightarrow> a_batch_id a = batch_id \<and> a_status a = A_LEASED
              \<and> w_status w = W_LEASED \<and> w_lease_attempt_id w = Some (oi_attempt_id item)
              \<and> a_fence a = w_fence w)
      then foldE (insert_output item now) (oi_records item)
             (d\<lparr>db_attempts := update_where
                  (\<lambda>a. a_attempt_id a = oi_attempt_id item \<and> a_status a = A_LEASED)
                  (seal_attempt item now) (db_attempts d)\<rparr>)
      else Inl LeaseLostError)"

definition batch_members :: "string \<Rightarrow> db \<Rightarrow> member_row list" where
  "batch_members batch_id d = sort_key m_ordinal (filter (\<lambda>m. m_batch_id m = batch_id) (db_members d))"

definition sealed_rows :: "string \<Rightarrow> db
    \<Rightarrow> (string \<times> string \<times> string option \<times> string option \<times> bool option) list" where
  "sealed_rows batch_id d = map (\<lambda>a. (a_work_id a, a_attempt_id a, a_output_path a,
     a_output_sha256 a, a_terminal_succeeded a))
     (filter (\<lambda>a. a_batch_id a = batch_id) (db_attempts d))"

definition sealed_records :: "string \<Rightarrow> db \<Rightarrow> (string \<times> string \<times> string \<times> int \<times> int \<times> int) list" where
  "sealed_records batch_id d = map (\<lambda>o'. (o_work_id o', o_attempt_id o', o_executor_identity o',
     o_partition_id o', o_task_attempt_id o', o_record_sequence o'))
     (filter (\<lambda>o'. o_attempt_id o' \<in>
        set (map a_attempt_id (filter (\<lambda>a. a_batch_id a = batch_id) (db_attempts d)))) (db_outputs d))"

definition requested_rows :: "output_item list
    \<Rightarrow> (string \<times> string \<times> string option \<times> string option \<times> bool option) list" where
  "requested_rows items = map (\<lambda>i. (oi_work_id i, oi_attempt_id i, Some (oi_output_path i),
     Some (oi_output_sha256 i), Some (oi_succeeded i))) items"

definition requested_records :: "output_item list \<Rightarrow> (string \<times> string \<times> string \<times> int \<times> int \<times> int) list" where
  "requested_records items = concat (map (\<lambda>i. map (\<lambda>r. (oi_work_id i, oi_attempt_id i,
     or_executor_identity r, or_partition_id r, or_task_attempt_id r, or_record_sequence r))
     (oi_records i)) items)"

definition verify_existing_seal :: "batch_row \<Rightarrow> pyval list \<Rightarrow> string \<Rightarrow> string \<Rightarrow> db \<Rightarrow> unit res" where
  "verify_existing_seal b outputs digest membership d =
     (if digest \<noteq> b_envelope_sha256 b \<or> membership \<noteq> b_membership_sha256 b
      then Inl ImmutableConflictError
      else bindE (normalize_outputs [] outputs) (\<lambda>items.
        if sort (requested_rows items) \<noteq> sort (sealed_rows (b_batch_id b) d)
        then Inl ImmutableConflictError
        else if sort (requested_records items) \<noteq> sort (sealed_records (b_batch_id b) d)
        then Inl ImmutableConflictError
        else Inr ()))"

definition seal_tx :: "string \<Rightarrow> pyval list \<Rightarrow> string \<Rightarrow> string \<Rightarrow> pyfloat \<Rightarrow> db \<Rightarrow> (db \<times> unit) res" where
  "seal_tx identity outputs digest membership now d = (case find_batch d identity of
     None \<Rightarrow> Inl KeyError
   | Some b \<Rightarrow>
       if b_status b = B_SEALED
       then bindE (verify_existing_seal b outputs digest membership d) (\<lambda>_. Inr (d, ()))
       else bindE (validate_live_seal b digest membership now) (\<lambda>_.
         let members = batch_members identity d in
         bindE (normalize_outputs [] outputs) (\<lambda>items.
           if length items \<noteq> length members
              \<or> set (map (\<lambda>i. (oi_work_id i, oi_attempt_id i)) items)
                  \<noteq> set (map (\<lambda>m. (m_work_id m, m_attempt_id m)) members)
           then Inl BatchValidationError
           else bindE (foldE (seal_item identity now) items d) (\<lambda>d1.
             Inr (d1\<lparr>db_batches := update_where (\<lambda>x. b_batch_id x = identity)
                       (\<lambda>x. x\<lparr>b_status := B_SEALED, b_sealed_at := Some now\<rparr>) (db_batches d1)\<rparr>, ())))))"

definition seal_batch :: "pyval \<Rightarrow> pyval \<Rightarrow> pyval \<Rightarrow> pyval \<Rightarrow> pyval \<Rightarrow> store \<Rightarrow> unit res \<times> store" where
  "seal_batch clock batch_id outputs envelope_sha256 membership s =
     (case bindE (required_text batch_id) (\<lambda>identity.
           bindE (validated_sha256 envelope_sha256) (\<lambda>digest.
           bindE (validated_sha256 membership) (\<lambda>member.
           case outputs of
             PList vs \<Rightarrow> bindE (finite_num clock) (\<lambda>now. Inr (identity, digest, member, vs, now))
           | _ \<Rightarrow> Inl ValueError))) of
        Inl e \<Rightarrow> (Inl e, s)
      | Inr (identity, digest, member, vs, now) \<Rightarrow>
          transaction (seal_tx identity vs digest member now) s)"

section \<open>Commit\<close>

definition release_work :: "work_status \<Rightarrow> pyfloat \<Rightarrow> string \<Rightarrow> work_row \<Rightarrow> work_row" where
  "release_work outcome now message w = w\<lparr>w_status := outcome, w_available_at := now,
     w_lease_owner := None, w_lease_attempt_id := None, w_lease_expires_at := None,
     w_last_error := Some message, w_updated_at := now\<rparr>"

definition retry_outcome :: "work_row \<Rightarrow> work_status" where
  "retry_outcome w = (if w_max_attempts w \<le> w_attempt_count w then W_DEAD else W_READY)"

definition set_attempt_status :: "string \<Rightarrow> attempt_status \<Rightarrow> attempt_row list \<Rightarrow> attempt_row list" where
  "set_attempt_status i st t = update_where (\<lambda>a. a_attempt_id a = i) (\<lambda>a. a\<lparr>a_status := st\<rparr>) t"

definition commit_failed_attempt :: "attempt_row \<Rightarrow> work_row \<Rightarrow> pyfloat \<Rightarrow> db \<Rightarrow> db res" where
  "commit_failed_attempt a w now d =
     (let p = work_fenced_by (a_work_id a) (a_attempt_id a) (a_fence a) in
      if rowcount p (db_work d) \<noteq> 1 then Inl LeaseLostError
      else Inr (d\<lparr>db_work := update_where p
                    (release_work (retry_outcome w) now ''processing failed'') (db_work d),
                  db_attempts := set_attempt_status (a_attempt_id a) A_FAILED (db_attempts d)\<rparr>))"

definition insert_publication :: "publication_row \<Rightarrow> db \<Rightarrow> db res" where
  "insert_publication p d =
     (if p_work_id p \<in> p_work_id ` set (db_publications d)
         \<or> p_attempt_id p \<in> p_attempt_id ` set (db_publications d)
      then Inl IntegrityError
      else Inr (d\<lparr>db_publications := db_publications d @ [p],
                  db_last_publication := p_publication_sequence p\<rparr>))"

definition publish_work :: "string \<Rightarrow> int \<Rightarrow> pyfloat \<Rightarrow> work_row \<Rightarrow> work_row" where
  "publish_work attempt_id sequence now w = w\<lparr>w_status := W_SUCCEEDED,
     w_committed_attempt_id := Some attempt_id, w_publication_sequence := Some sequence,
     w_lease_owner := None, w_lease_attempt_id := None, w_lease_expires_at := None,
     w_updated_at := now\<rparr>"

definition publish_attempt :: "string \<Rightarrow> attempt_row \<Rightarrow> string \<Rightarrow> string \<Rightarrow> pyfloat \<Rightarrow> db \<Rightarrow> (db \<times> int) res" where
  "publish_attempt batch_id a path digest now d =
     (let sequence = db_last_publication d + 1;
          p = work_fenced_by (a_work_id a) (a_attempt_id a) (a_fence a) in
      bindE (insert_publication \<lparr>p_publication_sequence = sequence, p_work_id = a_work_id a,
               p_attempt_id = a_attempt_id a, p_batch_id = batch_id, p_output_path = path,
               p_output_sha256 = digest, p_published_at = now\<rparr> d) (\<lambda>d1.
        if rowcount p (db_work d1) \<noteq> 1 then Inl LeaseLostError
        else Inr (d1\<lparr>db_work := update_where p (publish_work (a_attempt_id a) sequence now) (db_work d1),
                     db_attempts := set_attempt_status (a_attempt_id a) A_SUCCEEDED (db_attempts d1)\<rparr>,
                  sequence)))"

text \<open>A row of the commit query is the attempt and its work as they were when the loop began.\<close>

definition commit_attempt :: "string \<Rightarrow> pyfloat \<Rightarrow> attempt_row \<times> work_row \<Rightarrow> db \<Rightarrow> (db \<times> int option) res" where
  "commit_attempt batch_id now r d = (case r of (a, w) \<Rightarrow>
     (case (a_output_path a, a_output_sha256 a) of
        (Some path, Some digest) \<Rightarrow>
          if a_status a = A_SEALED \<and> holds_fence a w \<and> w_committed_attempt_id w = None
          then (if a_terminal_succeeded a = Some True
                then bindE (publish_attempt batch_id a path digest now d) (\<lambda>(d1, n). Inr (d1, Some n))
                else bindE (commit_failed_attempt a w now d) (\<lambda>d1. Inr (d1, None)))
          else Inl LeaseLostError
      | _ \<Rightarrow> Inl LeaseLostError))"

definition commit_rows :: "string \<Rightarrow> db \<Rightarrow> (attempt_row \<times> work_row) list" where
  "commit_rows batch_id d = sort_key (\<lambda>(a, w). a_work_id a)
     (inner_join (\<lambda>a w. w_work_id w = a_work_id a)
       (filter (\<lambda>a. a_batch_id a = batch_id) (db_attempts d)) (db_work d))"

fun commit_loop :: "string \<Rightarrow> pyfloat \<Rightarrow> (attempt_row \<times> work_row) list \<Rightarrow> db \<Rightarrow> (db \<times> int list) res" where
  "commit_loop batch_id now [] d = Inr (d, [])"
| "commit_loop batch_id now (r # rs) d = bindE (commit_attempt batch_id now r d) (\<lambda>(d1, n).
     bindE (commit_loop batch_id now rs d1) (\<lambda>(d2, ns).
       Inr (d2, case n of None \<Rightarrow> ns | Some k \<Rightarrow> k # ns)))"

definition batch_publications :: "string \<Rightarrow> db \<Rightarrow> int list" where
  "batch_publications batch_id d =
     sort (map p_publication_sequence (filter (\<lambda>p. p_batch_id p = batch_id) (db_publications d)))"

definition commit_tx :: "string \<Rightarrow> pyfloat \<Rightarrow> db \<Rightarrow> (db \<times> int list) res" where
  "commit_tx identity now d = (case find_batch d identity of
     None \<Rightarrow> Inl KeyError
   | Some b \<Rightarrow>
       if b_status b = B_COMMITTED then Inr (d, batch_publications identity d)
       else if b_status b \<noteq> B_SEALED \<or> b_lease_expires_at b \<le> now then Inl LeaseLostError
       else let rows = commit_rows identity d in
         if int (length rows) \<noteq> b_item_count b then Inl BatchValidationError
         else bindE (commit_loop identity now rows d) (\<lambda>(d1, sequences).
           Inr (d1\<lparr>db_batches := update_where (\<lambda>x. b_batch_id x = identity \<and> b_status x = B_SEALED)
                     (\<lambda>x. x\<lparr>b_status := B_COMMITTED, b_committed_at := Some now\<rparr>) (db_batches d1)\<rparr>,
                sequences)))"

definition commit_batch :: "pyval \<Rightarrow> pyval \<Rightarrow> store \<Rightarrow> int list res \<times> store" where
  "commit_batch clock batch_id s =
     (case bindE (required_text batch_id) (\<lambda>identity. bindE (finite_num clock) (\<lambda>now. Inr (identity, now))) of
        Inl e \<Rightarrow> (Inl e, s)
      | Inr (identity, now) \<Rightarrow> transaction (commit_tx identity now) s)"

end
