(* ===== verification/Control_Recovery.thy ===== *)
theory Control_Recovery
  imports Control_Process
begin

text \<open>
  Recovery in \<^verbatim>\<open>sjd_control.py\<close>: returning the work of expired leases to the queue or to the dead
  letter state, replaying dead work on an operator's request, and quarantining ready work whose
  release is obsolete.
\<close>

section \<open>recover\<close>

definition lease_expired :: "pyfloat \<Rightarrow> work_row \<Rightarrow> bool" where
  "lease_expired now w \<longleftrightarrow> w_status w = W_LEASED \<and>
     (case w_lease_expires_at w of None \<Rightarrow> False | Some t \<Rightarrow> t \<le> now)"

definition expire_attempt :: "work_status \<Rightarrow> attempt_row \<Rightarrow> attempt_row" where
  "expire_attempt outcome a = a\<lparr>a_status := A_EXPIRED, a_recovery_outcome := Some outcome\<rparr>"

definition attempt_active :: "attempt_row \<Rightarrow> bool" where
  "attempt_active a \<longleftrightarrow> a_status a = A_LEASED \<or> a_status a = A_SEALED"

text \<open>
  One iteration for a row of the query.  \<open>lease_attempt_id\<close> is not null in a leased row (the
  table's \<open>CHECK\<close>), so the \<open>None\<close> branch is never taken.
\<close>

definition recover_work :: "pyfloat \<Rightarrow> work_row \<Rightarrow> db \<Rightarrow> db res" where
  "recover_work now w d = (case w_lease_attempt_id w of
     None \<Rightarrow> Inl LeaseLostError
   | Some attempt_id \<Rightarrow>
       let outcome = retry_outcome w;
           p = work_fenced_by (w_work_id w) attempt_id (w_fence w);
           attempts = update_where (\<lambda>a. a_attempt_id a = attempt_id \<and> attempt_active a)
                        (expire_attempt outcome) (db_attempts d)
       in if rowcount p (db_work d) \<noteq> 1 then Inl LeaseLostError
          else Inr (d\<lparr>db_attempts := attempts,
                      db_work := update_where p (release_work outcome now ''lease expired'')
                                   (db_work d)\<rparr>))"

definition expired_rows :: "pyfloat \<Rightarrow> db \<Rightarrow> work_row list" where
  "expired_rows now d = sort_key w_work_id (filter (lease_expired now) (db_work d))"

definition recover_tx :: "pyfloat \<Rightarrow> db \<Rightarrow> (db \<times> recovery_report) res" where
  "recover_tx now d =
     (let rows = expired_rows now d in
      bindE (foldE (recover_work now) rows d) (\<lambda>d1.
        Inr (d1\<lparr>db_batches := update_where (\<lambda>b. batch_active b \<and> b_lease_expires_at b \<le> now)
                  (\<lambda>b. b\<lparr>b_status := B_EXPIRED\<rparr>) (db_batches d1)\<rparr>,
             \<lparr>rr_recovered = length rows,
              rr_retried = length (filter (\<lambda>w. retry_outcome w \<noteq> W_DEAD) rows),
              rr_dead = length (filter (\<lambda>w. retry_outcome w = W_DEAD) rows)\<rparr>)))"

definition recover :: "pyval \<Rightarrow> pyval \<Rightarrow> store \<Rightarrow> recovery_report res \<times> store" where
  "recover clock now s =
     (case (if now = PNone then finite_num clock else finite_num now) of
        Inl e \<Rightarrow> (Inl e, s)
      | Inr timestamp \<Rightarrow> transaction (recover_tx timestamp) s)"

section \<open>replay\<close>

definition replay_identity :: "pylib \<Rightarrow> string \<Rightarrow> int \<Rightarrow> string \<Rightarrow> string \<Rightarrow> int \<Rightarrow> string" where
  "replay_identity lib work_id generation operator reason additional =
     ''replay-'' @ sha256_hex lib (dumps lib (PDict
       [(''version'', PInt 1), (''work_id'', PStr work_id), (''generation'', PInt generation),
        (''operator'', PStr operator), (''reason'', PStr reason),
        (''additional_attempts'', PInt additional)]))"

definition replay_of_row :: "replay_row \<Rightarrow> replay_request" where
  "replay_of_row r = \<lparr>rp_replay_id = r_replay_id r, rp_work_id = r_work_id r,
     rp_operator = r_operator r, rp_reason = r_reason r, rp_generation = r_generation r,
     rp_requested_at = r_requested_at r\<rparr>"

definition matching_last_replay ::
    "work_row \<Rightarrow> string \<Rightarrow> string \<Rightarrow> int \<Rightarrow> db \<Rightarrow> replay_request option" where
  "matching_last_replay w operator reason additional d = (case w_last_replay_id w of
     None \<Rightarrow> None
   | Some replay_id \<Rightarrow>
       if w_status w \<noteq> W_READY then None
       else case find (\<lambda>r. r_replay_id r = replay_id) (db_replays d) of
         None \<Rightarrow> None
       | Some r \<Rightarrow>
           if r_operator r \<noteq> operator \<or> r_reason r \<noteq> reason \<or> r_additional_attempts r \<noteq> additional
              \<or> w_attempt_count w + additional \<noteq> w_max_attempts w
           then None else Some (replay_of_row r))"

text \<open>Primary key, \<open>UNIQUE(work_id, generation)\<close> and the foreign key to \<open>work\<close>.\<close>

definition insert_replay :: "replay_row \<Rightarrow> db \<Rightarrow> db res" where
  "insert_replay r d =
     (if r_replay_id r \<in> r_replay_id ` set (db_replays d)
         \<or> (r_work_id r, r_generation r) \<in> (\<lambda>x. (r_work_id x, r_generation x)) ` set (db_replays d)
         \<or> r_work_id r \<notin> w_work_id ` set (db_work d)
      then Inl IntegrityError else Inr (d\<lparr>db_replays := db_replays d @ [r]\<rparr>))"

definition requeue_work :: "int \<Rightarrow> pyfloat \<Rightarrow> int \<Rightarrow> string \<Rightarrow> work_row \<Rightarrow> work_row" where
  "requeue_work additional now generation replay_id w = w\<lparr>w_status := W_READY,
     w_max_attempts := w_attempt_count w + additional, w_available_at := now,
     w_replay_generation := generation, w_last_replay_id := Some replay_id,
     w_last_error := None, w_updated_at := now\<rparr>"

definition replay_tx :: "pylib \<Rightarrow> pyfloat \<Rightarrow> string \<Rightarrow> string \<Rightarrow> string \<Rightarrow> int \<Rightarrow> db
    \<Rightarrow> (db \<times> replay_request) res" where
  "replay_tx lib now identity actor explanation additional d = (case find_work d identity of
     None \<Rightarrow> Inl KeyError
   | Some w \<Rightarrow>
       if w_status w \<noteq> W_DEAD
       then (case matching_last_replay w actor explanation additional d of
               Some previous \<Rightarrow> Inr (d, previous) | None \<Rightarrow> Inl ControlError)
       else if w_committed_attempt_id w \<noteq> None then Inl ControlError
       else let generation = w_replay_generation w + 1;
                replay_id = replay_identity lib identity generation actor explanation additional;
                row = \<lparr>r_replay_id = replay_id, r_work_id = identity, r_operator = actor,
                       r_reason = explanation, r_generation = generation, r_requested_at = now,
                       r_from_status = W_DEAD, r_additional_attempts = additional\<rparr>
            in bindE (insert_replay row d) (\<lambda>d1.
              Inr (d1\<lparr>db_work := update_where (\<lambda>x. w_work_id x = identity \<and> w_status x = W_DEAD)
                        (requeue_work additional now generation replay_id) (db_work d1)\<rparr>,
                   replay_of_row row)))"

definition replay :: "pylib \<Rightarrow> pyval \<Rightarrow> pyval \<Rightarrow> pyval \<Rightarrow> pyval \<Rightarrow> pyval \<Rightarrow> store
    \<Rightarrow> replay_request res \<times> store" where
  "replay lib clock work_id operator reason additional_attempts s =
     (case bindE (required_text work_id) (\<lambda>identity.
           bindE (required_text operator) (\<lambda>actor.
           bindE (required_text reason) (\<lambda>explanation.
           bindE (bounded_int 1 100 additional_attempts) (\<lambda>additional.
           bindE (finite_num clock) (\<lambda>now. Inr (identity, actor, explanation, additional, now)))))) of
        Inl e \<Rightarrow> (Inl e, s)
      | Inr (identity, actor, explanation, additional, now) \<Rightarrow>
          transaction (replay_tx lib now identity actor explanation additional) s)"

section \<open>quarantine\<close>

definition quarantine_marker :: "pylib \<Rightarrow> string \<Rightarrow> string \<Rightarrow> string \<Rightarrow> string" where
  "quarantine_marker lib operator reason digest = dumps lib (PDict
     [(''operation'', PStr ''quarantine''), (''operator'', PStr operator),
      (''reason'', PStr reason), (''release_digest'', PStr digest)])"

definition quarantine_expected :: "pyval \<Rightarrow> (string \<times> string) list res" where
  "quarantine_expected v = (case v of
     PDict [] \<Rightarrow> Inl ValueError
   | PDict kvs \<Rightarrow> mapE (\<lambda>(k, x). bindE (required_text (PStr k)) (\<lambda>work_id.
       bindE (validated_sha256 x) (\<lambda>digest. Inr (work_id, digest)))) kvs
   | _ \<Rightarrow> Inl ValueError)"

definition quarantine_work :: "pyfloat \<Rightarrow> string \<Rightarrow> work_row \<Rightarrow> work_row" where
  "quarantine_work now marker w = w\<lparr>w_status := W_DEAD, w_available_at := now,
     w_last_error := Some marker, w_updated_at := now\<rparr>"

text \<open>One iteration; \<open>snapshot\<close> is the database the rows were read from.\<close>

definition quarantine_item :: "pylib \<Rightarrow> pyfloat \<Rightarrow> string \<Rightarrow> string \<Rightarrow> db \<Rightarrow> string \<times> string \<Rightarrow> db \<Rightarrow> db res" where
  "quarantine_item lib now actor explanation snapshot wd d = (case wd of (work_id, digest) \<Rightarrow>
     (case find_work snapshot work_id of
        None \<Rightarrow> Inl KeyError
      | Some w \<Rightarrow>
          let marker = quarantine_marker lib actor explanation digest in
          if w_release_digest w \<noteq> digest then Inl ImmutableConflictError
          else if w_status w = W_DEAD \<and> w_last_error w = Some marker then Inr d
          else if w_status w \<noteq> W_READY \<or> w_committed_attempt_id w \<noteq> None then Inl ControlError
          else Inr (d\<lparr>db_work := update_where
                 (\<lambda>x. w_work_id x = work_id \<and> w_status x = W_READY
                    \<and> w_release_digest x = digest \<and> w_committed_attempt_id x = None)
                 (quarantine_work now marker) (db_work d)\<rparr>)))"

definition quarantine_tx :: "pylib \<Rightarrow> pyfloat \<Rightarrow> (string \<times> string) list \<Rightarrow> string \<Rightarrow> string \<Rightarrow> db
    \<Rightarrow> (db \<times> quarantine_report) res" where
  "quarantine_tx lib now expected actor explanation d =
     (if \<exists>i \<in> set (map fst expected). find_work d i = None then Inl KeyError
      else bindE (foldE (quarantine_item lib now actor explanation d) expected d) (\<lambda>d1.
        if \<forall>i \<in> set (map fst expected). map_option w_status (find_work d1 i) = Some W_DEAD
        then Inr (d1, \<lparr>qr_work_ids = sort (map fst expected), qr_operator = actor,
                       qr_reason = explanation, qr_quarantined_at = now\<rparr>)
        else Inl ControlError))"

definition quarantine :: "pylib \<Rightarrow> pyval \<Rightarrow> pyval \<Rightarrow> pyval \<Rightarrow> pyval \<Rightarrow> store
    \<Rightarrow> quarantine_report res \<times> store" where
  "quarantine lib clock expected_release_digests operator reason s =
     (case bindE (quarantine_expected expected_release_digests) (\<lambda>expected.
           bindE (required_text operator) (\<lambda>actor.
           bindE (required_text reason) (\<lambda>explanation.
           bindE (finite_num clock) (\<lambda>now. Inr (expected, actor, explanation, now))))) of
        Inl e \<Rightarrow> (Inl e, s)
      | Inr (expected, actor, explanation, now) \<Rightarrow>
          transaction (quarantine_tx lib now expected actor explanation) s)"

end
