(* ===== verification/Control_Reconcile.thy ===== *)
theory Control_Reconcile
  imports Control_Recovery
begin

text \<open>
  Reconciliation in \<^verbatim>\<open>sjd_control.py\<close>: the integrity queries over the tables and the claim
  envelopes, the persistent list of open findings, and the status summary.
\<close>

section \<open>Relational findings\<close>

type_synonym finding = "string \<times> string \<times> string \<times> pyval"

type_synonym detected = "(string \<times> finding) list"

definition add_finding :: "pylib \<Rightarrow> string \<Rightarrow> string \<Rightarrow> string \<times> pyval \<Rightarrow> detected \<Rightarrow> detected" where
  "add_finding lib kind severity ed = (case ed of (entity, details) \<Rightarrow>
     dset (finding_id lib kind entity) (kind, severity, entity, details))"

definition opt_str :: "string option \<Rightarrow> pyval" where
  "opt_str v = (case v of None \<Rightarrow> PNone | Some s \<Rightarrow> PStr s)"

text \<open>\<open>a != b\<close> in a \<open>WHERE\<close> clause: neither true nor false when a side is \<open>NULL\<close>.\<close>

definition sql_neq :: "'a option \<Rightarrow> 'a option \<Rightarrow> bool" where
  "sql_neq x y = (case (x, y) of (Some a, Some b) \<Rightarrow> a \<noteq> b | _ \<Rightarrow> False)"

definition invalid_pointers :: "db \<Rightarrow> (string \<times> pyval) list" where
  "invalid_pointers d = map (\<lambda>((w, a), p). (w_work_id w,
       PDict [(''committed_attempt_id'', opt_str (w_committed_attempt_id w))]))
     (filter (\<lambda>((w, a), p). w_committed_attempt_id w \<noteq> None \<and>
        (a = None \<or> sql_neq (map_option a_work_id a) (Some (w_work_id w))
         \<or> sql_neq (map_option a_status a) (Some A_SUCCEEDED) \<or> p = None
         \<or> sql_neq (w_publication_sequence w) (map_option p_publication_sequence p)))
       (left_join (\<lambda>(w, a) p. p_work_id p = w_work_id w
                    \<and> Some (p_attempt_id p) = w_committed_attempt_id w)
         (left_join (\<lambda>w a. Some (a_attempt_id a) = w_committed_attempt_id w)
           (db_work d) (db_attempts d))
         (db_publications d)))"

definition work_status_text :: "work_status \<Rightarrow> string" where
  "work_status_text st = (case st of W_READY \<Rightarrow> ''READY'' | W_LEASED \<Rightarrow> ''LEASED''
     | W_SUCCEEDED \<Rightarrow> ''SUCCEEDED'' | W_DEAD \<Rightarrow> ''DEAD'')"

definition missing_pointers :: "db \<Rightarrow> (string \<times> pyval) list" where
  "missing_pointers d = map (\<lambda>(i, st). (i, PDict [(''status'', PStr (work_status_text st))]))
     (remdups (map (\<lambda>((w, p), a). (w_work_id w, w_status w))
       (filter (\<lambda>((w, p), a). w_committed_attempt_id w = None \<and>
          (w_status w = W_SUCCEEDED \<or> p \<noteq> None \<or> a \<noteq> None))
         (left_join (\<lambda>(w, p) a. a_work_id a = w_work_id w \<and> a_status a = A_SUCCEEDED)
           (left_join (\<lambda>w p. p_work_id p = w_work_id w) (db_work d) (db_publications d))
           (db_attempts d)))))"

definition sealed_uncommitted :: "db \<Rightarrow> (string \<times> pyval) list" where
  "sealed_uncommitted d = map (\<lambda>(a, p). (a_attempt_id a,
       PDict [(''work_id'', PStr (a_work_id a)), (''batch_id'', PStr (a_batch_id a))]))
     (filter (\<lambda>(a, p). a_status a = A_SEALED \<and> p = None)
       (left_join (\<lambda>a p. p_attempt_id p = a_attempt_id a) (db_attempts d) (db_publications d)))"

definition orphan_outputs :: "db \<Rightarrow> (string \<times> pyval) list" where
  "orphan_outputs d = map (\<lambda>(o', a). (int_dec (o_output_id o'),
       PDict [(''attempt_id'', PStr (o_attempt_id o')), (''work_id'', PStr (o_work_id o')),
              (''output_path'', PStr (o_output_path o'))]))
     (filter (\<lambda>(o', a). a = None \<or> sql_neq (map_option a_work_id a) (Some (o_work_id o')))
       (left_join (\<lambda>o' a. a_attempt_id a = o_attempt_id o') (db_outputs d) (db_attempts d)))"

definition opt_float :: "pyfloat option \<Rightarrow> pyval" where
  "opt_float v = (case v of None \<Rightarrow> PNone | Some x \<Rightarrow> PFloat x)"

definition expired_leases :: "pyfloat \<Rightarrow> db \<Rightarrow> (string \<times> pyval) list" where
  "expired_leases now d = map (\<lambda>w. (w_work_id w,
       PDict [(''attempt_id'', opt_str (w_lease_attempt_id w)),
              (''lease_expires_at'', opt_float (w_lease_expires_at w))]))
     (filter (lease_expired now) (db_work d))"

definition duplicate_outputs :: "db \<Rightarrow> (string \<times> pyval) list" where
  "duplicate_outputs d = map (\<lambda>(w, a, n). (w @ '':'' @ a @ '':'' @ int_dec n,
       PDict [(''count'', PInt (int (count_list (map output_identity (db_outputs d)) (w, a, n))))]))
     (filter (\<lambda>i. 1 < count_list (map output_identity (db_outputs d)) i)
       (remdups (map output_identity (db_outputs d))))"

definition detect_relational_findings :: "pylib \<Rightarrow> pyfloat \<Rightarrow> db \<Rightarrow> detected \<Rightarrow> detected" where
  "detect_relational_findings lib now d det =
     fold (add_finding lib ''DUPLICATE_OUTPUT_IDENTITY'' ''ERROR'') (duplicate_outputs d)
     (fold (add_finding lib ''EXPIRED_LEASE'' ''ERROR'') (expired_leases now d)
     (fold (add_finding lib ''ORPHAN_OUTPUT'' ''ERROR'') (orphan_outputs d)
     (fold (add_finding lib ''SEALED_UNCOMMITTED_ATTEMPT'' ''WARN'') (sealed_uncommitted d)
     (fold (add_finding lib ''MISSING_COMMITTED_POINTER'' ''ERROR'') (missing_pointers d)
     (fold (add_finding lib ''INVALID_COMMITTED_POINTER'' ''ERROR'') (invalid_pointers d) det)))))"

section \<open>Batch findings\<close>

definition member_claim :: "member_row \<Rightarrow> claimed_work" where
  "member_claim m = \<lparr>c_work_id = m_work_id m, c_attempt_id = m_attempt_id m,
     c_fence = m_fence m, c_payload_sha256 = m_payload_sha256 m\<rparr>"

definition attempt_mismatches :: "string \<Rightarrow> db \<Rightarrow> string list" where
  "attempt_mismatches batch_id d = map (\<lambda>(a, m). a_attempt_id a)
     (filter (\<lambda>(a, m). m = None \<or> sql_neq (map_option m_work_id m) (Some (a_work_id a))
          \<or> sql_neq (map_option m_fence m) (Some (a_fence a))
          \<or> sql_neq (map_option m_payload_sha256 m) (Some (a_payload_sha256 a)))
       (left_join (\<lambda>a m. m_attempt_id m = a_attempt_id a)
         (filter (\<lambda>a. a_batch_id a = batch_id) (db_attempts d)) (db_members d)))"

text \<open>The entries \<open>items\<close> and \<open>membership_sha256\<close> of a decoded envelope; \<open>None\<close> on a missing one.\<close>

definition envelope_membership :: "pyval option \<Rightarrow> (pyval \<times> pyval) option" where
  "envelope_membership v = (case v of
     Some (PDict kvs) \<Rightarrow> (case (map_of kvs ''items'', map_of kvs ''membership_sha256'') of
        (Some i, Some m) \<Rightarrow> Some (i, m) | _ \<Rightarrow> None)
   | _ \<Rightarrow> None)"

definition envelope_differs :: "pylib \<Rightarrow> batch_row \<Rightarrow> string \<Rightarrow> bool" where
  "envelope_differs lib b content = (case envelope_membership (json_loads lib content) of
     Some (PList vs, m) \<Rightarrow> int (length vs) \<noteq> b_item_count b \<or> m \<noteq> PStr (b_membership_sha256 b)
   | _ \<Rightarrow> True)"

definition batch_findings :: "pylib \<Rightarrow> files \<Rightarrow> db \<Rightarrow> batch_row \<Rightarrow> (string \<times> pyval) list" where
  "batch_findings lib fs d b =
     (let members = batch_members (b_batch_id b) d;
          calculated = membership_sha256 lib (map member_claim members);
          mismatched = attempt_mismatches (b_batch_id b) d;
          content = map_of fs (b_envelope_path b);
          actual = map_option (sha256_hex lib) content
      in (if int (length members) \<noteq> b_item_count b \<or> calculated \<noteq> b_membership_sha256 b
          then [(''MEMBERSHIP_HASH_MISMATCH'', PDict
                  [(''expected_count'', PInt (b_item_count b)),
                   (''actual_count'', PInt (int (length members))),
                   (''expected_sha256'', PStr (b_membership_sha256 b)),
                   (''actual_sha256'', PStr calculated)])]
          else [])
       @ (if mismatched \<noteq> []
          then [(''MEMBERSHIP_HASH_MISMATCH'', PDict
                  [(''reason'', PStr ''attempt rows differ from batch membership''),
                   (''attempt_ids'', PList (map PStr mismatched))])]
          else [])
       @ (if actual \<noteq> Some (b_envelope_sha256 b)
          then [(''ENVELOPE_HASH_MISMATCH'', PDict
                  [(''expected_sha256'', PStr (b_envelope_sha256 b)),
                   (''actual_sha256'', opt_str actual),
                   (''path'', PStr (b_envelope_path b))])]
          else if (case content of None \<Rightarrow> True | Some c \<Rightarrow> envelope_differs lib b c)
          then [(''MEMBERSHIP_HASH_MISMATCH'', PDict
                  [(''reason'', PStr ''claim envelope membership differs from SQLite'')])]
          else []))"

definition detect_batch_findings :: "pylib \<Rightarrow> files \<Rightarrow> db \<Rightarrow> detected \<Rightarrow> detected" where
  "detect_batch_findings lib fs d det =
     fold (\<lambda>b. fold (\<lambda>(kind, details). add_finding lib kind ''ERROR'' (b_batch_id b, details))
                 (batch_findings lib fs d b)) (db_batches d) det"

section \<open>reconcile and status\<close>

definition upsert_finding :: "pyfloat \<Rightarrow> string \<Rightarrow> string \<Rightarrow> finding \<Rightarrow> finding_row list \<Rightarrow> finding_row list" where
  "upsert_finding now i details_json f t = (case f of (kind, severity, entity, details) \<Rightarrow>
     if i \<in> f_finding_id ` set t
     then update_where (\<lambda>r. f_finding_id r = i)
            (\<lambda>r. r\<lparr>f_severity := severity, f_details_json := details_json,
                   f_last_seen_at := now, f_resolved_at := None\<rparr>) t
     else t @ [\<lparr>f_finding_id = i, f_finding_type = kind, f_severity = severity,
                f_entity_key = entity, f_details_json = details_json, f_first_seen_at = now,
                f_last_seen_at = now, f_resolved_at = None\<rparr>])"

definition reconcile_item :: "pylib \<Rightarrow> pyfloat \<Rightarrow> string \<times> finding \<Rightarrow> db \<Rightarrow> db res" where
  "reconcile_item lib now kf d = (case kf of (key, kind, severity, entity, details) \<Rightarrow>
     bindE (canonical_json lib details) (\<lambda>details_json.
       Inr (d\<lparr>db_findings := upsert_finding now (finding_id lib kind entity) details_json
                (kind, severity, entity, details) (db_findings d)\<rparr>)))"

definition current_ids :: "pylib \<Rightarrow> detected \<Rightarrow> string list" where
  "current_ids lib det = map (\<lambda>(k, kind, severity, entity, details). finding_id lib kind entity) det"

record reconciliation_finding =
  rf_finding_id :: string
  rf_finding_type :: string
  rf_severity :: string
  rf_entity_key :: string
  rf_details :: pyval
  rf_first_seen_at :: pyfloat
  rf_last_seen_at :: pyfloat

definition open_findings :: "db \<Rightarrow> finding_row list" where
  "open_findings d = sort_key (\<lambda>r. (f_severity r, f_finding_type r, f_entity_key r))
     (filter (\<lambda>r. f_resolved_at r = None) (db_findings d))"

definition finding_result :: "pylib \<Rightarrow> finding_row \<Rightarrow> reconciliation_finding res" where
  "finding_result lib r = (case json_loads lib (f_details_json r) of
     None \<Rightarrow> Inl ValueError
   | Some details \<Rightarrow> Inr \<lparr>rf_finding_id = f_finding_id r, rf_finding_type = f_finding_type r,
       rf_severity = f_severity r, rf_entity_key = f_entity_key r, rf_details = details,
       rf_first_seen_at = f_first_seen_at r, rf_last_seen_at = f_last_seen_at r\<rparr>)"

definition detect_findings :: "pylib \<Rightarrow> pyfloat \<Rightarrow> files \<Rightarrow> db \<Rightarrow> detected" where
  "detect_findings lib now fs d =
     sort_key fst (detect_batch_findings lib fs d (detect_relational_findings lib now d []))"

definition reconcile_tx :: "pylib \<Rightarrow> pyfloat \<Rightarrow> files \<Rightarrow> db \<Rightarrow> (db \<times> reconciliation_finding list) res" where
  "reconcile_tx lib now fs d =
     (let det = detect_findings lib now fs d in
      bindE (foldE (reconcile_item lib now) det d) (\<lambda>d1.
        let d2 = d1\<lparr>db_findings := update_where
              (\<lambda>r. f_resolved_at r = None \<and> f_finding_id r \<notin> set (current_ids lib det))
              (\<lambda>r. r\<lparr>f_resolved_at := Some now\<rparr>) (db_findings d1)\<rparr>
        in bindE (mapE (finding_result lib) (open_findings d2)) (\<lambda>fs. Inr (d2, fs))))"

definition reconcile :: "pylib \<Rightarrow> pyval \<Rightarrow> pyval \<Rightarrow> store \<Rightarrow> reconciliation_finding list res \<times> store" where
  "reconcile lib clock now s =
     (case (if now = PNone then finite_num clock else finite_num now) of
        Inl e \<Rightarrow> (Inl e, s)
      | Inr timestamp \<Rightarrow> transaction (reconcile_tx lib timestamp (st_files s)) s)"

record store_status =
  ss_schema_version :: int
  ss_work :: "(work_status \<times> nat) list"
  ss_batches :: "(batch_status \<times> nat) list"
  ss_open_findings :: nat
  ss_last_publication_sequence :: "int option"

definition group_count :: "'a list \<Rightarrow> ('a \<times> nat) list" where
  "group_count xs = map (\<lambda>x. (x, count_list xs x)) (remdups xs)"

definition status :: "store \<Rightarrow> store_status" where
  "status s = \<lparr>ss_schema_version = 1,
     ss_work = group_count (map w_status (db_work (st_db s))),
     ss_batches = group_count (map b_status (db_batches (st_db s))),
     ss_open_findings = length (filter (\<lambda>r. f_resolved_at r = None) (db_findings (st_db s))),
     ss_last_publication_sequence = (case db_publications (st_db s) of
         [] \<Rightarrow> None | ps \<Rightarrow> Some (Max (set (map p_publication_sequence ps))))\<rparr>"

end
