(* ===== verification/Transition.thy ===== *)
theory Transition
  imports Py_Prelude
begin

text \<open>
  Generic contracts of a stateful component: what holds in every state it can reach, and what its
  history never loses.  The locales are interpreted on the components' own step relations.
\<close>

section \<open>Reachable states\<close>

inductive reachable :: "('s \<Rightarrow> bool) \<Rightarrow> ('s \<Rightarrow> 's \<Rightarrow> bool) \<Rightarrow> 's \<Rightarrow> bool" for init step where
  start: "init s \<Longrightarrow> reachable init step s"
| move: "reachable init step s \<Longrightarrow> step s s' \<Longrightarrow> reachable init step s'"

lemma reachable_star: "step\<^sup>*\<^sup>* s s' \<Longrightarrow> reachable init step s \<Longrightarrow> reachable init step s'"
  by (induction rule: rtranclp_induct) (auto intro: reachable.move)

locale invariant_system =
  fixes init :: "'s \<Rightarrow> bool" and step :: "'s \<Rightarrow> 's \<Rightarrow> bool" and inv :: "'s \<Rightarrow> bool"
  assumes init_inv: "init s \<Longrightarrow> inv s"
    and step_inv: "inv s \<Longrightarrow> step s s' \<Longrightarrow> inv s'"
begin

lemma reach_inv: "reachable init step s \<Longrightarrow> inv s"
  by (induction rule: reachable.induct) (auto intro: init_inv step_inv)

lemma star_inv: "step\<^sup>*\<^sup>* s s' \<Longrightarrow> inv s \<Longrightarrow> inv s'"
  by (induction rule: rtranclp_induct) (auto intro: step_inv)

end

locale history_system = invariant_system +
  fixes le :: "'s \<Rightarrow> 's \<Rightarrow> bool"
  assumes le_refl: "le s s"
    and le_trans: "le s t \<Longrightarrow> le t u \<Longrightarrow> le s u"
    and step_le: "inv s \<Longrightarrow> step s s' \<Longrightarrow> le s s'"
begin

lemma star_le: "step\<^sup>*\<^sup>* s s' \<Longrightarrow> inv s \<Longrightarrow> le s s'"
  by (induction rule: rtranclp_induct) (blast intro: le_refl le_trans step_le star_inv)+

end

section \<open>Tables that only grow\<close>

text \<open>Every row of \<open>t\<close> is still there, in the same place, changed at most as \<open>R\<close> allows.\<close>

definition rows_le :: "('r \<Rightarrow> 'r \<Rightarrow> bool) \<Rightarrow> 'r list \<Rightarrow> 'r list \<Rightarrow> bool" where
  "rows_le R t t' \<longleftrightarrow> (\<exists>t1 t2. t' = t1 @ t2 \<and> list_all2 R t t1)"

lemma rows_le_all2: "list_all2 R t t' \<Longrightarrow> rows_le R t t'"
  unfolding rows_le_def by (metis append_Nil2)

lemma rows_le_refl: "(\<And>r. R r r) \<Longrightarrow> rows_le R t t"
  by (rule rows_le_all2) (simp add: list_all2_refl)

lemma rows_le_append: "(\<And>r. R r r) \<Longrightarrow> rows_le R t (t @ t')"
  unfolding rows_le_def by (metis list_all2_refl)

lemma rows_le_eq_prefix: "rows_le (=) t t' \<longleftrightarrow> (\<exists>rs. t' = t @ rs)"
  by (auto simp: rows_le_def list.rel_eq)

lemma rows_le_trans:
  assumes R: "\<And>x y z. R x y \<Longrightarrow> R y z \<Longrightarrow> R x z" and "rows_le R t u" "rows_le R u v"
  shows "rows_le R t v"
proof -
  obtain u1 u2 v1 v2 where u: "u = u1 @ u2" "list_all2 R t u1" "v = v1 @ v2" "list_all2 R u v1"
    using assms(2,3) by (auto simp: rows_le_def)
  then obtain w1 w2 where w: "v1 = w1 @ w2" "list_all2 R u1 w1"
    by (auto simp: list_all2_append1)
  have "list_all2 R t w1" by (rule list_all2_trans [of R R R, OF _ u(2) w(2)]) (rule R)
  with u(3) w(1) show ?thesis unfolding rows_le_def by (intro exI [of _ w1] exI [of _ "w2 @ v2"]) simp
qed

lemma rows_le_update_where:
  assumes "\<And>r. R r r" "\<And>r. r \<in> set t \<Longrightarrow> p r \<Longrightarrow> R r (f r)"
  shows "rows_le R t (update_where p f t)"
  by (rule rows_le_all2) (use assms in \<open>auto simp: update_where_def list_all2_map2 intro!: list.rel_refl_strong\<close>)

lemma rows_le_same_length: "rows_le R t t' \<Longrightarrow> length t' = length t \<Longrightarrow> list_all2 R t t'"
  by (auto simp: rows_le_def) (frule list_all2_lengthD, simp)

lemma rows_le_mem:
  assumes "rows_le R t t'" "r \<in> set t"
  obtains r' where "r' \<in> set t'" "R r r'"
proof -
  obtain t1 t2 where "t' = t1 @ t2" "list_all2 R t t1" using assms(1) by (auto simp: rows_le_def)
  with assms(2) show thesis by (metis Un_iff in_set_conv_nth list_all2_conv_all_nth set_append that)
qed

end
