(* ===== verification/Control_Inv.thy ===== *)
theory Control_Inv
  imports Control_Reconcile Transition
begin

text \<open>
  The well-formedness invariant of the control database: the keys are unique, every row satisfies
  its table's \<open>CHECK\<close>, an attempt that is leased or sealed is the one its work item is fenced by,
  a work item is published exactly when it points at a succeeded attempt and its publication, and
  the batch membership is the one the batch row was hashed from.  The first part of the invariant is
  stated relative to a set \<open>X\<close> of batches that an operation is in the middle of, whose attempts may
  be ahead of the batch row.
\<close>

section \<open>The invariant\<close>

definition keys_ok :: "db \<Rightarrow> bool" where
  "keys_ok d \<longleftrightarrow> distinct (map w_work_id (db_work d)) \<and> distinct (map b_batch_id (db_batches d))
     \<and> distinct (map a_attempt_id (db_attempts d))
     \<and> distinct (map (\<lambda>a. (a_work_id a, a_fence a)) (db_attempts d))
     \<and> distinct (map output_identity (db_outputs d))
     \<and> distinct (map p_work_id (db_publications d)) \<and> distinct (map p_attempt_id (db_publications d))
     \<and> distinct (map p_publication_sequence (db_publications d))"

definition work_ok :: "work_row \<Rightarrow> bool" where
  "work_ok w \<longleftrightarrow>
     (w_lease_owner w \<noteq> None \<longleftrightarrow> w_status w = W_LEASED)
     \<and> (w_lease_attempt_id w \<noteq> None \<longleftrightarrow> w_status w = W_LEASED)
     \<and> (w_lease_expires_at w \<noteq> None \<longleftrightarrow> w_status w = W_LEASED)
     \<and> w_fence w = w_attempt_count w \<and> 0 \<le> w_attempt_count w
     \<and> w_attempt_count w \<le> w_max_attempts w
     \<and> (w_status w = W_READY \<longrightarrow> w_attempt_count w < w_max_attempts w)
     \<and> (w_committed_attempt_id w \<noteq> None \<longleftrightarrow> w_status w = W_SUCCEEDED)
     \<and> (w_publication_sequence w \<noteq> None \<longleftrightarrow> w_status w = W_SUCCEEDED)"

fun status_agrees :: "batch_status \<Rightarrow> attempt_status \<Rightarrow> bool" where
  "status_agrees B_LEASED st = (st = A_LEASED)"
| "status_agrees B_SEALED st = (st = A_SEALED)"
| "status_agrees B_COMMITTED st = (st = A_SUCCEEDED \<or> st = A_FAILED)"
| "status_agrees B_EXPIRED st = (st = A_EXPIRED)"

definition link_ok :: "string set \<Rightarrow> attempt_row \<Rightarrow> work_row \<Rightarrow> batch_row \<Rightarrow> bool" where
  "link_ok X a w b \<longleftrightarrow> w_work_id w = a_work_id a \<and> b_batch_id b = a_batch_id a
     \<and> 1 \<le> a_fence a \<and> a_fence a \<le> w_fence w \<and> w_payload_sha256 w = a_payload_sha256 a
     \<and> (attempt_active a \<longrightarrow> holds_fence a w \<and> w_lease_expires_at w = Some (b_lease_expires_at b)
          \<and> a_lease_expires_at a = b_lease_expires_at b)
     \<and> (a_status a = A_SUCCEEDED \<longrightarrow> w_committed_attempt_id w = Some (a_attempt_id a))
     \<and> (a_batch_id a \<notin> X \<longrightarrow> status_agrees (b_status b) (a_status a))
     \<and> (a_status a \<in> {A_SEALED, A_SUCCEEDED, A_FAILED} \<longrightarrow>
          a_output_path a \<noteq> None \<and> a_output_sha256 a \<noteq> None)"

definition attempts_ok :: "string set \<Rightarrow> db \<Rightarrow> bool" where
  "attempts_ok X d \<longleftrightarrow> (\<forall>a \<in> set (db_attempts d). \<exists>w \<in> set (db_work d).
     \<exists>b \<in> set (db_batches d). link_ok X a w b)"

definition leases_ok :: "db \<Rightarrow> bool" where
  "leases_ok d \<longleftrightarrow> (\<forall>w \<in> set (db_work d). w_status w = W_LEASED \<longrightarrow>
     (\<exists>a \<in> set (db_attempts d). a_work_id a = w_work_id w \<and> attempt_active a))"

definition publication_link :: "publication_row \<Rightarrow> attempt_row \<Rightarrow> work_row \<Rightarrow> bool" where
  "publication_link p a w \<longleftrightarrow> p_work_id p = w_work_id w \<and> p_attempt_id p = a_attempt_id a
     \<and> a_work_id a = w_work_id w \<and> a_status a = A_SUCCEEDED
     \<and> p_batch_id p = a_batch_id a
     \<and> a_output_path a = Some (p_output_path p) \<and> a_output_sha256 a = Some (p_output_sha256 p)
     \<and> w_committed_attempt_id w = Some (a_attempt_id a)
     \<and> w_publication_sequence w = Some (p_publication_sequence p)"

definition publications_ok :: "db \<Rightarrow> bool" where
  "publications_ok d \<longleftrightarrow>
     (\<forall>p \<in> set (db_publications d). p_publication_sequence p \<le> db_last_publication d \<and>
        (\<exists>a \<in> set (db_attempts d). \<exists>w \<in> set (db_work d). publication_link p a w))
     \<and> (\<forall>w \<in> set (db_work d). w_committed_attempt_id w \<noteq> None \<longrightarrow>
          (\<exists>p \<in> set (db_publications d). p_work_id p = w_work_id w))"

definition outputs_ok :: "db \<Rightarrow> bool" where
  "outputs_ok d \<longleftrightarrow> (\<forall>o' \<in> set (db_outputs d). \<exists>a \<in> set (db_attempts d).
     a_attempt_id a = o_attempt_id o' \<and> a_work_id a = o_work_id o' \<and> a_status a \<noteq> A_LEASED)"

definition core_ok :: "string set \<Rightarrow> db \<Rightarrow> bool" where
  "core_ok X d \<longleftrightarrow> keys_ok d \<and> (\<forall>w \<in> set (db_work d). work_ok w) \<and> attempts_ok X d
     \<and> leases_ok d \<and> publications_ok d \<and> outputs_ok d"

text \<open>Batch membership: the rows of \<open>batch_members\<close> and the attempts of a batch are the same items.\<close>

definition same_item :: "attempt_row \<Rightarrow> member_row \<Rightarrow> bool" where
  "same_item a m \<longleftrightarrow> m_attempt_id m = a_attempt_id a \<and> m_batch_id m = a_batch_id a
     \<and> m_work_id m = a_work_id a \<and> m_fence m = a_fence a
     \<and> m_payload_sha256 m = a_payload_sha256 a"

definition batch_membership_ok :: "pylib \<Rightarrow> db \<Rightarrow> batch_row \<Rightarrow> bool" where
  "batch_membership_ok lib d b \<longleftrightarrow> 0 < b_item_count b
     \<and> b_item_count b = int (length (batch_members (b_batch_id b) d))
     \<and> b_membership_sha256 b = membership_sha256 lib (map member_claim (batch_members (b_batch_id b) d))"

definition members_ok :: "pylib \<Rightarrow> db \<Rightarrow> bool" where
  "members_ok lib d \<longleftrightarrow> distinct (map m_attempt_id (db_members d))
     \<and> distinct (map (\<lambda>m. (m_batch_id m, m_work_id m)) (db_members d))
     \<and> (\<forall>a \<in> set (db_attempts d). \<exists>m \<in> set (db_members d). same_item a m)
     \<and> (\<forall>m \<in> set (db_members d). \<exists>a \<in> set (db_attempts d). same_item a m)
     \<and> (\<forall>b \<in> set (db_batches d). batch_membership_ok lib d b)"

definition replays_ok :: "db \<Rightarrow> bool" where
  "replays_ok d \<longleftrightarrow> distinct (map (\<lambda>r. (r_work_id r, r_generation r)) (db_replays d))
     \<and> (\<forall>r \<in> set (db_replays d). \<exists>w \<in> set (db_work d). w_work_id w = r_work_id r
          \<and> r_generation r \<le> w_replay_generation w)"

definition db_ok :: "pylib \<Rightarrow> db \<Rightarrow> bool" where
  "db_ok lib d \<longleftrightarrow> core_ok {} d \<and> members_ok lib d \<and> replays_ok d"

text \<open>Every batch row's envelope file is present and hashes to the digest the row records.\<close>

definition envelopes_ok :: "pylib \<Rightarrow> store \<Rightarrow> bool" where
  "envelopes_ok lib s \<longleftrightarrow> (\<forall>b \<in> set (db_batches (st_db s)).
     \<exists>c. map_of (st_files s) (b_envelope_path b) = Some c \<and> sha256_hex lib c = b_envelope_sha256 b)"

definition store_ok :: "pylib \<Rightarrow> store \<Rightarrow> bool" where
  "store_ok lib s \<longleftrightarrow> db_ok lib (st_db s) \<and> envelopes_ok lib s"

section \<open>Updating one row\<close>

lemma set_update_one:
  assumes "distinct (map k t)" "r \<in> set t" "p r" "\<And>x. x \<in> set t \<Longrightarrow> p x \<Longrightarrow> k x = k r"
  shows "set (update_where p f t) = insert (f r) (set t - {r})"
proof -
  have "p x \<longleftrightarrow> x = r" if x: "x \<in> set t" for x
  proof
    assume "p x"
    then have "k x = k r" by (rule assms(4) [OF x])
    then show "x = r" by (rule distinct_keyD [OF assms(1) x assms(2)])
  qed (simp add: assms(3))
  then have "{x \<in> set t. p x} = {r}" "{x \<in> set t. \<not> p x} = set t - {r}"
    using assms(2) by auto
  then show ?thesis by (simp add: set_update_where)
qed

lemma update_one_key:
  assumes "\<And>x. x \<in> set t \<Longrightarrow> p x \<Longrightarrow> k (f x) = k x"
  shows "distinct (map k (update_where p f t)) = distinct (map k t)"
  using update_where_key [of t p k f] assms by simp

lemma work_fenced_by_row:
  assumes "holds_fence a w" "w_work_id w = a_work_id a"
  shows "work_fenced_by (a_work_id a) (a_attempt_id a) (a_fence a) w"
  using assms by (simp add: holds_fence_def work_fenced_by_def)

lemma keys_okD:
  assumes "keys_ok d"
  shows "distinct (map w_work_id (db_work d))" "distinct (map b_batch_id (db_batches d))"
    "distinct (map a_attempt_id (db_attempts d))" "distinct (map p_work_id (db_publications d))"
    "distinct (map p_attempt_id (db_publications d))" "distinct (map output_identity (db_outputs d))"
  using assms by (simp_all add: keys_ok_def)

lemma work_key: "keys_ok d \<Longrightarrow> w \<in> set (db_work d) \<Longrightarrow> w' \<in> set (db_work d) \<Longrightarrow>
    w_work_id w = w_work_id w' \<Longrightarrow> w = w'"
  by (rule distinct_keyD [OF keys_okD(1)])

lemma batch_key: "keys_ok d \<Longrightarrow> b \<in> set (db_batches d) \<Longrightarrow> b' \<in> set (db_batches d) \<Longrightarrow>
    b_batch_id b = b_batch_id b' \<Longrightarrow> b = b'"
  by (rule distinct_keyD [OF keys_okD(2)])

lemma attempt_key: "keys_ok d \<Longrightarrow> a \<in> set (db_attempts d) \<Longrightarrow> a' \<in> set (db_attempts d) \<Longrightarrow>
    a_attempt_id a = a_attempt_id a' \<Longrightarrow> a = a'"
  by (rule distinct_keyD [OF keys_okD(3)])

lemma core_okD:
  assumes "core_ok X d"
  shows "keys_ok d" "w \<in> set (db_work d) \<Longrightarrow> work_ok w" "attempts_ok X d" "leases_ok d"
    "publications_ok d" "outputs_ok d"
  using assms by (simp_all add: core_ok_def)

lemma attempt_linkE:
  assumes "core_ok X d" "a \<in> set (db_attempts d)"
  obtains w b where "w \<in> set (db_work d)" "b \<in> set (db_batches d)" "link_ok X a w b"
  using assms unfolding core_ok_def attempts_ok_def by blast

lemma link_of_work:
  assumes "core_ok X d" "a \<in> set (db_attempts d)" "w \<in> set (db_work d)" "w_work_id w = a_work_id a"
  obtains b where "b \<in> set (db_batches d)" "link_ok X a w b"
proof -
  obtain w' b where w': "w' \<in> set (db_work d)" "b \<in> set (db_batches d)" "link_ok X a w' b"
    using attempt_linkE [OF assms(1,2)] .
  then have "w_work_id w' = w_work_id w" using assms(4) by (simp add: link_ok_def)
  with work_key [OF core_okD(1) [OF assms(1)] w'(1) assms(3)] w'(2,3) show thesis
    using that by simp
qed

lemma active_unique:
  assumes "core_ok X d" "a \<in> set (db_attempts d)" "a' \<in> set (db_attempts d)"
    "attempt_active a" "attempt_active a'" "a_work_id a = a_work_id a'"
  shows "a = a'"
proof -
  obtain w b where w: "w \<in> set (db_work d)" "link_ok X a w b"
    using attempt_linkE [OF assms(1,2)] by blast
  then have "w_work_id w = a_work_id a'" using assms(6) by (simp add: link_ok_def)
  then obtain b' where "link_ok X a' w b'"
    using link_of_work [OF assms(1,3) w(1)] by blast
  with w(2) assms(4,5) have "a_attempt_id a = a_attempt_id a'"
    by (simp add: link_ok_def holds_fence_def)
  then show ?thesis by (rule attempt_key [OF core_okD(1) [OF assms(1)] assms(2,3)])
qed

section \<open>One attempt and its work move together\<close>

text \<open>
  The step every loop of the process side is made of: the work item's active attempt \<open>a\<close> and the
  work row \<open>w\<close> are replaced by \<open>a'\<close> and \<open>w'\<close>, possibly with a new publication or new output rows.
\<close>

lemma other_attempts_idle:
  assumes "core_ok X d" "a \<in> set (db_attempts d)" "w \<in> set (db_work d)"
    "w_work_id w = a_work_id a" "attempt_active a"
    "x \<in> set (db_attempts d)" "x \<noteq> a" "a_work_id x = w_work_id w"
  shows "\<not> attempt_active x" "a_status x \<noteq> A_SUCCEEDED"
proof -
  show "\<not> attempt_active x" using active_unique [OF assms(1,6,2)] assms(4,5,7,8) by auto
  obtain b where b: "link_ok X a w b" using link_of_work [OF assms(1-4)] .
  obtain b' where b': "link_ok X x w b'" using link_of_work [OF assms(1,6,3)] assms(8) by auto
  have "w_status w = W_LEASED" using b assms(5) by (simp add: link_ok_def holds_fence_def)
  then have "w_committed_attempt_id w = None"
    using core_okD(2) [OF assms(1,3)] by (auto simp: work_ok_def)
  then show "a_status x \<noteq> A_SUCCEEDED" using b' by (auto simp: link_ok_def)
qed

lemma link_ok_idle:
  assumes "link_ok X x w b" "\<not> attempt_active x" "a_status x \<noteq> A_SUCCEEDED"
    "w_work_id w' = w_work_id w" "w_fence w \<le> w_fence w'" "w_payload_sha256 w' = w_payload_sha256 w"
  shows "link_ok X x w' b"
  using assms by (auto simp: link_ok_def)

definition replaces :: "('r \<Rightarrow> 'k) \<Rightarrow> 'r \<Rightarrow> 'r \<Rightarrow> 'r list \<Rightarrow> 'r list \<Rightarrow> bool" where
  "replaces k r r' t t' \<longleftrightarrow> r \<in> set t \<and> k r' = k r \<and> t' = map (\<lambda>x. if x = r then r' else x) t"

lemma replacesD:
  assumes "replaces k r r' t t'"
  shows "r \<in> set t" "set t' = insert r' (set t - {r})" "map k t' = map k t"
  using assms by (auto simp: replaces_def)

lemma replaces_refl: "r \<in> set t \<Longrightarrow> replaces k r r t t"
proof -
  have "(if x = r then r else x) = x" for x by simp
  then show "r \<in> set t \<Longrightarrow> replaces k r r t t" by (simp add: replaces_def)
qed

lemma replaces_update_where:
  assumes "distinct (map k t)" "r \<in> set t" "p r" "\<And>x. x \<in> set t \<Longrightarrow> p x \<Longrightarrow> k x = k r" "sig (f r) = sig r"
  shows "replaces sig r (f r) t (update_where p f t)"
proof -
  have "x = r" if "x \<in> set t" "p x" for x
    by (rule distinct_keyD [OF assms(1) that(1) assms(2) assms(4) [OF that]])
  then have "(if p x then f x else x) = (if x = r then f r else x)" if "x \<in> set t" for x
    using that assms(3) by (cases "p x") metis+
  then have "update_where p f t = map (\<lambda>x. if x = r then f r else x) t"
    unfolding update_where_def by (rule map_cong [OF refl])
  then show ?thesis using assms(2,5) by (simp add: replaces_def)
qed

text \<open>The columns of a row that no later statement changes.\<close>

definition work_sig :: "work_row \<Rightarrow> string \<times> string \<times> int \<times> int" where
  "work_sig w = (w_work_id w, w_payload_sha256 w, w_fence w, w_replay_generation w)"

definition attempt_sig :: "attempt_row \<Rightarrow> string \<times> string \<times> string \<times> int \<times> string" where
  "attempt_sig a = (a_attempt_id a, a_work_id a, a_batch_id a, a_fence a, a_payload_sha256 a)"

text \<open>
  What an operation may do to a row: the registered columns are fixed, counters only grow, and a
  published work item or a finished attempt is never changed again.
\<close>

definition work_registered ::
    "work_row \<Rightarrow> string \<times> string \<times> string \<times> string \<times> pyfloat \<times> string \<times> string \<times> int \<times> pyfloat" where
  "work_registered w = (w_work_id w, w_payload_json w, w_payload_sha256 w, w_runtime_key w,
     w_duration_seconds w, w_config_sha256 w, w_release_digest w, w_original_max_attempts w, w_created_at w)"

definition work_le :: "work_row \<Rightarrow> work_row \<Rightarrow> bool" where
  "work_le w w' \<longleftrightarrow> work_registered w' = work_registered w \<and> w_fence w \<le> w_fence w'
     \<and> w_attempt_count w \<le> w_attempt_count w' \<and> w_replay_generation w \<le> w_replay_generation w'
     \<and> (w_status w = W_SUCCEEDED \<longrightarrow> w' = w)"

definition attempt_le :: "attempt_row \<Rightarrow> attempt_row \<Rightarrow> bool" where
  "attempt_le a a' \<longleftrightarrow> attempt_sig a' = attempt_sig a \<and> (\<not> attempt_active a \<longrightarrow> a' = a)
     \<and> (a_status a = A_SEALED \<longrightarrow> a_status a' \<noteq> A_LEASED \<and> a_output_path a' = a_output_path a
          \<and> a_output_sha256 a' = a_output_sha256 a \<and> a_terminal_succeeded a' = a_terminal_succeeded a
          \<and> a_sealed_at a' = a_sealed_at a)"

definition batch_columns :: "batch_row \<Rightarrow> string \<times> string \<times> string \<times> int \<times> string \<times> string \<times> string \<times> pyfloat" where
  "batch_columns b = (b_batch_id b, b_owner b, b_runtime_key b, b_item_count b, b_membership_sha256 b,
     b_envelope_path b, b_envelope_sha256 b, b_created_at b)"

definition batch_le :: "batch_row \<Rightarrow> batch_row \<Rightarrow> bool" where
  "batch_le b b' \<longleftrightarrow> batch_columns b' = batch_columns b \<and> b_lease_expires_at b \<le> b_lease_expires_at b'
     \<and> (\<not> batch_active b \<longrightarrow> b' = b)"

definition history_db :: "db \<Rightarrow> db \<Rightarrow> bool" where
  "history_db d d' \<longleftrightarrow> rows_le work_le (db_work d) (db_work d')
     \<and> rows_le batch_le (db_batches d) (db_batches d')
     \<and> rows_le attempt_le (db_attempts d) (db_attempts d')
     \<and> rows_le (=) (db_members d) (db_members d')
     \<and> rows_le (=) (db_outputs d) (db_outputs d')
     \<and> rows_le (=) (db_publications d) (db_publications d')
     \<and> rows_le (=) (db_replays d) (db_replays d')"

lemma work_le_refl [simp]: "work_le w w"
  by (simp add: work_le_def)

lemma work_le_trans: "work_le u v \<Longrightarrow> work_le v w \<Longrightarrow> work_le u w"
  by (auto simp: work_le_def)

lemma attempt_le_refl [simp]: "attempt_le a a"
  by (simp add: attempt_le_def)

lemma attempt_le_trans: "attempt_le a b \<Longrightarrow> attempt_le b c \<Longrightarrow> attempt_le a c"
  by (auto simp: attempt_le_def attempt_active_def)

lemma batch_le_refl [simp]: "batch_le b b"
  by (simp add: batch_le_def)

lemma batch_le_trans: "batch_le a b \<Longrightarrow> batch_le b c \<Longrightarrow> batch_le a c"
  by (auto simp: batch_le_def)

lemma history_refl [simp]: "history_db d d"
  by (simp add: history_db_def rows_le_refl)

lemma history_trans: "history_db d d1 \<Longrightarrow> history_db d1 d2 \<Longrightarrow> history_db d d2"
  unfolding history_db_def
  by (blast intro: rows_le_trans [of work_le] rows_le_trans [of batch_le] rows_le_trans [of attempt_le]
      rows_le_trans [of "(=)"] work_le_trans batch_le_trans attempt_le_trans trans)

definition publication_step :: "db \<Rightarrow> db \<Rightarrow> attempt_row \<Rightarrow> work_row \<Rightarrow> bool" where
  "publication_step d d' a' w' \<longleftrightarrow>
     (w_committed_attempt_id w' = None \<and> db_publications d' = db_publications d
        \<and> db_last_publication d' = db_last_publication d)
     \<or> (\<exists>p. db_publications d' = db_publications d @ [p] \<and> publication_link p a' w'
          \<and> p_publication_sequence p = db_last_publication d + 1
          \<and> db_last_publication d' = db_last_publication d + 1
          \<and> p_work_id p \<notin> p_work_id ` set (db_publications d)
          \<and> p_attempt_id p \<notin> p_attempt_id ` set (db_publications d))"

definition output_step :: "db \<Rightarrow> db \<Rightarrow> attempt_row \<Rightarrow> bool" where
  "output_step d d' a \<longleftrightarrow> distinct (map output_identity (db_outputs d'))
     \<and> (\<exists>os. db_outputs d' = db_outputs d @ os
          \<and> (\<forall>r \<in> set os. o_attempt_id r = a_attempt_id a \<and> o_work_id r = a_work_id a))"

definition attempt_step ::
    "string set \<Rightarrow> db \<Rightarrow> db \<Rightarrow> attempt_row \<Rightarrow> attempt_row \<Rightarrow> work_row \<Rightarrow> work_row \<Rightarrow> bool" where
  "attempt_step X d d' a a' w w' \<longleftrightarrow> w_work_id w = a_work_id a \<and> attempt_active a
     \<and> replaces work_sig w w' (db_work d) (db_work d')
     \<and> replaces attempt_sig a a' (db_attempts d) (db_attempts d')
     \<and> db_batches d' = db_batches d \<and> db_members d' = db_members d \<and> db_replays d' = db_replays d
     \<and> work_le w w' \<and> attempt_le a a'
     \<and> work_ok w' \<and> (\<forall>b. link_ok X a w b \<longrightarrow> link_ok X a' w' b)
     \<and> (w_status w' = W_LEASED \<longrightarrow> attempt_active a') \<and> a_status a' \<noteq> A_LEASED
     \<and> publication_step d d' a' w' \<and> output_step d d' a"

lemma attempt_stepD:
  assumes "attempt_step X d d' a a' w w'"
  shows "w_work_id w = a_work_id a" "attempt_active a"
    "a \<in> set (db_attempts d)" "w \<in> set (db_work d)"
    "set (db_work d') = insert w' (set (db_work d) - {w})"
    "set (db_attempts d') = insert a' (set (db_attempts d) - {a})"
    "db_batches d' = db_batches d" "work_ok w'" "w_work_id w' = w_work_id w"
    "w_fence w' = w_fence w" "w_payload_sha256 w' = w_payload_sha256 w"
    "link_ok X a w b \<Longrightarrow> link_ok X a' w' b" "w_status w' = W_LEASED \<Longrightarrow> attempt_active a'"
    "a_attempt_id a' = a_attempt_id a" "a_work_id a' = a_work_id a" "a_status a' \<noteq> A_LEASED"
    "publication_step d d' a' w'" "output_step d d' a"
    "map work_sig (db_work d') = map work_sig (db_work d)"
    "map attempt_sig (db_attempts d') = map attempt_sig (db_attempts d)"
    "db_members d' = db_members d" "db_replays d' = db_replays d"
    "a_batch_id a' = a_batch_id a"
  using assms replacesD [of work_sig w w' "db_work d" "db_work d'"]
    replacesD [of attempt_sig a a' "db_attempts d" "db_attempts d'"]
  by (auto simp: attempt_step_def replaces_def work_sig_def attempt_sig_def)

lemma replaces_rows_le:
  assumes "replaces k r r' t t'" "R r r'" "\<And>x. R x x"
  shows "rows_le R t t'"
  using assms by (auto simp: replaces_def list_all2_map2 intro!: rows_le_all2 list.rel_refl_strong)

lemma step_history:
  assumes "attempt_step X d d' a a' w w'"
  shows "history_db d d'"
proof -
  have "rows_le work_le (db_work d) (db_work d')"
    by (rule replaces_rows_le) (use assms in \<open>auto simp: attempt_step_def\<close>)
  moreover have "rows_le attempt_le (db_attempts d) (db_attempts d')"
    by (rule replaces_rows_le) (use assms in \<open>auto simp: attempt_step_def\<close>)
  ultimately show ?thesis
    using assms
    by (auto simp: history_db_def attempt_step_def publication_step_def output_step_def rows_le_refl
        rows_le_eq_prefix)
qed

lemma sig_map:
  assumes "map attempt_sig t = map attempt_sig t'" and "\<And>a. k a = g (attempt_sig a)"
  shows "map k t = map k t'"
proof -
  have "map k t = map g (map attempt_sig t)" "map k t' = map g (map attempt_sig t')"
    using assms(2) by simp_all
  with assms(1) show ?thesis by simp
qed

lemma work_sig_map:
  assumes "map work_sig t = map work_sig t'" and "\<And>a. k a = g (work_sig a)"
  shows "map k t = map k t'"
proof -
  have "map k t = map g (map work_sig t)" "map k t' = map g (map work_sig t')"
    using assms(2) by simp_all
  with assms(1) show ?thesis by simp
qed

lemma work_sig_ids: "map work_sig t = map work_sig t' \<Longrightarrow> map w_work_id t = map w_work_id t'"
  by (rule work_sig_map [where g = fst]) (simp_all add: work_sig_def)

lemma attempt_sig_keys:
  assumes "map attempt_sig t = map attempt_sig t'"
  shows "map a_attempt_id t = map a_attempt_id t'"
    "map (\<lambda>a. (a_work_id a, a_fence a)) t = map (\<lambda>a. (a_work_id a, a_fence a)) t'"
proof -
  show "map a_attempt_id t = map a_attempt_id t'"
    by (rule sig_map [OF assms, where g = fst]) (simp add: attempt_sig_def)
  show "map (\<lambda>a. (a_work_id a, a_fence a)) t = map (\<lambda>a. (a_work_id a, a_fence a)) t'"
    by (rule sig_map [OF assms, where g = "\<lambda>(i, v, b, f, p). (v, f)"]) (simp add: attempt_sig_def)
qed

lemma step_leased:
  assumes "core_ok X d" "attempt_step X d d' a a' w w'"
  shows "w_status w = W_LEASED" "w_committed_attempt_id w = None"
proof -
  note s = attempt_stepD [OF assms(2)]
  obtain b where "link_ok X a w b" using link_of_work [OF assms(1) s(3,4,1)] .
  then show "w_status w = W_LEASED" using s(2) by (simp add: link_ok_def holds_fence_def)
  then show "w_committed_attempt_id w = None"
    using core_okD(2) [OF assms(1) s(4)] by (auto simp: work_ok_def)
qed

lemma step_attempts:
  assumes core: "core_ok X d" and step: "attempt_step X d d' a a' w w'"
  shows "attempts_ok X d'"
  unfolding attempts_ok_def attempt_stepD(5-7) [OF step]
proof
  note s = attempt_stepD [OF step]
  fix x
  assume x: "x \<in> insert a' (set (db_attempts d) - {a})"
  show "\<exists>v \<in> insert w' (set (db_work d) - {w}). \<exists>b \<in> set (db_batches d). link_ok X x v b"
  proof (cases "x = a'")
    case True
    obtain b where "b \<in> set (db_batches d)" "link_ok X a w b"
      using link_of_work [OF core s(3,4,1)] .
    with s(12) True show ?thesis by blast
  next
    case False
    with x have x': "x \<in> set (db_attempts d)" "x \<noteq> a" by auto
    obtain v b where v: "v \<in> set (db_work d)" "b \<in> set (db_batches d)" "link_ok X x v b"
      using attempt_linkE [OF core x'(1)] .
    show ?thesis
    proof (cases "v = w")
      case False
      with v show ?thesis by blast
    next
      case True
      with v have "a_work_id x = w_work_id w" by (simp add: link_ok_def)
      then have "link_ok X x w' b"
        using other_attempts_idle [OF core s(3,4,1,2) x'] v(3) True s(9-11)
        by (auto intro: link_ok_idle [where w = w])
      with v(2) show ?thesis by blast
    qed
  qed
qed

lemma step_leases:
  assumes core: "core_ok X d" and step: "attempt_step X d d' a a' w w'"
  shows "leases_ok d'"
  unfolding leases_ok_def attempt_stepD(5,6) [OF step]
proof (intro ballI impI)
  note s = attempt_stepD [OF step]
  fix v
  assume v: "v \<in> insert w' (set (db_work d) - {w})" "w_status v = W_LEASED"
  show "\<exists>x \<in> insert a' (set (db_attempts d) - {a}). a_work_id x = w_work_id v \<and> attempt_active x"
  proof (cases "v = w'")
    case True
    with v s(1,9,13,15) show ?thesis by auto
  next
    case False
    with v have v': "v \<in> set (db_work d)" "v \<noteq> w" by auto
    then obtain x where x: "x \<in> set (db_attempts d)" "a_work_id x = w_work_id v" "attempt_active x"
      using core_okD(4) [OF core] v(2) unfolding leases_ok_def by blast
    have "x \<noteq> a" using x(2) v' work_key [OF core_okD(1) [OF core] v'(1) s(4)] s(1) by auto
    with x show ?thesis by blast
  qed
qed

lemma step_publications:
  assumes core: "core_ok X d" and step: "attempt_step X d d' a a' w w'"
  shows "publications_ok d'"
  unfolding publications_ok_def
proof (intro conjI ballI impI)
  note s = attempt_stepD [OF step]
  have sub: "set (db_publications d) \<subseteq> set (db_publications d')"
    "db_last_publication d \<le> db_last_publication d'"
    using s(17) by (auto simp: publication_step_def)
  fix p
  assume p: "p \<in> set (db_publications d')"
  have old: "p_publication_sequence p \<le> db_last_publication d' \<and>
      (\<exists>x \<in> set (db_attempts d). \<exists>v \<in> set (db_work d). publication_link p x v)"
    if "p \<in> set (db_publications d)"
    using that core_okD(5) [OF core] sub unfolding publications_ok_def by force
  have new: "p_publication_sequence p \<le> db_last_publication d' \<and> publication_link p a' w'"
    if "p \<notin> set (db_publications d)"
    using s(17) p that by (auto simp: publication_step_def)
  show "p_publication_sequence p \<le> db_last_publication d'" using old new by blast
  show "\<exists>x \<in> set (db_attempts d'). \<exists>v \<in> set (db_work d'). publication_link p x v"
  proof (cases "p \<in> set (db_publications d)")
    case False
    then show ?thesis using new s(5,6) by blast
  next
    case True
    with old obtain x v where xv: "x \<in> set (db_attempts d)" "v \<in> set (db_work d)"
      "publication_link p x v" by blast
    have "x \<noteq> a" using xv(3) s(2) by (auto simp: publication_link_def attempt_active_def)
    moreover have "v \<noteq> w" using xv(3) step_leased [OF core step] by (auto simp: publication_link_def)
    ultimately show ?thesis using xv s(5,6) by blast
  qed
next
  note s = attempt_stepD [OF step]
  fix v
  assume v: "v \<in> set (db_work d')" "w_committed_attempt_id v \<noteq> None"
  show "\<exists>p \<in> set (db_publications d'). p_work_id p = w_work_id v"
  proof (cases "v = w'")
    case True
    with v(2) s(17) show ?thesis by (auto simp: publication_step_def publication_link_def)
  next
    case False
    with v(1) s(5) have "v \<in> set (db_work d)" by simp
    with v(2) core_okD(5) [OF core] s(17) show ?thesis
      unfolding publications_ok_def publication_step_def by fastforce
  qed
qed

lemma step_outputs:
  assumes core: "core_ok X d" and step: "attempt_step X d d' a a' w w'"
  shows "outputs_ok d'"
  unfolding outputs_ok_def attempt_stepD(6) [OF step]
proof
  note s = attempt_stepD [OF step]
  fix r
  assume r: "r \<in> set (db_outputs d')"
  show "\<exists>x \<in> insert a' (set (db_attempts d) - {a}).
      a_attempt_id x = o_attempt_id r \<and> a_work_id x = o_work_id r \<and> a_status x \<noteq> A_LEASED"
  proof (cases "r \<in> set (db_outputs d)")
    case False
    then show ?thesis using r s(14-16,18) by (auto simp: output_step_def)
  next
    case True
    then obtain x where "x \<in> set (db_attempts d)" "a_attempt_id x = o_attempt_id r"
      "a_work_id x = o_work_id r" "a_status x \<noteq> A_LEASED"
      using core_okD(6) [OF core] unfolding outputs_ok_def by blast
    then show ?thesis using s(14-16) by (cases "x = a") auto
  qed
qed

lemma step_keys:
  assumes core: "core_ok X d" and step: "attempt_step X d d' a a' w w'"
  shows "keys_ok d'"
proof -
  note s = attempt_stepD [OF step]
  have k: "keys_ok d" using core_okD(1) [OF core] .
  have "db_last_publication d + 1 \<notin> p_publication_sequence ` set (db_publications d)"
    using core_okD(5) [OF core] unfolding publications_ok_def by fastforce
  then have "distinct (map p_work_id (db_publications d'))" "distinct (map p_attempt_id (db_publications d'))"
    "distinct (map p_publication_sequence (db_publications d'))"
    using s(17) k by (auto simp: publication_step_def keys_ok_def)
  with s(7,18) k show ?thesis
    by (simp add: keys_ok_def output_step_def work_sig_ids [OF s(19)] attempt_sig_keys [OF s(20)])
qed

lemma step_core:
  assumes core: "core_ok X d" and step: "attempt_step X d d' a a' w w'"
  shows "core_ok X d'"
proof -
  have "work_ok v" if "v \<in> set (db_work d')" for v
    using that attempt_stepD(5,8) [OF step] core_okD(2) [OF core, of v] by auto
  then show ?thesis
    unfolding core_ok_def
    using step_keys [OF assms] step_attempts [OF assms] step_leases [OF assms]
      step_publications [OF assms] step_outputs [OF assms] by blast
qed

end
