(* ===== verification/Control_Process_Inv.thy ===== *)
theory Control_Process_Inv
  imports Control_Inv
begin

text \<open>
  Sealing, committing and recovering are loops whose body moves one active attempt and its work.
  The locale \<open>attempt_loop\<close> states what such a body promises and proves once what the loop does;
  it is interpreted on the bodies of \<open>seal_batch\<close>, \<open>commit_batch\<close> and \<open>recover\<close>.
\<close>

section \<open>The contract of a loop body\<close>

definition loop_effect :: "string set \<Rightarrow> (attempt_status \<Rightarrow> bool) \<Rightarrow> db \<Rightarrow> db \<Rightarrow> bool" where
  "loop_effect T final d d' \<longleftrightarrow> db_batches d' = db_batches d \<and> db_members d' = db_members d
     \<and> db_replays d' = db_replays d
     \<and> map work_sig (db_work d') = map work_sig (db_work d)
     \<and> map attempt_sig (db_attempts d') = map attempt_sig (db_attempts d)
     \<and> (\<forall>a \<in> set (db_attempts d'). if a_attempt_id a \<in> T then final (a_status a)
          else a \<in> set (db_attempts d))
     \<and> (\<forall>w \<in> set (db_work d). w_status w \<noteq> W_LEASED \<longrightarrow> w \<in> set (db_work d'))
     \<and> history_db d d'"

lemma step_effect:
  assumes core: "core_ok X d" and step: "attempt_step X d d' a a' w w'" and final: "final (a_status a')"
  shows "loop_effect {a_attempt_id a} final d d'"
proof -
  note s = attempt_stepD [OF step]
  have "x \<in> set (db_attempts d) \<and> a_attempt_id x \<noteq> a_attempt_id a"
    if "x \<in> set (db_attempts d')" "x \<noteq> a'" for x
    using that s(3,6) attempt_key [OF core_okD(1) [OF core]] by blast
  then have "\<forall>x \<in> set (db_attempts d'). if a_attempt_id x \<in> {a_attempt_id a} then final (a_status x)
      else x \<in> set (db_attempts d)"
    using s(14) final by auto
  moreover have "\<forall>v \<in> set (db_work d). w_status v \<noteq> W_LEASED \<longrightarrow> v \<in> set (db_work d')"
    using s(5) step_leased [OF core step] by auto
  ultimately show ?thesis
    unfolding loop_effect_def using s(7,19-22) step_history [OF step] by blast
qed

lemma loop_effect_trans:
  assumes "loop_effect S final d d1" "loop_effect T final d1 d2" "S \<inter> T = {}"
  shows "loop_effect (S \<union> T) final d d2"
  using assms history_trans [of d d1 d2] unfolding loop_effect_def by (auto split: if_splits)

locale attempt_loop =
  fixes X :: "string set" and step :: "'x \<Rightarrow> db \<Rightarrow> db res" and target :: "'x \<Rightarrow> string"
    and final :: "attempt_status \<Rightarrow> bool" and current :: "'x \<Rightarrow> db \<Rightarrow> bool"
  assumes step_ok: "core_ok X d \<Longrightarrow> current x d \<Longrightarrow> step x d = Inr d' \<Longrightarrow>
      \<exists>a a' w w'. attempt_step X d d' a a' w w' \<and> a_attempt_id a = target x \<and> final (a_status a')"
    and keep: "core_ok X d \<Longrightarrow> current y d \<Longrightarrow> attempt_step X d d' a a' w w' \<Longrightarrow>
      a_attempt_id a \<noteq> target y \<Longrightarrow> current y d'"
begin

lemma loop:
  assumes "core_ok X d" "distinct (map target xs)" "\<forall>x \<in> set xs. current x d"
    "foldE step xs d = Inr d'"
  shows "core_ok X d' \<and> loop_effect (target ` set xs) final d d'"
  using assms
proof (induction xs arbitrary: d)
  case Nil
  then show ?case by (auto simp: loop_effect_def)
next
  case (Cons x xs)
  from Cons.prems(4) obtain d1 where d1: "step x d = Inr d1" "foldE step xs d1 = Inr d'" by auto
  obtain a a' w w' where s: "attempt_step X d d1 a a' w w'" "a_attempt_id a = target x"
    "final (a_status a')"
    using step_ok [OF Cons.prems(1) _ d1(1)] Cons.prems(3) by auto
  have "\<forall>y \<in> set xs. current y d1"
    using keep [OF Cons.prems(1) _ s(1)] Cons.prems(2,3) s(2) by force
  then have "core_ok X d' \<and> loop_effect (target ` set xs) final d1 d'"
    using Cons.IH [OF step_core [OF Cons.prems(1) s(1)] _ _ d1(2)] Cons.prems(2) by simp
  moreover have "loop_effect {target x} final d d1"
    using step_effect [OF Cons.prems(1) s(1), of final] s(2,3) by simp
  moreover have "{target x} \<inter> target ` set xs = {}" using Cons.prems(2) by auto
  ultimately show ?case using loop_effect_trans [of "{target x}" final d d1 "target ` set xs" d'] by simp
qed

end

section \<open>Sealing one attempt\<close>

lemma insert_outputs:
  assumes "foldE (insert_output item now) rs d = Inr d'"
  shows "\<exists>os n. d' = d\<lparr>db_outputs := db_outputs d @ os, db_last_output := n\<rparr> \<and>
    (\<forall>r \<in> set os. o_attempt_id r = oi_attempt_id item \<and> o_work_id r = oi_work_id item) \<and>
    (distinct (map output_identity (db_outputs d)) \<longrightarrow>
       distinct (map output_identity (db_outputs d @ os)))"
  using assms
proof (induction rs arbitrary: d)
  case Nil
  then have "d' = d\<lparr>db_outputs := db_outputs d @ [], db_last_output := db_last_output d\<rparr>" by simp
  then show ?case by (intro exI [of _ "[]"] exI [of _ "db_last_output d"]) simp
next
  case (Cons r rs)
  then obtain d1 where d1: "insert_output item now r d = Inr d1"
    "foldE (insert_output item now) rs d1 = Inr d'" by auto
  obtain o1 n1 where o1: "d1 = d\<lparr>db_outputs := db_outputs d @ [o1], db_last_output := n1\<rparr>"
    "o_attempt_id o1 = oi_attempt_id item" "o_work_id o1 = oi_work_id item"
    "output_identity o1 \<notin> output_identity ` set (db_outputs d)"
    using d1(1) by (auto simp: insert_output_def Let_def)
  from Cons.IH [OF d1(2)] obtain os n where "d' = d1\<lparr>db_outputs := db_outputs d1 @ os, db_last_output := n\<rparr>"
    "\<forall>r \<in> set os. o_attempt_id r = oi_attempt_id item \<and> o_work_id r = oi_work_id item"
    "distinct (map output_identity (db_outputs d1)) \<longrightarrow> distinct (map output_identity (db_outputs d1 @ os))"
    by blast
  with o1 show ?case by (intro exI [of _ "o1 # os"] exI [of _ n]) auto
qed

lemma attempt_with_work_SomeD:
  assumes "attempt_with_work d i = Some (a, w)"
  shows "a \<in> set (db_attempts d)" "a_attempt_id a = i" "w \<in> set (db_work d)" "w_work_id w = a_work_id a"
proof -
  have "(a, w) \<in> set (inner_join (\<lambda>a w. w_work_id w = a_work_id a)
      (filter (\<lambda>a. a_attempt_id a = i) (db_attempts d)) (db_work d))"
    using assms unfolding attempt_with_work_def by (auto split: list.splits)
  then show "a \<in> set (db_attempts d)" "a_attempt_id a = i" "w \<in> set (db_work d)" "w_work_id w = a_work_id a"
    by (auto simp: set_inner_join)
qed

text \<open>The item names the attempt's own work: the identity set was compared with the members.\<close>

definition seal_current :: "output_item \<Rightarrow> db \<Rightarrow> bool" where
  "seal_current item d \<longleftrightarrow> (\<forall>a \<in> set (db_attempts d). a_attempt_id a = oi_attempt_id item \<longrightarrow>
     a_work_id a = oi_work_id item)"

lemma seal_item_step:
  assumes core: "core_ok {batch_id} d" and cur: "seal_current item d"
    and seal: "seal_item batch_id now item d = Inr d'"
  shows "\<exists>a w. attempt_step {batch_id} d d' a (seal_attempt item now a) w w
    \<and> a_attempt_id a = oi_attempt_id item"
proof -
  obtain a w where aw: "attempt_with_work d (oi_attempt_id item) = Some (a, w)"
    "a_batch_id a = batch_id" "a_status a = A_LEASED"
    using seal unfolding seal_item_def by (auto split: option.splits)
  note m = attempt_with_work_SomeD [OF aw(1)]
  let ?p = "\<lambda>x. a_attempt_id x = oi_attempt_id item \<and> a_status x = A_LEASED"
  let ?at = "update_where ?p (seal_attempt item now) (db_attempts d)"
  obtain os n where d': "d' = d\<lparr>db_attempts := ?at, db_outputs := db_outputs d @ os, db_last_output := n\<rparr>"
    and os: "\<forall>r \<in> set os. o_attempt_id r = oi_attempt_id item \<and> o_work_id r = oi_work_id item"
      "distinct (map output_identity (db_outputs d)) \<longrightarrow> distinct (map output_identity (db_outputs d @ os))"
    using seal insert_outputs [of item now "oi_records item"] unfolding seal_item_def by fastforce
  have rep: "replaces attempt_sig a (seal_attempt item now a) (db_attempts d) ?at"
    by (rule replaces_update_where [where k = a_attempt_id])
      (use m aw(3) core_okD(1) [OF core] in \<open>auto simp: keys_okD attempt_sig_def seal_attempt_def\<close>)
  have wk: "work_ok w" using core_okD(2) [OF core m(3)] .
  obtain b where b: "link_ok {batch_id} a w b" using link_of_work [OF core m(1,3,4)] .
  have "w_status w = W_LEASED" using b aw(3) by (simp add: link_ok_def holds_fence_def attempt_active_def)
  with wk have none: "w_committed_attempt_id w = None" by (auto simp: work_ok_def)
  have "output_step d d' a"
    using os m(1,2) cur core_okD(1) [OF core] d'
    by (auto simp: output_step_def keys_ok_def seal_current_def)
  moreover have "publication_step d d' (seal_attempt item now a) w"
    using none d' by (simp add: publication_step_def)
  moreover have "link_ok {batch_id} a w b' \<longrightarrow> link_ok {batch_id} (seal_attempt item now a) w b'" for b'
    using aw(2,3) by (auto simp: link_ok_def seal_attempt_def attempt_active_def holds_fence_def)
  moreover have "attempt_le a (seal_attempt item now a)"
    using aw(3) by (simp add: attempt_le_def attempt_sig_def seal_attempt_def attempt_active_def)
  ultimately have "attempt_step {batch_id} d d' a (seal_attempt item now a) w w"
    using rep m wk aw d'
    by (simp add: attempt_step_def replaces_refl attempt_active_def seal_attempt_def work_le_def)
  with m(2) show ?thesis by blast
qed

lemma seal_current_keep:
  assumes "seal_current item d" "attempt_step X d d' a a' w w'"
  shows "seal_current item d'"
proof -
  note s = attempt_stepD [OF assms(2)]
  show ?thesis using assms(1) s(3,6,14,15) by (auto simp: seal_current_def)
qed

interpretation seal: attempt_loop "{batch_id}" "seal_item batch_id now" oi_attempt_id
  "\<lambda>st. st = A_SEALED" seal_current for batch_id now
proof
  fix d x d'
  assume "core_ok {batch_id} d" "seal_current x d" "seal_item batch_id now x d = Inr d'"
  from seal_item_step [OF this] obtain a w where
    "attempt_step {batch_id} d d' a (seal_attempt x now a) w w" "a_attempt_id a = oi_attempt_id x"
    by blast
  moreover have "a_status (seal_attempt x now a) = A_SEALED" by (simp add: seal_attempt_def)
  ultimately show "\<exists>a a' w w'. attempt_step {batch_id} d d' a a' w w' \<and>
      a_attempt_id a = oi_attempt_id x \<and> a_status a' = A_SEALED" by blast
qed (rule seal_current_keep)

section \<open>Committing one attempt\<close>

definition commit_step :: "string \<Rightarrow> pyfloat \<Rightarrow> attempt_row \<times> work_row \<Rightarrow> db \<Rightarrow> db res" where
  "commit_step batch_id now r d = bindE (commit_attempt batch_id now r d) (\<lambda>(d1, n). Inr d1)"

lemma commit_loop_foldE:
  "commit_loop batch_id now rs d = Inr (d', ns) \<Longrightarrow> foldE (commit_step batch_id now) rs d = Inr d'"
  by (induction rs arbitrary: d ns) (auto simp: commit_step_def)

definition commit_current :: "string \<Rightarrow> attempt_row \<times> work_row \<Rightarrow> db \<Rightarrow> bool" where
  "commit_current batch_id r d \<longleftrightarrow> fst r \<in> set (db_attempts d) \<and> snd r \<in> set (db_work d)
     \<and> w_work_id (snd r) = a_work_id (fst r) \<and> attempt_active (fst r) \<and> a_batch_id (fst r) = batch_id"

lemma set_attempt_status_replaces:
  assumes "keys_ok d" "a \<in> set (db_attempts d)"
  shows "replaces attempt_sig a (a\<lparr>a_status := st\<rparr>) (db_attempts d)
    (set_attempt_status (a_attempt_id a) st (db_attempts d))"
  unfolding set_attempt_status_def
  by (rule replaces_update_where [where k = a_attempt_id])
    (use assms keys_okD(3) [OF assms(1)] in \<open>auto simp: attempt_sig_def\<close>)

lemma fenced_replaces:
  assumes "keys_ok d" "w \<in> set (db_work d)" "work_fenced_by (w_work_id w) i n w" "work_sig (f w) = work_sig w"
  shows "replaces work_sig w (f w) (db_work d) (update_where (work_fenced_by (w_work_id w) i n) f (db_work d))"
  by (rule replaces_update_where [where k = w_work_id])
    (use assms keys_okD(1) [OF assms(1)] in \<open>auto simp: work_fenced_by_def\<close>)

lemma active_row:
  assumes "core_ok X d" "a \<in> set (db_attempts d)" "w \<in> set (db_work d)" "w_work_id w = a_work_id a"
    "attempt_active a"
  shows "holds_fence a w" "work_ok w" "work_fenced_by (w_work_id w) (a_attempt_id a) (a_fence a) w"
proof -
  obtain b where "link_ok X a w b" using link_of_work [OF assms(1-4)] .
  then show "holds_fence a w" using assms(5) by (simp add: link_ok_def)
  then show "work_fenced_by (w_work_id w) (a_attempt_id a) (a_fence a) w"
    by (simp add: holds_fence_def work_fenced_by_def)
  show "work_ok w" by (rule core_okD(2) [OF assms(1,3)])
qed

lemma work_ok_release:
  assumes "work_ok w" "w_status w = W_LEASED"
  shows "work_ok (release_work (retry_outcome w) now message w)"
  using assms by (auto simp: work_ok_def release_work_def retry_outcome_def)

lemma release_work_sig [simp]: "work_sig (release_work outcome now message w) = work_sig w"
  by (simp add: release_work_def work_sig_def)

lemma publish_work_sig [simp]: "work_sig (publish_work i n now w) = work_sig w"
  by (simp add: publish_work_def work_sig_def)

lemma release_work_le: "w_status w = W_LEASED \<Longrightarrow> work_le w (release_work outcome now message w)"
  by (simp add: work_le_def work_registered_def release_work_def)

lemma publish_work_le: "w_status w = W_LEASED \<Longrightarrow> work_le w (publish_work i n now w)"
  by (simp add: work_le_def work_registered_def publish_work_def)

lemma attempt_status_le: "attempt_active a \<Longrightarrow> st \<noteq> A_LEASED \<Longrightarrow> attempt_le a (a\<lparr>a_status := st\<rparr>)"
  by (simp add: attempt_le_def attempt_sig_def)

lemma link_ok_released:
  assumes "link_ok X a w b" "attempt_sig a' = attempt_sig a" "work_sig w' = work_sig w"
    "a_batch_id a \<in> X" "\<not> attempt_active a'" "a_status a' \<noteq> A_SUCCEEDED"
    "a_status a' = A_FAILED \<Longrightarrow> a_output_path a' \<noteq> None \<and> a_output_sha256 a' \<noteq> None"
  shows "link_ok X a' w' b"
  using assms by (auto simp: link_ok_def attempt_sig_def work_sig_def attempt_active_def)

lemma commit_failed_step:
  assumes core: "core_ok {batch_id} d" and cur: "commit_current batch_id (a, w) d"
    and out: "a_output_path a \<noteq> None" "a_output_sha256 a \<noteq> None"
    and eq: "commit_failed_attempt a w now d = Inr d'"
  shows "attempt_step {batch_id} d d' a (a\<lparr>a_status := A_FAILED\<rparr>) w
    (release_work (retry_outcome w) now ''processing failed'' w)"
proof -
  let ?w = "release_work (retry_outcome w) now ''processing failed'' w"
  have c: "a \<in> set (db_attempts d)" "w \<in> set (db_work d)" "w_work_id w = a_work_id a" "attempt_active a"
    "a_batch_id a = batch_id"
    using cur by (simp_all add: commit_current_def)
  note r = active_row [OF core c(1-4)]
  have d': "d' = d\<lparr>db_work := update_where (work_fenced_by (w_work_id w) (a_attempt_id a) (a_fence a))
      (release_work (retry_outcome w) now ''processing failed'') (db_work d),
      db_attempts := set_attempt_status (a_attempt_id a) A_FAILED (db_attempts d)\<rparr>"
    using eq c(3) by (simp add: commit_failed_attempt_def Let_def)
  have l: "w_status w = W_LEASED" using r(1) by (simp add: holds_fence_def)
  have "link_ok {batch_id} a w b \<longrightarrow> link_ok {batch_id} (a\<lparr>a_status := A_FAILED\<rparr>) ?w b" for b
    using link_ok_released [of "{batch_id}" a w b] out c(5)
    by (simp add: attempt_sig_def attempt_active_def)
  moreover have "w_committed_attempt_id ?w = None" "w_status ?w \<noteq> W_LEASED"
    using r(2) l by (auto simp: release_work_def work_ok_def retry_outcome_def)
  ultimately show ?thesis
    unfolding attempt_step_def
    using c r l d' core_okD(1) [OF core] fenced_replaces [OF _ c(2) r(3)] set_attempt_status_replaces [OF _ c(1)]
      work_ok_release [OF r(2) l] release_work_le [OF l] attempt_status_le [OF c(4)]
    by (simp add: publication_step_def output_step_def keys_okD)
qed

lemma publish_step:
  assumes core: "core_ok {batch_id} d" and cur: "commit_current batch_id (a, w) d"
    and out: "a_output_path a = Some path" "a_output_sha256 a = Some digest"
    and eq: "publish_attempt batch_id a path digest now d = Inr (d', n)"
  shows "attempt_step {batch_id} d d' a (a\<lparr>a_status := A_SUCCEEDED\<rparr>) w (publish_work (a_attempt_id a) n now w)"
    "n = db_last_publication d + 1"
proof -
  show n: "n = db_last_publication d + 1" using eq by (auto simp: publish_attempt_def Let_def)
  let ?w = "publish_work (a_attempt_id a) n now w"
  let ?p = "\<lparr>p_publication_sequence = n, p_work_id = a_work_id a, p_attempt_id = a_attempt_id a,
     p_batch_id = batch_id, p_output_path = path, p_output_sha256 = digest, p_published_at = now\<rparr>"
  have c: "a \<in> set (db_attempts d)" "w \<in> set (db_work d)" "w_work_id w = a_work_id a" "attempt_active a"
    "a_batch_id a = batch_id"
    using cur by (simp_all add: commit_current_def)
  note r = active_row [OF core c(1-4)]
  have d': "d' = d\<lparr>db_publications := db_publications d @ [?p], db_last_publication := n,
      db_work := update_where (work_fenced_by (w_work_id w) (a_attempt_id a) (a_fence a))
        (publish_work (a_attempt_id a) n now) (db_work d),
      db_attempts := set_attempt_status (a_attempt_id a) A_SUCCEEDED (db_attempts d)\<rparr>"
    and fresh: "a_work_id a \<notin> p_work_id ` set (db_publications d)"
      "a_attempt_id a \<notin> p_attempt_id ` set (db_publications d)"
    using eq c(3) n by (auto simp: publish_attempt_def insert_publication_def Let_def)
  have l: "w_status w = W_LEASED" using r(1) by (simp add: holds_fence_def)
  have "work_ok ?w" using r(2) l by (auto simp: work_ok_def publish_work_def)
  moreover have "link_ok {batch_id} a w b \<longrightarrow> link_ok {batch_id} (a\<lparr>a_status := A_SUCCEEDED\<rparr>) ?w b" for b
    using out c(5) by (auto simp: link_ok_def publish_work_def attempt_active_def)
  moreover have "publication_step d d' (a\<lparr>a_status := A_SUCCEEDED\<rparr>) ?w"
    using d' fresh n out c(3,5) by (simp add: publication_step_def publication_link_def publish_work_def)
  moreover have "replaces work_sig w ?w (db_work d) (db_work d')"
    using fenced_replaces [OF core_okD(1) [OF core] c(2) r(3), of "publish_work (a_attempt_id a) n now"] d'
    by simp
  moreover have "replaces attempt_sig a (a\<lparr>a_status := A_SUCCEEDED\<rparr>) (db_attempts d) (db_attempts d')"
    using set_attempt_status_replaces [OF core_okD(1) [OF core] c(1)] d' by simp
  moreover have "w_status ?w \<noteq> W_LEASED" by (simp add: publish_work_def)
  ultimately show "attempt_step {batch_id} d d' a (a\<lparr>a_status := A_SUCCEEDED\<rparr>) w ?w"
    unfolding attempt_step_def
    using c d' core_okD(1) [OF core] publish_work_le [OF l] attempt_status_le [OF c(4)]
    by (simp add: output_step_def keys_okD)
qed

lemma commit_step_ok:
  assumes core: "core_ok {batch_id} d" and cur: "commit_current batch_id r d"
    and eq: "commit_step batch_id now r d = Inr d'"
  shows "\<exists>a a' w w'. attempt_step {batch_id} d d' a a' w w' \<and> a_attempt_id a = a_attempt_id (fst r)
    \<and> (a_status a' = A_SUCCEEDED \<or> a_status a' = A_FAILED)"
proof -
  obtain a w where r: "r = (a, w)" by (cases r)
  obtain path digest where out: "a_output_path a = Some path" "a_output_sha256 a = Some digest"
    using eq r by (auto simp: commit_step_def commit_attempt_def split: option.splits)
  show ?thesis
  proof (cases "a_terminal_succeeded a = Some True")
    case True
    then obtain n where "publish_attempt batch_id a path digest now d = Inr (d', n)"
      using eq r out by (auto simp: commit_step_def commit_attempt_def split: if_splits)
    then have "attempt_step {batch_id} d d' a (a\<lparr>a_status := A_SUCCEEDED\<rparr>) w
        (publish_work (a_attempt_id a) n now w)"
      using publish_step(1) [OF core] cur r out by blast
    then show ?thesis using r by (intro exI conjI) auto
  next
    case False
    then have "commit_failed_attempt a w now d = Inr d'"
      using eq r out by (auto simp: commit_step_def commit_attempt_def split: if_splits)
    then have "attempt_step {batch_id} d d' a (a\<lparr>a_status := A_FAILED\<rparr>) w
        (release_work (retry_outcome w) now ''processing failed'' w)"
      using commit_failed_step [OF core] cur r out by blast
    then show ?thesis using r by (intro exI conjI) auto
  qed
qed

lemma commit_current_keep:
  assumes core: "core_ok X d" and cur: "commit_current batch_id r d"
    and step: "attempt_step X d d' a a' w w'" and ne: "a_attempt_id a \<noteq> a_attempt_id (fst r)"
  shows "commit_current batch_id r d'"
proof -
  note s = attempt_stepD [OF step]
  have c: "fst r \<in> set (db_attempts d)" "snd r \<in> set (db_work d)" "w_work_id (snd r) = a_work_id (fst r)"
    "attempt_active (fst r)"
    using cur by (simp_all add: commit_current_def)
  have "snd r \<noteq> w"
  proof
    assume "snd r = w"
    then have "a_work_id (fst r) = a_work_id a" using c(3) s(1) by simp
    then have "fst r = a" by (rule active_unique [OF core c(1) s(3) c(4) s(2)])
    with ne show False by simp
  qed
  moreover have "fst r \<noteq> a" using ne by auto
  ultimately show ?thesis using cur s(5,6) by (auto simp: commit_current_def)
qed

interpretation commit: attempt_loop "{batch_id}" "commit_step batch_id now" "\<lambda>r. a_attempt_id (fst r)"
  "\<lambda>st. st = A_SUCCEEDED \<or> st = A_FAILED" "commit_current batch_id" for batch_id now
  by unfold_locales (erule commit_step_ok commit_current_keep; assumption)+

section \<open>Recovering one work item\<close>

definition recover_current :: "string set \<Rightarrow> work_row \<Rightarrow> db \<Rightarrow> bool" where
  "recover_current X w d \<longleftrightarrow> w \<in> set (db_work d) \<and> w_status w = W_LEASED
     \<and> (\<forall>a \<in> set (db_attempts d). a_work_id a = w_work_id w \<and> attempt_active a \<longrightarrow> a_batch_id a \<in> X)"

lemma leased_attempt:
  assumes "core_ok X d" "w \<in> set (db_work d)" "w_status w = W_LEASED"
  obtains a where "a \<in> set (db_attempts d)" "w_work_id w = a_work_id a" "attempt_active a"
    "w_lease_attempt_id w = Some (a_attempt_id a)" "w_fence w = a_fence a"
proof -
  obtain a where a: "a \<in> set (db_attempts d)" "w_work_id w = a_work_id a" "attempt_active a"
    using core_okD(4) [OF assms(1)] assms(2,3) unfolding leases_ok_def by metis
  with active_row(1) [OF assms(1) a(1) assms(2) a(2,3)] show thesis
    by (intro that) (simp_all add: holds_fence_def)
qed

lemma recover_work_step:
  assumes core: "core_ok X d" and cur: "recover_current X w d" and eq: "recover_work now w d = Inr d'"
  shows "\<exists>a. attempt_step X d d' a (expire_attempt (retry_outcome w) a) w
      (release_work (retry_outcome w) now ''lease expired'' w)
    \<and> a_attempt_id a = the (w_lease_attempt_id w)"
proof -
  let ?w = "release_work (retry_outcome w) now ''lease expired'' w"
  have w: "w \<in> set (db_work d)" "w_status w = W_LEASED" using cur by (simp_all add: recover_current_def)
  obtain a where a: "a \<in> set (db_attempts d)" "w_work_id w = a_work_id a" "attempt_active a"
    "w_lease_attempt_id w = Some (a_attempt_id a)" "w_fence w = a_fence a"
    using leased_attempt [OF core w] .
  note r = active_row [OF core a(1) w(1) a(2,3)]
  let ?a = "expire_attempt (retry_outcome w) a"
  let ?at = "update_where (\<lambda>x. a_attempt_id x = a_attempt_id a \<and> attempt_active x)
    (expire_attempt (retry_outcome w)) (db_attempts d)"
  have d': "d' = d\<lparr>db_attempts := ?at,
      db_work := update_where (work_fenced_by (w_work_id w) (a_attempt_id a) (a_fence a))
        (release_work (retry_outcome w) now ''lease expired'') (db_work d)\<rparr>"
    using eq a(4,5) by (simp add: recover_work_def Let_def)
  have rep: "replaces attempt_sig a ?a (db_attempts d) ?at"
    by (rule replaces_update_where [where k = a_attempt_id])
      (use a core_okD(1) [OF core] in \<open>auto simp: keys_okD attempt_sig_def expire_attempt_def\<close>)
  have X: "a_batch_id a \<in> X" using cur a by (simp add: recover_current_def)
  have "link_ok X a w b \<longrightarrow> link_ok X ?a ?w b" for b
    using link_ok_released [of X a w b ?a ?w] X
    by (simp add: attempt_sig_def attempt_active_def expire_attempt_def)
  moreover have "w_committed_attempt_id ?w = None" "w_status ?w \<noteq> W_LEASED"
    using r(2) w(2) by (auto simp: release_work_def work_ok_def retry_outcome_def)
  moreover have "a_status ?a \<noteq> A_LEASED" "attempt_le a ?a"
    using a(3) by (simp_all add: expire_attempt_def attempt_sig_def attempt_le_def)
  ultimately have "attempt_step X d d' a ?a w ?w"
    unfolding attempt_step_def
    using a r d' core_okD(1) [OF core] fenced_replaces [OF _ w(1) r(3)] rep work_ok_release [OF r(2) w(2)]
      release_work_le [OF w(2)]
    by (simp add: publication_step_def output_step_def keys_okD)
  with a(4) show ?thesis by auto
qed

lemma recover_current_keep:
  assumes core: "core_ok X d" and cur: "recover_current X v d"
    and step: "attempt_step X d d' a a' w w'" and ne: "a_attempt_id a \<noteq> the (w_lease_attempt_id v)"
  shows "recover_current X v d'"
proof -
  note s = attempt_stepD [OF step]
  have "v \<noteq> w" using active_row(1) [OF core s(3,4,1,2)] ne by (auto simp: holds_fence_def)
  moreover have "w_work_id v \<noteq> a_work_id a"
    using \<open>v \<noteq> w\<close> work_key [OF core_okD(1) [OF core], of v w] s(1,4) cur
    by (auto simp: recover_current_def)
  ultimately show ?thesis using cur s(5,6,15) by (auto simp: recover_current_def)
qed

interpretation recover: attempt_loop X "recover_work now" "\<lambda>w. the (w_lease_attempt_id w)"
  "\<lambda>st. st = A_EXPIRED" "recover_current X" for X now
proof
  fix d x d'
  assume "core_ok X d" "recover_current X x d" "recover_work now x d = Inr d'"
  from recover_work_step [OF this] obtain a where
    "attempt_step X d d' a (expire_attempt (retry_outcome x) a) x
       (release_work (retry_outcome x) now ''lease expired'' x)"
    "a_attempt_id a = the (w_lease_attempt_id x)" by blast
  moreover have "a_status (expire_attempt (retry_outcome x) a) = A_EXPIRED"
    by (simp add: expire_attempt_def)
  ultimately show "\<exists>a a' w w'. attempt_step X d d' a a' w w' \<and>
      a_attempt_id a = the (w_lease_attempt_id x) \<and> a_status a' = A_EXPIRED" by blast
qed (rule recover_current_keep)

end
