(* ===== verification/Control_Ops_Inv.thy ===== *)
theory Control_Ops_Inv
  imports Control_Process_Inv
begin

text \<open>
  Every operation of the control store keeps the invariant \<open>db_ok\<close>: sealing, committing and
  recovering through the loop contracts, then heartbeat, claim, registration, replay, quarantine and
  reconciliation.
\<close>

section \<open>Rows that a change of status leaves alone\<close>

definition batch_sig :: "batch_row \<Rightarrow> string \<times> int \<times> string \<times> string \<times> string" where
  "batch_sig b = (b_batch_id b, b_item_count b, b_membership_sha256 b, b_envelope_path b, b_envelope_sha256 b)"

lemma core_weaken: "core_ok {} d \<Longrightarrow> core_ok X d"
  unfolding core_ok_def attempts_ok_def link_ok_def by blast

lemma in_image_sig: "map s t' = map s t \<Longrightarrow> x \<in> set t' \<Longrightarrow> \<exists>y \<in> set t. s y = s x"
  by (metis (no_types, lifting) ex_map_conv image_eqI image_set imageE)

lemma same_item_sig: "attempt_sig a = attempt_sig a' \<Longrightarrow> same_item a m = same_item a' m"
  by (simp add: attempt_sig_def same_item_def)

lemma members_ok_cong:
  assumes "members_ok lib d" "db_members d' = db_members d"
    "map attempt_sig (db_attempts d') = map attempt_sig (db_attempts d)"
    "map batch_sig (db_batches d') = map batch_sig (db_batches d)"
  shows "members_ok lib d'"
proof -
  have "\<exists>m \<in> set (db_members d). same_item a m" if a: "a \<in> set (db_attempts d')" for a
    using in_image_sig [OF assms(3) a] assms(1) same_item_sig unfolding members_ok_def by metis
  moreover have "\<exists>a \<in> set (db_attempts d'). same_item a m" if m: "m \<in> set (db_members d)" for m
  proof -
    obtain a where "a \<in> set (db_attempts d)" "same_item a m"
      using assms(1) m unfolding members_ok_def by blast
    then show ?thesis using in_image_sig [OF assms(3) [symmetric]] same_item_sig by metis
  qed
  moreover have "batch_membership_ok lib d' b" if b: "b \<in> set (db_batches d')" for b
  proof -
    obtain b0 where "b0 \<in> set (db_batches d)" "batch_sig b0 = batch_sig b"
      using in_image_sig [OF assms(4) b] by blast
    moreover from this have "batch_membership_ok lib d b0" using assms(1) by (simp add: members_ok_def)
    ultimately show ?thesis
      using assms(2) by (auto simp: batch_membership_ok_def batch_sig_def batch_members_def)
  qed
  ultimately show ?thesis using assms(1,2) by (simp add: members_ok_def)
qed

lemma replays_ok_cong:
  assumes "replays_ok d" "db_replays d' = db_replays d" "map work_sig (db_work d') = map work_sig (db_work d)"
  shows "replays_ok d'"
proof -
  have "\<exists>w \<in> set (db_work d'). w_work_id w = r_work_id r \<and> r_generation r \<le> w_replay_generation w"
    if r: "r \<in> set (db_replays d)" for r
  proof -
    obtain w where "w \<in> set (db_work d)" "w_work_id w = r_work_id r" "r_generation r \<le> w_replay_generation w"
      using assms(1) r unfolding replays_ok_def by blast
    moreover from this obtain w' where "w' \<in> set (db_work d')" "work_sig w' = work_sig w"
      using in_image_sig [OF assms(3) [symmetric]] by blast
    ultimately show ?thesis by (auto simp: work_sig_def intro!: bexI [of _ w'])
  qed
  then show ?thesis using assms(1,2) by (simp add: replays_ok_def)
qed

lemma core_close:
  assumes core: "core_ok X d"
    and g: "\<And>b. b_batch_id (g b) = b_batch_id b" "\<And>b. b_lease_expires_at (g b) = b_lease_expires_at b"
    and agree: "\<And>a b. a \<in> set (db_attempts d) \<Longrightarrow> b \<in> set (db_batches d) \<Longrightarrow>
      b_batch_id b = a_batch_id a \<Longrightarrow> (if p b then status_agrees (b_status (g b)) (a_status a)
        else status_agrees (b_status b) (a_status a))"
  shows "core_ok {} (d\<lparr>db_batches := update_where p g (db_batches d)\<rparr>)"
proof -
  let ?d = "d\<lparr>db_batches := update_where p g (db_batches d)\<rparr>"
  have "attempts_ok {} ?d"
    unfolding attempts_ok_def
  proof
    fix a
    assume "a \<in> set (db_attempts ?d)"
    then have a: "a \<in> set (db_attempts d)" by simp
    obtain w b where w: "w \<in> set (db_work d)" "b \<in> set (db_batches d)" "link_ok X a w b"
      using attempt_linkE [OF core a] .
    let ?b = "if p b then g b else b"
    have "link_ok {} a w ?b" using w(3) agree [OF a w(2)] g by (auto simp: link_ok_def)
    moreover have "?b \<in> set (db_batches ?d)" using w(2) by (auto simp: set_update_where)
    ultimately show "\<exists>w \<in> set (db_work ?d). \<exists>b \<in> set (db_batches ?d). link_ok {} a w b"
      using w(1) by auto
  qed
  moreover have "map b_batch_id (update_where p g (db_batches d)) = map b_batch_id (db_batches d)"
    by (rule update_where_key) (rule g)
  ultimately show ?thesis
    using core by (simp add: core_ok_def keys_ok_def leases_ok_def publications_ok_def outputs_ok_def)
qed

lemma close_db_ok:
  assumes "db_ok lib d" "core_ok X d1" "loop_effect T final d d1"
    and "\<And>b. b_batch_id (g b) = b_batch_id b" "\<And>b. b_lease_expires_at (g b) = b_lease_expires_at b"
      "\<And>b. batch_sig (g b) = batch_sig b"
    and agree: "\<And>a b. a \<in> set (db_attempts d1) \<Longrightarrow> b \<in> set (db_batches d) \<Longrightarrow>
      b_batch_id b = a_batch_id a \<Longrightarrow> (if p b then status_agrees (b_status (g b)) (a_status a)
        else status_agrees (b_status b) (a_status a))"
  shows "db_ok lib (d1\<lparr>db_batches := update_where p g (db_batches d1)\<rparr>)"
proof -
  have e: "db_batches d1 = db_batches d" "db_members d1 = db_members d" "db_replays d1 = db_replays d"
    "map work_sig (db_work d1) = map work_sig (db_work d)"
    "map attempt_sig (db_attempts d1) = map attempt_sig (db_attempts d)"
    using assms(3) by (simp_all add: loop_effect_def)
  have "map batch_sig (update_where p g (db_batches d1)) = map batch_sig (db_batches d)"
    unfolding e(1) by (rule update_where_key) (rule assms(6))
  then have "members_ok lib (d1\<lparr>db_batches := update_where p g (db_batches d1)\<rparr>)"
    using members_ok_cong [of lib d "d1\<lparr>db_batches := update_where p g (db_batches d1)\<rparr>"] assms(1) e
    by (simp add: db_ok_def)
  moreover have "replays_ok (d1\<lparr>db_batches := update_where p g (db_batches d1)\<rparr>)"
    using replays_ok_cong [of d "d1\<lparr>db_batches := update_where p g (db_batches d1)\<rparr>"] assms(1) e
    by (simp add: db_ok_def)
  ultimately show ?thesis
    unfolding db_ok_def using core_close [OF assms(2), of g p] assms(4,5) agree e(1) by simp
qed

section \<open>seal_batch, commit_batch and recover\<close>

lemma find_batch_SomeD: "find_batch d i = Some b \<Longrightarrow> b \<in> set (db_batches d) \<and> b_batch_id b = i"
  unfolding find_batch_def by (rule find_SomeD)

lemma find_work_SomeD: "find_work d i = Some w \<Longrightarrow> w \<in> set (db_work d) \<and> w_work_id w = i"
  unfolding find_work_def by (rule find_SomeD)

lemma attempt_agrees:
  assumes "core_ok {} d" "a \<in> set (db_attempts d)" "b \<in> set (db_batches d)" "b_batch_id b = a_batch_id a"
  shows "status_agrees (b_status b) (a_status a)"
proof -
  obtain w b' where "b' \<in> set (db_batches d)" "link_ok {} a w b'"
    using attempt_linkE [OF assms(1,2)] .
  moreover from this have "b' = b"
    using batch_key [OF core_okD(1) [OF assms(1)] _ assms(3)] assms(4) by (simp add: link_ok_def)
  ultimately show ?thesis by (simp add: link_ok_def)
qed

lemma effect_agrees:
  assumes "core_ok {} d" "loop_effect T final d d1" "a \<in> set (db_attempts d1)" "a_attempt_id a \<notin> T"
    "b \<in> set (db_batches d)" "b_batch_id b = a_batch_id a"
  shows "status_agrees (b_status b) (a_status a)"
  using attempt_agrees [OF assms(1) _ assms(5,6)] assms(2-4) by (auto simp: loop_effect_def)

lemma effect_attempt_ids:
  assumes "loop_effect T final d d1" "a \<in> set (db_attempts d1)"
  obtains a0 where "a0 \<in> set (db_attempts d)" "attempt_sig a0 = attempt_sig a"
  using assms in_image_sig [of attempt_sig "db_attempts d1" "db_attempts d" a]
  by (auto simp: loop_effect_def)

lemma effect_final:
  assumes "loop_effect T final d d1" "a \<in> set (db_attempts d1)" "a_attempt_id a \<in> T"
  shows "final (a_status a)"
  using assms by (auto simp: loop_effect_def)

lemma attempt_member:
  assumes "members_ok lib d" "a \<in> set (db_attempts d)"
  obtains m where "m \<in> set (batch_members (a_batch_id a) d)" "same_item a m"
  using assms by (auto simp: members_ok_def batch_members_def same_item_def)

lemma member_attempt:
  assumes "members_ok lib d" "m \<in> set (batch_members i d)"
  obtains a where "a \<in> set (db_attempts d)" "same_item a m" "a_batch_id a = i"
  using assms by (auto simp: members_ok_def batch_members_def same_item_def)

lemma normalize_outputs_distinct:
  assumes "normalize_outputs ids raws = Inr items"
  shows "distinct (map (\<lambda>i. (oi_work_id i, oi_attempt_id i)) items) \<and>
    set (map (\<lambda>i. (oi_work_id i, oi_attempt_id i)) items) \<inter> set ids = {}"
  using assms
proof (induction raws arbitrary: ids items)
  case (Cons raw raws)
  then obtain kvs v i item rest where r: "raw = PDict kvs" "(v, i) \<notin> set ids"
    "normalize_output kvs v i = Inr item" "normalize_outputs ((v, i) # ids) raws = Inr rest"
    "items = item # rest"
    by (auto split: pyval.splits)
  have "oi_work_id item = v" "oi_attempt_id item = i"
    using r(3) by (auto simp: normalize_output_def split: pyval.splits)
  with Cons.IH [OF r(4)] r show ?case by auto
qed simp

lemma batch_pairs:
  assumes "members_ok lib d"
  shows "set (map (\<lambda>m. (m_work_id m, m_attempt_id m)) (batch_members i d)) =
    (\<lambda>a. (a_work_id a, a_attempt_id a)) ` {a \<in> set (db_attempts d). a_batch_id a = i}" (is "?M = ?A")
proof
  show "?M \<subseteq> ?A"
  proof
    fix x
    assume "x \<in> ?M"
    then obtain m where m: "m \<in> set (batch_members i d)" "x = (m_work_id m, m_attempt_id m)" by auto
    obtain a where "a \<in> set (db_attempts d)" "same_item a m" "a_batch_id a = i"
      using member_attempt [OF assms m(1)] .
    with m(2) show "x \<in> ?A" by (auto simp: same_item_def)
  qed
  show "?A \<subseteq> ?M"
  proof
    fix x
    assume "x \<in> ?A"
    then obtain a where a: "a \<in> set (db_attempts d)" "a_batch_id a = i" "x = (a_work_id a, a_attempt_id a)"
      by auto
    obtain m where "m \<in> set (batch_members (a_batch_id a) d)" "same_item a m"
      using attempt_member [OF assms a(1)] .
    with a have "m \<in> set (batch_members i d)" "x = (m_work_id m, m_attempt_id m)"
      by (simp_all add: same_item_def)
    then show "x \<in> ?M" by simp
  qed
qed

lemma seal_identities:
  assumes "members_ok lib d" "keys_ok d"
    and pairs: "set (map (\<lambda>i. (oi_work_id i, oi_attempt_id i)) items)
         = set (map (\<lambda>m. (m_work_id m, m_attempt_id m)) (batch_members identity d))"
    and dist: "distinct (map (\<lambda>i. (oi_work_id i, oi_attempt_id i)) items)"
  shows "\<And>x. x \<in> set items \<Longrightarrow> seal_current x d" "distinct (map oi_attempt_id items)"
    "oi_attempt_id ` set items = a_attempt_id ` {a \<in> set (db_attempts d). a_batch_id a = identity}"
proof -
  have eq: "(\<lambda>i. (oi_work_id i, oi_attempt_id i)) ` set items =
      (\<lambda>a. (a_work_id a, a_attempt_id a)) ` {a \<in> set (db_attempts d). a_batch_id a = identity}"
    using pairs batch_pairs [OF assms(1)] by simp
  show cur: "seal_current x d" if x: "x \<in> set items" for x
  proof -
    have "(oi_work_id x, oi_attempt_id x) \<in>
        (\<lambda>a. (a_work_id a, a_attempt_id a)) ` {a \<in> set (db_attempts d). a_batch_id a = identity}"
      using x unfolding eq [symmetric] by (rule imageI)
    then obtain a where a: "a \<in> set (db_attempts d)" "oi_work_id x = a_work_id a" "oi_attempt_id x = a_attempt_id a"
      by auto
    have "y = a" if "y \<in> set (db_attempts d)" "a_attempt_id y = oi_attempt_id x" for y
      by (rule attempt_key [OF assms(2) that(1) a(1)]) (simp add: that(2) a(3))
    with a(2) show ?thesis by (auto simp: seal_current_def)
  qed
  show ids: "oi_attempt_id ` set items = a_attempt_id ` {a \<in> set (db_attempts d). a_batch_id a = identity}"
    using arg_cong [OF eq, where f = "image snd"] by (simp add: image_image)
  have work: "oi_work_id x = oi_work_id y" if "x \<in> set items" "y \<in> set items" "oi_attempt_id x = oi_attempt_id y" for x y
  proof -
    have "oi_attempt_id x \<in> a_attempt_id ` {a \<in> set (db_attempts d). a_batch_id a = identity}"
      using that(1) unfolding ids [symmetric] by (rule imageI)
    with cur [OF that(1)] cur [OF that(2)] that(3) show ?thesis by (auto simp: seal_current_def)
  qed
  have "inj_on oi_attempt_id (set items)"
  proof (rule inj_onI)
    fix x y
    assume xy: "x \<in> set items" "y \<in> set items" "oi_attempt_id x = oi_attempt_id y"
    show "x = y" by (rule distinct_keyD [OF dist xy(1,2)]) (simp add: xy(3) work [OF xy])
  qed
  with dist show "distinct (map oi_attempt_id items)" by (simp add: distinct_map)
qed

lemma batch_targets:
  assumes "keys_ok d" "loop_effect T final d d1" "T = a_attempt_id ` {a \<in> set (db_attempts d). P (a_batch_id a)}"
    "a \<in> set (db_attempts d1)"
  shows "a_attempt_id a \<in> T \<longleftrightarrow> P (a_batch_id a)"
proof -
  obtain a0 where a0: "a0 \<in> set (db_attempts d)" "attempt_sig a0 = attempt_sig a"
    using effect_attempt_ids [OF assms(2,4)] .
  have x: "x = a0" if "x \<in> set (db_attempts d)" "a_attempt_id x = a_attempt_id a" for x
    by (rule attempt_key [OF assms(1) that(1) a0(1)]) (use that a0(2) in \<open>simp add: attempt_sig_def\<close>)
  show ?thesis
  proof
    assume "a_attempt_id a \<in> T"
    then obtain x where "x \<in> set (db_attempts d)" "a_attempt_id x = a_attempt_id a" "P (a_batch_id x)"
      unfolding assms(3) by auto
    with x a0(2) show "P (a_batch_id a)" by (simp add: attempt_sig_def)
  next
    assume "P (a_batch_id a)"
    with a0 show "a_attempt_id a \<in> T"
      unfolding assms(3) by (intro image_eqI [of _ _ a0]) (simp_all add: attempt_sig_def)
  qed
qed

lemma seal_tx_cases:
  assumes "seal_tx identity outputs digest membership now d = Inr (d', x)"
  obtains b where "find_batch d identity = Some b" "b_status b = B_SEALED" "d' = d"
      "verify_existing_seal b outputs digest membership d = Inr ()"
  | b items d1 where "find_batch d identity = Some b" "b_status b = B_LEASED" "now < b_lease_expires_at b"
      "digest = b_envelope_sha256 b" "membership = b_membership_sha256 b"
      "normalize_outputs [] outputs = Inr items"
      "set (map (\<lambda>i. (oi_work_id i, oi_attempt_id i)) items)
         = set (map (\<lambda>m. (m_work_id m, m_attempt_id m)) (batch_members identity d))"
      "foldE (seal_item identity now) items d = Inr d1"
      "d' = d1\<lparr>db_batches := update_where (\<lambda>x. b_batch_id x = identity)
         (\<lambda>x. x\<lparr>b_status := B_SEALED, b_sealed_at := Some now\<rparr>) (db_batches d1)\<rparr>"
  using assms that
  by (fastforce simp: seal_tx_def validate_live_seal_def Let_def split: option.splits if_splits)

lemma seal_loop:
  assumes ok: "db_ok lib d" and "normalize_outputs [] outputs = Inr items"
    "set (map (\<lambda>i. (oi_work_id i, oi_attempt_id i)) items)
       = set (map (\<lambda>m. (m_work_id m, m_attempt_id m)) (batch_members identity d))"
    "foldE (seal_item identity now) items d = Inr d1"
  shows "core_ok {identity} d1" "loop_effect (oi_attempt_id ` set items) (\<lambda>st. st = A_SEALED) d d1"
    "oi_attempt_id ` set items = a_attempt_id ` {a \<in> set (db_attempts d). a_batch_id a = identity}"
proof -
  have mem: "members_ok lib d" and core: "core_ok {} d" using ok by (simp_all add: db_ok_def)
  note ids = seal_identities [OF mem core_okD(1) [OF core] assms(3)
      conjunct1 [OF normalize_outputs_distinct [OF assms(2)]]]
  show "core_ok {identity} d1" "loop_effect (oi_attempt_id ` set items) (\<lambda>st. st = A_SEALED) d d1"
    using seal.loop [OF core_weaken [OF core] ids(2) _ assms(4)] ids(1) by blast+
  show "oi_attempt_id ` set items = a_attempt_id ` {a \<in> set (db_attempts d). a_batch_id a = identity}"
    by (rule ids(3))
qed

lemma seal_tx_db_ok:
  assumes ok: "db_ok lib d" and eq: "seal_tx identity outputs digest membership now d = Inr (d', x)"
  shows "db_ok lib d'"
  using eq
proof (cases rule: seal_tx_cases)
  case 1
  with ok show ?thesis by simp
next
  case (2 b items d1)
  note l = seal_loop [OF ok 2(6-8)]
  have core: "core_ok {} d" using ok by (simp add: db_ok_def)
  show ?thesis
    unfolding 2(9)
  proof (rule close_db_ok [OF ok l(1,2)])
    fix a b'
    assume ab: "a \<in> set (db_attempts d1)" "b' \<in> set (db_batches d)" "b_batch_id b' = a_batch_id a"
    then show "if b_batch_id b' = identity
        then status_agrees (b_status (b'\<lparr>b_status := B_SEALED, b_sealed_at := Some now\<rparr>)) (a_status a)
        else status_agrees (b_status b') (a_status a)"
      using effect_final [OF l(2) ab(1)] effect_agrees [OF core l(2) ab(1) _ ab(2,3)]
        batch_targets [OF core_okD(1) [OF core] l(2,3) ab(1)]
      by auto
  qed (simp_all add: batch_sig_def)
qed

lemma inner_join_fst:
  assumes "\<And>x. x \<in> set xs \<Longrightarrow> rowcount (on x) ys = 1"
  shows "map fst (inner_join on xs ys) = xs"
  using assms
proof (induction xs)
  case (Cons x xs)
  then obtain y where "filter (on x) ys = [y]"
    by (metis list.set_intros(1) One_nat_def length_0_conv length_Suc_conv rowcount_def)
  with Cons show ?case by (simp add: inner_join_def)
qed (simp add: inner_join_def)

lemma distinct_map_sort_key: "distinct (map f (sort_key g xs)) = distinct (map f xs)"
  by (simp add: distinct_map)

lemma set_commit_rows: "set (commit_rows i d) =
    {(a, w). a \<in> set (db_attempts d) \<and> a_batch_id a = i \<and> w \<in> set (db_work d) \<and> w_work_id w = a_work_id a}"
  by (auto simp: commit_rows_def set_inner_join)

lemma commit_rows_fst:
  assumes core: "core_ok X d"
  shows "distinct (map (\<lambda>r. a_attempt_id (fst r)) (commit_rows i d))"
    "fst ` set (commit_rows i d) = {a \<in> set (db_attempts d). a_batch_id a = i}"
proof -
  let ?xs = "filter (\<lambda>a. a_batch_id a = i) (db_attempts d)"
  have "rowcount (\<lambda>w. w_work_id w = a_work_id a) (db_work d) = 1" if "a \<in> set ?xs" for a
  proof -
    have "a \<in> set (db_attempts d)" using that by simp
    then obtain w b where "w \<in> set (db_work d)" "link_ok X a w b"
      by (rule attempt_linkE [OF core])
    then show ?thesis
      by (subst rowcount_1_key [OF keys_okD(1) [OF core_okD(1) [OF core]]]) (auto simp: link_ok_def)
  qed
  then have m: "map fst (inner_join (\<lambda>a w. w_work_id w = a_work_id a) ?xs (db_work d)) = ?xs"
    by (rule inner_join_fst)
  have "distinct (map a_attempt_id ?xs)"
    using keys_okD(3) [OF core_okD(1) [OF core]] by (rule distinct_map_filter)
  then have "distinct (map a_attempt_id (map fst (inner_join (\<lambda>a w. w_work_id w = a_work_id a) ?xs (db_work d))))"
    unfolding m .
  then show "distinct (map (\<lambda>r. a_attempt_id (fst r)) (commit_rows i d))"
    by (simp add: commit_rows_def distinct_map_sort_key comp_def)
  show "fst ` set (commit_rows i d) = {a \<in> set (db_attempts d). a_batch_id a = i}"
    using arg_cong [OF m, where f = set] by (simp add: commit_rows_def)
qed

lemma commit_tx_cases:
  assumes "commit_tx identity now d = Inr (d', ns)"
  obtains b where "find_batch d identity = Some b" "b_status b = B_COMMITTED" "d' = d"
      "ns = batch_publications identity d"
  | b d1 where "find_batch d identity = Some b" "b_status b = B_SEALED" "now < b_lease_expires_at b"
      "int (length (commit_rows identity d)) = b_item_count b"
      "commit_loop identity now (commit_rows identity d) d = Inr (d1, ns)"
      "d' = d1\<lparr>db_batches := update_where (\<lambda>x. b_batch_id x = identity \<and> b_status x = B_SEALED)
         (\<lambda>x. x\<lparr>b_status := B_COMMITTED, b_committed_at := Some now\<rparr>) (db_batches d1)\<rparr>"
  using assms that by (fastforce simp: commit_tx_def Let_def split: option.splits if_splits)

lemma commit_loop_effect:
  assumes ok: "db_ok lib d" and b: "find_batch d identity = Some b" "b_status b = B_SEALED"
    and loop: "commit_loop identity now (commit_rows identity d) d = Inr (d1, ns)"
  shows "core_ok {identity} d1"
    "loop_effect (a_attempt_id ` {a \<in> set (db_attempts d). a_batch_id a = identity})
       (\<lambda>st. st = A_SUCCEEDED \<or> st = A_FAILED) d d1"
proof -
  have core: "core_ok {} d" using ok by (simp add: db_ok_def)
  have "commit_current identity r d" if "r \<in> set (commit_rows identity d)" for r
  proof -
    have r: "fst r \<in> set (db_attempts d)" "a_batch_id (fst r) = identity"
      using that by (auto simp: set_commit_rows)
    have "status_agrees B_SEALED (a_status (fst r))"
      using attempt_agrees [OF core r(1)] find_batch_SomeD [OF b(1)] b(2) r(2) by metis
    then show ?thesis using that by (auto simp: commit_current_def set_commit_rows attempt_active_def)
  qed
  moreover have "(\<lambda>r. a_attempt_id (fst r)) ` set (commit_rows identity d) =
      a_attempt_id ` {a \<in> set (db_attempts d). a_batch_id a = identity}"
    unfolding commit_rows_fst(2) [OF core, symmetric] by (simp add: image_image)
  ultimately show "core_ok {identity} d1"
    "loop_effect (a_attempt_id ` {a \<in> set (db_attempts d). a_batch_id a = identity})
       (\<lambda>st. st = A_SUCCEEDED \<or> st = A_FAILED) d d1"
    using commit.loop [OF core_weaken [OF core] commit_rows_fst(1) [OF core] _ commit_loop_foldE [OF loop]]
    by auto
qed

lemma commit_tx_db_ok:
  assumes ok: "db_ok lib d" and eq: "commit_tx identity now d = Inr (d', ns)"
  shows "db_ok lib d'"
  using eq
proof (cases rule: commit_tx_cases)
  case 1
  with ok show ?thesis by simp
next
  case (2 b d1)
  note l = commit_loop_effect [OF ok 2(1,2,5)]
  have core: "core_ok {} d" using ok by (simp add: db_ok_def)
  show ?thesis
    unfolding 2(6)
  proof (rule close_db_ok [OF ok l])
    fix a b'
    assume ab: "a \<in> set (db_attempts d1)" "b' \<in> set (db_batches d)" "b_batch_id b' = a_batch_id a"
    have "b' = b" if "b_batch_id b' = identity"
      using batch_key [OF core_okD(1) [OF core] ab(2)] find_batch_SomeD [OF 2(1)] that by blast
    then show "if b_batch_id b' = identity \<and> b_status b' = B_SEALED
        then status_agrees (b_status (b'\<lparr>b_status := B_COMMITTED, b_committed_at := Some now\<rparr>)) (a_status a)
        else status_agrees (b_status b') (a_status a)"
      using effect_final [OF l(2) ab(1)] effect_agrees [OF core l(2) ab(1) _ ab(2,3)] 2(2) ab(3)
        batch_targets [OF core_okD(1) [OF core] l(2) _ ab(1), of "\<lambda>i. i = identity"]
      by auto
  qed (simp_all add: batch_sig_def)
qed

text \<open>The batches an expired lease belongs to are exactly those \<open>recover\<close> marks expired.\<close>

definition expired_batch :: "pyfloat \<Rightarrow> batch_row \<Rightarrow> bool" where
  "expired_batch now b \<longleftrightarrow> batch_active b \<and> b_lease_expires_at b \<le> now"

lemma set_expired_rows: "set (expired_rows now d) = {w \<in> set (db_work d). lease_expired now w}"
  by (simp add: expired_rows_def)

lemma active_batch:
  assumes core: "core_ok {} d" and a: "a \<in> set (db_attempts d)" "attempt_active a"
  obtains w b where "w \<in> set (db_work d)" "b \<in> set (db_batches d)" "link_ok {} a w b"
    "lease_expired now w \<longleftrightarrow> expired_batch now b" "batch_active b" "w_lease_attempt_id w = Some (a_attempt_id a)"
proof -
  obtain w b where w: "w \<in> set (db_work d)" "b \<in> set (db_batches d)" "link_ok {} a w b"
    using attempt_linkE [OF core a(1)] .
  have l: "w_status w = W_LEASED" "w_lease_expires_at w = Some (b_lease_expires_at b)"
    "status_agrees (b_status b) (a_status a)" "w_lease_attempt_id w = Some (a_attempt_id a)"
    using w(3) a(2) by (simp_all add: link_ok_def holds_fence_def)
  have "batch_active b"
    using l(3) a(2) by (cases "b_status b") (auto simp: batch_active_def attempt_active_def)
  with w l show thesis by (intro that) (auto simp: lease_expired_def expired_batch_def)
qed

definition expired_batches :: "pyfloat \<Rightarrow> db \<Rightarrow> string set" where
  "expired_batches now d = b_batch_id ` {b \<in> set (db_batches d). expired_batch now b}"

lemma expired_batches_iff:
  assumes "keys_ok d" "b \<in> set (db_batches d)"
  shows "b_batch_id b \<in> expired_batches now d \<longleftrightarrow> expired_batch now b"
proof -
  have "b' = b" if "b' \<in> set (db_batches d)" "b_batch_id b = b_batch_id b'" for b'
    by (rule batch_key [OF assms(1) that(1) assms(2)]) (simp add: that(2))
  with assms(2) show ?thesis by (auto simp: expired_batches_def)
qed

lemma lease_expired_batch:
  assumes core: "core_ok {} d" and a: "a \<in> set (db_attempts d)" "attempt_active a"
    and v: "v \<in> set (db_work d)" "a_work_id a = w_work_id v"
  shows "lease_expired now v \<longleftrightarrow> a_batch_id a \<in> expired_batches now d"
proof -
  obtain w b where w: "w \<in> set (db_work d)" "b \<in> set (db_batches d)" "link_ok {} a w b"
    "lease_expired now w \<longleftrightarrow> expired_batch now b"
    using active_batch [OF core a] by metis
  have "w = v" by (rule work_key [OF core_okD(1) [OF core] w(1) v(1)])
      (use w(3) v(2) in \<open>simp add: link_ok_def\<close>)
  then show ?thesis
    using w(3,4) expired_batches_iff [OF core_okD(1) [OF core] w(2)] by (simp add: link_ok_def)
qed

lemma expired_row_attempt:
  assumes "core_ok {} d" "w \<in> set (expired_rows now d)"
  shows "\<exists>a \<in> set (db_attempts d). attempt_active a \<and> a_work_id a = w_work_id w
      \<and> w_lease_attempt_id w = Some (a_attempt_id a)"
proof -
  have w: "w \<in> set (db_work d)" "w_status w = W_LEASED"
    using assms(2) by (simp_all add: set_expired_rows lease_expired_def)
  show ?thesis by (rule leased_attempt [OF assms(1) w]) (rule bexI, simp_all)
qed

lemma recover_rows_current:
  assumes "core_ok {} d" "w \<in> set (expired_rows now d)"
  shows "recover_current (expired_batches now d) w d"
  using assms(2) lease_expired_batch [OF assms(1)] unfolding set_expired_rows recover_current_def
  by (auto simp: lease_expired_def)

lemma recover_rows_distinct:
  assumes core: "core_ok {} d"
  shows "distinct (map (\<lambda>w. the (w_lease_attempt_id w)) (expired_rows now d))"
proof -
  have "inj_on (\<lambda>w. the (w_lease_attempt_id w)) (set (expired_rows now d))"
  proof (rule inj_onI)
    fix v w
    assume vw: "v \<in> set (expired_rows now d)" "w \<in> set (expired_rows now d)"
      "the (w_lease_attempt_id v) = the (w_lease_attempt_id w)"
    obtain a a' where a: "a \<in> set (db_attempts d)" "a_work_id a = w_work_id v"
        "w_lease_attempt_id v = Some (a_attempt_id a)" "a' \<in> set (db_attempts d)"
        "a_work_id a' = w_work_id w" "w_lease_attempt_id w = Some (a_attempt_id a')"
      using expired_row_attempt [OF core vw(1)] expired_row_attempt [OF core vw(2)] by blast
    have "a = a'" by (rule attempt_key [OF core_okD(1) [OF core] a(1,4)]) (use vw(3) a(3,6) in simp)
    then show "v = w"
      by (intro work_key [OF core_okD(1) [OF core]]) (use vw a(2,5) in \<open>auto simp: set_expired_rows\<close>)
  qed
  moreover have "distinct (expired_rows now d)"
    using keys_okD(1) [OF core_okD(1) [OF core]] by (simp add: expired_rows_def distinct_map)
  ultimately show ?thesis by (simp add: distinct_map)
qed

lemma recover_targets:
  assumes core: "core_ok {} d"
  shows "(\<lambda>w. the (w_lease_attempt_id w)) ` set (expired_rows now d) =
    a_attempt_id ` {a \<in> set (db_attempts d). a_batch_id a \<in> expired_batches now d}" (is "?L = ?R")
proof
  show "?L \<subseteq> ?R"
  proof
    fix i
    assume "i \<in> ?L"
    then obtain w where w: "w \<in> set (expired_rows now d)" "i = the (w_lease_attempt_id w)" by blast
    obtain a where "a \<in> set (db_attempts d)" "attempt_active a" "a_work_id a = w_work_id w"
      "w_lease_attempt_id w = Some (a_attempt_id a)" using expired_row_attempt [OF core w(1)] by blast
    then show "i \<in> ?R" using lease_expired_batch [OF core, of a w] w by (auto simp: set_expired_rows)
  qed
  show "?R \<subseteq> ?L"
  proof
    fix i
    assume "i \<in> ?R"
    then obtain a b where a: "a \<in> set (db_attempts d)" "i = a_attempt_id a" "b \<in> set (db_batches d)"
        "b_batch_id b = a_batch_id a" "expired_batch now b"
      by (auto simp: expired_batches_def)
    have "status_agrees (b_status b) (a_status a)" by (rule attempt_agrees [OF core a(1,3,4)])
    then have act: "attempt_active a"
      using a(5) by (auto simp: expired_batch_def batch_active_def attempt_active_def)
    obtain w b' where w: "w \<in> set (db_work d)" "link_ok {} a w b'" "w_lease_attempt_id w = Some (a_attempt_id a)"
      using active_batch [OF core a(1) act] by metis
    then have "w \<in> set (expired_rows now d)"
      using lease_expired_batch [OF core a(1) act w(1)] expired_batches_iff [OF core_okD(1) [OF core] a(3)] a(4,5)
      by (simp add: set_expired_rows link_ok_def)
    with w(3) a(2) show "i \<in> ?L" by force
  qed
qed

lemma recover_loop_effect:
  assumes core: "core_ok {} d" and loop: "foldE (recover_work now) (expired_rows now d) d = Inr d1"
  shows "core_ok (expired_batches now d) d1"
    "loop_effect (a_attempt_id ` {a \<in> set (db_attempts d). a_batch_id a \<in> expired_batches now d})
       (\<lambda>st. st = A_EXPIRED) d d1"
  using recover.loop [OF core_weaken [OF core] recover_rows_distinct [OF core] _ loop]
    recover_rows_current [OF core] recover_targets [OF core, of now] by auto

lemma recover_tx_db_ok:
  assumes ok: "db_ok lib d" and eq: "recover_tx now d = Inr (d', r)"
  shows "db_ok lib d'"
proof -
  have core: "core_ok {} d" using ok by (simp add: db_ok_def)
  obtain d1 where d1: "foldE (recover_work now) (expired_rows now d) d = Inr d1"
    "d' = d1\<lparr>db_batches := update_where (expired_batch now) (\<lambda>b. b\<lparr>b_status := B_EXPIRED\<rparr>) (db_batches d1)\<rparr>"
    using eq by (auto simp: recover_tx_def Let_def expired_batch_def [abs_def])
  note l = recover_loop_effect [OF core d1(1)]
  show ?thesis
    unfolding d1(2)
  proof (rule close_db_ok [OF ok l])
    fix a b
    assume ab: "a \<in> set (db_attempts d1)" "b \<in> set (db_batches d)" "b_batch_id b = a_batch_id a"
    show "if expired_batch now b then status_agrees (b_status (b\<lparr>b_status := B_EXPIRED\<rparr>)) (a_status a)
        else status_agrees (b_status b) (a_status a)"
      using effect_final [OF l(2) ab(1)] effect_agrees [OF core l(2) ab(1) _ ab(2,3)] ab(3)
        batch_targets [OF core_okD(1) [OF core] l(2) _ ab(1), of "\<lambda>i. i \<in> expired_batches now d"]
        expired_batches_iff [OF core_okD(1) [OF core] ab(2)]
      by auto
  qed (simp_all add: batch_sig_def)
qed

section \<open>register, replay, quarantine and reconcile\<close>

lemma publications_ok_frame:
  assumes ok: "publications_ok d" and same: "db_publications d' = db_publications d"
    "db_last_publication d' = db_last_publication d"
    and att: "\<And>a. a \<in> set (db_attempts d) \<Longrightarrow> a_status a = A_SUCCEEDED \<Longrightarrow> a \<in> set (db_attempts d')"
    and wrk: "\<And>w. w \<in> set (db_work d) \<Longrightarrow> w_committed_attempt_id w \<noteq> None \<Longrightarrow> w \<in> set (db_work d')"
      "\<And>w. w \<in> set (db_work d') \<Longrightarrow> w_committed_attempt_id w \<noteq> None \<Longrightarrow> w \<in> set (db_work d)"
  shows "publications_ok d'"
proof -
  have "\<exists>a \<in> set (db_attempts d'). \<exists>w \<in> set (db_work d'). publication_link p a w"
    if "p \<in> set (db_publications d)" for p
  proof -
    obtain a w where aw: "a \<in> set (db_attempts d)" "w \<in> set (db_work d)" "publication_link p a w"
      using ok \<open>p \<in> set (db_publications d)\<close> unfolding publications_ok_def by blast
    then have "a \<in> set (db_attempts d')" "w \<in> set (db_work d')"
      using att wrk(1) by (auto simp: publication_link_def)
    with aw(3) show ?thesis by blast
  qed
  moreover have "\<exists>p \<in> set (db_publications d). p_work_id p = w_work_id w"
    if "w \<in> set (db_work d')" "w_committed_attempt_id w \<noteq> None" for w
    using ok wrk(2) [OF that] that(2) unfolding publications_ok_def by blast
  ultimately show ?thesis using ok same unfolding publications_ok_def by simp
qed

lemma core_add_work:
  assumes core: "core_ok X d" and "w_work_id w \<notin> w_work_id ` set (db_work d)" "work_ok w" "w_status w = W_READY"
  shows "core_ok X (d\<lparr>db_work := db_work d @ [w]\<rparr>)"
proof -
  have "w_committed_attempt_id w = None" using assms(3,4) by (auto simp: work_ok_def)
  then have "publications_ok (d\<lparr>db_work := db_work d @ [w]\<rparr>)"
    by (intro publications_ok_frame [OF core_okD(5) [OF core]]) auto
  moreover have "attempts_ok X (d\<lparr>db_work := db_work d @ [w]\<rparr>)"
    using core_okD(3) [OF core] unfolding attempts_ok_def by auto
  ultimately show ?thesis using assms
    by (auto simp: core_ok_def keys_ok_def leases_ok_def outputs_ok_def)
qed

lemma register_row_cases:
  assumes "register_row lib now payload_json q d = Inr (d', r)"
  obtains w where "find_work d (q_work_id q) = Some w" "d' = d" "r = registered w"
      "work_immutable w = request_immutable (sha256_hex lib payload_json) q"
  | "find_work d (q_work_id q) = None"
      "d' = d\<lparr>db_work := db_work d @ [new_work payload_json (sha256_hex lib payload_json) q now]\<rparr>"
      "r = registered (new_work payload_json (sha256_hex lib payload_json) q now)"
  using assms by (auto simp: register_row_def Let_def split: option.splits if_splits)

lemma register_row_db_ok:
  assumes ok: "db_ok lib d" and q: "1 \<le> q_max_attempts q"
    and eq: "register_row lib now payload_json q d = Inr (d', r)"
  shows "db_ok lib d'"
  using eq
proof (cases rule: register_row_cases)
  case 1
  with ok show ?thesis by simp
next
  case 2
  let ?w = "new_work payload_json (sha256_hex lib payload_json) q now"
  have "w_work_id ?w \<notin> w_work_id ` set (db_work d)"
    using find_NoneD [OF 2(1) [unfolded find_work_def]] by (force simp: new_work_def)
  moreover have "work_ok ?w" "w_status ?w = W_READY" using q by (auto simp: work_ok_def new_work_def)
  ultimately have "core_ok {} d'" unfolding 2(2) using core_add_work ok by (simp add: db_ok_def)
  moreover have "members_ok lib d'" "replays_ok d'"
    using ok unfolding 2(2)
    by (auto simp: db_ok_def members_ok_def replays_ok_def batch_membership_ok_def batch_members_def)
  ultimately show ?thesis by (simp add: db_ok_def)
qed

lemma core_idle_update:
  assumes core: "core_ok X d"
    and idle: "\<And>w. w \<in> set (db_work d) \<Longrightarrow> p w \<Longrightarrow> w_status w \<noteq> W_LEASED \<and> w_committed_attempt_id w = None
      \<and> work_ok (f w) \<and> w_status (f w) \<noteq> W_LEASED \<and> w_committed_attempt_id (f w) = None
      \<and> w_work_id (f w) = w_work_id w \<and> w_fence (f w) = w_fence w \<and> w_payload_sha256 (f w) = w_payload_sha256 w"
  shows "core_ok X (d\<lparr>db_work := update_where p f (db_work d)\<rparr>)"
proof -
  let ?d = "d\<lparr>db_work := update_where p f (db_work d)\<rparr>"
  have upd: "v \<in> set (db_work ?d)" if "w \<in> set (db_work d)" "v = (if p w then f w else w)" for v w
    using that by (auto simp: set_update_where)
  have "attempts_ok X ?d"
    unfolding attempts_ok_def
  proof
    fix a
    assume "a \<in> set (db_attempts ?d)"
    then obtain w b where w: "w \<in> set (db_work d)" "b \<in> set (db_batches d)" "link_ok X a w b"
      using attempt_linkE [OF core] by auto
    have "link_ok X a (if p w then f w else w) b"
    proof (cases "p w")
      case True
      then show ?thesis using w idle [OF w(1) True]
        by (auto simp: link_ok_def holds_fence_def)
    qed (simp add: w)
    then show "\<exists>w \<in> set (db_work ?d). \<exists>b \<in> set (db_batches ?d). link_ok X a w b"
      using w upd by (auto intro!: bexI [of _ "if p w then f w else w"] bexI [of _ b])
  qed
  moreover have "map w_work_id (update_where p f (db_work d)) = map w_work_id (db_work d)"
    by (rule update_where_key) (use idle in blast)
  moreover have "\<forall>w \<in> set (db_work ?d). work_ok w"
    using idle core_okD(2) [OF core] by (auto simp: set_update_where)
  moreover have "leases_ok ?d"
    using idle core_okD(4) [OF core] by (auto simp: leases_ok_def set_update_where)
  moreover have "publications_ok ?d"
    by (rule publications_ok_frame [OF core_okD(5) [OF core]])
      (use idle in \<open>auto simp: set_update_where\<close>)
  ultimately show ?thesis using core by (simp add: core_ok_def keys_ok_def outputs_ok_def)
qed

lemma members_ok_frame:
  assumes "members_ok lib d" "db_members d' = db_members d" "db_attempts d' = db_attempts d"
    "db_batches d' = db_batches d"
  shows "members_ok lib d'"
  using assms by (auto intro: members_ok_cong)

lemma replay_tx_cases:
  assumes "replay_tx lib now identity actor explanation additional d = Inr (d', r)"
  obtains w where "find_work d identity = Some w" "w_status w \<noteq> W_DEAD" "d' = d"
      "matching_last_replay w actor explanation additional d = Some r"
  | w row where "find_work d identity = Some w" "w_status w = W_DEAD" "w_committed_attempt_id w = None"
      "row = \<lparr>r_replay_id = replay_identity lib identity (w_replay_generation w + 1) actor explanation additional,
         r_work_id = identity, r_operator = actor, r_reason = explanation,
         r_generation = w_replay_generation w + 1, r_requested_at = now, r_from_status = W_DEAD,
         r_additional_attempts = additional\<rparr>"
      "r_replay_id row \<notin> r_replay_id ` set (db_replays d)"
      "(identity, w_replay_generation w + 1) \<notin> (\<lambda>x. (r_work_id x, r_generation x)) ` set (db_replays d)"
      "d' = d\<lparr>db_replays := db_replays d @ [row],
         db_work := update_where (\<lambda>x. w_work_id x = identity \<and> w_status x = W_DEAD)
           (requeue_work additional now (w_replay_generation w + 1) (r_replay_id row)) (db_work d)\<rparr>"
      "r = replay_of_row row"
  using assms
  by (fastforce simp: replay_tx_def insert_replay_def Let_def split: option.splits if_splits)

lemma replay_tx_db_ok:
  assumes ok: "db_ok lib d" and add: "1 \<le> additional"
    and eq: "replay_tx lib now identity actor explanation additional d = Inr (d', r)"
  shows "db_ok lib d'"
  using eq
proof (cases rule: replay_tx_cases)
  case 1
  with ok show ?thesis by simp
next
  case (2 w row)
  let ?p = "\<lambda>x. w_work_id x = identity \<and> w_status x = W_DEAD"
  let ?f = "requeue_work additional now (w_replay_generation w + 1) (r_replay_id row)"
  have core: "core_ok {} d" using ok by (simp add: db_ok_def)
  note w = find_work_SomeD [OF 2(1)]
  have only: "x = w" if "x \<in> set (db_work d)" "w_work_id x = identity" for x
    using work_key [OF core_okD(1) [OF core] that(1)] w that(2) by blast
  have "work_ok w" using core_okD(2) [OF core] w by blast
  then have "core_ok {} (d\<lparr>db_work := update_where ?p ?f (db_work d)\<rparr>)"
    using only 2(2,3) add by (intro core_idle_update [OF core]) (auto simp: requeue_work_def work_ok_def)
  then have "core_ok {} d'" unfolding 2(7)
    by (simp add: core_ok_def keys_ok_def attempts_ok_def leases_ok_def publications_ok_def outputs_ok_def)
  moreover have "members_ok lib d'"
    by (rule members_ok_frame [of lib d]) (use ok 2(7) in \<open>simp_all add: db_ok_def\<close>)
  moreover have "replays_ok d'"
  proof -
    have upd: "\<exists>v \<in> set (db_work d'). w_work_id v = w_work_id x \<and> w_replay_generation x \<le> w_replay_generation v"
      if x: "x \<in> set (db_work d)" for x
      by (rule bexI [of _ "if ?p x then ?f x else x"])
        (use x only [OF x] 2(7) in \<open>auto simp: set_update_where requeue_work_def\<close>)
    have "\<exists>v \<in> set (db_work d'). w_work_id v = r_work_id t \<and> r_generation t \<le> w_replay_generation v"
      if "t \<in> set (db_replays d)" for t
    proof -
      obtain x where "x \<in> set (db_work d)" "w_work_id x = r_work_id t" "r_generation t \<le> w_replay_generation x"
        using ok \<open>t \<in> set (db_replays d)\<close> unfolding db_ok_def replays_ok_def by blast
      with upd [of x] show ?thesis by force
    qed
    moreover have "\<exists>v \<in> set (db_work d'). w_work_id v = identity \<and> w_replay_generation w + 1 \<le> w_replay_generation v"
      by (rule bexI [of _ "?f w"]) (use w 2(2,7) in \<open>auto simp: set_update_where requeue_work_def\<close>)
    ultimately show ?thesis
      using ok 2(4,6) unfolding 2(7) db_ok_def replays_ok_def by auto
  qed
  ultimately show ?thesis by (simp add: db_ok_def)
qed

lemma quarantine_item_db_ok:
  assumes ok: "db_ok lib d" and eq: "quarantine_item lib now actor explanation snapshot wd d = Inr d'"
  shows "db_ok lib d'"
proof -
  obtain i h where wd: "wd = (i, h)" by (cases wd)
  let ?p = "\<lambda>x. w_work_id x = i \<and> w_status x = W_READY \<and> w_release_digest x = h
    \<and> w_committed_attempt_id x = None"
  let ?f = "quarantine_work now (quarantine_marker lib actor explanation h)"
  have core: "core_ok {} d" using ok by (simp add: db_ok_def)
  have "d' = d \<or> d' = d\<lparr>db_work := update_where ?p ?f (db_work d)\<rparr>"
    using eq wd by (auto simp: quarantine_item_def Let_def split: option.splits if_splits)
  moreover have "db_ok lib (d\<lparr>db_work := update_where ?p ?f (db_work d)\<rparr>)"
  proof -
    have "core_ok {} (d\<lparr>db_work := update_where ?p ?f (db_work d)\<rparr>)"
      using core_okD(2) [OF core]
      by (intro core_idle_update [OF core]) (auto simp: quarantine_work_def work_ok_def)
    moreover have "map work_sig (update_where ?p ?f (db_work d)) = map work_sig (db_work d)"
      by (rule update_where_key) (simp add: quarantine_work_def work_sig_def)
    then have "replays_ok (d\<lparr>db_work := update_where ?p ?f (db_work d)\<rparr>)"
      using replays_ok_cong [of d] ok by (simp add: db_ok_def)
    ultimately show ?thesis
      using members_ok_frame [of lib d] ok by (simp add: db_ok_def)
  qed
  ultimately show ?thesis using ok by auto
qed

lemma quarantine_tx_db_ok:
  assumes "db_ok lib d" "quarantine_tx lib now expected actor explanation d = Inr (d', r)"
  shows "db_ok lib d'"
proof -
  have "foldE (quarantine_item lib now actor explanation d) expected d = Inr d'"
    using assms(2) by (auto simp: quarantine_tx_def split: if_splits)
  then show ?thesis
    by (rule foldE_invariant) (use assms(1) quarantine_item_db_ok in blast)+
qed

lemma db_ok_findings [simp]: "db_ok lib (d\<lparr>db_findings := fs\<rparr>) = db_ok lib d"
  by (simp add: db_ok_def core_ok_def keys_ok_def attempts_ok_def leases_ok_def publications_ok_def
      outputs_ok_def members_ok_def batch_membership_ok_def batch_members_def replays_ok_def)

lemma reconcile_tx_db:
  assumes "reconcile_tx lib now fs d = Inr (d', r)"
  shows "\<exists>t. d' = d\<lparr>db_findings := t\<rparr>"
proof -
  obtain d1 where d1: "foldE (reconcile_item lib now) (detect_findings lib now fs d) d = Inr d1"
    "\<exists>t. d' = d1\<lparr>db_findings := t\<rparr>"
    using assms by (auto simp: reconcile_tx_def Let_def)
  have "\<exists>t. d1 = d\<lparr>db_findings := t\<rparr>"
  proof (rule foldE_invariant [OF d1(1)])
    show "\<exists>t. d = d\<lparr>db_findings := t\<rparr>" by (rule exI [of _ "db_findings d"]) simp
  qed (auto simp: reconcile_item_def split: prod.splits)
  with d1(2) show ?thesis by auto
qed

lemma reconcile_tx_db_ok: "db_ok lib d \<Longrightarrow> reconcile_tx lib now fs d = Inr (d', r) \<Longrightarrow> db_ok lib d'"
  using reconcile_tx_db by fastforce

end
