(* ===== verification/Control_Claim_Inv.thy ===== *)
theory Control_Claim_Inv
  imports Control_Ops_Inv
begin

text \<open>
  The heartbeat and the claim keep the invariant: a heartbeat moves the lease of a batch, of its
  attempts and of their work together; a claim inserts one batch whose attempts are the leased ones.
\<close>

section \<open>Heartbeat\<close>

definition fenced_by_items :: "claimed_work list \<Rightarrow> work_row \<Rightarrow> bool" where
  "fenced_by_items items w \<longleftrightarrow>
     (\<exists>c \<in> set items. work_fenced_by (c_work_id c) (c_attempt_id c) (c_fence c) w)"

definition renew_work :: "pyfloat \<Rightarrow> pyfloat \<Rightarrow> work_row \<Rightarrow> work_row" where
  "renew_work expires now w = w\<lparr>w_lease_expires_at := Some expires, w_updated_at := now\<rparr>"

lemma update_where_twice:
  assumes "\<And>r. q (f r) = q r" "\<And>r. f (f r) = f r"
  shows "update_where q f (update_where p f t) = update_where (\<lambda>r. p r \<or> q r) f t"
  using assms by (simp add: update_where_def)

lemma heartbeat_loop:
  assumes "foldE (heartbeat_item expires now) items d = Inr d'"
  shows "d' = d\<lparr>db_work := update_where (fenced_by_items items) (renew_work expires now) (db_work d)\<rparr>"
  using assms
proof (induction items arbitrary: d)
  case Nil
  then show ?case by (simp add: fenced_by_items_def [abs_def])
next
  case (Cons c items)
  let ?p = "work_fenced_by (c_work_id c) (c_attempt_id c) (c_fence c)"
  obtain d1 where d1: "heartbeat_item expires now c d = Inr d1"
    "foldE (heartbeat_item expires now) items d1 = Inr d'" using Cons.prems by auto
  have "d1 = d\<lparr>db_work := update_where ?p (renew_work expires now) (db_work d)\<rparr>"
    using d1(1) by (simp add: heartbeat_item_def Let_def renew_work_def [abs_def])
  moreover have "update_where (fenced_by_items items) (renew_work expires now)
      (update_where ?p (renew_work expires now) (db_work d)) =
      update_where (\<lambda>w. ?p w \<or> fenced_by_items items w) (renew_work expires now) (db_work d)"
    by (rule update_where_twice) (simp_all add: fenced_by_items_def work_fenced_by_def renew_work_def)
  ultimately show ?case using Cons.IH [OF d1(2)] by (simp add: fenced_by_items_def [abs_def])
qed

lemma set_process_rows: "set (process_rows i d) = {(a, w, b). a \<in> set (db_attempts d) \<and> a_batch_id a = i
    \<and> w \<in> set (db_work d) \<and> w_work_id w = a_work_id a \<and> b \<in> set (db_batches d)
    \<and> b_batch_id b = a_batch_id a}"
  unfolding process_rows_def set_map set_inner_join by (auto simp: image_iff)

lemma assert_process_rows_items:
  assumes core: "core_ok X d" and a: "a \<in> set (db_attempts d)" "a_batch_id a = e_batch_id e"
    and rows: "assert_process_rows e st d = Inr u"
  shows "\<exists>c \<in> set (e_items e). c_work_id c = a_work_id a \<and> c_attempt_id c = a_attempt_id a \<and> c_fence c = a_fence a"
proof -
  obtain w b where w: "w \<in> set (db_work d)" "b \<in> set (db_batches d)" "link_ok X a w b"
    using attempt_linkE [OF core a(1)] .
  have "(a, w, b) \<in> set (process_rows (e_batch_id e) d)"
    using a w by (simp add: set_process_rows link_ok_def)
  then have "(a_work_id a, a_attempt_id a, a_fence a, a_payload_sha256 a) \<in>
      set (map (\<lambda>(a, w, b). (a_work_id a, a_attempt_id a, a_fence a, a_payload_sha256 a))
        (process_rows (e_batch_id e) d))" by force
  then have "(a_work_id a, a_attempt_id a, a_fence a, a_payload_sha256 a) \<in>
      set (map (\<lambda>c. (c_work_id c, c_attempt_id c, c_fence c, c_payload_sha256 c)) (e_items e))"
    using rows unfolding assert_process_rows_def Let_def by (auto split: if_splits)
  then show ?thesis by auto
qed

lemma assert_process_rows_attempt:
  assumes rows: "assert_process_rows e st d = Inr u" and c: "c \<in> set (e_items e)"
  shows "\<exists>a \<in> set (db_attempts d). a_batch_id a = e_batch_id e \<and> a_attempt_id a = c_attempt_id c
    \<and> a_work_id a = c_work_id c"
proof -
  have "(c_work_id c, c_attempt_id c, c_fence c, c_payload_sha256 c) \<in>
      set (map (\<lambda>c. (c_work_id c, c_attempt_id c, c_fence c, c_payload_sha256 c)) (e_items e))"
    using c by auto
  then have "(c_work_id c, c_attempt_id c, c_fence c, c_payload_sha256 c) \<in>
      set (map (\<lambda>(a, w, b). (a_work_id a, a_attempt_id a, a_fence a, a_payload_sha256 a))
        (process_rows (e_batch_id e) d))"
    using rows unfolding assert_process_rows_def Let_def by (auto split: if_splits)
  then show ?thesis by (auto simp: set_process_rows)
qed

definition heartbeat_result :: "envelope \<Rightarrow> pyfloat \<Rightarrow> pyfloat \<Rightarrow> db \<Rightarrow> db" where
  "heartbeat_result e expires now d = d\<lparr>
     db_batches := update_where (\<lambda>x. b_batch_id x = e_batch_id e)
       (\<lambda>x. x\<lparr>b_lease_expires_at := expires\<rparr>) (db_batches d),
     db_attempts := update_where (\<lambda>a. a_batch_id a = e_batch_id e \<and> a_status a = A_LEASED)
       (\<lambda>a. a\<lparr>a_lease_expires_at := expires\<rparr>) (db_attempts d),
     db_work := update_where (fenced_by_items (e_items e)) (renew_work expires now) (db_work d)\<rparr>"

lemma heartbeat_tx_cases:
  assumes "heartbeat_tx e extension now d = Inr (d', u)"
  obtains b where "find_batch d (e_batch_id e) = Some b" "b_status b = B_LEASED" "now < b_lease_expires_at b"
    "assert_process_rows e B_LEASED d = Inr ()"
    "d' = heartbeat_result e (max (b_lease_expires_at b) (fadd now extension)) now d"
proof -
  obtain b where b: "find_batch d (e_batch_id e) = Some b"
    using assms by (auto simp: heartbeat_tx_def split: option.splits)
  with assms have "b_status b = B_LEASED" "now < b_lease_expires_at b" "assert_process_rows e B_LEASED d = Inr ()"
    by (auto simp: heartbeat_tx_def Let_def split: if_splits)
  moreover have "d' = heartbeat_result e (max (b_lease_expires_at b) (fadd now extension)) now d"
  proof -
    let ?x = "max (b_lease_expires_at b) (fadd now extension)"
    have "foldE (heartbeat_item ?x now) (e_items e) (d\<lparr>
        db_batches := update_where (\<lambda>x. b_batch_id x = e_batch_id e)
          (\<lambda>x. x\<lparr>b_lease_expires_at := ?x\<rparr>) (db_batches d),
        db_attempts := update_where (\<lambda>a. a_batch_id a = e_batch_id e \<and> a_status a = A_LEASED)
          (\<lambda>a. a\<lparr>a_lease_expires_at := ?x\<rparr>) (db_attempts d)\<rparr>) = Inr d'"
      using assms b calculation unfolding heartbeat_tx_def Let_def by simp
    from heartbeat_loop [OF this] show ?thesis by (simp add: heartbeat_result_def)
  qed
  ultimately show thesis using b that by blast
qed

lemma heartbeat_link:
  assumes core: "core_ok {} d" and b: "find_batch d (e_batch_id e) = Some b" "b_status b = B_LEASED"
    and rows: "assert_process_rows e B_LEASED d = Inr ()"
    and a: "a \<in> set (db_attempts d)" and l: "link_ok {} a w b'" "w \<in> set (db_work d)" "b' \<in> set (db_batches d)"
  shows "link_ok {}
    (if a_batch_id a = e_batch_id e \<and> a_status a = A_LEASED then a\<lparr>a_lease_expires_at := expires\<rparr> else a)
    (if fenced_by_items (e_items e) w then renew_work expires now w else w)
    (if b_batch_id b' = e_batch_id e then b'\<lparr>b_lease_expires_at := expires\<rparr> else b')"
proof (cases "attempt_active a")
  case False
  then have "a_status a \<noteq> A_LEASED" by (simp add: attempt_active_def)
  moreover have "link_ok {} a (if p then renew_work expires now w else w)
      (if q then b'\<lparr>b_lease_expires_at := expires\<rparr> else b')" for p q
    using False l(1) by (cases p; cases q) (simp_all add: link_ok_def renew_work_def)
  ultimately show ?thesis by simp
next
  case True
  have h: "holds_fence a w" "b_batch_id b' = a_batch_id a" "w_work_id w = a_work_id a"
    using l(1) True by (simp_all add: link_ok_def)
  show ?thesis
  proof (cases "a_batch_id a = e_batch_id e")
    case in_batch: True
    have "b' = b"
      by (rule batch_key [OF core_okD(1) [OF core] l(3)])
        (use find_batch_SomeD [OF b(1)] h(2) in_batch in simp_all)
    then have "a_status a = A_LEASED" using l(1) b(2) by (simp add: link_ok_def)
    moreover have "fenced_by_items (e_items e) w"
    proof -
      obtain c where "c \<in> set (e_items e)" "c_work_id c = a_work_id a" "c_attempt_id c = a_attempt_id a"
        "c_fence c = a_fence a"
        using assert_process_rows_items [OF core a in_batch rows] by blast
      with work_fenced_by_row [OF h(1,3)] show ?thesis unfolding fenced_by_items_def by metis
    qed
    moreover have "link_ok {} (a\<lparr>a_lease_expires_at := expires\<rparr>) (renew_work expires now w)
        (b'\<lparr>b_lease_expires_at := expires\<rparr>)"
      using l(1) h by (simp add: link_ok_def renew_work_def attempt_active_def holds_fence_def)
    ultimately show ?thesis using in_batch h(2) by simp
  next
    case other: False
    have "\<not> fenced_by_items (e_items e) w"
    proof
      assume "fenced_by_items (e_items e) w"
      then obtain c where c: "c \<in> set (e_items e)" "w_lease_attempt_id w = Some (c_attempt_id c)"
        by (auto simp: fenced_by_items_def work_fenced_by_def)
      obtain x where x: "x \<in> set (db_attempts d)" "a_batch_id x = e_batch_id e" "a_attempt_id x = c_attempt_id c"
        using assert_process_rows_attempt [OF rows c(1)] by blast
      have "x = a" by (rule attempt_key [OF core_okD(1) [OF core] x(1) a])
          (use x(3) c(2) h(1) in \<open>simp add: holds_fence_def\<close>)
      with x(2) other show False by simp
    qed
    with l(1) other h(2) show ?thesis by simp
  qed
qed

lemma heartbeat_core:
  assumes core: "core_ok {} d" and b: "find_batch d (e_batch_id e) = Some b" "b_status b = B_LEASED"
    and rows: "assert_process_rows e B_LEASED d = Inr ()"
  shows "core_ok {} (heartbeat_result e expires now d)" (is "core_ok {} ?d")
proof -
  let ?fa = "\<lambda>a. a\<lparr>a_lease_expires_at := expires\<rparr>"
  let ?pa = "\<lambda>a. a_batch_id a = e_batch_id e \<and> a_status a = A_LEASED"
  let ?pw = "fenced_by_items (e_items e)"
  have leased: "w_status w = W_LEASED" if "?pw w" for w
    using that by (auto simp: fenced_by_items_def work_fenced_by_def)
  have fenced: "w_committed_attempt_id w = None" "work_ok (renew_work expires now w)"
    if "?pw w" "w \<in> set (db_work d)" for w
    using core_okD(2) [OF core that(2)] leased [OF that(1)] by (auto simp: work_ok_def renew_work_def)
  have "map w_work_id (update_where ?pw (renew_work expires now) (db_work d)) = map w_work_id (db_work d)"
    "map attempt_sig (update_where ?pa ?fa (db_attempts d)) = map attempt_sig (db_attempts d)"
    "map b_batch_id (db_batches ?d) = map b_batch_id (db_batches d)"
    unfolding heartbeat_result_def
    by (simp_all add: update_where_key renew_work_def attempt_sig_def)
  then have "keys_ok ?d"
    using core_okD(1) [OF core] attempt_sig_keys [of "db_attempts ?d" "db_attempts d"]
    by (simp add: keys_ok_def heartbeat_result_def)
  moreover have "\<forall>w \<in> set (db_work ?d). work_ok w"
    using fenced(2) core_okD(2) [OF core] by (auto simp: heartbeat_result_def set_update_where)
  moreover have "attempts_ok {} ?d"
    unfolding attempts_ok_def
  proof
    fix x
    assume "x \<in> set (db_attempts ?d)"
    then obtain a where a: "a \<in> set (db_attempts d)" "x = (if ?pa a then ?fa a else a)"
      by (auto simp: heartbeat_result_def update_where_def)
    obtain w b' where w: "w \<in> set (db_work d)" "b' \<in> set (db_batches d)" "link_ok {} a w b'"
      using attempt_linkE [OF core a(1)] .
    show "\<exists>w \<in> set (db_work ?d). \<exists>b \<in> set (db_batches ?d). link_ok {} x w b"
      using heartbeat_link [OF core b rows a(1) w(3,1,2), of expires now] w(1,2)
      unfolding a(2) by (fastforce simp: heartbeat_result_def update_where_def)
  qed
  moreover have "leases_ok ?d"
    unfolding leases_ok_def
  proof (intro ballI impI)
    fix v
    assume "v \<in> set (db_work ?d)" "w_status v = W_LEASED"
    then obtain w where w: "w \<in> set (db_work d)" "w_status w = W_LEASED" "w_work_id w = w_work_id v"
      by (auto simp: heartbeat_result_def update_where_def renew_work_def split: if_splits)
    obtain a where "a \<in> set (db_attempts d)" "w_work_id w = a_work_id a" "attempt_active a"
      using leased_attempt [OF core w(1,2)] .
    then show "\<exists>x \<in> set (db_attempts ?d). a_work_id x = w_work_id v \<and> attempt_active x"
      by (intro bexI [of _ "if ?pa a then ?fa a else a"])
        (auto simp: heartbeat_result_def update_where_def attempt_active_def w(3))
  qed
  moreover have "publications_ok ?d"
    by (rule publications_ok_frame [OF core_okD(5) [OF core]])
      (use fenced(1) in \<open>auto simp: heartbeat_result_def set_update_where renew_work_def\<close>)
  moreover have "outputs_ok ?d"
    using core_okD(6) [OF core] by (fastforce simp: outputs_ok_def heartbeat_result_def update_where_def)
  ultimately show ?thesis by (simp add: core_ok_def)
qed

lemma heartbeat_tx_db_ok:
  assumes ok: "db_ok lib d" and eq: "heartbeat_tx e extension now d = Inr (d', u)"
  shows "db_ok lib d'"
proof -
  obtain b where b: "find_batch d (e_batch_id e) = Some b" "b_status b = B_LEASED"
    "assert_process_rows e B_LEASED d = Inr ()"
    "d' = heartbeat_result e (max (b_lease_expires_at b) (fadd now extension)) now d"
    using heartbeat_tx_cases [OF eq] by metis
  have "members_ok lib d'"
    by (rule members_ok_cong [of lib d])
      (use ok b(4) in \<open>simp_all add: db_ok_def heartbeat_result_def update_where_key attempt_sig_def batch_sig_def\<close>)
  moreover have "replays_ok d'"
    by (rule replays_ok_cong [of d])
      (use ok b(4) in \<open>simp_all add: db_ok_def heartbeat_result_def update_where_key work_sig_def renew_work_def\<close>)
  moreover have "core_ok {} d'" using heartbeat_core [OF _ b(1-3)] ok b(4) by (simp add: db_ok_def)
  ultimately show ?thesis by (simp add: db_ok_def)
qed

section \<open>Claim\<close>

definition payloads_match :: "claimed_work list \<Rightarrow> db \<Rightarrow> bool" where
  "payloads_match items d \<longleftrightarrow> (\<forall>c \<in> set items. \<forall>w \<in> set (db_work d).
     w_work_id w = c_work_id c \<longrightarrow> w_payload_sha256 w = c_payload_sha256 c)"

lemma idle_attempts:
  assumes "core_ok X d" "w \<in> set (db_work d)" "w_status w = W_READY"
    "a \<in> set (db_attempts d)" "link_ok X a w b"
  shows "\<not> attempt_active a" "a_status a \<noteq> A_SUCCEEDED"
  using assms(3,5) core_okD(2) [OF assms(1,2)] by (auto simp: link_ok_def holds_fence_def work_ok_def)

lemma claim_one_core:
  assumes core: "core_ok {} d" and w: "w \<in> set (db_work d)" "claimable c w"
    and pay: "w_payload_sha256 w = c_payload_sha256 c"
    and b: "b \<in> set (db_batches d)" "b_batch_id b = batch_id" "b_status b = B_LEASED" "b_lease_expires_at b = expires"
    and fresh: "c_attempt_id c \<notin> a_attempt_id ` set (db_attempts d)"
      "(c_work_id c, c_fence c) \<notin> (\<lambda>x. (a_work_id x, a_fence x)) ` set (db_attempts d)"
  shows "core_ok {} (d\<lparr>db_work := update_where (claimable c) (lease_work owner expires now c) (db_work d),
    db_attempts := db_attempts d @ [claimed_attempt batch_id expires now c]\<rparr>)" (is "core_ok {} ?d")
proof -
  let ?w = "lease_work owner expires now c w" and ?a = "claimed_attempt batch_id expires now c"
  have ready: "w_status w = W_READY" "w_work_id w = c_work_id c" "w_fence w = c_fence c - 1"
    using w(2) by (simp_all add: claimable_def)
  have wk: "work_ok w" by (rule core_okD(2) [OF core w(1)])
  have "replaces w_work_id w ?w (db_work d)
      (update_where (claimable c) (lease_work owner expires now c) (db_work d))"
    by (rule replaces_update_where [where k = w_work_id])
      (use w keys_okD(1) [OF core_okD(1) [OF core]] in \<open>simp_all add: claimable_def lease_work_def\<close>)
  then have set_w: "set (db_work ?d) = insert ?w (set (db_work d) - {w})"
    and ids: "map w_work_id (db_work ?d) = map w_work_id (db_work d)" using replacesD by simp_all
  have none: "w_committed_attempt_id w = None" "w_committed_attempt_id ?w = None"
    using wk ready by (auto simp: work_ok_def lease_work_def)
  have "keys_ok ?d" using core_okD(1) [OF core] ids fresh
    by (simp add: keys_ok_def claimed_attempt_def)
  moreover have "\<forall>x \<in> set (db_work ?d). work_ok x"
    using core_okD(2) [OF core] wk ready unfolding set_w by (auto simp: work_ok_def lease_work_def)
  moreover have "attempts_ok {} ?d"
    unfolding attempts_ok_def
  proof
    fix x
    assume x: "x \<in> set (db_attempts ?d)"
    show "\<exists>v \<in> set (db_work ?d). \<exists>y \<in> set (db_batches ?d). link_ok {} x v y"
    proof (cases "x = ?a")
      case True
      have "link_ok {} ?a ?w b" using b ready pay wk
        by (auto simp: link_ok_def claimed_attempt_def lease_work_def holds_fence_def work_ok_def)
      with True b(1) show ?thesis unfolding set_w by auto
    next
      case False
      with x have x': "x \<in> set (db_attempts d)" by simp
      obtain v y where v: "v \<in> set (db_work d)" "y \<in> set (db_batches d)" "link_ok {} x v y"
        using attempt_linkE [OF core x'] .
      show ?thesis
      proof (cases "v = w")
        case True
        with v(3) have l: "link_ok {} x w y" by simp
        have "link_ok {} x ?w y"
          by (rule link_ok_idle [OF l idle_attempts [OF core w(1) ready(1) x' l]])
            (use ready in \<open>simp_all add: lease_work_def\<close>)
        with v(2) show ?thesis unfolding set_w by auto
      next
        case False
        with v show ?thesis unfolding set_w by auto
      qed
    qed
  qed
  moreover have "leases_ok ?d"
    using core_okD(4) [OF core] ready unfolding leases_ok_def set_w
    by (auto simp: claimed_attempt_def lease_work_def attempt_active_def)
  moreover have "publications_ok ?d"
  proof (rule publications_ok_frame [OF core_okD(5) [OF core]])
    show "v \<in> set (db_work ?d)" if "v \<in> set (db_work d)" "w_committed_attempt_id v \<noteq> None" for v
      using that none(1) unfolding set_w by auto
    show "v \<in> set (db_work d)" if "v \<in> set (db_work ?d)" "w_committed_attempt_id v \<noteq> None" for v
      using that none(2) unfolding set_w by auto
  qed simp_all
  moreover have "outputs_ok ?d" using core_okD(6) [OF core] by (auto simp: outputs_ok_def)
  ultimately show ?thesis by (simp add: core_ok_def)
qed

lemma core_ok_members [simp]: "core_ok X (d\<lparr>db_members := ms\<rparr>) = core_ok X d"
  by (simp add: core_ok_def keys_ok_def attempts_ok_def leases_ok_def publications_ok_def outputs_ok_def)

lemma claim_loop_step:
  assumes "claim_loop owner batch_id expires now n (c # cs) d = Inr d'"
  obtains w d1 where "w \<in> set (db_work d)" "claimable c w"
    "c_attempt_id c \<notin> a_attempt_id ` set (db_attempts d)"
    "(c_work_id c, c_fence c) \<notin> (\<lambda>x. (a_work_id x, a_fence x)) ` set (db_attempts d)"
    "(batch_id, c_work_id c) \<notin> (\<lambda>x. (m_batch_id x, m_work_id x)) ` set (db_members d)"
    "c_attempt_id c \<notin> m_attempt_id ` set (db_members d)"
    "d1 = d\<lparr>db_work := update_where (claimable c) (lease_work owner expires now c) (db_work d),
       db_attempts := db_attempts d @ [claimed_attempt batch_id expires now c],
       db_members := db_members d @ [claimed_member batch_id n c]\<rparr>"
    "claim_loop owner batch_id expires now (Suc n) cs d1 = Inr d'"
proof -
  have "rowcount (claimable c) (db_work d) = 1" using assms by (auto split: if_splits)
  then have "filter (claimable c) (db_work d) \<noteq> []" by (auto simp: rowcount_def)
  then obtain w where "w \<in> set (db_work d)" "claimable c w" by (auto simp: filter_empty_conv)
  with assms show thesis
    by (intro that) (auto simp: insert_attempt_def insert_member_def claimed_attempt_def claimed_member_def
        split: if_splits)
qed

lemma claim_loop_core:
  assumes "claim_loop owner batch_id expires now n items d = Inr d'" "core_ok {} d" "payloads_match items d"
    and "b \<in> set (db_batches d)" "b_batch_id b = batch_id" "b_status b = B_LEASED" "b_lease_expires_at b = expires"
  shows "core_ok {} d'"
  using assms
proof (induction items arbitrary: n d)
  case (Cons c cs)
  from Cons.prems(1) show ?case
  proof (cases rule: claim_loop_step)
    case (1 w d1)
    have "core_ok {} d1"
      unfolding 1(7) using claim_one_core [OF Cons.prems(2) 1(1,2) _ Cons.prems(4-7) 1(3,4)]
        Cons.prems(3) 1(1,2) by (simp add: payloads_match_def claimable_def)
    moreover have "payloads_match cs d1"
      using Cons.prems(3) unfolding 1(7)
      by (auto simp: payloads_match_def set_update_where lease_work_def)
    ultimately show ?thesis
      using Cons.IH [OF 1(8)] Cons.prems(4-7) unfolding 1(7) by simp
  qed
qed simp

fun claimed_members :: "string \<Rightarrow> nat \<Rightarrow> claimed_work list \<Rightarrow> member_row list" where
  "claimed_members batch_id n [] = []"
| "claimed_members batch_id n (c # cs) = claimed_member batch_id n c # claimed_members batch_id (Suc n) cs"

lemma claimed_members_claims [simp]: "map member_claim (claimed_members batch_id n cs) = cs"
  by (induction cs arbitrary: n) (simp_all add: claimed_member_def member_claim_def)

lemma claimed_members_length [simp]: "length (claimed_members batch_id n cs) = length cs"
  by (induction cs arbitrary: n) simp_all

lemma claimed_members_batch: "m \<in> set (claimed_members batch_id n cs) \<Longrightarrow> m_batch_id m = batch_id \<and> n \<le> m_ordinal m"
  by (induction cs arbitrary: n) (fastforce simp: claimed_member_def)+

lemma claimed_members_sorted: "sorted (map m_ordinal (claimed_members batch_id n cs))"
  by (induction cs arbitrary: n) (auto simp: claimed_member_def dest!: claimed_members_batch)

text \<open>The loop appends one attempt and one member per claimed item, and changes nothing else but \<open>work\<close>.\<close>

lemma claim_loop_rows:
  assumes "claim_loop owner batch_id expires now n items d = Inr d'"
  shows "db_members d' = db_members d @ claimed_members batch_id n items
    \<and> db_attempts d' = db_attempts d @ map (claimed_attempt batch_id expires now) items
    \<and> db_batches d' = db_batches d \<and> db_replays d' = db_replays d
    \<and> db_publications d' = db_publications d \<and> db_outputs d' = db_outputs d
    \<and> map (\<lambda>w. (w_work_id w, w_replay_generation w)) (db_work d')
        = map (\<lambda>w. (w_work_id w, w_replay_generation w)) (db_work d)"
  using assms
proof (induction items arbitrary: n d)
  case (Cons c cs)
  from Cons.prems show ?case
  proof (cases rule: claim_loop_step)
    case (1 w d1)
    have "map (\<lambda>w. (w_work_id w, w_replay_generation w)) (db_work d1)
        = map (\<lambda>w. (w_work_id w, w_replay_generation w)) (db_work d)"
      unfolding 1(7) by (simp add: update_where_key lease_work_def)
    with Cons.IH [OF 1(8)] show ?thesis unfolding 1(7) by simp
  qed
qed simp

lemma claim_loop_member_keys:
  assumes "claim_loop owner batch_id expires now n items d = Inr d'"
    "distinct (map m_attempt_id (db_members d))" "distinct (map (\<lambda>m. (m_batch_id m, m_work_id m)) (db_members d))"
  shows "distinct (map m_attempt_id (db_members d')) \<and> distinct (map (\<lambda>m. (m_batch_id m, m_work_id m)) (db_members d'))"
  using assms
proof (induction items arbitrary: n d)
  case (Cons c cs)
  from Cons.prems(1) show ?case
  proof (cases rule: claim_loop_step)
    case (1 w d1)
    have "distinct (map m_attempt_id (db_members d1))" "distinct (map (\<lambda>m. (m_batch_id m, m_work_id m)) (db_members d1))"
      unfolding 1(7) using Cons.prems(2,3) 1(5,6) by (simp_all add: claimed_member_def)
    then show ?thesis using Cons.IH [OF 1(8)] by blast
  qed
qed simp

lemma member_batch_known:
  assumes "members_ok lib d" "core_ok X d" "m \<in> set (db_members d)"
  shows "m_batch_id m \<in> b_batch_id ` set (db_batches d)"
proof -
  obtain a where a: "a \<in> set (db_attempts d)" "same_item a m"
    using assms(1,3) by (auto simp: members_ok_def)
  obtain w b where "b \<in> set (db_batches d)" "link_ok X a w b" using attempt_linkE [OF assms(2) a(1)] .
  with a(2) show ?thesis by (force simp: link_ok_def same_item_def)
qed

lemma claimed_items_paired:
  assumes "items = map member_claim ms" "\<forall>m \<in> set ms. m_batch_id m = batch_id"
  shows "\<forall>a \<in> set (map (claimed_attempt batch_id expires now) items). \<exists>m \<in> set ms. same_item a m"
    "\<forall>m \<in> set ms. \<exists>a \<in> set (map (claimed_attempt batch_id expires now) items). same_item a m"
  using assms by (auto simp: same_item_def claimed_attempt_def member_claim_def)

lemma core_add_batch:
  assumes core: "core_ok X d" and fresh: "b_batch_id b \<notin> b_batch_id ` set (db_batches d)"
  shows "core_ok X (d\<lparr>db_batches := db_batches d @ [b]\<rparr>)"
proof -
  have "attempts_ok X (d\<lparr>db_batches := db_batches d @ [b]\<rparr>)"
    using core_okD(3) [OF core] unfolding attempts_ok_def by (simp add: bex_Un) blast
  then show ?thesis using core fresh
    by (simp add: core_ok_def keys_ok_def leases_ok_def publications_ok_def outputs_ok_def)
qed

lemma replays_ok_frame:
  assumes "replays_ok d" "db_replays d' = db_replays d"
    "map (\<lambda>w. (w_work_id w, w_replay_generation w)) (db_work d')
       = map (\<lambda>w. (w_work_id w, w_replay_generation w)) (db_work d)"
  shows "replays_ok d'"
proof -
  have "\<exists>w \<in> set (db_work d'). w_work_id w = r_work_id r \<and> r_generation r \<le> w_replay_generation w"
    if "r \<in> set (db_replays d)" for r
  proof -
    obtain w where w: "w \<in> set (db_work d)" "w_work_id w = r_work_id r" "r_generation r \<le> w_replay_generation w"
      using assms(1) \<open>r \<in> set (db_replays d)\<close> unfolding replays_ok_def by blast
    obtain v where "v \<in> set (db_work d')" "(w_work_id v, w_replay_generation v) = (w_work_id w, w_replay_generation w)"
      using in_image_sig [OF assms(3) [symmetric] w(1)] by blast
    with w(2,3) show ?thesis by (intro bexI [of _ v]) simp_all
  qed
  then show ?thesis using assms(1,2) by (simp add: replays_ok_def)
qed

lemma claim_members_ok:
  assumes mem: "members_ok lib d" and core: "core_ok X d"
    and fresh: "batch_id \<notin> b_batch_id ` set (db_batches d)" and pos: "items \<noteq> []"
    and ms: "db_members d' = db_members d @ claimed_members batch_id 0 items"
      "db_attempts d' = db_attempts d @ map (claimed_attempt batch_id expires now) items"
      "db_batches d' = db_batches d @ [b]"
    and keys: "distinct (map m_attempt_id (db_members d'))"
      "distinct (map (\<lambda>m. (m_batch_id m, m_work_id m)) (db_members d'))"
    and b: "b_batch_id b = batch_id" "b_item_count b = int (length items)"
      "b_membership_sha256 b = membership_sha256 lib items"
  shows "members_ok lib d'"
proof -
  let ?ms = "claimed_members batch_id 0 items"
  have no: "filter (\<lambda>m. m_batch_id m = batch_id) (db_members d) = []"
    using member_batch_known [OF mem core] fresh by (auto simp: filter_empty_conv)
  have all: "filter (\<lambda>m. m_batch_id m = batch_id) ?ms = ?ms"
    using claimed_members_batch by (auto simp: filter_id_conv)
  have new: "batch_members batch_id d' = ?ms"
    using no all claimed_members_sorted [of batch_id 0 items]
    by (simp add: batch_members_def ms(1) sort_key_id_if_sorted)
  have old: "batch_members (b_batch_id x) d' = batch_members (b_batch_id x) d" if "x \<in> set (db_batches d)" for x
  proof -
    have "b_batch_id x \<noteq> batch_id" using that fresh by auto
    then have "filter (\<lambda>m. m_batch_id m = b_batch_id x) ?ms = []"
      using claimed_members_batch by (fastforce simp: filter_empty_conv)
    then show ?thesis by (simp add: batch_members_def ms(1))
  qed
  have "batch_membership_ok lib d' b" using pos b by (simp add: batch_membership_ok_def new)
  moreover have "batch_membership_ok lib d' x" if "x \<in> set (db_batches d)" for x
    using mem that unfolding batch_membership_ok_def old [OF that] members_ok_def by blast
  moreover note pair = claimed_items_paired [of items ?ms batch_id expires now]
  ultimately show ?thesis
    using mem keys pair claimed_members_batch [of _ batch_id 0 items]
    unfolding members_ok_def ms by (simp add: ball_Un bex_Un)
qed

lemma claim_apply_db_ok:
  assumes ok: "db_ok lib d" and match: "payloads_match items d"
    and eq: "claim_apply lib cl pl batch_id expires now items so d = Inr d'"
  shows "db_ok lib d'"
proof -
  let ?b = "new_batch lib cl pl batch_id expires now items so"
  let ?d = "d\<lparr>db_batches := db_batches d @ [?b]\<rparr>"
  have fresh: "batch_id \<notin> b_batch_id ` set (db_batches d)" and pos: "items \<noteq> []"
    and loop: "claim_loop (cl_owner cl) batch_id expires now 0 items ?d = Inr d'"
    using eq by (auto simp: claim_apply_def insert_batch_def new_batch_def)
  have core: "core_ok {} d" and mem: "members_ok lib d" and rep: "replays_ok d"
    using ok by (simp_all add: db_ok_def)
  have "core_ok {} ?d" using core_add_batch [OF core] fresh by (simp add: new_batch_def)
  then have "core_ok {} d'"
    by (rule claim_loop_core [OF loop, where b = ?b]) (use match in \<open>simp_all add: payloads_match_def new_batch_def\<close>)
  moreover note rows = claim_loop_rows [OF loop]
  have "replays_ok d'" by (rule replays_ok_frame [OF rep]) (use rows in simp_all)
  moreover have "members_ok lib d'"
    by (rule claim_members_ok [OF mem core fresh pos, where b = ?b and expires = expires and now = now])
      (use rows claim_loop_member_keys [OF loop] mem in \<open>simp_all add: members_ok_def new_batch_def\<close>)
  ultimately show ?thesis by (simp add: db_ok_def)
qed

end
