(* ===== verification/Control_Claim_Spec.thy ===== *)
theory Control_Claim_Spec
  imports Control_Claim_Inv
begin

text \<open>
  What a claim selects and returns: the largest admissible prefix of one runtime's queue, one new
  attempt per row under the next fence, and an envelope file stored before the rows are leased.
\<close>

section \<open>The admissible prefix\<close>

definition admissible :: "admission \<Rightarrow> pyfloat \<Rightarrow> work_row list \<Rightarrow> bool" where
  "admissible ad lease prefix \<longleftrightarrow> (case projection ad prefix of
     Inl _ \<Rightarrow> False | Inr (workers, makespan, projected) \<Rightarrow> fadd projected (ad_margin ad) < lease)"

text \<open>\<open>n\<close> is the greatest count between the minimum and the number of rows that is admissible.\<close>

definition largest_prefix :: "admission \<Rightarrow> pyfloat \<Rightarrow> work_row list \<Rightarrow> nat \<Rightarrow> nat \<Rightarrow> bool" where
  "largest_prefix ad lease rows minimum n \<longleftrightarrow> minimum \<le> n \<and> n \<le> max minimum (length rows)
     \<and> admissible ad lease (take n rows)
     \<and> (\<forall>m. n < m \<and> m \<le> length rows \<longrightarrow> \<not> admissible ad lease (take m rows))"

lemma prefix_loop_spec:
  assumes "prefix_loop ad lease rows minimum count (take minimum rows, ws0, mk0) = Inr (prefix, ws, mk)"
    and "count \<le> length rows" "\<forall>m. count < m \<and> m \<le> length rows \<longrightarrow> \<not> admissible ad lease (take m rows)"
    and fallback: "admissible ad lease (take minimum rows)"
      "\<exists>pj. projection ad (take minimum rows) = Inr (ws0, mk0, pj)"
  shows "\<exists>n pj. prefix = take n rows \<and> largest_prefix ad lease rows minimum n
    \<and> projection ad (take n rows) = Inr (ws, mk, pj)"
  using assms(1-3)
proof (induction count)
  case 0
  then show ?case using fallback by (intro exI [of _ minimum]) (auto simp: largest_prefix_def)
next
  case (Suc count)
  show ?case
  proof (cases "Suc count \<le> minimum")
    case True
    then show ?thesis using Suc.prems fallback
      by (intro exI [of _ minimum]) (auto simp: largest_prefix_def)
  next
    case False
    obtain ws1 mk1 pj1 where p: "projection ad (take (Suc count) rows) = Inr (ws1, mk1, pj1)"
      using Suc.prems(1) False by auto
    show ?thesis
    proof (cases "fadd pj1 (ad_margin ad) < lease")
      case True
      then show ?thesis using Suc.prems False p
        by (intro exI [of _ "Suc count"]) (auto simp: largest_prefix_def admissible_def)
    next
      case no: False
      then have "\<not> admissible ad lease (take (Suc count) rows)" by (simp add: admissible_def p)
      then have "\<forall>m. count < m \<and> m \<le> length rows \<longrightarrow> \<not> admissible ad lease (take m rows)"
        using Suc.prems(3) by (metis Suc_lessI)
      with no False p Suc show ?thesis by simp
    qed
  qed
qed

lemma largest_admissible_spec:
  assumes "largest_admissible_claim_prefix rows minimum ad lease = Inr (prefix, ws, mk)"
  shows "\<exists>n pj. prefix = take n rows \<and> largest_prefix ad lease rows minimum n
    \<and> projection ad (take n rows) = Inr (ws, mk, pj)"
proof -
  obtain ws0 mk0 pj0 where p: "projection ad (take minimum rows) = Inr (ws0, mk0, pj0)"
    "fadd pj0 (ad_margin ad) < lease"
    "prefix_loop ad lease rows minimum (length rows) (take minimum rows, ws0, mk0) = Inr (prefix, ws, mk)"
    using assms by (auto simp: largest_admissible_claim_prefix_def Let_def split: if_splits)
  show ?thesis by (rule prefix_loop_spec [OF p(3)]) (use p in \<open>auto simp: admissible_def\<close>)
qed

lemma largest_prefix_unique:
  assumes "largest_prefix ad lease rows minimum n" "largest_prefix ad lease rows minimum m"
    "minimum \<le> length rows"
  shows "n = m"
  using assms unfolding largest_prefix_def by (metis linorder_neqE_nat max.absorb2)

section \<open>Selection\<close>

lemma claim_selectD:
  assumes "claim_select cl expected now d = Inr (Some pl)"
  obtains n where "largest_prefix (cl_admission cl) (cl_lease cl)
      (take (nat (cl_max_items cl)) (queue_order (runtime_rows (eligible (cl_scope cl) now d) (pl_runtime_key pl))))
      (nat (cl_minimum_items cl)) n"
    "pl_rows pl = take n (take (nat (cl_max_items cl))
      (queue_order (runtime_rows (eligible (cl_scope cl) now d) (pl_runtime_key pl))))"
    "cl_minimum_items cl \<le> int (length (take (nat (cl_max_items cl))
      (queue_order (runtime_rows (eligible (cl_scope cl) now d) (pl_runtime_key pl)))))"
    "select_runtime (eligible (cl_scope cl) now d) (cl_minimum_items cl) = Some (pl_runtime_key pl)"
    "require_release_compatibility (eligible (cl_scope cl) now d) expected = Inr ()"
proof -
  let ?rows = "eligible (cl_scope cl) now d"
  from assms obtain k ws mk where k: "select_runtime ?rows (cl_minimum_items cl) = Some k"
      "require_release_compatibility ?rows expected = Inr ()"
    "cl_minimum_items cl \<le> int (length (take (nat (cl_max_items cl)) (queue_order (runtime_rows ?rows k))))"
    "largest_admissible_claim_prefix (take (nat (cl_max_items cl)) (queue_order (runtime_rows ?rows k)))
       (nat (cl_minimum_items cl)) (cl_admission cl) (cl_lease cl) = Inr (pl_rows pl, ws, mk)"
    "pl_runtime_key pl = k"
    by (auto simp: claim_select_def Let_def split: if_splits option.splits)
  from largest_admissible_spec [OF k(4)] k show thesis using that by blast
qed

lemma set_queue_order [simp]: "set (queue_order rows) = set rows"
  by (simp add: queue_order_def)

lemma claim_rows_ready:
  assumes "claim_select cl expected now d = Inr (Some pl)" "w \<in> set (pl_rows pl)"
  shows "w \<in> set (db_work d)" "w_status w = W_READY" "w_available_at w \<le> now"
    "w_runtime_key w = pl_runtime_key pl" "in_scope (cl_scope cl) w"
proof -
  obtain n m where "pl_rows pl = take n (take m
      (queue_order (runtime_rows (eligible (cl_scope cl) now d) (pl_runtime_key pl))))"
    using claim_selectD [OF assms(1)] by metis
  with assms(2) have "w \<in> set (queue_order (runtime_rows (eligible (cl_scope cl) now d) (pl_runtime_key pl)))"
    by (metis in_set_takeD)
  then show "w \<in> set (db_work d)" "w_status w = W_READY" "w_available_at w \<le> now"
    "w_runtime_key w = pl_runtime_key pl" "in_scope (cl_scope cl) w"
    by (auto simp: runtime_rows_def eligible_def)
qed

definition claimed_row :: "(nat \<Rightarrow> string) \<Rightarrow> nat \<times> work_row \<Rightarrow> claimed_work" where
  "claimed_row ids iw = \<lparr>c_work_id = w_work_id (snd iw), c_attempt_id = ids (fst iw),
     c_fence = w_fence (snd iw) + 1, c_payload_sha256 = w_payload_sha256 (snd iw)\<rparr>"

lemma new_id_Inr: "new_id ids n = Inr i \<Longrightarrow> i = ids n"
  by (simp add: new_id_def required_text_def split: if_splits)

lemma claim_items_map:
  "claim_items ids n ws = Inr items \<Longrightarrow> items = map (claimed_row ids) (zip [n..<n + length ws] ws)"
proof (induction ws arbitrary: n items)
  case (Cons w ws)
  then obtain rest where r: "claim_items ids (Suc n) ws = Inr rest"
    "items = claimed_row ids (n, w) # rest"
    by (auto simp: claimed_row_def dest!: new_id_Inr)
  have "[n..<n + length (w # ws)] = n # [Suc n..<Suc n + length ws]"
    by (simp add: upt_rec)
  then show ?case using Cons.IH [OF r(1)] r(2) by simp
qed simp

lemma claim_items_columns:
  assumes "claim_items ids n ws = Inr items"
  shows "map c_work_id items = map w_work_id ws" "map c_fence items = map (\<lambda>w. w_fence w + 1) ws"
    "map c_attempt_id items = map ids [n..<n + length ws]"
proof -
  let ?z = "zip [n..<n + length ws] ws"
  have z: "map snd ?z = ws" "map fst ?z = [n..<n + length ws]" by simp_all
  have "map c_work_id items = map w_work_id (map snd ?z)" "map c_fence items = map (\<lambda>w. w_fence w + 1) (map snd ?z)"
    "map c_attempt_id items = map ids (map fst ?z)"
    unfolding claim_items_map [OF assms]
    by (simp_all add: claimed_row_def comp_def del: map_snd_zip map_fst_zip)
  then show "map c_work_id items = map w_work_id ws" "map c_fence items = map (\<lambda>w. w_fence w + 1) ws"
    "map c_attempt_id items = map ids [n..<n + length ws]" unfolding z .
qed

lemma claim_items_row:
  assumes "claim_items ids n ws = Inr items" "c \<in> set items"
  shows "\<exists>w \<in> set ws. c_work_id c = w_work_id w \<and> c_payload_sha256 c = w_payload_sha256 w
    \<and> c_fence c = w_fence w + 1"
  using assms(2) unfolding claim_items_map [OF assms(1)]
  by (auto simp: claimed_row_def dest!: set_zip_rightD)

lemma claim_items_match:
  assumes keys: "keys_ok d" and items: "claim_items ids n ws = Inr items" and ws: "set ws \<subseteq> set (db_work d)"
  shows "payloads_match items d"
  unfolding payloads_match_def
proof (intro ballI impI)
  fix c w
  assume c: "c \<in> set items" "w \<in> set (db_work d)" "w_work_id w = c_work_id c"
  obtain v where v: "v \<in> set ws" "c_work_id c = w_work_id v" "c_payload_sha256 c = w_payload_sha256 v"
    using claim_items_row [OF items c(1)] by blast
  have "v = w" by (rule work_key [OF keys]) (use v c ws in auto)
  with v(3) show "w_payload_sha256 w = c_payload_sha256 c" by simp
qed

section \<open>The operation\<close>

lemma claim_cases:
  assumes "claim lib clock ids ca s = (r, s')"
  obtains (error) e where "r = Inl e" "s' = s"
  | (empty) "r = Inr None" "s' = s"
  | (rolled_back) e v so fs where "r = Inl e" "put_json lib (st_base s) v (st_files s) = Inr (so, fs)"
      "s' = s\<lparr>st_files := fs\<rparr>"
  | (claimed) cl now pl items docs so fs d' where
      "validate_claim ca = Inr cl" "finite_num clock = Inr now"
      "claim_select cl (ca_expected_release_digest ca) now (st_db s) = Inr (Some pl)"
      "claim_items ids 1 (pl_rows pl) = Inr items"
      "put_json lib (st_base s) (claim_envelope cl pl (ids 0) now (fadd now (cl_lease cl))
         (membership_sha256 lib items) docs) (st_files s) = Inr (so, fs)"
      "claim_apply lib cl pl (ids 0) (fadd now (cl_lease cl)) now items so (st_db s) = Inr d'"
      "r = Inr (Some \<lparr>cb_batch_id = ids 0, cb_envelope_path = so_path so,
         cb_envelope_sha256 = so_sha256 so, cb_runtime_key = pl_runtime_key pl,
         cb_lease_expires_at = fadd now (cl_lease cl), cb_items = items\<rparr>)"
      "s' = s\<lparr>st_files := fs, st_db := d'\<rparr>"
  using assms
  by (fastforce simp: claim_def transaction_def bindE_def Let_def new_id_def required_text_def
      split: sum.splits option.splits prod.splits if_splits)

lemma transaction_files:
  assumes "transaction body s = (r, s')"
  shows "st_files s' = st_files s" "st_base s' = st_base s"
  using assms by (auto elim!: transaction_cases)

lemma put_json_keeps: "put_json lib base v fs = Inr (so, fs') \<Longrightarrow> map_of fs p = Some c \<Longrightarrow> map_of fs' p = Some c"
  unfolding put_json_def by (rule put_bytes_keeps)

lemma envelopes_ok_files:
  assumes "envelopes_ok lib s" "put_json lib base v (st_files s) = Inr (so, fs)"
  shows "envelopes_ok lib (s\<lparr>st_files := fs\<rparr>)"
  using assms(1) put_json_keeps [OF assms(2)] unfolding envelopes_ok_def by fastforce

lemma claim_apply_batches:
  assumes "claim_apply lib cl pl batch_id expires now items so d = Inr d'"
  shows "db_batches d' = db_batches d @ [new_batch lib cl pl batch_id expires now items so]"
  using assms claim_loop_rows by (fastforce simp: claim_apply_def insert_batch_def)

lemma claim_store_ok:
  assumes ok: "store_ok lib s" and eq: "claim lib clock ids ca s = (r, s')"
  shows "store_ok lib s'"
  using eq
proof (cases rule: claim_cases)
  case error
  with ok show ?thesis by simp
next
  case empty
  with ok show ?thesis by simp
next
  case (rolled_back e v so fs)
  with ok envelopes_ok_files [of lib s, OF _ rolled_back(2)] show ?thesis by (simp add: store_ok_def)
next
  case (claimed cl now pl items docs so fs d')
  have db: "db_ok lib (st_db s)" and env: "envelopes_ok lib s" using ok by (simp_all add: store_ok_def)
  have "set (pl_rows pl) \<subseteq> set (db_work (st_db s))" using claim_rows_ready(1) [OF claimed(3)] by blast
  then have "payloads_match items (st_db s)"
    using db claim_items_match [OF _ claimed(4)] by (simp add: db_ok_def core_ok_def)
  then have "db_ok lib d'" by (rule claim_apply_db_ok [OF db _ claimed(6)])
  moreover have "envelopes_ok lib s'"
    using envelopes_ok_files [OF env claimed(5)] put_bytes_stored [OF claimed(5) [unfolded put_json_def]]
      put_bytes_cases(1) [OF claimed(5) [unfolded put_json_def]] claim_apply_batches [OF claimed(6)]
    unfolding claimed(8) by (auto simp: envelopes_ok_def new_batch_def)
  ultimately show ?thesis by (simp add: store_ok_def claimed(8))
qed

end
