(* ===== verification/Process_Envelope_Spec.thy ===== *)
theory Process_Envelope_Spec
  imports Process_Envelope Control_Claim_Spec
begin

text \<open>
  The envelope that a claim writes is the envelope that the process verifies: reading the document back
  and verifying it succeeds and yields exactly the claimed items.  A JSON reader returns the written
  value with the keys of its objects in the order of the text (\<open>json_normal\<close>).
\<close>

section \<open>JSON up to the order of keys\<close>

primrec json_normal :: "pyval \<Rightarrow> pyval" where
  "json_normal PNone = PNone"
| "json_normal (PBool b) = PBool b"
| "json_normal (PInt i) = PInt i"
| "json_normal (PFloat x) = PFloat x"
| "json_normal (PNonFinite s) = PNonFinite s"
| "json_normal (PStr s) = PStr s"
| "json_normal (PList vs) = PList (map json_normal vs)"
| "json_normal (PDict kvs) = PDict (sort_key fst (map (map_prod id json_normal) kvs))"

lemma insort_same_key: "(\<And>a. fst (h a) = fst a) \<Longrightarrow> insort_key fst (h a) (map h xs) = map h (insort_key fst a xs)"
  by (induction xs) auto

lemma sort_same_key: "(\<And>a. fst (h a) = fst a) \<Longrightarrow> sort_key fst (map h xs) = map h (sort_key fst xs)"
  by (induction xs) (simp_all add: insort_same_key)

lemma sort_map_prod: "sort_key fst (map (map_prod id f) xs) = map (map_prod id f) (sort_key fst xs)"
  by (rule sort_same_key) simp

lemma sort_key_idem [simp]: "sort_key f (sort_key f xs) = sort_key f xs"
  by (simp add: sort_key_id_if_sorted)

lemma dumps_normal: "dumps lib (json_normal v) = dumps lib v"
proof (induction v)
  case (PList vs)
  then have "map (dumps lib) (map json_normal vs) = map (dumps lib) vs" by simp
  then show ?case by (simp only: json_normal.simps dumps.simps)
next
  case (PDict kvs)
  then have e: "map (map_prod id (dumps lib)) (map (map_prod id json_normal) kvs) = map (map_prod id (dumps lib)) kvs"
    by (auto simp: map_prod_def split: prod.splits)
  have "sort_key fst (map (map_prod id (dumps lib)) (sort_key fst (map (map_prod id json_normal) kvs))) =
      sort_key fst (map (map_prod id (dumps lib)) kvs)"
    by (simp only: sort_map_prod [symmetric] sort_key_idem e)
  then show ?case by simp
qed simp_all

lemma finite_normal: "finite_json (json_normal v) = finite_json v"
proof (induction v)
  case (PList vs)
  then show ?case by (simp add: list_all_iff)
next
  case (PDict kvs)
  then show ?case by (force simp: list_all_iff)
qed simp_all

lemma map_of_sort:
  assumes "distinct (map fst kvs)"
  shows "map_of (sort_key fst kvs) = map_of kvs"
proof (rule map_of_inject_set [THEN iffD2])
  show "distinct (map fst (sort_key fst kvs))"
    using assms by (simp add: distinct_map)
qed (use assms in simp_all)

lemma map_of_normal: "map_of (map (map_prod id f) kvs) k = map_option f (map_of kvs k)"
  by (induction kvs) auto

lemma dget_normal:
  assumes "distinct (map fst kvs)" "json_normal v = v"
  shows "dget (sort_key fst (map (map_prod id json_normal) kvs)) k v = json_normal (dget kvs k v)"
proof -
  have "distinct (map fst (map (map_prod id json_normal) kvs))" using assms(1) by (simp add: comp_def)
  from map_of_sort [OF this] have "map_of (sort_key fst (map (map_prod id json_normal) kvs)) k = map_option json_normal (map_of kvs k)"
    by (simp add: map_of_normal)
  then show ?thesis using assms(2) by (simp add: dget_def split: option.splits)
qed

section \<open>The items of a claim\<close>

definition text_ok :: "string \<Rightarrow> bool" where
  "text_ok s \<longleftrightarrow> py_strip s \<noteq> []"

definition digest_ok :: "string \<Rightarrow> bool" where
  "digest_ok s \<longleftrightarrow> length s = 64 \<and> list_all is_hex s"

text \<open>
  What the process expects of a row: texts that are not blank, a positive duration, a stored payload that reads back as
  an object whose canonical text is the stored one.  Registration guarantees all of it, up to the reader.
\<close>

definition work_valid :: "pylib \<Rightarrow> work_row \<Rightarrow> bool" where
  "work_valid lib w \<longleftrightarrow> text_ok (w_work_id w) \<and> text_ok (w_runtime_key w) \<and> text_ok (w_config_sha256 w)
     \<and> text_ok (w_release_digest w) \<and> 0 < w_duration_seconds w \<and> 0 \<le> w_fence w \<and> digest_ok (w_payload_sha256 w)
     \<and> (\<exists>d. json_loads lib (w_payload_json w) = Some (PDict d) \<and> distinct (map fst d) \<and> finite_json (PDict d)
          \<and> sha256_hex lib (dumps lib (PDict d)) = w_payload_sha256 w)"

text \<open>What the process expects beyond that, and registration does not check: the detector batch size of the payload.\<close>

definition batch_size_supported :: "pylib \<Rightarrow> work_row \<Rightarrow> bool" where
  "batch_size_supported lib w \<longleftrightarrow> (case json_loads lib (w_payload_json w) of
     Some (PDict d) \<Rightarrow> valid_batch_size (dget d ''batch_size'' (PInt 1)) | _ \<Rightarrow> False)"

lemma hex_not_space: "is_hex c \<Longrightarrow> \<not> py_space c"
  by (auto simp: is_hex_def py_space_def Let_def)

lemma digest_text: "digest_ok s \<Longrightarrow> text_ok s"
proof -
  assume d: "digest_ok s"
  then obtain c t where s: "s = c # t" "is_hex c" by (cases s) (auto simp: digest_ok_def)
  then have "dropWhile py_space s = s" using hex_not_space by simp
  then have "py_strip s = rev (dropWhile py_space (rev s))" by (simp add: py_strip_def)
  moreover have "dropWhile py_space (rev s) \<noteq> []" using s hex_not_space by (auto simp: dropWhile_eq_Nil_conv)
  ultimately show "text_ok s" by (simp add: text_ok_def)
qed

lemma process_text_ok: "text_ok s \<Longrightarrow> process_text (PStr s) = Inr s"
  by (simp add: process_text_def text_ok_def)

lemma process_sha_text_ok: "digest_ok s \<Longrightarrow> process_sha_text (PStr s) = Inr s"
  using process_text_ok [OF digest_text] by (simp add: process_sha_text_def digest_ok_def)

lemma valid_batch_size_normal: "valid_batch_size (json_normal v) = valid_batch_size v"
  by (cases v) (simp_all add: valid_batch_size_def)

definition item_of :: "(string \<times> pyval) list \<Rightarrow> nat \<Rightarrow> work_row \<Rightarrow> claimed_work \<Rightarrow> envelope_item" where
  "item_of d n w c = \<lparr>ei_ordinal = int n, ei_work_id = c_work_id c, ei_attempt_id = c_attempt_id c,
     ei_fence = c_fence c, ei_payload_sha256 = c_payload_sha256 c,
     ei_payload = sort_key fst (map (map_prod id json_normal) d), ei_config_sha256 = w_config_sha256 w,
     ei_release_digest = w_release_digest w, ei_duration_seconds = w_duration_seconds w,
     ei_runtime_key = w_runtime_key w\<rparr>"

lemma verify_item_claimed:
  assumes w: "work_valid lib w" and d: "json_loads lib (w_payload_json w) = Some (PDict d)"
    and c: "c_work_id c = w_work_id w" "c_payload_sha256 c = w_payload_sha256 w" "c_fence c = w_fence w + 1"
      "text_ok (c_attempt_id c)" "(c_work_id c, c_attempt_id c) \<notin> set identities"
  shows "verify_item lib (w_runtime_key w) identities n (json_normal (PDict
      [(''ordinal'', PInt (int n)), (''work_id'', PStr (c_work_id c)),
       (''attempt_id'', PStr (c_attempt_id c)), (''fence'', PInt (c_fence c)),
       (''payload_sha256'', PStr (c_payload_sha256 c)), (''payload'', PDict d),
       (''config_sha256'', PStr (w_config_sha256 w)), (''release_digest'', PStr (w_release_digest w)),
       (''duration_seconds'', PFloat (w_duration_seconds w))])) =
    (if batch_size_supported lib w then Inr (item_of d n w c) else Inl ProcessValidationError)"
proof -
  let ?kvs = "[(''ordinal'', PInt (int n)), (''work_id'', PStr (c_work_id c)),
       (''attempt_id'', PStr (c_attempt_id c)), (''fence'', PInt (c_fence c)),
       (''payload_sha256'', PStr (c_payload_sha256 c)), (''payload'', PDict d),
       (''config_sha256'', PStr (w_config_sha256 w)), (''release_digest'', PStr (w_release_digest w)),
       (''duration_seconds'', PFloat (w_duration_seconds w))]"
  let ?d = "sort_key fst (map (map_prod id json_normal) ?kvs)" and ?p = "sort_key fst (map (map_prod id json_normal) d)"
  have "distinct (map fst ?kvs)" by simp
  from dget_normal [OF this] have get: "dget ?d k v = json_normal (dget ?kvs k v)" if "json_normal v = v" for k v using that .
  have pay: "distinct (map fst d)" "finite_json (PDict d)" "sha256_hex lib (dumps lib (PDict d)) = w_payload_sha256 w"
    using w d by (auto simp: work_valid_def)
  have "process_sha256 lib (PDict ?p) = Inr (w_payload_sha256 w)"
    using pay(2,3) finite_normal [of "PDict d"] dumps_normal [of lib "PDict d"]
    by (simp add: process_sha256_def process_canonical_def del: dumps.simps finite_json.simps)
  moreover have "valid_batch_size (dget ?p ''batch_size'' (PInt 1)) = batch_size_supported lib w"
    using pay(1) by (simp add: dget_normal valid_batch_size_normal batch_size_supported_def d)
  moreover have "process_text (PStr (w_work_id w)) = Inr (w_work_id w)" "process_text (PStr (c_attempt_id c)) = Inr (c_attempt_id c)"
    "process_text (PStr (w_config_sha256 w)) = Inr (w_config_sha256 w)"
    "process_text (PStr (w_release_digest w)) = Inr (w_release_digest w)"
    "process_sha_text (PStr (w_payload_sha256 w)) = Inr (w_payload_sha256 w)"
    using w c(4) by (auto simp: work_valid_def intro!: process_text_ok process_sha_text_ok)
  ultimately show ?thesis
    using c w unfolding verify_item_def json_normal.simps pyval.case get [OF json_normal.simps(1)]
    by (simp add: get dget_def process_nonnegative_int_def process_positive_int_def process_positive_float_def
        process_finite_def py_str_def item_of_def work_valid_def Let_def del: dumps.simps)
qed

text \<open>The whole list: the verified items are the claimed ones, in order.\<close>

definition item_matches :: "work_row \<times> claimed_work \<Rightarrow> envelope_item \<Rightarrow> bool" where
  "item_matches wc i \<longleftrightarrow> item_claim i = snd wc \<and> ei_duration_seconds i = w_duration_seconds (fst wc)
     \<and> ei_runtime_key i = w_runtime_key (fst wc) \<and> ei_release_digest i = w_release_digest (fst wc)
     \<and> ei_config_sha256 i = w_config_sha256 (fst wc)"

definition claim_pair_ok :: "pylib \<Rightarrow> string \<Rightarrow> work_row \<times> claimed_work \<Rightarrow> bool" where
  "claim_pair_ok lib rk wc \<longleftrightarrow> work_valid lib (fst wc) \<and> w_runtime_key (fst wc) = rk
     \<and> c_work_id (snd wc) = w_work_id (fst wc) \<and> c_payload_sha256 (snd wc) = w_payload_sha256 (fst wc)
     \<and> c_fence (snd wc) = w_fence (fst wc) + 1 \<and> text_ok (c_attempt_id (snd wc))"

lemma verify_items_claimed:
  assumes "envelope_items lib n wcs = Inr docs" "\<forall>wc \<in> set wcs. claim_pair_ok lib rk wc"
    and "distinct (map (\<lambda>wc. c_work_id (snd wc)) wcs)" "\<forall>wc \<in> set wcs. c_work_id (snd wc) \<notin> fst ` set identities"
  shows "if \<forall>wc \<in> set wcs. batch_size_supported lib (fst wc)
    then \<exists>items. verify_items lib rk identities n (map json_normal docs) = Inr items \<and> list_all2 item_matches wcs items
    else verify_items lib rk identities n (map json_normal docs) = Inl ProcessValidationError"
  using assms
proof (induction lib n wcs arbitrary: docs identities rule: envelope_items.induct)
  case (2 lib n w c wcs)
  obtain d where d: "json_loads lib (w_payload_json w) = Some (PDict d)"
    using 2(3) by (auto simp: claim_pair_ok_def work_valid_def)
  obtain rest where rest: "envelope_items lib (Suc n) wcs = Inr rest"
    using 2(2) d by auto
  let ?doc = "PDict [(''ordinal'', PInt (int n)), (''work_id'', PStr (c_work_id c)),
       (''attempt_id'', PStr (c_attempt_id c)), (''fence'', PInt (c_fence c)),
       (''payload_sha256'', PStr (c_payload_sha256 c)), (''payload'', PDict d),
       (''config_sha256'', PStr (w_config_sha256 w)), (''release_digest'', PStr (w_release_digest w)),
       (''duration_seconds'', PFloat (w_duration_seconds w))]"
  have docs: "docs = ?doc # rest" using 2(2) d rest by simp
  have pair: "work_valid lib w" "w_runtime_key w = rk" "c_work_id c = w_work_id w" "c_payload_sha256 c = w_payload_sha256 w"
    "c_fence c = w_fence w + 1" "text_ok (c_attempt_id c)" using 2(3) by (simp_all add: claim_pair_ok_def)
  have "(c_work_id c, c_attempt_id c) \<notin> set identities" using 2(5) by force
  then have first: "verify_item lib rk identities n (json_normal ?doc) =
      (if batch_size_supported lib w then Inr (item_of d n w c) else Inl ProcessValidationError)"
    using verify_item_claimed [OF pair(1) d pair(3-6)] pair(2) by simp
  let ?rest = "verify_items lib rk ((c_work_id c, c_attempt_id c) # identities) (Suc n) (map json_normal rest)"
  have IH: "if \<forall>wc \<in> set wcs. batch_size_supported lib (fst wc) then \<exists>items. ?rest = Inr items \<and> list_all2 item_matches wcs items
      else ?rest = Inl ProcessValidationError"
    using 2(3-5) by (intro 2(1) [OF d rest]) (auto simp: image_iff)
  have "item_matches (w, c) (item_of d n w c)" by (simp add: item_matches_def item_of_def item_claim_def)
  then show ?case unfolding docs using first IH by (auto simp: item_of_def split: if_splits)
qed simp

section \<open>From a claim to a verified envelope\<close>

text \<open>The document a successful claim has written.\<close>

definition claim_document :: "pylib \<Rightarrow> pyval \<Rightarrow> (nat \<Rightarrow> string) \<Rightarrow> claim_args \<Rightarrow> store \<Rightarrow> pyval option" where
  "claim_document lib clock ids ca s =
     (case bindE (validate_claim ca) (\<lambda>cl. bindE (finite_num clock) (\<lambda>now.
           bindE (claim_select cl (ca_expected_release_digest ca) now (st_db s)) (\<lambda>sel.
           case sel of
             None \<Rightarrow> Inr None
           | Some pl \<Rightarrow>
               bindE (claim_items ids 1 (pl_rows pl)) (\<lambda>items.
               bindE (envelope_items lib 0 (zip (pl_rows pl) items)) (\<lambda>docs.
                 Inr (Some (claim_envelope cl pl (ids 0) now (fadd now (cl_lease cl)) (membership_sha256 lib items) docs))))))) of
        Inl e \<Rightarrow> None | Inr x \<Rightarrow> x)"

lemma claim_documentD:
  assumes "claim lib clock ids ca s = (Inr (Some cb), s')" "claim_document lib clock ids ca s = Some doc"
  obtains cl now pl items docs so fs d' where
    "validate_claim ca = Inr cl" "finite_num clock = Inr now" "text_ok (ids 0)"
    "claim_select cl (ca_expected_release_digest ca) now (st_db s) = Inr (Some pl)"
    "claim_items ids 1 (pl_rows pl) = Inr items" "envelope_items lib 0 (zip (pl_rows pl) items) = Inr docs"
    "doc = claim_envelope cl pl (ids 0) now (fadd now (cl_lease cl)) (membership_sha256 lib items) docs"
    "put_json lib (st_base s) doc (st_files s) = Inr (so, fs)"
    "claim_apply lib cl pl (ids 0) (fadd now (cl_lease cl)) now items so (st_db s) = Inr d'"
    "cb = \<lparr>cb_batch_id = ids 0, cb_envelope_path = so_path so, cb_envelope_sha256 = so_sha256 so,
       cb_runtime_key = pl_runtime_key pl, cb_lease_expires_at = fadd now (cl_lease cl), cb_items = items\<rparr>"
    "s' = s\<lparr>st_files := fs, st_db := d'\<rparr>"
  using assms
  by (fastforce simp: claim_def claim_document_def transaction_def bindE_def Let_def new_id_def required_text_def text_ok_def
      split: sum.splits option.splits prod.splits if_splits)

lemma claim_items_attempts: "claim_items ids n ws = Inr items \<Longrightarrow> c \<in> set items \<Longrightarrow> text_ok (c_attempt_id c)"
  by (induction ws arbitrary: n items) (auto simp: new_id_def required_text_def text_ok_def split: if_splits)

lemma claim_items_pairs:
  assumes "claim_items ids n ws = Inr items" "(w, c) \<in> set (zip ws items)"
  shows "c_work_id c = w_work_id w \<and> c_payload_sha256 c = w_payload_sha256 w \<and> c_fence c = w_fence w + 1"
  using assms by (induction ws arbitrary: n items) auto

lemma claim_items_length: "claim_items ids n ws = Inr items \<Longrightarrow> length items = length ws"
  by (induction ws arbitrary: n items) auto

lemma queue_rows_distinct:
  assumes "keys_ok d" "claim_select cl expected now d = Inr (Some pl)"
  shows "distinct (map w_work_id (pl_rows pl))"
proof -
  let ?rows = "runtime_rows (eligible (cl_scope cl) now d) (pl_runtime_key pl)"
  obtain n m where rows: "pl_rows pl = take n (take m (queue_order ?rows))" using claim_selectD [OF assms(2)] by metis
  have d: "distinct (map w_work_id (db_work d))" using assms(1) by (simp add: keys_ok_def)
  then have "distinct (map w_work_id ?rows)"
    by (simp add: runtime_rows_def eligible_def distinct_map_filter)
  then have "distinct ?rows" "inj_on w_work_id (set ?rows)" by (simp_all add: distinct_map)
  then have "distinct (map w_work_id (queue_order ?rows))" by (simp add: queue_order_def distinct_map)
  then show ?thesis unfolding rows take_map [symmetric] by (intro distinct_take)
qed

definition envelope_entries :: "claim_settings \<Rightarrow> claim_plan \<Rightarrow> string \<Rightarrow> pyfloat \<Rightarrow> pyfloat \<Rightarrow> string \<Rightarrow> pyval list
    \<Rightarrow> (string \<times> pyval) list" where
  "envelope_entries cl pl batch_id now expires membership docs =
     (case json_normal (claim_envelope cl pl batch_id now expires membership docs) of PDict d \<Rightarrow> d | _ \<Rightarrow> [])"

lemma envelope_entries:
  "json_normal (claim_envelope cl pl batch_id now expires membership docs) =
     PDict (envelope_entries cl pl batch_id now expires membership docs)"
  by (simp add: envelope_entries_def claim_envelope_def)

lemma envelope_gets:
  fixes cl pl batch_id now expires membership docs
  defines "d \<equiv> envelope_entries cl pl batch_id now expires membership docs"
  shows "dget d ''schema_version'' PNone = PInt 1" "dget d ''batch_id'' PNone = PStr batch_id"
    "dget d ''owner'' PNone = PStr (cl_owner cl)" "dget d ''runtime_key'' PNone = PStr (pl_runtime_key pl)"
    "dget d ''membership_sha256'' PNone = PStr membership" "dget d ''items'' PNone = PList (map json_normal docs)"
    "dget d ''claimed_at'' PNone = PFloat now" "dget d ''lease_expires_at'' PNone = PFloat expires"
proof -
  obtain kvs where kvs: "claim_envelope cl pl batch_id now expires membership docs = PDict kvs"
    by (simp add: claim_envelope_def)
  have "distinct (map fst kvs)" using kvs by (auto simp: claim_envelope_def)
  moreover have "d = sort_key fst (map (map_prod id json_normal) kvs)"
    unfolding d_def envelope_entries_def kvs by simp
  ultimately have get: "dget d k PNone = json_normal (dget kvs k PNone)" for k by (simp add: dget_normal)
  show "dget d ''schema_version'' PNone = PInt 1" "dget d ''batch_id'' PNone = PStr batch_id"
    "dget d ''owner'' PNone = PStr (cl_owner cl)" "dget d ''runtime_key'' PNone = PStr (pl_runtime_key pl)"
    "dget d ''membership_sha256'' PNone = PStr membership" "dget d ''items'' PNone = PList (map json_normal docs)"
    "dget d ''claimed_at'' PNone = PFloat now" "dget d ''lease_expires_at'' PNone = PFloat expires"
    unfolding get using kvs by (auto simp: claim_envelope_def dget_def)
qed

lemma verify_envelope_claimed:
  fixes batch_id :: string and now expires :: pyfloat
  assumes items: "envelope_items lib 0 (zip ws cs) = Inr docs" "\<forall>wc \<in> set (zip ws cs). claim_pair_ok lib (pl_runtime_key pl) wc"
      "distinct (map c_work_id cs)" "length cs = length ws" "cs \<noteq> []"
    and texts: "text_ok (cl_owner cl)" "\<And>t. digest_ok (sha256_hex lib t)" "digest_ok digest"
  defines "verified \<equiv> verify_envelope lib (envelope_entries cl pl batch_id now expires (membership_sha256 lib cs) docs) batch_id digest"
  shows "if \<forall>w \<in> set ws. batch_size_supported lib w then \<exists>v. verified = Inr v
    \<and> ve_batch_id v = batch_id \<and> map item_claim (ve_items v) = cs \<and> ve_runtime_key v = pl_runtime_key pl
    \<and> ve_lease_expires_at v = expires \<and> ve_membership_sha256 v = membership_sha256 lib cs
    \<and> ve_envelope_sha256 v = digest \<and> list_all2 item_matches (zip ws cs) (ve_items v)
    else verified = Inl ProcessValidationError"
proof -
  have snd: "map (\<lambda>wc. c_work_id (snd wc)) (zip ws cs) = map c_work_id cs"
  proof -
    have "map (\<lambda>wc. c_work_id (snd wc)) (zip ws cs) = map c_work_id (map snd (zip ws cs))" by simp
    also have "map snd (zip ws cs) = cs" using items(4) by simp
    finally show ?thesis .
  qed
  let ?its = "verify_items lib (pl_runtime_key pl) [] 0 (map json_normal docs)"
  have fst: "(\<forall>wc \<in> set (zip ws cs). batch_size_supported lib (fst wc)) \<longleftrightarrow> (\<forall>w \<in> set ws. batch_size_supported lib w)"
  proof -
    have "set ws = fst ` set (zip ws cs)" using items(4) by (metis list.set_map map_fst_zip)
    then show ?thesis by simp
  qed
  have its: "if \<forall>w \<in> set ws. batch_size_supported lib w then \<exists>its. ?its = Inr its \<and> list_all2 item_matches (zip ws cs) its
      else ?its = Inl ProcessValidationError"
    using verify_items_claimed [OF items(1,2), of "[]"] snd items(3) unfolding fst by simp
  have claims: "map item_claim its = cs" if "list_all2 item_matches (zip ws cs) its" for its
  proof (rule nth_equalityI)
    have len: "length its = length cs" using list_all2_lengthD [OF that] items(4) by simp
    then show "length (map item_claim its) = length cs" by simp
    fix i assume "i < length (map item_claim its)"
    then show "map item_claim its ! i = cs ! i" using list_all2_nthD2 [OF that, of i] len items(4) by (simp add: item_matches_def)
  qed
  obtain w c where "(w, c) \<in> set (zip ws cs)" using items(4,5) by (cases ws; cases cs) auto
  then have "text_ok (pl_runtime_key pl)" using items(2) by (auto simp: claim_pair_ok_def work_valid_def)
  moreover have "docs \<noteq> []"
    using items(1,4,5) by (cases ws; cases cs) (auto split: option.splits)
  moreover have "process_sha_text (PStr (membership_sha256 lib cs)) = Inr (membership_sha256 lib cs)"
    using texts(2) by (intro process_sha_text_ok) (simp add: membership_sha256_def)
  ultimately show ?thesis
    using texts its claims unfolding verified_def
    by (auto simp: verify_envelope_def envelope_gets process_text_ok process_sha_text_ok process_finite_def py_eq_int_def split: if_splits)
qed

text \<open>What the library is trusted with for one document: no collision with a stored object, and a reader
  that returns the written value.\<close>

definition reads_back :: "pylib \<Rightarrow> files \<Rightarrow> pyval \<Rightarrow> bool" where
  "reads_back lib fs doc \<longleftrightarrow> json_loads lib (dumps lib doc) = Some (json_normal doc)
     \<and> (\<forall>(p, c) \<in> set fs. sha256_hex lib c = sha256_hex lib (dumps lib doc) \<longrightarrow> c = dumps lib doc)"

lemma put_json_content:
  assumes "put_json lib base doc fs = Inr (so, fs')" "reads_back lib fs doc"
  shows "map_of fs' (so_path so) = Some (dumps lib doc)" "so_sha256 so = sha256_hex lib (dumps lib doc)"
  using put_bytes_cases [OF assms(1) [unfolded put_json_def]] assms(2)
  by (auto simp: reads_back_def map_add_Some_iff dest: map_of_SomeD)

lemma load_claimed:
  assumes put: "put_json lib (st_base s) doc (st_files s) = Inr (so, fs)" and reads: "reads_back lib (st_files s) doc"
    and doc: "doc = claim_envelope cl pl i now expires membership docs" and i: "text_ok i"
    and leased: "claim_apply lib cl pl i expires now items so (st_db s) = Inr d'"
  shows "load_claim_envelope_with_digest lib (PStr i) (s\<lparr>st_files := fs, st_db := d'\<rparr>) =
    Inr (envelope_entries cl pl i now expires membership docs, so_sha256 so)"
proof -
  let ?b = "new_batch lib cl pl i expires now items so"
  have "i \<notin> b_batch_id ` set (db_batches (st_db s))"
    using leased by (auto simp: claim_apply_def insert_batch_def new_batch_def split: if_splits)
  then have "find_batch d' i = Some ?b"
    using claim_apply_batches [OF leased] by (simp add: find_batch_def find_append find_fresh new_batch_def)
  moreover have "required_text (PStr i) = Inr i" using i by (simp add: required_text_def text_ok_def)
  moreover have "json_loads lib (dumps lib doc) = Some (PDict (envelope_entries cl pl i now expires membership docs))"
    using reads unfolding reads_back_def doc envelope_entries by blast
  ultimately show ?thesis
    using put_json_content [OF put reads]
    by (simp add: load_claim_envelope_with_digest_def load_claim_envelope_def Let_def new_batch_def envelope_gets py_eq_int_def
        del: dumps.simps)
qed

lemma claimed_rows_supported:
  assumes "keys_ok d" "set ws \<subseteq> set (db_work d)" "claim_items ids n ws = Inr items"
  shows "(\<forall>c \<in> set items. \<forall>w \<in> set (db_work d). w_work_id w = c_work_id c \<longrightarrow> P w) \<longleftrightarrow> (\<forall>w \<in> set ws. P w)"
proof -
  have ids: "map c_work_id items = map w_work_id ws" by (rule claim_items_columns(1) [OF assms(3)])
  then have "c_work_id ` set items = w_work_id ` set ws" by (metis list.set_map)
  moreover have "w' = w" if "w \<in> set ws" "w' \<in> set (db_work d)" "w_work_id w' = w_work_id w" for w w'
    by (rule work_key [OF assms(1)]) (use that assms(2) in auto)
  ultimately have "w \<in> set (db_work d) \<and> (\<exists>c \<in> set items. w_work_id w = c_work_id c) \<longleftrightarrow> w \<in> set ws" for w
    using assms(2) by (fastforce simp: set_eq_iff image_iff)
  then show ?thesis by blast
qed

lemma claim_verifies:
  assumes ok: "store_ok lib s" and claim: "claim lib clock ids ca s = (Inr (Some cb), s')"
    and doc: "claim_document lib clock ids ca s = Some doc" "reads_back lib (st_files s) doc"
    and lib: "\<And>t. digest_ok (sha256_hex lib t)" and rows: "\<forall>w \<in> set (db_work (st_db s)). work_valid lib w"
  defines "supported \<equiv> \<forall>c \<in> set (cb_items cb). \<forall>w \<in> set (db_work (st_db s)). w_work_id w = c_work_id c \<longrightarrow> batch_size_supported lib w"
  obtains d where "load_claim_envelope_with_digest lib (PStr (cb_batch_id cb)) s' = Inr (d, cb_envelope_sha256 cb)"
    "if supported then \<exists>v. verify_envelope lib d (cb_batch_id cb) (cb_envelope_sha256 cb) = Inr v
        \<and> ve_batch_id v = cb_batch_id cb \<and> map item_claim (ve_items v) = cb_items cb \<and> ve_runtime_key v = cb_runtime_key cb
        \<and> ve_lease_expires_at v = cb_lease_expires_at cb \<and> ve_membership_sha256 v = membership_sha256 lib (cb_items cb)
        \<and> ve_envelope_sha256 v = cb_envelope_sha256 cb
      else verify_envelope lib d (cb_batch_id cb) (cb_envelope_sha256 cb) = Inl ProcessValidationError"
proof -
  from claim doc(1) obtain cl now pl items docs so fs d' where c: "validate_claim ca = Inr cl" "text_ok (ids 0)"
    "claim_select cl (ca_expected_release_digest ca) now (st_db s) = Inr (Some pl)"
    "claim_items ids 1 (pl_rows pl) = Inr items" "envelope_items lib 0 (zip (pl_rows pl) items) = Inr docs"
    "doc = claim_envelope cl pl (ids 0) now (fadd now (cl_lease cl)) (membership_sha256 lib items) docs"
    "put_json lib (st_base s) doc (st_files s) = Inr (so, fs)"
    "claim_apply lib cl pl (ids 0) (fadd now (cl_lease cl)) now items so (st_db s) = Inr d'"
    and cb: "cb = \<lparr>cb_batch_id = ids 0, cb_envelope_path = so_path so, cb_envelope_sha256 = so_sha256 so,
       cb_runtime_key = pl_runtime_key pl, cb_lease_expires_at = fadd now (cl_lease cl), cb_items = items\<rparr>"
    and s': "s' = s\<lparr>st_files := fs, st_db := d'\<rparr>"
    by (rule claim_documentD)
  have keys: "keys_ok (st_db s)" using ok by (simp add: store_ok_def db_ok_def core_ok_def)
  have sub: "set (pl_rows pl) \<subseteq> set (db_work (st_db s))" using claim_rows_ready(1) [OF c(3)] by blast
  have "claim_pair_ok lib (pl_runtime_key pl) wc" if "wc \<in> set (zip (pl_rows pl) items)" for wc
  proof -
    obtain w x where wc: "wc = (w, x)" by (cases wc)
    have w: "w \<in> set (pl_rows pl)" "x \<in> set items" using that wc by (auto dest: set_zip_leftD set_zip_rightD)
    show ?thesis using claim_items_pairs [OF c(4)] claim_items_attempts [OF c(4) w(2)] that rows sub w(1) claim_rows_ready(4) [OF c(3) w(1)]
      by (auto simp: claim_pair_ok_def wc)
  qed
  moreover have "distinct (map c_work_id items)"
    using queue_rows_distinct [OF keys c(3)] claim_items_columns(1) [OF c(4)] by simp
  moreover have "items \<noteq> []"
    using c(8) by (auto simp: claim_apply_def insert_batch_def new_batch_def split: if_splits)
  moreover have "text_ok (cl_owner cl)"
    using c(1) by (auto simp: validate_claim_def required_text_def text_ok_def split: pyval.splits if_splits)
  moreover have "so_sha256 so = sha256_hex lib (dumps lib doc)" by (rule put_json_content(2) [OF c(7) doc(2)])
  ultimately have v: "if \<forall>w \<in> set (pl_rows pl). batch_size_supported lib w then \<exists>v. verify_envelope lib
        (envelope_entries cl pl (ids 0) now (fadd now (cl_lease cl)) (membership_sha256 lib items) docs) (ids 0) (so_sha256 so) = Inr v
      \<and> ve_batch_id v = ids 0 \<and> map item_claim (ve_items v) = items \<and> ve_runtime_key v = pl_runtime_key pl
      \<and> ve_lease_expires_at v = fadd now (cl_lease cl) \<and> ve_membership_sha256 v = membership_sha256 lib items
      \<and> ve_envelope_sha256 v = so_sha256 so \<and> list_all2 item_matches (zip (pl_rows pl) items) (ve_items v)
    else verify_envelope lib (envelope_entries cl pl (ids 0) now (fadd now (cl_lease cl)) (membership_sha256 lib items) docs)
        (ids 0) (so_sha256 so) = Inl ProcessValidationError"
    by (intro verify_envelope_claimed [OF c(5)]) (use claim_items_length [OF c(4)] lib in auto)
  have "supported \<longleftrightarrow> (\<forall>w \<in> set (pl_rows pl). batch_size_supported lib w)"
    unfolding supported_def cb by (simp add: claimed_rows_supported [OF keys sub c(4)])
  then show thesis
    using that [of "envelope_entries cl pl (ids 0) now (fadd now (cl_lease cl)) (membership_sha256 lib items) docs"]
      load_claimed [OF c(7) doc(2) c(6,2,8), folded s'] v
    unfolding cb by (simp split: if_splits) blast
qed

end
