(* ===== verification/Process_Staging_Spec.thy ===== *)
theory Process_Staging_Spec
  imports Process_Attempts Process_Plan_Spec Process_Envelope_Spec
begin

text \<open>
  What validated staging means: every record belongs to one claimed item and carries the identity of the
  batch, its envelope and its placement, no logical record occurs twice, and every item has exactly one
  terminal record.
\<close>

section \<open>The loop over the records\<close>

text \<open>A record that the checks accept for an identity, apart from the test for duplicates.\<close>

definition record_accepted :: "pylib \<Rightarrow> string \<Rightarrow> verified_envelope \<Rightarrow> execution_plan \<Rightarrow> staged
    \<Rightarrow> identity \<times> string \<times> int \<Rightarrow> bool" where
  "record_accepted lib pkg env plan r x \<longleftrightarrow> validate_staged_record lib pkg env plan [] r = Inr x"

lemma validate_staged_recordE:
  assumes "validate_staged_record lib pkg env plan logical r = Inr x"
  obtains t s payload w a item planned identity digest where
    "validate_staged_record_schema lib r = Inr (t, s, payload)"
    "process_text (dget r ''work_id'' PNone) = Inr w" "process_text (dget r ''attempt_id'' PNone) = Inr a"
    "map_of (expected_items env) (w, a) = Some item" "map_of (planned_items plan) (w, a) = Some planned"
    "x = ((w, a), t, s)" "((w, a), s) \<notin> set logical" "model_identity lib (ei_payload item) = Inr identity"
    "\<not> list_ex (\<lambda>(name, value). \<not> py_eq (dget r name PNone) value) (staged_checks lib pkg env plan item planned identity)"
    "process_sha256 lib (PDict payload) = Inr digest" "dget r ''record_payload_sha256'' PNone = PStr digest"
    "\<not> (t \<in> set TERMINAL_TYPES \<and> (t = ''error'') \<noteq> (dget r ''status'' PNone = PStr ''FAILED''))"
proof -
  obtain t s payload w a where v: "validate_staged_record_schema lib r = Inr (t, s, payload)"
    "process_text (dget r ''work_id'' PNone) = Inr w" "process_text (dget r ''attempt_id'' PNone) = Inr a"
    using assms by (fastforce simp: validate_staged_record_def split: option.splits prod.splits)
  moreover obtain item where item: "map_of (expected_items env) (w, a) = Some item"
    using assms v by (cases "map_of (expected_items env) (w, a)") (auto simp: validate_staged_record_def)
  moreover obtain planned where planned: "map_of (planned_items plan) (w, a) = Some planned"
    using assms v item by (cases "map_of (planned_items plan) (w, a)") (auto simp: validate_staged_record_def)
  moreover obtain identity digest where "model_identity lib (ei_payload item) = Inr identity"
    "process_sha256 lib (PDict payload) = Inr digest"
    using assms v item planned by (auto simp: validate_staged_record_def)
  ultimately show thesis using assms
    by (intro that [of t s payload w a item planned identity digest]) (simp_all add: validate_staged_record_def)
qed

lemma record_not_logical:
  assumes "validate_staged_record lib pkg env plan logical r = Inr x"
  shows "record_accepted lib pkg env plan r x" "(fst x, snd (snd x)) \<notin> set logical"
  using assms by (atomize(full), elim validate_staged_recordE)
    (simp add: record_accepted_def validate_staged_record_def)

lemma validate_loopD:
  assumes "validate_loop lib pkg env plan logical rs = Inr vs"
  shows "map (\<lambda>(i, t, r). r) vs = rs \<and> (\<exists>seqs. length seqs = length vs
    \<and> list_all2 (\<lambda>(i, t, r) s. record_accepted lib pkg env plan r (i, t, s)) vs seqs
    \<and> distinct (zip (map fst vs) seqs) \<and> set (zip (map fst vs) seqs) \<inter> set logical = {})"
  using assms
proof (induction rs arbitrary: logical vs)
  case (Cons r rs)
  then obtain i t s vs' where v: "validate_staged_record lib pkg env plan logical r = Inr (i, t, s)"
    "validate_loop lib pkg env plan ((i, s) # logical) rs = Inr vs'" "vs = (i, t, r) # vs'" by auto
  from Cons.IH [OF v(2)] obtain seqs where ih: "map (\<lambda>(i, t, r). r) vs' = rs" "length seqs = length vs'"
    "list_all2 (\<lambda>(i, t, r) s. record_accepted lib pkg env plan r (i, t, s)) vs' seqs"
    "distinct (zip (map fst vs') seqs)" "set (zip (map fst vs') seqs) \<inter> set ((i, s) # logical) = {}" by blast
  show ?case using ih record_not_logical [OF v(1)] v(3)
    by (intro conjI exI [of _ "s # seqs"]) auto
qed auto

section \<open>Grouping\<close>

lemma foldl_dset:
  assumes "distinct (map k items)" "\<forall>i \<in> set items. k i \<notin> fst ` set d"
  shows "foldl (\<lambda>d i. dset (k i) (v i) d) d items = d @ map (\<lambda>i. (k i, v i)) items"
  using assms
proof (induction items arbitrary: d)
  case (Cons x xs)
  have "k x \<notin> fst ` set d \<Longrightarrow> dset (k x) (v x) d = d @ [(k x, v x)]"
    by (induction d) auto
  then have "foldl (\<lambda>d i. dset (k i) (v i) d) d (x # xs) = foldl (\<lambda>d i. dset (k i) (v i) d) (d @ [(k x, v x)]) xs"
    using Cons.prems(2) by simp
  also have "\<dots> = (d @ [(k x, v x)]) @ map (\<lambda>i. (k i, v i)) xs"
    using Cons.prems by (intro Cons.IH) (auto simp: image_iff)
  finally show ?case by simp
qed simp

lemma filter_one:
  assumes "length (filter P xs) = 1"
  shows "\<exists>x \<in> set xs. P x \<and> (\<forall>y \<in> set xs. P y \<longrightarrow> y = x)"
proof -
  obtain x where "filter P xs = [x]" using assms by (auto simp: length_Suc_conv)
  then have "{y \<in> set xs. P y} = {x}" by (metis set_filter list.set(1) list.simps(15))
  then show ?thesis by blast
qed

lemma acceptedE:
  assumes "record_accepted lib pkg env plan r (i, t, s)"
  obtains payload item planned identity digest where
    "validate_staged_record_schema lib r = Inr (t, s, payload)"
    "process_text (dget r ''work_id'' PNone) = Inr (fst i)" "process_text (dget r ''attempt_id'' PNone) = Inr (snd i)"
    "map_of (expected_items env) i = Some item" "map_of (planned_items plan) i = Some planned"
    "model_identity lib (ei_payload item) = Inr identity"
    "list_all (\<lambda>(name, value). py_eq (dget r name PNone) value) (staged_checks lib pkg env plan item planned identity)"
    "process_sha256 lib (PDict payload) = Inr digest" "dget r ''record_payload_sha256'' PNone = PStr digest"
    "t \<in> set TERMINAL_TYPES \<Longrightarrow> (t = ''error'') = (dget r ''status'' PNone = PStr ''FAILED'')"
  using assms that unfolding record_accepted_def
  by (elim validate_staged_recordE) (force simp: list_ex_iff list_all_iff)

lemma accepted_identity:
  assumes "record_accepted lib pkg env plan r (i, t, s)"
  shows "i \<in> item_identity ` set (ve_items env)"
  using assms by (rule acceptedE) (auto simp: expected_items_def dest!: map_of_SomeD)

lemma accepted_all:
  assumes "list_all2 (\<lambda>(i, t, r) s. record_accepted lib pkg env plan r (i, t, s)) vs seqs" "(i, t, r) \<in> set vs"
  shows "\<exists>s. record_accepted lib pkg env plan r (i, t, s)"
proof -
  obtain k where "k < length vs" "vs ! k = (i, t, r)" using assms(2) by (auto simp: in_set_conv_nth)
  then show ?thesis using list_all2_nthD [OF assms(1), of k] by auto
qed

text \<open>The columns of an accepted record.\<close>

lemma process_text_Inr: "process_text v = Inr x \<longleftrightarrow> v = PStr x \<and> py_strip x \<noteq> []"
  by (auto simp: process_text_def split: pyval.splits if_splits)

lemma accepted_type:
  assumes "record_accepted lib pkg env plan r (i, t, s)"
  shows "map_of r ''record_type'' = Some (PStr t)" "map_of r ''work_id'' = Some (PStr (fst i))"
    "map_of r ''attempt_id'' = Some (PStr (snd i))" "map_of r ''record_sequence'' = Some (PInt s)" "0 \<le> s"
proof -
  from assms obtain payload where v: "validate_staged_record_schema lib r = Inr (t, s, payload)"
    "process_text (dget r ''work_id'' PNone) = Inr (fst i)" "process_text (dget r ''attempt_id'' PNone) = Inr (snd i)"
    by (rule acceptedE)
  show "map_of r ''record_type'' = Some (PStr t)" "map_of r ''record_sequence'' = Some (PInt s)" "0 \<le> s"
    using v(1) by (auto simp: validate_staged_record_schema_def item_get_def process_text_Inr process_nonnegative_int_def
        split: option.splits pyval.splits if_splits)
  show "map_of r ''work_id'' = Some (PStr (fst i))" "map_of r ''attempt_id'' = Some (PStr (snd i))"
    using v(2,3) by (auto simp: process_text_Inr dget_def split: option.splits)
qed

lemma accepted_columns:
  assumes "record_accepted lib pkg env plan r (i, t, s)" "distinct (map item_identity (ve_items env))"
    and "item \<in> set (ve_items env)" "item_identity item = i"
  shows "\<exists>planned identity. map_of (planned_items plan) i = Some planned \<and> model_identity lib (ei_payload item) = Inr identity
    \<and> list_all (\<lambda>(name, value). py_eq (dget r name PNone) value) (staged_checks lib pkg env plan item planned identity)"
proof -
  have "distinct (map item_identity (rev (ve_items env)))" using assms(2) unfolding rev_map [symmetric] by simp
  then have "map_of (expected_items env) i = Some item"
    unfolding expected_items_def using assms(3,4) by (intro map_of_is_SomeI) (auto simp: comp_def)
  then show ?thesis using assms(1) by (elim acceptedE) auto
qed

section \<open>The validated set\<close>

definition terminal_record :: "staged \<Rightarrow> bool" where
  "terminal_record r \<longleftrightarrow> dget r ''record_type'' PNone \<in> PStr ` set TERMINAL_TYPES"

definition logical_key :: "staged \<Rightarrow> pyval \<times> pyval \<times> pyval" where
  "logical_key r = (dget r ''work_id'' PNone, dget r ''attempt_id'' PNone, dget r ''record_sequence'' PNone)"

text \<open>A record with the identity, envelope, fence and placement of an item.\<close>

definition record_of :: "pylib \<Rightarrow> string \<Rightarrow> verified_envelope \<Rightarrow> execution_plan \<Rightarrow> envelope_item \<Rightarrow> staged \<Rightarrow> bool" where
  "record_of lib pkg env plan i r \<longleftrightarrow> dget r ''work_id'' PNone = PStr (ei_work_id i)
     \<and> dget r ''attempt_id'' PNone = PStr (ei_attempt_id i)
     \<and> (\<exists>planned identity. map_of (planned_items plan) (item_identity i) = Some planned
          \<and> model_identity lib (ei_payload i) = Inr identity
          \<and> list_all (\<lambda>(name, value). py_eq (dget r name PNone) value) (staged_checks lib pkg env plan i planned identity))"

lemma dget_map_of: "map_of d k = Some v \<Longrightarrow> dget d k x = v"
  by (simp add: dget_def)

lemma accepted_terminal:
  "record_accepted lib pkg env plan r (i, t, s) \<Longrightarrow> terminal_record r \<longleftrightarrow> t \<in> set TERMINAL_TYPES"
  using accepted_type(1) by (auto simp: terminal_record_def dget_map_of)

lemma accepted_key:
  "record_accepted lib pkg env plan r (i, t, s) \<Longrightarrow> logical_key r = (PStr (fst i), PStr (snd i), PInt s)"
  using accepted_type [of lib pkg env plan r i t s] by (simp add: logical_key_def dget_map_of)

definition group_of :: "(identity \<times> string \<times> staged) list \<Rightarrow> envelope_item \<Rightarrow> staged list" where
  "group_of vs i = map (\<lambda>(identity, t, r). r) (filter (\<lambda>v. fst v = item_identity i) vs)"

lemma validate_staged_recordsE:
  assumes "validate_staged_records lib pkg records env plan = Inr grouped" "distinct (map ei_work_id (ve_items env))"
  obtains vs seqs where "map (\<lambda>(i, t, r). r) vs = records" "length seqs = length vs"
    "list_all2 (\<lambda>(i, t, r) s. record_accepted lib pkg env plan r (i, t, s)) vs seqs"
    "distinct (zip (map fst vs) seqs)" "grouped = map (\<lambda>i. (ei_work_id i, group_of vs i)) (ve_items env)"
    "\<forall>i \<in> set (ve_items env). length (filter (\<lambda>(identity, t, r). identity = item_identity i \<and> t \<in> set TERMINAL_TYPES) vs) = 1"
proof -
  obtain vs where vs: "validate_loop lib pkg env plan [] records = Inr vs"
    and one: "\<forall>i \<in> set (ve_items env). length (filter (\<lambda>(identity, t, r). identity = item_identity i \<and> t \<in> set TERMINAL_TYPES) vs) = 1"
    and grouped: "grouped = foldl (\<lambda>d i. dset (ei_work_id i) (group_of vs i) d) [] (ve_items env)"
    using assms(1) by (auto simp: validate_staged_records_def group_of_def list_ex_iff)
  have "grouped = map (\<lambda>i. (ei_work_id i, group_of vs i)) (ve_items env)"
    unfolding grouped using foldl_dset [of ei_work_id "ve_items env" "[]"] assms(2) by simp
  with validate_loopD [OF vs] one show thesis using that by blast
qed

lemma distinct_identities: "distinct (map ei_work_id items) \<Longrightarrow> distinct (map item_identity items)"
  by (auto simp: distinct_map inj_on_def item_identity_def)

lemma grouped_records:
  assumes "validate_staged_records lib pkg records env plan = Inr grouped" "distinct (map ei_work_id (ve_items env))"
  shows "map fst grouped = map ei_work_id (ve_items env)"
    "mset (concat (map snd grouped)) = mset records" "distinct (map logical_key records)"
proof -
  from assms obtain vs seqs where v: "map (\<lambda>(i, t, r). r) vs = records" "length seqs = length vs"
    "list_all2 (\<lambda>(i, t, r) s. record_accepted lib pkg env plan r (i, t, s)) vs seqs"
    "distinct (zip (map fst vs) seqs)" "grouped = map (\<lambda>i. (ei_work_id i, group_of vs i)) (ve_items env)"
    by (rule validate_staged_recordsE)
  show "map fst grouped = map ei_work_id (ve_items env)" by (simp add: v(5) comp_def)
  let ?ids = "map item_identity (ve_items env)"
  have in_ids: "fst x \<in> set ?ids" if "x \<in> set vs" for x
    using accepted_all [OF v(3), of "fst x" "fst (snd x)" "snd (snd x)"] that accepted_identity by fastforce
  have "mset (concat (map snd grouped)) = image_mset (\<lambda>(i, t, r). r) (mset (concat (map (\<lambda>k. filter (\<lambda>x. fst x = k) vs) ?ids)))"
    by (simp add: v(5) group_of_def comp_def mset_map [symmetric] map_concat del: mset_map)
  also have "\<dots> = image_mset (\<lambda>(i, t, r). r) (mset (filter (\<lambda>x. fst x \<in> set ?ids) vs))"
    using mset_filter_classes [of ?ids fst vs] distinct_identities [OF assms(2)] by simp
  also have "filter (\<lambda>x. fst x \<in> set ?ids) vs = vs" using in_ids by (intro filter_True) auto
  also have "image_mset (\<lambda>(i, t, r). r) (mset vs) = mset records" using v(1) by (metis mset_map)
  finally show "mset (concat (map snd grouped)) = mset records" .
  have "map logical_key records = map (\<lambda>((w, a), s). (PStr w, PStr a, PInt s)) (zip (map fst vs) seqs)"
  proof (rule nth_equalityI)
    fix k assume "k < length (map logical_key records)"
    then have k: "k < length vs" using arg_cong [OF v(1), of length] by simp
    obtain i t r where x: "vs ! k = (i, t, r)" by (cases "vs ! k") auto
    have "records ! k = r" using v(1) x k by (auto simp: nth_map)
    moreover have "record_accepted lib pkg env plan r (i, t, seqs ! k)" using list_all2_nthD [OF v(3) k] x by simp
    ultimately show "map logical_key records ! k = map (\<lambda>((w, a), s). (PStr w, PStr a, PInt s)) (zip (map fst vs) seqs) ! k"
      using accepted_key k x v(2) arg_cong [OF v(1), of length] by (auto simp: split: prod.splits)
  qed (use v(2) arg_cong [OF v(1), of length] in simp)
  moreover have "inj_on (\<lambda>((w, a), s). (PStr w, PStr a, PInt s)) A" for A by (auto simp: inj_on_def)
  ultimately show "distinct (map logical_key records)" using v(4) by (simp only: distinct_map simp_thms)
qed

lemma grouped_item:
  assumes "validate_staged_records lib pkg records env plan = Inr grouped" "distinct (map ei_work_id (ve_items env))"
    and "i \<in> set (ve_items env)"
  obtains rs where "map_of grouped (ei_work_id i) = Some rs" "length (filter terminal_record rs) = 1"
    "list_all (record_of lib pkg env plan i) rs"
proof -
  from assms(1,2) obtain vs seqs where v: "map (\<lambda>(i, t, r). r) vs = records" "length seqs = length vs"
    "list_all2 (\<lambda>(i, t, r) s. record_accepted lib pkg env plan r (i, t, s)) vs seqs"
    "distinct (zip (map fst vs) seqs)" "grouped = map (\<lambda>i. (ei_work_id i, group_of vs i)) (ve_items env)"
    "\<forall>i \<in> set (ve_items env). length (filter (\<lambda>(identity, t, r). identity = item_identity i \<and> t \<in> set TERMINAL_TYPES) vs) = 1"
    by (rule validate_staged_recordsE)
  have "map_of grouped (ei_work_id i) = Some (group_of vs i)"
    unfolding v(5) using assms(2,3) by (intro map_of_is_SomeI) (auto simp: comp_def)
  moreover have "filter terminal_record (group_of vs i) =
      map (\<lambda>(i, t, r). r) (filter (\<lambda>(identity, t, r). identity = item_identity i \<and> t \<in> set TERMINAL_TYPES) vs)"
  proof -
    have "filter (\<lambda>(identity, t, r). identity = item_identity i \<and> t \<in> set TERMINAL_TYPES) vs =
        filter (\<lambda>x. fst x = item_identity i \<and> terminal_record (snd (snd x))) vs"
    proof (intro filter_cong refl)
      fix x assume "x \<in> set vs"
      moreover obtain j t r where x: "x = (j, t, r)" by (cases x)
      ultimately obtain s where "record_accepted lib pkg env plan r (j, t, s)" using accepted_all [OF v(3)] by blast
      from accepted_terminal [OF this]
      show "(case x of (identity, t, r) \<Rightarrow> identity = item_identity i \<and> t \<in> set TERMINAL_TYPES) =
          (fst x = item_identity i \<and> terminal_record (snd (snd x)))" by (simp add: x)
    qed
    then show ?thesis unfolding group_of_def by (simp add: filter_map comp_def case_prod_beta conj_commute)
  qed
  moreover have "record_of lib pkg env plan i r" if r: "r \<in> set (group_of vs i)" for r
  proof -
    obtain t where "(item_identity i, t, r) \<in> set vs" using r by (auto simp: group_of_def)
    then obtain s where a: "record_accepted lib pkg env plan r (item_identity i, t, s)" using accepted_all [OF v(3)] by blast
    show ?thesis unfolding record_of_def
      using accepted_columns [OF a distinct_identities [OF assms(2)] assms(3) refl] accepted_type(2,3) [OF a]
      by (simp add: item_identity_def dget_map_of)
  qed
  ultimately show thesis using that v(6) assms(3) by (simp add: list_all_iff)
qed

end
