(* ===== verification/Process_Executor_Spec.thy ===== *)
theory Process_Executor_Spec
  imports Process_Executor Process_Staging_Spec
begin

text \<open>
  The records an executor emits are the records the driver accepts: every record of a partition passes the
  schema, the provenance and the placement checks of \<open>validate_staged_records\<close> for the item
  of its row.
\<close>

section \<open>Dictionaries\<close>

lemma dset_new: "k \<notin> fst ` set d \<Longrightarrow> dset k v d = d @ [(k, v)]"
  by (induction d) auto

lemma map_of_dict_update: "map_of (dict_update d e) = map_of d ++ map_of (rev e)"
  by (induction e arbitrary: d) (auto simp: dict_update_def map_of_dset fun_eq_iff map_add_def split: option.splits)

lemma map_of_rev_distinct: "distinct (map fst e) \<Longrightarrow> map_of (rev e) = map_of e"
  by (simp add: map_of_inject_set rev_map [symmetric])

lemma dict_update_lookup:
  assumes "distinct (map fst e)"
  shows "map_of (dict_update d e) k = (case map_of e k of None \<Rightarrow> map_of d k | Some v \<Rightarrow> Some v)"
  using assms by (simp add: map_of_dict_update map_add_def map_of_rev_distinct)

lemma dict_update_append:
  assumes "distinct (map fst e)" "fst ` set d \<inter> fst ` set e = {}"
  shows "dict_update d e = d @ e"
  using assms
proof (induction e arbitrary: d)
  case (Cons x e)
  obtain k v where x: "x = (k, v)" by (cases x)
  have "dset k v d = d @ [(k, v)]" using Cons.prems(2) by (intro dset_new) (auto simp: x)
  moreover have "dict_update (d @ [(k, v)]) e = (d @ [(k, v)]) @ e" using Cons.prems by (intro Cons.IH) (auto simp: x)
  ultimately show ?case by (simp add: dict_update_def x)
qed (simp add: dict_update_def)

section \<open>The record of a row\<close>

text \<open>What differs between the records of one row.\<close>

record emission =
  eo_type :: string
  eo_status :: string
  eo_json :: string
  eo_digest :: string
  eo_details :: record_details
  eo_now :: string
  eo_sequence :: nat

text \<open>What the records of one row share.\<close>

record row_context =
  ro_planned :: planned_item
  ro_model :: string
  ro_source :: string
  ro_task :: task_identity
  ro_threads :: int
  ro_loads :: int
  ro_hits :: int

definition raw_record :: "row_context \<Rightarrow> emission \<Rightarrow> staged" where
  "raw_record c m = [(''record_type'', PStr (eo_type m)), (''work_id'', PStr (ei_work_id (pi_item (ro_planned c)))),
     (''attempt_id'', PStr (ei_attempt_id (pi_item (ro_planned c)))), (''source_video'', PStr (ro_source c)),
     (''status'', PStr (eo_status m)), (''payload_json'', PStr (eo_json m)), (''error_type'', rd_error_type (eo_details m)),
     (''error_message'', rd_error_message (eo_details m)), (''retryable'', rd_retryable (eo_details m)),
     (''processed_frames'', rd_processed_frames (eo_details m)), (''processing_seconds'', rd_processing_seconds (eo_details m)),
     (''emitted_at_utc'', PStr (eo_now m))]"

definition added_columns :: "pylib \<Rightarrow> string \<Rightarrow> verified_envelope \<Rightarrow> concurrency_decision \<Rightarrow> row_context \<Rightarrow> emission \<Rightarrow> staged" where
  "added_columns lib pkg env cd c m = (let p = ro_planned c; item = pi_item p; t = ro_task c in
     [(''batch_id'', PStr (ve_batch_id env)), (''process_attempt_id'', PStr (execution_attempt_id lib env)),
      (''envelope_sha256'', PStr (ve_envelope_sha256 env)), (''manifest_sha256'', PStr (ve_envelope_sha256 env)),
      (''membership_sha256'', PStr (ve_membership_sha256 env)), (''fence'', PInt (ei_fence item)),
      (''input_payload_sha256'', PStr (ei_payload_sha256 item)), (''record_payload_sha256'', PStr (eo_digest m)),
      (''config_sha256'', PStr (ei_config_sha256 item)), (''model_identity'', PStr (ro_model c)),
      (''release_digest'', PStr (ei_release_digest item)), (''package_version'', PStr pkg),
      (''runtime_key'', PStr (ei_runtime_key item)), (''duration_seconds'', PFloat (ei_duration_seconds item)),
      (''planned_cost_seconds'', PFloat (pi_planned_cost_seconds p)), (''planned_concurrency'', PInt (cd_concurrency cd)),
      (''peak_rss_bytes'', opt_int (cd_peak_rss_bytes cd)), (''duration_only_fallback'', PBool (cd_duration_only_fallback cd)),
      (''bucket_id'', PInt (int (pi_bucket_id p))), (''wave_index'', PInt (int (pi_wave_index p))),
      (''physical_partition'', PInt (int (pi_physical_partition p))), (''physical_partition_id'', PInt (int (pi_physical_partition p))),
      (''stage_id'', PInt (ti_stage_id t)), (''partition_id'', PInt (ti_partition_id t)),
      (''task_attempt_id'', PInt (ti_task_attempt_id t)), (''task_attempt_number'', PInt (ti_attempt_number t)),
      (''executor_identity'', PStr (ti_executor_identity t)), (''executor_host'', PStr (ti_executor_host t)),
      (''record_sequence'', PInt (int (eo_sequence m))), (''detector_batch_size'', dget (ei_payload item) ''batch_size'' (PInt 1)),
      (''cpu_threads'', PInt (ro_threads c)), (''runtime_loads'', PInt (ro_loads c)), (''runtime_cache_hits'', PInt (ro_hits c))])"

definition full_record :: "pylib \<Rightarrow> string \<Rightarrow> verified_envelope \<Rightarrow> concurrency_decision \<Rightarrow> row_context \<Rightarrow> emission \<Rightarrow> staged" where
  "full_record lib pkg env cd c m = raw_record c m @ added_columns lib pkg env cd c m"

definition raw_names :: "string list" where
  "raw_names = [''record_type'', ''work_id'', ''attempt_id'', ''source_video'', ''status'', ''payload_json'', ''error_type'',
     ''error_message'', ''retryable'', ''processed_frames'', ''processing_seconds'', ''emitted_at_utc'']"

definition added_names :: "string list" where
  "added_names = [''batch_id'', ''process_attempt_id'', ''envelope_sha256'', ''manifest_sha256'', ''membership_sha256'', ''fence'',
     ''input_payload_sha256'', ''record_payload_sha256'', ''config_sha256'', ''model_identity'', ''release_digest'', ''package_version'',
     ''runtime_key'', ''duration_seconds'', ''planned_cost_seconds'', ''planned_concurrency'', ''peak_rss_bytes'',
     ''duration_only_fallback'', ''bucket_id'', ''wave_index'', ''physical_partition'', ''physical_partition_id'', ''stage_id'',
     ''partition_id'', ''task_attempt_id'', ''task_attempt_number'', ''executor_identity'', ''executor_host'', ''record_sequence'',
     ''detector_batch_size'', ''cpu_threads'', ''runtime_loads'', ''runtime_cache_hits'']"

lemma names_distinct: "distinct (raw_names @ added_names)"
  by code_simp

lemma record_names: "map fst (raw_record c m) = raw_names" "map fst (added_columns lib pkg env cd c m) = added_names"
  by (simp_all add: raw_record_def raw_names_def added_columns_def added_names_def Let_def)

lemma full_distinct: "distinct (map fst (full_record lib pkg env cd c m))"
  using names_distinct by (simp add: full_record_def record_names)

lemma full_column: "(k, v) \<in> set (full_record lib pkg env cd c m) \<Longrightarrow> map_of (full_record lib pkg env cd c m) k = Some v"
  by (rule map_of_is_SomeI [OF full_distinct])

lemma full_columns:
  assumes "f = full_record lib pkg env cd c m" "p = ro_planned c" "item = pi_item p" "t = ro_task c"
  shows "map_of f ''record_type'' = Some (PStr (eo_type m))" "map_of f ''work_id'' = Some (PStr (ei_work_id item))"
    "map_of f ''attempt_id'' = Some (PStr (ei_attempt_id item))" "map_of f ''source_video'' = Some (PStr (ro_source c))"
    "map_of f ''status'' = Some (PStr (eo_status m))" "map_of f ''payload_json'' = Some (PStr (eo_json m))"
    "map_of f ''error_type'' = Some (rd_error_type (eo_details m))" "map_of f ''error_message'' = Some (rd_error_message (eo_details m))"
    "map_of f ''retryable'' = Some (rd_retryable (eo_details m))" "map_of f ''processed_frames'' = Some (rd_processed_frames (eo_details m))"
    "map_of f ''processing_seconds'' = Some (rd_processing_seconds (eo_details m))" "map_of f ''emitted_at_utc'' = Some (PStr (eo_now m))"
    "map_of f ''batch_id'' = Some (PStr (ve_batch_id env))" "map_of f ''process_attempt_id'' = Some (PStr (execution_attempt_id lib env))"
    "map_of f ''envelope_sha256'' = Some (PStr (ve_envelope_sha256 env))" "map_of f ''manifest_sha256'' = Some (PStr (ve_envelope_sha256 env))"
    "map_of f ''membership_sha256'' = Some (PStr (ve_membership_sha256 env))" "map_of f ''fence'' = Some (PInt (ei_fence item))"
    "map_of f ''input_payload_sha256'' = Some (PStr (ei_payload_sha256 item))" "map_of f ''record_payload_sha256'' = Some (PStr (eo_digest m))"
    "map_of f ''config_sha256'' = Some (PStr (ei_config_sha256 item))" "map_of f ''model_identity'' = Some (PStr (ro_model c))"
    "map_of f ''release_digest'' = Some (PStr (ei_release_digest item))" "map_of f ''package_version'' = Some (PStr pkg)"
    "map_of f ''runtime_key'' = Some (PStr (ei_runtime_key item))" "map_of f ''duration_seconds'' = Some (PFloat (ei_duration_seconds item))"
    "map_of f ''planned_cost_seconds'' = Some (PFloat (pi_planned_cost_seconds p))"
    "map_of f ''planned_concurrency'' = Some (PInt (cd_concurrency cd))" "map_of f ''peak_rss_bytes'' = Some (opt_int (cd_peak_rss_bytes cd))"
    "map_of f ''duration_only_fallback'' = Some (PBool (cd_duration_only_fallback cd))"
    "map_of f ''bucket_id'' = Some (PInt (int (pi_bucket_id p)))" "map_of f ''wave_index'' = Some (PInt (int (pi_wave_index p)))"
    "map_of f ''physical_partition'' = Some (PInt (int (pi_physical_partition p)))"
    "map_of f ''physical_partition_id'' = Some (PInt (int (pi_physical_partition p)))" "map_of f ''stage_id'' = Some (PInt (ti_stage_id t))"
    "map_of f ''partition_id'' = Some (PInt (ti_partition_id t))" "map_of f ''task_attempt_id'' = Some (PInt (ti_task_attempt_id t))"
    "map_of f ''task_attempt_number'' = Some (PInt (ti_attempt_number t))"
    "map_of f ''executor_identity'' = Some (PStr (ti_executor_identity t))" "map_of f ''executor_host'' = Some (PStr (ti_executor_host t))"
    "map_of f ''record_sequence'' = Some (PInt (int (eo_sequence m)))"
    "map_of f ''detector_batch_size'' = Some (dget (ei_payload item) ''batch_size'' (PInt 1))"
    "map_of f ''cpu_threads'' = Some (PInt (ro_threads c))" "map_of f ''runtime_loads'' = Some (PInt (ro_loads c))"
    "map_of f ''runtime_cache_hits'' = Some (PInt (ro_hits c))"
  unfolding assms by (rule full_column, simp add: full_record_def raw_record_def added_columns_def Let_def)+

section \<open>A record passes the checks\<close>

text \<open>An item as a verified envelope has it, with an identity and a source that no executor strips.\<close>

definition clean_text :: "string \<Rightarrow> bool" where
  "clean_text s \<longleftrightarrow> py_strip s = s \<and> s \<noteq> []"

definition item_ready :: "envelope_item \<Rightarrow> bool" where
  "item_ready i \<longleftrightarrow> clean_text (ei_work_id i) \<and> clean_text (ei_attempt_id i) \<and> 1 \<le> ei_fence i \<and> digest_ok (ei_payload_sha256 i)
     \<and> text_ok (ei_config_sha256 i) \<and> text_ok (ei_release_digest i) \<and> text_ok (ei_runtime_key i) \<and> 0 < ei_duration_seconds i
     \<and> valid_batch_size (dget (ei_payload i) ''batch_size'' (PInt 1)) \<and> finite_json (PDict (ei_payload i))"

definition details_ok :: "string \<Rightarrow> record_details \<Rightarrow> bool" where
  "details_ok t d \<longleftrightarrow> (if t = ''error''
       then (\<exists>a b r. text_ok a \<and> text_ok b \<and> rd_error_type d = PStr a \<and> rd_error_message d = PStr b \<and> rd_retryable d = PBool r)
       else rd_error_type d = PNone \<and> rd_error_message d = PNone \<and> rd_retryable d = PNone)
     \<and> (if t = ''video_result'' then (\<exists>n x. 0 \<le> n \<and> 0 \<le> x \<and> rd_processed_frames d = PInt n \<and> rd_processing_seconds d = PFloat x)
        else rd_processed_frames d = PNone \<and> rd_processing_seconds d = PNone)"

definition emission_ok :: "pylib \<Rightarrow> emission \<Rightarrow> bool" where
  "emission_ok lib m \<longleftrightarrow> eo_type m \<in> set RECORD_TYPES \<and> eo_status m = (if eo_type m = ''error'' then ''FAILED'' else ''SUCCEEDED'')
     \<and> details_ok (eo_type m) (eo_details m) \<and> text_ok (eo_json m) \<and> text_ok (eo_now m)
     \<and> (\<exists>d. json_loads lib (eo_json m) = Some (PDict d) \<and> process_sha256 lib (PDict d) = Inr (eo_digest m)) \<and> digest_ok (eo_digest m)"

definition task_ok :: "planned_item \<Rightarrow> task_identity \<Rightarrow> bool" where
  "task_ok p t \<longleftrightarrow> 0 \<le> ti_stage_id t \<and> ti_partition_id t = int (pi_physical_partition p) \<and> 0 \<le> ti_task_attempt_id t
     \<and> 0 \<le> ti_attempt_number t
     \<and> (\<exists>name. name \<noteq> [] \<and> text_ok (ti_executor_identity t) \<and> CHR ''@'' \<notin> set name \<and> CHR ''@'' \<notin> set (ti_executor_host t)
          \<and> text_ok (ti_executor_host t) \<and> ti_executor_identity t = name @ ''@'' @ ti_executor_host t)"

definition context_ok :: "pylib \<Rightarrow> row_context \<Rightarrow> bool" where
  "context_ok lib c \<longleftrightarrow> (let i = pi_item (ro_planned c) in
     item_ready i \<and> model_identity lib (ei_payload i) = Inr (ro_model c) \<and> digest_ok (ro_model c)
     \<and> clean_text (ro_source c) \<and> dget (ei_payload i) ''source_video'' PNone = PStr (ro_source c)
     \<and> task_ok (ro_planned c) (ro_task c) \<and> 1 \<le> ro_threads c \<and> 0 \<le> ro_loads c \<and> 0 \<le> ro_hits c
     \<and> 0 < pi_planned_cost_seconds (ro_planned c))"

definition batch_ok :: "pylib \<Rightarrow> string \<Rightarrow> verified_envelope \<Rightarrow> concurrency_decision \<Rightarrow> bool" where
  "batch_ok lib pkg env cd \<longleftrightarrow> text_ok (ve_batch_id env) \<and> digest_ok (ve_envelope_sha256 env) \<and> digest_ok (ve_membership_sha256 env)
     \<and> text_ok pkg \<and> 1 \<le> cd_concurrency cd \<and> (\<forall>n. cd_peak_rss_bytes cd = Some n \<longrightarrow> 1 \<le> n)"

lemma clean_text_ok: "clean_text s \<Longrightarrow> text_ok s"
  by (simp add: clean_text_def text_ok_def)

lemma check_fieldsI:
  assumes "\<And>k. k \<in> set names \<Longrightarrow> \<exists>v x. map_of r k = Some v \<and> validator v = Inr x"
  shows "check_fields validator r names = Inr ()"
proof -
  have "\<exists>ys. mapE (\<lambda>name. bindE (required_staged_value r name) validator) names = Inr ys"
    using assms
  proof (induction names)
    case (Cons k names)
    obtain v x where "map_of r k = Some v" "validator v = Inr x" using Cons.prems [of k] by auto
    then show ?case using Cons by (force simp: required_staged_value_def)
  qed simp
  then show ?thesis by (auto simp: check_fields_def)
qed

lemma validators:
  "text_ok s \<Longrightarrow> \<exists>x. process_text (PStr s) = Inr x" "digest_ok s \<Longrightarrow> \<exists>x. process_sha_text (PStr s) = Inr x"
  "1 \<le> i \<Longrightarrow> \<exists>x. process_positive_int (PInt i) = Inr x" "0 \<le> i \<Longrightarrow> \<exists>x. process_nonnegative_int (PInt i) = Inr x"
  "0 < y \<Longrightarrow> \<exists>x. process_positive_float (PFloat y) = Inr x"
  by (simp_all add: process_text_ok process_sha_text_ok process_positive_int_def process_nonnegative_int_def
      process_positive_float_def process_finite_def)

lemma attempt_id_text: "text_ok (execution_attempt_id lib env)"
  by (simp add: execution_attempt_id_def text_ok_def py_strip_def py_space_def dropWhile_eq_Nil_conv)

lemma details_nullable:
  assumes "details_ok t d" "map_of f ''error_type'' = Some (rd_error_type d)" "map_of f ''error_message'' = Some (rd_error_message d)"
    "map_of f ''retryable'' = Some (rd_retryable d)" "map_of f ''processed_frames'' = Some (rd_processed_frames d)"
    "map_of f ''processing_seconds'' = Some (rd_processing_seconds d)"
  shows "validate_nullable_staged_value process_text f ''error_type'' = Inr ()"
    "validate_nullable_staged_value process_text f ''error_message'' = Inr ()"
    "validate_nullable_staged_value process_boolean f ''retryable'' = Inr ()"
    "validate_nullable_staged_value process_nonnegative_int f ''processed_frames'' = Inr ()"
    "validate_nullable_staged_value process_nonnegative_float f ''processing_seconds'' = Inr ()"
  using assms
  by (auto simp: validate_nullable_staged_value_def required_staged_value_def details_ok_def process_text_ok process_boolean_def
      process_nonnegative_int_def process_nonnegative_float_def process_finite_def split: if_splits)

lemma details_semantics:
  assumes "details_ok t d" "t \<in> set RECORD_TYPES" "map_of f ''error_type'' = Some (rd_error_type d)"
    "map_of f ''error_message'' = Some (rd_error_message d)" "map_of f ''retryable'' = Some (rd_retryable d)"
    "map_of f ''processed_frames'' = Some (rd_processed_frames d)" "map_of f ''processing_seconds'' = Some (rd_processing_seconds d)"
    "map_of f ''status'' = Some (PStr (if t = ''error'' then ''FAILED'' else ''SUCCEEDED''))"
    "map_of f ''detector_batch_size'' = Some b" "valid_batch_size b"
  shows "validate_staged_record_semantics f t = Inr ()"
proof -
  obtain n where "b = PInt n" "n \<in> set DETECTOR_BATCH_SIZES" using assms(10) by (cases b) (auto simp: valid_batch_size_def)
  then have "list_ex (\<lambda>n. py_eq b (PInt n)) DETECTOR_BATCH_SIZES" by (auto simp: list_ex_iff py_num_def)
  then show ?thesis
    using assms(1-9)
    by (auto simp: validate_staged_record_semantics_def item_get_def details_ok_def process_text_ok process_boolean_def
        process_nonnegative_int_def process_nonnegative_float_def process_finite_def split: if_splits)
qed

lemma provenance_ok:
  assumes "task_ok p t" "map_of f ''executor_identity'' = Some (PStr (ti_executor_identity t))"
    "map_of f ''executor_host'' = Some (PStr (ti_executor_host t))"
  shows "validate_executor_provenance lib f = Inr ()"
proof -
  from assms(1) obtain name where n: "name \<noteq> []" "CHR ''@'' \<notin> set name" "CHR ''@'' \<notin> set (ti_executor_host t)"
    "ti_executor_identity t = name @ ''@'' @ ti_executor_host t" by (auto simp: task_ok_def)
  have "takeWhile (\<lambda>c. c \<noteq> CHR ''@'') (ti_executor_identity t) = name"
    using n(2) unfolding n(4) by (subst takeWhile_append2) auto
  then show ?thesis using n assms(2,3) by (simp add: validate_executor_provenance_def item_get_def py_str_def Let_def)
qed

lemma schema_ok:
  assumes b: "batch_ok lib pkg env cd" and c: "context_ok lib c" and m: "emission_ok lib m"
    and "json_loads lib (eo_json m) = Some (PDict d)"
  shows "validate_staged_record_schema lib (full_record lib pkg env cd c m) = Inr (eo_type m, int (eo_sequence m), d)"
proof -
  define f where "f = full_record lib pkg env cd c m"
  let ?i = "pi_item (ro_planned c)"
  note col = full_columns [OF f_def refl refl refl]
  have i: "item_ready ?i" "digest_ok (ro_model c)" "clean_text (ro_source c)" "task_ok (ro_planned c) (ro_task c)" "1 \<le> ro_threads c"
    "0 \<le> ro_loads c" "0 \<le> ro_hits c" "0 < pi_planned_cost_seconds (ro_planned c)"
    using c by (simp_all add: context_ok_def Let_def)
  obtain n where n: "dget (ei_payload ?i) ''batch_size'' (PInt 1) = PInt n" "1 \<le> n"
    using i(1) by (auto simp: item_ready_def valid_batch_size_def DETECTOR_BATCH_SIZES_def split: pyval.splits)
  have t: "text_ok (eo_type m)" "text_ok (eo_status m)"
    using m by (auto simp: emission_ok_def RECORD_TYPES_def text_ok_def py_strip_def py_space_def)
  have "check_fields process_text f text_fields = Inr ()"
    by (rule check_fieldsI)
      (use b i(1,3,4) m t in \<open>auto simp: text_fields_def col batch_ok_def item_ready_def emission_ok_def task_ok_def
        intro!: validators intro: attempt_id_text clean_text_ok\<close>)
  moreover have "check_fields process_sha_text f sha_fields = Inr ()"
    by (rule check_fieldsI)
      (use b i(1,2) m in \<open>auto simp: sha_fields_def col batch_ok_def item_ready_def emission_ok_def intro!: validators\<close>)
  moreover have "check_fields process_positive_int f positive_int_fields = Inr ()"
    by (rule check_fieldsI)
      (use b i(1,5) n in \<open>auto simp: positive_int_fields_def col batch_ok_def item_ready_def intro!: validators\<close>)
  moreover have "check_fields process_nonnegative_int f nonnegative_int_fields = Inr ()"
    by (rule check_fieldsI)
      (use i(4,6,7) in \<open>auto simp: nonnegative_int_fields_def col task_ok_def intro!: validators\<close>)
  moreover have "check_fields process_positive_float f [''duration_seconds'', ''planned_cost_seconds''] = Inr ()"
    by (rule check_fieldsI) (use i(1,8) in \<open>auto simp: col item_ready_def intro!: validators\<close>)
  moreover have "check_fields process_boolean f [''duration_only_fallback''] = Inr ()"
    by (rule check_fieldsI) (simp add: col process_boolean_def)
  moreover have "validate_nullable_staged_value process_positive_int f ''peak_rss_bytes'' = Inr ()"
    using b by (cases "cd_peak_rss_bytes cd")
      (auto simp: validate_nullable_staged_value_def required_staged_value_def col opt_int_def batch_ok_def process_positive_int_def)
  moreover have "process_text (PStr (eo_type m)) = Inr (eo_type m)" by (rule process_text_ok [OF t(1)])
  moreover have "validate_staged_record_semantics f (eo_type m) = Inr ()"
    by (rule details_semantics [of _ "eo_details m"]) (use m i(1) in \<open>auto simp: emission_ok_def col item_ready_def\<close>)
  moreover have "validate_executor_provenance lib f = Inr ()" by (rule provenance_ok [OF i(4)]) (simp_all add: col)
  moreover have "staged_payload lib f = Inr d" using assms(4) by (simp add: staged_payload_def item_get_def col py_str_def)
  moreover have "details_ok (eo_type m) (eo_details m)" using m by (simp add: emission_ok_def)
  note details_nullable [OF this col(7-11)]
  ultimately show ?thesis
    unfolding f_def [symmetric] by (simp add: validate_staged_record_schema_def item_get_def col process_nonnegative_int_def)
qed

text \<open>The item and the placement that the driver looks up for the identity of a record.\<close>

definition placed :: "verified_envelope \<Rightarrow> execution_plan \<Rightarrow> planned_item \<Rightarrow> bool" where
  "placed env plan p \<longleftrightarrow> map_of (expected_items env) (item_identity (pi_item p)) = Some (pi_item p)
     \<and> map_of (planned_items plan) (item_identity (pi_item p)) = Some p"

lemma py_eq_same [simp]: "py_eq (PStr s) (PStr s)" "py_eq (PInt i) (PInt i)" "py_eq (PFloat x) (PFloat x)" "py_eq (PBool b) (PBool b)"
  "py_eq (opt_int v) (opt_int v)"
  by (simp_all add: py_num_def) (cases v, simp_all add: opt_int_def py_num_def)

lemma checks_ok:
  assumes c: "context_ok lib c"
  shows "\<not> list_ex (\<lambda>(name, value). \<not> py_eq (dget (full_record lib pkg env (xp_concurrency plan) c m) name PNone) value)
    (staged_checks lib pkg env plan (pi_item (ro_planned c)) (ro_planned c) (ro_model c))"
proof -
  define f where "f = full_record lib pkg env (xp_concurrency plan) c m"
  let ?i = "pi_item (ro_planned c)"
  note col = full_columns [OF f_def refl refl refl]
  obtain n where n: "dget (ei_payload ?i) ''batch_size'' (PInt 1) = PInt n"
    using c by (auto simp: context_ok_def Let_def item_ready_def valid_batch_size_def split: pyval.splits)
  have "dget (ei_payload ?i) ''source_video'' PNone = PStr (ro_source c)" "ti_partition_id (ro_task c) = int (pi_physical_partition (ro_planned c))"
    using c by (simp_all add: context_ok_def Let_def task_ok_def)
  then show ?thesis unfolding f_def [symmetric]
    by (simp add: staged_checks_def dget_def [of f] col n del: py_eq.simps)
qed

lemma record_ok:
  assumes b: "batch_ok lib pkg env (xp_concurrency plan)" and c: "context_ok lib c" and m: "emission_ok lib m"
    and p: "placed env plan (ro_planned c)" and l: "(item_identity (pi_item (ro_planned c)), int (eo_sequence m)) \<notin> set logical"
  shows "validate_staged_record lib pkg env plan logical (full_record lib pkg env (xp_concurrency plan) c m) =
    Inr (item_identity (pi_item (ro_planned c)), eo_type m, int (eo_sequence m))"
proof -
  define f where "f = full_record lib pkg env (xp_concurrency plan) c m"
  let ?i = "pi_item (ro_planned c)"
  note col = full_columns [OF f_def refl refl refl]
  obtain d where d: "json_loads lib (eo_json m) = Some (PDict d)" "process_sha256 lib (PDict d) = Inr (eo_digest m)"
    using m by (auto simp: emission_ok_def)
  have schema: "validate_staged_record_schema lib f = Inr (eo_type m, int (eo_sequence m), d)"
    unfolding f_def by (rule schema_ok [OF b c m d(1)])
  have "item_ready ?i" "model_identity lib (ei_payload ?i) = Inr (ro_model c)" using c by (simp_all add: context_ok_def Let_def)
  moreover from this(1) have "process_text (PStr (ei_work_id ?i)) = Inr (ei_work_id ?i)"
    "process_text (PStr (ei_attempt_id ?i)) = Inr (ei_attempt_id ?i)"
    by (auto simp: item_ready_def intro: process_text_ok clean_text_ok)
  moreover have "eo_status m = (if eo_type m = ''error'' then ''FAILED'' else ''SUCCEEDED'')" using m by (simp add: emission_ok_def)
  moreover have "\<not> list_ex (\<lambda>(name, value). \<not> py_eq (dget f name PNone) value)
      (staged_checks lib pkg env plan ?i (ro_planned c) (ro_model c))" unfolding f_def by (rule checks_ok [OF c])
  ultimately show ?thesis
    unfolding f_def [symmetric] validate_staged_record_def schema using p l d(2)
    by (simp add: dget_def [of f] col placed_def item_identity_def)
qed

end
