(* ===== verification/Process_Executor_Rows.thy ===== *)
theory Process_Executor_Rows
  imports Process_Executor_Spec
begin

text \<open>
  What an executor does with the row of a planned item: it finds the item's identity and source there, and
  the records it emits are complete records with consecutive sequence numbers and one terminal record.
\<close>

section \<open>Rows\<close>

definition row_values :: "pylib \<Rightarrow> string \<Rightarrow> verified_envelope \<Rightarrow> execution_profile \<Rightarrow> string \<Rightarrow> concurrency_decision \<Rightarrow> string
    \<Rightarrow> planned_item \<Rightarrow> work" where
  "row_values lib pkg env profile mode cd model p = (let item = pi_item p in
     [(''work_id'', PStr (ei_work_id item)), (''attempt_id'', PStr (ei_attempt_id item)),
      (''batch_id'', PStr (ve_batch_id env)), (''process_attempt_id'', PStr (execution_attempt_id lib env)),
      (''envelope_sha256'', PStr (ve_envelope_sha256 env)), (''manifest_sha256'', PStr (ve_envelope_sha256 env)),
      (''membership_sha256'', PStr (ve_membership_sha256 env)), (''fence'', PInt (ei_fence item)),
      (''input_payload_sha256'', PStr (ei_payload_sha256 item)), (''config_sha256'', PStr (ei_config_sha256 item)),
      (''model_identity'', PStr model), (''release_digest'', PStr (ei_release_digest item)),
      (''package_version'', PStr pkg), (''runtime_key'', PStr (ei_runtime_key item)),
      (''duration_seconds'', PFloat (ei_duration_seconds item)), (''planned_cost_seconds'', PFloat (pi_planned_cost_seconds p)),
      (''planned_concurrency'', PInt (cd_concurrency cd)), (''peak_rss_bytes'', opt_int (cd_peak_rss_bytes cd)),
      (''duration_only_fallback'', PBool (cd_duration_only_fallback cd)), (''bucket_id'', PInt (int (pi_bucket_id p))),
      (''wave_index'', PInt (int (pi_wave_index p))), (''physical_partition'', PInt (int (pi_physical_partition p))),
      (''physical_partition_id'', PInt (int (pi_physical_partition p))), (''executor_cores'', PInt (ep_executor_cores profile)),
      (''task_cpus'', PInt (ep_task_cpus profile)), (''mode'', PStr mode)])"

definition row_names :: "string list" where
  "row_names = [''work_id'', ''attempt_id'', ''batch_id'', ''process_attempt_id'', ''envelope_sha256'', ''manifest_sha256'',
     ''membership_sha256'', ''fence'', ''input_payload_sha256'', ''config_sha256'', ''model_identity'', ''release_digest'',
     ''package_version'', ''runtime_key'', ''duration_seconds'', ''planned_cost_seconds'', ''planned_concurrency'', ''peak_rss_bytes'',
     ''duration_only_fallback'', ''bucket_id'', ''wave_index'', ''physical_partition'', ''physical_partition_id'', ''executor_cores'',
     ''task_cpus'', ''mode'']"

lemma row_names: "map fst (row_values lib pkg env profile mode cd model p) = row_names" "distinct row_names"
proof -
  show "map fst (row_values lib pkg env profile mode cd model p) = row_names" by (simp add: row_values_def row_names_def Let_def)
  show "distinct row_names" by code_simp
qed

text \<open>A row that has the values of a planned item over the columns of its payload.\<close>

definition row_of :: "work \<Rightarrow> work \<Rightarrow> work \<Rightarrow> bool" where
  "row_of row values payload \<longleftrightarrow> (\<forall>k v. (k, v) \<in> set values \<longrightarrow> map_of row k = Some v)
     \<and> (\<forall>k. k \<notin> fst ` set values \<and> k \<noteq> ''_task_identity'' \<longrightarrow> map_of row k = map_of payload k)"

lemma direct_row:
  assumes "model_identity lib (ei_payload (pi_item p)) = Inr model"
  obtains row where "executor_row lib pkg env profile mode cd p = Inr row"
    "row_of (dset ''_task_identity'' t row) (row_values lib pkg env profile mode cd model p) (ei_payload (pi_item p))"
    "map_of (dset ''_task_identity'' t row) ''_task_identity'' = Some t"
proof -
  let ?vs = "row_values lib pkg env profile mode cd model p"
  let ?row = "dict_update (ei_payload (pi_item p)) ?vs"
  have eq: "executor_row lib pkg env profile mode cd p = Inr ?row"
    using assms by (simp add: executor_row_def row_values_def Let_def)
  have dist: "distinct (map fst ?vs)" using row_names by metis
  have fresh: "''_task_identity'' \<notin> set row_names" by code_simp
  have "map_of (dset ''_task_identity'' t ?row) k = Some v" if "(k, v) \<in> set ?vs" for k v
  proof -
    have "k \<in> set row_names" using that row_names(1) by (metis fst_conv image_eqI list.set_map)
    then have "k \<noteq> ''_task_identity''" using fresh by blast
    then show ?thesis using that dist by (simp add: map_of_dset dict_update_lookup)
  qed
  moreover have "map_of (dset ''_task_identity'' t ?row) k = map_of (ei_payload (pi_item p)) k"
    if "k \<notin> fst ` set ?vs" "k \<noteq> ''_task_identity''" for k
  proof -
    have "map_of ?vs k = None" using that(1) by (simp add: map_of_eq_None_iff)
    then show ?thesis using that(2) dist by (simp add: map_of_dset dict_update_lookup)
  qed
  ultimately show thesis using that [OF eq] by (simp add: row_of_def map_of_dset)
qed

lemma row_payload:
  assumes "row_of row (row_values lib pkg env profile mode cd model p) payload" "k \<notin> set row_names" "k \<noteq> ''_task_identity''"
  shows "map_of row k = map_of payload k"
proof -
  have "fst ` set (row_values lib pkg env profile mode cd model p) = set row_names" using row_names(1) by (metis list.set_map)
  then show ?thesis using assms by (simp add: row_of_def)
qed

lemma row_value:
  assumes "row_of row (row_values lib pkg env profile mode cd model p) payload"
    "(k, v) \<in> set (row_values lib pkg env profile mode cd model p)"
  shows "map_of row k = Some v"
  using assms by (simp add: row_of_def)

section \<open>Raw records\<close>

definition row_ok :: "pylib \<Rightarrow> string \<Rightarrow> verified_envelope \<Rightarrow> execution_profile \<Rightarrow> string \<Rightarrow> concurrency_decision \<Rightarrow> row_context \<Rightarrow> work \<Rightarrow> bool" where
  "row_ok lib pkg env profile mode cd c row \<longleftrightarrow> context_ok lib c
     \<and> row_of row (row_values lib pkg env profile mode cd (ro_model c) (ro_planned c)) (ei_payload (pi_item (ro_planned c)))"

lemma row_identity:
  assumes "row_ok lib pkg env profile mode cd c row"
  shows "required_work_text row ''work_id'' = Inr (ei_work_id (pi_item (ro_planned c)))"
    "optional_work_text (dget row ''attempt_id'' PNone) = Inr (PStr (ei_attempt_id (pi_item (ro_planned c))))"
    "source_video row = Inr (ro_source c)" "dget row ''batch_size'' (PInt 1) = dget (ei_payload (pi_item (ro_planned c))) ''batch_size'' (PInt 1)"
proof -
  have r: "row_of row (row_values lib pkg env profile mode cd (ro_model c) (ro_planned c)) (ei_payload (pi_item (ro_planned c)))"
    and c: "context_ok lib c" using assms by (simp_all add: row_ok_def)
  have "map_of row ''work_id'' = Some (PStr (ei_work_id (pi_item (ro_planned c))))"
    "map_of row ''attempt_id'' = Some (PStr (ei_attempt_id (pi_item (ro_planned c))))"
    by (rule row_value [OF r], simp only: row_values_def Let_def list.set insert_iff simp_thms)+
  with c show "required_work_text row ''work_id'' = Inr (ei_work_id (pi_item (ro_planned c)))"
    "optional_work_text (dget row ''attempt_id'' PNone) = Inr (PStr (ei_attempt_id (pi_item (ro_planned c))))"
    by (simp_all add: required_work_text_def optional_work_text_def dget_def context_ok_def Let_def item_ready_def clean_text_def)
  have n: "''source_video'' \<notin> set row_names" "''batch_size'' \<notin> set row_names" by code_simp+
  have "map_of row ''source_video'' = map_of (ei_payload (pi_item (ro_planned c))) ''source_video''"
    "map_of row ''batch_size'' = map_of (ei_payload (pi_item (ro_planned c))) ''batch_size''"
    by (rule row_payload [OF r n(1)], simp) (rule row_payload [OF r n(2)], simp)
  moreover from c have "map_of (ei_payload (pi_item (ro_planned c))) ''source_video'' = Some (PStr (ro_source c))" "clean_text (ro_source c)"
    by (auto simp: context_ok_def Let_def dget_def split: option.splits)
  ultimately show "source_video row = Inr (ro_source c)"
    "dget row ''batch_size'' (PInt 1) = dget (ei_payload (pi_item (ro_planned c))) ''batch_size'' (PInt 1)"
    by (simp_all add: source_video_def clean_text_def dget_def)
qed

definition pending :: "string \<Rightarrow> string \<Rightarrow> string \<Rightarrow> record_details \<Rightarrow> string \<Rightarrow> emission" where
  "pending t st json details now = \<lparr>eo_type = t, eo_status = st, eo_json = json, eo_digest = [], eo_details = details,
     eo_now = now, eo_sequence = 0\<rparr>"

lemma partition_record_ok:
  assumes "row_ok lib pkg env profile mode cd c row"
  shows "partition_record lib now t row st payload details = Inr (raw_record c (pending t st (dumps lib (PDict payload)) details now))"
  using row_identity [OF assms] by (simp add: partition_record_def raw_record_def pending_def del: dumps.simps)

section \<open>Payloads\<close>

text \<open>The payloads an executor writes are flat objects; the JSON reader returns them with sorted keys.\<close>

fun plain_value :: "pyval \<Rightarrow> bool" where
  "plain_value (PInt i) = True"
| "plain_value (PFloat x) = True"
| "plain_value (PBool b) = True"
| "plain_value (PStr s) = True"
| "plain_value _ = False"

definition plain :: "(string \<times> pyval) list \<Rightarrow> bool" where
  "plain d \<longleftrightarrow> distinct (map fst d) \<and> list_all (plain_value \<circ> snd) d"

definition library_ok :: "pylib \<Rightarrow> bool" where
  "library_ok lib \<longleftrightarrow> (\<forall>t. digest_ok (sha256_hex lib t))
     \<and> (\<forall>d. plain d \<longrightarrow> json_loads lib (dumps lib (PDict d)) = Some (PDict (sort_key fst d)))"

lemma plain_finite: "plain d \<Longrightarrow> finite_json (PDict (sort_key fst d))"
proof -
  assume "plain d"
  then have "\<forall>p \<in> set d. plain_value (snd p)" by (simp add: plain_def list_all_iff)
  moreover have "finite_json v" if "plain_value v" for v using that by (cases v) auto
  ultimately show ?thesis by (auto simp: list_all_iff)
qed

lemma object_text: "text_ok (dumps lib (PDict d))"
proof -
  obtain t where "dumps lib (PDict d) = CHR ''{'' # t" by (metis append_Cons append_Nil dumps.simps(8))
  then show ?thesis by (simp only: text_ok_def py_strip_def) (simp add: py_space_def dropWhile_eq_Nil_conv)
qed

lemma line_count_plain: "plain (line_count_fields c)"
proof -
  have "map fst (line_count_fields c) = [''frame'', ''video_seconds'', ''video_timestamp'', ''frame_in_count'', ''frame_out_count'',
      ''cumulative_in_count'', ''cumulative_out_count'', ''line_start_x'', ''line_start_y'', ''line_end_x'', ''line_end_y'']"
    by (simp add: line_count_fields_def)
  moreover have "distinct [''frame'', ''video_seconds'', ''video_timestamp'', ''frame_in_count'', ''frame_out_count'',
      ''cumulative_in_count'', ''cumulative_out_count'', ''line_start_x'', ''line_start_y'', ''line_end_x'', ''line_end_y'']" by code_simp
  ultimately show ?thesis by (simp add: plain_def) (simp add: line_count_fields_def)
qed

lemma summary_plain: "plain (result_summary r)"
proof -
  have "map fst (result_summary r) = [''total_source_frames'', ''total_sampled_frames'', ''source_frames_read'', ''effective_sample_fps'',
      ''distinct_people'', ''line_in_count'', ''line_out_count'', ''ended_early'']" by (simp add: result_summary_def)
  moreover have "distinct [''total_source_frames'', ''total_sampled_frames'', ''source_frames_read'', ''effective_sample_fps'',
      ''distinct_people'', ''line_in_count'', ''line_out_count'', ''ended_early'']" by code_simp
  ultimately show ?thesis by (simp add: plain_def) (simp add: result_summary_def)
qed

lemma telemetry_plain:
  assumes "0 < fps"
  shows "\<exists>d. telemetry_record fps p = Inr d \<and> plain d"
proof -
  have n: "distinct [''person_id'', ''entry_frame'', ''exit_frame'', ''entry_seconds'', ''exit_seconds'', ''entry_timestamp'',
      ''exit_timestamp'', ''duration_seconds'']" by code_simp
  obtain person t where p: "p = (person, t)" by (cases p)
  have f: "frame_seconds i fps = Inr (fdiv (fround (of_int i)) fps)" for i using assms by (simp add: frame_seconds_def)
  have s: "\<exists>s. format_video_timestamp i fps = Inr s" for i by (simp add: format_video_timestamp_def f Let_def)
  obtain s1 s2 where "format_video_timestamp (pt_entry_frame t) fps = Inr s1" "format_video_timestamp (pt_last_seen_frame t) fps = Inr s2"
    using s by metis
  then show ?thesis using n by (simp add: telemetry_record_def p f plain_def)
qed

section \<open>The records of one video\<close>

text \<open>A record before it is completed: what it will need to pass, apart from its digest.\<close>

definition pending_ok :: "pylib \<Rightarrow> emission \<Rightarrow> bool" where
  "pending_ok lib m \<longleftrightarrow> eo_type m \<in> set RECORD_TYPES \<and> eo_status m = (if eo_type m = ''error'' then ''FAILED'' else ''SUCCEEDED'')
     \<and> details_ok (eo_type m) (eo_details m) \<and> text_ok (eo_now m)
     \<and> (\<exists>d. plain d \<and> eo_json m = dumps lib (PDict d) \<and> (eo_type m = ''line_count'' \<longrightarrow> d \<in> range line_count_fields))"

lemma pending_okI:
  assumes "plain d" "eo_json m = dumps lib (PDict d)" "eo_type m = ''line_count'' \<Longrightarrow> d \<in> range line_count_fields"
    "eo_type m \<in> set RECORD_TYPES" "eo_status m = (if eo_type m = ''error'' then ''FAILED'' else ''SUCCEEDED'')"
    "details_ok (eo_type m) (eo_details m)" "text_ok (eo_now m)"
  shows "pending_ok lib m"
  using assms unfolding pending_ok_def by blast

definition one_terminal :: "emission list \<Rightarrow> bool" where
  "one_terminal ms \<longleftrightarrow> length (filter (\<lambda>m. eo_type m \<in> set TERMINAL_TYPES) ms) = 1"

definition result_ok :: "run_result \<Rightarrow> bool" where
  "result_ok r \<longleftrightarrow> vr_initialized r \<and> 0 < vr_fps r \<and> 0 \<le> vr_processed_frames r \<and> 0 \<le> vr_processing_seconds r"

definition exn_ok :: "exn \<Rightarrow> bool" where
  "exn_ok e \<longleftrightarrow> e \<noteq> [] \<and> list_all (\<lambda>(name, t). text_ok name) e"

lemma mapE_raw:
  assumes "row_ok lib pkg env profile mode cd c row"
  shows "mapE (\<lambda>(k, item). partition_record lib (now k) t row st item details) ps =
    Inr (map (raw_record c) (map (\<lambda>(k, item). pending t st (dumps lib (PDict item)) details (now k)) ps))"
  by (induction ps) (auto simp: partition_record_ok [OF assms] simp del: dumps.simps)

lemma text_ok_iff: "text_ok s \<longleftrightarrow> (\<exists>c \<in> set s. \<not> py_space c)"
proof -
  have "dropWhile py_space (rev (dropWhile py_space s)) = [] \<longleftrightarrow> (\<forall>c \<in> set (dropWhile py_space s). py_space c)"
    by (simp add: dropWhile_eq_Nil_conv)
  also have "\<dots> \<longleftrightarrow> (\<forall>c \<in> set s. py_space c)"
    by (induction s) (auto)
  finally show ?thesis by (auto simp: text_ok_def py_strip_def)
qed

lemma strip_text: "text_ok s \<Longrightarrow> text_ok (py_strip s)"
  unfolding text_ok_def py_strip_def
  by (metis (no_types, lifting) dropWhile_eq_Nil_conv dropWhile_idem rev_is_Nil_conv rev_rev_ident set_rev)

lemma message_text:
  assumes "exn_ok e"
  shows "text_ok (exception_message e)"
proof -
  obtain x e' where e: "e = x # e'" using assms by (cases e) (auto simp: exn_ok_def)
  obtain name t where x: "x = (name, t)" by (cases x)
  have one: "text_ok (exception_text x)"
    using assms strip_text [of t] by (auto simp: exception_text_def x e exn_ok_def text_ok_def)
  have more: "text_ok (s @ u)" if "text_ok s" for s u using that by (auto simp: text_ok_iff)
  show ?thesis
    unfolding exception_message_def e
    using one more by (cases "map exception_text (take 4 e')") (auto simp: eval_nat_numeral)
qed

lemma error_recorded:
  assumes "row_ok lib pkg env profile mode cd c row" "exn_ok e" "text_ok now"
  obtains m where "error_record lib now None row e = Inr (raw_record c m)" "pending_ok lib m" "eo_type m = ''error''"
proof -
  let ?d = "[(''error_category'', PStr ''RUNTIME''), (''error_type'', PStr (exception_class e)), (''error_message'', PStr (exception_message e))]"
  let ?det = "no_details\<lparr>rd_error_type := PStr (exception_class e), rd_error_message := PStr (exception_message e), rd_retryable := PBool True\<rparr>"
  let ?m = "pending ''error'' ''FAILED'' (dumps lib (PDict ?d)) ?det now"
  have eq: "error_record lib now None row e = Inr (raw_record c ?m)"
    by (simp add: error_record_def Let_def partition_record_ok [OF assms(1)] del: dumps.simps)
  have "text_ok (exception_class e)" using assms(2) by (cases e) (auto simp: exn_ok_def exception_class_def)
  then have "pending_ok lib ?m" using assms(3) message_text [OF assms(2)]
    by (intro pending_okI [of ?d]) (auto simp: pending_def details_ok_def no_details_def RECORD_TYPES_def plain_def simp del: dumps.simps)
  then show thesis using that [OF eq] by (simp add: pending_def)
qed

lemma success_recorded:
  assumes row: "row_ok lib pkg env profile mode cd c row" and r: "result_ok r" and now: "\<And>k. text_ok (now k)"
  obtains ms where "success_records lib now row r = Inr (map (raw_record c) ms)" "list_all (pending_ok lib) ms" "one_terminal ms"
proof -
  let ?det = "no_details\<lparr>rd_processed_frames := PInt (vr_processed_frames r), rd_processing_seconds := PFloat (vr_processing_seconds r)\<rparr>"
  let ?sum = "pending ''video_result'' ''SUCCEEDED'' (dumps lib (PDict (result_summary r))) ?det (now 0)"
  obtain people where people: "telemetry_records r = Inr people" "list_all plain people"
  proof -
    have "\<exists>ds. mapE (telemetry_record (vr_fps r)) ts = Inr ds \<and> list_all plain ds" for ts
    proof (induction ts)
      case (Cons t ts)
      then show ?case using telemetry_plain [of "vr_fps r" t] r by (auto simp: result_ok_def)
    qed simp
    then show ?thesis using r that by (simp add: telemetry_records_def ensure_initialized_def result_ok_def) blast
  qed
  let ?ts = "map (\<lambda>(k, item). pending ''telemetry'' ''SUCCEEDED'' (dumps lib (PDict item)) no_details (now k)) (zip [1..<Suc (length people)] people)"
  let ?counts = "map line_count_fields (vr_line_counts r)"
  let ?ls = "map (\<lambda>(k, item). pending ''line_count'' ''SUCCEEDED'' (dumps lib (PDict item)) no_details (now k))
    (zip [Suc (length people)..<Suc (length people) + length ?counts] ?counts)"
  have eq: "success_records lib now row r = Inr (map (raw_record c) (?sum # ?ts @ ?ls))"
    using people(1) r unfolding success_records_def mapE_raw [OF row]
    by (simp add: partition_record_ok [OF row] line_count_records_def ensure_initialized_def result_ok_def del: dumps.simps upt_Suc)
  have "pending_ok lib ?sum"
    by (rule pending_okI [of "result_summary r"])
      (use r now summary_plain in \<open>simp_all add: pending_def details_ok_def no_details_def RECORD_TYPES_def result_ok_def del: dumps.simps\<close>)
  moreover have "pending_ok lib m" if m: "m \<in> set ?ts" for m
  proof -
    obtain k d where "m = pending ''telemetry'' ''SUCCEEDED'' (dumps lib (PDict d)) no_details (now k)" "d \<in> set people"
      using m by (auto dest: set_zip_rightD simp del: dumps.simps)
    then show ?thesis using people(2) now
      by (intro pending_okI [of d]) (auto simp: pending_def details_ok_def no_details_def RECORD_TYPES_def list_all_iff simp del: dumps.simps)
  qed
  moreover have "pending_ok lib m" if m: "m \<in> set ?ls" for m
  proof -
    obtain k x where "m = pending ''line_count'' ''SUCCEEDED'' (dumps lib (PDict (line_count_fields x))) no_details (now k)"
      using m by (auto dest!: set_zip_rightD simp del: dumps.simps)
    then show ?thesis using line_count_plain now
      by (intro pending_okI [of "line_count_fields x"])
        (auto simp: pending_def details_ok_def no_details_def RECORD_TYPES_def simp del: dumps.simps)
  qed
  ultimately have "list_all (pending_ok lib) (?sum # ?ts @ ?ls)" unfolding list_all_iff list.set set_append by blast
  moreover have "filter (\<lambda>m. eo_type m \<in> set TERMINAL_TYPES) (?ts @ ?ls) = []"
    by (auto simp: filter_empty_conv pending_def TERMINAL_TYPES_def simp del: dumps.simps)
  then have "one_terminal (?sum # ?ts @ ?ls)"
    unfolding one_terminal_def by (simp add: pending_def TERMINAL_TYPES_def del: dumps.simps filter_append)
  ultimately show thesis using that [OF eq] by blast
qed

section \<open>Completing the records\<close>

lemma copied_eq:
  assumes "\<And>k. k \<in> set names \<Longrightarrow> map_of row k = Some (f k)"
  shows "copied row names = Inr (map (\<lambda>k. (k, f k)) names)"
  unfolding copied_def using assms by (intro mapE_Inr_map) (simp add: item_get_def)

lemma normalized_ok:
  assumes row: "row_ok (xe_lib xe) (xe_package_version xe) env profile mode cd c row"
    and ctx: "ro_task c = identity" "ro_threads c = tb_threads_per_worker budget" "ro_loads c = processor_loads p" "ro_hits c = processor_hits p"
    and sha: "process_sha256 (xe_lib xe) (PDict payload) = Inr digest"
  shows "normalized_record xe identity budget p row sequence payload (raw_record c m) =
    Inr (full_record (xe_lib xe) (xe_package_version xe) env cd c (m\<lparr>eo_digest := digest, eo_sequence := sequence\<rparr>))"
proof -
  have r: "row_of row (row_values (xe_lib xe) (xe_package_version xe) env profile mode cd (ro_model c) (ro_planned c)) (ei_payload (pi_item (ro_planned c)))"
    using row by (simp add: row_ok_def)
  let ?p = "ro_planned c"
  let ?i = "pi_item ?p"
  let ?m = "m\<lparr>eo_digest := digest, eo_sequence := sequence\<rparr>"
  have v: "map_of row ''batch_id'' = Some (PStr (ve_batch_id env))" "map_of row ''process_attempt_id'' = Some (PStr (execution_attempt_id (xe_lib xe) env))"
    "map_of row ''envelope_sha256'' = Some (PStr (ve_envelope_sha256 env))" "map_of row ''manifest_sha256'' = Some (PStr (ve_envelope_sha256 env))"
    "map_of row ''membership_sha256'' = Some (PStr (ve_membership_sha256 env))" "map_of row ''fence'' = Some (PInt (ei_fence ?i))"
    "map_of row ''input_payload_sha256'' = Some (PStr (ei_payload_sha256 ?i))" "map_of row ''config_sha256'' = Some (PStr (ei_config_sha256 ?i))"
    "map_of row ''model_identity'' = Some (PStr (ro_model c))" "map_of row ''release_digest'' = Some (PStr (ei_release_digest ?i))"
    "map_of row ''runtime_key'' = Some (PStr (ei_runtime_key ?i))" "map_of row ''duration_seconds'' = Some (PFloat (ei_duration_seconds ?i))"
    "map_of row ''planned_cost_seconds'' = Some (PFloat (pi_planned_cost_seconds ?p))"
    "map_of row ''planned_concurrency'' = Some (PInt (cd_concurrency cd))" "map_of row ''peak_rss_bytes'' = Some (opt_int (cd_peak_rss_bytes cd))"
    "map_of row ''duration_only_fallback'' = Some (PBool (cd_duration_only_fallback cd))"
    "map_of row ''bucket_id'' = Some (PInt (int (pi_bucket_id ?p)))" "map_of row ''wave_index'' = Some (PInt (int (pi_wave_index ?p)))"
    "map_of row ''physical_partition'' = Some (PInt (int (pi_physical_partition ?p)))"
    by (rule row_value [OF r], simp only: row_values_def Let_def list.set insert_iff simp_thms)+
  have cp: "copied row names = Inr (map (\<lambda>k. (k, the (map_of row k))) names)" if "list_all (\<lambda>k. map_of row k \<noteq> None) names" for names
    by (rule copied_eq) (use that in \<open>auto simp: list_all_iff\<close>)
  have "list_all (\<lambda>k. map_of row k \<noteq> None) row_columns" "list_all (\<lambda>k. map_of row k \<noteq> None) row_columns2"
    "list_all (\<lambda>k. map_of row k \<noteq> None) row_columns3"
    by (simp_all add: v row_columns_def row_columns2_def row_columns3_def)
  note c3 = this [THEN cp]
  have "normalized_record xe identity budget p row sequence payload (raw_record c m) =
      Inr (dict_update (raw_record c m) (added_columns (xe_lib xe) (xe_package_version xe) env cd c ?m))"
    unfolding normalized_record_def c3 using row_identity(4) [OF row] sha
    by (simp add: row_columns_def row_columns2_def row_columns3_def v item_get_def added_columns_def Let_def ctx)
  also have "dict_update (raw_record c m) (added_columns (xe_lib xe) (xe_package_version xe) env cd c ?m) =
      raw_record c m @ added_columns (xe_lib xe) (xe_package_version xe) env cd c ?m"
    using names_distinct by (intro dict_update_append) (simp_all add: record_names flip: set_map)
  finally show ?thesis by (simp add: full_record_def raw_record_def)
qed

end
