(* ===== verification/Process_Executor_Emit.thy ===== *)
theory Process_Executor_Emit
  imports Process_Executor_Rows
begin

text \<open>
  The loop over the raw records of a row: every payload is read back, the selection of line counts never
  fails, and what is emitted has consecutive sequence numbers and keeps the terminal record.
\<close>

section \<open>Payloads read back\<close>

lemma map_of_sorted: "distinct (map fst d) \<Longrightarrow> map_of (sort_key fst d) = map_of d"
proof -
  assume d: "distinct (map fst d)"
  then have "distinct (map fst (sort_key fst d))" by (metis distinct_map distinct_sort set_sort)
  then show ?thesis using d by (simp add: map_of_inject_set)
qed

lemma pending_payload:
  assumes "library_ok lib" "pending_ok lib m"
  obtains d where "loaded_payload lib (raw_record c m) = Inr (sort_key fst d)" "plain d" "eo_json m = dumps lib (PDict d)"
    "json_loads lib (eo_json m) = Some (PDict (sort_key fst d))"
    "process_sha256 lib (PDict (sort_key fst d)) = Inr (sha256_hex lib (dumps lib (PDict (sort_key fst d))))"
    "eo_type m = ''line_count'' \<Longrightarrow> d \<in> range line_count_fields"
proof -
  obtain d where d: "plain d" "eo_json m = dumps lib (PDict d)" "eo_type m = ''line_count'' \<longrightarrow> d \<in> range line_count_fields"
    using assms(2) by (auto simp: pending_ok_def simp del: dumps.simps)
  have l: "json_loads lib (eo_json m) = Some (PDict (sort_key fst d))" using assms(1) d(1,2) by (simp add: library_ok_def del: dumps.simps)
  have "map_of (raw_record c m) ''payload_json'' = Some (PStr (eo_json m))" by (simp add: raw_record_def)
  then have "loaded_payload lib (raw_record c m) = Inr (sort_key fst d)" using l by (simp add: loaded_payload_def item_get_def)
  moreover have "process_sha256 lib (PDict (sort_key fst d)) = Inr (sha256_hex lib (dumps lib (PDict (sort_key fst d))))"
    using plain_finite [OF d(1)] by (simp add: process_sha256_def process_canonical_def del: dumps.simps finite_json.simps)
  ultimately show thesis using that d l by blast
qed

lemma raw_line_count: "is_line_count (raw_record c m) \<longleftrightarrow> eo_type m = ''line_count''"
  by (simp add: is_line_count_def raw_record_def)

section \<open>The selection of line counts\<close>

lemma mapE_total: "\<forall>x \<in> set xs. \<exists>y. f x = Inr y \<Longrightarrow> \<exists>ys. mapE f xs = Inr ys"
proof (induction xs)
  case (Cons x xs)
  then obtain y ys where "f x = Inr y" "mapE f xs = Inr ys" by auto
  then show ?case by simp
qed simp

definition counted :: "(string \<times> pyval) list \<Rightarrow> bool" where
  "counted d \<longleftrightarrow> (\<exists>i j k. map_of d ''frame_in_count'' = Some (PInt i) \<and> map_of d ''frame_out_count'' = Some (PInt j)
     \<and> map_of d ''_sjd_position'' = Some (PInt k))"

lemma keep_counted: "counted d \<Longrightarrow> \<exists>b. keep_line_count n (i, d) = Inr b"
proof -
  assume "counted d"
  then obtain a b where "dget d ''frame_in_count'' (PInt 0) = PInt a" "dget d ''frame_out_count'' (PInt 0) = PInt b"
    by (auto simp: counted_def dget_def)
  then have "keep_line_count n (i, d) = Inr (0 < a \<or> 0 < b \<or> i = n - 1)" by (simp add: keep_line_count_def py_positive_def)
  then show ?thesis ..
qed

lemma select_counted:
  assumes "\<forall>d \<in> set ds. counted d"
  shows "\<exists>selected. select_production_line_counts ds = Inr selected \<and> set selected \<subseteq> set ds"
proof -
  let ?ix = "zip [0..<length ds] ds"
  have "\<forall>p \<in> set ?ix. \<exists>b. keep_line_count (length ds) p = Inr b"
    using assms keep_counted by (metis prod.collapse set_zip_rightD)
  then obtain keeps where "mapE (keep_line_count (length ds)) ?ix = Inr keeps" using mapE_total by blast
  moreover have "(snd \<circ> fst) x \<in> set ds" if "x \<in> set (filter snd (zip ?ix keeps))" for x
  proof -
    have "x \<in> set (zip ?ix keeps)" using that by simp
    then have "fst x \<in> set ?ix" by (metis prod.collapse set_zip_leftD)
    then show ?thesis by (metis comp_apply prod.collapse set_zip_rightD)
  qed
  ultimately show ?thesis by (auto simp: select_production_line_counts_def Let_def)
qed

lemma positioned:
  assumes "d \<in> range line_count_fields"
  shows "counted (dset ''_sjd_position'' (PInt k) (sort_key fst d))"
proof -
  obtain x where x: "d = line_count_fields x" using assms by blast
  have "distinct (map fst d)" using line_count_plain [of x] by (simp add: x plain_def)
  then have m: "map_of (dset ''_sjd_position'' (PInt k) (sort_key fst d)) = (map_of d)(''_sjd_position'' \<mapsto> PInt k)"
    by (simp add: map_of_dset map_of_sorted)
  show ?thesis unfolding counted_def m by (simp add: x line_count_fields_def)
qed

lemma selection_returns:
  assumes lib: "library_ok lib" and ms: "list_all (pending_ok lib) ms"
  shows "\<exists>selected. selected_positions lib (map (raw_record c) ms) = Inr selected"
proof -
  let ?ls = "filter is_line_count (map (raw_record c) ms)"
  have ex: "\<exists>d. loaded_payload lib r = Inr (sort_key fst d) \<and> d \<in> range line_count_fields" if r: "r \<in> set ?ls" for r
  proof -
    obtain m where m: "m \<in> set ms" "r = raw_record c m" "eo_type m = ''line_count''"
      using r by (auto simp: raw_line_count)
    then have "pending_ok lib m" using ms by (simp add: list_all_iff)
    from pending_payload [OF lib this, of c] m(2,3) show ?thesis by metis
  qed
  then obtain rows where rows: "mapE (loaded_payload lib) ?ls = Inr rows" using mapE_total [of ?ls "loaded_payload lib"] by blast
  let ?ps = "map (\<lambda>(index, payload). dset ''_sjd_position'' (PInt (int index)) payload) (zip [0..<length rows] rows)"
  have "\<exists>d. y = sort_key fst d \<and> d \<in> range line_count_fields" if "y \<in> set rows" for y
    using mapE_mem [OF rows that] ex by fastforce
  then have c: "\<forall>d \<in> set ?ps. counted d" using positioned by (fastforce dest: set_zip_rightD)
  from select_counted [OF this] obtain selected where s: "select_production_line_counts ?ps = Inr selected" "set selected \<subseteq> set ?ps" by blast
  have "\<exists>n. line_position d = Inr n" if "d \<in> set selected" for d
  proof -
    have "counted d" using that s(2) c by blast
    then show ?thesis by (auto simp: line_position_def item_get_def counted_def)
  qed
  then obtain ns where "mapE line_position selected = Inr ns" using mapE_total [of selected line_position] by blast
  then show ?thesis using rows s(1) by (simp add: selected_positions_def)
qed

section \<open>The loop\<close>

definition emitted :: "pylib \<Rightarrow> nat \<Rightarrow> emission list \<Rightarrow> emission list \<Rightarrow> bool" where
  "emitted lib sequence ms es \<longleftrightarrow> list_all (emission_ok lib) es \<and> map eo_sequence es = [sequence..<sequence + length es]
     \<and> map eo_type (filter (\<lambda>m. eo_type m \<in> set TERMINAL_TYPES) es) = map eo_type (filter (\<lambda>m. eo_type m \<in> set TERMINAL_TYPES) ms)"

lemma completed_ok:
  assumes "library_ok lib" "pending_ok lib m" "process_sha256 lib (PDict (sort_key fst d)) = Inr digest"
    "json_loads lib (eo_json m) = Some (PDict (sort_key fst d))" "eo_json m = dumps lib (PDict d)"
  shows "emission_ok lib (m\<lparr>eo_digest := digest, eo_sequence := n\<rparr>)"
proof -
  have "digest_ok digest" using assms(1,3)
    by (auto simp: library_ok_def process_sha256_def process_canonical_def simp del: dumps.simps finite_json.simps split: if_splits)
  then show ?thesis using assms object_text [of lib d]
    by (auto simp: emission_ok_def pending_ok_def simp del: dumps.simps finite_json.simps)
qed

lemma emit_ok:
  assumes row: "row_ok (xe_lib xe) (xe_package_version xe) env profile mode cd c row"
    and ctx: "ro_task c = identity" "ro_threads c = tb_threads_per_worker budget" "ro_loads c = processor_loads p" "ro_hits c = processor_hits p"
    and lib: "library_ok (xe_lib xe)"
  shows "list_all (pending_ok (xe_lib xe)) ms \<Longrightarrow>
    \<exists>es. emit_records xe identity budget p row selected line sequence (map (raw_record c) ms) =
      Inr (map (full_record (xe_lib xe) (xe_package_version xe) env cd c) es) \<and> emitted (xe_lib xe) sequence ms es"
proof (induction ms arbitrary: line sequence)
  case (Cons m ms)
  let ?lib = "xe_lib xe"
  have m: "pending_ok ?lib m" and ms: "list_all (pending_ok ?lib) ms" using Cons.prems by simp_all
  from m obtain d where d: "loaded_payload ?lib (raw_record c m) = Inr (sort_key fst d)" "eo_json m = dumps ?lib (PDict d)"
    "json_loads ?lib (eo_json m) = Some (PDict (sort_key fst d))"
    "process_sha256 ?lib (PDict (sort_key fst d)) = Inr (sha256_hex ?lib (dumps ?lib (PDict (sort_key fst d))))"
    by (rule pending_payload [OF lib])
  show ?case
  proof (cases "is_line_count (raw_record c m) \<and> line \<notin> set selected")
    case True
    then have "eo_type m \<notin> set TERMINAL_TYPES" by (auto simp: raw_line_count TERMINAL_TYPES_def)
    then show ?thesis using Cons.IH [OF ms, of "Suc line" sequence] True d(1) by (simp add: emitted_def del: dumps.simps)
  next
    case False
    let ?e = "m\<lparr>eo_digest := sha256_hex ?lib (dumps ?lib (PDict (sort_key fst d))), eo_sequence := sequence\<rparr>"
    let ?line = "if is_line_count (raw_record c m) then Suc line else line"
    from Cons.IH [OF ms, of ?line "Suc sequence"] obtain es where es:
      "emit_records xe identity budget p row selected ?line (Suc sequence) (map (raw_record c) ms) =
        Inr (map (full_record ?lib (xe_package_version xe) env cd c) es)" "emitted ?lib (Suc sequence) ms es" by blast
    have "[sequence..<sequence + length (?e # es)] = sequence # [Suc sequence..<Suc sequence + length es]"
      by (simp add: upt_conv_Cons del: upt_Suc)
    then have "emitted ?lib sequence (m # ms) (?e # es)"
      using es(2) completed_ok [OF lib m d(4,3,2)] by (simp add: emitted_def del: dumps.simps upt_Suc)
    moreover have "emit_records xe identity budget p row selected line sequence (map (raw_record c) (m # ms)) =
        Inr (map (full_record ?lib (xe_package_version xe) env cd c) (?e # es))"
      unfolding list.map emit_records.simps d(1) bindE_Inr if_not_P [OF False] normalized_ok [OF row ctx d(4)] es(1) ..
    ultimately show ?thesis by blast
  qed
qed (simp add: emitted_def)

end
