(* ===== verification/Json_Reader.thy ===== *)
theory Json_Reader
  imports Py_Json
begin

text \<open>
  A reader for flat JSON objects, the values of which are texts, numbers and booleans, and the round trip
  with \<open>dumps\<close>: what is written by \<open>json.dumps(..., sort_keys=True)\<close> is read back with its
  keys in order.  Floats are written and read by a pair of functions that the caller supplies.
\<close>

section \<open>Digits\<close>

definition digits :: string where
  "digits = ''0123456789''"

lemma digit_char: "n < 10 \<Longrightarrow> char_of (48 + n) \<in> set digits" "n < 10 \<Longrightarrow> of_char (char_of (48 + n) :: char) - 48 = (n::nat)"
proof -
  assume "n < 10"
  then show "char_of (48 + n) \<in> set digits"
  proof -
    have "list_all (\<lambda>n. char_of (48 + n) \<in> set digits) [0..<10]" by code_simp
    then show ?thesis using \<open>n < 10\<close> by (simp add: list_all_iff)
  qed
  show "of_char (char_of (48 + n) :: char) - 48 = n" using \<open>n < 10\<close> by simp
qed

lemma nat_dec_digits: "set (nat_dec n) \<subseteq> set digits" "nat_dec n \<noteq> []"
proof -
  show "set (nat_dec n) \<subseteq> set digits"
  proof (induction n rule: nat_dec.induct)
    case (1 n)
    then show ?case using digit_char(1) [of "n mod 10"] digit_char(1) [of n] by (auto simp: nat_dec.simps [of n])
  qed
  show "nat_dec n \<noteq> []" by (subst nat_dec.simps) simp
qed

definition read_nat :: "string \<Rightarrow> nat" where
  "read_nat s = foldl (\<lambda>n c. 10 * n + (of_char c - 48)) 0 s"

lemma read_nat_dec: "read_nat (nat_dec n) = n"
proof (induction n rule: nat_dec.induct)
  case (1 n)
  show ?case
  proof (cases "n < 10")
    case True
    then show ?thesis using digit_char(2) [of n] by (simp add: nat_dec.simps [of n] read_nat_def)
  next
    case False
    then have "read_nat (nat_dec n) = 10 * read_nat (nat_dec (n div 10)) + n mod 10"
      using digit_char(2) [of "n mod 10"] by (simp add: nat_dec.simps [of n] read_nat_def)
    then show ?thesis using 1 False by simp
  qed
qed

definition read_int :: "string \<Rightarrow> int" where
  "read_int s = (case s of [] \<Rightarrow> 0 | c # cs \<Rightarrow> if c = CHR ''-'' then - int (read_nat cs) else int (read_nat s))"

lemma read_int_dec: "read_int (int_dec i) = i"
proof (cases "i < 0")
  case False
  obtain c cs where n: "nat_dec (nat i) = c # cs" "c \<in> set digits" using nat_dec_digits [of "nat i"] by (cases "nat_dec (nat i)") auto
  then have "c \<noteq> CHR ''-''" by (auto simp: digits_def)
  then show ?thesis using False n(1) read_nat_dec [of "nat i"] by (simp add: int_dec_def read_int_def)
qed (simp add: int_dec_def read_int_def read_nat_dec)

lemma int_dec_chars: "set (int_dec i) \<subseteq> insert (CHR ''-'') (set digits)" "int_dec i \<noteq> []"
  using nat_dec_digits by (auto simp: int_dec_def)

lemma bracket_free: "c \<in> set digits \<Longrightarrow> c \<notin> {CHR '','', CHR ''}'', CHR 0x22, CHR ''.'', CHR ''@''}"
  by (auto simp: digits_def)

section \<open>Texts\<close>

definition hex_value :: "char \<Rightarrow> nat" where
  "hex_value c = (let n = of_char c :: nat in if n < 58 then n - 48 else n - 87)"

lemma hex_value_digit: "k < 16 \<Longrightarrow> hex_value (hex_digit k) = k"
  by (simp add: hex_value_def hex_digit_def Let_def)

definition unescaped :: "char \<Rightarrow> char" where
  "unescaped c = (if c = CHR ''n'' then CHR 0x0A else if c = CHR ''r'' then CHR 0x0D else if c = CHR ''t'' then CHR 0x09
     else if c = CHR ''f'' then CHR 0x0C else if c = CHR ''b'' then CHR 0x08 else c)"

definition with_char :: "char \<Rightarrow> (string \<times> string) option \<Rightarrow> (string \<times> string) option" where
  "with_char c r = map_option (\<lambda>(s, rest). (c # s, rest)) r"

text \<open>The characters up to the closing quotation mark, and what follows it.\<close>

fun read_chars :: "string \<Rightarrow> (string \<times> string) option" where
  "read_chars [] = None"
| "read_chars (c # cs) =
     (if c = CHR 0x22 then Some ([], cs)
      else if c = CHR 0x5C then (case cs of
          [] \<Rightarrow> None
        | e # r \<Rightarrow> (if e = CHR ''u''
            then (case r of _ # _ # h # l # r' \<Rightarrow> with_char (char_of (16 * hex_value h + hex_value l)) (read_chars r') | _ \<Rightarrow> None)
            else with_char (unescaped e) (read_chars r)))
      else with_char c (read_chars cs))"

lemma of_char_eq: "(of_char c :: nat) = n \<Longrightarrow> c = char_of n"
  by (metis char_of_char)

lemma read_escaped: "read_chars (esc_char c @ rest) = with_char c (read_chars rest)"
proof -
  let ?n = "of_char c :: nat"
  have n: "?n < 256" by (metis char_of_char mod_less_divisor of_char_of zero_less_numeral)
  have ne: "c \<noteq> CHR 0x22" "c \<noteq> CHR 0x5C" if "?n \<noteq> 34" "?n \<noteq> 92" using that by auto
  have named: "char_of (34 :: nat) = CHR 0x22" "char_of (92 :: nat) = CHR 0x5C" "char_of (10 :: nat) = CHR 0x0A"
    "char_of (13 :: nat) = CHR 0x0D" "char_of (9 :: nat) = CHR 0x09" "char_of (12 :: nat) = CHR 0x0C" "char_of (8 :: nat) = CHR 0x08"
    by code_simp+
  have hex: "char_of (16 * (?n div 16) + ?n mod 16) = c" by simp
  consider "?n \<in> {34, 92, 10, 13, 9, 12, 8}" | "?n \<notin> {34, 92, 10, 13, 9, 12, 8}" "32 \<le> ?n" "?n \<le> 126"
    | "?n \<notin> {34, 92, 10, 13, 9, 12, 8}" "\<not> (32 \<le> ?n \<and> ?n \<le> 126)" by blast
  then show ?thesis
  proof cases
    case 1
    then have "c = char_of (34::nat) \<or> c = char_of (92::nat) \<or> c = char_of (10::nat) \<or> c = char_of (13::nat) \<or> c = char_of (9::nat)
        \<or> c = char_of (12::nat) \<or> c = char_of (8::nat)"
      unfolding insert_iff empty_iff simp_thms by (blast dest: of_char_eq)
    then have "c \<in> {CHR 0x22, CHR 0x5C, CHR 0x0A, CHR 0x0D, CHR 0x09, CHR 0x0C, CHR 0x08}" unfolding named insert_iff empty_iff simp_thms .
    moreover have "esc_char (CHR 0x22) = [CHR 0x5C, CHR 0x22]" "esc_char (CHR 0x5C) = [CHR 0x5C, CHR 0x5C]"
      "esc_char (CHR 0x0A) = [CHR 0x5C, CHR ''n'']" "esc_char (CHR 0x0D) = [CHR 0x5C, CHR ''r'']" "esc_char (CHR 0x09) = [CHR 0x5C, CHR ''t'']"
      "esc_char (CHR 0x0C) = [CHR 0x5C, CHR ''f'']" "esc_char (CHR 0x08) = [CHR 0x5C, CHR ''b'']" by code_simp+
    ultimately show ?thesis by (elim insertE emptyE) (simp_all add: unescaped_def)
  next
    case 2
    then show ?thesis using ne by (simp add: esc_char_def Let_def)
  next
    case 3
    then have "esc_char c = [CHR 0x5C, CHR ''u'', CHR ''0'', CHR ''0'', hex_digit (?n div 16), hex_digit (?n mod 16)]"
      by (auto simp: esc_char_def Let_def)
    then show ?thesis using n hex by (simp add: hex_value_digit less_mult_imp_div_less)
  qed
qed

lemma read_json_chars: "read_chars (concat (map esc_char s) @ CHR 0x22 # rest) = Some (s, rest)"
  by (induction s) (simp_all add: read_escaped with_char_def)

section \<open>Objects\<close>

text \<open>How floats are written: by an injective text of digits around a point.\<close>

definition float_text :: "(pyfloat \<Rightarrow> string) \<Rightarrow> (string \<Rightarrow> pyfloat) \<Rightarrow> bool" where
  "float_text write read \<longleftrightarrow> (\<forall>x. read (write x) = x \<and> CHR ''.'' \<in> set (write x)
     \<and> set (write x) \<subseteq> insert (CHR ''.'') (insert (CHR ''-'') (set digits)))"

definition read_token :: "(string \<Rightarrow> pyfloat) \<Rightarrow> string \<Rightarrow> pyval" where
  "read_token read s = (if s = ''true'' then PBool True else if s = ''false'' then PBool False
     else if CHR ''.'' \<in> set s then PFloat (read s) else PInt (read_int s))"

definition read_value :: "(string \<Rightarrow> pyfloat) \<Rightarrow> string \<Rightarrow> (pyval \<times> string) option" where
  "read_value read s =
     (if s \<noteq> [] \<and> hd s = CHR 0x22 then map_option (\<lambda>(t, r). (PStr t, r)) (read_chars (tl s))
      else Some (read_token read (takeWhile (\<lambda>c. c \<noteq> CHR '','' \<and> c \<noteq> CHR ''}'') s), dropWhile (\<lambda>c. c \<noteq> CHR '','' \<and> c \<noteq> CHR ''}'') s))"

text \<open>The fields up to the closing brace; \<open>fuel\<close> bounds their number.\<close>

fun read_fields :: "(string \<Rightarrow> pyfloat) \<Rightarrow> nat \<Rightarrow> string \<Rightarrow> (string \<times> pyval) list option" where
  "read_fields read 0 s = None"
| "read_fields read (Suc fuel) s = (case s of
     [] \<Rightarrow> None
   | q # r \<Rightarrow> if q \<noteq> CHR 0x22 then None else (case read_chars r of
       Some (k, CHR '':'' # r1) \<Rightarrow> (case read_value read r1 of
           Some (v, c # r2) \<Rightarrow> (if c = CHR '','' then map_option (Cons (k, v)) (read_fields read fuel r2)
             else if r2 = [] then Some [(k, v)] else None)
         | _ \<Rightarrow> None)
     | _ \<Rightarrow> None))"

definition read_object :: "(string \<Rightarrow> pyfloat) \<Rightarrow> string \<Rightarrow> pyval option" where
  "read_object read s = (if s = ''{}'' then Some (PDict [])
     else case s of [] \<Rightarrow> None | c # r \<Rightarrow> if c = CHR ''{'' then map_option PDict (read_fields read (length r) r) else None)"

fun flat_value :: "pyval \<Rightarrow> bool" where
  "flat_value (PInt i) = True"
| "flat_value (PFloat x) = True"
| "flat_value (PBool b) = True"
| "flat_value (PStr s) = True"
| "flat_value _ = False"

lemma token_written:
  assumes "float_text (float_repr lib) read" "flat_value v" "\<forall>s. v \<noteq> PStr s"
  shows "read_token read (dumps lib v) = v" "\<forall>c \<in> set (dumps lib v). c \<noteq> CHR '','' \<and> c \<noteq> CHR ''}'' \<and> c \<noteq> CHR 0x22" "dumps lib v \<noteq> []"
proof -
  have f: "read (float_repr lib x) = x" "CHR ''.'' \<in> set (float_repr lib x)"
    "set (float_repr lib x) \<subseteq> insert (CHR ''.'') (insert (CHR ''-'') (set digits))" for x
    using assms(1) by (simp_all add: float_text_def)
  have fd: "c \<in> set (float_repr lib x) \<Longrightarrow> c = CHR ''.'' \<or> c = CHR ''-'' \<or> c \<in> set digits" for c x using f(3) by blast
  have id: "c \<in> set (int_dec i) \<Longrightarrow> c = CHR ''-'' \<or> c \<in> set digits" for c i using int_dec_chars by blast
  have t: "CHR ''t'' \<notin> set digits" "CHR ''f'' \<notin> set digits" "CHR ''.'' \<notin> set digits" by (simp_all add: digits_def)
  have no: "float_repr lib x \<noteq> ''true''" "float_repr lib x \<noteq> ''false''" "int_dec i \<noteq> ''true''" "int_dec i \<noteq> ''false''"
    "CHR ''.'' \<notin> set (int_dec i)" for x i
    using fd [of "CHR ''t''" x] fd [of "CHR ''f''" x] id [of "CHR ''t''" i] id [of "CHR ''f''" i] id [of "CHR ''.''" i] t by auto
  show "read_token read (dumps lib v) = v"
    using assms(2,3) no f by (cases v) (simp_all add: read_token_def read_int_dec)
  show "\<forall>c \<in> set (dumps lib v). c \<noteq> CHR '','' \<and> c \<noteq> CHR ''}'' \<and> c \<noteq> CHR 0x22"
    using assms(2,3) by (cases v) (auto dest!: fd id bracket_free)
  have "float_repr lib x \<noteq> []" for x using f(2) [of x] by auto
  then show "dumps lib v \<noteq> []" using assms(2,3) int_dec_chars(2) by (cases v) simp_all
qed

lemma value_written:
  assumes "float_text (float_repr lib) read" "flat_value v" "c = CHR '','' \<or> c = CHR ''}''"
  shows "read_value read (dumps lib v @ c # rest) = Some (v, c # rest)"
proof (cases "\<exists>s. v = PStr s")
  case True
  then show ?thesis by (auto simp: read_value_def json_str_def read_json_chars)
next
  case False
  note t = token_written [OF assms(1,2)]
  have nq: "hd (dumps lib v @ c # rest) \<noteq> CHR 0x22" using t(2,3) False by (cases "dumps lib v") auto
  have "takeWhile (\<lambda>c. c \<noteq> CHR '','' \<and> c \<noteq> CHR ''}'') (dumps lib v @ c # rest) = dumps lib v"
    "dropWhile (\<lambda>c. c \<noteq> CHR '','' \<and> c \<noteq> CHR ''}'') (dumps lib v @ c # rest) = c # rest"
    using t(2) False assms(3) by (auto simp: takeWhile_append2 dropWhile_append2)
  then show ?thesis using t(1) False nq by (simp add: read_value_def)
qed

lemma fields_written:
  assumes "float_text (float_repr lib) read" "kvs \<noteq> []" "\<forall>p \<in> set kvs. flat_value (snd p)" "length kvs \<le> fuel"
  shows "read_fields read fuel (comma_sep (map (\<lambda>(k, t). json_str k @ '':'' @ t) (map (map_prod id (dumps lib)) kvs)) @ ''}'') = Some kvs"
  using assms(2-4)
proof (induction kvs arbitrary: fuel)
  case (Cons p kvs)
  obtain k v where p: "p = (k, v)" by (cases p)
  obtain f where f: "fuel = Suc f" using Cons.prems(3) by (cases fuel) auto
  have v: "flat_value v" using Cons.prems(2) by (simp add: p)
  show ?case
  proof (cases kvs)
    case Nil
    then show ?thesis using value_written [OF assms(1) v, of "CHR ''}''" "[]"] by (simp add: p f json_str_def read_json_chars del: dumps.simps)
  next
    case (Cons q kvs')
    let ?rest = "comma_sep (map (\<lambda>(k, t). json_str k @ '':'' @ t) (map (map_prod id (dumps lib)) kvs)) @ ''}''"
    have "read_fields read f ?rest = Some kvs" using Cons Cons.prems f by (intro Cons.IH) auto
    moreover have "comma_sep (map (\<lambda>(k, t). json_str k @ '':'' @ t) (map (map_prod id (dumps lib)) (p # kvs))) @ ''}'' =
        CHR 0x22 # concat (map esc_char k) @ CHR 0x22 # CHR '':'' # dumps lib v @ CHR '','' # ?rest"
      by (simp add: Cons p json_str_def del: dumps.simps)
    moreover have "read_value read (dumps lib v @ CHR '','' # ?rest) = Some (v, CHR '','' # ?rest)"
      by (rule value_written [OF assms(1) v]) simp
    ultimately show ?thesis unfolding f p by (simp only: read_fields.simps) (simp add: read_json_chars del: dumps.simps comma_sep.simps)
  qed
qed simp

lemma sort_dumped: "sort_key fst (map (map_prod id (dumps lib)) (kvs :: (string \<times> pyval) list)) = map (map_prod id (dumps lib)) (sort_key fst kvs)"
proof -
  have "insort_key fst (map_prod id (dumps lib) x) (map (map_prod id (dumps lib)) xs) = map (map_prod id (dumps lib)) (insort_key fst x xs)"
    for x :: "string \<times> pyval" and xs :: "(string \<times> pyval) list" by (induction xs) auto
  note ins = this
  show ?thesis
  proof (induction kvs)
    case (Cons x xs)
    then show ?case by (simp only: sort_key_simps list.map ins)
  qed simp
qed

lemma comma_sep_length: "list_all (\<lambda>x. x \<noteq> []) xs \<Longrightarrow> length xs \<le> length (comma_sep xs)"
  by (induction xs rule: comma_sep.induct) (auto simp: Suc_le_eq)

lemma read_dumped:
  assumes "float_text (float_repr lib) read" "\<forall>p \<in> set d. flat_value (snd p)"
  shows "read_object read (dumps lib (PDict d)) = Some (PDict (sort_key fst d))"
proof (cases "d = []")
  case False
  let ?ts = "map (\<lambda>(k, t). json_str k @ '':'' @ t) (map (map_prod id (dumps lib)) (sort_key fst d))"
  have ne: "sort_key fst d \<noteq> []" using False by (metis length_0_conv length_sort)
  have "length (sort_key fst d) \<le> length (comma_sep ?ts @ ''}'')"
  proof -
    have "list_all (\<lambda>x. x \<noteq> []) ?ts" by (auto simp: list_all_iff)
    from comma_sep_length [OF this] show ?thesis by simp
  qed
  then have "read_fields read (length (comma_sep ?ts @ ''}'')) (comma_sep ?ts @ ''}'') = Some (sort_key fst d)"
    using assms ne by (intro fields_written) auto
  moreover have "dumps lib (PDict d) = CHR ''{'' # comma_sep ?ts @ ''}''" by (simp add: sort_dumped)
  moreover have "comma_sep ?ts \<noteq> []" using ne by (cases ?ts rule: comma_sep.cases) auto
  ultimately show ?thesis by (simp add: read_object_def del: dumps.simps)
qed (simp add: read_object_def)

end
