(* ===== verification/Process_Plan_Correct.thy ===== *)
theory Process_Plan_Correct
  imports Process_Plan_Spec Control_Register
begin

text \<open>
  What the execution plan of a claimed batch guarantees, with a plan of three videos on the reviewed
  two-worker profile as the concrete case.
\<close>

section \<open>A small plan\<close>

definition demo_video :: "string \<Rightarrow> pyfloat \<Rightarrow> envelope_item" where
  "demo_video i d = \<lparr>ei_ordinal = 0, ei_work_id = i, ei_attempt_id = ''a'' @ i, ei_fence = 1,
     ei_payload_sha256 = [], ei_payload = [], ei_config_sha256 = ''c'', ei_release_digest = ''r'',
     ei_duration_seconds = d, ei_runtime_key = ''rt''\<rparr>"

definition demo_videos :: "envelope_item list" where
  "demo_videos = [demo_video ''w1'' 60, demo_video ''w2'' 90, demo_video ''w3'' 45]"

definition demo_lpt :: execution_plan where
  "demo_lpt = (case plan_duration_lpt demo_videos LOCAL_TWO_WORKERS (Some 268435456) None of Inr p \<Rightarrow> p)"

lemma demo_lpt: "plan_duration_lpt demo_videos LOCAL_TWO_WORKERS (Some 268435456) None = Inr demo_lpt"
proof -
  obtain plan where "plan_duration_lpt demo_videos LOCAL_TWO_WORKERS (Some 268435456) None = Inr plan"
    using plan_exists [of demo_videos "''rt''" LOCAL_TWO_WORKERS "Some 268435456"]
    by (auto simp: demo_videos_def demo_video_def LOCAL_TWO_WORKERS_def planned_tasks_def)
  then show ?thesis by (simp add: demo_lpt_def)
qed

lemma demo_assigned: "assign_items 2 demo_videos =
    ([[demo_video ''w2'' 90], [demo_video ''w1'' 60, demo_video ''w3'' 45]], [90, 105])"
  by code_simp

lemma demo_lpt_shape: "xp_projected_makespan_seconds demo_lpt = 105" "cd_concurrency (xp_concurrency demo_lpt) = 2"
  "xp_buckets demo_lpt \<noteq> []"
proof -
  from demo_lpt obtain cd buckets where cd: "conservative_concurrency (int (length demo_videos)) LOCAL_TWO_WORKERS (Some 268435456) = Inr cd"
    and b: "assign_items (nat (cd_concurrency cd)) demo_videos = (buckets, map bucket_cost buckets)"
    "demo_lpt = \<lparr>xp_concurrency = cd, xp_buckets = map (bucket_of (ei_runtime_key (hd demo_videos)) buckets) [0..<length buckets],
       xp_waves = make_waves (map (bucket_of (ei_runtime_key (hd demo_videos)) buckets) [0..<length buckets]),
       xp_projected_makespan_seconds = Max (set (map bucket_cost buckets))\<rparr>"
    by (rule plan_cases)
  have two: "cd_concurrency cd = 2"
    using cd by (auto simp: conservative_concurrency_def memory_limit_def LOCAL_TWO_WORKERS_def planned_tasks_def
        demo_videos_def Let_def)
  have bs: "map bucket_cost buckets = [90, 105]" "length buckets = 2"
    using b(1) demo_assigned by (auto simp: two)
  have "xp_projected_makespan_seconds demo_lpt = Max (set (map bucket_cost buckets))" unfolding b(2) by simp
  then show "xp_projected_makespan_seconds demo_lpt = 105" unfolding bs by simp
  show "cd_concurrency (xp_concurrency demo_lpt) = 2" "xp_buckets demo_lpt \<noteq> []" unfolding b(2) using two bs(2) by auto
qed

lemma plan_placements:
  assumes "plan_duration_lpt items p peak minimum = Inr plan"
  shows "mset (map pi_item (concat (map bp_items (xp_buckets plan)))) = mset items"
    and "mset (concat (map wp_items (xp_waves plan))) = mset (concat (map bp_items (xp_buckets plan)))"
    and "list_all (\<lambda>w. distinct (map pi_bucket_id (wp_items w))) (xp_waves plan)"
    and "length (xp_buckets plan) = nat (cd_concurrency (xp_concurrency plan))"
proof -
  from assms obtain cd buckets where b: "length buckets = nat (cd_concurrency cd)" "mset (concat buckets) = mset items"
    "plan = \<lparr>xp_concurrency = cd, xp_buckets = map (bucket_of (ei_runtime_key (hd items)) buckets) [0..<length buckets],
       xp_waves = make_waves (map (bucket_of (ei_runtime_key (hd items)) buckets) [0..<length buckets]),
       xp_projected_makespan_seconds = Max (set (map bucket_cost buckets))\<rparr>"
    by (rule plan_cases)
  show "mset (map pi_item (concat (map bp_items (xp_buckets plan)))) = mset items"
    unfolding b(3) using plan_items [OF refl, of "ei_runtime_key (hd items)" buckets] b(2) by simp
  show "mset (concat (map wp_items (xp_waves plan))) = mset (concat (map bp_items (xp_buckets plan)))"
    unfolding b(3) using waves_items [OF refl] by simp
  show "list_all (\<lambda>w. distinct (map pi_bucket_id (wp_items w))) (xp_waves plan)"
    unfolding b(3) list_all_iff using wave_one_per_bucket [OF refl planned_slots [OF refl]] by simp
  show "length (xp_buckets plan) = nat (cd_concurrency (xp_concurrency plan))" using b by simp
qed

text \<open>C16: a plan places every claimed item exactly once; the waves hold the same placements as the
  buckets, and no wave has two items of one bucket, so that a bucket runs one item at a time.\<close>

theorem plan_partitions_items:
  assumes "plan_duration_lpt items p peak minimum = Inr plan"
  shows "mset (map pi_item (concat (map bp_items (xp_buckets plan)))) = mset items
    \<and> mset (concat (map wp_items (xp_waves plan))) = mset (concat (map bp_items (xp_buckets plan)))
    \<and> list_all (\<lambda>w. distinct (map pi_bucket_id (wp_items w))) (xp_waves plan)
    \<and> length (xp_buckets plan) = nat (cd_concurrency (xp_concurrency plan))"
  by (intro conjI plan_placements [OF assms])

theorem plan_partitions_items_witness:
  "mset (map pi_item (concat (map bp_items (xp_buckets demo_lpt)))) = mset demo_videos \<and> length (xp_buckets demo_lpt) = 2"
  using plan_partitions_items [OF demo_lpt] demo_lpt_shape(2) by simp

lemma plan_costs_balanced:
  assumes "plan_duration_lpt items p peak minimum = Inr plan"
    and "\<forall>i \<in> set items. 0 \<le> ei_duration_seconds i \<and> ei_duration_seconds i \<le> longest"
    and "b \<in> set (xp_buckets plan)"
  shows "xp_projected_makespan_seconds plan \<le> fadd (bp_total_cost_seconds b) longest"
    and "bp_total_cost_seconds b = foldl fadd 0 (map pi_planned_cost_seconds (bp_items b))"
proof -
  from assms(1) obtain cd buckets where cd: "1 \<le> cd_concurrency cd"
    and b: "assign_items (nat (cd_concurrency cd)) items = (buckets, map bucket_cost buckets)"
    "length buckets = nat (cd_concurrency cd)" "mset (concat buckets) = mset items"
    "plan = \<lparr>xp_concurrency = cd, xp_buckets = map (bucket_of (ei_runtime_key (hd items)) buckets) [0..<length buckets],
       xp_waves = make_waves (map (bucket_of (ei_runtime_key (hd items)) buckets) [0..<length buckets]),
       xp_projected_makespan_seconds = Max (set (map bucket_cost buckets))\<rparr>"
    by (rule plan_cases)
  obtain k where k: "k < length buckets" "b = bucket_of (ei_runtime_key (hd items)) buckets k"
    using assms(3) unfolding b(4) by auto
  have "items \<noteq> []" using assms(1) by (auto simp: plan_duration_lpt_def)
  then have "0 \<le> longest" using assms(2) by (cases items) auto
  then have "balanced longest (map bucket_cost buckets)"
    using assign_items_balanced [of "nat (cd_concurrency cd)" items longest] assms(2) cd b(1) by simp
  then have "\<forall>c \<in> set (map bucket_cost buckets). c \<le> fadd (bucket_cost (buckets ! k)) longest"
    using k(1) by (auto simp: balanced_def in_set_conv_nth)
  moreover have "Max (set (map bucket_cost buckets)) \<in> set (map bucket_cost buckets)" using k(1) by (intro Max_in) auto
  ultimately show "xp_projected_makespan_seconds plan \<le> fadd (bp_total_cost_seconds b) longest"
    unfolding b(4) k(2) by (auto simp: bucket_of_def)
  have "map pi_planned_cost_seconds (plan_bucket k k xs) = map ei_duration_seconds xs" for xs
    by (auto simp: plan_bucket_def intro!: nth_equalityI)
  then show "bp_total_cost_seconds b = foldl fadd 0 (map pi_planned_cost_seconds (bp_items b))"
    unfolding k(2) by (simp add: bucket_of_def bucket_cost_def foldl_map)
qed

text \<open>C17: the plan is balanced: the projected makespan exceeds the cost of any bucket by at most one
  item of the longest duration, in the floating-point arithmetic of the code.\<close>

theorem plan_balanced:
  assumes "plan_duration_lpt items p peak minimum = Inr plan"
    and "\<forall>i \<in> set items. 0 \<le> ei_duration_seconds i \<and> ei_duration_seconds i \<le> longest"
    and "b \<in> set (xp_buckets plan)"
  shows "xp_projected_makespan_seconds plan \<le> fadd (bp_total_cost_seconds b) longest
    \<and> bp_total_cost_seconds b = foldl fadd 0 (map pi_planned_cost_seconds (bp_items b))"
  using plan_costs_balanced [OF assms] by blast

theorem plan_balanced_witness:
  "xp_projected_makespan_seconds demo_lpt \<le> fadd (bp_total_cost_seconds (hd (xp_buckets demo_lpt))) 90"
proof (rule plan_balanced [OF demo_lpt, THEN conjunct1])
  show "\<forall>i \<in> set demo_videos. 0 \<le> ei_duration_seconds i \<and> ei_duration_seconds i \<le> 90"
    by (simp add: demo_videos_def demo_video_def)
  show "hd (xp_buckets demo_lpt) \<in> set (xp_buckets demo_lpt)"
    using demo_lpt_shape(3) by (cases "xp_buckets demo_lpt") auto
qed

section \<open>The claim and the process agree\<close>

lemma attributes:
  "getattr (profile_attributes p) ''name'' = PStr (ep_name p)"
  "getattr (profile_attributes p) ''executor_instances'' = PInt (ep_executor_instances p)"
  "getattr (profile_attributes p) ''executor_cores'' = PInt (ep_executor_cores p)"
  "getattr (profile_attributes p) ''executor_memory_bytes'' = PInt (ep_executor_memory_bytes p)"
  "getattr (profile_attributes p) ''task_cpus'' = PInt (ep_task_cpus p)"
  "getattr (profile_attributes p) ''memory_reserve_bytes'' = PInt (ep_memory_reserve_bytes p)"
  "getattr (profile_attributes p) ''minimum_speed_x'' = PFloat (ep_minimum_speed_x p)"
  "getattr (profile_attributes p) ''lease_safety_factor'' = PFloat (ep_lease_safety_factor p)"
  "getattr (profile_attributes p) ''lease_margin_seconds'' = PFloat (ep_lease_margin_seconds p)"
  by (simp_all add: profile_attributes_def getattr_def dget_def)

text \<open>The claim has one worker per executor, the plan one per planned task; the limits by processors and memory,
  \<open>cap\<close>, are the same.\<close>

lemma admission_of_profile:
  assumes "claim_admission_settings (Some (profile_attributes p)) PNone PNone PNone (opt_int peak) = Inr ad"
    and "conservative_concurrency n p peak = Inr cd"
  obtains cap where "ad_workers ad = min (ep_executor_instances p) cap" "cd_concurrency cd = min n (min (planned_tasks p) cap)"
    "1 \<le> ep_executor_instances p" "ad_speed ad = ep_minimum_speed_x p" "ad_factor ad = ep_lease_safety_factor p"
    "ad_margin ad = ep_lease_margin_seconds p" "0 < ad_speed ad" "0 < ad_factor ad"
proof -
  let ?i = "ep_executor_instances p" and ?cpu = "ep_executor_instances p * ep_executor_cores p div ep_task_cpus p"
  have w: "memory_workers (profile_attributes p) (opt_int peak) ?i (min ?i ?cpu) = Inr (ad_workers ad)"
    and c: "1 \<le> ep_executor_instances p"
    and m: "ad_speed ad = ep_minimum_speed_x p" "ad_factor ad = ep_lease_safety_factor p" "ad_margin ad = ep_lease_margin_seconds p"
      "0 < ad_speed ad" "0 < ad_factor ad"
    using assms(1)
    by (auto simp: claim_admission_settings_def attributes check_supplied_def positive_finite_def positive_int_def
        finite_num_def Let_def split: if_splits)
  have mem: "memory_limit p peak = Inr (cd_memory_limit cd)" by (rule conservative_concurrencyD(5) [OF assms(2)])
  let ?cap = "case cd_memory_limit cd of None \<Rightarrow> ?cpu | Some l \<Rightarrow> min ?cpu l"
  have "ad_workers ad = min ?i ?cap"
  proof (cases peak)
    case None
    then show ?thesis using w mem by (simp add: memory_workers_def opt_int_def memory_limit_def)
  next
    case (Some m)
    then show ?thesis using w mem
      by (simp add: memory_workers_def opt_int_def attributes positive_int_def nonnegative_int_def Let_def memory_limit_def
          split: if_splits) (metis min.assoc option.simps(5))
  qed
  moreover have "cd_concurrency cd = Min (set ([n, planned_tasks p, ?cpu] @ (case cd_memory_limit cd of None \<Rightarrow> [] | Some l \<Rightarrow> [l])))"
    using assms(2) mem unfolding conservative_concurrency_def Let_def
    by (cases cd) (auto simp del: set_append set_simps Min_insert split: if_splits)
  then have "cd_concurrency cd = min n (min (planned_tasks p) ?cap)" by (cases "cd_memory_limit cd") (simp_all add: min.assoc)
  ultimately show thesis using that c m by blast
qed

text \<open>C18: the projection that admits a claim against the projection of the plan that runs it.  For items of the same
  durations the claim's projection exists and counts one worker per executor, where the plan counts one per planned task of the
  profile: if the two counts are equal, so are the workers, the makespans and the projected seconds; with more planned
  tasks than executors the claim's projection is never the shorter one, with fewer never the longer one.\<close>

theorem claim_projection_is_plan:
  assumes "claim_admission_settings (Some (profile_attributes p)) PNone PNone PNone (opt_int peak) = Inr ad"
    and "plan_duration_lpt items p peak minimum = Inr plan"
    and "map (\<lambda>i. (ei_duration_seconds i, ei_work_id i)) items = map (\<lambda>w. (w_duration_seconds w, w_work_id w)) rows"
    and "\<forall>i \<in> set items. 0 \<le> ei_duration_seconds i"
  defines "seconds \<equiv> (\<lambda>makespan. fmul (fdiv makespan (ep_minimum_speed_x p)) (ep_lease_safety_factor p))"
    and "planned \<equiv> xp_projected_makespan_seconds plan" and "tasks \<equiv> cd_concurrency (xp_concurrency plan)"
  shows "\<exists>workers makespan. projection ad rows = Inr (workers, makespan, seconds makespan)
    \<and> (planned_tasks p = ep_executor_instances p \<longrightarrow> workers = tasks \<and> makespan = planned)
    \<and> (ep_executor_instances p \<le> planned_tasks p \<longrightarrow> workers \<le> tasks \<and> planned \<le> makespan \<and> seconds planned \<le> seconds makespan)
    \<and> (planned_tasks p \<le> ep_executor_instances p \<longrightarrow> tasks \<le> workers \<and> makespan \<le> planned \<and> seconds makespan \<le> seconds planned)"
proof -
  from assms(2) obtain cd buckets where cd: "conservative_concurrency (int (length items)) p peak = Inr cd" "1 \<le> cd_concurrency cd"
    and b: "assign_items (nat (cd_concurrency cd)) items = (buckets, map bucket_cost buckets)"
    "plan = \<lparr>xp_concurrency = cd, xp_buckets = map (bucket_of (ei_runtime_key (hd items)) buckets) [0..<length buckets],
       xp_waves = make_waves (map (bucket_of (ei_runtime_key (hd items)) buckets) [0..<length buckets]),
       xp_projected_makespan_seconds = Max (set (map bucket_cost buckets))\<rparr>"
    by (rule plan_cases)
  from assms(1) cd(1) obtain cap where ad: "ad_workers ad = min (ep_executor_instances p) cap"
    "cd_concurrency cd = min (int (length items)) (min (planned_tasks p) cap)" "1 \<le> ep_executor_instances p"
    "ad_speed ad = ep_minimum_speed_x p" "ad_factor ad = ep_lease_safety_factor p" "0 < ad_speed ad" "0 < ad_factor ad"
    by (rule admission_of_profile)
  let ?w = "min (int (length rows)) (ad_workers ad)"
  define m where "m n = Max (set (snd (assign_items (nat n) items)))" for n
  have len: "length rows = length items" using assms(3) by (metis length_map)
  have w: "1 \<le> ?w" "?w = min (int (length items)) (min (ep_executor_instances p) cap)" using ad(1-3) cd(2) len by auto
  from w(1) have pos: "(?w \<le> 0) = False" by auto
  have tasks: "tasks = cd_concurrency cd" "planned = m tasks" using b by (simp_all add: tasks_def planned_def m_def)
  have proj: "projection ad rows = Inr (?w, m ?w, seconds (m ?w))"
    using pos same_projection [OF assms(3)] ad(4,5) by (simp only: projection_def lpt_makespan_def Let_def seconds_def if_False bindE_Inr m_def)
  have less: "m n \<le> m k" if "1 \<le> k" "k \<le> n" for k n :: int
    using more_workers [of "nat k" "nat n" items] that assms(4) by (simp add: m_def)
  have seconds: "seconds x \<le> seconds y" if "x \<le> y" for x y
    using that ad(4-7) by (simp add: seconds_def fmul_def fdiv_def divide_right_mono fround_mono mult_right_mono)
  have t: "1 \<le> tasks" "planned_tasks p = ep_executor_instances p \<Longrightarrow> ?w = tasks" "ep_executor_instances p \<le> planned_tasks p \<Longrightarrow> ?w \<le> tasks"
    "planned_tasks p \<le> ep_executor_instances p \<Longrightarrow> tasks \<le> ?w"
    unfolding w(2) tasks(1) ad(2) using cd(2) ad(2) by linarith+
  show ?thesis
  proof (intro exI [of _ ?w] exI [of _ "m ?w"] conjI impI proj)
    assume "planned_tasks p = ep_executor_instances p"
    from t(2) [OF this] show "?w = tasks" .
    then show "m ?w = planned" unfolding tasks(2) by (rule arg_cong [of _ _ m])
  next
    assume "ep_executor_instances p \<le> planned_tasks p"
    then show le: "?w \<le> tasks" by (rule t(3))
    show "planned \<le> m ?w" unfolding tasks(2) by (rule less [OF w(1) le])
    then show "seconds planned \<le> seconds (m ?w)" by (rule seconds)
  next
    assume "planned_tasks p \<le> ep_executor_instances p"
    then show le: "tasks \<le> ?w" by (rule t(4))
    show "m ?w \<le> planned" unfolding tasks(2) by (rule less [OF t(1) le])
    then show "seconds (m ?w) \<le> seconds planned" by (rule seconds)
  qed
qed

definition demo_rows :: "work_row list" where
  "demo_rows = map (\<lambda>i. new_work [] [] \<lparr>q_work_id = ei_work_id i, q_payload = [], q_runtime_key = ''rt'',
     q_duration_seconds = ei_duration_seconds i, q_config_sha256 = [], q_release_digest = [], q_max_attempts = 1,
     q_available_at = None\<rparr> 0) demo_videos"

theorem claim_projection_is_plan_witness:
  "projection \<lparr>ad_speed = 1, ad_factor = 5 / 4, ad_margin = 30, ad_workers = 2, ad_name = ''local-two-workers''\<rparr> demo_rows =
     Inr (2, 105, fmul (fdiv 105 1) (5 / 4))"
proof -
  have "claim_admission_settings (Some (profile_attributes LOCAL_TWO_WORKERS)) PNone PNone PNone (opt_int (Some 268435456)) =
      Inr \<lparr>ad_speed = 1, ad_factor = 5 / 4, ad_margin = 30, ad_workers = 2, ad_name = ''local-two-workers''\<rparr>"
    by code_simp
  moreover have "planned_tasks LOCAL_TWO_WORKERS = ep_executor_instances LOCAL_TWO_WORKERS"
    by (simp add: planned_tasks_def LOCAL_TWO_WORKERS_def)
  moreover have "map (\<lambda>i. (ei_duration_seconds i, ei_work_id i)) demo_videos = map (\<lambda>w. (w_duration_seconds w, w_work_id w)) demo_rows"
    by (simp add: demo_rows_def new_work_def comp_def)
  moreover have "\<forall>i \<in> set demo_videos. 0 \<le> ei_duration_seconds i" by (simp add: demo_videos_def demo_video_def)
  ultimately show ?thesis using claim_projection_is_plan [OF _ demo_lpt] demo_lpt_shape(1,2)
    by (simp add: LOCAL_TWO_WORKERS_def planned_tasks_def)
qed

text \<open>C19: planning never fails for a claim of one runtime affinity on a profile that can run a task:
  it ends with a plan, without index errors, whatever the durations and the number of items.\<close>

theorem plan_always_found:
  assumes "items \<noteq> []" "\<forall>i \<in> set items. ei_runtime_key i = k"
    and "1 \<le> ep_task_cpus p" "ep_task_cpus p \<le> ep_executor_instances p * ep_executor_cores p"
    and "1 \<le> planned_tasks p" "1 \<le> ep_executor_instances p"
    and "\<forall>m. peak = Some m \<longrightarrow> 1 \<le> m \<and> m \<le> ep_executor_memory_bytes p - ep_memory_reserve_bytes p"
  shows "\<exists>plan. plan_duration_lpt items p peak None = Inr plan"
  using assms by (intro plan_exists [of _ k]) simp_all

theorem plan_always_found_witness: "\<exists>plan. plan_duration_lpt demo_videos LOCAL_TWO_WORKERS None None = Inr plan"
  by (rule plan_always_found [of _ "''rt''"])
    (auto simp: demo_videos_def demo_video_def LOCAL_TWO_WORKERS_def planned_tasks_def)

end
