(* ===== verification/Process_Executor_Batch.thy ===== *)
theory Process_Executor_Batch
  imports Process_Executor_Emit Json_Reader Process_Plan_Correct
begin

text \<open>
  From one row to a whole batch: what a partition emits for its rows, and that the records of all items of
  a plan are accepted by \<open>validate_staged_records\<close>.
\<close>

section \<open>Executors\<close>

text \<open>What an executor's libraries promise: exceptions have a class name, a result has been initialized by the video's
  metadata and counts from zero, and \<open>time.sleep\<close> refuses a negative delay.\<close>

definition executor_ok :: "('rt, 'n) executor \<Rightarrow> bool" where
  "executor_ok xe \<longleftrightarrow> library_ok (xe_lib xe) \<and> text_ok (xe_package_version xe)
     \<and> (\<forall>x < 0. xe_sleep xe (PFloat x) \<noteq> None) \<and> (\<forall>v e. xe_sleep xe v = Some e \<longrightarrow> exn_ok e)
     \<and> (\<forall>w e. xe_config xe w = Inl e \<longrightarrow> exn_ok e) \<and> (\<forall>config e. sdk_load_runtime (xe_sdk xe) config = Inl e \<longrightarrow> exn_ok e)
     \<and> (\<forall>config rt e. sdk_run_with_runtime (xe_sdk xe) config rt = Inl e \<longrightarrow> exn_ok e)
     \<and> (\<forall>config rt r. sdk_run_with_runtime (xe_sdk xe) config rt = Inr r \<longrightarrow> result_ok r)"

lemma executor_okD:
  assumes "executor_ok xe"
  shows "library_ok (xe_lib xe)" "text_ok (xe_package_version xe)" "x < 0 \<Longrightarrow> xe_sleep xe (PFloat x) \<noteq> None" "xe_sleep xe v = Some e \<Longrightarrow> exn_ok e"
    "xe_config xe w = Inl e \<Longrightarrow> exn_ok e" "sdk_load_runtime (xe_sdk xe) config = Inl e \<Longrightarrow> exn_ok e"
    "sdk_run_with_runtime (xe_sdk xe) config rt = Inl e \<Longrightarrow> exn_ok e" "sdk_run_with_runtime (xe_sdk xe) config rt = Inr r \<Longrightarrow> result_ok r"
  using assms unfolding executor_ok_def by blast+

lemma probe_ok:
  assumes "executor_ok xe"
  shows "case probe_run (xe_sleep xe) delay of Inl e \<Rightarrow> exn_ok e | Inr r \<Rightarrow> result_ok r"
proof (cases "if delay = PFloat 0 then None else xe_sleep xe delay")
  case None
  have "0 \<le> (case delay of PFloat x \<Rightarrow> x | _ \<Rightarrow> 0)"
    using executor_okD(3) [OF assms] None by (cases delay) (force simp: not_less split: if_splits)+
  then show ?thesis using None by (simp add: probe_run_def result_ok_def probe_result_def new_run_result_def)
next
  case (Some e)
  then show ?thesis using executor_okD(4) [OF assms] by (simp add: probe_run_def split: if_splits)
qed

lemma get_or_load_error:
  assumes "get_or_load key loaded cache = (Inl e, cache1)"
  shows "loaded = Inl e"
  using assms by (auto simp: get_or_load_def split: option.splits sum.splits)

lemma run_ok:
  assumes "executor_ok xe" "build_and_run (xe_config xe) (run_processor xe) row p = (x, p1)"
  shows "case x of Inl e \<Rightarrow> exn_ok e | Inr r \<Rightarrow> result_ok r"
proof (cases "xe_config xe row")
  case (Inl e)
  then have "x = Inl e" using assms(2) by (simp add: build_and_run_def)
  then show ?thesis using executor_okD(5) [OF assms(1) Inl] by simp
next
  case (Inr config)
  then have run: "run_processor xe config p = (x, p1)" using assms(2) by (simp add: build_and_run_def)
  show ?thesis
  proof (cases p)
    case (Probe delay)
    then show ?thesis using run probe_ok [OF assms(1), of delay] by (auto simp: run_processor_def)
  next
    case (Sdk cache)
    obtain y cache1 where g: "get_or_load (runtime_cache_key (sdk_resolve (xe_sdk xe)) config) (sdk_load_runtime (xe_sdk xe) config) cache = (y, cache1)"
      by fastforce
    show ?thesis
    proof (cases y)
      case (Inl e)
      then have "sdk_load_runtime (xe_sdk xe) config = Inl e" using g get_or_load_error by fastforce
      moreover have "x = Inl e" using run g Inl by (simp add: run_processor_def Sdk sdk_run_def)
      ultimately show ?thesis using executor_okD(6) [OF assms(1)] by simp
    next
      case (Inr rt)
      then have "x = sdk_run_with_runtime (xe_sdk xe) config rt" using run g by (simp add: run_processor_def Sdk sdk_run_def)
      then show ?thesis using executor_okD(7,8) [OF assms(1), of config rt] by (auto split: sum.split)
    qed
  qed
qed

section \<open>The records of an item\<close>

definition item_records :: "pylib \<Rightarrow> string \<Rightarrow> verified_envelope \<Rightarrow> concurrency_decision \<Rightarrow> planned_item \<Rightarrow> staged list \<Rightarrow> bool" where
  "item_records lib pkg env cd p rs \<longleftrightarrow> (\<exists>c es. rs = map (full_record lib pkg env cd c) es \<and> context_ok lib c \<and> ro_planned c = p
     \<and> list_all (emission_ok lib) es \<and> distinct (map eo_sequence es) \<and> one_terminal es)"

lemma row_ok_counters:
  assumes "row_ok lib pkg env profile mode cd c row" "0 \<le> l" "0 \<le> h"
  shows "row_ok lib pkg env profile mode cd (c\<lparr>ro_loads := l, ro_hits := h\<rparr>) row"
  using assms by (simp add: row_ok_def context_ok_def Let_def)

lemma counters_nonneg: "0 \<le> processor_loads p" "0 \<le> processor_hits p"
  by (simp_all add: processor_loads_def processor_hits_def split: processor.splits)

lemma video_records:
  assumes row: "row_ok (xe_lib xe) (xe_package_version xe) env profile mode cd c row" and xe: "executor_ok xe" and now: "\<And>k. text_ok (now k)"
    and run: "build_and_run (xe_config xe) (run_processor xe) row p = (x, p1)"
  obtains ms where "process_video (xe_lib xe) now None (build_and_run (xe_config xe) (run_processor xe)) row p = (Inr (map (raw_record c) ms), p1)"
    "list_all (pending_ok (xe_lib xe)) ms" "one_terminal ms"
proof (cases x)
  case (Inl e)
  have "exn_ok e" using run_ok [OF xe run] Inl by simp
  then obtain m where m: "error_record (xe_lib xe) (now 0) None row e = Inr (raw_record c m)"
    "pending_ok (xe_lib xe) m" "eo_type m = ''error''" by (rule error_recorded [OF row _ now])
  show thesis
    by (rule that [of "[m]"]) (use m run Inl in \<open>simp_all add: process_video_def one_terminal_def TERMINAL_TYPES_def\<close>)
next
  case (Inr r)
  have "result_ok r" using run_ok [OF xe run] Inr by simp
  then obtain ms where ms: "success_records (xe_lib xe) now row r = Inr (map (raw_record c) ms)"
    "list_all (pending_ok (xe_lib xe)) ms" "one_terminal ms" by (rule success_recorded [OF row _ now])
  show thesis by (rule that [of ms]) (use ms run Inr in \<open>simp_all add: process_video_def\<close>)
qed

lemma execute_row_ok:
  assumes row: "row_ok (xe_lib xe) (xe_package_version xe) env profile mode cd c row" and xe: "executor_ok xe" and now: "\<And>k. text_ok (now k)"
    and ctx: "ro_task c = identity" "ro_threads c = tb_threads_per_worker budget"
  shows "\<exists>rs p1. execute_row xe now identity budget row p = (Inr rs, p1) \<and> item_records (xe_lib xe) (xe_package_version xe) env cd (ro_planned c) rs"
proof -
  let ?lib = "xe_lib xe" and ?pkg = "xe_package_version xe"
  have lib: "library_ok ?lib" using xe by (simp add: executor_ok_def)
  obtain x p1 where run: "build_and_run (xe_config xe) (run_processor xe) row p = (x, p1)" by fastforce
  define c' where "c' = c\<lparr>ro_loads := processor_loads p1, ro_hits := processor_hits p1\<rparr>"
  have row': "row_ok ?lib ?pkg env profile mode cd c' row" unfolding c'_def using row counters_nonneg by (rule row_ok_counters)
  have ctx': "ro_task c' = identity" "ro_threads c' = tb_threads_per_worker budget" "ro_loads c' = processor_loads p1" "ro_hits c' = processor_hits p1"
    "ro_planned c' = ro_planned c" using ctx by (simp_all add: c'_def)
  obtain ms where
    ms: "process_video ?lib now None (build_and_run (xe_config xe) (run_processor xe)) row p = (Inr (map (raw_record c') ms), p1)"
    "list_all (pending_ok ?lib) ms" "one_terminal ms" by (rule video_records [OF row' xe now run])
  obtain selected where s: "selected_positions ?lib (map (raw_record c') ms) = Inr selected" using selection_returns [OF lib ms(2)] by blast
  obtain es where es: "emit_records xe identity budget p1 row selected 0 0 (map (raw_record c') ms) = Inr (map (full_record ?lib ?pkg env cd c') es)"
    "emitted ?lib 0 ms es" using emit_ok [OF row' ctx'(1-4) lib ms(2)] by blast
  have "context_ok ?lib c'" using row' by (simp add: row_ok_def)
  moreover have "one_terminal es" using es(2) ms(3) unfolding emitted_def one_terminal_def by (metis length_map)
  moreover have "distinct (map eo_sequence es)" "list_all (emission_ok ?lib) es" using es(2) by (simp_all add: emitted_def)
  ultimately have "item_records ?lib ?pkg env cd (ro_planned c) (map (full_record ?lib ?pkg env cd c') es)"
    unfolding item_records_def using ctx'(5) by blast
  moreover have "execute_row xe now identity budget row p = (Inr (map (full_record ?lib ?pkg env cd c') es), p1)"
    using ms(1) s es(1) by (simp add: execute_row_def)
  ultimately show ?thesis by blast
qed

lemma execute_rows_ok:
  assumes xe: "executor_ok xe"
  shows "\<lbrakk>list_all2 (\<lambda>p row. \<exists>c. row_ok (xe_lib xe) (xe_package_version xe) env profile mode cd c row \<and> ro_planned c = p
      \<and> ro_task c = identity \<and> ro_threads c = tb_threads_per_worker budget) ps rows; \<And>i k. text_ok (now i k)\<rbrakk> \<Longrightarrow>
    \<exists>rss. execute_rows xe now identity budget rows pr = Inr (concat rss)
      \<and> list_all2 (item_records (xe_lib xe) (xe_package_version xe) env cd) ps rss"
proof (induction ps rows arbitrary: now pr rule: list_all2_induct)
  case (Cons p ps row rows)
  from Cons.hyps obtain c where c: "row_ok (xe_lib xe) (xe_package_version xe) env profile mode cd c row" "ro_planned c = p"
    "ro_task c = identity" "ro_threads c = tb_threads_per_worker budget" by blast
  obtain rs p1 where r: "execute_row xe (now 0) identity budget row pr = (Inr rs, p1)"
    "item_records (xe_lib xe) (xe_package_version xe) env cd p rs"
    using execute_row_ok [OF c(1) xe _ c(3,4), of "now 0" pr] Cons.prems c(2) by blast
  obtain rss where "execute_rows xe (\<lambda>i. now (Suc i)) identity budget rows p1 = Inr (concat rss)"
    "list_all2 (item_records (xe_lib xe) (xe_package_version xe) env cd) ps rss"
    using Cons.IH [of "\<lambda>i. now (Suc i)" p1] Cons.prems by blast
  then show ?case using r by (intro exI [of _ "rs # rss"]) simp
qed simp

section \<open>The driver accepts the records\<close>

definition entries :: "row_context \<Rightarrow> (emission \<Rightarrow> staged) \<Rightarrow> emission list \<Rightarrow> (identity \<times> string \<times> staged) list" where
  "entries c f es = map (\<lambda>m. (item_identity (pi_item (ro_planned c)), eo_type m, f m)) es"

lemma validate_block:
  assumes "batch_ok lib pkg env (xp_concurrency plan)" "context_ok lib c" "placed env plan (ro_planned c)"
  shows "\<lbrakk>list_all (emission_ok lib) es; distinct (map eo_sequence es);
      \<forall>m \<in> set es. (item_identity (pi_item (ro_planned c)), int (eo_sequence m)) \<notin> set logical\<rbrakk> \<Longrightarrow>
    \<exists>logical'. set logical' \<subseteq> set logical \<union> {item_identity (pi_item (ro_planned c))} \<times> UNIV
      \<and> validate_loop lib pkg env plan logical (map (full_record lib pkg env (xp_concurrency plan) c) es @ rest) =
        bindE (validate_loop lib pkg env plan logical' rest) (\<lambda>vs. Inr (entries c (full_record lib pkg env (xp_concurrency plan) c) es @ vs))"
proof (induction es arbitrary: logical)
  case Nil
  show ?case by (rule exI [of _ logical]) (simp add: entries_def bindE_def split: sum.split)
next
  case (Cons m es)
  let ?id = "item_identity (pi_item (ro_planned c))" and ?f = "full_record lib pkg env (xp_concurrency plan) c"
  have v: "validate_staged_record lib pkg env plan logical (?f m) = Inr (?id, eo_type m, int (eo_sequence m))"
    by (rule record_ok [OF assms(1,2) _ assms(3)]) (use Cons.prems in auto)
  have "\<forall>m' \<in> set es. (?id, int (eo_sequence m')) \<notin> set ((?id, int (eo_sequence m)) # logical)"
    using Cons.prems(2,3) by (auto simp: image_iff)
  from Cons.IH [OF _ _ this] Cons.prems(1,2) obtain logical' where l: "set logical' \<subseteq> set ((?id, int (eo_sequence m)) # logical) \<union> {?id} \<times> UNIV"
    "validate_loop lib pkg env plan ((?id, int (eo_sequence m)) # logical) (map ?f es @ rest) =
      bindE (validate_loop lib pkg env plan logical' rest) (\<lambda>vs. Inr (entries c ?f es @ vs))" by auto
  show ?case
  proof (intro exI [of _ logical'] conjI)
    show "set logical' \<subseteq> set logical \<union> {?id} \<times> UNIV" using l(1) by auto
    show "validate_loop lib pkg env plan logical (map ?f (m # es) @ rest) =
        bindE (validate_loop lib pkg env plan logical' rest) (\<lambda>vs. Inr (entries c ?f (m # es) @ vs))"
      using v l(2) by (cases "validate_loop lib pkg env plan logical' rest") (simp_all add: entries_def)
  qed
qed

definition terminal_of :: "identity \<Rightarrow> identity \<times> string \<times> staged \<Rightarrow> bool" where
  "terminal_of i v \<longleftrightarrow> (case v of (identity, record_type, r) \<Rightarrow> identity = i \<and> record_type \<in> set TERMINAL_TYPES)"

lemma entries_terminal:
  "length (filter (terminal_of i) (entries c f es)) =
    (if i = item_identity (pi_item (ro_planned c)) then length (filter (\<lambda>m. eo_type m \<in> set TERMINAL_TYPES) es) else 0)"
  by (induction es) (auto simp: entries_def terminal_of_def)

lemma subset_insert_disjoint: "\<lbrakk>A \<subseteq> insert x B; x \<notin> C; B \<inter> C = {}\<rbrakk> \<Longrightarrow> A \<inter> C = {}"
  by blast

lemma validate_blocks:
  assumes "batch_ok lib pkg env (xp_concurrency plan)"
  shows "\<lbrakk>list_all2 (item_records lib pkg env (xp_concurrency plan)) ps rss; distinct (map (item_identity \<circ> pi_item) ps);
      \<forall>p \<in> set ps. placed env plan p; fst ` set logical \<inter> set (map (item_identity \<circ> pi_item) ps) = {}\<rbrakk> \<Longrightarrow>
    \<exists>vs. validate_loop lib pkg env plan logical (concat rss) = Inr vs
      \<and> (\<forall>i. length (filter (terminal_of i) vs) = (if i \<in> set (map (item_identity \<circ> pi_item) ps) then 1 else 0))"
proof (induction ps rss arbitrary: logical rule: list_all2_induct)
  case (Cons p ps rs rss)
  let ?id = "item_identity (pi_item p)"
  from Cons.hyps obtain c es where c: "rs = map (full_record lib pkg env (xp_concurrency plan) c) es" "context_ok lib c" "ro_planned c = p"
    "list_all (emission_ok lib) es" "distinct (map eo_sequence es)" "one_terminal es" by (auto simp: item_records_def)
  have new: "\<forall>m \<in> set es. (item_identity (pi_item (ro_planned c)), int (eo_sequence m)) \<notin> set logical"
  proof -
    have "?id \<notin> fst ` set logical" using Cons.prems(3) by auto
    then show ?thesis unfolding c(3) by force
  qed
  have "placed env plan (ro_planned c)" using Cons.prems(2) c(3) by simp
  from validate_block [OF assms c(2) this c(4,5) new, of "concat rss"] obtain logical' where
    l: "set logical' \<subseteq> set logical \<union> {?id} \<times> UNIV"
    "validate_loop lib pkg env plan logical (concat (rs # rss)) =
      bindE (validate_loop lib pkg env plan logical' (concat rss)) (\<lambda>vs. Inr (entries c (full_record lib pkg env (xp_concurrency plan) c) es @ vs))"
    using c(1,3) by auto
  have "fst ` set logical' \<subseteq> insert ?id (fst ` set logical)" using l(1) by auto
  moreover have "?id \<notin> set (map (item_identity \<circ> pi_item) ps)" using Cons.prems(1) by simp
  moreover have "fst ` set logical \<inter> set (map (item_identity \<circ> pi_item) ps) = {}" using Cons.prems(3) by (simp add: disjoint_iff)
  ultimately have "fst ` set logical' \<inter> set (map (item_identity \<circ> pi_item) ps) = {}" by (rule subset_insert_disjoint)
  from Cons.IH [OF _ _ this] Cons.prems(1,2) obtain vs where
    vs: "validate_loop lib pkg env plan logical' (concat rss) = Inr vs"
    "\<forall>i. length (filter (terminal_of i) vs) = (if i \<in> set (map (item_identity \<circ> pi_item) ps) then 1 else 0)" by auto
  have "length (filter (terminal_of i) (entries c (full_record lib pkg env (xp_concurrency plan) c) es @ vs)) =
      (if i \<in> set (map (item_identity \<circ> pi_item) (p # ps)) then 1 else 0)" for i
    using c(6) vs(2) [rule_format, of i] Cons.prems(1) by (auto simp: entries_terminal c(3) one_terminal_def)
  then show ?case using l(2) vs(1) by auto
qed (simp add: one_terminal_def)

lemma batch_accepted:
  assumes "batch_ok lib pkg env (xp_concurrency plan)" "list_all2 (item_records lib pkg env (xp_concurrency plan)) ps rss"
    "distinct (map (item_identity \<circ> pi_item) ps)" "\<forall>p \<in> set ps. placed env plan p" "set (ve_items env) = pi_item ` set ps"
  shows "\<exists>grouped. validate_staged_records lib pkg (concat rss) env plan = Inr grouped"
proof -
  obtain vs where vs: "validate_loop lib pkg env plan [] (concat rss) = Inr vs"
    "\<forall>i. length (filter (terminal_of i) vs) = (if i \<in> set (map (item_identity \<circ> pi_item) ps) then 1 else 0)"
    using validate_blocks [OF assms(1-4), of "[]"] by auto
  have "length (filter (terminal_of (item_identity i)) vs) = 1" if "i \<in> set (ve_items env)" for i
  proof -
    have "item_identity i \<in> set (map (item_identity \<circ> pi_item) ps)" using that assms(5) by auto
    then show ?thesis using vs(2) by presburger
  qed
  moreover have "terminal_of i = (\<lambda>(identity, record_type, r). identity = i \<and> record_type \<in> set TERMINAL_TYPES)" for i
    by (auto simp: terminal_of_def fun_eq_iff)
  ultimately have "\<not> list_ex (\<lambda>i. length (filter (\<lambda>(identity, record_type, r).
      identity = item_identity i \<and> record_type \<in> set TERMINAL_TYPES) vs) \<noteq> 1) (ve_items env)"
    by (simp add: list_ex_iff)
  then show ?thesis using vs(1) by (simp add: validate_staged_records_def)
qed

end
