(* ===== verification/Process_Executor_Correct.thy ===== *)
theory Process_Executor_Correct
  imports Process_Executor_Batch
begin

text \<open>
  What the executor side guarantees: the thread pools of the tasks on one executor fit its cores, and the
  records that a direct run of a plan returns are the records the driver accepts.
\<close>

section \<open>Thread budgets\<close>

lemma placement_found:
  assumes "1 \<le> cpus" "cpus \<le> cores" "1 \<le> concurrency"
  obtains b where "calculate_placement_safe_thread_budget [PInt cores] (PInt cpus) (PInt concurrency) = Inr b"
proof -
  have "1 \<le> cores div cpus" using assms(1,2) by (simp add: pos_imp_zdiv_pos_iff int_one_le_iff_zero_less)
  then have "\<exists>b. placement_candidate cpus concurrency (PInt cores) = Inr (Some b)"
    using assms by (simp add: placement_candidate_def calculate_thread_budget_def strict_positive_int_def Let_def)
  then show thesis using that assms
    by (auto simp: calculate_placement_safe_thread_budget_def strict_positive_int_def List.map_filter_simps)
qed

lemma applied_threads:
  assumes "apply_thread_budget nl budget native cp = (Inr b, cp1)"
  shows "tb_threads_per_worker b = tb_threads_per_worker budget"
  using assms
  by (cases "cp_native_budget cp") (auto simp: apply_thread_budget_def set_native_limits_def Let_def split: if_splits prod.splits)

lemma applied_error: "apply_thread_budget nl budget native cp = (Inl e, cp1) \<Longrightarrow> native \<and> e = ValueError"
  by (auto simp: apply_thread_budget_def Let_def split: if_splits)

lemma verified_settings:
  assumes "verify_effective_thread_settings parse nl budget cp = Inr settings"
  shows "torch_get_num_threads nl (cp_native cp) \<le> tb_threads_per_worker budget" "torch_get_num_interop_threads nl (cp_native cp) \<le> 1"
    "cv2_getNumThreads nl (cp_native cp) \<le> tb_threads_per_worker budget"
  using assms by (auto simp: verify_effective_thread_settings_def read_effective_thread_settings_def Let_def split: if_splits)

lemma verify_error:
  assumes "verify_effective_thread_settings parse nl budget cp = Inl e"
  shows "e \<in> {ValueError, ExternalError ''ThreadOversubscriptionError''}"
proof -
  have "mapE (\<lambda>(name, value). case value of None \<Rightarrow> Inr False
      | Some t \<Rightarrow> (case parse t of None \<Rightarrow> Inl ValueError | Some n \<Rightarrow> Inr (limit < n))) vs = Inl e \<Longrightarrow> e = ValueError" for limit :: int and vs
    by (induction vs) (auto simp: bindE_eq_Inl split: option.splits)
  then show ?thesis using assms by (auto simp: verify_effective_thread_settings_def Let_def bindE_eq_Inl split: if_splits)
qed

lemma partition_budget_cases:
  assumes "partition_budget xe cores cpus planned mode cp = (x, cp1)" "1 \<le> cpus" "cpus \<le> cores"
  shows "case x of
      Inl e \<Rightarrow> mode = ''sdk'' \<and> e \<in> {ValueError, ExternalError ''ThreadOversubscriptionError''}
    | Inr b \<Rightarrow> 1 \<le> tb_threads_per_worker b \<and> tb_threads_per_worker b * (cores div cpus) \<le> cores
        \<and> (mode = ''sdk'' \<longrightarrow> (\<exists>settings. verify_effective_thread_settings (xe_parse_int xe) (xe_native xe) b cp1 = Inr settings))"
proof -
  let ?slots = "cores div cpus" and ?c = "native_thread_budget_concurrency cores cpus planned"
  have slots: "1 \<le> ?slots" using assms(2,3) by (simp add: pos_imp_zdiv_pos_iff int_one_le_iff_zero_less)
  then have c: "?slots \<le> ?c" "1 \<le> ?c" by (simp_all add: native_thread_budget_concurrency_def Let_def)
  obtain b0 where b0: "calculate_placement_safe_thread_budget [PInt cores] (PInt cpus) (PInt ?c) = Inr b0"
    using placement_found [OF assms(2,3) c(2)] .
  have fit: "tb_threads_per_worker b0 * ?slots \<le> cores" "1 \<le> tb_threads_per_worker b0"
    using placement_budget_fits [of "[cores]" cpus ?c b0 cores] b0 slots c(1) by (simp_all add: min_absorb2)
  obtain y cp2 where y: "apply_thread_budget (xe_native xe) b0 (mode = ''sdk'') cp = (y, cp2)" by fastforce
  show ?thesis
  proof (cases y)
    case (Inl e)
    then show ?thesis using assms(1) b0 y applied_error [of "xe_native xe" b0 "mode = ''sdk''" cp e cp2]
      by (auto simp: partition_budget_def configure_placement_safe_cpu_runtime_def)
  next
    case (Inr b)
    have t: "tb_threads_per_worker b = tb_threads_per_worker b0" using applied_threads y Inr by fastforce
    have x: "cp1 = cp2" "x = (if mode = ''sdk'' then bindE (verify_effective_thread_settings (xe_parse_int xe) (xe_native xe) b cp2) (\<lambda>_. Inr b) else Inr b)"
      using assms(1) b0 y Inr by (auto simp: partition_budget_def configure_placement_safe_cpu_runtime_def)
    show ?thesis
      using x t fit verify_error [of "xe_parse_int xe" "xe_native xe" b cp2]
      by (cases "verify_effective_thread_settings (xe_parse_int xe) (xe_native xe) b cp2") auto
  qed
qed

section \<open>Rows of a direct run\<close>

text \<open>An item that can be run: its payload names the source, and none of the keys that only the runtime sets.\<close>

definition runnable_item :: "(string \<Rightarrow> pyval option) \<Rightarrow> envelope_item \<Rightarrow> bool" where
  "runnable_item parse i \<longleftrightarrow> item_ready i \<and> (\<exists>source. clean_text source \<and> dget (ei_payload i) ''source_video'' PNone = PStr source)
     \<and> map_of (ei_payload i) ''_expected_release_package_version'' = None
     \<and> (\<exists>delay. py_float parse (dget (ei_payload i) ''probe_delay_seconds'' (PFloat 0)) = Inr delay)"

definition runnable :: "('rt, 'n) executor \<Rightarrow> verified_envelope \<Rightarrow> execution_profile \<Rightarrow> string \<Rightarrow> bool" where
  "runnable xe env profile mode \<longleftrightarrow> executor_ok xe \<and> text_ok (ve_batch_id env) \<and> digest_ok (ve_envelope_sha256 env)
     \<and> digest_ok (ve_membership_sha256 env) \<and> distinct (map ei_work_id (ve_items env))
     \<and> list_all (runnable_item (xe_parse_float xe)) (ve_items env)
     \<and> ep_task_cpus profile \<in> set REVIEWED_TASK_CPU_WIDTHS \<and> ep_task_cpus profile \<le> ep_executor_cores profile
     \<and> (mode = ''probe'' \<or> mode = ''sdk'')"

lemma model_found:
  assumes "library_ok lib" "finite_json (PDict payload)"
  obtains model where "model_identity lib payload = Inr model" "digest_ok model"
proof -
  have "finite_json (dget payload k PNone)" for k
    using assms(2) by (auto simp: dget_def list_all_iff split: option.splits dest!: map_of_SomeD)
  then have "finite_json (PDict (map (\<lambda>k. (k, dget payload k PNone))
     [''pipeline'', ''detector_model'', ''model_format'', ''models_dir'', ''device_variant'']))" by simp
  then show thesis using that assms(1)
    by (simp add: model_identity_def process_sha256_def process_canonical_def library_ok_def del: dumps.simps finite_json.simps list.map)
qed

definition direct_task :: "bucket_plan \<Rightarrow> task_identity" where
  "direct_task b = \<lparr>ti_stage_id = 0, ti_partition_id = int (bp_physical_partition b), ti_task_attempt_id = int (bp_bucket_id b),
     ti_attempt_number = 0, ti_executor_identity = ''direct-'' @ nat_dec (bp_physical_partition b) @ ''@localhost'',
     ti_executor_host = ''localhost''\<rparr>"

lemma direct_text: "text_ok (''direct-'' @ s)" "text_ok ''localhost''"
  by (simp_all add: text_ok_iff py_space_def)

lemma direct_task_of:
  assumes "map_of row ''_task_identity'' = Some (direct_identity b)"
  shows "task_identity_of context row = Inr (direct_task b)"
proof -
  let ?d = "[(''stage_id'', PInt 0), (''partition_id'', PInt (int (bp_physical_partition b))),
     (''task_attempt_id'', PInt (int (bp_bucket_id b))), (''attempt_number'', PInt 0),
     (''executor_identity'', PStr (''direct-'' @ nat_dec (bp_physical_partition b) @ ''@localhost'')), (''executor_host'', PStr ''localhost'')]"
  have d: "dget row ''_task_identity'' PNone = PDict ?d" using assms by (simp add: dget_def direct_identity_def)
  have "dget ?d ''executor_identity'' x = PStr (''direct-'' @ nat_dec (bp_physical_partition b) @ ''@localhost'')" "dget ?d ''stage_id'' x = PInt 0"
    "dget ?d ''partition_id'' x = PInt (int (bp_physical_partition b))" "dget ?d ''task_attempt_id'' x = PInt (int (bp_bucket_id b))"
    "dget ?d ''attempt_number'' x = PInt 0" "dget ?d ''executor_host'' x = PStr ''localhost''" for x
    by (simp_all add: dget_def)
  then show ?thesis unfolding task_identity_of_def d pyval.case
    by (simp add: process_text_ok direct_text process_nonnegative_int_def direct_task_def del: append_Cons)
qed

lemma direct_task_ok:
  assumes "pi_physical_partition p = bp_physical_partition b"
  shows "task_ok p (direct_task b)"
proof -
  let ?n = "''direct-'' @ nat_dec (bp_physical_partition b)"
  have "CHR ''@'' \<notin> set (nat_dec (bp_physical_partition b))" using nat_dec_digits(1) bracket_free by blast
  then have "CHR ''@'' \<notin> set ?n" by simp
  then show ?thesis using assms direct_text
    unfolding task_ok_def direct_task_def task_identity.select_convs
    by (intro conjI exI [of _ ?n]) (simp_all add: append_Cons [symmetric] del: append_Cons)
qed

section \<open>One partition\<close>

lemma row_settings:
  assumes "row_of row (row_values lib pkg env profile mode cd model p) payload"
  shows "dget row ''physical_partition'' PNone = PInt (int (pi_physical_partition p))" "dget row ''executor_cores'' PNone = PInt (ep_executor_cores profile)"
    "dget row ''task_cpus'' PNone = PInt (ep_task_cpus profile)" "dget row ''planned_concurrency'' PNone = PInt (cd_concurrency cd)"
    "dget row ''mode'' PNone = PStr mode" "dget row ''_expected_release_package_version'' PNone = dget payload ''_expected_release_package_version'' PNone"
    "dget row ''probe_delay_seconds'' (PFloat 0) = dget payload ''probe_delay_seconds'' (PFloat 0)"
proof -
  have "map_of row ''physical_partition'' = Some (PInt (int (pi_physical_partition p)))" "map_of row ''executor_cores'' = Some (PInt (ep_executor_cores profile))"
    "map_of row ''task_cpus'' = Some (PInt (ep_task_cpus profile))" "map_of row ''planned_concurrency'' = Some (PInt (cd_concurrency cd))"
    "map_of row ''mode'' = Some (PStr mode)"
    by (rule row_value [OF assms], simp only: row_values_def Let_def list.set insert_iff simp_thms)+
  then show "dget row ''physical_partition'' PNone = PInt (int (pi_physical_partition p))" "dget row ''executor_cores'' PNone = PInt (ep_executor_cores profile)"
    "dget row ''task_cpus'' PNone = PInt (ep_task_cpus profile)" "dget row ''planned_concurrency'' PNone = PInt (cd_concurrency cd)"
    "dget row ''mode'' PNone = PStr mode" by (simp_all add: dget_def)
  have "''_expected_release_package_version'' \<notin> set row_names" "''probe_delay_seconds'' \<notin> set row_names" by code_simp+
  then show "dget row ''_expected_release_package_version'' PNone = dget payload ''_expected_release_package_version'' PNone"
    "dget row ''probe_delay_seconds'' (PFloat 0) = dget payload ''probe_delay_seconds'' (PFloat 0)"
    using row_payload [OF assms] by (simp_all add: dget_def)
qed

text \<open>The row of a planned item in a bucket of the direct harness.\<close>

definition bucket_row :: "('rt, 'n) executor \<Rightarrow> verified_envelope \<Rightarrow> execution_profile \<Rightarrow> string \<Rightarrow> concurrency_decision \<Rightarrow> bucket_plan \<Rightarrow> planned_item \<Rightarrow> work \<Rightarrow> bool" where
  "bucket_row xe env profile mode cd b p row \<longleftrightarrow> pi_physical_partition p = bp_physical_partition b \<and> runnable_item (xe_parse_float xe) (pi_item p)
     \<and> 0 < pi_planned_cost_seconds p \<and> map_of row ''_task_identity'' = Some (direct_identity b)
     \<and> (\<exists>model. model_identity (xe_lib xe) (ei_payload (pi_item p)) = Inr model \<and> digest_ok model
          \<and> row_of row (row_values (xe_lib xe) (xe_package_version xe) env profile mode cd model p) (ei_payload (pi_item p)))"

lemma bucket_rowE:
  assumes "bucket_row xe env profile mode cd b p row"
  obtains model where "row_of row (row_values (xe_lib xe) (xe_package_version xe) env profile mode cd model p) (ei_payload (pi_item p))"
    "pi_physical_partition p = bp_physical_partition b" "runnable_item (xe_parse_float xe) (pi_item p)"
    "map_of row ''_task_identity'' = Some (direct_identity b)"
  using assms that unfolding bucket_row_def by blast

lemma list_all2_right: "list_all2 P xs ys \<Longrightarrow> y \<in> set ys \<Longrightarrow> \<exists>x. P x y"
  by (induction rule: list_all2_induct) auto

lemma mapE_relates: "\<forall>x \<in> set xs. \<exists>y. f x = Inr y \<and> R x y \<Longrightarrow> \<exists>ys. mapE f xs = Inr ys \<and> list_all2 R xs ys"
proof (induction xs)
  case (Cons x xs)
  then obtain y ys where "f x = Inr y" "R x y" "mapE f xs = Inr ys" "list_all2 R xs ys" by auto
  then show ?case by simp
qed simp

lemma direct_rows_ok:
  assumes "library_ok (xe_lib xe)"
    "\<forall>p \<in> set (bp_items b). pi_physical_partition p = bp_physical_partition b \<and> runnable_item (xe_parse_float xe) (pi_item p) \<and> 0 < pi_planned_cost_seconds p"
  obtains rows where "direct_rows xe env plan profile mode b = Inr rows"
    "list_all2 (bucket_row xe env profile mode (xp_concurrency plan) b) (bp_items b) rows"
proof -
  have one: "\<exists>row. bindE (executor_row (xe_lib xe) (xe_package_version xe) env profile mode (xp_concurrency plan) p)
      (\<lambda>row. Inr (dset ''_task_identity'' (direct_identity b) row)) = Inr row \<and> bucket_row xe env profile mode (xp_concurrency plan) b p row"
    if p: "p \<in> set (bp_items b)" for p
  proof -
    have "finite_json (PDict (ei_payload (pi_item p)))" using assms(2) p by (simp add: runnable_item_def item_ready_def del: finite_json.simps)
    with assms(1) obtain model where m: "model_identity (xe_lib xe) (ei_payload (pi_item p)) = Inr model" "digest_ok model" by (rule model_found)
    from m(1) obtain row where "executor_row (xe_lib xe) (xe_package_version xe) env profile mode (xp_concurrency plan) p = Inr row"
      "row_of (dset ''_task_identity'' (direct_identity b) row) (row_values (xe_lib xe) (xe_package_version xe) env profile mode (xp_concurrency plan) model p)
        (ei_payload (pi_item p))" "map_of (dset ''_task_identity'' (direct_identity b) row) ''_task_identity'' = Some (direct_identity b)"
      by (rule direct_row)
    then show ?thesis using assms(2) p m by (auto simp: bucket_row_def)
  qed
  then have "\<exists>rows. direct_rows xe env plan profile mode b = Inr rows
      \<and> list_all2 (bucket_row xe env profile mode (xp_concurrency plan) b) (bp_items b) rows"
    unfolding direct_rows_def by (intro mapE_relates) blast
  then show thesis using that by (elim exE conjE)
qed

lemma bucket_settings:
  assumes rows: "list_all2 (bucket_row xe env profile mode cd b) (p # ps) (row # rows)"
    and ok: "ep_task_cpus profile \<in> set REVIEWED_TASK_CPU_WIDTHS" "ep_task_cpus profile \<le> ep_executor_cores profile" "mode = ''probe'' \<or> mode = ''sdk''"
      "1 \<le> cd_concurrency cd"
  shows "partition_settings xe (row # rows) =
    Inr (direct_task b, ep_executor_cores profile, ep_task_cpus profile, cd_concurrency cd, mode)"
proof -
  have phys: "dget r ''physical_partition'' PNone = PInt (int (bp_physical_partition b))" if r: "r \<in> set (row # rows)" for r
  proof -
    obtain q where "bucket_row xe env profile mode cd b q r" using list_all2_right [OF rows r] by blast
    then show ?thesis
    proof (rule bucket_rowE)
      fix model
      assume "row_of r (row_values (xe_lib xe) (xe_package_version xe) env profile mode cd model q) (ei_payload (pi_item q))"
        "pi_physical_partition q = bp_physical_partition b"
      then show ?thesis using row_settings(1) by metis
    qed
  qed
  have "mapE (\<lambda>row. process_nonnegative_int (dget row ''physical_partition'' PNone)) (row # rows) =
      Inr (map (\<lambda>_. int (bp_physical_partition b)) (row # rows))"
    by (rule mapE_Inr_map) (use phys in \<open>simp add: process_nonnegative_int_def\<close>)
  moreover have first: "bucket_row xe env profile mode cd b p row" using rows by simp
  then obtain model where r: "row_of row (row_values (xe_lib xe) (xe_package_version xe) env profile mode cd model p) (ei_payload (pi_item p))"
    "map_of row ''_task_identity'' = Some (direct_identity b)" "runnable_item (xe_parse_float xe) (pi_item p)" by (rule bucket_rowE)
  note s = row_settings [OF r(1)]
  have t: "task_identity_of (xe_context xe) row = Inr (direct_task b)" by (rule direct_task_of [OF r(2)])
  have "dget row ''_expected_release_package_version'' PNone = PNone" using r(3) s(6) by (simp add: runnable_item_def dget_def)
  then have "check_release (xe_package_version xe) (row # rows) = Inr ()" by (simp add: check_release_def)
  moreover have "1 \<le> ep_task_cpus profile" using ok(1) by (auto simp: REVIEWED_TASK_CPU_WIDTHS_def)
  moreover have "ti_partition_id (direct_task b) = int (bp_physical_partition b)" by (simp add: direct_task_def)
  ultimately show ?thesis
    using ok t s(2-5) by (simp add: partition_settings_def process_positive_int_def partition_mode_def image_subset_iff del: mapE.simps)
qed

lemma processor_found:
  assumes "list_all2 (bucket_row xe env profile mode cd b) ps rows"
  shows "\<exists>pr. new_processor xe mode rows = Inr pr"
proof -
  have "\<exists>v. py_float (xe_parse_float xe) (dget row ''probe_delay_seconds'' (PFloat 0)) = Inr v" if row: "row \<in> set rows" for row
  proof -
    obtain p where "bucket_row xe env profile mode cd b p row" using list_all2_right [OF assms row] by blast
    then obtain model where r: "row_of row (row_values (xe_lib xe) (xe_package_version xe) env profile mode cd model p) (ei_payload (pi_item p))"
      "runnable_item (xe_parse_float xe) (pi_item p)" by (rule bucket_rowE)
    show ?thesis using r(2) unfolding row_settings(7) [OF r(1)] by (simp add: runnable_item_def)
  qed
  then obtain delays where "mapE (\<lambda>row. py_float (xe_parse_float xe) (dget row ''probe_delay_seconds'' (PFloat 0))) rows = Inr delays"
    using mapE_total [of rows "\<lambda>row. py_float (xe_parse_float xe) (dget row ''probe_delay_seconds'' (PFloat 0))"] by blast
  then show ?thesis by (simp add: new_processor_def)
qed

lemma bucket_context:
  assumes "bucket_row xe env profile mode cd b p row" "1 \<le> threads"
  shows "\<exists>c. row_ok (xe_lib xe) (xe_package_version xe) env profile mode cd c row \<and> ro_planned c = p \<and> ro_task c = direct_task b \<and> ro_threads c = threads"
proof -
  from assms(1) obtain model source where m: "model_identity (xe_lib xe) (ei_payload (pi_item p)) = Inr model" "digest_ok model"
    "row_of row (row_values (xe_lib xe) (xe_package_version xe) env profile mode cd model p) (ei_payload (pi_item p))"
    "clean_text source" "dget (ei_payload (pi_item p)) ''source_video'' PNone = PStr source" "item_ready (pi_item p)"
    "pi_physical_partition p = bp_physical_partition b" "0 < pi_planned_cost_seconds p"
    by (auto simp: bucket_row_def runnable_item_def)
  let ?c = "\<lparr>ro_planned = p, ro_model = model, ro_source = source, ro_task = direct_task b, ro_threads = threads, ro_loads = 0, ro_hits = 0\<rparr>"
  have "context_ok (xe_lib xe) ?c" using m direct_task_ok [OF m(7)] assms(2) by (simp add: context_ok_def Let_def)
  then show ?thesis using m(3) by (intro exI [of _ ?c]) (simp add: row_ok_def)
qed

text \<open>The ways a partition can fail: only in SDK mode, by the thread budget.\<close>

definition budget_failure :: "string \<Rightarrow> err \<Rightarrow> bool" where
  "budget_failure mode e \<longleftrightarrow> mode = ''sdk'' \<and> e \<in> {ValueError, ExternalError ''ThreadOversubscriptionError''}"

lemma partition_ok:
  assumes xe: "executor_ok xe" and rows: "list_all2 (bucket_row xe env profile mode cd b) ps rows" and now: "\<And>i k. text_ok (now i k)"
    and ok: "ep_task_cpus profile \<in> set REVIEWED_TASK_CPU_WIDTHS" "ep_task_cpus profile \<le> ep_executor_cores profile" "mode = ''probe'' \<or> mode = ''sdk''"
      "1 \<le> cd_concurrency cd"
    and run: "execute_sjd_partition xe now rows cp = (x, cp1)"
  shows "case x of Inl e \<Rightarrow> budget_failure mode e
    | Inr rs \<Rightarrow> \<exists>rss. rs = concat rss \<and> list_all2 (item_records (xe_lib xe) (xe_package_version xe) env cd) ps rss"
proof (cases rows)
  case Nil
  then show ?thesis using rows run by (auto simp: execute_sjd_partition_def intro: exI [of _ "[]"])
next
  case (Cons row rest)
  then obtain p ps' where ps: "ps = p # ps'" using rows by (cases ps) auto
  have cpus: "1 \<le> ep_task_cpus profile" using ok(1) by (auto simp: REVIEWED_TASK_CPU_WIDTHS_def)
  have set: "partition_settings xe rows = Inr (direct_task b, ep_executor_cores profile, ep_task_cpus profile, cd_concurrency cd, mode)"
    unfolding Cons by (rule bucket_settings [OF rows [unfolded ps Cons] ok])
  obtain y cp2 where y: "partition_budget xe (ep_executor_cores profile) (ep_task_cpus profile) (cd_concurrency cd) mode cp = (y, cp2)" by fastforce
  note cases = partition_budget_cases [OF y cpus ok(2)]
  show ?thesis
  proof (cases y)
    case (Inl e)
    then have "x = Inl e" using run set y Cons by (simp add: execute_sjd_partition_def)
    then show ?thesis using cases Inl by (simp add: budget_failure_def)
  next
    case (Inr budget)
    obtain pr where pr: "new_processor xe mode rows = Inr pr" using processor_found [OF rows] by blast
    have threads: "1 \<le> tb_threads_per_worker budget" using cases Inr by simp
    have "list_all2 (\<lambda>p row. \<exists>c. row_ok (xe_lib xe) (xe_package_version xe) env profile mode cd c row \<and> ro_planned c = p
        \<and> ro_task c = direct_task b \<and> ro_threads c = tb_threads_per_worker budget) ps rows"
      using rows by (rule list_all2_mono) (rule bucket_context [OF _ threads])
    from execute_rows_ok [OF xe this, of now pr] now obtain rss where
      "execute_rows xe now (direct_task b) budget rows pr = Inr (concat rss)"
      "list_all2 (item_records (xe_lib xe) (xe_package_version xe) env cd) ps rss" by blast
    moreover from this(1) have "x = Inr (concat rss)" using run set y Inr pr Cons by (simp add: execute_sjd_partition_def)
    ultimately show ?thesis by auto
  qed
qed

section \<open>The whole plan\<close>

lemma buckets_ok:
  assumes xe: "executor_ok xe"
    and ok: "ep_task_cpus profile \<in> set REVIEWED_TASK_CPU_WIDTHS" "ep_task_cpus profile \<le> ep_executor_cores profile" "mode = ''probe'' \<or> mode = ''sdk''"
      "1 \<le> cd_concurrency (xp_concurrency plan)"
  shows "\<lbrakk>\<forall>b \<in> set bs. \<forall>p \<in> set (bp_items b). pi_physical_partition p = bp_physical_partition b \<and> runnable_item (xe_parse_float xe) (pi_item p)
        \<and> 0 < pi_planned_cost_seconds p;
      \<And>i j k. text_ok (now i j k); direct_buckets xe now env plan profile mode bs cp = (x, cp1)\<rbrakk> \<Longrightarrow>
    case x of Inl e \<Rightarrow> budget_failure mode e
    | Inr rs \<Rightarrow> \<exists>rss. rs = concat rss \<and> list_all2 (item_records (xe_lib xe) (xe_package_version xe) env (xp_concurrency plan)) (concat (map bp_items bs)) rss"
proof (induction bs arbitrary: now cp x cp1)
  case Nil
  then show ?case by auto
next
  case (Cons b bs)
  obtain rows where rows: "direct_rows xe env plan profile mode b = Inr rows"
    "list_all2 (bucket_row xe env profile mode (xp_concurrency plan) b) (bp_items b) rows"
    by (rule direct_rows_ok [of xe b env plan profile mode]) (use executor_okD(1) [OF xe] Cons.prems(1) in auto)
  obtain y cp2 where y: "execute_sjd_partition xe (now 0) rows cp = (y, cp2)" by fastforce
  note one = partition_ok [OF xe rows(2) Cons.prems(2) ok y]
  show ?case
  proof (cases y)
    case (Inl e)
    then show ?thesis using one Cons.prems(3) rows(1) y by auto
  next
    case (Inr rs)
    obtain z cp3 where z: "direct_buckets xe (\<lambda>i. now (Suc i)) env plan profile mode bs cp2 = (z, cp3)" by fastforce
    have rest: "case z of Inl e \<Rightarrow> budget_failure mode e
        | Inr rs \<Rightarrow> \<exists>rss. rs = concat rss \<and> list_all2 (item_records (xe_lib xe) (xe_package_version xe) env (xp_concurrency plan)) (concat (map bp_items bs)) rss"
      by (rule Cons.IH [OF _ _ z]) (use Cons.prems in auto)
    show ?thesis
    proof (cases z)
      case (Inl e)
      then show ?thesis using rest Cons.prems(3) rows(1) y z \<open>y = Inr rs\<close> by auto
    next
      case (Inr rs')
      then have "x = Inr (rs @ rs')" using Cons.prems(3) rows(1) y z \<open>y = Inr rs\<close> by simp
      moreover obtain rss where "rs = concat rss"
        "list_all2 (item_records (xe_lib xe) (xe_package_version xe) env (xp_concurrency plan)) (bp_items b) rss" using one \<open>y = Inr rs\<close> by auto
      moreover obtain rss' where "rs' = concat rss'"
        "list_all2 (item_records (xe_lib xe) (xe_package_version xe) env (xp_concurrency plan)) (concat (map bp_items bs)) rss'" using rest Inr by auto
      ultimately show ?thesis by (auto intro!: exI [of _ "rss @ rss'"] list_all2_appendI)
    qed
  qed
qed

lemma planned_shape:
  assumes "plan_duration_lpt items p peak minimum = Inr plan" "distinct (map item_identity items)"
  shows "\<forall>b \<in> set (xp_buckets plan). \<forall>q \<in> set (bp_items b). pi_physical_partition q = bp_physical_partition b
      \<and> pi_planned_cost_seconds q = ei_duration_seconds (pi_item q)"
    "set items = pi_item ` set (concat (map bp_items (xp_buckets plan)))"
    "distinct (map (item_identity \<circ> pi_item) (concat (map bp_items (xp_buckets plan))))"
    "1 \<le> cd_concurrency (xp_concurrency plan)" "cd_peak_rss_bytes (xp_concurrency plan) = Some n \<Longrightarrow> 1 \<le> n"
proof -
  from assms(1) obtain cd buckets where cd: "conservative_concurrency (int (length items)) p peak = Inr cd" "1 \<le> cd_concurrency cd"
    and plan: "plan = \<lparr>xp_concurrency = cd, xp_buckets = map (bucket_of (ei_runtime_key (hd items)) buckets) [0..<length buckets],
       xp_waves = make_waves (map (bucket_of (ei_runtime_key (hd items)) buckets) [0..<length buckets]),
       xp_projected_makespan_seconds = Max (set (map bucket_cost buckets))\<rparr>"
    by (rule plan_cases)
  show "\<forall>b \<in> set (xp_buckets plan). \<forall>q \<in> set (bp_items b). pi_physical_partition q = bp_physical_partition b
      \<and> pi_planned_cost_seconds q = ei_duration_seconds (pi_item q)"
    unfolding plan using plan_bucket_rows by (auto simp: bucket_of_def)
  have m: "mset (map pi_item (concat (map bp_items (xp_buckets plan)))) = mset items" using plan_placements(1) [OF assms(1)] .
  then show "set items = pi_item ` set (concat (map bp_items (xp_buckets plan)))" by (metis set_map set_mset_mset)
  have "mset (map item_identity (map pi_item (concat (map bp_items (xp_buckets plan))))) = mset (map item_identity items)" 
    using arg_cong [OF m, of "image_mset item_identity"] by (simp only: mset_map)
  then have "distinct (map item_identity (map pi_item (concat (map bp_items (xp_buckets plan)))))" using assms(2) by (metis mset_eq_imp_distinct_iff)
  then show "distinct (map (item_identity \<circ> pi_item) (concat (map bp_items (xp_buckets plan))))" by (simp only: map_map)
  show "1 \<le> cd_concurrency (xp_concurrency plan)" using cd(2) by (simp add: plan)
  show "cd_peak_rss_bytes (xp_concurrency plan) = Some n \<Longrightarrow> 1 \<le> n"
    using conservative_concurrencyD(5,6) [OF cd(1)] by (auto simp: plan memory_limit_def split: if_splits)
qed

lemma map_of_identity: "\<lbrakk>distinct (map f xs); x \<in> set xs\<rbrakk> \<Longrightarrow> map_of (map (\<lambda>x. (f x, x)) (rev xs)) (f x) = Some x"
  by (intro map_of_is_SomeI) (auto simp: comp_def rev_map [symmetric])

lemma placed_items:
  assumes "distinct (map item_identity (ve_items env))" "distinct (map (item_identity \<circ> pi_item) (concat (map bp_items (xp_buckets plan))))"
    "set (ve_items env) = pi_item ` set (concat (map bp_items (xp_buckets plan)))" "q \<in> set (concat (map bp_items (xp_buckets plan)))"
  shows "placed env plan q"
proof -
  have "map_of (expected_items env) (item_identity (pi_item q)) = Some (pi_item q)"
    unfolding expected_items_def by (rule map_of_identity [OF assms(1)]) (use assms(3,4) in blast)
  moreover have "map_of (planned_items plan) (item_identity (pi_item q)) = Some q"
    using map_of_identity [OF assms(2,4)] by (simp add: planned_items_def comp_def)
  ultimately show ?thesis by (simp add: placed_def)
qed

end
