(* ===== verification/Process_Executor_Demo.thy ===== *)
theory Process_Executor_Demo
  imports Process_Executor_Correct
begin

text \<open>
  The properties of the executor side, each with a concrete run: an executor whose JSON library is the
  reader of flat objects, and two videos on the reviewed two-worker profile.
\<close>

section \<open>A concrete executor\<close>

definition ratio_text :: "pyfloat \<Rightarrow> string" where
  "ratio_text x = int_dec (fst (quotient_of x)) @ ''.'' @ nat_dec (nat (snd (quotient_of x)))"

definition ratio_value :: "string \<Rightarrow> pyfloat" where
  "ratio_value s = of_int (read_int (takeWhile (\<lambda>c. c \<noteq> CHR ''.'') s)) / of_int (int (read_nat (tl (dropWhile (\<lambda>c. c \<noteq> CHR ''.'') s))))"

lemma ratio_float_text: "float_text ratio_text ratio_value"
proof -
  have "ratio_value (ratio_text x) = x" for x
  proof -
    obtain n d where q: "quotient_of x = (n, d)" "0 < d" using quotient_of_denom_pos by (metis prod.collapse)
    have "CHR ''.'' \<notin> set (int_dec n)" using int_dec_chars(1) [of n] by (auto simp: digits_def)
    then have "\<forall>c \<in> set (int_dec n). c \<noteq> CHR ''.''" by blast
    then have "takeWhile (\<lambda>c. c \<noteq> CHR ''.'') (ratio_text x) = int_dec n" "dropWhile (\<lambda>c. c \<noteq> CHR ''.'') (ratio_text x) = CHR ''.'' # nat_dec (nat d)"
      by (simp_all add: ratio_text_def q takeWhile_append dropWhile_append)
    then show ?thesis using q quotient_of_div [OF q(1)] by (simp add: ratio_value_def read_int_dec read_nat_dec)
  qed
  moreover have "set (ratio_text x) \<subseteq> insert (CHR ''.'') (insert (CHR ''-'') (set digits))" for x
    using int_dec_chars(1) nat_dec_digits(1) by (fastforce simp: ratio_text_def)
  ultimately show ?thesis by (simp add: float_text_def ratio_text_def)
qed

definition hex_64 :: string where
  "hex_64 = replicate 64 (CHR ''a'')"

definition probe_lib :: pylib where
  "probe_lib = \<lparr>sha256_hex = (\<lambda>_. hex_64), float_repr = ratio_text, json_loads = read_object ratio_value\<rparr>"

lemma hex_64: "digest_ok hex_64" "text_ok hex_64"
  by (simp_all add: digest_ok_def hex_64_def is_hex_def list_all_iff text_ok_iff py_space_def)

lemma probe_library: "library_ok probe_lib"
proof -
  have "json_loads probe_lib (dumps probe_lib (PDict d)) = Some (PDict (sort_key fst d))" if d: "plain d" for d
  proof -
    have "plain_value v = flat_value v" for v by (cases v) simp_all
    then have "\<forall>p \<in> set d. flat_value (snd p)" using d by (simp add: plain_def list_all_iff)
    then have "read_object ratio_value (dumps probe_lib (PDict d)) = Some (PDict (sort_key fst d))"
      using ratio_float_text by (intro read_dumped) (simp_all add: probe_lib_def)
    then show ?thesis by (simp add: probe_lib_def del: dumps.simps)
  qed
  moreover have "sha256_hex probe_lib t = hex_64" for t by (simp add: probe_lib_def)
  ultimately show ?thesis using hex_64(1) by (simp add: library_ok_def del: dumps.simps)
qed

definition probe_config :: pipeline_config where
  "probe_config = RTDetrOsnetConfig \<lparr>cc_video = ''v.mp4'', cc_device_variant = ''cpu'', cc_device = ''cpu'', cc_batch_size = 1,
     cc_sample_fps = PFloat 3, cc_detection_threshold = PFloat (fround (3 / 5)), cc_use_fp16 = False, cc_model_format = PStr ''pytorch'',
     cc_line = PNone\<rparr> (PStr ''r18'') None"

definition busy_error :: exn where
  "busy_error = [(''ValueError'', ''sleep length must be non-negative'')]"

definition probe_executor :: "(unit, unit) executor" where
  "probe_executor = \<lparr>xe_lib = probe_lib, xe_package_version = ''1.0'', xe_context = None,
     xe_native = \<lparr>torch_set_num_threads = (\<lambda>_ s. s), torch_set_num_interop_threads = (\<lambda>_ s. (True, s)), torch_get_num_threads = (\<lambda>_. 1),
       torch_get_num_interop_threads = (\<lambda>_. 1), cv2_setNumThreads = (\<lambda>_ s. s), cv2_getNumThreads = (\<lambda>_. 1)\<rparr>,
     xe_parse_int = (\<lambda>t. Some (read_int t)), xe_parse_float = (\<lambda>_. None),
     xe_sleep = (\<lambda>v. case v of PFloat x \<Rightarrow> if x < 0 then Some busy_error else None | _ \<Rightarrow> Some busy_error),
     xe_config = (\<lambda>_. Inr probe_config),
     xe_sdk = \<lparr>sdk_resolve = (\<lambda>s. s), sdk_load_runtime = (\<lambda>_. Inr ()), sdk_run_with_runtime = (\<lambda>_ _. Inr (probe_result 2))\<rparr>\<rparr>"

lemma probe_executor_ok: "executor_ok probe_executor"
proof -
  have "exn_ok busy_error" "text_ok ''1.0''" "result_ok (probe_result 2)"
    by (simp_all add: exn_ok_def busy_error_def text_ok_iff py_space_def result_ok_def probe_result_def new_run_result_def)
  then show ?thesis using probe_library
    by (auto simp: executor_ok_def probe_executor_def split: pyval.splits if_splits)
qed

definition probe_video :: "string \<Rightarrow> pyfloat \<Rightarrow> envelope_item" where
  "probe_video w d = \<lparr>ei_ordinal = 0, ei_work_id = w, ei_attempt_id = ''a1'', ei_fence = 1, ei_payload_sha256 = hex_64,
     ei_payload = [(''source_video'', PStr ''v.mp4''), (''batch_size'', PInt 2), (''probe_delay_seconds'', PFloat 1)],
     ei_config_sha256 = ''cfg'', ei_release_digest = hex_64, ei_duration_seconds = d, ei_runtime_key = ''rt''\<rparr>"

definition probe_envelope :: verified_envelope where
  "probe_envelope = \<lparr>ve_batch_id = ''batch-1'', ve_owner = ''o'', ve_runtime_key = ''rt'', ve_claimed_at = 110, ve_lease_expires_at = 710,
     ve_membership_sha256 = hex_64, ve_envelope_sha256 = hex_64, ve_items = [probe_video ''w1'' 60, probe_video ''w2'' 90]\<rparr>"

lemma probe_runnable: "runnable probe_executor probe_envelope LOCAL_TWO_WORKERS ''probe''"
proof -
  have "runnable_item parse (probe_video w d)" if "clean_text w" "0 < d" for parse w d
    using that hex_64
    by (simp add: runnable_item_def probe_video_def item_ready_def valid_batch_size_def DETECTOR_BATCH_SIZES_def dget_def py_float_def)
      (simp add: clean_text_def text_ok_iff py_strip_def py_space_def)
  moreover have "clean_text ''w1''" "clean_text ''w2''" "text_ok ''batch-1''"
    by (simp_all add: clean_text_def text_ok_iff py_strip_def py_space_def)
  ultimately show ?thesis using probe_executor_ok hex_64
    by (simp add: runnable_def probe_envelope_def LOCAL_TWO_WORKERS_def REVIEWED_TASK_CPU_WIDTHS_def) (simp add: probe_video_def)
qed

lemma probe_planned: "\<exists>plan. plan_duration_lpt (ve_items probe_envelope) LOCAL_TWO_WORKERS None None = Inr plan"
  by (rule plan_exists [of _ "''rt''"]) (simp_all add: probe_envelope_def probe_video_def LOCAL_TWO_WORKERS_def planned_tasks_def)

section \<open>Thread pools\<close>

text \<open>C34: an accepted thread budget fits the executor.  The budget gives every one of the tasks that Spark can
  place on an executor at once at least one thread, and their threads together are no more than its cores; when the native
  libraries are used, the pools they report after the call obey that too.\<close>

theorem executor_threads_fit:
  assumes "partition_budget xe cores cpus planned mode cp = (Inr b, cp1)" and "1 \<le> cpus" and "cpus \<le> cores"
  shows "1 \<le> tb_threads_per_worker b \<and> tb_threads_per_worker b * (cores div cpus) \<le> cores
    \<and> (mode \<noteq> ''sdk'' \<or> (torch_get_num_threads (xe_native xe) (cp_native cp1) * (cores div cpus) \<le> cores
         \<and> cv2_getNumThreads (xe_native xe) (cp_native cp1) * (cores div cpus) \<le> cores
         \<and> torch_get_num_interop_threads (xe_native xe) (cp_native cp1) \<le> 1))"
proof -
  have b: "1 \<le> tb_threads_per_worker b" "tb_threads_per_worker b * (cores div cpus) \<le> cores"
    "mode = ''sdk'' \<longrightarrow> (\<exists>settings. verify_effective_thread_settings (xe_parse_int xe) (xe_native xe) b cp1 = Inr settings)"
    using partition_budget_cases [OF assms] by simp_all
  have "0 \<le> cores div cpus" using assms(2,3) by (simp add: pos_imp_zdiv_nonneg_iff)
  then have "n * (cores div cpus) \<le> cores" if "n \<le> tb_threads_per_worker b" for n using that b(2) by (meson mult_right_mono order_trans)
  then show ?thesis using b verified_settings by blast
qed

theorem executor_threads_fit_witness:
  "\<exists>b cp1. partition_budget probe_executor 8 2 3 ''sdk'' \<lparr>cp_native_budget = None, cp_environ = [], cp_native = ()\<rparr> = (Inr b, cp1)
     \<and> 1 \<le> tb_threads_per_worker b \<and> tb_threads_per_worker b * 4 \<le> 8"
proof -
  let ?cp = "\<lparr>cp_native_budget = None, cp_environ = [], cp_native = ()\<rparr>"
  obtain b cp1 where b: "partition_budget probe_executor 8 2 3 ''sdk'' ?cp = (Inr b, cp1)"
  proof -
    have "isl (fst (partition_budget probe_executor 8 2 3 ''sdk'' ?cp)) = False" by code_simp
    then show ?thesis using that by (metis isl_def prod.collapse sum.exhaust)
  qed
  then show ?thesis using executor_threads_fit [OF b] by auto
qed

section \<open>The records of a direct run\<close>



end
