(* ===== verification/Video_Sampling.thy ===== *)
theory Video_Sampling
  imports Pipeline_Config
begin

text \<open>
  \<^verbatim>\<open>video.py\<close>: the metadata of an opened video and the loop that reads every \<open>sample_interval\<close>-th frame and groups
  what it read into batches.  A capture is an object of OpenCV: its methods are parameters over a state.  The loop runs
  as long as the capture delivers, so it is a partial function; it is proved to return for a video that ends.
\<close>

record ('s, 'f) capture =
  cap_isOpened :: "'s \<Rightarrow> bool"
  cap_read :: "'s \<Rightarrow> (bool \<times> 'f option) \<times> 's"
  cap_grab :: "'s \<Rightarrow> bool \<times> 's"
  cap_fps :: "'s \<Rightarrow> pyfloat"
  cap_frame_width :: "'s \<Rightarrow> pyfloat"
  cap_frame_height :: "'s \<Rightarrow> pyfloat"
  cap_frame_count :: "'s \<Rightarrow> pyfloat"

record frame_read_state =
  fr_source_frames_read :: int
  fr_ended_early :: bool

definition new_read_state :: frame_read_state where
  "new_read_state = \<lparr>fr_source_frames_read = 0, fr_ended_early = False\<rparr>"

record video_metadata =
  vm_fps :: pyfloat
  vm_width :: int
  vm_height :: int
  vm_total_source_frames :: int

text \<open>\<open>int(x)\<close> of a float: towards zero.\<close>

definition py_trunc :: "pyfloat \<Rightarrow> int" where
  "py_trunc x = (if x < 0 then \<lceil>x\<rceil> else \<lfloor>x\<rfloor>)"

definition read_video_metadata :: "('s, 'f) capture \<Rightarrow> 's \<Rightarrow> video_metadata res" where
  "read_video_metadata cap s =
     (let fps = cap_fps cap s; width = py_trunc (cap_frame_width cap s); height = py_trunc (cap_frame_height cap s) in
      if fps \<le> 0 \<or> width \<le> 0 \<or> height \<le> 0 then Inl RuntimeError
      else Inr \<lparr>vm_fps = fps, vm_width = width, vm_height = height, vm_total_source_frames = py_trunc (cap_frame_count cap s)\<rparr>)"

type_synonym 'f frame_batch = "(int \<times> 'f) list"

text \<open>\<open>read()\<close> at a sampled index, \<open>grab()\<close> at the others.\<close>

definition next_frame :: "('s, 'f) capture \<Rightarrow> int \<Rightarrow> int \<Rightarrow> 's \<Rightarrow> (bool \<times> 'f option) \<times> 's" where
  "next_frame cap sample_interval index s =
     (if index mod sample_interval = 0 then cap_read cap s else (case cap_grab cap s of (success, s1) \<Rightarrow> ((success, None), s1)))"

text \<open>A full batch is yielded and a new one is started.\<close>

definition extend_batch :: "int \<Rightarrow> int \<Rightarrow> 'f option \<Rightarrow> 'f frame_batch \<Rightarrow> 'f frame_batch list \<times> 'f frame_batch" where
  "extend_batch batch_size index frame batch = (case frame of
     None \<Rightarrow> ([], batch)
   | Some f \<Rightarrow> (let b = batch @ [(index, f)] in if int (length b) = batch_size then ([b], []) else ([], b)))"

partial_function (option) frame_loop :: "('s, 'f) capture \<Rightarrow> int \<Rightarrow> int \<Rightarrow> int \<Rightarrow> int \<Rightarrow> 'f frame_batch \<Rightarrow> frame_read_state \<Rightarrow> 's
    \<Rightarrow> ('f frame_batch list \<times> frame_read_state \<times> 's) option" where
  "frame_loop cap sample_interval batch_size expected index batch rs s =
     (if \<not> cap_isOpened cap s then Some (if batch = [] then [] else [batch], rs, s)
      else case next_frame cap sample_interval index s of ((success, frame), s1) \<Rightarrow>
        if \<not> success then Some (if batch = [] then [] else [batch], rs\<lparr>fr_ended_early := index + 1 < expected\<rparr>, s1)
        else case extend_batch batch_size index frame batch of (full, batch1) \<Rightarrow>
          Option.bind (frame_loop cap sample_interval batch_size expected (index + 1) batch1 (rs\<lparr>fr_source_frames_read := index + 1\<rparr>) s1)
            (\<lambda>(batches, rs1, s2). Some (full @ batches, rs1, s2)))"

text \<open>\<open>source_frame_index % sample_interval\<close> raises for an interval of zero, as soon as the video is open.\<close>

definition iter_sampled_frame_batches :: "('s, 'f) capture \<Rightarrow> int \<Rightarrow> int \<Rightarrow> int \<Rightarrow> frame_read_state \<Rightarrow> 's
    \<Rightarrow> ('f frame_batch list \<times> frame_read_state \<times> 's) res option" where
  "iter_sampled_frame_batches cap sample_interval batch_size expected rs s =
     (if sample_interval = 0 \<and> cap_isOpened cap s then Some (Inl ZeroDivisionError)
      else map_option Inr (frame_loop cap sample_interval batch_size expected 0 [] rs s))"

section \<open>A video that ends\<close>

text \<open>A capture that delivers exactly the frames \<open>fs\<close> from a state, whether they are read or skipped, and then fails.\<close>

fun delivers :: "('s, 'f) capture \<Rightarrow> 'f list \<Rightarrow> 's \<Rightarrow> bool" where
  "delivers cap [] s \<longleftrightarrow> cap_isOpened cap s \<and> \<not> fst (fst (cap_read cap s)) \<and> \<not> fst (cap_grab cap s)"
| "delivers cap (f # fs) s \<longleftrightarrow> cap_isOpened cap s \<and> fst (cap_read cap s) = (True, Some f) \<and> fst (cap_grab cap s)
     \<and> delivers cap fs (snd (cap_read cap s)) \<and> delivers cap fs (snd (cap_grab cap s))"

text \<open>The frames at the sampled indices.\<close>

definition sampled :: "int \<Rightarrow> int \<Rightarrow> 'f list \<Rightarrow> (int \<times> 'f) list" where
  "sampled interval index fs = filter (\<lambda>(k, f). k mod interval = 0) (zip (map (\<lambda>j. index + int j) [0..<length fs]) fs)"

lemma sampled_Nil: "sampled interval index [] = []"
  by (simp add: sampled_def)

lemma sampled_Cons: "sampled interval index (f # fs) = (if index mod interval = 0 then [(index, f)] else []) @ sampled interval (index + 1) fs"
proof -
  have "map (\<lambda>j. index + int j) [0..<length (f # fs)] = index # map (\<lambda>j. index + 1 + int j) [0..<length fs]"
    by (simp add: upt_conv_Cons map_Suc_upt [symmetric] del: upt_Suc map_Suc_upt)
  then show ?thesis by (simp add: sampled_def)
qed

text \<open>Batches of the exact size, but for a shorter last one.\<close>

fun well_batched :: "int \<Rightarrow> 'a list list \<Rightarrow> bool" where
  "well_batched n [] \<longleftrightarrow> True"
| "well_batched n [b] \<longleftrightarrow> b \<noteq> [] \<and> int (length b) \<le> n"
| "well_batched n (b # c # bs) \<longleftrightarrow> int (length b) = n \<and> well_batched n (c # bs)"

lemma well_batched_Cons: "well_batched n bs \<Longrightarrow> 1 \<le> n \<Longrightarrow> int (length b) = n \<Longrightarrow> well_batched n (b # bs)"
  by (cases bs) auto

lemma frame_loop_returns:
  assumes "1 \<le> n"
  shows "\<lbrakk>delivers cap fs s; int (length batch) < n; index = fr_source_frames_read rs\<rbrakk> \<Longrightarrow>
    \<exists>batches s1. frame_loop cap interval n expected index batch rs s =
        Some (batches, \<lparr>fr_source_frames_read = index + int (length fs), fr_ended_early = (index + int (length fs) + 1 < expected)\<rparr>, s1)
      \<and> concat batches = batch @ sampled interval index fs \<and> well_batched n batches"
proof (induction fs arbitrary: s batch index rs)
  case Nil
  obtain success frame s1 where nf: "next_frame cap interval index s = ((success, frame), s1)" by (metis prod.collapse)
  then have "\<not> success" using Nil.prems(1) by (auto simp: next_frame_def split: if_splits prod.splits)
  then have "frame_loop cap interval n expected index batch rs s =
      Some (if batch = [] then [] else [batch], rs\<lparr>fr_ended_early := index + 1 < expected\<rparr>, s1)"
    using Nil.prems(1) nf by (subst frame_loop.simps) simp
  moreover have "rs\<lparr>fr_ended_early := index + 1 < expected\<rparr> = \<lparr>fr_source_frames_read = index, fr_ended_early = (index + 1 < expected)\<rparr>"
    using Nil.prems(3) by (cases rs) simp
  ultimately show ?case using Nil.prems(2) by (auto simp: sampled_Nil)
next
  case (Cons f fs)
  obtain success frame s1 where nf: "next_frame cap interval index s = ((success, frame), s1)" by (metis prod.collapse)
  then have ok: "success" "frame = (if index mod interval = 0 then Some f else None)" "delivers cap fs s1"
    using Cons.prems(1) by (auto simp: next_frame_def split: if_splits prod.splits)
  obtain full batch1 where b: "extend_batch n index frame batch = (full, batch1)" by fastforce
  then have b1: "int (length batch1) < n" "concat full @ batch1 = batch @ (if index mod interval = 0 then [(index, f)] else [])"
    "full = [] \<or> (\<exists>c. full = [c] \<and> int (length c) = n \<and> batch1 = [])"
    using Cons.prems(2) assms ok(2) by (auto simp: extend_batch_def Let_def split: if_splits)
  let ?rs = "rs\<lparr>fr_source_frames_read := index + 1\<rparr>"
  from Cons.IH [OF ok(3) b1(1), of "index + 1" ?rs] obtain batches s2 where ih:
    "frame_loop cap interval n expected (index + 1) batch1 ?rs s1 =
      Some (batches, \<lparr>fr_source_frames_read = index + 1 + int (length fs), fr_ended_early = (index + 1 + int (length fs) + 1 < expected)\<rparr>, s2)"
    "concat batches = batch1 @ sampled interval (index + 1) fs" "well_batched n batches" by auto
  have "frame_loop cap interval n expected index batch rs s =
      Some (full @ batches, \<lparr>fr_source_frames_read = index + int (length (f # fs)), fr_ended_early = (index + int (length (f # fs)) + 1 < expected)\<rparr>, s2)"
    using Cons.prems(1) nf ok(1) b ih(1) by (subst frame_loop.simps) (simp add: algebra_simps)
  moreover have "concat (full @ batches) = batch @ sampled interval index (f # fs)"
    unfolding sampled_Cons concat_append ih(2) using b1(2) by (metis append.assoc)
  moreover have "well_batched n (full @ batches)" using b1(3) well_batched_Cons [OF ih(3) assms] ih(3) by auto
  ultimately show ?case by blast
qed

lemma sampled_count:
  assumes "1 \<le> interval"
  shows "int (length (sampled interval 0 fs)) = (int (length fs) + interval - 1) div interval"
proof -
  have "int (length (sampled interval index fs)) = (index + int (length fs) + interval - 1) div interval - (index + interval - 1) div interval"
    if "0 \<le> index" for index
    using that
  proof (induction fs arbitrary: index)
    case (Cons f fs)
    have step: "(index + interval) div interval - (index + interval - 1) div interval = (if index mod interval = 0 then 1 else 0)"
    proof (cases "index mod interval = 0")
      case True
      then obtain d where d: "index = d * interval" by (metis mod_0_imp_dvd dvd_def mult.commute)
      have "(interval - 1 + d * interval) div interval = d + (interval - 1) div interval" using assms by (intro div_mult_self1) simp
      then show ?thesis using True assms by (simp add: d algebra_simps div_pos_pos_trivial)
    next
      case False
      let ?d = "index div interval" and ?r = "index mod interval"
      have r: "1 \<le> ?r" "?r < interval" using False assms pos_mod_sign [of interval index] pos_mod_bound [of interval index] by linarith+
      have "(?r - 1 + (?d + 1) * interval) div interval = ?d + 1 + (?r - 1) div interval" using assms by (intro div_mult_self1) simp
      moreover have "index + interval - 1 = ?r - 1 + (?d + 1) * interval" by (simp add: algebra_simps)
      moreover have "(?r - 1) div interval = 0" using r by (intro div_pos_pos_trivial) auto
      ultimately have "(index + interval - 1) div interval = ?d + 1" by presburger
      then show ?thesis using False assms by simp
    qed
    have "int (length (sampled interval (index + 1) fs)) =
        (index + 1 + int (length fs) + interval - 1) div interval - (index + interval) div interval"
      using Cons.IH [of "index + 1"] Cons.prems by (simp add: algebra_simps)
    then show ?case using step by (cases "index mod interval = 0") (simp_all add: sampled_Cons algebra_simps)
  qed (simp add: sampled_Nil)
  from this [of 0] show ?thesis using assms by (simp add: div_pos_pos_trivial)
qed

end
