(* ===== verification/Line_Counting.thy ===== *)
theory Line_Counting
  imports Video_Results
begin

text \<open>
  \<^verbatim>\<open>line_counting.py\<close>: the counting line, the tracks that are kept for a few frames after they were last
  detected, and the line-count records.  Boxes and the zone of the \<^verbatim>\<open>supervision\<close> package are type parameters; the methods of
  the zone are the fields of \<open>zone_lib\<close>.
\<close>

section \<open>Detections\<close>

record 'b detections =
  dt_xyxy :: "'b list"
  dt_tracker_id :: "int list option"

definition empty_detections :: "'b detections" where
  "empty_detections = \<lparr>dt_xyxy = [], dt_tracker_id = None\<rparr>"

text \<open>\<open>np.asarray(ids, dtype=np.int32)\<close>: an id that does not fit raises.\<close>

definition int32_ids :: "int list \<Rightarrow> int list res" where
  "int32_ids ids = (if list_all (\<lambda>i. - (2 ^ 31) \<le> i \<and> i < 2 ^ 31) ids then Inr ids else Inl (ExternalError ''OverflowError''))"

definition tracked :: "('b \<times> int) list \<Rightarrow> 'b detections res" where
  "tracked ts = (if ts = [] then Inr empty_detections
     else bindE (int32_ids (map snd ts)) (\<lambda>ids. Inr \<lparr>dt_xyxy = map fst ts, dt_tracker_id = Some ids\<rparr>))"

record ('e, 'b) track_profile =
  tp_centroid :: centroid
  tp_embedding :: 'e
  tp_age :: int
  tp_bbox :: 'b
  tp_first_seen_frame :: int
  tp_hits :: int

definition active_track_detections :: "(int \<times> ('e, 'b) track_profile) list \<Rightarrow> 'b detections res" where
  "active_track_detections gallery = tracked (map (\<lambda>(i, p). (tp_bbox p, i)) (filter (\<lambda>(i, p). 0 < i) gallery))"

section \<open>Coasting\<close>

record 'b coasting_track =
  ct_bbox :: 'b
  ct_last_seen_frame :: int

type_synonym 'b coasting_cache = "(int \<times> 'b coasting_track) list"

definition remember :: "int \<Rightarrow> 'b detections \<Rightarrow> 'b coasting_cache \<Rightarrow> 'b coasting_cache" where
  "remember frame det cache = (case dt_tracker_id det of
     None \<Rightarrow> cache
   | Some ids \<Rightarrow> foldl (\<lambda>c (i, b). dset i \<lparr>ct_bbox = b, ct_last_seen_frame = frame\<rparr> c) cache (zip ids (dt_xyxy det)))"

definition coasting_track_detections :: "'b detections \<Rightarrow> 'b coasting_cache \<Rightarrow> int \<Rightarrow> int \<Rightarrow> ('b detections \<times> 'b coasting_cache) res" where
  "coasting_track_detections det cache source_frame_index max_coast_source_frames =
     (let kept = filter (\<lambda>(i, t). \<not> source_frame_index - ct_last_seen_frame t > max_coast_source_frames) (remember source_frame_index det cache) in
      bindE (tracked (map (\<lambda>(i, t). (ct_bbox t, i)) kept)) (\<lambda>d. Inr (d, kept)))"

section \<open>The line\<close>

record ('z, 'b) zone_lib =
  lz_new :: "centroid \<Rightarrow> centroid \<Rightarrow> 'z"
  lz_trigger :: "'z \<Rightarrow> 'b detections \<Rightarrow> (bool list \<times> bool list) \<times> 'z"
  lz_in_count :: "'z \<Rightarrow> int"
  lz_out_count :: "'z \<Rightarrow> int"

type_synonym line_coordinates = "int \<times> int \<times> int \<times> int"

definition create_line_zone :: "('z, 'b) zone_lib \<Rightarrow> line_coordinates option \<Rightarrow> int \<Rightarrow> int \<Rightarrow> 'z option res" where
  "create_line_zone zl line width height = (case line of
     None \<Rightarrow> Inr None
   | Some (x1, y1, x2, y2) \<Rightarrow>
       if (x1, y1) = (x2, y2) then Inl ValueError
       else if list_ex (\<lambda>(x, y). \<not> (0 \<le> x \<and> x < width) \<or> \<not> (0 \<le> y \<and> y < height)) [(x1, y1), (x2, y2)] then Inl ValueError
       else Inr (Some (lz_new zl (x1, y1) (x2, y2))))"

text \<open>\<open>f"{x:.3f}"\<close>\<close>

definition fixed3 :: "pyfloat \<Rightarrow> string" where
  "fixed3 x = (let n = nat (rne (\<bar>x\<bar> * 1000)) in (if x < 0 then ''-'' else []) @ nat_dec (n div 1000) @ ''.'' @ pad_int 3 (int (n mod 1000)))"

definition record_line_counts :: "('z, 'b) zone_lib \<Rightarrow> 'z option \<Rightarrow> 'b detections \<Rightarrow> int \<Rightarrow> pyfloat \<Rightarrow> line_coordinates option
    \<Rightarrow> line_count_record list \<Rightarrow> ('z option \<times> line_count_record list) res" where
  "record_line_counts zl zone det frame fps line records = (case (zone, line) of
     (Some z, Some (x1, y1, x2, y2)) \<Rightarrow>
       (case lz_trigger zl z det of ((crossed_in, crossed_out), z1) \<Rightarrow>
          bindE (frame_seconds frame fps) (\<lambda>seconds.
          bindE (format_video_timestamp frame fps) (\<lambda>timestamp.
            Inr (Some z1, records @ [\<lparr>lc_frame = frame, lc_video_seconds = fixed3 seconds, lc_video_timestamp = timestamp,
              lc_frame_in_count = int (length (filter id crossed_in)), lc_frame_out_count = int (length (filter id crossed_out)),
              lc_cumulative_in_count = lz_in_count zl z1, lc_cumulative_out_count = lz_out_count zl z1,
              lc_line_start_x = x1, lc_line_start_y = y1, lc_line_end_x = x2, lc_line_end_y = y2\<rparr>]))))
   | _ \<Rightarrow> Inr (zone, records))"

section \<open>What is remembered\<close>

text \<open>The detections of a sequence of frames, passed through the cache one after the other.\<close>

fun coast :: "int \<Rightarrow> ('b detections \<times> int) list \<Rightarrow> 'b coasting_cache \<Rightarrow> 'b coasting_cache res" where
  "coast limit [] cache = Inr cache"
| "coast limit ((det, frame) # rest) cache = bindE (coasting_track_detections det cache frame limit) (\<lambda>(_, cache1). coast limit rest cache1)"

definition box_of :: "'b detections \<Rightarrow> int \<Rightarrow> 'b option" where
  "box_of det i = (case dt_tracker_id det of None \<Rightarrow> None | Some ids \<Rightarrow> map_of (rev (zip ids (dt_xyxy det))) i)"

text \<open>The last frame in which a track was detected, and its box there.\<close>

definition last_sighting :: "int \<Rightarrow> ('b detections \<times> int) list \<Rightarrow> (int \<times> 'b) option" where
  "last_sighting i history = foldl (\<lambda>seen (det, frame). case box_of det i of None \<Rightarrow> seen | Some b \<Rightarrow> Some (frame, b)) None history"

lemma last_sighting_snoc: "last_sighting i (history @ [(det, frame)]) = (case box_of det i of None \<Rightarrow> last_sighting i history | Some b \<Rightarrow> Some (frame, b))"
  by (simp add: last_sighting_def split: option.split)

lemma last_sighting_frame: "last_sighting i history = Some (f, b) \<Longrightarrow> f \<in> set (map snd history)"
  by (induction history rule: rev_induct) (auto simp: last_sighting_snoc split: option.splits prod.splits, auto simp: last_sighting_def)

lemma map_of_foldl_dset: "map_of (foldl (\<lambda>c (i, b). dset i (g b) c) cache ps) k = (case map_of (rev ps) k of None \<Rightarrow> map_of cache k | Some b \<Rightarrow> Some (g b))"
  by (induction ps arbitrary: cache) (auto simp: map_of_dset map_add_def split: option.splits)

lemma foldl_dset_distinct: "distinct (map fst cache) \<Longrightarrow> distinct (map fst (foldl (\<lambda>c (i, b). dset i (g b) c) cache ps))"
  by (induction ps arbitrary: cache) (auto simp: dset_distinct)

lemma remember_lookup:
  "map_of (remember frame det cache) i = (case box_of det i of None \<Rightarrow> map_of cache i | Some b \<Rightarrow> Some \<lparr>ct_bbox = b, ct_last_seen_frame = frame\<rparr>)"
  by (auto simp: remember_def box_of_def map_of_foldl_dset split: option.split)

lemma remember_distinct: "distinct (map fst cache) \<Longrightarrow> distinct (map fst (remember frame det cache))"
  unfolding remember_def by (cases "dt_tracker_id det") (simp_all add: foldl_dset_distinct)

lemma map_of_filter: "distinct (map fst d) \<Longrightarrow> map_of (filter (\<lambda>(k, v). P v) d) k = (case map_of d k of None \<Rightarrow> None | Some v \<Rightarrow> if P v then Some v else None)"
proof (induction d)
  case (Cons a d)
  have "map_of (filter (\<lambda>(k, v). P v) d) (fst a) = None" using Cons.prems by (auto simp: map_of_eq_None_iff)
  then show ?case using Cons by (cases a) (auto split: option.splits)
qed simp

definition int32_history :: "('b detections \<times> int) list \<Rightarrow> bool" where
  "int32_history history \<longleftrightarrow> list_all (\<lambda>(det, frame). case dt_tracker_id det of None \<Rightarrow> True | Some ids \<Rightarrow> \<exists>x. int32_ids ids = Inr x) history"

lemma tracked_returns: "list_all (\<lambda>(b, i). - (2 ^ 31) \<le> i \<and> i < 2 ^ 31) ts \<Longrightarrow> \<exists>d. tracked ts = Inr d"
  by (auto simp: tracked_def int32_ids_def list_all_iff)

lemma coast_snoc:
  "coast limit (history @ [(det, frame)]) cache =
    bindE (coast limit history cache) (\<lambda>c. bindE (coasting_track_detections det c frame limit) (\<lambda>(_, c1). Inr c1))"
proof (induction history arbitrary: cache)
  case Nil
  show ?case by (simp add: bindE_def split: sum.split)
next
  case (Cons x history)
  obtain d f where "x = (d, f)" by (cases x)
  then show ?case using Cons by (cases "coasting_track_detections d cache f limit") auto
qed

definition small_ids :: "'b coasting_cache \<Rightarrow> bool" where
  "small_ids cache \<longleftrightarrow> list_all (\<lambda>(i, t). - (2 ^ 31) \<le> i \<and> i < 2 ^ 31) cache"

lemma coast_cache:
  assumes "int32_history history" "sorted (map snd history)" "0 \<le> limit"
  shows "\<exists>cache. coast limit history [] = Inr cache \<and> distinct (map fst cache) \<and> small_ids cache
    \<and> (\<forall>i. map_of cache i = (case last_sighting i history of
          None \<Rightarrow> None
        | Some (f, b) \<Rightarrow> if last (0 # map snd history) - f \<le> limit then Some \<lparr>ct_bbox = b, ct_last_seen_frame = f\<rparr> else None))"
  using assms
proof (induction history rule: rev_induct)
  case Nil
  then show ?case by (simp add: last_sighting_def small_ids_def)
next
  case (snoc x history)
  obtain det frame where x: "x = (det, frame)" by (cases x)
  have h: "int32_history history" "sorted (map snd history)" "\<forall>f \<in> set (map snd history). f \<le> frame"
    using snoc.prems(1,2) by (auto simp: x int32_history_def sorted_append)
  from snoc.IH [OF h(1,2) snoc.prems(3)] obtain cache where c: "coast limit history [] = Inr cache" "distinct (map fst cache)" "small_ids cache"
    "\<forall>i. map_of cache i = (case last_sighting i history of None \<Rightarrow> None
        | Some (f, b) \<Rightarrow> if last (0 # map snd history) - f \<le> limit then Some \<lparr>ct_bbox = b, ct_last_seen_frame = f\<rparr> else None)" by blast
  let ?r = "remember frame det cache"
  let ?kept = "filter (\<lambda>(i, t). \<not> frame - ct_last_seen_frame t > limit) ?r"
  have dist: "distinct (map fst ?r)" using remember_distinct [OF c(2)] .
  have small: "small_ids ?r"
    unfolding small_ids_def list_all_iff
  proof (intro ballI, clarify)
    fix i t
    assume "(i, t) \<in> set ?r"
    then have "map_of ?r i = Some t" using dist by simp
    then consider b where "box_of det i = Some b" | "map_of cache i = Some t" by (auto simp: remember_lookup split: option.splits)
    then show "- (2 ^ 31) \<le> i \<and> i < 2 ^ 31"
    proof cases
      case 1
      then obtain ids where ids: "dt_tracker_id det = Some ids" "i \<in> set ids" by (auto simp: box_of_def split: option.splits dest!: map_of_SomeD set_zip_leftD)
      then have "\<exists>x. int32_ids ids = Inr x" using snoc.prems(1) by (simp add: x int32_history_def)
      then show ?thesis using ids(2) by (auto simp: int32_ids_def list_all_iff split: if_splits)
    next
      case 2
      then show ?thesis using c(3) by (auto simp: small_ids_def list_all_iff dest!: map_of_SomeD)
    qed
  qed
  have "\<exists>d. tracked (map (\<lambda>(i, t). (ct_bbox t, i)) ?kept) = Inr d"
    by (rule tracked_returns) (use small in \<open>auto simp: small_ids_def list_all_iff\<close>)
  then have run: "coast limit (history @ [(det, frame)]) [] = Inr ?kept"
    using c(1) by (auto simp: coast_snoc coasting_track_detections_def Let_def)
  have "map_of ?kept i = (case last_sighting i (history @ [(det, frame)]) of None \<Rightarrow> None
      | Some (f, b) \<Rightarrow> if last (0 # map snd (history @ [(det, frame)])) - f \<le> limit then Some \<lparr>ct_bbox = b, ct_last_seen_frame = f\<rparr> else None)" for i
  proof -
    have k: "map_of ?kept i = (case map_of ?r i of None \<Rightarrow> None | Some t \<Rightarrow> if \<not> frame - ct_last_seen_frame t > limit then Some t else None)"
      by (rule map_of_filter [OF dist])
    show ?thesis
    proof (cases "box_of det i")
      case (Some b)
      then show ?thesis using snoc.prems(3) by (simp add: k remember_lookup last_sighting_snoc)
    next
      case None
      then have r: "map_of ?r i = map_of cache i" by (simp add: remember_lookup)
      show ?thesis
      proof (cases "last_sighting i history")
        case None
        then show ?thesis using c(4) \<open>box_of det i = None\<close> r by (simp add: k last_sighting_snoc)
      next
        case (Some p)
        obtain f b where p: "p = (f, b)" by (cases p)
        have "last (0 # map snd history) \<le> frame" using h(3) last_sighting_frame [OF Some [unfolded p]] by (cases "map snd history" rule: rev_cases) auto
        then show ?thesis using c(4) [rule_format, of i] Some \<open>box_of det i = None\<close> r by (auto simp: k p last_sighting_snoc)
      qed
    qed
  qed
  moreover have "distinct (map fst ?kept)" using dist by (rule distinct_map_filter)
  moreover have "small_ids ?kept" using small by (auto simp: small_ids_def list_all_iff)
  ultimately show ?case using run unfolding x by blast
qed

end
