(* ===== verification/Vision_Correct.thy ===== *)
theory Vision_Correct
  imports Video_Sampling Line_Counting
begin

text \<open>
  What the deterministic part of a pipeline guarantees: which frames of a video are inferred, and which tracks take
  part in line counting.
\<close>

section \<open>Sampled frames\<close>

definition list_capture :: "('f list, 'f) capture" where
  "list_capture = \<lparr>cap_isOpened = (\<lambda>_. True),
     cap_read = (\<lambda>s. case s of [] \<Rightarrow> ((False, None), []) | f # r \<Rightarrow> ((True, Some f), r)),
     cap_grab = (\<lambda>s. case s of [] \<Rightarrow> (False, []) | f # r \<Rightarrow> (True, r)),
     cap_fps = (\<lambda>_. 30), cap_frame_width = (\<lambda>_. 640), cap_frame_height = (\<lambda>_. 480), cap_frame_count = (\<lambda>s. of_nat (length s))\<rparr>"

text \<open>C36: for a video that delivers the frames its metadata announces, the reading loop ends, it reads all of them, hands out
  the frames at the multiples of the sampling interval in order, in batches of the requested size but for a shorter last one,
  and their number is the one that \<open>sampling_config\<close> computed in floating point beforehand.\<close>

theorem sampling_reads_announced_frames:
  assumes "sampling_config source_fps requested (int (length frames)) = Inr sc" and "delivers cap frames s" and "1 \<le> batch_size"
    and "sc_interval sc < 2 ^ 53" and "int (length frames) < 2 ^ 52"
  shows "\<exists>batches s1. iter_sampled_frame_batches cap (sc_interval sc) batch_size (int (length frames)) new_read_state s =
      Some (Inr (batches, \<lparr>fr_source_frames_read = int (length frames), fr_ended_early = False\<rparr>, s1))
    \<and> concat batches = sampled (sc_interval sc) 0 frames \<and> well_batched batch_size batches
    \<and> int (length (concat batches)) = sc_total_sampled_frames sc"
proof -
  have i: "1 \<le> sc_interval sc" "sc_total_sampled_frames sc = \<lceil>int_truediv (int (length frames)) (sc_interval sc)\<rceil>"
    using assms(1) by (auto simp: sampling_config_def Let_def split: if_splits)
  obtain batches s1 where b: "frame_loop cap (sc_interval sc) batch_size (int (length frames)) 0 [] new_read_state s =
      Some (batches, \<lparr>fr_source_frames_read = int (length frames), fr_ended_early = False\<rparr>, s1)"
    "concat batches = sampled (sc_interval sc) 0 frames" "well_batched batch_size batches"
    using frame_loop_returns [OF assms(3,2), of "[]" 0 new_read_state "sc_interval sc" "int (length frames)"] assms(3)
    by (auto simp: new_read_state_def)
  have "sc_total_sampled_frames sc = (int (length frames) + sc_interval sc - 1) div sc_interval sc"
    unfolding i(2) using assms(4,5) i(1) by (intro ceiling_truediv) auto
  then show ?thesis using b i(1) sampled_count [OF i(1), of frames] by (auto simp: iter_sampled_frame_batches_def)
qed

theorem sampling_reads_announced_frames_witness:
  "\<exists>batches s1. iter_sampled_frame_batches list_capture 3 1 5 new_read_state ''abcde'' =
      Some (Inr (batches, \<lparr>fr_source_frames_read = 5, fr_ended_early = False\<rparr>, s1)) \<and> concat batches = [(0, CHR ''a''), (3, CHR ''d'')]"
proof -
  have c: "sampling_config 30 (Some 10) (int (length ''abcde'')) = Inr \<lparr>sc_interval = 3, sc_effective_fps = 10, sc_total_sampled_frames = 2\<rparr>"
    by code_simp
  have d: "delivers list_capture ''abcde'' ''abcde''" by (simp add: list_capture_def)
  have s: "sampled 3 0 ''abcde'' = [(0, CHR ''a''), (3, CHR ''d'')]" by code_simp
  show ?thesis using sampling_reads_announced_frames [OF c d, of 1] s by auto
qed

section \<open>Tracks that take part in line counting\<close>

text \<open>C37: after a sequence of frames in order the cache of coasting tracks is the map that gives, for every track, its box at its
  last detection, as long as that detection is at most \<open>max_coast_source_frames\<close> frames old.\<close>

theorem coasting_keeps_recent_tracks:
  assumes "int32_history history" and "sorted (map snd history)" and "0 \<le> limit"
  shows "\<exists>cache. coast limit history [] = Inr cache \<and> distinct (map fst cache)
    \<and> (\<forall>i. map_of cache i = (case last_sighting i history of
          None \<Rightarrow> None
        | Some (f, b) \<Rightarrow> if last (0 # map snd history) - f \<le> limit then Some \<lparr>ct_bbox = b, ct_last_seen_frame = f\<rparr> else None))"
  using coast_cache [OF assms] by blast

definition seen :: "int list \<Rightarrow> string list \<Rightarrow> string detections" where
  "seen ids boxes = \<lparr>dt_xyxy = boxes, dt_tracker_id = Some ids\<rparr>"

theorem coasting_keeps_recent_tracks_witness:
  "\<exists>cache. coast 3 [(seen [1, 2] [''a'', ''b''], 0), (seen [2] [''c''], 3), (seen [] [], 6)] [] = Inr cache
     \<and> map_of cache 1 = None \<and> map_of cache 2 = Some \<lparr>ct_bbox = ''c'', ct_last_seen_frame = 3\<rparr>"
proof -
  let ?h = "[(seen [1, 2] [''a'', ''b''], 0 :: int), (seen [2] [''c''], 3), (seen [] [], 6)]"
  have "int32_history ?h" by (simp add: int32_history_def seen_def int32_ids_def)
  moreover have "sorted (map snd ?h)" by simp
  ultimately obtain cache where c: "coast 3 ?h [] = Inr cache"
    "\<forall>i. map_of cache i = (case last_sighting i ?h of None \<Rightarrow> None
        | Some (f, b) \<Rightarrow> if last (0 # map snd ?h) - f \<le> 3 then Some \<lparr>ct_bbox = b, ct_last_seen_frame = f\<rparr> else None)"
    using coasting_keeps_recent_tracks [of ?h 3] by auto
  have "last_sighting 1 ?h = Some (0, ''a'')" "last_sighting 2 ?h = Some (3, ''c'')"
    by (simp_all add: last_sighting_def box_of_def seen_def)
  then show ?thesis using c(1) c(2) [rule_format, of 1] c(2) [rule_format, of 2] by auto
qed

end
