(* ===== verification/Local_Queue.thy ===== *)
theory Local_Queue
  imports Py_Json
begin

text \<open>
  The durable local queue of \<^verbatim>\<open>local_queue.py\<close> (class \<open>SQLiteQueue\<close>): the message table, the
  operations of a consumer (claim, renew, finalize) and of a producer (enqueue), and the recovery of
  expired locks.  Arguments have the types of the annotations; a duration or a delay is a float that
  may be non-finite (\<open>None\<close>), the clock and the tokens of \<open>uuid4\<close> are arguments.
\<close>

section \<open>Messages\<close>

datatype queue_state = Q_READY | Q_LOCKED | Q_COMPLETED | Q_DEAD

record message_row =
  ms_message_id :: string
  ms_idempotency_key :: string
  ms_payload_json :: string
  ms_payload_sha256 :: string
  ms_state :: queue_state
  ms_delivery_count :: int
  ms_max_delivery_count :: int
  ms_available_at :: pyfloat
  ms_lock_token :: "string option"
  ms_locked_by :: "string option"
  ms_locked_until :: "pyfloat option"
  ms_dead_letter_reason :: "string option"
  ms_created_at :: pyfloat
  ms_updated_at :: pyfloat

type_synonym queue = "message_row list"

record claimed_message =
  cm_message_id :: string
  cm_idempotency_key :: string
  cm_payload :: pyval
  cm_lock_token :: string
  cm_locked_until :: pyfloat
  cm_delivery_count :: int
  cm_max_delivery_count :: int

record queue_message =
  qm_message_id :: string
  qm_idempotency_key :: string
  qm_state :: queue_state
  qm_delivery_count :: int
  qm_max_delivery_count :: int
  qm_available_at :: pyfloat
  qm_locked_until :: "pyfloat option"
  qm_dead_letter_reason :: "string option"

definition message_view :: "message_row \<Rightarrow> queue_message" where
  "message_view r = \<lparr>qm_message_id = ms_message_id r, qm_idempotency_key = ms_idempotency_key r,
     qm_state = ms_state r, qm_delivery_count = ms_delivery_count r,
     qm_max_delivery_count = ms_max_delivery_count r, qm_available_at = ms_available_at r,
     qm_locked_until = ms_locked_until r, qm_dead_letter_reason = ms_dead_letter_reason r\<rparr>"

section \<open>Validators and transactions\<close>

definition stripped_text :: "string \<Rightarrow> string res" where
  "stripped_text s = (if py_strip s = [] then Inl ValueError else Inr (py_strip s))"

definition bounded_seconds :: "pyfloat option \<Rightarrow> pyfloat res" where
  "bounded_seconds v = (case v of
     None \<Rightarrow> Inl ValueError
   | Some x \<Rightarrow> if x < 1 \<or> 86400 < x then Inl ValueError else Inr x)"

definition nonnegative_seconds :: "pyfloat option \<Rightarrow> pyfloat res" where
  "nonnegative_seconds v = (case v of
     None \<Rightarrow> Inl ValueError
   | Some x \<Rightarrow> if x < 0 \<or> 86400 < x then Inl ValueError else Inr x)"

text \<open>\<open>time.time() if now is None else float(now)\<close>\<close>

definition at_time :: "pyfloat \<Rightarrow> pyfloat option \<Rightarrow> pyfloat" where
  "at_time clock now = (case now of None \<Rightarrow> clock | Some t \<Rightarrow> t)"

definition queue_transaction :: "(queue \<Rightarrow> (queue \<times> 'r) res) \<Rightarrow> queue \<Rightarrow> 'r res \<times> queue" where
  "queue_transaction body q = (case body q of Inl e \<Rightarrow> (Inl e, q) | Inr (q', r) \<Rightarrow> (Inr r, q'))"

section \<open>Producing\<close>

definition new_message :: "string \<Rightarrow> string \<Rightarrow> string \<Rightarrow> string \<Rightarrow> int \<Rightarrow> pyfloat \<Rightarrow> pyfloat \<Rightarrow> message_row" where
  "new_message message_id key payload_json payload_sha256 max_delivery_count available now =
     \<lparr>ms_message_id = message_id, ms_idempotency_key = key, ms_payload_json = payload_json,
      ms_payload_sha256 = payload_sha256, ms_state = Q_READY, ms_delivery_count = 0,
      ms_max_delivery_count = max_delivery_count, ms_available_at = available, ms_lock_token = None,
      ms_locked_by = None, ms_locked_until = None, ms_dead_letter_reason = None,
      ms_created_at = now, ms_updated_at = now\<rparr>"

definition enqueue_tx :: "string \<Rightarrow> string \<Rightarrow> string \<Rightarrow> string \<Rightarrow> int \<Rightarrow> pyfloat \<Rightarrow> pyfloat \<Rightarrow> queue
    \<Rightarrow> (queue \<times> string) res" where
  "enqueue_tx message_id key payload_json payload_sha256 max_delivery_count available now q =
     (case find (\<lambda>r. ms_idempotency_key r = key) q of
        Some r \<Rightarrow>
          if ms_payload_sha256 r \<noteq> payload_sha256 \<or> ms_max_delivery_count r \<noteq> max_delivery_count
          then Inl QueueConflictError else Inr (q, ms_message_id r)
      | None \<Rightarrow>
          if message_id \<in> ms_message_id ` set q then Inl IntegrityError
          else Inr (q @ [new_message message_id key payload_json payload_sha256 max_delivery_count available now],
                    message_id))"

definition enqueue :: "pylib \<Rightarrow> pyfloat \<Rightarrow> string \<Rightarrow> string \<Rightarrow> (string \<times> pyval) list \<Rightarrow> int \<Rightarrow> pyfloat option
    \<Rightarrow> queue \<Rightarrow> string res \<times> queue" where
  "enqueue lib clock message_id idempotency_key payload max_delivery_count available_at q =
     (case stripped_text idempotency_key of
        Inl e \<Rightarrow> (Inl e, q)
      | Inr key \<Rightarrow>
          if max_delivery_count < 1 \<or> 100 < max_delivery_count then (Inl ValueError, q)
          else let payload_json = dumps lib (PDict payload) in
            queue_transaction (enqueue_tx message_id key payload_json (sha256_hex lib payload_json)
              max_delivery_count (at_time clock available_at) clock) q)"

section \<open>Recovering expired locks\<close>

definition lock_expired :: "pyfloat \<Rightarrow> message_row \<Rightarrow> bool" where
  "lock_expired now r \<longleftrightarrow> ms_state r = Q_LOCKED \<and>
     (case ms_locked_until r of None \<Rightarrow> False | Some t \<Rightarrow> t \<le> now)"

definition expire_message :: "pyfloat \<Rightarrow> message_row \<Rightarrow> message_row" where
  "expire_message now r =
     (let exhausted = ms_max_delivery_count r \<le> ms_delivery_count r in
      r\<lparr>ms_state := if exhausted then Q_DEAD else Q_READY, ms_available_at := now,
        ms_lock_token := None, ms_locked_by := None, ms_locked_until := None,
        ms_dead_letter_reason := if exhausted
          then Some ''maximum delivery count reached after lease expiry'' else ms_dead_letter_reason r,
        ms_updated_at := now\<rparr>)"

definition recover_expired_rows :: "pyfloat \<Rightarrow> queue \<Rightarrow> queue \<times> nat" where
  "recover_expired_rows now q =
     (update_where (lock_expired now) (expire_message now) q, rowcount (lock_expired now) q)"

definition recover_expired :: "pyfloat \<Rightarrow> pyfloat option \<Rightarrow> queue \<Rightarrow> nat res \<times> queue" where
  "recover_expired clock now q =
     queue_transaction (\<lambda>t. Inr (recover_expired_rows (at_time clock now) t)) q"

section \<open>Claiming\<close>

definition lock_message :: "int \<Rightarrow> string \<Rightarrow> string \<Rightarrow> pyfloat \<Rightarrow> pyfloat \<Rightarrow> message_row \<Rightarrow> message_row" where
  "lock_message delivery_count token owner until now r = r\<lparr>ms_state := Q_LOCKED,
     ms_delivery_count := delivery_count, ms_lock_token := Some token, ms_locked_by := Some owner,
     ms_locked_until := Some until, ms_updated_at := now\<rparr>"

definition ready_rows :: "pyfloat \<Rightarrow> queue \<Rightarrow> message_row list" where
  "ready_rows now q = sort_key (\<lambda>r. (ms_created_at r, ms_message_id r))
     (filter (\<lambda>r. ms_state r = Q_READY \<and> ms_available_at r \<le> now) q)"

text \<open>The loop over the selected rows; \<open>lock_token\<close> is \<open>UNIQUE\<close>.\<close>

fun claim_rows :: "pylib \<Rightarrow> (nat \<Rightarrow> string) \<Rightarrow> string \<Rightarrow> pyfloat \<Rightarrow> pyfloat \<Rightarrow> nat \<Rightarrow> message_row list \<Rightarrow> queue
    \<Rightarrow> (queue \<times> claimed_message list) res" where
  "claim_rows lib tokens owner lease now n [] q = Inr (q, [])"
| "claim_rows lib tokens owner lease now n (r # rs) q =
     (let token = tokens n; until = fadd now lease; delivery_count = ms_delivery_count r + 1 in
      if Some token \<in> ms_lock_token ` set q then Inl IntegrityError
      else case json_loads lib (ms_payload_json r) of
        None \<Rightarrow> Inl ValueError
      | Some payload \<Rightarrow>
          bindE (claim_rows lib tokens owner lease now (Suc n) rs
                   (update_where (\<lambda>x. ms_message_id x = ms_message_id r \<and> ms_state x = Q_READY)
                     (lock_message delivery_count token owner until now) q))
            (\<lambda>(q', cs). Inr (q', \<lparr>cm_message_id = ms_message_id r, cm_idempotency_key = ms_idempotency_key r,
               cm_payload = payload, cm_lock_token = token, cm_locked_until = until,
               cm_delivery_count = delivery_count, cm_max_delivery_count = ms_max_delivery_count r\<rparr> # cs)))"

definition claim_queue_tx :: "pylib \<Rightarrow> (nat \<Rightarrow> string) \<Rightarrow> int \<Rightarrow> int \<Rightarrow> string \<Rightarrow> pyfloat \<Rightarrow> pyfloat \<Rightarrow> queue
    \<Rightarrow> (queue \<times> claimed_message list) res" where
  "claim_queue_tx lib tokens limit minimum_count owner lease now q =
     (let q1 = fst (recover_expired_rows now q);
          rows = take (nat limit) (ready_rows now q1)
      in if int (length rows) < minimum_count then Inr (q1, [])
         else claim_rows lib tokens owner lease now 0 rows q1)"

definition claim_queue :: "pylib \<Rightarrow> pyfloat \<Rightarrow> (nat \<Rightarrow> string) \<Rightarrow> int \<Rightarrow> string \<Rightarrow> pyfloat option \<Rightarrow> int \<Rightarrow> pyfloat option
    \<Rightarrow> queue \<Rightarrow> claimed_message list res \<times> queue" where
  "claim_queue lib clock tokens limit owner lock_seconds minimum_count now q =
     (if limit < 1 \<or> 100 < limit then (Inl ValueError, q)
      else if minimum_count < 1 \<or> limit < minimum_count then (Inl ValueError, q)
      else case bindE (stripped_text owner) (\<lambda>owner_id. bindE (bounded_seconds lock_seconds) (\<lambda>lease.
                  Inr (owner_id, lease))) of
        Inl e \<Rightarrow> (Inl e, q)
      | Inr (owner_id, lease) \<Rightarrow> queue_transaction
          (claim_queue_tx lib tokens limit minimum_count owner_id lease (at_time clock now)) q)"

section \<open>Renewing and finalizing\<close>

definition live_lock :: "string \<Rightarrow> pyfloat \<Rightarrow> message_row \<Rightarrow> bool" where
  "live_lock token now r \<longleftrightarrow> ms_lock_token r = Some token \<and> ms_state r = Q_LOCKED \<and>
     (case ms_locked_until r of None \<Rightarrow> False | Some t \<Rightarrow> now < t)"

definition renew_one :: "pyfloat \<Rightarrow> pyfloat \<Rightarrow> string \<Rightarrow> queue \<Rightarrow> queue res" where
  "renew_one until now token q =
     (if rowcount (live_lock token now) q \<noteq> 1 then Inl QueueLeaseLostError
      else Inr (update_where (live_lock token now)
             (\<lambda>r. r\<lparr>ms_locked_until := Some until, ms_updated_at := now\<rparr>) q))"

definition renew :: "pyfloat \<Rightarrow> string \<Rightarrow> pyfloat option \<Rightarrow> pyfloat option \<Rightarrow> queue \<Rightarrow> pyfloat res \<times> queue" where
  "renew clock lock_token lock_seconds now q =
     (case bindE (stripped_text lock_token) (\<lambda>token. bindE (bounded_seconds lock_seconds) (\<lambda>lease.
             Inr (token, lease))) of
        Inl e \<Rightarrow> (Inl e, q)
      | Inr (token, lease) \<Rightarrow>
          let timestamp = at_time clock now; until = fadd timestamp lease in
          queue_transaction (\<lambda>t. bindE (renew_one until timestamp token t) (\<lambda>t'. Inr (t', until))) q)"

definition renew_many :: "pyfloat \<Rightarrow> string list \<Rightarrow> pyfloat option \<Rightarrow> pyfloat option \<Rightarrow> queue \<Rightarrow> pyfloat res \<times> queue" where
  "renew_many clock lock_tokens lock_seconds now q =
     (if lock_tokens = [] then (Inl ValueError, q)
      else case bindE (mapE stripped_text lock_tokens) (\<lambda>tokens.
             if \<not> distinct tokens then Inl ValueError
             else bindE (bounded_seconds lock_seconds) (\<lambda>lease. Inr (tokens, lease))) of
        Inl e \<Rightarrow> (Inl e, q)
      | Inr (tokens, lease) \<Rightarrow>
          let timestamp = at_time clock now; until = fadd timestamp lease in
          queue_transaction (\<lambda>t. bindE (foldE (renew_one until timestamp) tokens t) (\<lambda>t'. Inr (t', until))) q)"

text \<open>An action is text; a reason may be absent.\<close>

definition final_state :: "string \<Rightarrow> string option \<Rightarrow> int \<Rightarrow> int \<Rightarrow> pyfloat \<Rightarrow> pyfloat
    \<Rightarrow> (queue_state \<times> string option \<times> pyfloat) res" where
  "final_state action reason delivery_count max_delivery_count now delay =
     (if action = ''complete'' then Inr (Q_COMPLETED, None, now)
      else if action = ''dead'' then (case reason of
          None \<Rightarrow> Inl ValueError
        | Some s \<Rightarrow> if py_strip s = [] then Inl ValueError else Inr (Q_DEAD, Some (py_strip s), now))
      else if action \<noteq> ''abandon'' then Inl ValueError
      else if max_delivery_count \<le> delivery_count
        then Inr (Q_DEAD, Some (case reason of None \<Rightarrow> ''maximum delivery count reached''
                    | Some s \<Rightarrow> if s = [] then ''maximum delivery count reached'' else s), now)
      else Inr (Q_READY, reason, fadd now delay))"

definition finish_message :: "queue_state \<Rightarrow> string option \<Rightarrow> pyfloat \<Rightarrow> pyfloat \<Rightarrow> message_row \<Rightarrow> message_row" where
  "finish_message st reason available now r = r\<lparr>ms_state := st, ms_available_at := available,
     ms_lock_token := None, ms_locked_by := None, ms_locked_until := None,
     ms_dead_letter_reason := reason, ms_updated_at := now\<rparr>"

definition finalize_one :: "pyfloat \<Rightarrow> pyfloat \<Rightarrow> string \<times> string \<times> string option \<Rightarrow> queue \<Rightarrow> queue res" where
  "finalize_one delay now outcome q = (case outcome of (raw_token, action, reason) \<Rightarrow>
     bindE (stripped_text raw_token) (\<lambda>token.
       case find (live_lock token now) q of
         None \<Rightarrow> Inl QueueLeaseLostError
       | Some r \<Rightarrow>
           bindE (final_state action reason (ms_delivery_count r) (ms_max_delivery_count r) now delay)
             (\<lambda>(st, dead_reason, available).
               Inr (update_where (\<lambda>x. ms_lock_token x = Some token)
                      (finish_message st dead_reason available now) q))))"

definition finalize :: "pyfloat \<Rightarrow> (string \<times> string \<times> string option) list \<Rightarrow> pyfloat option \<Rightarrow> pyfloat option
    \<Rightarrow> queue \<Rightarrow> unit res \<times> queue" where
  "finalize clock outcomes delay_seconds now q =
     (if outcomes = [] then (Inr (), q)
      else case nonnegative_seconds delay_seconds of
        Inl e \<Rightarrow> (Inl e, q)
      | Inr delay \<Rightarrow> queue_transaction (\<lambda>t.
          bindE (foldE (finalize_one delay (at_time clock now)) outcomes t) (\<lambda>t'. Inr (t', ()))) q)"

definition complete :: "pyfloat \<Rightarrow> string \<Rightarrow> pyfloat option \<Rightarrow> queue \<Rightarrow> unit res \<times> queue" where
  "complete clock lock_token now = finalize clock [(lock_token, ''complete'', None)] (Some 0) now"

definition abandon :: "pyfloat \<Rightarrow> string \<Rightarrow> pyfloat option \<Rightarrow> string option \<Rightarrow> pyfloat option \<Rightarrow> queue
    \<Rightarrow> unit res \<times> queue" where
  "abandon clock lock_token delay_seconds reason now q = (case nonnegative_seconds delay_seconds of
     Inl e \<Rightarrow> (Inl e, q)
   | Inr delay \<Rightarrow> finalize clock [(lock_token, ''abandon'', reason)] (Some delay) now q)"

definition dead_letter :: "pyfloat \<Rightarrow> string \<Rightarrow> string option \<Rightarrow> pyfloat option \<Rightarrow> queue \<Rightarrow> unit res \<times> queue" where
  "dead_letter clock lock_token reason now = finalize clock [(lock_token, ''dead'', reason)] (Some 0) now"

section \<open>Reading\<close>

definition get_message :: "string \<Rightarrow> queue \<Rightarrow> queue_message res" where
  "get_message message_id q = bindE (stripped_text message_id) (\<lambda>identifier.
     case find (\<lambda>r. ms_message_id r = identifier) q of
       None \<Rightarrow> Inl MessageNotFoundError | Some r \<Rightarrow> Inr (message_view r))"

definition list_messages :: "queue_state option \<Rightarrow> queue \<Rightarrow> queue_message list" where
  "list_messages st q = map message_view (sort_key (\<lambda>r. (ms_created_at r, ms_message_id r))
     (filter (\<lambda>r. case st of None \<Rightarrow> True | Some x \<Rightarrow> ms_state r = x) q))"

end
