(* ===== verification/Queue_Actor.thy ===== *)
theory Queue_Actor
  imports Local_Queue
begin

text \<open>
  \<^verbatim>\<open>SerializedQueueActor\<close> of \<^verbatim>\<open>local_queue.py\<close>: one thread runs every operation on the queue, callers hand it
  a future and wait.

  The model is at the grain of the accesses that other threads can interleave with: the thread takes one
  program step at a time, callers put a request or give up, and a stop drains the requests one future at a
  time while it holds the state lock.  A future is not guarded by that lock, so a caller can cancel
  it between any two of these steps.  A request \<open>(future, operation)\<close> is named by the index of its
  call.
\<close>

section \<open>Futures\<close>

text \<open>\<^verbatim>\<open>concurrent.futures.Future\<close>, with the exceptions of its setters.\<close>

datatype 'r future =
    F_PENDING | F_RUNNING | F_CANCELLED | F_CANCELLED_AND_NOTIFIED
  | F_RESULT 'r | F_EXCEPTION err

fun future_done :: "'r future \<Rightarrow> bool" where
  "future_done F_PENDING = False"
| "future_done F_RUNNING = False"
| "future_done _ = True"

fun future_cancel :: "'r future \<Rightarrow> 'r future" where
  "future_cancel F_PENDING = F_CANCELLED"
| "future_cancel f = f"

definition future_set :: "'r future \<Rightarrow> 'r future \<Rightarrow> 'r future res" where
  "future_set v f = (if future_done f then Inl InvalidStateError else Inr v)"

fun set_running_or_notify_cancel :: "'r future \<Rightarrow> ('r future \<times> bool) res" where
  "set_running_or_notify_cancel F_CANCELLED = Inr (F_CANCELLED_AND_NOTIFIED, False)"
| "set_running_or_notify_cancel F_PENDING = Inr (F_RUNNING, True)"
| "set_running_or_notify_cancel _ = Inl RuntimeError"

text \<open>\<open>result(timeout)\<close> once it does not have to wait any more.\<close>

fun future_result :: "'r future \<Rightarrow> 'r res option" where
  "future_result (F_RESULT r) = Some (Inr r)"
| "future_result (F_EXCEPTION e) = Some (Inl e)"
| "future_result F_CANCELLED = Some (Inl (ExternalError ''CancelledError''))"
| "future_result F_CANCELLED_AND_NOTIFIED = Some (Inl (ExternalError ''CancelledError''))"
| "future_result _ = None"

section \<open>State\<close>

text \<open>What an operation did: it returned, it raised an \<open>Exception\<close>, or something else
  (\<open>KeyboardInterrupt\<close>, \<open>SystemExit\<close>).\<close>

datatype 'r outcome = Returned 'r | Raised err | Fatal err

record ('q, 'r) call =
  cl_operation :: "'q \<Rightarrow> 'r outcome \<times> 'q"
  cl_future :: "'r future"

datatype actor_state = S_STARTING | S_RUNNING | S_CLOSING | S_STOPPED

text \<open>Where the thread is in \<open>_run\<close>.\<close>

datatype 'r thread_pc =
    T_open
  | T_ready
  | T_started
  | T_get
  | T_check nat
  | T_refuse nat
  | T_begin nat
  | T_execute nat
  | T_finish nat "'r outcome"
  | T_handle err
  | T_stop err
  | T_drain
  | T_exited
  | T_crashed err

text \<open>\<open>_fail_pending\<close> of the thread that holds the lock; \<open>dr_future\<close> is a future found not
  done whose exception is about to be set.\<close>

record drain =
  dr_by_thread :: bool
  dr_error :: err
  dr_future :: "nat option"

record ('q, 'r) actor =
  ac_requests :: "nat option list"
  ac_startup :: "unit future"
  ac_state :: actor_state
  ac_fatal_error :: "err option"
  ac_drain :: "drain option"
  ac_pc :: "'r thread_pc"
  ac_queue :: 'q
  ac_calls :: "('q, 'r) call list"
  ac_log :: "nat list"

text \<open>\<open>ac_log\<close> is not a variable of the code: it names the operations that were run, in order.  The
  database exists before the thread opens it.\<close>

definition start_actor :: "'q \<Rightarrow> ('q, 'r) actor" where
  "start_actor database = \<lparr>ac_requests = [], ac_startup = F_PENDING, ac_state = S_STARTING,
     ac_fatal_error = None, ac_drain = None, ac_pc = T_open, ac_queue = database, ac_calls = [],
     ac_log = []\<rparr>"

text \<open>\<open>None\<close> is a value that is not finite.\<close>

definition positive_timeout :: "pyfloat option \<Rightarrow> pyfloat res" where
  "positive_timeout v = (case v of
     None \<Rightarrow> Inl ValueError
   | Some timeout \<Rightarrow> if timeout \<le> 0 then Inl ValueError else Inr timeout)"

section \<open>Callers\<close>

definition put_future :: "nat \<Rightarrow> 'r future \<Rightarrow> ('q, 'r) actor \<Rightarrow> ('q, 'r) actor" where
  "put_future i f s = s\<lparr>ac_calls := (ac_calls s)[i := (ac_calls s ! i)\<lparr>cl_future := f\<rparr>]\<rparr>"

definition future_of :: "('q, 'r) actor \<Rightarrow> nat \<Rightarrow> 'r future" where
  "future_of s i = cl_future (ac_calls s ! i)"

definition raise_not_running :: "('q, 'r) actor \<Rightarrow> err" where
  "raise_not_running s = (case ac_fatal_error s of
     Some ActorClosedError \<Rightarrow> ActorClosedError
   | Some _ \<Rightarrow> ActorDiedError
   | None \<Rightarrow> ActorClosedError)"

text \<open>The locked part of \<open>call\<close>.\<close>

definition submit_call :: "('q \<Rightarrow> 'r outcome \<times> 'q) \<Rightarrow> ('q, 'r) actor \<Rightarrow> nat res \<times> ('q, 'r) actor" where
  "submit_call operation s =
     (if ac_state s \<noteq> S_RUNNING then (Inl (raise_not_running s), s)
      else let i = length (ac_calls s) in
        (Inr i, s\<lparr>ac_calls := ac_calls s @ [\<lparr>cl_operation = operation, cl_future = F_PENDING\<rparr>],
                  ac_requests := ac_requests s @ [Some i]\<rparr>))"

text \<open>The wait of \<open>call\<close>: the result when there is one; after the timeout the future is cancelled.\<close>

definition await_call :: "nat \<Rightarrow> ('q, 'r) actor \<Rightarrow> 'r res option" where
  "await_call i s = future_result (future_of s i)"

definition timeout_call :: "nat \<Rightarrow> ('q, 'r) actor \<Rightarrow> 'r res \<times> ('q, 'r) actor" where
  "timeout_call i s = (Inl TimeoutError, put_future i (future_cancel (future_of s i)) s)"

section \<open>Stopping\<close>

text \<open>\<open>_request_stop\<close> up to the drain.\<close>

definition request_stop :: "('q, 'r) actor \<Rightarrow> ('q, 'r) actor" where
  "request_stop s = (if ac_state s = S_STOPPED then s
     else s\<lparr>ac_state := S_CLOSING,
            ac_drain := Some \<lparr>dr_by_thread = False, dr_error = ActorClosedError, dr_future = None\<rparr>\<rparr>)"

definition stop_with_error :: "err \<Rightarrow> ('q, 'r) actor \<Rightarrow> ('q, 'r) actor" where
  "stop_with_error e s = s\<lparr>ac_fatal_error := Some e, ac_state := S_STOPPED, ac_pc := T_drain,
     ac_drain := Some \<lparr>dr_by_thread = True, dr_error = e, dr_future = None\<rparr>\<rparr>"

text \<open>The end of a drain: \<open>_request_stop\<close> puts its sentinel, the thread ends.  An exception of the drain
  releases the lock and leaves \<open>close\<close>, or the thread.\<close>

definition end_drain :: "drain \<Rightarrow> ('q, 'r) actor \<Rightarrow> ('q, 'r) actor" where
  "end_drain dr s = (if dr_by_thread dr then s\<lparr>ac_drain := None, ac_pc := T_exited\<rparr>
     else s\<lparr>ac_drain := None, ac_requests := ac_requests s @ [None]\<rparr>)"

definition abort_drain :: "err \<Rightarrow> drain \<Rightarrow> ('q, 'r) actor \<Rightarrow> ('q, 'r) actor" where
  "abort_drain e dr s = (if dr_by_thread dr then s\<lparr>ac_drain := None, ac_pc := T_crashed e\<rparr>
     else s\<lparr>ac_drain := None\<rparr>)"

definition drain_step :: "drain \<Rightarrow> ('q, 'r) actor \<Rightarrow> ('q, 'r) actor" where
  "drain_step dr s = (case dr_future dr of
     Some i \<Rightarrow>
       (case future_set (F_EXCEPTION (dr_error dr)) (future_of s i) of
          Inl e \<Rightarrow> abort_drain e dr s
        | Inr f \<Rightarrow> (put_future i f s)\<lparr>ac_drain := Some (dr\<lparr>dr_future := None\<rparr>)\<rparr>)
   | None \<Rightarrow>
       (case ac_requests s of
          [] \<Rightarrow> end_drain dr s
        | None # rs \<Rightarrow> s\<lparr>ac_requests := rs\<rparr>
        | Some i # rs \<Rightarrow> s\<lparr>ac_requests := rs,
            ac_drain := Some (dr\<lparr>dr_future := if future_done (future_of s i) then None else Some i\<rparr>)\<rparr>))"

section \<open>The thread\<close>

text \<open>Setting a future from the loop; an exception of the setter reaches the handler of \<open>_run\<close>.\<close>

definition settle :: "nat \<Rightarrow> 'r future \<Rightarrow> 'r thread_pc \<Rightarrow> ('q, 'r) actor \<Rightarrow> ('q, 'r) actor" where
  "settle i v pc s = (case future_set v (future_of s i) of
     Inl e \<Rightarrow> s\<lparr>ac_pc := T_handle e\<rparr>
   | Inr f \<Rightarrow> (put_future i f s)\<lparr>ac_pc := pc\<rparr>)"

text \<open>\<open>operation(queue)\<close>.\<close>

definition run_operation :: "nat \<Rightarrow> ('q, 'r) actor \<Rightarrow> ('q, 'r) actor" where
  "run_operation i s = (case cl_operation (ac_calls s ! i) (ac_queue s) of (out, q) \<Rightarrow>
     s\<lparr>ac_queue := q, ac_log := ac_log s @ [i], ac_pc := T_finish i out\<rparr>)"

definition finish_call :: "nat \<Rightarrow> 'r outcome \<Rightarrow> ('q, 'r) actor \<Rightarrow> ('q, 'r) actor" where
  "finish_call i out s = (case out of
     Returned r \<Rightarrow> settle i (F_RESULT r) T_get s
   | Raised e \<Rightarrow> settle i (F_EXCEPTION e) T_get s
   | Fatal e \<Rightarrow> settle i (F_EXCEPTION ActorDiedError) (T_handle e) (s\<lparr>ac_fatal_error := Some ActorDiedError\<rparr>))"

text \<open>The outer handler: it decides what the actor died of.\<close>

definition handle_error :: "err \<Rightarrow> ('q, 'r) actor \<Rightarrow> ('q, 'r) actor" where
  "handle_error e s = (if \<not> future_done (ac_startup s)
     then s\<lparr>ac_startup := F_EXCEPTION e, ac_pc := T_stop e\<rparr>
     else s\<lparr>ac_pc := T_stop (case ac_fatal_error s of Some f \<Rightarrow> f | None \<Rightarrow> ActorDiedError)\<rparr>)"

text \<open>One step of \<open>_run\<close>; \<open>None\<close> while it is blocked on the lock or on an empty queue of requests.
  \<open>opened\<close> is the outcome of the constructor of \<open>SQLiteQueue\<close>.\<close>

definition thread_step :: "err option \<Rightarrow> ('q, 'r) actor \<Rightarrow> ('q, 'r) actor option" where
  "thread_step opened s = (case ac_pc s of
     T_open \<Rightarrow> Some (s\<lparr>ac_pc := case opened of None \<Rightarrow> T_ready | Some e \<Rightarrow> T_handle e\<rparr>)
   | T_ready \<Rightarrow> if ac_drain s \<noteq> None then None
       else Some (s\<lparr>ac_state := if ac_state s = S_STARTING then S_RUNNING else ac_state s, ac_pc := T_started\<rparr>)
   | T_started \<Rightarrow> Some (s\<lparr>ac_startup := F_RESULT (), ac_pc := T_get\<rparr>)
   | T_get \<Rightarrow> (case ac_requests s of
       [] \<Rightarrow> None
     | None # rs \<Rightarrow> Some (s\<lparr>ac_requests := rs, ac_pc := T_stop ActorClosedError\<rparr>)
     | Some i # rs \<Rightarrow> Some (s\<lparr>ac_requests := rs, ac_pc := T_check i\<rparr>))
   | T_check i \<Rightarrow> if ac_drain s \<noteq> None then None
       else Some (s\<lparr>ac_pc := if ac_state s = S_RUNNING then T_begin i else T_refuse i\<rparr>)
   | T_refuse i \<Rightarrow> Some (settle i (F_EXCEPTION ActorClosedError) T_get s)
   | T_begin i \<Rightarrow> Some (case set_running_or_notify_cancel (future_of s i) of
       Inl e \<Rightarrow> s\<lparr>ac_pc := T_handle e\<rparr>
     | Inr (f, go) \<Rightarrow> (put_future i f s)\<lparr>ac_pc := if go then T_execute i else T_get\<rparr>)
   | T_execute i \<Rightarrow> Some (run_operation i s)
   | T_finish i out \<Rightarrow> Some (finish_call i out s)
   | T_handle e \<Rightarrow> Some (handle_error e s)
   | T_stop e \<Rightarrow> if ac_drain s \<noteq> None then None else Some (stop_with_error e s)
   | _ \<Rightarrow> None)"

section \<open>All threads together\<close>

text \<open>A stop is asked for by \<open>close\<close>, by leaving the context, and by a constructor whose wait for the
  startup timed out.\<close>

inductive actor_step :: "(('q \<Rightarrow> 'r outcome \<times> 'q) \<Rightarrow> bool) \<Rightarrow> ('q, 'r) actor \<Rightarrow> ('q, 'r) actor \<Rightarrow> bool" for ops where
  actor_thread: "thread_step opened s = Some s' \<Longrightarrow> actor_step ops s s'"
| actor_drain: "ac_drain s = Some dr \<Longrightarrow> s' = drain_step dr s \<Longrightarrow> actor_step ops s s'"
| actor_call: "ac_drain s = None \<Longrightarrow> ops operation \<Longrightarrow> submit_call operation s = (r, s') \<Longrightarrow> actor_step ops s s'"
| actor_timeout: "i < length (ac_calls s) \<Longrightarrow> timeout_call i s = (r, s') \<Longrightarrow> actor_step ops s s'"
| actor_stop: "ac_drain s = None \<Longrightarrow> s' = request_stop s \<Longrightarrow> actor_step ops s s'"

end
