(* ===== verification/Local_Queue_Spec.thy ===== *)
theory Local_Queue_Spec
  imports Local_Queue Transition
begin

text \<open>
  The contracts of the local queue: its invariant, its history, and the delivery guarantees a consumer
  relies on (exclusive locks, bounded deliveries, atomic finalization).
\<close>

section \<open>Invariant and history\<close>

definition message_ok :: "message_row \<Rightarrow> bool" where
  "message_ok r \<longleftrightarrow> (ms_lock_token r \<noteq> None \<longleftrightarrow> ms_state r = Q_LOCKED)
     \<and> (ms_locked_until r \<noteq> None \<longleftrightarrow> ms_state r = Q_LOCKED)
     \<and> 0 \<le> ms_delivery_count r \<and> ms_delivery_count r \<le> ms_max_delivery_count r
     \<and> 1 \<le> ms_max_delivery_count r \<and> ms_max_delivery_count r \<le> 100
     \<and> (ms_state r = Q_READY \<longrightarrow> ms_delivery_count r < ms_max_delivery_count r)
     \<and> (ms_state r = Q_LOCKED \<longrightarrow> 1 \<le> ms_delivery_count r)"

definition tokens_ok :: "queue \<Rightarrow> bool" where
  "tokens_ok q \<longleftrightarrow> (\<forall>r \<in> set q. \<forall>r' \<in> set q. ms_lock_token r \<noteq> None \<and> ms_lock_token r = ms_lock_token r' \<longrightarrow>
     ms_message_id r = ms_message_id r')"

definition queue_ok :: "queue \<Rightarrow> bool" where
  "queue_ok q \<longleftrightarrow> distinct (map ms_message_id q) \<and> distinct (map ms_idempotency_key q) \<and> tokens_ok q
     \<and> (\<forall>r \<in> set q. message_ok r)"

definition message_fixed :: "message_row \<Rightarrow> string \<times> string \<times> string \<times> string \<times> int \<times> pyfloat" where
  "message_fixed r = (ms_message_id r, ms_idempotency_key r, ms_payload_json r, ms_payload_sha256 r,
     ms_max_delivery_count r, ms_created_at r)"

definition message_le :: "message_row \<Rightarrow> message_row \<Rightarrow> bool" where
  "message_le r r' \<longleftrightarrow> message_fixed r' = message_fixed r \<and> ms_delivery_count r \<le> ms_delivery_count r'
     \<and> (ms_state r = Q_COMPLETED \<or> ms_state r = Q_DEAD \<longrightarrow> r' = r)"

lemma message_le_refl [simp]: "message_le r r"
  by (simp add: message_le_def)

lemma message_le_trans: "message_le a b \<Longrightarrow> message_le b c \<Longrightarrow> message_le a c"
  by (auto simp: message_le_def)

lemma message_rows_trans: "rows_le message_le a b \<Longrightarrow> rows_le message_le b c \<Longrightarrow> rows_le message_le a c"
  by (rule rows_le_trans [of message_le]) (auto intro: message_le_trans)

lemma message_key: "queue_ok q \<Longrightarrow> r \<in> set q \<Longrightarrow> r' \<in> set q \<Longrightarrow> ms_message_id r = ms_message_id r' \<Longrightarrow> r = r'"
  unfolding queue_ok_def by (rule distinct_keyD [of ms_message_id]) auto

lemma token_key:
  assumes "queue_ok q" "r \<in> set q" "r' \<in> set q" "ms_lock_token r = Some t" "ms_lock_token r' = Some t"
  shows "r = r'"
proof (rule message_key [OF assms(1-3)])
  have "tokens_ok q" using assms(1) by (simp add: queue_ok_def)
  then have "\<forall>y \<in> set q. ms_lock_token r \<noteq> None \<and> ms_lock_token r = ms_lock_token y \<longrightarrow>
      ms_message_id r = ms_message_id y"
    unfolding tokens_ok_def using assms(2) by (rule bspec)
  then show "ms_message_id r = ms_message_id r'" using assms(3-5) by simp
qed

lemma update_keys:
  assumes "\<And>r. r \<in> set q \<Longrightarrow> p r \<Longrightarrow> message_le r (f r)"
  shows "map ms_message_id (update_where p f q) = map ms_message_id q"
    "map ms_idempotency_key (update_where p f q) = map ms_idempotency_key q"
  using assms by (auto simp: message_le_def message_fixed_def intro!: update_where_key)

lemma update_queue_ok:
  assumes ok: "queue_ok q"
    and f: "\<And>r. r \<in> set q \<Longrightarrow> p r \<Longrightarrow> message_ok (f r) \<and> message_le r (f r)
      \<and> (ms_lock_token (f r) = None \<or> ms_lock_token (f r) = ms_lock_token r)"
  shows "queue_ok (update_where p f q)" "rows_le message_le q (update_where p f q)"
proof -
  have ids: "map ms_message_id (update_where p f q) = map ms_message_id q"
    "map ms_idempotency_key (update_where p f q) = map ms_idempotency_key q"
    by (rule update_keys, use f in blast)+
  have "\<exists>r0 \<in> set q. ms_message_id r0 = ms_message_id r \<and> (ms_lock_token r = None \<or> ms_lock_token r = ms_lock_token r0)"
    if mem: "r \<in> set (update_where p f q)" for r
  proof -
    obtain x where x: "x \<in> set q" "r = (if p x then f x else x)" using mem unfolding update_where_def by auto
    show ?thesis using x f [OF x(1)] by (intro bexI [OF _ x(1)]) (auto simp: message_le_def message_fixed_def)
  qed
  then have "tokens_ok (update_where p f q)"
    using ok unfolding queue_ok_def tokens_ok_def by metis
  moreover have "\<forall>r \<in> set (update_where p f q). message_ok r"
    using ok f by (auto simp: set_update_where queue_ok_def)
  ultimately show "queue_ok (update_where p f q)" using ok ids by (simp add: queue_ok_def)
  show "rows_le message_le q (update_where p f q)"
    by (rule rows_le_update_where) (use f in auto)
qed

section \<open>Each operation\<close>

lemma expire_ok:
  assumes "message_ok r" "lock_expired now r"
  shows "message_ok (expire_message now r) \<and> message_le r (expire_message now r) \<and> ms_lock_token (expire_message now r) = None"
  using assms by (auto simp: message_ok_def lock_expired_def expire_message_def message_le_def message_fixed_def Let_def)

lemma finish_ok:
  assumes "message_ok r" "live_lock token now r"
    and "final_state action reason (ms_delivery_count r) (ms_max_delivery_count r) now delay = Inr (st, dead, available)"
  shows "message_ok (finish_message st dead available now r) \<and> message_le r (finish_message st dead available now r)
    \<and> ms_lock_token (finish_message st dead available now r) = None"
  using assms by (auto simp: message_ok_def live_lock_def finish_message_def message_le_def message_fixed_def
      final_state_def split: if_splits option.splits)

lemma lock_queue_ok:
  assumes ok: "queue_ok q" and r: "r \<in> set q" "ms_state r = Q_READY"
    and fresh: "Some token \<notin> ms_lock_token ` set q"
    and q'_def: "q' = update_where (\<lambda>x. ms_message_id x = ms_message_id r \<and> ms_state x = Q_READY)
      (lock_message (ms_delivery_count r + 1) token owner until now) q"
  shows "queue_ok q' \<and> rows_le message_le q q'
    \<and> q' = map (\<lambda>x. if x = r then lock_message (ms_delivery_count r + 1) token owner until now r else x) q"
proof -
  let ?r = "lock_message (ms_delivery_count r + 1) token owner until now r"
  have "(ms_message_id x = ms_message_id r \<and> ms_state x = Q_READY) = (x = r)" if "x \<in> set q" for x
    using message_key [OF ok that r(1)] r(2) by auto
  then have q': "q' = map (\<lambda>x. if x = r then ?r else x) q"
    unfolding q'_def update_where_def by (intro map_cong [OF refl]) auto
  have mok: "message_ok r" using ok r(1) by (simp add: queue_ok_def)
  have new: "message_ok ?r" "message_le r ?r" "ms_lock_token ?r = Some token"
    using mok r(2) by (auto simp: message_ok_def lock_message_def message_le_def message_fixed_def)
  have le: "rows_le message_le q q'"
    unfolding q' by (rule rows_le_all2) (auto simp: list_all2_map2 new(2) intro!: list.rel_refl_strong)
  have "map ms_message_id q' = map ms_message_id q" "map ms_idempotency_key q' = map ms_idempotency_key q"
    unfolding q' by (auto simp: lock_message_def)
  moreover have "set q' \<subseteq> insert ?r (set q)" unfolding q' by auto
  then have "\<forall>x \<in> set q'. message_ok x" using ok new(1) by (auto simp: queue_ok_def)
  moreover have "tokens_ok q'"
    unfolding tokens_ok_def
  proof (intro ballI impI)
    fix x y
    assume xy: "x \<in> set q'" "y \<in> set q'" "ms_lock_token x \<noteq> None \<and> ms_lock_token x = ms_lock_token y"
    have tok: "ms_lock_token z \<noteq> Some token" if "z \<in> set q" for z
      using fresh that by (metis imageI)
    have "x = ?r \<or> x \<in> set q" "y = ?r \<or> y \<in> set q" using \<open>set q' \<subseteq> insert ?r (set q)\<close> xy(1,2) by auto
    moreover have "ms_message_id x = ms_message_id y" if "x \<in> set q" "y \<in> set q"
      using xy(3) that ok unfolding queue_ok_def tokens_ok_def by blast
    ultimately show "ms_message_id x = ms_message_id y" using xy(3) tok new(3) by (elim disjE) auto
  qed
  ultimately have "queue_ok q'" using ok by (simp add: queue_ok_def)
  with le q' show ?thesis by blast
qed

section \<open>The loop of a claim\<close>

definition locked_row :: "(nat \<Rightarrow> string) \<Rightarrow> string \<Rightarrow> pyfloat \<Rightarrow> pyfloat \<Rightarrow> nat \<times> message_row \<Rightarrow> message_row" where
  "locked_row tokens owner lease now ir =
     lock_message (ms_delivery_count (snd ir) + 1) (tokens (fst ir)) owner (fadd now lease) now (snd ir)"

definition claimed_as :: "(nat \<Rightarrow> string) \<Rightarrow> pyfloat \<Rightarrow> pyfloat \<Rightarrow> nat \<times> message_row \<Rightarrow> claimed_message \<Rightarrow> bool" where
  "claimed_as tokens lease now ir c \<longleftrightarrow> cm_message_id c = ms_message_id (snd ir)
     \<and> cm_idempotency_key c = ms_idempotency_key (snd ir) \<and> cm_lock_token c = tokens (fst ir)
     \<and> cm_locked_until c = fadd now lease \<and> cm_delivery_count c = ms_delivery_count (snd ir) + 1
     \<and> cm_max_delivery_count c = ms_max_delivery_count (snd ir)"

lemma claim_rows_spec:
  assumes "claim_rows lib tokens owner lease now n rs q = Inr (q', cs)" "queue_ok q" "distinct rs"
    "\<forall>r \<in> set rs. r \<in> set q \<and> ms_state r = Q_READY"
  shows "queue_ok q' \<and> rows_le message_le q q'
    \<and> list_all2 (claimed_as tokens lease now) (zip [n..<n + length rs] rs) cs
    \<and> (\<forall>ir \<in> set (zip [n..<n + length rs] rs). locked_row tokens owner lease now ir \<in> set q')
    \<and> (\<forall>r \<in> set q. r \<notin> set rs \<longrightarrow> r \<in> set q')"
  using assms
proof (induction rs arbitrary: n q cs)
  case (Cons r rs)
  let ?q = "update_where (\<lambda>x. ms_message_id x = ms_message_id r \<and> ms_state x = Q_READY)
      (lock_message (ms_delivery_count r + 1) (tokens n) owner (fadd now lease) now) q"
  let ?r = "locked_row tokens owner lease now (n, r)"
  obtain c ds where c: "claim_rows lib tokens owner lease now (Suc n) rs ?q = Inr (q', ds)" "cs = c # ds"
    "claimed_as tokens lease now (n, r) c" "Some (tokens n) \<notin> ms_lock_token ` set q"
    using Cons.prems(1) by (auto simp: Let_def claimed_as_def split: if_splits option.splits)
  have r: "r \<in> set q" "ms_state r = Q_READY" using Cons.prems(4) by auto
  note l = lock_queue_ok [OF Cons.prems(2) r c(4) refl, of owner "fadd now lease" now]
  have q: "?q = map (\<lambda>x. if x = r then ?r else x) q" using l by (simp add: locked_row_def)
  have "ms_state ?r = Q_LOCKED" by (simp add: locked_row_def lock_message_def)
  then have notin: "?r \<notin> set rs" using Cons.prems(4) by auto
  have keep: "x \<in> set ?q" if "x \<in> set q" "x \<noteq> r" for x unfolding q using that by force
  have rin: "?r \<in> set ?q" unfolding q using r(1) by force
  have ready: "\<forall>x \<in> set rs. x \<in> set ?q \<and> ms_state x = Q_READY" and "distinct rs"
    using Cons.prems(3,4) keep by auto
  have IH: "queue_ok q' \<and> rows_le message_le ?q q'
    \<and> list_all2 (claimed_as tokens lease now) (zip [Suc n..<Suc n + length rs] rs) ds
    \<and> (\<forall>ir \<in> set (zip [Suc n..<Suc n + length rs] rs). locked_row tokens owner lease now ir \<in> set q')
    \<and> (\<forall>r \<in> set ?q. r \<notin> set rs \<longrightarrow> r \<in> set q')"
    by (rule Cons.IH [OF c(1) conjunct1 [OF l] \<open>distinct rs\<close> ready])
  have z: "zip [n..<n + length (r # rs)] (r # rs) = (n, r) # zip [Suc n..<Suc n + length rs] rs"
    by (simp add: upt_rec)
  have "rows_le message_le q q'" using message_rows_trans l IH by blast
  moreover have "?r \<in> set q'" using IH rin notin by blast
  moreover have "\<forall>x \<in> set q. x \<notin> set (r # rs) \<longrightarrow> x \<in> set q'" using IH keep by auto
  ultimately show ?case unfolding z c(2) using IH c(3) by simp
qed (simp add: rows_le_refl)

lemma recover_rows_ok:
  assumes "queue_ok q"
  shows "queue_ok (fst (recover_expired_rows now q))" "rows_le message_le q (fst (recover_expired_rows now q))"
  unfolding recover_expired_rows_def fst_conv
  by (rule update_queue_ok [OF assms], use assms expire_ok in \<open>auto simp: queue_ok_def\<close>)+

lemma set_ready_rows: "set (ready_rows now q) = {r \<in> set q. ms_state r = Q_READY \<and> ms_available_at r \<le> now}"
  by (auto simp: ready_rows_def)

lemma distinct_ready_rows: "queue_ok q \<Longrightarrow> distinct (ready_rows now q)"
  by (simp add: ready_rows_def queue_ok_def distinct_map)

lemma distinct_ready_ids: "queue_ok q \<Longrightarrow> distinct (map ms_message_id (ready_rows now q))"
proof -
  assume "queue_ok q"
  then have "inj_on ms_message_id (set q)" by (simp add: queue_ok_def distinct_map)
  then show ?thesis using distinct_ready_rows [OF \<open>queue_ok q\<close>, of now]
    by (auto simp: distinct_map set_ready_rows intro: inj_on_subset)
qed

lemma claim_tx_cases:
  assumes ok: "queue_ok q" and eq: "claim_queue_tx lib tokens limit minimum owner lease now q = Inr (q', cs)"
  obtains (few) "q' = fst (recover_expired_rows now q)" "cs = []"
      "int (length (take (nat limit) (ready_rows now (fst (recover_expired_rows now q))))) < minimum"
  | (claimed) rs where "rs = take (nat limit) (ready_rows now (fst (recover_expired_rows now q)))"
      "minimum \<le> int (length rs)" "queue_ok q'" "rows_le message_le q q'"
      "list_all2 (claimed_as tokens lease now) (zip [0..<length rs] rs) cs"
      "\<forall>ir \<in> set (zip [0..<length rs] rs). locked_row tokens owner lease now ir \<in> set q'"
      "\<forall>r \<in> set (fst (recover_expired_rows now q)). r \<notin> set rs \<longrightarrow> r \<in> set q'"
proof -
  let ?q = "fst (recover_expired_rows now q)" and ?rs = "take (nat limit) (ready_rows now (fst (recover_expired_rows now q)))"
  show thesis
  proof (cases "int (length ?rs) < minimum")
    case True
    with eq show thesis by (intro few) (auto simp: claim_queue_tx_def Let_def)
  next
    case False
    have "claim_rows lib tokens owner lease now 0 ?rs ?q = Inr (q', cs)"
      using eq False by (simp add: claim_queue_tx_def Let_def)
    moreover have "distinct ?rs" using distinct_ready_rows recover_rows_ok(1) [OF ok] by (simp add: distinct_take)
    moreover have "\<forall>r \<in> set ?rs. r \<in> set ?q \<and> ms_state r = Q_READY"
      by (auto simp: set_ready_rows dest!: in_set_takeD)
    ultimately have "queue_ok q' \<and> rows_le message_le ?q q'
      \<and> list_all2 (claimed_as tokens lease now) (zip [0..<0 + length ?rs] ?rs) cs
      \<and> (\<forall>ir \<in> set (zip [0..<0 + length ?rs] ?rs). locked_row tokens owner lease now ir \<in> set q')
      \<and> (\<forall>r \<in> set ?q. r \<notin> set ?rs \<longrightarrow> r \<in> set q')"
      using claim_rows_spec recover_rows_ok(1) [OF ok] by blast
    moreover have "rows_le message_le q q'"
      using message_rows_trans recover_rows_ok(2) [OF ok] calculation by blast
    ultimately show thesis using False by (intro claimed [of ?rs]) auto
  qed
qed

lemma claim_tx_ok:
  assumes ok: "queue_ok q" and eq: "claim_queue_tx lib tokens limit minimum owner lease now q = Inr (q', cs)"
  shows "queue_ok q' \<and> rows_le message_le q q'"
  using claim_tx_cases [OF assms] recover_rows_ok [OF ok] by metis

text \<open>Renewing and finalizing touch the one row that carries the token.\<close>

lemma renew_one_ok:
  assumes ok: "queue_ok q" and eq: "renew_one until now token q = Inr q'"
  shows "queue_ok q' \<and> rows_le message_le q q'"
proof -
  have q': "q' = update_where (live_lock token now) (\<lambda>r. r\<lparr>ms_locked_until := Some until, ms_updated_at := now\<rparr>) q"
    using eq by (simp add: renew_one_def split: if_splits)
  have "message_ok (r\<lparr>ms_locked_until := Some until, ms_updated_at := now\<rparr>)
      \<and> message_le r (r\<lparr>ms_locked_until := Some until, ms_updated_at := now\<rparr>)"
    if "r \<in> set q" "live_lock token now r" for r
    using that ok by (auto simp: queue_ok_def message_ok_def message_le_def message_fixed_def live_lock_def)
  then show ?thesis unfolding q' using update_queue_ok [OF ok] by simp
qed

lemma locked_once:
  assumes ok: "queue_ok q" and r: "find (live_lock token now) q = Some r"
  shows "r \<in> set q" "live_lock token now r" "x \<in> set q \<Longrightarrow> ms_lock_token x = Some token \<longleftrightarrow> x = r"
proof -
  show 1: "r \<in> set q" "live_lock token now r" using r by (auto simp: find_Some_iff)
  then have tok: "ms_lock_token r = Some token" by (simp add: live_lock_def)
  show "ms_lock_token x = Some token \<longleftrightarrow> x = r" if "x \<in> set q"
  proof
    assume "ms_lock_token x = Some token"
    then show "x = r" by (rule token_key [OF ok that 1(1) _ tok])
  qed (use tok in simp)
qed

lemma finalize_one_ok:
  assumes ok: "queue_ok q" and eq: "finalize_one delay now outcome q = Inr q'"
  shows "queue_ok q' \<and> rows_le message_le q q'"
proof -
  obtain raw action reason where o: "outcome = (raw, action, reason)" by (cases outcome)
  obtain token r st dead available where f: "find (live_lock token now) q = Some r"
    "final_state action reason (ms_delivery_count r) (ms_max_delivery_count r) now delay = Inr (st, dead, available)"
    "q' = update_where (\<lambda>x. ms_lock_token x = Some token) (finish_message st dead available now) q"
    using eq unfolding finalize_one_def o by (auto simp: bindE_def split: sum.splits option.splits)
  note l = locked_once [OF ok f(1)]
  have "message_ok r" using ok l(1) by (simp add: queue_ok_def)
  note fin = finish_ok [OF this l(2) f(2)]
  have "message_ok (finish_message st dead available now x) \<and> message_le x (finish_message st dead available now x)
      \<and> ms_lock_token (finish_message st dead available now x) = None"
    if "x \<in> set q" "ms_lock_token x = Some token" for x
    using that l(3) fin by simp
  then show ?thesis unfolding f(3) by (intro conjI update_queue_ok [OF ok]) blast+
qed

lemma foldE_keeps:
  assumes "\<And>x s s'. f x s = Inr s' \<Longrightarrow> queue_ok s \<Longrightarrow> queue_ok s' \<and> rows_le message_le s s'"
    and "foldE f xs q = Inr q'" "queue_ok q"
  shows "queue_ok q' \<and> rows_le message_le q q'"
  using assms(2,3)
proof (induction xs arbitrary: q)
  case (Cons x xs)
  then obtain s where s: "f x q = Inr s" "foldE f xs s = Inr q'" by (auto simp: bindE_def split: sum.splits)
  with assms(1) Cons show ?case using message_rows_trans by blast
qed (simp add: rows_le_refl)

lemma renew_all_ok: "foldE (renew_one until now) ts q = Inr q' \<Longrightarrow> queue_ok q
    \<Longrightarrow> queue_ok q' \<and> rows_le message_le q q'"
  by (erule foldE_keeps [rotated]) (auto dest: renew_one_ok)

lemma finalize_all_ok: "foldE (finalize_one delay now) outcomes q = Inr q' \<Longrightarrow> queue_ok q
    \<Longrightarrow> queue_ok q' \<and> rows_le message_le q q'"
  by (erule foldE_keeps [rotated]) (auto dest: finalize_one_ok)

lemma new_message_fields:
  "ms_message_id (new_message mid key pj ps maxd available now) = mid"
  "ms_idempotency_key (new_message mid key pj ps maxd available now) = key"
  "ms_payload_sha256 (new_message mid key pj ps maxd available now) = ps"
  "ms_max_delivery_count (new_message mid key pj ps maxd available now) = maxd"
  by (simp_all add: new_message_def)

lemma enqueue_tx_ok:
  assumes ok: "queue_ok q" and m: "1 \<le> maxd" "maxd \<le> 100"
    and eq: "enqueue_tx mid key pj ps maxd available now q = Inr (q', r)"
  shows "queue_ok q' \<and> rows_le message_le q q'"
proof (cases "find (\<lambda>r. ms_idempotency_key r = key) q")
  case None
  then have q': "q' = q @ [new_message mid key pj ps maxd available now]" and mid: "mid \<notin> ms_message_id ` set q"
    using eq by (auto simp: enqueue_tx_def split: if_splits)
  have "message_ok (new_message mid key pj ps maxd available now)"
    using m by (auto simp: message_ok_def new_message_def)
  moreover have "key \<notin> ms_idempotency_key ` set q" using None by (auto simp: find_None_iff)
  moreover have "tokens_ok q'"
    unfolding tokens_ok_def
  proof (intro ballI impI, elim conjE)
    fix x y assume xy: "x \<in> set q'" "y \<in> set q'" "ms_lock_token x \<noteq> None" "ms_lock_token x = ms_lock_token y"
    then have "x \<in> set q" "y \<in> set q" unfolding q' by (auto simp: new_message_def)
    then show "ms_message_id x = ms_message_id y" using xy(3,4) token_key [OF ok, of x y] by auto
  qed
  ultimately have "queue_ok q'" using ok mid unfolding q' by (auto simp: queue_ok_def new_message_def)
  then show ?thesis unfolding q' by (simp add: rows_le_append)
qed (use ok eq in \<open>auto simp: enqueue_tx_def rows_le_refl split: if_splits\<close>)

section \<open>The queue as a state machine\<close>

text \<open>Every operation that changes the table, as any caller may run it; a failed operation is a step too.\<close>

inductive queue_step :: "pylib \<Rightarrow> queue \<Rightarrow> queue \<Rightarrow> bool" for lib where
  queue_enqueue: "enqueue lib clock mid key payload maxd available q = (out, q') \<Longrightarrow> queue_step lib q q'"
| queue_claim: "claim_queue lib clock tokens limit owner secs minimum now q = (out, q') \<Longrightarrow> queue_step lib q q'"
| queue_renew: "renew clock token secs now q = (out, q') \<Longrightarrow> queue_step lib q q'"
| queue_renew_many: "renew_many clock ts secs now q = (out, q') \<Longrightarrow> queue_step lib q q'"
| queue_finalize: "finalize clock outcomes delay now q = (out, q') \<Longrightarrow> queue_step lib q q'"
| queue_abandon: "abandon clock token delay reason now q = (out, q') \<Longrightarrow> queue_step lib q q'"
| queue_recover: "recover_expired clock now q = (out, q') \<Longrightarrow> queue_step lib q q'"

lemma queue_transaction_cases:
  assumes "queue_transaction body q = (out, q')"
  obtains (committed) r where "body q = Inr (q', r)" "out = Inr r"
  | (rolled_back) e where "body q = Inl e" "out = Inl e" "q' = q"
  using assms by (auto simp: queue_transaction_def split: sum.splits)

lemma transaction_keeps:
  assumes "queue_transaction body q = (out, q')" "queue_ok q"
    and "\<And>r. body q = Inr (q', r) \<Longrightarrow> queue_ok q' \<and> rows_le message_le q q'"
  shows "queue_ok q' \<and> rows_le message_le q q'"
  by (rule queue_transaction_cases [OF assms(1)]) (use assms(2,3) in \<open>auto simp: rows_le_refl\<close>)

lemma enqueue_ok: "enqueue lib clock mid key payload maxd available q = (out, q') \<Longrightarrow> queue_ok q
    \<Longrightarrow> queue_ok q' \<and> rows_le message_le q q'"
  by (auto simp: enqueue_def Let_def rows_le_refl simp del: dumps.simps elim!: transaction_keeps
      dest: enqueue_tx_ok [rotated -1] split: sum.splits if_splits)

lemma claim_queue_ok: "claim_queue lib clock tokens limit owner secs minimum now q = (out, q') \<Longrightarrow> queue_ok q
    \<Longrightarrow> queue_ok q' \<and> rows_le message_le q q'"
  by (auto simp: claim_queue_def rows_le_refl elim!: transaction_keeps dest: claim_tx_ok split: sum.splits if_splits)

lemma renew_ok: "renew clock token secs now q = (out, q') \<Longrightarrow> queue_ok q \<Longrightarrow> queue_ok q' \<and> rows_le message_le q q'"
  by (auto simp: renew_def Let_def rows_le_refl elim!: transaction_keeps dest: renew_one_ok split: sum.splits)

lemma renew_many_ok: "renew_many clock ts secs now q = (out, q') \<Longrightarrow> queue_ok q
    \<Longrightarrow> queue_ok q' \<and> rows_le message_le q q'"
  by (auto simp: renew_many_def Let_def rows_le_refl elim!: transaction_keeps
      dest: renew_all_ok split: sum.splits if_splits)

lemma finalize_ok: "finalize clock outcomes delay now q = (out, q') \<Longrightarrow> queue_ok q
    \<Longrightarrow> queue_ok q' \<and> rows_le message_le q q'"
  by (auto simp: finalize_def rows_le_refl elim!: transaction_keeps
      dest: finalize_all_ok split: sum.splits if_splits)

lemma recover_expired_ok: "recover_expired clock now q = (out, q') \<Longrightarrow> queue_ok q
    \<Longrightarrow> queue_ok q' \<and> rows_le message_le q q'"
  using recover_rows_ok [of q "at_time clock now"]
  by (auto simp: recover_expired_def elim!: transaction_keeps)

lemma queue_step_ok: "queue_step lib q q' \<Longrightarrow> queue_ok q \<Longrightarrow> queue_ok q' \<and> rows_le message_le q q'"
proof (induction rule: queue_step.induct)
  case (queue_abandon clock token delay reason now q out q')
  then show ?case using finalize_ok by (auto simp: abandon_def rows_le_refl split: sum.splits)
qed (blast dest: enqueue_ok claim_queue_ok renew_ok renew_many_ok finalize_ok recover_expired_ok)+

interpretation queue: history_system "\<lambda>q. q = []" "queue_step lib" queue_ok "rows_le message_le" for lib
proof
  show "queue_ok s" if "s = []" for s using that by (simp add: queue_ok_def tokens_ok_def)
qed (auto simp: rows_le_refl intro: message_rows_trans dest: queue_step_ok)

section \<open>Delivery\<close>

lemma claim_queueD:
  assumes "claim_queue lib clock tokens limit owner secs minimum now q = (Inr cs, q')"
  obtains who lease where "1 \<le> limit" "limit \<le> 100" "1 \<le> minimum" "minimum \<le> limit"
    "bounded_seconds secs = Inr lease"
    "claim_queue_tx lib tokens limit minimum who lease (at_time clock now) q = Inr (q', cs)"
  using assms by (auto simp: claim_queue_def elim: queue_transaction_cases split: if_splits sum.splits)

text \<open>What the lock of a claimed message says in the table after the claim.\<close>

definition delivered :: "queue \<Rightarrow> claimed_message \<Rightarrow> bool" where
  "delivered q c \<longleftrightarrow> (\<exists>r \<in> set q. ms_message_id r = cm_message_id c \<and> ms_state r = Q_LOCKED
     \<and> ms_lock_token r = Some (cm_lock_token c) \<and> ms_locked_until r = Some (cm_locked_until c)
     \<and> ms_delivery_count r = cm_delivery_count c \<and> ms_max_delivery_count r = cm_max_delivery_count c)"

definition busy :: "pyfloat \<Rightarrow> queue \<Rightarrow> string \<Rightarrow> bool" where
  "busy now q mid \<longleftrightarrow> (\<exists>r \<in> set q. ms_message_id r = mid \<and> ms_state r = Q_LOCKED \<and> \<not> lock_expired now r)"

definition finished :: "queue \<Rightarrow> string \<Rightarrow> bool" where
  "finished q mid \<longleftrightarrow> (\<exists>r \<in> set q. ms_message_id r = mid \<and> (ms_state r = Q_COMPLETED \<or> ms_state r = Q_DEAD))"

lemma recovered_row:
  assumes "r \<in> set (fst (recover_expired_rows now q))" "ms_state r = Q_READY"
  obtains r0 where "r0 \<in> set q" "ms_message_id r0 = ms_message_id r" "ms_state r0 = Q_READY \<or> lock_expired now r0"
proof -
  obtain r0 where "r0 \<in> set q" "r = (if lock_expired now r0 then expire_message now r0 else r0)"
    using assms(1) unfolding recover_expired_rows_def fst_conv update_where_def by auto
  with assms(2) show thesis by (intro that [of r0]) (auto simp: expire_message_def Let_def split: if_splits)
qed

lemma ready_not_busy:
  assumes ok: "queue_ok q" and r: "r \<in> set (ready_rows now (fst (recover_expired_rows now q)))"
  shows "\<not> busy now q (ms_message_id r)" "\<not> finished q (ms_message_id r)"
proof -
  obtain r0 where r0: "r0 \<in> set q" "ms_message_id r0 = ms_message_id r" "ms_state r0 = Q_READY \<or> lock_expired now r0"
    using r recovered_row [of r now q] by (auto simp: set_ready_rows)
  have uniq: "x = r0" if "x \<in> set q" "ms_message_id x = ms_message_id r" for x
    by (rule message_key [OF ok that(1) r0(1)]) (simp add: that(2) r0(2))
  show "\<not> busy now q (ms_message_id r)" "\<not> finished q (ms_message_id r)"
    using r0(3) uniq unfolding busy_def finished_def by (fastforce simp: lock_expired_def)+
qed

lemma claimed_columns:
  assumes "list_all2 (claimed_as tokens lease now) (zip [0..<length rs] rs) cs"
  shows "map cm_message_id cs = map ms_message_id rs \<and> map cm_lock_token cs = map tokens [0..<length rs]"
  using assms by (auto simp: list_all2_conv_all_nth claimed_as_def intro!: nth_equalityI)

lemma claimed_delivered:
  assumes "claimed_as tokens lease now ir c" "locked_row tokens owner lease now ir \<in> set q'"
  shows "delivered q' c \<and> cm_locked_until c = fadd now lease"
  unfolding delivered_def
  using assms by (auto simp: claimed_as_def locked_row_def lock_message_def intro!: bexI [OF _ assms(2)])

lemma list_all2_mem2:
  assumes "list_all2 P xs ys" "y \<in> set ys"
  shows "\<exists>x \<in> set xs. P x y"
  using assms by (induction rule: list_all2_induct) auto

lemma claim_tx_delivery:
  assumes ok: "queue_ok q" and eq: "claim_queue_tx lib tokens limit minimum owner lease now q = Inr (q', cs)"
    and rs: "rs = take (nat limit) (ready_rows now (fst (recover_expired_rows now q)))"
  shows "(if int (length rs) < minimum then cs = []
          else map cm_message_id cs = map ms_message_id rs \<and> map cm_lock_token cs = map tokens [0..<length rs])
    \<and> (\<forall>c \<in> set cs. delivered q' c \<and> cm_locked_until c = fadd now lease
       \<and> \<not> busy now q (cm_message_id c) \<and> \<not> finished q (cm_message_id c))"
  using ok eq
proof (cases rule: claim_tx_cases)
  case (claimed rs')
  then have c: "list_all2 (claimed_as tokens lease now) (zip [0..<length rs] rs) cs" "minimum \<le> int (length rs)"
    "\<forall>ir \<in> set (zip [0..<length rs] rs). locked_row tokens owner lease now ir \<in> set q'"
    by (simp_all add: rs)
  have "delivered q' c \<and> cm_locked_until c = fadd now lease
       \<and> \<not> busy now q (cm_message_id c) \<and> \<not> finished q (cm_message_id c)" if mem: "c \<in> set cs" for c
  proof -
    obtain ir where ir: "ir \<in> set (zip [0..<length rs] rs)" "claimed_as tokens lease now ir c"
      using list_all2_mem2 [OF c(1) mem] by blast
    have "snd ir \<in> set rs" using ir(1) by (metis prod.collapse set_zip_rightD)
    then have "snd ir \<in> set (ready_rows now (fst (recover_expired_rows now q)))" unfolding rs by (rule in_set_takeD)
    then have "\<not> busy now q (cm_message_id c) \<and> \<not> finished q (cm_message_id c)"
      using ready_not_busy [OF ok] ir(2) by (auto simp: claimed_as_def)
    then show ?thesis using claimed_delivered [OF ir(2)] c(3) ir(1) by blast
  qed
  then show ?thesis using c(2) claimed_columns [OF c(1)] by simp
qed (simp add: rs)

section \<open>Lost locks\<close>

text \<open>No finalization gives a token a lock it did not have.\<close>

definition lock_live :: "queue \<Rightarrow> pyfloat \<Rightarrow> string \<Rightarrow> bool" where
  "lock_live q now token \<longleftrightarrow> (\<exists>r \<in> set q. live_lock token now r)"

lemma find_live: "(\<exists>r. find (live_lock token now) q = Some r) \<longleftrightarrow> lock_live q now token"
  unfolding lock_live_def by (metis find_None_iff not_Some_eq)

lemma finalize_one_live:
  assumes "finalize_one delay now outcome q = Inr q'" "lock_live q' now token"
  shows "lock_live q now token"
  using assms unfolding finalize_one_def lock_live_def
  by (auto simp: set_update_where live_lock_def finish_message_def split: prod.splits option.splits) force

lemma finalize_all_live:
  "foldE (finalize_one delay now) outcomes q = Inr q' \<Longrightarrow> (token, action, reason) \<in> set outcomes
    \<Longrightarrow> lock_live q now (py_strip token)"
proof (induction outcomes arbitrary: q)
  case (Cons x xs)
  then obtain s where s: "finalize_one delay now x q = Inr s" "foldE (finalize_one delay now) xs s = Inr q'" by auto
  show ?case
  proof (cases "(token, action, reason) = x")
    case True
    then show ?thesis using s(1) find_live [of "py_strip token" now q]
      by (auto simp: finalize_one_def stripped_text_def split: option.splits if_splits)
  next
    case False
    then show ?thesis using Cons s finalize_one_live [OF s(1)] by auto
  qed
qed simp

text \<open>A finalization that succeeds has put every message it names in the state its action says.\<close>

lemma finalize_one_row:
  assumes ok: "queue_ok q" and eq: "finalize_one delay now (raw, action, reason) q = Inr q'"
  obtains r r' where "r \<in> set q" "live_lock (py_strip raw) now r" "r' \<in> set q'" "ms_message_id r' = ms_message_id r"
    "ms_lock_token r' = None"
    "final_state action reason (ms_delivery_count r) (ms_max_delivery_count r) now delay
       = Inr (ms_state r', ms_dead_letter_reason r', ms_available_at r')"
proof -
  obtain r st dead available where f: "find (live_lock (py_strip raw) now) q = Some r"
    "final_state action reason (ms_delivery_count r) (ms_max_delivery_count r) now delay = Inr (st, dead, available)"
    "q' = update_where (\<lambda>x. ms_lock_token x = Some (py_strip raw)) (finish_message st dead available now) q"
    using eq unfolding finalize_one_def by (auto simp: stripped_text_def split: option.splits if_splits)
  note l = locked_once [OF ok f(1)]
  have tok: "ms_lock_token r = Some (py_strip raw)" using l(2) by (simp add: live_lock_def)
  have "finish_message st dead available now r \<in> set q'"
    unfolding f(3) set_update_where using l(1) tok by blast
  then show thesis using l(1,2) f(2) by (intro that [of r "finish_message st dead available now r"])
      (auto simp: finish_message_def)
qed

lemma completed_stays:
  assumes "r \<in> set q" "ms_state r = Q_COMPLETED \<or> ms_state r = Q_DEAD" "(queue_step lib)\<^sup>*\<^sup>* q q'" "queue_ok q"
  shows "r \<in> set q'"
proof -
  have "rows_le message_le q q'" by (rule queue.star_le [OF assms(3,4)])
  then show ?thesis using assms(1,2) by (metis message_le_def rows_le_mem)
qed

section \<open>Idempotent producers\<close>

text \<open>After a successful enqueue the key is bound to the payload's digest and the returned id.\<close>

lemma enqueueD:
  assumes "enqueue lib clock mid key payload maxd available q = (Inr i, q')"
  obtains k r where "stripped_text key = Inr k" "1 \<le> maxd" "maxd \<le> 100"
    "find (\<lambda>r. ms_idempotency_key r = k) q' = Some r" "ms_message_id r = i"
    "ms_payload_sha256 r = sha256_hex lib (dumps lib (PDict payload))" "ms_max_delivery_count r = maxd"
proof -
  let ?pj = "dumps lib (PDict payload)"
  obtain k where k: "stripped_text key = Inr k" "1 \<le> maxd" "maxd \<le> 100"
    and tx: "enqueue_tx mid k ?pj (sha256_hex lib ?pj) maxd (at_time clock available) clock q = Inr (q', i)"
    using assms by (auto simp: enqueue_def Let_def simp del: dumps.simps elim: queue_transaction_cases
        split: sum.splits if_splits)
  show thesis
  proof (cases "find (\<lambda>r. ms_idempotency_key r = k) q")
    case None
    let ?m = "new_message mid k ?pj (sha256_hex lib ?pj) maxd (at_time clock available) clock"
    have "q' = q @ [?m]" "i = mid" using None
      using tx by (auto simp: enqueue_tx_def simp del: dumps.simps split: if_splits)
    then show thesis using None by (intro that [OF k, of ?m]) (simp_all add: find_append new_message_fields del: dumps.simps)
  next
    case (Some r)
    then show thesis using tx by (intro that [OF k, of r])
        (auto simp: enqueue_tx_def simp del: dumps.simps split: if_splits)
  qed
qed

end
