(* ===== verification/Queue_Actor_Spec.thy ===== *)
theory Queue_Actor_Spec
  imports Queue_Actor Local_Queue_Spec
begin

text \<open>
  The invariant of the actor and what follows from it: operations run one at a time, in the order in
  which they were submitted, each future gets the outcome of its own operation, and no call is lost.
\<close>

section \<open>Serial execution\<close>

text \<open>The reference: the operations one after the other.\<close>

fun replay_all :: "'q \<Rightarrow> ('q \<Rightarrow> 'r outcome \<times> 'q) list \<Rightarrow> 'r outcome list \<times> 'q" where
  "replay_all q [] = ([], q)"
| "replay_all q (operation # ops) = (case operation q of (out, q1) \<Rightarrow>
     case replay_all q1 ops of (outs, q2) \<Rightarrow> (out # outs, q2))"

lemma replay_all_append:
  "replay_all q (ops @ [operation]) = (case replay_all q ops of (outs, q1) \<Rightarrow>
     case operation q1 of (out, q2) \<Rightarrow> (outs @ [out], q2))"
  by (induction q ops rule: replay_all.induct) (auto split: prod.splits)

lemma replay_all_length: "length (fst (replay_all q ops)) = length ops"
  by (induction q ops rule: replay_all.induct) (auto split: prod.splits)

fun outcome_future :: "'r outcome \<Rightarrow> 'r future" where
  "outcome_future (Returned r) = F_RESULT r"
| "outcome_future (Raised e) = F_EXCEPTION e"
| "outcome_future (Fatal e) = F_EXCEPTION ActorDiedError"

lemma outcome_future_simps [simp]:
  "outcome_future out \<noteq> F_PENDING" "outcome_future out \<noteq> F_RUNNING"
  "outcome_future out \<noteq> F_CANCELLED" "outcome_future out \<noteq> F_CANCELLED_AND_NOTIFIED"
  "future_cancel (outcome_future out) = outcome_future out"
  by (cases out; simp)+

section \<open>Futures of a state\<close>

lemma put_future_simps [simp]:
  "length (ac_calls (put_future i f s)) = length (ac_calls s)"
  "ac_requests (put_future i f s) = ac_requests s" "ac_pc (put_future i f s) = ac_pc s"
  "ac_drain (put_future i f s) = ac_drain s" "ac_log (put_future i f s) = ac_log s"
  "ac_queue (put_future i f s) = ac_queue s" "ac_state (put_future i f s) = ac_state s"
  "ac_startup (put_future i f s) = ac_startup s" "ac_fatal_error (put_future i f s) = ac_fatal_error s"
  by (simp_all add: put_future_def)

lemma put_future_nth [simp]:
  "future_of (put_future i f s) j = (if j = i \<and> i < length (ac_calls s) then f else future_of s j)"
  "cl_operation (ac_calls (put_future i f s) ! j) = cl_operation (ac_calls s ! j)"
proof -
  have "cl_future (ac_calls (put_future i f s) ! j) = (if j = i \<and> i < length (ac_calls s) then f else cl_future (ac_calls s ! j))
      \<and> cl_operation (ac_calls (put_future i f s) ! j) = cl_operation (ac_calls s ! j)"
    by (cases "i < length (ac_calls s)"; cases "j = i"; simp add: put_future_def not_less list_update_beyond)
  then show "future_of (put_future i f s) j = (if j = i \<and> i < length (ac_calls s) then f else future_of s j)"
    "cl_operation (ac_calls (put_future i f s) ! j) = cl_operation (ac_calls s ! j)" by (simp_all add: future_of_def)
qed

lemma put_future_same: "put_future i (future_of s i) s = s"
proof -
  have "(ac_calls s ! i)\<lparr>cl_future := cl_future (ac_calls s ! i)\<rparr> = ac_calls s ! i" by (cases "ac_calls s ! i") simp
  then show ?thesis by (simp add: put_future_def future_of_def)
qed

lemma future_of_update [simp]:
  "future_of (s\<lparr>ac_requests := rs\<rparr>) i = future_of s i" "future_of (s\<lparr>ac_pc := pc\<rparr>) i = future_of s i"
  "future_of (s\<lparr>ac_drain := d\<rparr>) i = future_of s i" "future_of (s\<lparr>ac_state := st\<rparr>) i = future_of s i"
  "future_of (s\<lparr>ac_startup := u\<rparr>) i = future_of s i" "future_of (s\<lparr>ac_fatal_error := e\<rparr>) i = future_of s i"
  "future_of (s\<lparr>ac_queue := q\<rparr>) i = future_of s i" "future_of (s\<lparr>ac_log := l\<rparr>) i = future_of s i"
  by (simp_all add: future_of_def)

section \<open>Invariant\<close>

text \<open>Calls that wait to be run: the one in the hands of the thread, then those in the queue of requests.\<close>

fun held :: "'r thread_pc \<Rightarrow> nat list" where
  "held (T_check i) = [i]"
| "held (T_refuse i) = [i]"
| "held (T_begin i) = [i]"
| "held (T_execute i) = [i]"
| "held _ = []"

fun request_ids :: "nat option list \<Rightarrow> nat list" where
  "request_ids [] = []"
| "request_ids (None # rs) = request_ids rs"
| "request_ids (Some i # rs) = i # request_ids rs"

lemma request_ids_append [simp]: "request_ids (xs @ ys) = request_ids xs @ request_ids ys"
  by (induction xs rule: request_ids.induct) auto

definition waiting :: "('q, 'r) actor \<Rightarrow> nat list" where
  "waiting s = held (ac_pc s) @ request_ids (ac_requests s)"

definition draining :: "('q, 'r) actor \<Rightarrow> nat option" where
  "draining s = Option.bind (ac_drain s) dr_future"

definition order_ok :: "('q, 'r) actor \<Rightarrow> bool" where
  "order_ok s \<longleftrightarrow> sorted_wrt (<) (ac_log s @ waiting s) \<and> (\<forall>i \<in> set (ac_log s @ waiting s). i < length (ac_calls s))
     \<and> (\<forall>i. draining s = Some i \<longrightarrow> i < length (ac_calls s) \<and> i \<notin> set (ac_log s @ waiting s))"

fun running :: "'r thread_pc \<Rightarrow> nat option" where
  "running (T_execute i) = Some i"
| "running (T_finish i out) = Some i"
| "running _ = None"

text \<open>A future is running exactly when its operation is; a call that waits is pending or was given up.\<close>

definition future_ok :: "nat set \<Rightarrow> nat option \<Rightarrow> nat option \<Rightarrow> nat set \<Rightarrow> nat \<Rightarrow> 'r future \<Rightarrow> bool" where
  "future_ok W D R L i f \<longleftrightarrow> (f = F_RUNNING \<longleftrightarrow> R = Some i)
     \<and> (f = F_PENDING \<longrightarrow> i \<in> W \<or> D = Some i)
     \<and> (i \<in> W \<or> D = Some i \<longrightarrow> R = Some i \<or> f = F_PENDING \<or> f = F_CANCELLED)
     \<and> (\<forall>r. f = F_RESULT r \<longrightarrow> i \<in> L)"

definition futures_ok :: "('q, 'r) actor \<Rightarrow> bool" where
  "futures_ok s \<longleftrightarrow> (\<forall>i < length (ac_calls s).
     future_ok (set (waiting s)) (draining s) (running (ac_pc s)) (set (ac_log s)) i (future_of s i))"

text \<open>The queue is what the logged operations make of it one after the other, and the futures have their
  outcomes.\<close>

definition option_list :: "'a option \<Rightarrow> 'a list" where
  "option_list x = (case x of None \<Rightarrow> [] | Some y \<Rightarrow> [y])"

lemma option_list_simps [simp]: "option_list None = []" "option_list (Some x) = [x]"
  by (simp_all add: option_list_def)

fun finishing :: "'r thread_pc \<Rightarrow> (nat \<times> 'r outcome) option" where
  "finishing (T_finish i out) = Some (i, out)"
| "finishing _ = None"

definition log_ok :: "'q \<Rightarrow> ('q, 'r) actor \<Rightarrow> bool" where
  "log_ok q0 s \<longleftrightarrow> (\<exists>settled outs. ac_log s = settled @ map fst (option_list (finishing (ac_pc s)))
     \<and> replay_all q0 (map (\<lambda>i. cl_operation (ac_calls s ! i)) (ac_log s)) =
          (outs @ map snd (option_list (finishing (ac_pc s))), ac_queue s)
     \<and> list_all2 (\<lambda>i out. future_of s i = outcome_future out) settled outs)"

definition phase_ok :: "('q, 'r) actor \<Rightarrow> bool" where
  "phase_ok s \<longleftrightarrow> (ac_state s = S_STOPPED \<longleftrightarrow> ac_pc s = T_drain \<or> ac_pc s = T_exited \<or> (\<exists>e. ac_pc s = T_crashed e))
     \<and> (ac_pc s = T_drain \<longleftrightarrow> (\<exists>dr. ac_drain s = Some dr \<and> dr_by_thread dr))
     \<and> (\<forall>dr. ac_drain s = Some dr \<and> \<not> dr_by_thread dr \<longrightarrow> ac_state s = S_CLOSING)
     \<and> (ac_pc s = T_exited \<longrightarrow> ac_requests s = [])"

definition actor_ok :: "'q \<Rightarrow> ('q, 'r) actor \<Rightarrow> bool" where
  "actor_ok q0 s \<longleftrightarrow> order_ok s \<and> futures_ok s \<and> log_ok q0 s \<and> phase_ok s"

section \<open>Every step keeps the invariant\<close>

named_theorems actor_defs

lemmas [actor_defs] = actor_ok_def order_ok_def futures_ok_def future_ok_def log_ok_def phase_ok_def waiting_def draining_def

lemma start_ok: "actor_ok q0 (start_actor q0)"
  by (simp add: start_actor_def actor_defs)

lemma running_known:
  assumes "log_ok q0 s" "running (ac_pc s) = Some i"
  shows "i \<in> set (ac_log s) \<union> set (waiting s)"
  using assms by (cases "ac_pc s") (auto simp: log_ok_def waiting_def)

lemma running_bound:
  assumes "order_ok s" "log_ok q0 s" "running (ac_pc s) = Some i"
  shows "i < length (ac_calls s)"
  using running_known [OF assms(2,3)] assms(1) by (auto simp: order_ok_def)

lemma log_ok_cong:
  assumes "log_ok q0 s" "ac_log s' = ac_log s" "ac_queue s' = ac_queue s" "finishing (ac_pc s') = finishing (ac_pc s)"
    and "\<And>i. i \<in> set (ac_log s) \<Longrightarrow> cl_operation (ac_calls s' ! i) = cl_operation (ac_calls s ! i)"
    and "\<And>i out. i \<in> set (ac_log s) \<Longrightarrow> future_of s i = outcome_future out \<Longrightarrow> future_of s' i = outcome_future out"
  shows "log_ok q0 s'"
proof -
  obtain settled outs where l: "ac_log s = settled @ map fst (option_list (finishing (ac_pc s)))"
    "replay_all q0 (map (\<lambda>i. cl_operation (ac_calls s ! i)) (ac_log s)) = (outs @ map snd (option_list (finishing (ac_pc s))), ac_queue s)"
    "list_all2 (\<lambda>i out. future_of s i = outcome_future out) settled outs"
    using assms(1) by (auto simp: log_ok_def)
  have "map (\<lambda>i. cl_operation (ac_calls s' ! i)) (ac_log s) = map (\<lambda>i. cl_operation (ac_calls s ! i)) (ac_log s)"
    using assms(5) by simp
  moreover have "list_all2 (\<lambda>i out. future_of s' i = outcome_future out) settled outs"
    by (rule list.rel_mono_strong [OF l(3)]) (use assms(6) l(1) in auto)
  ultimately show ?thesis unfolding log_ok_def assms(2-4) using l(1,2) by metis
qed

lemma submit_ok:
  assumes "actor_ok q0 s" "ac_drain s = None" "submit_call operation s = (r, s')"
  shows "actor_ok q0 s'"
proof (cases "ac_state s = S_RUNNING")
  case True
  let ?n = "length (ac_calls s)"
  have s': "s' = s\<lparr>ac_calls := ac_calls s @ [\<lparr>cl_operation = operation, cl_future = F_PENDING\<rparr>],
      ac_requests := ac_requests s @ [Some ?n]\<rparr>"
    using assms(3) True by (simp add: submit_call_def Let_def)
  have fut: "future_of s' i = (if i = ?n then F_PENDING else future_of s i)" if "i \<le> ?n" for i
    using that by (simp add: s' future_of_def nth_append)
  have ok: "order_ok s" "futures_ok s" "log_ok q0 s" "phase_ok s" using assms(1) by (simp_all add: actor_ok_def)
  have wait: "waiting s' = waiting s @ [?n]" "draining s' = draining s" "ac_pc s' = ac_pc s" "ac_log s' = ac_log s"
    by (simp_all add: s' waiting_def draining_def)
  have "order_ok s'" using ok(1) assms(2) unfolding order_ok_def wait
    by (auto simp: draining_def s' sorted_wrt_append intro: less_SucI)
  moreover have "futures_ok s'" unfolding futures_ok_def wait
  proof (intro allI impI)
    fix i assume "i < length (ac_calls s')"
    then have "i = ?n \<or> i < ?n" by (auto simp: s')
    moreover have "running (ac_pc s) \<noteq> Some ?n" using running_bound [OF ok(1,3)] by blast
    ultimately show "future_ok (set (waiting s @ [?n])) (draining s) (running (ac_pc s)) (set (ac_log s)) i (future_of s' i)"
      using ok(2) by (auto simp: fut futures_ok_def future_ok_def)
  qed
  moreover have "log_ok q0 s'"
    by (rule log_ok_cong [OF ok(3)]) (use ok(1) in \<open>auto simp: wait order_ok_def s' nth_append future_of_def\<close>)
  moreover have "phase_ok s'" using ok(4) assms(2) True by (auto simp: phase_ok_def s')
  ultimately show ?thesis by (simp add: actor_ok_def)
next
  case False
  then show ?thesis using assms by (auto simp: submit_call_def)
qed

lemma actor_okD:
  assumes "actor_ok q0 s"
  shows "order_ok s" "futures_ok s" "log_ok q0 s" "phase_ok s"
  using assms by (simp_all add: actor_ok_def)

lemma running_not_requested:
  assumes "actor_ok q0 s" "i \<in> set (request_ids (ac_requests s))"
  shows "running (ac_pc s) \<noteq> Some i" "draining s \<noteq> Some i" "i < length (ac_calls s)" "i \<notin> set (ac_log s)"
proof -
  note ok = actor_okD [OF assms(1)]
  show "running (ac_pc s) \<noteq> Some i"
    using ok(1,3) assms(2)
    by (cases "ac_pc s") (auto simp: order_ok_def log_ok_def waiting_def sorted_wrt_append)
  show "draining s \<noteq> Some i" "i < length (ac_calls s)" using ok(1) assms(2) by (auto simp: order_ok_def waiting_def)
  show "i \<notin> set (ac_log s)" using ok(1) assms(2) by (auto simp: order_ok_def waiting_def sorted_wrt_append)
qed

text \<open>A future that changes in an otherwise unchanged state.\<close>

lemma timeout_ok:
  assumes "actor_ok q0 s" "i < length (ac_calls s)" "timeout_call i s = (r, s')"
  shows "actor_ok q0 s'"
proof -
  note ok = actor_okD [OF assms(1)]
  have s': "s' = put_future i (future_cancel (future_of s i)) s" using assms(3) by (simp add: timeout_call_def)
  have "future_ok W D R L i (future_cancel f)" if "future_ok W D R L i f" for W D R L and f :: "'b future"
    using that by (cases f) (auto simp: future_ok_def)
  then have "futures_ok s'" using ok(2) by (auto simp: futures_ok_def s' waiting_def draining_def)
  moreover have "log_ok q0 s'" by (rule log_ok_cong [OF ok(3)]) (auto simp: s')
  ultimately show ?thesis using ok(1,4) by (simp add: actor_ok_def order_ok_def phase_ok_def s' waiting_def draining_def)
qed

lemma stop_ok:
  assumes "actor_ok q0 s" "ac_drain s = None"
  shows "actor_ok q0 (request_stop s)"
proof (cases "ac_state s = S_STOPPED")
  case False
  note ok = actor_okD [OF assms(1)]
  let ?t = "request_stop s"
  have t: "?t = s\<lparr>ac_state := S_CLOSING,
      ac_drain := Some \<lparr>dr_by_thread = False, dr_error = ActorClosedError, dr_future = None\<rparr>\<rparr>"
    using False by (simp add: request_stop_def)
  have same: "waiting ?t = waiting s" "draining ?t = draining s" "ac_pc ?t = ac_pc s" "ac_log ?t = ac_log s"
    "length (ac_calls ?t) = length (ac_calls s)" "future_of ?t = future_of s"
    using assms(2) by (auto simp: t waiting_def draining_def)
  have "log_ok q0 ?t" by (rule log_ok_cong [OF ok(3)]) (simp_all add: same, simp_all add: t)
  moreover have "phase_ok ?t" using ok(4) False assms(2) by (auto simp: phase_ok_def t)
  ultimately show ?thesis using ok(1,2) by (simp add: actor_ok_def order_ok_def futures_ok_def same)
qed (use assms in \<open>simp add: request_stop_def\<close>)

text \<open>A step that runs no operation: the calls may only lose their pending futures.\<close>

lemma quiet_step_ok:
  assumes "actor_ok q0 s" and "ac_log s' = ac_log s" "ac_queue s' = ac_queue s" "finishing (ac_pc s') = finishing (ac_pc s)"
    and "length (ac_calls s') = length (ac_calls s)" "\<And>i. cl_operation (ac_calls s' ! i) = cl_operation (ac_calls s ! i)"
    and "\<And>i out. i \<in> set (ac_log s) \<Longrightarrow> future_of s i = outcome_future out \<Longrightarrow> future_of s' i = outcome_future out"
    and "order_ok s'" "phase_ok s'"
    and "\<And>i. i < length (ac_calls s) \<Longrightarrow>
      future_ok (set (waiting s)) (draining s) (running (ac_pc s)) (set (ac_log s)) i (future_of s i) \<Longrightarrow>
      future_ok (set (waiting s')) (draining s') (running (ac_pc s')) (set (ac_log s)) i (future_of s' i)"
  shows "actor_ok q0 s'"
proof -
  note ok = actor_okD [OF assms(1)]
  have "log_ok q0 s'" by (rule log_ok_cong [OF ok(3)]) (use assms(2-7) in auto)
  moreover have "futures_ok s'" using ok(2) assms(2,5,10) by (auto simp: futures_ok_def)
  ultimately show ?thesis using assms(8,9) by (simp add: actor_ok_def)
qed

lemma outcome_future_done: "future_done (outcome_future out)"
  by (cases out) auto

lemma drain_set_ok:
  assumes "actor_ok q0 s" "ac_drain s = Some dr" "dr_future dr = Some i"
  shows "actor_ok q0 (drain_step dr s)"
proof -
  note ok = actor_okD [OF assms(1)]
  have d: "draining s = Some i" using assms(2,3) by (simp add: draining_def)
  then have i: "i < length (ac_calls s)" "i \<notin> set (ac_log s)" "i \<notin> set (waiting s)" using ok(1) by (auto simp: order_ok_def)
  show ?thesis
  proof (cases "future_done (future_of s i)")
    case True
    then have t: "drain_step dr s = abort_drain InvalidStateError dr s" using assms(3) by (simp add: drain_step_def future_set_def)
    show ?thesis unfolding t
    proof (rule quiet_step_ok [OF assms(1)])
      show "finishing (ac_pc (abort_drain InvalidStateError dr s)) = finishing (ac_pc s)"
        using ok(4) assms(2) by (auto simp: abort_drain_def phase_ok_def)
      have w: "waiting (abort_drain InvalidStateError dr s) = waiting s" "running (ac_pc (abort_drain InvalidStateError dr s)) = running (ac_pc s)"
        using ok(4) assms(2) by (auto simp: abort_drain_def phase_ok_def waiting_def)
      show "order_ok (abort_drain InvalidStateError dr s)"
        using ok(1) unfolding order_ok_def w by (auto simp: abort_drain_def draining_def)
      show "phase_ok (abort_drain InvalidStateError dr s)" using ok(4) assms(2) by (auto simp: phase_ok_def abort_drain_def)
      show "future_ok (set (waiting (abort_drain InvalidStateError dr s))) (draining (abort_drain InvalidStateError dr s))
          (running (ac_pc (abort_drain InvalidStateError dr s))) (set (ac_log s)) j (future_of (abort_drain InvalidStateError dr s) j)"
        if "future_ok (set (waiting s)) (draining s) (running (ac_pc s)) (set (ac_log s)) j (future_of s j)" for j
        using that True d unfolding w by (auto simp: future_ok_def abort_drain_def draining_def)
    qed (auto simp: abort_drain_def)
  next
    case False
    then have t: "drain_step dr s = (put_future i (F_EXCEPTION (dr_error dr)) s)\<lparr>ac_drain := Some (dr\<lparr>dr_future := None\<rparr>)\<rparr>" (is "_ = ?t")
      using assms(3) by (simp add: drain_step_def future_set_def)
    have w: "waiting ?t = waiting s" "draining ?t = None" by (simp_all add: waiting_def draining_def)
    have nr: "running (ac_pc s) \<noteq> Some i"
      using running_known [OF ok(3)] i(2,3) by blast
    show ?thesis unfolding t
      by (rule quiet_step_ok [OF assms(1)])
        (use ok(1,4) assms(2) i d nr in \<open>auto simp: order_ok_def w phase_ok_def future_ok_def\<close>)
  qed
qed

lemma drain_pop_ok:
  assumes "actor_ok q0 s" "ac_drain s = Some dr" "dr_future dr = None"
  shows "actor_ok q0 (drain_step dr s)"
proof -
  note ok = actor_okD [OF assms(1)]
  have d: "draining s = None" using assms(2,3) by (simp add: draining_def)
  consider "ac_requests s = []" | rs where "ac_requests s = None # rs" | i rs where "ac_requests s = Some i # rs"
    by (metis list.exhaust option.exhaust)
  then show ?thesis
  proof cases
    case 1
    then have t: "drain_step dr s = end_drain dr s" using assms(3) by (simp add: drain_step_def)
    have w: "waiting (end_drain dr s) = waiting s" "running (ac_pc (end_drain dr s)) = running (ac_pc s)"
      "finishing (ac_pc (end_drain dr s)) = finishing (ac_pc s)" "draining (end_drain dr s) = None"
      using ok(4) assms(2) by (auto simp: end_drain_def phase_ok_def waiting_def draining_def)
    show ?thesis unfolding t
    proof (rule quiet_step_ok [OF assms(1)])
      show "order_ok (end_drain dr s)" using ok(1) unfolding order_ok_def w by (simp add: end_drain_def)
      show "phase_ok (end_drain dr s)" using ok(4) assms(2) 1 by (auto simp: phase_ok_def end_drain_def)
    qed (simp_all add: w d, simp_all add: end_drain_def)
  next
    case (2 rs)
    let ?t = "s\<lparr>ac_requests := rs\<rparr>"
    have t: "drain_step dr s = ?t" using assms(3) 2 by (simp add: drain_step_def)
    have w: "waiting ?t = waiting s" "draining ?t = None" using 2 assms(2,3) by (simp_all add: waiting_def draining_def)
    show ?thesis unfolding t
      by (rule quiet_step_ok [OF assms(1)]) (use ok(1,4) d 2 assms(2) in \<open>auto simp: order_ok_def w phase_ok_def\<close>)
  next
    case (3 i rs)
    let ?d = "if future_done (future_of s i) then None else Some i"
    let ?t = "s\<lparr>ac_requests := rs, ac_drain := Some (dr\<lparr>dr_future := ?d\<rparr>)\<rparr>"
    have t: "drain_step dr s = ?t" using assms(3) 3 by (simp add: drain_step_def)
    have w: "waiting s = held (ac_pc s) @ i # request_ids rs" "waiting ?t = held (ac_pc s) @ request_ids rs" "draining ?t = ?d"
      using 3 by (simp_all add: waiting_def draining_def)
    note i = running_not_requested [OF assms(1), of i]
    show ?thesis unfolding t
    proof (rule quiet_step_ok [OF assms(1)])
      show "order_ok ?t" using ok(1) d unfolding order_ok_def w by (auto simp: sorted_wrt_append)
      show "phase_ok ?t" using ok(4) assms(2) 3 by (auto simp: phase_ok_def)
      show "future_ok (set (waiting ?t)) (draining ?t) (running (ac_pc ?t)) (set (ac_log s)) j (future_of ?t j)"
        if "future_ok (set (waiting s)) (draining s) (running (ac_pc s)) (set (ac_log s)) j (future_of s j)" for j
        using that d i 3 unfolding w by (auto simp: future_ok_def)
    qed (simp_all add: w)
  qed
qed

lemma drain_ok: "actor_ok q0 s \<Longrightarrow> ac_drain s = Some dr \<Longrightarrow> actor_ok q0 (drain_step dr s)"
  by (cases "dr_future dr") (simp_all add: drain_set_ok drain_pop_ok)

text \<open>Moving the thread without touching a call.\<close>

lemma move_ok:
  assumes "actor_ok q0 s" "ac_calls s' = ac_calls s" "ac_log s' = ac_log s" "ac_queue s' = ac_queue s"
    and "waiting s' = waiting s" "draining s' = draining s" "running (ac_pc s') = running (ac_pc s)"
    and "finishing (ac_pc s') = finishing (ac_pc s)" "phase_ok s'"
  shows "actor_ok q0 s'"
proof -
  have "future_of s' = future_of s" by (rule ext) (simp add: future_of_def assms(2))
  then show ?thesis
    by (intro quiet_step_ok [OF assms(1)])
      (use assms(2-9) actor_okD(1) [OF assms(1)] in \<open>simp_all add: order_ok_def\<close>)
qed

text \<open>Finishing with a call that was not run: it was refused, or had been given up.\<close>

lemma dismiss_ok:
  assumes "actor_ok q0 s" "held (ac_pc s) = [i]" "running (ac_pc s) = None" "held pc = []" "running pc = None" "finishing pc = None"
    and "f \<noteq> F_PENDING" "f \<noteq> F_RUNNING" "\<And>r. f \<noteq> F_RESULT r" "phase_ok ((put_future i f s)\<lparr>ac_pc := pc\<rparr>)"
  shows "actor_ok q0 ((put_future i f s)\<lparr>ac_pc := pc\<rparr>)" (is "actor_ok q0 ?t")
proof -
  note ok = actor_okD [OF assms(1)]
  have w: "waiting s = i # request_ids (ac_requests s)" "waiting ?t = request_ids (ac_requests s)" "draining ?t = draining s"
    using assms(2,4) by (simp_all add: waiting_def draining_def)
  have i: "i < length (ac_calls s)" "i \<notin> set (ac_log s)" "draining s \<noteq> Some i" "i \<notin> set (request_ids (ac_requests s))"
    using ok(1) by (auto simp: order_ok_def w sorted_wrt_append)
  have fin: "finishing (ac_pc s) = None" using assms(3) by (cases "ac_pc s") auto
  show ?thesis
  proof (rule quiet_step_ok [OF assms(1)])
    show "order_ok ?t" using ok(1) unfolding order_ok_def w by (auto simp: sorted_wrt_append)
    show "future_ok (set (waiting ?t)) (draining ?t) (running (ac_pc ?t)) (set (ac_log s)) j (future_of ?t j)"
      if "future_ok (set (waiting s)) (draining s) (running (ac_pc s)) (set (ac_log s)) j (future_of s j)" for j
      using that i assms(3,5,7-9) unfolding w by (auto simp: future_ok_def)
  qed (use assms(5,6,10) i fin in auto)
qed

lemma begin_run_ok:
  assumes "actor_ok q0 s" "ac_pc s = T_begin i" "future_of s i = F_PENDING"
  shows "actor_ok q0 ((put_future i F_RUNNING s)\<lparr>ac_pc := T_execute i\<rparr>)" (is "actor_ok q0 ?t")
proof -
  note ok = actor_okD [OF assms(1)]
  have w: "waiting ?t = waiting s" "draining ?t = draining s" "i \<in> set (waiting s)"
    using assms(2) by (simp_all add: waiting_def draining_def)
  have i: "i < length (ac_calls s)" "i \<notin> set (ac_log s)" "draining s \<noteq> Some i"
    using ok(1) w(3) by (auto simp: order_ok_def sorted_wrt_append)
  show ?thesis
    by (rule quiet_step_ok [OF assms(1)])
      (use ok(1,4) assms(2) i w in \<open>auto simp: order_ok_def phase_ok_def future_ok_def split: if_splits\<close>)
qed

lemma run_operation_ok:
  assumes "actor_ok q0 s" "ac_pc s = T_execute i"
  shows "actor_ok q0 (run_operation i s)"
proof -
  note ok = actor_okD [OF assms(1)]
  obtain out q where o: "cl_operation (ac_calls s ! i) (ac_queue s) = (out, q)" by fastforce
  let ?t = "s\<lparr>ac_queue := q, ac_log := ac_log s @ [i], ac_pc := T_finish i out\<rparr>"
  have t: "run_operation i s = ?t" by (simp add: run_operation_def o)
  have w: "ac_log ?t @ waiting ?t = ac_log s @ waiting s" "waiting s = i # waiting ?t" "draining ?t = draining s"
    using assms(2) by (simp_all add: waiting_def draining_def)
  have "order_ok ?t" using ok(1) unfolding order_ok_def w by simp
  moreover have "futures_ok ?t" unfolding futures_ok_def
  proof (intro allI impI)
    fix j assume "j < length (ac_calls ?t)"
    then have "future_ok (set (waiting s)) (draining s) (running (ac_pc s)) (set (ac_log s)) j (future_of s j)"
      using ok(2) by (simp add: futures_ok_def)
    moreover have "i \<notin> set (waiting ?t)" "draining s \<noteq> Some i"
      using ok(1) by (auto simp: order_ok_def w(2) sorted_wrt_append)
    ultimately show "future_ok (set (waiting ?t)) (draining ?t) (running (ac_pc ?t)) (set (ac_log ?t)) j (future_of ?t j)"
      using assms(2) unfolding w(2,3) by (auto simp: future_ok_def)
  qed
  moreover have "log_ok q0 ?t"
    using ok(3) assms(2) by (auto simp: log_ok_def replay_all_append o)
  moreover have "phase_ok ?t" using ok(4) assms(2) by (auto simp: phase_ok_def)
  ultimately show ?thesis unfolding t by (simp add: actor_ok_def)
qed

lemma settled_ok:
  assumes "actor_ok q0 s" "ac_pc s = T_finish i out" "pc = T_get \<or> pc = T_handle e"
  shows "actor_ok q0 ((put_future i (outcome_future out) (s\<lparr>ac_fatal_error := fe\<rparr>))\<lparr>ac_pc := pc\<rparr>)" (is "actor_ok q0 ?t")
proof -
  note ok = actor_okD [OF assms(1)]
  obtain settled outs where l: "ac_log s = settled @ [i]"
    "replay_all q0 (map (\<lambda>i. cl_operation (ac_calls s ! i)) (ac_log s)) = (outs @ [out], ac_queue s)"
    "list_all2 (\<lambda>i out. future_of s i = outcome_future out) settled outs"
    using ok(3) assms(2) by (auto simp: log_ok_def)
  have i: "i < length (ac_calls s)" "i \<notin> set settled" "i \<notin> set (waiting s)" "draining s \<noteq> Some i"
    using ok(1) l(1) by (auto simp: order_ok_def sorted_wrt_append)
  have w: "waiting ?t = waiting s" "draining ?t = draining s" "running pc = None" "finishing pc = None"
    using assms(2,3) by (auto simp: waiting_def draining_def)
  have "order_ok ?t" using ok(1) unfolding order_ok_def w by simp
  moreover have "futures_ok ?t" unfolding futures_ok_def
  proof (intro allI impI)
    fix j assume "j < length (ac_calls ?t)"
    then have "future_ok (set (waiting s)) (draining s) (running (ac_pc s)) (set (ac_log s)) j (future_of s j)"
      using ok(2) by (simp add: futures_ok_def)
    then show "future_ok (set (waiting ?t)) (draining ?t) (running (ac_pc ?t)) (set (ac_log ?t)) j (future_of ?t j)"
      using assms(2) i l(1) unfolding w(1,2) by (auto simp: future_ok_def w(3))
  qed
  moreover have "log_ok q0 ?t"
  proof -
    have "list_all2 (\<lambda>i out. future_of ?t i = outcome_future out) (settled @ [i]) (outs @ [out])"
      by (rule list_all2_appendI, rule list.rel_mono_strong [OF l(3)]) (use i(1,2) in auto)
    then show ?thesis using l(1,2) by (auto simp: log_ok_def w(4))
  qed
  moreover have "phase_ok ?t" using ok(4) assms(2,3) by (auto simp: phase_ok_def)
  ultimately show ?thesis by (simp add: actor_ok_def)
qed

lemma finish_call_ok:
  assumes "actor_ok q0 s" "ac_pc s = T_finish i out"
  shows "actor_ok q0 (finish_call i out s)"
proof -
  note ok = actor_okD [OF assms(1)]
  have "i < length (ac_calls s)" using running_bound [OF ok(1,3)] assms(2) by simp
  then have run: "future_of s i = F_RUNNING" using ok(2) assms(2) by (auto simp: futures_ok_def future_ok_def)
  have fe: "s = s\<lparr>ac_fatal_error := ac_fatal_error s\<rparr>" by simp
  show ?thesis
    using settled_ok [OF assms, of _ _ "ac_fatal_error s"] settled_ok [OF assms, of _ _ "Some ActorDiedError"]
    by (cases out) (auto simp: finish_call_def settle_def future_set_def run)
qed

lemma held_future:
  assumes "actor_ok q0 s" "held (ac_pc s) = [i]" "running (ac_pc s) = None"
  shows "future_of s i = F_PENDING \<or> future_of s i = F_CANCELLED" "i < length (ac_calls s)"
proof -
  note ok = actor_okD [OF assms(1)]
  show "i < length (ac_calls s)" using ok(1) assms(2) by (simp add: order_ok_def waiting_def)
  then show "future_of s i = F_PENDING \<or> future_of s i = F_CANCELLED"
    using ok(2) assms(2,3) by (auto simp: futures_ok_def future_ok_def waiting_def)
qed

lemma refuse_ok:
  assumes "actor_ok q0 s" "ac_pc s = T_refuse i"
  shows "actor_ok q0 (settle i (F_EXCEPTION ActorClosedError) T_get s)"
proof -
  have ph: "phase_ok (put_future i f s\<lparr>ac_pc := pc\<rparr>)" if "pc = T_get \<or> pc = T_handle e" for f pc e
    using actor_okD(4) [OF assms(1)] assms(2) that by (auto simp: phase_ok_def)
  consider "future_of s i = F_PENDING" | "future_of s i = F_CANCELLED" using held_future [OF assms(1)] assms(2) by auto
  then show ?thesis
  proof cases
    case 1
    then show ?thesis
      using dismiss_ok [OF assms(1), of i T_get "F_EXCEPTION ActorClosedError"] assms(2) ph
      by (simp add: settle_def future_set_def)
  next
    case 2
    then have "put_future i F_CANCELLED s = s" using put_future_same [of i s] by simp
    with 2 show ?thesis
      using dismiss_ok [OF assms(1), of i "T_handle InvalidStateError" F_CANCELLED] assms(2)
        ph [of "T_handle InvalidStateError" InvalidStateError F_CANCELLED]
      by (simp add: settle_def future_set_def)
  qed
qed

lemma begin_ok:
  assumes "actor_ok q0 s" "ac_pc s = T_begin i"
  shows "actor_ok q0 (case set_running_or_notify_cancel (future_of s i) of
      Inl e \<Rightarrow> s\<lparr>ac_pc := T_handle e\<rparr>
    | Inr (f, go) \<Rightarrow> (put_future i f s)\<lparr>ac_pc := if go then T_execute i else T_get\<rparr>)"
proof -
  have ph: "phase_ok (put_future i f s\<lparr>ac_pc := T_get\<rparr>)" for f
    using actor_okD(4) [OF assms(1)] assms(2) by (auto simp: phase_ok_def)
  consider "future_of s i = F_PENDING" | "future_of s i = F_CANCELLED" using held_future [OF assms(1)] assms(2) by auto
  then show ?thesis
    using begin_run_ok [OF assms] dismiss_ok [OF assms(1), of i T_get F_CANCELLED_AND_NOTIFIED] assms(2) ph
    by cases simp_all
qed

lemma get_ok:
  assumes "actor_ok q0 s" "ac_pc s = T_get" "ac_requests s = r # rs"
  shows "actor_ok q0 (s\<lparr>ac_requests := rs, ac_pc := case r of None \<Rightarrow> T_stop ActorClosedError | Some i \<Rightarrow> T_check i\<rparr>)"
  by (rule move_ok [OF assms(1)])
    (use assms(2,3) actor_okD(4) [OF assms(1)] in \<open>auto simp: waiting_def draining_def phase_ok_def split: option.splits\<close>)

lemma thread_ok:
  assumes "actor_ok q0 s" "thread_step opened s = Some s'"
  shows "actor_ok q0 s'"
proof (cases "ac_pc s")
  case T_get
  then obtain r rs where "ac_requests s = r # rs" using assms(2) by (cases "ac_requests s") (auto simp: thread_step_def)
  then show ?thesis using get_ok [OF assms(1) T_get] assms(2) T_get by (auto simp: thread_step_def split: option.splits)
next
  case (T_refuse i)
  then show ?thesis using refuse_ok [OF assms(1)] assms(2) by (auto simp: thread_step_def)
next
  case (T_begin i)
  then show ?thesis using begin_ok [OF assms(1)] assms(2) by (auto simp: thread_step_def)
next
  case (T_execute i)
  then show ?thesis using run_operation_ok [OF assms(1)] assms(2) by (auto simp: thread_step_def)
next
  case (T_finish i out)
  then show ?thesis using finish_call_ok [OF assms(1)] assms(2) by (auto simp: thread_step_def)
qed (use assms(2) actor_okD(4) [OF assms(1)] in \<open>auto simp: thread_step_def handle_error_def stop_with_error_def phase_ok_def
  waiting_def draining_def intro!: move_ok [OF assms(1)] split: if_splits option.splits\<close>)

lemma actor_step_ok: "actor_step ops s s' \<Longrightarrow> actor_ok q0 s \<Longrightarrow> actor_ok q0 s'"
  by (induction rule: actor_step.induct) (auto intro: thread_ok drain_ok submit_ok timeout_ok stop_ok)

interpretation actor: invariant_system "\<lambda>s. s = start_actor q0" "actor_step ops" "actor_ok q0" for q0 ops
  by unfold_locales (auto simp: start_ok intro: actor_step_ok)

section \<open>Calls that were given up\<close>

lemma cancelled_not_run:
  assumes "actor_ok q0 s" "i < length (ac_calls s)" "future_of s i = F_CANCELLED \<or> future_of s i = F_CANCELLED_AND_NOTIFIED"
  shows "i \<notin> set (ac_log s)"
proof
  assume i: "i \<in> set (ac_log s)"
  note ok = actor_okD [OF assms(1)]
  obtain settled outs where l: "ac_log s = settled @ map fst (option_list (finishing (ac_pc s)))"
    "list_all2 (\<lambda>i out. future_of s i = outcome_future out) settled outs"
    using ok(3) by (auto simp: log_ok_def)
  show False
  proof (cases "i \<in> set settled")
    case True
    then obtain k where k: "k < length settled" "settled ! k = i" by (auto simp: in_set_conv_nth)
    have "future_of s i = outcome_future (outs ! k)" using list_all2_nthD [OF l(2) k(1)] k(2) by simp
    then show False using assms(3) outcome_future_simps(3,4) [of "outs ! k"] by argo
  next
    case False
    then have "running (ac_pc s) = Some i" using i l(1) by (cases "ac_pc s") auto
    then show False using ok(2) assms(2,3) by (auto simp: futures_ok_def future_ok_def)
  qed
qed

section \<open>Closing\<close>

text \<open>The actor on its own: the thread, or the drain of whoever holds the lock.\<close>

definition alone :: "('q, 'r) actor \<Rightarrow> ('q, 'r) actor" where
  "alone s = (case ac_drain s of Some dr \<Rightarrow> drain_step dr s
     | None \<Rightarrow> (case thread_step None s of None \<Rightarrow> s | Some s' \<Rightarrow> s'))"

fun pc_weight :: "'r thread_pc \<Rightarrow> nat" where
  "pc_weight T_open = 15"
| "pc_weight T_ready = 14"
| "pc_weight T_started = 13"
| "pc_weight T_get = 12"
| "pc_weight (T_check i) = 17"
| "pc_weight (T_refuse i) = 16"
| "pc_weight (T_begin i) = 16"
| "pc_weight (T_execute i) = 15"
| "pc_weight (T_finish i out) = 14"
| "pc_weight (T_handle e) = 11"
| "pc_weight (T_stop e) = 10"
| "pc_weight T_drain = 1"
| "pc_weight _ = 0"

text \<open>The drain of a stop still has to put its sentinel, which the thread then takes.\<close>

definition sentinel_due :: "('q, 'r) actor \<Rightarrow> bool" where
  "sentinel_due s \<longleftrightarrow> (\<exists>dr. ac_drain s = Some dr \<and> \<not> dr_by_thread dr)"

definition steps_left :: "('q, 'r) actor \<Rightarrow> nat" where
  "steps_left s = 6 * length (ac_requests s) + pc_weight (ac_pc s) + (if draining s = None then 0 else 1)
     + (if sentinel_due s then 7 else 0)"

definition ending :: "'r thread_pc \<Rightarrow> bool" where
  "ending pc \<longleftrightarrow> pc = T_drain \<or> pc = T_exited \<or> (\<exists>e. pc = T_handle e) \<or> (\<exists>e. pc = T_stop e)"

definition closing_ok :: "('q, 'r) actor \<Rightarrow> bool" where
  "closing_ok s \<longleftrightarrow> (\<forall>e. ac_pc s \<noteq> T_crashed e) \<and> (None \<in> set (ac_requests s) \<or> ending (ac_pc s) \<or> sentinel_due s)
     \<and> (\<forall>i. draining s = Some i \<longrightarrow> \<not> future_done (future_of s i))"

lemma alone_drain:
  assumes "actor_ok q0 s" "closing_ok s" "ac_drain s = Some dr"
  shows "closing_ok (drain_step dr s) \<and> steps_left (drain_step dr s) < steps_left s"
proof -
  have pc: "dr_by_thread dr \<Longrightarrow> ac_pc s = T_drain" "\<forall>e. ac_pc s \<noteq> T_crashed e"
    using assms actor_okD(4) [OF assms(1)] by (auto simp: closing_ok_def phase_ok_def)
  have open_future: "\<not> future_done (future_of s i)" if "dr_future dr = Some i" for i
    using assms(2,3) that by (simp add: closing_ok_def draining_def)
  note simps = assms(3) drain_step_def future_set_def end_drain_def closing_ok_def steps_left_def draining_def ending_def sentinel_due_def
  show ?thesis
  proof (cases "dr_future dr")
    case None
    show ?thesis
    proof (cases "ac_requests s")
      case Nil
      with None pc show ?thesis by (cases "dr_by_thread dr") (simp_all add: simps)
    next
      case (Cons r rs)
      with None pc show ?thesis by (cases "dr_by_thread dr"; cases r) (simp_all add: simps)
    qed
  next
    case (Some i)
    with pc open_future [OF Some] show ?thesis by (cases "dr_by_thread dr") (simp_all add: simps)
  qed
qed

lemma alone_thread:
  assumes "actor_ok q0 s" "closing_ok s" "ac_drain s = None" "ac_pc s \<noteq> T_exited"
  obtains s' where "thread_step None s = Some s'" "closing_ok s'" "steps_left s' < steps_left s"
proof -
  have d: "draining s = None" "ac_pc s \<noteq> T_drain" "\<not> sentinel_due s"
    using assms actor_okD(4) [OF assms(1)] by (auto simp: draining_def phase_ok_def sentinel_due_def)
  have "ac_requests s \<noteq> []" if "ac_pc s = T_get" using assms(2) d(3) that by (auto simp: closing_ok_def ending_def)
  then have "thread_step None s \<noteq> None"
    using assms(2-4) d by (cases "ac_pc s") (auto simp: thread_step_def closing_ok_def split: list.splits option.splits)
  then obtain s' where s': "thread_step None s = Some s'" by blast
  moreover have "closing_ok s' \<and> steps_left s' < steps_left s"
    using s' assms(2-4) d
    by (cases "ac_pc s") (auto simp: thread_step_def closing_ok_def ending_def steps_left_def draining_def sentinel_due_def settle_def
        finish_call_def run_operation_def handle_error_def stop_with_error_def
        split: list.splits option.splits sum.splits prod.splits outcome.splits if_splits)
  ultimately show thesis using that by blast
qed

lemma alone_step: "alone s = s \<or> actor_step ops s (alone s)"
  by (auto simp: alone_def intro: actor_step.intros split: option.splits)

lemma alone_star: "(actor_step ops)\<^sup>*\<^sup>* s ((alone ^^ n) s)"
proof (induction n)
  case (Suc n)
  then show ?case using alone_step [of "(alone ^^ n) s" ops] by auto
qed simp

lemma alone_ok: "actor_ok q0 s \<Longrightarrow> actor_ok q0 ((alone ^^ n) s)"
  using actor.star_inv [OF alone_star] .

lemma closing_ends:
  assumes "actor_ok q0 s" "closing_ok s"
  shows "\<exists>n \<le> steps_left s. ac_pc ((alone ^^ n) s) = T_exited"
  using assms
proof (induction "steps_left s" arbitrary: s rule: less_induct)
  case less
  show ?case
  proof (cases "ac_pc s = T_exited")
    case True
    then show ?thesis by (intro exI [of _ 0]) simp
  next
    case False
    have step: "closing_ok (alone s) \<and> steps_left (alone s) < steps_left s"
    proof (cases "ac_drain s")
      case None
      obtain s' where "thread_step None s = Some s'" "closing_ok s'" "steps_left s' < steps_left s"
        by (rule alone_thread [OF less.prems None False])
      with None show ?thesis by (simp add: alone_def)
    next
      case (Some dr)
      then show ?thesis using alone_drain [OF less.prems] by (simp add: alone_def)
    qed
    then obtain n where "n \<le> steps_left (alone s)" "ac_pc ((alone ^^ n) (alone s)) = T_exited"
      using less.hyps [of "alone s"] alone_ok [OF less.prems(1), of 1] by auto
    then show ?thesis using step by (intro exI [of _ "Suc n"]) (simp add: funpow_swap1)
  qed
qed

text \<open>A stop of a thread that has not died.\<close>

lemma stop_closes:
  assumes "actor_ok q0 s" "ac_drain s = None" "\<And>e. ac_pc s \<noteq> T_crashed e"
  shows "closing_ok (request_stop s)" "steps_left (request_stop s) \<le> 6 * length (ac_requests s) + 24"
proof -
  have w: "pc_weight pc \<le> 17" for pc :: "'b thread_pc" by (cases pc) simp_all
  have "ac_pc s = T_exited" if "ac_state s = S_STOPPED"
    using actor_okD(4) [OF assms(1)] assms(2,3) that by (auto simp: phase_ok_def)
  then show "closing_ok (request_stop s)"
    using assms(2,3) by (auto simp: request_stop_def closing_ok_def ending_def sentinel_due_def draining_def)
  show "steps_left (request_stop s) \<le> 6 * length (ac_requests s) + 24"
    using w [of "ac_pc s"] assms(2) by (auto simp: request_stop_def steps_left_def sentinel_due_def draining_def)
qed

text \<open>Once it is closing, the actor never runs again, and it refuses every call.\<close>

definition refusing :: "('q, 'r) actor \<Rightarrow> bool" where
  "refusing s \<longleftrightarrow> ac_state s = S_CLOSING \<or> ac_state s = S_STOPPED"

lemma thread_refuses: "thread_step opened s = Some s' \<Longrightarrow> refusing s \<Longrightarrow> refusing s'"
  by (cases "ac_pc s") (auto simp: refusing_def thread_step_def settle_def finish_call_def run_operation_def handle_error_def
    stop_with_error_def split: list.splits option.splits sum.splits prod.splits outcome.splits if_splits)

lemma drain_refuses: "refusing s \<Longrightarrow> refusing (drain_step dr s)"
  by (auto simp: refusing_def drain_step_def end_drain_def abort_drain_def split: option.splits list.splits sum.splits)

lemma alone_refuses: "refusing s \<Longrightarrow> refusing ((alone ^^ k) s)"
  by (induction k) (auto simp: alone_def intro: thread_refuses drain_refuses split: option.splits)

lemma stop_refuses: "refusing (request_stop s)"
  by (simp add: refusing_def request_stop_def)

lemma exited_done:
  assumes "actor_ok q0 s" "ac_pc s = T_exited"
  shows "list_all (\<lambda>c. future_done (cl_future c)) (ac_calls s)"
proof -
  note ok = actor_okD [OF assms(1)]
  have "ac_drain s = None" "ac_requests s = []" using ok(4) assms(2) by (auto simp: phase_ok_def)
  then have "future_of s i \<noteq> F_PENDING \<and> future_of s i \<noteq> F_RUNNING" if "i < length (ac_calls s)" for i
    using ok(2) assms(2) that by (auto simp: futures_ok_def future_ok_def waiting_def draining_def)
  then have "future_done (future_of s i)" if "i < length (ac_calls s)" for i
    using that by (cases "future_of s i") auto
  then show ?thesis by (simp add: list_all_length future_of_def)
qed

section \<open>Operations of the queue\<close>

text \<open>A call that runs one operation of \<open>SQLiteQueue\<close>.\<close>

definition queue_call :: "(queue \<Rightarrow> 'r res \<times> queue) \<Rightarrow> queue \<Rightarrow> 'r outcome \<times> queue" where
  "queue_call f q = (case f q of (Inl e, q') \<Rightarrow> (Raised e, q') | (Inr r, q') \<Rightarrow> (Returned r, q'))"

definition queue_operation :: "pylib \<Rightarrow> (queue \<Rightarrow> 'r outcome \<times> queue) \<Rightarrow> bool" where
  "queue_operation lib f \<longleftrightarrow> (\<forall>q. (queue_step lib)\<^sup>*\<^sup>* q (snd (f q)))"

definition calls_within :: "(('q \<Rightarrow> 'r outcome \<times> 'q) \<Rightarrow> bool) \<Rightarrow> ('q, 'r) actor \<Rightarrow> bool" where
  "calls_within ops s \<longleftrightarrow> list_all (\<lambda>c. ops (cl_operation c)) (ac_calls s)"

lemma put_future_within: "calls_within ops (put_future i f s) \<longleftrightarrow> calls_within ops s"
  by (simp add: calls_within_def list_all_length)

lemma thread_within:
  assumes "thread_step opened s = Some s'" "calls_within ops s"
  shows "calls_within ops s'"
proof -
  have "calls_within ops (s\<lparr>ac_fatal_error := e\<rparr>)" for e using assms(2) by (simp add: calls_within_def)
  moreover have "calls_within ops (put_future i f s)" for i f using assms(2) by (simp add: put_future_within)
  moreover have "calls_within ops (put_future i f (s\<lparr>ac_fatal_error := e\<rparr>))" for i f e
    using assms(2) by (simp add: put_future_within) (simp add: calls_within_def)
  ultimately show ?thesis using assms
    by (auto simp: thread_step_def settle_def finish_call_def run_operation_def handle_error_def stop_with_error_def calls_within_def
        split: thread_pc.splits list.splits option.splits sum.splits prod.splits outcome.splits if_splits)
qed

lemma step_within:
  assumes "actor_step ops s s'" "calls_within ops s"
  shows "calls_within ops s'"
  using assms
proof cases
  case (actor_thread opened)
  then show ?thesis using thread_within assms(2) by blast
next
  case (actor_drain dr)
  then show ?thesis using assms(2) put_future_within [of ops _ _ s]
    by (auto simp: drain_step_def end_drain_def abort_drain_def calls_within_def split: option.splits list.splits sum.splits)
qed (use assms(2) put_future_within [of ops _ _ s] in
  \<open>auto simp: submit_call_def timeout_call_def request_stop_def Let_def calls_within_def split: if_splits\<close>)

interpretation calls: invariant_system "\<lambda>s. s = start_actor q0" "actor_step ops" "calls_within ops" for q0 ops
  by unfold_locales (auto simp: calls_within_def start_actor_def intro: step_within [unfolded calls_within_def])

lemma replay_queue:
  assumes "list_all (queue_operation lib) ops"
  shows "(queue_step lib)\<^sup>*\<^sup>* q (snd (replay_all q ops))"
  using assms
proof (induction q ops rule: replay_all.induct)
  case (2 q operation ops)
  obtain out q1 where o: "operation q = (out, q1)" by fastforce
  have "(queue_step lib)\<^sup>*\<^sup>* q q1" using 2(2) o by (auto simp: queue_operation_def dest: spec [of _ q])
  moreover have "(queue_step lib)\<^sup>*\<^sup>* q1 (snd (replay_all q1 ops))" using 2 o by simp
  ultimately have "(queue_step lib)\<^sup>*\<^sup>* q (snd (replay_all q1 ops))" by (rule rtranclp_trans)
  then show ?case by (simp add: o case_prod_unfold)
qed simp

lemma actor_queue_ok:
  assumes "actor_ok q0 s" "calls_within (queue_operation lib) s" "queue_ok q0"
  shows "queue_ok (ac_queue s)"
proof -
  note ok = actor_okD [OF assms(1)]
  have "i < length (ac_calls s)" if "i \<in> set (ac_log s)" for i using ok(1) that by (simp add: order_ok_def)
  then have "list_all (queue_operation lib) (map (\<lambda>i. cl_operation (ac_calls s ! i)) (ac_log s))"
    using assms(2) by (auto simp: calls_within_def list_all_iff)
  from replay_queue [OF this, of q0] have "(queue_step lib)\<^sup>*\<^sup>* q0 (ac_queue s)"
    using ok(3) by (auto simp: log_ok_def)
  then show ?thesis using queue.star_inv assms(3) by blast
qed

end
