(* ===== verification/Control_Machine.thy ===== *)
theory Control_Machine
  imports Control_Claim_Spec
begin

text \<open>
  The control store as a state machine: one step is one call of an operation of
  \<open>SQLiteControlStore\<close>, with any arguments and any outcome.  Interpreting the generic contracts on
  it gives the invariant of every reachable store and the append-only history between two stores.
\<close>

section \<open>Every transaction extends the history\<close>

lemma batch_close_history:
  assumes "history_db d d1"
    and "\<And>b. b \<in> set (db_batches d1) \<Longrightarrow> p b \<Longrightarrow> batch_le b (g b)"
  shows "history_db d (d1\<lparr>db_batches := update_where p g (db_batches d1)\<rparr>)"
proof (rule history_trans [OF assms(1)])
  show "history_db d1 (d1\<lparr>db_batches := update_where p g (db_batches d1)\<rparr>)"
    using assms(2) by (simp add: history_db_def rows_le_refl rows_le_update_where)
qed

lemma effect_history: "loop_effect T final d d1 \<Longrightarrow> history_db d d1"
  by (simp add: loop_effect_def)

lemma seal_tx_history:
  assumes ok: "db_ok lib d" and eq: "seal_tx identity outputs digest membership now d = Inr (d', u)"
  shows "history_db d d'"
  using eq
proof (cases rule: seal_tx_cases)
  case (2 b items d1)
  note l = seal_loop [OF ok 2(6-8)]
  have "b' = b" if "b' \<in> set (db_batches d1)" "b_batch_id b' = identity" for b'
    by (rule batch_key [of d]) (use that l(2) find_batch_SomeD [OF 2(1)] ok in
        \<open>simp_all add: loop_effect_def db_ok_def core_ok_def\<close>)
  then show ?thesis unfolding 2(9)
    by (intro batch_close_history effect_history [OF l(2)])
      (use 2(2) in \<open>auto simp: batch_le_def batch_columns_def batch_active_def\<close>)
qed simp

lemma commit_tx_history:
  assumes ok: "db_ok lib d" and eq: "commit_tx identity now d = Inr (d', ns)"
  shows "history_db d d'"
  using eq
proof (cases rule: commit_tx_cases)
  case (2 b d1)
  show ?thesis unfolding 2(6)
    by (intro batch_close_history effect_history [OF commit_loop_effect(2) [OF ok 2(1,2,5)]])
      (auto simp: batch_le_def batch_columns_def batch_active_def)
qed simp

lemma recover_tx_history:
  assumes ok: "db_ok lib d" and eq: "recover_tx now d = Inr (d', r)"
  shows "history_db d d'"
proof -
  obtain d1 where d1: "foldE (recover_work now) (expired_rows now d) d = Inr d1"
    "d' = d1\<lparr>db_batches := update_where (expired_batch now) (\<lambda>b. b\<lparr>b_status := B_EXPIRED\<rparr>) (db_batches d1)\<rparr>"
    using eq by (auto simp: recover_tx_def Let_def expired_batch_def [abs_def])
  have core: "core_ok {} d" using ok by (simp add: db_ok_def)
  show ?thesis unfolding d1(2)
    by (intro batch_close_history effect_history [OF recover_loop_effect(2) [OF core d1(1)]])
      (auto simp: batch_le_def batch_columns_def expired_batch_def)
qed

lemma history_update_work:
  assumes "\<And>w. w \<in> set (db_work d) \<Longrightarrow> p w \<Longrightarrow> work_le w (f w)"
  shows "history_db d (d\<lparr>db_work := update_where p f (db_work d)\<rparr>)"
  using assms by (simp add: history_db_def rows_le_refl rows_le_update_where)

lemma heartbeat_tx_history:
  assumes ok: "db_ok lib d" and eq: "heartbeat_tx e extension now d = Inr (d', u)"
  shows "history_db d d'"
proof -
  obtain b where b: "find_batch d (e_batch_id e) = Some b" "b_status b = B_LEASED"
    "d' = heartbeat_result e (max (b_lease_expires_at b) (fadd now extension)) now d"
    using heartbeat_tx_cases [OF eq] by metis
  have same: "b' = b" if "b' \<in> set (db_batches d)" "b_batch_id b' = e_batch_id e" for b'
    by (rule batch_key [of d]) (use that find_batch_SomeD [OF b(1)] ok in \<open>simp_all add: db_ok_def core_ok_def\<close>)
  have "rows_le work_le (db_work d) (db_work d')" unfolding b(3) heartbeat_result_def
    by (simp, rule rows_le_update_where)
      (auto simp: work_le_def work_registered_def renew_work_def fenced_by_items_def work_fenced_by_def)
  moreover have "rows_le attempt_le (db_attempts d) (db_attempts d')" unfolding b(3) heartbeat_result_def
    by (simp, rule rows_le_update_where) (auto simp: attempt_le_def attempt_sig_def attempt_active_def)
  moreover have "rows_le batch_le (db_batches d) (db_batches d')" unfolding b(3) heartbeat_result_def
    by (simp, rule rows_le_update_where)
      (use same b(2) in \<open>auto simp: batch_le_def batch_columns_def batch_active_def\<close>)
  ultimately show ?thesis unfolding b(3)
    by (simp add: history_db_def heartbeat_result_def rows_le_refl)
qed

lemma replay_tx_history:
  assumes ok: "db_ok lib d" and eq: "replay_tx lib now identity actor explanation additional d = Inr (d', r)"
  shows "history_db d d'"
  using eq
proof (cases rule: replay_tx_cases)
  case (2 w row)
  have "work_le x (requeue_work additional now (w_replay_generation w + 1) (r_replay_id row) x)"
    if "x \<in> set (db_work d)" "w_work_id x = identity \<and> w_status x = W_DEAD" for x
  proof -
    have "x = w" by (rule work_key [of d])
        (use that find_work_SomeD [OF 2(1)] ok in \<open>simp_all add: db_ok_def core_ok_def\<close>)
    then show ?thesis using that by (simp add: work_le_def work_registered_def requeue_work_def)
  qed
  then have "rows_le work_le (db_work d) (db_work d')" unfolding 2(7)
    by (simp add: rows_le_update_where)
  then show ?thesis unfolding 2(7) by (simp add: history_db_def rows_le_refl rows_le_append)
qed simp

lemma quarantine_tx_history:
  assumes "quarantine_tx lib now expected actor explanation d = Inr (d', r)"
  shows "history_db d d'"
proof -
  have "foldE (quarantine_item lib now actor explanation d) expected d = Inr d'"
    using assms by (auto simp: quarantine_tx_def split: if_splits)
  then show ?thesis
  proof (rule foldE_invariant)
    fix x t t'
    assume t: "history_db d t" "quarantine_item lib now actor explanation d x t = Inr t'"
    have "history_db t t'" using t(2)
      by (auto simp: quarantine_item_def Let_def quarantine_work_def work_le_def work_registered_def
          intro!: history_update_work split: prod.splits option.splits if_splits)
    with t(1) show "history_db d t'" by (rule history_trans)
  qed simp
qed

lemma register_row_history:
  assumes "register_row lib now payload_json q d = Inr (d', r)"
  shows "history_db d d'"
  using assms by (cases rule: register_row_cases) (simp_all add: history_db_def rows_le_refl rows_le_append)

lemma claim_loop_history:
  assumes "claim_loop owner batch_id expires now n items d = Inr d'"
  shows "history_db d d'"
  using assms
proof (induction items arbitrary: n d)
  case (Cons c cs)
  from Cons.prems show ?case
  proof (cases rule: claim_loop_step)
    case (1 w d1)
    have "history_db d d1" unfolding 1(7)
      by (auto simp: history_db_def rows_le_refl rows_le_append work_le_def work_registered_def lease_work_def
          claimable_def intro!: rows_le_update_where)
    then show ?thesis using Cons.IH [OF 1(8)] by (rule history_trans)
  qed
qed simp

lemma claim_apply_history:
  assumes "claim_apply lib cl pl batch_id expires now items so d = Inr d'"
  shows "history_db d d'"
proof -
  let ?d = "d\<lparr>db_batches := db_batches d @ [new_batch lib cl pl batch_id expires now items so]\<rparr>"
  have "claim_loop (cl_owner cl) batch_id expires now 0 items ?d = Inr d'"
    using assms by (simp add: claim_apply_def insert_batch_def)
  moreover have "history_db d ?d" by (simp add: history_db_def rows_le_refl rows_le_append)
  ultimately show ?thesis using claim_loop_history history_trans by blast
qed

section \<open>The step relation\<close>

definition control_init :: "store \<Rightarrow> bool" where
  "control_init s \<longleftrightarrow> st_files s = [] \<and> bootstrap empty_db = Inr (st_db s)"

inductive control_step :: "pylib \<Rightarrow> store \<Rightarrow> store \<Rightarrow> bool" for lib where
  reopen: "bootstrap (st_db s) = Inr d \<Longrightarrow> control_step lib s (s\<lparr>st_db := d\<rparr>)"
| register: "register lib clock ra s = (r, s') \<Longrightarrow> control_step lib s s'"
| register_many: "register_many lib clock requests s = (rs, s') \<Longrightarrow> control_step lib s s'"
| claim: "claim lib clock ids ca s = (cb, s') \<Longrightarrow> control_step lib s s'"
| heartbeat: "heartbeat_process clock e extension s = (u, s') \<Longrightarrow> control_step lib s s'"
| seal: "seal_batch clock batch_id outputs digest membership s = (u, s') \<Longrightarrow> control_step lib s s'"
| commit: "commit_batch clock batch_id s = (ns, s') \<Longrightarrow> control_step lib s s'"
| recover: "recover clock now s = (rr, s') \<Longrightarrow> control_step lib s s'"
| replay: "replay lib clock work_id operator reason additional s = (rq, s') \<Longrightarrow> control_step lib s s'"
| quarantine: "quarantine lib clock expected operator reason s = (qr, s') \<Longrightarrow> control_step lib s s'"
| reconcile: "reconcile lib clock now s = (fs, s') \<Longrightarrow> control_step lib s s'"

inductive_cases control_stepE: "control_step lib s s'"

definition history_le :: "store \<Rightarrow> store \<Rightarrow> bool" where
  "history_le s s' \<longleftrightarrow> history_db (st_db s) (st_db s') \<and> st_base s' = st_base s
     \<and> (\<forall>p c. map_of (st_files s) p = Some c \<longrightarrow> map_of (st_files s') p = Some c)"

lemma history_le_refl [simp]: "history_le s s"
  by (simp add: history_le_def)

lemma history_le_trans: "history_le s t \<Longrightarrow> history_le t u \<Longrightarrow> history_le s u"
  unfolding history_le_def using history_trans by metis

text \<open>A transaction that keeps the invariant, extends the history and inserts no batch.\<close>

definition good_tx :: "pylib \<Rightarrow> (db \<Rightarrow> (db \<times> 'r) res) \<Rightarrow> bool" where
  "good_tx lib body \<longleftrightarrow> (\<forall>d d' r. db_ok lib d \<and> body d = Inr (d', r) \<longrightarrow>
     db_ok lib d' \<and> history_db d d' \<and> length (db_batches d') = length (db_batches d))"

lemma envelopes_ok_history:
  assumes "envelopes_ok lib s" "history_db (st_db s) d" "length (db_batches d) = length (db_batches (st_db s))"
  shows "envelopes_ok lib (s\<lparr>st_db := d\<rparr>)"
proof -
  have "list_all2 batch_le (db_batches (st_db s)) (db_batches d)"
    using assms(2,3) by (simp add: history_db_def rows_le_same_length)
  then have "\<exists>b \<in> set (db_batches (st_db s)). batch_le b b'" if "b' \<in> set (db_batches d)" for b'
    using that by (metis in_set_conv_nth list_all2_conv_all_nth)
  then show ?thesis
    using assms(1) unfolding envelopes_ok_def batch_le_def batch_columns_def by fastforce
qed

lemma good_tx_step:
  assumes "good_tx lib body" "store_ok lib s" "transaction body s = (r, s')"
  shows "store_ok lib s' \<and> history_le s s'"
  using assms(3)
proof (cases rule: transaction_cases)
  case (2 d x)
  then have "db_ok lib d \<and> history_db (st_db s) d \<and> length (db_batches d) = length (db_batches (st_db s))"
    using assms(1,2) unfolding good_tx_def store_ok_def by blast
  with 2(3) assms(2) envelopes_ok_history [of lib s d] show ?thesis
    by (simp add: store_ok_def history_le_def)
qed (use assms(2) in simp)

lemma good_txI:
  assumes "\<And>d d' r. db_ok lib d \<Longrightarrow> body d = Inr (d', r) \<Longrightarrow> db_ok lib d'"
    "\<And>d d' r. db_ok lib d \<Longrightarrow> body d = Inr (d', r) \<Longrightarrow> history_db d d'"
    "\<And>d d' r. db_ok lib d \<Longrightarrow> body d = Inr (d', r) \<Longrightarrow> length (db_batches d') = length (db_batches d)"
  shows "good_tx lib body"
  using assms unfolding good_tx_def by blast

lemma good_register_row:
  assumes "1 \<le> q_max_attempts q"
  shows "good_tx lib (register_row lib now payload_json q)"
proof (rule good_txI)
  show "length (db_batches d') = length (db_batches d)"
    if "register_row lib now payload_json q d = Inr (d', r)" for d d' r
    using that by (cases rule: register_row_cases) simp_all
qed (use register_row_db_ok [OF _ assms] register_row_history in blast)+

lemma good_seal: "good_tx lib (seal_tx identity outputs digest membership now)"
proof (rule good_txI)
  show "length (db_batches d') = length (db_batches d)"
    if ok: "db_ok lib d" and eq: "seal_tx identity outputs digest membership now d = Inr (d', u)" for d d' u
    using eq by (cases rule: seal_tx_cases) (auto dest: seal_loop(2) [OF ok] simp: loop_effect_def)
qed (fact seal_tx_db_ok seal_tx_history)+

lemma good_commit: "good_tx lib (commit_tx identity now)"
proof (rule good_txI)
  show "length (db_batches d') = length (db_batches d)"
    if ok: "db_ok lib d" and eq: "commit_tx identity now d = Inr (d', u)" for d d' u
    using eq by (cases rule: commit_tx_cases) (auto dest: commit_loop_effect(2) [OF ok] simp: loop_effect_def)
qed (fact commit_tx_db_ok commit_tx_history)+

lemma good_recover: "good_tx lib (recover_tx now)"
proof (rule good_txI)
  show "length (db_batches d') = length (db_batches d)"
    if "db_ok lib d" and eq: "recover_tx now d = Inr (d', u)" for d d' u
  proof -
    have core: "core_ok {} d" using \<open>db_ok lib d\<close> by (simp add: db_ok_def)
    show ?thesis using eq
      by (auto simp: recover_tx_def Let_def loop_effect_def dest!: recover_loop_effect(2) [OF core])
  qed
qed (fact recover_tx_db_ok recover_tx_history)+

lemma good_heartbeat: "good_tx lib (heartbeat_tx e extension now)"
proof (rule good_txI)
  show "length (db_batches d') = length (db_batches d)"
    if eq: "heartbeat_tx e extension now d = Inr (d', u)" for d d' u
    using eq by (cases rule: heartbeat_tx_cases) (simp add: heartbeat_result_def)
qed (fact heartbeat_tx_db_ok heartbeat_tx_history)+

lemma good_replay:
  assumes "1 \<le> additional"
  shows "good_tx lib (replay_tx lib now identity actor explanation additional)"
proof (rule good_txI)
  show "length (db_batches d') = length (db_batches d)"
    if eq: "replay_tx lib now identity actor explanation additional d = Inr (d', r)" for d d' r
    using eq by (cases rule: replay_tx_cases) simp_all
qed (use replay_tx_db_ok [OF _ assms] replay_tx_history in blast)+

lemma good_quarantine: "good_tx lib (quarantine_tx lib now expected actor explanation)"
proof (rule good_txI)
  show "length (db_batches d') = length (db_batches d)"
    if eq: "quarantine_tx lib now expected actor explanation d = Inr (d', r)" for d d' r
  proof -
    have "foldE (quarantine_item lib now actor explanation d) expected d = Inr d'"
      using eq by (auto simp: quarantine_tx_def split: if_splits)
    then show ?thesis
      by (rule foldE_invariant)
        (auto simp: quarantine_item_def Let_def split: prod.splits option.splits if_splits)
  qed
qed (use quarantine_tx_db_ok quarantine_tx_history in blast)+

lemma good_reconcile: "good_tx lib (reconcile_tx lib now fs)"
proof (rule good_txI)
  show "length (db_batches d') = length (db_batches d)"
    if "reconcile_tx lib now fs d = Inr (d', r)" for d d' r
    using reconcile_tx_db [OF that] by auto
  show "history_db d d'" if "reconcile_tx lib now fs d = Inr (d', r)" for d d' r
    using reconcile_tx_db [OF that] by (auto simp: history_db_def rows_le_refl)
qed (fact reconcile_tx_db_ok)

section \<open>The store's contracts\<close>

lemma validated_max_attempts: "validate_register ra = Inr q \<Longrightarrow> 1 \<le> q_max_attempts q"
  by (cases "ra_payload ra"; cases "ra_max_attempts ra")
    (auto simp: validate_register_def bounded_int_def split: if_splits)

lemma normalize_item_max_attempts: "normalize_item v = Inr q \<Longrightarrow> 1 \<le> q_max_attempts q"
  by (auto simp: normalize_item_def bounded_int_def split: pyval.splits if_splits)

lemma normalized_max_attempts:
  assumes "normalize_registration_requests v = Inr qs" "q \<in> set qs"
  shows "1 \<le> q_max_attempts q"
proof -
  obtain vs where "mapE normalize_item vs = Inr qs"
    using assms(1) by (auto simp: normalize_registration_requests_def simp del: mapE.simps
        split: pyval.splits list.splits)
  from mapE_mem [OF this assms(2)] show ?thesis by (auto dest: normalize_item_max_attempts)
qed

definition many_tx :: "pylib \<Rightarrow> pyfloat \<Rightarrow> request list \<Rightarrow> db \<Rightarrow> (db \<times> registered_work list) res" where
  "many_tx lib now qs d = bindE (foldE (register_many_step lib now) qs (d, [], [])) (\<lambda>(d', done, seen).
     Inr (d', done))"

lemma good_many:
  assumes "\<And>q. q \<in> set qs \<Longrightarrow> 1 \<le> q_max_attempts q"
  shows "good_tx lib (many_tx lib now qs)"
  unfolding good_tx_def
proof (intro allI impI, elim conjE)
  fix d d' r
  assume ok: "db_ok lib d" and eq: "many_tx lib now qs d = Inr (d', r)"
  let ?P = "\<lambda>st. db_ok lib (fst st) \<and> history_db d (fst st) \<and> length (db_batches (fst st)) = length (db_batches d)"
  obtain seen where f: "foldE (register_many_step lib now) qs (d, [], []) = Inr (d', r, seen)"
    using eq by (auto simp: many_tx_def)
  have "?P (d', r, seen)"
  proof (rule foldE_invariant [OF f])
    fix q st st'
    assume q: "q \<in> set qs" "?P st" "register_many_step lib now q st = Inr st'"
    then consider "fst st' = fst st"
      | pj r' where "register_row lib now pj q (fst st) = Inr (fst st', r')"
      by (auto simp: register_many_step_def Let_def split: prod.splits option.splits if_splits)
    then show "?P st'"
    proof cases
      case 2
      then have "db_ok lib (fst st') \<and> history_db (fst st) (fst st')
          \<and> length (db_batches (fst st')) = length (db_batches (fst st))"
        using good_register_row [OF assms [OF q(1)], of lib now pj] q(2) unfolding good_tx_def by blast
      then show ?thesis using q(2) history_trans by auto
    qed (use q(2) in simp)
  qed (use ok in simp)
  then show "db_ok lib d' \<and> history_db d d' \<and> length (db_batches d') = length (db_batches d)" by simp
qed

lemma many_tx_step:
  assumes ok: "store_ok lib s" and eq: "register_many lib clock requests s = (rs, s')"
  shows "store_ok lib s' \<and> history_le s s'"
proof (cases "normalize_registration_requests requests")
  case (Inl e)
  with assms show ?thesis by (simp add: register_many_def)
next
  case (Inr qs)
  show ?thesis
  proof (cases "finite_num clock")
    case (Inl e)
    with assms Inr show ?thesis by (simp add: register_many_def)
  next
    case now: (Inr now)
    have "transaction (many_tx lib now qs) s = (rs, s')"
      using eq Inr now by (simp add: register_many_def many_tx_def [abs_def])
    moreover have "good_tx lib (many_tx lib now qs)"
      by (rule good_many) (rule normalized_max_attempts [OF Inr])
    ultimately show ?thesis using good_tx_step ok by blast
  qed
qed

lemma register_step:
  assumes ok: "store_ok lib s" and eq: "register lib clock ra s = (r, s')"
  shows "store_ok lib s' \<and> history_le s s'"
proof -
  have "s' = s \<or> (\<exists>q payload_json now. 1 \<le> q_max_attempts q \<and>
      transaction (register_row lib now payload_json q) s = (r, s'))"
    using eq by (auto simp: register_def bindE_def dest: validated_max_attempts split: sum.splits)
  then show ?thesis using good_tx_step [OF good_register_row ok] ok by auto
qed

lemma claim_step:
  assumes ok: "store_ok lib s" and eq: "claim lib clock ids ca s = (r, s')"
  shows "store_ok lib s' \<and> history_le s s'"
proof
  show "store_ok lib s'" by (rule claim_store_ok [OF assms])
  show "history_le s s'" using eq
    by (cases rule: claim_cases)
      (auto simp: history_le_def put_json_keeps claim_apply_history)
qed

lemma control_step_ok:
  assumes ok: "store_ok lib s" and step: "control_step lib s s'"
  shows "store_ok lib s' \<and> history_le s s'"
  using step
proof cases
  case (reopen d)
  then have "d = (st_db s)\<lparr>db_schema_version := db_schema_version d, db_user_version := 1\<rparr>"
    by (auto simp: bootstrap_def Let_def split: if_splits option.splits)
  then obtain v where d: "d = (st_db s)\<lparr>db_schema_version := v, db_user_version := 1\<rparr>" by blast
  have "db_ok lib d = db_ok lib (st_db s)" "db_batches d = db_batches (st_db s)"
    unfolding d by (simp_all add: db_ok_def core_ok_def keys_ok_def attempts_ok_def leases_ok_def
        publications_ok_def outputs_ok_def members_ok_def batch_membership_ok_def batch_members_def replays_ok_def)
  moreover have "history_db (st_db s) d" unfolding d by (simp add: history_db_def rows_le_refl)
  ultimately show ?thesis using ok reopen(1) by (simp add: store_ok_def envelopes_ok_def history_le_def)
next
  case register
  then show ?thesis by (rule register_step [OF ok])
next
  case register_many
  then show ?thesis by (rule many_tx_step [OF ok])
next
  case claim
  then show ?thesis by (rule claim_step [OF ok])
next
  case heartbeat
  then show ?thesis using good_tx_step [OF good_heartbeat ok] ok
    by (auto simp: heartbeat_process_def split: sum.splits)
next
  case seal
  then show ?thesis using good_tx_step [OF good_seal ok] ok
    by (auto simp: seal_batch_def split: sum.splits)
next
  case commit
  then show ?thesis using good_tx_step [OF good_commit ok] ok
    by (auto simp: commit_batch_def split: sum.splits)
next
  case recover
  then show ?thesis using good_tx_step [OF good_recover ok] ok
    by (auto simp: recover_def split: sum.splits)
next
  case (replay clock work_id operator reason additional rq)
  then have "s' = s \<or> (\<exists>now i a x n. 1 \<le> n \<and> transaction (replay_tx lib now i a x n) s = (rq, s'))"
    by (auto simp: replay_def bindE_def bounded_int_def split: sum.splits pyval.splits if_splits)
  then show ?thesis using good_tx_step [OF good_replay ok] ok by auto
next
  case quarantine
  then show ?thesis using good_tx_step [OF good_quarantine ok] ok
    by (auto simp: quarantine_def split: sum.splits)
next
  case reconcile
  then show ?thesis using good_tx_step [OF good_reconcile ok] ok
    by (auto simp: reconcile_def split: sum.splits)
qed

lemma control_init_ok:
  assumes "control_init s"
  shows "store_ok lib s"
proof -
  have "st_db s = empty_db\<lparr>db_schema_version := Some 1, db_user_version := 1\<rparr>"
    using assms by (simp add: control_init_def bootstrap_def empty_db_def)
  then show ?thesis
    by (simp add: store_ok_def empty_db_def db_ok_def core_ok_def keys_ok_def attempts_ok_def leases_ok_def
        publications_ok_def outputs_ok_def members_ok_def replays_ok_def envelopes_ok_def)
qed

interpretation control: history_system control_init "control_step lib" "store_ok lib" history_le for lib
proof
  show "store_ok lib s" if "control_init s" for s using control_init_ok [OF that] .
  show "store_ok lib s'" "history_le s s'" if "store_ok lib s" "control_step lib s s'" for s s'
    using control_step_ok [OF that] by auto
  show "history_le s u" if "history_le s t" "history_le t u" for s t u
    using history_le_trans [OF that] .
qed simp

section \<open>What registration guarantees of every row\<close>

text \<open>The part of a row that registration writes and nothing changes: its texts are not blank, its duration is positive, and the
  stored payload is the canonical text of an object, under its hash.\<close>

definition row_registered :: "pylib \<Rightarrow> work_row \<Rightarrow> bool" where
  "row_registered lib w \<longleftrightarrow> (\<forall>t \<in> {w_work_id w, w_runtime_key w, w_config_sha256 w, w_release_digest w}. py_strip t \<noteq> [])
     \<and> 0 < w_duration_seconds w \<and> w_payload_sha256 w = sha256_hex lib (w_payload_json w)
     \<and> (\<exists>p. finite_json (PDict p) \<and> w_payload_json w = dumps lib (PDict p))"

definition rows_registered :: "pylib \<Rightarrow> db \<Rightarrow> bool" where
  "rows_registered lib d \<longleftrightarrow> (\<forall>w \<in> set (db_work d). row_registered lib w)"

definition keeps_rows :: "pylib \<Rightarrow> (db \<Rightarrow> (db \<times> 'r) res) \<Rightarrow> bool" where
  "keeps_rows lib body \<longleftrightarrow> (\<forall>d d' r. db_ok lib d \<and> rows_registered lib d \<and> body d = Inr (d', r) \<longrightarrow> rows_registered lib d')"

lemma same_rows_registered:
  assumes "rows_registered lib d" "history_db d d'" "length (db_work d') = length (db_work d)"
  shows "rows_registered lib d'"
proof -
  have all2: "list_all2 work_le (db_work d) (db_work d')"
    using assms(2,3) by (simp add: history_db_def rows_le_same_length)
  have "\<exists>w \<in> set (db_work d). work_registered w' = work_registered w" if "w' \<in> set (db_work d')" for w'
  proof -
    from that obtain i where i: "i < length (db_work d')" "db_work d' ! i = w'" unfolding in_set_conv_nth by blast
    then have "work_le (db_work d ! i) w'" "db_work d ! i \<in> set (db_work d)"
      using list_all2_nthD2 [OF all2] list_all2_lengthD [OF all2] by auto
    then show ?thesis unfolding work_le_def by metis
  qed
  moreover have "row_registered lib w' = row_registered lib w" if "work_registered w' = work_registered w" for w w'
    using that unfolding work_registered_def row_registered_def prod.inject by (elim conjE) (simp only:)
  ultimately show ?thesis using assms(1) unfolding rows_registered_def by meson
qed

lemma keeps_rowsI:
  assumes "good_tx lib body" "\<And>d d' r. db_ok lib d \<Longrightarrow> body d = Inr (d', r) \<Longrightarrow> length (db_work d') = length (db_work d)"
  shows "keeps_rows lib body"
  using assms same_rows_registered unfolding keeps_rows_def good_tx_def by blast

lemma effect_work: "loop_effect T final d d' \<Longrightarrow> length (db_work d') = length (db_work d)"
  unfolding loop_effect_def by (metis length_map)

lemma keeps_rows_ops:
  "keeps_rows lib (seal_tx identity outputs digest membership now)" "keeps_rows lib (commit_tx identity now)"
  "keeps_rows lib (recover_tx now)" "keeps_rows lib (heartbeat_tx e extension now)"
  "1 \<le> additional \<Longrightarrow> keeps_rows lib (replay_tx lib now identity actor explanation additional)"
  "keeps_rows lib (quarantine_tx lib now expected actor explanation)" "keeps_rows lib (reconcile_tx lib now fs)"
proof -
  show "keeps_rows lib (seal_tx identity outputs digest membership now)"
  proof (rule keeps_rowsI [OF good_seal])
    show "length (db_work d') = length (db_work d)"
      if "db_ok lib d" "seal_tx identity outputs digest membership now d = Inr (d', r)" for d d' r
      using that(2) by (cases rule: seal_tx_cases) (auto dest!: seal_loop(2) [OF that(1)] effect_work)
  qed
  show "keeps_rows lib (commit_tx identity now)"
  proof (rule keeps_rowsI [OF good_commit])
    show "length (db_work d') = length (db_work d)" if "db_ok lib d" "commit_tx identity now d = Inr (d', r)" for d d' r
      using that(2) by (cases rule: commit_tx_cases) (auto dest: commit_loop_effect(2) [OF that(1)] effect_work)
  qed
  show "keeps_rows lib (recover_tx now)"
  proof (rule keeps_rowsI [OF good_recover])
    show "length (db_work d') = length (db_work d)" if ok: "db_ok lib d" and tx: "recover_tx now d = Inr (d', r)" for d d' r
    proof -
      have core: "core_ok {} d" using ok by (simp add: db_ok_def)
      obtain d1 where d1: "foldE (recover_work now) (expired_rows now d) d = Inr d1" "db_work d' = db_work d1"
        using tx by (auto simp: recover_tx_def Let_def)
      show ?thesis using effect_work [OF recover_loop_effect(2) [OF core d1(1)]] d1(2) by simp
    qed
  qed
  show "keeps_rows lib (heartbeat_tx e extension now)"
  proof (rule keeps_rowsI [OF good_heartbeat])
    show "length (db_work d') = length (db_work d)" if "heartbeat_tx e extension now d = Inr (d', r)" for d d' r
      using that by (cases rule: heartbeat_tx_cases) (simp add: heartbeat_result_def)
  qed
  show "keeps_rows lib (replay_tx lib now identity actor explanation additional)" if "1 \<le> additional"
  proof (rule keeps_rowsI [OF good_replay [OF that]])
    show "length (db_work d') = length (db_work d)"
      if "replay_tx lib now identity actor explanation additional d = Inr (d', r)" for d d' r
      using that by (cases rule: replay_tx_cases) simp_all
  qed
  show "keeps_rows lib (quarantine_tx lib now expected actor explanation)"
  proof (rule keeps_rowsI [OF good_quarantine])
    show "length (db_work d') = length (db_work d)" if "quarantine_tx lib now expected actor explanation d = Inr (d', r)" for d d' r
    proof -
      have "foldE (quarantine_item lib now actor explanation d) expected d = Inr d'"
        using that by (auto simp: quarantine_tx_def split: if_splits)
      then show ?thesis
        by (rule foldE_invariant) (auto simp: quarantine_item_def Let_def split: prod.splits option.splits if_splits)
    qed
  qed
  show "keeps_rows lib (reconcile_tx lib now fs)"
    by (rule keeps_rowsI [OF good_reconcile]) (auto dest!: reconcile_tx_db)
qed

text \<open>Registration appends a row that is registered.\<close>

definition request_ok :: "request \<Rightarrow> bool" where
  "request_ok q \<longleftrightarrow> (\<forall>t \<in> {q_work_id q, q_runtime_key q, q_config_sha256 q, q_release_digest q}. py_strip t \<noteq> [])
     \<and> 0 < q_duration_seconds q"

lemma register_row_registered:
  assumes "register_row lib now payload_json q d = Inr (d', r)" "rows_registered lib d" "request_ok q"
    and "canonical_json lib (PDict (q_payload q)) = Inr payload_json"
  shows "rows_registered lib d'"
proof -
  have "row_registered lib (new_work payload_json (sha256_hex lib payload_json) q now)"
    using assms(3,4) by (auto simp: row_registered_def request_ok_def new_work_def canonical_json_def simp del: dumps.simps finite_json.simps
        split: if_splits)
  with assms(1,2) show ?thesis by (cases rule: register_row_cases) (auto simp: rows_registered_def)
qed

lemma validated_request: "validate_register ra = Inr q \<Longrightarrow> request_ok q"
  by (cases "ra_payload ra")
    (auto simp: validate_register_def request_ok_def required_text_def positive_finite_def split: pyval.splits if_splits)

lemma normalized_request: "normalize_item v = Inr q \<Longrightarrow> request_ok q"
  by (auto simp: normalize_item_def request_ok_def required_text_def positive_finite_def split: pyval.splits if_splits)

lemma many_registered:
  assumes "many_tx lib now qs d = Inr (d', r)" "rows_registered lib d" "\<And>q. q \<in> set qs \<Longrightarrow> request_ok q"
  shows "rows_registered lib d'"
proof -
  obtain seen where f: "foldE (register_many_step lib now) qs (d, [], []) = Inr (d', r, seen)"
    using assms(1) by (auto simp: many_tx_def)
  have "rows_registered lib (fst (d', r, seen))"
  proof (rule foldE_invariant [OF f])
    fix q st st'
    assume q: "q \<in> set qs" "rows_registered lib (fst st)" "register_many_step lib now q st = Inr st'"
    then consider "fst st' = fst st"
      | pj r' where "register_row lib now pj q (fst st) = Inr (fst st', r')" "canonical_json lib (PDict (q_payload q)) = Inr pj"
      by (auto simp: register_many_step_def Let_def split: prod.splits option.splits if_splits)
    then show "rows_registered lib (fst st')"
      by cases (use q(2) register_row_registered assms(3) [OF q(1)] in auto)
  qed (use assms(2) in simp)
  then show ?thesis by simp
qed

lemma tx_registered:
  assumes "keeps_rows lib body" "store_ok lib s" "rows_registered lib (st_db s)" "transaction body s = (r, s')"
  shows "rows_registered lib (st_db s')"
  using assms(4)
proof (cases rule: transaction_cases)
  case (2 d x)
  with assms(1-3) show ?thesis unfolding keeps_rows_def store_ok_def by auto
qed (use assms(3) in simp)

lemma claim_loop_work: "claim_loop owner batch_id expires now n items d = Inr d' \<Longrightarrow> length (db_work d') = length (db_work d)"
proof (induction items arbitrary: n d)
  case (Cons c cs)
  from Cons.prems show ?case by (cases rule: claim_loop_step) (use Cons.IH in auto)
qed simp

lemma step_registered:
  assumes ok: "store_ok lib s" and rows: "rows_registered lib (st_db s)" and step: "control_step lib s s'"
  shows "rows_registered lib (st_db s')"
  using step
proof cases
  case (reopen d)
  then show ?thesis using rows by (auto simp: bootstrap_def rows_registered_def Let_def split: if_splits option.splits)
next
  case (register clock ra r)
  then consider "s' = s" | q payload_json now where "validate_register ra = Inr q" "canonical_json lib (PDict (q_payload q)) = Inr payload_json"
      "transaction (register_row lib now payload_json q) s = (r, s')"
    by (auto simp: register_def bindE_def split: sum.splits)
  then show ?thesis
  proof cases
    case 2
    from 2(3) show ?thesis
      by (cases rule: transaction_cases) (use register_row_registered [OF _ rows validated_request [OF 2(1)] 2(2)] rows in auto)
  qed (use rows in simp)
next
  case (register_many clock requests rs)
  then consider "s' = s" | qs now where "normalize_registration_requests requests = Inr qs" "transaction (many_tx lib now qs) s = (rs, s')"
    by (auto simp: register_many_def many_tx_def [abs_def] bindE_def split: sum.splits)
  then show ?thesis
  proof cases
    case 2
    have "request_ok q" if "q \<in> set qs" for q
    proof -
      obtain vs where "mapE normalize_item vs = Inr qs"
        using 2(1) by (auto simp: normalize_registration_requests_def simp del: mapE.simps split: pyval.splits list.splits)
      from mapE_mem [OF this that] show ?thesis by (auto dest: normalized_request)
    qed
    with 2(2) show ?thesis by (cases rule: transaction_cases) (use many_registered [OF _ rows] rows in auto)
  qed (use rows in simp)
next
  case claim
  then show ?thesis
  proof (cases rule: claim_cases)
    case (claimed cl now pl items docs so fs d')
    have "length (db_work d') = length (db_work (st_db s))"
      using claimed claim_loop_work by (fastforce simp: claim_apply_def insert_batch_def split: if_splits)
    with claimed claim_apply_history same_rows_registered [OF rows] show ?thesis by auto
  qed (use rows in auto)
next
  case heartbeat
  then show ?thesis using tx_registered [OF keeps_rows_ops(4) ok rows] rows by (auto simp: heartbeat_process_def split: sum.splits)
next
  case seal
  then show ?thesis using tx_registered [OF keeps_rows_ops(1) ok rows] rows by (auto simp: seal_batch_def split: sum.splits)
next
  case commit
  then show ?thesis using tx_registered [OF keeps_rows_ops(2) ok rows] rows by (auto simp: commit_batch_def split: sum.splits)
next
  case recover
  then show ?thesis using tx_registered [OF keeps_rows_ops(3) ok rows] rows by (auto simp: recover_def split: sum.splits)
next
  case (replay clock work_id operator reason additional rq)
  then have "s' = s \<or> (\<exists>now i a x n. 1 \<le> n \<and> transaction (replay_tx lib now i a x n) s = (rq, s'))"
    by (auto simp: replay_def bindE_def bounded_int_def split: sum.splits pyval.splits if_splits)
  then show ?thesis using tx_registered [OF keeps_rows_ops(5) ok rows] rows by auto
next
  case quarantine
  then show ?thesis using tx_registered [OF keeps_rows_ops(6) ok rows] rows by (auto simp: quarantine_def split: sum.splits)
next
  case reconcile
  then show ?thesis using tx_registered [OF keeps_rows_ops(7) ok rows] rows by (auto simp: reconcile_def split: sum.splits)
qed

interpretation registered: invariant_system control_init "control_step lib" "\<lambda>s. store_ok lib s \<and> rows_registered lib (st_db s)" for lib
proof
  fix s assume "control_init s"
  then have "st_db s = empty_db\<lparr>db_schema_version := Some 1, db_user_version := 1\<rparr>"
    by (simp add: control_init_def bootstrap_def empty_db_def)
  then have "rows_registered lib (st_db s)" by (simp add: rows_registered_def empty_db_def)
  with control_init_ok [OF \<open>control_init s\<close>] show "store_ok lib s \<and> rows_registered lib (st_db s)" by simp
qed (use control_step_ok step_registered in blast)

end
