(* ===== verification/Control_Commit_Spec.thy ===== *)
theory Control_Commit_Spec
  imports Control_Machine
begin

text \<open>
  What \<open>commit_batch\<close> does to a sealed, live batch of a well-formed store: it always succeeds,
  publishes every successful attempt under consecutive sequence numbers, releases every failed one,
  and a second commit returns the same sequences and changes nothing.
\<close>

section \<open>The rows it writes\<close>

fun new_publications :: "string \<Rightarrow> pyfloat \<Rightarrow> int \<Rightarrow> (attempt_row \<times> work_row) list \<Rightarrow> publication_row list" where
  "new_publications batch_id now n [] = []"
| "new_publications batch_id now n ((a, w) # rs) =
     (if a_terminal_succeeded a = Some True
      then \<lparr>p_publication_sequence = n + 1, p_work_id = a_work_id a, p_attempt_id = a_attempt_id a,
             p_batch_id = batch_id, p_output_path = the (a_output_path a),
             p_output_sha256 = the (a_output_sha256 a), p_published_at = now\<rparr>
           # new_publications batch_id now (n + 1) rs
      else new_publications batch_id now n rs)"

lemma new_publications_bounds:
  "p \<in> set (new_publications batch_id now n rs) \<Longrightarrow> n < p_publication_sequence p \<and> p_batch_id p = batch_id"
  by (induction batch_id now n rs rule: new_publications.induct) (auto split: if_splits)

lemma new_publications_sorted:
  "sorted_wrt (<) (map p_publication_sequence (new_publications batch_id now n rs))"
  by (induction batch_id now n rs rule: new_publications.induct) (auto dest: new_publications_bounds)

lemma commit_attempt_publications:
  assumes "commit_attempt batch_id now (a, w) d = Inr (d', n)"
  shows "db_publications d' = db_publications d @ new_publications batch_id now (db_last_publication d) [(a, w)]"
    "db_last_publication d' = db_last_publication d + int (length (new_publications batch_id now (db_last_publication d) [(a, w)]))"
    "(case n of None \<Rightarrow> [] | Some k \<Rightarrow> [k]) =
       map p_publication_sequence (new_publications batch_id now (db_last_publication d) [(a, w)])"
  using assms
  by (auto simp: commit_attempt_def publish_attempt_def insert_publication_def commit_failed_attempt_def Let_def
      split: option.splits if_splits)

lemma new_publications_Cons:
  "new_publications batch_id now n (r # rs) = new_publications batch_id now n [r] @
     new_publications batch_id now (n + int (length (new_publications batch_id now n [r]))) rs"
  by (cases r) simp

lemma commit_loop_publications:
  assumes "commit_loop batch_id now rs d = Inr (d', ns)"
  shows "db_publications d' = db_publications d @ new_publications batch_id now (db_last_publication d) rs
    \<and> ns = map p_publication_sequence (new_publications batch_id now (db_last_publication d) rs)"
  using assms
proof (induction rs arbitrary: d ns)
  case (Cons r rs)
  obtain a w where r: "r = (a, w)" by (cases r)
  obtain d1 n ms where c: "commit_attempt batch_id now (a, w) d = Inr (d1, n)"
    "commit_loop batch_id now rs d1 = Inr (d', ms)" "ns = (case n of None \<Rightarrow> [] | Some k \<Rightarrow> [k]) @ ms"
    using Cons.prems r by (auto split: option.splits)
  show ?case
    using Cons.IH [OF c(2)] commit_attempt_publications [OF c(1)] c(3)
    unfolding new_publications_Cons [of _ _ _ r] r by simp
qed simp

section \<open>It always succeeds\<close>

lemma unpublished:
  assumes core: "core_ok X d" and a: "a \<in> set (db_attempts d)" "w \<in> set (db_work d)"
    "w_work_id w = a_work_id a" "attempt_active a"
  shows "a_work_id a \<notin> p_work_id ` set (db_publications d)" "a_attempt_id a \<notin> p_attempt_id ` set (db_publications d)"
    "w_committed_attempt_id w = None"
proof -
  have "w_status w = W_LEASED" using active_row(1) [OF core a] by (simp add: holds_fence_def)
  then show none: "w_committed_attempt_id w = None"
    using core_okD(2) [OF core a(2)] by (auto simp: work_ok_def)
  have link: "\<exists>a' \<in> set (db_attempts d). \<exists>w' \<in> set (db_work d). publication_link p a' w'"
    if "p \<in> set (db_publications d)" for p
    using core_okD(5) [OF core] that unfolding publications_ok_def by blast
  show "a_work_id a \<notin> p_work_id ` set (db_publications d)"
  proof
    assume "a_work_id a \<in> p_work_id ` set (db_publications d)"
    then obtain p a' w' where p: "p_work_id p = a_work_id a" "w' \<in> set (db_work d)" "publication_link p a' w'"
      using link by fastforce
    have "w' = w" by (rule work_key [OF core_okD(1) [OF core] p(2) a(2)])
        (use p a(3) in \<open>simp add: publication_link_def\<close>)
    with p(3) none show False by (simp add: publication_link_def)
  qed
  show "a_attempt_id a \<notin> p_attempt_id ` set (db_publications d)"
  proof
    assume "a_attempt_id a \<in> p_attempt_id ` set (db_publications d)"
    then obtain p a' w' where p: "p_attempt_id p = a_attempt_id a" "a' \<in> set (db_attempts d)" "publication_link p a' w'"
      using link by fastforce
    have "a' = a" by (rule attempt_key [OF core_okD(1) [OF core] p(2) a(1)])
        (use p in \<open>simp add: publication_link_def\<close>)
    with p(3) a(4) show False by (simp add: publication_link_def attempt_active_def)
  qed
qed

lemma commit_attempt_total:
  assumes core: "core_ok {batch_id} d" and cur: "commit_current batch_id (a, w) d" and sealed: "a_status a = A_SEALED"
  shows "\<exists>d' n. commit_attempt batch_id now (a, w) d = Inr (d', n)"
proof -
  have c: "a \<in> set (db_attempts d)" "w \<in> set (db_work d)" "w_work_id w = a_work_id a" "attempt_active a"
    using cur by (simp_all add: commit_current_def)
  obtain b where "link_ok {batch_id} a w b" using link_of_work [OF core c(1-3)] .
  then obtain path digest where out: "a_output_path a = Some path" "a_output_sha256 a = Some digest"
    using sealed by (auto simp: link_ok_def)
  note row = active_row [OF core c] and free = unpublished [OF core c]
  have "rowcount (work_fenced_by (a_work_id a) (a_attempt_id a) (a_fence a)) (db_work d) = 1"
    by (subst rowcount_1_key [OF keys_okD(1) [OF core_okD(1) [OF core]], where x = "a_work_id a"])
      (use row(3) c in \<open>auto simp: work_fenced_by_def\<close>)
  then show ?thesis
    using out sealed row(1) free
    by (simp add: commit_attempt_def publish_attempt_def insert_publication_def commit_failed_attempt_def Let_def)
qed

lemma commit_current_rest:
  assumes core: "core_ok X d" and step: "attempt_step X d d1 x x' v v'" "a_attempt_id x = a_attempt_id (fst r)"
    and rows: "distinct (map (\<lambda>r. a_attempt_id (fst r)) (r # rs))" "q \<in> set rs" "commit_current batch_id q d"
  shows "commit_current batch_id q d1"
proof -
  have "a_attempt_id (fst q) \<in> (\<lambda>r. a_attempt_id (fst r)) ` set rs" using rows(2) by (rule imageI)
  then have "a_attempt_id x \<noteq> a_attempt_id (fst q)" using rows(1) step(2) by (metis distinct.simps(2) image_set list.simps(9))
  then show ?thesis by (rule commit_current_keep [OF core rows(3) step(1)])
qed

lemma commit_loop_total:
  assumes "core_ok {batch_id} d" "distinct (map (\<lambda>r. a_attempt_id (fst r)) rs)"
    "\<forall>r \<in> set rs. commit_current batch_id r d \<and> a_status (fst r) = A_SEALED"
  shows "\<exists>d' ns. commit_loop batch_id now rs d = Inr (d', ns)"
  using assms
proof (induction rs arbitrary: d)
  case (Cons r rs)
  obtain a w where r: "r = (a, w)" by (cases r)
  obtain d1 n where c: "commit_attempt batch_id now (a, w) d = Inr (d1, n)"
    using commit_attempt_total [OF Cons.prems(1), of a w now] Cons.prems(3) r by auto
  then have st: "commit_step batch_id now r d = Inr d1" by (simp add: commit_step_def r)
  obtain x x' v v' where s: "attempt_step {batch_id} d d1 x x' v v'" "a_attempt_id x = a_attempt_id (fst r)"
    using commit_step_ok [OF Cons.prems(1) _ st] Cons.prems(3) by auto
  have "\<forall>q \<in> set rs. commit_current batch_id q d1 \<and> a_status (fst q) = A_SEALED"
    using commit_current_rest [OF Cons.prems(1) s Cons.prems(2)] Cons.prems(3) by simp
  then obtain d2 ns where "commit_loop batch_id now rs d1 = Inr (d2, ns)"
    using Cons.IH [OF step_core [OF Cons.prems(1) s(1)]] Cons.prems(2) by auto
  with c r show ?case by auto
qed simp

lemma sealed_rows_current:
  assumes ok: "db_ok lib d" and b: "find_batch d i = Some b" "b_status b = B_SEALED"
    and r: "r \<in> set (commit_rows i d)"
  shows "commit_current i r d" "a_status (fst r) = A_SEALED"
proof -
  have core: "core_ok {} d" using ok by (simp add: db_ok_def)
  have a: "fst r \<in> set (db_attempts d)" "a_batch_id (fst r) = i" using r by (auto simp: set_commit_rows)
  show "a_status (fst r) = A_SEALED"
    using attempt_agrees [OF core a(1)] find_batch_SomeD [OF b(1)] b(2) a(2) by fastforce
  then show "commit_current i r d" using r by (auto simp: commit_current_def set_commit_rows attempt_active_def)
qed

lemma commit_rows_length:
  assumes ok: "db_ok lib d" and b: "b \<in> set (db_batches d)"
  shows "int (length (commit_rows (b_batch_id b) d)) = b_item_count b"
proof -
  let ?i = "b_batch_id b"
  have core: "core_ok {} d" and mem: "members_ok lib d" using ok by (simp_all add: db_ok_def)
  have "length (commit_rows ?i d) = card (a_attempt_id ` {a \<in> set (db_attempts d). a_batch_id a = ?i})"
    using commit_rows_fst [OF core, of ?i] distinct_card [of "map (\<lambda>r. a_attempt_id (fst r)) (commit_rows ?i d)"]
    by (simp add: image_image [symmetric])
  also have "a_attempt_id ` {a \<in> set (db_attempts d). a_batch_id a = ?i} =
      m_attempt_id ` set (batch_members ?i d)"
    using arg_cong [OF batch_pairs [OF mem, of ?i], where f = "image snd"] by (simp add: image_image)
  also have "card \<dots> = length (batch_members ?i d)"
  proof -
    have "distinct (map m_attempt_id (batch_members ?i d))"
      using mem by (simp add: members_ok_def batch_members_def distinct_map_sort_key distinct_map_filter)
    from distinct_card [OF this] show ?thesis by simp
  qed
  finally show ?thesis using mem b by (simp add: members_ok_def batch_membership_ok_def)
qed

lemma commit_tx_total:
  assumes ok: "db_ok lib d" and b: "find_batch d i = Some b" "b_status b = B_SEALED" "now < b_lease_expires_at b"
  shows "\<exists>d' ns. commit_tx i now d = Inr (d', ns)"
proof -
  have core: "core_ok {} d" using ok by (simp add: db_ok_def)
  have "int (length (commit_rows i d)) = b_item_count b"
    using commit_rows_length [OF ok] find_batch_SomeD [OF b(1)] by blast
  moreover obtain d1 ns where "commit_loop i now (commit_rows i d) d = Inr (d1, ns)"
    using commit_loop_total [OF core_weaken [OF core] commit_rows_fst(1) [OF core]]
      sealed_rows_current [OF ok b(1,2)] by blast
  ultimately show ?thesis using b by (simp add: commit_tx_def)
qed

section \<open>What happens to the work\<close>

definition committed_work :: "pyfloat \<Rightarrow> publication_row list \<Rightarrow> attempt_row \<Rightarrow> work_row \<Rightarrow> work_row \<Rightarrow> bool" where
  "committed_work now ps a w w' \<longleftrightarrow>
     (if a_terminal_succeeded a = Some True
      then \<exists>p \<in> set ps. p_attempt_id p = a_attempt_id a \<and> p_work_id p = a_work_id a
             \<and> a_output_path a = Some (p_output_path p) \<and> a_output_sha256 a = Some (p_output_sha256 p)
             \<and> w' = publish_work (a_attempt_id a) (p_publication_sequence p) now w
      else w' = release_work (retry_outcome w) now ''processing failed'' w)"

lemma commit_attempt_work:
  assumes core: "core_ok {batch_id} d" and cur: "commit_current batch_id (a, w) d"
    and eq: "commit_attempt batch_id now (a, w) d = Inr (d1, n)"
  shows "\<exists>w' \<in> set (db_work d1). committed_work now (db_publications d1) a w w' \<and> w_status w' \<noteq> W_LEASED"
proof -
  obtain path digest where out: "a_output_path a = Some path" "a_output_sha256 a = Some digest"
    using eq by (auto simp: commit_attempt_def split: option.splits)
  show ?thesis
  proof (cases "a_terminal_succeeded a = Some True")
    case True
    then obtain k where k: "publish_attempt batch_id a path digest now d = Inr (d1, k)"
      using eq out by (auto simp: commit_attempt_def split: if_splits)
    then have "publish_work (a_attempt_id a) k now w \<in> set (db_work d1)"
      using attempt_stepD(5) [OF publish_step(1) [OF core cur out k]] by simp
    moreover have "\<exists>p \<in> set (db_publications d1). p_attempt_id p = a_attempt_id a \<and> p_work_id p = a_work_id a
        \<and> p_publication_sequence p = k \<and> p_output_path p = path \<and> p_output_sha256 p = digest"
      using k by (auto simp: publish_attempt_def insert_publication_def Let_def)
    ultimately show ?thesis using True out
      by (intro bexI [of _ "publish_work (a_attempt_id a) k now w"]) (auto simp: committed_work_def publish_work_def)
  next
    case False
    then have k: "commit_failed_attempt a w now d = Inr d1"
      using eq out by (auto simp: commit_attempt_def split: if_splits)
    have "release_work (retry_outcome w) now ''processing failed'' w \<in> set (db_work d1)"
      using attempt_stepD(5) [OF commit_failed_step [OF core cur _ _ k]] out by simp
    then show ?thesis using False
      by (intro bexI [of _ "release_work (retry_outcome w) now ''processing failed'' w"])
        (auto simp: committed_work_def release_work_def retry_outcome_def)
  qed
qed

lemma committed_work_mono: "committed_work now ps a w w' \<Longrightarrow> set ps \<subseteq> set ps' \<Longrightarrow> committed_work now ps' a w w'"
  by (auto simp: committed_work_def split: if_splits)

lemma commit_loop_works:
  assumes "core_ok {batch_id} d" "distinct (map (\<lambda>r. a_attempt_id (fst r)) rs)"
    "\<forall>r \<in> set rs. commit_current batch_id r d" "commit_loop batch_id now rs d = Inr (d', ns)" "(a, w) \<in> set rs"
  shows "\<exists>w' \<in> set (db_work d'). committed_work now (db_publications d') a w w'"
  using assms
proof (induction rs arbitrary: d ns)
  case (Cons r rs)
  obtain d1 n ms where c: "commit_attempt batch_id now r d = Inr (d1, n)" "commit_loop batch_id now rs d1 = Inr (d', ms)"
    using Cons.prems(4) by (auto split: option.splits)
  then have st: "commit_step batch_id now r d = Inr d1" by (simp add: commit_step_def)
  obtain x x' v v' where s: "attempt_step {batch_id} d d1 x x' v v'" "a_attempt_id x = a_attempt_id (fst r)"
    using commit_step_ok [OF Cons.prems(1) _ st] Cons.prems(3) by auto
  note core1 = step_core [OF Cons.prems(1) s(1)]
  have cur: "\<forall>q \<in> set rs. commit_current batch_id q d1"
    using commit_current_rest [OF Cons.prems(1) s Cons.prems(2)] Cons.prems(3) by simp
  show ?case
  proof (cases "(a, w) = r")
    case True
    obtain w' where w': "w' \<in> set (db_work d1)" "committed_work now (db_publications d1) a w w'" "w_status w' \<noteq> W_LEASED"
      using commit_attempt_work [OF Cons.prems(1), of a w now d1 n] c(1) True Cons.prems(3) by auto
    have "loop_effect ((\<lambda>r. a_attempt_id (fst r)) ` set rs) (\<lambda>st. st = A_SUCCEEDED \<or> st = A_FAILED) d1 d'"
      using commit.loop [OF core1 _ cur commit_loop_foldE [OF c(2)]] Cons.prems(2) by simp
    then have "w' \<in> set (db_work d')" "set (db_publications d1) \<subseteq> set (db_publications d')"
      using w'(1,3) by (auto simp: loop_effect_def history_db_def rows_le_eq_prefix)
    with w'(2) committed_work_mono show ?thesis by blast
  next
    case False
    then show ?thesis using Cons.IH [OF core1 _ cur c(2)] Cons.prems(2,5) by auto
  qed
qed simp

section \<open>A second commit\<close>

lemma no_publication_of_active_batch:
  assumes core: "core_ok {} d" and b: "b \<in> set (db_batches d)" "batch_active b" and p: "p \<in> set (db_publications d)"
  shows "p_batch_id p \<noteq> b_batch_id b"
proof
  assume eq: "p_batch_id p = b_batch_id b"
  obtain a w where a: "a \<in> set (db_attempts d)" "publication_link p a w"
    using core_okD(5) [OF core] p unfolding publications_ok_def by blast
  then have "status_agrees (b_status b) A_SUCCEEDED"
    using attempt_agrees [OF core a(1) b(1)] eq by (simp add: publication_link_def)
  with b(2) show False by (auto simp: batch_active_def)
qed

lemma commit_found:
  assumes "find_batch d i = Some b" "b_status b = B_SEALED" "db_batches d1 = db_batches d"
  shows "find_batch (d1\<lparr>db_batches := update_where (\<lambda>x. b_batch_id x = i \<and> b_status x = B_SEALED)
      (\<lambda>x. x\<lparr>b_status := B_COMMITTED, b_committed_at := Some now\<rparr>) (db_batches d1)\<rparr>) i
    = Some (b\<lparr>b_status := B_COMMITTED, b_committed_at := Some now\<rparr>)"
  using find_batch_SomeD [OF assms(1)] assms unfolding find_batch_def by (simp add: find_update_where)

lemma new_publications_count:
  "length (new_publications batch_id now n rs) = length (filter (\<lambda>r. a_terminal_succeeded (fst r) = Some True) rs)"
  by (induction batch_id now n rs rule: new_publications.induct) auto

lemma commit_tx_result:
  assumes ok: "db_ok lib d" and b: "find_batch d i = Some b" "b_status b = B_SEALED"
    and eq: "commit_tx i now d = Inr (d', ns)"
  shows "sorted_wrt (<) ns
    \<and> length ns = length (filter (\<lambda>r. a_terminal_succeeded (fst r) = Some True) (commit_rows i d))
    \<and> map_option b_status (find_batch d' i) = Some B_COMMITTED
    \<and> (\<forall>(a, w) \<in> set (commit_rows i d). \<exists>w' \<in> set (db_work d'). committed_work now (db_publications d') a w w')"
  using eq
proof (cases rule: commit_tx_cases)
  case 1
  with b show ?thesis by simp
next
  case (2 b' d1)
  have core: "core_ok {i} d" using ok core_weaken by (simp add: db_ok_def)
  have "db_batches d1 = db_batches d" using commit_loop_effect(2) [OF ok b 2(5)] by (simp add: loop_effect_def)
  note found = commit_found [OF b this, of now]
  have "\<exists>w' \<in> set (db_work d1). committed_work now (db_publications d1) a w w'"
    if "(a, w) \<in> set (commit_rows i d)" for a w
    using commit_loop_works [OF core commit_rows_fst(1) [OF core] _ 2(5) that] sealed_rows_current [OF ok b] by blast
  then show ?thesis
    using found commit_loop_publications [OF 2(5)] new_publications_sorted new_publications_count
    unfolding 2(6) by auto
qed

lemma commit_tx_again:
  assumes ok: "db_ok lib d" and b: "find_batch d i = Some b" "b_status b = B_SEALED"
    and eq: "commit_tx i now d = Inr (d', ns)"
  shows "commit_tx i later d' = Inr (d', ns)"
  using eq
proof (cases rule: commit_tx_cases)
  case 1
  with b show ?thesis by simp
next
  case (2 b' d1)
  have core: "core_ok {} d" using ok by (simp add: db_ok_def)
  note l = commit_loop_effect [OF ok b 2(5)] and ps = commit_loop_publications [OF 2(5)]
  have eff: "db_batches d1 = db_batches d" using l(2) by (simp add: loop_effect_def)
  have upd: "find_batch d' i = Some (b\<lparr>b_status := B_COMMITTED, b_committed_at := Some now\<rparr>)"
    unfolding 2(6) by (rule commit_found [OF b eff])
  let ?new = "new_publications i now (db_last_publication d) (commit_rows i d)"
  have "filter (\<lambda>p. p_batch_id p = i) (db_publications d) = []"
    using no_publication_of_active_batch [OF core, of b] find_batch_SomeD [OF b(1)] b(2)
    by (auto simp: filter_empty_conv batch_active_def)
  moreover have "filter (\<lambda>p. p_batch_id p = i) ?new = ?new"
    using new_publications_bounds by (auto simp: filter_id_conv)
  moreover have "sort (map p_publication_sequence ?new) = map p_publication_sequence ?new"
    using new_publications_sorted strict_sorted_imp_sorted by (blast intro: sorted_sort_id)
  ultimately have "batch_publications i d' = ns"
    using ps unfolding 2(6) by (simp add: batch_publications_def)
  then show ?thesis using upd by (simp add: commit_tx_def)
qed

end
