(* ===== verification/Control_Recover_Spec.thy ===== *)
theory Control_Recover_Spec
  imports Control_Commit_Spec
begin

text \<open>
  What \<open>recover\<close> does: it always succeeds on a well-formed store, releases exactly the expired
  leases, leaves none, and its report counts them.  What \<open>replay\<close> and \<open>quarantine\<close> do to the
  work they name.
\<close>

section \<open>recover\<close>

lemma recover_current_rest:
  assumes core: "core_ok X d" and step: "attempt_step X d d1 x x' v v'" "a_attempt_id x = the (w_lease_attempt_id w)"
    and rows: "distinct (map (\<lambda>w. the (w_lease_attempt_id w)) (w # ws))" "q \<in> set ws" "recover_current X q d"
  shows "recover_current X q d1"
proof -
  have "the (w_lease_attempt_id q) \<in> (\<lambda>w. the (w_lease_attempt_id w)) ` set ws" using rows(2) by (rule imageI)
  then have "a_attempt_id x \<noteq> the (w_lease_attempt_id q)"
    using rows(1) step(2) by (metis distinct.simps(2) image_set list.simps(9))
  then show ?thesis by (rule recover_current_keep [OF core rows(3) step(1)])
qed

lemma recover_work_total:
  assumes core: "core_ok X d" and cur: "recover_current X w d"
  shows "\<exists>d'. recover_work now w d = Inr d'"
proof -
  have w: "w \<in> set (db_work d)" "w_status w = W_LEASED" using cur by (simp_all add: recover_current_def)
  obtain a :: attempt_row where a: "w_lease_attempt_id w = Some (a_attempt_id a)" by (rule leased_attempt [OF core w]) blast
  have "rowcount (work_fenced_by (w_work_id w) (a_attempt_id a) (w_fence w)) (db_work d) = 1"
    by (subst rowcount_1_key [OF keys_okD(1) [OF core_okD(1) [OF core]], where x = "w_work_id w"])
      (use a w in \<open>auto simp: work_fenced_by_def\<close>)
  with a show ?thesis by (simp add: recover_work_def Let_def)
qed

text \<open>Every row is released, by the outcome its own counters give.\<close>

lemma recover_loop_spec:
  assumes "core_ok X d" "distinct (map (\<lambda>w. the (w_lease_attempt_id w)) ws)" "\<forall>w \<in> set ws. recover_current X w d"
  shows "\<exists>d'. foldE (recover_work now) ws d = Inr d' \<and>
    (\<forall>w \<in> set ws. release_work (retry_outcome w) now ''lease expired'' w \<in> set (db_work d')) \<and>
    (\<forall>w \<in> set (db_work d). w \<notin> set ws \<longrightarrow> w \<in> set (db_work d'))"
  using assms
proof (induction ws arbitrary: d)
  case (Cons w ws)
  let ?w = "release_work (retry_outcome w) now ''lease expired'' w"
  have cur: "recover_current X w d" using Cons.prems(3) by simp
  obtain d1 where d1: "recover_work now w d = Inr d1" using recover_work_total [OF Cons.prems(1) cur] by blast
  obtain a where s: "attempt_step X d d1 a (expire_attempt (retry_outcome w) a) w ?w"
    "a_attempt_id a = the (w_lease_attempt_id w)"
    using recover_work_step [OF Cons.prems(1) cur d1] by blast
  have "\<forall>q \<in> set ws. recover_current X q d1"
    using recover_current_rest [OF Cons.prems(1) s Cons.prems(2)] Cons.prems(3) by simp
  then obtain d' where d': "foldE (recover_work now) ws d1 = Inr d'"
    "\<forall>w \<in> set ws. release_work (retry_outcome w) now ''lease expired'' w \<in> set (db_work d')"
    "\<forall>w \<in> set (db_work d1). w \<notin> set ws \<longrightarrow> w \<in> set (db_work d')"
    using Cons.IH [OF step_core [OF Cons.prems(1) s(1)]] Cons.prems(2) by auto
  have not_leased: "w_status ?w \<noteq> W_LEASED" by (simp add: release_work_def retry_outcome_def)
  then have "?w \<notin> set ws" using Cons.prems(3) by (auto simp: recover_current_def)
  then have "?w \<in> set (db_work d')" using d'(3) attempt_stepD(5) [OF s(1)] by simp
  moreover have "v \<in> set (db_work d')" if "v \<in> set (db_work d)" "v \<notin> set (w # ws)" for v
    using d'(3) attempt_stepD(5) [OF s(1)] that by simp
  ultimately show ?case using d1 d'(1,2) by auto
qed simp

lemma recover_tx_spec:
  assumes ok: "db_ok lib d"
  shows "\<exists>d'. recover_tx now d = Inr (d', \<lparr>rr_recovered = length (expired_rows now d),
      rr_retried = length (filter (\<lambda>w. retry_outcome w \<noteq> W_DEAD) (expired_rows now d)),
      rr_dead = length (filter (\<lambda>w. retry_outcome w = W_DEAD) (expired_rows now d))\<rparr>)
    \<and> (\<forall>w \<in> set (db_work d). (if lease_expired now w
         then release_work (retry_outcome w) now ''lease expired'' w else w) \<in> set (db_work d'))
    \<and> (\<forall>b \<in> set (db_batches d'). \<not> expired_batch now b)"
proof -
  have core: "core_ok {} d" using ok by (simp add: db_ok_def)
  obtain d1 where d1: "foldE (recover_work now) (expired_rows now d) d = Inr d1"
    "\<forall>w \<in> set (expired_rows now d). release_work (retry_outcome w) now ''lease expired'' w \<in> set (db_work d1)"
    "\<forall>w \<in> set (db_work d). w \<notin> set (expired_rows now d) \<longrightarrow> w \<in> set (db_work d1)"
    using recover_loop_spec [OF core_weaken [OF core] recover_rows_distinct [OF core]]
      recover_rows_current [OF core] by blast
  let ?d = "d1\<lparr>db_batches := update_where (expired_batch now) (\<lambda>b. b\<lparr>b_status := B_EXPIRED\<rparr>) (db_batches d1)\<rparr>"
  have "\<forall>b \<in> set (db_batches ?d). \<not> expired_batch now b"
    by (auto simp: set_update_where expired_batch_def batch_active_def)
  moreover have "recover_tx now d = Inr (?d, \<lparr>rr_recovered = length (expired_rows now d),
      rr_retried = length (filter (\<lambda>w. retry_outcome w \<noteq> W_DEAD) (expired_rows now d)),
      rr_dead = length (filter (\<lambda>w. retry_outcome w = W_DEAD) (expired_rows now d))\<rparr>)"
    using d1(1) by (simp add: recover_tx_def Let_def expired_batch_def [abs_def])
  ultimately show ?thesis using d1(2,3) by (intro exI [of _ ?d]) (auto simp: set_expired_rows)
qed

text \<open>The work rows of a store with unique keys are determined by where each old row goes.\<close>

lemma work_image:
  assumes "keys_ok d'" "map w_work_id (db_work d') = map w_work_id (db_work d)"
    and img: "\<forall>w \<in> set (db_work d). g w \<in> set (db_work d')" "\<And>w. w_work_id (g w) = w_work_id w"
  shows "set (db_work d') = g ` set (db_work d)"
proof
  show "g ` set (db_work d) \<subseteq> set (db_work d')" using img(1) by blast
  show "set (db_work d') \<subseteq> g ` set (db_work d)"
  proof
    fix w'
    assume w': "w' \<in> set (db_work d')"
    then obtain w where w: "w \<in> set (db_work d)" "w_work_id w = w_work_id w'"
      using in_image_sig [OF assms(2)] by blast
    have "g w = w'" by (rule work_key [OF assms(1)]) (use w w' img in auto)
    with w(1) show "w' \<in> g ` set (db_work d)" by blast
  qed
qed

lemma recover_ids:
  assumes core: "core_ok {} d" and eq: "recover_tx now d = Inr (d', r)"
  shows "map w_work_id (db_work d') = map w_work_id (db_work d)"
proof -
  obtain d1 where d1: "foldE (recover_work now) (expired_rows now d) d = Inr d1" "db_work d' = db_work d1"
    using eq by (auto simp: recover_tx_def Let_def)
  have "map work_sig (db_work d1) = map work_sig (db_work d)"
    using recover_loop_effect(2) [OF core d1(1)] by (simp add: loop_effect_def)
  then show ?thesis unfolding d1(2) by (rule work_sig_ids)
qed

lemma recover_no_expired:
  assumes ok: "db_ok lib d" and eq: "recover_tx now d = Inr (d', r)"
  shows "\<forall>w \<in> set (db_work d'). \<not> lease_expired now w" "\<forall>b \<in> set (db_batches d'). \<not> expired_batch now b"
proof -
  let ?g = "\<lambda>w. if lease_expired now w then release_work (retry_outcome w) now ''lease expired'' w else w"
  have spec: "\<forall>w \<in> set (db_work d). ?g w \<in> set (db_work d')" "\<forall>b \<in> set (db_batches d'). \<not> expired_batch now b"
    using recover_tx_spec [OF ok, of now] eq by auto
  have ok': "db_ok lib d'" by (rule recover_tx_db_ok [OF ok eq])
  have core: "core_ok {} d" using ok by (simp add: db_ok_def)
  have "map w_work_id (db_work d') = map w_work_id (db_work d)"
    by (rule recover_ids [OF core eq])
  then have "set (db_work d') = ?g ` set (db_work d)"
    by (intro work_image) (use ok' spec in \<open>auto simp: db_ok_def core_ok_def release_work_def\<close>)
  then show "\<forall>w \<in> set (db_work d'). \<not> lease_expired now w"
    by (auto simp: lease_expired_def release_work_def retry_outcome_def)
  show "\<forall>b \<in> set (db_batches d'). \<not> expired_batch now b" by (rule spec(2))
qed

section \<open>replay\<close>

lemma find_work_update:
  assumes "\<And>x. w_work_id (f x) = w_work_id x"
  shows "find_work (d\<lparr>db_work := update_where p f (db_work d)\<rparr>) i
    = map_option (\<lambda>w. if p w then f w else w) (find_work d i)"
  unfolding find_work_def using assms by (simp add: find_update_where)

lemma replay_tx_dead:
  assumes ok: "db_ok lib d" and w: "find_work d i = Some w" "w_status w = W_DEAD"
    and fresh: "replay_identity lib i (w_replay_generation w + 1) actor reason additional \<notin> r_replay_id ` set (db_replays d)"
  defines "rid \<equiv> replay_identity lib i (w_replay_generation w + 1) actor reason additional"
  shows "\<exists>d'. replay_tx lib now i actor reason additional d = Inr (d', \<lparr>rp_replay_id = rid, rp_work_id = i,
      rp_operator = actor, rp_reason = reason, rp_generation = w_replay_generation w + 1, rp_requested_at = now\<rparr>)
    \<and> find_work d' i = Some (requeue_work additional now (w_replay_generation w + 1) rid w)
    \<and> (\<forall>j. j \<noteq> i \<longrightarrow> find_work d' j = find_work d j)"
proof -
  have m: "w \<in> set (db_work d)" "w_work_id w = i" using find_work_SomeD [OF w(1)] by auto
  have "w_committed_attempt_id w = None"
    using ok m(1) w(2) by (auto simp: db_ok_def core_ok_def work_ok_def)
  moreover have "(i, w_replay_generation w + 1) \<notin> (\<lambda>x. (r_work_id x, r_generation x)) ` set (db_replays d)"
  proof
    assume "(i, w_replay_generation w + 1) \<in> (\<lambda>x. (r_work_id x, r_generation x)) ` set (db_replays d)"
    then obtain x where x: "x \<in> set (db_replays d)" "r_work_id x = i" "r_generation x = w_replay_generation w + 1"
      by auto
    then obtain v where r: "v \<in> set (db_work d)" "w_work_id v = i" "w_replay_generation w + 1 \<le> w_replay_generation v"
      using ok unfolding db_ok_def replays_ok_def by metis
    have "v = w" by (rule work_key [of d]) (use ok m r in \<open>auto simp: db_ok_def core_ok_def\<close>)
    with r show False by simp
  qed
  ultimately show ?thesis
    using w m fresh
    by (auto simp: replay_tx_def insert_replay_def Let_def rid_def replay_of_row_def find_work_def
        find_update_where requeue_work_def option.map_comp comp_def intro!: option.map_ident_strong dest!: find_SomeD)
qed

lemma replay_tx_again:
  assumes ok: "db_ok lib d" and eq: "replay_tx lib now i actor reason additional d = Inr (d', r)"
  shows "replay_tx lib later i actor reason additional d' = Inr (d', r)"
  using eq
proof (cases rule: replay_tx_cases)
  case (1 w)
  then show ?thesis by (simp add: replay_tx_def)
next
  case (2 w row)
  have "find_work d' i = Some (requeue_work additional now (w_replay_generation w + 1) (r_replay_id row) w)"
    using 2(1,2) find_work_SomeD [OF 2(1)] unfolding 2(7)
    by (simp add: find_work_def find_update_where requeue_work_def)
  moreover have "find (\<lambda>x. r_replay_id x = r_replay_id row) (db_replays d') = Some row"
    using 2(5) unfolding 2(7) by (simp add: find_append find_fresh)
  ultimately show ?thesis
    using 2(4,8) by (simp add: replay_tx_def matching_last_replay_def requeue_work_def)
qed

section \<open>quarantine\<close>

definition quarantined :: "pylib \<Rightarrow> pyfloat \<Rightarrow> string \<Rightarrow> string \<Rightarrow> (string \<times> string) list \<Rightarrow> work_row \<Rightarrow> work_row" where
  "quarantined lib now actor reason expected w = (case map_of expected (w_work_id w) of
     None \<Rightarrow> w
   | Some digest \<Rightarrow> if w_status w = W_READY
       then quarantine_work now (quarantine_marker lib actor reason digest) w else w)"

lemma quarantine_item_work:
  assumes keys: "keys_ok t"
    and cur: "\<And>w. w \<in> set (db_work t) \<Longrightarrow> w_work_id w = i \<Longrightarrow> find_work snapshot i = Some w"
    and eq: "quarantine_item lib now actor reason snapshot (i, h) t = Inr t'"
  shows "t' = t\<lparr>db_work := map (quarantined lib now actor reason [(i, h)]) (db_work t)\<rparr>"
proof -
  obtain w where w: "find_work snapshot i = Some w"
    using eq by (auto simp: quarantine_item_def split: option.splits)
  have only: "x = w" if "x \<in> set (db_work t)" "w_work_id x = i" for x
    using cur [OF that] w by simp
  show ?thesis
  proof (cases "w_status w = W_READY")
    case True
    then have r: "w_release_digest w = h" "w_committed_attempt_id w = None"
      "t' = t\<lparr>db_work := update_where (\<lambda>x. w_work_id x = i \<and> w_status x = W_READY
         \<and> w_release_digest x = h \<and> w_committed_attempt_id x = None)
         (quarantine_work now (quarantine_marker lib actor reason h)) (db_work t)\<rparr>"
      using eq w by (auto simp: quarantine_item_def Let_def split: if_splits)
    have "update_where (\<lambda>x. w_work_id x = i \<and> w_status x = W_READY
         \<and> w_release_digest x = h \<and> w_committed_attempt_id x = None)
         (quarantine_work now (quarantine_marker lib actor reason h)) (db_work t)
        = map (quarantined lib now actor reason [(i, h)]) (db_work t)"
      unfolding update_where_def
      by (rule map_cong [OF refl]) (use only r True in \<open>auto simp: quarantined_def\<close>)
    then show ?thesis using r(3) by simp
  next
    case False
    then have "t' = t" using eq w by (auto simp: quarantine_item_def Let_def split: if_splits)
    moreover have "map (quarantined lib now actor reason [(i, h)]) (db_work t) = db_work t"
      by (rule map_idI) (use only False in \<open>auto simp: quarantined_def\<close>)
    ultimately show ?thesis by simp
  qed
qed

lemma quarantined_id [simp]: "w_work_id (quarantined lib now actor reason es w) = w_work_id w"
  by (simp add: quarantined_def quarantine_work_def split: option.splits)

lemma quarantined_Cons:
  "i \<notin> fst ` set es \<Longrightarrow> quarantined lib now actor reason es (quarantined lib now actor reason [(i, h)] w)
     = quarantined lib now actor reason ((i, h) # es) w"
  by (auto simp: quarantined_def quarantine_work_def split: option.splits dest: map_of_SomeD)

lemma quarantine_fold:
  assumes "foldE (quarantine_item lib now actor reason snapshot) es t = Inr t'" "keys_ok t" "distinct (map fst es)"
    and "\<And>w. w \<in> set (db_work t) \<Longrightarrow> w_work_id w \<in> fst ` set es \<Longrightarrow> find_work snapshot (w_work_id w) = Some w"
  shows "t' = t\<lparr>db_work := map (quarantined lib now actor reason es) (db_work t)\<rparr>"
  using assms
proof (induction es arbitrary: t)
  case Nil
  then show ?case by (simp add: quarantined_def)
next
  case (Cons e es)
  obtain i h where e: "e = (i, h)" by (cases e)
  obtain t1 where t1: "quarantine_item lib now actor reason snapshot (i, h) t = Inr t1"
    "foldE (quarantine_item lib now actor reason snapshot) es t1 = Inr t'"
    using Cons.prems(1) e by auto
  have eq: "t1 = t\<lparr>db_work := map (quarantined lib now actor reason [(i, h)]) (db_work t)\<rparr>"
    by (rule quarantine_item_work [OF Cons.prems(2) _ t1(1)]) (use Cons.prems(4) e in auto)
  have i: "i \<notin> fst ` set es" using Cons.prems(3) e by simp
  have "t' = t1\<lparr>db_work := map (quarantined lib now actor reason es) (db_work t1)\<rparr>"
  proof (rule Cons.IH [OF t1(2)])
    show "keys_ok t1" using Cons.prems(2) unfolding eq by (simp add: keys_ok_def comp_def)
    show "distinct (map fst es)" using Cons.prems(3) by simp
    fix w
    assume w: "w \<in> set (db_work t1)" "w_work_id w \<in> fst ` set es"
    then obtain v where v: "v \<in> set (db_work t)" "w = quarantined lib now actor reason [(i, h)] v"
      unfolding eq by auto
    with w(2) i have "w_work_id v \<noteq> i" by auto
    then have "w = v" using v(2) by (simp add: quarantined_def)
    with v w(2) Cons.prems(4) [of v] show "find_work snapshot (w_work_id w) = Some w" by simp
  qed
  then show ?case unfolding eq e using quarantined_Cons [OF i] by simp
qed

end
