(* ===== verification/Control_Demo.thy ===== *)
theory Control_Demo
  imports Control_Recover_Spec
begin

text \<open>
  One concrete run of the control store, evaluated step by step: a work item is registered, claimed,
  sealed and committed; on another branch its lease expires and it is recovered and replayed.  The
  library parameter is instantiated by simple functions, so that the witnesses of the properties can
  compute with it.
\<close>

text \<open>The reader of the library reads the payload of the work item; what it reads beyond that is a
  parameter.\<close>

definition demo_payload :: "(string \<times> pyval) list" where
  "demo_payload = [(''source_video'', PStr ''v'')]"

definition demo_payload_json :: string where
  "demo_payload_json = [CHR 0x7B, CHR 0x22] @ ''source_video'' @ [CHR 0x22, CHR '':'', CHR 0x22, CHR ''v'', CHR 0x22, CHR 0x7D]"

definition demo_lib_of :: "(string \<Rightarrow> pyval option) \<Rightarrow> pylib" where
  "demo_lib_of rd = \<lparr>sha256_hex = (\<lambda>s. replicate 64 (if s = demo_payload_json \<or> s = ''{}'' then CHR ''a'' else CHR ''b'')),
     float_repr = (\<lambda>x. ''0.0''),
     json_loads = (\<lambda>t. if t = demo_payload_json then Some (PDict demo_payload) else rd t)\<rparr>"

abbreviation demo_lib :: pylib where
  "demo_lib \<equiv> demo_lib_of (\<lambda>_. None)"

lemma demo_dumps: "dumps (demo_lib_of rd) v = dumps demo_lib v"
proof (induction v)
  case (PList vs)
  then have "map (dumps (demo_lib_of rd)) vs = map (dumps demo_lib) vs" by simp
  then show ?case by (simp only: dumps.simps)
next
  case (PDict kvs)
  then have "map (map_prod id (dumps (demo_lib_of rd))) kvs = map (map_prod id (dumps demo_lib)) kvs"
    by (auto simp: map_prod_def split: prod.splits)
  then show ?case by (simp only: dumps.simps)
qed (simp_all add: demo_lib_of_def)

definition demo_init :: store where
  "demo_init = \<lparr>st_db = empty_db\<lparr>db_user_version := 1, db_schema_version := Some 1\<rparr>,
     st_files = [], st_base = ''/c''\<rparr>"

definition digest_a :: string where "digest_a = replicate 64 (CHR ''a'')"

definition digest_b :: string where "digest_b = replicate 64 (CHR ''b'')"

definition demo_args :: register_args where
  "demo_args = \<lparr>ra_work_id = PStr ''w1'', ra_payload = PDict demo_payload, ra_runtime_key = PStr ''rt'',
     ra_duration_seconds = PInt 60, ra_config_sha256 = PStr ''cfg'', ra_release_digest = PStr digest_a,
     ra_max_attempts = PInt 1, ra_available_at = PNone\<rparr>"

definition demo_request :: request where
  "demo_request = \<lparr>q_work_id = ''w1'', q_payload = demo_payload, q_runtime_key = ''rt'', q_duration_seconds = 60,
     q_config_sha256 = ''cfg'', q_release_digest = digest_a, q_max_attempts = 1, q_available_at = None\<rparr>"

definition demo_work :: work_row where
  "demo_work = new_work demo_payload_json digest_a demo_request 100"

definition demo_ready :: store where
  "demo_ready = demo_init\<lparr>st_db := (st_db demo_init)\<lparr>db_work := [demo_work]\<rparr>\<rparr>"

lemma demo_register: "register (demo_lib_of rd) (PInt 100) demo_args demo_init = (Inr (registered demo_work), demo_ready)"
  by code_simp

section \<open>Claim\<close>

definition demo_claim_args :: claim_args where
  "demo_claim_args = \<lparr>ca_owner = PStr ''o'', ca_max_items = PInt 10, ca_lease_seconds = PInt 600,
     ca_maximum_active_batches = PNone, ca_minimum_speed_x = PInt 1, ca_safety_factor = PInt 1,
     ca_margin_seconds = PInt 5, ca_minimum_items = PInt 1, ca_allowed_work_ids = PNone,
     ca_process_profile = None, ca_peak_rss_bytes = PNone, ca_expected_release_digest = PNone\<rparr>"

definition demo_ids :: "nat \<Rightarrow> string" where
  "demo_ids n = (if n = 0 then ''batch-1'' else ''attempt-1'')"

definition demo_settings :: claim_settings where
  "demo_settings = \<lparr>cl_owner = ''o'', cl_max_items = 10, cl_minimum_items = 1, cl_maximum_active = None,
     cl_lease = 600, cl_admission = \<lparr>ad_speed = 1, ad_factor = 1, ad_margin = 5, ad_workers = 1,
       ad_name = ''legacy-single-worker''\<rparr>, cl_scope = None\<rparr>"

definition demo_plan :: claim_plan where
  "demo_plan = \<lparr>pl_runtime_key = ''rt'', pl_rows = [demo_work], pl_workers = 1, pl_makespan = 60\<rparr>"

definition demo_item :: claimed_work where
  "demo_item = \<lparr>c_work_id = ''w1'', c_attempt_id = ''attempt-1'', c_fence = 1, c_payload_sha256 = digest_a\<rparr>"

definition demo_docs :: "pyval list" where
  "demo_docs = [PDict [(''ordinal'', PInt 0), (''work_id'', PStr ''w1''), (''attempt_id'', PStr ''attempt-1''),
     (''fence'', PInt 1), (''payload_sha256'', PStr digest_a), (''payload'', PDict demo_payload),
     (''config_sha256'', PStr ''cfg''), (''release_digest'', PStr digest_a), (''duration_seconds'', PFloat 60)]]"

definition demo_text :: string where
  "demo_text = dumps demo_lib (claim_envelope demo_settings demo_plan ''batch-1'' 110 710 digest_b demo_docs)"

definition demo_path :: string where "demo_path = ''/c/sha256/bb/'' @ digest_b"

definition demo_object :: stored_object where
  "demo_object = \<lparr>so_sha256 = digest_b, so_size_bytes = length demo_text, so_path = demo_path\<rparr>"

definition demo_batch :: batch_row where
  "demo_batch = \<lparr>b_batch_id = ''batch-1'', b_owner = ''o'', b_runtime_key = ''rt'', b_status = B_LEASED,
     b_lease_expires_at = 710, b_item_count = 1, b_membership_sha256 = digest_b, b_envelope_version = 1,
     b_envelope_path = demo_path, b_envelope_sha256 = digest_b, b_created_at = 110, b_sealed_at = None,
     b_committed_at = None\<rparr>"

definition demo_claimed_db :: db where
  "demo_claimed_db = empty_db\<lparr>db_user_version := 1, db_schema_version := Some 1,
     db_work := [lease_work ''o'' 710 110 demo_item demo_work], db_batches := [demo_batch],
     db_attempts := [claimed_attempt ''batch-1'' 710 110 demo_item],
     db_members := [claimed_member ''batch-1'' 0 demo_item]\<rparr>"

definition demo_claimed :: store where
  "demo_claimed = demo_ready\<lparr>st_files := [(demo_path, demo_text)], st_db := demo_claimed_db\<rparr>"

definition demo_result :: claimed_batch where
  "demo_result = \<lparr>cb_batch_id = ''batch-1'', cb_envelope_path = demo_path,
     cb_envelope_sha256 = digest_b, cb_runtime_key = ''rt'', cb_lease_expires_at = 710, cb_items = [demo_item]\<rparr>"

lemma demo_validate: "validate_claim demo_claim_args = Inr demo_settings"
  by code_simp

lemma demo_select: "claim_select demo_settings PNone 110 (st_db demo_ready) = Inr (Some demo_plan)"
  by code_simp

lemma demo_items: "claim_items demo_ids 1 (pl_rows demo_plan) = Inr [demo_item]"
  by code_simp

lemma demo_envelope_items: "envelope_items (demo_lib_of rd) 0 (zip (pl_rows demo_plan) [demo_item]) = Inr demo_docs"
  by code_simp

lemma demo_membership: "membership_sha256 (demo_lib_of rd) [demo_item] = digest_b"
  by code_simp

lemma demo_text_start: "\<exists>t. demo_text = CHR 0x7B # CHR 0x22 # CHR ''a'' # t"
  by (simp add: demo_text_def claim_envelope_def json_str_def esc_char_def)

lemma demo_put: "put_bytes (demo_lib_of rd) ''/c'' demo_text None [] = Inr (demo_object, [(demo_path, demo_text)])"
proof -
  obtain t where t: "demo_text = CHR 0x7B # CHR 0x22 # CHR ''a'' # t" using demo_text_start by blast
  have "demo_text \<noteq> demo_payload_json" "demo_text \<noteq> ''{}''" unfolding t by (simp_all add: demo_payload_json_def)
  then have "sha256_hex (demo_lib_of rd) demo_text = digest_b" by (simp add: demo_lib_of_def digest_b_def)
  moreover have "object_path ''/c'' digest_b = Inr demo_path" by code_simp
  ultimately show ?thesis by (simp add: put_bytes_def Let_def demo_object_def)
qed

lemma demo_apply: "claim_apply (demo_lib_of rd) demo_settings demo_plan ''batch-1'' 710 110 [demo_item] demo_object (st_db demo_ready)
    = Inr demo_claimed_db"
proof -
  have "new_batch (demo_lib_of rd) demo_settings demo_plan ''batch-1'' 710 110 [demo_item] demo_object = demo_batch"
    by (simp add: new_batch_def demo_batch_def demo_membership demo_settings_def demo_plan_def demo_object_def)
  moreover have "insert_batch demo_batch (st_db demo_ready) = Inr ((st_db demo_ready)\<lparr>db_batches := [demo_batch]\<rparr>)"
    by code_simp
  moreover have "claim_loop (cl_owner demo_settings) ''batch-1'' 710 110 0 [demo_item]
      ((st_db demo_ready)\<lparr>db_batches := [demo_batch]\<rparr>) = Inr demo_claimed_db" by code_simp
  ultimately show ?thesis by (simp add: claim_apply_def)
qed


lemma demo_new_id: "new_id demo_ids 0 = Inr ''batch-1''"
  by code_simp

lemma demo_clock: "finite_num (PInt 110) = Inr 110" and demo_expires: "fadd 110 600 = 710"
  by code_simp+

lemma demo_fields: "st_base demo_ready = ''/c''" "st_files demo_ready = []" "cl_lease demo_settings = 600"
  "ca_expected_release_digest demo_claim_args = PNone" "pl_runtime_key demo_plan = ''rt''"
  "so_sha256 demo_object = digest_b" "so_path demo_object = demo_path"
  by (simp_all add: demo_ready_def demo_init_def demo_settings_def demo_claim_args_def demo_plan_def demo_object_def)

lemma demo_claim: "claim (demo_lib_of rd) (PInt 110) demo_ids demo_claim_args demo_ready = (Inr (Some demo_result), demo_claimed)"
proof -
  have "put_json (demo_lib_of rd) ''/c'' (claim_envelope demo_settings demo_plan ''batch-1'' 110 710 digest_b demo_docs) []
      = Inr (demo_object, [(demo_path, demo_text)])"
    using demo_put by (simp only: put_json_def demo_text_def demo_dumps [of rd])
  moreover have "demo_claimed = demo_ready\<lparr>st_files := [(demo_path, demo_text)], st_db := demo_claimed_db\<rparr>"
    by (simp add: demo_claimed_def)
  ultimately show ?thesis
    by (simp add: claim_def demo_validate demo_clock demo_fields demo_select demo_new_id demo_items [simplified]
        demo_envelope_items demo_membership demo_expires transaction_def demo_apply demo_result_def Let_def)
qed

section \<open>Seal and commit\<close>

definition demo_output :: pyval where
  "demo_output = PDict [(''work_id'', PStr ''w1''), (''attempt_id'', PStr ''attempt-1''), (''output_path'', PStr ''/out''),
     (''output_sha256'', PStr digest_a), (''succeeded'', PBool True), (''records'', PList [PDict
       [(''executor_identity'', PStr ''exec''), (''partition_id'', PInt 0), (''task_attempt_id'', PInt 0),
        (''record_sequence'', PInt 0)]])]"

definition demo_output_item :: output_item where
  "demo_output_item = \<lparr>oi_work_id = ''w1'', oi_attempt_id = ''attempt-1'', oi_output_path = ''/out'',
     oi_output_sha256 = digest_a, oi_succeeded = True, oi_records = [\<lparr>or_executor_identity = ''exec'',
       or_partition_id = 0, or_task_attempt_id = 0, or_record_sequence = 0\<rparr>]\<rparr>"

definition demo_output_row :: output_row where
  "demo_output_row = \<lparr>o_output_id = 1, o_attempt_id = ''attempt-1'', o_work_id = ''w1'', o_output_path = ''/out'',
     o_output_sha256 = digest_a, o_executor_identity = ''exec'', o_partition_id = 0, o_task_attempt_id = 0,
     o_record_sequence = 0, o_created_at = 200\<rparr>"

definition demo_sealed_attempt :: attempt_row where
  "demo_sealed_attempt = seal_attempt demo_output_item 200 (claimed_attempt ''batch-1'' 710 110 demo_item)"

definition demo_sealed_db :: db where
  "demo_sealed_db = demo_claimed_db\<lparr>db_attempts := [demo_sealed_attempt],
     db_batches := [demo_batch\<lparr>b_status := B_SEALED, b_sealed_at := Some 200\<rparr>],
     db_outputs := [demo_output_row], db_last_output := 1\<rparr>"

definition demo_sealed :: store where
  "demo_sealed = demo_claimed\<lparr>st_db := demo_sealed_db\<rparr>"

lemma demo_seal_tx: "seal_tx ''batch-1'' [demo_output] digest_b digest_b 200 demo_claimed_db = Inr (demo_sealed_db, ())"
  by code_simp

lemma demo_seal: "seal_batch (PInt 200) (PStr ''batch-1'') (PList [demo_output]) (PStr digest_b) (PStr digest_b) demo_claimed
    = (Inr (), demo_sealed)"
proof -
  have "required_text (PStr ''batch-1'') = Inr ''batch-1''" "validated_sha256 (PStr digest_b) = Inr digest_b"
    "finite_num (PInt 200) = Inr 200" by code_simp+
  then show ?thesis by (simp add: seal_batch_def transaction_def demo_seal_tx demo_sealed_def demo_claimed_def)
qed

definition demo_publication :: publication_row where
  "demo_publication = \<lparr>p_publication_sequence = 1, p_work_id = ''w1'', p_attempt_id = ''attempt-1'',
     p_batch_id = ''batch-1'', p_output_path = ''/out'', p_output_sha256 = digest_a, p_published_at = 300\<rparr>"

definition demo_committed_db :: db where
  "demo_committed_db = demo_sealed_db\<lparr>db_publications := [demo_publication], db_last_publication := 1,
     db_work := [publish_work ''attempt-1'' 1 300 (lease_work ''o'' 710 110 demo_item demo_work)],
     db_attempts := [demo_sealed_attempt\<lparr>a_status := A_SUCCEEDED\<rparr>],
     db_batches := [demo_batch\<lparr>b_status := B_COMMITTED, b_sealed_at := Some 200, b_committed_at := Some 300\<rparr>]\<rparr>"

definition demo_committed :: store where
  "demo_committed = demo_sealed\<lparr>st_db := demo_committed_db\<rparr>"

lemma demo_commit_tx: "commit_tx ''batch-1'' 300 demo_sealed_db = Inr (demo_committed_db, [1])"
  by code_simp

lemma demo_commit: "commit_batch (PInt 300) (PStr ''batch-1'') demo_sealed = (Inr [1], demo_committed)"
proof -
  have "required_text (PStr ''batch-1'') = Inr ''batch-1''" "finite_num (PInt 300) = Inr 300" by code_simp+
  then show ?thesis
    by (simp add: commit_batch_def transaction_def demo_commit_tx demo_sealed_def demo_committed_def)
qed

section \<open>Recovery and replay\<close>

definition demo_dead_work :: work_row where
  "demo_dead_work = release_work W_DEAD 1000 ''lease expired'' (lease_work ''o'' 710 110 demo_item demo_work)"

definition demo_expired_db :: db where
  "demo_expired_db = demo_claimed_db\<lparr>db_work := [demo_dead_work],
     db_attempts := [expire_attempt W_DEAD (claimed_attempt ''batch-1'' 710 110 demo_item)],
     db_batches := [demo_batch\<lparr>b_status := B_EXPIRED\<rparr>]\<rparr>"

definition demo_expired :: store where
  "demo_expired = demo_claimed\<lparr>st_db := demo_expired_db\<rparr>"

lemma demo_recover_tx: "recover_tx 1000 demo_claimed_db
    = Inr (demo_expired_db, \<lparr>rr_recovered = 1, rr_retried = 0, rr_dead = 1\<rparr>)"
  by code_simp

lemma demo_recover: "recover (PInt 0) (PInt 1000) demo_claimed
    = (Inr \<lparr>rr_recovered = 1, rr_retried = 0, rr_dead = 1\<rparr>, demo_expired)"
proof -
  have "finite_num (PInt 1000) = Inr 1000" by code_simp
  then show ?thesis by (simp add: recover_def transaction_def demo_recover_tx demo_claimed_def demo_expired_def)
qed

section \<open>The run is a run of the machine\<close>

lemma demo_control_init: "control_init demo_init"
  unfolding control_init_def by code_simp

lemma demo_reachable:
  "reachable control_init (control_step (demo_lib_of rd)) demo_claimed"
  "reachable control_init (control_step (demo_lib_of rd)) demo_sealed"
  "reachable control_init (control_step (demo_lib_of rd)) demo_committed"
  "reachable control_init (control_step (demo_lib_of rd)) demo_expired"
proof -
  show c: "reachable control_init (control_step (demo_lib_of rd)) demo_claimed"
    by (meson demo_control_init demo_register demo_claim control_step.intros reachable.intros)
  then show s: "reachable control_init (control_step (demo_lib_of rd)) demo_sealed"
    by (meson demo_seal control_step.intros reachable.intros)
  then show "reachable control_init (control_step (demo_lib_of rd)) demo_committed"
    by (meson demo_commit control_step.intros reachable.intros)
  show "reachable control_init (control_step (demo_lib_of rd)) demo_expired"
    using c by (meson demo_recover control_step.intros reachable.intros)
qed

lemmas demo_ok = demo_reachable [THEN control.reach_inv]


section \<open>Facts about the run\<close>

definition demo_sealed_batch :: batch_row where
  "demo_sealed_batch = demo_batch\<lparr>b_status := B_SEALED, b_sealed_at := Some 200\<rparr>"

lemma demo_dbs [simp]: "st_db demo_claimed = demo_claimed_db" "st_db demo_sealed = demo_sealed_db"
  "st_db demo_committed = demo_committed_db" "st_db demo_expired = demo_expired_db"
  by (simp_all add: demo_claimed_def demo_sealed_def demo_committed_def demo_expired_def)

lemma demo_batch_text: "required_text (PStr ''batch-1'') = Inr ''batch-1''"
  by code_simp

lemma demo_numbers: "finite_num (PInt 200) = Inr 200" "finite_num (PInt 300) = Inr 300"
  "finite_num (PInt 1000) = Inr 1000" "finite_num (PInt 2000) = Inr 2000"
  by code_simp+

lemma demo_sealed_found: "find_batch demo_sealed_db ''batch-1'' = Some demo_sealed_batch"
  "b_status demo_sealed_batch = B_SEALED" "(300::rat) < b_lease_expires_at demo_sealed_batch"
  by code_simp+

lemma demo_claimed_found: "find_batch demo_claimed_db ''batch-1'' = Some demo_batch"
  "b_status demo_batch = B_LEASED" "(200::rat) < b_lease_expires_at demo_batch"
  by code_simp+

end
