(* ===== verification/Queue_Actor_Correct.thy ===== *)
theory Queue_Actor_Correct
  imports Queue_Actor_Spec Control_Demo
begin

text \<open>The guarantees of the serialized actor in front of the queue, and the races its futures allow.\<close>

section \<open>A run of the queue\<close>

text \<open>A concrete run of the queue: one message is enqueued, claimed and completed.\<close>

abbreviation demo_queue_lib :: pylib where
  "demo_queue_lib \<equiv> demo_lib_of (\<lambda>t. if t = ''{}'' then Some (PDict []) else None)"

definition demo_message :: message_row where
  "demo_message = new_message ''m1'' ''k1'' ''{}'' digest_a 2 100 100"

definition demo_locked :: message_row where
  "demo_locked = lock_message 1 ''t1'' ''o'' 170 110 demo_message"

definition demo_delivery :: claimed_message where
  "demo_delivery = \<lparr>cm_message_id = ''m1'', cm_idempotency_key = ''k1'', cm_payload = PDict [],
     cm_lock_token = ''t1'', cm_locked_until = 170, cm_delivery_count = 1, cm_max_delivery_count = 2\<rparr>"

definition demo_completed :: message_row where
  "demo_completed = finish_message Q_COMPLETED None 120 120 demo_locked"

lemma demo_enqueue: "enqueue demo_queue_lib 100 ''m1'' '' k1'' [] 2 None [] = (Inr ''m1'', [demo_message])"
  by code_simp

lemma demo_claim_queue: "claim_queue demo_queue_lib 110 (\<lambda>_. ''t1'') 10 ''o'' (Some 60) 1 None [demo_message]
    = (Inr [demo_delivery], [demo_locked])"
  by code_simp

lemma demo_complete: "complete 120 ''t1'' None [demo_locked] = (Inr (), [demo_completed])"
  by code_simp

lemma demo_queue_reachable:
  "reachable (\<lambda>q. q = []) (queue_step demo_queue_lib) [demo_message]"
  "reachable (\<lambda>q. q = []) (queue_step demo_queue_lib) [demo_locked]"
  "reachable (\<lambda>q. q = []) (queue_step demo_queue_lib) [demo_completed]"
proof -
  show 1: "reachable (\<lambda>q. q = []) (queue_step demo_queue_lib) [demo_message]"
    by (rule reachable.move [where s = "[]"], rule reachable.start) (simp_all add: queue_enqueue [OF demo_enqueue])
  show 2: "reachable (\<lambda>q. q = []) (queue_step demo_queue_lib) [demo_locked]"
    using 1 by (rule reachable.move) (rule queue_claim [OF demo_claim_queue])
  show "reachable (\<lambda>q. q = []) (queue_step demo_queue_lib) [demo_completed]"
    using 2 by (rule reachable.move) (rule queue_finalize [OF demo_complete [unfolded complete_def]])
qed

lemmas demo_queue_ok = demo_queue_reachable [THEN queue.reach_inv]

section \<open>Settled futures\<close>

text \<open>A future that is done stays as it is; only the thread notes a cancellation.\<close>

definition settles :: "'r future \<Rightarrow> 'r future \<Rightarrow> bool" where
  "settles f g \<longleftrightarrow> (future_done f \<longrightarrow> g = f \<or> f = F_CANCELLED \<and> g = F_CANCELLED_AND_NOTIFIED)"

lemma settles_simps [simp]: "settles f f" "settles f (future_cancel f)" "\<not> future_done f \<Longrightarrow> settles f g"
  by (cases f; simp add: settles_def)+

lemma thread_settles:
  assumes "thread_step opened s = Some s'"
  shows "settles (future_of s i) (future_of s' i) \<and> length (ac_calls s') = length (ac_calls s)"
proof -
  have notify: "settles f g" if "set_running_or_notify_cancel f = Inr (g, go)" for f g :: "'b future" and go
    using that by (cases f) (auto simp: settles_def)
  show ?thesis using assms notify
    by (auto simp: thread_step_def settle_def future_set_def finish_call_def run_operation_def handle_error_def stop_with_error_def
        split: thread_pc.splits list.splits option.splits sum.splits prod.splits outcome.splits if_splits)
qed

lemma step_settles:
  assumes "actor_step ops s s'" "i < length (ac_calls s)"
  shows "settles (future_of s i) (future_of s' i) \<and> i < length (ac_calls s')"
  using assms(1)
proof cases
  case (actor_thread opened)
  then show ?thesis using thread_settles assms(2) by metis
next
  case (actor_drain dr)
  then show ?thesis using assms(2)
    by (auto simp: drain_step_def future_set_def end_drain_def abort_drain_def split: option.splits list.splits)
next
  case (actor_call operation r)
  then show ?thesis using assms(2) by (auto simp: submit_call_def Let_def future_of_def nth_append split: if_splits)
next
  case (actor_timeout j r)
  then show ?thesis using assms(2) by (auto simp: timeout_call_def)
next
  case actor_stop
  then show ?thesis using assms(2) by (auto simp: request_stop_def)
qed

lemma cancelled_stays:
  assumes "(actor_step ops)\<^sup>*\<^sup>* s s'" "i < length (ac_calls s)"
    and "future_of s i = F_CANCELLED \<or> future_of s i = F_CANCELLED_AND_NOTIFIED"
  shows "i < length (ac_calls s') \<and> (future_of s' i = F_CANCELLED \<or> future_of s' i = F_CANCELLED_AND_NOTIFIED)"
  using assms(1)
proof (induction rule: rtranclp_induct)
  case (step t u)
  then show ?case using step_settles [OF step.hyps(2), of i] by (auto simp: settles_def)
qed (use assms(2,3) in simp)

section \<open>A concrete run\<close>

definition demo_enqueue_call :: "queue \<Rightarrow> string outcome \<times> queue" where
  "demo_enqueue_call = queue_call (enqueue demo_queue_lib 100 ''m1'' '' k1'' [] 2 None)"

definition demo_interrupt :: "queue \<Rightarrow> string outcome \<times> queue" where
  "demo_interrupt q = (Fatal (ExternalError ''KeyboardInterrupt''), q)"

lemma demo_operations: "queue_operation demo_queue_lib demo_enqueue_call" "queue_operation lib demo_interrupt"
proof -
  show "queue_operation demo_queue_lib demo_enqueue_call"
    unfolding queue_operation_def
  proof
    fix q
    obtain r q' where e: "enqueue demo_queue_lib 100 ''m1'' '' k1'' [] 2 None q = (r, q')" by fastforce
    then have "queue_step demo_queue_lib q q'" by (rule queue_enqueue)
    moreover have "snd (demo_enqueue_call q) = q'" by (simp add: demo_enqueue_call_def queue_call_def e split: sum.splits)
    ultimately show "(queue_step demo_queue_lib)\<^sup>*\<^sup>* q (snd (demo_enqueue_call q))" by auto
  qed
qed (simp add: queue_operation_def demo_interrupt_def)

definition demo_running :: "(queue, string) actor" where
  "demo_running = (alone ^^ 3) (start_actor [])"

definition demo_waiting :: "(queue, string) actor" where
  "demo_waiting = snd (submit_call demo_enqueue_call demo_running)"

definition demo_closing :: "(queue, string) actor" where
  "demo_closing = (alone ^^ 3) (request_stop demo_waiting)"

definition demo_called :: "(queue, string) actor" where
  "demo_called = (alone ^^ 5) demo_waiting"

abbreviation demo_actor :: "(queue, string) actor \<Rightarrow> bool" where
  "demo_actor \<equiv> reachable (\<lambda>s. s = start_actor []) (actor_step (queue_operation demo_queue_lib))"

lemma demo_alone: "demo_actor s \<Longrightarrow> demo_actor ((alone ^^ n) s)"
  using reachable_star [OF alone_star] .

lemma demo_alone_once: "demo_actor s \<Longrightarrow> demo_actor (alone s)"
  using demo_alone [of s 1] by simp

lemma demo_submit:
  assumes "demo_actor s" "ac_drain s = None" "queue_operation demo_queue_lib f"
  shows "demo_actor (snd (submit_call f s))"
  using assms(1) by (rule reachable.move) (intro actor_call [where operation = f] assms(2,3), simp add: prod_eq_iff)

lemma demo_stop: "demo_actor s \<Longrightarrow> ac_drain s = None \<Longrightarrow> demo_actor (request_stop s)"
  by (rule reachable.move, assumption, rule actor_stop) simp_all

lemma demo_timeout: "demo_actor s \<Longrightarrow> i < length (ac_calls s) \<Longrightarrow> demo_actor (snd (timeout_call i s))"
  by (rule reachable.move, assumption, rule actor_timeout) (simp_all add: prod_eq_iff)

lemma demo_actors: "demo_actor demo_running" "demo_actor demo_waiting" "demo_actor demo_called" "demo_actor demo_closing"
proof -
  show 1: "demo_actor demo_running" unfolding demo_running_def by (intro demo_alone reachable.start) simp
  show 2: "demo_actor demo_waiting" unfolding demo_waiting_def by (rule demo_submit [OF 1 _ demo_operations(1)]) code_simp
  show "demo_actor demo_called" unfolding demo_called_def by (rule demo_alone [OF 2])
  show "demo_actor demo_closing" unfolding demo_closing_def by (intro demo_alone demo_stop 2) code_simp
qed

section \<open>Guarantees\<close>

text \<open>C31: the actor serializes its callers: whatever they do, the queue is what the operations that were run
  make of it one after the other, in the order of submission, each run at most once; every call that
  was run gets the outcome of its own operation, only such calls return a result, and the queue keeps its
  invariant.\<close>

theorem actor_serializes:
  assumes "reachable (\<lambda>s. s = start_actor []) (actor_step (queue_operation lib)) s"
  shows "sorted_wrt (<) (ac_log s)
    \<and> (\<exists>outs. replay_all [] (map (\<lambda>i. cl_operation (ac_calls s ! i)) (ac_log s)) = (outs, ac_queue s)
         \<and> list_all2 (\<lambda>i out. running (ac_pc s) = Some i \<or> future_of s i = outcome_future out) (ac_log s) outs)
    \<and> (\<forall>i r. i < length (ac_calls s) \<and> future_of s i = F_RESULT r \<longrightarrow> i \<in> set (ac_log s))
    \<and> queue_ok (ac_queue s)"
proof (intro conjI)
  have inv: "actor_ok [] s" by (rule actor.reach_inv [OF assms])
  note ok = actor_okD [OF inv]
  show "sorted_wrt (<) (ac_log s)" using ok(1) by (simp add: order_ok_def sorted_wrt_append)
  obtain settled outs where l: "ac_log s = settled @ map fst (option_list (finishing (ac_pc s)))"
    "replay_all [] (map (\<lambda>i. cl_operation (ac_calls s ! i)) (ac_log s)) = (outs @ map snd (option_list (finishing (ac_pc s))), ac_queue s)"
    "list_all2 (\<lambda>i out. future_of s i = outcome_future out) settled outs"
    using ok(3) by (auto simp: log_ok_def)
  have "list_all2 (\<lambda>i out. running (ac_pc s) = Some i \<or> future_of s i = outcome_future out) settled outs"
    by (rule list_all2_mono [OF l(3)]) blast
  moreover have "list_all2 (\<lambda>i out. running (ac_pc s) = Some i \<or> future_of s i = outcome_future out)
      (map fst (option_list (finishing (ac_pc s)))) (map snd (option_list (finishing (ac_pc s))))"
    by (cases "ac_pc s") auto
  ultimately have "list_all2 (\<lambda>i out. running (ac_pc s) = Some i \<or> future_of s i = outcome_future out) (ac_log s)
      (outs @ map snd (option_list (finishing (ac_pc s))))" unfolding l(1) by (rule list_all2_appendI)
  then show "\<exists>outs. replay_all [] (map (\<lambda>i. cl_operation (ac_calls s ! i)) (ac_log s)) = (outs, ac_queue s)
      \<and> list_all2 (\<lambda>i out. running (ac_pc s) = Some i \<or> future_of s i = outcome_future out) (ac_log s) outs"
    using l(2) by blast
  show "\<forall>i r. i < length (ac_calls s) \<and> future_of s i = F_RESULT r \<longrightarrow> i \<in> set (ac_log s)"
    using ok(2) by (auto simp: futures_ok_def future_ok_def)
  show "queue_ok (ac_queue s)"
    by (rule actor_queue_ok [OF inv calls.reach_inv [OF assms]]) (simp add: queue_ok_def tokens_ok_def)
qed

theorem actor_serializes_witness:
  "ac_log demo_called = [0] \<and> ac_queue demo_called = [demo_message] \<and> queue_ok (ac_queue demo_called)
   \<and> (\<exists>outs. replay_all [] (map (\<lambda>i. cl_operation (ac_calls demo_called ! i)) (ac_log demo_called)) = (outs, ac_queue demo_called))"
proof -
  have "ac_log demo_called = [0]" "ac_queue demo_called = [demo_message]" by code_simp+
  then show ?thesis using actor_serializes [OF demo_actors(3)] by blast
qed

text \<open>C32: closing settles every call.  A stop that comes while no other stop is draining and the thread has not died
  of an exception of its own drain, followed by the stop's drain and the thread alone, that is without another stop and
  without a caller that gives up (the race of \<open>drain_race\<close> below), ends the thread after a bounded number of steps, and
  then every future that was ever handed out is done, so no caller waits for its timeout.  Calls in between change
  nothing, since the actor refuses them.\<close>

theorem actor_close_settles:
  assumes "reachable (\<lambda>s. s = start_actor q0) (actor_step ops) s"
    and "ac_drain s = None" "\<And>e. ac_pc s \<noteq> T_crashed e"
  shows "\<exists>n \<le> 6 * length (ac_requests s) + 24. ac_pc ((alone ^^ n) (request_stop s)) = T_exited
    \<and> list_all (\<lambda>c. future_done (cl_future c)) (ac_calls ((alone ^^ n) (request_stop s)))
    \<and> (\<forall>k operation. snd (submit_call operation ((alone ^^ k) (request_stop s))) = (alone ^^ k) (request_stop s))"
proof -
  have inv: "actor_ok q0 s" by (rule actor.reach_inv [OF assms(1)])
  have stop: "actor_ok q0 (request_stop s)" by (rule stop_ok [OF inv assms(2)])
  note closes = stop_closes [OF inv assms(2,3)]
  from closing_ends [OF stop closes(1)] closes(2) obtain n where n: "n \<le> 6 * length (ac_requests s) + 24"
    "ac_pc ((alone ^^ n) (request_stop s)) = T_exited" by (meson order_trans)
  moreover have "snd (submit_call operation ((alone ^^ k) (request_stop s))) = (alone ^^ k) (request_stop s)" for k operation
    using alone_refuses [OF stop_refuses, of k s] by (auto simp: submit_call_def refusing_def)
  ultimately show ?thesis using exited_done [OF alone_ok [OF stop]] by blast
qed

theorem actor_close_settles_witness:
  "\<exists>n \<le> 30. ac_pc ((alone ^^ n) (request_stop demo_waiting)) = T_exited
     \<and> list_all (\<lambda>c. future_done (cl_future c)) (ac_calls ((alone ^^ n) (request_stop demo_waiting)))"
proof -
  have w: "ac_drain demo_waiting = None" "length (ac_requests demo_waiting) = 1" "ac_pc demo_waiting = T_get" by code_simp+
  then have pc: "ac_pc demo_waiting \<noteq> T_crashed e" for e by simp
  show ?thesis using actor_close_settles [OF demo_actors(2) w(1) pc] w(2) by auto
qed

text \<open>C33: a call that timed out before its operation started never has an effect: it is in no later log.\<close>

theorem actor_timeout_no_effect:
  assumes "reachable (\<lambda>s. s = start_actor q0) (actor_step ops) s" "i < length (ac_calls s)"
    and "future_of s i = F_PENDING" "(actor_step ops)\<^sup>*\<^sup>* (snd (timeout_call i s)) s'"
  shows "i \<notin> set (ac_log s')"
proof -
  have step: "actor_step ops s (snd (timeout_call i s))" by (rule actor_timeout [OF assms(2)]) (simp add: timeout_call_def)
  have inv: "actor_ok q0 s'"
    using actor.reach_inv [OF assms(1)] actor_step_ok [OF step] actor.star_inv [OF assms(4)] by blast
  have "future_of (snd (timeout_call i s)) i = F_CANCELLED" "i < length (ac_calls (snd (timeout_call i s)))"
    using assms(2,3) by (simp_all add: timeout_call_def)
  with cancelled_stays [OF assms(4)] cancelled_not_run [OF inv] show ?thesis by blast
qed

theorem actor_timeout_no_effect_witness: "0 \<notin> set (ac_log ((alone ^^ 4) (snd (timeout_call 0 demo_waiting))))"
proof (rule actor_timeout_no_effect [OF demo_actors(2)])
  show "0 < length (ac_calls demo_waiting)" "future_of demo_waiting 0 = F_PENDING" by code_simp+
qed (rule alone_star)

section \<open>Races\<close>

text \<open>
  \<open>_fail_pending\<close> asks whether a future is done and then sets its exception, and a caller whose
  timeout falls between the two cancels it.  The exception of the setter then ends the drain: here the thread
  dies in \<open>_stop_with_error\<close> and leaves another call pending for ever.
\<close>

definition demo_interrupted :: "(queue, string) actor" where
  "demo_interrupted = snd (submit_call demo_enqueue_call (snd (submit_call demo_enqueue_call
     (snd (submit_call demo_interrupt demo_running)))))"

definition demo_crashed :: "(queue, string) actor" where
  "demo_crashed = alone (snd (timeout_call 1 ((alone ^^ 8) demo_interrupted)))"

lemmas run_simps = alone_def thread_step_def drain_step_def run_operation_def finish_call_def settle_def handle_error_def
  stop_with_error_def abort_drain_def future_set_def put_future_def future_of_def timeout_call_def submit_call_def

lemma demo_interrupted_eq: "demo_interrupted = \<lparr>ac_requests = [Some 0, Some 1, Some 2], ac_startup = F_RESULT (),
    ac_state = S_RUNNING, ac_fatal_error = None, ac_drain = None, ac_pc = T_get, ac_queue = [],
    ac_calls = map (\<lambda>f. \<lparr>cl_operation = f, cl_future = F_PENDING\<rparr>) [demo_interrupt, demo_enqueue_call, demo_enqueue_call],
    ac_log = []\<rparr>"
  by (simp add: demo_interrupted_def demo_running_def start_actor_def run_simps eval_nat_numeral)

lemma demo_draining_eq: "(alone ^^ 8) demo_interrupted = \<lparr>ac_requests = [Some 2], ac_startup = F_RESULT (),
    ac_state = S_STOPPED, ac_fatal_error = Some ActorDiedError,
    ac_drain = Some \<lparr>dr_by_thread = True, dr_error = ActorDiedError, dr_future = Some 1\<rparr>, ac_pc = T_drain, ac_queue = [],
    ac_calls = [\<lparr>cl_operation = demo_interrupt, cl_future = F_EXCEPTION ActorDiedError\<rparr>,
      \<lparr>cl_operation = demo_enqueue_call, cl_future = F_PENDING\<rparr>, \<lparr>cl_operation = demo_enqueue_call, cl_future = F_PENDING\<rparr>],
    ac_log = [0]\<rparr>"
  by (simp add: demo_interrupted_eq demo_interrupt_def run_simps eval_nat_numeral)

lemma drain_race:
  "demo_actor demo_crashed \<and> ac_pc demo_crashed = T_crashed InvalidStateError \<and> ac_state demo_crashed = S_STOPPED
   \<and> future_of demo_crashed 2 = F_PENDING"
proof (intro conjI)
  have 1: "demo_actor demo_interrupted" unfolding demo_interrupted_def
    by (intro demo_submit demo_actors(1) demo_operations) code_simp+
  have "demo_actor (snd (timeout_call 1 ((alone ^^ 8) demo_interrupted)))"
    by (rule demo_timeout [OF demo_alone [OF 1]]) (simp add: demo_draining_eq)
  then show "demo_actor demo_crashed" unfolding demo_crashed_def by (rule demo_alone_once)
qed (simp_all add: demo_crashed_def demo_draining_eq run_simps)

text \<open>
  The thread refuses a call in the same way: when the caller has given it up, the exception of the setter
  makes an orderly close look like a death of the actor.
\<close>

definition demo_refused :: "(queue, string) actor" where
  "demo_refused = (alone ^^ 5) (snd (timeout_call 0 ((alone ^^ 2) (request_stop (alone demo_waiting)))))"

lemma refuse_race:
  "demo_actor demo_refused \<and> ac_pc demo_refused = T_exited \<and> ac_log demo_refused = []
   \<and> fst (submit_call demo_enqueue_call demo_refused) = Inl ActorDiedError"
proof (intro conjI)
  have 1: "demo_actor (alone demo_waiting)" by (rule demo_alone_once [OF demo_actors(2)])
  show "demo_actor demo_refused" unfolding demo_refused_def
    by (rule demo_alone [OF demo_timeout [OF demo_alone [OF demo_stop [OF 1]]]]) code_simp+
qed code_simp+

end
