(* ===== verification/Fabric_Control.thy ===== *)
theory Fabric_Control
  imports Py_Prelude
begin

text \<open>
  The Lakehouse-wide writer lock of \<^verbatim>\<open>fabric_control.py\<close> (class \<open>ControlWriter\<close>): one
  pre-seeded row of a Delta table, claimed and released by conditional updates, with no expiry and no
  takeover.  A writer runs \<open>run\<close>: acquire, callback, release; \<open>writer_step\<close> is one access to the
  table or the clock, so that any interleaving of writers is a sequence of steps.  Delta and Spark are
  not part of the repository: an update action of theirs commits, or raises, or does both
  (\<open>update_result\<close>), and the step takes what it did as an argument.
\<close>

section \<open>Errors of Delta\<close>

definition OCC_NAMES :: "string list" where
  "OCC_NAMES = [''ConcurrentAppendException'', ''ConcurrentDeleteReadException'',
     ''ConcurrentDeleteDeleteException'', ''ConcurrentTransactionException'',
     ''ConcurrentWriteException'', ''MetadataChangedException'', ''ProtocolChangedException'']"

definition OCC_ERROR_CLASSES :: "string list" where
  "OCC_ERROR_CLASSES = [''DELTA_CONCURRENT_APPEND'', ''DELTA_CONCURRENT_DELETE_READ'',
     ''DELTA_CONCURRENT_DELETE_DELETE'', ''DELTA_CONCURRENT_TRANSACTION'',
     ''DELTA_CONCURRENT_WRITE'', ''DELTA_METADATA_CHANGED'', ''DELTA_PROTOCOL_CHANGED'']"

definition OCC_JAVA_CLASSES :: "string list" where
  "OCC_JAVA_CLASSES = concat (map (\<lambda>package. map (\<lambda>name. package @ ''.'' @ name) OCC_NAMES)
     [''io.delta.exceptions'', ''org.apache.spark.sql.delta''])"

text \<open>
  What the code looks at in an exception: the module and name of its class, the results of
  \<open>getErrorClass()\<close> and of \<open>java_exception.getClass().getName()\<close> where the exception has them,
  and whether it is an instance of the retryable types (classes of \<open>delta\<close>, \<open>py4j\<close> and
  \<open>pyspark\<close>).
\<close>

record external_exception =
  ex_module :: string
  ex_name :: string
  ex_error_class :: "string option option"
  ex_java_class :: "string option"
  ex_retryable :: bool

definition is_delta_occ :: "external_exception \<Rightarrow> bool" where
  "is_delta_occ e =
     (if ex_module e = ''delta.exceptions'' \<and> ex_name e \<in> set OCC_NAMES then True
      else if (case ex_error_class e of Some (Some c) \<Rightarrow> c \<in> set OCC_ERROR_CLASSES | _ \<Rightarrow> False) then True
      else case ex_java_class e of None \<Rightarrow> False | Some c \<Rightarrow> c \<in> set OCC_JAVA_CLASSES)"

section \<open>The lock table\<close>

record lock_row =
  lr_lock_name :: string
  lr_owner_id :: "string option"
  lr_acquired_at :: "pyfloat option"

type_synonym lock_table = "lock_row list"

record lock_state =
  ls_owner_id :: "string option"
  ls_acquired_at :: "pyfloat option"

definition read_lock :: "lock_table \<Rightarrow> lock_state res" where
  "read_lock table = (let rows = take 2 table in
     if length rows \<noteq> 1 \<or> lr_lock_name (rows ! 0) \<noteq> ''global'' then Inl ControlLockError
     else Inr \<lparr>ls_owner_id = lr_owner_id (rows ! 0), ls_acquired_at = lr_acquired_at (rows ! 0)\<rparr>)"

text \<open>The two conditional updates; SQL's \<open>=\<close> is never true of a null owner.\<close>

definition claim_lock :: "string \<Rightarrow> pyfloat \<Rightarrow> lock_table \<Rightarrow> lock_table" where
  "claim_lock owner_id now table =
     update_where (\<lambda>r. lr_lock_name r = ''global'' \<and> lr_owner_id r = None)
       (\<lambda>r. r\<lparr>lr_owner_id := Some owner_id, lr_acquired_at := Some now\<rparr>) table"

definition clear_lock :: "string \<Rightarrow> lock_table \<Rightarrow> lock_table" where
  "clear_lock owner_id table =
     update_where (\<lambda>r. lr_lock_name r = ''global'' \<and> lr_owner_id r = Some owner_id)
       (\<lambda>r. r\<lparr>lr_owner_id := None, lr_acquired_at := None\<rparr>) table"

section \<open>One writer\<close>

text \<open>Where a call of \<open>run\<close> stands.  The position is before the named access.\<close>

datatype writer_pc =
    W_acquire                  \<comment> \<open>first read of the lock\<close>
  | W_loop lock_state          \<comment> \<open>head of the loop, with the state read last\<close>
  | W_claim                    \<comment> \<open>the conditional update\<close>
  | W_reread                   \<comment> \<open>the read after it\<close>
  | W_check lock_state         \<comment> \<open>comparison of the observed owner\<close>
  | W_sleep                    \<comment> \<open>the read after the pause\<close>
  | W_operation                \<comment> \<open>the callback is running\<close>
  | W_release_read
  | W_release_update
  | W_release_verify
  | W_done
  | W_failed err

text \<open>What an update action of Delta did: committed, committed but raised, or raised without effect.\<close>

datatype update_result = Committed | Committed_raised external_exception | Raised external_exception

fun applied :: "update_result \<Rightarrow> bool" where
  "applied (Raised e) = False"
| "applied _ = True"

fun raised :: "update_result \<Rightarrow> external_exception option" where
  "raised Committed = None"
| "raised (Committed_raised e) = Some e"
| "raised (Raised e) = Some e"

text \<open>
  The outside of a step: whether the deadline has passed, the table server's time, what the update
  did, and how the callback ended (\<open>None\<close>: it returned).
\<close>

record outside =
  os_in_time :: bool
  os_now :: pyfloat
  os_update :: update_result
  os_callback :: "err option"

definition after_read :: "(lock_state \<Rightarrow> writer_pc) \<Rightarrow> lock_table \<Rightarrow> writer_pc" where
  "after_read k table = (case read_lock table of Inl e \<Rightarrow> W_failed e | Inr st \<Rightarrow> k st)"

definition claim_outcome :: "update_result \<Rightarrow> writer_pc" where
  "claim_outcome u = (case raised u of
     None \<Rightarrow> W_reread
   | Some e \<Rightarrow> if ex_retryable e \<and> is_delta_occ e then W_reread else W_failed (ExternalError (ex_name e)))"

text \<open>\<open>_acquire\<close>\<close>

definition acquire_step :: "outside \<Rightarrow> string \<Rightarrow> writer_pc \<Rightarrow> lock_table \<Rightarrow> writer_pc \<times> lock_table" where
  "acquire_step out owner_id pc table = (case pc of
     W_acquire \<Rightarrow> (after_read W_loop table, table)
   | W_loop st \<Rightarrow>
       (if \<not> os_in_time out then W_failed TimeoutError
        else if ls_owner_id st = None then W_claim else W_check st, table)
   | W_claim \<Rightarrow> (claim_outcome (os_update out),
                 if applied (os_update out) then claim_lock owner_id (os_now out) table else table)
   | W_reread \<Rightarrow> (after_read W_check table, table)
   | W_check st \<Rightarrow> (if ls_owner_id st = Some owner_id then W_operation else W_sleep, table)
   | W_sleep \<Rightarrow> (after_read W_loop table, table)
   | _ \<Rightarrow> (pc, table))"

text \<open>\<open>_release\<close>\<close>

definition release_step :: "outside \<Rightarrow> string \<Rightarrow> writer_pc \<Rightarrow> lock_table \<Rightarrow> writer_pc \<times> lock_table" where
  "release_step out owner_id pc table = (case pc of
     W_release_read \<Rightarrow>
       (after_read (\<lambda>st. if ls_owner_id st \<noteq> Some owner_id \<or> ls_acquired_at st = None
          then W_failed ControlLockError else W_release_update) table, table)
   | W_release_update \<Rightarrow>
       (case raised (os_update out) of None \<Rightarrow> W_release_verify | Some e \<Rightarrow> W_failed (ExternalError (ex_name e)),
        if applied (os_update out) then clear_lock owner_id table else table)
   | W_release_verify \<Rightarrow>
       (after_read (\<lambda>st. if ls_owner_id st = Some owner_id
            \<or> (ls_owner_id st = None) \<noteq> (ls_acquired_at st = None)
          then W_failed ControlLockError else W_done) table, table)
   | _ \<Rightarrow> (pc, table))"

definition writer_step :: "outside \<Rightarrow> string \<Rightarrow> writer_pc \<Rightarrow> lock_table \<Rightarrow> writer_pc \<times> lock_table" where
  "writer_step out owner_id pc table = (case pc of
     W_operation \<Rightarrow> (case os_callback out of None \<Rightarrow> W_release_read | Some e \<Rightarrow> W_failed e, table)
   | W_release_read \<Rightarrow> release_step out owner_id pc table
   | W_release_update \<Rightarrow> release_step out owner_id pc table
   | W_release_verify \<Rightarrow> release_step out owner_id pc table
   | W_done \<Rightarrow> (pc, table)
   | W_failed e \<Rightarrow> (pc, table)
   | _ \<Rightarrow> acquire_step out owner_id pc table)"

text \<open>
  A context runs one writer at a time: \<open>run\<close> refuses to nest, and the guard is reset however the
  call ends.
\<close>

record writer =
  wr_owner_id :: string
  wr_pc :: writer_pc

fun over :: "writer_pc \<Rightarrow> bool" where
  "over W_done = True"
| "over (W_failed e) = True"
| "over _ = False"

definition active_writer :: "writer option \<Rightarrow> bool" where
  "active_writer c = (case c of None \<Rightarrow> False | Some w \<Rightarrow> \<not> over (wr_pc w))"

definition begin_run :: "string \<Rightarrow> writer option \<Rightarrow> writer res" where
  "begin_run owner_id c =
     (if active_writer c then Inl RuntimeError else Inr \<lparr>wr_owner_id = owner_id, wr_pc = W_acquire\<rparr>)"

section \<open>Serialized tables\<close>

text \<open>
  \<open>_SerializedDeltaTable\<close> records builder calls and replays them on a real table inside \<open>run\<close>.
  The real builder is a parameter: \<open>open_table\<close> and \<open>invoke\<close>.
\<close>

record 'a recipe_step =
  rs_method :: string
  rs_args :: "'a list"
  rs_kwargs :: "(string \<times> 'a) list"

record 'a recipe =
  rc_table_name :: string
  rc_steps :: "'a recipe_step list"

definition for_name :: "string \<Rightarrow> 'a recipe" where
  "for_name table_name = \<lparr>rc_table_name = table_name, rc_steps = []\<rparr>"

definition append_call :: "string \<Rightarrow> 'a list \<Rightarrow> (string \<times> 'a) list \<Rightarrow> 'a recipe \<Rightarrow> 'a recipe" where
  "append_call meth args kwargs r =
     r\<lparr>rc_steps := rc_steps r @ [\<lparr>rs_method = meth, rs_args = args, rs_kwargs = kwargs\<rparr>]\<rparr>"

definition alias_call :: "'a \<Rightarrow> 'a recipe \<Rightarrow> 'a recipe" where
  "alias_call alias_name = append_call ''alias'' [alias_name] []"

definition merge_call :: "'a \<Rightarrow> 'a \<Rightarrow> 'a recipe \<Rightarrow> 'a recipe" where
  "merge_call source condition = append_call ''merge'' [source, condition] []"

definition when_matched_update :: "'a \<Rightarrow> 'a \<Rightarrow> 'a recipe \<Rightarrow> 'a recipe" where
  "when_matched_update condition assignments =
     append_call ''whenMatchedUpdate'' [] [(''condition'', condition), (''set'', assignments)]"

definition when_matched_update_all :: "'a \<Rightarrow> 'a recipe \<Rightarrow> 'a recipe" where
  "when_matched_update_all condition = append_call ''whenMatchedUpdateAll'' [] [(''condition'', condition)]"

definition when_not_matched_insert_all :: "'a \<Rightarrow> 'a recipe \<Rightarrow> 'a recipe" where
  "when_not_matched_insert_all condition =
     append_call ''whenNotMatchedInsertAll'' [] [(''condition'', condition)]"

definition when_not_matched_insert :: "'a \<Rightarrow> 'a \<Rightarrow> 'a recipe \<Rightarrow> 'a recipe" where
  "when_not_matched_insert condition vals =
     append_call ''whenNotMatchedInsert'' [] [(''condition'', condition), (''values'', vals)]"

definition when_matched_delete :: "'a \<Rightarrow> 'a recipe \<Rightarrow> 'a recipe" where
  "when_matched_delete condition = append_call ''whenMatchedDelete'' [] [(''condition'', condition)]"

definition when_not_matched_by_source_update :: "'a \<Rightarrow> 'a \<Rightarrow> 'a recipe \<Rightarrow> 'a recipe" where
  "when_not_matched_by_source_update condition assignments =
     append_call ''whenNotMatchedBySourceUpdate'' [] [(''condition'', condition), (''set'', assignments)]"

definition when_not_matched_by_source_delete :: "'a \<Rightarrow> 'a recipe \<Rightarrow> 'a recipe" where
  "when_not_matched_by_source_delete condition =
     append_call ''whenNotMatchedBySourceDelete'' [] [(''condition'', condition)]"

definition perform :: "(string \<Rightarrow> 'b res) \<Rightarrow> (string \<Rightarrow> 'a list \<Rightarrow> (string \<times> 'a) list \<Rightarrow> 'b \<Rightarrow> 'b res)
    \<Rightarrow> string \<Rightarrow> (string \<times> 'a) list \<Rightarrow> 'a recipe \<Rightarrow> 'b res" where
  "perform open_table invoke meth kwargs r = bindE (open_table (rc_table_name r)) (\<lambda>builder.
     bindE (foldE (\<lambda>s. invoke (rs_method s) (rs_args s) (rs_kwargs s)) (rc_steps r) builder)
       (invoke meth [] kwargs))"

end
