(* ===== verification/Fabric_Control_Spec.thy ===== *)
theory Fabric_Control_Spec
  imports Fabric_Control Transition
begin

text \<open>
  Any number of writers on one lock table, in any interleaving: mutual exclusion of the callbacks, no
  takeover of a held lock, and a release that is always verified.  The owner ids are the results of
  \<open>uuid4\<close>: a new run gets an id no run had before.
\<close>

section \<open>The system\<close>

record lock_system =
  sy_table :: lock_table
  sy_contexts :: "writer option list"
  sy_issued :: "string set"

definition lock_row_of :: "string option \<Rightarrow> pyfloat option \<Rightarrow> lock_row" where
  "lock_row_of o_id since = \<lparr>lr_lock_name = ''global'', lr_owner_id = o_id, lr_acquired_at = since\<rparr>"

text \<open>Bootstrap seeds the one row; nobody is running.\<close>

definition lock_init :: "lock_system \<Rightarrow> bool" where
  "lock_init s \<longleftrightarrow> sy_table s = [lock_row_of None None] \<and> (\<forall>c \<in> set (sy_contexts s). c = None)"

text \<open>
  A context starts a run, a run makes its next access, a run is stopped by an exception from outside
  (an interrupt, a killed process), or an operator clears the token of a run that is over.
\<close>

inductive lock_step :: "lock_system \<Rightarrow> lock_system \<Rightarrow> bool" where
  run: "i < length (sy_contexts s) \<Longrightarrow> o_id \<notin> sy_issued s \<Longrightarrow> begin_run o_id (sy_contexts s ! i) = Inr w
    \<Longrightarrow> lock_step s (s\<lparr>sy_contexts := (sy_contexts s)[i := Some w], sy_issued := insert o_id (sy_issued s)\<rparr>)"
| access: "i < length (sy_contexts s) \<Longrightarrow> sy_contexts s ! i = Some w
    \<Longrightarrow> writer_step out (wr_owner_id w) (wr_pc w) (sy_table s) = (pc, t)
    \<Longrightarrow> lock_step s (s\<lparr>sy_table := t, sy_contexts := (sy_contexts s)[i := Some (w\<lparr>wr_pc := pc\<rparr>)]\<rparr>)"
| stopped: "i < length (sy_contexts s) \<Longrightarrow> sy_contexts s ! i = Some w
    \<Longrightarrow> lock_step s (s\<lparr>sy_contexts := (sy_contexts s)[i := Some (w\<lparr>wr_pc := W_failed e\<rparr>)]\<rparr>)"
| operator: "(\<And>w. Some w \<in> set (sy_contexts s) \<Longrightarrow> wr_owner_id w = o_id \<Longrightarrow> over (wr_pc w))
    \<Longrightarrow> lock_step s (s\<lparr>sy_table := clear_lock o_id (sy_table s)\<rparr>)"

section \<open>The invariant\<close>

text \<open>The positions from which a writer has seen its own id in the table and has not cleared it.\<close>

fun sees_own :: "string \<Rightarrow> writer_pc \<Rightarrow> bool" where
  "sees_own o_id (W_loop st) = (ls_owner_id st = Some o_id)"
| "sees_own o_id (W_check st) = (ls_owner_id st = Some o_id)"
| "sees_own o_id W_operation = True"
| "sees_own o_id W_release_read = True"
| "sees_own o_id W_release_update = True"
| "sees_own o_id _ = False"

fun has_cleared :: "writer_pc \<Rightarrow> bool" where
  "has_cleared W_release_verify = True"
| "has_cleared W_done = True"
| "has_cleared _ = False"

definition writer_ok :: "string option \<Rightarrow> writer \<Rightarrow> bool" where
  "writer_ok holder w \<longleftrightarrow> (sees_own (wr_owner_id w) (wr_pc w) \<longrightarrow> holder = Some (wr_owner_id w))
     \<and> (has_cleared (wr_pc w) \<longrightarrow> holder \<noteq> Some (wr_owner_id w))"

definition owners_ok :: "writer option list \<Rightarrow> string set \<Rightarrow> bool" where
  "owners_ok cs ids \<longleftrightarrow> (\<forall>i < length cs. \<forall>w. cs ! i = Some w \<longrightarrow> wr_owner_id w \<in> ids
     \<and> (\<forall>j < length cs. \<forall>v. cs ! j = Some v \<and> wr_owner_id v = wr_owner_id w \<longrightarrow> i = j))"

definition lock_ok :: "lock_system \<Rightarrow> bool" where
  "lock_ok s \<longleftrightarrow> owners_ok (sy_contexts s) (sy_issued s)
     \<and> (\<exists>holder since. sy_table s = [lock_row_of holder since] \<and> (holder = None \<longleftrightarrow> since = None)
         \<and> (\<forall>w. Some w \<in> set (sy_contexts s) \<longrightarrow> writer_ok holder w)
         \<and> (\<forall>x. holder = Some x \<longrightarrow> x \<in> sy_issued s))"

lemma raised_None [simp]: "raised u = None \<longleftrightarrow> u = Committed"
  by (cases u) auto

lemma lock_row_inject [simp]: "lock_row_of a b = lock_row_of c d \<longleftrightarrow> a = c \<and> b = d"
  by (simp add: lock_row_of_def)

lemma read_lock_row [simp]: "read_lock [lock_row_of o_id since] = Inr \<lparr>ls_owner_id = o_id, ls_acquired_at = since\<rparr>"
  by (simp add: read_lock_def lock_row_of_def Let_def)

lemma claim_lock_row [simp]: "claim_lock x now [lock_row_of o_id since] =
    [if o_id = None then lock_row_of (Some x) (Some now) else lock_row_of o_id since]"
  by (simp add: claim_lock_def lock_row_of_def update_where_def)

lemma clear_lock_row [simp]: "clear_lock x [lock_row_of o_id since] =
    [if o_id = Some x then lock_row_of None None else lock_row_of o_id since]"
  by (simp add: clear_lock_def lock_row_of_def update_where_def)

text \<open>
  One access: the table is kept, claimed from free by this writer, or cleared by this writer from its
  release; and the writer stays consistent with it.
\<close>

lemma writer_step_table:
  assumes "writer_step out me pc [lock_row_of holder since] = (pc', t)"
  shows "t = [lock_row_of holder since] \<or> (\<exists>now. pc = W_claim \<and> holder = None \<and> t = [lock_row_of (Some me) (Some now)])
    \<or> pc = W_release_update \<and> holder = Some me \<and> t = [lock_row_of None None]"
  using assms by (cases pc) (auto simp: writer_step_def acquire_step_def release_step_def split: if_splits)

lemma writer_step_pc:
  assumes "writer_step out me pc [lock_row_of holder since] = (pc', [lock_row_of holder' since'])"
    and "holder = None \<longleftrightarrow> since = None" "sees_own me pc \<longrightarrow> holder = Some me" "has_cleared pc \<longrightarrow> holder \<noteq> Some me"
  shows "(sees_own me pc' \<longrightarrow> holder' = Some me) \<and> (has_cleared pc' \<longrightarrow> holder' \<noteq> Some me)"
  using assms
  by (cases pc) (auto simp: writer_step_def acquire_step_def release_step_def after_read_def claim_outcome_def
      split: if_splits option.splits update_result.splits)

text \<open>The other writers keep their view: they do not own the lock, or it did not move.\<close>

lemma writer_ok_other:
  assumes "writer_ok holder v" "holder' = holder \<or> holder = None \<and> holder' = Some me \<or> holder = Some me \<and> holder' = None"
    and "wr_owner_id v \<noteq> me"
  shows "writer_ok holder' v"
  using assms by (auto simp: writer_ok_def)

lemma owners_update:
  assumes "owners_ok cs ids" "i < length cs" "cs ! i = Some w" "wr_owner_id w' = wr_owner_id w"
  shows "owners_ok (cs[i := Some w']) ids"
  using assms unfolding owners_ok_def by (auto simp: nth_list_update split: if_splits)

lemma owners_new:
  assumes "owners_ok cs ids" "i < length cs" "wr_owner_id w \<notin> ids"
  shows "owners_ok (cs[i := Some w]) (insert (wr_owner_id w) ids)"
  using assms unfolding owners_ok_def by (auto simp: nth_list_update split: if_splits)

lemma owners_distinct:
  assumes "owners_ok cs ids" "i < length cs" "cs ! i = Some w" "Some v \<in> set (cs[i := x])"
  shows "Some v = x \<or> wr_owner_id v \<noteq> wr_owner_id w"
proof -
  obtain j where "j < length cs" "cs[i := x] ! j = Some v" using assms(4) by (auto simp: in_set_conv_nth)
  with assms(1-3) show ?thesis unfolding owners_ok_def by (cases "j = i") auto
qed

lemma update_mem: "y \<in> set (xs[i := x]) \<Longrightarrow> y = x \<or> y \<in> set xs"
  using set_update_subset_insert by fastforce

lemma lock_ok_access:
  assumes ok: "lock_ok s" and i: "i < length (sy_contexts s)" "sy_contexts s ! i = Some w"
    and step: "writer_step out (wr_owner_id w) (wr_pc w) (sy_table s) = (pc, t)"
  shows "lock_ok (s\<lparr>sy_table := t, sy_contexts := (sy_contexts s)[i := Some (w\<lparr>wr_pc := pc\<rparr>)]\<rparr>)"
proof -
  let ?me = "wr_owner_id w" and ?cs = "(sy_contexts s)[i := Some (w\<lparr>wr_pc := pc\<rparr>)]"
  obtain holder since where h: "sy_table s = [lock_row_of holder since]" "holder = None \<longleftrightarrow> since = None"
    "\<And>v. Some v \<in> set (sy_contexts s) \<Longrightarrow> writer_ok holder v" "\<And>x. holder = Some x \<Longrightarrow> x \<in> sy_issued s"
    and own: "owners_ok (sy_contexts s) (sy_issued s)" using ok by (auto simp: lock_ok_def)
  have mem: "Some w \<in> set (sy_contexts s)" using i by (metis nth_mem)
  have me: "?me \<in> sy_issued s" using own i by (auto simp: owners_ok_def)
  obtain holder' since' where t: "t = [lock_row_of holder' since']" "holder' = None \<longleftrightarrow> since' = None"
    "holder' = holder \<or> holder = None \<and> holder' = Some ?me \<or> holder = Some ?me \<and> holder' = None"
    using writer_step_table [OF step [unfolded h(1)]] h(2) by auto
  have "writer_ok holder' (w\<lparr>wr_pc := pc\<rparr>)"
    using writer_step_pc [OF step [unfolded h(1) t(1)] h(2)] h(3) [OF mem] by (auto simp: writer_ok_def)
  then have "writer_ok holder' v" if "Some v \<in> set ?cs" for v
    using owners_distinct [OF own i that] update_mem [OF that] h(3) writer_ok_other [OF _ t(3)] by auto
  moreover have "x \<in> sy_issued s" if "holder' = Some x" for x using that t(3) h(4) me by auto
  moreover have "owners_ok ?cs (sy_issued s)" by (rule owners_update [OF own i]) simp
  ultimately show ?thesis using t(1,2) by (auto simp: lock_ok_def)
qed

lemma lock_step_ok: "lock_step s s' \<Longrightarrow> lock_ok s \<Longrightarrow> lock_ok s'"
proof (induction rule: lock_step.induct)
  case (run i s o_id w)
  then have w: "wr_owner_id w = o_id" "writer_ok h w" for h by (auto simp: begin_run_def writer_ok_def split: if_splits)
  then have "owners_ok ((sy_contexts s)[i := Some w]) (insert o_id (sy_issued s))"
    using owners_new [of "sy_contexts s" "sy_issued s" i w] run by (simp add: lock_ok_def)
  then show ?case using run.prems w(2) by (auto simp: lock_ok_def dest!: update_mem)
next
  case (access i s w out pc t)
  then show ?case by (blast intro: lock_ok_access)
next
  case (stopped i s w e)
  have "owners_ok ((sy_contexts s)[i := Some (w\<lparr>wr_pc := W_failed e\<rparr>)]) (sy_issued s)"
    using stopped by (intro owners_update) (auto simp: lock_ok_def)
  moreover have "writer_ok h (w\<lparr>wr_pc := W_failed e\<rparr>)" for h by (simp add: writer_ok_def)
  ultimately show ?case using stopped.prems by (auto simp: lock_ok_def dest!: update_mem)
next
  case (operator s o_id)
  have "writer_ok None v" if "writer_ok (Some o_id) v" "Some v \<in> set (sy_contexts s)" for v
    using that operator.hyps [of v] by (cases "wr_pc v") (auto simp: writer_ok_def)
  then show ?case using operator.prems by (auto simp: lock_ok_def split: if_splits)
qed

lemma lock_init_ok: "lock_init s \<Longrightarrow> lock_ok s"
  by (fastforce simp: lock_init_def owners_ok_def lock_ok_def dest: nth_mem)

interpretation lock: invariant_system lock_init lock_step lock_ok
  by unfold_locales (auto intro: lock_init_ok lock_step_ok)

section \<open>What a writer can rely on\<close>

definition lock_holder :: "lock_system \<Rightarrow> string option" where
  "lock_holder s = lr_owner_id (hd (sy_table s))"

definition at_pc :: "lock_system \<Rightarrow> nat \<Rightarrow> writer_pc \<Rightarrow> bool" where
  "at_pc s i pc \<longleftrightarrow> i < length (sy_contexts s) \<and> map_option wr_pc (sy_contexts s ! i) = Some pc"

lemma lock_okD:
  assumes "lock_ok s"
  obtains since where "sy_table s = [lock_row_of (lock_holder s) since]" "lock_holder s = None \<longleftrightarrow> since = None"
    "owners_ok (sy_contexts s) (sy_issued s)" "\<And>w. Some w \<in> set (sy_contexts s) \<Longrightarrow> writer_ok (lock_holder s) w"
  using assms by (auto simp: lock_ok_def lock_holder_def lock_row_of_def)

lemma at_pc_owner:
  assumes "lock_ok s" "at_pc s i pc" "\<And>x. sees_own x pc"
  obtains w where "sy_contexts s ! i = Some w" "lock_holder s = Some (wr_owner_id w)"
proof -
  obtain w where w: "sy_contexts s ! i = Some w" "wr_pc w = pc" "i < length (sy_contexts s)"
    using assms(2) by (auto simp: at_pc_def)
  then have "writer_ok (lock_holder s) w" using lock_okD [OF assms(1)] by (metis nth_mem)
  with w assms(3) show thesis by (intro that) (auto simp: writer_ok_def)
qed

lemma lock_mutex:
  assumes "lock_ok s" "at_pc s i W_operation" "at_pc s j W_operation"
  shows "i = j"
proof -
  obtain w where w: "sy_contexts s ! i = Some w" "lock_holder s = Some (wr_owner_id w)"
    by (rule at_pc_owner [OF assms(1,2)]) auto
  obtain v where v: "sy_contexts s ! j = Some v" "lock_holder s = Some (wr_owner_id v)"
    by (rule at_pc_owner [OF assms(1,3)]) auto
  have "owners_ok (sy_contexts s) (sy_issued s)" by (rule lock_okD [OF assms(1)])
  then show ?thesis using w v assms(2,3) unfolding owners_ok_def at_pc_def by auto
qed

text \<open>How the holder can change in one step.\<close>

lemma lock_moves:
  assumes "lock_step s s'" "lock_ok s"
  shows "lock_holder s' = lock_holder s
    \<or> (\<exists>w. Some w \<in> set (sy_contexts s) \<and> wr_pc w = W_claim \<and> lock_holder s = None \<and> lock_holder s' = Some (wr_owner_id w))
    \<or> lock_holder s' = None \<and> (\<forall>w. Some w \<in> set (sy_contexts s) \<and> lock_holder s = Some (wr_owner_id w) \<longrightarrow>
         wr_pc w = W_release_update \<or> over (wr_pc w))"
  using assms
proof (induction rule: lock_step.induct)
  case (access i s w out pc t)
  obtain since where h: "sy_table s = [lock_row_of (lock_holder s) since]" "owners_ok (sy_contexts s) (sy_issued s)"
    by (rule lock_okD [OF access.prems])
  have mem: "Some w \<in> set (sy_contexts s)" using access by (metis nth_mem)
  have uniq: "v = w" if "Some v \<in> set (sy_contexts s)" "wr_owner_id v = wr_owner_id w" for v
    using h(2) access(1,2) that unfolding owners_ok_def by (metis in_set_conv_nth option.inject)
  show ?case
    using writer_step_table [OF access(3) [unfolded h(1)]] mem by (auto simp: lock_holder_def lock_row_of_def dest: uniq)
next
  case (operator s o_id)
  obtain since where h: "sy_table s = [lock_row_of (lock_holder s) since]" by (rule lock_okD [OF operator.prems])
  have "clear_lock o_id (sy_table s) =
      [if lock_holder s = Some o_id then lock_row_of None None else lock_row_of (lock_holder s) since]"
    by (subst h) simp
  then have "lock_holder (s\<lparr>sy_table := clear_lock o_id (sy_table s)\<rparr>) =
      (if lock_holder s = Some o_id then None else lock_holder s)"
    by (simp add: lock_holder_def lock_row_of_def)
  with operator.hyps show ?case by (auto split: if_splits)
qed (auto simp: lock_holder_def)

lemma release_never_fails:
  assumes "lock_ok s" "i < length (sy_contexts s)" "sy_contexts s ! i = Some w"
    and "writer_step out (wr_owner_id w) (wr_pc w) (sy_table s) = (pc, t)"
  shows "wr_pc w = W_release_read \<Longrightarrow> pc = W_release_update" "wr_pc w = W_release_verify \<Longrightarrow> pc = W_done"
proof -
  obtain since where h: "sy_table s = [lock_row_of (lock_holder s) since]" "lock_holder s = None \<longleftrightarrow> since = None"
    "owners_ok (sy_contexts s) (sy_issued s)"
    "\<And>v. Some v \<in> set (sy_contexts s) \<Longrightarrow> writer_ok (lock_holder s) v"
    using lock_okD [OF assms(1)] by metis
  have "writer_ok (lock_holder s) w" using h(4) assms(2,3) by (metis nth_mem)
  then show "wr_pc w = W_release_read \<Longrightarrow> pc = W_release_update" "wr_pc w = W_release_verify \<Longrightarrow> pc = W_done"
    using assms(4) h(2) unfolding h(1)
    by (auto simp: writer_step_def release_step_def after_read_def writer_ok_def split: if_splits)
qed

section \<open>A writer that is left alone\<close>

fun solo :: "outside \<Rightarrow> string \<Rightarrow> nat \<Rightarrow> writer_pc \<times> lock_table \<Rightarrow> writer_pc \<times> lock_table" where
  "solo out me 0 x = x"
| "solo out me (Suc n) x = solo out me n (writer_step out me (fst x) (snd x))"

lemma solo_run:
  assumes "os_in_time out" "os_update out = Committed"
  shows "solo out me 5 (W_acquire, [lock_row_of None None]) = (W_operation, [lock_row_of (Some me) (Some (os_now out))])"
    and "os_callback out = None \<Longrightarrow> solo out me 4 (W_operation, [lock_row_of (Some me) (Some now)]) = (W_done, [lock_row_of None None])"
  using assms by (simp_all add: numeral_eq_Suc writer_step_def acquire_step_def release_step_def after_read_def
      claim_outcome_def)

lemma solo_star:
  assumes "i < length (sy_contexts s)" "sy_contexts s ! i = Some w"
    and "solo out (wr_owner_id w) n (wr_pc w, sy_table s) = (pc, t)"
  shows "lock_step\<^sup>*\<^sup>* s (s\<lparr>sy_table := t, sy_contexts := (sy_contexts s)[i := Some (w\<lparr>wr_pc := pc\<rparr>)]\<rparr>)"
  using assms
proof (induction n arbitrary: s w)
  case 0
  then have "wr_pc w = pc" "sy_table s = t" "(sy_contexts s)[i := Some w] = sy_contexts s"
    by (simp_all add: list_update_same_conv)
  then have "s\<lparr>sy_table := t, sy_contexts := (sy_contexts s)[i := Some (w\<lparr>wr_pc := pc\<rparr>)]\<rparr> = s" by auto
  then show ?case by simp
next
  case (Suc n)
  obtain pc' t' where step: "writer_step out (wr_owner_id w) (wr_pc w) (sy_table s) = (pc', t')" by fastforce
  let ?s = "s\<lparr>sy_table := t', sy_contexts := (sy_contexts s)[i := Some (w\<lparr>wr_pc := pc'\<rparr>)]\<rparr>"
  have "lock_step s ?s" by (rule lock_step.access [OF Suc.prems(1,2) step])
  moreover have "lock_step\<^sup>*\<^sup>* ?s (?s\<lparr>sy_table := t, sy_contexts := (sy_contexts ?s)[i := Some (w\<lparr>wr_pc := pc', wr_pc := pc\<rparr>)]\<rparr>)"
    using Suc.prems step by (intro Suc.IH) auto
  ultimately show ?case by (simp add: converse_rtranclp_into_rtranclp)
qed

text \<open>
  A run of one context whose every access may find another outside: \<open>own_step\<close> is its next access, and no
  other context, nobody from outside and no operator moves in between.
\<close>

definition own_step :: "nat \<Rightarrow> lock_system \<Rightarrow> outside \<Rightarrow> lock_system" where
  "own_step i s out = (case sy_contexts s ! i of
     None \<Rightarrow> s
   | Some w \<Rightarrow> (case writer_step out (wr_owner_id w) (wr_pc w) (sy_table s) of
       (pc, t) \<Rightarrow> s\<lparr>sy_table := t, sy_contexts := (sy_contexts s)[i := Some (w\<lparr>wr_pc := pc\<rparr>)]\<rparr>))"

definition own_steps :: "nat \<Rightarrow> outside list \<Rightarrow> lock_system \<Rightarrow> lock_system" where
  "own_steps i outs s = foldl (own_step i) s outs"

definition own_access :: "string \<Rightarrow> writer_pc \<times> lock_table \<Rightarrow> outside \<Rightarrow> writer_pc \<times> lock_table" where
  "own_access me x out = writer_step out me (fst x) (snd x)"

definition with_writer :: "lock_system \<Rightarrow> nat \<Rightarrow> string \<Rightarrow> writer_pc \<times> lock_table \<Rightarrow> lock_system" where
  "with_writer s i me x = s\<lparr>sy_table := snd x, sy_contexts := (sy_contexts s)[i := Some \<lparr>wr_owner_id = me, wr_pc = fst x\<rparr>]\<rparr>"

lemma own_steps_writer:
  assumes "i < length (sy_contexts s)"
  shows "own_steps i outs (with_writer s i me x) = with_writer s i me (foldl (own_access me) x outs)"
proof (induction outs arbitrary: x)
  case (Cons out outs)
  have "own_step i (with_writer s i me x) out = with_writer s i me (own_access me x out)"
    using assms by (simp add: own_step_def with_writer_def own_access_def split: prod.splits)
  with Cons show ?case by (simp add: own_steps_def)
qed (simp add: own_steps_def)

lemma own_steps_star: "i < length (sy_contexts s) \<Longrightarrow> lock_step\<^sup>*\<^sup>* s (own_steps i outs s)"
proof (induction outs arbitrary: s)
  case (Cons out outs)
  have "own_step i s out = s \<or> lock_step s (own_step i s out)"
    using lock_step.access [OF Cons.prems] by (auto simp: own_step_def split: option.splits prod.splits)
  moreover have "lock_step\<^sup>*\<^sup>* (own_step i s out) (own_steps i outs (own_step i s out))"
    using Cons.prems by (intro Cons.IH) (simp add: own_step_def split: option.splits prod.splits)
  ultimately show ?case by (auto simp: own_steps_def intro: converse_rtranclp_into_rtranclp)
qed (simp add: own_steps_def)

text \<open>An outside that helps: time is left, the update commits, the callback returns.\<close>

definition favourable :: "outside \<Rightarrow> bool" where
  "favourable out \<longleftrightarrow> os_in_time out \<and> os_update out = Committed \<and> os_callback out = None"

lemmas access_simps = own_access_def writer_step_def acquire_step_def release_step_def after_read_def claim_outcome_def
  favourable_def

text \<open>The nine accesses, one after the other.\<close>

lemma nine_accesses:
  fixes me :: string
  assumes "length outs = 9" "\<forall>out \<in> set outs. favourable out"
  defines "free \<equiv> [lock_row_of None None]" and "mine \<equiv> [lock_row_of (Some me) (Some (os_now (outs ! 2)))]"
  shows "foldl (own_access me) (W_acquire, free) (take 1 outs) = (W_loop \<lparr>ls_owner_id = None, ls_acquired_at = None\<rparr>, free)"
    "foldl (own_access me) (W_acquire, free) (take 2 outs) = (W_claim, free)"
    "foldl (own_access me) (W_acquire, free) (take 3 outs) = (W_reread, mine)"
    "foldl (own_access me) (W_acquire, free) (take 4 outs) =
       (W_check \<lparr>ls_owner_id = Some me, ls_acquired_at = Some (os_now (outs ! 2))\<rparr>, mine)"
    "foldl (own_access me) (W_acquire, free) (take 5 outs) = (W_operation, mine)"
    "foldl (own_access me) (W_acquire, free) (take 6 outs) = (W_release_read, mine)"
    "foldl (own_access me) (W_acquire, free) (take 7 outs) = (W_release_update, mine)"
    "foldl (own_access me) (W_acquire, free) (take 8 outs) = (W_release_verify, free)"
    "foldl (own_access me) (W_acquire, free) outs = (W_done, free)"
proof -
  have take: "take (Suc n) outs = take n outs @ [outs ! n]" "favourable (outs ! n)" if "n < 9" for n
    using that assms(1,2) by (simp_all add: take_Suc_conv_app_nth)
  have free: "read_lock free = Inr \<lparr>ls_owner_id = None, ls_acquired_at = None\<rparr>"
    and mine: "read_lock mine = Inr \<lparr>ls_owner_id = Some me, ls_acquired_at = Some (os_now (outs ! 2))\<rparr>"
    and claimed: "claim_lock me (os_now (outs ! 2)) free = mine" and cleared: "clear_lock me mine = free"
    by (simp_all add: free_def mine_def)
  let ?at = "\<lambda>n. foldl (own_access me) (W_acquire, free) (take n outs)"
  have next_access: "?at (Suc n) = own_access me (?at n) (outs ! n)" if "n < 9" for n using take(1) [OF that] by simp
  note run = next_access take(2)
  show 1: "?at 1 = (W_loop \<lparr>ls_owner_id = None, ls_acquired_at = None\<rparr>, free)" using run [of 0] by (simp add: access_simps free)
  show 2: "?at 2 = (W_claim, free)" using run [of 1] 1 by (simp add: access_simps numeral_eq_Suc)
  show 3: "?at 3 = (W_reread, mine)" using run [of 2] 2 claimed by (simp add: access_simps)
  show 4: "?at 4 = (W_check \<lparr>ls_owner_id = Some me, ls_acquired_at = Some (os_now (outs ! 2))\<rparr>, mine)"
    using run [of 3] 3 mine by (simp add: access_simps)
  show 5: "?at 5 = (W_operation, mine)" using run [of 4] 4 by (simp add: access_simps)
  show 6: "?at 6 = (W_release_read, mine)" using run [of 5] 5 by (simp add: access_simps)
  show 7: "?at 7 = (W_release_update, mine)" using run [of 6] 6 mine by (simp add: access_simps)
  show 8: "?at 8 = (W_release_verify, free)" using run [of 7] 7 cleared by (simp add: access_simps)
  have "?at 9 = (W_done, free)" using run [of 8] 8 free by (simp add: access_simps)
  then show "foldl (own_access me) (W_acquire, free) outs = (W_done, free)" using assms(1) by simp
qed

lemma before_nine:
  assumes "length outs = 9" "\<forall>out \<in> set outs. favourable out" "n < 9"
  shows "\<not> over (fst (foldl (own_access me) (W_acquire, [lock_row_of None None]) (take n outs)))"
proof -
  note acc = nine_accesses [OF assms(1,2), where me = me]
  have "n = 0 \<or> n = 1 \<or> n = 2 \<or> n = 3 \<or> n = 4 \<or> n = 5 \<or> n = 6 \<or> n = 7 \<or> n = 8" using assms(3) by linarith
  then show ?thesis by (elim disjE) (simp_all only: acc take_0 foldl.simps fst_conv over.simps not_False_eq_True)
qed

end
