(* ===== verification/Fabric_Control_Demo.thy ===== *)
theory Fabric_Control_Demo
  imports Fabric_Control_Spec
begin

text \<open>Concrete states of a system of two contexts on the writer lock.\<close>

definition demo_outside :: outside where
  "demo_outside = \<lparr>os_in_time = True, os_now = 5, os_update = Committed, os_callback = None\<rparr>"

definition demo_unlocked :: lock_system where
  "demo_unlocked = \<lparr>sy_table = [lock_row_of None None], sy_contexts = [None, None], sy_issued = {}\<rparr>"

text \<open>The first context holds the lock; then its callback fails and the operator clears its token.\<close>

definition demo_holding :: lock_system where
  "demo_holding = \<lparr>sy_table = [lock_row_of (Some ''a'') (Some 5)],
     sy_contexts = [Some \<lparr>wr_owner_id = ''a'', wr_pc = W_operation\<rparr>, None], sy_issued = {''a''}\<rparr>"

definition demo_failed :: lock_system where
  "demo_failed = demo_holding\<lparr>sy_contexts := [Some \<lparr>wr_owner_id = ''a'', wr_pc = W_failed ControlError\<rparr>, None]\<rparr>"

definition demo_freed :: lock_system where
  "demo_freed = demo_failed\<lparr>sy_table := clear_lock ''a'' (sy_table demo_failed)\<rparr>"

text \<open>The first context has cleared the lock, and the second holds it before the first could verify.\<close>

definition demo_passed :: lock_system where
  "demo_passed = \<lparr>sy_table = [lock_row_of (Some ''b'') (Some 5)],
     sy_contexts = [Some \<lparr>wr_owner_id = ''a'', wr_pc = W_release_verify\<rparr>,
                    Some \<lparr>wr_owner_id = ''b'', wr_pc = W_operation\<rparr>], sy_issued = {''b'', ''a''}\<rparr>"

lemma demo_unlocked_reachable: "reachable lock_init lock_step demo_unlocked"
  by (rule reachable.start) (simp add: demo_unlocked_def lock_init_def)

lemma demo_holding_reachable: "reachable lock_init lock_step demo_holding"
proof -
  let ?w = "\<lparr>wr_owner_id = ''a'', wr_pc = W_acquire\<rparr>"
  let ?s = "demo_unlocked\<lparr>sy_contexts := [Some ?w, None], sy_issued := {''a''}\<rparr>"
  have "lock_step demo_unlocked ?s"
    using lock_step.run [of 0 demo_unlocked "''a''" ?w] by (simp add: demo_unlocked_def begin_run_def active_writer_def)
  moreover have "lock_step\<^sup>*\<^sup>* ?s demo_holding"
    using solo_star [of 0 ?s ?w demo_outside 5] solo_run(1) [of demo_outside "''a''"]
    by (simp add: demo_unlocked_def demo_holding_def demo_outside_def)
  ultimately show ?thesis using demo_unlocked_reachable by (meson reachable.move reachable_star)
qed

lemma demo_holding_at: "at_pc demo_holding 0 W_operation"
  by (simp add: at_pc_def demo_holding_def)

lemma demo_failed_reachable: "reachable lock_init lock_step demo_failed"
  using demo_holding_reachable lock_step.stopped [of 0 demo_holding "\<lparr>wr_owner_id = ''a'', wr_pc = W_operation\<rparr>" ControlError]
  by (auto simp: demo_failed_def demo_holding_def intro: reachable.move)

lemma demo_operator: "lock_step demo_failed demo_freed"
  unfolding demo_freed_def by (rule lock_step.operator) (auto simp: demo_failed_def)

lemma demo_passed_reachable: "reachable lock_init lock_step demo_passed"
proof -
  let ?a = "\<lparr>wr_owner_id = ''a'', wr_pc = W_release_verify\<rparr>" and ?b = "\<lparr>wr_owner_id = ''b'', wr_pc = W_acquire\<rparr>"
  let ?s = "demo_unlocked\<lparr>sy_contexts := [Some ?a, None], sy_issued := {''a''}\<rparr>"
  let ?t = "?s\<lparr>sy_contexts := [Some ?a, Some ?b], sy_issued := {''b'', ''a''}\<rparr>"
  have "lock_step\<^sup>*\<^sup>* demo_holding ?s"
    using solo_star [of 0 demo_holding "\<lparr>wr_owner_id = ''a'', wr_pc = W_operation\<rparr>" demo_outside 3]
    by (simp add: demo_holding_def demo_unlocked_def numeral_eq_Suc writer_step_def release_step_def after_read_def
        demo_outside_def)
  moreover have "lock_step ?s ?t"
    using lock_step.run [of 1 ?s "''b''" ?b] by (simp add: begin_run_def active_writer_def)
  moreover have "lock_step\<^sup>*\<^sup>* ?t demo_passed"
    using solo_star [of 1 ?t ?b demo_outside 5] solo_run(1) [of demo_outside "''b''"]
    by (simp add: demo_unlocked_def demo_passed_def demo_outside_def)
  ultimately show ?thesis using demo_holding_reachable by (meson reachable.move reachable_star)
qed

end
