(* ===== verification/Executor_Inventory_Correct.thy ===== *)
theory Executor_Inventory_Correct
  imports Executor_Inventory Process_Plan
begin

text \<open>
  What the inventory promises to the planner: a discovered inventory has been observed unchanged by
  consecutive polls, discovery ends when its deadline passes, and a planned task width fits the measured
  memory wherever Spark places the tasks.
\<close>

section \<open>Discovery\<close>

text \<open>The last \<open>k + 1\<close> polls before the \<open>n\<close>-th returned the inventory \<open>rs\<close>.\<close>

definition observed :: "(nat \<Rightarrow> executor_summary list) \<Rightarrow> nat \<Rightarrow> executor_record list \<Rightarrow> nat \<Rightarrow> bool" where
  "observed polls n rs k \<longleftrightarrow> k < n \<and> (\<forall>j \<le> k. executor_records_from_executor_summaries (polls (n - 1 - j)) = Inr rs)"

lemma observed_Suc:
  assumes "observed polls n rs k" "executor_records_from_executor_summaries (polls n) = Inr rs"
  shows "observed polls (Suc n) rs (Suc k)"
  using assms unfolding observed_def
proof (intro conjI allI impI, goal_cases)
  case (2 j)
  then show ?case by (cases j) auto
qed simp

lemma observed_0: "executor_records_from_executor_summaries (polls n) = Inr rs \<Longrightarrow> observed polls (Suc n) rs 0"
  by (simp add: observed_def)

text \<open>What the loop knows of the polls it has made.\<close>

definition poll_inv :: "(nat \<Rightarrow> executor_summary list) \<Rightarrow> nat \<Rightarrow> executor_record list option \<Rightarrow> int \<Rightarrow> bool" where
  "poll_inv polls n previous count \<longleftrightarrow> 0 \<le> count \<and> (case previous of
     None \<Rightarrow> True | Some p \<Rightarrow> observed polls n p (nat count))"

lemma poll_inv_next:
  assumes "poll_inv polls n previous count" "executor_records_from_executor_summaries (polls n) = Inr rs"
  shows "poll_inv polls (Suc n) (Some rs) (if previous = Some rs \<and> b then count + 1 else 0)"
  using assms observed_Suc [of polls n rs "nat count"] observed_0 [of polls n rs]
  by (auto simp: poll_inv_def nat_add_distrib)

lemma observed_less: "observed polls n rs k \<Longrightarrow> j \<le> k \<Longrightarrow> observed polls n rs j"
  by (auto simp: observed_def)

lemmas poll_loop_induct = poll_loop.raw_induct [rotated, consumes 1, case_names step]

lemma poll_loop_stable:
  assumes "poll_loop polls clock start deadline minimum stability n previous count = Some y"
    and "poll_inv polls n previous count" "y = Inr rs"
  shows "minimum \<le> int (length rs) \<and> (\<exists>m. observed polls m rs (nat stability))"
  using assms
proof (induction polls clock start deadline minimum stability n previous count y rule: poll_loop_induct)
  case (step loop polls clock start deadline minimum stability n previous count y)
  show ?case
  proof (cases "executor_records_from_executor_summaries (polls n)")
    case (Inl e)
    then have "loop polls clock start deadline minimum stability (Suc n) None 0 = Some y"
      using step(2) step.prems by (auto split: if_splits)
    then show ?thesis using step(1) step.prems by (simp add: poll_inv_def)
  next
    case (Inr current)
    let ?c = "if previous = Some current \<and> minimum \<le> int (length current) then count + 1 else 0"
    note inv = poll_inv_next [OF step.prems(1) Inr, of "minimum \<le> int (length current)"]
    show ?thesis
    proof (cases "?c \<noteq> 0 \<and> stability \<le> ?c")
      case True
      then have "y = Inr current" "minimum \<le> int (length current)" using step(2) Inr by (auto simp: Let_def split: if_splits)
      moreover have "observed polls (Suc n) current (nat ?c)" using inv by (simp add: poll_inv_def)
      then have "observed polls (Suc n) current (nat stability)" using True observed_less nat_mono by blast
      ultimately show ?thesis using step.prems by auto
    next
      case False
      then have "loop polls clock start deadline minimum stability (Suc n) (Some current) ?c = Some y"
        using step(2) step.prems Inr by (auto simp: Let_def split: if_splits)
      then show ?thesis using step(1) inv step.prems by blast
    qed
  qed
qed

lemma poll_loop_returns:
  assumes "deadline \<le> fadd (clock m) (- start)" "n \<le> m"
  shows "\<exists>y. poll_loop polls clock start deadline minimum stability n previous count = Some y"
  using assms(2)
proof (induction "m - n" arbitrary: n previous count)
  case 0
  then have "n = m" by simp
  with assms(1) show ?case by (subst poll_loop.simps) (auto simp: Let_def split: sum.splits)
next
  case (Suc d)
  then have "\<exists>y. poll_loop polls clock start deadline minimum stability (Suc n) p c = Some y" for p c by simp
  then show ?case by (subst poll_loop.simps) (auto simp: Let_def split: sum.splits)
qed

section \<open>Placement\<close>

text \<open>\<open>k\<close> tasks on an executor, each with the measured peak, stay within its usable memory.\<close>

definition fits_memory :: "pyfloat \<Rightarrow> int \<Rightarrow> executor_record \<Rightarrow> int \<Rightarrow> bool" where
  "fits_memory headroom peak e k \<longleftrightarrow> of_int (k * peak) \<le> usable_memory (ex_max_memory_bytes e) headroom"

lemma memory_slots_fit:
  assumes "1 \<le> peak" "k \<le> memory_slots (usable_memory (ex_max_memory_bytes e) headroom) peak"
  shows "fits_memory headroom peak e k"
proof -
  have "of_int k \<le> usable_memory (ex_max_memory_bytes e) headroom / of_int peak"
    using assms(2) by (simp add: memory_slots_def le_floor_iff)
  then show ?thesis using assms(1) by (simp add: fits_memory_def pos_le_divide_eq)
qed

lemma mapE_reach: "mapE f xs = Inr ys \<Longrightarrow> x \<in> set xs \<Longrightarrow> \<exists>y \<in> set ys. f x = Inr y"
  by (induction xs arbitrary: ys) auto

lemma placement_safe:
  assumes "assert_executor_placement_safe executors task_cpus peak headroom = Inr safe" "e \<in> set executors"
  shows "1 \<le> ex_total_cores e div task_cpus \<and> (\<forall>k \<le> ex_total_cores e div task_cpus. fits_memory headroom peak e k)"
proof -
  obtain rs where rs: "mapE (executor_placement task_cpus peak headroom) executors = Inr rs" "\<not> list_ex snd rs"
    using assms(1) by (auto simp: assert_executor_placement_safe_def)
  obtain r where r: "executor_placement task_cpus peak headroom e = Inr r" "r \<in> set rs"
    using mapE_reach [OF rs(1) assms(2)] by blast
  then have "\<not> snd r" using rs(2) by (auto simp: list_ex_iff)
  with r(1) have "1 \<le> ex_total_cores e div task_cpus" "1 \<le> peak"
    "ex_total_cores e div task_cpus \<le> memory_slots (usable_memory (ex_max_memory_bytes e) headroom) peak"
    by (auto simp: executor_placement_def per_executor_memory_slots_def Let_def)
  then show ?thesis using memory_slots_fit by fastforce
qed

lemma plan_task_widthD:
  assumes "plan_task_width executors task_cpus operator_cap peak headroom = Inr tw"
  shows "1 \<le> tw_planned_task_count tw" "tw_planned_task_count tw \<le> tw_slots tw"
    "tw_slots tw = sum_list (map (\<lambda>e. ex_total_cores e div task_cpus) executors)"
    "operator_cap = Some c \<Longrightarrow> tw_planned_task_count tw \<le> c"
    "tw_memory_cap tw = Some m \<Longrightarrow> tw_planned_task_count tw \<le> m"
    "peak = Some p \<Longrightarrow> \<exists>safe. assert_executor_placement_safe executors task_cpus p headroom = Inr safe"
  using assms by (auto simp: plan_task_width_def compute_slots_def Let_def split: option.splits if_splits)

text \<open>
  What a profile built from the live inventory guarantees, from the polls of discovery to the task width
  that the plan uses.
\<close>

section \<open>Discovery\<close>

definition demo_summary :: "string \<Rightarrow> executor_summary" where
  "demo_summary i = \<lparr>su_texts = [(''id'', i), (''hostPort'', i @ '':7337'')],
     su_numbers = [(''totalCores'', 4), (''maxMemory'', 4294967296)]\<rparr>"

definition demo_executors :: "executor_record list" where
  "demo_executors = map (\<lambda>i. \<lparr>ex_executor_id = i, ex_host = i, ex_total_cores = 4,
     ex_max_memory_bytes = 4294967296\<rparr>) [''1'', ''2'']"

text \<open>The second executor appears with the second poll; the driver is never counted.\<close>

definition demo_polls :: "nat \<Rightarrow> executor_summary list" where
  "demo_polls n = map demo_summary (if n = 0 then [''driver'', ''1''] else [''2'', ''driver'', ''1''])"

lemma demo_poll_records:
  "executor_records_from_executor_summaries (demo_polls 0) = Inr [hd demo_executors]"
  "executor_records_from_executor_summaries (demo_polls (Suc n)) = Inr demo_executors"
  unfolding demo_polls_def by (simp_all only: if_True if_False nat.simps refl) code_simp+

lemma demo_discovered: "discover_active_executors demo_polls (\<lambda>n. of_nat n) 0 2 2 1 100 = Some (Inr demo_executors)"
proof -
  have f: "fadd (of_nat 0) (- 0) = 0" "fadd (of_nat (Suc 0)) (- 0) = 1" "fadd (of_nat (Suc (Suc 0))) (- 0) = 2" by code_simp+
  have neq: "[hd demo_executors] \<noteq> demo_executors" by (simp add: demo_executors_def)
  have len: "length demo_executors = 2" by (simp add: demo_executors_def)
  have "poll_loop demo_polls (\<lambda>n. of_nat n) 0 100 2 2 0 None 0 = Some (Inr demo_executors)"
    using f neq len by (simp add: poll_loop.simps demo_poll_records)
  then show ?thesis by (simp add: discover_active_executors_def)
qed

text \<open>C20: an inventory that discovery returns has the required number of executors and was returned by
  \<open>stability_polls + 1\<close> consecutive polls.\<close>

theorem discovery_stable:
  assumes "discover_active_executors polls clock start minimum stability interval deadline = Some (Inr rs)"
  shows "\<exists>m. minimum \<le> int (length rs) \<and> nat stability < m \<and>
    (\<forall>j \<le> nat stability. executor_records_from_executor_summaries (polls (m - 1 - j)) = Inr rs)"
proof -
  have "poll_loop polls clock start deadline minimum stability 0 None 0 = Some (Inr rs)"
    using assms by (simp add: discover_active_executors_def split: if_splits)
  from poll_loop_stable [OF this _ refl] show ?thesis by (auto simp: poll_inv_def observed_def)
qed

theorem discovery_stable_witness: "int (length demo_executors) \<ge> 2"
  using discovery_stable [OF demo_discovered] by blast

text \<open>C21: discovery ends: once the clock has passed the deadline it has returned an inventory or raised
  its error, whatever the polls return.\<close>

theorem discovery_ends:
  assumes "deadline \<le> fadd (clock m) (- start)"
  shows "\<exists>y. discover_active_executors polls clock start minimum stability interval deadline = Some y"
  using poll_loop_returns [of deadline clock m start 0 polls minimum stability None 0, OF assms]
  by (simp add: discover_active_executors_def)

theorem discovery_ends_witness:
  "\<exists>y. discover_active_executors demo_polls (\<lambda>n. of_nat n) 0 3 2 1 2 = Some y"
  by (rule discovery_ends [of _ _ 2]) code_simp

section \<open>Task width\<close>

lemma profile_of_inventory:
  assumes "build_profile_from_inventory name executors task_cpus cores memory reserve heartbeat speed factor margin fixed peak cap headroom
      = Inr p"
  obtains tw where "plan_task_width executors task_cpus cap peak headroom = Inr tw" "planned_tasks p = tw_planned_task_count tw"
    "\<forall>e \<in> set executors. ex_total_cores e = cores" "task_cpus \<in> {1, 2, 4}" "ep_task_cpus p = task_cpus"
    "ep_executor_cores p = cores" "ep_executor_instances p = int (length executors)"
proof -
  obtain tw where tw: "plan_task_width executors task_cpus cap peak headroom = Inr tw"
    and m: "assert_matches_reviewed_profile executors cores task_cpus = Inr ()"
    using assms by (auto simp: build_profile_from_inventory_def as_validation_def split: if_splits sum.splits)
  have p: "planned_tasks p = tw_planned_task_count tw" "ep_task_cpus p = task_cpus" "ep_executor_cores p = cores"
    "ep_executor_instances p = int (length executors)" "task_cpus \<in> {1, 2, 4}"
    using assms tw m by (auto simp: build_profile_from_inventory_def as_validation_def post_init_def planned_tasks_def
        REVIEWED_TASK_CPU_WIDTHS_def Let_def split: if_splits)
  moreover have "\<forall>e \<in> set executors. ex_total_cores e = cores"
    using m by (auto simp: assert_matches_reviewed_profile_def filter_empty_conv split: if_splits)
  ultimately show thesis using that tw by blast
qed

lemma profile_placement:
  assumes "build_profile_from_inventory name executors task_cpus cores memory reserve heartbeat speed factor margin fixed
      (Some peak) cap headroom = Inr p"
    and "e \<in> set executors" "tasks \<le> ex_total_cores e div task_cpus"
  shows "of_int (tasks * peak) \<le> usable_memory (ex_max_memory_bytes e) headroom"
    and "1 \<le> planned_tasks p \<and> planned_tasks p \<le> ep_executor_instances p * (ep_executor_cores p div ep_task_cpus p)"
    and "cap = Some c \<Longrightarrow> planned_tasks p \<le> c"
proof -
  from assms(1) obtain tw where tw: "plan_task_width executors task_cpus cap (Some peak) headroom = Inr tw"
    "planned_tasks p = tw_planned_task_count tw" and e: "\<forall>e \<in> set executors. ex_total_cores e = cores"
    and p: "ep_task_cpus p = task_cpus" "ep_executor_cores p = cores" "ep_executor_instances p = int (length executors)"
    by (rule profile_of_inventory)
  note d = plan_task_widthD [OF tw(1)]
  obtain safe where "assert_executor_placement_safe executors task_cpus peak headroom = Inr safe" using d(6) by blast
  from placement_safe [OF this assms(2)] show "of_int (tasks * peak) \<le> usable_memory (ex_max_memory_bytes e) headroom"
    using assms(3) by (simp add: fits_memory_def)
  have "tw_slots tw = int (length executors) * (cores div task_cpus)"
    using d(3) e sum_list_triv [of "cores div task_cpus" executors] by (simp cong: map_cong)
  then show "1 \<le> planned_tasks p \<and> planned_tasks p \<le> ep_executor_instances p * (ep_executor_cores p div ep_task_cpus p)"
    using d(1,2) tw(2) p by simp
  show "cap = Some c \<Longrightarrow> planned_tasks p \<le> c" using d(4) tw(2) by simp
qed

text \<open>C22: a profile built from the live inventory with a measured peak RSS is memory-safe wherever Spark
  places the tasks: as many tasks as the cores of an executor admit fit its usable memory together, and
  the planned task count is positive and within the slots of the inventory and the operator's cap.\<close>

theorem inventory_profile_fits_memory:
  assumes "build_profile_from_inventory name executors task_cpus cores memory reserve heartbeat speed factor margin fixed
      (Some peak) cap headroom = Inr p"
    and "e \<in> set executors" "tasks \<le> ex_total_cores e div task_cpus"
  shows "of_int (tasks * peak) \<le> usable_memory (ex_max_memory_bytes e) headroom
    \<and> 1 \<le> planned_tasks p \<and> planned_tasks p \<le> ep_executor_instances p * (ep_executor_cores p div ep_task_cpus p)
    \<and> (case cap of None \<Rightarrow> True | Some c \<Rightarrow> planned_tasks p \<le> c)"
  using profile_placement [OF assms] by (auto split: option.splits)

theorem inventory_profile_fits_memory_witness:
  "\<exists>p. build_profile_from_inventory ''live'' demo_executors 2 4 4294967296 0 10 1 1 30 True (Some 1073741824) (Some 3) 0 = Inr p
     \<and> of_int (2 * 1073741824) \<le> usable_memory 4294967296 0 \<and> planned_tasks p \<le> 3"
proof -
  let ?b = "build_profile_from_inventory ''live'' demo_executors 2 4 4294967296 0 10 1 1 30 True (Some 1073741824) (Some 3) 0"
  have "isl ?b = False" by code_simp
  then obtain p where p: "?b = Inr p" by (cases ?b) auto
  have e: "hd demo_executors \<in> set demo_executors" "2 \<le> ex_total_cores (hd demo_executors) div 2"
    "ex_max_memory_bytes (hd demo_executors) = 4294967296" by (simp_all add: demo_executors_def)
  show ?thesis using inventory_profile_fits_memory [OF p e(1,2)] p e(3) by fastforce
qed

end
