(* ===== verification/Process_Run.thy ===== *)
theory Process_Run
  imports Process_Attempts Control_Process
begin

text \<open>
  The process batch of \<^verbatim>\<open>sjd_process.py\<close>: loading and verifying the claim, planning, lease admission,
  executing under a heartbeat, staging, sealing and committing, and resuming a batch that is already
  committed.

  Other processes share the control store.  Before the \<open>n\<close>-th access of this process the store may
  have been changed by them, which is the argument \<open>cx_world n\<close>; \<open>cx_clock n\<close> is the time the access
  reads.  The heartbeat thread renews the lease while the harness runs; how often it does so before the
  harness returns, before the fence is checked and before the block ends is \<open>cx_beats\<close>.  The execution
  harness, the attempt adapter and the crash hook are arguments, as in the code.
\<close>

section \<open>State and accesses\<close>

record 'f run_state =
  ru_store :: store
  ru_area :: 'f
  ru_tick :: nat

record release_evidence =
  re_package_version :: string
  re_manifest_sha256 :: string

record 'f process_context =
  cx_lib :: pylib
  cx_package_version :: string
  cx_release_version :: string
  cx_clock :: "nat \<Rightarrow> pyval"
  cx_world :: "nat \<Rightarrow> store \<Rightarrow> store"
  cx_beats :: "nat \<times> nat \<times> nat"
  cx_harness :: "verified_envelope \<Rightarrow> execution_plan \<Rightarrow> execution_profile \<Rightarrow> string \<Rightarrow> staged list res"
  cx_attempts :: "'f attempt_adapter"
  cx_crash :: "string \<Rightarrow> err option"
  cx_evidence :: "release_evidence option"

type_synonym ('f, 'a) process = "'f run_state \<Rightarrow> 'a res \<times> 'f run_state"

definition returnP :: "'a res \<Rightarrow> ('f, 'a) process" where
  "returnP r s = (r, s)"

definition bindP :: "('f, 'a) process \<Rightarrow> ('a \<Rightarrow> ('f, 'b) process) \<Rightarrow> ('f, 'b) process" where
  "bindP m f s = (case m s of (Inl e, s') \<Rightarrow> (Inl e, s') | (Inr x, s') \<Rightarrow> f x s')"

text \<open>An access to the control store: what the others did, then the call, with the time it reads.\<close>

definition enter :: "'f process_context \<Rightarrow> 'f run_state \<Rightarrow> 'f run_state" where
  "enter cx s = s\<lparr>ru_store := cx_world cx (ru_tick s) (ru_store s), ru_tick := Suc (ru_tick s)\<rparr>"

definition call_store :: "'f process_context \<Rightarrow> (pyval \<Rightarrow> store \<Rightarrow> 'a res \<times> store) \<Rightarrow> ('f, 'a) process" where
  "call_store cx op s = (let s1 = enter cx s in
     case op (cx_clock cx (ru_tick s)) (ru_store s1) of (r, st) \<Rightarrow> (r, s1\<lparr>ru_store := st\<rparr>))"

definition read_store :: "'f process_context \<Rightarrow> (pyval \<Rightarrow> store \<Rightarrow> 'a res) \<Rightarrow> ('f, 'a) process" where
  "read_store cx op = call_store cx (\<lambda>clock st. (op clock st, st))"

definition call_area :: "('f \<Rightarrow> 'a res \<times> 'f) \<Rightarrow> ('f, 'a) process" where
  "call_area op s = (case op (ru_area s) of (r, f) \<Rightarrow> (r, s\<lparr>ru_area := f\<rparr>))"

definition read_area :: "('f \<Rightarrow> 'a res) \<Rightarrow> ('f, 'a) process" where
  "read_area op s = (op (ru_area s), s)"

definition crash :: "'f process_context \<Rightarrow> string \<Rightarrow> ('f, unit) process" where
  "crash cx point = returnP (case cx_crash cx point of None \<Rightarrow> Inr () | Some e \<Rightarrow> Inl e)"

section \<open>Process control\<close>

definition live_batch :: "'f process_context \<Rightarrow> verified_envelope \<Rightarrow> ('f, control_batch_state) process" where
  "live_batch cx env = read_store cx (\<lambda>clock. process_batch_state (control_envelope env))"

definition assert_fence :: "'f process_context \<Rightarrow> verified_envelope \<Rightarrow> ('f, unit) process" where
  "assert_fence cx env = read_store cx (\<lambda>clock. assert_process_fence clock (control_envelope env))"

definition heartbeat :: "'f process_context \<Rightarrow> verified_envelope \<Rightarrow> pyfloat \<Rightarrow> ('f, unit) process" where
  "heartbeat cx env extension =
     call_store cx (\<lambda>clock. heartbeat_process clock (control_envelope env) (PFloat extension))"

text \<open>The thread: it stops at its first failure and remembers it.\<close>

fun beats :: "'f process_context \<Rightarrow> verified_envelope \<Rightarrow> pyfloat \<Rightarrow> nat \<Rightarrow> bool \<Rightarrow> 'f run_state \<Rightarrow> bool \<times> 'f run_state" where
  "beats cx env extension 0 failed s = (failed, s)"
| "beats cx env extension (Suc n) failed s =
     (if failed then (True, s)
      else case heartbeat cx env extension s of
             (Inl e, s') \<Rightarrow> (True, s')
           | (Inr _, s') \<Rightarrow> beats cx env extension n False s')"

text \<open>Leaving the block joins the thread and raises its failure, also when the block itself failed.\<close>

definition leave_heartbeat :: "bool \<Rightarrow> 'a res \<Rightarrow> 'a res" where
  "leave_heartbeat failed r = (if failed then Inl LeaseLostError else r)"

section \<open>Context\<close>

definition check_evidence :: "'f process_context \<Rightarrow> verified_envelope \<Rightarrow> unit res" where
  "check_evidence cx env = (case cx_evidence cx of
     None \<Rightarrow> Inr ()
   | Some ev \<Rightarrow>
       let expected = (if re_package_version ev = [] then cx_release_version cx else re_package_version ev) in
       if cx_package_version cx \<noteq> expected then Inl (ExternalError ''ReleaseProvenanceError'')
       else if filter (\<lambda>i. ei_release_digest i \<noteq> re_manifest_sha256 ev) (ve_items env) \<noteq> []
       then Inl ProcessValidationError else Inr ())"

definition load_process_context :: "'f process_context \<Rightarrow> string
    \<Rightarrow> ('f, verified_envelope \<times> control_batch_state) process" where
  "load_process_context cx batch_id =
     bindP (read_store cx (\<lambda>clock. load_claim_envelope_with_digest (cx_lib cx) (PStr batch_id))) (\<lambda>(document, digest).
     bindP (returnP (verify_envelope (cx_lib cx) document batch_id digest)) (\<lambda>env.
     bindP (returnP (check_evidence cx env)) (\<lambda>_.
     bindP (live_batch cx env) (\<lambda>live. returnP (Inr (env, live))))))"

section \<open>Results\<close>

record process_result =
  ps_batch_id :: string
  ps_process_attempt_id :: string
  ps_staging_path :: string
  ps_record_count :: nat
  ps_failed_work_ids :: "string list"
  ps_publication_sequences :: "int list"
  ps_resumed :: bool
  ps_driver_package_version :: string

definition make_result :: "'f process_context \<Rightarrow> verified_envelope \<Rightarrow> staged list \<Rightarrow> int list \<Rightarrow> bool
    \<Rightarrow> process_result res" where
  "make_result cx env records sequences resumed =
     bindE (at_path (cx_attempts cx) (ve_batch_id env) (execution_attempt_id (cx_lib cx) env)) (\<lambda>path.
     bindE (failed_work_ids (cx_lib cx) records) (\<lambda>failures.
       Inr \<lparr>ps_batch_id = ve_batch_id env, ps_process_attempt_id = execution_attempt_id (cx_lib cx) env,
            ps_staging_path = path, ps_record_count = length records, ps_failed_work_ids = failures,
            ps_publication_sequences = sequences, ps_resumed = resumed,
            ps_driver_package_version = cx_package_version cx\<rparr>))"

section \<open>Resuming a committed batch\<close>

text \<open>The concurrency evidence that every committed record repeats.\<close>

definition decision_fields :: "pylib \<Rightarrow> staged \<Rightarrow> (pyval \<times> pyval \<times> pyval) res" where
  "decision_fields lib r = bindE (validate_staged_record_schema lib r) (\<lambda>_.
     bindE (item_get r ''planned_concurrency'') (\<lambda>concurrency.
     bindE (item_get r ''peak_rss_bytes'') (\<lambda>peak.
     bindE (item_get r ''duration_only_fallback'') (\<lambda>fallback. Inr (concurrency, peak, fallback)))))"

definition committed_profile :: "int \<Rightarrow> int option \<Rightarrow> execution_profile res" where
  "committed_profile concurrency peak = post_init (LOCAL_TWO_WORKERS
     \<lparr>ep_name := ''committed-staging'', ep_executor_instances := 1, ep_executor_cores := concurrency,
      ep_executor_memory_bytes := (case peak of None \<Rightarrow> 1073741824 | Some m \<Rightarrow> m * concurrency),
      ep_memory_reserve_bytes := 0, ep_planned_task_count := Some concurrency\<rparr>)"

definition committed_plan :: "pylib \<Rightarrow> staged list \<Rightarrow> verified_envelope \<Rightarrow> execution_plan res" where
  "committed_plan lib records env =
     (if records = [] then Inl StagingConflictError
      else bindE (mapE (decision_fields lib) records) (\<lambda>fields.
        case remdups fields of
          [(PInt concurrency, peak, PBool fallback)] \<Rightarrow>
            if fallback \<noteq> (peak = PNone) then Inl StagingConflictError
            else let rss = (case peak of PInt m \<Rightarrow> Some m | _ \<Rightarrow> None) in
              bindE (committed_profile concurrency rss) (\<lambda>profile.
                plan_duration_lpt (ve_items env) profile rss None)
        | _ \<Rightarrow> Inl StagingConflictError))"

definition resume_committed :: "'f process_context \<Rightarrow> verified_envelope \<Rightarrow> ('f, process_result) process" where
  "resume_committed cx env =
     bindP (read_area (at_load_complete (cx_attempts cx) (ve_batch_id env) (execution_attempt_id (cx_lib cx) env)))
       (\<lambda>complete. case complete of
          None \<Rightarrow> returnP (Inl StagingConflictError)
        | Some (records, marker) \<Rightarrow>
            bindP (returnP (bindE (committed_plan (cx_lib cx) records env) (\<lambda>plan.
                     bindE (validate_staged_records (cx_lib cx) (cx_package_version cx) records env plan) (\<lambda>_.
                       verify_marker (cx_lib cx) marker records env)))) (\<lambda>_.
            bindP (call_store cx (\<lambda>clock. commit_batch clock (PStr (ve_batch_id env)))) (\<lambda>sequences.
              returnP (make_result cx env records sequences True))))"

definition resume_committed_process_batch :: "'f process_context \<Rightarrow> string \<Rightarrow> ('f, process_result option) process" where
  "resume_committed_process_batch cx batch_id =
     bindP (load_process_context cx batch_id) (\<lambda>(env, live).
       if cs_status live = B_COMMITTED
       then bindP (resume_committed cx env) (\<lambda>r. returnP (Inr (Some r)))
       else bindP (assert_fence cx env) (\<lambda>_. returnP (Inr None)))"

section \<open>Running a batch\<close>

text \<open>The block under the heartbeat.\<close>

definition stage_records :: "'f process_context \<Rightarrow> verified_envelope \<Rightarrow> execution_plan \<Rightarrow> staged list
    \<Rightarrow> ('f, staged list) process" where
  "stage_records cx env plan records =
     (let lib = cx_lib cx; pkg = cx_package_version cx; ad = cx_attempts cx;
          attempt = execution_attempt_id lib env in
      bindP (returnP (validate_staged_records lib pkg records env plan)) (\<lambda>_.
      bindP (call_area (at_write_records ad (ve_batch_id env) attempt records)) (\<lambda>_.
      bindP (read_area (at_read_records ad (ve_batch_id env) attempt)) (\<lambda>stored.
      bindP (returnP (validate_staged_records lib pkg stored env plan)) (\<lambda>_.
      bindP (crash cx ''after_staging'') (\<lambda>_. returnP (Inr stored)))))))"

definition mark_records :: "'f process_context \<Rightarrow> verified_envelope \<Rightarrow> staged list \<Rightarrow> ('f, staged list) process" where
  "mark_records cx env stored =
     bindP (assert_fence cx env) (\<lambda>_.
     bindP (returnP (success_marker (cx_lib cx) env stored)) (\<lambda>marker.
     bindP (call_area (at_create_success (cx_attempts cx) (ve_batch_id env) (execution_attempt_id (cx_lib cx) env) marker)) (\<lambda>_.
     bindP (crash cx ''after_marker'') (\<lambda>_. returnP (Inr stored)))))"

definition execute_records :: "'f process_context \<Rightarrow> verified_envelope \<Rightarrow> execution_plan \<Rightarrow> execution_profile
    \<Rightarrow> string \<Rightarrow> pyfloat \<Rightarrow> ('f, staged list) process" where
  "execute_records cx env plan profile mode extension =
     bindP (heartbeat cx env extension) (\<lambda>_ s.
       case cx_beats cx of (n1, n2, n3) \<Rightarrow>
         let (failed, s1) = beats cx env extension n1 False s in
         (case bindE (cx_harness cx env plan profile mode) (\<lambda>records.
                 if failed then Inl LeaseLostError else Inr records) of
            Inl e \<Rightarrow> (leave_heartbeat failed (Inl e), s1)
          | Inr records \<Rightarrow>
              let (r2, s2) = bindP (crash cx ''after_action'') (\<lambda>_. stage_records cx env plan records) s1;
                  (failed2, s3) = beats cx env extension n2 failed s2 in
              (case r2 of
                 Inl e \<Rightarrow> (leave_heartbeat failed2 (Inl e), s3)
               | Inr stored \<Rightarrow>
                   let (r4, s4) = mark_records cx env stored s3;
                       (failed3, s5) = beats cx env extension n3 failed2 s4
                   in (leave_heartbeat failed3 r4, s5))))"

text \<open>\<open>next(record for record in item_records if record["record_type"] in TERMINAL_TYPES)\<close>\<close>

fun first_terminal :: "staged list \<Rightarrow> staged res" where
  "first_terminal [] = Inl StopIteration"
| "first_terminal (r # rs) = bindE (item_get r ''record_type'') (\<lambda>t.
     if t \<in> PStr ` set TERMINAL_TYPES then Inr r else first_terminal rs)"

definition output_record_of :: "staged \<Rightarrow> pyval res" where
  "output_record_of r = bindE (mapE (\<lambda>k. bindE (item_get r k) (\<lambda>v. Inr (k, v)))
     [''executor_identity'', ''partition_id'', ''task_attempt_id'', ''record_sequence'']) (\<lambda>kvs. Inr (PDict kvs))"

definition output_of :: "pylib \<Rightarrow> string \<Rightarrow> (string \<times> staged list) list \<Rightarrow> envelope_item \<Rightarrow> pyval res" where
  "output_of lib staging_path grouped item = (case map_of grouped (ei_work_id item) of
     None \<Rightarrow> Inl KeyError
   | Some records \<Rightarrow>
       bindE (first_terminal records) (\<lambda>final.
       bindE (item_get final ''record_type'') (\<lambda>t.
       bindE (process_sha256 lib (records_value records)) (\<lambda>digest.
       bindE (mapE output_record_of records) (\<lambda>outs.
         Inr (PDict [(''work_id'', PStr (ei_work_id item)), (''attempt_id'', PStr (ei_attempt_id item)),
           (''succeeded'', PBool (t = PStr ''video_result'')), (''output_path'', PStr staging_path),
           (''output_sha256'', PStr digest), (''records'', PList outs)]))))))"

text \<open>From the final fence check to the commit.\<close>

definition seal_and_commit :: "'f process_context \<Rightarrow> verified_envelope \<Rightarrow> execution_plan \<Rightarrow> staged list
    \<Rightarrow> ('f, int list) process" where
  "seal_and_commit cx env plan records =
     bindP (assert_fence cx env) (\<lambda>_.
     bindP (returnP (bindE (validate_staged_records (cx_lib cx) (cx_package_version cx) records env plan) (\<lambda>grouped.
       bindE (at_path (cx_attempts cx) (ve_batch_id env) (execution_attempt_id (cx_lib cx) env)) (\<lambda>path.
         mapE (output_of (cx_lib cx) path grouped) (ve_items env))))) (\<lambda>outputs.
     bindP (call_store cx (\<lambda>clock. seal_batch clock (PStr (ve_batch_id env)) (PList outputs)
              (PStr (ve_envelope_sha256 env)) (PStr (ve_membership_sha256 env)))) (\<lambda>_.
     bindP (crash cx ''after_seal'') (\<lambda>_.
     bindP (assert_fence cx env) (\<lambda>_.
     bindP (call_store cx (\<lambda>clock. commit_batch clock (PStr (ve_batch_id env)))) (\<lambda>sequences.
     bindP (crash cx ''after_pointer'') (\<lambda>_. returnP (Inr sequences))))))))"

definition heartbeat_extension :: "execution_profile \<Rightarrow> execution_plan \<Rightarrow> pyfloat" where
  "heartbeat_extension profile plan = max (fmul (ep_heartbeat_seconds profile) 3)
     (fadd (fmul (xp_projected_makespan_seconds plan) (ep_lease_safety_factor profile)) (ep_lease_margin_seconds profile))"

text \<open>The records of a live batch: from the harness, or from the complete staging of an earlier run.\<close>

definition obtain_records :: "'f process_context \<Rightarrow> verified_envelope \<Rightarrow> execution_plan \<Rightarrow> execution_profile
    \<Rightarrow> string \<Rightarrow> (staged list \<times> staged) option \<Rightarrow> ('f, staged list) process" where
  "obtain_records cx env plan profile mode earlier = (case earlier of
     None \<Rightarrow> execute_records cx env plan profile mode (heartbeat_extension profile plan)
   | Some (records, marker) \<Rightarrow>
       bindP (returnP (validate_staged_records (cx_lib cx) (cx_package_version cx) records env plan)) (\<lambda>_.
       bindP (returnP (verify_marker (cx_lib cx) marker records env)) (\<lambda>_. returnP (Inr records))))"

definition process_live :: "'f process_context \<Rightarrow> verified_envelope \<Rightarrow> control_batch_state \<Rightarrow> execution_profile
    \<Rightarrow> string \<Rightarrow> int option \<Rightarrow> ('f, process_result) process" where
  "process_live cx env live profile mode peak_rss_bytes =
     bindP (returnP (plan_duration_lpt (ve_items env) profile peak_rss_bytes None)) (\<lambda>plan.
     bindP (read_store cx (\<lambda>clock st. bindE (process_finite clock) (\<lambda>now.
              admit_lease plan profile (cs_lease_expires_at live) now))) (\<lambda>_.
     bindP (read_area (at_load_complete (cx_attempts cx) (ve_batch_id env) (execution_attempt_id (cx_lib cx) env))) (\<lambda>complete.
     bindP (obtain_records cx env plan profile mode complete) (\<lambda>records.
     bindP (seal_and_commit cx env plan records) (\<lambda>sequences.
       returnP (make_result cx env records sequences (complete \<noteq> None)))))))"

definition run_process_batch :: "'f process_context \<Rightarrow> string \<Rightarrow> execution_profile \<Rightarrow> string \<Rightarrow> int option
    \<Rightarrow> ('f, process_result) process" where
  "run_process_batch cx batch_id profile mode peak_rss_bytes =
     (if mode \<noteq> ''probe'' \<and> mode \<noteq> ''sdk'' then returnP (Inl ProcessValidationError)
      else bindP (load_process_context cx batch_id) (\<lambda>(env, live).
        if cs_status live = B_COMMITTED then resume_committed cx env
        else if cs_status live \<noteq> B_LEASED \<and> cs_status live \<noteq> B_SEALED then returnP (Inl LeaseLostError)
        else process_live cx env live profile mode peak_rss_bytes))"

end
