(* ===== verification/Process_Attempts_Spec.thy ===== *)
theory Process_Attempts_Spec
  imports Process_Staging_Spec
begin

text \<open>
  Laws of immutable staging: a partition file reads back the records it was written from, one receipt
  wins per partition, whatever the order of arrival, and the contract of an attempt adapter, which the
  local adapter implements.
\<close>

section \<open>Selecting receipts\<close>

lemma max_by_greatest:
  "max_by key x ys \<in> insert x (set ys) \<and> (\<forall>y \<in> insert x (set ys). key y \<le> key (max_by key x ys))"
proof (induction ys arbitrary: x)
  case (Cons y ys)
  from Cons [of "if key x < key y then y else x"] show ?case
    by (auto split: if_splits)
qed simp

lemma one_class:
  assumes "length (remdups (map f xs)) = 1" "x \<in> set xs" "y \<in> set xs"
  shows "f x = f y"
proof -
  obtain c where "remdups (map f xs) = [c]" using assms(1) by (auto simp: length_Suc_conv)
  then have "set (map f xs) = {c}" by (metis set_remdups list.set(1) list.simps(15))
  then have "f x \<in> {c}" "f y \<in> {c}" using assms(2,3) by (metis image_eqI set_map)+
  then show ?thesis by simp
qed

lemma select_receiptD:
  assumes "select_receipt receipts k = Inr w"
  shows "w \<in> set receipts" "pr_physical_partition w = k"
    "\<And>r. r \<in> set receipts \<Longrightarrow> pr_physical_partition r = k \<Longrightarrow> attempt_key r \<le> attempt_key w \<and> content_identity r = content_identity w"
proof -
  let ?c = "filter (\<lambda>r. pr_physical_partition r = k) receipts"
  have one: "length (remdups (map content_identity ?c)) = 1" and w: "w = max_by attempt_key (hd ?c) (tl ?c)"
    using assms by (auto simp: select_receipt_def Let_def)
  have "?c \<noteq> []" using one by auto
  then have c: "insert (hd ?c) (set (tl ?c)) = set ?c" by (metis list.collapse list.simps(15))
  note m = max_by_greatest [of attempt_key "hd ?c" "tl ?c", folded w, unfolded c]
  then show "w \<in> set receipts" "pr_physical_partition w = k" by auto
  fix r assume "r \<in> set receipts" "pr_physical_partition r = k"
  then have r: "r \<in> set ?c" by simp
  show "attempt_key r \<le> attempt_key w \<and> content_identity r = content_identity w"
    using m r one_class [OF one r, of w] by blast
qed

lemma select_oneD:
  assumes "select_one_receipt_per_partition receipts = Inr ws"
  shows "map pr_physical_partition ws = sort (remdups (map pr_physical_partition receipts))"
    "list_all2 (\<lambda>k w. select_receipt receipts k = Inr w) (sort (remdups (map pr_physical_partition receipts))) ws"
proof -
  show l: "list_all2 (\<lambda>k w. select_receipt receipts k = Inr w) (sort (remdups (map pr_physical_partition receipts))) ws"
    using assms by (simp add: select_one_receipt_per_partition_def mapE_Inr_iff)
  show "map pr_physical_partition ws = sort (remdups (map pr_physical_partition receipts))"
    using list_all2_lengthD [OF l] list_all2_nthD [OF l] select_receiptD(2)
    by (intro nth_equalityI) auto
qed

text \<open>The winner of a partition is the only receipt of its greatest attempt, so the order of arrival does
  not matter.\<close>

lemma select_receipt_order:
  assumes "set receipts = set receipts'" "inj_on (\<lambda>r. (pr_physical_partition r, attempt_key r)) (set receipts)"
  shows "select_receipt receipts k = select_receipt receipts' k"
proof -
  let ?P = "\<lambda>r. pr_physical_partition r = k"
  have sets: "set (filter ?P receipts) = set (filter ?P receipts')" using assms(1) by simp
  have len: "length (remdups (map content_identity (filter ?P receipts))) = length (remdups (map content_identity (filter ?P receipts')))"
    using sets by (metis length_remdups_card_conv set_map)
  show ?thesis
  proof (cases "length (remdups (map content_identity (filter ?P receipts))) = 1")
    case True
    then obtain w w' where w: "select_receipt receipts k = Inr w" "select_receipt receipts' k = Inr w'"
      using len by (simp add: select_receipt_def Let_def)
    have "attempt_key w = attempt_key w'"
      using select_receiptD [OF w(1)] select_receiptD [OF w(2)] assms(1) by (metis order.antisym)
    then have "w = w'" using select_receiptD(1,2) [OF w(1)] select_receiptD(1,2) [OF w(2)] assms
      by (auto simp: inj_on_def)
    then show ?thesis using w by simp
  next
    case False
    then show ?thesis using len by (simp add: select_receipt_def Let_def)
  qed
qed

lemma select_order:
  assumes "set receipts = set receipts'" "inj_on (\<lambda>r. (pr_physical_partition r, attempt_key r)) (set receipts)"
  shows "select_one_receipt_per_partition receipts = select_one_receipt_per_partition receipts'"
proof -
  have "sort (remdups (map pr_physical_partition receipts)) = sort (remdups (map pr_physical_partition receipts'))"
    using assms(1) by (intro sorted_distinct_set_unique) auto
  moreover have "select_receipt receipts = select_receipt receipts'" using select_receipt_order [OF assms] by blast
  ultimately show ?thesis by (simp add: select_one_receipt_per_partition_def)
qed

section \<open>Reading records back\<close>

text \<open>A record of the shape that validation enforces: distinct columns, texts for its identity and an
  integer sequence.\<close>

definition record_shape :: "staged \<Rightarrow> bool" where
  "record_shape r \<longleftrightarrow> distinct (map fst r) \<and> (\<exists>w a t s. map_of r ''work_id'' = Some (PStr w) \<and> map_of r ''attempt_id'' = Some (PStr a)
     \<and> map_of r ''record_type'' = Some (PStr t) \<and> map_of r ''record_sequence'' = Some (PInt s))"

definition normal_record :: "staged \<Rightarrow> staged" where
  "normal_record r = sort_key fst (map (map_prod id json_normal) r)"

lemma normal_record: "json_normal (PDict r) = PDict (normal_record r)"
  by (simp add: normal_record_def)

lemma normal_map_of: "distinct (map fst r) \<Longrightarrow> map_of (normal_record r) k = map_option json_normal (map_of r k)"
  unfolding normal_record_def by (subst map_of_sort) (simp_all add: comp_def map_of_normal)

lemma normal_key: "record_shape r \<Longrightarrow> record_key lib (normal_record r) = record_key lib r"
  by (auto simp: record_shape_def record_key_def dget_def normal_map_of sequence_key_def)

lemma sort_normal:
  assumes "\<forall>r \<in> set rs. record_shape r" "sorted (map (record_key lib) rs)"
  shows "ordered_records lib (map normal_record rs) = map normal_record rs"
proof -
  have "map (record_key lib) (map normal_record rs) = map (record_key lib) rs"
    using assms(1) by (simp add: normal_key)
  with assms(2) have "sorted (map (record_key lib) (map normal_record rs))" by (simp only:)
  then show ?thesis unfolding ordered_records_def by (rule sort_key_id_if_sorted)
qed

text \<open>The records that a stored file of \<open>rs\<close> reads back as.\<close>

definition stored_records :: "pylib \<Rightarrow> staged list \<Rightarrow> staged list" where
  "stored_records lib rs = map normal_record (ordered_records lib rs)"

lemma parsed_stored:
  assumes "\<forall>r \<in> set rs. record_shape r"
  shows "parsed_records lib (map PDict (stored_records lib rs)) = Inr (stored_records lib rs)"
proof -
  have "mapE as_record (map PDict xs) = Inr xs" for xs by (induction xs) (auto simp: as_record_def)
  moreover have "ordered_records lib (stored_records lib rs) = stored_records lib rs"
    unfolding stored_records_def using assms by (intro sort_normal) (simp_all add: ordered_records_def)
  ultimately show ?thesis by (simp add: parsed_records_def)
qed

definition storable :: "pylib \<Rightarrow> staged list \<Rightarrow> bool" where
  "storable lib rs \<longleftrightarrow> (\<forall>r \<in> set rs. record_shape r) \<and> finite_json (records_value (ordered_records lib rs))
     \<and> json_loads lib (dumps lib (records_value (ordered_records lib rs))) = Some (PList (map PDict (stored_records lib rs)))"

lemma record_work_ids:
  assumes "\<forall>r \<in> set rs. record_shape r"
  shows "\<exists>ws. mapE (record_work_id lib) rs = Inr ws"
proof -
  have "\<exists>w. record_work_id lib r = Inr w" if "record_shape r" for r
    using that by (auto simp only: record_shape_def record_work_id_def item_get_def option.case bindE_Inr)
  with assms show ?thesis by (induction rs) fastforce+
qed

lemma stage_then_read:
  assumes "stage_partition_records lib base k rs t n fs = Inr (receipt, fs')" "storable lib rs"
  shows "read_staged_partition_records lib base receipt fs' = Inr (stored_records lib rs)"
proof -
  let ?text = "dumps lib (records_value (ordered_records lib rs))" and ?p = "partition_staging_path base k t n"
  have content: "process_canonical lib (records_value (ordered_records lib rs)) = Inr ?text"
    using assms(2) by (simp add: process_canonical_def storable_def del: dumps.simps)
  have receipt: "pr_physical_partition receipt = k" "pr_task_attempt_id receipt = t" "pr_attempt_number receipt = n"
    "pr_record_count receipt = length rs" "pr_content_sha256 receipt = sha256_hex lib ?text" "pr_content_size_bytes receipt = length ?text"
    and written: "map_of fs' ?p = Some ?text"
    using assms(1) content
    by (auto simp: stage_partition_records_def partition_receipt_def Let_def ordered_records_def map_add_Some_iff
        simp del: dumps.simps split: option.splits if_splits)
  have "length (stored_records lib rs) = length rs" by (simp add: stored_records_def ordered_records_def)
  moreover have "json_loads lib ?text = Some (PList (map PDict (stored_records lib rs)))" "\<forall>r \<in> set rs. record_shape r"
    using assms(2) by (simp_all add: storable_def del: dumps.simps)
  ultimately show ?thesis
    by (simp add: read_staged_partition_records_def receipt written parsed_stored del: dumps.simps)
qed

section \<open>The contract of an attempt adapter\<close>

text \<open>
  What \<open>run_process_batch\<close> relies on: staging is created once per attempt, reads back what was written,
  is complete only with its marker, is never changed by a later write or mark, and attempts do not interfere.  \<open>shown\<close> and \<open>shown_marker\<close> are the
  records and the marker as they read back.
\<close>

locale attempt_store =
  fixes ad :: "'f attempt_adapter" and area_ok :: "'f \<Rightarrow> bool"
    and storable :: "staged list \<Rightarrow> bool" and shown :: "staged list \<Rightarrow> staged list"
    and markable :: "staged \<Rightarrow> bool" and shown_marker :: "staged \<Rightarrow> staged" and same_marker :: "staged \<Rightarrow> staged \<Rightarrow> bool"
  assumes write_ok: "area_ok f \<Longrightarrow> at_write_records ad b a rs f = (x, f') \<Longrightarrow> area_ok f'"
    and success_ok: "area_ok f \<Longrightarrow> at_create_success ad b a m f = (x, f') \<Longrightarrow> area_ok f'"
    and write_fresh: "area_ok f \<Longrightarrow> at_load_complete ad b a f = Inr None \<Longrightarrow> storable rs
      \<Longrightarrow> \<exists>f'. at_write_records ad b a rs f = (Inr (), f')"
    and write_once: "at_write_records ad b a rs f = (Inr (), f')
      \<Longrightarrow> at_write_records ad b a rs' f' = (Inl StagingConflictError, f')"
    and read_written: "at_write_records ad b a rs f = (Inr (), f') \<Longrightarrow> storable rs
      \<Longrightarrow> at_read_records ad b a f' = Inr (shown rs)"
    and written_partial: "area_ok f \<Longrightarrow> at_write_records ad b a rs f = (Inr (), f')
      \<Longrightarrow> at_load_complete ad b a f' = Inl StagingConflictError"
    and mark_written: "area_ok f \<Longrightarrow> at_write_records ad b a rs f = (Inr (), f') \<Longrightarrow> storable rs \<Longrightarrow> markable m
      \<Longrightarrow> \<exists>f''. at_create_success ad b a m f' = (Inr (), f'') \<and> at_load_complete ad b a f'' = Inr (Some (shown rs, shown_marker m))"
    and write_marked: "at_create_success ad b a m f = (Inr (), f')
      \<Longrightarrow> at_write_records ad b a rs f' = (Inl StagingConflictError, f')"
    and mark_again: "at_create_success ad b a m f = (Inr (), f')
      \<Longrightarrow> \<exists>x. at_create_success ad b a m' f' = (x, f') \<and> (x = Inr () \<longleftrightarrow> same_marker m' m)"
    and write_frame: "at_write_records ad b a rs f = (x, f') \<Longrightarrow> (b', a') \<noteq> (b, a)
      \<Longrightarrow> at_load_complete ad b' a' f' = at_load_complete ad b' a' f"
    and success_frame: "at_create_success ad b a m f = (x, f') \<Longrightarrow> (b', a') \<noteq> (b, a)
      \<Longrightarrow> at_load_complete ad b' a' f' = at_load_complete ad b' a' f"
begin

lemma attempt_completes:
  assumes "area_ok f" "at_load_complete ad b a f = Inr None" "storable rs" "markable m"
  obtains f1 f2 where "at_write_records ad b a rs f = (Inr (), f1)" "at_read_records ad b a f1 = Inr (shown rs)"
    "at_create_success ad b a m f1 = (Inr (), f2)" "at_load_complete ad b a f2 = Inr (Some (shown rs, shown_marker m))"
    "area_ok f2" "\<And>b' a'. (b', a') \<noteq> (b, a) \<Longrightarrow> at_load_complete ad b' a' f2 = at_load_complete ad b' a' f"
proof -
  obtain f1 where f1: "at_write_records ad b a rs f = (Inr (), f1)" using write_fresh [OF assms(1-3)] by blast
  obtain f2 where f2: "at_create_success ad b a m f1 = (Inr (), f2)"
    "at_load_complete ad b a f2 = Inr (Some (shown rs, shown_marker m))"
    using mark_written [OF assms(1) f1 assms(3,4)] by blast
  show thesis
    using that [OF f1 read_written [OF f1 assms(3)] f2 success_ok [OF write_ok [OF assms(1) f1] f2(1)]]
      write_frame [OF f1] success_frame [OF f2(1)] by simp
qed

lemma attempt_immutable:
  assumes "area_ok f" "at_write_records ad b a rs f = (Inr (), f')"
  shows "at_write_records ad b a rs' f' = (Inl StagingConflictError, f') \<and> at_load_complete ad b a f' = Inl StagingConflictError"
  using write_once [OF assms(2)] written_partial [OF assms] by blast

text \<open>No later write or mark of the attempt changes the area.\<close>

lemma marked_immutable:
  assumes "at_create_success ad b a m f = (Inr (), f')"
  shows "snd (at_write_records ad b a rs f') = f'" "snd (at_create_success ad b a m' f') = f'"
  using write_marked [OF assms, of rs] mark_again [OF assms, of m'] by auto

end

section \<open>The local adapter implements the contract\<close>

definition area_ok :: "staging_area \<Rightarrow> bool" where
  "area_ok sa \<longleftrightarrow> (\<forall>path. path \<notin> set (sa_dirs sa) \<longrightarrow>
     map_of (sa_files sa) (records_path path) = None \<and> map_of (sa_files sa) (marker_path path) = None)"

definition markable :: "pylib \<Rightarrow> staged \<Rightarrow> bool" where
  "markable lib m \<longleftrightarrow> finite_json (PDict m) \<and> json_loads lib (dumps lib (PDict m)) = Some (PDict (normal_record m))"

lemma file_paths [simp]: "records_path p = records_path q \<longleftrightarrow> p = q" "marker_path p = marker_path q \<longleftrightarrow> p = q"
  "records_path p \<noteq> marker_path q" "marker_path q \<noteq> records_path p"
proof -
  have "last (records_path p) \<noteq> last (marker_path q)" by (simp add: records_path_def marker_path_def)
  then show "records_path p \<noteq> marker_path q" "marker_path q \<noteq> records_path p" by metis+
qed (simp_all add: records_path_def marker_path_def)

lemma append_sep_eq:
  assumes "c \<notin> set xs" "c \<notin> set xs'"
  shows "xs @ c # ys = xs' @ c # ys' \<longleftrightarrow> xs = xs' \<and> ys = ys'"
  using assms
proof (induction xs arbitrary: xs')
  case Nil
  then show ?case by (cases xs') auto
next
  case (Cons x xs)
  then show ?case by (cases xs') auto
qed

lemma attempt_path_inj:
  assumes "attempt_path base b a = Inr p" "attempt_path base b' a' = Inr p"
  shows "(b', a') = (b, a)"
proof -
  have slash: "CHR ''/'' \<notin> set b" "CHR ''/'' \<notin> set b'"
    and p: "p = base @ ''/batch='' @ b @ CHR ''/'' # ''attempt='' @ a" "p = base @ ''/batch='' @ b' @ CHR ''/'' # ''attempt='' @ a'"
    using assms by (auto simp: attempt_path_def path_segment_def process_text_def split: if_splits)
  have "b @ CHR ''/'' # ''attempt='' @ a = b' @ CHR ''/'' # ''attempt='' @ a'" using p by simp
  from append_sep_eq [THEN iffD1, OF slash this] show ?thesis by simp
qed

lemma load_complete_other:
  assumes "\<And>path. attempt_path base b a = Inr path \<Longrightarrow> (path \<in> set (sa_dirs sa') \<longleftrightarrow> path \<in> set (sa_dirs sa))
      \<and> map_of (sa_files sa') (records_path path) = map_of (sa_files sa) (records_path path)
      \<and> map_of (sa_files sa') (marker_path path) = map_of (sa_files sa) (marker_path path)"
  shows "load_complete lib base b a sa' = load_complete lib base b a sa"
proof (cases "attempt_path base b a")
  case (Inr path)
  then show ?thesis using assms [OF Inr] by (simp add: load_complete_def read_json_file_def)
qed (simp add: load_complete_def)

lemma write_recordsE:
  assumes "write_records lib base b a rs sa = (Inr (), sa')"
  obtains path where "attempt_path base b a = Inr path" "path \<notin> set (sa_dirs sa)" "map_of (sa_files sa) (records_path path) = None"
    "sa' = \<lparr>sa_dirs = sa_dirs sa @ [path], sa_files = sa_files sa @ [(records_path path, dumps lib (records_value (ordered_records lib rs)))]\<rparr>"
    "finite_json (records_value (ordered_records lib rs))"
  using assms
  by (cases sa) (auto simp: write_records_def Let_def create_file_def process_canonical_def bindE_def simp del: dumps.simps finite_json.simps
      split: sum.splits if_splits)

lemma write_recordsI:
  assumes "attempt_path base b a = Inr path" "path \<notin> set (sa_dirs sa)" "map_of (sa_files sa) (records_path path) = None"
    and "finite_json (records_value (ordered_records lib rs))"
  shows "\<exists>sa'. write_records lib base b a rs sa = (Inr (), sa')"
  using assms by (simp add: write_records_def Let_def create_file_def process_canonical_def del: dumps.simps finite_json.simps)

lemma write_records_area:
  assumes "write_records lib base b a rs sa = (x, sa')"
  shows "sa' = sa \<or> (\<exists>path fs. attempt_path base b a = Inr path \<and> sa_dirs sa' = sa_dirs sa @ [path]
    \<and> sa_files sa' = sa_files sa @ fs \<and> fst ` set fs \<subseteq> {records_path path})"
  using assms
  by (fastforce simp: write_records_def Let_def create_file_def bindE_def split: sum.splits if_splits)

lemma create_success_area:
  assumes "create_success lib base b a m sa = (x, sa')"
  shows "sa' = sa \<or> (\<exists>path content. attempt_path base b a = Inr path \<and> path \<in> set (sa_dirs sa) \<and> sa_dirs sa' = sa_dirs sa
    \<and> sa_files sa' = sa_files sa @ [(marker_path path, content)])"
  using assms
  by (fastforce simp: create_success_def bindE_def split: sum.splits if_splits option.splits)

lemma load_completeI:
  assumes "attempt_path base b a = Inr path" "path \<in> set (sa_dirs sa)" "parsed_records lib vs = Inr rs"
    and "read_json_file lib (records_path path) (sa_files sa) = Inr (PList vs)"
    and "read_json_file lib (marker_path path) (sa_files sa) = Inr (PDict m)"
  shows "load_complete lib base b a sa = Inr (Some (rs, m))"
  using assms by (auto simp: load_complete_def read_json_file_def split: option.splits)

lemma load_complete_None:
  assumes "load_complete lib base b a sa = Inr None"
  shows "\<exists>path. attempt_path base b a = Inr path \<and> path \<notin> set (sa_dirs sa)"
  using assms by (auto simp: load_complete_def bindE_def split: sum.splits if_splits pyval.splits)

lemma map_of_other: "fst ` set fs \<subseteq> {p} \<Longrightarrow> q \<noteq> p \<Longrightarrow> map_of fs q = None"
  by (auto simp: map_of_eq_None_iff)

lemma area_frame:
  assumes "attempt_path base b a = Inr p" "(b', a') \<noteq> (b, a)"
    and "sa_dirs sa' = sa_dirs sa @ ds" "set ds \<subseteq> {p}"
    and "sa_files sa' = sa_files sa @ fs" "fst ` set fs \<subseteq> {records_path p, marker_path p}"
  shows "load_complete lib base b' a' sa' = load_complete lib base b' a' sa"
proof (rule load_complete_other)
  fix q assume "attempt_path base b' a' = Inr q"
  then have q: "q \<noteq> p" using attempt_path_inj [OF assms(1)] assms(2) by blast
  have "map_of fs (records_path q) = None" "map_of fs (marker_path q) = None"
    using assms(6) q unfolding map_of_eq_None_iff by fastforce+
  then show "(q \<in> set (sa_dirs sa') \<longleftrightarrow> q \<in> set (sa_dirs sa)) \<and> map_of (sa_files sa') (records_path q) = map_of (sa_files sa) (records_path q)
      \<and> map_of (sa_files sa') (marker_path q) = map_of (sa_files sa) (marker_path q)"
    using assms(3-5) q by (auto simp: map_add_def split: option.splits)
qed

definition same_marker :: "pylib \<Rightarrow> staged \<Rightarrow> staged \<Rightarrow> bool" where
  "same_marker lib m' m \<longleftrightarrow> finite_json (PDict m') \<and> dumps lib (PDict m') = dumps lib (PDict m)"

lemma create_success_done:
  assumes "create_success lib base b a m sa = (Inr (), sa')"
  obtains path where "attempt_path base b a = Inr path" "path \<in> set (sa_dirs sa')"
    "map_of (sa_files sa') (marker_path path) = Some (dumps lib (PDict m))"
  using assms
  by (auto simp: create_success_def process_canonical_def bindE_def map_add_def simp del: dumps.simps finite_json.simps
      split: sum.splits if_splits option.splits)

lemma create_success_again:
  assumes "create_success lib base b a m sa = (Inr (), sa')"
  shows "create_success lib base b a m' sa' = (if \<not> finite_json (PDict m') then Inl ProcessValidationError
      else if dumps lib (PDict m') = dumps lib (PDict m) then Inr () else Inl ImmutableConflictError, sa')"
proof -
  obtain path where "attempt_path base b a = Inr path" "path \<in> set (sa_dirs sa')"
    "map_of (sa_files sa') (marker_path path) = Some (dumps lib (PDict m))" by (rule create_success_done [OF assms])
  then show ?thesis by (simp add: create_success_def process_canonical_def del: dumps.simps finite_json.simps)
qed

interpretation local_attempts: attempt_store "local_adapter lib base" area_ok "storable lib" "stored_records lib" "markable lib" normal_record
  "same_marker lib"
proof
  fix f f' :: staging_area and b a b' a' rs rs' m x
  show "area_ok f'" if "area_ok f" "at_write_records (local_adapter lib base) b a rs f = (x, f')"
    using write_records_area [of lib base b a rs f x f'] that by (auto simp: local_adapter_def area_ok_def map_of_other)
  show "at_write_records (local_adapter lib base) b a rs f' = (Inl StagingConflictError, f')"
    if "at_create_success (local_adapter lib base) b a m f = (Inr (), f')"
  proof -
    from that have "create_success lib base b a m f = (Inr (), f')" by (simp add: local_adapter_def)
    then obtain path where "attempt_path base b a = Inr path" "path \<in> set (sa_dirs f')" by (rule create_success_done)
    then show ?thesis by (simp add: local_adapter_def write_records_def)
  qed
  show "\<exists>x. at_create_success (local_adapter lib base) b a m' f' = (x, f') \<and> (x = Inr () \<longleftrightarrow> same_marker lib m' m)"
    if "at_create_success (local_adapter lib base) b a m f = (Inr (), f')" for m'
    using create_success_again [of lib base b a m f f' m'] that
    by (simp add: local_adapter_def same_marker_def del: dumps.simps finite_json.simps)
  show "area_ok f'" if "area_ok f" "at_create_success (local_adapter lib base) b a m f = (x, f')"
    using create_success_area [of lib base b a m f x f'] that by (auto simp: local_adapter_def area_ok_def)
  show "\<exists>f'. at_write_records (local_adapter lib base) b a rs f = (Inr (), f')"
    if "area_ok f" and none: "at_load_complete (local_adapter lib base) b a f = Inr None" and "storable lib rs"
  proof -
    obtain path where "attempt_path base b a = Inr path" "path \<notin> set (sa_dirs f)"
      using load_complete_None [of lib base b a f] none by (auto simp: local_adapter_def)
    then show ?thesis using write_recordsI [of base b a path f lib rs] that(1,3) by (auto simp: local_adapter_def area_ok_def storable_def)
  qed
next
  fix f f' :: staging_area and b a b' a' rs rs' m x
  assume w: "at_write_records (local_adapter lib base) b a rs f = (Inr (), f')"
  obtain path where p: "attempt_path base b a = Inr path" "path \<notin> set (sa_dirs f)" "map_of (sa_files f) (records_path path) = None"
    "f' = \<lparr>sa_dirs = sa_dirs f @ [path], sa_files = sa_files f @ [(records_path path, dumps lib (records_value (ordered_records lib rs)))]\<rparr>"
    using w by (auto simp: local_adapter_def elim: write_recordsE)
  show "at_write_records (local_adapter lib base) b a rs' f' = (Inl StagingConflictError, f')"
    using p by (simp add: local_adapter_def write_records_def)
  have reads: "read_json_file lib (records_path path) (sa_files f' @ fs) = Inr (PList (map PDict (stored_records lib rs)))"
    if "storable lib rs" for fs
    using p(3,4) that by (simp add: read_json_file_def storable_def map_add_def del: dumps.simps split: option.splits)
  show "at_read_records (local_adapter lib base) b a f' = Inr (stored_records lib rs)" if "storable lib rs"
    using p(1) reads [OF that, of "[]"] parsed_stored that
    by (simp add: local_adapter_def read_records_def read_records_file_def storable_def)
  show "at_load_complete (local_adapter lib base) b a f' = Inl StagingConflictError" if "area_ok f"
    using p that by (simp add: local_adapter_def load_complete_def area_ok_def map_add_def)
  show "\<exists>f''. at_create_success (local_adapter lib base) b a m f' = (Inr (), f'')
      \<and> at_load_complete (local_adapter lib base) b a f'' = Inr (Some (stored_records lib rs, normal_record m))"
    if "area_ok f" "storable lib rs" "markable lib m"
  proof -
    let ?text = "dumps lib (PDict m)"
    have "map_of (sa_files f') (marker_path path) = None" using p that(1) by (simp add: area_ok_def map_add_def)
    then have "create_success lib base b a m f' = (Inr (), f'\<lparr>sa_files := sa_files f' @ [(marker_path path, ?text)]\<rparr>)"
      using p(1,4) that(3)
      by (simp add: create_success_def process_canonical_def markable_def map_add_def del: dumps.simps finite_json.simps)
    moreover have "read_json_file lib (marker_path path) (sa_files f' @ [(marker_path path, ?text)]) = Inr (PDict (normal_record m))"
      using \<open>map_of (sa_files f') (marker_path path) = None\<close> that(3)
      by (simp add: read_json_file_def markable_def map_add_def del: dumps.simps)
    moreover have "path \<in> set (sa_dirs f')" using p(4) by simp
    moreover have "parsed_records lib (map PDict (stored_records lib rs)) = Inr (stored_records lib rs)"
      using that(2) by (intro parsed_stored) (simp add: storable_def)
    ultimately show ?thesis
      using load_completeI [OF p(1), of "f'\<lparr>sa_files := sa_files f' @ [(marker_path path, ?text)]\<rparr>"] reads [OF that(2)]
      by (simp add: local_adapter_def del: dumps.simps)
  qed
next
  fix f f' :: staging_area and b a b' a' :: string and rs m x
  assume other: "(b', a') \<noteq> (b, a)"
  show "at_load_complete (local_adapter lib base) b' a' f' = at_load_complete (local_adapter lib base) b' a' f"
    if "at_write_records (local_adapter lib base) b a rs f = (x, f')"
    using write_records_area [of lib base b a rs f x f'] that area_frame [OF _ other, of base _ f' f "[_]"]
    by (fastforce simp: local_adapter_def)
  show "at_load_complete (local_adapter lib base) b' a' f' = at_load_complete (local_adapter lib base) b' a' f"
    if "at_create_success (local_adapter lib base) b a m f = (x, f')"
    using create_success_area [of lib base b a m f x f'] that area_frame [OF _ other, of base _ f' f "[]" "[_]"]
    by (fastforce simp: local_adapter_def)
qed

end
