(* ===== verification/Control_Seal_Spec.thy ===== *)
theory Control_Seal_Spec
  imports Control_Commit_Spec
begin

text \<open>
  What a seal records: the outputs handed to \<open>seal_batch\<close> are the output columns of the attempts of the
  batch, from then on and in every publication made from them.
\<close>

definition sealed_output :: "string \<Rightarrow> output_item \<Rightarrow> attempt_row \<Rightarrow> bool" where
  "sealed_output i x a \<longleftrightarrow> a_attempt_id a = oi_attempt_id x \<and> a_work_id a = oi_work_id x \<and> a_batch_id a = i
     \<and> a_output_path a = Some (oi_output_path x) \<and> a_output_sha256 a = Some (oi_output_sha256 x)
     \<and> a_terminal_succeeded a = Some (oi_succeeded x)"

lemma sealed_output_le: "sealed_output i x a \<Longrightarrow> a_status a = A_SEALED \<Longrightarrow> attempt_le a a' \<Longrightarrow> sealed_output i x a'"
  by (auto simp: sealed_output_def attempt_le_def attempt_sig_def)

lemma sealed_history:
  assumes "history_db d d'" "a \<in> set (db_attempts d)" "a_status a = A_SEALED" "sealed_output i x a"
  shows "\<exists>a' \<in> set (db_attempts d'). sealed_output i x a'"
proof -
  have "rows_le attempt_le (db_attempts d) (db_attempts d')" using assms(1) by (simp add: history_db_def)
  from rows_le_mem [OF this assms(2)] obtain a' where "a' \<in> set (db_attempts d')" "attempt_le a a'" .
  with sealed_output_le [OF assms(4,3)] show ?thesis by blast
qed

lemma seal_item_output:
  assumes "core_ok {i} d" "seal_current x d" "seal_item i now x d = Inr d1"
  obtains a a' w where "attempt_step {i} d d1 a a' w w" "a_attempt_id a = oi_attempt_id x" "a' \<in> set (db_attempts d1)"
    "a_status a' = A_SEALED" "sealed_output i x a'"
proof -
  obtain a w where s: "attempt_step {i} d d1 a (seal_attempt x now a) w w" "a_attempt_id a = oi_attempt_id x"
    using seal_item_step [OF assms] by blast
  note m = attempt_stepD [OF s(1)]
  have a: "a \<in> set (db_attempts d)" using m by blast
  obtain b v where bv: "attempt_with_work d (oi_attempt_id x) = Some (b, v)" "a_batch_id b = i"
    using assms(3) unfolding seal_item_def by (auto split: option.splits)
  have "b = a"
    by (rule attempt_key [OF core_okD(1) [OF assms(1)] _ a]) (use attempt_with_work_SomeD [OF bv(1)] s(2) in auto)
  then have "sealed_output i x (seal_attempt x now a)"
    using bv(2) s(2) a assms(2) by (simp add: sealed_output_def seal_attempt_def seal_current_def)
  moreover have "seal_attempt x now a \<in> set (db_attempts d1)" using m by blast
  ultimately show thesis using that [OF s] by (simp add: seal_attempt_def)
qed

lemma seal_loop_outputs:
  assumes "core_ok {i} d" "distinct (map oi_attempt_id items)" "\<forall>x \<in> set items. seal_current x d"
    "foldE (seal_item i now) items d = Inr d'" "x \<in> set items"
  shows "\<exists>a \<in> set (db_attempts d'). sealed_output i x a"
  using assms
proof (induction items arbitrary: d)
  case (Cons y ys)
  obtain d1 where d1: "seal_item i now y d = Inr d1" "foldE (seal_item i now) ys d1 = Inr d'" using Cons.prems(4) by auto
  have cur: "seal_current y d" using Cons.prems(3) by simp
  from Cons.prems(1) cur d1(1) obtain a a' w where s: "attempt_step {i} d d1 a a' w w" "a_attempt_id a = oi_attempt_id y"
    "a' \<in> set (db_attempts d1)" "a_status a' = A_SEALED" "sealed_output i y a'"
    by (rule seal_item_output)
  have core: "core_ok {i} d1" by (rule step_core [OF Cons.prems(1) s(1)])
  have rest: "\<forall>z \<in> set ys. seal_current z d1" using seal_current_keep [OF _ s(1)] Cons.prems(3) by simp
  have dist: "distinct (map oi_attempt_id ys)" using Cons.prems(2) by simp
  show ?case
  proof (cases "x = y")
    case True
    have "history_db d1 d'" using seal.loop [OF core dist rest d1(2)] by (simp add: loop_effect_def)
    from sealed_history [OF this s(3-5)] True show ?thesis by simp
  next
    case False
    then show ?thesis using Cons.IH [OF core dist rest d1(2)] Cons.prems(5) by simp
  qed
qed simp

lemma seal_tx_outputs:
  assumes ok: "db_ok lib d" and eq: "seal_tx i outputs digest membership now d = Inr (d', u)"
    and items: "normalize_outputs [] outputs = Inr items" "x \<in> set items"
  shows "\<exists>a \<in> set (db_attempts d'). sealed_output i x a"
  using eq
proof (cases rule: seal_tx_cases)
  case (1 b)
  have "sort (requested_rows items) = sort (sealed_rows i d)"
    using 1(4) items(1) find_batch_SomeD [OF 1(1)] by (auto simp: verify_existing_seal_def)
  then have "set (requested_rows items) = set (sealed_rows i d)" by (metis set_sort)
  then have "(oi_work_id x, oi_attempt_id x, Some (oi_output_path x), Some (oi_output_sha256 x), Some (oi_succeeded x)) \<in> set (sealed_rows i d)"
    using items(2) by (auto simp: requested_rows_def)
  then show ?thesis unfolding 1(3) sealed_rows_def sealed_output_def by auto
next
  case (2 b items' d1)
  then have items': "items' = items" using items(1) by simp
  have mem: "members_ok lib d" and core: "core_ok {} d" using ok by (simp_all add: db_ok_def)
  note ids = seal_identities [OF mem core_okD(1) [OF core] 2(7) conjunct1 [OF normalize_outputs_distinct [OF 2(6)]]]
  have "\<exists>a \<in> set (db_attempts d1). sealed_output i x a"
    using seal_loop_outputs [OF core_weaken [OF core] ids(2) _ 2(8), of x] ids(1) items(2) items' by blast
  then show ?thesis unfolding 2(9) by simp
qed

text \<open>The columns of the documents that \<open>_normalize_outputs\<close> accepts.\<close>

definition output_columns :: "pyval \<Rightarrow> output_item \<Rightarrow> bool" where
  "output_columns raw x \<longleftrightarrow> (\<exists>d. raw = PDict d \<and> dget d ''work_id'' PNone = PStr (oi_work_id x)
     \<and> dget d ''attempt_id'' PNone = PStr (oi_attempt_id x) \<and> dget d ''output_path'' PNone = PStr (oi_output_path x)
     \<and> dget d ''output_sha256'' PNone = PStr (oi_output_sha256 x) \<and> dget d ''succeeded'' (PBool True) = PBool (oi_succeeded x))"

lemma required_text_Inr: "required_text v = Inr s \<longleftrightarrow> v = PStr s \<and> py_strip s \<noteq> []"
  by (auto simp: required_text_def split: pyval.splits if_splits)

lemma normalize_output_columns:
  assumes "normalize_output d w a = Inr x" "dget d ''work_id'' PNone = PStr w" "dget d ''attempt_id'' PNone = PStr a"
  shows "output_columns (PDict d) x"
proof -
  obtain vs where "dget d ''records'' PNone = PList vs"
    using assms(1) by (cases "dget d ''records'' PNone") (auto simp: normalize_output_def)
  then show ?thesis using assms
    by (auto simp: normalize_output_def output_columns_def required_text_Inr validated_sha256_def boolean_val_def split: pyval.splits)
qed

lemma normalize_outputs_columns:
  "normalize_outputs ids raws = Inr items \<Longrightarrow> list_all2 output_columns raws items"
proof (induction raws arbitrary: ids items)
  case (Cons raw raws)
  then obtain d w a x rest where r: "raw = PDict d" "required_text (dget d ''work_id'' PNone) = Inr w"
    "required_text (dget d ''attempt_id'' PNone) = Inr a" "normalize_output d w a = Inr x"
    "normalize_outputs ((w, a) # ids) raws = Inr rest" "items = x # rest"
    by (auto split: pyval.splits)
  show ?case using Cons.IH [OF r(5)] normalize_output_columns [OF r(4)] r(1-3,6) by (simp add: required_text_Inr)
qed simp

lemma seal_normalizes:
  assumes "seal_batch clock (PStr i) (PList outputs) e m st = (Inr (), st1)"
  shows "\<exists>items. normalize_outputs [] outputs = Inr items"
proof -
  obtain now d1 digest membership where "seal_tx i outputs digest membership now (st_db st) = Inr (d1, ())"
    using assms by (auto simp: seal_batch_def transaction_def required_text_def split: sum.splits if_splits)
  then show ?thesis by (cases rule: seal_tx_cases) (auto simp: verify_existing_seal_def)
qed

section \<open>From the seal to the publications\<close>

lemma sealed_status:
  assumes "db_ok lib d" "find_batch d i = Some b" "b_status b = B_SEALED" "a \<in> set (db_attempts d)" "a_batch_id a = i"
  shows "a_status a = A_SEALED"
  using attempt_agrees [of d a b] find_batch_SomeD [OF assms(2)] assms by (auto simp: db_ok_def)

lemma seal_tx_sealed:
  assumes "seal_tx i outputs digest membership now d = Inr (d', u)" "db_ok lib d"
  shows "\<exists>b. find_batch d' i = Some b \<and> b_status b = B_SEALED"
  using assms(1)
proof (cases rule: seal_tx_cases)
  case (2 b items d1)
  have "db_batches d1 = db_batches d" using seal_loop(2) [OF assms(2) 2(6-8)] by (simp add: loop_effect_def)
  then show ?thesis unfolding 2(9) using 2(1) find_batch_SomeD [OF 2(1)] by (simp add: find_batch_def find_update_where)
qed auto

text \<open>A published attempt has the publication row of its own output.\<close>

lemma succeeded_publication:
  assumes core: "core_ok {} d" and a: "a \<in> set (db_attempts d)" "a_status a = A_SUCCEEDED"
  shows "\<exists>p \<in> set (db_publications d). p_attempt_id p = a_attempt_id a \<and> p_work_id p = a_work_id a
    \<and> a_output_path a = Some (p_output_path p) \<and> a_output_sha256 a = Some (p_output_sha256 p)"
proof -
  obtain w b where w: "w \<in> set (db_work d)" "link_ok {} a w b" using attempt_linkE [OF core a(1)] by metis
  then have c: "w_committed_attempt_id w = Some (a_attempt_id a)" using a(2) by (simp add: link_ok_def)
  obtain p where p: "p \<in> set (db_publications d)" "p_work_id p = w_work_id w"
    using core_okD(5) [OF core] w(1) c unfolding publications_ok_def by force
  obtain a' w' where l: "a' \<in> set (db_attempts d)" "w' \<in> set (db_work d)" "publication_link p a' w'"
    using core_okD(5) [OF core] p(1) unfolding publications_ok_def by blast
  have "w' = w" by (rule work_key [OF core_okD(1) [OF core] l(2) w(1)]) (use l(3) p(2) in \<open>simp add: publication_link_def\<close>)
  then have "a' = a" using l(3) c by (intro attempt_key [OF core_okD(1) [OF core] l(1) a(1)]) (simp add: publication_link_def)
  with l(3) w(2) p(1) show ?thesis by (intro bexI [of _ p]) (simp_all add: publication_link_def link_ok_def)
qed

lemma sealed_then_committed:
  assumes ok: "store_ok lib st" and seal: "seal_batch clock (PStr i) (PList outputs) e m st = (Inr (), st1)"
    and run: "(control_step lib)\<^sup>*\<^sup>* st1 st2" and b: "find_batch (st_db st2) i = Some b" "b_status b = B_COMMITTED"
    and items: "normalize_outputs [] outputs = Inr items" "x \<in> set items"
  shows "\<exists>a \<in> set (db_attempts (st_db st2)). sealed_output i x a \<and> a_status a \<in> {A_SUCCEEDED, A_FAILED}
    \<and> (a_status a = A_SUCCEEDED \<longrightarrow> (\<exists>p \<in> set (db_publications (st_db st2)). p_attempt_id p = oi_attempt_id x
         \<and> p_work_id p = oi_work_id x \<and> p_output_path p = oi_output_path x \<and> p_output_sha256 p = oi_output_sha256 x))"
proof -
  obtain now d1 digest membership where tx: "seal_tx i outputs digest membership now (st_db st) = Inr (d1, ())" "st1 = st\<lparr>st_db := d1\<rparr>"
    using seal by (auto simp: seal_batch_def transaction_def required_text_def split: sum.splits if_splits)
  have ok0: "db_ok lib (st_db st)" using ok by (simp add: store_ok_def)
  have ok1: "store_ok lib st1" using control.step_inv [OF ok] seal by (blast intro: control_step.seal)
  obtain a where a: "a \<in> set (db_attempts d1)" "sealed_output i x a" using seal_tx_outputs [OF ok0 tx(1) items] by blast
  obtain b1 where "find_batch d1 i = Some b1" "b_status b1 = B_SEALED" using seal_tx_sealed [OF tx(1) ok0] by blast
  then have "a_status a = A_SEALED"
    using sealed_status [of lib d1 i b1 a] a ok1 tx(2) by (simp add: store_ok_def sealed_output_def)
  moreover have "history_db d1 (st_db st2)" using control.star_le [OF run ok1] tx(2) by (simp add: history_le_def)
  ultimately obtain a2 where a2: "a2 \<in> set (db_attempts (st_db st2))" "sealed_output i x a2"
    using sealed_history [OF _ a(1) _ a(2)] by blast
  have core: "core_ok {} (st_db st2)" using control.star_inv [OF run ok1] by (simp add: store_ok_def db_ok_def)
  have "status_agrees B_COMMITTED (a_status a2)"
    using attempt_agrees [OF core a2(1), of b] find_batch_SomeD [OF b(1)] b(2) a2(2) by (simp add: sealed_output_def)
  with succeeded_publication [OF core a2(1)] a2 show ?thesis
    by (intro bexI [of _ a2]) (force simp: sealed_output_def)+
qed

end
