(* ===== verification/Process_Run_Spec.thy ===== *)
theory Process_Run_Spec
  imports Process_Run Process_Attempts_Spec Control_Seal_Spec
begin

text \<open>
  The run of a process batch as a run of the control store: whatever the process does, whenever it fails
  or crashes and whatever other processes do in between, the store only takes steps of the control
  machine; and a run that returns has committed its batch.
\<close>

section \<open>Programs that only take control steps\<close>

definition world_ok :: "'f process_context \<Rightarrow> bool" where
  "world_ok cx \<longleftrightarrow> (\<forall>n st. (control_step (cx_lib cx))\<^sup>*\<^sup>* st (cx_world cx n st))"

definition only_steps :: "'f process_context \<Rightarrow> ('f, 'a) process \<Rightarrow> bool" where
  "only_steps cx m \<longleftrightarrow> (\<forall>s r s'. m s = (r, s') \<longrightarrow> (control_step (cx_lib cx))\<^sup>*\<^sup>* (ru_store s) (ru_store s'))"

named_theorems steps

lemma only_stepsD: "only_steps cx m \<Longrightarrow> m s = (r, s') \<Longrightarrow> (control_step (cx_lib cx))\<^sup>*\<^sup>* (ru_store s) (ru_store s')"
  unfolding only_steps_def by blast

lemma steps_return [steps]: "only_steps cx (returnP r)"
  by (simp add: only_steps_def returnP_def)

lemma steps_bind [steps]:
  assumes "only_steps cx m" "\<And>x. only_steps cx (f x)"
  shows "only_steps cx (bindP m f)"
  unfolding only_steps_def
proof (intro allI impI)
  fix s r s' assume "bindP m f s = (r, s')"
  then obtain r1 s1 where m: "m s = (r1, s1)" and k: "s' = s1 \<or> (\<exists>x. f x s1 = (r, s'))"
    by (cases "m s") (auto simp: bindP_def split: sum.splits)
  note 1 = only_stepsD [OF assms(1) m]
  show "(control_step (cx_lib cx))\<^sup>*\<^sup>* (ru_store s) (ru_store s')"
    using k
  proof
    assume "\<exists>x. f x s1 = (r, s')"
    then obtain x where "f x s1 = (r, s')" ..
    from rtranclp_trans [OF 1 only_stepsD [OF assms(2) this]] show ?thesis .
  qed (use 1 in simp)
qed

lemma steps_call:
  assumes "world_ok cx" "\<And>clock st r st'. op clock st = (r, st') \<Longrightarrow> (control_step (cx_lib cx))\<^sup>*\<^sup>* st st'"
  shows "only_steps cx (call_store cx op)"
  unfolding only_steps_def
proof (intro allI impI)
  fix s r s' assume "call_store cx op s = (r, s')"
  then obtain st where "op (cx_clock cx (ru_tick s)) (cx_world cx (ru_tick s) (ru_store s)) = (r, st)" "ru_store s' = st"
    by (auto simp: call_store_def enter_def Let_def split: prod.splits)
  then show "(control_step (cx_lib cx))\<^sup>*\<^sup>* (ru_store s) (ru_store s')"
    using rtranclp_trans assms unfolding world_ok_def by metis
qed

lemma steps_read [steps]: "world_ok cx \<Longrightarrow> only_steps cx (read_store cx op)"
  unfolding read_store_def by (rule steps_call) auto

lemma steps_call_area [steps]: "only_steps cx (call_area op)"
  by (auto simp: only_steps_def call_area_def split: prod.splits)

lemma steps_read_area [steps]: "only_steps cx (read_area op)"
  by (simp add: only_steps_def read_area_def)

lemma steps_crash [steps]: "only_steps cx (crash cx point)"
  unfolding crash_def by (rule steps_return)

lemma steps_control [steps]:
  assumes "world_ok cx"
  shows "only_steps cx (call_store cx (\<lambda>clock. commit_batch clock b))"
    "only_steps cx (call_store cx (\<lambda>clock. seal_batch clock b os e m))"
    "only_steps cx (heartbeat cx env extension)" "only_steps cx (assert_fence cx env)" "only_steps cx (live_batch cx env)"
proof -
  show "only_steps cx (call_store cx (\<lambda>clock. commit_batch clock b))"
    "only_steps cx (call_store cx (\<lambda>clock. seal_batch clock b os e m))"
    "only_steps cx (heartbeat cx env extension)"
    unfolding heartbeat_def by (rule steps_call [OF assms], blast intro: control_step.intros)+
  show "only_steps cx (assert_fence cx env)" "only_steps cx (live_batch cx env)"
    unfolding assert_fence_def live_batch_def by (rule steps_read [OF assms])+
qed

lemma steps_case [steps]:
  "(\<And>a b. p = (a, b) \<Longrightarrow> only_steps cx (f a b)) \<Longrightarrow> only_steps cx (case p of (a, b) \<Rightarrow> f a b)"
  "only_steps cx m \<Longrightarrow> (\<And>x. only_steps cx (g x)) \<Longrightarrow> only_steps cx (case v of None \<Rightarrow> m | Some x \<Rightarrow> g x)"
  "only_steps cx m \<Longrightarrow> only_steps cx m' \<Longrightarrow> only_steps cx (if c then m else m')"
  by (auto split: prod.splits option.splits)

lemma beats_steps:
  assumes "world_ok cx" "beats cx env extension n failed s = (x, s')"
  shows "(control_step (cx_lib cx))\<^sup>*\<^sup>* (ru_store s) (ru_store s')"
  using assms(2)
proof (induction n arbitrary: failed s)
  case (Suc n)
  show ?case
  proof (cases failed)
    case False
    obtain r s1 where h: "heartbeat cx env extension s = (r, s1)" by fastforce
    note 1 = only_stepsD [OF steps_control(3) [OF assms(1)] h]
    show ?thesis using Suc.prems False h 1 rtranclp_trans [OF 1 Suc.IH]
      by (cases r) auto
  qed (use Suc in simp)
qed simp

section \<open>The parts of a run\<close>

lemma load_steps [steps]: "world_ok cx \<Longrightarrow> only_steps cx (load_process_context cx batch_id)"
  unfolding load_process_context_def by (intro steps)

lemma resume_steps [steps]: "world_ok cx \<Longrightarrow> only_steps cx (resume_committed cx env)"
  unfolding resume_committed_def by (intro steps)

lemma stage_steps [steps]: "only_steps cx (stage_records cx env plan records)"
  unfolding stage_records_def Let_def by (intro steps)

lemma mark_steps [steps]: "world_ok cx \<Longrightarrow> only_steps cx (mark_records cx env stored)"
  unfolding mark_records_def by (intro steps)

lemma seal_steps [steps]: "world_ok cx \<Longrightarrow> only_steps cx (seal_and_commit cx env plan records)"
  unfolding seal_and_commit_def by (intro steps)

text \<open>The block under the heartbeat goes from one state to the next by beats of the thread and by its own parts.\<close>

definition runs :: "('f run_state \<Rightarrow> 'f run_state \<Rightarrow> bool) \<Rightarrow> ('f, 'a) process \<Rightarrow> bool" where
  "runs R m \<longleftrightarrow> (\<forall>s r s'. m s = (r, s') \<longrightarrow> R s s')"

lemma runsD: "runs R m \<Longrightarrow> m s = (r, s') \<Longrightarrow> R s s'"
  unfolding runs_def by blast

lemma runs_bind:
  assumes "transp R" "runs R m" "\<And>x. runs R (f x)"
  shows "runs R (bindP m f)"
  unfolding runs_def
proof (intro allI impI)
  fix s r s' assume "bindP m f s = (r, s')"
  then obtain r1 s1 where m: "m s = (r1, s1)" and k: "s' = s1 \<or> (\<exists>x. f x s1 = (r, s'))"
    by (cases "m s") (auto simp: bindP_def split: sum.splits)
  then show "R s s'" using runsD [OF assms(2) m] runsD [OF assms(3)] transpD [OF assms(1)] by blast
qed

lemma execute_runs:
  assumes "transp R" "runs R (heartbeat cx env extension)" "runs R (crash cx ''after_action'')"
    and "\<And>n failed s x s'. beats cx env extension n failed s = (x, s') \<Longrightarrow> R s s'"
    and "\<And>records. runs R (stage_records cx env plan records)" "\<And>stored. runs R (mark_records cx env stored)"
  shows "runs R (execute_records cx env plan profile mode extension)"
  unfolding execute_records_def
proof (intro runs_bind assms(1,2))
  fix u :: unit
  note trans = transpD [OF assms(1)]
  show "runs R (\<lambda>s. case cx_beats cx of (n1, n2, n3) \<Rightarrow>
         let (failed, s1) = beats cx env extension n1 False s in
         (case bindE (cx_harness cx env plan profile mode) (\<lambda>records.
                 if failed then Inl LeaseLostError else Inr records) of
            Inl e \<Rightarrow> (leave_heartbeat failed (Inl e), s1)
          | Inr records \<Rightarrow>
              let (r2, s2) = bindP (crash cx ''after_action'') (\<lambda>_. stage_records cx env plan records) s1;
                  (failed2, s3) = beats cx env extension n2 failed s2 in
              (case r2 of
                 Inl e \<Rightarrow> (leave_heartbeat failed2 (Inl e), s3)
               | Inr stored \<Rightarrow>
                   let (r4, s4) = mark_records cx env stored s3;
                       (failed3, s5) = beats cx env extension n3 failed2 s4
                   in (leave_heartbeat failed3 r4, s5))))" (is "runs R ?m")
    unfolding runs_def
  proof (intro allI impI)
    fix s r s' assume run: "?m s = (r, s')"
    obtain n1 n2 n3 where n: "cx_beats cx = (n1, n2, n3)" by (cases "cx_beats cx") auto
    obtain f1 s1 where 1: "beats cx env extension n1 False s = (f1, s1)" by fastforce
    show "R s s'"
    proof (cases "bindE (cx_harness cx env plan profile mode) (\<lambda>records. if f1 then Inl LeaseLostError else Inr records)")
      case (Inl e)
      with run n 1 assms(4) [OF 1] show ?thesis by simp
    next
      case (Inr records)
      obtain r2 s2 where 2: "bindP (crash cx ''after_action'') (\<lambda>_. stage_records cx env plan records) s1 = (r2, s2)" by fastforce
      obtain f2 s3 where 3: "beats cx env extension n2 f1 s2 = (f2, s3)" by fastforce
      have t3: "R s s3"
        by (rule trans [OF trans [OF assms(4) [OF 1] runsD [OF runs_bind [OF assms(1,3,5)] 2]] assms(4) [OF 3]])
      show ?thesis
      proof (cases r2)
        case (Inl e)
        with run n 1 2 3 Inr t3 show ?thesis by simp
      next
        case (Inr stored)
        obtain r4 s4 where 4: "mark_records cx env stored s3 = (r4, s4)" by fastforce
        obtain f3 s5 where 5: "beats cx env extension n3 f2 s4 = (f3, s5)" by fastforce
        have "R s s5" by (rule trans [OF trans [OF t3 runsD [OF assms(6) 4]] assms(4) [OF 5]])
        with run n 1 2 3 4 5 Inr \<open>bindE _ _ = Inr records\<close> show ?thesis by simp
      qed
    qed
  qed
qed

lemma execute_steps [steps]:
  assumes "world_ok cx"
  shows "only_steps cx (execute_records cx env plan profile mode extension)"
proof -
  let ?R = "\<lambda>s s'. (control_step (cx_lib cx))\<^sup>*\<^sup>* (ru_store s) (ru_store s')"
  have up: "runs ?R m" if "only_steps cx m" for m :: "('a, 'c) process"
    using that unfolding runs_def only_steps_def .
  have "runs ?R (execute_records cx env plan profile mode extension)"
  proof (rule execute_runs)
    show "transp ?R" by (intro transpI) (rule rtranclp_trans)
    show "?R s s'" if "beats cx env extension n failed s = (x, s')" for n failed s x s' using beats_steps [OF assms that] .
  qed (rule up, intro steps assms)+
  then show ?thesis unfolding runs_def only_steps_def .
qed

lemma obtain_steps [steps]: "world_ok cx \<Longrightarrow> only_steps cx (obtain_records cx env plan profile mode earlier)"
  unfolding obtain_records_def by (intro steps)

lemma live_steps [steps]: "world_ok cx \<Longrightarrow> only_steps cx (process_live cx env live profile mode peak)"
  unfolding process_live_def by (intro steps)

lemma run_steps: "world_ok cx \<Longrightarrow> only_steps cx (run_process_batch cx batch_id profile mode peak)"
  unfolding run_process_batch_def by (intro steps)

lemma resume_batch_steps: "world_ok cx \<Longrightarrow> only_steps cx (resume_committed_process_batch cx batch_id)"
  unfolding resume_committed_process_batch_def by (intro steps)

section \<open>The staging area of a run\<close>

text \<open>Programs that change the area only within a reflexive and transitive relation.\<close>

definition frames :: "('f \<Rightarrow> 'f \<Rightarrow> bool) \<Rightarrow> ('f, 'a) process \<Rightarrow> bool" where
  "frames P m \<longleftrightarrow> runs (\<lambda>s s'. P (ru_area s) (ru_area s')) m"

lemma framesD: "frames P m \<Longrightarrow> m s = (r, s') \<Longrightarrow> P (ru_area s) (ru_area s')"
  unfolding frames_def by (rule runsD)

named_theorems area

lemma area_simps [area]:
  assumes "reflp P"
  shows "frames P (returnP r)" "frames P (call_store cx op)" "frames P (read_store cx look)" "frames P (read_area view)"
    "frames P (crash cx point)" "frames P (heartbeat cx env extension)" "frames P (assert_fence cx env)" "frames P (live_batch cx env)"
  using reflpD [OF assms]
  by (auto simp: frames_def runs_def returnP_def call_store_def read_store_def read_area_def crash_def heartbeat_def
      assert_fence_def live_batch_def enter_def Let_def split: prod.splits)

lemma area_bind [area]: "transp P \<Longrightarrow> frames P m \<Longrightarrow> (\<And>x. frames P (f x)) \<Longrightarrow> frames P (bindP m f)"
  unfolding frames_def by (rule runs_bind) (auto intro: transpI dest: transpD)

lemma area_cases [area]:
  "(\<And>a b. p = (a, b) \<Longrightarrow> frames P (f a b)) \<Longrightarrow> frames P (case p of (a, b) \<Rightarrow> f a b)"
  "frames P m \<Longrightarrow> (\<And>x. frames P (g x)) \<Longrightarrow> frames P (case v of None \<Rightarrow> m | Some x \<Rightarrow> g x)"
  "frames P m \<Longrightarrow> frames P m' \<Longrightarrow> frames P (if c then m else m')"
  by (auto split: prod.splits option.splits)

lemma area_call: "(\<And>f x f'. op f = (x, f') \<Longrightarrow> P f f') \<Longrightarrow> frames P (call_area op)"
  by (auto simp: frames_def runs_def call_area_def split: prod.splits)

lemma beats_area: "beats cx env extension n failed s = (x, s') \<Longrightarrow> ru_area s' = ru_area s"
proof (induction n arbitrary: failed s)
  case (Suc n)
  obtain r s1 where h: "heartbeat cx env extension s = (r, s1)" by fastforce
  then have "ru_area s1 = ru_area s"
    by (auto simp: heartbeat_def call_store_def enter_def Let_def split: prod.splits)
  then show ?case using Suc h by (auto split: if_splits sum.splits)
qed simp

text \<open>What does not write: loading, resuming, sealing and committing, and the records of a complete attempt.\<close>

lemma equal_rel: "reflp (=)" "transp (=)"
  by (simp_all add: reflpI transpI)

lemma load_area: "frames (=) (load_process_context cx batch_id)"
  unfolding load_process_context_def by (intro area equal_rel)

lemma resume_area: "frames (=) (resume_committed cx env)"
  unfolding resume_committed_def by (intro area equal_rel)

lemma seal_area: "frames (=) (seal_and_commit cx env plan records)"
  unfolding seal_and_commit_def by (intro area equal_rel)

lemma earlier_area: "frames (=) (obtain_records cx env plan profile mode (Some earlier))"
  by (cases earlier) (simp add: obtain_records_def, intro area equal_rel)

text \<open>The harness is part of no other step than the block under the heartbeat.\<close>

abbreviation with_harness :: "'f process_context
    \<Rightarrow> (verified_envelope \<Rightarrow> execution_plan \<Rightarrow> execution_profile \<Rightarrow> string \<Rightarrow> staged list res) \<Rightarrow> 'f process_context" where
  "with_harness cx h \<equiv> cx\<lparr>cx_harness := h\<rparr>"

lemma harness_fields:
  "cx_lib (with_harness cx h) = cx_lib cx" "cx_package_version (with_harness cx h) = cx_package_version cx"
  "cx_release_version (with_harness cx h) = cx_release_version cx" "cx_clock (with_harness cx h) = cx_clock cx"
  "cx_world (with_harness cx h) = cx_world cx" "cx_attempts (with_harness cx h) = cx_attempts cx"
  "cx_crash (with_harness cx h) = cx_crash cx" "cx_evidence (with_harness cx h) = cx_evidence cx"
  by simp_all

lemma harness_access:
  "call_store (with_harness cx h) = call_store cx" "read_store (with_harness cx h) = read_store cx"
  "crash (with_harness cx h) = crash cx"
  unfolding call_store_def [abs_def] read_store_def [abs_def] enter_def crash_def [abs_def] harness_fields by (rule refl)+

lemma harness_parts:
  "load_process_context (with_harness cx h) i = load_process_context cx i"
  "resume_committed (with_harness cx h) env = resume_committed cx env"
  "seal_and_commit (with_harness cx h) env plan records = seal_and_commit cx env plan records"
  "obtain_records (with_harness cx h) env plan profile mode (Some earlier) = obtain_records cx env plan profile mode (Some earlier)"
  "make_result (with_harness cx h) env records sequences resumed = make_result cx env records sequences resumed"
  unfolding load_process_context_def resume_committed_def seal_and_commit_def obtain_records_def make_result_def
    live_batch_def assert_fence_def check_evidence_def harness_access harness_fields option.case by (rule refl)+

text \<open>A live batch whose attempt has any staging, complete or partial: nothing is executed and nothing is written.\<close>

lemma staged_not_executed:
  assumes "at_load_complete (cx_attempts cx) (ve_batch_id env) (execution_attempt_id (cx_lib cx) env) (ru_area s) \<noteq> Inr None"
    and "process_live cx env live profile mode peak s = (r, s')"
  shows "ru_area s' = ru_area s" "process_live (with_harness cx h) env live profile mode peak s = (r, s')"
proof -
  let ?load = "at_load_complete (cx_attempts cx) (ve_batch_id env) (execution_attempt_id (cx_lib cx) env)"
  let ?rest = "\<lambda>cx plan complete. bindP (obtain_records cx env plan profile mode complete) (\<lambda>records.
     bindP (seal_and_commit cx env plan records) (\<lambda>sequences.
       returnP (make_result cx env records sequences (complete \<noteq> None))))"
  let ?admit = "\<lambda>plan. read_store cx (\<lambda>clock st. bindE (process_finite clock) (\<lambda>now. admit_lease plan profile (cs_lease_expires_at live) now))"
  have rest: "frames (=) (?rest cx plan (Some x))" "?rest (with_harness cx h) plan (Some x) = ?rest cx plan (Some x)" for plan x
    by (intro area equal_rel earlier_area seal_area) (simp only: harness_parts)
  have admit: "ru_area s1 = ru_area s" if "?admit plan s = (x, s1)" for plan x s1
    using framesD [OF area_simps(3) [OF equal_rel(1)] that] by simp
  have after: "ru_area t' = ru_area t \<and> bindP (read_area ?load) (?rest (with_harness cx h) plan) t = (r, t')"
    if "bindP (read_area ?load) (?rest cx plan) t = (r, t')" "ru_area t = ru_area s" for plan t t'
  proof (cases "?load (ru_area s)")
    case (Inr complete)
    with assms(1) obtain x where "complete = Some x" by (cases complete) auto
    then show ?thesis using that Inr framesD [OF rest(1)] rest(2) by (auto simp: bindP_def read_area_def)
  qed (use that in \<open>simp add: bindP_def read_area_def\<close>)
  show "ru_area s' = ru_area s" "process_live (with_harness cx h) env live profile mode peak s = (r, s')"
    using assms(2) admit after unfolding process_live_def harness_access harness_fields
    by (auto simp: bindP_def [of "returnP _"] bindP_def [of "read_store _ _"] returnP_def split: sum.splits prod.splits)
qed

lemma not_executed:
  assumes "run_process_batch cx i profile mode peak s = (r, s')" "load_process_context cx i s = (Inr (env, live), s1)"
    and "at_load_complete (cx_attempts cx) (ve_batch_id env) (execution_attempt_id (cx_lib cx) env) (ru_area s) \<noteq> Inr None
      \<or> cs_status live \<noteq> B_LEASED \<and> cs_status live \<noteq> B_SEALED"
  shows "ru_area s' = ru_area s" "run_process_batch (with_harness cx h) i profile mode peak s = (r, s')"
proof -
  have s1: "ru_area s1 = ru_area s" using framesD [OF load_area assms(2)] by simp
  have resume: "ru_area t = ru_area s" if "resume_committed cx env s1 = (x, t)" for x t
    using framesD [OF resume_area that] s1 by simp
  have "ru_area s' = ru_area s \<and> run_process_batch (with_harness cx h) i profile mode peak s = (r, s')"
    using assms s1 staged_not_executed [of cx env s1] resume
    by (auto simp: run_process_batch_def bindP_def returnP_def harness_parts split: if_splits)
  then show "ru_area s' = ru_area s" "run_process_batch (with_harness cx h) i profile mode peak s = (r, s')" by blast+
qed

text \<open>The batch and the attempt that a run stages under.\<close>

definition own_attempt :: "'f process_context \<Rightarrow> verified_envelope \<Rightarrow> string \<times> string" where
  "own_attempt cx env = (ve_batch_id env, execution_attempt_id (cx_lib cx) env)"

context attempt_store
begin

definition same_but :: "string \<times> string \<Rightarrow> 'f \<Rightarrow> 'f \<Rightarrow> bool" where
  "same_but own f f' \<longleftrightarrow> (\<forall>b a. (b, a) \<noteq> own \<longrightarrow> at_load_complete ad b a f' = at_load_complete ad b a f)"

lemma same_but_rel: "reflp (same_but own)" "transp (same_but own)"
  by (auto simp: same_but_def reflp_def transp_def)

lemma stage_frame:
  assumes "cx_attempts cx = ad"
  shows "frames (same_but (own_attempt cx env)) (stage_records cx env plan records)"
proof -
  have "frames (same_but (own_attempt cx env)) (call_area (at_write_records (cx_attempts cx) (ve_batch_id env)
      (execution_attempt_id (cx_lib cx) env) records))"
    by (rule area_call) (auto simp: assms same_but_def own_attempt_def intro: write_frame)
  then show ?thesis unfolding stage_records_def Let_def by (intro area same_but_rel)
qed

lemma mark_frame:
  assumes "cx_attempts cx = ad"
  shows "frames (same_but (own_attempt cx env)) (mark_records cx env stored)"
proof -
  have "frames (same_but (own_attempt cx env)) (call_area (at_create_success (cx_attempts cx) (ve_batch_id env)
      (execution_attempt_id (cx_lib cx) env) marker))" for marker
    by (rule area_call) (auto simp: assms same_but_def own_attempt_def intro: success_frame)
  then show ?thesis unfolding mark_records_def by (intro area same_but_rel)
qed

lemma obtain_frame:
  assumes "cx_attempts cx = ad"
  shows "frames (same_but (own_attempt cx env)) (obtain_records cx env plan profile mode earlier)"
proof -
  have "frames (same_but (own_attempt cx env)) (execute_records cx env plan profile mode extension)" for extension
    unfolding frames_def
  proof (rule execute_runs)
    let ?P = "same_but (own_attempt cx env)"
    show "transp (\<lambda>s s'. ?P (ru_area s) (ru_area s'))" using same_but_rel(2) by (auto simp: transp_def)
    show "?P (ru_area t) (ru_area t')" if "beats cx env extension n failed t = (x, t')" for n failed t x t'
      using beats_area [OF that] reflpD [OF same_but_rel(1)] by simp
  qed (rule area_simps [OF same_but_rel(1), unfolded frames_def] stage_frame [OF assms, unfolded frames_def]
      mark_frame [OF assms, unfolded frames_def])+
  then show ?thesis unfolding obtain_records_def by (intro area same_but_rel)
qed

lemma live_frame:
  assumes "cx_attempts cx = ad"
  shows "frames (same_but (own_attempt cx env)) (process_live cx env live profile mode peak)"
proof -
  have "frames (same_but own) m" if "frames (=) m" for own and m :: "('f, 'x) process"
    using that reflpD [OF same_but_rel(1)] by (auto simp: frames_def runs_def)
  note seal = this [OF seal_area]
  show ?thesis unfolding process_live_def by (intro area same_but_rel obtain_frame assms seal)
qed

lemma run_keeps_staging:
  assumes "cx_attempts cx = ad" "run_process_batch cx i profile mode peak s = (r, s')"
    and "at_load_complete ad b a (ru_area s) \<noteq> Inr None"
  shows "at_load_complete ad b a (ru_area s') = at_load_complete ad b a (ru_area s)"
proof -
  have load: "ru_area s1 = ru_area s" if "load_process_context cx i s = (x, s1)" for x s1
    using framesD [OF load_area that] by simp
  have resume: "ru_area t' = ru_area t" if "resume_committed cx env t = (x, t')" for env t x t'
    using framesD [OF resume_area that] by simp
  have live: "at_load_complete ad b a (ru_area t') = at_load_complete ad b a (ru_area t)"
    if "process_live cx env live profile mode peak t = (x, t')" "ru_area t = ru_area s" for env live t x t'
  proof (cases "(b, a) = own_attempt cx env")
    case True
    then show ?thesis using staged_not_executed(1) [OF _ that(1)] that(2) assms(1,3) by (simp add: own_attempt_def)
  next
    case False
    then show ?thesis using framesD [OF live_frame [OF assms(1)] that(1)] by (simp add: same_but_def)
  qed
  show ?thesis using assms(2) load resume live
    by (auto simp: run_process_batch_def bindP_def [of "load_process_context _ _"] returnP_def split: sum.splits prod.splits if_splits)
qed

end

section \<open>What a returned run has done\<close>

lemma bindP_Inr: "bindP m f s = (Inr y, s') \<longleftrightarrow> (\<exists>x s1. m s = (Inr x, s1) \<and> f x s1 = (Inr y, s'))"
  by (auto simp: bindP_def split: prod.splits sum.splits)

lemma returnP_eq [simp]: "returnP r s = (x, s') \<longleftrightarrow> r = x \<and> s' = s"
  by (auto simp: returnP_def)

lemma crash_Inr: "crash cx point s = (Inr u, s') \<longleftrightarrow> cx_crash cx point = None \<and> s' = s"
  by (auto simp: crash_def split: option.splits)

lemma call_storeE:
  assumes "world_ok cx" "call_store cx op s = (r, s')"
  obtains st where "(control_step (cx_lib cx))\<^sup>*\<^sup>* (ru_store s) st"
    "op (cx_clock cx (ru_tick s)) st = (r, ru_store s')"
  using assms that [of "cx_world cx (ru_tick s) (ru_store s)"]
  by (auto simp: call_store_def enter_def Let_def world_ok_def split: prod.splits)

lemma commit_done:
  assumes "store_ok lib st" "commit_batch clock (PStr i) st = (Inr ns, st')"
  shows "\<exists>b. find_batch (st_db st') i = Some b \<and> b_status b = B_COMMITTED \<and> ns = batch_publications i (st_db st')"
proof -
  have ok: "db_ok lib (st_db st)" using assms(1) by (simp add: store_ok_def)
  obtain now d' where tx: "commit_tx i now (st_db st) = Inr (d', ns)" "st' = st\<lparr>st_db := d'\<rparr>"
    using assms(2) by (auto simp: commit_batch_def transaction_def required_text_def split: sum.splits if_splits)
  show ?thesis
    using tx(1)
  proof (cases rule: commit_tx_cases)
    case (1 b)
    with tx(2) show ?thesis by simp
  next
    case (2 b d1)
    have "map_option b_status (find_batch d' i) = Some B_COMMITTED"
      using commit_tx_result [OF ok 2(1,2) tx(1)] by blast
    with commit_tx_again [OF ok 2(1,2) tx(1), of now] show ?thesis
      unfolding tx(2) by (auto simp: commit_tx_def)
  qed
qed

lemma verified_batch: "verify_envelope lib d batch_id digest = Inr env \<Longrightarrow> ve_batch_id env = batch_id"
  by (cases "dget d ''items'' PNone") (auto simp: verify_envelope_def)

lemma load_batch:
  assumes "load_process_context cx batch_id s = (Inr (env, live), s1)"
  shows "ve_batch_id env = batch_id"
  using assms by (auto simp: load_process_context_def bindP_Inr verified_batch split: prod.splits)

lemma committed_run:
  assumes "world_ok cx" "store_ok (cx_lib cx) (ru_store s)"
    and "bindP (call_store cx (\<lambda>clock. commit_batch clock (PStr i))) f s = (Inr y, s')"
    and "\<And>ns s1. f ns s1 = (Inr y, s') \<Longrightarrow> s' = s1 \<and> g y = ns"
  shows "\<exists>b. find_batch (st_db (ru_store s')) i = Some b \<and> b_status b = B_COMMITTED
    \<and> g y = batch_publications i (st_db (ru_store s'))"
proof -
  obtain ns s1 where c: "call_store cx (\<lambda>clock. commit_batch clock (PStr i)) s = (Inr ns, s1)" "f ns s1 = (Inr y, s')"
    using assms(3) by (auto simp: bindP_Inr)
  from assms(1) c(1) obtain st where st: "(control_step (cx_lib cx))\<^sup>*\<^sup>* (ru_store s) st"
    "commit_batch (cx_clock cx (ru_tick s)) (PStr i) st = (Inr ns, ru_store s1)"
    by (rule call_storeE)
  have "store_ok (cx_lib cx) st" using control.star_inv [OF st(1) assms(2)] .
  from commit_done [OF this st(2)] show ?thesis using assms(4) [OF c(2)] by simp
qed

lemma result_sequences: "make_result cx env records sequences resumed = Inr res \<Longrightarrow> ps_publication_sequences res = sequences"
  by (auto simp: make_result_def)

lemma resume_commits:
  assumes "world_ok cx" "store_ok (cx_lib cx) (ru_store s)" "resume_committed cx env s = (Inr res, s')"
  shows "\<exists>b. find_batch (st_db (ru_store s')) (ve_batch_id env) = Some b \<and> b_status b = B_COMMITTED
    \<and> ps_publication_sequences res = batch_publications (ve_batch_id env) (st_db (ru_store s'))"
proof -
  obtain records marker where "bindP (call_store cx (\<lambda>clock. commit_batch clock (PStr (ve_batch_id env))))
      (\<lambda>sequences. returnP (make_result cx env records sequences True)) s = (Inr res, s')"
    using assms(3) by (auto simp: resume_committed_def bindP_Inr read_area_def split: option.splits prod.splits)
  then show ?thesis by (rule committed_run [OF assms(1,2)]) (auto dest: result_sequences)
qed

lemma seal_commits:
  assumes "world_ok cx" "store_ok (cx_lib cx) (ru_store s)" "seal_and_commit cx env plan records s = (Inr ns, s')"
  shows "\<exists>b. find_batch (st_db (ru_store s')) (ve_batch_id env) = Some b \<and> b_status b = B_COMMITTED
    \<and> ns = batch_publications (ve_batch_id env) (st_db (ru_store s'))"
proof -
  let ?op = "call_store cx (\<lambda>clock. commit_batch clock (PStr (ve_batch_id env)))"
  obtain outputs s1 s2 s3 where s1: "assert_fence cx env s = (Inr (), s1)"
    and s2: "call_store cx (\<lambda>clock. seal_batch clock (PStr (ve_batch_id env)) (PList outputs)
        (PStr (ve_envelope_sha256 env)) (PStr (ve_membership_sha256 env))) s1 = (Inr (), s2)"
    and s3: "assert_fence cx env s2 = (Inr (), s3)"
    and c: "bindP ?op (\<lambda>sequences. bindP (crash cx ''after_pointer'') (\<lambda>_. returnP (Inr sequences))) s3 = (Inr ns, s')"
    using assms(3) by (auto simp: seal_and_commit_def bindP_Inr crash_Inr)
  have "(control_step (cx_lib cx))\<^sup>*\<^sup>* (ru_store s) (ru_store s3)"
    using only_stepsD [OF steps_control(4) [OF assms(1)] s1] only_stepsD [OF steps_control(2) [OF assms(1)] s2]
      only_stepsD [OF steps_control(4) [OF assms(1)] s3] by (meson rtranclp_trans)
  from control.star_inv [OF this assms(2)] have "store_ok (cx_lib cx) (ru_store s3)" .
  from committed_run [OF assms(1) this c, of id] show ?thesis by (auto simp: bindP_Inr crash_Inr)
qed

lemma live_commits:
  assumes "world_ok cx" "store_ok (cx_lib cx) (ru_store s)" "process_live cx env live profile mode peak s = (Inr res, s')"
  shows "\<exists>b. find_batch (st_db (ru_store s')) (ve_batch_id env) = Some b \<and> b_status b = B_COMMITTED
    \<and> ps_publication_sequences res = batch_publications (ve_batch_id env) (st_db (ru_store s'))"
proof -
  obtain plan earlier records ns s1 s2 x where p:
    "read_store cx (\<lambda>clock st. bindE (process_finite clock) (\<lambda>now. admit_lease plan profile (cs_lease_expires_at live) now)) s = (Inr x, s1)"
    "obtain_records cx env plan profile mode earlier s1 = (Inr records, s2)"
    "seal_and_commit cx env plan records s2 = (Inr ns, s')" "make_result cx env records ns (earlier \<noteq> None) = Inr res"
    using assms(3) by (auto simp: process_live_def bindP_Inr read_area_def)
  have "(control_step (cx_lib cx))\<^sup>*\<^sup>* (ru_store s) (ru_store s2)"
    using only_stepsD [OF steps_read [OF assms(1)] p(1)] only_stepsD [OF obtain_steps [OF assms(1)] p(2)] by (rule rtranclp_trans)
  from control.star_inv [OF this assms(2)] have "store_ok (cx_lib cx) (ru_store s2)" .
  from seal_commits [OF assms(1) this p(3)] result_sequences [OF p(4)] show ?thesis by simp
qed

lemma run_commits:
  assumes "world_ok cx" "store_ok (cx_lib cx) (ru_store s)" "run_process_batch cx i profile mode peak s = (Inr res, s')"
  shows "\<exists>b. find_batch (st_db (ru_store s')) i = Some b \<and> b_status b = B_COMMITTED
    \<and> ps_publication_sequences res = batch_publications i (st_db (ru_store s'))"
proof -
  obtain env live s1 where l: "load_process_context cx i s = (Inr (env, live), s1)"
    and run: "resume_committed cx env s1 = (Inr res, s') \<or> process_live cx env live profile mode peak s1 = (Inr res, s')"
    using assms(3) by (auto simp: run_process_batch_def bindP_Inr split: if_splits)
  have i: "ve_batch_id env = i" by (rule load_batch [OF l])
  have ok: "store_ok (cx_lib cx) (ru_store s1)"
    by (rule control.star_inv [OF only_stepsD [OF load_steps [OF assms(1)] l] assms(2)])
  show ?thesis using run resume_commits [OF assms(1) ok] live_commits [OF assms(1) ok] i by metis
qed

section \<open>What is published\<close>

text \<open>The attempt row of an item after the commit: its output is the staging path and the digest of the
  item's records, and if it succeeded that output is published.\<close>

definition item_published :: "pylib \<Rightarrow> string \<Rightarrow> (string \<times> staged list) list \<Rightarrow> db \<Rightarrow> string \<Rightarrow> envelope_item \<Rightarrow> bool" where
  "item_published lib path grouped d i item \<longleftrightarrow> (\<exists>records digest a. map_of grouped (ei_work_id item) = Some records
     \<and> process_sha256 lib (records_value records) = Inr digest \<and> a \<in> set (db_attempts d)
     \<and> a_attempt_id a = ei_attempt_id item \<and> a_work_id a = ei_work_id item \<and> a_batch_id a = i
     \<and> a_output_path a = Some path \<and> a_output_sha256 a = Some digest
     \<and> a_terminal_succeeded a = Some (\<exists>r \<in> set records. dget r ''record_type'' PNone = PStr ''video_result'')
     \<and> a_status a \<in> {A_SUCCEEDED, A_FAILED}
     \<and> (a_status a = A_SUCCEEDED \<longrightarrow> (\<exists>p \<in> set (db_publications d). p_attempt_id p = ei_attempt_id item
          \<and> p_work_id p = ei_work_id item \<and> p_output_path p = path \<and> p_output_sha256 p = digest)))"

lemma first_terminal:
  assumes "first_terminal rs = Inr final" "length (filter terminal_record rs) = 1" "item_get final ''record_type'' = Inr t"
  shows "t = PStr ''video_result'' \<longleftrightarrow> (\<exists>r \<in> set rs. dget r ''record_type'' PNone = PStr ''video_result'')"
proof -
  have final: "final \<in> set rs \<and> terminal_record final"
    using assms(1) by (induction rs) (auto simp: item_get_def terminal_record_def dget_def split: if_splits option.splits)
  have t: "t = dget final ''record_type'' PNone" using assms(3) by (auto simp: item_get_def dget_def split: option.splits)
  obtain r0 where "r0 \<in> set rs" and only: "\<forall>y \<in> set rs. terminal_record y \<longrightarrow> y = r0"
    using filter_one [OF assms(2)] by blast
  have "r = final" if "r \<in> set rs" "dget r ''record_type'' PNone = PStr ''video_result''" for r
    using only final that by (auto simp: terminal_record_def TERMINAL_TYPES_def)
  then show ?thesis using t final by auto
qed

lemma seal_publishes:
  assumes "world_ok cx" "store_ok (cx_lib cx) (ru_store s)" "seal_and_commit cx env plan records s = (Inr ns, s')"
    and "distinct (map ei_work_id (ve_items env))"
  obtains path grouped where "at_path (cx_attempts cx) (ve_batch_id env) (execution_attempt_id (cx_lib cx) env) = Inr path"
    "validate_staged_records (cx_lib cx) (cx_package_version cx) records env plan = Inr grouped"
    "list_all (item_published (cx_lib cx) path grouped (st_db (ru_store s')) (ve_batch_id env)) (ve_items env)"
proof -
  let ?i = "ve_batch_id env" and ?lib = "cx_lib cx"
  let ?seal = "\<lambda>outputs clock. seal_batch clock (PStr ?i) (PList outputs) (PStr (ve_envelope_sha256 env)) (PStr (ve_membership_sha256 env))"
  obtain path grouped outputs s1 s2 s3 where s1: "assert_fence cx env s = (Inr (), s1)"
    and v: "validate_staged_records ?lib (cx_package_version cx) records env plan = Inr grouped"
      "at_path (cx_attempts cx) ?i (execution_attempt_id ?lib env) = Inr path"
      "mapE (output_of ?lib path grouped) (ve_items env) = Inr outputs"
    and s2: "call_store cx (?seal outputs) s1 = (Inr (), s2)"
    and rest: "bindP (assert_fence cx env) (\<lambda>_. bindP (call_store cx (\<lambda>clock. commit_batch clock (PStr ?i))) (\<lambda>sequences.
        bindP (crash cx ''after_pointer'') (\<lambda>_. returnP (Inr sequences)))) s2 = (Inr ns, s')"
    using assms(3) by (auto simp: seal_and_commit_def bindP_Inr crash_Inr)
  obtain b where b: "find_batch (st_db (ru_store s')) ?i = Some b" "b_status b = B_COMMITTED"
    using seal_commits [OF assms(1-3)] by blast
  from assms(1) s2 obtain st where st: "(control_step ?lib)\<^sup>*\<^sup>* (ru_store s1) st"
    "?seal outputs (cx_clock cx (ru_tick s1)) st = (Inr (), ru_store s2)" by (rule call_storeE)
  have ok: "store_ok ?lib st"
    using control.star_inv [OF rtranclp_trans [OF only_stepsD [OF steps_control(4) [OF assms(1)] s1] st(1)] assms(2)] .
  have "only_steps cx (bindP (assert_fence cx env) (\<lambda>_. bindP (call_store cx (\<lambda>clock. commit_batch clock (PStr ?i))) (\<lambda>sequences.
        bindP (crash cx ''after_pointer'') (\<lambda>_. returnP (Inr sequences)))))" by (intro steps assms(1))
  note run = only_stepsD [OF this rest]
  obtain items where items: "normalize_outputs [] outputs = Inr items" using seal_normalizes [OF st(2)] by blast
  have cols: "list_all2 output_columns outputs items" by (rule normalize_outputs_columns [OF items])
  have outs: "list_all2 (\<lambda>i out. output_of ?lib path grouped i = Inr out) (ve_items env) outputs" using v(3) by (simp add: mapE_Inr_iff)
  have "item_published ?lib path grouped (st_db (ru_store s')) ?i item" if item: "item \<in> set (ve_items env)" for item
  proof -
    obtain k where k: "k < length (ve_items env)" "ve_items env ! k = item" using item by (auto simp: in_set_conv_nth)
    have len: "length outputs = length (ve_items env)" "length items = length (ve_items env)"
      using list_all2_lengthD [OF outs] list_all2_lengthD [OF cols] by simp_all
    have out: "output_of ?lib path grouped item = Inr (outputs ! k)" "output_columns (outputs ! k) (items ! k)" "items ! k \<in> set items"
      using list_all2_nthD [OF outs k(1)] list_all2_nthD [OF cols, of k] k len by simp_all
    obtain rs where rs: "map_of grouped (ei_work_id item) = Some rs" "length (filter terminal_record rs) = 1"
      using grouped_item [OF v(1) assms(4) item] by metis
    obtain final t digest docs where o: "first_terminal rs = Inr final" "item_get final ''record_type'' = Inr t"
      "process_sha256 ?lib (records_value rs) = Inr digest"
      "outputs ! k = PDict [(''work_id'', PStr (ei_work_id item)), (''attempt_id'', PStr (ei_attempt_id item)),
           (''succeeded'', PBool (t = PStr ''video_result'')), (''output_path'', PStr path),
           (''output_sha256'', PStr digest), (''records'', PList docs)]"
      using out(1) rs(1) that by (auto simp: output_of_def eq_commute [of _ "outputs ! k"])
    have x: "oi_work_id (items ! k) = ei_work_id item" "oi_attempt_id (items ! k) = ei_attempt_id item"
      "oi_output_path (items ! k) = path" "oi_output_sha256 (items ! k) = digest" "oi_succeeded (items ! k) = (t = PStr ''video_result'')"
      using out(2) unfolding o(4) by (auto simp: output_columns_def dget_def)
    show ?thesis
      using sealed_then_committed [OF ok st(2) run b items out(3)] rs(1) o(3) first_terminal [OF o(1) rs(2) o(2)]
      unfolding item_published_def sealed_output_def x by auto
  qed
  then show thesis using that [OF v(2,1)] by (simp add: list_all_iff)
qed

end
