(* ===== verification/Process_Envelope_Correct.thy ===== *)
theory Process_Envelope_Correct
  imports Process_Envelope_Spec Control_Demo
begin

text \<open>
  The envelope interface between the control store and the process: what a claim writes is what the
  process verifies.
\<close>

section \<open>Every row of a reachable store is valid\<close>

text \<open>What the reader is trusted with for a stored payload: a canonical text of an object reads back as an object with
  distinct keys and the same text.\<close>

definition canonical_reads_back :: "pylib \<Rightarrow> string \<Rightarrow> bool" where
  "canonical_reads_back lib t \<longleftrightarrow> (\<forall>p. finite_json (PDict p) \<and> t = dumps lib (PDict p) \<longrightarrow>
     (\<exists>d. json_loads lib t = Some (PDict d) \<and> distinct (map fst d) \<and> finite_json (PDict d) \<and> dumps lib (PDict d) = t))"

lemma row_work_valid:
  assumes "row_registered lib w" "0 \<le> w_fence w" "digest_ok (sha256_hex lib (w_payload_json w))" "canonical_reads_back lib (w_payload_json w)"
  shows "work_valid lib w"
proof -
  obtain p where "finite_json (PDict p)" "w_payload_json w = dumps lib (PDict p)" using assms(1) unfolding row_registered_def by blast
  then obtain d where "json_loads lib (w_payload_json w) = Some (PDict d)" "distinct (map fst d)" "finite_json (PDict d)"
      "dumps lib (PDict d) = w_payload_json w"
    using assms(4) unfolding canonical_reads_back_def by blast
  then show ?thesis using assms(1-3) unfolding work_valid_def row_registered_def text_ok_def by auto
qed

lemma registered_work_valid:
  assumes "reachable control_init (control_step lib) s"
  shows "store_ok lib s"
    and "(\<And>t. digest_ok (sha256_hex lib t)) \<Longrightarrow> \<forall>w \<in> set (db_work (st_db s)). canonical_reads_back lib (w_payload_json w) \<Longrightarrow>
      \<forall>w \<in> set (db_work (st_db s)). work_valid lib w"
proof -
  have inv: "store_ok lib s \<and> rows_registered lib (st_db s)" using registered.reach_inv [OF assms] .
  then show "store_ok lib s" ..
  have "0 \<le> w_fence w" if "w \<in> set (db_work (st_db s))" for w
    using inv that by (auto simp: store_ok_def db_ok_def dest: core_okD(2) simp: work_ok_def)
  then show "\<forall>w \<in> set (db_work (st_db s)). work_valid lib w"
    if "\<And>t. digest_ok (sha256_hex lib t)" "\<forall>w \<in> set (db_work (st_db s)). canonical_reads_back lib (w_payload_json w)"
    using inv that row_work_valid unfolding rows_registered_def by blast
qed

section \<open>The document of the demonstration claim\<close>

definition demo_envelope :: pyval where
  "demo_envelope = claim_envelope demo_settings demo_plan ''batch-1'' 110 710 digest_b demo_docs"

text \<open>A reader that reads the envelope back, and \<open>rd\<close> beyond it.\<close>

definition demo_reader :: "(string \<Rightarrow> pyval option) \<Rightarrow> pylib" where
  "demo_reader rd = demo_lib_of (\<lambda>t. if t = demo_text then Some (json_normal demo_envelope) else rd t)"

lemma demo_reader_dumps: "dumps (demo_reader rd) v = dumps demo_lib v"
  unfolding demo_reader_def by (rule demo_dumps)

lemma demo_reader_sha: "digest_ok (sha256_hex (demo_reader rd) t)"
  by (simp add: demo_reader_def demo_lib_of_def digest_ok_def is_hex_def list_all_iff)

lemma demo_reads_back: "reads_back (demo_reader rd) (st_files demo_ready) demo_envelope"
proof -
  have dump: "dumps (demo_reader rd) demo_envelope = demo_text"
    unfolding demo_reader_dumps demo_text_def demo_envelope_def by simp
  obtain t where t: "demo_text = CHR 0x7B # CHR 0x22 # CHR ''a'' # t" using demo_text_start by blast
  have "demo_text \<noteq> demo_payload_json" unfolding t by (simp add: demo_payload_json_def)
  then show ?thesis unfolding reads_back_def dump demo_fields
    by (simp add: demo_reader_def demo_lib_of_def)
qed

lemma demo_rows_read: "\<forall>w \<in> set (db_work (st_db demo_ready)). canonical_reads_back (demo_reader rd) (w_payload_json w)"
proof -
  have "db_work (st_db demo_ready) = [demo_work]" by (simp add: demo_ready_def)
  moreover have "w_payload_json demo_work = demo_payload_json" by (simp add: demo_work_def new_work_def)
  moreover have "json_loads (demo_reader rd) demo_payload_json = Some (PDict demo_payload)"
    "dumps (demo_reader rd) (PDict demo_payload) = demo_payload_json"
    by (simp_all add: demo_reader_def demo_lib_of_def demo_payload_def demo_payload_json_def json_str_def esc_char_def)
  moreover have "finite_json (PDict demo_payload)" "distinct (map fst demo_payload)" by code_simp+
  ultimately show ?thesis unfolding canonical_reads_back_def by (metis empty_iff list.set(1) set_ConsD)
qed

lemma demo_rows_supported:
  "\<forall>c \<in> set (cb_items demo_result). \<forall>w \<in> set (db_work (st_db demo_ready)). w_work_id w = c_work_id c \<longrightarrow>
    batch_size_supported (demo_reader rd) w"
proof -
  have "valid_batch_size (dget demo_payload ''batch_size'' (PInt 1))" by code_simp
  then show ?thesis
    by (simp add: demo_ready_def batch_size_supported_def demo_reader_def demo_lib_of_def demo_work_def new_work_def)
qed

lemma demo_document: "claim_document (demo_reader rd) (PInt 110) demo_ids demo_claim_args demo_ready = Some demo_envelope"
  by (simp add: claim_document_def demo_validate demo_clock demo_fields demo_select demo_items [simplified]
      demo_envelope_items demo_membership demo_expires demo_envelope_def demo_reader_def demo_ids_def)

lemma demo_reader_claim:
  "claim (demo_reader rd) (PInt 110) demo_ids demo_claim_args demo_ready = (Inr (Some demo_result), demo_claimed)"
  unfolding demo_reader_def by (rule demo_claim)

lemma demo_ready_reachable: "reachable control_init (control_step (demo_reader rd)) demo_ready"
  unfolding demo_reader_def by (meson demo_control_init demo_register control_step.intros reachable.intros)

section \<open>The property\<close>

text \<open>C23: claim, envelope file and process agree on a reachable store: after a claim the process loads the document under
  the recorded digest; when the payload of every claimed row asks for a supported detector batch size, its verification
  succeeds, and the verified envelope has the claimed items with their attempts, fences and payload hashes, the runtime
  affinity, lease and membership digest of the claim; when one does not, which registration never checks, the process
  rejects the whole envelope.  The library is trusted with this: the claim's document and every stored payload, if it is
  a canonical text, read back as the same value, digests are 64 hexadecimal digits, and the document collides with no
  stored object.\<close>

theorem claimed_envelope_verifies:
  assumes "reachable control_init (control_step lib) s" and "claim lib clock ids ca s = (Inr (Some cb), s')"
    and "claim_document lib clock ids ca s = Some doc" "reads_back lib (st_files s) doc"
    and "\<And>t. digest_ok (sha256_hex lib t)"
    and "\<forall>w \<in> set (db_work (st_db s)). canonical_reads_back lib (w_payload_json w)"
  shows "\<exists>d. load_claim_envelope_with_digest lib (PStr (cb_batch_id cb)) s' = Inr (d, cb_envelope_sha256 cb)
    \<and> (if \<forall>c \<in> set (cb_items cb). \<forall>w \<in> set (db_work (st_db s)). w_work_id w = c_work_id c \<longrightarrow> batch_size_supported lib w
      then \<exists>v. verify_envelope lib d (cb_batch_id cb) (cb_envelope_sha256 cb) = Inr v
        \<and> ve_batch_id v = cb_batch_id cb \<and> map item_claim (ve_items v) = cb_items cb
        \<and> ve_runtime_key v = cb_runtime_key cb \<and> ve_lease_expires_at v = cb_lease_expires_at cb
        \<and> ve_membership_sha256 v = membership_sha256 lib (cb_items cb) \<and> ve_envelope_sha256 v = cb_envelope_sha256 cb
      else verify_envelope lib d (cb_batch_id cb) (cb_envelope_sha256 cb) = Inl ProcessValidationError)"
  by (rule claim_verifies [OF registered_work_valid(1) [OF assms(1)] assms(2-5) registered_work_valid(2) [OF assms(1,5,6)]]) blast

theorem claimed_envelope_verifies_witness:
  "\<exists>d v. load_claim_envelope_with_digest (demo_reader (\<lambda>_. None)) (PStr ''batch-1'') demo_claimed = Inr (d, digest_b)
    \<and> verify_envelope (demo_reader (\<lambda>_. None)) d ''batch-1'' digest_b = Inr v \<and> map item_claim (ve_items v) = [demo_item]"
  using claimed_envelope_verifies [OF demo_ready_reachable demo_reader_claim demo_document demo_reads_back demo_reader_sha demo_rows_read]
  unfolding if_P [OF demo_rows_supported] by (fastforce simp: demo_result_def)

end
