(* ===== verification/Process_Demo.thy ===== *)
theory Process_Demo
  imports Process_Run_Spec Process_Envelope_Correct
begin

text \<open>
  One process batch run from the claim of the control demonstration to its commit: the harness returns
  one record, which is staged by the local adapter, sealed and published.
\<close>

section \<open>Envelope and plan\<close>

definition demo_ei :: envelope_item where
  "demo_ei = \<lparr>ei_ordinal = 0, ei_work_id = ''w1'', ei_attempt_id = ''attempt-1'', ei_fence = 1,
     ei_payload_sha256 = digest_a, ei_payload = demo_payload, ei_config_sha256 = ''cfg'', ei_release_digest = digest_a,
     ei_duration_seconds = 60, ei_runtime_key = ''rt''\<rparr>"

definition demo_verified :: verified_envelope where
  "demo_verified = \<lparr>ve_batch_id = ''batch-1'', ve_owner = ''o'', ve_runtime_key = ''rt'', ve_claimed_at = 110,
     ve_lease_expires_at = 710, ve_membership_sha256 = digest_b, ve_envelope_sha256 = digest_b, ve_items = [demo_ei]\<rparr>"

definition demo_document :: "(string \<times> pyval) list" where
  "demo_document = envelope_entries demo_settings demo_plan ''batch-1'' 110 710 digest_b demo_docs"

lemma demo_loaded: "load_claim_envelope_with_digest (demo_reader rd) (PStr ''batch-1'') demo_claimed = Inr (demo_document, digest_b)"
proof -
  have "load_claim_envelope_with_digest (demo_reader rd) (PStr ''batch-1'') (demo_ready\<lparr>st_files := [(demo_path, demo_text)],
      st_db := demo_claimed_db\<rparr>) = Inr (demo_document, so_sha256 demo_object)"
    unfolding demo_document_def
  proof (rule load_claimed)
    show "put_json (demo_reader rd) (st_base demo_ready) demo_envelope (st_files demo_ready) = Inr (demo_object, [(demo_path, demo_text)])"
      unfolding put_json_def demo_reader_dumps demo_fields
      using demo_put [of "\<lambda>t. if t = demo_text then Some (json_normal demo_envelope) else rd t"]
      by (simp only: demo_reader_def demo_text_def demo_envelope_def)
    show "reads_back (demo_reader rd) (st_files demo_ready) demo_envelope" by (rule demo_reads_back)
    show "text_ok ''batch-1''" by code_simp
    show "claim_apply (demo_reader rd) demo_settings demo_plan ''batch-1'' 710 110 [demo_item] demo_object (st_db demo_ready) = Inr demo_claimed_db"
      unfolding demo_reader_def by (rule demo_apply)
  qed (simp add: demo_envelope_def)
  then show ?thesis by (simp add: demo_claimed_def demo_fields)
qed

lemma demo_verifies: "verify_envelope (demo_lib_of rd) demo_document ''batch-1'' digest_b = Inr demo_verified"
  by code_simp

definition demo_xp :: execution_plan where
  "demo_xp = \<lparr>xp_concurrency = \<lparr>cd_concurrency = 1, cd_item_limit = 1, cd_profile_limit = 2, cd_cpu_limit = 2,
       cd_memory_limit = None, cd_peak_rss_bytes = None, cd_duration_only_fallback = True\<rparr>,
     xp_buckets = [\<lparr>bp_bucket_id = 0, bp_runtime_key = ''rt'', bp_physical_partition = 0, bp_total_cost_seconds = 60,
       bp_items = [\<lparr>pi_item = demo_ei, pi_bucket_id = 0, pi_physical_partition = 0, pi_wave_index = 0, pi_planned_cost_seconds = 60\<rparr>]\<rparr>],
     xp_waves = [\<lparr>wp_index = 0, wp_projected_cost_seconds = 60,
       wp_items = [\<lparr>pi_item = demo_ei, pi_bucket_id = 0, pi_physical_partition = 0, pi_wave_index = 0, pi_planned_cost_seconds = 60\<rparr>]\<rparr>],
     xp_projected_makespan_seconds = 60\<rparr>"

lemma demo_planned: "plan_duration_lpt [demo_ei] LOCAL_TWO_WORKERS None None = Inr demo_xp"
  by code_simp

section \<open>The record\<close>

definition demo_attempt :: string where
  "demo_attempt = ''process-'' @ replicate 24 (CHR ''b'')"

definition demo_record :: staged where
  "demo_record = [
    (''attempt_id'', PStr ''attempt-1''), (''batch_id'', PStr ''batch-1''), (''bucket_id'', PInt 0),
     (''config_sha256'', PStr ''cfg''), (''cpu_threads'', PInt 1), (''detector_batch_size'', PInt 1),
     (''duration_only_fallback'', PBool True), (''duration_seconds'', PFloat 60),
     (''emitted_at_utc'', PStr ''t''), (''envelope_sha256'', PStr digest_b), (''error_message'', PNone),
     (''error_type'', PNone), (''executor_host'', PStr ''h''), (''executor_identity'', PStr ''e@h''),
     (''fence'', PInt 1), (''input_payload_sha256'', PStr digest_a), (''manifest_sha256'', PStr digest_b),
     (''membership_sha256'', PStr digest_b), (''model_identity'', PStr digest_b),
     (''package_version'', PStr ''1.0''), (''partition_id'', PInt 0),
     (''payload_json'', PStr demo_payload_json), (''peak_rss_bytes'', PNone),
     (''physical_partition'', PInt 0), (''physical_partition_id'', PInt 0),
     (''planned_concurrency'', PInt 1), (''planned_cost_seconds'', PFloat 60),
     (''process_attempt_id'', PStr demo_attempt), (''processed_frames'', PInt 9),
     (''processing_seconds'', PFloat 1), (''record_payload_sha256'', PStr digest_a),
     (''record_sequence'', PInt 0), (''record_type'', PStr ''video_result''),
     (''release_digest'', PStr digest_a), (''retryable'', PNone), (''runtime_cache_hits'', PInt 0),
     (''runtime_key'', PStr ''rt''), (''runtime_loads'', PInt 1), (''source_video'', PStr ''v''),
     (''stage_id'', PInt 0), (''status'', PStr ''SUCCEEDED''), (''task_attempt_id'', PInt 0),
     (''task_attempt_number'', PInt 0), (''wave_index'', PInt 0), (''work_id'', PStr ''w1'')]"

lemma demo_attempt_id: "execution_attempt_id (demo_lib_of rd) demo_verified = demo_attempt"
  by code_simp

lemma demo_schema: "validate_staged_record_schema (demo_lib_of rd) demo_record = Inr (''video_result'', 0, demo_payload)"
  by code_simp

lemma demo_accepted:
  "list_ex (\<lambda>(name, value). \<not> py_eq (dget demo_record name PNone) value)
     (staged_checks (demo_lib_of rd) ''1.0'' demo_verified demo_xp demo_ei (hd (bp_items (hd (xp_buckets demo_xp)))) digest_b) = False"
  by code_simp

lemma demo_columns: "map_of demo_record ''work_id'' = Some (PStr ''w1'')" "map_of demo_record ''attempt_id'' = Some (PStr ''attempt-1'')"
  "map_of demo_record ''record_type'' = Some (PStr ''video_result'')" "map_of demo_record ''record_sequence'' = Some (PInt 0)"
  "map_of demo_record ''status'' = Some (PStr ''SUCCEEDED'')" "map_of demo_record ''record_payload_sha256'' = Some (PStr digest_a)"
  "map_of demo_record ''executor_identity'' = Some (PStr ''e@h'')" "map_of demo_record ''partition_id'' = Some (PInt 0)"
  "map_of demo_record ''task_attempt_id'' = Some (PInt 0)"
proof -
  have "map (map_of demo_record) [''work_id'', ''attempt_id'', ''record_type'', ''record_sequence'', ''status'', ''record_payload_sha256'',
      ''executor_identity'', ''partition_id'', ''task_attempt_id''] =
    [Some (PStr ''w1''), Some (PStr ''attempt-1''), Some (PStr ''video_result''), Some (PInt 0), Some (PStr ''SUCCEEDED''),
      Some (PStr digest_a), Some (PStr ''e@h''), Some (PInt 0), Some (PInt 0)]" by code_simp
  then show "map_of demo_record ''work_id'' = Some (PStr ''w1'')" "map_of demo_record ''attempt_id'' = Some (PStr ''attempt-1'')"
    "map_of demo_record ''record_type'' = Some (PStr ''video_result'')" "map_of demo_record ''record_sequence'' = Some (PInt 0)"
    "map_of demo_record ''status'' = Some (PStr ''SUCCEEDED'')" "map_of demo_record ''record_payload_sha256'' = Some (PStr digest_a)"
    "map_of demo_record ''executor_identity'' = Some (PStr ''e@h'')" "map_of demo_record ''partition_id'' = Some (PInt 0)"
    "map_of demo_record ''task_attempt_id'' = Some (PInt 0)" by (simp_all only: list.map list.inject)
qed

lemma demo_record_shape: "record_shape demo_record" "normal_record demo_record = demo_record"
proof -
  have "distinct (map fst demo_record)" by (simp add: demo_record_def)
  then show "record_shape demo_record" using demo_columns unfolding record_shape_def by blast
  have "map (map_prod id json_normal) demo_record = demo_record" by (simp add: demo_record_def)
  moreover have "sorted (map fst demo_record)" unfolding demo_record_def by code_simp
  ultimately show "normal_record demo_record = demo_record" unfolding normal_record_def by (simp add: sort_key_id_if_sorted)
qed

lemma demo_valid:
  "validate_staged_records (demo_lib_of rd) ''1.0'' [demo_record] demo_verified demo_xp = Inr [(''w1'', [demo_record])]"
proof -
  have t: "process_text (PStr ''w1'') = Inr ''w1''" "process_text (PStr ''attempt-1'') = Inr ''attempt-1''"
    "model_identity (demo_lib_of rd) (ei_payload demo_ei) = Inr digest_b"
    "process_sha256 (demo_lib_of rd) (PDict demo_payload) = Inr digest_a" by code_simp+
  have e: "map_of (expected_items demo_verified) (''w1'', ''attempt-1'') = Some demo_ei"
    "map_of (planned_items demo_xp) (''w1'', ''attempt-1'') = Some (hd (bp_items (hd (xp_buckets demo_xp))))"
    by (simp_all add: expected_items_def planned_items_def demo_verified_def demo_xp_def item_identity_def demo_ei_def)
  have "validate_staged_record (demo_lib_of rd) ''1.0'' demo_verified demo_xp [] demo_record =
      Inr ((''w1'', ''attempt-1''), ''video_result'', 0)"
    using t e demo_schema [of rd] demo_accepted [of rd]
    by (simp add: validate_staged_record_def demo_columns dget_map_of)
  then show ?thesis
    by (simp add: validate_staged_records_def demo_verified_def item_identity_def demo_ei_def TERMINAL_TYPES_def)
qed

section \<open>The context\<close>

text \<open>The library reads the envelope, the records and the marker that the run writes.\<close>

definition demo_marker :: staged where
  "demo_marker = [(''schema_version'', PInt 1), (''batch_id'', PStr ''batch-1''), (''process_attempt_id'', PStr demo_attempt),
     (''envelope_sha256'', PStr digest_b), (''membership_sha256'', PStr digest_b), (''record_count'', PInt 1),
     (''records_sha256'', PStr digest_b), (''failed_work_ids'', PList [])]"

definition demo_run_lib :: pylib where
  "demo_run_lib = demo_reader (\<lambda>t. if t = dumps demo_lib (records_value [demo_record]) then Some (PList [PDict demo_record])
     else if t = dumps demo_lib (PDict demo_marker) then Some (PDict (normal_record demo_marker)) else None)"

definition demo_cx :: "staging_area process_context" where
  "demo_cx = \<lparr>cx_lib = demo_run_lib, cx_package_version = ''1.0'', cx_release_version = ''1.0'', cx_clock = (\<lambda>_. PInt 200),
     cx_world = (\<lambda>_ st. st), cx_beats = (0, 0, 0), cx_harness = (\<lambda>_ _ _ _. Inr [demo_record]),
     cx_attempts = local_adapter demo_run_lib ''/s'', cx_crash = (\<lambda>_. None), cx_evidence = None\<rparr>"

lemma demo_run_lib: obtains rd where "demo_run_lib = demo_lib_of rd"
  by (simp add: demo_run_lib_def demo_reader_def)

lemma demo_world: "world_ok demo_cx"
  by (simp add: world_ok_def demo_cx_def)

lemma record_text_start: "\<exists>t. dumps demo_lib (records_value rs) = CHR ''['' # t"
  by (simp add: records_value_def)

lemma marker_text_start: "\<exists>t. dumps demo_lib (PDict demo_marker) = CHR 0x7B # CHR 0x22 # CHR ''b'' # t"
  by (simp add: demo_marker_def json_str_def esc_char_def)

lemma demo_loads: "json_loads (demo_lib_of rd) t = (if t = demo_payload_json then Some (PDict demo_payload) else rd t)"
  by (simp add: demo_lib_of_def)

lemma demo_run_dumps: "dumps demo_run_lib v = dumps demo_lib v"
  unfolding demo_run_lib_def by (rule demo_reader_dumps)

lemma demo_storable: "storable demo_run_lib [demo_record]" "stored_records demo_run_lib [demo_record] = [demo_record]"
  "markable demo_run_lib demo_marker"
proof -
  obtain t u v where t: "dumps demo_lib (records_value [demo_record]) = CHR ''['' # t"
    "dumps demo_lib (PDict demo_marker) = CHR 0x7B # CHR 0x22 # CHR ''b'' # u" "demo_text = CHR 0x7B # CHR 0x22 # CHR ''a'' # v"
    using record_text_start marker_text_start demo_text_start by blast
  note d = demo_run_dumps
  obtain w where p: "demo_payload_json = CHR 0x7B # CHR 0x22 # CHR ''s'' # w" by (simp add: demo_payload_json_def)
  have loads: "json_loads demo_run_lib (dumps demo_lib (records_value [demo_record])) = Some (PList [PDict demo_record])"
    "json_loads demo_run_lib (dumps demo_lib (PDict demo_marker)) = Some (PDict (normal_record demo_marker))"
    unfolding demo_run_lib_def demo_reader_def demo_loads t p by simp_all
  show s: "stored_records demo_run_lib [demo_record] = [demo_record]"
    by (simp add: stored_records_def ordered_records_def demo_record_shape)
  have "finite_json (records_value [demo_record])" by (simp add: records_value_def demo_record_def)
  then show "storable demo_run_lib [demo_record]"
    unfolding storable_def d s using loads(1) demo_record_shape(1) by (simp add: ordered_records_def)
  have "finite_json (PDict demo_marker)" by (simp add: demo_marker_def)
  then show "markable demo_run_lib demo_marker" unfolding markable_def d using loads(2) by simp
qed

section \<open>The accesses to the store\<close>

definition demo_beaten_work :: work_row where
  "demo_beaten_work = (lease_work ''o'' 710 110 demo_item demo_work)\<lparr>w_updated_at := 200\<rparr>"

definition demo_beaten_db :: db where
  "demo_beaten_db = demo_claimed_db\<lparr>db_work := [demo_beaten_work]\<rparr>"

definition demo_staging_path :: string where
  "demo_staging_path = ''/s/batch=batch-1/attempt='' @ demo_attempt"

definition demo_run_output :: pyval where
  "demo_run_output = PDict [(''work_id'', PStr ''w1''), (''attempt_id'', PStr ''attempt-1''), (''succeeded'', PBool True),
     (''output_path'', PStr demo_staging_path), (''output_sha256'', PStr digest_b), (''records'', PList [PDict
       [(''executor_identity'', PStr ''e@h''), (''partition_id'', PInt 0), (''task_attempt_id'', PInt 0), (''record_sequence'', PInt 0)]])]"

definition demo_run_item :: output_item where
  "demo_run_item = \<lparr>oi_work_id = ''w1'', oi_attempt_id = ''attempt-1'', oi_output_path = demo_staging_path,
     oi_output_sha256 = digest_b, oi_succeeded = True, oi_records = [\<lparr>or_executor_identity = ''e@h'',
       or_partition_id = 0, or_task_attempt_id = 0, or_record_sequence = 0\<rparr>]\<rparr>"

definition demo_run_sealed_db :: db where
  "demo_run_sealed_db = demo_beaten_db\<lparr>
     db_attempts := [seal_attempt demo_run_item 200 (claimed_attempt ''batch-1'' 710 110 demo_item)],
     db_batches := [demo_batch\<lparr>b_status := B_SEALED, b_sealed_at := Some 200\<rparr>],
     db_outputs := [\<lparr>o_output_id = 1, o_attempt_id = ''attempt-1'', o_work_id = ''w1'', o_output_path = demo_staging_path,
       o_output_sha256 = digest_b, o_executor_identity = ''e@h'', o_partition_id = 0, o_task_attempt_id = 0,
       o_record_sequence = 0, o_created_at = 200\<rparr>], db_last_output := 1\<rparr>"

lemma demo_live: "process_batch_state (control_envelope demo_verified) demo_claimed =
    Inr \<lparr>cs_status = B_LEASED, cs_lease_expires_at = 710\<rparr>"
  unfolding process_batch_state_def demo_dbs by code_simp

lemma demo_extension: "heartbeat_extension LOCAL_TWO_WORKERS demo_xp = 105"
  by code_simp

lemma demo_beat_tx: "heartbeat_tx (control_envelope demo_verified) 105 200 demo_claimed_db = Inr (demo_beaten_db, ())"
  by code_simp

lemma demo_beat: "heartbeat_process (PInt 200) (control_envelope demo_verified) (PFloat 105) demo_claimed =
    (Inr (), demo_claimed\<lparr>st_db := demo_beaten_db\<rparr>)"
proof -
  have "positive_finite (PFloat 105) = Inr 105" by code_simp
  then show ?thesis by (simp add: heartbeat_process_def transaction_def demo_numbers demo_beat_tx)
qed

lemma fence_db: "assert_process_fence clock e (s\<lparr>st_db := d\<rparr>) = assert_process_fence clock e \<lparr>st_db = d, st_files = [], st_base = []\<rparr>"
proof -
  have "st_db (s\<lparr>st_db := d\<rparr>) = d" "st_db \<lparr>st_db = d, st_files = [], st_base = []\<rparr> = d" by simp_all
  then show ?thesis unfolding assert_process_fence_def process_batch_state_def by (simp only:)
qed

lemma demo_fence:
  "assert_process_fence (PInt 200) (control_envelope demo_verified) (demo_claimed\<lparr>st_db := demo_beaten_db\<rparr>) = Inr ()"
  "assert_process_fence (PInt 200) (control_envelope demo_verified) (demo_claimed\<lparr>st_db := demo_run_sealed_db\<rparr>) = Inr ()"
  unfolding fence_db by code_simp+

lemma demo_seal_run_tx: "seal_tx ''batch-1'' [demo_run_output] digest_b digest_b 200 demo_beaten_db = Inr (demo_run_sealed_db, ())"
  by code_simp

lemma demo_seal_run: "seal_batch (PInt 200) (PStr ''batch-1'') (PList [demo_run_output]) (PStr digest_b) (PStr digest_b)
    (demo_claimed\<lparr>st_db := demo_beaten_db\<rparr>) = (Inr (), demo_claimed\<lparr>st_db := demo_run_sealed_db\<rparr>)"
proof -
  have "validated_sha256 (PStr digest_b) = Inr digest_b" by code_simp
  then show ?thesis by (simp add: seal_batch_def transaction_def demo_batch_text demo_numbers demo_seal_run_tx)
qed

definition demo_published_db :: db where
  "demo_published_db = (case commit_tx ''batch-1'' 200 demo_run_sealed_db of Inr (d, ns) \<Rightarrow> d)"

lemma demo_commit_run: "commit_batch (PInt 200) (PStr ''batch-1'') (demo_claimed\<lparr>st_db := demo_run_sealed_db\<rparr>) =
    (Inr [1], demo_claimed\<lparr>st_db := demo_published_db\<rparr>)"
proof -
  have "(case commit_tx ''batch-1'' 200 demo_run_sealed_db of Inr (d, ns) \<Rightarrow> ns = [1] | Inl e \<Rightarrow> False)" by code_simp
  then have "commit_tx ''batch-1'' 200 demo_run_sealed_db = Inr (demo_published_db, [1])"
    by (auto simp: demo_published_db_def split: sum.splits prod.splits)
  then show ?thesis by (simp add: commit_batch_def transaction_def demo_batch_text demo_numbers)
qed

section \<open>The run\<close>

definition demo_start :: "staging_area run_state" where
  "demo_start = \<lparr>ru_store = demo_claimed, ru_area = \<lparr>sa_dirs = [], sa_files = []\<rparr>, ru_tick = 0\<rparr>"

lemma demo_lib_facts:
  "execution_attempt_id demo_run_lib demo_verified = demo_attempt"
  "validate_staged_records demo_run_lib ''1.0'' [demo_record] demo_verified demo_xp = Inr [(''w1'', [demo_record])]"
  "verify_envelope demo_run_lib demo_document ''batch-1'' digest_b = Inr demo_verified"
  "load_claim_envelope_with_digest demo_run_lib (PStr ''batch-1'') demo_claimed = Inr (demo_document, digest_b)"
proof -
  show "load_claim_envelope_with_digest demo_run_lib (PStr ''batch-1'') demo_claimed = Inr (demo_document, digest_b)"
    unfolding demo_run_lib_def by (rule demo_loaded)
qed (use demo_attempt_id demo_valid demo_verifies in \<open>unfold demo_run_lib_def demo_reader_def, blast\<close>)+

lemma demo_fields_cx: "cx_lib demo_cx = demo_run_lib" "cx_package_version demo_cx = ''1.0''" "cx_clock demo_cx n = PInt 200"
  "cx_world demo_cx n st = st" "cx_beats demo_cx = (0, 0, 0)" "cx_harness demo_cx e x p m = Inr [demo_record]"
  "cx_attempts demo_cx = local_adapter demo_run_lib ''/s''" "cx_crash demo_cx point = None" "cx_evidence demo_cx = None"
  by (simp_all add: demo_cx_def)

lemma demo_records_sha: "process_sha256 demo_run_lib (records_value [demo_record]) = Inr digest_b"
proof -
  obtain t where t: "dumps demo_lib (records_value [demo_record]) = CHR ''['' # t" using record_text_start by blast
  have "finite_json (records_value [demo_record])" by (simp add: records_value_def demo_record_def)
  moreover have "dumps demo_run_lib (records_value [demo_record]) = CHR ''['' # t"
    unfolding demo_run_lib_def demo_reader_dumps by (rule t)
  moreover have "sha256_hex demo_run_lib (CHR ''['' # t) = digest_b"
    unfolding demo_run_lib_def demo_reader_def by (simp add: demo_lib_of_def demo_payload_json_def digest_b_def)
  ultimately show ?thesis by (simp add: process_sha256_def process_canonical_def)
qed

lemma demo_outputs: "output_of demo_run_lib demo_staging_path [(''w1'', [demo_record])] demo_ei = Inr demo_run_output"
  by (simp add: output_of_def demo_ei_def item_get_def demo_columns TERMINAL_TYPES_def demo_records_sha output_record_of_def demo_run_output_def)

lemma demo_path_of: "attempt_path ''/s'' ''batch-1'' demo_attempt = Inr demo_staging_path"
  by code_simp

lemma demo_failed: "failed_work_ids demo_run_lib [demo_record] = Inr []"
  by (simp add: failed_work_ids_def item_get_def demo_columns)

lemma demo_marked: "success_marker demo_run_lib demo_verified [demo_record] = Inr demo_marker"
  by (simp add: success_marker_def demo_failed demo_records_sha demo_marker_def demo_lib_facts)
    (simp add: demo_verified_def)

lemma demo_admitted: "admit_lease demo_xp LOCAL_TWO_WORKERS 710 200 = Inr 75" "process_finite (PInt 200) = Inr 200"
  by code_simp+

lemma demo_sealed_run: "seal_and_commit demo_cx demo_verified demo_xp [demo_record]
    \<lparr>ru_store = demo_claimed\<lparr>st_db := demo_beaten_db\<rparr>, ru_area = f, ru_tick = 5\<rparr> =
    (Inr [1], \<lparr>ru_store = demo_claimed\<lparr>st_db := demo_published_db\<rparr>, ru_area = f, ru_tick = 9\<rparr>)"
proof -
  have path: "at_path (local_adapter demo_run_lib ''/s'') ''batch-1'' demo_attempt = Inr demo_staging_path"
    by (simp add: local_adapter_def demo_path_of)
  have ve: "ve_batch_id demo_verified = ''batch-1''" "ve_items demo_verified = [demo_ei]" "ve_envelope_sha256 demo_verified = digest_b"
    "ve_membership_sha256 demo_verified = digest_b" by (simp_all add: demo_verified_def)
  show ?thesis
    by (simp add: seal_and_commit_def assert_fence_def bindP_def returnP_def call_store_def read_store_def enter_def crash_def Let_def
        demo_fields_cx demo_lib_facts demo_fence path ve demo_outputs demo_seal_run demo_commit_run)
qed

lemma demo_run: "\<exists>f. run_process_batch demo_cx ''batch-1'' LOCAL_TWO_WORKERS ''probe'' None demo_start =
    (Inr \<lparr>ps_batch_id = ''batch-1'', ps_process_attempt_id = demo_attempt, ps_staging_path = demo_staging_path,
       ps_record_count = 1, ps_failed_work_ids = [], ps_publication_sequences = [1], ps_resumed = False,
       ps_driver_package_version = ''1.0''\<rparr>,
     \<lparr>ru_store = demo_claimed\<lparr>st_db := demo_published_db\<rparr>, ru_area = f, ru_tick = 9\<rparr>)"
proof -
  let ?area = "\<lparr>sa_dirs = [], sa_files = []\<rparr>" and ?ad = "local_adapter demo_run_lib ''/s''"
  have ok: "area_ok ?area" by (simp add: area_ok_def)
  have none: "at_load_complete ?ad ''batch-1'' demo_attempt ?area = Inr None"
    by (simp add: local_adapter_def load_complete_def demo_path_of)
  obtain f1 f2 where f: "at_write_records ?ad ''batch-1'' demo_attempt [demo_record] ?area = (Inr (), f1)"
    "at_read_records ?ad ''batch-1'' demo_attempt f1 = Inr [demo_record]"
    "at_create_success ?ad ''batch-1'' demo_attempt demo_marker f1 = (Inr (), f2)"
    by (rule local_attempts.attempt_completes [OF ok none demo_storable(1,3)]) (simp add: demo_storable(2))
  have path: "at_path ?ad ''batch-1'' demo_attempt = Inr demo_staging_path" by (simp add: local_adapter_def demo_path_of)
  have ve: "ve_batch_id demo_verified = ''batch-1''" "ve_items demo_verified = [demo_ei]" "ve_envelope_sha256 demo_verified = digest_b"
    "ve_membership_sha256 demo_verified = digest_b" by (simp_all add: demo_verified_def)
  note ops = bindP_def returnP_def call_store_def read_store_def call_area_def read_area_def enter_def crash_def Let_def
  note cx = demo_fields_cx demo_start_def
  have load: "load_process_context demo_cx ''batch-1'' demo_start = (Inr (demo_verified, \<lparr>cs_status = B_LEASED, cs_lease_expires_at = 710\<rparr>),
      demo_start\<lparr>ru_tick := 2\<rparr>)"
    by (simp add: load_process_context_def ops cx demo_lib_facts check_evidence_def live_batch_def demo_live)
  have stage: "execute_records demo_cx demo_verified demo_xp LOCAL_TWO_WORKERS ''probe'' 105 (demo_start\<lparr>ru_tick := 3\<rparr>) =
      (Inr [demo_record], \<lparr>ru_store = demo_claimed\<lparr>st_db := demo_beaten_db\<rparr>, ru_area = f2, ru_tick = 5\<rparr>)"
    by (simp add: execute_records_def stage_records_def mark_records_def heartbeat_def assert_fence_def leave_heartbeat_def ops cx
        demo_beat demo_lib_facts demo_fence demo_marked f ve)
  have "process_live demo_cx demo_verified \<lparr>cs_status = B_LEASED, cs_lease_expires_at = 710\<rparr> LOCAL_TWO_WORKERS ''probe'' None
      (demo_start\<lparr>ru_tick := 2\<rparr>) = (make_result demo_cx demo_verified [demo_record] [1] False,
      \<lparr>ru_store = demo_claimed\<lparr>st_db := demo_published_db\<rparr>, ru_area = f2, ru_tick = 9\<rparr>)"
    using stage demo_sealed_run none
    by (simp add: process_live_def obtain_records_def ops cx demo_planned demo_admitted demo_lib_facts demo_extension ve)
  then show ?thesis using load path
    by (simp add: run_process_batch_def bindP_def make_result_def cx demo_lib_facts demo_failed ve)
qed

end
