(* ===== verification/Process_Correct.thy ===== *)
theory Process_Correct
  imports Process_Demo
begin

text \<open>
  The guarantees of a process batch: of its staged records, of its immutable staging, and of the whole
  run against a control store that other processes use at the same time.
\<close>

section \<open>The run\<close>

text \<open>C24: staging is never redone.  Whatever a process run on the local attempt store returns, every attempt of any batch that had staging before,
  complete or partial, has the same staging after it; and if the claim that the run works on has
  staging, or its batch is neither leased nor sealed, the run executes nothing: it changes nothing in the area, and with any
  other harness it would return the same and leave the same.\<close>

theorem process_run_keeps_staging:
  assumes "cx_attempts cx = local_adapter lib base" "run_process_batch cx i profile mode peak s = (r, s')"
  shows "(\<forall>b a. load_complete lib base b a (ru_area s) \<noteq> Inr None
      \<longrightarrow> load_complete lib base b a (ru_area s') = load_complete lib base b a (ru_area s))
    \<and> (\<forall>env live s1 h. load_process_context cx i s = (Inr (env, live), s1)
        \<and> (load_complete lib base (ve_batch_id env) (execution_attempt_id (cx_lib cx) env) (ru_area s) \<noteq> Inr None
           \<or> cs_status live \<noteq> B_LEASED \<and> cs_status live \<noteq> B_SEALED)
      \<longrightarrow> ru_area s' = ru_area s \<and> run_process_batch (with_harness cx h) i profile mode peak s = (r, s'))"
proof (intro conjI allI impI)
  have load: "at_load_complete (local_adapter lib base) b a = load_complete lib base b a" for b a by (simp add: local_adapter_def)
  fix b a assume "load_complete lib base b a (ru_area s) \<noteq> Inr None"
  with local_attempts.run_keeps_staging [OF assms, of b a]
  show "load_complete lib base b a (ru_area s') = load_complete lib base b a (ru_area s)" unfolding load by blast
next
  fix env live s1 h
  assume run: "load_process_context cx i s = (Inr (env, live), s1)
    \<and> (load_complete lib base (ve_batch_id env) (execution_attempt_id (cx_lib cx) env) (ru_area s) \<noteq> Inr None
       \<or> cs_status live \<noteq> B_LEASED \<and> cs_status live \<noteq> B_SEALED)"
  with assms show "ru_area s' = ru_area s" "run_process_batch (with_harness cx h) i profile mode peak s = (r, s')"
    by (auto simp: local_adapter_def intro: not_executed)
qed

text \<open>A run of the demonstration batch next to a partial attempt of another batch.\<close>

definition demo_partial :: staging_area where
  "demo_partial = \<lparr>sa_dirs = [''/s/batch=batch-2/attempt=x''], sa_files = []\<rparr>"

theorem process_run_keeps_staging_witness:
  "load_complete demo_run_lib ''/s'' ''batch-2'' ''x''
     (ru_area (snd (run_process_batch demo_cx ''batch-1'' LOCAL_TWO_WORKERS ''probe'' None (demo_start\<lparr>ru_area := demo_partial\<rparr>))))
   = Inl StagingConflictError"
proof -
  obtain r s' where run: "run_process_batch demo_cx ''batch-1'' LOCAL_TWO_WORKERS ''probe'' None (demo_start\<lparr>ru_area := demo_partial\<rparr>) = (r, s')"
    by fastforce
  have "attempt_path ''/s'' ''batch-2'' ''x'' = Inr ''/s/batch=batch-2/attempt=x''" by code_simp
  then have "load_complete demo_run_lib ''/s'' ''batch-2'' ''x'' demo_partial = Inl StagingConflictError"
    by (simp add: load_complete_def demo_partial_def)
  with process_run_keeps_staging [OF demo_fields_cx(7) run] show ?thesis unfolding run by simp
qed

text \<open>C25: a process run that returns has committed its batch: the batch is committed in the store it
  leaves, and the returned sequence numbers are the publications of the batch.\<close>

theorem process_run_commits:
  assumes "world_ok cx" "store_ok (cx_lib cx) (ru_store s)"
    and "run_process_batch cx batch_id profile mode peak s = (Inr res, s')"
  shows "\<exists>b. find_batch (st_db (ru_store s')) batch_id = Some b \<and> b_status b = B_COMMITTED
    \<and> ps_publication_sequences res = batch_publications batch_id (st_db (ru_store s'))"
  by (rule run_commits [OF assms])

theorem process_run_commits_witness: "batch_publications ''batch-1'' demo_published_db = [1]"
proof -
  obtain f where run: "run_process_batch demo_cx ''batch-1'' LOCAL_TWO_WORKERS ''probe'' None demo_start = (Inr
      \<lparr>ps_batch_id = ''batch-1'', ps_process_attempt_id = demo_attempt, ps_staging_path = demo_staging_path,
       ps_record_count = 1, ps_failed_work_ids = [], ps_publication_sequences = [1], ps_resumed = False,
       ps_driver_package_version = ''1.0''\<rparr>,
     \<lparr>ru_store = demo_claimed\<lparr>st_db := demo_published_db\<rparr>, ru_area = f, ru_tick = 9\<rparr>)"
    using demo_run by blast
  have "store_ok (cx_lib demo_cx) (ru_store demo_start)"
    using demo_ok(1) by (simp add: demo_fields_cx demo_start_def demo_run_lib_def demo_reader_def)
  from process_run_commits [OF demo_world this run] show ?thesis by auto
qed

text \<open>C26: what is published is what was validated: after the seal and the commit of a run, the attempt of
  every item of the envelope has the staging path and the digest of the item's validated records as its
  output and the outcome of its terminal record, and a published item is published with that path and
  digest, whatever other processes did between the seal and the commit.\<close>

theorem process_publishes_validated:
  assumes "world_ok cx" "store_ok (cx_lib cx) (ru_store s)"
    and "seal_and_commit cx env plan records s = (Inr ns, s')" "distinct (map ei_work_id (ve_items env))"
  shows "\<exists>path grouped. validate_staged_records (cx_lib cx) (cx_package_version cx) records env plan = Inr grouped
    \<and> at_path (cx_attempts cx) (ve_batch_id env) (execution_attempt_id (cx_lib cx) env) = Inr path
    \<and> list_all (item_published (cx_lib cx) path grouped (st_db (ru_store s')) (ve_batch_id env)) (ve_items env)"
  by (rule seal_publishes [OF assms]) blast

theorem process_publishes_validated_witness:
  "\<exists>path grouped. validate_staged_records demo_run_lib ''1.0'' [demo_record] demo_verified demo_xp = Inr grouped
    \<and> list_all (item_published demo_run_lib path grouped demo_published_db ''batch-1'') [demo_ei]"
proof -
  have ok: "store_ok (cx_lib demo_cx) (ru_store \<lparr>ru_store = demo_claimed\<lparr>st_db := demo_beaten_db\<rparr>, ru_area = f, ru_tick = 5\<rparr>)" for f
    using control.step_inv [OF demo_ok(1), OF control_step.heartbeat [OF demo_beat]]
    by (simp add: demo_fields_cx demo_run_lib_def demo_reader_def)
  have dist: "distinct (map ei_work_id (ve_items demo_verified))" by (simp add: demo_verified_def)
  show ?thesis
    using process_publishes_validated [OF demo_world ok demo_sealed_run dist]
    by (simp add: demo_fields_cx) (auto simp: demo_verified_def)
qed

section \<open>Staged records\<close>

text \<open>C27: validated staging is exact: its groups are the items of the envelope in order, every record is
  in exactly one group, no logical record occurs twice, every item has exactly one terminal record, and
  every record of an item carries the identity, the envelope, the fence and the placement of that item.\<close>

theorem staging_validated:
  assumes "validate_staged_records lib pkg records env plan = Inr grouped" "distinct (map ei_work_id (ve_items env))"
  shows "map fst grouped = map ei_work_id (ve_items env) \<and> mset (concat (map snd grouped)) = mset records
    \<and> distinct (map logical_key records)
    \<and> list_all (\<lambda>i. \<exists>rs. map_of grouped (ei_work_id i) = Some rs \<and> length (filter terminal_record rs) = 1
         \<and> list_all (record_of lib pkg env plan i) rs) (ve_items env)"
proof -
  have "\<exists>rs. map_of grouped (ei_work_id i) = Some rs \<and> length (filter terminal_record rs) = 1
      \<and> list_all (record_of lib pkg env plan i) rs" if i: "i \<in> set (ve_items env)" for i
    by (rule grouped_item [OF assms i]) blast
  then show ?thesis unfolding list_all_iff [of _ "ve_items env"] using grouped_records [OF assms] by blast
qed

theorem staging_validated_witness:
  "list_all (\<lambda>i. \<exists>rs. map_of [(''w1'', [demo_record])] (ei_work_id i) = Some rs \<and> length (filter terminal_record rs) = 1
     \<and> list_all (record_of demo_lib ''1.0'' demo_verified demo_xp i) rs) (ve_items demo_verified)"
proof -
  have dist: "distinct (map ei_work_id (ve_items demo_verified))" by (simp add: demo_verified_def)
  show ?thesis using staging_validated [OF demo_valid [of "\<lambda>_. None"] dist] by blast
qed

text \<open>C28: of all receipts exactly one per partition is selected, in the order of the partitions; it is the
  receipt of the latest attempt, every other receipt of the partition has the same content, and the
  selection does not depend on the order in which the receipts arrived.\<close>

theorem one_receipt_per_partition:
  assumes "select_one_receipt_per_partition receipts = Inr ws"
    and "inj_on (\<lambda>r. (pr_physical_partition r, attempt_key r)) (set receipts)" "set receipts' = set receipts"
  shows "map pr_physical_partition ws = sort (remdups (map pr_physical_partition receipts))
    \<and> list_all (\<lambda>w. w \<in> set receipts \<and> list_all (\<lambda>r. pr_physical_partition r = pr_physical_partition w \<longrightarrow>
         attempt_key r \<le> attempt_key w \<and> content_identity r = content_identity w) receipts) ws
    \<and> select_one_receipt_per_partition receipts' = Inr ws"
proof (intro conjI)
  note l = select_oneD [OF assms(1)]
  show "map pr_physical_partition ws = sort (remdups (map pr_physical_partition receipts))" by (rule l(1))
  have "w \<in> set receipts \<and> list_all (\<lambda>r. pr_physical_partition r = pr_physical_partition w \<longrightarrow>
      attempt_key r \<le> attempt_key w \<and> content_identity r = content_identity w) receipts" if w: "w \<in> set ws" for w
  proof -
    from l(2) w obtain k where k: "select_receipt receipts k = Inr w"
      unfolding list_all2_conv_all_nth by (metis in_set_conv_nth)
    show ?thesis unfolding list_all_iff using select_receiptD [OF k] by blast
  qed
  then show "list_all (\<lambda>w. w \<in> set receipts \<and> list_all (\<lambda>r. pr_physical_partition r = pr_physical_partition w \<longrightarrow>
         attempt_key r \<le> attempt_key w \<and> content_identity r = content_identity w) receipts) ws"
    unfolding list_all_iff [of _ ws] by blast
  show "select_one_receipt_per_partition receipts' = Inr ws"
    using select_order [OF assms(3) [symmetric] assms(2)] assms(1) by simp
qed

definition demo_receipt :: "nat \<Rightarrow> nat \<Rightarrow> partition_staging_receipt" where
  "demo_receipt k n = \<lparr>pr_physical_partition = k, pr_task_attempt_id = n, pr_attempt_number = n, pr_record_count = 1,
     pr_work_ids = [''w1''], pr_content_sha256 = ''s'', pr_content_size_bytes = 9\<rparr>"

theorem one_receipt_per_partition_witness:
  "select_one_receipt_per_partition [demo_receipt 0 1, demo_receipt 1 0, demo_receipt 0 0] = Inr [demo_receipt 0 1, demo_receipt 1 0]"
proof -
  have "select_one_receipt_per_partition [demo_receipt 1 0, demo_receipt 0 0, demo_receipt 0 1] = Inr [demo_receipt 0 1, demo_receipt 1 0]"
    by code_simp
  moreover have "inj_on (\<lambda>r. (pr_physical_partition r, attempt_key r)) (set [demo_receipt 1 0, demo_receipt 0 0, demo_receipt 0 1])"
    by (auto simp: inj_on_def demo_receipt_def attempt_key_def)
  moreover have "set [demo_receipt 0 1, demo_receipt 1 0, demo_receipt 0 0] = set [demo_receipt 1 0, demo_receipt 0 0, demo_receipt 0 1]"
    by auto
  ultimately show ?thesis using one_receipt_per_partition by blast
qed

section \<open>Immutable staging\<close>

text \<open>C29: the records that one task attempt has staged read back under its receipt, in stored order, as
  the JSON reader returns them.\<close>

theorem partition_round_trip:
  assumes "stage_partition_records lib base k records task attempt fs = Inr (receipt, fs')" "storable lib records"
  shows "read_staged_partition_records lib base receipt fs' = Inr (stored_records lib records)"
  by (rule stage_then_read [OF assms])

theorem partition_round_trip_witness:
  "\<exists>receipt fs. stage_partition_records demo_run_lib ''/p'' 0 [demo_record] 0 0 [] = Inr (receipt, fs)
     \<and> read_staged_partition_records demo_run_lib ''/p'' receipt fs = Inr [demo_record]"
proof -
  have "finite_json (records_value [demo_record])" by (simp add: records_value_def demo_record_def)
  then obtain receipt fs where "stage_partition_records demo_run_lib ''/p'' 0 [demo_record] 0 0 [] = Inr (receipt, fs)"
    by (auto simp: stage_partition_records_def Let_def process_canonical_def partition_receipt_def ordered_records_def
        record_work_id_def item_get_def demo_columns simp del: dumps.simps finite_json.simps)
  then show ?thesis using partition_round_trip [OF _ demo_storable(1)] demo_storable(2) by metis
qed

text \<open>C30: the local attempt store implements the attempt contract.  In an area where no file is without its directory,
  an attempt that is not staged can be written with records and a marker that the library stores and reads back as the same
  values (\<open>storable\<close>, \<open>markable\<close>); it reads back what was written, is partial until it is marked and complete with the records and the marker
  after that; a second write of any records, before or after the mark, and a second mark with any marker change nothing in
  the area: the write is a conflict, and the mark is accepted only if its text is that of the first.  No other attempt
  of any batch is affected.\<close>

theorem local_attempt_completes:
  assumes "area_ok f" "load_complete lib base b a f = Inr None" "storable lib records" "markable lib marker"
    and "(b', a') \<noteq> (b, a)"
  shows "\<exists>f1 f2. write_records lib base b a records f = (Inr (), f1)
    \<and> read_records lib base b a f1 = Inr (stored_records lib records)
    \<and> load_complete lib base b a f1 = Inl StagingConflictError
    \<and> create_success lib base b a marker f1 = (Inr (), f2)
    \<and> load_complete lib base b a f2 = Inr (Some (stored_records lib records, normal_record marker))
    \<and> (\<forall>other. write_records lib base b a other f1 = (Inl StagingConflictError, f1)
        \<and> write_records lib base b a other f2 = (Inl StagingConflictError, f2))
    \<and> (\<forall>other. create_success lib base b a other f2 = (if \<not> finite_json (PDict other) then Inl ProcessValidationError
          else if dumps lib (PDict other) = dumps lib (PDict marker) then Inr () else Inl ImmutableConflictError, f2))
    \<and> load_complete lib base b' a' f2 = load_complete lib base b' a' f"
proof -
  let ?ad = "local_adapter lib base"
  have none: "at_load_complete ?ad b a f = Inr None" using assms(2) by (simp add: local_adapter_def)
  obtain f1 f2 where f: "at_write_records ?ad b a records f = (Inr (), f1)" "at_read_records ?ad b a f1 = Inr (stored_records lib records)"
    "at_create_success ?ad b a marker f1 = (Inr (), f2)"
    "at_load_complete ?ad b a f2 = Inr (Some (stored_records lib records, normal_record marker))"
    "at_load_complete ?ad b' a' f2 = at_load_complete ?ad b' a' f"
    by (rule local_attempts.attempt_completes [OF assms(1) none assms(3,4)]) (use assms(5) in blast)
  have "create_success lib base b a other f2 = (if \<not> finite_json (PDict other) then Inl ProcessValidationError
      else if dumps lib (PDict other) = dumps lib (PDict marker) then Inr () else Inl ImmutableConflictError, f2)" for other
    using f(3) by (intro create_success_again) (simp add: local_adapter_def)
  with f local_attempts.attempt_immutable [OF assms(1) f(1)] local_attempts.write_marked [OF f(3)] show ?thesis
    by (intro exI [of _ f1] exI [of _ f2]) (simp add: local_adapter_def del: dumps.simps finite_json.simps)
qed

theorem local_attempt_completes_witness:
  "\<exists>f1 f2. write_records demo_run_lib ''/s'' ''batch-1'' demo_attempt [demo_record] \<lparr>sa_dirs = [], sa_files = []\<rparr> = (Inr (), f1)
    \<and> create_success demo_run_lib ''/s'' ''batch-1'' demo_attempt demo_marker f1 = (Inr (), f2)
    \<and> load_complete demo_run_lib ''/s'' ''batch-1'' demo_attempt f2 = Inr (Some ([demo_record], normal_record demo_marker))
    \<and> create_success demo_run_lib ''/s'' ''batch-1'' demo_attempt [] f2 = (Inl ImmutableConflictError, f2)"
proof -
  have ok: "area_ok \<lparr>sa_dirs = [], sa_files = []\<rparr>" by (simp add: area_ok_def)
  have none: "load_complete demo_run_lib ''/s'' ''batch-1'' demo_attempt \<lparr>sa_dirs = [], sa_files = []\<rparr> = Inr None"
    by (simp add: load_complete_def demo_path_of)
  have other: "(''batch-2'', demo_attempt) \<noteq> (''batch-1'', demo_attempt)" by simp
  obtain u where "dumps demo_run_lib (PDict demo_marker) = CHR 0x7B # CHR 0x22 # u"
    using marker_text_start by (auto simp: demo_run_dumps simp del: dumps.simps)
  then have empty: "finite_json (PDict [])" "dumps demo_run_lib (PDict []) \<noteq> dumps demo_run_lib (PDict demo_marker)" by simp_all
  obtain f1 f2 where "write_records demo_run_lib ''/s'' ''batch-1'' demo_attempt [demo_record] \<lparr>sa_dirs = [], sa_files = []\<rparr> = (Inr (), f1)"
    "create_success demo_run_lib ''/s'' ''batch-1'' demo_attempt demo_marker f1 = (Inr (), f2)"
    "load_complete demo_run_lib ''/s'' ''batch-1'' demo_attempt f2 = Inr (Some ([demo_record], normal_record demo_marker))"
    and again: "\<forall>m. create_success demo_run_lib ''/s'' ''batch-1'' demo_attempt m f2 =
      (if \<not> finite_json (PDict m) then Inl ProcessValidationError
       else if dumps demo_run_lib (PDict m) = dumps demo_run_lib (PDict demo_marker) then Inr () else Inl ImmutableConflictError, f2)"
    using local_attempt_completes [OF ok none demo_storable(1,3) other] unfolding demo_storable(2) by blast
  moreover have "create_success demo_run_lib ''/s'' ''batch-1'' demo_attempt [] f2 = (Inl ImmutableConflictError, f2)"
    using again empty by (simp only: not_True_eq_False if_False)
  ultimately show ?thesis by blast
qed

end
