(* ===== verification/Py_Time.thy ===== *)
theory Py_Time
  imports Py_Json Video_Results
begin

text \<open>
  The part of Python's \<open>datetime\<close> that the gold tables use.  An aware UTC datetime is the number of
  microseconds since the start of the year 1, a date the number of days since then; the calendar follows the
  algorithms that the standard library documents, and texts are written as \<open>isoformat\<close> and
  \<open>strftime\<close> (in the C locale) write them.
\<close>

type_synonym moment = int

definition DAY_US :: int where
  "DAY_US = 86400000000"

definition MAX_DAYS :: int where
  "MAX_DAYS = 3652059"

text \<open>From year 1 to year 9999; anything else is an \<open>OverflowError\<close>.\<close>

definition in_range :: "moment \<Rightarrow> bool" where
  "in_range t \<longleftrightarrow> 0 \<le> t \<and> t < MAX_DAYS * DAY_US"

abbreviation OverflowError :: err where
  "OverflowError \<equiv> ExternalError ''OverflowError''"

definition checked_moment :: "int \<Rightarrow> moment res" where
  "checked_moment t = (if in_range t then Inr t else Inl OverflowError)"

section \<open>The calendar\<close>

definition is_leap :: "int \<Rightarrow> bool" where
  "is_leap y \<longleftrightarrow> y mod 4 = 0 \<and> (y mod 100 \<noteq> 0 \<or> y mod 400 = 0)"

definition month_length :: "int \<Rightarrow> int \<Rightarrow> int" where
  "month_length y m = (if m = 2 then (if is_leap y then 29 else 28) else if m \<in> {4, 6, 9, 11} then 30 else 31)"

text \<open>Days before the first of January of a year, counted from the start of the year 1.\<close>

definition year_start :: "int \<Rightarrow> int" where
  "year_start y = (y - 1) * 365 + (y - 1) div 4 - (y - 1) div 100 + (y - 1) div 400"

text \<open>The year of a day, by cycles of 400, 100, 4 and 1 years; the last day of a cycle of four
  or of four hundred years belongs to its last year.\<close>

definition year_of :: "int \<Rightarrow> int" where
  "year_of d = (let n400 = d div 146097; r400 = d mod 146097; n100 = r400 div 36524; r100 = r400 mod 36524;
      n4 = r100 div 1461; r4 = r100 mod 1461; n1 = r4 div 365; y = n400 * 400 + n100 * 100 + n4 * 4 + n1 + 1
    in if n1 = 4 \<or> n100 = 4 then y - 1 else y)"

fun month_day :: "int \<Rightarrow> nat \<Rightarrow> int \<Rightarrow> int \<Rightarrow> int \<times> int" where
  "month_day y 0 m d = (m, d + 1)"
| "month_day y (Suc n) m d = (if d < month_length y m then (m, d + 1) else month_day y n (m + 1) (d - month_length y m))"

definition ymd :: "int \<Rightarrow> int \<times> int \<times> int" where
  "ymd d = (let y = year_of d; (m, k) = month_day y 11 1 (d - year_start y) in (y, m, k))"

definition date_isoformat :: "int \<Rightarrow> string" where
  "date_isoformat d = (case ymd d of (y, m, k) \<Rightarrow> pad_int 4 y @ ''-'' @ pad_int 2 m @ ''-'' @ pad_int 2 k)"

text \<open>\<open>isocalendar\<close>: the first day of the first ISO week of a year, and the year, week and weekday of a day.\<close>

definition isoweek1monday :: "int \<Rightarrow> int" where
  "isoweek1monday y = (let first = year_start y; weekday = first mod 7; monday = first - weekday
     in if 3 < weekday then monday + 7 else monday)"

definition isocalendar :: "int \<Rightarrow> int \<times> int \<times> int" where
  "isocalendar d = (let y = year_of d; w = (d - isoweek1monday y) div 7 in
     if w < 0 then let b = isoweek1monday (y - 1) in (y - 1, (d - b) div 7 + 1, (d - b) mod 7 + 1)
     else if 52 \<le> w \<and> isoweek1monday (y + 1) \<le> d then (y + 1, 1, (d - isoweek1monday y) mod 7 + 1)
     else (y, w + 1, (d - isoweek1monday y) mod 7 + 1))"

definition month_names :: "string list" where
  "month_names = [''January'', ''February'', ''March'', ''April'', ''May'', ''June'', ''July'', ''August'',
     ''September'', ''October'', ''November'', ''December'']"

definition day_names :: "string list" where
  "day_names = [''Monday'', ''Tuesday'', ''Wednesday'', ''Thursday'', ''Friday'', ''Saturday'', ''Sunday'']"

section \<open>Moments\<close>

definition day_of :: "moment \<Rightarrow> int" where
  "day_of t = t div DAY_US"

definition hour_of :: "moment \<Rightarrow> int" where
  "hour_of t = t mod DAY_US div 3600000000"

definition minute_of :: "moment \<Rightarrow> int" where
  "minute_of t = t mod 3600000000 div 60000000"

text \<open>\<open>replace(second=0, microsecond=0)\<close> and \<open>replace(minute=0, second=0, microsecond=0)\<close>\<close>

definition floor_minute :: "moment \<Rightarrow> moment" where
  "floor_minute t = t - t mod 60000000"

definition floor_hour :: "moment \<Rightarrow> moment" where
  "floor_hour t = t - t mod 3600000000"

text \<open>\<open>isoformat()\<close> with \<open>+00:00\<close> written as \<open>Z\<close>: the fraction is written only when there is one.\<close>

definition iso :: "moment \<Rightarrow> string" where
  "iso t = (let us = t mod 1000000 in
     date_isoformat (day_of t) @ ''T'' @ pad_int 2 (hour_of t) @ '':'' @ pad_int 2 (minute_of t) @ '':''
     @ pad_int 2 (t mod 60000000 div 1000000) @ (if us = 0 then [] else ''.'' @ pad_int 6 us) @ ''Z'')"

text \<open>
  Seconds as a float, in microseconds: the whole seconds exactly, the fraction times a million in binary64,
  rounded half to even.  This is \<open>timedelta(seconds=x)\<close> and the conversion of \<open>fromtimestamp(x)\<close>.
\<close>

definition float_us :: "pyfloat \<Rightarrow> int" where
  "float_us x = (let whole = (if x < 0 then \<lceil>x\<rceil> else \<lfloor>x\<rfloor>) in
     whole * 1000000 + rne (fmul (x - of_int whole) 1000000))"

definition EPOCH :: moment where
  "EPOCH = 719162 * DAY_US"

definition from_timestamp :: "pyfloat \<Rightarrow> moment option" where
  "from_timestamp x = (let t = EPOCH + float_us x in if in_range t then Some t else None)"

end
