(* ===== verification/Gold_Values.thy ===== *)
theory Gold_Values
  imports Py_Time Process_Executor Control_Schema
begin

text \<open>
  The values of \<^verbatim>\<open>sjd_gold.py\<close>: rows as dictionaries, the coercions of metrics, timestamps and texts, and the
  canonical texts.  The parsers of the standard library are the fields of \<open>gold_lib\<close>.
\<close>

abbreviation GoldSourceError :: err where
  "GoldSourceError \<equiv> ExternalError ''GoldSourceError''"

abbreviation GoldValidationError :: err where
  "GoldValidationError \<equiv> ExternalError ''GoldValidationError''"

type_synonym row = "(string \<times> pyval) list"

text \<open>
  \<open>datetime.fromisoformat\<close> gives the local time and, for an aware datetime, the offset from UTC, both in
  microseconds; \<open>date.fromisoformat\<close> gives a day; \<open>ZoneInfo\<close> accepts or refuses a name.
\<close>

record gold_lib = pylib +
  datetime_fromisoformat :: "string \<Rightarrow> (int \<times> int option) option"
  date_fromisoformat :: "string \<Rightarrow> int option"
  parse_float :: "string \<Rightarrow> pyval option"
  parse_int :: "string \<Rightarrow> int option"
  zone_known :: "string \<Rightarrow> bool"

abbreviation base_lib :: "gold_lib \<Rightarrow> pylib" where
  "base_lib \<equiv> pylib.truncate"

section \<open>Dictionaries and truth\<close>

definition row_get :: "row \<Rightarrow> string \<Rightarrow> pyval" where
  "row_get r k = dget r k PNone"

text \<open>\<open>row.get(k, row.get(k'))\<close>\<close>

definition row_get2 :: "row \<Rightarrow> string \<Rightarrow> string \<Rightarrow> pyval" where
  "row_get2 r k k' = dget r k (row_get r k')"

text \<open>\<open>bool(value)\<close> and \<open>value or default\<close>\<close>

definition truthy :: "pyval \<Rightarrow> bool" where
  "truthy v = (case v of PNone \<Rightarrow> False | PBool b \<Rightarrow> b | PInt i \<Rightarrow> i \<noteq> 0 | PFloat x \<Rightarrow> x \<noteq> 0 | PNonFinite s \<Rightarrow> True
     | PStr s \<Rightarrow> s \<noteq> [] | PList vs \<Rightarrow> vs \<noteq> [] | PDict d \<Rightarrow> d \<noteq> [])"

definition por :: "pyval \<Rightarrow> pyval \<Rightarrow> pyval" where
  "por v w = (if truthy v then v else w)"

definition gstr :: "gold_lib \<Rightarrow> pyval \<Rightarrow> string" where
  "gstr lib v = py_str (base_lib lib) v"

text \<open>\<open>int(value)\<close>\<close>

definition py_int :: "gold_lib \<Rightarrow> pyval \<Rightarrow> int res" where
  "py_int lib v = (case v of
     PInt i \<Rightarrow> Inr i | PBool b \<Rightarrow> Inr (if b then 1 else 0)
   | PFloat x \<Rightarrow> Inr (if x < 0 then \<lceil>x\<rceil> else \<lfloor>x\<rfloor>)
   | PNonFinite s \<Rightarrow> Inl (if s = ''NaN'' then ValueError else OverflowError)
   | PStr s \<Rightarrow> (case parse_int lib s of None \<Rightarrow> Inl ValueError | Some i \<Rightarrow> Inr i)
   | _ \<Rightarrow> Inl TypeError)"

section \<open>Canonical texts\<close>

definition gcanonical :: "gold_lib \<Rightarrow> pyval \<Rightarrow> string" where
  "gcanonical lib v = dumps (base_lib lib) v"

definition gsha256_json :: "gold_lib \<Rightarrow> pyval \<Rightarrow> string" where
  "gsha256_json lib v = sha256_hex lib (gcanonical lib v)"

text \<open>The reader gets what the writer wrote, so that it can only fail where \<open>json.loads\<close> does.\<close>

definition jsonable_row :: "gold_lib \<Rightarrow> row \<Rightarrow> row res" where
  "jsonable_row lib r = (case json_loads lib (gcanonical lib (PDict r)) of
     None \<Rightarrow> Inl ValueError | Some (PDict d) \<Rightarrow> Inr d | Some _ \<Rightarrow> Inl TypeError)"

section \<open>Timestamps\<close>

definition replace_z :: "string \<Rightarrow> string" where
  "replace_z s = concat (map (\<lambda>c. if c = CHR ''Z'' then ''+00:00'' else [c]) s)"

definition optional_datetime :: "gold_lib \<Rightarrow> pyval \<Rightarrow> moment option res" where
  "optional_datetime lib v = (case v of
     PInt i \<Rightarrow> Inr (from_timestamp (fround (of_int i)))
   | PFloat x \<Rightarrow> Inr (from_timestamp x)
   | PStr s \<Rightarrow> if s = [] then Inr None
       else (case datetime_fromisoformat lib (replace_z (py_strip s)) of
               Some (local, Some offset) \<Rightarrow> bindE (checked_moment (local - offset)) (\<lambda>t. Inr (Some t))
             | _ \<Rightarrow> Inr None)
   | _ \<Rightarrow> Inr None)"

definition required_datetime :: "gold_lib \<Rightarrow> pyval \<Rightarrow> moment res" where
  "required_datetime lib v = bindE (optional_datetime lib v) (\<lambda>t.
     case t of None \<Rightarrow> Inl GoldSourceError | Some t \<Rightarrow> Inr t)"

text \<open>\<open>_first_datetime\<close>; every caller passes \<open>required=False\<close>.\<close>

fun first_datetime :: "gold_lib \<Rightarrow> row \<Rightarrow> string list \<Rightarrow> moment option res" where
  "first_datetime lib r [] = Inr None"
| "first_datetime lib r (n # ns) = (if row_get r n \<noteq> PNone
     then bindE (required_datetime lib (row_get r n)) (\<lambda>t. Inr (Some t)) else first_datetime lib r ns)"

definition hour_text :: "moment \<Rightarrow> string" where
  "hour_text t = iso (floor_hour t)"

definition optional_iso :: "moment option \<Rightarrow> pyval" where
  "optional_iso t = (case t of None \<Rightarrow> PNone | Some t \<Rightarrow> PStr (iso t))"

definition date_text :: "moment \<Rightarrow> string" where
  "date_text t = date_isoformat (day_of t)"

definition date_string :: "gold_lib \<Rightarrow> pyval \<Rightarrow> string res" where
  "date_string lib v = (case date_fromisoformat lib (gstr lib v) of
     None \<Rightarrow> Inl ValueError | Some d \<Rightarrow> Inr (date_isoformat d))"

section \<open>Metrics\<close>

definition as_metric :: "'a res \<Rightarrow> 'a res" where
  "as_metric m = (case m of Inl TypeError \<Rightarrow> Inl GoldSourceError | Inl ValueError \<Rightarrow> Inl GoldSourceError | _ \<Rightarrow> m)"

text \<open>\<open>float(value)\<close> of a metric: a boolean, and anything that has no float, is refused.\<close>

definition metric_float :: "gold_lib \<Rightarrow> pyval \<Rightarrow> pyval res" where
  "metric_float lib v = (case v of PBool b \<Rightarrow> Inl GoldSourceError | _ \<Rightarrow> as_metric (py_float (parse_float lib) v))"

definition optional_float :: "gold_lib \<Rightarrow> pyval \<Rightarrow> pyfloat option res" where
  "optional_float lib v = (if v = PNone then Inr None else bindE (metric_float lib v) (\<lambda>f.
     case f of PFloat x \<Rightarrow> if x < 0 then Inl GoldSourceError else Inr (Some x) | _ \<Rightarrow> Inl GoldSourceError))"

definition optional_int :: "gold_lib \<Rightarrow> pyval \<Rightarrow> int option res" where
  "optional_int lib v = (if v = PNone then Inr None else bindE (metric_float lib v) (\<lambda>f.
     case f of PFloat x \<Rightarrow> if x < 0 \<or> x \<noteq> of_int \<lfloor>x\<rfloor> then Inl GoldSourceError else Inr (Some \<lfloor>x\<rfloor>)
     | _ \<Rightarrow> Inl GoldSourceError))"

text \<open>\<open>_projection_int\<close> only rewords the error.\<close>

definition projection_int :: "gold_lib \<Rightarrow> pyval \<Rightarrow> int option res" where
  "projection_int lib v = (if v = PNone then Inr None else optional_int lib v)"

definition optional_text :: "gold_lib \<Rightarrow> pyval \<Rightarrow> pyval" where
  "optional_text lib v = (if v = PNone then PNone else let s = gstr lib v in if s = [] then PNone else PStr s)"

definition optional_boolean :: "pyval \<Rightarrow> pyval res" where
  "optional_boolean v = (case v of PNone \<Rightarrow> Inr PNone | PBool b \<Rightarrow> Inr v | _ \<Rightarrow> Inl GoldSourceError)"

text \<open>A metric as a cell.\<close>

definition int_cell :: "int option \<Rightarrow> pyval" where
  "int_cell i = (case i of None \<Rightarrow> PNone | Some i \<Rightarrow> PInt i)"

definition float_cell :: "pyfloat option \<Rightarrow> pyval" where
  "float_cell x = (case x of None \<Rightarrow> PNone | Some x \<Rightarrow> PFloat x)"

definition required_value :: "row \<Rightarrow> string \<Rightarrow> pyval res" where
  "required_value r name = (let v = row_get r name in if v = PNone \<or> v = PStr [] then Inl GoldSourceError else Inr v)"

definition config_json :: "gold_lib \<Rightarrow> pyval \<Rightarrow> string res" where
  "config_json lib v = (case v of
     PNone \<Rightarrow> Inr ''{}''
   | PStr s \<Rightarrow> if s = [] then Inr ''{}'' else (case json_loads lib s of
       None \<Rightarrow> Inl GoldSourceError | Some (PDict d) \<Rightarrow> Inr (gcanonical lib (PDict d)) | Some _ \<Rightarrow> Inl GoldSourceError)
   | PDict d \<Rightarrow> Inr (gcanonical lib (PDict d))
   | _ \<Rightarrow> Inl GoldSourceError)"

text \<open>\<open>_percentile\<close>: the smallest value that at least the given share of the values does not exceed.\<close>

definition percentile :: "pyfloat list \<Rightarrow> pyfloat \<Rightarrow> pyfloat option" where
  "percentile values quantile = (if values = [] then None
     else Some (sort values ! nat (max 0 (\<lceil>fmul (of_nat (length values)) quantile\<rceil> - 1))))"

text \<open>\<open>statistics.fmean\<close>: the exact sum, rounded, divided by the number of values.\<close>

definition fmean :: "pyfloat list \<Rightarrow> pyfloat" where
  "fmean xs = fdiv (fround (sum_list xs)) (of_nat (length xs))"

definition day_part :: "int \<Rightarrow> string" where
  "day_part hour = (if hour < 6 then ''Night'' else if hour < 12 then ''Morning'' else if hour < 18 then ''Afternoon''
     else ''Evening'')"

end
