(* ===== verification/Gold_Store.thy ===== *)
theory Gold_Store
  imports Gold_Values
begin

text \<open>
  Where the gold job of \<^verbatim>\<open>sjd_gold.py\<close> keeps its results: the JSON tables of \<open>LocalJsonGoldStore\<close>, one file per
  table, replaced as a whole, and the checkpoints and the refresh outbox of \<open>SQLiteGoldState\<close>, two tables of the
  control database.
\<close>

section \<open>Source checkpoints\<close>

record source_checkpoint =
  sc_publication_sequence :: int
  sc_versions :: "(string \<times> string) list"

definition text_dict :: "(string \<times> string) list \<Rightarrow> pyval" where
  "text_dict d = PDict (map (map_prod id PStr) d)"

definition int_dict :: "(string \<times> int) list \<Rightarrow> pyval" where
  "int_dict d = PDict (map (map_prod id PInt) d)"

definition source_key :: "gold_lib \<Rightarrow> source_checkpoint \<Rightarrow> string" where
  "source_key lib s = gsha256_json lib (PDict [(''publication_sequence'', PInt (sc_publication_sequence s)),
     (''versions'', text_dict (sc_versions s))])"

section \<open>JSON tables\<close>

record json_store =
  js_root :: string
  js_files :: files

definition table_char :: "char \<Rightarrow> bool" where
  "table_char c \<longleftrightarrow> c \<in> set ''abcdefghijklmnopqrstuvwxyz0123456789_''"

definition table_path :: "json_store \<Rightarrow> string \<Rightarrow> string res" where
  "table_path s name = (if name = [] \<or> \<not> list_all table_char name then Inl ValueError
     else Inr (js_root s @ ''/'' @ name @ ''.json''))"

definition read_payload :: "gold_lib \<Rightarrow> json_store \<Rightarrow> string \<Rightarrow> row res" where
  "read_payload lib s name = bindE (table_path s name) (\<lambda>path.
     case map_of (js_files s) path of
       None \<Rightarrow> Inr [(''version'', PInt 0), (''rows'', PList [])]
     | Some content \<Rightarrow> (case json_loads lib content of
         Some (PDict d) \<Rightarrow> Inr d | _ \<Rightarrow> Inl GoldValidationError))"

definition is_row :: "pyval \<Rightarrow> bool" where
  "is_row v = (case v of PDict d \<Rightarrow> True | _ \<Rightarrow> False)"

definition as_row :: "pyval \<Rightarrow> row" where
  "as_row v = (case v of PDict d \<Rightarrow> d | _ \<Rightarrow> [])"

definition read_table :: "gold_lib \<Rightarrow> json_store \<Rightarrow> string \<Rightarrow> row list res" where
  "read_table lib s name = bindE (read_payload lib s name) (\<lambda>payload.
     case dget payload ''rows'' (PList []) of
       PList vs \<Rightarrow> if list_all is_row vs then Inr (map as_row vs) else Inl GoldValidationError
     | _ \<Rightarrow> Inl GoldValidationError)"

definition table_version :: "gold_lib \<Rightarrow> json_store \<Rightarrow> string \<Rightarrow> int res" where
  "table_version lib s name = bindE (read_payload lib s name) (\<lambda>payload.
     py_int lib (dget payload ''version'' (PInt 0)))"

definition table_versions :: "gold_lib \<Rightarrow> json_store \<Rightarrow> string list \<Rightarrow> (string \<times> int) list res" where
  "table_versions lib s names = mapE (\<lambda>name. bindE (table_version lib s name) (\<lambda>v. Inr (name, v))) names"

text \<open>The file is written under another name and renamed, so that it changes at once or not at all.\<close>

definition write_table :: "gold_lib \<Rightarrow> json_store \<Rightarrow> string \<Rightarrow> row list \<Rightarrow> json_store res" where
  "write_table lib s name rows = bindE (table_path s name) (\<lambda>path. bindE (table_version lib s name) (\<lambda>version.
     Inr (s\<lparr>js_files := dset path (dumps (base_lib lib) (PDict [(''version'', PInt (version + 1)),
            (''rows'', PList (map PDict rows))])) (js_files s)\<rparr>)))"

definition replace_partition :: "gold_lib \<Rightarrow> json_store \<Rightarrow> string \<Rightarrow> string \<Rightarrow> string \<Rightarrow> row list
    \<Rightarrow> (nat \<times> json_store) res" where
  "replace_partition lib s name column value rows = bindE (mapE (jsonable_row lib) rows) (\<lambda>normalized.
     if list_ex (\<lambda>r. row_get r column \<noteq> PStr value) normalized then Inl ValueError
     else bindE (read_table lib s name) (\<lambda>existing.
       bindE (write_table lib s name (filter (\<lambda>r. row_get r column \<noteq> PStr value) existing @ normalized)) (\<lambda>s'.
         Inr (length normalized, s'))))"

definition replace_table :: "gold_lib \<Rightarrow> json_store \<Rightarrow> string \<Rightarrow> row list \<Rightarrow> (nat \<times> json_store) res" where
  "replace_table lib s name rows = bindE (mapE (jsonable_row lib) rows) (\<lambda>normalized.
     bindE (write_table lib s name normalized) (\<lambda>s'. Inr (length normalized, s')))"

section \<open>Checkpoints and the refresh outbox\<close>

record checkpoint_row =
  ck_stage :: string
  ck_source_key :: string
  ck_publication_sequence :: int
  ck_source_versions_json :: string
  ck_target_versions_json :: string
  ck_completed_at :: string

record outbox_row =
  ob_outbox_id :: int
  ob_dedupe_key :: string
  ob_reason :: string
  ob_payload_json :: string
  ob_created_at :: string
  ob_acked_at :: "string option"
  ob_acked_by :: "string option"

record gold_state =
  gs_checkpoints :: "checkpoint_row list"
  gs_outbox :: "outbox_row list"
  gs_last_outbox :: int

definition checkpoint :: "gold_state \<Rightarrow> string \<Rightarrow> checkpoint_row option" where
  "checkpoint g stage = find (\<lambda>c. ck_stage c = stage) (gs_checkpoints g)"

text \<open>\<open>INSERT ... ON CONFLICT(stage) DO UPDATE\<close>\<close>

definition save_row :: "gold_lib \<Rightarrow> moment \<Rightarrow> string \<Rightarrow> source_checkpoint \<Rightarrow> (string \<times> int) list
    \<Rightarrow> checkpoint_row list \<Rightarrow> checkpoint_row list" where
  "save_row lib now stage source target_versions cs =
     (let c = \<lparr>ck_stage = stage, ck_source_key = source_key lib source,
               ck_publication_sequence = sc_publication_sequence source,
               ck_source_versions_json = gcanonical lib (text_dict (sc_versions source)),
               ck_target_versions_json = gcanonical lib (int_dict target_versions), ck_completed_at = iso now\<rparr>
      in if stage \<in> ck_stage ` set cs then update_where (\<lambda>r. ck_stage r = stage) (\<lambda>_. c) cs else cs @ [c])"

definition save_checkpoint :: "gold_lib \<Rightarrow> moment \<Rightarrow> string \<Rightarrow> source_checkpoint \<Rightarrow> (string \<times> int) list
    \<Rightarrow> gold_state \<Rightarrow> gold_state" where
  "save_checkpoint lib now stage source target_versions g =
     g\<lparr>gs_checkpoints := save_row lib now stage source target_versions (gs_checkpoints g)\<rparr>"

definition refresh_payload :: "gold_lib \<Rightarrow> string \<Rightarrow> source_checkpoint \<Rightarrow> (string \<times> int) list \<Rightarrow> pyval" where
  "refresh_payload lib reason source target_versions = PDict [(''reason'', PStr reason),
     (''source_key'', PStr (source_key lib source)), (''publication_sequence'', PInt (sc_publication_sequence source)),
     (''target_versions'', int_dict target_versions)]"

text \<open>\<open>INSERT OR IGNORE\<close> takes the next number of \<open>AUTOINCREMENT\<close> also when the row is ignored.\<close>

definition insert_outbox :: "gold_lib \<Rightarrow> moment \<Rightarrow> string \<Rightarrow> source_checkpoint \<Rightarrow> (string \<times> int) list
    \<Rightarrow> gold_state \<Rightarrow> int res \<times> gold_state" where
  "insert_outbox lib now reason source target_versions g =
     (let payload = refresh_payload lib reason source target_versions;
          key = gsha256_json lib payload;
          n = gs_last_outbox g + 1;
          row = \<lparr>ob_outbox_id = n, ob_dedupe_key = key, ob_reason = reason, ob_payload_json = gcanonical lib payload,
                 ob_created_at = iso now, ob_acked_at = None, ob_acked_by = None\<rparr>;
          rows = (if key \<in> ob_dedupe_key ` set (gs_outbox g) then gs_outbox g else gs_outbox g @ [row]);
          g' = g\<lparr>gs_outbox := rows, gs_last_outbox := n\<rparr>
      in case find (\<lambda>r. ob_dedupe_key r = key) rows of
           None \<Rightarrow> (Inl (ExternalError ''AssertionError''), g) | Some r \<Rightarrow> (Inr (ob_outbox_id r), g'))"

definition enqueue_refresh :: "gold_lib \<Rightarrow> moment \<Rightarrow> string \<Rightarrow> source_checkpoint \<Rightarrow> (string \<times> int) list
    \<Rightarrow> gold_state \<Rightarrow> int res \<times> gold_state" where
  "enqueue_refresh lib now reason source target_versions g = insert_outbox lib now reason source target_versions g"

type_synonym checkpoint_updates = "(string \<times> source_checkpoint \<times> (string \<times> int) list) list"

definition save_checkpoints_and_enqueue :: "gold_lib \<Rightarrow> moment \<Rightarrow> checkpoint_updates \<Rightarrow> string option
    \<Rightarrow> source_checkpoint \<Rightarrow> (string \<times> int) list \<Rightarrow> gold_state \<Rightarrow> int option res \<times> gold_state" where
  "save_checkpoints_and_enqueue lib now checkpoints reason refresh_source refresh_target_versions g =
     (let g1 = foldl (\<lambda>g (stage, source, target_versions). save_checkpoint lib now stage source target_versions g) g
             checkpoints
      in case reason of
           None \<Rightarrow> (Inr None, g1)
         | Some reason \<Rightarrow> (case insert_outbox lib now reason refresh_source refresh_target_versions g1 of
             (Inl e, _) \<Rightarrow> (Inl e, g) | (Inr i, g2) \<Rightarrow> (Inr (Some i), g2)))"

definition pending_refreshes :: "gold_lib \<Rightarrow> gold_state \<Rightarrow> (outbox_row \<times> pyval) list res" where
  "pending_refreshes lib g = mapE (\<lambda>r. case json_loads lib (ob_payload_json r) of
       None \<Rightarrow> Inl ValueError | Some v \<Rightarrow> Inr (r, v))
     (sort_key ob_outbox_id (filter (\<lambda>r. ob_acked_at r = None) (gs_outbox g)))"

definition acknowledge_refresh :: "moment \<Rightarrow> int \<Rightarrow> string \<Rightarrow> string option \<Rightarrow> gold_state \<Rightarrow> bool res \<times> gold_state" where
  "acknowledge_refresh now outbox_id actor expected g = (if py_strip actor = [] then (Inl ValueError, g)
     else let p = (\<lambda>r. ob_outbox_id r = outbox_id \<and> ob_acked_at r = None \<and>
                       (case expected of None \<Rightarrow> True | Some key \<Rightarrow> ob_dedupe_key r = key))
       in (Inr (rowcount p (gs_outbox g) = 1),
           g\<lparr>gs_outbox := update_where p (\<lambda>r. r\<lparr>ob_acked_at := Some (iso now), ob_acked_by := Some (py_strip actor)\<rparr>)
                (gs_outbox g)\<rparr>))"

definition empty_gold_state :: gold_state where
  "empty_gold_state = \<lparr>gs_checkpoints = [], gs_outbox = [], gs_last_outbox = 0\<rparr>"

end
