(* ===== verification/Gold_Source.thy ===== *)
theory Gold_Source
  imports Gold_Store
begin

text \<open>
  What the gold job of \<^verbatim>\<open>sjd_gold.py\<close> reads: the rows of the control database as dictionaries, the checkpoints of
  its sources, and the output document behind every committed pointer, with its digest.  The control database
  is the one of \<open>Control_Schema\<close>; a Delta output is read by Spark, which is a parameter.
\<close>

section \<open>Rows of the control database\<close>

definition text_cell :: "string option \<Rightarrow> pyval" where
  "text_cell s = (case s of None \<Rightarrow> PNone | Some s \<Rightarrow> PStr s)"

primrec work_status_text :: "work_status \<Rightarrow> string" where
  "work_status_text W_READY = ''READY''"
| "work_status_text W_LEASED = ''LEASED''"
| "work_status_text W_SUCCEEDED = ''SUCCEEDED''"
| "work_status_text W_DEAD = ''DEAD''"

primrec batch_status_text :: "batch_status \<Rightarrow> string" where
  "batch_status_text B_LEASED = ''LEASED''"
| "batch_status_text B_SEALED = ''SEALED''"
| "batch_status_text B_COMMITTED = ''COMMITTED''"
| "batch_status_text B_EXPIRED = ''EXPIRED''"

primrec attempt_status_text :: "attempt_status \<Rightarrow> string" where
  "attempt_status_text A_LEASED = ''LEASED''"
| "attempt_status_text A_SEALED = ''SEALED''"
| "attempt_status_text A_SUCCEEDED = ''SUCCEEDED''"
| "attempt_status_text A_FAILED = ''FAILED''"
| "attempt_status_text A_EXPIRED = ''EXPIRED''"

definition work_dict :: "work_row \<Rightarrow> row" where
  "work_dict w = [(''work_id'', PStr (w_work_id w)), (''payload_json'', PStr (w_payload_json w)),
     (''payload_sha256'', PStr (w_payload_sha256 w)), (''runtime_key'', PStr (w_runtime_key w)),
     (''duration_seconds'', PFloat (w_duration_seconds w)), (''config_sha256'', PStr (w_config_sha256 w)),
     (''release_digest'', PStr (w_release_digest w)), (''status'', PStr (work_status_text (w_status w))),
     (''attempt_count'', PInt (w_attempt_count w)), (''max_attempts'', PInt (w_max_attempts w)),
     (''original_max_attempts'', PInt (w_original_max_attempts w)), (''fence'', PInt (w_fence w)),
     (''available_at'', PFloat (w_available_at w)), (''lease_owner'', text_cell (w_lease_owner w)),
     (''lease_attempt_id'', text_cell (w_lease_attempt_id w)), (''lease_expires_at'', float_cell (w_lease_expires_at w)),
     (''committed_attempt_id'', text_cell (w_committed_attempt_id w)),
     (''publication_sequence'', int_cell (w_publication_sequence w)), (''replay_generation'', PInt (w_replay_generation w)),
     (''last_replay_id'', text_cell (w_last_replay_id w)), (''last_error'', text_cell (w_last_error w)),
     (''created_at'', PFloat (w_created_at w)), (''updated_at'', PFloat (w_updated_at w))]"

definition batch_dict :: "batch_row \<Rightarrow> row" where
  "batch_dict b = [(''batch_id'', PStr (b_batch_id b)), (''owner'', PStr (b_owner b)),
     (''runtime_key'', PStr (b_runtime_key b)), (''status'', PStr (batch_status_text (b_status b))),
     (''lease_expires_at'', PFloat (b_lease_expires_at b)), (''item_count'', PInt (b_item_count b)),
     (''membership_sha256'', PStr (b_membership_sha256 b)), (''envelope_version'', PInt (b_envelope_version b)),
     (''envelope_path'', PStr (b_envelope_path b)), (''envelope_sha256'', PStr (b_envelope_sha256 b)),
     (''created_at'', PFloat (b_created_at b)), (''sealed_at'', float_cell (b_sealed_at b)),
     (''committed_at'', float_cell (b_committed_at b))]"

definition attempt_dict :: "attempt_row \<Rightarrow> row" where
  "attempt_dict a = [(''attempt_id'', PStr (a_attempt_id a)), (''work_id'', PStr (a_work_id a)),
     (''batch_id'', PStr (a_batch_id a)), (''fence'', PInt (a_fence a)),
     (''status'', PStr (attempt_status_text (a_status a))), (''lease_expires_at'', PFloat (a_lease_expires_at a)),
     (''payload_sha256'', PStr (a_payload_sha256 a)), (''output_path'', text_cell (a_output_path a)),
     (''output_sha256'', text_cell (a_output_sha256 a)),
     (''terminal_succeeded'', int_cell (map_option (\<lambda>b. if b then 1 else 0) (a_terminal_succeeded a))),
     (''sealed_at'', float_cell (a_sealed_at a)),
     (''recovery_outcome'', text_cell (map_option work_status_text (a_recovery_outcome a))),
     (''created_at'', PFloat (a_created_at a))]"

definition publication_dict :: "publication_row \<Rightarrow> row" where
  "publication_dict p = [(''publication_sequence'', PInt (p_publication_sequence p)), (''work_id'', PStr (p_work_id p)),
     (''attempt_id'', PStr (p_attempt_id p)), (''batch_id'', PStr (p_batch_id p)),
     (''output_path'', PStr (p_output_path p)), (''output_sha256'', PStr (p_output_sha256 p)),
     (''published_at'', PFloat (p_published_at p))]"

text \<open>A projection of a row to some of its columns, as \<open>SELECT\<close> names them.\<close>

definition columns :: "string list \<Rightarrow> row \<Rightarrow> row" where
  "columns names r = map (\<lambda>n. (n, row_get r n)) names"

section \<open>The source\<close>

datatype fnode = FileNode string | DirNode

text \<open>
  The database, the names of its tables, the file system below the output paths, and Spark's read of the
  column \<open>record_json\<close> of a Delta output for one work item and attempt.
\<close>

record gold_source =
  so_db :: db
  so_tables :: "string list"
  so_resolve :: "string \<Rightarrow> string"
  so_fs :: "string \<Rightarrow> fnode option"
  so_delta :: "string \<Rightarrow> string \<Rightarrow> string \<Rightarrow> pyval list res"
  so_verify_output_hash :: bool

definition table_exists :: "gold_source \<Rightarrow> string \<Rightarrow> bool" where
  "table_exists src name \<longleftrightarrow> name \<in> set (so_tables src)"

text \<open>The publication that a work row's committed pointer names.\<close>

definition pointed :: "work_row \<Rightarrow> publication_row \<Rightarrow> bool" where
  "pointed w p \<longleftrightarrow> p_work_id p = w_work_id w \<and> w_committed_attempt_id w = Some (p_attempt_id p)"

definition rows_digest :: "gold_lib \<Rightarrow> row list \<Rightarrow> string" where
  "rows_digest lib rows = gsha256_json lib (PList (map PDict rows))"

definition max_sequence :: "publication_row list \<Rightarrow> int" where
  "max_sequence ps = foldl (\<lambda>m p. max m (p_publication_sequence p)) 0 ps"

definition visible_work :: "db \<Rightarrow> row list" where
  "visible_work d = map (\<lambda>(w, p). columns [''work_id'', ''payload_json'', ''payload_sha256'', ''duration_seconds'',
       ''config_sha256'', ''release_digest'', ''committed_attempt_id'', ''publication_sequence''] (work_dict w))
     (sort_key (\<lambda>(w, p). w_work_id w) (inner_join pointed (db_work d) (db_publications d)))"

definition visible_attempts :: "db \<Rightarrow> row list" where
  "visible_attempts d = map (\<lambda>(a, w, p). columns [''attempt_id'', ''work_id'', ''output_path'', ''output_sha256'',
       ''terminal_succeeded''] (attempt_dict a))
     (sort_key (\<lambda>(a, w, p). a_attempt_id a) (inner_join (\<lambda>a (w, p). w_work_id w = a_work_id a \<and> p_attempt_id p = a_attempt_id a)
        (db_attempts d) (inner_join pointed (db_work d) (db_publications d))))"

definition visible_publications :: "db \<Rightarrow> publication_row list" where
  "visible_publications d = sort_key p_publication_sequence (map fst (inner_join (\<lambda>p w. pointed w p) (db_publications d) (db_work d)))"

definition source_checkpoint_of :: "gold_lib \<Rightarrow> gold_source \<Rightarrow> source_checkpoint" where
  "source_checkpoint_of lib src = (let d = so_db src in
     if list_all (table_exists src) [''work'', ''attempts'', ''publications'']
     then \<lparr>sc_publication_sequence = max_sequence (visible_publications d),
           sc_versions = [(''work'', rows_digest lib (visible_work d)), (''attempts'', rows_digest lib (visible_attempts d)),
             (''publications'', rows_digest lib (map publication_dict (visible_publications d)))]\<rparr>
     else \<lparr>sc_publication_sequence = 0,
           sc_versions = map (\<lambda>t. (t, rows_digest lib [])) [''work'', ''attempts'', ''publications'']\<rparr>)"

definition operations_source_checkpoint :: "gold_lib \<Rightarrow> gold_source \<Rightarrow> source_checkpoint" where
  "operations_source_checkpoint lib src = (let d = so_db src;
       rows = [(''work'', map work_dict (db_work d)), (''attempts'', map attempt_dict (db_attempts d)),
               (''batches'', map batch_dict (db_batches d)), (''publications'', map publication_dict (db_publications d))]
     in \<lparr>sc_publication_sequence = (if table_exists src ''publications'' then max_sequence (db_publications d) else 0),
         sc_versions = map (\<lambda>(t, rs). (t, rows_digest lib (if table_exists src t then rs else []))) rows\<rparr>)"

definition fact_source :: "source_checkpoint \<Rightarrow> source_checkpoint \<Rightarrow> source_checkpoint" where
  "fact_source flow operations = \<lparr>sc_publication_sequence = sc_publication_sequence flow,
     sc_versions = dict_update (map (map_prod ((@) ''flow:'') id) (sc_versions flow))
       (map (map_prod ((@) ''operations:'') id) (sc_versions operations))\<rparr>"

section \<open>Output documents\<close>

definition output_order :: "gold_lib \<Rightarrow> row \<Rightarrow> (string \<times> string \<times> string \<times> int) res" where
  "output_order lib r = bindE (py_int lib (dget r ''record_sequence'' (PInt (- 1)))) (\<lambda>n.
     Inr (gstr lib (dget r ''work_id'' (PStr [])), gstr lib (dget r ''attempt_id'' (PStr [])),
          gstr lib (dget r ''record_type'' (PStr [])), n))"

definition records_digest :: "gold_lib \<Rightarrow> row list \<Rightarrow> string res" where
  "records_digest lib records = bindE (mapE (\<lambda>r. bindE (output_order lib r) (\<lambda>k. Inr (k, r))) records) (\<lambda>keyed.
     Inr (rows_digest lib (map snd (sort_key fst keyed))))"

definition digest_matches :: "bool \<Rightarrow> string \<Rightarrow> string \<Rightarrow> bool" where
  "digest_matches verify expected actual \<longleftrightarrow> \<not> (verify \<and> expected \<noteq> [] \<and> actual \<noteq> expected)"

text \<open>\<open>json.loads(str(value))\<close>, which has to be an object.\<close>

definition loaded_object :: "gold_lib \<Rightarrow> pyval \<Rightarrow> row res" where
  "loaded_object lib v = (case json_loads lib (gstr lib v) of Some (PDict d) \<Rightarrow> Inr d | _ \<Rightarrow> Inl GoldSourceError)"

text \<open>A list or a dictionary has no hash: \<open>value in {...}\<close> raises \<open>TypeError\<close>.\<close>

definition unhashable :: "pyval \<Rightarrow> bool" where
  "unhashable v = (case v of PList vs \<Rightarrow> True | PDict d \<Rightarrow> True | _ \<Rightarrow> False)"

definition is_terminal :: "row \<Rightarrow> bool" where
  "is_terminal r \<longleftrightarrow> row_get r ''record_type'' \<in> {PStr ''video_result'', PStr ''error''}"

definition terminals_of :: "row list \<Rightarrow> row list res" where
  "terminals_of records = (if list_ex (\<lambda>r. unhashable (row_get r ''record_type'')) records then Inl TypeError
     else Inr (filter is_terminal records))"

definition records_output_document :: "gold_lib \<Rightarrow> row list \<Rightarrow> string \<Rightarrow> string \<Rightarrow> row res" where
  "records_output_document lib records work_id attempt_id = bindE (terminals_of records) (\<lambda>terminals. case terminals of
     [terminal] \<Rightarrow> if row_get terminal ''record_type'' \<noteq> PStr ''video_result'' then Inl GoldSourceError
       else bindE (loaded_object lib (dget terminal ''payload_json'' (PStr ''{}''))) (\<lambda>payload.
         bindE (mapE (\<lambda>r. bindE (loaded_object lib (dget r ''payload_json'' (PStr ''{}''))) (\<lambda>value.
             Inr (PDict (dict_update value [(''work_id'', PStr work_id), (''attempt_id'', PStr attempt_id)]))))
           (filter (\<lambda>r. row_get r ''record_type'' = PStr ''line_count'') records)) (\<lambda>lines.
         Inr [(''run'', PDict (dict_update payload [(''work_id'', PStr work_id), (''attempt_id'', PStr attempt_id),
                (''processing_seconds'', row_get terminal ''processing_seconds''),
                (''processed_frames'', row_get terminal ''processed_frames''), (''status'', row_get terminal ''status'')])),
              (''line_counts'', PList lines)]))
   | _ \<Rightarrow> Inl GoldSourceError)"

definition read_delta_records :: "gold_lib \<Rightarrow> gold_source \<Rightarrow> string \<Rightarrow> string \<Rightarrow> string \<Rightarrow> row list res" where
  "read_delta_records lib src path work_id attempt_id =
     bindE (so_delta src path work_id attempt_id) (mapE (loaded_object lib))"

definition load_delta_output_document :: "gold_lib \<Rightarrow> gold_source \<Rightarrow> string \<Rightarrow> string \<Rightarrow> string \<Rightarrow> string \<Rightarrow> row res" where
  "load_delta_output_document lib src path expected work_id attempt_id =
     bindE (read_delta_records lib src path work_id attempt_id) (\<lambda>records.
     bindE (records_digest lib records) (\<lambda>actual.
       if \<not> digest_matches (so_verify_output_hash src) expected actual then Inl GoldSourceError
       else records_output_document lib records work_id attempt_id))"

definition is_dir :: "gold_source \<Rightarrow> string \<Rightarrow> bool" where
  "is_dir src path \<longleftrightarrow> so_fs src path = Some DirNode"

definition file_text :: "gold_source \<Rightarrow> string \<Rightarrow> string option" where
  "file_text src path = (case so_fs src path of Some (FileNode s) \<Rightarrow> Some s | _ \<Rightarrow> None)"

definition output_candidates :: "gold_source \<Rightarrow> string \<Rightarrow> string list" where
  "output_candidates src path = filter (\<lambda>p. file_text src p \<noteq> None)
     (map (\<lambda>n. path @ ''/'' @ n) [''output.json'', ''result.json'', ''records.json''])"

text \<open>\<open>json.loads\<close> of a file, a list of records or one document.\<close>

definition load_output_file :: "gold_lib \<Rightarrow> gold_source \<Rightarrow> string \<Rightarrow> string \<Rightarrow> string \<Rightarrow> string \<Rightarrow> row res" where
  "load_output_file lib src path expected work_id attempt_id = (case file_text src path of
     None \<Rightarrow> Inl GoldSourceError
   | Some content \<Rightarrow> (case json_loads lib content of
       None \<Rightarrow> Inl GoldSourceError
     | Some (PList vs) \<Rightarrow>
         let matching = filter (\<lambda>r. gstr lib (row_get r ''work_id'') = work_id \<and> gstr lib (row_get r ''attempt_id'') = attempt_id)
               (map as_row (filter is_row vs))
         in bindE (records_digest lib matching) (\<lambda>actual.
              if \<not> digest_matches (so_verify_output_hash src) expected actual then Inl GoldSourceError
              else records_output_document lib matching work_id attempt_id)
     | Some v \<Rightarrow>
         if \<not> digest_matches (so_verify_output_hash src) expected (sha256_hex lib content) then Inl GoldSourceError
         else (case v of PDict d \<Rightarrow> Inr d | _ \<Rightarrow> Inl GoldSourceError)))"

text \<open>The callers always have the identity of a committed pointer.\<close>

definition load_output_document :: "gold_lib \<Rightarrow> gold_source \<Rightarrow> string \<Rightarrow> string \<Rightarrow> string \<Rightarrow> string \<Rightarrow> row res" where
  "load_output_document lib src path expected work_id attempt_id = (let resolved = so_resolve src path in
     if is_dir src resolved then
       if is_dir src (resolved @ ''/_delta_log'')
       then load_delta_output_document lib src resolved expected work_id attempt_id
       else (case output_candidates src resolved of
               [candidate] \<Rightarrow> load_output_file lib src candidate expected work_id attempt_id
             | _ \<Rightarrow> Inl GoldSourceError)
     else load_output_file lib src resolved expected work_id attempt_id)"

text \<open>The record belongs to the pointer when it does not name another work item or attempt.\<close>

definition belongs :: "gold_lib \<Rightarrow> string \<Rightarrow> string \<Rightarrow> row \<Rightarrow> bool" where
  "belongs lib work_id attempt_id r \<longleftrightarrow> gstr lib (dget r ''work_id'' (PStr work_id)) = work_id
     \<and> gstr lib (dget r ''attempt_id'' (PStr attempt_id)) = attempt_id"

definition raw_run_of :: "gold_lib \<Rightarrow> row \<Rightarrow> string \<Rightarrow> string \<Rightarrow> pyval" where
  "raw_run_of lib document work_id attempt_id =
     (let named = row_get document ''run'';
          listed = (if named \<noteq> PNone then named else (case dget document ''runs'' (PList []) of
            PList vs \<Rightarrow> (case filter (belongs lib work_id attempt_id) (map as_row (filter is_row vs)) of
              [r] \<Rightarrow> PDict r | _ \<Rightarrow> PNone)
          | _ \<Rightarrow> PNone))
      in if listed = PNone \<and> ''captured_at_utc'' \<in> fst ` set document then PDict document else listed)"

definition names_pointer :: "gold_lib \<Rightarrow> row \<Rightarrow> string \<Rightarrow> string \<Rightarrow> bool" where
  "names_pointer lib r name expected \<longleftrightarrow> row_get r name = PNone \<or> gstr lib (row_get r name) = expected"

definition split_output_document :: "gold_lib \<Rightarrow> row \<Rightarrow> string \<Rightarrow> string \<Rightarrow> (row \<times> row list) res" where
  "split_output_document lib document work_id attempt_id = (case raw_run_of lib document work_id attempt_id of
     PDict run \<Rightarrow>
       if \<not> names_pointer lib run ''work_id'' work_id \<or> \<not> names_pointer lib run ''attempt_id'' attempt_id
       then Inl GoldSourceError
       else (case dget document ''line_counts'' (dget document ''lines'' (PList [])) of
         PList vs \<Rightarrow> if \<not> list_all is_row vs then Inl GoldSourceError
           else Inr (run, filter (belongs lib work_id attempt_id) (map as_row vs))
       | _ \<Rightarrow> Inl GoldSourceError)
   | _ \<Rightarrow> Inl GoldSourceError)"

section \<open>Committed outputs\<close>

record committed_output =
  co_work_id :: string
  co_attempt_id :: string
  co_publication_sequence :: int
  co_published_at :: "moment option"
  co_work :: row
  co_attempt :: row
  co_run :: row
  co_line_counts :: "row list"

definition validate_pointer_metadata :: "gold_lib \<Rightarrow> row \<Rightarrow> row \<Rightarrow> row \<Rightarrow> unit res" where
  "validate_pointer_metadata lib w a p =
     (if gstr lib (row_get a ''work_id'') \<noteq> gstr lib (row_get w ''work_id'') then Inl GoldSourceError
      else if row_get a ''output_path'' \<noteq> PNone \<and> \<not> py_eq (row_get a ''output_path'') (row_get p ''output_path'')
      then Inl GoldSourceError
      else if row_get a ''output_sha256'' \<noteq> PNone \<and> \<not> py_eq (row_get a ''output_sha256'') (row_get p ''output_sha256'')
      then Inl GoldSourceError
      else if row_get w ''publication_sequence'' = PNone then Inr ()
      else bindE (py_int lib (row_get w ''publication_sequence'')) (\<lambda>n.
           bindE (item_get p ''publication_sequence'') (\<lambda>v. bindE (py_int lib v) (\<lambda>m.
             if n \<noteq> m then Inl GoldSourceError else Inr ()))))"

definition merge_payload :: "gold_lib \<Rightarrow> row \<Rightarrow> row res" where
  "merge_payload lib w = (case row_get w ''payload_json'' of
     PStr s \<Rightarrow> (case json_loads lib s of Some (PDict payload) \<Rightarrow> Inr (dict_update payload w) | _ \<Rightarrow> Inl GoldSourceError)
   | _ \<Rightarrow> Inr w)"

text \<open>One committed work row.\<close>

definition committed_output_of :: "gold_lib \<Rightarrow> gold_source \<Rightarrow> work_row \<Rightarrow> string \<Rightarrow> committed_output res" where
  "committed_output_of lib src w attempt_id = (let d = so_db src in
     case (find (\<lambda>p. p_work_id p = w_work_id w \<and> p_attempt_id p = attempt_id) (db_publications d),
           find (\<lambda>a. a_attempt_id a = attempt_id \<and> a_work_id a = w_work_id w) (db_attempts d)) of
       (Some p, Some a) \<Rightarrow>
         bindE (validate_pointer_metadata lib (work_dict w) (attempt_dict a) (publication_dict p)) (\<lambda>_.
         bindE (load_output_document lib src (p_output_path p) (p_output_sha256 p) (w_work_id w) attempt_id) (\<lambda>document.
         bindE (split_output_document lib document (w_work_id w) attempt_id) (\<lambda>(run, lines).
         bindE (first_datetime lib (publication_dict p) [''published_at'', ''created_at'']) (\<lambda>published_at.
         bindE (merge_payload lib (work_dict w)) (\<lambda>work.
           Inr \<lparr>co_work_id = w_work_id w, co_attempt_id = attempt_id,
                co_publication_sequence = p_publication_sequence p, co_published_at = published_at, co_work = work,
                co_attempt = attempt_dict a, co_run = run, co_line_counts = lines\<rparr>)))))
     | _ \<Rightarrow> Inl GoldSourceError)"

text \<open>\<open>committed_attempt_id\<close> is a column of every \<open>work\<close> table of \<open>Control_Schema\<close>.\<close>

definition committed_outputs :: "gold_lib \<Rightarrow> gold_source \<Rightarrow> committed_output list res" where
  "committed_outputs lib src =
     (if \<not> list_all (table_exists src) [''work'', ''attempts'', ''publications''] then Inl GoldSourceError
      else mapE (\<lambda>w. committed_output_of lib src w (the (w_committed_attempt_id w)))
        (sort_key w_work_id (filter (\<lambda>w. w_committed_attempt_id w \<noteq> None) (db_work (so_db src)))))"

section \<open>Control rows\<close>

record control_rows =
  cr_work :: "row list"
  cr_attempts :: "row list"

definition control_attempt_dict :: "attempt_row \<Rightarrow> batch_row \<Rightarrow> work_row \<Rightarrow> publication_row option \<Rightarrow> row" where
  "control_attempt_dict a b w p = attempt_dict a @ [(''dispatcher_id'', PStr (b_owner b)),
     (''batch_runtime_key'', PStr (b_runtime_key b)), (''batch_sealed_at'', float_cell (b_sealed_at b)),
     (''batch_completed_at'', float_cell (b_committed_at b)), (''batch_expired_at'', PFloat (b_lease_expires_at b)),
     (''work_updated_at'', PFloat (w_updated_at w)), (''published_at'', float_cell (map_option p_published_at p))]"

definition control_rows_of :: "gold_source \<Rightarrow> control_rows res" where
  "control_rows_of src = (let d = so_db src in
     if \<not> list_all (table_exists src) [''work'', ''attempts'', ''batches'', ''publications'']
     then Inl (ExternalError ''OperationalError'')
     else Inr \<lparr>cr_work = map work_dict (sort_key w_work_id (db_work d)),
               cr_attempts = map (\<lambda>((a, b, w), p). control_attempt_dict a b w p)
                 (sort_key (\<lambda>((a, b, w), p). a_attempt_id a)
                   (left_join (\<lambda>(a, b, w) p. p_attempt_id p = a_attempt_id a)
                     (map (\<lambda>((a, b), w). (a, b, w)) (inner_join (\<lambda>(a, b) w. w_work_id w = a_work_id a)
                       (inner_join (\<lambda>a b. b_batch_id b = a_batch_id a) (db_attempts d) (db_batches d)) (db_work d)))
                     (db_publications d)))\<rparr>)"

section \<open>Dates\<close>

text \<open>\<open>_coalesce(output.run, output.work, names=("captured_at_utc",))\<close>, else the time of publication.\<close>

definition coalesce :: "row list \<Rightarrow> string \<Rightarrow> pyval" where
  "coalesce rows name = (case find (\<lambda>r. row_get r name \<noteq> PNone) rows of None \<Rightarrow> PNone | Some r \<Rightarrow> row_get r name)"

definition output_captured_at :: "gold_lib \<Rightarrow> committed_output \<Rightarrow> moment option res" where
  "output_captured_at lib co = (let v = coalesce [co_run co, co_work co] ''captured_at_utc'' in
     if v = PNone then Inr (co_published_at co) else bindE (required_datetime lib v) (\<lambda>t. Inr (Some t)))"

definition line_observed_at :: "gold_lib \<Rightarrow> row \<Rightarrow> moment \<Rightarrow> moment res" where
  "line_observed_at lib line captured = (if row_get line ''observed_at_utc'' \<noteq> PNone
     then required_datetime lib (row_get line ''observed_at_utc'')
     else bindE (metric_float lib (row_get line ''video_seconds'')) (\<lambda>f.
       case f of PFloat x \<Rightarrow> if x < 0 then Inl GoldSourceError else checked_moment (captured + float_us x)
       | _ \<Rightarrow> Inl GoldSourceError))"

definition output_dates :: "gold_lib \<Rightarrow> committed_output \<Rightarrow> string list res" where
  "output_dates lib co = bindE (output_captured_at lib co) (\<lambda>captured. case captured of
     None \<Rightarrow> Inr []
   | Some t \<Rightarrow> bindE (mapE (\<lambda>line. line_observed_at lib line t) (co_line_counts co)) (\<lambda>ts.
       Inr (date_text t # map date_text ts)))"

definition work_date_columns :: "string list" where
  "work_date_columns = [''queued_at'', ''queue_entered_at'', ''created_at'', ''available_at'', ''updated_at'']"

definition attempt_date_columns :: "string list" where
  "attempt_date_columns = [''claimed_at'', ''created_at'', ''sealed_at'', ''batch_sealed_at'', ''failed_at'', ''completed_at'',
     ''batch_completed_at'', ''batch_expired_at'', ''work_updated_at'', ''published_at'']"

definition row_dates :: "gold_lib \<Rightarrow> moment option \<Rightarrow> string list \<Rightarrow> row \<Rightarrow> string list res" where
  "row_dates lib cutoff names r = bindE (mapE (\<lambda>n. optional_datetime lib (row_get r n))
       (filter (\<lambda>n. n \<noteq> ''batch_expired_at'' \<or> gstr lib (por (row_get r ''status'') (PStr [])) = ''EXPIRED'') names)) (\<lambda>ts.
     Inr (concat (map (\<lambda>t. case t of None \<Rightarrow> []
       | Some t \<Rightarrow> (case cutoff of None \<Rightarrow> [date_text t] | Some c \<Rightarrow> if c \<le> t then [date_text t] else [])) ts)))"

definition control_dates :: "gold_lib \<Rightarrow> moment option \<Rightarrow> control_rows \<Rightarrow> string list res" where
  "control_dates lib cutoff control = bindE (mapE (row_dates lib cutoff work_date_columns) (cr_work control)) (\<lambda>ws.
     bindE (mapE (row_dates lib cutoff attempt_date_columns) (cr_attempts control)) (\<lambda>as. Inr (concat ws @ concat as)))"

end
