(* ===== verification/Gold_Facts.thy ===== *)
theory Gold_Facts
  imports Gold_Source
begin

text \<open>
  The fact tables of \<^verbatim>\<open>sjd_gold.py\<close>: people flow by minute and by hour, one row per video, operations by hour, and
  the projections of work items and attempts.
\<close>

section \<open>Dictionary literals\<close>

text \<open>A dictionary display evaluates its values in order.\<close>

fun cells :: "(string \<times> pyval res) list \<Rightarrow> row res" where
  "cells [] = Inr []"
| "cells ((n, c) # cs) = bindE c (\<lambda>v. bindE (cells cs) (\<lambda>r. Inr ((n, v) # r)))"

text \<open>A dictionary comprehension: a later entry of the same key wins.\<close>

definition dict_of :: "('k \<times> 'v) list \<Rightarrow> ('k \<times> 'v) list" where
  "dict_of kvs = dict_update [] kvs"

definition float_of :: "gold_lib \<Rightarrow> pyval \<Rightarrow> pyval res" where
  "float_of lib v = bindE (optional_float lib v) (\<lambda>x. Inr (float_cell x))"

definition int_of :: "gold_lib \<Rightarrow> pyval \<Rightarrow> pyval res" where
  "int_of lib v = bindE (optional_int lib v) (\<lambda>x. Inr (int_cell x))"

definition projected_int :: "gold_lib \<Rightarrow> pyval \<Rightarrow> pyval res" where
  "projected_int lib v = bindE (projection_int lib v) (\<lambda>x. Inr (int_cell x))"

definition count_of :: "gold_lib \<Rightarrow> pyval \<Rightarrow> pyval res" where
  "count_of lib v = bindE (py_int lib (por v (PInt 0))) (\<lambda>i. Inr (PInt i))"

definition required_text_of :: "gold_lib \<Rightarrow> row \<Rightarrow> string \<Rightarrow> pyval res" where
  "required_text_of lib r name = bindE (required_value r name) (\<lambda>v. Inr (PStr (gstr lib v)))"

definition date_cell :: "moment option \<Rightarrow> pyval" where
  "date_cell t = (case t of None \<Rightarrow> PNone | Some t \<Rightarrow> PStr (date_text t))"

text \<open>\<open>sorted(rows, key=lambda row: row[name])\<close> for a column of texts.\<close>

definition sort_rows :: "string \<Rightarrow> row list \<Rightarrow> row list" where
  "sort_rows name = sort_key (\<lambda>r. case row_get r name of PStr s \<Rightarrow> s | _ \<Rightarrow> [])"

section \<open>Flow\<close>

type_synonym flow_key = "string \<times> int \<times> string \<times> string"

record flow_group =
  fg_entries :: int
  fg_exits :: int
  fg_work_ids :: "string list"

definition add_flow_group :: "flow_key \<Rightarrow> string \<Rightarrow> int \<Rightarrow> int \<Rightarrow> (flow_key \<times> flow_group) list
    \<Rightarrow> (flow_key \<times> flow_group) list" where
  "add_flow_group key work_id entries exits groups =
     (let g = (case map_of groups key of None \<Rightarrow> \<lparr>fg_entries = 0, fg_exits = 0, fg_work_ids = []\<rparr> | Some g \<Rightarrow> g)
      in dset key \<lparr>fg_entries = fg_entries g + entries, fg_exits = fg_exits g + exits,
                   fg_work_ids = List.insert work_id (fg_work_ids g)\<rparr> groups)"

definition flow_row :: "string \<Rightarrow> string \<Rightarrow> string \<Rightarrow> flow_key \<times> flow_group \<Rightarrow> row" where
  "flow_row column partition_date refreshed_at = (\<lambda>((timestamp, time_key, camera, location), g).
     [(column, PStr timestamp), (''time_key'', PInt time_key), (''camera_id'', PStr camera), (''location_id'', PStr location),
      (''entries'', PInt (fg_entries g)), (''exits'', PInt (fg_exits g)), (''net_flow'', PInt (fg_entries g - fg_exits g)),
      (''source_videos'', PInt (int (length (fg_work_ids g)))), (''refreshed_at'', PStr refreshed_at),
      (''flow_date'', PStr partition_date)])"

definition flow_rows :: "(flow_key \<times> flow_group) list \<Rightarrow> string \<Rightarrow> string \<Rightarrow> string \<Rightarrow> row list" where
  "flow_rows groups column partition_date refreshed_at =
     map (flow_row column partition_date refreshed_at) (sort_key fst groups)"

section \<open>One output\<close>

record fact_groups =
  fa_minute :: "(flow_key \<times> flow_group) list"
  fa_hour :: "(flow_key \<times> flow_group) list"
  fa_videos :: "row list"

definition line_count :: "gold_lib \<Rightarrow> row \<Rightarrow> string \<Rightarrow> string \<Rightarrow> int res" where
  "line_count lib line name name' = bindE (optional_int lib (dget line name (dget line name' (PInt 0)))) (\<lambda>n.
     Inr (case n of None \<Rightarrow> 0 | Some n \<Rightarrow> n))"

definition add_line :: "gold_lib \<Rightarrow> string \<Rightarrow> committed_output \<Rightarrow> moment \<Rightarrow> string \<Rightarrow> string \<Rightarrow> row \<Rightarrow> fact_groups \<Rightarrow> fact_groups res" where
  "add_line lib partition_date co captured camera location line acc =
     bindE (line_observed_at lib line captured) (\<lambda>observed.
       if date_text observed \<noteq> partition_date then Inr acc
       else bindE (line_count lib line ''frame_in_count'' ''entries'') (\<lambda>entries.
            bindE (line_count lib line ''frame_out_count'' ''exits'') (\<lambda>exits.
            let line_camera = gstr lib (por (row_get line ''camera_id'') (PStr camera));
                line_location = gstr lib (por (row_get line ''location_id'') (PStr location));
                minute = floor_minute observed; hour = floor_hour observed
            in Inr (acc\<lparr>fa_minute := add_flow_group (iso minute, hour_of minute * 60 + minute_of minute, line_camera, line_location)
                         (co_work_id co) entries exits (fa_minute acc),
                    fa_hour := add_flow_group (iso hour, hour_of hour * 60, line_camera, line_location)
                         (co_work_id co) entries exits (fa_hour acc)\<rparr>))))"

definition metadata_of :: "committed_output \<Rightarrow> row" where
  "metadata_of co = dict_update (co_work co) (co_run co)"

definition video_row :: "gold_lib \<Rightarrow> string \<Rightarrow> committed_output \<Rightarrow> moment \<Rightarrow> string \<Rightarrow> string \<Rightarrow> row res" where
  "video_row lib partition_date co captured camera location = (let metadata = metadata_of co in
     bindE (optional_float lib (row_get2 metadata ''duration_seconds'' ''video_duration_seconds'')) (\<lambda>duration.
     bindE (optional_float lib (dget metadata ''processing_seconds'' (row_get (co_attempt co) ''processing_seconds''))) (\<lambda>processing.
     cells [(''work_id'', Inr (PStr (co_work_id co))), (''captured_at_utc'', Inr (PStr (iso captured))),
       (''time_key'', Inr (PInt (hour_of captured * 60 + minute_of captured))), (''camera_id'', Inr (PStr camera)),
       (''location_id'', Inr (PStr location)), (''config_sha256'', required_text_of lib metadata ''config_sha256''),
       (''video_duration_seconds'', Inr (float_cell duration)), (''processing_seconds'', Inr (float_cell processing)),
       (''speed_x_realtime'', Inr (case (duration, processing) of
          (Some d, Some p) \<Rightarrow> if 0 < d \<and> 0 < p then PFloat (fdiv d p) else PNone | _ \<Rightarrow> PNone)),
       (''distinct_people'', int_of lib (row_get metadata ''distinct_people'')),
       (''line_in_count'', int_of lib (row_get metadata ''line_in_count'')),
       (''line_out_count'', int_of lib (row_get metadata ''line_out_count'')),
       (''completed_at'', bindE (first_datetime lib (dict_update metadata (co_attempt co))
            [''completed_at'', ''sealed_at'', ''published_at'', ''batch_committed_at'']) (\<lambda>t.
          Inr (optional_iso (case t of None \<Rightarrow> co_published_at co | Some t \<Rightarrow> Some t)))),
       (''capture_date'', Inr (PStr partition_date))])))"

definition add_output :: "gold_lib \<Rightarrow> string \<Rightarrow> committed_output \<Rightarrow> fact_groups \<Rightarrow> fact_groups res" where
  "add_output lib partition_date co acc = bindE (output_captured_at lib co) (\<lambda>captured. case captured of
     None \<Rightarrow> Inr acc
   | Some t \<Rightarrow>
       let metadata = metadata_of co; camera_value = row_get metadata ''camera_id''; location_value = row_get metadata ''location_id'' in
       if camera_value = PNone \<or> location_value = PNone then Inr acc
       else let camera = gstr lib camera_value; location = gstr lib location_value in
         bindE (foldE (add_line lib partition_date co t camera location) (co_line_counts co) acc) (\<lambda>acc.
           if date_text t \<noteq> partition_date then Inr acc
           else bindE (video_row lib partition_date co t camera location) (\<lambda>r. Inr (acc\<lparr>fa_videos := fa_videos acc @ [r]\<rparr>))))"

section \<open>Operations by hour\<close>

definition FAILED_ATTEMPT_STATUSES :: "string list" where
  "FAILED_ATTEMPT_STATUSES = [''FAILED'', ''RETRY_WAIT'', ''TERMINAL_FAILED'', ''DEAD_LETTERED'', ''LEASE_LOST'', ''EXPIRED'']"

definition DEFERRED_ATTEMPT_STATUSES :: "string list" where
  "DEFERRED_ATTEMPT_STATUSES = [''RELEASED'']"

record op_group =
  og_queued :: int
  og_started :: int
  og_succeeded :: int
  og_failed :: int
  og_deferred :: int
  og_video_hours :: pyfloat
  og_processing :: "pyfloat list"

definition new_op_group :: op_group where
  "new_op_group = \<lparr>og_queued = 0, og_started = 0, og_succeeded = 0, og_failed = 0, og_deferred = 0, og_video_hours = 0,
     og_processing = []\<rparr>"

definition update_group :: "string \<Rightarrow> (op_group \<Rightarrow> op_group) \<Rightarrow> (string \<times> op_group) list \<Rightarrow> (string \<times> op_group) list" where
  "update_group hour f groups =
     dset hour (f (case map_of groups hour of None \<Rightarrow> new_op_group | Some g \<Rightarrow> g)) groups"

definition on_date :: "string \<Rightarrow> moment option \<Rightarrow> bool" where
  "on_date partition_date t = (case t of None \<Rightarrow> False | Some t \<Rightarrow> date_text t = partition_date)"

definition count_queued :: "gold_lib \<Rightarrow> string \<Rightarrow> row \<Rightarrow> (string \<times> op_group) list \<Rightarrow> (string \<times> op_group) list res" where
  "count_queued lib partition_date w groups =
     bindE (first_datetime lib w [''queued_at'', ''queue_entered_at'', ''created_at'']) (\<lambda>t.
       Inr (if on_date partition_date t then update_group (hour_text (the t)) (\<lambda>g. g\<lparr>og_queued := og_queued g + 1\<rparr>) groups
            else groups))"

definition attempt_succeeded :: "gold_lib \<Rightarrow> committed_output option \<Rightarrow> row \<Rightarrow> bool" where
  "attempt_succeeded lib output a \<longleftrightarrow> output \<noteq> None \<and> gstr lib (por (row_get a ''status'') (PStr [])) = ''SUCCEEDED''"

definition completion_columns :: "gold_lib \<Rightarrow> committed_output option \<Rightarrow> row \<Rightarrow> string list" where
  "completion_columns lib output a = (let status = gstr lib (por (row_get a ''status'') (PStr [])) in
     if attempt_succeeded lib output a then [''published_at'', ''batch_completed_at'', ''completed_at'']
     else (if status = ''EXPIRED'' then [''batch_expired_at'', ''work_updated_at'']
           else if status \<in> set FAILED_ATTEMPT_STATUSES then [''failed_at'', ''batch_completed_at'', ''work_updated_at'']
           else []) @ [''completed_at'', ''batch_completed_at'', ''sealed_at'', ''batch_sealed_at''])"

text \<open>What a completed attempt adds to the group of its hour.\<close>

definition count_outcome :: "gold_lib \<Rightarrow> committed_output option \<Rightarrow> row \<Rightarrow> (op_group \<Rightarrow> op_group) res" where
  "count_outcome lib output a = (let status = gstr lib (por (row_get a ''status'') (PStr [])) in
     if attempt_succeeded lib output a
     then bindE (optional_float lib (dget (co_run (the output)) ''duration_seconds'' (row_get a ''source_duration_seconds''))) (\<lambda>duration.
       Inr (\<lambda>g. g\<lparr>og_succeeded := og_succeeded g + 1,
              og_video_hours := fadd (og_video_hours g) (fdiv (case duration of None \<Rightarrow> 0 | Some x \<Rightarrow> x) 3600)\<rparr>))
     else if status \<in> set FAILED_ATTEMPT_STATUSES then Inr (\<lambda>g. g\<lparr>og_failed := og_failed g + 1\<rparr>)
     else if status \<in> set DEFERRED_ATTEMPT_STATUSES then Inr (\<lambda>g. g\<lparr>og_deferred := og_deferred g + 1\<rparr>)
     else Inr id)"

definition attempt_processing :: "gold_lib \<Rightarrow> committed_output option \<Rightarrow> row \<Rightarrow> pyfloat option res" where
  "attempt_processing lib output a = optional_float lib (if row_get a ''processing_seconds'' \<noteq> PNone
     then row_get a ''processing_seconds''
     else (case output of None \<Rightarrow> PNone | Some co \<Rightarrow> row_get (co_run co) ''processing_seconds''))"

definition count_attempt :: "gold_lib \<Rightarrow> string \<Rightarrow> (string \<times> committed_output) list \<Rightarrow> row \<Rightarrow> (string \<times> op_group) list
    \<Rightarrow> (string \<times> op_group) list res" where
  "count_attempt lib partition_date by_attempt a groups =
     bindE (first_datetime lib a [''claimed_at'', ''created_at'']) (\<lambda>claimed.
     let groups1 = (if on_date partition_date claimed
           then update_group (hour_text (the claimed)) (\<lambda>g. g\<lparr>og_started := og_started g + 1\<rparr>) groups else groups);
         output = map_of by_attempt (gstr lib (por (row_get a ''attempt_id'') (PStr [])))
     in bindE (first_datetime lib a (completion_columns lib output a)) (\<lambda>completed.
       if \<not> on_date partition_date completed then Inr groups1
       else bindE (count_outcome lib output a) (\<lambda>f.
         bindE (attempt_processing lib output a) (\<lambda>processing.
           Inr (update_group (hour_text (the completed)) (\<lambda>g. let g = f g in case processing of None \<Rightarrow> g
             | Some x \<Rightarrow> g\<lparr>og_processing := og_processing g @ [x]\<rparr>) groups1)))))"

definition operations_row :: "gold_lib \<Rightarrow> string \<Rightarrow> string \<Rightarrow> string \<times> op_group \<Rightarrow> row res" where
  "operations_row lib partition_date refreshed_at = (\<lambda>(hour, g). bindE (required_datetime lib (PStr hour)) (\<lambda>t.
     Inr [(''hour_utc'', PStr hour), (''time_key'', PInt (hour_of t * 60)), (''queued'', PInt (og_queued g)),
       (''started'', PInt (og_started g)), (''succeeded'', PInt (og_succeeded g)), (''failed'', PInt (og_failed g)),
       (''deferred'', PInt (og_deferred g)), (''video_hours_completed'', PFloat (og_video_hours g)),
       (''average_processing_seconds'', if og_processing g = [] then PNone else PFloat (fmean (og_processing g))),
       (''p95_processing_seconds'', float_cell (percentile (og_processing g) (fround (95 / 100)))),
       (''refreshed_at'', PStr refreshed_at), (''operation_date'', PStr partition_date)]))"

definition operations_rows :: "gold_lib \<Rightarrow> control_rows \<Rightarrow> committed_output list \<Rightarrow> string \<Rightarrow> string \<Rightarrow> row list res" where
  "operations_rows lib control committed partition_date refreshed_at =
     (let by_attempt = dict_of (map (\<lambda>co. (co_attempt_id co, co)) committed) in
      bindE (foldE (count_queued lib partition_date) (cr_work control) []) (\<lambda>groups.
      bindE (foldE (count_attempt lib partition_date by_attempt) (cr_attempts control) groups) (\<lambda>groups.
        mapE (operations_row lib partition_date refreshed_at) (sort_key fst groups))))"

section \<open>The fact rows of a date\<close>

record fact_rows =
  fr_flow_minute :: "row list"
  fr_flow_hour :: "row list"
  fr_video :: "row list"
  fr_operations_hour :: "row list"

definition fact_rows_for_date :: "gold_lib \<Rightarrow> committed_output list \<Rightarrow> control_rows \<Rightarrow> string \<Rightarrow> string \<Rightarrow> fact_rows res" where
  "fact_rows_for_date lib committed control partition_date refreshed_at =
     bindE (foldE (add_output lib partition_date) committed \<lparr>fa_minute = [], fa_hour = [], fa_videos = []\<rparr>) (\<lambda>acc.
     bindE (operations_rows lib control committed partition_date refreshed_at) (\<lambda>ops.
       Inr \<lparr>fr_flow_minute = flow_rows (fa_minute acc) ''minute_utc'' partition_date refreshed_at,
            fr_flow_hour = flow_rows (fa_hour acc) ''hour_utc'' partition_date refreshed_at,
            fr_video = sort_rows ''work_id'' (fa_videos acc), fr_operations_hour = ops\<rparr>))"

text \<open>
  The operational tables of \<^verbatim>\<open>sjd_gold.py\<close>: one row per work item and one per attempt, projected from the rows of the
  control database, the registered payload and the committed output.
\<close>

section \<open>Work items\<close>

definition projected_status :: "gold_lib \<Rightarrow> row \<Rightarrow> moment option \<Rightarrow> moment \<Rightarrow> string res" where
  "projected_status lib w available refreshed_at = (let status = gstr lib (por (row_get w ''status'') (PStr [])) in
     if status = ''READY'' then
       (case available of
          None \<Rightarrow> Inr ''QUEUED''
        | Some t \<Rightarrow> if t \<le> refreshed_at then Inr ''QUEUED''
            else bindE (py_int lib (por (row_get w ''attempt_count'') (PInt 0))) (\<lambda>n.
              Inr (if 0 < n then ''RETRY_WAIT'' else ''QUEUED'')))
     else if status = ''DEAD'' then Inr ''DEAD_LETTERED'' else Inr status)"

definition operational_work_row :: "gold_lib \<Rightarrow> row \<Rightarrow> row option \<Rightarrow> moment \<Rightarrow> row res" where
  "operational_work_row lib w lease_attempt refreshed_at =
     bindE (merge_payload lib w) (\<lambda>merged.
     bindE (optional_datetime lib (row_get w ''created_at'')) (\<lambda>created.
     bindE (optional_datetime lib (row_get w ''updated_at'')) (\<lambda>updated.
     bindE (optional_datetime lib (row_get w ''available_at'')) (\<lambda>available.
     bindE (optional_datetime lib (row_get w ''lease_expires_at'')) (\<lambda>lease_expires.
     bindE (optional_datetime lib (row_get merged ''captured_at_utc'')) (\<lambda>captured.
     bindE (projected_status lib w available refreshed_at) (\<lambda>status.
     let error = optional_text lib (row_get w ''last_error''); config = row_get merged ''config_json'';
         merged_text = (\<lambda>n. Inr (optional_text lib (row_get merged n))); work_text = (\<lambda>n. Inr (optional_text lib (row_get w n)))
     in cells [(''work_id'', required_text_of lib w ''work_id''),
       (''asset_id'', merged_text ''asset_id''), (''asset_version'', merged_text ''asset_version''),
       (''source_uri'', Inr (optional_text lib (row_get2 merged ''source_uri'' ''source_video''))),
       (''manifest_uri'', merged_text ''manifest_uri''), (''source_etag'', merged_text ''source_etag''),
       (''expected_size_bytes'', projected_int lib (row_get merged ''expected_size_bytes'')),
       (''expected_sha256'', merged_text ''expected_sha256''), (''camera_id'', merged_text ''camera_id''),
       (''location_id'', merged_text ''location_id''), (''captured_at_utc'', Inr (optional_iso captured)),
       (''camera_timezone'', merged_text ''camera_timezone''),
       (''duration_seconds'', float_of lib (dget merged ''duration_seconds'' (row_get w ''duration_seconds''))),
       (''priority'', projected_int lib (row_get merged ''priority'')), (''status'', Inr (PStr status)),
       (''received_at'', Inr (optional_iso created)), (''queued_at'', Inr (optional_iso created)),
       (''not_before_at'', Inr (optional_iso available)), (''attempt_count'', count_of lib (row_get w ''attempt_count'')),
       (''max_attempts'', count_of lib (row_get w ''max_attempts'')),
       (''lease_owner_attempt_id'', work_text ''lease_attempt_id''), (''lease_dispatcher_id'', work_text ''lease_owner''),
       (''lease_acquired_at'', bindE (optional_datetime lib (case lease_attempt of None \<Rightarrow> PNone
          | Some a \<Rightarrow> row_get a ''created_at'')) (\<lambda>t. Inr (optional_iso t))),
       (''lease_expires_at'', Inr (optional_iso lease_expires)), (''last_heartbeat_at'', Inr PNone),
       (''committed_attempt_id'', work_text ''committed_attempt_id''),
       (''completed_at'', Inr (optional_iso (if status \<in> {''SUCCEEDED'', ''DEAD_LETTERED''} then updated else None))),
       (''last_error_category'', Inr (if error \<noteq> PNone then PStr ''PROCESSING'' else PNone)),
       (''last_error_type'', Inr (if status = ''DEAD_LETTERED'' then PStr ''DeadLettered'' else PNone)),
       (''last_error_message'', Inr error),
       (''config_json'', if config \<noteq> PNone then bindE (config_json lib config) (\<lambda>s. Inr (PStr s)) else Inr PNone),
       (''config_sha256'', work_text ''config_sha256''), (''capture_date'', Inr (date_cell captured)),
       (''last_replay_id'', work_text ''last_replay_id''),
       (''replay_generation'', count_of lib (row_get w ''replay_generation'')),
       (''queue_entered_at'', Inr (optional_iso created))])))))))"

section \<open>Attempts\<close>

definition attempt_terminal_record :: "gold_lib \<Rightarrow> row \<Rightarrow> row res" where
  "attempt_terminal_record lib a = (let raw = row_get a ''records_json'' in
     if raw = PNone \<or> raw = PStr [] then Inr []
     else bindE (case raw of PStr s \<Rightarrow> (case json_loads lib s of None \<Rightarrow> Inl GoldSourceError | Some v \<Rightarrow> Inr v) | _ \<Rightarrow> Inr raw)
       (\<lambda>records. case records of
          PList vs \<Rightarrow> if \<not> list_all is_row vs then Inl GoldSourceError
            else bindE (terminals_of (map as_row vs)) (\<lambda>terminals. case terminals of
              [] \<Rightarrow> Inr []
            | [terminal] \<Rightarrow> bindE (loaded_object lib (dget terminal ''payload_json'' (PStr ''{}''))) (\<lambda>payload.
                Inr (dict_update payload terminal))
            | _ \<Rightarrow> Inl GoldSourceError)
        | _ \<Rightarrow> Inl GoldSourceError))"

definition operational_attempt_row :: "gold_lib \<Rightarrow> row \<Rightarrow> row \<Rightarrow> committed_output option \<Rightarrow> row res" where
  "operational_attempt_row lib a w committed =
     bindE (attempt_terminal_record lib a) (\<lambda>record.
     let run = (case committed of None \<Rightarrow> record | Some co \<Rightarrow> co_run co);
         metadata = dict_update (dict_update w record) run
     in bindE (optional_datetime lib (row_get a ''created_at'')) (\<lambda>claimed.
     bindE (optional_datetime lib (row_get a ''sealed_at'')) (\<lambda>sealed.
     bindE (first_datetime lib a [''published_at'', ''batch_completed_at'', ''completed_at'', ''sealed_at'', ''work_updated_at'']) (\<lambda>completed.
     bindE (optional_datetime lib (row_get metadata ''captured_at_utc'')) (\<lambda>captured.
     let meta_text = (\<lambda>n. Inr (optional_text lib (row_get metadata n)));
         meta_text2 = (\<lambda>n n'. Inr (optional_text lib (row_get2 metadata n n')))
     in cells [(''attempt_id'', required_text_of lib a ''attempt_id''), (''work_id'', required_text_of lib a ''work_id''),
       (''dispatcher_id'', Inr (optional_text lib (row_get2 a ''dispatcher_id'' ''batch_owner''))),
       (''pipeline_run_id'', meta_text ''pipeline_run_id''), (''activity_run_id'', meta_text ''activity_run_id''),
       (''fabric_job_instance_id'', meta_text2 ''fabric_job_instance_id'' ''process_attempt_id''),
       (''sdk_version'', meta_text2 ''sdk_version'' ''package_version''),
       (''bundle_manifest_sha256'', meta_text2 ''bundle_manifest_sha256'' ''manifest_sha256''),
       (''config_sha256'', Inr (optional_text lib (dget metadata ''config_sha256'' (row_get w ''config_sha256'')))),
       (''status'', Inr (PStr (gstr lib (por (row_get a ''status'') (PStr []))))),
       (''claimed_at'', Inr (optional_iso claimed)), (''staging_started_at'', Inr (optional_iso claimed)),
       (''inference_started_at'', Inr (optional_iso claimed)), (''writing_started_at'', Inr (optional_iso sealed)),
       (''completed_at'', Inr (optional_iso completed)), (''last_heartbeat_at'', Inr (optional_iso sealed)),
       (''input_sha256'', meta_text2 ''input_sha256'' ''input_payload_sha256''),
       (''source_size_bytes'', projected_int lib (row_get2 metadata ''source_size_bytes'' ''expected_size_bytes'')),
       (''source_duration_seconds'', float_of lib (row_get2 metadata ''source_duration_seconds'' ''duration_seconds'')),
       (''source_fps'', float_of lib (row_get metadata ''source_fps'')),
       (''total_source_frames'', projected_int lib (row_get metadata ''total_source_frames'')),
       (''processed_frames'', projected_int lib (row_get metadata ''processed_frames'')),
       (''effective_sample_fps'', float_of lib (row_get2 metadata ''effective_sample_fps'' ''sample_fps'')),
       (''processing_seconds'', float_of lib (row_get metadata ''processing_seconds'')),
       (''distinct_people'', projected_int lib (row_get metadata ''distinct_people'')),
       (''line_in_count'', projected_int lib (row_get metadata ''line_in_count'')),
       (''line_out_count'', projected_int lib (row_get metadata ''line_out_count'')),
       (''retryable'', optional_boolean (row_get metadata ''retryable'')),
       (''error_category'', meta_text ''error_category''), (''error_type'', meta_text ''error_type''),
       (''error_message'', Inr (optional_text lib (dget metadata ''error_message'' (row_get a ''recovery_outcome'')))),
       (''capture_date'', Inr (date_cell captured)),
       (''worker_execution_id'', meta_text2 ''worker_execution_id'' ''executor_identity'')])))))"

section \<open>Both tables\<close>

text \<open>The rows of \<open>attempts\<close> and \<open>work\<close> by their identifier, where it is not null.\<close>

definition rows_by :: "gold_lib \<Rightarrow> string \<Rightarrow> (row \<Rightarrow> 'a res) \<Rightarrow> row list \<Rightarrow> (string \<times> 'a) list res" where
  "rows_by lib name f rows = bindE (mapE (\<lambda>r. bindE (f r) (\<lambda>x. Inr (gstr lib (row_get r name), x)))
     (filter (\<lambda>r. row_get r name \<noteq> PNone) rows)) (\<lambda>kvs. Inr (dict_of kvs))"

definition operational_rows :: "gold_lib \<Rightarrow> control_rows \<Rightarrow> committed_output list \<Rightarrow> string \<Rightarrow> (row list \<times> row list) res" where
  "operational_rows lib control committed refreshed_at =
     bindE (rows_by lib ''attempt_id'' Inr (cr_attempts control)) (\<lambda>attempts_by_id.
     bindE (rows_by lib ''work_id'' (merge_payload lib) (cr_work control)) (\<lambda>work_by_id.
     bindE (required_datetime lib (PStr refreshed_at)) (\<lambda>refreshed.
     let by_attempt = dict_of (map (\<lambda>co. (co_attempt_id co, co)) committed) in
     bindE (mapE (\<lambda>w. operational_work_row lib w
         (map_of attempts_by_id (gstr lib (por (row_get w ''lease_attempt_id'') (PStr [])))) refreshed) (cr_work control)) (\<lambda>ws.
     bindE (mapE (\<lambda>a. operational_attempt_row lib a
         (dget work_by_id (gstr lib (por (row_get a ''work_id'') (PStr []))) [])
         (map_of by_attempt (gstr lib (por (row_get a ''attempt_id'') (PStr []))))) (cr_attempts control)) (\<lambda>as.
       Inr (sort_rows ''work_id'' ws, sort_rows ''attempt_id'' as))))))"

end
