(* ===== verification/Gold_Dimensions.thy ===== *)
theory Gold_Dimensions
  imports Gold_Facts
begin

text \<open>
  The dimension tables of \<^verbatim>\<open>sjd_gold.py\<close> and the validation of all tables: unique keys and resolved references.
\<close>

section \<open>Sources of the dimensions\<close>

definition dimension_source_row :: "gold_lib \<Rightarrow> committed_output \<Rightarrow> row option res" where
  "dimension_source_row lib co =
     (let r = dict_update (metadata_of co) [(''work_id'', PStr (co_work_id co))] in
      bindE (output_captured_at lib co) (\<lambda>captured.
        Inr (case captured of
          None \<Rightarrow> None
        | Some t \<Rightarrow> if row_get r ''camera_id'' = PNone \<or> row_get r ''location_id'' = PNone then None
            else Some (dict_update r [(''captured_at_utc'', PStr (iso t))]))))"

definition dimension_source_rows :: "gold_lib \<Rightarrow> committed_output list \<Rightarrow> row list res" where
  "dimension_source_rows lib committed = bindE (mapE (dimension_source_row lib) committed) (\<lambda>rs.
     Inr (map the (filter (\<lambda>r. r \<noteq> None) rs)))"

definition FACT_DATE_COLUMNS :: "(string \<times> string) list" where
  "FACT_DATE_COLUMNS = [(''gold_flow_minute'', ''flow_date''), (''gold_flow_hour'', ''flow_date''),
     (''gold_video'', ''capture_date''), (''gold_operations_hour'', ''operation_date'')]"

type_synonym tables = "(string \<times> row list) list"

definition table_rows :: "tables \<Rightarrow> string \<Rightarrow> row list res" where
  "table_rows ts name = (case map_of ts name of None \<Rightarrow> Inl KeyError | Some rows \<Rightarrow> Inr rows)"

definition dimension_fact_dates :: "gold_lib \<Rightarrow> tables \<Rightarrow> string list res" where
  "dimension_fact_dates lib facts = bindE (mapE (\<lambda>(table, column). bindE (table_rows facts table) (\<lambda>rows.
       Inr (map (\<lambda>r. gstr lib (row_get r column)) (filter (\<lambda>r. truthy (row_get r column)) rows)))) FACT_DATE_COLUMNS) (\<lambda>dss.
     Inr (sort (remdups (concat dss))))"

definition parsed_date :: "gold_lib \<Rightarrow> string \<Rightarrow> int res" where
  "parsed_date lib s = (case date_fromisoformat lib s of None \<Rightarrow> Inl ValueError | Some d \<Rightarrow> Inr d)"

definition date_range :: "gold_lib \<Rightarrow> string list \<Rightarrow> int \<Rightarrow> int list res" where
  "date_range lib values fallback = (if values = [] then Inr [fallback]
     else bindE (parsed_date lib (hd values)) (\<lambda>start. bindE (parsed_date lib (last values)) (\<lambda>end'.
       Inr [start..end'])))"

section \<open>Rows\<close>

definition date_dimension_row :: "string \<Rightarrow> int \<Rightarrow> row" where
  "date_dimension_row refreshed_at d = (case (ymd d, isocalendar d) of ((year, month, day), (iso_year, iso_week, iso_day)) \<Rightarrow>
     [(''date_key'', PStr (date_isoformat d)), (''calendar_year'', PInt year),
      (''calendar_quarter'', PInt ((month - 1) div 3 + 1)), (''calendar_month'', PInt month),
      (''month_name'', PStr (month_names ! nat (month - 1))), (''month_short_name'', PStr (take 3 (month_names ! nat (month - 1)))),
      (''year_month'', PStr (int_dec year @ ''-'' @ pad_int 2 month)), (''day_of_month'', PInt day),
      (''iso_day_of_week'', PInt iso_day), (''iso_week_year'', PInt iso_year), (''iso_week_of_year'', PInt iso_week),
      (''iso_year_week'', PStr (int_dec iso_year @ ''-W'' @ pad_int 2 iso_week)),
      (''day_name'', PStr (day_names ! nat (iso_day - 1))), (''is_weekend'', PBool (iso_day \<in> {6, 7})),
      (''refreshed_at'', PStr refreshed_at)])"

definition time_dimension_row :: "string \<Rightarrow> int \<Rightarrow> row" where
  "time_dimension_row refreshed_at minute = [(''time_key'', PInt minute), (''hour_24'', PInt (minute div 60)),
     (''minute_of_hour'', PInt (minute mod 60)), (''time_label'', PStr (pad_int 2 (minute div 60) @ '':'' @ pad_int 2 (minute mod 60))),
     (''hour_label'', PStr (pad_int 2 (minute div 60) @ '':00'')), (''day_part'', PStr (day_part (minute div 60))),
     (''refreshed_at'', PStr refreshed_at)]"

text \<open>\<open>groups[key].append(row)\<close> on a \<open>defaultdict(list)\<close>\<close>

definition append_to :: "'k \<Rightarrow> 'v \<Rightarrow> ('k \<times> 'v list) list \<Rightarrow> ('k \<times> 'v list) list" where
  "append_to k v groups = dset k ((case map_of groups k of None \<Rightarrow> [] | Some vs \<Rightarrow> vs) @ [v]) groups"

definition distinct_texts :: "gold_lib \<Rightarrow> (row \<Rightarrow> pyval) \<Rightarrow> row list \<Rightarrow> string list" where
  "distinct_texts lib f rows = remdups (map (gstr lib \<circ> f) rows)"

record dimension_groups =
  dg_cameras :: "(string \<times> row list) list"
  dg_locations :: "(string \<times> row list) list"
  dg_configs :: "(string \<times> row list) list"
  dg_videos :: "row list"

definition video_dimension_row :: "gold_lib \<Rightarrow> string \<Rightarrow> row \<Rightarrow> moment \<Rightarrow> string \<Rightarrow> string \<Rightarrow> string \<Rightarrow> row" where
  "video_dimension_row lib refreshed_at r captured camera location config_hash =
     [(''work_id'', PStr (gstr lib (row_get r ''work_id''))),
      (''asset_id'', PStr (gstr lib (por (row_get r ''asset_id'') (row_get r ''work_id'')))),
      (''asset_version'', PStr (gstr lib (por (row_get r ''asset_version'') (PStr ''1'')))), (''camera_id'', PStr camera),
      (''location_id'', PStr location), (''captured_at_utc'', PStr (iso captured)), (''capture_date'', PStr (date_text captured)),
      (''time_key'', PInt (hour_of captured * 60 + minute_of captured)),
      (''camera_timezone'', PStr (gstr lib (por (row_get r ''camera_timezone'') (PStr ''UTC'')))),
      (''config_sha256'', PStr config_hash), (''refreshed_at'', PStr refreshed_at)]"

definition group_row :: "gold_lib \<Rightarrow> string \<Rightarrow> row \<Rightarrow> dimension_groups \<Rightarrow> dimension_groups res" where
  "group_row lib refreshed_at r g =
     bindE (required_datetime lib (row_get r ''captured_at_utc'')) (\<lambda>captured.
     bindE (required_value r ''camera_id'') (\<lambda>camera_value.
     bindE (required_value r ''location_id'') (\<lambda>location_value.
     bindE (required_value r ''config_sha256'') (\<lambda>config_value.
     let camera = gstr lib camera_value; location = gstr lib location_value; config_hash = gstr lib config_value in
     bindE (item_get r ''work_id'') (\<lambda>_.
       Inr \<lparr>dg_cameras = append_to camera r (dg_cameras g), dg_locations = append_to location r (dg_locations g),
            dg_configs = append_to config_hash r (dg_configs g),
            dg_videos = dg_videos g @ [video_dimension_row lib refreshed_at r captured camera location config_hash]\<rparr>)))))"

definition captures_of :: "gold_lib \<Rightarrow> row list \<Rightarrow> (moment \<times> moment) res" where
  "captures_of lib rows = bindE (mapE (\<lambda>r. required_datetime lib (row_get r ''captured_at_utc'')) rows) (\<lambda>ts.
     if ts = [] then Inl ValueError else Inr (Min (set ts), Max (set ts)))"

definition work_count :: "gold_lib \<Rightarrow> row list \<Rightarrow> pyval" where
  "work_count lib rows = PInt (int (length (distinct_texts lib (\<lambda>r. row_get r ''work_id'') rows)))"

definition camera_row :: "gold_lib \<Rightarrow> string \<Rightarrow> string \<times> row list \<Rightarrow> row res" where
  "camera_row lib refreshed_at = (\<lambda>(camera, rows).
     case (distinct_texts lib (\<lambda>r. row_get r ''location_id'') rows,
           distinct_texts lib (\<lambda>r. por (row_get r ''camera_timezone'') (PStr ''UTC'')) rows) of
       ([location], [zone]) \<Rightarrow> if \<not> zone_known lib zone then Inl GoldSourceError
         else bindE (captures_of lib rows) (\<lambda>(first, last).
           Inr [(''camera_id'', PStr camera), (''location_id'', PStr location), (''camera_timezone'', PStr zone),
             (''first_capture_utc'', PStr (iso first)), (''last_capture_utc'', PStr (iso last)),
             (''video_count'', work_count lib rows), (''refreshed_at'', PStr refreshed_at)])
     | _ \<Rightarrow> Inl GoldValidationError)"

definition location_row :: "gold_lib \<Rightarrow> string \<Rightarrow> string \<times> row list \<Rightarrow> row res" where
  "location_row lib refreshed_at = (\<lambda>(location, rows). bindE (captures_of lib rows) (\<lambda>(first, last).
     Inr [(''location_id'', PStr location), (''first_capture_utc'', PStr (iso first)), (''last_capture_utc'', PStr (iso last)),
       (''camera_count'', PInt (int (length (distinct_texts lib (\<lambda>r. row_get r ''camera_id'') rows)))),
       (''video_count'', work_count lib rows), (''refreshed_at'', PStr refreshed_at)]))"

definition config_columns :: "string list" where
  "config_columns = [''pipeline'', ''device_variant'', ''device'', ''batch_size'', ''sample_fps'', ''detection_threshold'',
     ''use_fp16'', ''detector_model'', ''camera_motion_compensation'']"

definition config_row :: "gold_lib \<Rightarrow> string \<Rightarrow> string \<times> row list \<Rightarrow> row res" where
  "config_row lib refreshed_at = (\<lambda>(config_hash, rows).
     bindE (mapE (\<lambda>r. config_json lib (dget r ''config_json'' (PDict []))) rows) (\<lambda>values.
     case remdups values of
       [raw] \<Rightarrow> (case json_loads lib raw of
           None \<Rightarrow> Inl ValueError
         | Some (PDict parsed) \<Rightarrow> bindE (captures_of lib rows) (\<lambda>(first, last).
             Inr ([(''config_sha256'', PStr config_hash), (''config_json'', PStr raw)]
               @ map (\<lambda>n. (n, row_get parsed n)) config_columns
               @ [(''counting_line_json'', if row_get parsed ''line'' \<noteq> PNone
                     then PStr (gcanonical lib (row_get parsed ''line'')) else PNone),
                  (''first_capture_utc'', PStr (iso first)), (''last_capture_utc'', PStr (iso last)),
                  (''video_count'', work_count lib rows), (''refreshed_at'', PStr refreshed_at)]))
         | Some _ \<Rightarrow> Inl AttributeError)
     | _ \<Rightarrow> Inl GoldValidationError))"

definition dimension_metadata_rows :: "gold_lib \<Rightarrow> row list \<Rightarrow> int list \<Rightarrow> string \<Rightarrow> tables res" where
  "dimension_metadata_rows lib metadata dates refreshed_at =
     bindE (foldE (group_row lib refreshed_at) metadata
       \<lparr>dg_cameras = [], dg_locations = [], dg_configs = [], dg_videos = []\<rparr>) (\<lambda>g.
     bindE (mapE (camera_row lib refreshed_at) (sort_key fst (dg_cameras g))) (\<lambda>cameras.
     bindE (mapE (location_row lib refreshed_at) (sort_key fst (dg_locations g))) (\<lambda>locations.
     bindE (mapE (config_row lib refreshed_at) (sort_key fst (dg_configs g))) (\<lambda>configs.
       Inr [(''gold_dim_date'', map (date_dimension_row refreshed_at) dates),
         (''gold_dim_time'', map (time_dimension_row refreshed_at) [0..1439]), (''gold_dim_camera'', cameras),
         (''gold_dim_location'', locations), (''gold_dim_video'', sort_rows ''work_id'' (dg_videos g)),
         (''gold_dim_model_config'', configs)]))))"

definition dimension_rows :: "gold_lib \<Rightarrow> committed_output list \<Rightarrow> tables \<Rightarrow> string \<Rightarrow> tables res" where
  "dimension_rows lib committed facts refreshed_at =
     bindE (dimension_source_rows lib committed) (\<lambda>metadata.
     bindE (dimension_fact_dates lib facts) (\<lambda>fact_dates.
     bindE (required_datetime lib (PStr refreshed_at)) (\<lambda>refreshed.
     bindE (date_range lib fact_dates (day_of refreshed)) (\<lambda>dates.
       dimension_metadata_rows lib metadata dates refreshed_at))))"

section \<open>Validation\<close>

definition PRIMARY_KEYS :: "(string \<times> string) list" where
  "PRIMARY_KEYS = [(''gold_work_operations'', ''work_id''), (''gold_attempt_operations'', ''attempt_id''),
     (''gold_dim_date'', ''date_key''), (''gold_dim_time'', ''time_key''), (''gold_dim_camera'', ''camera_id''),
     (''gold_dim_location'', ''location_id''), (''gold_dim_video'', ''work_id''), (''gold_dim_model_config'', ''config_sha256'')]"

definition RELATIONSHIPS :: "(string \<times> string \<times> string \<times> string) list" where
  "RELATIONSHIPS = [(''gold_flow_minute'', ''flow_date'', ''gold_dim_date'', ''date_key''),
     (''gold_flow_hour'', ''flow_date'', ''gold_dim_date'', ''date_key''),
     (''gold_video'', ''capture_date'', ''gold_dim_date'', ''date_key''),
     (''gold_operations_hour'', ''operation_date'', ''gold_dim_date'', ''date_key''),
     (''gold_flow_minute'', ''time_key'', ''gold_dim_time'', ''time_key''),
     (''gold_flow_hour'', ''time_key'', ''gold_dim_time'', ''time_key''),
     (''gold_video'', ''time_key'', ''gold_dim_time'', ''time_key''),
     (''gold_operations_hour'', ''time_key'', ''gold_dim_time'', ''time_key''),
     (''gold_flow_minute'', ''camera_id'', ''gold_dim_camera'', ''camera_id''),
     (''gold_flow_hour'', ''camera_id'', ''gold_dim_camera'', ''camera_id''),
     (''gold_video'', ''camera_id'', ''gold_dim_camera'', ''camera_id''),
     (''gold_flow_minute'', ''location_id'', ''gold_dim_location'', ''location_id''),
     (''gold_flow_hour'', ''location_id'', ''gold_dim_location'', ''location_id''),
     (''gold_video'', ''location_id'', ''gold_dim_location'', ''location_id''),
     (''gold_video'', ''config_sha256'', ''gold_dim_model_config'', ''config_sha256''),
     (''gold_video'', ''work_id'', ''gold_dim_video'', ''work_id'')]"

text \<open>The values of a column, as members of a set: an unhashable one raises.\<close>

definition column_values :: "tables \<Rightarrow> string \<Rightarrow> string \<Rightarrow> pyval list res" where
  "column_values ts table column = bindE (table_rows ts table) (\<lambda>rows. let vs = map (\<lambda>r. row_get r column) rows in
     if list_ex unhashable vs then Inl TypeError else Inr vs)"

text \<open>Members of a set are equal when they compare equal.\<close>

fun py_distinct :: "pyval list \<Rightarrow> bool" where
  "py_distinct [] = True"
| "py_distinct (v # vs) = (\<not> list_ex (py_eq v) vs \<and> py_distinct vs)"

definition check_primary_key :: "tables \<Rightarrow> string \<times> string \<Rightarrow> unit res" where
  "check_primary_key ts = (\<lambda>(table, key). bindE (table_rows ts table) (\<lambda>rows. let values = map (\<lambda>r. row_get r key) rows in
     if PNone \<in> set values then Inl GoldValidationError
     else if list_ex unhashable values then Inl TypeError
     else if py_distinct values then Inr () else Inl GoldValidationError))"

definition check_reference :: "tables \<Rightarrow> string \<Rightarrow> string \<Rightarrow> string \<Rightarrow> string \<Rightarrow> unit res" where
  "check_reference ts fact_table fact_key dimension_table dimension_key =
     bindE (column_values ts dimension_table dimension_key) (\<lambda>keys.
     bindE (column_values ts fact_table fact_key) (\<lambda>values.
       if list_all (\<lambda>v. list_ex (py_eq v) keys) values then Inr () else Inl GoldValidationError))"

fun all_ok :: "unit res list \<Rightarrow> unit res" where
  "all_ok [] = Inr ()"
| "all_ok (c # cs) = bindE c (\<lambda>_. all_ok cs)"

definition validate_tables :: "tables \<Rightarrow> nat res" where
  "validate_tables ts = bindE (all_ok (map (check_primary_key ts) PRIMARY_KEYS)) (\<lambda>_.
     bindE (check_reference ts ''gold_attempt_operations'' ''work_id'' ''gold_work_operations'' ''work_id'') (\<lambda>_.
     bindE (all_ok (map (\<lambda>(ft, fk, dt, dk). check_reference ts ft fk dt dk) RELATIONSHIPS)) (\<lambda>_.
       Inr (length PRIMARY_KEYS + length RELATIONSHIPS + 1))))"

end
