(* ===== verification/Gold_Job.thy ===== *)
theory Gold_Job
  imports Gold_Dimensions
begin

text \<open>
  \<open>LocalGoldJob\<close> of \<^verbatim>\<open>sjd_gold.py\<close> on the JSON tables: the plan of the dates to rebuild, the facts, the dimensions,
  the validation and the whole run.  The source is a function of the number of the read, since other processes
  change the control database between the reads, and so is the clock.  An exception leaves the tables as
  they are at that point.
\<close>

section \<open>Operations on the tables and the state\<close>

record gold_world =
  gw_store :: json_store
  gw_state :: gold_state

type_synonym 'a gold = "gold_world \<Rightarrow> 'a res \<times> gold_world"

definition returnG :: "'a res \<Rightarrow> 'a gold" where
  "returnG r w = (r, w)"

definition bindG :: "'a gold \<Rightarrow> ('a \<Rightarrow> 'b gold) \<Rightarrow> 'b gold" where
  "bindG m f w = (case m w of (Inl e, w') \<Rightarrow> (Inl e, w') | (Inr x, w') \<Rightarrow> f x w')"

definition readG :: "(gold_world \<Rightarrow> 'a res) \<Rightarrow> 'a gold" where
  "readG f w = (f w, w)"

definition storeG :: "(json_store \<Rightarrow> ('a \<times> json_store) res) \<Rightarrow> 'a gold" where
  "storeG f w = (case f (gw_store w) of Inl e \<Rightarrow> (Inl e, w) | Inr (x, s) \<Rightarrow> (Inr x, w\<lparr>gw_store := s\<rparr>))"

definition stateG :: "(gold_state \<Rightarrow> 'a res \<times> gold_state) \<Rightarrow> 'a gold" where
  "stateG f w = (case f (gw_state w) of (r, g) \<Rightarrow> (r, w\<lparr>gw_state := g\<rparr>))"

fun mapG :: "('a \<Rightarrow> 'b gold) \<Rightarrow> 'a list \<Rightarrow> 'b list gold" where
  "mapG f [] = returnG (Inr [])"
| "mapG f (x # xs) = bindG (f x) (\<lambda>y. bindG (mapG f xs) (\<lambda>ys. returnG (Inr (y # ys))))"

definition FACT_TABLES :: "string list" where
  "FACT_TABLES = [''gold_flow_minute'', ''gold_flow_hour'', ''gold_video'', ''gold_operations_hour'']"

definition OPERATIONAL_TABLES :: "string list" where
  "OPERATIONAL_TABLES = [''gold_work_operations'', ''gold_attempt_operations'']"

definition FACT_TARGET_TABLES :: "string list" where
  "FACT_TARGET_TABLES = FACT_TABLES @ OPERATIONAL_TABLES"

definition DIMENSION_TABLES :: "string list" where
  "DIMENSION_TABLES = [''gold_dim_date'', ''gold_dim_time'', ''gold_dim_camera'', ''gold_dim_location'', ''gold_dim_video'',
     ''gold_dim_model_config'']"

definition versionsG :: "gold_lib \<Rightarrow> string list \<Rightarrow> (string \<times> int) list gold" where
  "versionsG lib names = readG (\<lambda>w. table_versions lib (gw_store w) names)"

section \<open>The plan\<close>

record gold_plan =
  gp_planned_at :: string
  gp_cutoff :: string
  gp_lookback_hours :: int
  gp_items :: "string list"
  gp_source :: source_checkpoint
  gp_flow_source :: source_checkpoint
  gp_operations_source :: source_checkpoint

definition hours_before :: "moment \<Rightarrow> int \<Rightarrow> moment res" where
  "hours_before t hours = checked_moment (t - hours * 3600000000)"

definition all_output_dates :: "gold_lib \<Rightarrow> committed_output list \<Rightarrow> string list res" where
  "all_output_dates lib outputs = bindE (mapE (output_dates lib) outputs) (\<lambda>dss. Inr (concat dss))"

definition full_dates :: "gold_lib \<Rightarrow> committed_output list \<Rightarrow> control_rows \<Rightarrow> string list res" where
  "full_dates lib outputs control = bindE (all_output_dates lib outputs) (\<lambda>ds.
     bindE (control_dates lib None control) (\<lambda>ds'. Inr (ds @ ds')))"

definition newer :: "int \<Rightarrow> committed_output \<Rightarrow> bool" where
  "newer prior co \<longleftrightarrow> prior < co_publication_sequence co"

definition recent :: "moment \<Rightarrow> committed_output \<Rightarrow> bool" where
  "recent cutoff co = (case co_published_at co of None \<Rightarrow> False | Some t \<Rightarrow> cutoff \<le> t)"

definition incremental_dates :: "gold_lib \<Rightarrow> committed_output list \<Rightarrow> control_rows \<Rightarrow> moment \<Rightarrow> int \<Rightarrow> checkpoint_row
    \<Rightarrow> checkpoint_row \<Rightarrow> source_checkpoint \<Rightarrow> source_checkpoint \<Rightarrow> string list res" where
  "incremental_dates lib outputs control cutoff lookback_hours previous_flow previous_operations flow operations =
     (let prior = ck_publication_sequence previous_flow in
      bindE (all_output_dates lib (filter (\<lambda>co. newer prior co \<or> recent cutoff co) outputs)) (\<lambda>flow_dates.
      bindE (required_datetime lib (PStr (ck_completed_at previous_operations))) (\<lambda>prior_completed.
      bindE (hours_before prior_completed lookback_hours) (\<lambda>before.
      bindE (control_dates lib (Some (min cutoff before)) control) (\<lambda>operation_dates.
      bindE (if ck_source_key previous_flow \<noteq> source_key lib flow \<and> \<not> list_ex (newer prior) outputs
             then all_output_dates lib outputs else Inr []) (\<lambda>more_flow.
      bindE (if ck_source_key previous_operations \<noteq> source_key lib operations \<and> operation_dates = []
             then control_dates lib None control else Inr []) (\<lambda>more_operations.
        Inr (flow_dates @ more_flow @ operation_dates @ more_operations))))))))"

definition plan :: "gold_lib \<Rightarrow> (nat \<Rightarrow> gold_source) \<Rightarrow> moment \<Rightarrow> gold_state \<Rightarrow> pyval \<Rightarrow> bool \<Rightarrow> bool \<Rightarrow> gold_plan res" where
  "plan lib src planned_at g lookback full_rebuild reset = (case lookback of
     PInt lookback_hours \<Rightarrow> if lookback_hours < 1 then Inl ValueError else
       bindE (hours_before planned_at lookback_hours) (\<lambda>cutoff.
       let flow = source_checkpoint_of lib (src 0); operations = operations_source_checkpoint lib (src 1) in
       bindE (committed_outputs lib (src 2)) (\<lambda>outputs.
       bindE (control_rows_of (src 3)) (\<lambda>control.
       bindE (case (full_rebuild \<or> reset, checkpoint g ''facts:flow'', checkpoint g ''facts:operations'') of
            (False, Some previous_flow, Some previous_operations) \<Rightarrow>
               incremental_dates lib outputs control cutoff lookback_hours previous_flow previous_operations flow operations
          | _ \<Rightarrow> full_dates lib outputs control) (\<lambda>dates.
         Inr \<lparr>gp_planned_at = iso planned_at, gp_cutoff = iso cutoff, gp_lookback_hours = lookback_hours,
              gp_items = sort (remdups dates), gp_source = fact_source flow operations, gp_flow_source = flow,
              gp_operations_source = operations\<rparr>))))
   | _ \<Rightarrow> Inl ValueError)"

section \<open>Facts\<close>

definition checkpoint_targets_match :: "gold_lib \<Rightarrow> checkpoint_row option \<Rightarrow> (string \<times> int) list \<Rightarrow> bool" where
  "checkpoint_targets_match lib c current = (case c of None \<Rightarrow> False
     | Some c \<Rightarrow> (case json_loads lib (ck_target_versions_json c) of None \<Rightarrow> False
         | Some saved \<Rightarrow> py_eq saved (int_dict current)))"

definition normal_incremental_facts_noop :: "bool \<Rightarrow> bool \<Rightarrow> bool \<Rightarrow> checkpoint_row option \<Rightarrow> string \<Rightarrow> bool \<Rightarrow> bool" where
  "normal_incremental_facts_noop automatic force full_rebuild c key targets_current \<longleftrightarrow>
     automatic \<and> \<not> force \<and> \<not> full_rebuild \<and> (case c of None \<Rightarrow> False | Some c \<Rightarrow> ck_source_key c = key) \<and> targets_current"

record facts_args =
  fb_dates :: "pyval list option"
  fb_lookback_hours :: pyval
  fb_force :: bool
  fb_full_rebuild :: bool
  fb_save_state :: bool

record facts_result =
  fx_source_key :: string
  fx_dates :: "string list"
  fx_rows :: "(string \<times> nat) list"
  fx_target_versions :: "(string \<times> int) list"
  fx_outbox_id :: "int option"
  fx_complete :: bool
  fx_updates :: checkpoint_updates

text \<open>A stage that is up to date is skipped.\<close>

datatype 'a stage_result = Skipped string | Done 'a

definition fact_tables_of :: "fact_rows \<Rightarrow> (string \<times> string \<times> row list) list" where
  "fact_tables_of f = [(''gold_flow_minute'', ''flow_date'', fr_flow_minute f), (''gold_flow_hour'', ''flow_date'', fr_flow_hour f),
     (''gold_video'', ''capture_date'', fr_video f), (''gold_operations_hour'', ''operation_date'', fr_operations_hour f)]"

definition build_partition :: "gold_lib \<Rightarrow> committed_output list \<Rightarrow> control_rows \<Rightarrow> string \<Rightarrow> string \<Rightarrow> nat list gold" where
  "build_partition lib committed control now partition_date =
     bindG (returnG (fact_rows_for_date lib committed control partition_date now)) (\<lambda>rows.
       mapG (\<lambda>(table, column, rs). storeG (\<lambda>s. replace_partition lib s table column partition_date rs)) (fact_tables_of rows))"

definition add_counts :: "nat list list \<Rightarrow> nat list" where
  "add_counts css = foldl (\<lambda>a b. map2 (+) a b) [0, 0, 0, 0] css"

definition selected_dates :: "gold_lib \<Rightarrow> (nat \<Rightarrow> gold_source) \<Rightarrow> (nat \<Rightarrow> moment) \<Rightarrow> facts_args \<Rightarrow> bool \<Rightarrow> string list gold" where
  "selected_dates lib src clk a targets_current = (case fb_dates a of
     None \<Rightarrow> readG (\<lambda>w. bindE (plan lib (\<lambda>i. src (i + 2)) (clk 0) (gw_state w) (fb_lookback_hours a)
         (fb_full_rebuild a \<or> \<not> targets_current) (fb_force a)) (\<lambda>p. Inr (gp_items p)))
   | Some dates \<Rightarrow> returnG (bindE (mapE (date_string lib) dates) (\<lambda>ds. Inr (sort (remdups ds)))))"

definition build_facts :: "gold_lib \<Rightarrow> (nat \<Rightarrow> gold_source) \<Rightarrow> (nat \<Rightarrow> moment) \<Rightarrow> facts_args \<Rightarrow> facts_result stage_result gold" where
  "build_facts lib src clk a =
     (let flow = source_checkpoint_of lib (src 0); operations = operations_source_checkpoint lib (src 1);
          source = fact_source flow operations; automatic = (fb_dates a = None) in
      bindG (readG (\<lambda>w. Inr (checkpoint (gw_state w) ''facts''))) (\<lambda>previous.
      bindG (versionsG lib FACT_TARGET_TABLES) (\<lambda>current_versions.
      let targets_current = checkpoint_targets_match lib previous current_versions in
      if normal_incremental_facts_noop automatic (fb_force a) (fb_full_rebuild a) previous (source_key lib source) targets_current
      then returnG (Inr (Skipped (source_key lib source)))
      else bindG (selected_dates lib src clk a targets_current) (\<lambda>selected.
        bindG (returnG (committed_outputs lib (src 6))) (\<lambda>committed.
        bindG (returnG (control_rows_of (src 7))) (\<lambda>control.
        let now = iso (clk 1) in
        bindG (mapG (build_partition lib committed control now) selected) (\<lambda>counts.
        bindG (returnG (operational_rows lib control committed now)) (\<lambda>(works, attempts).
        bindG (storeG (\<lambda>s. replace_table lib s ''gold_work_operations'' works)) (\<lambda>n_works.
        bindG (storeG (\<lambda>s. replace_table lib s ''gold_attempt_operations'' attempts)) (\<lambda>n_attempts.
        bindG (versionsG lib FACT_TARGET_TABLES) (\<lambda>target_versions.
        let complete_current = automatic \<and> source_key lib (source_checkpoint_of lib (src 8)) = source_key lib flow
              \<and> source_key lib (operations_source_checkpoint lib (src 9)) = source_key lib operations;
            checkpoints = dict_update (dict_of (map (\<lambda>d. (''facts:partition:'' @ d, source, target_versions)) selected))
              (if complete_current then [(''facts'', source, target_versions), (''facts:flow'', flow, target_versions),
                 (''facts:operations'', operations, target_versions)] else [])
        in bindG (if fb_save_state a
                  then stateG (save_checkpoints_and_enqueue lib (clk 2) checkpoints
                         (if selected \<noteq> [] then Some ''gold facts changed'' else None) source target_versions)
                  else returnG (Inr None)) (\<lambda>outbox_id.
          returnG (Inr (Done \<lparr>fx_source_key = source_key lib source, fx_dates = selected,
            fx_rows = zip FACT_TARGET_TABLES (add_counts counts @ [n_works, n_attempts]),
            fx_target_versions = target_versions, fx_outbox_id = outbox_id, fx_complete = complete_current,
            fx_updates = (if fb_save_state a then [] else checkpoints)\<rparr>))))))))))))))"

section \<open>Dimensions, validation and the run\<close>

record dimensions_result =
  dx_source_key :: string
  dx_rows :: "(string \<times> nat) list"
  dx_target_versions :: "(string \<times> int) list"
  dx_outbox_id :: "int option"
  dx_updates :: checkpoint_updates

definition dimension_source :: "source_checkpoint \<Rightarrow> (string \<times> int) list \<Rightarrow> source_checkpoint" where
  "dimension_source source fact_versions = \<lparr>sc_publication_sequence = sc_publication_sequence source,
     sc_versions = dict_update (sc_versions source) (map (\<lambda>(name, version). (''target:'' @ name, int_dec version)) fact_versions)\<rparr>"

definition read_tables :: "gold_lib \<Rightarrow> string list \<Rightarrow> tables gold" where
  "read_tables lib names = readG (\<lambda>w. mapE (\<lambda>name. bindE (read_table lib (gw_store w) name) (\<lambda>rows. Inr (name, rows))) names)"

definition dimensions_current :: "gold_lib \<Rightarrow> checkpoint_row option \<Rightarrow> string \<Rightarrow> (string \<times> int) list \<Rightarrow> bool" where
  "dimensions_current lib previous key versions \<longleftrightarrow>
     (case previous of None \<Rightarrow> False | Some c \<Rightarrow> ck_source_key c = key) \<and> checkpoint_targets_match lib previous versions"

definition build_dimensions :: "gold_lib \<Rightarrow> (nat \<Rightarrow> gold_source) \<Rightarrow> (nat \<Rightarrow> moment) \<Rightarrow> bool \<Rightarrow> bool \<Rightarrow> bool
    \<Rightarrow> dimensions_result stage_result gold" where
  "build_dimensions lib src clk full_rebuild force save_state =
     bindG (versionsG lib FACT_TARGET_TABLES) (\<lambda>fact_versions.
     let source = dimension_source (source_checkpoint_of lib (src 0)) fact_versions; key = source_key lib source in
     bindG (readG (\<lambda>w. Inr (checkpoint (gw_state w) ''dimensions''))) (\<lambda>previous.
     bindG (versionsG lib DIMENSION_TABLES) (\<lambda>current.
     if \<not> full_rebuild \<and> \<not> force \<and> dimensions_current lib previous key current then returnG (Inr (Skipped key))
     else bindG (returnG (committed_outputs lib (src 1))) (\<lambda>committed.
       bindG (read_tables lib FACT_TABLES) (\<lambda>facts.
       bindG (returnG (dimension_rows lib committed facts (iso (clk 0)))) (\<lambda>rows.
       bindG (mapG (\<lambda>table. bindG (returnG (table_rows rows table)) (\<lambda>rs. storeG (\<lambda>s. replace_table lib s table rs)))
          DIMENSION_TABLES) (\<lambda>counts.
       bindG (versionsG lib DIMENSION_TABLES) (\<lambda>target_versions.
       let checkpoints = [(''dimensions'', source, target_versions)] in
       bindG (if save_state then stateG (save_checkpoints_and_enqueue lib (clk 1) checkpoints (Some ''gold dimensions changed'')
                source target_versions) else returnG (Inr None)) (\<lambda>outbox_id.
         returnG (Inr (Done \<lparr>dx_source_key = key, dx_rows = zip DIMENSION_TABLES counts, dx_target_versions = target_versions,
           dx_outbox_id = outbox_id, dx_updates = (if save_state then [] else checkpoints)\<rparr>)))))))))))"

definition validate_job :: "gold_lib \<Rightarrow> (nat \<times> (string \<times> nat) list) gold" where
  "validate_job lib = bindG (read_tables lib (FACT_TARGET_TABLES @ DIMENSION_TABLES)) (\<lambda>ts.
     bindG (returnG (validate_tables ts)) (\<lambda>rules. returnG (Inr (rules, map (\<lambda>(name, rows). (name, length rows)) ts))))"

record gold_result =
  gr_facts :: "facts_result stage_result"
  gr_dimensions :: "dimensions_result stage_result"
  gr_rules :: nat
  gr_outbox_id :: "int option"
  gr_pending :: nat

definition stage_updates :: "('a \<Rightarrow> checkpoint_updates) \<Rightarrow> 'a stage_result \<Rightarrow> checkpoint_updates" where
  "stage_updates f r = (case r of Skipped k \<Rightarrow> [] | Done x \<Rightarrow> f x)"

definition is_skipped :: "'a stage_result \<Rightarrow> bool" where
  "is_skipped r = (case r of Skipped k \<Rightarrow> True | Done x \<Rightarrow> False)"

definition gold_run :: "gold_lib \<Rightarrow> (nat \<Rightarrow> gold_source) \<Rightarrow> (nat \<Rightarrow> moment) \<Rightarrow> pyval \<Rightarrow> bool \<Rightarrow> bool \<Rightarrow> gold_result gold" where
  "gold_run lib src clk lookback force full_rebuild =
     bindG (build_facts lib src clk \<lparr>fb_dates = None, fb_lookback_hours = lookback, fb_force = force,
       fb_full_rebuild = full_rebuild, fb_save_state = False\<rparr>) (\<lambda>facts.
     bindG (build_dimensions lib (\<lambda>i. src (i + 10)) (\<lambda>i. clk (i + 3)) full_rebuild force False) (\<lambda>dimensions.
     bindG (validate_job lib) (\<lambda>(rules, counts).
     bindG (if is_skipped facts \<and> is_skipped dimensions then returnG (Inr None)
            else bindG (versionsG lib (FACT_TARGET_TABLES @ DIMENSION_TABLES)) (\<lambda>versions.
              stateG (save_checkpoints_and_enqueue lib (clk 5)
                (dict_update (stage_updates fx_updates facts) (stage_updates dx_updates dimensions)) (Some ''gold run changed'')
                (fact_source (source_checkpoint_of lib (src 12)) (operations_source_checkpoint lib (src 13))) versions))) (\<lambda>outbox_id.
     bindG (readG (\<lambda>w. pending_refreshes lib (gw_state w))) (\<lambda>pending.
       returnG (Inr \<lparr>gr_facts = facts, gr_dimensions = dimensions, gr_rules = rules, gr_outbox_id = outbox_id,
         gr_pending = length pending\<rparr>))))))"

end
