(* ===== verification/Gold_Flow_Spec.thy ===== *)
theory Gold_Flow_Spec
  imports Gold_Job
begin

text \<open>
  What the flow tables are: a reference definition that groups the line-count observations of a date, without
  accumulators, the proof that the builder of \<open>Gold_Facts\<close> computes it, and the conservation of counts
  over the dates of a plan.
\<close>

section \<open>Observations\<close>

text \<open>One line count that the flow tables count: when, where, of which video, how many entries and exits.\<close>

record observation =
  ob_time :: moment
  ob_camera :: string
  ob_location :: string
  ob_work :: string
  ob_entries :: int
  ob_exits :: int

definition observation_of :: "gold_lib \<Rightarrow> committed_output \<Rightarrow> moment \<Rightarrow> row \<Rightarrow> observation res" where
  "observation_of lib co captured line =
     bindE (line_observed_at lib line captured) (\<lambda>t.
     bindE (line_count lib line ''frame_in_count'' ''entries'') (\<lambda>entries.
     bindE (line_count lib line ''frame_out_count'' ''exits'') (\<lambda>exits.
       Inr \<lparr>ob_time = t,
            ob_camera = gstr lib (por (row_get line ''camera_id'') (PStr (gstr lib (row_get (metadata_of co) ''camera_id'')))),
            ob_location = gstr lib (por (row_get line ''location_id'') (PStr (gstr lib (row_get (metadata_of co) ''location_id'')))),
            ob_work = co_work_id co, ob_entries = entries, ob_exits = exits\<rparr>)))"

text \<open>An output counts when it has a capture time, a camera and a location.\<close>

definition located :: "committed_output \<Rightarrow> bool" where
  "located co \<longleftrightarrow> row_get (metadata_of co) ''camera_id'' \<noteq> PNone \<and> row_get (metadata_of co) ''location_id'' \<noteq> PNone"

text \<open>The lines of an output whose time is on a date; only their counts are read.\<close>

definition dated :: "gold_lib \<Rightarrow> string \<Rightarrow> moment \<Rightarrow> row \<Rightarrow> bool" where
  "dated lib d captured line = (case line_observed_at lib line captured of Inr t \<Rightarrow> date_text t = d | Inl _ \<Rightarrow> False)"

definition output_observations :: "gold_lib \<Rightarrow> string \<Rightarrow> committed_output \<Rightarrow> observation list" where
  "output_observations lib d co = (case output_captured_at lib co of
     Inr (Some t) \<Rightarrow> if located co
       then concat (map (\<lambda>l. case observation_of lib co t l of Inr ob \<Rightarrow> [ob] | Inl _ \<Rightarrow> []) (filter (dated lib d t) (co_line_counts co)))
       else []
   | _ \<Rightarrow> [])"

definition observations :: "gold_lib \<Rightarrow> string \<Rightarrow> committed_output list \<Rightarrow> observation list" where
  "observations lib d committed = concat (map (output_observations lib d) committed)"

definition minute_key :: "observation \<Rightarrow> flow_key" where
  "minute_key ob = (let t = floor_minute (ob_time ob) in (iso t, hour_of t * 60 + minute_of t, ob_camera ob, ob_location ob))"

definition hour_key :: "observation \<Rightarrow> flow_key" where
  "hour_key ob = (let t = floor_hour (ob_time ob) in (iso t, hour_of t * 60, ob_camera ob, ob_location ob))"

section \<open>The reference\<close>

text \<open>\<open>SELECT key, SUM(entries), SUM(exits), COUNT(DISTINCT work_id) GROUP BY key ORDER BY key\<close>\<close>

definition reference_row :: "string \<Rightarrow> string \<Rightarrow> string \<Rightarrow> (observation \<Rightarrow> flow_key) \<Rightarrow> observation list \<Rightarrow> flow_key \<Rightarrow> row" where
  "reference_row column d refreshed_at key obs k = (let mine = filter (\<lambda>ob. key ob = k) obs;
       entries = sum_list (map ob_entries mine); exits = sum_list (map ob_exits mine) in
     case k of (timestamp, time_key, camera, location) \<Rightarrow>
     [(column, PStr timestamp), (''time_key'', PInt time_key), (''camera_id'', PStr camera), (''location_id'', PStr location),
      (''entries'', PInt entries), (''exits'', PInt exits), (''net_flow'', PInt (entries - exits)),
      (''source_videos'', PInt (int (card (ob_work ` set mine)))), (''refreshed_at'', PStr refreshed_at), (''flow_date'', PStr d)])"

definition reference_flow :: "string \<Rightarrow> string \<Rightarrow> string \<Rightarrow> (observation \<Rightarrow> flow_key) \<Rightarrow> observation list \<Rightarrow> row list" where
  "reference_flow column d refreshed_at key obs =
     map (reference_row column d refreshed_at key obs) (sort (remdups (map key obs)))"

section \<open>Grouping\<close>

definition add_observation :: "(observation \<Rightarrow> flow_key) \<Rightarrow> (flow_key \<times> flow_group) list \<Rightarrow> observation \<Rightarrow> (flow_key \<times> flow_group) list" where
  "add_observation key groups ob = add_flow_group (key ob) (ob_work ob) (ob_entries ob) (ob_exits ob) groups"

definition group_by :: "(observation \<Rightarrow> flow_key) \<Rightarrow> observation list \<Rightarrow> (flow_key \<times> flow_group) list" where
  "group_by key obs = foldl (add_observation key) [] obs"

lemma group_by_snoc: "group_by key (obs @ [ob]) = add_observation key (group_by key obs) ob"
  by (simp add: group_by_def)

lemma group_by_distinct: "distinct (map fst (group_by key obs))"
  by (induction obs rule: rev_induct)
    (simp_all add: group_by_snoc add_observation_def add_flow_group_def Let_def dset_distinct, simp add: group_by_def)

lemma group_by_keys: "fst ` set (group_by key obs) = key ` set obs"
  by (induction obs rule: rev_induct)
    (simp_all add: group_by_snoc add_observation_def add_flow_group_def Let_def dset_keys, simp add: group_by_def)

definition group_ok :: "(observation \<Rightarrow> flow_key) \<Rightarrow> observation list \<Rightarrow> flow_key \<Rightarrow> flow_group \<Rightarrow> bool" where
  "group_ok key obs k g \<longleftrightarrow> (let mine = filter (\<lambda>ob. key ob = k) obs in
     fg_entries g = sum_list (map ob_entries mine) \<and> fg_exits g = sum_list (map ob_exits mine)
     \<and> distinct (fg_work_ids g) \<and> set (fg_work_ids g) = ob_work ` set mine)"

lemma group_by_groups: "map_of (group_by key obs) k = Some g \<Longrightarrow> group_ok key obs k g"
proof (induction obs arbitrary: g rule: rev_induct)
  case Nil
  then show ?case by (simp add: group_by_def)
next
  case (snoc ob obs)
  have none: "filter (\<lambda>o'. key o' = key ob) obs = []" if "map_of (group_by key obs) (key ob) = None"
    using that group_by_keys [of key obs] by (metis (mono_tags, lifting) filter_False imageI map_of_eq_None_iff)
  show ?case
  proof (cases "k = key ob")
    case False
    with snoc.prems have "map_of (group_by key obs) k = Some g"
      by (simp add: group_by_snoc add_observation_def add_flow_group_def Let_def map_of_dset)
    from snoc.IH [OF this] False show ?thesis by (simp add: group_ok_def)
  next
    case True
    show ?thesis
    proof (cases "map_of (group_by key obs) (key ob)")
      case None
      with snoc.prems True none show ?thesis
        by (auto simp: group_by_snoc add_observation_def add_flow_group_def Let_def map_of_dset group_ok_def)
    next
      case (Some h)
      with snoc.prems True snoc.IH [of h] show ?thesis
        by (auto simp: group_by_snoc add_observation_def add_flow_group_def Let_def map_of_dset group_ok_def)
    qed
  qed
qed

lemma sort_by_key:
  assumes "distinct (map fst g)"
  shows "sort_key fst g = map (\<lambda>k. (k, the (map_of g k))) (sorted_list_of_set (fst ` set g))"
proof (rule map_sorted_distinct_set_unique [where f = fst])
  let ?r = "map (\<lambda>k. (k, the (map_of g k))) (sorted_list_of_set (fst ` set g))"
  have f: "map fst ?r = sorted_list_of_set (fst ` set g)" by (simp add: comp_def)
  show "inj_on fst (set (sort_key fst g) \<union> set ?r)"
    using assms by (auto simp: inj_on_def eq_key_imp_eq_value)
  show "sorted (map fst (sort_key fst g))" by simp
  show "distinct (map fst (sort_key fst g))" using assms by (simp add: distinct_map)
  show "sorted (map fst ?r)" unfolding f by simp
  show "distinct (map fst ?r)" unfolding f by simp
  show "set (sort_key fst g) = set ?r" using assms by (force simp: image_iff)
qed

lemma flow_rows_reference:
  "flow_rows (group_by key obs) column d refreshed_at = reference_flow column d refreshed_at key obs"
proof -
  have s: "sorted_list_of_set (fst ` set (group_by key obs)) = sort (remdups (map key obs))"
    unfolding group_by_keys by (metis set_map sorted_list_of_set_sort_remdups)
  have row: "flow_row column d refreshed_at (k, the (map_of (group_by key obs) k)) = reference_row column d refreshed_at key obs k"
    if k: "k \<in> key ` set obs" for k
  proof -
    obtain g where g: "map_of (group_by key obs) k = Some g"
      using k unfolding group_by_keys [symmetric] by (cases "map_of (group_by key obs) k") (auto simp: map_of_eq_None_iff)
    from group_by_groups [OF g] have "length (fg_work_ids g) = card (ob_work ` set (filter (\<lambda>ob. key ob = k) obs))"
      unfolding group_ok_def Let_def using distinct_card [of "fg_work_ids g"] by simp
    with group_by_groups [OF g] show ?thesis
      unfolding g option.sel by (cases k) (simp add: flow_row_def reference_row_def group_ok_def Let_def)
  qed
  show ?thesis
    unfolding flow_rows_def reference_flow_def sort_by_key [OF group_by_distinct] s map_map
    by (rule map_cong) (auto simp: row)
qed

section \<open>The builder computes the reference\<close>

definition extends :: "fact_groups \<Rightarrow> observation list \<Rightarrow> fact_groups \<Rightarrow> bool" where
  "extends acc obs acc' \<longleftrightarrow> fa_minute acc' = foldl (add_observation minute_key) (fa_minute acc) obs
     \<and> fa_hour acc' = foldl (add_observation hour_key) (fa_hour acc) obs"

lemma extends_trans: "extends a obs b \<Longrightarrow> extends b obs' c \<Longrightarrow> extends a (obs @ obs') c"
  by (simp add: extends_def)

lemma add_line_extends:
  assumes "add_line lib d co t (gstr lib (row_get (metadata_of co) ''camera_id'')) (gstr lib (row_get (metadata_of co) ''location_id'')) line acc = Inr acc'"
  shows "extends acc (if dated lib d t line then (case observation_of lib co t line of Inr ob \<Rightarrow> [ob] | Inl _ \<Rightarrow> []) else []) acc'"
    and "\<exists>t'. line_observed_at lib line t = Inr t'"
    and "dated lib d t line \<Longrightarrow> \<exists>ob. observation_of lib co t line = Inr ob"
proof -
  obtain t' where t': "line_observed_at lib line t = Inr t'" using assms by (auto simp: add_line_def)
  then show "\<exists>t'. line_observed_at lib line t = Inr t'" by simp
  have "extends acc (if dated lib d t line then (case observation_of lib co t line of Inr ob \<Rightarrow> [ob] | Inl _ \<Rightarrow> []) else []) acc'
    \<and> (dated lib d t line \<longrightarrow> (\<exists>ob. observation_of lib co t line = Inr ob))"
  proof (cases "date_text t' = d")
    case False
    with assms t' show ?thesis by (simp add: add_line_def dated_def extends_def)
  next
    case True
    with assms t' obtain n m where "line_count lib line ''frame_in_count'' ''entries'' = Inr n"
      "line_count lib line ''frame_out_count'' ''exits'' = Inr m" by (auto simp: add_line_def)
    with assms t' True show ?thesis
      by (auto simp: add_line_def dated_def observation_of_def extends_def add_observation_def minute_key_def hour_key_def Let_def)
  qed
  then show "extends acc (if dated lib d t line then (case observation_of lib co t line of Inr ob \<Rightarrow> [ob] | Inl _ \<Rightarrow> []) else []) acc'"
    and "dated lib d t line \<Longrightarrow> \<exists>ob. observation_of lib co t line = Inr ob" by auto
qed

lemma add_lines_extends:
  assumes "foldE (add_line lib d co t (gstr lib (row_get (metadata_of co) ''camera_id'')) (gstr lib (row_get (metadata_of co) ''location_id'')))
    lines acc = Inr acc'"
  shows "extends acc (concat (map (\<lambda>l. case observation_of lib co t l of Inr ob \<Rightarrow> [ob] | Inl _ \<Rightarrow> []) (filter (dated lib d t) lines))) acc'"
  using assms
proof (induction lines arbitrary: acc)
  case Nil
  then show ?case by (simp add: extends_def)
next
  case (Cons l lines)
  then obtain a where a: "add_line lib d co t (gstr lib (row_get (metadata_of co) ''camera_id'')) (gstr lib (row_get (metadata_of co) ''location_id'')) l acc = Inr a"
    and r: "foldE (add_line lib d co t (gstr lib (row_get (metadata_of co) ''camera_id'')) (gstr lib (row_get (metadata_of co) ''location_id'')))
      lines a = Inr acc'" by auto
  from extends_trans [OF add_line_extends(1) [OF a] Cons.IH [OF r]] show ?case by (simp split: if_splits)
qed

lemma add_output_extends:
  assumes "add_output lib d co acc = Inr acc'"
  shows "extends acc (output_observations lib d co) acc'"
proof -
  obtain c where c: "output_captured_at lib co = Inr c" using assms by (auto simp: add_output_def)
  show ?thesis
  proof (cases "c = None \<or> \<not> located co")
    case True
    with assms c show ?thesis
      by (auto simp: add_output_def output_observations_def extends_def located_def Let_def split: option.splits if_splits)
  next
    case False
    then obtain t where t: "c = Some t" and l: "located co" by auto
    from assms c t l obtain a where a: "foldE (add_line lib d co t (gstr lib (row_get (metadata_of co) ''camera_id''))
        (gstr lib (row_get (metadata_of co) ''location_id''))) (co_line_counts co) acc = Inr a"
      and e: "fa_minute acc' = fa_minute a" "fa_hour acc' = fa_hour a"
      by (auto simp: add_output_def located_def Let_def split: if_splits)
    from add_lines_extends [OF a] e c t l show ?thesis by (simp add: output_observations_def extends_def)
  qed
qed

lemma add_outputs_extends:
  "foldE (add_output lib d) committed acc = Inr acc' \<Longrightarrow> extends acc (observations lib d committed) acc'"
proof (induction committed arbitrary: acc)
  case Nil
  then show ?case by (simp add: extends_def observations_def)
next
  case (Cons co committed)
  then obtain a where "add_output lib d co acc = Inr a" "foldE (add_output lib d) committed a = Inr acc'" by auto
  with Cons.IH [of a] extends_trans add_output_extends show ?case by (fastforce simp: observations_def)
qed

lemma fact_rows_reference:
  assumes "fact_rows_for_date lib committed control d now = Inr f"
  shows "fr_flow_minute f = reference_flow ''minute_utc'' d now minute_key (observations lib d committed)"
    and "fr_flow_hour f = reference_flow ''hour_utc'' d now hour_key (observations lib d committed)"
proof -
  obtain acc where acc: "foldE (add_output lib d) committed \<lparr>fa_minute = [], fa_hour = [], fa_videos = []\<rparr> = Inr acc"
    and f: "fr_flow_minute f = flow_rows (fa_minute acc) ''minute_utc'' d now"
      "fr_flow_hour f = flow_rows (fa_hour acc) ''hour_utc'' d now"
    using assms by (auto simp: fact_rows_for_date_def)
  have "fa_minute acc = group_by minute_key (observations lib d committed)"
    "fa_hour acc = group_by hour_key (observations lib d committed)"
    using add_outputs_extends [OF acc] by (simp_all add: extends_def group_by_def)
  then show "fr_flow_minute f = reference_flow ''minute_utc'' d now minute_key (observations lib d committed)"
    "fr_flow_hour f = reference_flow ''hour_utc'' d now hour_key (observations lib d committed)"
    by (simp_all add: f flow_rows_reference)
qed

section \<open>The other rows of a date\<close>

text \<open>The row of a video is computed from a committed output that was captured on the date.\<close>

lemma video_rows_all:
  assumes rows: "fact_rows_for_date lib committed control d now = Inr f"
    and each: "\<And>co t camera location r. co \<in> set committed \<Longrightarrow> output_captured_at lib co = Inr (Some t) \<Longrightarrow> date_text t = d \<Longrightarrow>
      video_row lib d co t camera location = Inr r \<Longrightarrow> P r"
  shows "list_all P (fr_video f)"
proof -
  obtain acc where acc: "foldE (add_output lib d) committed \<lparr>fa_minute = [], fa_hour = [], fa_videos = []\<rparr> = Inr acc"
    and f: "fr_video f = sort_rows ''work_id'' (fa_videos acc)" using rows by (auto simp: fact_rows_for_date_def)
  have keep: "fa_videos b = fa_videos a" if "foldE (add_line lib x co t camera location) ls a = Inr b" for x co t camera location ls a b
    using that
  proof (induction ls arbitrary: a)
    case (Cons l ls)
    then obtain c where c: "add_line lib x co t camera location l a = Inr c" "foldE (add_line lib x co t camera location) ls c = Inr b" by auto
    then have "fa_videos c = fa_videos a" by (auto simp: add_line_def Let_def split: if_splits)
    with Cons.IH [OF c(2)] show ?case by simp
  qed simp
  have "list_all P (fa_videos acc)"
  proof (rule foldE_invariant [OF acc])
    fix co a b
    assume co: "co \<in> set committed" and a: "list_all P (fa_videos a)" and r: "add_output lib d co a = Inr b"
    obtain c where c: "output_captured_at lib co = Inr c" using r by (auto simp: add_output_def)
    show "list_all P (fa_videos b)"
    proof (cases c)
      case None
      with a r c show ?thesis by (simp add: add_output_def)
    next
      case (Some t)
      have new: "date_text t = d \<longrightarrow> video_row lib (date_text t) co t camera location = Inr x \<longrightarrow> P x" for camera location x
        using each [OF co c [unfolded Some]] by auto
      from new a r c Some show ?thesis by (auto simp: add_output_def Let_def keep split: if_splits dest!: keep)
    qed
  qed simp
  then show ?thesis by (simp add: f sort_rows_def list_all_iff)
qed

lemma operations_rows_all:
  assumes "fact_rows_for_date lib committed control d now = Inr f" "\<And>p r. operations_row lib d now p = Inr r \<Longrightarrow> P r"
  shows "list_all P (fr_operations_hour f)"
proof -
  obtain groups where "mapE (operations_row lib d now) groups = Inr (fr_operations_hour f)"
    using assms(1) by (auto simp: fact_rows_for_date_def operations_rows_def Let_def)
  then show ?thesis using assms(2) mapE_mem by (fastforce simp: list_all_iff)
qed

end
