(* ===== verification/Json_Document.thy ===== *)
theory Json_Document
  imports Json_Reader Process_Envelope_Spec
begin

text \<open>
  A reader for whole JSON documents and its round trip with \<open>dumps\<close>: every value that the program writes is
  read back with the keys of its objects in order.  It shows that the contract \<open>json_faithful\<close>, which
  the gold tables need of \<open>json.loads\<close>, can be met.
\<close>

section \<open>The reader\<close>

definition delimiter :: "char \<Rightarrow> bool" where
  "delimiter c \<longleftrightarrow> c = CHR '','' \<or> c = CHR ''}'' \<or> c = CHR '']''"

definition read_atom :: "(string \<Rightarrow> pyfloat) \<Rightarrow> string \<Rightarrow> pyval" where
  "read_atom read s = (if s = ''null'' then PNone else if s \<in> {''NaN'', ''Infinity'', ''-Infinity''} then PNonFinite s
     else read_token read s)"

text \<open>The fuel bounds the number of nested calls; the length of the text is enough.\<close>

fun read_any :: "(string \<Rightarrow> pyfloat) \<Rightarrow> nat \<Rightarrow> string \<Rightarrow> (pyval \<times> string) option"
  and read_members :: "(string \<Rightarrow> pyfloat) \<Rightarrow> nat \<Rightarrow> string \<Rightarrow> ((string \<times> pyval) list \<times> string) option"
  and read_elements :: "(string \<Rightarrow> pyfloat) \<Rightarrow> nat \<Rightarrow> string \<Rightarrow> (pyval list \<times> string) option" where
  "read_any read 0 s = None"
| "read_any read (Suc n) s = (case s of
     [] \<Rightarrow> None
   | c # r \<Rightarrow>
       if c = CHR 0x22 then map_option (\<lambda>(t, r). (PStr t, r)) (read_chars r)
       else if c = CHR ''{'' then
         (if r \<noteq> [] \<and> hd r = CHR ''}'' then Some (PDict [], tl r) else map_option (\<lambda>(d, r). (PDict d, r)) (read_members read n r))
       else if c = CHR ''['' then
         (if r \<noteq> [] \<and> hd r = CHR '']'' then Some (PList [], tl r) else map_option (\<lambda>(vs, r). (PList vs, r)) (read_elements read n r))
       else Some (read_atom read (takeWhile (\<lambda>c. \<not> delimiter c) s), dropWhile (\<lambda>c. \<not> delimiter c) s))"
| "read_members read 0 s = None"
| "read_members read (Suc n) s = (case s of
     [] \<Rightarrow> None
   | q # r \<Rightarrow> if q \<noteq> CHR 0x22 then None else (case read_chars r of
       Some (k, c # r1) \<Rightarrow> if c \<noteq> CHR '':'' then None else (case read_any read n r1 of
           Some (v, e # r2) \<Rightarrow> (if e = CHR '','' then map_option (\<lambda>(d, r). ((k, v) # d, r)) (read_members read n r2)
             else if e = CHR ''}'' then Some ([(k, v)], r2) else None)
         | _ \<Rightarrow> None)
     | _ \<Rightarrow> None))"
| "read_elements read 0 s = None"
| "read_elements read (Suc n) s = (case read_any read n s of
     Some (v, e # r) \<Rightarrow> (if e = CHR '','' then map_option (\<lambda>(vs, r). (v # vs, r)) (read_elements read n r)
       else if e = CHR '']'' then Some ([v], r) else None)
   | _ \<Rightarrow> None)"

definition read_document :: "(string \<Rightarrow> pyfloat) \<Rightarrow> string \<Rightarrow> pyval option" where
  "read_document read s = (case read_any read (Suc (length s)) s of Some (v, []) \<Rightarrow> Some v | _ \<Rightarrow> None)"

section \<open>Values that JSON can write\<close>

text \<open>A float that is not finite is one of the three that \<open>json\<close> spells.\<close>

primrec json_ok :: "pyval \<Rightarrow> bool" where
  "json_ok PNone = True"
| "json_ok (PBool b) = True"
| "json_ok (PInt i) = True"
| "json_ok (PFloat x) = True"
| "json_ok (PNonFinite s) = (s \<in> {''NaN'', ''Infinity'', ''-Infinity''})"
| "json_ok (PStr s) = True"
| "json_ok (PList vs) = list_all id (map json_ok vs)"
| "json_ok (PDict kvs) = list_all snd (map (map_prod id json_ok) kvs)"

definition ends :: "string \<Rightarrow> bool" where
  "ends rest \<longleftrightarrow> rest = [] \<or> delimiter (hd rest)"

lemma atom_written:
  assumes "float_text (float_repr lib) read" "v = PNone \<or> (\<exists>s. v = PNonFinite s) \<or> flat_value v" "json_ok v" "\<forall>s. v \<noteq> PStr s"
  shows "read_atom read (dumps lib v) = v" "\<forall>c \<in> set (dumps lib v). \<not> delimiter c \<and> c \<noteq> CHR 0x22 \<and> c \<noteq> CHR ''{'' \<and> c \<noteq> CHR ''[''"
    "dumps lib v \<noteq> []"
proof -
  have fd: "c \<in> set (float_repr lib x) \<Longrightarrow> c = CHR ''.'' \<or> c = CHR ''-'' \<or> c \<in> set digits" for c x
    using assms(1) by (auto simp: float_text_def)
  have id: "c \<in> set (int_dec i) \<Longrightarrow> c = CHR ''-'' \<or> c \<in> set digits" for c i using int_dec_chars by blast
  have nd: "CHR ''u'' \<notin> set digits" "CHR ''N'' \<notin> set digits" "CHR ''I'' \<notin> set digits" by (simp_all add: digits_def)
  have ne: "s \<noteq> ''null'' \<and> s \<notin> {''NaN'', ''Infinity'', ''-Infinity''}" if "CHR ''u'' \<notin> set s" "CHR ''N'' \<notin> set s" "CHR ''I'' \<notin> set s" for s
    using that by auto
  have f: "float_repr lib x \<noteq> ''null'' \<and> float_repr lib x \<notin> {''NaN'', ''Infinity'', ''-Infinity''}" for x
    by (rule ne) (use fd [of _ x] nd in auto)
  have i: "int_dec i \<noteq> ''null'' \<and> int_dec i \<notin> {''NaN'', ''Infinity'', ''-Infinity''}" for i
    by (rule ne) (use id [of _ i] nd in auto)
  have fl: "read_token read (dumps lib v) = v" "dumps lib v \<noteq> []" if "flat_value v"
    using token_written [OF assms(1) that assms(4)] by simp_all
  show "read_atom read (dumps lib v) = v"
    using assms(2-4) fl f i by (cases v) (auto simp: read_atom_def)
  have dg: "c \<in> set digits \<Longrightarrow> \<not> delimiter c \<and> c \<noteq> CHR 0x22 \<and> c \<noteq> CHR ''{'' \<and> c \<noteq> CHR ''[''" for c
    by (auto simp: digits_def delimiter_def)
  show "\<forall>c \<in> set (dumps lib v). \<not> delimiter c \<and> c \<noteq> CHR 0x22 \<and> c \<noteq> CHR ''{'' \<and> c \<noteq> CHR ''[''"
    using assms(2-4) by (cases v) (auto dest!: fd id dg simp: delimiter_def)
  show "dumps lib v \<noteq> []" using assms(2-4) fl by (cases v) auto
qed

lemma atom_read:
  assumes "float_text (float_repr lib) read" "v = PNone \<or> (\<exists>s. v = PNonFinite s) \<or> flat_value v" "json_ok v" "\<forall>s. v \<noteq> PStr s" "ends rest"
  shows "read_any read (Suc n) (dumps lib v @ rest) = Some (v, rest)"
proof -
  note t = atom_written [OF assms(1-4)]
  obtain c r where c: "dumps lib v @ rest = c # r" "c \<in> set (dumps lib v)" using t(3) by (cases "dumps lib v") auto
  have e: "takeWhile (\<lambda>c. \<not> delimiter c) (dumps lib v @ rest) = dumps lib v" "dropWhile (\<lambda>c. \<not> delimiter c) (dumps lib v @ rest) = rest"
    using t(2) assms(5) by (cases rest; simp add: ends_def takeWhile_append2 dropWhile_append2)+
  have "c \<noteq> CHR 0x22" "c \<noteq> CHR ''{''" "c \<noteq> CHR ''[''" using t(2) c(2) by auto
  then show ?thesis using e t(1) unfolding c(1) by (simp only: read_any.simps list.case if_False)
qed

section \<open>The round trip\<close>

definition reads :: "pylib \<Rightarrow> (string \<Rightarrow> pyfloat) \<Rightarrow> pyval \<Rightarrow> bool" where
  "reads lib read v \<longleftrightarrow> (\<forall>n rest. length (dumps lib v) < n \<longrightarrow> ends rest \<longrightarrow>
     read_any read n (dumps lib v @ rest) = Some (json_normal v, rest))"

lemma readsD: "reads lib read v \<Longrightarrow> length (dumps lib v) < n \<Longrightarrow> ends rest \<Longrightarrow>
    read_any read n (dumps lib v @ rest) = Some (json_normal v, rest)"
  by (simp add: reads_def)

lemma ends_delimiter: "delimiter c \<Longrightarrow> ends (c # rest)"
  by (simp add: ends_def)

lemma delimiters [simp]: "delimiter (CHR '','')" "delimiter (CHR ''}'')" "delimiter (CHR '']'')"
  by (simp_all add: delimiter_def)

lemma elements_written:
  assumes "vs \<noteq> []" "\<forall>v \<in> set vs. reads lib read v" "length (comma_sep (map (dumps lib) vs) @ '']'') < n"
  shows "read_elements read n (comma_sep (map (dumps lib) vs) @ CHR '']'' # rest) = Some (map json_normal vs, rest)"
  using assms
proof (induction vs arbitrary: n)
  case (Cons v vs)
  then obtain m where m: "n = Suc m" by (cases n) auto
  have v: "reads lib read v" using Cons.prems by simp
  show ?case
  proof (cases vs)
    case Nil
    have "read_any read m (dumps lib v @ CHR '']'' # rest) = Some (json_normal v, CHR '']'' # rest)"
      using Cons.prems(3) m Nil by (intro readsD [OF v]) (simp_all add: ends_delimiter del: dumps.simps)
    then show ?thesis by (simp add: m Nil del: dumps.simps)
  next
    case (Cons w ws)
    let ?t = "comma_sep (map (dumps lib) vs) @ CHR '']'' # rest"
    have t: "comma_sep (map (dumps lib) (v # vs)) @ CHR '']'' # rest = dumps lib v @ CHR '','' # ?t"
      by (simp add: Cons del: dumps.simps)
    have "length (comma_sep (map (dumps lib) vs) @ '']'') < m" and l: "length (dumps lib v) < m"
      using Cons.prems(3) m Cons by (simp_all del: dumps.simps)
    then have "read_elements read m ?t = Some (map json_normal vs, rest)" using Cons Cons.prems by (intro Cons.IH) auto
    moreover have "read_any read m (dumps lib v @ CHR '','' # ?t) = Some (json_normal v, CHR '','' # ?t)"
      by (rule readsD [OF v l]) (simp add: ends_delimiter)
    ultimately show ?thesis unfolding t m by (simp del: dumps.simps comma_sep.simps)
  qed
qed simp

definition member_text :: "pylib \<Rightarrow> string \<times> pyval \<Rightarrow> string" where
  "member_text lib = (\<lambda>(k, v). json_str k @ '':'' @ dumps lib v)"

lemma members_written:
  assumes "kvs \<noteq> []" "\<forall>p \<in> set kvs. reads lib read (snd p)" "length (comma_sep (map (member_text lib) kvs) @ ''}'') < n"
  shows "read_members read n (comma_sep (map (member_text lib) kvs) @ CHR ''}'' # rest) = Some (map (map_prod id json_normal) kvs, rest)"
  using assms
proof (induction kvs arbitrary: n)
  case (Cons p kvs)
  then obtain m where m: "n = Suc m" by (cases n) auto
  obtain k v where p: "p = (k, v)" by (cases p)
  have v: "reads lib read v" using Cons.prems by (simp add: p)
  have q: "member_text lib p @ r = CHR 0x22 # concat (map esc_char k) @ CHR 0x22 # CHR '':'' # dumps lib v @ r" for r
    by (simp add: member_text_def p json_str_def del: dumps.simps)
  show ?case
  proof (cases kvs)
    case Nil
    have "read_any read m (dumps lib v @ CHR ''}'' # rest) = Some (json_normal v, CHR ''}'' # rest)"
      using Cons.prems(3) m Nil q [of "[]"] by (intro readsD [OF v]) (simp_all add: ends_delimiter del: dumps.simps)
    then show ?thesis unfolding m Nil list.map comma_sep.simps q by (simp add: read_json_chars p del: dumps.simps)
  next
    case (Cons x xs)
    let ?t = "comma_sep (map (member_text lib) kvs) @ CHR ''}'' # rest"
    have t: "comma_sep (map (member_text lib) (p # kvs)) @ CHR ''}'' # rest = member_text lib p @ CHR '','' # ?t"
      by (simp add: Cons)
    have "length (comma_sep (map (member_text lib) kvs) @ ''}'') < m" and l: "length (dumps lib v) < m"
      using Cons.prems(3) m Cons q [of "[]"] by (simp_all del: dumps.simps)
    then have "read_members read m ?t = Some (map (map_prod id json_normal) kvs, rest)" using Cons Cons.prems by (intro Cons.IH) auto
    moreover have "read_any read m (dumps lib v @ CHR '','' # ?t) = Some (json_normal v, CHR '','' # ?t)"
      by (rule readsD [OF v l]) (simp add: ends_delimiter)
    ultimately show ?thesis unfolding t m q by (simp add: read_json_chars p id_def del: dumps.simps comma_sep.simps)
  qed
qed simp

lemma first_char:
  assumes "float_text (float_repr lib) read" "json_ok v"
  shows "dumps lib v \<noteq> [] \<and> hd (dumps lib v) \<noteq> CHR '']''"
proof -
  consider "v = PNone \<or> (\<exists>s. v = PNonFinite s) \<or> flat_value v" "\<forall>s. v \<noteq> PStr s" | "\<exists>s. v = PStr s" | "\<exists>vs. v = PList vs" | "\<exists>d. v = PDict d"
    by (cases v) auto
  then show ?thesis
  proof cases
    case 1
    note t = atom_written(2,3) [OF assms(1) 1(1) assms(2) 1(2)]
    then have "\<not> delimiter (hd (dumps lib v))" by (metis hd_in_set)
    with t(2) show ?thesis by (metis delimiters(3))
  qed (auto simp: json_str_def)
qed

lemma atom_reads:
  assumes "float_text (float_repr lib) read" "json_ok v" "v = PNone \<or> (\<exists>s. v = PNonFinite s) \<or> flat_value v" "\<forall>s. v \<noteq> PStr s"
  shows "reads lib read v"
  unfolding reads_def
proof (intro allI impI)
  fix n rest assume "length (dumps lib v) < n" "ends rest"
  moreover have "json_normal v = v" using assms(3,4) by (cases v) auto
  ultimately show "read_any read n (dumps lib v @ rest) = Some (json_normal v, rest)"
    using atom_read [OF assms(1,3,2,4)] by (cases n) auto
qed

lemma document_reads:
  assumes "float_text (float_repr lib) read"
  shows "json_ok v \<Longrightarrow> reads lib read v"
proof (induction v)
  case (PList vs)
  show ?case
  proof (cases "vs = []")
    case True
    show ?thesis unfolding reads_def
    proof (intro allI impI)
      fix n rest assume "length (dumps lib (PList vs)) < n"
      then show "read_any read n (dumps lib (PList vs) @ rest) = Some (json_normal (PList vs), rest)" using True by (cases n) simp_all
    qed
  next
    case False
    have r: "\<forall>v \<in> set vs. reads lib read v" using PList by (simp add: list_all_iff)
    show ?thesis unfolding reads_def
    proof (intro allI impI)
      fix n rest assume n: "length (dumps lib (PList vs)) < n"
      then obtain m where m: "n = Suc m" by (cases n) auto
      have e: "read_elements read m (comma_sep (map (dumps lib) vs) @ CHR '']'' # rest) = Some (map json_normal vs, rest)"
        using n m by (intro elements_written [OF False r]) simp
      have h: "hd (comma_sep (map (dumps lib) vs) @ CHR '']'' # rest) \<noteq> CHR '']''"
      proof -
        obtain w ws where w: "vs = w # ws" using False by (cases vs) auto
        have "dumps lib w \<noteq> [] \<and> hd (dumps lib w) \<noteq> CHR '']''" using PList.prems w by (intro first_char [OF assms]) simp
        then show ?thesis unfolding w by (cases ws) (auto simp del: dumps.simps)
      qed
      show "read_any read n (dumps lib (PList vs) @ rest) = Some (json_normal (PList vs), rest)"
        using e h by (simp add: m)
    qed
  qed
next
  case (PDict kvs)
  have d: "dumps lib (PDict kvs) = ''{'' @ comma_sep (map (member_text lib) (sort_key fst kvs)) @ ''}''"
    by (simp add: sort_dumped member_text_def comp_def case_prod_unfold)
  have j: "json_normal (PDict kvs) = PDict (map (map_prod id json_normal) (sort_key fst kvs))" by (simp add: sort_map_prod)
  show ?case unfolding reads_def
  proof (intro allI impI)
    fix n rest assume n: "length (dumps lib (PDict kvs)) < n"
    then obtain m where m: "n = Suc m" by (cases n) auto
    show "read_any read n (dumps lib (PDict kvs) @ rest) = Some (json_normal (PDict kvs), rest)"
    proof (cases "kvs = []")
      case True
      then show ?thesis by (simp add: m)
    next
      case False
      then have ne: "sort_key fst kvs \<noteq> []" by (metis length_0_conv length_sort)
      have r: "\<forall>p \<in> set (sort_key fst kvs). reads lib read (snd p)" using PDict by (force simp: list_all_iff)
      have e: "read_members read m (comma_sep (map (member_text lib) (sort_key fst kvs)) @ CHR ''}'' # rest)
          = Some (map (map_prod id json_normal) (sort_key fst kvs), rest)"
        using n unfolding d m by (intro members_written [OF ne r]) simp
      have h: "hd (comma_sep (map (member_text lib) (sort_key fst kvs)) @ CHR ''}'' # rest) = CHR 0x22"
        using ne by (cases "map (member_text lib) (sort_key fst kvs)" rule: comma_sep.cases)
          (auto simp: member_text_def json_str_def simp del: dumps.simps)
      show ?thesis unfolding j d m using e h by (simp del: dumps.simps json_normal.simps)
    qed
  qed
next
  case (PStr s)
  show ?case unfolding reads_def
  proof (intro allI impI)
    fix n rest assume "length (dumps lib (PStr s)) < n"
    then show "read_any read n (dumps lib (PStr s) @ rest) = Some (json_normal (PStr s), rest)"
      by (cases n) (simp_all add: json_str_def read_json_chars)
  qed
qed (rule atom_reads [OF assms]; simp)+

text \<open>The contract of \<open>json.loads\<close>, and a reader that meets it.\<close>

definition json_faithful :: "pylib \<Rightarrow> bool" where
  "json_faithful lib \<longleftrightarrow> (\<forall>v. json_ok v \<longrightarrow> json_loads lib (dumps lib v) = Some (json_normal v))"

lemma dumps_reader [simp]: "dumps (lib\<lparr>json_loads := r\<rparr>) v = dumps lib v"
proof (induction v)
  case (PList vs)
  then have "map (dumps (lib\<lparr>json_loads := r\<rparr>)) vs = map (dumps lib) vs" by simp
  then show ?case by (simp only: dumps.simps)
next
  case (PDict kvs)
  then have "map (map_prod id (dumps (lib\<lparr>json_loads := r\<rparr>))) kvs = map (map_prod id (dumps lib)) kvs" by (auto simp: map_prod_def)
  then show ?case by (simp only: dumps.simps)
qed simp_all

lemma reader_faithful:
  assumes "float_text (float_repr lib) read"
  shows "json_faithful (lib\<lparr>json_loads := read_document read\<rparr>)"
  unfolding json_faithful_def
proof (intro allI impI)
  fix v assume "json_ok v"
  from readsD [OF document_reads [OF assms this], of "Suc (length (dumps lib v))" "[]"]
  show "json_loads (lib\<lparr>json_loads := read_document read\<rparr>) (dumps (lib\<lparr>json_loads := read_document read\<rparr>) v) = Some (json_normal v)"
    by (simp add: read_document_def ends_def)
qed

end
