(* ===== verification/Gold_Store_Spec.thy ===== *)
theory Gold_Store_Spec
  imports Gold_Store Json_Document
begin

text \<open>
  The contract of the gold tables: what a table holds after a partition or the whole table was replaced, and that
  no other table changes.  The locale \<open>table_store\<close> states it, its client lemmas follow a sequence of
  replacements, and the JSON tables implement it.
\<close>

section \<open>The interface\<close>

text \<open>\<open>holds s n v rs\<close>: in the state \<open>s\<close> the table \<open>n\<close> has the version \<open>v\<close> and the rows
  \<open>rs\<close>; \<open>canon\<close> is the form in which a row is stored, for the rows that \<open>fits\<close> the store.\<close>

locale table_store =
  fixes holds :: "'s \<Rightarrow> string \<Rightarrow> int \<Rightarrow> row list \<Rightarrow> bool"
    and put :: "'s \<Rightarrow> string \<Rightarrow> string \<Rightarrow> string \<Rightarrow> row list \<Rightarrow> (nat \<times> 's) res"
    and put_all :: "'s \<Rightarrow> string \<Rightarrow> row list \<Rightarrow> (nat \<times> 's) res"
    and canon :: "row \<Rightarrow> row"
    and fits :: "row \<Rightarrow> bool"
  assumes canon_get: "fits r \<Longrightarrow> row_get (canon r) c = row_get r c"
    and put_same: "put s n c x new = Inr (k, s') \<Longrightarrow> list_all fits new \<Longrightarrow> holds s n v rs \<Longrightarrow>
      holds s' n (v + 1) (filter (\<lambda>r. row_get r c \<noteq> PStr x) rs @ map canon new)"
    and put_other: "put s m c x new = Inr (k, s') \<Longrightarrow> m \<noteq> n \<Longrightarrow> holds s n v rs \<Longrightarrow> holds s' n v rs"
    and put_all_same: "put_all s n new = Inr (k, s') \<Longrightarrow> list_all fits new \<Longrightarrow> holds s n v rs \<Longrightarrow>
      holds s' n (v + 1) (map canon new)"
    and put_all_other: "put_all s m new = Inr (k, s') \<Longrightarrow> m \<noteq> n \<Longrightarrow> holds s n v rs \<Longrightarrow> holds s' n v rs"
begin

text \<open>A sequence of replacements \<open>(table, column, value, rows)\<close>.\<close>

fun puts :: "(string \<times> string \<times> string \<times> row list) list \<Rightarrow> 's \<Rightarrow> 's res" where
  "puts [] s = Inr s"
| "puts ((n, c, x, new) # ops) s = bindE (put s n c x new) (\<lambda>(k, s'). puts ops s')"

text \<open>What the sequence leaves of the rows of one table.\<close>

fun after :: "string \<Rightarrow> (string \<times> string \<times> string \<times> row list) list \<Rightarrow> row list \<Rightarrow> row list" where
  "after t [] rs = rs"
| "after t ((n, c, x, new) # ops) rs =
     after t ops (if n = t then filter (\<lambda>r. row_get r c \<noteq> PStr x) rs @ map canon new else rs)"

lemma puts_append: "puts (ops @ ops') s = bindE (puts ops s) (puts ops')"
  by (induction ops arbitrary: s) (auto simp: bindE_def split: sum.splits)

lemma puts_holds:
  assumes "puts ops s = Inr s'" "\<forall>(n, c, x, new) \<in> set ops. n = t \<longrightarrow> list_all fits new" "holds s t v rs"
  shows "\<exists>v'. holds s' t v' (after t ops rs)"
  using assms
proof (induction ops arbitrary: s v rs)
  case (Cons op ops)
  obtain n c x new where op: "op = (n, c, x, new)" by (cases op)
  from Cons.prems op obtain k s1 where p: "put s n c x new = Inr (k, s1)" and r: "puts ops s1 = Inr s'" by auto
  show ?case
  proof (cases "n = t")
    case True
    have "holds s1 t (v + 1) (filter (\<lambda>r. row_get r c \<noteq> PStr x) rs @ map canon new)"
      using p Cons.prems op True by (intro put_same) auto
    from Cons.IH [OF r _ this] Cons.prems(2) True show ?thesis by (auto simp: op)
  next
    case False
    from Cons.IH [OF r _ put_other [OF p False Cons.prems(3)]] Cons.prems(2) False show ?thesis by (auto simp: op)
  qed
qed auto

lemma after_append: "after t (ops @ ops') rs = after t ops' (after t ops rs)"
  by (induction ops arbitrary: rs) auto

text \<open>One replacement of the partition of every value: each partition has the new rows, in the order of the
  values, and the rows of other partitions come first, as they were.\<close>

lemma after_partitions:
  assumes "distinct xs" "\<And>x r. x \<in> set xs \<Longrightarrow> r \<in> set (new x) \<Longrightarrow> fits r \<and> row_get r c = PStr x"
  shows "after t (map (\<lambda>x. (t, c, x, new x)) xs) rs =
    filter (\<lambda>r. row_get r c \<notin> PStr ` set xs) rs @ concat (map (\<lambda>x. map canon (new x)) xs)"
  using assms
proof (induction xs arbitrary: rs)
  case (Cons x xs)
  have "row_get (canon r) c = PStr x" if "r \<in> set (new x)" for r using Cons.prems(2) [of x r] that by (simp add: canon_get)
  then have "filter (\<lambda>r. row_get r c \<notin> PStr ` set xs) (map canon (new x)) = map canon (new x)"
    using Cons.prems(1) by (auto simp: filter_id_conv)
  moreover have "filter (\<lambda>r. row_get r c \<notin> PStr ` set xs) (filter (\<lambda>r. row_get r c \<noteq> PStr x) rs) =
      filter (\<lambda>r. row_get r c \<notin> PStr ` set (x # xs)) rs" by (auto simp: filter_filter intro: filter_cong)
  moreover have "after t (map (\<lambda>x. (t, c, x, new x)) xs) (filter (\<lambda>r. row_get r c \<noteq> PStr x) rs @ map canon (new x)) =
      filter (\<lambda>r. row_get r c \<notin> PStr ` set xs) (filter (\<lambda>r. row_get r c \<noteq> PStr x) rs @ map canon (new x))
      @ concat (map (\<lambda>x. map canon (new x)) xs)"
    using Cons.prems(1) by (intro Cons.IH Cons.prems(2)) auto
  ultimately show ?case by simp
qed auto

lemma partition_of:
  assumes "distinct xs" "\<And>x r. x \<in> set xs \<Longrightarrow> r \<in> set (new x) \<Longrightarrow> fits r \<and> row_get r c = PStr x" "x \<in> set xs"
  shows "filter (\<lambda>r. row_get r c = PStr x) (after t (map (\<lambda>x. (t, c, x, new x)) xs) rs) = map canon (new x)"
proof -
  have old: "filter (\<lambda>r. row_get r c = PStr x) (filter (\<lambda>r. row_get r c \<notin> PStr ` set xs) rs) = []"
    using assms(3) by (auto simp: filter_empty_conv)
  have "filter (\<lambda>r. row_get r c = PStr x) (concat (map (\<lambda>x. map canon (new x)) ys)) = (if x \<in> set ys then map canon (new x) else [])"
    if "distinct ys" "set ys \<subseteq> set xs" for ys
    using that
  proof (induction ys)
    case (Cons y ys)
    have "filter (\<lambda>r. row_get r c = PStr x) (map canon (new y)) = (if y = x then map canon (new y) else [])"
      using Cons.prems assms(2) by (auto simp: filter_id_conv filter_empty_conv canon_get)
    with Cons show ?case by auto
  qed simp
  from this [OF assms(1)] assms(3) old show ?thesis by (simp add: after_partitions [OF assms(1,2)])
qed

lemma other_partitions:
  assumes "distinct xs" "\<And>x r. x \<in> set xs \<Longrightarrow> r \<in> set (new x) \<Longrightarrow> fits r \<and> row_get r c = PStr x"
  shows "filter (\<lambda>r. row_get r c \<notin> PStr ` set xs) (after t (map (\<lambda>x. (t, c, x, new x)) xs) rs) =
    filter (\<lambda>r. row_get r c \<notin> PStr ` set xs) rs"
proof -
  have "filter (\<lambda>r. row_get r c \<notin> PStr ` set xs) (concat (map (\<lambda>x. map canon (new x)) xs)) = []"
    using assms(2) by (auto simp: filter_empty_conv canon_get)
  then show ?thesis by (simp add: after_partitions [OF assms])
qed

end

section \<open>The JSON tables\<close>

text \<open>A row that JSON can write, as it is read back.\<close>

definition canon_row :: "row \<Rightarrow> row" where
  "canon_row r = as_row (json_normal (PDict r))"

text \<open>Rows of plain values, with no key twice.\<close>

definition plain_cell :: "pyval \<Rightarrow> bool" where
  "plain_cell v \<longleftrightarrow> json_ok v \<and> json_normal v = v"

definition plain_row :: "row \<Rightarrow> bool" where
  "plain_row r \<longleftrightarrow> distinct (map fst r) \<and> list_all (\<lambda>(k, v). plain_cell v) r"

lemma canon_plain:
  assumes "plain_row r"
  shows "canon_row r = sort_key fst r" "json_ok (PDict r)" "plain_row (canon_row r)" "canon_row (canon_row r) = canon_row r"
proof -
  have m: "map (map_prod id json_normal) r = r" using assms by (auto simp: plain_row_def plain_cell_def list_all_iff intro!: map_idI)
  then have "map (map_prod id json_normal) (sort_key fst r) = sort_key fst r" by (metis sort_map_prod)
  with m have c: "canon_row q = sort_key fst q" if "q = r \<or> q = sort_key fst r" for q
    using that by (auto simp: canon_row_def as_row_def)
  show e: "canon_row r = sort_key fst r" using c by simp
  show "json_ok (PDict r)" using assms by (auto simp: plain_row_def plain_cell_def list_all_iff)
  show "plain_row (canon_row r)" using assms by (auto simp: e plain_row_def list_all_iff distinct_map)
  show "canon_row (canon_row r) = canon_row r" using c by (simp add: e)
qed

lemma canon_row_get:
  assumes "plain_row r"
  shows "row_get (canon_row r) c = row_get r c"
  using assms by (simp add: canon_plain(1) row_get_def dget_def map_of_sort plain_row_def)

lemma json_normal_idem [simp]: "json_normal (json_normal v) = json_normal v"
proof (induction v)
  case (PDict kvs)
  then have "map (map_prod id (json_normal \<circ> json_normal)) kvs = map (map_prod id json_normal) kvs" by (auto simp: map_prod_def)
  then show ?case by (simp add: sort_map_prod map_prod.comp)
qed simp_all

text \<open>The contents of a table file; a table without a file is empty at version 0.\<close>

definition table_is :: "gold_lib \<Rightarrow> json_store \<Rightarrow> string \<Rightarrow> int \<Rightarrow> row list \<Rightarrow> bool" where
  "table_is lib s name v rows = (case table_path s name of
     Inl _ \<Rightarrow> False
   | Inr path \<Rightarrow> (case map_of (js_files s) path of
       None \<Rightarrow> v = 0 \<and> rows = []
     | Some content \<Rightarrow> content = dumps (base_lib lib) (PDict [(''version'', PInt v), (''rows'', PList (map PDict rows))])
         \<and> list_all (\<lambda>r. json_ok (PDict r) \<and> canon_row r = r) rows))"

lemma table_payload:
  assumes "json_faithful (base_lib lib)" "table_is lib s name v rows"
  shows "\<exists>payload. read_payload lib s name = Inr payload \<and> dget payload ''rows'' (PList []) = PList (map PDict rows)
    \<and> dget payload ''version'' (PInt 0) = PInt v"
proof -
  obtain path where path: "table_path s name = Inr path" using assms(2) by (auto simp: table_is_def split: sum.splits)
  show ?thesis
  proof (cases "map_of (js_files s) path")
    case None
    with assms(2) path show ?thesis by (simp add: table_is_def read_payload_def dget_def)
  next
    case (Some content)
    let ?doc = "PDict [(''version'', PInt v), (''rows'', PList (map PDict rows))]"
    have c: "content = dumps (base_lib lib) ?doc" and ok: "list_all (\<lambda>r. json_ok (PDict r) \<and> canon_row r = r) rows"
      using assms(2) Some path by (simp_all add: table_is_def)
    have n: "json_normal (PDict r) = PDict r" if "r \<in> set rows" for r
      using ok that by (auto simp: list_all_iff canon_row_def as_row_def)
    then have m: "map (json_normal \<circ> PDict) rows = map PDict rows" by (auto simp del: json_normal.simps)
    have "json_ok ?doc" using ok by (auto simp: list_all_iff)
    then have "json_loads (base_lib lib) (dumps (base_lib lib) ?doc) = Some (json_normal ?doc)"
      using assms(1) unfolding json_faithful_def by blast
    moreover have "json_loads (base_lib lib) = json_loads lib" by (simp add: pylib.truncate_def)
    moreover have "json_normal ?doc = PDict [(''rows'', PList (map PDict rows)), (''version'', PInt v)]"
    proof -
      have "json_normal ?doc = PDict (sort_key fst [(''version'', PInt v), (''rows'', PList (map (json_normal \<circ> PDict) rows))])"
        by (simp del: json_normal.simps(8) add: json_normal.simps(8) [of "[(''version'', PInt v), (''rows'', PList (map PDict rows))]"])
      then show ?thesis unfolding m by simp
    qed
    ultimately show ?thesis unfolding read_payload_def using path Some c by (simp add: dget_def del: dumps.simps)
  qed
qed

lemma table_reads:
  assumes "json_faithful (base_lib lib)" "table_is lib s name v rows"
  shows "read_table lib s name = Inr rows" "table_version lib s name = Inr v"
proof -
  obtain payload where p: "read_payload lib s name = Inr payload" "dget payload ''rows'' (PList []) = PList (map PDict rows)"
    "dget payload ''version'' (PInt 0) = PInt v" using table_payload [OF assms] by blast
  show "read_table lib s name = Inr rows" by (simp add: read_table_def p list_all_iff is_row_def as_row_def comp_def)
  show "table_version lib s name = Inr v" by (simp add: table_version_def p py_int_def)
qed

lemma write_table_is:
  assumes "json_faithful (base_lib lib)" "write_table lib s name new = Inr s'" "list_all (\<lambda>r. json_ok (PDict r) \<and> canon_row r = r) new"
    and "table_is lib s name v rows"
  shows "table_is lib s' name (v + 1) new"
proof -
  obtain path where path: "table_path s name = Inr path" using assms(4) by (auto simp: table_is_def split: sum.splits)
  have "table_path s' name = Inr path" and "map_of (js_files s') path =
      Some (dumps (base_lib lib) (PDict [(''version'', PInt (v + 1)), (''rows'', PList (map PDict new))]))"
    using assms(2) path table_reads(2) [OF assms(1,4)] by (auto simp: write_table_def map_of_dset table_path_def simp del: dumps.simps)
  then show ?thesis unfolding table_is_def using assms(3) by (simp del: dumps.simps)
qed

lemma write_table_other:
  assumes "write_table lib s m new = Inr s'" "m \<noteq> n" "table_is lib s n v rows"
  shows "table_is lib s' n v rows"
proof -
  obtain path where path: "table_path s m = Inr path" and s': "js_root s' = js_root s"
    and f: "map_of (js_files s') p = map_of (js_files s) p \<or> p = path" for p
    using assms(1) by (auto simp: write_table_def map_of_dset)
  have "table_path s' n = table_path s n" by (simp add: table_path_def s')
  moreover have "table_path s n \<noteq> Inr path" using path assms(2) by (auto simp: table_path_def split: if_splits)
  ultimately show ?thesis using assms(3) f unfolding table_is_def by (metis (no_types, lifting) sum.case sum.exhaust)
qed

lemma jsonable_plain:
  assumes "json_faithful (base_lib lib)" "list_all plain_row rows"
  shows "mapE (jsonable_row lib) rows = Inr (map canon_row rows)"
proof (rule mapE_Inr_map)
  fix r assume "r \<in> set rows"
  then have "plain_row r" using assms(2) by (simp add: list_all_iff)
  then have "json_loads (base_lib lib) (dumps (base_lib lib) (PDict r)) = Some (json_normal (PDict r))"
    using assms(1) canon_plain(2) unfolding json_faithful_def by blast
  moreover have "json_loads (base_lib lib) = json_loads lib" by (simp add: pylib.truncate_def)
  ultimately show "jsonable_row lib r = Inr (canon_row r)"
    unfolding jsonable_row_def gcanonical_def canon_row_def by (simp add: as_row_def del: dumps.simps)
qed

lemma canon_rows_ok: "list_all plain_row rows \<Longrightarrow> list_all (\<lambda>r. json_ok (PDict r) \<and> canon_row r = r) (map canon_row rows)"
  unfolding list_all_iff using canon_plain(2-4) by fastforce

text \<open>When the JSON library reads back what it wrote, the JSON tables meet the contract.\<close>

interpretation json_tables: table_store "\<lambda>s n v rs. json_faithful (base_lib lib) \<and> table_is lib s n v rs"
  "replace_partition lib" "replace_table lib" canon_row plain_row
proof unfold_locales
  fix r c assume "plain_row r"
  then show "row_get (canon_row r) c = row_get r c" by (rule canon_row_get)
next
  fix s n c x new k s' v rs
  assume p: "replace_partition lib s n c x new = Inr (k, s')" and f: "list_all plain_row new"
    and h: "json_faithful (base_lib lib) \<and> table_is lib s n v rs"
  then have rs: "list_all (\<lambda>r. json_ok (PDict r) \<and> canon_row r = r) rs"
    by (auto simp: table_is_def simp del: json_ok.simps split: sum.splits option.splits)
  have "write_table lib s n (filter (\<lambda>r. row_get r c \<noteq> PStr x) rs @ map canon_row new) = Inr s'"
    using p h jsonable_plain [OF _ f] table_reads(1) by (auto simp: replace_partition_def)
  then have "table_is lib s' n (v + 1) (filter (\<lambda>r. row_get r c \<noteq> PStr x) rs @ map canon_row new)"
    using h rs canon_rows_ok [OF f] by (intro write_table_is [of lib s n _ s' v rs]) (auto simp: list_all_iff simp del: json_ok.simps)
  then show "json_faithful (base_lib lib) \<and> table_is lib s' n (v + 1) (filter (\<lambda>r. row_get r c \<noteq> PStr x) rs @ map canon_row new)"
    using h by simp
next
  fix s m c x new k s' n v rs
  assume "replace_partition lib s m c x new = Inr (k, s')" "m \<noteq> n" "json_faithful (base_lib lib) \<and> table_is lib s n v rs"
  then show "json_faithful (base_lib lib) \<and> table_is lib s' n v rs"
    using write_table_other by (fastforce simp: replace_partition_def)
next
  fix s n new k s' v rs
  assume p: "replace_table lib s n new = Inr (k, s')" and f: "list_all plain_row new"
    and h: "json_faithful (base_lib lib) \<and> table_is lib s n v rs"
  then have "write_table lib s n (map canon_row new) = Inr s'" using jsonable_plain [OF _ f] by (auto simp: replace_table_def)
  then show "json_faithful (base_lib lib) \<and> table_is lib s' n (v + 1) (map canon_row new)"
    using h canon_rows_ok [OF f] write_table_is by blast
next
  fix s m new k s' n v rs
  assume "replace_table lib s m new = Inr (k, s')" "m \<noteq> n" "json_faithful (base_lib lib) \<and> table_is lib s n v rs"
  then show "json_faithful (base_lib lib) \<and> table_is lib s' n v rs"
    using write_table_other by (fastforce simp: replace_table_def)
qed

end
