(* ===== verification/Gold_Build_Spec.thy ===== *)
theory Gold_Build_Spec
  imports Gold_Flow_Spec Gold_Store_Spec
begin

text \<open>
  What \<open>build_facts\<close> leaves in the flow tables: for every date it built, the reference rows of the committed
  line counts of that date, and nothing else of that date; and over the dates of a full plan no count is lost.
\<close>

section \<open>Sums over groups\<close>

lemma sum_single: "distinct ks \<Longrightarrow> sum_list (map (\<lambda>k. if a = k then (y::int) else 0) ks) = (if a \<in> set ks then y else 0)"
  by (induction ks) auto

lemma sum_groups:
  fixes f :: "'a \<Rightarrow> int"
  assumes "distinct ks" "key ` set xs \<subseteq> set ks"
  shows "sum_list (map (\<lambda>k. sum_list (map f (filter (\<lambda>x. key x = k) xs))) ks) = sum_list (map f xs)"
  using assms(2)
proof (induction xs)
  case (Cons x xs)
  have "sum_list (map (\<lambda>k. sum_list (map f (filter (\<lambda>x. key x = k) (x # xs)))) ks) =
      sum_list (map (\<lambda>k. (if key x = k then f x else 0) + sum_list (map f (filter (\<lambda>x. key x = k) xs))) ks)"
    by (rule arg_cong [where f = sum_list], rule map_cong) auto
  also have "\<dots> = f x + sum_list (map f xs)" using Cons sum_single [OF assms(1), of "key x" "f x"] by (simp add: sum_list_addf)
  finally show ?case by simp
qed simp

definition column_sum :: "string \<Rightarrow> row list \<Rightarrow> int" where
  "column_sum name rows = sum_list (map (\<lambda>r. case row_get r name of PInt i \<Rightarrow> i | _ \<Rightarrow> 0) rows)"

lemma column_sum_append [simp]: "column_sum name (rs @ rs') = column_sum name rs + column_sum name rs'"
  by (simp add: column_sum_def)

lemma column_sum_canon: "list_all plain_row rows \<Longrightarrow> column_sum name (map canon_row rows) = column_sum name rows"
  unfolding column_sum_def map_map comp_def
  by (rule arg_cong [where f = sum_list], rule map_cong) (simp_all add: canon_row_get list_all_iff)

section \<open>Reference rows\<close>

lemma reference_row_get:
  assumes "column \<in> {''minute_utc'', ''hour_utc''}"
  shows "row_get (reference_row column d now key obs k) ''flow_date'' = PStr d"
    "row_get (reference_row column d now key obs k) ''entries'' = PInt (sum_list (map ob_entries (filter (\<lambda>ob. key ob = k) obs)))"
    "row_get (reference_row column d now key obs k) ''exits'' = PInt (sum_list (map ob_exits (filter (\<lambda>ob. key ob = k) obs)))"
    "plain_row (reference_row column d now key obs k)"
  using assms by (cases k; auto simp: reference_row_def Let_def row_get_def dget_def plain_row_def plain_cell_def)+

lemma reference_flow_plain:
  assumes "column \<in> {''minute_utc'', ''hour_utc''}"
  shows "list_all plain_row (reference_flow column d now key obs)"
    "r \<in> set (reference_flow column d now key obs) \<Longrightarrow> plain_row r \<and> row_get r ''flow_date'' = PStr d"
proof -
  show mem: "plain_row r \<and> row_get r ''flow_date'' = PStr d" if r: "r \<in> set (reference_flow column d now key obs)" for r
  proof -
    obtain k where "r = reference_row column d now key obs k" using r by (auto simp only: reference_flow_def set_map)
    then show ?thesis using reference_row_get(1,4) [OF assms] by simp
  qed
  then show "list_all plain_row (reference_flow column d now key obs)" by (simp add: list_all_iff)
qed

lemma reference_flow_sum:
  assumes "column \<in> {''minute_utc'', ''hour_utc''}"
  shows "column_sum ''entries'' (reference_flow column d now key obs) = sum_list (map ob_entries obs)"
    "column_sum ''exits'' (reference_flow column d now key obs) = sum_list (map ob_exits obs)"
  using sum_groups [of "sort (remdups (map key obs))" key obs]
  by (simp_all add: column_sum_def reference_flow_def comp_def reference_row_get [OF assms])

section \<open>All observations\<close>

text \<open>The observations of all dates.\<close>

definition all_observations :: "gold_lib \<Rightarrow> committed_output list \<Rightarrow> observation list" where
  "all_observations lib committed = concat (map (\<lambda>co. case output_captured_at lib co of
     Inr (Some t) \<Rightarrow> if located co
       then concat (map (\<lambda>l. case observation_of lib co t l of Inr ob \<Rightarrow> [ob] | Inl _ \<Rightarrow> []) (co_line_counts co)) else []
   | _ \<Rightarrow> []) committed)"

definition ob_date :: "observation \<Rightarrow> string" where
  "ob_date ob = date_text (ob_time ob)"

lemma lines_of_date:
  "concat (map (\<lambda>l. case observation_of lib co t l of Inr ob \<Rightarrow> [ob] | Inl _ \<Rightarrow> []) (filter (dated lib d t) ls)) =
   filter (\<lambda>ob. ob_date ob = d) (concat (map (\<lambda>l. case observation_of lib co t l of Inr ob \<Rightarrow> [ob] | Inl _ \<Rightarrow> []) ls))"
proof (induction ls)
  case (Cons l ls)
  show ?case
  proof (cases "observation_of lib co t l")
    case (Inl e)
    then show ?thesis using Cons by simp
  next
    case (Inr ob)
    then have "dated lib d t l \<longleftrightarrow> ob_date ob = d" by (auto simp: observation_of_def dated_def ob_date_def)
    with Inr Cons show ?thesis by simp
  qed
qed simp

lemma observations_of_date: "observations lib d committed = filter (\<lambda>ob. ob_date ob = d) (all_observations lib committed)"
  by (induction committed)
    (simp_all add: observations_def all_observations_def output_observations_def lines_of_date split: sum.split option.split)

lemma observation_dates:
  assumes "all_output_dates lib committed = Inr ds"
  shows "ob_date ` set (all_observations lib committed) \<subseteq> set ds"
proof
  fix x assume "x \<in> ob_date ` set (all_observations lib committed)"
  then obtain co t l ob where co: "co \<in> set committed" and t: "output_captured_at lib co = Inr (Some t)"
    and l: "l \<in> set (co_line_counts co)" and ob: "observation_of lib co t l = Inr ob" and x: "x = ob_date ob"
    by (auto simp: all_observations_def split: sum.splits option.splits if_splits) metis
  obtain dss where dss: "mapE (output_dates lib) committed = Inr dss" "ds = concat dss" using assms by (auto simp: all_output_dates_def)
  obtain od where od: "od \<in> set dss" "output_dates lib co = Inr od" using mapE_image [OF dss(1) co] by auto
  then obtain ts where ts: "mapE (\<lambda>line. line_observed_at lib line t) (co_line_counts co) = Inr ts" "od = date_text t # map date_text ts"
    using t by (auto simp: output_dates_def)
  obtain t' where t': "t' \<in> set ts" "line_observed_at lib l t = Inr t'" using mapE_image [OF ts(1) l] by auto
  have "ob_time ob = t'" using ob t'(2) by (auto simp: observation_of_def)
  then show "x \<in> set ds" using x t'(1) ts(2) od(1) dss(2) by (auto simp: ob_date_def intro!: bexI [of _ od])
qed

section \<open>The loop over the dates\<close>

lemma bindG_Inr: "bindG m f w = (Inr y, w') \<longleftrightarrow> (\<exists>x w1. m w = (Inr x, w1) \<and> f x w1 = (Inr y, w'))"
  by (auto simp: bindG_def split: prod.splits sum.splits)

lemma returnG_eq [simp]: "returnG r w = (x, w') \<longleftrightarrow> r = x \<and> w' = w"
  by (auto simp: returnG_def)

lemma readG_eq [simp]: "readG f w = (x, w') \<longleftrightarrow> f w = x \<and> w' = w"
  by (auto simp: readG_def)

lemma storeG_Inr: "storeG f w = (Inr x, w') \<longleftrightarrow> (\<exists>s. f (gw_store w) = Inr (x, s) \<and> w' = w\<lparr>gw_store := s\<rparr>)"
  by (auto simp: storeG_def split: sum.splits)

lemma mapG_puts:
  assumes "mapG (\<lambda>(t, c, rs). storeG (\<lambda>s. replace_partition lib s t c d rs)) ops w = (Inr ns, w')"
  shows "json_tables.puts lib (map (\<lambda>(t, c, rs). (t, c, d, rs)) ops) (gw_store w) = Inr (gw_store w') \<and> gw_state w' = gw_state w"
  using assms
proof (induction ops arbitrary: w ns)
  case (Cons op ops)
  obtain t c rs where op: "op = (t, c, rs)" by (cases op)
  from Cons.prems obtain n s ms where p: "replace_partition lib (gw_store w) t c d rs = Inr (n, s)"
    and r: "mapG (\<lambda>(t, c, rs). storeG (\<lambda>s. replace_partition lib s t c d rs)) ops (w\<lparr>gw_store := s\<rparr>) = (Inr ms, w')"
    by (auto simp: bindG_Inr storeG_Inr op)
  from Cons.IH [OF r] p show ?case by (simp add: op)
qed simp

text \<open>The replacements of one date.\<close>

definition date_puts :: "string \<Rightarrow> fact_rows \<Rightarrow> (string \<times> string \<times> string \<times> row list) list" where
  "date_puts d f = map (\<lambda>(t, c, rs). (t, c, d, rs)) (fact_tables_of f)"

lemma build_partitions:
  assumes "mapG (build_partition lib committed control now) ds w = (Inr counts, w')"
  shows "\<exists>fs. list_all2 (\<lambda>d f. fact_rows_for_date lib committed control d now = Inr f) ds fs
    \<and> json_tables.puts lib (concat (map2 date_puts ds fs)) (gw_store w) = Inr (gw_store w') \<and> gw_state w' = gw_state w"
  using assms
proof (induction ds arbitrary: w counts)
  case (Cons d ds)
  then obtain n w1 ns where b: "build_partition lib committed control now d w = (Inr n, w1)"
    and r: "mapG (build_partition lib committed control now) ds w1 = (Inr ns, w')" by (auto simp: bindG_Inr)
  obtain f where f: "fact_rows_for_date lib committed control d now = Inr f"
    and m: "mapG (\<lambda>(t, c, rs). storeG (\<lambda>s. replace_partition lib s t c d rs)) (fact_tables_of f) w = (Inr n, w1)"
    using b by (auto simp: build_partition_def bindG_Inr)
  have p: "json_tables.puts lib (date_puts d f) (gw_store w) = Inr (gw_store w1)" "gw_state w1 = gw_state w"
    using mapG_puts [OF m] by (simp_all add: date_puts_def)
  from Cons.IH [OF r] obtain fs where fs: "list_all2 (\<lambda>d f. fact_rows_for_date lib committed control d now = Inr f) ds fs"
    "json_tables.puts lib (concat (map2 date_puts ds fs)) (gw_store w1) = Inr (gw_store w')" "gw_state w' = gw_state w1" by blast
  show ?case
    by (rule exI [of _ "f # fs"]) (use f fs p in \<open>simp add: json_tables.puts_append\<close>)
qed simp

lemma after_date_puts:
  assumes "list_all2 (\<lambda>d f. fact_rows_for_date lib committed control d now = Inr f) ds fs"
    and "(t, column, key) \<in> {(''gold_flow_minute'', ''minute_utc'', minute_key), (''gold_flow_hour'', ''hour_utc'', hour_key)}"
  shows "json_tables.after t (concat (map2 date_puts ds fs)) rs =
    json_tables.after t (map (\<lambda>d. (t, ''flow_date'', d, reference_flow column d now key (observations lib d committed))) ds) rs"
  using assms(1)
proof (induction ds fs arbitrary: rs rule: list_all2_induct)
  case (Cons d ds f fs)
  have "json_tables.after t (date_puts d f) rs =
      json_tables.after t [(t, ''flow_date'', d, reference_flow column d now key (observations lib d committed))] rs"
    using assms(2) fact_rows_reference [OF Cons(1)] by (auto simp: date_puts_def fact_tables_of_def)
  with Cons.IH show ?case by (simp add: json_tables.after_append)
qed simp

text \<open>What the dates of a build leave in one flow table.\<close>

definition flow_table_built :: "gold_lib \<Rightarrow> json_store \<Rightarrow> json_store \<Rightarrow> string \<Rightarrow> string \<Rightarrow> (observation \<Rightarrow> flow_key) \<Rightarrow> string list
    \<Rightarrow> string \<Rightarrow> committed_output list \<Rightarrow> row list \<Rightarrow> row list \<Rightarrow> bool" where
  "flow_table_built lib s s' t column key ds now committed rows rows' \<longleftrightarrow>
     read_table lib s t = Inr rows \<and> read_table lib s' t = Inr rows'
     \<and> filter (\<lambda>r. row_get r ''flow_date'' \<notin> PStr ` set ds) rows' = filter (\<lambda>r. row_get r ''flow_date'' \<notin> PStr ` set ds) rows
     \<and> list_all (\<lambda>d. filter (\<lambda>r. row_get r ''flow_date'' = PStr d) rows' =
          map canon_row (reference_flow column d now key (observations lib d committed))) ds"

lemma flow_table_after:
  assumes json: "json_faithful (base_lib lib)" and held: "table_is lib s t v rows"
    and fs: "list_all2 (\<lambda>d f. fact_rows_for_date lib committed control d now = Inr f) ds fs"
    and puts: "json_tables.puts lib (concat (map2 date_puts ds fs)) s = Inr s'"
    and t: "(t, column, key) \<in> {(''gold_flow_minute'', ''minute_utc'', minute_key), (''gold_flow_hour'', ''hour_utc'', hour_key)}"
    and ds: "distinct ds"
  shows "\<exists>v' rows'. table_is lib s' t v' rows' \<and> flow_table_built lib s s' t column key ds now committed rows rows'"
proof -
  have c: "column \<in> {''minute_utc'', ''hour_utc''}" using t by auto
  let ?new = "\<lambda>d. reference_flow column d now key (observations lib d committed)"
  have fits: "\<And>x r. x \<in> set ds \<Longrightarrow> r \<in> set (?new x) \<Longrightarrow> plain_row r \<and> row_get r ''flow_date'' = PStr x"
    using reference_flow_plain(2) [OF c] by blast
  have ok: "\<forall>(n, c, x, new) \<in> set (concat (map2 date_puts ds fs)). n = t \<longrightarrow> list_all plain_row new"
  proof (clarify)
    fix c' x new assume "(t, c', x, new) \<in> set (concat (map2 date_puts ds fs))"
    then obtain d f where "(d, f) \<in> set (zip ds fs)" and m: "(t, c', x, new) \<in> set (date_puts d f)" by auto
    then have "fact_rows_for_date lib committed control d now = Inr f" using fs by (auto simp: list_all2_iff)
    from fact_rows_reference [OF this] m t show "list_all plain_row new"
      using reference_flow_plain(1) [OF c] by (auto simp: date_puts_def fact_tables_of_def)
  qed
  let ?rows = "json_tables.after t (concat (map2 date_puts ds fs)) rows"
  obtain v' where v': "table_is lib s' t v' ?rows"
    using json_tables.puts_holds [OF puts ok] json held by blast
  have r: "?rows = json_tables.after t (map (\<lambda>d. (t, ''flow_date'', d, ?new d)) ds) rows" by (rule after_date_puts [OF fs t])
  have "flow_table_built lib s s' t column key ds now committed rows ?rows"
    unfolding flow_table_built_def
    using table_reads(1) [OF json held] table_reads(1) [OF json v'] json_tables.other_partitions [OF ds fits]
      json_tables.partition_of [OF ds fits] by (simp add: r list_all_iff)
  with v' show ?thesis by blast
qed

section \<open>The whole build\<close>

lemma stateG_store: "stateG f w = (x, w') \<Longrightarrow> gw_store w' = gw_store w"
  by (auto simp: stateG_def split: prod.splits)

lemma selected_pure: "selected_dates lib src clk a tc w = (r, w') \<Longrightarrow> w' = w"
  by (auto simp: selected_dates_def split: option.splits)

lemma selected_distinct: "selected_dates lib src clk a tc w = (Inr ds, w') \<Longrightarrow> distinct ds"
  by (auto simp: selected_dates_def plan_def Let_def split: option.splits pyval.splits if_splits prod.splits)

lemma build_facts_done:
  assumes "build_facts lib src clk a w = (Inr (Done fx), w')"
  obtains tc committed control counts w1 works attempts k s2 k' where
    "selected_dates lib src clk a tc w = (Inr (fx_dates fx), w)"
    "committed_outputs lib (src 6) = Inr committed" "control_rows_of (src 7) = Inr control"
    "mapG (build_partition lib committed control (iso (clk 1))) (fx_dates fx) w = (Inr counts, w1)"
    "operational_rows lib control committed (iso (clk 1)) = Inr (works, attempts)"
    "replace_table lib (gw_store w1) ''gold_work_operations'' works = Inr (k, s2)"
    "replace_table lib s2 ''gold_attempt_operations'' attempts = Inr (k', gw_store w')"
proof -
  obtain previous current where
    c: "\<not> normal_incremental_facts_noop (fb_dates a = None) (fb_force a) (fb_full_rebuild a) previous
         (source_key lib (fact_source (source_checkpoint_of lib (src 0)) (operations_source_checkpoint lib (src 1))))
         (checkpoint_targets_match lib previous current)"
    and prev: "checkpoint (gw_state w) ''facts'' = previous" and cur: "table_versions lib (gw_store w) FACT_TARGET_TABLES = Inr current"
    using assms by (auto simp: build_facts_def Let_def bindG_Inr versionsG_def split: if_splits)
  let ?tc = "checkpoint_targets_match lib previous current"
  obtain selected committed control counts w1 works attempts k s2 k' s3 where
    sel: "selected_dates lib src clk a ?tc w = (Inr selected, w)"
    and co: "committed_outputs lib (src 6) = Inr committed" and cr: "control_rows_of (src 7) = Inr control"
    and mp: "mapG (build_partition lib committed control (iso (clk 1))) selected w = (Inr counts, w1)"
    and op: "operational_rows lib control committed (iso (clk 1)) = Inr (works, attempts)"
    and r1: "replace_table lib (gw_store w1) ''gold_work_operations'' works = Inr (k, s2)"
    and r2: "replace_table lib s2 ''gold_attempt_operations'' attempts = Inr (k', s3)"
    and fin: "fx_dates fx = selected" "gw_store w' = s3"
    using assms c prev cur
    apply (simp add: build_facts_def Let_def bindG_Inr versionsG_def storeG_Inr split: if_splits)
     apply (elim exE conjE, frule selected_pure, force dest: stateG_store)+
    done
  show thesis by (rule that [of ?tc committed control counts w1 works attempts k s2 k']) (use sel co cr mp op r1 r2 fin in auto)
qed

lemma build_keeps_flow:
  assumes "json_faithful (base_lib lib)" "table_is lib (gw_store w) t v rows" "build_facts lib src clk a w = (Inr (Done fx), w')"
    and "committed_outputs lib (src 6) = Inr committed"
    and "(t, column, key) \<in> {(''gold_flow_minute'', ''minute_utc'', minute_key), (''gold_flow_hour'', ''hour_utc'', hour_key)}"
  shows "\<exists>rows'. flow_table_built lib (gw_store w) (gw_store w') t column key (fx_dates fx) (iso (clk 1)) committed rows rows'"
proof -
  obtain tc committed2 control counts w1 works attempts k s2 k' where
    sel: "selected_dates lib src clk a tc w = (Inr (fx_dates fx), w)"
    and co: "committed_outputs lib (src 6) = Inr committed2" and control: "control_rows_of (src 7) = Inr control"
    and mp2: "mapG (build_partition lib committed2 control (iso (clk 1))) (fx_dates fx) w = (Inr counts, w1)"
    and op: "operational_rows lib control committed2 (iso (clk 1)) = Inr (works, attempts)"
    and r: "replace_table lib (gw_store w1) ''gold_work_operations'' works = Inr (k, s2)"
      "replace_table lib s2 ''gold_attempt_operations'' attempts = Inr (k', gw_store w')"
    by (rule build_facts_done [OF assms(3)])
  have mp: "mapG (build_partition lib committed control (iso (clk 1))) (fx_dates fx) w = (Inr counts, w1)"
    using mp2 co assms(4) by simp
  from build_partitions [OF mp] obtain fs where fs: "list_all2 (\<lambda>d f. fact_rows_for_date lib committed control d (iso (clk 1)) = Inr f) (fx_dates fx) fs"
    and p: "json_tables.puts lib (concat (map2 date_puts (fx_dates fx) fs)) (gw_store w) = Inr (gw_store w1)" by blast
  from flow_table_after [OF assms(1,2) fs p assms(5) selected_distinct [OF sel]] obtain v' rows' where
    h: "table_is lib (gw_store w1) t v' rows'"
    and b: "flow_table_built lib (gw_store w) (gw_store w1) t column key (fx_dates fx) (iso (clk 1)) committed rows rows'" by blast
  have t: "''gold_work_operations'' \<noteq> t" "''gold_attempt_operations'' \<noteq> t" using assms(5) by auto
  have "table_is lib (gw_store w') t v' rows'"
    using json_tables.put_all_other [OF r(2) t(2)] json_tables.put_all_other [OF r(1) t(1)] h assms(1) by blast
  then have "read_table lib (gw_store w') t = Inr rows'" using table_reads(1) [OF assms(1)] by blast
  with b show ?thesis unfolding flow_table_built_def by auto
qed

section \<open>Conservation\<close>

lemma planned_dates:
  assumes "selected_dates lib src clk a tc w = (Inr ds, w)" "fb_dates a = None" "fb_full_rebuild a \<or> fb_force a"
    and "committed_outputs lib (src 4) = Inr committed"
  shows "\<exists>ds'. all_output_dates lib committed = Inr ds' \<and> set ds' \<subseteq> set ds"
proof -
  obtain n where n: "fb_lookback_hours a = PInt n" using assms(1,2) by (cases "fb_lookback_hours a") (auto simp: selected_dates_def plan_def)
  have full: "(fb_full_rebuild a \<or> \<not> tc \<or> fb_force a) = True" "((fb_full_rebuild a \<or> \<not> tc) \<or> fb_force a) = True"
    using assms(3) by auto
  show ?thesis
    using assms(1,2,4) n unfolding selected_dates_def plan_def Let_def full by (auto simp: full_dates_def split: if_splits)
qed

lemma built_sum:
  assumes "flow_table_built lib s s' t column key ds now committed rows rows'" "distinct ds"
    and "column \<in> {''minute_utc'', ''hour_utc''}" "ob_date ` set (all_observations lib committed) \<subseteq> set ds"
  shows "column_sum ''entries'' (filter (\<lambda>r. row_get r ''flow_date'' \<in> PStr ` set ds) rows') =
      sum_list (map ob_entries (all_observations lib committed))"
    and "column_sum ''exits'' (filter (\<lambda>r. row_get r ''flow_date'' \<in> PStr ` set ds) rows') =
      sum_list (map ob_exits (all_observations lib committed))"
proof -
  let ?obs = "all_observations lib committed" and ?mine = "filter (\<lambda>r. row_get r ''flow_date'' \<in> PStr ` set ds) rows'"
  let ?part = "\<lambda>d. filter (\<lambda>r. row_get r ''flow_date'' = PStr d) rows'"
  have split: "column_sum name ?mine = sum_list (map (\<lambda>d. column_sum name (?part d)) ds)" for name
  proof -
    have d: "distinct (map PStr ds)" using assms(2) by (simp add: distinct_map inj_on_def)
    have "filter (\<lambda>r. row_get r ''flow_date'' = PStr d) ?mine = ?part d" if "d \<in> set ds" for d
      using that by (auto simp: filter_filter intro: filter_cong)
    then have "sum_list (map (\<lambda>d. column_sum name (?part d)) ds) =
        sum_list (map (\<lambda>k. column_sum name (filter (\<lambda>r. row_get r ''flow_date'' = k) ?mine)) (map PStr ds))"
      unfolding map_map comp_def by (intro arg_cong [where f = sum_list] map_cong) simp_all
    also have "\<dots> = column_sum name ?mine"
      unfolding column_sum_def by (rule sum_groups [OF d]) auto
    finally show ?thesis by simp
  qed
  have part: "column_sum name (?part d) = column_sum name (reference_flow column d now key (observations lib d committed))"
    if "d \<in> set ds" for name d
    using assms(1) that reference_flow_plain(1) [OF assms(3)] by (simp add: flow_table_built_def list_all_iff column_sum_canon)
  have "sum_list (map (\<lambda>d. column_sum ''entries'' (?part d)) ds) = sum_list (map (\<lambda>d. sum_list (map ob_entries (filter (\<lambda>ob. ob_date ob = d) ?obs))) ds)"
    "sum_list (map (\<lambda>d. column_sum ''exits'' (?part d)) ds) = sum_list (map (\<lambda>d. sum_list (map ob_exits (filter (\<lambda>ob. ob_date ob = d) ?obs))) ds)"
    by (intro arg_cong [where f = sum_list] map_cong refl; simp add: part reference_flow_sum [OF assms(3)] observations_of_date)+
  with sum_groups [OF assms(2,4)] split show "column_sum ''entries'' ?mine = sum_list (map ob_entries ?obs)"
    "column_sum ''exits'' ?mine = sum_list (map ob_exits ?obs)" by simp_all
qed

text \<open>Every line of a located output is an observation, once all its dates were built.\<close>

lemma foldE_each: "foldE f xs s = Inr s' \<Longrightarrow> x \<in> set xs \<Longrightarrow> \<exists>a b. f x a = Inr b"
  by (induction xs arbitrary: s) auto

lemma built_lines_read:
  assumes "fact_rows_for_date lib committed control d now = Inr f" "co \<in> set committed"
    and "output_captured_at lib co = Inr (Some t)" "located co" "l \<in> set (co_line_counts co)" "dated lib d t l"
  shows "\<exists>ob. observation_of lib co t l = Inr ob"
proof -
  obtain a b where "add_output lib d co a = Inr b"
    using assms(1) foldE_each [OF _ assms(2)] by (fastforce simp: fact_rows_for_date_def)
  then obtain a' where "foldE (add_line lib d co t (gstr lib (row_get (metadata_of co) ''camera_id''))
      (gstr lib (row_get (metadata_of co) ''location_id''))) (co_line_counts co) a = Inr a'"
    using assms(3,4) by (auto simp: add_output_def located_def Let_def)
  from foldE_each [OF this assms(5)] obtain x y where
    "add_line lib d co t (gstr lib (row_get (metadata_of co) ''camera_id'')) (gstr lib (row_get (metadata_of co) ''location_id'')) l x = Inr y" by blast
  from add_line_extends(3) [OF this assms(6)] show ?thesis .
qed

definition counted_lines :: "gold_lib \<Rightarrow> committed_output list \<Rightarrow> nat" where
  "counted_lines lib committed = sum_list (map (\<lambda>co. case output_captured_at lib co of
     Inr (Some t) \<Rightarrow> if located co then length (co_line_counts co) else 0 | _ \<Rightarrow> 0) committed)"

lemma length_singletons: "(\<And>l. l \<in> set ls \<Longrightarrow> \<exists>ob. f l = Inr ob) \<Longrightarrow>
    length (concat (map (\<lambda>l. case f l of Inr ob \<Rightarrow> [ob] | Inl _ \<Rightarrow> []) ls)) = length ls"
  by (induction ls) force+

lemma all_lines_counted:
  assumes dates: "all_output_dates lib committed = Inr ds'" "set ds' \<subseteq> set ds"
    and built: "list_all2 (\<lambda>d f. fact_rows_for_date lib committed control d now = Inr f) ds fs"
  shows "length (all_observations lib committed) = counted_lines lib committed"
proof -
  have each: "\<exists>ob. observation_of lib co t l = Inr ob"
    if co: "co \<in> set committed" "output_captured_at lib co = Inr (Some t)" "located co" "l \<in> set (co_line_counts co)" for co t l
  proof -
    obtain dss where dss: "mapE (output_dates lib) committed = Inr dss" "ds' = concat dss" using dates(1) by (auto simp: all_output_dates_def)
    obtain od where od: "od \<in> set dss" "output_dates lib co = Inr od" using mapE_image [OF dss(1) co(1)] by auto
    then obtain ts where ts: "mapE (\<lambda>line. line_observed_at lib line t) (co_line_counts co) = Inr ts" "od = date_text t # map date_text ts"
      using co(2) by (auto simp: output_dates_def)
    obtain t' where t': "t' \<in> set ts" "line_observed_at lib l t = Inr t'" using mapE_image [OF ts(1) co(4)] by auto
    have "date_text t' \<in> set od" using t'(1) ts(2) by simp
    moreover have "set od \<subseteq> set ds'" using od(1) dss(2) by auto
    ultimately have "date_text t' \<in> set ds" using dates(2) by blast
    then obtain i where "i < length ds" "ds ! i = date_text t'" by (auto simp: in_set_conv_nth)
    with list_all2_nthD [OF built] have "fact_rows_for_date lib committed control (date_text t') now = Inr (fs ! i)" by fastforce
    then show ?thesis using built_lines_read [OF _ co] t'(2) by (simp add: dated_def)
  qed
  have "length (case output_captured_at lib co of
     Inr (Some t) \<Rightarrow> if located co
       then concat (map (\<lambda>l. case observation_of lib co t l of Inr ob \<Rightarrow> [ob] | Inl _ \<Rightarrow> []) (co_line_counts co)) else []
     | _ \<Rightarrow> []) = (case output_captured_at lib co of
     Inr (Some t) \<Rightarrow> if located co then length (co_line_counts co) else 0 | _ \<Rightarrow> 0)" if c: "co \<in> set committed" for co
  proof (cases "\<exists>t. output_captured_at lib co = Inr (Some t) \<and> located co")
    case True
    then obtain t where t: "output_captured_at lib co = Inr (Some t)" "located co" by blast
    have "length (concat (map (\<lambda>l. case observation_of lib co t l of Inr ob \<Rightarrow> [ob] | Inl _ \<Rightarrow> []) (co_line_counts co))) = length (co_line_counts co)"
      by (rule length_singletons) (rule each [OF c t])
    then show ?thesis using t by simp
  next
    case False
    then show ?thesis by (auto split: sum.split option.split)
  qed
  then have "map length (map (\<lambda>co. case output_captured_at lib co of
     Inr (Some t) \<Rightarrow> if located co
       then concat (map (\<lambda>l. case observation_of lib co t l of Inr ob \<Rightarrow> [ob] | Inl _ \<Rightarrow> []) (co_line_counts co)) else []
     | _ \<Rightarrow> []) committed) = map (\<lambda>co. case output_captured_at lib co of
     Inr (Some t) \<Rightarrow> if located co then length (co_line_counts co) else 0 | _ \<Rightarrow> 0) committed"
    unfolding map_map comp_def by (intro map_cong refl)
  then show ?thesis unfolding all_observations_def counted_lines_def length_concat by (simp only:)
qed

section \<open>The flow tables of a build\<close>

lemma flow_tables_built:
  assumes "json_faithful (base_lib lib)" "build_facts lib src clk a w = (Inr (Done fx), w')" "committed_outputs lib (src 6) = Inr committed"
    and "table_is lib (gw_store w) t v rows"
    and "(t, column, key) \<in> {(''gold_flow_minute'', ''minute_utc'', minute_key), (''gold_flow_hour'', ''hour_utc'', hour_key)}"
    and "fb_dates a = None" "fb_full_rebuild a \<or> fb_force a" "committed_outputs lib (src 4) = Inr committed"
  shows "\<exists>rows'. flow_table_built lib (gw_store w) (gw_store w') t column key (fx_dates fx) (iso (clk 1)) committed rows rows'
    \<and> column_sum ''entries'' (filter (\<lambda>r. row_get r ''flow_date'' \<in> PStr ` set (fx_dates fx)) rows') =
        sum_list (map ob_entries (all_observations lib committed))
    \<and> column_sum ''exits'' (filter (\<lambda>r. row_get r ''flow_date'' \<in> PStr ` set (fx_dates fx)) rows') =
        sum_list (map ob_exits (all_observations lib committed))"
    and "length (all_observations lib committed) = counted_lines lib committed"
proof -
  obtain tc committed2 control counts w1 works attempts k s2 k' where
    sel: "selected_dates lib src clk a tc w = (Inr (fx_dates fx), w)"
    and co: "committed_outputs lib (src 6) = Inr committed2" and control: "control_rows_of (src 7) = Inr control"
    and mp2: "mapG (build_partition lib committed2 control (iso (clk 1))) (fx_dates fx) w = (Inr counts, w1)"
    and op: "operational_rows lib control committed2 (iso (clk 1)) = Inr (works, attempts)"
    and r: "replace_table lib (gw_store w1) ''gold_work_operations'' works = Inr (k, s2)"
      "replace_table lib s2 ''gold_attempt_operations'' attempts = Inr (k', gw_store w')"
    by (rule build_facts_done [OF assms(2)])
  have mp: "mapG (build_partition lib committed control (iso (clk 1))) (fx_dates fx) w = (Inr counts, w1)"
    using mp2 co assms(3) by simp
  from build_partitions [OF mp] obtain fs where fs: "list_all2 (\<lambda>d f. fact_rows_for_date lib committed control d (iso (clk 1)) = Inr f) (fx_dates fx) fs" by blast
  from planned_dates [OF sel assms(6,7,8)] obtain ds' where ds': "all_output_dates lib committed = Inr ds'" "set ds' \<subseteq> set (fx_dates fx)" by blast
  show "length (all_observations lib committed) = counted_lines lib committed" by (rule all_lines_counted [OF ds' fs])
  have c: "column \<in> {''minute_utc'', ''hour_utc''}" using assms(5) by auto
  have sub: "ob_date ` set (all_observations lib committed) \<subseteq> set (fx_dates fx)" using observation_dates [OF ds'(1)] ds'(2) by blast
  from build_keeps_flow [OF assms(1,4,2,3,5)] obtain rows' where
    b: "flow_table_built lib (gw_store w) (gw_store w') t column key (fx_dates fx) (iso (clk 1)) committed rows rows'" by blast
  from built_sum [OF b selected_distinct [OF sel] c sub] b
  show "\<exists>rows'. flow_table_built lib (gw_store w) (gw_store w') t column key (fx_dates fx) (iso (clk 1)) committed rows rows'
    \<and> column_sum ''entries'' (filter (\<lambda>r. row_get r ''flow_date'' \<in> PStr ` set (fx_dates fx)) rows') =
        sum_list (map ob_entries (all_observations lib committed))
    \<and> column_sum ''exits'' (filter (\<lambda>r. row_get r ''flow_date'' \<in> PStr ` set (fx_dates fx)) rows') =
        sum_list (map ob_exits (all_observations lib committed))" by blast
qed

end
