(* ===== verification/Gold_Schema.thy ===== *)
theory Gold_Schema
  imports Gold_Job
begin

text \<open>
  The Spark schemas of the gold tables (\<open>_SPARK_FIELDS\<close> of \<^verbatim>\<open>sjd_gold.py\<close>), the conversion of a row to the
  values that Spark is given, and what it means that such a row has the types of its schema.
\<close>

section \<open>Schemas\<close>

datatype spark_kind = K_string | K_timestamp | K_date | K_integer | K_long | K_double | K_boolean

type_synonym spark_fields = "(string \<times> spark_kind \<times> bool) list"

definition flow_minute_fields :: spark_fields where
  "flow_minute_fields =
     [(''minute_utc'', K_timestamp, False), (''time_key'', K_integer, False), (''camera_id'', K_string, False),
      (''location_id'', K_string, False), (''entries'', K_long, False), (''exits'', K_long, False), (''net_flow'', K_long, False),
      (''source_videos'', K_long, False), (''refreshed_at'', K_timestamp, False), (''flow_date'', K_date, False)]"

definition flow_hour_fields :: spark_fields where
  "flow_hour_fields =
     [(''hour_utc'', K_timestamp, False), (''time_key'', K_integer, False), (''camera_id'', K_string, False),
      (''location_id'', K_string, False), (''entries'', K_long, False), (''exits'', K_long, False), (''net_flow'', K_long, False),
      (''source_videos'', K_long, False), (''refreshed_at'', K_timestamp, False), (''flow_date'', K_date, False)]"

definition video_fields :: spark_fields where
  "video_fields =
     [(''work_id'', K_string, False), (''captured_at_utc'', K_timestamp, False), (''time_key'', K_integer, False),
      (''camera_id'', K_string, False), (''location_id'', K_string, False), (''config_sha256'', K_string, False),
      (''video_duration_seconds'', K_double, True), (''processing_seconds'', K_double, True),
      (''speed_x_realtime'', K_double, True), (''distinct_people'', K_long, True), (''line_in_count'', K_long, True),
      (''line_out_count'', K_long, True), (''completed_at'', K_timestamp, True), (''capture_date'', K_date, False)]"

definition operations_hour_fields :: spark_fields where
  "operations_hour_fields =
     [(''hour_utc'', K_timestamp, False), (''time_key'', K_integer, False), (''queued'', K_long, False),
      (''started'', K_long, False), (''succeeded'', K_long, False), (''failed'', K_long, False), (''deferred'', K_long, False),
      (''video_hours_completed'', K_double, False), (''average_processing_seconds'', K_double, True),
      (''p95_processing_seconds'', K_double, True), (''refreshed_at'', K_timestamp, False), (''operation_date'', K_date, False)]"

definition work_operations_fields :: spark_fields where
  "work_operations_fields =
     [(''work_id'', K_string, False), (''asset_id'', K_string, True), (''asset_version'', K_string, True),
      (''source_uri'', K_string, True), (''manifest_uri'', K_string, True), (''source_etag'', K_string, True),
      (''expected_size_bytes'', K_long, True), (''expected_sha256'', K_string, True), (''camera_id'', K_string, True),
      (''location_id'', K_string, True), (''captured_at_utc'', K_timestamp, True), (''camera_timezone'', K_string, True),
      (''duration_seconds'', K_double, True), (''priority'', K_long, True), (''status'', K_string, False),
      (''received_at'', K_timestamp, True), (''queued_at'', K_timestamp, True), (''not_before_at'', K_timestamp, True),
      (''attempt_count'', K_long, False), (''max_attempts'', K_long, False), (''lease_owner_attempt_id'', K_string, True),
      (''lease_dispatcher_id'', K_string, True), (''lease_acquired_at'', K_timestamp, True),
      (''lease_expires_at'', K_timestamp, True), (''last_heartbeat_at'', K_timestamp, True),
      (''committed_attempt_id'', K_string, True), (''completed_at'', K_timestamp, True),
      (''last_error_category'', K_string, True), (''last_error_type'', K_string, True), (''last_error_message'', K_string, True),
      (''config_json'', K_string, True), (''config_sha256'', K_string, True), (''capture_date'', K_date, True),
      (''last_replay_id'', K_string, True), (''replay_generation'', K_long, False), (''queue_entered_at'', K_timestamp, True)]"

definition attempt_operations_fields :: spark_fields where
  "attempt_operations_fields =
     [(''attempt_id'', K_string, False), (''work_id'', K_string, False), (''dispatcher_id'', K_string, True),
      (''pipeline_run_id'', K_string, True), (''activity_run_id'', K_string, True), (''fabric_job_instance_id'', K_string, True),
      (''sdk_version'', K_string, True), (''bundle_manifest_sha256'', K_string, True), (''config_sha256'', K_string, True),
      (''status'', K_string, False), (''claimed_at'', K_timestamp, True), (''staging_started_at'', K_timestamp, True),
      (''inference_started_at'', K_timestamp, True), (''writing_started_at'', K_timestamp, True),
      (''completed_at'', K_timestamp, True), (''last_heartbeat_at'', K_timestamp, True), (''input_sha256'', K_string, True),
      (''source_size_bytes'', K_long, True), (''source_duration_seconds'', K_double, True), (''source_fps'', K_double, True),
      (''total_source_frames'', K_long, True), (''processed_frames'', K_long, True), (''effective_sample_fps'', K_double, True),
      (''processing_seconds'', K_double, True), (''distinct_people'', K_long, True), (''line_in_count'', K_long, True),
      (''line_out_count'', K_long, True), (''retryable'', K_boolean, True), (''error_category'', K_string, True),
      (''error_type'', K_string, True), (''error_message'', K_string, True), (''capture_date'', K_date, True),
      (''worker_execution_id'', K_string, True)]"

definition dim_date_fields :: spark_fields where
  "dim_date_fields =
     [(''date_key'', K_date, False), (''calendar_year'', K_integer, False), (''calendar_quarter'', K_integer, False),
      (''calendar_month'', K_integer, False), (''month_name'', K_string, False), (''month_short_name'', K_string, False),
      (''year_month'', K_string, False), (''day_of_month'', K_integer, False), (''iso_day_of_week'', K_integer, False),
      (''iso_week_year'', K_integer, False), (''iso_week_of_year'', K_integer, False), (''iso_year_week'', K_string, False),
      (''day_name'', K_string, False), (''is_weekend'', K_boolean, False), (''refreshed_at'', K_timestamp, False)]"

definition dim_time_fields :: spark_fields where
  "dim_time_fields =
     [(''time_key'', K_integer, False), (''hour_24'', K_integer, False), (''minute_of_hour'', K_integer, False),
      (''time_label'', K_string, False), (''hour_label'', K_string, False), (''day_part'', K_string, False),
      (''refreshed_at'', K_timestamp, False)]"

definition dim_camera_fields :: spark_fields where
  "dim_camera_fields =
     [(''camera_id'', K_string, False), (''location_id'', K_string, False), (''camera_timezone'', K_string, False),
      (''first_capture_utc'', K_timestamp, False), (''last_capture_utc'', K_timestamp, False), (''video_count'', K_long, False),
      (''refreshed_at'', K_timestamp, False)]"

definition dim_location_fields :: spark_fields where
  "dim_location_fields =
     [(''location_id'', K_string, False), (''first_capture_utc'', K_timestamp, False), (''last_capture_utc'', K_timestamp, False),
      (''camera_count'', K_long, False), (''video_count'', K_long, False), (''refreshed_at'', K_timestamp, False)]"

definition dim_video_fields :: spark_fields where
  "dim_video_fields =
     [(''work_id'', K_string, False), (''asset_id'', K_string, False), (''asset_version'', K_string, False),
      (''camera_id'', K_string, False), (''location_id'', K_string, False), (''captured_at_utc'', K_timestamp, False),
      (''capture_date'', K_date, False), (''time_key'', K_integer, False), (''camera_timezone'', K_string, False),
      (''config_sha256'', K_string, False), (''refreshed_at'', K_timestamp, False)]"

definition dim_model_config_fields :: spark_fields where
  "dim_model_config_fields =
     [(''config_sha256'', K_string, False), (''config_json'', K_string, False), (''pipeline'', K_string, True),
      (''device_variant'', K_string, True), (''device'', K_string, True), (''batch_size'', K_integer, True),
      (''sample_fps'', K_double, True), (''detection_threshold'', K_double, True), (''use_fp16'', K_boolean, True),
      (''detector_model'', K_string, True), (''camera_motion_compensation'', K_boolean, True),
      (''counting_line_json'', K_string, True), (''first_capture_utc'', K_timestamp, False),
      (''last_capture_utc'', K_timestamp, False), (''video_count'', K_long, False), (''refreshed_at'', K_timestamp, False)]"

definition SPARK_FIELDS :: "(string \<times> spark_fields) list" where
  "SPARK_FIELDS = [(''gold_flow_minute'', flow_minute_fields),
     (''gold_flow_hour'', flow_hour_fields),
     (''gold_video'', video_fields),
     (''gold_operations_hour'', operations_hour_fields),
     (''gold_work_operations'', work_operations_fields),
     (''gold_attempt_operations'', attempt_operations_fields),
     (''gold_dim_date'', dim_date_fields),
     (''gold_dim_time'', dim_time_fields),
     (''gold_dim_camera'', dim_camera_fields),
     (''gold_dim_location'', dim_location_fields),
     (''gold_dim_video'', dim_video_fields),
     (''gold_dim_model_config'', dim_model_config_fields)]"

section \<open>Rows for Spark\<close>

text \<open>A value as it is given to Spark: a datetime, a date, or the JSON value itself.\<close>

datatype spark_value = Plain pyval | Timestamp moment | Date int

definition spark_cell :: "gold_lib \<Rightarrow> spark_kind \<Rightarrow> pyval \<Rightarrow> spark_value res" where
  "spark_cell lib kind v = (if v \<noteq> PNone \<and> kind = K_timestamp then bindE (required_datetime lib v) (\<lambda>t. Inr (Timestamp t))
     else if v \<noteq> PNone \<and> kind = K_date then bindE (date_string lib v) (\<lambda>s. case date_fromisoformat lib s of
       None \<Rightarrow> Inl ValueError | Some d \<Rightarrow> Inr (Date d))
     else Inr (Plain v))"

definition spark_row :: "gold_lib \<Rightarrow> string \<Rightarrow> row \<Rightarrow> (string \<times> spark_value) list res" where
  "spark_row lib name r = (case map_of SPARK_FIELDS name of
     None \<Rightarrow> Inl KeyError
   | Some fs \<Rightarrow> mapE (\<lambda>(field, kind, nullable). bindE (spark_cell lib kind (row_get r field)) (\<lambda>v. Inr (field, v))) fs)"

text \<open>\<open>_spark_schema\<close>: the fields of a table, which \<open>createDataFrame\<close> checks the rows against.\<close>

definition spark_schema :: "string \<Rightarrow> spark_fields res" where
  "spark_schema name = (case map_of SPARK_FIELDS name of None \<Rightarrow> Inl ValueError | Some fs \<Rightarrow> Inr fs)"

section \<open>Types\<close>

text \<open>The values that Spark accepts for a field; a 64-bit field takes any Python integer here.\<close>

definition spark_typed :: "spark_kind \<Rightarrow> bool \<Rightarrow> spark_value \<Rightarrow> bool" where
  "spark_typed kind nullable v = (case v of
     Timestamp t \<Rightarrow> kind = K_timestamp \<and> in_range t
   | Date d \<Rightarrow> kind = K_date \<and> 0 \<le> d \<and> d < MAX_DAYS
   | Plain p \<Rightarrow> (case p of
       PNone \<Rightarrow> nullable
     | PStr s \<Rightarrow> kind = K_string
     | PInt i \<Rightarrow> kind = K_long \<or> kind = K_integer \<and> - (2 ^ 31) \<le> i \<and> i < 2 ^ 31
     | PFloat x \<Rightarrow> kind = K_double
     | PBool b \<Rightarrow> kind = K_boolean
     | _ \<Rightarrow> False))"

text \<open>The row is converted and every value has the type of its field.\<close>

definition spark_ok :: "gold_lib \<Rightarrow> string \<Rightarrow> row \<Rightarrow> bool" where
  "spark_ok lib name r = (case (spark_schema name, spark_row lib name r) of
     (Inr fs, Inr sr) \<Rightarrow> list_all2 (\<lambda>(field, kind, nullable) (field', v). field' = field \<and> spark_typed kind nullable v) fs sr
   | _ \<Rightarrow> False)"

end
