(* ===== verification/Py_Time_Spec.thy ===== *)
theory Py_Time_Spec
  imports Py_Time Json_Reader Gold_Values
begin

text \<open>
  The calendar of \<open>Py_Time\<close> is the proleptic Gregorian one: the year of a day contains it, year, month and day
  determine the day, and a reader of the texts that \<open>isoformat\<close> writes gets the moment back.
\<close>

section \<open>Years\<close>

lemma year_start_cycles:
  assumes "0 \<le> b" "b \<le> 3" "0 \<le> c" "c \<le> 24" "0 \<le> e" "e \<le> 3"
  shows "year_start (400 * a + 100 * b + 4 * c + e + 1) = 146097 * a + 36524 * b + 1461 * c + 365 * e"
proof -
  have "(400 * a + 100 * b + 4 * c + e) div 4 = 100 * a + 25 * b + c"
    "(400 * a + 100 * b + 4 * c + e) div 100 = 4 * a + b" "(400 * a + 100 * b + 4 * c + e) div 400 = a"
    using assms by (auto intro: int_div_pos_eq [where r = e] int_div_pos_eq [where r = "4 * c + e"]
        int_div_pos_eq [where r = "100 * b + 4 * c + e"])
  then show ?thesis by (simp add: year_start_def)
qed

definition year_length :: "int \<Rightarrow> int" where
  "year_length y = (if is_leap y then 366 else 365)"

text \<open>A day lies in its year.\<close>

lemma year_contains: "year_start (year_of d) \<le> d \<and> d < year_start (year_of d) + year_length (year_of d)"
proof -
  define a r where ar: "a = d div 146097" "r = d mod 146097"
  define b r2 where br: "b = r div 36524" "r2 = r mod 36524"
  define c r3 where cr: "c = r2 div 1461" "r3 = r2 mod 1461"
  define e r4 where er: "e = r3 div 365" "r4 = r3 mod 365"
  have d: "d = 146097 * a + r" "0 \<le> r" "r < 146097" by (simp_all add: ar)
  have r: "r = 36524 * b + r2" "0 \<le> r2" "r2 < 36524" by (simp_all add: br)
  have r2: "r2 = 1461 * c + r3" "0 \<le> r3" "r3 < 1461" by (simp_all add: cr)
  have r3: "r3 = 365 * e + r4" "0 \<le> r4" "r4 < 365" by (simp_all add: er)
  have le: "0 \<le> b" "b \<le> 4" "0 \<le> c" "c \<le> 24" "0 \<le> e" "e \<le> 4" using d r r2 r3 by linarith+
  have y: "year_of d = (if e = 4 \<or> b = 4 then 400 * a + 100 * b + 4 * c + e else 400 * a + 100 * b + 4 * c + e + 1)"
    by (simp add: year_of_def Let_def ar br cr er)
  consider "b = 4" | "b \<le> 3" "e = 4" | "b \<le> 3" "e \<le> 3" using le by linarith
  then show ?thesis
  proof cases
    case 1
    then have z: "c = 0" "e = 0" "d = 146097 * a + 146096" using d r r2 r3 le by linarith+
    have "year_of d = 400 * a + 100 * 3 + 4 * 24 + 3 + 1" using y 1 z by simp
    moreover from this have "is_leap (year_of d)" by (simp add: is_leap_def)
    ultimately show ?thesis using year_start_cycles [of 3 24 3 a] z by (simp add: year_length_def)
  next
    case 2
    then have z: "r4 = 0" "c \<le> 23" using r r2 r3 le by linarith+
    have yd: "year_of d = 400 * a + 100 * b + 4 * c + 3 + 1" using y 2 by simp
    have "(400 * a + 100 * b + 4 * c + 3 + 1) mod 100 = 4 * c + 4" "(400 * a + 100 * b + 4 * c + 3 + 1) mod 4 = 0"
      using z le by (auto intro: int_mod_pos_eq [where q = "4 * a + b"] int_mod_pos_eq [where q = "100 * a + 25 * b + c + 1"])
    then have "is_leap (year_of d)" unfolding yd is_leap_def using le by simp
    moreover have "year_start (year_of d) = 146097 * a + 36524 * b + 1461 * c + 365 * 3"
      unfolding yd by (rule year_start_cycles) (use 2 le in auto)
    moreover have "d = 146097 * a + 36524 * b + 1461 * c + 1460" using d(1) r(1) r2(1) r3(1) 2 z by simp
    ultimately show ?thesis by (simp add: year_length_def)
  next
    case 3
    then have "year_of d = 400 * a + 100 * b + 4 * c + e + 1" using y by auto
    then show ?thesis using year_start_cycles [of b c e a] 3 le d r r2 r3 by (simp add: year_length_def)
  qed
qed

lemma year_start_mono: "y \<le> y' \<Longrightarrow> year_start y \<le> year_start y'"
proof -
  assume "y \<le> y'"
  have step: "year_start z \<le> year_start (z + 1)" for z
    unfolding year_start_def by (simp add: algebra_simps)
  show ?thesis using \<open>y \<le> y'\<close>
    by (induction y' rule: int_ge_induct) (use step order_trans in blast)+
qed

lemma year_range: "0 \<le> d \<Longrightarrow> d < MAX_DAYS \<Longrightarrow> 1 \<le> year_of d \<and> year_of d \<le> 9999"
proof (rule ccontr)
  assume d: "0 \<le> d" "d < MAX_DAYS" and "\<not> (1 \<le> year_of d \<and> year_of d \<le> 9999)"
  then consider "year_of d \<le> 0" | "10000 \<le> year_of d" by linarith
  then show False
  proof cases
    case 1
    have "d < year_start (year_of d) + 366" using year_contains [of d] by (auto simp: year_length_def split: if_splits)
    moreover have "year_start (year_of d) \<le> year_start 0" by (rule year_start_mono [OF 1])
    moreover have "year_start 0 = - 366" by (simp add: year_start_def)
    ultimately show False using d by linarith
  next
    case 2
    have "year_start 10000 = MAX_DAYS" by (simp add: year_start_def MAX_DAYS_def)
    then show False using year_start_mono [OF 2] year_contains [of d] d by simp
  qed
qed

section \<open>Months and days\<close>

definition days_before :: "int \<Rightarrow> int \<Rightarrow> int" where
  "days_before y m = sum (month_length y) {1..<m}"

definition date_value :: "int \<Rightarrow> int \<Rightarrow> int \<Rightarrow> int" where
  "date_value y m k = year_start y + days_before y m + k - 1"

lemma month_length_pos: "28 \<le> month_length y m" "month_length y m \<le> 31"
  by (simp_all add: month_length_def)

lemma days_before_next: "1 \<le> m \<Longrightarrow> days_before y (m + 1) = days_before y m + month_length y m"
proof -
  assume "1 \<le> m"
  then have "{1..<m + 1} = insert m {1..<m}" by auto
  then show ?thesis by (simp add: days_before_def)
qed

lemma month_day_found:
  assumes "month_day y n m r = (m', k)" "1 \<le> m" "0 \<le> r" "days_before y m + r < days_before y (m + int n + 1)"
  shows "m \<le> m' \<and> m' \<le> m + int n \<and> 1 \<le> k \<and> k \<le> month_length y m' \<and> days_before y m' + k - 1 = days_before y m + r"
  using assms
proof (induction n arbitrary: m r)
  case 0
  then show ?case using days_before_next [of m y] by auto
next
  case (Suc n)
  show ?case
  proof (cases "r < month_length y m")
    case True
    with Suc.prems show ?thesis by auto
  next
    case False
    with Suc.prems have r: "month_day y n (m + 1) (r - month_length y m) = (m', k)" by simp
    from Suc.IH [OF r] Suc.prems False days_before_next [of m y] show ?thesis by (simp add: add.commute add.left_commute)
  qed
qed

lemma days_before_values: "days_before y 13 = year_length y" "days_before y 1 = 0"
proof -
  have "days_before y (1 + 11 + 1) = year_length y"
  proof -
    have "{1..<13::int} = {1, 2, 3, 4, 5, 6, 7, 8, 9, 10, 11, 12}" by (auto, presburger)
    then show ?thesis by (simp add: days_before_def month_length_def year_length_def)
  qed
  then show "days_before y 13 = year_length y" by simp
  show "days_before y 1 = 0" by (simp add: days_before_def)
qed

lemma ymd_value:
  assumes "ymd d = (y, m, k)"
  shows "date_value y m k = d" "1 \<le> m" "m \<le> 12" "1 \<le> k" "k \<le> 31" "y = year_of d"
proof -
  obtain m' k' where md': "month_day (year_of d) 11 1 (d - year_start (year_of d)) = (m', k')" by fastforce
  then have y: "y = year_of d" and mk: "m = m'" "k = k'" using assms by (simp_all add: ymd_def Let_def)
  have md: "month_day y 11 1 (d - year_start y) = (m, k)" unfolding y mk by (rule md')
  have "1 \<le> m \<and> m \<le> 1 + int 11 \<and> 1 \<le> k \<and> k \<le> month_length y m \<and> days_before y m + k - 1 = days_before y 1 + (d - year_start y)"
    by (rule month_day_found [OF md]) (use year_contains [of d] y in \<open>simp_all add: days_before_values\<close>)
  then show "date_value y m k = d" "1 \<le> m" "m \<le> 12" "1 \<le> k" "k \<le> 31"
    using month_length_pos(2) [of y m] by (auto simp: date_value_def days_before_values)
  show "y = year_of d" by (rule y)
qed

section \<open>Reading what isoformat writes\<close>

lemma nat_dec_length: "0 < w \<Longrightarrow> n < 10 ^ w \<Longrightarrow> length (nat_dec n) \<le> w"
proof (induction n arbitrary: w rule: nat_dec.induct)
  case (1 n)
  show ?case
  proof (cases "n < 10")
    case True
    then show ?thesis using "1.prems" by (simp add: nat_dec.simps [of n])
  next
    case False
    then obtain v where w: "w = Suc v" "0 < v" using "1.prems" by (cases w) (auto, metis gr0I power_0 mult.right_neutral not_less)
    have "n div 10 < 10 ^ v" using "1.prems" w by (simp add: less_mult_imp_div_less mult.commute)
    with "1.IH" [OF False w(2)] w(1) False show ?thesis by (simp add: nat_dec.simps [of n])
  qed
qed

lemma read_nat_zeros: "read_nat (replicate j (CHR ''0'') @ s) = read_nat s"
proof (induction j)
  case (Suc j)
  have "read_nat (CHR ''0'' # t) = read_nat t" for t by (simp add: read_nat_def)
  then show ?case using Suc by simp
qed simp

lemma pad_int_read:
  assumes "0 \<le> n" "n < 10 ^ w" "0 < w"
  shows "length (pad_int w n) = w" "int (read_nat (pad_int w n)) = n" "set (pad_int w n) \<subseteq> set digits"
proof -
  have p: "pad_int w n = replicate (w - length (nat_dec (nat n))) (CHR ''0'') @ nat_dec (nat n)"
    using assms(1) by (simp add: pad_int_def Let_def)
  have "nat n < 10 ^ w" using assms by (metis nat_less_iff of_nat_numeral of_nat_power)
  then show "length (pad_int w n) = w" using nat_dec_length [OF assms(3)] by (simp add: p)
  show "int (read_nat (pad_int w n)) = n" using assms(1) by (simp add: p read_nat_zeros read_nat_dec)
  have "CHR ''0'' \<in> set digits" by (simp add: digits_def)
  then show "set (pad_int w n) \<subseteq> set digits" using nat_dec_digits(1) by (auto simp: p)
qed

definition field :: "nat \<Rightarrow> nat \<Rightarrow> string \<Rightarrow> int" where
  "field i n s = int (read_nat (take n (drop i s)))"

definition read_date :: "string \<Rightarrow> int" where
  "read_date s = date_value (field 0 4 s) (field 5 2 s) (field 8 2 s)"

text \<open>The texts of \<open>isoformat\<close> for UTC, with the offset written as \<open>+00:00\<close>.\<close>

definition read_datetime :: "string \<Rightarrow> (int \<times> int option) option" where
  "read_datetime s = Some (read_date s * DAY_US + field 11 2 s * 3600000000 + field 14 2 s * 60000000 + field 17 2 s * 1000000
     + (if drop 19 s \<noteq> [] \<and> hd (drop 19 s) = CHR ''.'' then field 20 6 s else 0), Some 0)"

lemma date_written:
  assumes "0 \<le> d" "d < MAX_DAYS"
  shows "length (date_isoformat d) = 10" "read_date (date_isoformat d @ s) = d" "set (date_isoformat d) \<subseteq> insert (CHR ''-'') (set digits)"
proof -
  obtain y m k where ymd: "ymd d = (y, m, k)" by (cases "ymd d")
  note v = ymd_value [OF ymd]
  have y: "0 \<le> y" "y < 10 ^ 4" using year_range [OF assms] v(6) by auto
  note py = pad_int_read [OF y] and pm = pad_int_read [of m 2] and pk = pad_int_read [of k 2]
  show "length (date_isoformat d) = 10" using py(1) pm(1) pk(1) v by (simp add: date_isoformat_def ymd)
  show "read_date (date_isoformat d @ s) = d"
    using py(1,2) pm(1,2) pk(1,2) v by (simp add: date_isoformat_def ymd read_date_def field_def)
  show "set (date_isoformat d) \<subseteq> insert (CHR ''-'') (set digits)"
    using py(3) pm(3) pk(3) v by (auto simp: date_isoformat_def ymd)
qed

lemma mod_split: "(t::int) mod (k * n) = t mod (k * n) div k * k + t mod k"
proof -
  have "t mod (k * n) mod k = t mod k" by (simp add: mod_mod_cancel)
  then show ?thesis using div_mult_mod_eq [of "t mod (k * n)" k] by simp
qed

lemma moment_parts:
  "t = day_of t * DAY_US + hour_of t * 3600000000 + minute_of t * 60000000 + t mod 60000000 div 1000000 * 1000000 + t mod 1000000"
proof -
  have "t mod DAY_US = t mod DAY_US div 3600000000 * 3600000000 + t mod DAY_US mod 3600000000" by (metis div_mult_mod_eq)
  moreover have "t mod DAY_US mod 3600000000 = t mod 3600000000" by (simp add: DAY_US_def mod_mod_cancel)
  moreover have "t mod 3600000000 = t mod 3600000000 div 60000000 * 60000000 + t mod 60000000"
    using mod_split [of t 60000000 60] by simp
  moreover have "t mod 60000000 = t mod 60000000 div 1000000 * 1000000 + t mod 1000000"
    using mod_split [of t 1000000 60] by simp
  moreover have "t = t div DAY_US * DAY_US + t mod DAY_US" by simp
  ultimately show ?thesis unfolding day_of_def hour_of_def minute_of_def by linarith
qed

lemma part_bounds:
  "0 \<le> hour_of t" "hour_of t < 24" "0 \<le> minute_of t" "minute_of t < 60" "0 \<le> t mod 60000000 div 1000000" "t mod 60000000 div 1000000 < 60"
  by (simp_all add: hour_of_def minute_of_def DAY_US_def div_less_iff_less_mult pos_imp_zdiv_nonneg_iff)

lemma day_range: "in_range t \<Longrightarrow> 0 \<le> day_of t \<and> day_of t < MAX_DAYS"
  by (auto simp: in_range_def day_of_def DAY_US_def div_less_iff_less_mult pos_imp_zdiv_nonneg_iff)

definition iso_naive :: "moment \<Rightarrow> string" where
  "iso_naive t = (let us = t mod 1000000 in
     date_isoformat (day_of t) @ ''T'' @ pad_int 2 (hour_of t) @ '':'' @ pad_int 2 (minute_of t) @ '':''
     @ pad_int 2 (t mod 60000000 div 1000000) @ (if us = 0 then [] else ''.'' @ pad_int 6 us))"

lemma iso_split: "iso t = iso_naive t @ ''Z''"
  by (simp add: iso_def iso_naive_def Let_def)

lemma iso_naive_read:
  assumes "in_range t"
  shows "read_datetime (iso_naive t @ ''+00:00'') = Some (t, Some 0)"
proof -
  note d = date_written [OF day_range [OF assms, THEN conjunct1] day_range [OF assms, THEN conjunct2]]
  let ?H = "pad_int 2 (hour_of t)" and ?M = "pad_int 2 (minute_of t)" and ?S = "pad_int 2 (t mod 60000000 div 1000000)"
  let ?U = "pad_int 6 (t mod 1000000)" and ?D = "date_isoformat (day_of t)"
  define frac where "frac = (if t mod 1000000 = 0 then [] else ''.'' @ ?U) @ ''+00:00''"
  have x: "iso_naive t @ ''+00:00'' = ?D @ ''T'' @ ?H @ '':'' @ ?M @ '':'' @ ?S @ frac"
    by (simp add: iso_naive_def Let_def frac_def)
  note l = pad_int_read(1) [of "hour_of t" 2] pad_int_read(1) [of "minute_of t" 2] pad_int_read(1) [of "t mod 60000000 div 1000000" 2]
  note v = pad_int_read(2) [of "hour_of t" 2] pad_int_read(2) [of "minute_of t" 2] pad_int_read(2) [of "t mod 60000000 div 1000000" 2]
  have lh: "length ?H = 2" "length ?M = 2" "length ?S = 2" and vh: "int (read_nat ?H) = hour_of t" "int (read_nat ?M) = minute_of t"
    "int (read_nat ?S) = t mod 60000000 div 1000000" using l v part_bounds [of t] by simp_all
  have "field 11 2 (iso_naive t @ ''+00:00'') = hour_of t" "field 14 2 (iso_naive t @ ''+00:00'') = minute_of t"
    "field 17 2 (iso_naive t @ ''+00:00'') = t mod 60000000 div 1000000" and dr: "drop 19 (iso_naive t @ ''+00:00'') = frac"
    and u: "field 20 6 (iso_naive t @ ''+00:00'') = field 1 6 frac"
    unfolding x field_def using lh vh d(1) by simp_all
  moreover have "(if frac \<noteq> [] \<and> hd frac = CHR ''.'' then field 1 6 frac else 0) = t mod 1000000"
    using pad_int_read(1,2) [of "t mod 1000000" 6] by (simp add: frac_def field_def)
  moreover have "read_date (iso_naive t @ ''+00:00'') = day_of t" unfolding x by (rule d(2))
  ultimately show ?thesis unfolding read_datetime_def dr u using moment_parts [of t] by presburger
qed

lemma iso_naive_chars:
  assumes "in_range t"
  shows "set (iso_naive t) \<subseteq> {CHR ''-'', CHR '':'', CHR ''T'', CHR ''.''} \<union> set digits" "iso_naive t \<noteq> []" "hd (iso_naive t) \<in> insert (CHR ''-'') (set digits)"
proof -
  note d = date_written [OF day_range [OF assms, THEN conjunct1] day_range [OF assms, THEN conjunct2]]
  show "set (iso_naive t) \<subseteq> {CHR ''-'', CHR '':'', CHR ''T'', CHR ''.''} \<union> set digits"
    using d(3) pad_int_read(3) [of "hour_of t" 2] pad_int_read(3) [of "minute_of t" 2] pad_int_read(3) [of "t mod 60000000 div 1000000" 2]
      pad_int_read(3) [of "t mod 1000000" 6] part_bounds [of t]
    by (auto simp: iso_naive_def Let_def)
  obtain c cs where "date_isoformat (day_of t) = c # cs" using d(1) by (cases "date_isoformat (day_of t)") auto
  then show "iso_naive t \<noteq> []" "hd (iso_naive t) \<in> insert (CHR ''-'') (set digits)" using d(3) by (auto simp: iso_naive_def Let_def)
qed

lemma iso_normalized:
  assumes "in_range t"
  shows "replace_z (py_strip (iso t)) = iso_naive t @ ''+00:00''"
proof -
  note c = iso_naive_chars [OF assms]
  obtain a as where a: "iso_naive t = a # as" using c(2) by (cases "iso_naive t") auto
  have "\<not> py_space a"
  proof -
    have "list_all (\<lambda>c. \<not> py_space c) (CHR ''-'' # digits)" by code_simp
    then show ?thesis using c(3) a by (auto simp: list_all_iff)
  qed
  moreover have "\<not> py_space (CHR ''Z'')" by code_simp
  ultimately have "py_strip (iso t) = iso t" by (simp add: py_strip_def iso_split a)
  moreover have "replace_z (iso_naive t) = iso_naive t"
  proof -
    have "CHR ''Z'' \<notin> set (iso_naive t)" using c(1) by (auto simp: digits_def)
    moreover have "CHR ''Z'' \<notin> set s \<Longrightarrow> replace_z s = s" for s by (induction s) (auto simp: replace_z_def)
    ultimately show ?thesis by blast
  qed
  ultimately show ?thesis by (simp add: iso_split replace_z_def)
qed

section \<open>The contract of the parsers\<close>

text \<open>\<open>fromisoformat\<close> reads what \<open>isoformat\<close> writes, and gives only dates of the years 1 to 9999.\<close>

definition iso_faithful :: "gold_lib \<Rightarrow> bool" where
  "iso_faithful lib \<longleftrightarrow>
     (\<forall>t. in_range t \<longrightarrow> datetime_fromisoformat lib (iso_naive t @ ''+00:00'') = Some (t, Some 0)) \<and>
     (\<forall>d. 0 \<le> d \<longrightarrow> d < MAX_DAYS \<longrightarrow> date_fromisoformat lib (date_isoformat d) = Some d) \<and>
     (\<forall>s d. date_fromisoformat lib s = Some d \<longrightarrow> 0 \<le> d \<and> d < MAX_DAYS)"

lemma iso_parsed:
  assumes "iso_faithful lib" "in_range t"
  shows "optional_datetime lib (PStr (iso t)) = Inr (Some t)" "required_datetime lib (PStr (iso t)) = Inr t"
proof -
  show "optional_datetime lib (PStr (iso t)) = Inr (Some t)"
    using assms iso_normalized [OF assms(2)] by (simp add: optional_datetime_def iso_faithful_def checked_moment_def iso_split)
  then show "required_datetime lib (PStr (iso t)) = Inr t" by (simp add: required_datetime_def)
qed

definition date_reader :: "string \<Rightarrow> int option" where
  "date_reader s = (let d = read_date s in if 0 \<le> d \<and> d < MAX_DAYS then Some d else None)"

lemma readers_faithful:
  assumes "datetime_fromisoformat lib = read_datetime" "date_fromisoformat lib = date_reader"
  shows "iso_faithful lib"
  using assms iso_naive_read date_written(2) [of _ "[]"] by (auto simp: iso_faithful_def date_reader_def Let_def split: if_splits)

end
