(* ===== verification/Gold_Schema_Spec.thy ===== *)
theory Gold_Schema_Spec
  imports Gold_Schema Gold_Flow_Spec Py_Time_Spec Process_Executor_Correct
begin

text \<open>
  Every row that the gold job builds has the types of its Spark schema: the columns of the schema, no null in a
  required column, timestamps and dates that parse, and numbers of the kind of the column.  The one table left
  out is \<open>gold_dim_model_config\<close>, whose columns are copied from a configuration as they are.
\<close>

section \<open>Cells\<close>

definition cell_ok :: "gold_lib \<Rightarrow> spark_kind \<Rightarrow> bool \<Rightarrow> pyval \<Rightarrow> bool" where
  "cell_ok lib kind nullable v \<longleftrightarrow> (\<exists>sv. spark_cell lib kind v = Inr sv \<and> spark_typed kind nullable sv)"

definition aligned :: "gold_lib \<Rightarrow> spark_fields \<Rightarrow> row \<Rightarrow> bool" where
  "aligned lib fs r \<longleftrightarrow> list_all2 (\<lambda>(f, kind, nullable) (f', v). f' = f \<and> cell_ok lib kind nullable v) fs r"

lemma aligned_keys: "aligned lib fs r \<Longrightarrow> map fst r = map fst fs"
  unfolding aligned_def by (induction rule: list_all2_induct) auto

lemma aligned_ok:
  assumes fields: "map_of SPARK_FIELDS t = Some fs" and a: "aligned lib fs r" and d: "distinct (map fst fs)"
  shows "spark_ok lib t r"
proof -
  have "\<exists>y. bindE (spark_cell lib kind (row_get r f)) (\<lambda>v. Inr (f, v)) = Inr y \<and> fst y = f \<and> spark_typed kind nullable (snd y)"
    if i: "(f, kind, nullable) \<in> set fs" for f kind nullable
  proof -
    obtain j where j: "j < length fs" "fs ! j = (f, kind, nullable)" using i by (auto simp: in_set_conv_nth)
    have jr: "j < length r" using list_all2_lengthD [OF a [unfolded aligned_def]] j(1) by simp
    obtain v where v: "r ! j = (f, v)" "cell_ok lib kind nullable v"
      using list_all2_nthD [OF a [unfolded aligned_def] j(1)] j(2) by (cases "r ! j") auto
    have "distinct (map fst r)" using d aligned_keys [OF a] by simp
    then have "map_of r f = Some v" using v jr by (metis map_of_eq_Some_iff nth_mem)
    with v(2) show ?thesis by (auto simp: cell_ok_def row_get_def dget_def)
  qed
  then have "\<forall>x \<in> set fs. \<exists>y. (case x of (f, kind, nullable) \<Rightarrow> bindE (spark_cell lib kind (row_get r f)) (\<lambda>v. Inr (f, v))) = Inr y
      \<and> (case x of (f, kind, nullable) \<Rightarrow> \<lambda>(f', v). f' = f \<and> spark_typed kind nullable v) y"
    by (auto split: prod.splits)
  from mapE_relates [OF this] fields show ?thesis by (auto simp: spark_ok_def spark_schema_def spark_row_def)
qed

lemma aligned_cells:
  assumes "cells cs = Inr r" "list_all2 (\<lambda>(f, kind, nullable) (f', c). f' = f \<and> (\<forall>v. c = Inr v \<longrightarrow> cell_ok lib kind nullable v)) fs cs"
  shows "aligned lib fs r"
  using assms(2,1) unfolding aligned_def by (induction arbitrary: r rule: list_all2_induct) auto

section \<open>Cells of each kind\<close>

lemma cell_string [simp]: "cell_ok lib K_string n (PStr s)"
  and cell_long [simp]: "cell_ok lib K_long n (PInt i)"
  and cell_double [simp]: "cell_ok lib K_double n (PFloat x)"
  and cell_boolean [simp]: "cell_ok lib K_boolean n (PBool b)"
  and cell_null [simp]: "cell_ok lib kind True PNone"
  and cell_integer: "0 \<le> i \<Longrightarrow> i < 2 ^ 31 \<Longrightarrow> cell_ok lib K_integer n (PInt i)"
  by (simp_all add: cell_ok_def spark_cell_def spark_typed_def)

lemma optional_datetime_range: "optional_datetime lib v = Inr (Some t) \<Longrightarrow> in_range t"
  by (auto simp: optional_datetime_def checked_moment_def from_timestamp_def Let_def split: pyval.splits if_splits option.splits)

lemma required_datetime_range: "required_datetime lib v = Inr t \<Longrightarrow> in_range t"
  using optional_datetime_range by (auto simp: required_datetime_def split: option.splits)

lemma first_datetime_range: "first_datetime lib r names = Inr (Some t) \<Longrightarrow> in_range t"
  by (induction names) (auto split: if_splits dest: required_datetime_range)

lemma cell_iso [simp]: "iso_faithful lib \<Longrightarrow> in_range t \<Longrightarrow> cell_ok lib K_timestamp n (PStr (iso t))"
  by (simp add: cell_ok_def spark_cell_def spark_typed_def iso_parsed)

lemma cell_optional_iso: "iso_faithful lib \<Longrightarrow> (\<And>t'. t = Some t' \<Longrightarrow> in_range t') \<Longrightarrow> cell_ok lib K_timestamp True (optional_iso t)"
  by (cases t) (simp_all add: optional_iso_def)

lemma cell_date: "iso_faithful lib \<Longrightarrow> 0 \<le> d \<Longrightarrow> d < MAX_DAYS \<Longrightarrow> cell_ok lib K_date n (PStr (date_isoformat d))"
  by (simp add: cell_ok_def spark_cell_def spark_typed_def date_string_def iso_faithful_def gstr_def py_str_def)

lemma cell_date_text [simp]: "iso_faithful lib \<Longrightarrow> in_range t \<Longrightarrow> cell_ok lib K_date n (PStr (date_text t))"
  using day_range [of t] by (simp add: date_text_def cell_date)

lemma cell_date_cell: "iso_faithful lib \<Longrightarrow> (\<And>t'. t = Some t' \<Longrightarrow> in_range t') \<Longrightarrow> cell_ok lib K_date True (date_cell t)"
  by (cases t) (simp_all add: date_cell_def)

lemma cell_optional_text [simp]: "cell_ok lib K_string True (optional_text lib v)"
  by (simp add: optional_text_def Let_def)

lemma cell_int_cell [simp]: "cell_ok lib K_long True (int_cell i)" and cell_float_cell [simp]: "cell_ok lib K_double True (float_cell x)"
  by (cases i; simp add: int_cell_def) (cases x; simp add: float_cell_def)

lemma cell_metrics:
  "float_of lib v = Inr c \<Longrightarrow> cell_ok lib K_double True c" "int_of lib v = Inr c \<Longrightarrow> cell_ok lib K_long True c"
  "projected_int lib v = Inr c \<Longrightarrow> cell_ok lib K_long True c" "count_of lib v = Inr c \<Longrightarrow> cell_ok lib K_long n c"
  "optional_boolean v = Inr c \<Longrightarrow> cell_ok lib K_boolean True c" "required_text_of lib r name = Inr c \<Longrightarrow> cell_ok lib K_string n c"
  by (auto simp: float_of_def int_of_def projected_int_def count_of_def required_text_of_def optional_boolean_def split: pyval.splits)

lemma cell_computed [simp]:
  "\<forall>c. float_of lib v = Inr c \<longrightarrow> cell_ok lib K_double True c" "\<forall>c. int_of lib v = Inr c \<longrightarrow> cell_ok lib K_long True c"
  "\<forall>c. projected_int lib v = Inr c \<longrightarrow> cell_ok lib K_long True c" "\<forall>c. count_of lib v = Inr c \<longrightarrow> cell_ok lib K_long n c"
  "\<forall>c. optional_boolean v = Inr c \<longrightarrow> cell_ok lib K_boolean True c" "\<forall>c. required_text_of lib r name = Inr c \<longrightarrow> cell_ok lib K_string n c"
  by (intro allI impI; erule cell_metrics)+

lemma cell_time_key [simp]: "cell_ok lib K_integer n (PInt (hour_of t * 60 + minute_of t))" "cell_ok lib K_integer n (PInt (hour_of t * 60))"
  using part_bounds(1-4) [of t] by (auto intro!: cell_integer)

section \<open>Fact rows\<close>

lemma line_observed_range: "line_observed_at lib line t = Inr t' \<Longrightarrow> in_range t'"
proof (cases "row_get line ''observed_at_utc'' = PNone")
  case True
  assume r: "line_observed_at lib line t = Inr t'"
  then obtain f where f: "metric_float lib (row_get line ''video_seconds'') = Inr f" using True by (auto simp: line_observed_at_def)
  with True r show ?thesis by (cases f) (auto simp: line_observed_at_def checked_moment_def split: if_splits)
qed (auto simp: line_observed_at_def dest: required_datetime_range)

lemma observations_range: "ob \<in> set (observations lib d committed) \<Longrightarrow> in_range (ob_time ob) \<and> date_text (ob_time ob) = d"
proof -
  assume "ob \<in> set (observations lib d committed)"
  then obtain co t l where "dated lib d t l" "observation_of lib co t l = Inr ob"
    by (auto simp: observations_def output_observations_def split: sum.splits option.splits if_splits)
  then show ?thesis by (auto simp: observation_of_def dated_def dest: line_observed_range)
qed

lemma floor_range: "in_range t \<Longrightarrow> in_range (floor_minute t)" "in_range t \<Longrightarrow> in_range (floor_hour t)"
proof -
  assume t: "in_range t"
  have "t mod n \<le> t" "0 \<le> t mod n" if "0 < n" for n using t that by (simp_all add: in_range_def zmod_le_nonneg_dividend)
  from this [of 60000000] this [of 3600000000] t show "in_range (floor_minute t)" "in_range (floor_hour t)"
    by (auto simp: in_range_def floor_minute_def floor_hour_def)
qed

lemma flow_row_aligned:
  assumes "iso_faithful lib" "in_range now" "ob \<in> set (observations lib d committed)"
  shows "aligned lib flow_minute_fields (reference_row ''minute_utc'' d (iso now) key obs (minute_key ob))"
    and "aligned lib flow_hour_fields (reference_row ''hour_utc'' d (iso now) key obs (hour_key ob))"
proof -
  have ob: "in_range (ob_time ob)" "date_text (ob_time ob) = d" using observations_range [OF assms(3)] by simp_all
  have d: "cell_ok lib K_date False (PStr d)" using cell_date_text [OF assms(1) ob(1)] ob(2) by simp
  show "aligned lib flow_minute_fields (reference_row ''minute_utc'' d (iso now) key obs (minute_key ob))"
    "aligned lib flow_hour_fields (reference_row ''hour_utc'' d (iso now) key obs (hour_key ob))"
    using assms floor_range [OF ob(1)] d
    by (simp_all add: aligned_def flow_minute_fields_def flow_hour_fields_def reference_row_def minute_key_def hour_key_def Let_def)
qed

lemma flow_rows_ok:
  assumes "iso_faithful lib" "in_range now" "fact_rows_for_date lib committed control d (iso now) = Inr f"
  shows "list_all (spark_ok lib ''gold_flow_minute'') (fr_flow_minute f)" "list_all (spark_ok lib ''gold_flow_hour'') (fr_flow_hour f)"
proof -
  have "spark_ok lib ''gold_flow_minute'' (reference_row ''minute_utc'' d (iso now) minute_key (observations lib d committed) (minute_key ob))"
    "spark_ok lib ''gold_flow_hour'' (reference_row ''hour_utc'' d (iso now) hour_key (observations lib d committed) (hour_key ob))"
    if "ob \<in> set (observations lib d committed)" for ob
    by (rule aligned_ok [OF _ flow_row_aligned(1) [OF assms(1,2) that]]; simp add: SPARK_FIELDS_def flow_minute_fields_def)
      (rule aligned_ok [OF _ flow_row_aligned(2) [OF assms(1,2) that]]; simp add: SPARK_FIELDS_def flow_hour_fields_def)
  then show "list_all (spark_ok lib ''gold_flow_minute'') (fr_flow_minute f)" "list_all (spark_ok lib ''gold_flow_hour'') (fr_flow_hour f)"
    unfolding fact_rows_reference [OF assms(3)] by (auto simp: list_all_iff reference_flow_def)
qed

section \<open>Videos\<close>

definition dated_output :: "committed_output \<Rightarrow> bool" where
  "dated_output co = (case co_published_at co of None \<Rightarrow> True | Some t \<Rightarrow> in_range t)"

lemma committed_dated: "committed_outputs lib src = Inr committed \<Longrightarrow> list_all dated_output committed"
proof -
  assume c: "committed_outputs lib src = Inr committed"
  have "dated_output co" if m: "co \<in> set committed" for co
  proof -
    obtain w where "committed_output_of lib src w (the (w_committed_attempt_id w)) = Inr co"
      using c m by (auto simp: committed_outputs_def split: if_splits dest!: mapE_mem [OF _ m])
    then show ?thesis
      by (auto simp: committed_output_of_def dated_output_def Let_def simp del: first_datetime.simps
          split: option.splits prod.splits dest: first_datetime_range)
  qed
  then show ?thesis by (simp add: list_all_iff)
qed

lemma captured_range: "dated_output co \<Longrightarrow> output_captured_at lib co = Inr (Some t) \<Longrightarrow> in_range t"
  by (auto simp: output_captured_at_def dated_output_def Let_def split: if_splits dest: required_datetime_range)

lemma cell_completed:
  assumes "iso_faithful lib" "dated_output co"
  shows "\<forall>v. bindE (first_datetime lib r names) (\<lambda>t. Inr (optional_iso (case t of None \<Rightarrow> co_published_at co | Some t \<Rightarrow> Some t))) = Inr v
    \<longrightarrow> cell_ok lib K_timestamp True v"
  using assms by (auto intro!: cell_optional_iso simp: dated_output_def simp del: first_datetime.simps split: option.splits dest: first_datetime_range)

lemma video_row_ok:
  assumes "iso_faithful lib" "dated_output co" "in_range t" "video_row lib (date_text t) co t camera location = Inr r"
  shows "spark_ok lib ''gold_video'' r"
proof -
  have "aligned lib video_fields r"
  proof -
    obtain duration processing where "cells [(''work_id'', Inr (PStr (co_work_id co))), (''captured_at_utc'', Inr (PStr (iso t))),
       (''time_key'', Inr (PInt (hour_of t * 60 + minute_of t))), (''camera_id'', Inr (PStr camera)),
       (''location_id'', Inr (PStr location)), (''config_sha256'', required_text_of lib (metadata_of co) ''config_sha256''),
       (''video_duration_seconds'', Inr (float_cell duration)), (''processing_seconds'', Inr (float_cell processing)),
       (''speed_x_realtime'', Inr (case (duration, processing) of
          (Some d, Some p) \<Rightarrow> if 0 < d \<and> 0 < p then PFloat (fdiv d p) else PNone | _ \<Rightarrow> PNone)),
       (''distinct_people'', int_of lib (row_get (metadata_of co) ''distinct_people'')),
       (''line_in_count'', int_of lib (row_get (metadata_of co) ''line_in_count'')),
       (''line_out_count'', int_of lib (row_get (metadata_of co) ''line_out_count'')),
       (''completed_at'', bindE (first_datetime lib (dict_update (metadata_of co) (co_attempt co))
            [''completed_at'', ''sealed_at'', ''published_at'', ''batch_committed_at'']) (\<lambda>t.
          Inr (optional_iso (case t of None \<Rightarrow> co_published_at co | Some t \<Rightarrow> Some t)))),
       (''capture_date'', Inr (PStr (date_text t)))] = Inr r"
      using assms(4) unfolding video_row_def Let_def bindE_eq_Inr by (elim exE conjE) blast
    moreover have "cell_ok lib K_double True (case (duration, processing) of
        (Some d, Some p) \<Rightarrow> if 0 < d \<and> 0 < p then PFloat (fdiv d p) else PNone | _ \<Rightarrow> PNone)" by (simp split: option.split)
    ultimately show ?thesis
      by (elim aligned_cells) (simp add: video_fields_def assms(1,3) cell_completed [OF assms(1,2)] del: bindE_eq_Inr first_datetime.simps)
  qed
  then show ?thesis by (rule aligned_ok [rotated]) (simp_all add: SPARK_FIELDS_def video_fields_def)
qed

lemma videos_ok:
  assumes "iso_faithful lib" "list_all dated_output committed" "fact_rows_for_date lib committed control d now = Inr f"
  shows "list_all (spark_ok lib ''gold_video'') (fr_video f)"
proof (rule video_rows_all [OF assms(3)])
  fix co t camera location r
  assume "co \<in> set committed" and t: "output_captured_at lib co = Inr (Some t)" "date_text t = d"
    and r: "video_row lib d co t camera location = Inr r"
  then have dated: "dated_output co" using assms(2) by (simp add: list_all_iff)
  from video_row_ok [OF assms(1) dated captured_range [OF dated t(1)]] r show "spark_ok lib ''gold_video'' r" unfolding t(2) [symmetric] .
qed

section \<open>Operations\<close>

lemma operations_ok:
  assumes "iso_faithful lib" "in_range now" "0 \<le> d" "d < MAX_DAYS"
    and "fact_rows_for_date lib committed control (date_isoformat d) (iso now) = Inr f"
  shows "list_all (spark_ok lib ''gold_operations_hour'') (fr_operations_hour f)"
proof -
  have row: "spark_ok lib ''gold_operations_hour'' r" if r: "operations_row lib (date_isoformat d) (iso now) p = Inr r" for p r
  proof -
    obtain hour g where p: "p = (hour, g)" by (cases p)
    obtain t where t: "required_datetime lib (PStr hour) = Inr t" using r by (auto simp: operations_row_def p)
    then have "cell_ok lib K_timestamp False (PStr hour)"
      using required_datetime_range [OF t] by (simp add: cell_ok_def spark_cell_def spark_typed_def)
    then have "aligned lib operations_hour_fields r"
      using r t cell_date [OF assms(1,3,4)] assms(1,2) by (auto simp: operations_row_def p aligned_def operations_hour_fields_def)
    then show ?thesis by (rule aligned_ok [rotated]) (simp_all add: SPARK_FIELDS_def operations_hour_fields_def)
  qed
  show ?thesis by (rule operations_rows_all [OF assms(5) row])
qed

text \<open>Work items and attempts.\<close>

definition range_option :: "moment option \<Rightarrow> bool" where
  "range_option t = (case t of None \<Rightarrow> True | Some t \<Rightarrow> in_range t)"

lemma range_parsed: "optional_datetime lib v = Inr t \<Longrightarrow> range_option t" "first_datetime lib r names = Inr t \<Longrightarrow> range_option t"
  by (auto simp: range_option_def split: option.splits dest: optional_datetime_range first_datetime_range)

lemma cell_range [simp]:
  "iso_faithful lib \<Longrightarrow> range_option t \<Longrightarrow> cell_ok lib K_timestamp True (optional_iso t)"
  "iso_faithful lib \<Longrightarrow> range_option t \<Longrightarrow> cell_ok lib K_date True (date_cell t)"
  by (auto simp: range_option_def intro!: cell_optional_iso cell_date_cell)

lemma cell_parsed [simp]:
  "iso_faithful lib \<Longrightarrow> \<forall>c. bindE (optional_datetime lib v) (\<lambda>t. Inr (optional_iso t)) = Inr c \<longrightarrow> cell_ok lib K_timestamp True c"
  using range_parsed(1) by auto

lemma cell_config [simp]:
  "\<forall>c. (if p then bindE (config_json lib config) (\<lambda>s. Inr (PStr s)) else Inr PNone) = Inr c \<longrightarrow> cell_ok lib K_string True c"
  by auto

lemma work_row_ok:
  assumes "iso_faithful lib" "operational_work_row lib w lease refreshed = Inr r"
  shows "spark_ok lib ''gold_work_operations'' r"
proof -
  have "aligned lib work_operations_fields r"
    using assms(2) unfolding operational_work_row_def Let_def bindE_eq_Inr
    apply (elim exE conjE)
    apply (erule aligned_cells)
    apply (drule range_parsed(1))+
    apply (simp add: work_operations_fields_def assms(1) range_option_def [of None] del: bindE_eq_Inr)
    done
  then show ?thesis by (rule aligned_ok [rotated]) (simp_all add: SPARK_FIELDS_def work_operations_fields_def)
qed

lemma attempt_row_ok:
  assumes "iso_faithful lib" "operational_attempt_row lib a w co = Inr r"
  shows "spark_ok lib ''gold_attempt_operations'' r"
proof -
  have "aligned lib attempt_operations_fields r"
    using assms(2) unfolding operational_attempt_row_def Let_def bindE_eq_Inr
    apply (elim exE conjE)
    apply (erule aligned_cells)
    apply (drule range_parsed(1) | drule range_parsed(2))+
    apply (simp add: attempt_operations_fields_def assms(1) del: bindE_eq_Inr)
    done
  then show ?thesis by (rule aligned_ok [rotated]) (simp_all add: SPARK_FIELDS_def attempt_operations_fields_def)
qed

lemma mapE_all: "mapE f xs = Inr ys \<Longrightarrow> (\<And>x y. f x = Inr y \<Longrightarrow> P y) \<Longrightarrow> list_all P ys"
  using mapE_mem by (fastforce simp: list_all_iff)

lemma operational_ok:
  assumes "iso_faithful lib" "operational_rows lib control committed refreshed = Inr (ws, as)"
  shows "list_all (spark_ok lib ''gold_work_operations'') ws" "list_all (spark_ok lib ''gold_attempt_operations'') as"
proof -
  from assms(2) obtain x xb ws' where w: "mapE (\<lambda>w. operational_work_row lib w (map_of x (gstr lib (por (row_get w ''lease_attempt_id'') (PStr [])))) xb)
      (cr_work control) = Inr ws'" "ws = sort_rows ''work_id'' ws'"
    by (auto simp: operational_rows_def Let_def)
  from assms(2) obtain x' as' where a: "mapE (\<lambda>a. operational_attempt_row lib a (dget x' (gstr lib (por (row_get a ''work_id'') (PStr []))) [])
      (map_of (dict_of (map (\<lambda>co. (co_attempt_id co, co)) committed)) (gstr lib (por (row_get a ''attempt_id'') (PStr []))))) (cr_attempts control) = Inr as'"
      "as = sort_rows ''attempt_id'' as'"
    by (auto simp: operational_rows_def Let_def)
  show "list_all (spark_ok lib ''gold_work_operations'') ws"
    using mapE_all [OF w(1), of "spark_ok lib ''gold_work_operations''"] work_row_ok [OF assms(1)]
    by (simp add: w(2) sort_rows_def list_all_iff)
  show "list_all (spark_ok lib ''gold_attempt_operations'') as"
    using mapE_all [OF a(1), of "spark_ok lib ''gold_attempt_operations''"] attempt_row_ok [OF assms(1)]
    by (simp add: a(2) sort_rows_def list_all_iff)
qed

section \<open>Dimensions\<close>

lemma isocalendar_bounds:
  assumes "0 \<le> d" "d < MAX_DAYS" "isocalendar d = (y, w, k)"
  shows "0 \<le> y" "y \<le> 10000" "0 \<le> w" "w \<le> 200" "1 \<le> k" "k \<le> 7"
proof -
  let ?y = "year_of d"
  have y: "1 \<le> ?y" "?y \<le> 9999" using year_range [OF assms(1,2)] by simp_all
  have d: "year_start ?y \<le> d" "d < year_start ?y + 366" using year_contains [of d] by (auto simp: year_length_def split: if_splits)
  have before: "year_start ?y - 367 \<le> year_start (?y - 1) \<and> year_start (?y - 1) \<le> year_start ?y"
  proof -
    have "(u + 1) div 4 \<le> u div 4 + 1" "u div 100 \<le> (u + 1) div 100" "(u + 1) div 400 \<le> u div 400 + 1" for u :: int
      using zdiv_mono1 [of "u + 1" "u + 4" 4] zdiv_mono1 [of u "u + 1" 100] zdiv_mono1 [of "u + 1" "u + 400" 400] by simp_all
    from this [of "?y - 2"] have "year_start ?y - 367 \<le> year_start (?y - 1)" unfolding year_start_def by (simp add: algebra_simps)
    then show ?thesis using year_start_mono [of "?y - 1" ?y] by simp
  qed
  have monday: "year_start z - 6 \<le> isoweek1monday z \<and> isoweek1monday z \<le> year_start z + 7" for z
    using pos_mod_sign [of 7 "year_start z"] pos_mod_bound [of 7 "year_start z"] by (auto simp: isoweek1monday_def Let_def)
  have m: "0 \<le> (d - b) mod 7" "(d - b) mod 7 < 7" for b by simp_all
  have q: "(d - isoweek1monday ?y) div 7 \<le> 100" using d monday [of ?y] by linarith
  have q': "(d - isoweek1monday (?y - 1)) div 7 \<le> 150" "0 \<le> (d - isoweek1monday (?y - 1)) div 7 + 1"
    using d before monday [of "?y - 1"] by linarith+
  let ?w = "(d - isoweek1monday ?y) div 7"
  consider "y = ?y - 1" "w = (d - isoweek1monday (?y - 1)) div 7 + 1" "k = (d - isoweek1monday (?y - 1)) mod 7 + 1"
    | "y = ?y + 1" "w = 1" "k = (d - isoweek1monday ?y) mod 7 + 1"
    | "\<not> ?w < 0" "y = ?y" "w = ?w + 1" "k = (d - isoweek1monday ?y) mod 7 + 1"
    using assms(3) unfolding isocalendar_def Let_def by (simp split: if_split_asm) blast+
  then show "0 \<le> y" "y \<le> 10000" "0 \<le> w" "w \<le> 200" "1 \<le> k" "k \<le> 7"
    using y q q' m [of "isoweek1monday ?y"] m [of "isoweek1monday (?y - 1)"] by (cases; linarith)+
qed

lemma date_row_ok:
  assumes "iso_faithful lib" "in_range now" "0 \<le> d" "d < MAX_DAYS"
  shows "spark_ok lib ''gold_dim_date'' (date_dimension_row (iso now) d)"
proof -
  obtain y m k where ymd: "ymd d = (y, m, k)" by (cases "ymd d")
  obtain iy iw ik where ic: "isocalendar d = (iy, iw, ik)" by (cases "isocalendar d")
  have "cell_ok lib K_integer False (PInt i)" if "i \<in> {y, (m - 1) div 3 + 1, m, k, ik, iy, iw}" for i
    using that ymd_value [OF ymd] year_range [OF assms(3,4)] isocalendar_bounds [OF assms(3,4) ic] by (auto intro!: cell_integer)
  then have "aligned lib dim_date_fields (date_dimension_row (iso now) d)"
    using assms by (simp add: aligned_def dim_date_fields_def date_dimension_row_def ymd ic cell_date)
  then show ?thesis by (rule aligned_ok [rotated]) (simp_all add: SPARK_FIELDS_def dim_date_fields_def)
qed

lemma time_row_ok:
  assumes "iso_faithful lib" "in_range now" "0 \<le> n" "n < 1440"
  shows "spark_ok lib ''gold_dim_time'' (time_dimension_row (iso now) n)"
proof -
  have "cell_ok lib K_integer False (PInt i)" if "i \<in> {n, n div 60, n mod 60}" for i
    using that assms(3,4) by (auto intro!: cell_integer)
  then have "aligned lib dim_time_fields (time_dimension_row (iso now) n)"
    using assms by (simp add: aligned_def dim_time_fields_def time_dimension_row_def)
  then show ?thesis by (rule aligned_ok [rotated]) (simp_all add: SPARK_FIELDS_def dim_time_fields_def)
qed

lemma captures_range: "captures_of lib rows = Inr (a, b) \<Longrightarrow> in_range a \<and> in_range b"
proof -
  assume c: "captures_of lib rows = Inr (a, b)"
  then obtain ts where ts: "mapE (\<lambda>r. required_datetime lib (row_get r ''captured_at_utc'')) rows = Inr ts" "ts \<noteq> []"
    "a = Min (set ts)" "b = Max (set ts)" by (auto simp: captures_of_def split: if_splits)
  then have "a \<in> set ts" "b \<in> set ts" by auto
  with mapE_all [OF ts(1), of in_range] show ?thesis by (auto simp: list_all_iff dest: required_datetime_range)
qed

lemma camera_row_ok:
  assumes "iso_faithful lib" "in_range now" "camera_row lib (iso now) p = Inr r"
  shows "spark_ok lib ''gold_dim_camera'' r"
proof -
  have "aligned lib dim_camera_fields r"
    using assms by (auto simp: camera_row_def aligned_def dim_camera_fields_def work_count_def split: prod.splits list.splits if_splits
        dest!: captures_range)
  then show ?thesis by (rule aligned_ok [rotated]) (simp_all add: SPARK_FIELDS_def dim_camera_fields_def)
qed

lemma location_row_ok:
  assumes "iso_faithful lib" "in_range now" "location_row lib (iso now) p = Inr r"
  shows "spark_ok lib ''gold_dim_location'' r"
proof -
  have "aligned lib dim_location_fields r"
    using assms by (auto simp: location_row_def aligned_def dim_location_fields_def work_count_def split: prod.splits dest!: captures_range)
  then show ?thesis by (rule aligned_ok [rotated]) (simp_all add: SPARK_FIELDS_def dim_location_fields_def)
qed

lemma video_dimension_ok:
  assumes "iso_faithful lib" "in_range now" "in_range t"
  shows "spark_ok lib ''gold_dim_video'' (video_dimension_row lib (iso now) r t camera location config_hash)"
proof -
  have "aligned lib dim_video_fields (video_dimension_row lib (iso now) r t camera location config_hash)"
    using assms by (simp add: aligned_def dim_video_fields_def video_dimension_row_def)
  then show ?thesis by (rule aligned_ok [rotated]) (simp_all add: SPARK_FIELDS_def dim_video_fields_def)
qed

lemma dates_in_range:
  assumes "iso_faithful lib" "date_range lib values fallback = Inr ds" "0 \<le> fallback" "fallback < MAX_DAYS" "d \<in> set ds"
  shows "0 \<le> d \<and> d < MAX_DAYS"
proof -
  have b: "0 \<le> d' \<and> d' < MAX_DAYS" if "parsed_date lib s = Inr d'" for s d'
    using that assms(1) by (auto simp: parsed_date_def iso_faithful_def split: option.splits)
  show ?thesis
  proof (cases "values = []")
    case True
    with assms(2) have "ds = [fallback]" by (simp add: date_range_def)
    with assms(3-5) show ?thesis by simp
  next
    case False
    with assms(2) obtain a e where "parsed_date lib (hd values) = Inr a" "parsed_date lib (last values) = Inr e" "ds = [a..e]"
      by (auto simp: date_range_def)
    with b [of "hd values" a] b [of "last values" e] assms(5) show ?thesis by auto
  qed
qed

lemma dimension_videos_ok:
  assumes "iso_faithful lib" "in_range now"
    and "foldE (group_row lib (iso now)) metadata \<lparr>dg_cameras = [], dg_locations = [], dg_configs = [], dg_videos = []\<rparr> = Inr g"
  shows "list_all (spark_ok lib ''gold_dim_video'') (dg_videos g)"
proof (rule foldE_invariant [OF assms(3)])
  fix r a b
  assume "list_all (spark_ok lib ''gold_dim_video'') (dg_videos a)" "group_row lib (iso now) r a = Inr b"
  then show "list_all (spark_ok lib ''gold_dim_video'') (dg_videos b)"
    using video_dimension_ok [OF assms(1,2)] by (auto simp: group_row_def Let_def dest: required_datetime_range)
qed simp

definition dimension_tables_ok :: "gold_lib \<Rightarrow> tables \<Rightarrow> bool" where
  "dimension_tables_ok lib ts = list_all (\<lambda>(t, rows). t = ''gold_dim_model_config'' \<or> list_all (spark_ok lib t) rows) ts"

lemma dimension_rows_ok:
  assumes "iso_faithful lib" "in_range now" "dimension_rows lib committed facts (iso now) = Inr dims"
  shows "dimension_tables_ok lib dims"
proof -
  obtain metadata fact_dates dates where dates: "date_range lib fact_dates (day_of now) = Inr dates"
    and rows: "dimension_metadata_rows lib metadata dates (iso now) = Inr dims"
    using assms(3) iso_parsed(2) [OF assms(1,2)] by (auto simp: dimension_rows_def)
  obtain g cameras locations configs where
    g: "foldE (group_row lib (iso now)) metadata \<lparr>dg_cameras = [], dg_locations = [], dg_configs = [], dg_videos = []\<rparr> = Inr g"
    and c: "mapE (camera_row lib (iso now)) (sort_key fst (dg_cameras g)) = Inr cameras"
    and l: "mapE (location_row lib (iso now)) (sort_key fst (dg_locations g)) = Inr locations"
    and dims: "dims = [(''gold_dim_date'', map (date_dimension_row (iso now)) dates),
       (''gold_dim_time'', map (time_dimension_row (iso now)) [0..1439]), (''gold_dim_camera'', cameras),
       (''gold_dim_location'', locations), (''gold_dim_video'', sort_rows ''work_id'' (dg_videos g)), (''gold_dim_model_config'', configs)]"
    using rows by (auto simp: dimension_metadata_rows_def simp del: upto_rec_numeral)
  have "list_all (spark_ok lib ''gold_dim_camera'') cameras"
    using mapE_all [OF c, of "spark_ok lib ''gold_dim_camera''"] camera_row_ok [OF assms(1,2)] by simp
  moreover have "list_all (spark_ok lib ''gold_dim_location'') locations"
    using mapE_all [OF l, of "spark_ok lib ''gold_dim_location''"] location_row_ok [OF assms(1,2)] by simp
  moreover have "list_all (spark_ok lib ''gold_dim_date'') (map (date_dimension_row (iso now)) dates)"
    using dates_in_range [OF assms(1) dates] day_range [OF assms(2)] date_row_ok [OF assms(1,2)] by (auto simp: list_all_iff)
  moreover have "list_all (spark_ok lib ''gold_dim_time'') (map (time_dimension_row (iso now)) [0..1439])"
    using time_row_ok [OF assms(1,2)] by (simp add: list_all_iff del: upto_rec_numeral)
  moreover have "list_all (spark_ok lib ''gold_dim_video'') (sort_rows ''work_id'' (dg_videos g))"
    using dimension_videos_ok [OF assms(1,2) g] by (simp add: sort_rows_def list_all_iff)
  ultimately show ?thesis by (simp add: dimension_tables_ok_def dims del: upto_rec_numeral)
qed

end
