(* ===== verification/Gold_Rows_Spec.thy ===== *)
theory Gold_Rows_Spec
  imports Gold_Build_Spec Gold_Schema_Spec
begin

text \<open>
  Every row that the gold job builds can be written and carries the value of its partition, so that the replacement
  of a partition or a table does not fail once the rows are computed.
\<close>

section \<open>Plain rows\<close>

lemma plain_cells [simp]:
  "plain_cell PNone" "plain_cell (PStr s)" "plain_cell (PInt i)" "plain_cell (PFloat x)" "plain_cell (PBool b)"
  by (simp_all add: plain_cell_def)

lemma plain_built [simp]:
  "plain_cell (int_cell i)" "plain_cell (float_cell f)" "plain_cell (optional_iso t)" "plain_cell (date_cell t)"
  "plain_cell (optional_text lib v)"
  by (simp_all add: int_cell_def float_cell_def optional_iso_def date_cell_def optional_text_def Let_def split: option.split)

lemma plain_metrics:
  "float_of lib v = Inr c \<Longrightarrow> plain_cell c" "int_of lib v = Inr c \<Longrightarrow> plain_cell c"
  "projected_int lib v = Inr c \<Longrightarrow> plain_cell c" "count_of lib v = Inr c \<Longrightarrow> plain_cell c"
  "optional_boolean v = Inr c \<Longrightarrow> plain_cell c" "required_text_of lib r name = Inr c \<Longrightarrow> plain_cell c"
  by (auto simp: float_of_def int_of_def projected_int_def count_of_def required_text_of_def optional_boolean_def split: pyval.splits)

lemma plain_computed [simp]:
  "\<forall>c. float_of lib v = Inr c \<longrightarrow> plain_cell c" "\<forall>c. int_of lib v = Inr c \<longrightarrow> plain_cell c"
  "\<forall>c. projected_int lib v = Inr c \<longrightarrow> plain_cell c" "\<forall>c. count_of lib v = Inr c \<longrightarrow> plain_cell c"
  "\<forall>c. optional_boolean v = Inr c \<longrightarrow> plain_cell c" "\<forall>c. required_text_of lib r name = Inr c \<longrightarrow> plain_cell c"
  by (intro allI impI; erule plain_metrics)+

lemma plain_bind [simp]:
  "\<forall>c. bindE m (\<lambda>x. Inr (optional_iso (f x))) = Inr c \<longrightarrow> plain_cell c"
  "\<forall>c. (if p then bindE m' (\<lambda>s. Inr (PStr s)) else Inr PNone) = Inr c \<longrightarrow> plain_cell c"
  by auto

lemma plain_row_cells:
  assumes "cells cs = Inr r" "distinct (map fst cs)" "list_all (\<lambda>(n, c). \<forall>v. c = Inr v \<longrightarrow> plain_cell v) cs"
  shows "plain_row r"
proof -
  have "map fst r = map fst cs \<and> list_all (\<lambda>(k, v). plain_cell v) r" using assms(1,3)
    by (induction cs arbitrary: r rule: cells.induct) auto
  then show ?thesis using assms(2) by (simp add: plain_row_def)
qed

lemma cells_get: "cells cs = Inr r \<Longrightarrow> distinct (map fst cs) \<Longrightarrow> (n, Inr v) \<in> set cs \<Longrightarrow> row_get r n = v"
proof (induction cs arbitrary: r rule: cells.induct)
  case (2 m c cs)
  then obtain v' r' where r: "c = Inr v'" "cells cs = Inr r'" "r = (m, v') # r'" by auto
  show ?case
  proof (cases "(n, Inr v) = (m, c)")
    case True
    then show ?thesis using r by (simp add: row_get_def dget_def)
  next
    case False
    then have "(n, Inr v) \<in> set cs" "n \<noteq> m" using "2.prems" by (force)+
    with "2.IH" [OF r(2)] "2.prems"(2) r show ?thesis by (simp add: row_get_def dget_def)
  qed
qed simp

lemma video_plain:
  assumes "video_row lib d co t camera location = Inr r"
  shows "plain_row r \<and> row_get r ''capture_date'' = PStr d"
  using assms unfolding video_row_def Let_def bindE_eq_Inr
  apply (elim exE conjE)
  apply (rule conjI)
   apply (erule plain_row_cells)
    apply simp
   apply (simp del: bindE_eq_Inr split: option.split)
  apply (erule cells_get)
   apply simp
  apply simp
  done

lemma operations_plain:
  assumes "operations_row lib d now p = Inr r"
  shows "plain_row r \<and> row_get r ''operation_date'' = PStr d"
  using assms by (auto simp: operations_row_def plain_row_def row_get_def dget_def split: prod.splits)

lemma work_plain:
  assumes "operational_work_row lib w lease refreshed = Inr r"
  shows "plain_row r"
  using assms unfolding operational_work_row_def Let_def bindE_eq_Inr
  by (elim exE conjE) (erule plain_row_cells; simp del: bindE_eq_Inr)

lemma attempt_plain:
  assumes "operational_attempt_row lib a w co = Inr r"
  shows "plain_row r"
  using assms unfolding operational_attempt_row_def Let_def bindE_eq_Inr
  by (elim exE conjE) (erule plain_row_cells; simp del: bindE_eq_Inr)

text \<open>The tables of a date have plain rows of that date.\<close>

lemma fact_tables_fit:
  assumes f: "fact_rows_for_date lib committed control d now = Inr f" and t: "(t, c, rows) \<in> set (fact_tables_of f)"
  shows "list_all (\<lambda>r. plain_row r \<and> row_get r c = PStr d) rows"
proof -
  have "list_all (\<lambda>r. plain_row r \<and> row_get r ''flow_date'' = PStr d) (fr_flow_minute f)"
    "list_all (\<lambda>r. plain_row r \<and> row_get r ''flow_date'' = PStr d) (fr_flow_hour f)"
    unfolding fact_rows_reference [OF f] list_all_iff using reference_flow_plain(2) by blast+
  moreover have "list_all (\<lambda>r. plain_row r \<and> row_get r ''capture_date'' = PStr d) (fr_video f)"
    by (rule video_rows_all [OF f]) (rule video_plain)
  moreover have "list_all (\<lambda>r. plain_row r \<and> row_get r ''operation_date'' = PStr d) (fr_operations_hour f)"
    by (rule operations_rows_all [OF f]) (rule operations_plain)
  ultimately show ?thesis using t by (auto simp: fact_tables_of_def)
qed

lemma operational_plain:
  assumes "operational_rows lib control committed refreshed = Inr (ws, as)"
  shows "list_all plain_row ws" "list_all plain_row as"
proof -
  obtain f g ws' as' where "mapE f (cr_work control) = Inr ws'" "ws = sort_rows ''work_id'' ws'" "\<And>w r. f w = Inr r \<Longrightarrow> plain_row r"
    "mapE g (cr_attempts control) = Inr as'" "as = sort_rows ''attempt_id'' as'" "\<And>a r. g a = Inr r \<Longrightarrow> plain_row r"
    using assms work_plain attempt_plain by (auto simp: operational_rows_def Let_def)
  then show "list_all plain_row ws" "list_all plain_row as"
    using mapE_all [of f "cr_work control" ws' plain_row] mapE_all [of g "cr_attempts control" as' plain_row]
    by (simp_all add: sort_rows_def list_all_iff)
qed

section \<open>Replacements succeed\<close>

definition tables_held :: "gold_lib \<Rightarrow> json_store \<Rightarrow> string list \<Rightarrow> bool" where
  "tables_held lib s names \<longleftrightarrow> list_all (\<lambda>t. \<exists>v rows. table_is lib s t v rows) names"

lemma write_total:
  assumes "json_faithful (base_lib lib)" "table_is lib s t v rows"
  shows "\<exists>s'. write_table lib s t new = Inr s'"
  using table_reads(2) [OF assms] assms(2) by (auto simp: write_table_def table_is_def split: sum.splits)

lemma replace_total:
  assumes json: "json_faithful (base_lib lib)" and held: "tables_held lib s names" "t \<in> set names" and plain: "list_all plain_row new"
  shows "list_all (\<lambda>r. row_get r c = PStr d) new \<Longrightarrow> \<exists>s'. replace_partition lib s t c d new = Inr (length new, s') \<and> tables_held lib s' names"
    and "\<exists>s'. replace_table lib s t new = Inr (length new, s') \<and> tables_held lib s' names"
proof -
  obtain v rows where t: "table_is lib s t v rows" using held by (auto simp: tables_held_def list_all_iff)
  have keep: "tables_held lib s' names" if "\<And>n v rs. n \<in> set names \<Longrightarrow> table_is lib s n v rs \<Longrightarrow> \<exists>v rs. table_is lib s' n v rs" for s'
    using held that by (fastforce simp: tables_held_def list_all_iff)
  show "\<exists>s'. replace_partition lib s t c d new = Inr (length new, s') \<and> tables_held lib s' names"
    if c: "list_all (\<lambda>r. row_get r c = PStr d) new"
  proof -
    have "\<not> list_ex (\<lambda>r. row_get r c \<noteq> PStr d) (map canon_row new)"
      using c plain canon_row_get by (fastforce simp: list_ex_iff list_all_iff)
    then obtain s' where s': "replace_partition lib s t c d new = Inr (length new, s')"
      using write_total [OF json t] by (auto simp: replace_partition_def jsonable_plain [OF json plain] table_reads(1) [OF json t])
    then show ?thesis
      using keep [of s'] json_tables.put_same [OF s' plain] json_tables.put_other [OF s'] json by (metis (full_types))
  qed
  obtain s' where s': "replace_table lib s t new = Inr (length new, s')"
    using write_total [OF json t] by (auto simp: replace_table_def jsonable_plain [OF json plain])
  then show "\<exists>s'. replace_table lib s t new = Inr (length new, s') \<and> tables_held lib s' names"
    using keep [of s'] json_tables.put_all_same [OF s' plain] json_tables.put_all_other [OF s'] json by (metis (full_types))
qed

lemma versions_total: "json_faithful (base_lib lib) \<Longrightarrow> tables_held lib (gw_store w) names \<Longrightarrow> \<exists>vs. versionsG lib names w = (Inr vs, w)"
  unfolding versionsG_def table_versions_def readG_def tables_held_def
  by (induction names) (auto dest: table_reads(2))

lemma partition_total:
  assumes "json_faithful (base_lib lib)" "tables_held lib (gw_store w) names"
    and "list_all (\<lambda>(t, c, rs). t \<in> set names \<and> list_all (\<lambda>r. plain_row r \<and> row_get r c = PStr d) rs) ops"
  shows "\<exists>ns w'. mapG (\<lambda>(t, c, rs). storeG (\<lambda>s. replace_partition lib s t c d rs)) ops w = (Inr ns, w')
    \<and> tables_held lib (gw_store w') names \<and> gw_state w' = gw_state w"
  using assms(2,3)
proof (induction ops arbitrary: w)
  case (Cons op ops)
  obtain t c rs where op: "op = (t, c, rs)" by (cases op)
  obtain s where s: "replace_partition lib (gw_store w) t c d rs = Inr (length rs, s)" "tables_held lib s names"
    using replace_total(1) [OF assms(1) Cons.prems(1), of t rs c d] Cons.prems(2) by (auto simp: op list_all_iff)
  from Cons.IH [of "w\<lparr>gw_store := s\<rparr>"] s Cons.prems(2) show ?case by (auto simp: op bindG_def storeG_def)
qed (simp add: assms(2))


lemma partitions_total:
  assumes "json_faithful (base_lib lib)" "tables_held lib (gw_store w) FACT_TARGET_TABLES"
    and "\<forall>d \<in> set ds. \<exists>f. fact_rows_for_date lib committed control d now = Inr f"
  shows "\<exists>counts w'. mapG (build_partition lib committed control now) ds w = (Inr counts, w') \<and> tables_held lib (gw_store w') FACT_TARGET_TABLES"
  using assms(2,3)
proof (induction ds arbitrary: w)
  case (Cons d ds)
  then obtain f where f: "fact_rows_for_date lib committed control d now = Inr f" by auto
  have "list_all (\<lambda>(t, c, rs). t \<in> set FACT_TARGET_TABLES \<and> list_all (\<lambda>r. plain_row r \<and> row_get r c = PStr d) rs) (fact_tables_of f)"
    unfolding list_all_iff [of _ "fact_tables_of f"]
  proof (clarify, intro conjI)
    fix t c rs assume m: "(t, c, rs) \<in> set (fact_tables_of f)"
    then show "t \<in> set FACT_TARGET_TABLES" by (auto simp: fact_tables_of_def FACT_TARGET_TABLES_def FACT_TABLES_def)
    show "list_all (\<lambda>r. plain_row r \<and> row_get r c = PStr d) rs" by (rule fact_tables_fit [OF f m])
  qed
  from partition_total [OF assms(1) Cons.prems(1) this] obtain ns w1 where
    p: "mapG (\<lambda>(t, c, rs). storeG (\<lambda>s. replace_partition lib s t c d rs)) (fact_tables_of f) w = (Inr ns, w1)"
    and h: "tables_held lib (gw_store w1) FACT_TARGET_TABLES" by blast
  have b: "build_partition lib committed control now d w = (Inr ns, w1)"
    by (simp add: build_partition_def bindG_def f p returnG_def)
  from Cons.IH [OF h] Cons.prems(2) obtain counts w' where "mapG (build_partition lib committed control now) ds w1 = (Inr counts, w')"
    "tables_held lib (gw_store w') FACT_TARGET_TABLES" by auto
  then show ?case using b by (simp add: bindG_Inr)
qed simp

text \<open>A full build ends when what it reads can be read and the rows of its dates can be computed.\<close>

lemma build_total:
  assumes json: "json_faithful (base_lib lib)" and held: "tables_held lib (gw_store w) FACT_TARGET_TABLES"
    and a: "fb_full_rebuild a \<or> fb_force a" "\<not> fb_save_state a"
    and ds: "\<And>tc. selected_dates lib src clk a tc w = (Inr ds, w)"
    and reads: "committed_outputs lib (src 6) = Inr committed" "control_rows_of (src 7) = Inr control"
    and facts: "\<forall>d \<in> set ds. \<exists>f. fact_rows_for_date lib committed control d (iso (clk 1)) = Inr f"
    and rows: "operational_rows lib control committed (iso (clk 1)) = Inr (works, attempts)"
  shows "\<exists>fx w'. build_facts lib src clk a w = (Inr (Done fx), w') \<and> fx_dates fx = ds"
proof -
  obtain vs where v: "versionsG lib FACT_TARGET_TABLES w = (Inr vs, w)" using versions_total [OF json held] by blast
  obtain counts w1 where p: "mapG (build_partition lib committed control (iso (clk 1))) ds w = (Inr counts, w1)"
    and h1: "tables_held lib (gw_store w1) FACT_TARGET_TABLES" using partitions_total [OF json held facts] by blast
  have names: "''gold_work_operations'' \<in> set FACT_TARGET_TABLES" "''gold_attempt_operations'' \<in> set FACT_TARGET_TABLES"
    by (simp_all add: FACT_TARGET_TABLES_def OPERATIONAL_TABLES_def)
  obtain s2 where s2: "replace_table lib (gw_store w1) ''gold_work_operations'' works = Inr (length works, s2)"
    and h2: "tables_held lib s2 FACT_TARGET_TABLES" using replace_total(2) [OF json h1 names(1) operational_plain(1) [OF rows]] by blast
  obtain s3 where s3: "replace_table lib s2 ''gold_attempt_operations'' attempts = Inr (length attempts, s3)"
    and h3: "tables_held lib s3 FACT_TARGET_TABLES" using replace_total(2) [OF json h2 names(2) operational_plain(2) [OF rows]] by blast
  obtain vs' where v': "versionsG lib FACT_TARGET_TABLES (w1\<lparr>gw_store := s3\<rparr>) = (Inr vs', w1\<lparr>gw_store := s3\<rparr>)"
    using versions_total [OF json, of "w1\<lparr>gw_store := s3\<rparr>"] h3 by auto
  have noop: "normal_incremental_facts_noop automatic (fb_force a) (fb_full_rebuild a) c key current = False" for automatic c key current
    using a(1) by (auto simp: normal_incremental_facts_noop_def)
  show ?thesis
    by (simp add: build_facts_def Let_def bindG_def readG_def returnG_def storeG_def v ds reads p rows s2 s3 v' noop a(2) del: One_nat_def)
qed

end
