(* ===== verification/Gold_Demo.thy ===== *)
theory Gold_Demo
  imports Gold_Rows_Spec Json_Document Process_Executor_Demo Control_Demo
begin

text \<open>
  A concrete gold build: the committed work item of the demonstration run of the control store, whose output document has
  one line count, is built into empty tables.
\<close>

section \<open>The library and the source\<close>

definition gold_demo_lib :: gold_lib where
  "gold_demo_lib = pylib.extend (probe_lib\<lparr>json_loads := read_document ratio_value\<rparr>)
     \<lparr>datetime_fromisoformat = read_datetime, date_fromisoformat = date_reader, parse_float = (\<lambda>_. None),
      parse_int = (\<lambda>_. None), zone_known = (\<lambda>_. True)\<rparr>"

lemma demo_json: "json_faithful (base_lib gold_demo_lib)"
proof -
  have "base_lib gold_demo_lib = probe_lib\<lparr>json_loads := read_document ratio_value\<rparr>"
    by (simp add: gold_demo_lib_def pylib.truncate_def pylib.extend_def)
  then show ?thesis using reader_faithful [of probe_lib ratio_value] ratio_float_text by (simp add: probe_lib_def)
qed

lemma demo_dates: "iso_faithful gold_demo_lib"
  by (rule readers_faithful) (simp_all add: gold_demo_lib_def pylib.extend_def)

definition demo_document :: pyval where
  "demo_document = PDict [(''run'', PDict [(''captured_at_utc'', PStr ''1970-01-01T00:00:30Z''), (''camera_id'', PStr ''c1''),
      (''location_id'', PStr ''l1'')]),
     (''line_counts'', PList [PDict [(''video_seconds'', PInt 5), (''entries'', PInt 2), (''exits'', PInt 1)]])]"

definition demo_source :: gold_source where
  "demo_source = \<lparr>so_db = demo_committed_db, so_tables = [''work'', ''attempts'', ''batches'', ''publications''],
     so_resolve = (\<lambda>s. s), so_fs = [''/out'' \<mapsto> FileNode (dumps probe_lib demo_document)],
     so_delta = (\<lambda>_ _ _. Inl GoldSourceError), so_verify_output_hash = True\<rparr>"

definition demo_world :: gold_world where
  "demo_world = \<lparr>gw_store = \<lparr>js_root = ''/g'', js_files = []\<rparr>, gw_state = empty_gold_state\<rparr>"

definition demo_facts_args :: facts_args where
  "demo_facts_args = \<lparr>fb_dates = None, fb_lookback_hours = PInt 24, fb_force = False, fb_full_rebuild = True, fb_save_state = False\<rparr>"

definition demo_clock :: "nat \<Rightarrow> moment" where
  "demo_clock i = EPOCH + 1000000000"

section \<open>What the build reads\<close>

definition demo_final_work :: work_row where
  "demo_final_work = hd (db_work demo_committed_db)"

definition demo_work_dict :: row where
  "demo_work_dict = work_dict demo_final_work"

definition demo_attempt_dict :: row where
  "demo_attempt_dict = control_attempt_dict (hd (db_attempts demo_committed_db)) (hd (db_batches demo_committed_db)) demo_final_work
     (Some demo_publication)"

definition demo_committed_output :: committed_output where
  "demo_committed_output = \<lparr>co_work_id = ''w1'', co_attempt_id = ''attempt-1'', co_publication_sequence = 1,
     co_published_at = Some (EPOCH + 300000000), co_work = dict_update demo_payload demo_work_dict,
     co_attempt = attempt_dict (hd (db_attempts demo_committed_db)),
     co_run = [(''camera_id'', PStr ''c1''), (''captured_at_utc'', PStr ''1970-01-01T00:00:30Z''), (''location_id'', PStr ''l1'')],
     co_line_counts = [[(''entries'', PInt 2), (''exits'', PInt 1), (''video_seconds'', PInt 5)]]\<rparr>"

lemma gold_demo_outputs: "committed_outputs gold_demo_lib demo_source = Inr [demo_committed_output]"
  by code_simp

definition demo_control_rows :: control_rows where
  "demo_control_rows = \<lparr>cr_work = [demo_work_dict], cr_attempts = [demo_attempt_dict]\<rparr>"

lemma demo_control_rows: "control_rows_of demo_source = Inr demo_control_rows"
  by code_simp


lemma bindE_weak: "m = m' \<Longrightarrow> bindE m f = bindE m' f" by simp

section \<open>Rows\<close>

lemmas demo_rows = demo_work_dict_def demo_final_work_def demo_committed_db_def work_dict_def publish_work_def lease_work_def demo_work_def new_work_def
  demo_request_def demo_item_def demo_attempt_dict_def control_attempt_dict_def attempt_dict_def batch_dict_def demo_batch_def
  demo_sealed_attempt_def seal_attempt_def claimed_attempt_def demo_output_item_def demo_publication_def text_cell_def int_cell_def float_cell_def

lemma work_get: "row_get demo_work_dict n =
   (if n = ''work_id'' then PStr ''w1'' else if n = ''payload_json'' then PStr demo_payload_json else if n = ''payload_sha256'' then PStr digest_a
    else if n = ''runtime_key'' then PStr ''rt'' else if n = ''duration_seconds'' then PFloat 60 else if n = ''config_sha256'' then PStr ''cfg''
    else if n = ''release_digest'' then PStr digest_a else if n = ''status'' then PStr ''SUCCEEDED''
    else if n \<in> {''attempt_count'', ''max_attempts'', ''original_max_attempts'', ''fence'', ''publication_sequence''} then PInt 1
    else if n \<in> {''available_at'', ''created_at''} then PFloat 100 else if n = ''committed_attempt_id'' then PStr ''attempt-1''
    else if n = ''replay_generation'' then PInt 0 else if n = ''updated_at'' then PFloat 300 else PNone)"
  by (simp add: demo_rows row_get_def dget_def)

lemma merged_get: "row_get (dict_update demo_payload demo_work_dict) n = (if n = ''source_video'' then PStr ''v'' else row_get demo_work_dict n)"
  by (simp add: demo_rows dict_update_def demo_payload_def row_get_def dget_def)

lemma attempt_get: "row_get demo_attempt_dict n =
   (if n = ''attempt_id'' then PStr ''attempt-1'' else if n = ''work_id'' then PStr ''w1'' else if n = ''batch_id'' then PStr ''batch-1''
    else if n \<in> {''fence'', ''terminal_succeeded''} then PInt 1 else if n = ''status'' then PStr ''SUCCEEDED''
    else if n \<in> {''lease_expires_at'', ''batch_expired_at''} then PFloat 710 else if n \<in> {''payload_sha256'', ''output_sha256''} then PStr digest_a
    else if n = ''output_path'' then PStr ''/out'' else if n \<in> {''sealed_at'', ''batch_sealed_at''} then PFloat 200
    else if n = ''created_at'' then PFloat 110 else if n = ''dispatcher_id'' then PStr ''o'' else if n = ''batch_runtime_key'' then PStr ''rt''
    else if n \<in> {''batch_completed_at'', ''work_updated_at'', ''published_at''} then PFloat 300 else PNone)"
  by (simp add: demo_rows row_get_def dget_def)



section \<open>Times\<close>

lemma float_us_int: "float_us (of_int n) = n * 1000000"
proof -
  have "rne 0 = 0" by code_simp
  then show ?thesis by (simp add: float_us_def Let_def fmul_def)
qed

text \<open>The first of January 1970, in microseconds.\<close>

definition epoch_day :: "moment \<Rightarrow> bool" where
  "epoch_day t \<longleftrightarrow> 62135596800000000 \<le> t \<and> t < 62135683200000000"

lemma epoch_dates: "epoch_day t \<Longrightarrow> in_range t" "epoch_day t \<Longrightarrow> date_text t = ''1970-01-01''"
    "0 \<le> n \<Longrightarrow> n < 86400 \<Longrightarrow> from_timestamp (of_int n) = Some (62135596800000000 + n * 1000000)"
proof -
  have d: "date_isoformat 719162 = ''1970-01-01''" by code_simp
  have day: "day_of t = 719162" if "epoch_day t" using that unfolding day_of_def epoch_day_def DAY_US_def by linarith
  then show "date_text t = ''1970-01-01''" if "epoch_day t" using that by (simp add: date_text_def d)
  show "in_range t" if "epoch_day t" using that by (simp add: epoch_day_def in_range_def DAY_US_def MAX_DAYS_def)
  show "from_timestamp (of_int n) = Some (62135596800000000 + n * 1000000)" if "0 \<le> n" "n < 86400"
    using that by (simp add: from_timestamp_def float_us_int EPOCH_def DAY_US_def in_range_def MAX_DAYS_def)
qed

lemma demo_stamps:
  "optional_datetime lib (PFloat 100) = Inr (Some 62135596900000000)" "optional_datetime lib (PFloat 110) = Inr (Some 62135596910000000)"
  "optional_datetime lib (PFloat 200) = Inr (Some 62135597000000000)" "optional_datetime lib (PFloat 300) = Inr (Some 62135597100000000)"
  "optional_datetime lib PNone = Inr None"
  using epoch_dates(3) [of 100] epoch_dates(3) [of 110] epoch_dates(3) [of 200] epoch_dates(3) [of 300]
  by (simp_all add: optional_datetime_def)

lemma demo_captured: "output_captured_at gold_demo_lib demo_committed_output = Inr (Some 62135596830000000)"
  by code_simp

lemma demo_observed: "line_observed_at gold_demo_lib [(''entries'', PInt 2), (''exits'', PInt 1), (''video_seconds'', PInt 5)] 62135596830000000
   = Inr 62135596835000000"
  by code_simp


lemma full_dates_demo:
  "\<exists>ds. full_dates gold_demo_lib [demo_committed_output] demo_control_rows = Inr ds \<and> set ds = {''1970-01-01''}"
  apply (simp add: full_dates_def all_output_dates_def output_dates_def control_dates_def demo_control_rows_def row_dates_def demo_captured demo_observed
     work_date_columns_def attempt_date_columns_def work_get attempt_get demo_stamps epoch_dates(2) epoch_day_def  cong: bindE_weak)
  apply (simp add: demo_committed_output_def demo_observed  epoch_dates(2) epoch_day_def gstr_def py_str_def por_def truthy_def)
  done


lemma demo_meta_get: "row_get (metadata_of demo_committed_output) n = (if n = ''camera_id'' then PStr ''c1''
   else if n = ''captured_at_utc'' then PStr ''1970-01-01T00:00:30Z'' else if n = ''location_id'' then PStr ''l1''
   else row_get (dict_update demo_payload demo_work_dict) n)"
  by (simp add: metadata_of_def demo_committed_output_def demo_rows dict_update_def demo_payload_def row_get_def dget_def)

lemma sum_Inr: "isl x = False \<longleftrightarrow> (\<exists>y. x = Inr y)"
  by (cases x) auto

lemma demo_lines: "\<exists>acc. foldE (add_line gold_demo_lib ''1970-01-01'' demo_committed_output 62135596830000000 ''c1'' ''l1'')
   (co_line_counts demo_committed_output) start = Inr acc"
proof -
  have "line_count gold_demo_lib [(''entries'', PInt 2), (''exits'', PInt 1), (''video_seconds'', PInt 5)] ''frame_in_count'' ''entries'' = Inr 2"
    "line_count gold_demo_lib [(''entries'', PInt 2), (''exits'', PInt 1), (''video_seconds'', PInt 5)] ''frame_out_count'' ''exits'' = Inr 1"
    by code_simp+
  then show ?thesis by (simp add: demo_committed_output_def add_line_def demo_observed epoch_dates(2) epoch_day_def Let_def)
qed

lemma demo_video: "\<exists>r. video_row gold_demo_lib ''1970-01-01'' demo_committed_output 62135596830000000 ''c1'' ''l1'' = Inr r"
proof -
  have "isl (video_row gold_demo_lib ''1970-01-01'' demo_committed_output 62135596830000000 ''c1'' ''l1'') = False" by code_simp
  then show ?thesis by (simp only: sum_Inr)
qed

lemma demo_values:
  "float_of gold_demo_lib (PFloat 60) = Inr (PFloat 60)" "float_of gold_demo_lib PNone = Inr PNone"
  "projected_int gold_demo_lib PNone = Inr PNone" "count_of gold_demo_lib (PInt 1) = Inr (PInt 1)" "count_of gold_demo_lib (PInt 0) = Inr (PInt 0)"
  "gstr gold_demo_lib (por (PStr ''SUCCEEDED'') (PStr [])) = ''SUCCEEDED''" "gstr gold_demo_lib (por (PStr ''attempt-1'') (PStr [])) = ''attempt-1''"
  "co_attempt_id demo_committed_output = ''attempt-1''" "optional_float gold_demo_lib PNone = Inr None"
  by code_simp+

lemma dict_of_single: "dict_of [p] = [p]"
  by (cases p) (simp add: dict_of_def dict_update_def)

lemma demo_hours: "epoch_day t \<Longrightarrow> \<exists>r. operations_row gold_demo_lib d now (hour_text t, g) = Inr r"
  using iso_parsed(2) [OF demo_dates floor_range(2) [OF epoch_dates(1)], of t] by (simp add: operations_row_def hour_text_def)

lemma demo_ops:
  "\<exists>rows. operations_rows gold_demo_lib demo_control_rows [demo_committed_output] ''1970-01-01'' now = Inr rows"
proof -
  have run: "dget (co_run demo_committed_output) ''duration_seconds'' v = v" "row_get (co_run demo_committed_output) ''processing_seconds'' = PNone" for v
    by (simp_all add: demo_committed_output_def dget_def row_get_def)
  have hour: "hour_text 62135596900000000 = hour_text 62135596910000000" "hour_text 62135597100000000 = hour_text 62135596910000000"
    by (simp_all add: hour_text_def floor_hour_def)
  have "\<forall>g. \<exists>r. operations_row gold_demo_lib ''1970-01-01'' now (hour_text 62135596910000000, g) = Inr r"
    using demo_hours [of 62135596910000000] by (simp add: epoch_day_def)
  then obtain r where "\<forall>g. operations_row gold_demo_lib ''1970-01-01'' now (hour_text 62135596910000000, g) = Inr (r g)" by metis
  then show ?thesis
    by (simp add: operations_rows_def demo_control_rows_def dict_of_single count_queued_def count_attempt_def work_get attempt_get
     required_datetime_def demo_stamps on_date_def epoch_dates(2) epoch_day_def demo_values run hour update_group_def dset.simps Let_def
     completion_columns_def attempt_succeeded_def count_outcome_def attempt_processing_def cong: bindE_weak)
qed

section \<open>The operational rows\<close>

lemma demo_merge: "merge_payload gold_demo_lib demo_work_dict = Inr (dict_update demo_payload demo_work_dict)"
proof -
  have "json_loads gold_demo_lib demo_payload_json = Some (PDict demo_payload)" by code_simp
  then show ?thesis by (simp add: merge_payload_def work_get)
qed

lemma demo_work_row: "\<exists>r. operational_work_row gold_demo_lib demo_work_dict None refreshed = Inr r"
proof -
  have "dget (dict_update demo_payload demo_work_dict) ''duration_seconds'' v = PFloat 60" for v
    by (simp add: demo_rows dict_update_def demo_payload_def dget_def)
  then show ?thesis
    by (simp add: operational_work_row_def demo_merge work_get merged_get demo_stamps projected_status_def demo_values row_get2_def
      optional_text_def required_text_of_def required_value_def Let_def cong: bindE_weak)
qed

definition demo_metadata :: row where
  "demo_metadata = dict_update (dict_update (dict_update demo_payload demo_work_dict) []) (co_run demo_committed_output)"

lemma dict_update_get:
  assumes "distinct (map fst e)"
  shows "dget (dict_update d e) n v = (if n \<in> fst ` set e then dget e n v else dget d n v)"
  using assms map_of_eq_None_iff [of e n] by (auto simp: dget_def dict_update_lookup split: option.splits)

lemma dget_Cons: "dget ((k, x) # d) n v = (if n = k then x else dget d n v)" "dget [] n v = v"
  by (simp_all add: dget_def)

lemma dget_row: "dget d n v = (if n \<in> fst ` set d then row_get d n else v)"
  using map_of_eq_None_iff [of d n] by (auto simp: row_get_def dget_def split: option.splits)

lemma metadata_get: "dget demo_metadata n v = (if n = ''camera_id'' then PStr ''c1''
   else if n = ''captured_at_utc'' then PStr ''1970-01-01T00:00:30Z'' else if n = ''location_id'' then PStr ''l1''
   else if n \<in> fst ` set demo_work_dict then row_get demo_work_dict n else if n = ''source_video'' then PStr ''v'' else v)"
  "row_get demo_metadata n = dget demo_metadata n PNone"
proof -
  have d: "distinct (map fst demo_work_dict)" by (simp add: demo_rows)
  have "dict_update d [] = d" for d :: row by (simp add: dict_update_def)
  then show "dget demo_metadata n v = (if n = ''camera_id'' then PStr ''c1''
     else if n = ''captured_at_utc'' then PStr ''1970-01-01T00:00:30Z'' else if n = ''location_id'' then PStr ''l1''
     else if n \<in> fst ` set demo_work_dict then row_get demo_work_dict n else if n = ''source_video'' then PStr ''v'' else v)"
    by (simp add: demo_metadata_def dict_update_get [OF d] dict_update_get dget_Cons demo_committed_output_def demo_payload_def
      dget_row [of demo_work_dict])
  show "row_get demo_metadata n = dget demo_metadata n PNone" by (simp add: row_get_def)
qed

lemma work_names: "n \<in> fst ` set demo_work_dict \<longleftrightarrow> n \<in> set [''work_id'', ''payload_json'', ''payload_sha256'', ''runtime_key'',
    ''duration_seconds'', ''config_sha256'', ''release_digest'', ''status'', ''attempt_count'', ''max_attempts'', ''original_max_attempts'', ''fence'',
    ''available_at'', ''lease_owner'', ''lease_attempt_id'', ''lease_expires_at'', ''committed_attempt_id'', ''publication_sequence'',
    ''replay_generation'', ''last_replay_id'', ''last_error'', ''created_at'', ''updated_at'']"
  by (simp add: demo_rows)

lemma demo_attempt_row: "\<exists>r. operational_attempt_row gold_demo_lib demo_attempt_dict (dict_update demo_payload demo_work_dict) (Some demo_committed_output) = Inr r"
proof -
  have "optional_datetime gold_demo_lib (PStr ''1970-01-01T00:00:30Z'') = Inr (Some 62135596830000000)" "optional_boolean PNone = Inr PNone" by code_simp+
  then show ?thesis
    by (simp add: operational_attempt_row_def attempt_terminal_record_def attempt_get demo_metadata_def [symmetric] metadata_get work_names work_get
      demo_stamps demo_values row_get2_def required_datetime_def required_text_of_def required_value_def Let_def cong: bindE_weak)
qed


lemma demo_operational: "\<exists>ws as. operational_rows gold_demo_lib demo_control_rows [demo_committed_output] (iso (demo_clock 1)) = Inr (ws, as)"
proof -
  have "in_range (demo_clock 1)" by (simp add: demo_clock_def in_range_def EPOCH_def DAY_US_def MAX_DAYS_def)
  then have r: "required_datetime gold_demo_lib (PStr (iso (demo_clock 1))) = Inr (demo_clock 1)" by (rule iso_parsed(2) [OF demo_dates])
  have g: "gstr gold_demo_lib (PStr ''attempt-1'') = ''attempt-1''" "gstr gold_demo_lib (PStr ''w1'') = ''w1''"
    "gstr gold_demo_lib (por PNone (PStr [])) = []" "gstr gold_demo_lib (por (PStr ''attempt-1'') (PStr [])) = ''attempt-1''"
    "gstr gold_demo_lib (por (PStr ''w1'') (PStr [])) = ''w1''" "co_attempt_id demo_committed_output = ''attempt-1''" by code_simp+
  obtain w where w: "operational_work_row gold_demo_lib demo_work_dict None (demo_clock 1) = Inr w" using demo_work_row by blast
  obtain a where a: "operational_attempt_row gold_demo_lib demo_attempt_dict (dict_update demo_payload demo_work_dict) (Some demo_committed_output) = Inr a"
    using demo_attempt_row by blast
  show ?thesis
    by (simp add: operational_rows_def rows_by_def demo_control_rows_def attempt_get work_get demo_merge g r w a dict_of_single dget_def Let_def
      cong: bindE_weak del: One_nat_def)
qed

section \<open>The build\<close>

lemma demo_facts: "\<exists>f. fact_rows_for_date gold_demo_lib [demo_committed_output] demo_control_rows ''1970-01-01'' now = Inr f"
proof -
  have g: "gstr gold_demo_lib (PStr ''c1'') = ''c1''" "gstr gold_demo_lib (PStr ''l1'') = ''l1''" by code_simp+
  obtain acc where a: "foldE (add_line gold_demo_lib ''1970-01-01'' demo_committed_output 62135596830000000 ''c1'' ''l1'')
    (co_line_counts demo_committed_output) \<lparr>fa_minute = [], fa_hour = [], fa_videos = []\<rparr> = Inr acc" using demo_lines by blast
  obtain r where r: "video_row gold_demo_lib ''1970-01-01'' demo_committed_output 62135596830000000 ''c1'' ''l1'' = Inr r" using demo_video by blast
  obtain rows where o: "operations_rows gold_demo_lib demo_control_rows [demo_committed_output] ''1970-01-01'' now = Inr rows" using demo_ops by blast
  have t: "date_text 62135596830000000 = ''1970-01-01''" by (simp add: epoch_dates(2) epoch_day_def)
  show ?thesis
    by (simp add: fact_rows_for_date_def add_output_def demo_captured demo_meta_get g a r t o Let_def cong: bindE_weak)
qed

lemma demo_selected: "selected_dates gold_demo_lib (\<lambda>_. demo_source) demo_clock demo_facts_args tc demo_world = (Inr [''1970-01-01''], demo_world)"
proof -
  obtain ds where ds: "full_dates gold_demo_lib [demo_committed_output] demo_control_rows = Inr ds" "set ds = {''1970-01-01''}"
    using full_dates_demo by blast
  have "sort (remdups ds) = [''1970-01-01'']"
  proof (rule sorted_distinct_set_unique)
    show "set (sort (remdups ds)) = set [''1970-01-01'']" using ds(2) by simp
  qed simp_all
  moreover have "hours_before (demo_clock 0) 24 = Inr (demo_clock 0 - 86400000000)"
    by (simp add: hours_before_def checked_moment_def demo_clock_def in_range_def EPOCH_def DAY_US_def MAX_DAYS_def)
  ultimately show ?thesis
    by (simp add: selected_dates_def readG_def plan_def demo_facts_args_def gold_demo_outputs demo_control_rows ds(1) Let_def cong: bindE_weak)
qed

lemma demo_tables: "table_is gold_demo_lib (gw_store demo_world) ''gold_flow_minute'' 0 []"
  "table_is gold_demo_lib (gw_store demo_world) ''gold_flow_hour'' 0 []"
  "tables_held gold_demo_lib (gw_store demo_world) FACT_TARGET_TABLES"
proof -
  have t: "table_is gold_demo_lib (gw_store demo_world) t 0 []" if "t \<noteq> []" "list_all table_char t" for t
    using that by (simp add: table_is_def table_path_def demo_world_def)
  show "table_is gold_demo_lib (gw_store demo_world) ''gold_flow_minute'' 0 []"
    "table_is gold_demo_lib (gw_store demo_world) ''gold_flow_hour'' 0 []" by (rule t; simp add: table_char_def)+
  have "list_all (\<lambda>t. t \<noteq> [] \<and> list_all table_char t) FACT_TARGET_TABLES" by code_simp
  then show "tables_held gold_demo_lib (gw_store demo_world) FACT_TARGET_TABLES"
    unfolding tables_held_def list_all_iff using t [unfolded list_all_iff] by blast
qed

lemma demo_build:
  obtains fx w' where "build_facts gold_demo_lib (\<lambda>_. demo_source) demo_clock demo_facts_args demo_world = (Inr (Done fx), w')"
    "fx_dates fx = [''1970-01-01'']"
proof -
  obtain ws as where rows: "operational_rows gold_demo_lib demo_control_rows [demo_committed_output] (iso (demo_clock 1)) = Inr (ws, as)"
    using demo_operational by blast
  have "\<exists>fx w'. build_facts gold_demo_lib (\<lambda>_. demo_source) demo_clock demo_facts_args demo_world = (Inr (Done fx), w') \<and> fx_dates fx = [''1970-01-01'']"
    by (rule build_total [OF demo_json demo_tables(3) _ _ demo_selected gold_demo_outputs demo_control_rows _ rows])
      (simp_all add: demo_facts_args_def demo_facts)
  then show thesis using that by blast
qed

lemma demo_observations: "map (\<lambda>ob. (ob_entries ob, ob_exits ob)) (all_observations gold_demo_lib [demo_committed_output]) = [(2, 1)]"
  by code_simp

section \<open>The dimensions\<close>

definition demo_dimension_row :: row where
  "demo_dimension_row = dict_update (dict_update (metadata_of demo_committed_output) [(''work_id'', PStr ''w1'')])
     [(''captured_at_utc'', PStr (iso 62135596830000000))]"

lemma dimension_get: "row_get demo_dimension_row n = (if n = ''captured_at_utc'' then PStr (iso 62135596830000000)
    else if n = ''work_id'' then PStr ''w1'' else row_get (metadata_of demo_committed_output) n)"
  by (simp add: demo_dimension_row_def row_get_def dict_update_get dget_Cons)

lemma demo_sources: "dimension_source_rows gold_demo_lib [demo_committed_output] = Inr [demo_dimension_row]"
proof -
  have "row_get (dict_update (metadata_of demo_committed_output) [(''work_id'', PStr ''w1'')]) ''camera_id'' \<noteq> PNone"
    "row_get (dict_update (metadata_of demo_committed_output) [(''work_id'', PStr ''w1'')]) ''location_id'' \<noteq> PNone"
    "co_work_id demo_committed_output = ''w1''"
    using demo_meta_get by (simp_all add: row_get_def dict_update_get demo_committed_output_def)
  then show ?thesis
    by (simp add: dimension_source_rows_def dimension_source_row_def demo_captured demo_dimension_row_def Let_def)
qed

lemma demo_dimensions:
  "\<exists>dims. dimension_rows gold_demo_lib [demo_committed_output] (map (\<lambda>(t, c). (t, [])) FACT_DATE_COLUMNS) (iso (demo_clock 1)) = Inr dims"
proof -
  have now: "in_range (demo_clock 1)" "in_range 62135596830000000" by (simp_all add: demo_clock_def in_range_def EPOCH_def DAY_US_def MAX_DAYS_def)
  note r = iso_parsed(2) [OF demo_dates now(1)] iso_parsed(2) [OF demo_dates now(2)]
  have dates: "dimension_fact_dates gold_demo_lib (map (\<lambda>(t, c). (t, [])) FACT_DATE_COLUMNS) = Inr []" by code_simp
  have g: "gstr gold_demo_lib (PStr ''c1'') = ''c1''" "gstr gold_demo_lib (PStr ''l1'') = ''l1''" "gstr gold_demo_lib (PStr ''cfg'') = ''cfg''"
    "gstr gold_demo_lib (por PNone (PStr ''UTC'')) = ''UTC''" "zone_known gold_demo_lib ''UTC''" 
    "config_json gold_demo_lib (PDict []) = Inr ''{}''" "json_loads gold_demo_lib ''{}'' = Some (PDict [])" by code_simp+
  have "item_get demo_dimension_row ''work_id'' = Inr (PStr ''w1'')" "map_of demo_dimension_row ''config_json'' = None" by code_simp+
  then have keys: "item_get demo_dimension_row ''work_id'' = Inr (PStr ''w1'')" "dget demo_dimension_row ''config_json'' v = v" for v
    by (simp_all add: dget_def)
  then show ?thesis
    by (simp add: dimension_rows_def demo_sources dates r date_range_def dimension_metadata_rows_def group_row_def dimension_get demo_meta_get
      merged_get work_get required_value_def append_to_def g camera_row_def distinct_texts_def captures_of_def location_row_def config_row_def Let_def
      cong: bindE_weak del: upto_rec_numeral One_nat_def)
qed
end
