(* ===== verification/Gold_State_Spec.thy ===== *)
theory Gold_State_Spec
  imports Gold_Store Transition
begin

text \<open>
  The checkpoints and the refresh outbox as a transition system: the keys of both tables stay unique, no request is
  lost or changed, and what was acknowledged stays acknowledged.
\<close>

section \<open>Steps\<close>

inductive gold_step :: "gold_lib \<Rightarrow> gold_state \<Rightarrow> gold_state \<Rightarrow> bool" for lib where
  save: "gold_step lib g (save_checkpoint lib now stage source versions g)"
| save_all: "save_checkpoints_and_enqueue lib now cs reason source versions g = (r, g') \<Longrightarrow> gold_step lib g g'"
| enqueue: "enqueue_refresh lib now reason source versions g = (i, g') \<Longrightarrow> gold_step lib g g'"
| acknowledge: "acknowledge_refresh now outbox_id actor expected g = (b, g') \<Longrightarrow> gold_step lib g g'"

inductive_cases gold_stepE: "gold_step lib g g'"

section \<open>Invariant and history\<close>

definition outbox_row_ok :: "int \<Rightarrow> outbox_row \<Rightarrow> bool" where
  "outbox_row_ok n r \<longleftrightarrow> 1 \<le> ob_outbox_id r \<and> ob_outbox_id r \<le> n \<and> (ob_acked_at r = None \<longleftrightarrow> ob_acked_by r = None)"

definition gold_state_ok :: "gold_state \<Rightarrow> bool" where
  "gold_state_ok g \<longleftrightarrow> distinct (map ck_stage (gs_checkpoints g)) \<and> distinct (map ob_dedupe_key (gs_outbox g))
     \<and> distinct (map ob_outbox_id (gs_outbox g)) \<and> 0 \<le> gs_last_outbox g \<and> list_all (outbox_row_ok (gs_last_outbox g)) (gs_outbox g)"

text \<open>A request keeps its number, key and content; an acknowledgement is final.\<close>

definition outbox_le :: "outbox_row \<Rightarrow> outbox_row \<Rightarrow> bool" where
  "outbox_le r r' \<longleftrightarrow> r' = r \<or> ob_acked_at r = None \<and> r' = r\<lparr>ob_acked_at := ob_acked_at r', ob_acked_by := ob_acked_by r'\<rparr>"

definition gold_state_le :: "gold_state \<Rightarrow> gold_state \<Rightarrow> bool" where
  "gold_state_le g g' \<longleftrightarrow> rows_le outbox_le (gs_outbox g) (gs_outbox g') \<and> gs_last_outbox g \<le> gs_last_outbox g'
     \<and> ck_stage ` set (gs_checkpoints g) \<subseteq> ck_stage ` set (gs_checkpoints g')"

lemma outbox_le_refl: "outbox_le r r"
  by (simp add: outbox_le_def)

lemma outbox_le_trans: "outbox_le r s \<Longrightarrow> outbox_le s t \<Longrightarrow> outbox_le r t"
  unfolding outbox_le_def by (cases r, cases s, cases t) auto

lemma outbox_leD: "outbox_le r r' \<Longrightarrow> ob_outbox_id r' = ob_outbox_id r \<and> ob_dedupe_key r' = ob_dedupe_key r
    \<and> (ob_acked_at r \<noteq> None \<longrightarrow> r' = r)"
  unfolding outbox_le_def by (cases r, cases r') auto

section \<open>Every operation\<close>

lemma save_row_stages:
  "ck_stage ` set (save_row lib now stage source versions cs) = insert stage (ck_stage ` set cs)"
  "distinct (map ck_stage cs) \<Longrightarrow> distinct (map ck_stage (save_row lib now stage source versions cs))"
proof -
  let ?c = "\<lparr>ck_stage = stage, ck_source_key = source_key lib source, ck_publication_sequence = sc_publication_sequence source,
    ck_source_versions_json = gcanonical lib (text_dict (sc_versions source)),
    ck_target_versions_json = gcanonical lib (int_dict versions), ck_completed_at = iso now\<rparr>"
  have k: "map ck_stage (update_where (\<lambda>r. ck_stage r = stage) (\<lambda>_. ?c) cs) = map ck_stage cs" by (rule update_where_key) simp
  from arg_cong [OF k, of set] show "ck_stage ` set (save_row lib now stage source versions cs) = insert stage (ck_stage ` set cs)"
    by (auto simp: save_row_def Let_def simp del: dumps.simps)
  show "distinct (map ck_stage (save_row lib now stage source versions cs))" if "distinct (map ck_stage cs)"
    using that by (simp add: save_row_def Let_def k)
qed

lemma save_step:
  "gold_state_ok g \<Longrightarrow> gold_state_ok (save_checkpoint lib now stage source versions g)"
  "gold_state_le g (save_checkpoint lib now stage source versions g)"
  by (auto simp: gold_state_ok_def gold_state_le_def save_checkpoint_def save_row_stages intro!: rows_le_refl outbox_le_refl)

lemma gold_le_refl: "gold_state_le g g"
  by (auto simp: gold_state_le_def intro!: rows_le_refl outbox_le_refl)

lemma gold_le_trans: "gold_state_le g h \<Longrightarrow> gold_state_le h k \<Longrightarrow> gold_state_le g k"
  unfolding gold_state_le_def using rows_le_trans [of outbox_le, OF outbox_le_trans] by (meson order_trans subset_trans)

lemma save_all_step:
  "gold_state_ok g \<Longrightarrow> gold_state_ok (foldl (\<lambda>g (stage, source, versions). save_checkpoint lib now stage source versions g) g cs)
    \<and> gold_state_le g (foldl (\<lambda>g (stage, source, versions). save_checkpoint lib now stage source versions g) g cs)"
proof (induction cs arbitrary: g)
  case (Cons c cs)
  obtain stage source versions where c: "c = (stage, source, versions)" by (cases c)
  from Cons.IH [OF save_step(1) [OF Cons.prems]] gold_le_trans [OF save_step(2)] show ?case by (simp add: c) blast
qed (simp add: gold_le_refl)

text \<open>A request that is already known keeps its row; a new one gets the next number.\<close>

lemma insert_cases:
  obtains (known) r where "r \<in> set (gs_outbox g)" "ob_dedupe_key r = gsha256_json lib (refresh_payload lib reason source versions)"
      "find (\<lambda>r. ob_dedupe_key r = gsha256_json lib (refresh_payload lib reason source versions)) (gs_outbox g) = Some r"
      "insert_outbox lib now reason source versions g = (Inr (ob_outbox_id r), g\<lparr>gs_last_outbox := gs_last_outbox g + 1\<rparr>)"
  | (fresh) row where "gsha256_json lib (refresh_payload lib reason source versions) \<notin> ob_dedupe_key ` set (gs_outbox g)"
      "ob_dedupe_key row = gsha256_json lib (refresh_payload lib reason source versions)" "ob_outbox_id row = gs_last_outbox g + 1"
      "ob_acked_at row = None" "ob_acked_by row = None"
      "insert_outbox lib now reason source versions g = (Inr (gs_last_outbox g + 1),
         g\<lparr>gs_outbox := gs_outbox g @ [row], gs_last_outbox := gs_last_outbox g + 1\<rparr>)"
proof -
  let ?key = "gsha256_json lib (refresh_payload lib reason source versions)"
  let ?row = "\<lparr>ob_outbox_id = gs_last_outbox g + 1, ob_dedupe_key = ?key, ob_reason = reason,
    ob_payload_json = gcanonical lib (refresh_payload lib reason source versions), ob_created_at = iso now, ob_acked_at = None, ob_acked_by = None\<rparr>"
  show thesis
  proof (cases "?key \<in> ob_dedupe_key ` set (gs_outbox g)")
    case True
    then obtain r where r: "find (\<lambda>r. ob_dedupe_key r = ?key) (gs_outbox g) = Some r"
      by (cases "find (\<lambda>r. ob_dedupe_key r = ?key) (gs_outbox g)") (auto simp: find_None_iff)
    then have "r \<in> set (gs_outbox g)" "ob_dedupe_key r = ?key" using find_SomeD by fastforce+
    moreover have "insert_outbox lib now reason source versions g = (Inr (ob_outbox_id r), g\<lparr>gs_last_outbox := gs_last_outbox g + 1\<rparr>)"
      using True r by (simp add: insert_outbox_def Let_def)
    ultimately show thesis using known r by blast
  next
    case False
    then have "insert_outbox lib now reason source versions g = (Inr (gs_last_outbox g + 1),
         g\<lparr>gs_outbox := gs_outbox g @ [?row], gs_last_outbox := gs_last_outbox g + 1\<rparr>)"
      using find_fresh [OF False] by (simp add: insert_outbox_def Let_def find_append)
    then show thesis using fresh [of ?row] False by simp
  qed
qed

lemma rows_ok_next: "list_all (outbox_row_ok n) rs \<Longrightarrow> list_all (outbox_row_ok (n + 1)) rs \<and> n + 1 \<notin> ob_outbox_id ` set rs"
  by (fastforce simp: outbox_row_ok_def list_all_iff)

lemma insert_step:
  assumes "gold_state_ok g" "insert_outbox lib now reason source versions g = (i, g')"
  shows "gold_state_ok g' \<and> gold_state_le g g' \<and> (\<exists>n. i = Inr n)"
proof (cases rule: insert_cases [where lib = lib and reason = reason and source = source and versions = versions and now = now and g = g])
  case (known r)
  with assms rows_ok_next [of "gs_last_outbox g" "gs_outbox g"] show ?thesis
    by (auto simp: gold_state_ok_def gold_state_le_def intro!: rows_le_refl outbox_le_refl)
next
  case (fresh row)
  have "gold_state_le g g'" using assms(2) fresh by (auto simp: gold_state_le_def intro!: rows_le_append outbox_le_refl)
  moreover have "gold_state_ok g'" using assms fresh rows_ok_next [of "gs_last_outbox g" "gs_outbox g"]
    by (auto simp: gold_state_ok_def outbox_row_ok_def [of "gs_last_outbox g + 1" row])
  ultimately show ?thesis using assms(2) fresh by auto
qed

lemma acknowledge_step:
  assumes "gold_state_ok g" "acknowledge_refresh now outbox_id actor expected g = (b, g')"
  shows "gold_state_ok g' \<and> gold_state_le g g'"
proof (cases "py_strip actor = []")
  case True
  with assms show ?thesis by (simp add: acknowledge_refresh_def gold_le_refl)
next
  case False
  let ?p = "\<lambda>r. ob_outbox_id r = outbox_id \<and> ob_acked_at r = None \<and> (case expected of None \<Rightarrow> True | Some key \<Rightarrow> ob_dedupe_key r = key)"
  let ?f = "\<lambda>r. r\<lparr>ob_acked_at := Some (iso now), ob_acked_by := Some (py_strip actor)\<rparr>"
  have g': "g' = g\<lparr>gs_outbox := update_where ?p ?f (gs_outbox g)\<rparr>" using assms(2) False by (auto simp: acknowledge_refresh_def Let_def)
  have "map ob_dedupe_key (update_where ?p ?f (gs_outbox g)) = map ob_dedupe_key (gs_outbox g)"
    "map ob_outbox_id (update_where ?p ?f (gs_outbox g)) = map ob_outbox_id (gs_outbox g)" by (rule update_where_key; simp)+
  moreover have "rows_le outbox_le (gs_outbox g) (update_where ?p ?f (gs_outbox g))"
    by (rule rows_le_update_where) (auto simp: outbox_le_def)
  ultimately show ?thesis using assms(1)
    by (auto simp: g' gold_state_ok_def gold_state_le_def outbox_row_ok_def list_all_iff set_update_where)
qed

lemma gold_step_ok: "gold_state_ok g \<Longrightarrow> gold_step lib g g' \<Longrightarrow> gold_state_ok g' \<and> gold_state_le g g'"
proof (erule gold_stepE)
  assume g: "gold_state_ok g"
  show "gold_state_ok g' \<and> gold_state_le g g'" if "g' = save_checkpoint lib now stage source versions g" for now stage source versions
    using that save_step g by simp
  show "gold_state_ok g' \<and> gold_state_le g g'" if "enqueue_refresh lib now reason source versions g = (i, g')" for now reason source versions i
    using that insert_step [OF g] by (simp add: enqueue_refresh_def)
  show "gold_state_ok g' \<and> gold_state_le g g'" if "acknowledge_refresh now n actor expected g = (b, g')" for now n actor expected b
    by (rule acknowledge_step [OF g that])
  show "gold_state_ok g' \<and> gold_state_le g g'" if s: "save_checkpoints_and_enqueue lib now cs reason source versions g = (r, g')"
    for now cs reason source versions r
  proof -
    let ?h = "foldl (\<lambda>g (stage, source, versions). save_checkpoint lib now stage source versions g) g cs"
    have h: "gold_state_ok ?h" "gold_state_le g ?h" using save_all_step [OF g] by blast+
    show ?thesis
    proof (cases reason)
      case None
      with s h show ?thesis by (simp add: save_checkpoints_and_enqueue_def)
    next
      case (Some why)
      obtain i k where k: "insert_outbox lib now why source versions ?h = (i, k)" by (cases "insert_outbox lib now why source versions ?h")
      from insert_step [OF h(1) k] obtain n where n: "i = Inr n" "gold_state_ok k" "gold_state_le ?h k" by blast
      with s k Some have "g' = k" by (simp add: save_checkpoints_and_enqueue_def)
      with n h gold_le_trans show ?thesis by blast
    qed
  qed
qed

definition gold_init :: "gold_state \<Rightarrow> bool" where
  "gold_init g \<longleftrightarrow> g = empty_gold_state"

interpretation gold_outbox: history_system gold_init "gold_step lib" gold_state_ok gold_state_le
proof unfold_locales
  fix g g' k
  show "gold_state_ok g" if "gold_init g" using that by (simp add: gold_init_def empty_gold_state_def gold_state_ok_def)
  show "gold_state_ok g'" "gold_state_le g g'" if "gold_state_ok g" "gold_step lib g g'" using gold_step_ok [OF that] by simp_all
  show "gold_state_le g g" by (rule gold_le_refl)
  show "gold_state_le g k" if "gold_state_le g g'" "gold_state_le g' k" by (rule gold_le_trans [OF that])
qed

section \<open>Requests\<close>

text \<open>A request that is in the outbox is found again under its key, whatever happened since.\<close>

lemma enqueue_known:
  assumes "gold_state_ok g" "r \<in> set (gs_outbox g)" "ob_dedupe_key r = gsha256_json lib (refresh_payload lib reason source versions)"
  shows "\<exists>g'. enqueue_refresh lib now reason source versions g = (Inr (ob_outbox_id r), g') \<and> gs_outbox g' = gs_outbox g"
proof (cases rule: insert_cases [where lib = lib and reason = reason and source = source and versions = versions and now = now and g = g])
  case (known r')
  have "r' = r" using assms known(1,2) distinct_keyD [of ob_dedupe_key "gs_outbox g"] by (simp add: gold_state_ok_def)
  with known show ?thesis by (simp add: enqueue_refresh_def)
next
  case (fresh row)
  with assms show ?thesis by force
qed

lemma enqueue_row:
  assumes "enqueue_refresh lib now reason source versions g = (Inr i, g')"
  shows "\<exists>r \<in> set (gs_outbox g'). ob_outbox_id r = i \<and> ob_dedupe_key r = gsha256_json lib (refresh_payload lib reason source versions)"
  using assms by (cases rule: insert_cases [where lib = lib and reason = reason and source = source and versions = versions and now = now and g = g])
    (auto simp: enqueue_refresh_def)

text \<open>An acknowledgement that succeeded cannot succeed again.\<close>

lemma acknowledge_row:
  assumes "gold_state_ok g" "acknowledge_refresh now i actor expected g = (Inr True, g')"
  shows "\<exists>r \<in> set (gs_outbox g'). ob_outbox_id r = i \<and> ob_acked_at r = Some (iso now) \<and> ob_acked_by r = Some (py_strip actor)"
proof -
  let ?p = "\<lambda>r. ob_outbox_id r = i \<and> ob_acked_at r = None \<and> (case expected of None \<Rightarrow> True | Some key \<Rightarrow> ob_dedupe_key r = key)"
  have r: "rowcount ?p (gs_outbox g) = 1" and a: "py_strip actor \<noteq> []"
    using assms(2) by (auto simp: acknowledge_refresh_def Let_def split: if_splits)
  have "\<exists>r \<in> set (gs_outbox g). ?p r"
    using r rowcount_1_key [of ob_outbox_id "gs_outbox g" ?p i] assms(1) by (simp add: gold_state_ok_def)
  then obtain r where r: "r \<in> set (gs_outbox g)" "?p r" by blast
  let ?f = "\<lambda>r. r\<lparr>ob_acked_at := Some (iso now), ob_acked_by := Some (py_strip actor)\<rparr>"
  have "gs_outbox g' = update_where ?p ?f (gs_outbox g)" using assms(2) a by (auto simp: acknowledge_refresh_def Let_def)
  then have "?f r \<in> set (gs_outbox g')" using r by (auto simp: set_update_where)
  then show ?thesis using r(2) by (intro bexI [of _ "?f r"]) simp_all
qed

lemma acknowledge_known:
  assumes "gold_state_ok g" "r \<in> set (gs_outbox g)" "ob_outbox_id r = i" "ob_acked_at r \<noteq> None"
  shows "snd (acknowledge_refresh now i actor expected g) = g" "fst (acknowledge_refresh now i actor expected g) \<noteq> Inr True"
proof -
  let ?p = "\<lambda>r. ob_outbox_id r = i \<and> ob_acked_at r = None \<and> (case expected of None \<Rightarrow> True | Some key \<Rightarrow> ob_dedupe_key r = key)"
  have n: "\<not> ?p x" if "x \<in> set (gs_outbox g)" for x
    using assms that distinct_keyD [of ob_outbox_id "gs_outbox g" x r] by (auto simp: gold_state_ok_def)
  then have "update_where ?p f (gs_outbox g) = gs_outbox g" for f by (intro update_where_none) blast
  moreover have "filter ?p (gs_outbox g) = []" using n by (simp add: filter_empty_conv)
  ultimately show "snd (acknowledge_refresh now i actor expected g) = g" "fst (acknowledge_refresh now i actor expected g) \<noteq> Inr True"
    by (simp_all add: acknowledge_refresh_def rowcount_def Let_def)
qed

end
