(* ===== verification/Gold_Correct.thy ===== *)
theory Gold_Correct
  imports Gold_Demo Gold_State_Spec
begin

text \<open>
  The properties of the gold job, each with a concrete build.
\<close>

section \<open>Flow tables\<close>

text \<open>C38: a full build computes the flow tables of the committed line counts and loses none.  Afterwards both tables hold,
  for every date of the build, exactly the reference rows (the line counts of the date, grouped by minute or hour, camera and
  location) and every other row as before; every line count of a located output is in the reference, and the entries and exits
  of the rows of the built dates add up to those of all line counts.\<close>

theorem gold_flow_tables:
  assumes "json_faithful (base_lib lib)" and "build_facts lib src clk a w = (Inr (Done fx), w')"
    and "fb_dates a = None" and "fb_full_rebuild a \<or> fb_force a"
    and "committed_outputs lib (src 4) = Inr committed" and "committed_outputs lib (src 6) = Inr committed"
    and "table_is lib (gw_store w) ''gold_flow_minute'' v minutes" and "table_is lib (gw_store w) ''gold_flow_hour'' v' hours"
  shows "(\<exists>minutes'. flow_table_built lib (gw_store w) (gw_store w') ''gold_flow_minute'' ''minute_utc'' minute_key (fx_dates fx) (iso (clk 1))
        committed minutes minutes'
      \<and> column_sum ''entries'' (filter (\<lambda>r. row_get r ''flow_date'' \<in> PStr ` set (fx_dates fx)) minutes')
          = sum_list (map ob_entries (all_observations lib committed))
      \<and> column_sum ''exits'' (filter (\<lambda>r. row_get r ''flow_date'' \<in> PStr ` set (fx_dates fx)) minutes')
          = sum_list (map ob_exits (all_observations lib committed)))
    \<and> (\<exists>hours'. flow_table_built lib (gw_store w) (gw_store w') ''gold_flow_hour'' ''hour_utc'' hour_key (fx_dates fx) (iso (clk 1))
        committed hours hours'
      \<and> column_sum ''entries'' (filter (\<lambda>r. row_get r ''flow_date'' \<in> PStr ` set (fx_dates fx)) hours')
          = sum_list (map ob_entries (all_observations lib committed))
      \<and> column_sum ''exits'' (filter (\<lambda>r. row_get r ''flow_date'' \<in> PStr ` set (fx_dates fx)) hours')
          = sum_list (map ob_exits (all_observations lib committed)))
    \<and> length (all_observations lib committed) = counted_lines lib committed"
  using flow_tables_built [OF assms(1,2,6,7) _ assms(3-5), of "''minute_utc''" minute_key]
    flow_tables_built(1) [OF assms(1,2,6,8) _ assms(3-5), of "''hour_utc''" hour_key] by simp

theorem gold_flow_tables_witness:
  "\<exists>fx w' minutes. build_facts gold_demo_lib (\<lambda>_. demo_source) demo_clock demo_facts_args demo_world = (Inr (Done fx), w')
    \<and> fx_dates fx = [''1970-01-01''] \<and> read_table gold_demo_lib (gw_store w') ''gold_flow_minute'' = Inr minutes
    \<and> column_sum ''entries'' (filter (\<lambda>r. row_get r ''flow_date'' = PStr ''1970-01-01'') minutes) = 2
    \<and> column_sum ''exits'' (filter (\<lambda>r. row_get r ''flow_date'' = PStr ''1970-01-01'') minutes) = 1"
proof -
  obtain fx w' where b: "build_facts gold_demo_lib (\<lambda>_. demo_source) demo_clock demo_facts_args demo_world = (Inr (Done fx), w')"
    and d: "fx_dates fx = [''1970-01-01'']" by (rule demo_build)
  have "map ob_entries (all_observations gold_demo_lib [demo_committed_output]) = map fst [(2, 1 :: int)]"
    "map ob_exits (all_observations gold_demo_lib [demo_committed_output]) = map snd [(2 :: int, 1)]"
    unfolding demo_observations [symmetric] by simp_all
  with gold_flow_tables [OF demo_json b _ _ gold_demo_outputs gold_demo_outputs demo_tables(1,2)] b d show ?thesis
    by (auto simp: flow_table_built_def demo_facts_args_def)
qed

section \<open>Types of the rows\<close>

text \<open>C39: every row that the gold job computes has the types of its Spark schema.  When \<open>fromisoformat\<close> reads what
  \<open>isoformat\<close> writes, the rows of the four fact tables of a date, of the two operational tables and of the dimensions (the model
  configurations, copied as they are, left out) are converted by \<open>_spark_row\<close> to rows with every field of the schema (a 64-bit field takes any integer) and
  with no null in a required field.\<close>

theorem gold_rows_typed:
  assumes "iso_faithful lib" and "in_range now" and "0 \<le> d" and "d < MAX_DAYS" and "committed_outputs lib src = Inr committed"
    and "fact_rows_for_date lib committed control (date_isoformat d) (iso now) = Inr f"
    and "operational_rows lib control committed (iso now) = Inr (works, attempts)"
    and "dimension_rows lib committed facts (iso now) = Inr dims"
  shows "list_all (spark_ok lib ''gold_flow_minute'') (fr_flow_minute f) \<and> list_all (spark_ok lib ''gold_flow_hour'') (fr_flow_hour f)
    \<and> list_all (spark_ok lib ''gold_video'') (fr_video f) \<and> list_all (spark_ok lib ''gold_operations_hour'') (fr_operations_hour f)
    \<and> list_all (spark_ok lib ''gold_work_operations'') works \<and> list_all (spark_ok lib ''gold_attempt_operations'') attempts
    \<and> dimension_tables_ok lib dims"
  using flow_rows_ok [OF assms(1,2,6)] videos_ok [OF assms(1) committed_dated [OF assms(5)] assms(6)] operations_ok [OF assms(1-4,6)]
    operational_ok [OF assms(1,7)] dimension_rows_ok [OF assms(1,2,8)] by simp

theorem gold_rows_typed_witness:
  "\<exists>f works attempts dims. fact_rows_for_date gold_demo_lib [demo_committed_output] demo_control_rows ''1970-01-01'' (iso (demo_clock 1)) = Inr f
    \<and> fr_flow_minute f \<noteq> [] \<and> list_all (spark_ok gold_demo_lib ''gold_flow_minute'') (fr_flow_minute f)
    \<and> operational_rows gold_demo_lib demo_control_rows [demo_committed_output] (iso (demo_clock 1)) = Inr (works, attempts)
    \<and> list_all (spark_ok gold_demo_lib ''gold_attempt_operations'') attempts
    \<and> dimension_rows gold_demo_lib [demo_committed_output] (map (\<lambda>(t, c). (t, [])) FACT_DATE_COLUMNS) (iso (demo_clock 1)) = Inr dims
    \<and> dimension_tables_ok gold_demo_lib dims"
proof -
  have now: "in_range (demo_clock 1)" by (simp add: demo_clock_def in_range_def EPOCH_def DAY_US_def MAX_DAYS_def)
  have d: "date_isoformat 719162 = ''1970-01-01''" by code_simp
  obtain f where f: "fact_rows_for_date gold_demo_lib [demo_committed_output] demo_control_rows (date_isoformat 719162) (iso (demo_clock 1)) = Inr f"
    using demo_facts d by auto
  obtain ws as where ws: "operational_rows gold_demo_lib demo_control_rows [demo_committed_output] (iso (demo_clock 1)) = Inr (ws, as)"
    using demo_operational by blast
  obtain dims where dims: "dimension_rows gold_demo_lib [demo_committed_output] (map (\<lambda>(t, c). (t, [])) FACT_DATE_COLUMNS) (iso (demo_clock 1)) = Inr dims"
    using demo_dimensions by blast
  have "observations gold_demo_lib ''1970-01-01'' [demo_committed_output] \<noteq> []" by code_simp
  then have "set (fr_flow_minute f) \<noteq> {}" using fact_rows_reference(1) [OF f] by (simp add: d reference_flow_def)
  then have "fr_flow_minute f \<noteq> []" by simp
  moreover note gold_rows_typed [OF demo_dates now _ _ gold_demo_outputs f ws dims]
  ultimately show ?thesis using f ws dims by (auto simp: d MAX_DAYS_def)
qed

section \<open>Refresh requests\<close>

text \<open>C40: a refresh request is delivered once.  After a request was enqueued, any operations followed, its acknowledgement
  succeeded and any operations followed, asking for the same refresh (the same reason, source and table versions) finds the
  acknowledged request and adds none, and a second acknowledgement, by whomever, changes nothing and does not succeed.\<close>

theorem refresh_delivered_once:
  assumes "reachable gold_init (gold_step lib) g"
    and "enqueue_refresh lib now reason source versions g = (Inr i, g1)" and "(gold_step lib)\<^sup>*\<^sup>* g1 g2"
    and "acknowledge_refresh now2 i actor expected g2 = (Inr True, g3)" and "(gold_step lib)\<^sup>*\<^sup>* g3 g4"
  shows "(\<exists>g5. enqueue_refresh lib now4 reason source versions g4 = (Inr i, g5) \<and> gs_outbox g5 = gs_outbox g4)
    \<and> snd (acknowledge_refresh now4 i actor4 expected4 g4) = g4 \<and> fst (acknowledge_refresh now4 i actor4 expected4 g4) \<noteq> Inr True
    \<and> (\<exists>r \<in> set (gs_outbox g4). ob_outbox_id r = i \<and> ob_acked_at r = Some (iso now2) \<and> ob_acked_by r = Some (py_strip actor))"
proof -
  let ?key = "gsha256_json lib (refresh_payload lib reason source versions)"
  have ok: "gold_state_ok g" "gold_state_ok g1" using gold_outbox.reach_inv [OF assms(1)] gold_step_ok gold_step.enqueue [OF assms(2)] by blast+
  have ok2: "gold_state_ok g2" "gold_state_ok g3" using gold_outbox.star_inv [OF assms(3) ok(2)] gold_step_ok gold_step.acknowledge [OF assms(4)] by blast+
  have ok4: "gold_state_ok g4" by (rule gold_outbox.star_inv [OF assms(5) ok2(2)])
  obtain r1 where r1: "r1 \<in> set (gs_outbox g1)" "ob_outbox_id r1 = i" "ob_dedupe_key r1 = ?key" using enqueue_row [OF assms(2)] by blast
  have le: "gold_state_le g1 g3"
    using gold_le_trans [OF gold_outbox.star_le [OF assms(3) ok(2)]] gold_step_ok [OF ok2(1) gold_step.acknowledge [OF assms(4)]] by blast
  obtain r3 where r3: "r3 \<in> set (gs_outbox g3)" "outbox_le r1 r3"
    using rows_le_mem [OF _ r1(1)] le by (auto simp: gold_state_le_def)
  obtain a where a: "a \<in> set (gs_outbox g3)" "ob_outbox_id a = i" "ob_acked_at a = Some (iso now2)" "ob_acked_by a = Some (py_strip actor)"
    using acknowledge_row [OF ok2(1) assms(4)] by blast
  have "a = r3" using a(1,2) r3 r1(2) outbox_leD [OF r3(2)] ok2(2) distinct_keyD [of ob_outbox_id] by (auto simp: gold_state_ok_def)
  obtain r4 where r4: "r4 \<in> set (gs_outbox g4)" "outbox_le a r4"
    using rows_le_mem [OF _ a(1)] gold_outbox.star_le [OF assms(5) ok2(2)] by (auto simp: gold_state_le_def)
  have "r4 = a" using outbox_leD [OF r4(2)] a(3) by simp
  then have r: "a \<in> set (gs_outbox g4)" "ob_dedupe_key a = ?key" using r4(1) outbox_leD [OF r3(2)] r1(3) \<open>a = r3\<close> by simp_all
  from enqueue_known [OF ok4 r] acknowledge_known [OF ok4 r(1) a(2)] r a show ?thesis by auto
qed

theorem refresh_delivered_once_witness:
  "\<exists>g1 g3. enqueue_refresh gold_demo_lib 0 ''r'' \<lparr>sc_publication_sequence = 1, sc_versions = []\<rparr> [] empty_gold_state = (Inr 1, g1)
    \<and> acknowledge_refresh 0 1 ''a'' None g1 = (Inr True, g3) \<and> length (gs_outbox g3) = 1
    \<and> fst (enqueue_refresh gold_demo_lib 7 ''r'' \<lparr>sc_publication_sequence = 1, sc_versions = []\<rparr> [] g3) = Inr 1
    \<and> fst (acknowledge_refresh 7 1 ''b'' None g3) \<noteq> Inr True"
proof -
  let ?source = "\<lparr>sc_publication_sequence = 1, sc_versions = []\<rparr> :: source_checkpoint"
  obtain g1 where g1: "enqueue_refresh gold_demo_lib 0 ''r'' ?source [] empty_gold_state = (Inr 1, g1)"
    by (simp add: enqueue_refresh_def insert_outbox_def empty_gold_state_def Let_def)
  then have o: "length (gs_outbox g1) = 1" "ob_outbox_id (hd (gs_outbox g1)) = 1" "ob_acked_at (hd (gs_outbox g1)) = None"
    by (auto simp: enqueue_refresh_def insert_outbox_def empty_gold_state_def Let_def)
  have "py_strip ''a'' = ''a''" by code_simp
  then obtain g3 where g3: "acknowledge_refresh 0 1 ''a'' None g1 = (Inr True, g3)" "length (gs_outbox g3) = 1"
    using o by (cases "gs_outbox g1") (auto simp: acknowledge_refresh_def rowcount_def Let_def)
  have "reachable gold_init (gold_step gold_demo_lib) empty_gold_state" by (simp add: reachable.start gold_init_def)
  note once = refresh_delivered_once [OF this g1 rtranclp.rtrancl_refl g3(1) rtranclp.rtrancl_refl, of 7 "''b''" None]
  obtain g5 where "enqueue_refresh gold_demo_lib 7 ''r'' ?source [] g3 = (Inr 1, g5)" using once by blast
  then show ?thesis using g1 g3 once by simp
qed

end
