(* ===== verification/Spec2Isabelle.thy ===== *)
theory Spec2Isabelle
  imports Process_Executor_Demo Vision_Correct Queue_Actor_Correct Fabric_Control_Demo Executor_Inventory_Correct Process_Plan_Correct
    Process_Correct Gold_Correct
begin

text \<open>
  A verification development of \<^verbatim>\<open>people-counter\<close>: the control plane that hands out videos and
  publishes their results exactly once, the process that executes a batch of them, the queue and the writer
  lock of the two deployments, the pure part of the vision pipelines, and the analytics built from what was
  published.  Paths below are relative to \<^verbatim>\<open>src/src/people_counter/\<close>.

  \<^bold>\<open>The program.\<close>  Work items are registered in a control store (\<^verbatim>\<open>sjd_control.py\<close>, SQLite).  A claim leases
  a batch of them under fences and writes an envelope document into a content-addressed store
  (\<^verbatim>\<open>local_storage.py\<close>).  A process (\<^verbatim>\<open>sjd_process.py\<close>) loads and verifies the envelope, plans it on the executors
  that the inventory found (\<^verbatim>\<open>fabric_executor_inventory.py\<close>), runs the partitions (\<^verbatim>\<open>fabric_executor_partition.py\<close>,
  \<^verbatim>\<open>cpu_runtime.py\<close>, and the pipelines over \<^verbatim>\<open>video.py\<close>, \<^verbatim>\<open>config.py\<close>, \<^verbatim>\<open>models.py\<close>, \<^verbatim>\<open>api.py\<close> and
  \<^verbatim>\<open>line_counting.py\<close>), stages their records immutably, validates them, and seals and commits the batch, which
  publishes one output per item.  Leases that expire are recovered, failed items retried or buried, operators may
  replay, and a reconciler reports inconsistencies.  The gold job (\<^verbatim>\<open>sjd_gold.py\<close>) reads what was published and
  rebuilds fact and dimension tables.  The other deployment runs a durable message queue with an actor in front of it
  (\<^verbatim>\<open>local_queue.py\<close>), and every writer of a lakehouse serializes through one lock row (\<^verbatim>\<open>fabric_control.py\<close>).

  \<^bold>\<open>Prelude.\<close>  \<open>Py_Float\<close>: binary64 rounding on rationals; \<open>Py_Prelude\<close>: exceptions as values of a sum
  type, Python values, insertion-ordered dictionaries, SQL tables as lists of rows; \<open>Py_Json\<close>: \<open>json.dumps\<close> with
  sorted keys, \<open>str\<close>, \<open>repr\<close> and \<open>==\<close>, and the record \<open>pylib\<close> of library functions that are parameters
  (SHA-256, the shortest decimal of a float, \<open>json.loads\<close>); \<open>Json_Reader\<close>: a reader of flat objects, which
  shows that the hypotheses on \<open>json.loads\<close> can hold; \<open>Transition\<close>: the locales of a stateful component
  (an invariant over reachable states, a history that only grows), interpreted on the step relations below.

  \<^bold>\<open>Control store.\<close>  \<open>Control_Schema\<close> has the tables as records, the constraints, \<open>_transaction\<close> and
  \<open>bootstrap\<close>; \<open>Control_Register\<close>, \<open>Control_Admission\<close>, \<open>Control_Claim\<close>, \<open>Control_Process\<close>,
  \<open>Control_Recovery\<close> and \<open>Control_Reconcile\<close> have the operations of \<open>SQLiteControlStore\<close>, each as a function from a
  store to a result and a store.  \<open>Control_Inv\<close>, \<open>Control_Process_Inv\<close>, \<open>Control_Ops_Inv\<close> and
  \<open>Control_Claim_Inv\<close> prove that every operation keeps the invariant \<open>store_ok\<close>; \<open>Control_Machine\<close> makes the
  operations one step relation, interprets the contracts of \<open>Transition\<close> on it, and proves what registration
  guarantees of every row of a reachable store; \<open>Control_Claim_Spec\<close>,
  \<open>Control_Seal_Spec\<close>, \<open>Control_Commit_Spec\<close> and \<open>Control_Recover_Spec\<close> say what each operation achieves.
  C1 to C6 are about this component, with the concrete run of \<open>Control_Demo\<close> as witness.

  \<^bold>\<open>Queue and actor.\<close>  \<open>Local_Queue\<close> has \<open>SQLiteQueue\<close> over its message table and \<open>Local_Queue_Spec\<close> its
  invariant and delivery guarantees (C7 to C11); \<open>Queue_Actor\<close> has \<open>SerializedQueueActor\<close> as a step relation over
  the actor thread, callers, timeouts and stops, and \<open>Queue_Actor_Spec\<close> and \<open>Queue_Actor_Correct\<close> show that it
  linearizes the queue (C31, C33), and that a stop which nothing interferes with ends the thread within a bound that is
  linear in the waiting requests (C32).

  \<^bold>\<open>Writer lock.\<close>  \<open>Fabric_Control\<close> has \<open>ControlWriter\<close>, one step per access to the lock table, and
  \<open>Fabric_Control_Spec\<close> any number of writers in any interleaving (C12 to C14); a writer that nobody disturbs completes in nine
  accesses of its own (C15).

  \<^bold>\<open>Planning.\<close>  \<open>Executor_Inventory\<close> (discovery loop, memory and slot arithmetic) and \<open>Process_Plan\<close>
  (profiles, the longest-processing-time plan, lease admission), with their laws in the theories \<open>_Spec\<close> and
  \<open>_Correct\<close> (C16 to C22).  The claim projects its makespan over the executors of the profile and the process over its planned
  tasks; C18 says how the two compare.

  \<^bold>\<open>Process.\<close>  \<open>Process_Envelope\<close> verifies the envelope, which is the one a claim writes, and rejects it if a payload asks
  for a detector batch size that registration let through (C23);
  \<open>Process_Staging\<close> validates records (C27); \<open>Process_Attempts\<close> has receipts and immutable attempts (C28 to C30);
  \<open>Process_Run\<close> has the batch run with its crash points, against a store that other processes change between any two
  accesses; it never redoes or changes staging that exists (C24), and commits and publishes what it validated (C25, C26).  \<open>Process_Executor\<close> with \<open>Executor_Partition\<close> and \<open>Cpu_Runtime\<close> is the executor side, and
  the theories \<open>Process_Executor_*\<close> prove that what it emits is what the driver accepts, and that the threads fit
  (C34, C35).

  \<^bold>\<open>Vision.\<close>  \<open>Video_Results\<close>, \<open>Pipeline_Config\<close>, \<open>Video_Sampling\<close> and \<open>Line_Counting\<close> have the result
  containers, the sampling arithmetic, the frame loop and the line counts (C36, C37 in \<open>Vision_Correct\<close>).

  \<^bold>\<open>Gold tables.\<close>  \<open>Py_Time\<close> has the part of \<open>datetime\<close> that the job uses, on microseconds and days since the
  year 1.  \<open>Gold_Values\<close> has the coercions of \<^verbatim>\<open>sjd_gold.py\<close>, \<open>Gold_Store\<close> the JSON tables of
  \<open>LocalJsonGoldStore\<close> (one file per table, a version and its rows) and the checkpoints and outbox of \<open>SQLiteGoldState\<close>,
  \<open>Gold_Source\<close> what is read of the control database of \<open>Control_Schema\<close> and of the output documents,
  \<open>Gold_Facts\<close> and \<open>Gold_Dimensions\<close> the rows and the validation, \<open>Gold_Job\<close> the plan, the builds
  and the run, \<open>Gold_Schema\<close> the Spark schemas.  The control database changes under the job, so the source of a
  build is a function of the number of the read.  \<open>Gold_Store_Spec\<close> states the contract of the tables as a locale and
  interprets it on the JSON tables; \<open>Gold_Flow_Spec\<close> proves that the accumulation of line counts is the grouped
  reference, \<open>Gold_Build_Spec\<close> what a build leaves in the tables (C38), \<open>Gold_Schema_Spec\<close> that every row has the
  types of its schema (C39), \<open>Gold_Rows_Spec\<close> that rows, once computed, are always written, and
  \<open>Gold_State_Spec\<close> interprets \<open>Transition\<close> on checkpoints and outbox (C40).  The properties stand in
  \<open>Gold_Correct\<close>, over the concrete build of \<open>Gold_Demo\<close>, which reads the database of \<open>Control_Demo\<close>.  Two hypotheses
  are about the standard library: \<open>json_faithful\<close> (\<open>json.loads\<close> reads back what \<open>json.dumps\<close> wrote, with the keys
  in order) and \<open>iso_faithful\<close> (\<open>fromisoformat\<close> reads what \<open>isoformat\<close> wrote); the readers of \<open>Json_Document\<close> and
  \<open>Py_Time_Spec\<close> meet them.

  \<^bold>\<open>Loops, bounds and fuel.\<close>  Loops over data are structural recursions.  Two loops of the code need not end: the
  frame loop of \<open>Video_Sampling\<close> on a stream without an end, and the discovery loop of \<open>Executor_Inventory\<close> under a clock
  that stands still.  They are \<open>partial_function (option)\<close>, where not returning is \<open>None\<close>; C36 proves that the first
  returns on every finite video, and C21 that the second returns once the clock passes the deadline.  The readers of \<open>Json_Reader\<close> and \<open>Json_Document\<close> take the
  length of the text as their fuel, and their round trips show that this is enough.  Python integers are unbounded; floats are rationals under explicit
  binary64 rounding with subnormals, and overflow to infinity is left out.

  \<^bold>\<open>Time and concurrency.\<close>  Clocks are arguments: an operation takes the readings that the code takes.
  SQLite transactions are serial, so an operation is a function of the database it finds; what happens between
  two operations is arbitrary in the step relations and in the batch run.

  \<^bold>\<open>Not modelled.\<close>  Spark, Delta, SQLite's pragmas, file-system calls below the level of whole files, the
  neural models and the REST services are not code of this repository; where modelled code calls them they are parameters.
  Exception messages and logging are left out.  Of \<^verbatim>\<open>sjd_gold.py\<close>, the Delta store, the lazily imported Fabric
  facades and the command line are left out.  The Fabric counterparts of the local stores
  (\<^verbatim>\<open>fabric_control_store.py\<close>, \<^verbatim>\<open>fabric_gold.py\<close>, \<^verbatim>\<open>fabric_events.py\<close>) are Spark SQL and Delta merges; the
  job entry points, cutover, benchmark, reconcilers, manifest publication, acceptance probes, deployment definitions
  and command lines are sequences of calls of remote services or of the modelled operations.
\<close>

section \<open>The control store as a state machine\<close>

text \<open>C1: every store that the operations of \<open>SQLiteControlStore\<close> can reach from a bootstrapped, empty
  database satisfies the invariant: unique keys, consistent leases, attempts, publications, outputs,
  replays and batch memberships, and an intact envelope file for every batch.\<close>

theorem reachable_store_ok:
  assumes "reachable control_init (control_step lib) s"
  shows "store_ok lib s"
  using assms by (rule control.reach_inv)

theorem reachable_store_ok_witness: "store_ok demo_lib demo_committed"
  by (rule reachable_store_ok) (rule demo_reachable)

text \<open>C2: between any two stores of a run nothing is lost: envelope files and member, output, publication
  and replay rows are never changed or removed, the registered columns of work never change, fences and
  counters never decrease, a published work item and a finished attempt or batch are final.\<close>

theorem history_append_only:
  assumes "store_ok lib s" "(control_step lib)\<^sup>*\<^sup>* s s'"
  shows "history_le s s'"
  using control.star_le [OF assms(2,1)] .

theorem history_append_only_witness: "history_le demo_claimed demo_committed"
proof (rule history_append_only)
  show "store_ok demo_lib demo_claimed" by (rule demo_ok)
  show "(control_step demo_lib)\<^sup>*\<^sup>* demo_claimed demo_committed"
    by (meson demo_seal demo_commit control_step.intros rtranclp.intros)
qed

text \<open>C3: in a reachable store at most one attempt of a work item is leased or sealed, and it is the
  attempt, with the fence, that the work row names.\<close>

theorem exclusive_lease:
  assumes "reachable control_init (control_step lib) s"
    and "a \<in> set (db_attempts (st_db s))" "attempt_active a"
    and "w \<in> set (db_work (st_db s))" "w_work_id w = a_work_id a"
  shows "holds_fence a w \<and>
    (\<forall>a' \<in> set (db_attempts (st_db s)). a_work_id a' = a_work_id a \<and> attempt_active a' \<longrightarrow> a' = a)"
proof -
  have core: "core_ok {} (st_db s)"
    using control.reach_inv [OF assms(1)] by (simp add: store_ok_def db_ok_def)
  then show ?thesis
    using active_row(1) [OF core assms(2,4,5,3)] active_unique [OF core _ assms(2)] assms(3) by metis
qed

theorem exclusive_lease_witness:
  "holds_fence (claimed_attempt ''batch-1'' 710 110 demo_item) (lease_work ''o'' 710 110 demo_item demo_work)"
  using exclusive_lease [OF demo_reachable(1), of "claimed_attempt ''batch-1'' 710 110 demo_item"
      "lease_work ''o'' 710 110 demo_item demo_work"]
  by (simp add: demo_claimed_def demo_claimed_db_def attempt_active_def claimed_attempt_def lease_work_def
      demo_item_def demo_work_def new_work_def demo_request_def)

section \<open>Commit\<close>

text \<open>C4: committing a sealed batch whose lease is live always succeeds: it returns strictly increasing
  sequence numbers, one for each successful attempt, marks the batch committed, and every item of the
  batch is either published under its own publication row or released for retry or as dead.\<close>

theorem commit_publishes:
  assumes "store_ok lib s" "find_batch (st_db s) i = Some b" "b_status b = B_SEALED"
    and "required_text batch_id = Inr i" "finite_num clock = Inr now" "now < b_lease_expires_at b"
  shows "\<exists>ns s'. commit_batch clock batch_id s = (Inr ns, s')
    \<and> sorted_wrt (<) ns
    \<and> length ns = length (filter (\<lambda>r. a_terminal_succeeded (fst r) = Some True) (commit_rows i (st_db s)))
    \<and> map_option b_status (find_batch (st_db s') i) = Some B_COMMITTED
    \<and> (\<forall>(a, w) \<in> set (commit_rows i (st_db s)). \<exists>w' \<in> set (db_work (st_db s')).
         committed_work now (db_publications (st_db s')) a w w')"
proof -
  have ok: "db_ok lib (st_db s)" using assms(1) by (simp add: store_ok_def)
  obtain d' ns where tx: "commit_tx i now (st_db s) = Inr (d', ns)"
    using commit_tx_total [OF ok assms(2,3,6)] by blast
  show ?thesis
    using commit_tx_result [OF ok assms(2,3) tx] tx assms(4,5)
    by (intro exI [of _ ns] exI [of _ "s\<lparr>st_db := d'\<rparr>"])
      (simp add: commit_batch_def transaction_def)
qed

theorem commit_publishes_witness:
  "\<exists>ns s'. commit_batch (PInt 300) (PStr ''batch-1'') demo_sealed = (Inr ns, s')
    \<and> sorted_wrt (<) ns
    \<and> length ns = length (filter (\<lambda>r. a_terminal_succeeded (fst r) = Some True) (commit_rows ''batch-1'' demo_sealed_db))
    \<and> map_option b_status (find_batch (st_db s') ''batch-1'') = Some B_COMMITTED
    \<and> (\<forall>(a, w) \<in> set (commit_rows ''batch-1'' demo_sealed_db). \<exists>w' \<in> set (db_work (st_db s')).
         committed_work 300 (db_publications (st_db s')) a w w')"
  using commit_publishes [OF demo_ok(2) _ demo_sealed_found(2) demo_batch_text demo_numbers(2) demo_sealed_found(3)]
    demo_sealed_found(1) by simp

text \<open>C5: a second commit of the batch, at any later time, returns the same sequence numbers and leaves
  the store as it is.\<close>

theorem commit_idempotent:
  assumes "store_ok lib s" "find_batch (st_db s) i = Some b" "b_status b = B_SEALED"
    and "required_text batch_id = Inr i" "commit_batch clock batch_id s = (Inr ns, s')"
    and "finite_num clock' = Inr later"
  shows "commit_batch clock' batch_id s' = (Inr ns, s')"
proof -
  have ok: "db_ok lib (st_db s)" using assms(1) by (simp add: store_ok_def)
  obtain now d' where tx: "commit_tx i now (st_db s) = Inr (d', ns)" "s' = s\<lparr>st_db := d'\<rparr>"
    using assms(4,5)
    by (auto simp: commit_batch_def transaction_def split: sum.splits)
  then show ?thesis
    using commit_tx_again [OF ok assms(2,3) tx(1)] assms(4,6)
    by (simp add: commit_batch_def transaction_def)
qed

theorem commit_idempotent_witness:
  "commit_batch (PInt 2000) (PStr ''batch-1'') demo_committed = (Inr [1], demo_committed)"
  by (rule commit_idempotent [OF demo_ok(2) _ demo_sealed_found(2) demo_batch_text demo_commit demo_numbers(4)])
    (simp add: demo_sealed_found)

section \<open>Recovery\<close>

text \<open>C6: recovery always succeeds on a well-formed store; afterwards no lease of a work item and no
  batch is expired, every expired item has been released as ready or, with no attempts left, as dead,
  every other item is unchanged, and the report counts them.\<close>

theorem recover_releases_expired:
  assumes "store_ok lib s" "finite_num time = Inr now" "time \<noteq> PNone"
  shows "\<exists>rr s'. recover clock time s = (Inr rr, s')
    \<and> (\<forall>w \<in> set (db_work (st_db s')). \<not> lease_expired now w)
    \<and> (\<forall>b \<in> set (db_batches (st_db s')). \<not> expired_batch now b)
    \<and> (\<forall>w \<in> set (db_work (st_db s)). (if lease_expired now w
         then release_work (retry_outcome w) now ''lease expired'' w else w) \<in> set (db_work (st_db s')))
    \<and> rr_recovered rr = length (filter (lease_expired now) (db_work (st_db s)))
    \<and> rr_retried rr + rr_dead rr = rr_recovered rr"
proof -
  have ok: "db_ok lib (st_db s)" using assms(1) by (simp add: store_ok_def)
  let ?rr = "\<lparr>rr_recovered = length (expired_rows now (st_db s)),
      rr_retried = length (filter (\<lambda>w. retry_outcome w \<noteq> W_DEAD) (expired_rows now (st_db s))),
      rr_dead = length (filter (\<lambda>w. retry_outcome w = W_DEAD) (expired_rows now (st_db s)))\<rparr>"
  obtain d' where tx: "recover_tx now (st_db s) = Inr (d', ?rr)"
    and moved: "\<forall>w \<in> set (db_work (st_db s)). (if lease_expired now w
         then release_work (retry_outcome w) now ''lease expired'' w else w) \<in> set (db_work d')"
    using recover_tx_spec [OF ok, of now] by blast
  have "rr_retried ?rr + rr_dead ?rr = rr_recovered ?rr"
    using sum_length_filter_compl [of "\<lambda>w. retry_outcome w = W_DEAD" "expired_rows now (st_db s)"] by simp
  moreover have "rr_recovered ?rr = length (filter (lease_expired now) (db_work (st_db s)))"
    by (simp add: expired_rows_def)
  ultimately show ?thesis
    using recover_no_expired [OF ok tx] tx moved assms(2,3)
    by (intro exI [of _ ?rr] exI [of _ "s\<lparr>st_db := d'\<rparr>"]) (simp add: recover_def transaction_def)
qed

theorem recover_releases_expired_witness:
  "\<exists>rr s'. recover (PInt 0) (PInt 1000) demo_claimed = (Inr rr, s')
    \<and> (\<forall>w \<in> set (db_work (st_db s')). \<not> lease_expired 1000 w)
    \<and> rr_retried rr + rr_dead rr = rr_recovered rr"
  using recover_releases_expired [OF demo_ok(1) demo_numbers(3), of "PInt 0"] by auto

section \<open>The local queue\<close>

text \<open>C7: in every queue that the operations can reach from an empty table, message ids, idempotency keys and
  lock tokens are unique, exactly the locked messages carry a lock, and no message has been delivered
  more often than its bound; a ready message still has a delivery left.\<close>

theorem queue_reachable_ok:
  assumes "reachable (\<lambda>q. q = []) (queue_step lib) q"
  shows "queue_ok q"
  using assms by (rule queue.reach_inv)

theorem queue_reachable_ok_witness: "queue_ok [demo_locked]"
  by (rule queue_reachable_ok) (rule demo_queue_reachable)

text \<open>C8: a successful claim returns the oldest available messages, at most the limit and either none or at
  least the minimum, each under its own token.  Every returned message is locked in the table under that
  token and counts the delivery within its bound; none of them was locked and unexpired, completed or
  dead before.\<close>

theorem queue_claim_exclusive:
  assumes "queue_ok q" "claim_queue lib clock tokens limit owner secs minimum now q = (Inr cs, q')"
    and "t = at_time clock now" "rs = take (nat limit) (ready_rows t (fst (recover_expired_rows t q)))"
  shows "(if int (length rs) < minimum then cs = []
          else map cm_message_id cs = map ms_message_id rs \<and> map cm_lock_token cs = map tokens [0..<length rs])
    \<and> distinct (map cm_message_id cs) \<and> length cs \<le> nat limit
    \<and> (\<forall>c \<in> set cs. delivered q' c \<and> cm_delivery_count c \<le> cm_max_delivery_count c
         \<and> \<not> busy t q (cm_message_id c) \<and> \<not> finished q (cm_message_id c))"
proof -
  obtain who lease where tx: "claim_queue_tx lib tokens limit minimum who lease t q = Inr (q', cs)"
    using claim_queueD [OF assms(2)] assms(3) by metis
  note d = claim_tx_delivery [OF assms(1) tx assms(4)]
  have ok: "queue_ok q'" using claim_tx_ok [OF assms(1) tx] by simp
  have "queue_ok (fst (recover_expired_rows t q))" by (rule recover_rows_ok(1) [OF assms(1)])
  then have "distinct (map ms_message_id (ready_rows t (fst (recover_expired_rows t q))))"
    by (rule distinct_ready_ids)
  then have "distinct (map ms_message_id rs)" unfolding assms(4) take_map [symmetric] by (rule distinct_take)
  moreover have "cm_delivery_count c \<le> cm_max_delivery_count c" if "delivered q' c" for c
    using that ok by (auto simp: delivered_def queue_ok_def message_ok_def)
  moreover have "length cs = (if int (length rs) < minimum then 0 else length rs)"
    using d by (auto split: if_splits dest: map_eq_imp_length_eq)
  ultimately show ?thesis using d assms(4) by (auto split: if_splits)
qed

theorem queue_claim_exclusive_witness: "delivered [demo_locked] demo_delivery \<and> \<not> busy 110 [demo_message] ''m1''"
  using queue_claim_exclusive [OF demo_queue_ok(1) demo_claim_queue refl refl]
  by (simp add: at_time_def demo_delivery_def)

text \<open>C9: renewing or finalizing is atomic and fenced: when it fails, the queue is unchanged, and it fails
  whenever one of its tokens has no live lock, so a consumer whose lock expired cannot touch the message.\<close>

theorem queue_fence:
  assumes "(token, action, reason) \<in> set outcomes" "\<not> lock_live q (at_time clock now) (py_strip token)"
  shows "(\<exists>e. finalize clock outcomes delay now q = (Inl e, q)) \<and> (\<exists>e. renew clock token secs now q = (Inl e, q))"
proof
  have "foldE (finalize_one d (at_time clock now)) outcomes q \<noteq> Inr q'" for d q'
    using finalize_all_live assms by blast
  then show "\<exists>e. finalize clock outcomes delay now q = (Inl e, q)"
    using assms(1) by (cases "nonnegative_seconds delay")
      (auto simp: finalize_def queue_transaction_def bindE_def split: sum.splits)
  have "rowcount (live_lock (py_strip token) (at_time clock now)) q = 0"
    using assms(2) by (simp add: lock_live_def rowcount_def filter_empty_conv)
  then show "\<exists>e. renew clock token secs now q = (Inl e, q)"
    by (auto simp: renew_def renew_one_def queue_transaction_def Let_def stripped_text_def bindE_def split: sum.splits)
qed

theorem queue_fence_witness: "(\<exists>e. finalize 500 [(''t1'', ''complete'', None)] (Some 0) None [demo_locked] = (Inl e, [demo_locked]))
    \<and> (\<exists>e. renew 500 ''t1'' (Some 60) None [demo_locked] = (Inl e, [demo_locked]))"
proof (rule queue_fence)
  show "(''t1'', ''complete'', None) \<in> set [(''t1'', ''complete'', None)]" by simp
  show "\<not> lock_live [demo_locked] (at_time 500 None) (py_strip ''t1'')"
    by (simp add: lock_live_def live_lock_def at_time_def demo_locked_def lock_message_def)
qed

text \<open>C10: a message that was completed under a live lock is final: whatever operations follow, no claim
  returns it again.\<close>

theorem queue_complete_once:
  assumes "queue_ok q" "complete clock token now q = (Inr (), q1)"
    and "(queue_step lib)\<^sup>*\<^sup>* q1 q2" "claim_queue lib clock' tokens limit owner secs minimum now' q2 = (Inr cs, q3)"
  shows "\<exists>r \<in> set q. live_lock (py_strip token) (at_time clock now) r \<and> ms_message_id r \<notin> cm_message_id ` set cs
    \<and> finished q3 (ms_message_id r)"
proof -
  obtain d where "finalize_one d (at_time clock now) (token, ''complete'', None) q = Inr q1"
    using assms(2) by (auto simp: complete_def finalize_def queue_transaction_def split: sum.splits)
  then obtain r r' where r: "r \<in> set q" "live_lock (py_strip token) (at_time clock now) r" "r' \<in> set q1"
      "ms_message_id r' = ms_message_id r" "ms_state r' = Q_COMPLETED"
    by (rule finalize_one_row [OF assms(1)]) (auto simp: final_state_def)
  have ok1: "queue_ok q1" using finalize_ok assms(1,2) by (auto simp: complete_def)
  have ok2: "queue_ok q2" by (rule queue.star_inv [OF assms(3) ok1])
  have q3: "(queue_step lib)\<^sup>*\<^sup>* q1 q3" using assms(3) queue_claim [OF assms(4)] by (rule rtranclp.rtrancl_into_rtrancl)
  have "finished q2 (ms_message_id r)" "finished q3 (ms_message_id r)"
    using completed_stays [OF r(3) _ assms(3) ok1] completed_stays [OF r(3) _ q3 ok1] r(4,5) by (auto simp: finished_def)
  moreover obtain who lease where "claim_queue_tx lib tokens limit minimum who lease (at_time clock' now') q2 = Inr (q3, cs)"
    using claim_queueD [OF assms(4)] by metis
  then have "\<forall>c \<in> set cs. \<not> finished q2 (cm_message_id c)" using claim_tx_delivery [OF ok2 _ refl] by blast
  ultimately show ?thesis using r(1,2) by (intro bexI [of _ r]) auto
qed

theorem queue_complete_once_witness: "\<exists>r \<in> set [demo_locked]. ms_message_id r \<notin> cm_message_id ` set []"
proof -
  have "claim_queue demo_queue_lib 900 (\<lambda>_. ''t2'') 10 ''o'' (Some 60) 1 None [demo_completed] = (Inr [], [demo_completed])"
    by code_simp
  from queue_complete_once [OF demo_queue_ok(2) demo_complete rtranclp.rtrancl_refl this] show ?thesis by auto
qed

text \<open>C11: enqueuing is idempotent by key: after a message was enqueued, enqueuing the same payload and bound
  under the key returns the same id and changes nothing, and a payload with another digest is refused
  without effect.\<close>

theorem enqueue_idempotent:
  assumes "enqueue lib clock mid key payload maxd available q = (Inr i, q')"
  shows "enqueue lib clock' mid' key payload maxd available' q' = (Inr i, q')
    \<and> (sha256_hex lib (dumps lib (PDict other)) \<noteq> sha256_hex lib (dumps lib (PDict payload)) \<longrightarrow>
      enqueue lib clock' mid' key other maxd available' q' = (Inl QueueConflictError, q'))"
  by (rule enqueueD [OF assms]) (simp add: enqueue_def enqueue_tx_def queue_transaction_def Let_def del: dumps.simps)

theorem enqueue_idempotent_witness:
  "enqueue demo_queue_lib 300 ''m9'' '' k1'' [] 2 None [demo_message] = (Inr ''m1'', [demo_message])
   \<and> enqueue demo_queue_lib 300 ''m9'' '' k1'' [(''x'', PNone)] 2 None [demo_message] = (Inl QueueConflictError, [demo_message])"
proof -
  have "sha256_hex demo_queue_lib (dumps demo_queue_lib (PDict [(''x'', PNone)])) \<noteq>
      sha256_hex demo_queue_lib (dumps demo_queue_lib (PDict []))" by code_simp
  with enqueue_idempotent [OF demo_enqueue, of 300 "''m9''" None "[(''x'', PNone)]"] show ?thesis by blast
qed

section \<open>The writer lock of the Lakehouse\<close>

text \<open>C12: whatever the interleaving of writers, interrupted runs, ambiguous or failing Delta updates and
  operator interventions, at most one callback is running, and the lock row names its owner.\<close>

theorem writer_mutual_exclusion:
  assumes "reachable lock_init lock_step s" "at_pc s i W_operation" "at_pc s j W_operation"
  shows "i = j \<and> (\<exists>w. sy_contexts s ! i = Some w \<and> lock_holder s = Some (wr_owner_id w))"
proof -
  have ok: "lock_ok s" using assms(1) by (rule lock.reach_inv)
  obtain w where "sy_contexts s ! i = Some w" "lock_holder s = Some (wr_owner_id w)"
    by (rule at_pc_owner [OF ok assms(2)]) auto
  then show ?thesis using lock_mutex [OF ok assms(2,3)] by blast
qed

theorem writer_mutual_exclusion_witness: "\<exists>w. sy_contexts demo_holding ! 0 = Some w \<and> lock_holder demo_holding = Some (wr_owner_id w)"
  using writer_mutual_exclusion [OF demo_holding_reachable demo_holding_at demo_holding_at] by blast

text \<open>C13: there is no takeover: the lock changes hands only by a claim of the free lock, or by becoming free
  while no run of its owner is between seeing the lock and clearing it, that is by the owner's own release
  or by an operator once the owner's run is over.\<close>

theorem writer_no_takeover:
  assumes "reachable lock_init lock_step s" "lock_step s s'" "lock_holder s = Some x" "lock_holder s' \<noteq> Some x"
  shows "lock_holder s' = None \<and> (\<forall>w. Some w \<in> set (sy_contexts s) \<and> wr_owner_id w = x \<longrightarrow>
    wr_pc w = W_release_update \<or> over (wr_pc w))"
  using lock_moves [OF assms(2) lock.reach_inv [OF assms(1)]] assms(3,4) by auto

theorem writer_no_takeover_witness: "lock_holder demo_freed = None \<and> over (W_failed ControlError)"
  using writer_no_takeover [OF demo_failed_reachable demo_operator, of "''a''"]
  by (simp add: lock_holder_def demo_failed_def demo_holding_def demo_freed_def lock_row_of_def clear_lock_def
      update_where_def)

text \<open>C14: a run that got the lock can always give it back: its check before the release never fails, and
  after the conditional update went through, the verification never fails either, although a successor may
  already hold the lock.\<close>

theorem writer_release_verified:
  assumes "reachable lock_init lock_step s" "i < length (sy_contexts s)" "sy_contexts s ! i = Some w"
    and "writer_step out (wr_owner_id w) (wr_pc w) (sy_table s) = (pc, t)"
  shows "(wr_pc w = W_release_read \<longrightarrow> pc = W_release_update) \<and> (wr_pc w = W_release_verify \<longrightarrow> pc = W_done)"
  using release_never_fails [OF lock.reach_inv [OF assms(1)] assms(2-4)] by blast

theorem writer_release_verified_witness:
  "fst (writer_step demo_outside ''a'' W_release_verify (sy_table demo_passed)) = W_done"
proof -
  obtain pc t where e: "writer_step demo_outside ''a'' W_release_verify (sy_table demo_passed) = (pc, t)" by fastforce
  have "(W_release_verify = W_release_read \<longrightarrow> pc = W_release_update) \<and> (W_release_verify = W_release_verify \<longrightarrow> pc = W_done)"
    using writer_release_verified [OF demo_passed_reachable, of 0 "\<lparr>wr_owner_id = ''a'', wr_pc = W_release_verify\<rparr>" demo_outside pc t] e
    by (simp add: demo_passed_def)
  then show ?thesis using e by simp
qed

text \<open>C15: a free lock is available: from a reachable state in which the lock is free, an idle context whose next
  nine accesses nobody disturbs starts a run under a fresh owner id, holds the lock in its callback after the fifth access, and has ended its run
  and freed the lock after the ninth and not before, without a change of any other context.  Each access may find another
  outside, as long as the deadline has not passed, the updates commit and the callback returns.\<close>

theorem writer_completes:
  assumes "reachable lock_init lock_step s" "lock_holder s = None" "i < length (sy_contexts s)"
    and "\<not> active_writer (sy_contexts s ! i)" "me \<notin> sy_issued s"
    and "length outs = 9" "\<forall>out \<in> set outs. favourable out"
  shows "\<exists>s0. lock_step s s0 \<and> sy_contexts s0 = (sy_contexts s)[i := Some \<lparr>wr_owner_id = me, wr_pc = W_acquire\<rparr>]
    \<and> at_pc (own_steps i (take 5 outs) s0) i W_operation \<and> lock_holder (own_steps i (take 5 outs) s0) = Some me
    \<and> (\<forall>n < 9. active_writer (sy_contexts (own_steps i (take n outs) s0) ! i))
    \<and> at_pc (own_steps i outs s0) i W_done \<and> lock_holder (own_steps i outs s0) = None
    \<and> sy_contexts (own_steps i outs s0) = (sy_contexts s)[i := Some \<lparr>wr_owner_id = me, wr_pc = W_done\<rparr>]
    \<and> reachable lock_init lock_step (own_steps i outs s0)"
proof -
  let ?s = "s\<lparr>sy_issued := insert me (sy_issued s)\<rparr>" and ?free = "[lock_row_of None None]"
  let ?start = "with_writer ?s i me (W_acquire, ?free)" and ?x = "\<lambda>outs. foldl (own_access me) (W_acquire, ?free) outs"
  have free: "sy_table s = ?free"
    by (rule lock_okD [OF lock.reach_inv [OF assms(1)]]) (use assms(2) in simp)
  have at: "own_steps i os ?start = with_writer ?s i me (?x os)" for os by (rule own_steps_writer) (use assms(3) in simp)
  have "lock_step s (s\<lparr>sy_contexts := (sy_contexts s)[i := Some \<lparr>wr_owner_id = me, wr_pc = W_acquire\<rparr>], sy_issued := insert me (sy_issued s)\<rparr>)"
    using assms(3-5) by (intro lock_step.run) (simp_all add: begin_run_def)
  moreover have "?start = s\<lparr>sy_contexts := (sy_contexts s)[i := Some \<lparr>wr_owner_id = me, wr_pc = W_acquire\<rparr>], sy_issued := insert me (sy_issued s)\<rparr>"
    using free by (cases s) (simp add: with_writer_def)
  ultimately have run: "lock_step s ?start" by simp
  have "reachable lock_init lock_step (own_steps i outs ?start)"
    using reachable_star [OF own_steps_star reachable.move [OF assms(1) run]] assms(3) by (simp add: with_writer_def)
  moreover have "active_writer (sy_contexts (own_steps i (take n outs) ?start) ! i)" if "n < 9" for n
    using before_nine [OF assms(6,7) that, of me] assms(3) unfolding at by (simp add: with_writer_def active_writer_def)
  moreover note nine_accesses(5,9) [OF assms(6,7), of me]
  ultimately show ?thesis using run assms(3)
    by (intro exI [of _ ?start]) (simp only: at, simp add: with_writer_def at_pc_def lock_holder_def lock_row_of_def)
qed

theorem writer_completes_witness:
  "\<exists>s0. lock_step demo_unlocked s0 \<and> lock_holder (own_steps 1 (replicate 5 demo_outside) s0) = Some ''a''
    \<and> at_pc (own_steps 1 (replicate 9 demo_outside) s0) 1 W_done \<and> lock_holder (own_steps 1 (replicate 9 demo_outside) s0) = None"
proof -
  have "\<not> active_writer (sy_contexts demo_unlocked ! 1)" "lock_holder demo_unlocked = None" "''a'' \<notin> sy_issued demo_unlocked"
    "1 < length (sy_contexts demo_unlocked)" "\<forall>out \<in> set (replicate 9 demo_outside). favourable out"
    by (simp_all add: demo_unlocked_def lock_holder_def lock_row_of_def active_writer_def favourable_def demo_outside_def)
  with writer_completes [OF demo_unlocked_reachable, of 1 "''a''" "replicate 9 demo_outside"] show ?thesis by auto
qed

end
